(* ===== verification/Prelude.thy ===== *)
theory Prelude
  imports Main "HOL-Library.Word" "HOL-Library.Multiset" "HOL-Library.List_Lexorder"
begin

text \<open>
  Shared vocabulary of the development: the faults a C++ execution can end in, the result
  type that threads them, and the generic facts on lists and results that the component
  theories use.

  Every operation of the code that can dereference a null or freed pointer, throw
  (\<open>std::out_of_range\<close> from \<open>at\<close>), run an iterator past the end of its container, or
  abort the process is modelled as a function into \<open>'a res\<close>: \<open>Inl\<close> is the fault,
  \<open>Inr\<close> the value (and the new state, where there is one).
\<close>

named_theorems res_simps \<open>unfolding of the result combinators\<close>
named_theorems flag_simps \<open>the effect of each flag writer on each flag reader\<close>
named_theorems inv_intros \<open>preservation of the component invariants\<close>

section \<open>Faults and results\<close>

datatype fault =
    NullDeref        \<comment> \<open>dereference of a null pointer\<close>
  | UseAfterFree     \<comment> \<open>dereference of a pointer whose object was deleted\<close>
  | DoubleFree       \<comment> \<open>\<open>delete\<close> of an object that was deleted before\<close>
  | OutOfRange       \<comment> \<open>\<open>at\<close> or \<open>[]\<close> outside a container\<close>
  | IterPastEnd      \<comment> \<open>an iterator loop whose end lies before its beginning\<close>
  | UninitIter       \<comment> \<open>a loop over iterators that were never assigned\<close>
  | InvalidIter      \<comment> \<open>an iterator used after its element was erased\<close>
  | WildPointer      \<comment> \<open>a write through a pointer that leaves its object\<close>
  | SignedOverflow   \<comment> \<open>overflow of a signed counter\<close>
  | DivByZero        \<comment> \<open>integer division or remainder by zero\<close>
  | BadEnum          \<comment> \<open>a number that is no enumerator, read into an enum\<close>
  | ProcessAbort     \<comment> \<open>an explicit \<open>abort()\<close>\<close>
  | UncaughtException \<comment> \<open>an exception of a library that nobody catches\<close>
  | OutOfFuel        \<comment> \<open>a recursion or loop goes on beyond the bound an operation is given\<close>

type_synonym 'a res = "fault + 'a"

definition rbind :: "'a res \<Rightarrow> ('a \<Rightarrow> 'b res) \<Rightarrow> 'b res" where
  "rbind m f = (case m of Inl e \<Rightarrow> Inl e | Inr x \<Rightarrow> f x)"

definition rmap :: "('a \<Rightarrow> 'b) \<Rightarrow> 'a res \<Rightarrow> 'b res" where
  "rmap f m = (case m of Inl e \<Rightarrow> Inl e | Inr x \<Rightarrow> Inr (f x))"

text \<open>The dereference of a pointer member, \<open>None\<close> being \<open>NULL\<close>.\<close>

definition deref :: "'a option \<Rightarrow> 'a res" where
  "deref p = (case p of None \<Rightarrow> Inl NullDeref | Some x \<Rightarrow> Inr x)"

definition is_ok :: "'a res \<Rightarrow> bool" where
  "is_ok m = (case m of Inl _ \<Rightarrow> False | Inr _ \<Rightarrow> True)"

lemma rbind_simps [simp, res_simps]:
  "rbind (Inl e) f = Inl e"
  "rbind (Inr x) f = f x"
  by (simp_all add: rbind_def)

lemma rmap_simps [simp, res_simps]:
  "rmap f (Inl e) = Inl e"
  "rmap f (Inr x) = Inr (f x)"
  by (simp_all add: rmap_def)

lemma deref_simps [simp, res_simps]:
  "deref None = Inl NullDeref"
  "deref (Some x) = Inr x"
  by (simp_all add: deref_def)

lemma is_ok_simps [simp, res_simps]:
  "\<not> is_ok (Inl e)"
  "is_ok (Inr x)"
  by (simp_all add: is_ok_def)

lemma rbind_eq_Inr [simp]: "rbind m f = Inr y \<longleftrightarrow> (\<exists>x. m = Inr x \<and> f x = Inr y)"
  by (cases m) auto

lemma rbind_eq_Inl: "rbind m f = Inl e \<longleftrightarrow> m = Inl e \<or> (\<exists>x. m = Inr x \<and> f x = Inl e)"
  by (cases m) auto

lemma rmap_eq_Inr [simp]: "rmap f m = Inr y \<longleftrightarrow> (\<exists>x. m = Inr x \<and> y = f x)"
  by (cases m) auto

lemma deref_eq_Inr [simp]: "deref p = Inr x \<longleftrightarrow> p = Some x"
  by (cases p) auto

lemma is_ok_iff: "is_ok m \<longleftrightarrow> (\<exists>x. m = Inr x)"
  by (cases m) auto

lemma rbind_split:
  "P (rbind m f) \<longleftrightarrow> (\<forall>e. m = Inl e \<longrightarrow> P (Inl e)) \<and> (\<forall>x. m = Inr x \<longrightarrow> P (f x))"
  by (cases m) auto

section \<open>Loops that stop at the first fault\<close>

text \<open>\<open>rfold\<close> is a C++ \<open>for\<close> loop over a container that threads a state.\<close>

fun rfold :: "('a \<Rightarrow> 's \<Rightarrow> 's res) \<Rightarrow> 'a list \<Rightarrow> 's \<Rightarrow> 's res" where
  "rfold f [] s = Inr s"
| "rfold f (x # xs) s = rbind (f x s) (rfold f xs)"

lemma rfold_append: "rfold f (xs @ ys) s = rbind (rfold f xs s) (rfold f ys)"
  by (induction xs arbitrary: s) (auto simp: rbind_def split: sum.splits)

lemma rfold_invariant:
  assumes "\<And>x s s'. x \<in> set xs \<Longrightarrow> I s \<Longrightarrow> f x s = Inr s' \<Longrightarrow> I s'"
    and "I s" and "rfold f xs s = Inr s'"
  shows "I s'"
  using assms
proof (induction xs arbitrary: s)
  case (Cons x xs)
  from Cons.prems(3) obtain t where t: "f x s = Inr t" "rfold f xs t = Inr s'"
    by auto
  have "I t" using Cons.prems(1) [of x s t] Cons.prems(2) t(1) by simp
  then show ?case using Cons.IH [OF _ _ t(2)] Cons.prems(1) by (meson list.set_intros(2))
qed simp

lemma rfold_ok:
  assumes "\<And>x s. x \<in> set xs \<Longrightarrow> I s \<Longrightarrow> \<exists>s'. f x s = Inr s' \<and> I s'" and "I s"
  shows "\<exists>s'. rfold f xs s = Inr s' \<and> I s'"
  using assms
proof (induction xs arbitrary: s)
  case (Cons x xs)
  from Cons.prems obtain t where "f x s = Inr t" "I t" by auto
  then show ?case using Cons.IH [of t] Cons.prems(1) by auto
qed simp

section \<open>Lists\<close>

lemma takeWhile_length_le: "length (takeWhile P xs) \<le> length xs"
  by (induction xs) auto

lemma take_length_takeWhile: "take (length (takeWhile P xs)) xs = takeWhile P xs"
  by (induction xs) auto

lemma drop_length_takeWhile: "drop (length (takeWhile P xs)) xs = dropWhile P xs"
  by (induction xs) auto

lemma map_of_filter_neq: "map_of (filter (\<lambda>p. fst p \<noteq> k) m) = (map_of m)(k := None)"
  by (induction m) (auto simp: fun_eq_iff)

lemma map_of_eq_None_filter: "map_of m k = None \<Longrightarrow> filter (\<lambda>p. fst p \<noteq> k) m = m"
  by (induction m) (auto split: if_splits)

lemma filter_fst_distinct:
  "distinct (map fst m) \<Longrightarrow>
   filter (\<lambda>p. fst p = k) m = (case map_of m k of None \<Rightarrow> [] | Some v \<Rightarrow> [(k, v)])"
proof (induction m)
  case (Cons p m)
  obtain a b where p: "p = (a, b)" by (cases p)
  show ?case
  proof (cases "a = k")
    case True
    with Cons.prems p have "k \<notin> set (map fst m)" by simp
    then have "filter (\<lambda>p. fst p = k) m = []"
      by (auto simp: filter_empty_conv)
    with True p show ?thesis by simp
  next
    case False
    with Cons p show ?thesis by simp
  qed
qed simp

end
