(* ===== verification/Db_Types.thy ===== *)
theory Db_Types
  imports Prelude
begin

unbundle bit_operations_syntax

text \<open>
  The data model of \<open>infinisqld/infinisql.h\<close> and \<open>infinisqld/defs.h\<close>: the enums as
  datatypes, the structs as records, and the machine types a field value can hold. The
  machine types that the database orders are wrapped, so that the class \<open>linorder\<close> gives
  the C++ order of the type: \<open>int64_t\<close> and \<open>char\<close> are ordered as signed numbers, bytes
  of a \<open>std::string\<close> as unsigned ones.
\<close>

section \<open>Machine types\<close>

type_synonym byte = "8 word"
type_synonym bytes = "byte list"   \<comment> \<open>\<open>std::string\<close>; \<open>operator<\<close> is the order of \<open>List_Lexorder\<close>\<close>
type_synonym u64 = "64 word"

datatype i64 = I64 (the_i64: "64 word")
datatype i8 = I8 (the_i8: "8 word")

lemma sint_eq_iff: "sint (v :: 'a::len word) = sint w \<longleftrightarrow> v = w"
  by (auto intro: signed_word_eqI)

instantiation i64 :: linorder
begin
definition less_eq_i64 :: "i64 \<Rightarrow> i64 \<Rightarrow> bool" where
  "less_eq_i64 x y = (sint (the_i64 x) \<le> sint (the_i64 y))"
definition less_i64 :: "i64 \<Rightarrow> i64 \<Rightarrow> bool" where
  "less_i64 x y = (sint (the_i64 x) < sint (the_i64 y))"
instance
proof
  fix x y :: i64
  show "x \<le> y \<Longrightarrow> y \<le> x \<Longrightarrow> x = y"
    by (simp add: less_eq_i64_def i64.expand sint_eq_iff)
qed (auto simp: less_eq_i64_def less_i64_def)
end

instantiation i8 :: linorder
begin
definition less_eq_i8 :: "i8 \<Rightarrow> i8 \<Rightarrow> bool" where
  "less_eq_i8 x y = (sint (the_i8 x) \<le> sint (the_i8 y))"
definition less_i8 :: "i8 \<Rightarrow> i8 \<Rightarrow> bool" where
  "less_i8 x y = (sint (the_i8 x) < sint (the_i8 y))"
instance
proof
  fix x y :: i8
  show "x \<le> y \<Longrightarrow> y \<le> x \<Longrightarrow> x = y"
    by (simp add: less_eq_i8_def i8.expand sint_eq_iff)
qed (auto simp: less_eq_i8_def less_i8_def)
end

text \<open>
  A \<open>long double\<close> is its 16-byte object representation: the x87 extended format in the
  low 80 bits (bit 79 the sign, bits 64 to 78 the exponent, bits 0 to 63 the significand)
  and padding above. On values other than NaN, \<open>operator<\<close> and \<open>operator==\<close> compare
  the sign-magnitude number \<open>ld_key\<close>, which ignores the padding and identifies the two
  zeros.
\<close>

datatype ldouble = LD (the_ld: "128 word")

definition ld_key :: "ldouble \<Rightarrow> int" where
  "ld_key x = (let m = uint (take_bit 79 (the_ld x)) in if bit (the_ld x) 79 then - m else m)"

definition ld_isnan :: "ldouble \<Rightarrow> bool" where
  "ld_isnan x = (take_bit 15 (drop_bit 64 (the_ld x)) = 0x7FFF \<and> take_bit 63 (the_ld x) \<noteq> 0)"

definition ld_eq :: "ldouble \<Rightarrow> ldouble \<Rightarrow> bool" where
  "ld_eq x y = (\<not> ld_isnan x \<and> \<not> ld_isnan y \<and> ld_key x = ld_key y)"

text \<open>
  Identifiers (\<open>rowid\<close>, \<open>engineid\<close>, \<open>subtransactionid\<close> and their like) are
  \<open>int64_t\<close> in the code and \<open>int\<close> here: they are only compared for equality, stored and
  counted up. Where one is stored in an \<open>int16_t\<close> member the conversion is written out.
\<close>

definition int16 :: "int \<Rightarrow> int" where
  "int16 x = signed_take_bit 15 x"

lemma int16_id: "- 32768 \<le> x \<Longrightarrow> x < 32768 \<Longrightarrow> int16 x = x"
  unfolding int16_def by (rule signed_take_bit_int_eq_self) simp_all

section \<open>Enums\<close>

datatype locktype =
    NOTFOUNDLOCK | NOLOCK | READLOCK | WRITELOCK | PENDINGLOCK | INDEXLOCK | INDEXPENDINGLOCK
  | PENDINGTOWRITELOCK | PENDINGTOREADLOCK | PENDINGTONOLOCK | PENDINGTOINDEXLOCK
  | PENDINGTOINDEXNOLOCK

datatype operatortype =
    OPERATOR_NONE | OPERATOR_CONCATENATION | OPERATOR_ADDITION | OPERATOR_SUBTRACTION
  | OPERATOR_MULTIPLICATION | OPERATOR_DIVISION | OPERATOR_NEGATION | OPERATOR_AND
  | OPERATOR_OR | OPERATOR_NOT | OPERATOR_TRUE | OPERATOR_FALSE | OPERATOR_UNKNOWN
  | OPERATOR_EQ | OPERATOR_NE | OPERATOR_LT | OPERATOR_GT | OPERATOR_LTE | OPERATOR_GTE
  | OPERATOR_BETWEEN | OPERATOR_ISNULL | OPERATOR_IN | OPERATOR_LIKE | OPERATOR_EXISTS
  | OPERATOR_UNIQUE | OPERATOR_BETWEENAND | OPERATOR_NOTBETWEEN | OPERATOR_ISNOTNULL
  | OPERATOR_NOTIN | OPERATOR_NOTLIKE | OPERATOR_REGEX | OPERATOR_SELECTALL | OPERATOR_NULL

datatype fieldtype =
    NOFIELDTYPE | F_INT | F_UINT | F_BOOL | F_FLOAT | F_CHAR | F_CHARX | F_VARCHAR
  \<comment> \<open>\<open>INT\<close> is a quantifier of HOL, so the enumerators are prefixed\<close>

datatype indextype =
    NONE | UNIQUE | NONUNIQUE | UNORDERED | UNIQUENOTNULL | NONUNIQUENOTNULL | UNORDEREDNOTNULL

datatype maptype = Nomaptype | Unique | Nonunique | Unordered

datatype indexmaptype =
    noindexmaptype
  | uniqueint | nonuniqueint | unorderedint
  | uniqueuint | nonuniqueuint | unordereduint
  | uniquebool | nonuniquebool | unorderedbool
  | uniquefloat | nonuniquefloat | unorderedfloat
  | uniquechar | nonuniquechar | unorderedchar
  | uniquecharx | nonuniquecharx | unorderedcharx
  | uniquevarchar | nonuniquevarchar | unorderedvarchar

datatype pendingprimitive =
    NOCOMMAND | INSERT | UPDATE | DELETE | REPLACE | SELECT | FETCH | UNLOCK | COMMIT | ROLLBACK
  | PRIMITIVE_SQLPREDICATE | PRIMITIVE_SQLSELECTALL | PRIMITIVE_SQLSELECTALLFORDELETE
  | PRIMITIVE_SQLSELECTALLFORUPDATE | PRIMITIVE_SQLDELETE | PRIMITIVE_SQLINSERT
  | PRIMITIVE_SQLUPDATE | PRIMITIVE_SQLREPLACE

datatype enginecmd =
    NOENGINECMD | NEWROW | UNIQUEINDEX | UPDATEROW | DELETEROW | REPLACEDELETEROW | INDEXSEARCH
  | SELECTROWS | COMMITCMD | ROLLBACKCMD | REVERTCMD | UNLOCKCMD | SEARCHRETURN1

datatype status = STATUS_OK | STATUS_NOTOK

text \<open>
  The enumerators of \<open>maptype_e\<close> and \<open>indexmaptype_e\<close> are numbered, and
  \<open>Index::makeindex\<close> computes with the numbers.
\<close>

fun maptype_num :: "maptype \<Rightarrow> int" where
  "maptype_num Nomaptype = - 1"
| "maptype_num Unique = 0"
| "maptype_num Nonunique = 1"
| "maptype_num Unordered = 2"

definition indexmaptypes :: "indexmaptype list" where
  "indexmaptypes =
     [uniqueint, nonuniqueint, unorderedint, uniqueuint, nonuniqueuint, unordereduint,
      uniquebool, nonuniquebool, unorderedbool, uniquefloat, nonuniquefloat, unorderedfloat,
      uniquechar, nonuniquechar, unorderedchar, uniquecharx, nonuniquecharx, unorderedcharx,
      uniquevarchar, nonuniquevarchar, unorderedvarchar]"

definition indexmaptype_cast :: "int \<Rightarrow> indexmaptype" where
  "indexmaptype_cast n =
     (if 0 \<le> n \<and> n < 21 then indexmaptypes ! nat n else noindexmaptype)"

section \<open>Structs\<close>

text \<open>
  \<open>fieldValue_s\<close> holds a union of five scalar members. Every reader selects the member
  by the type of the field, and every writer writes that member, so the members are
  separate components here.
\<close>

record fieldValue =
  integer :: i64
  uinteger :: u64
  boolean :: bool
  floating :: ldouble
  character :: i8
  str :: bytes
  isnull :: bool

definition fieldValue0 :: fieldValue where
  "fieldValue0 = \<lparr>integer = I64 0, uinteger = 0, boolean = False, floating = LD 0,
     character = I8 0, str = [], isnull = False\<rparr>"

record nonLockingIndexEntry =
  nl_rowid :: int
  nl_engineid :: int     \<comment> \<open>\<open>int16_t\<close>\<close>

record returnRow =
  rr_rowid :: int
  rr_previoussubtransactionid :: int
  rr_locktype :: locktype
  rr_row :: bytes

definition returnRow0 :: returnRow where
  "returnRow0 = \<lparr>rr_rowid = 0, rr_previoussubtransactionid = 0, rr_locktype = NOLOCK, rr_row = []\<rparr>"

record lockFieldValue =
  lf_locktype :: locktype
  lf_engineid :: int
  lf_fieldVal :: fieldValue

record stagedRow =
  sr_cmd :: pendingprimitive
  sr_originalRow :: bytes
  sr_originalrowid :: int
  sr_originalengineid :: int
  sr_previoussubtransactionid :: int
  sr_newRow :: bytes
  sr_newrowid :: int
  sr_newengineid :: int
  sr_locktype :: locktype
  sr_uniqueIndices :: "(int \<times> lockFieldValue) list"   \<comment> \<open>an \<open>unordered_map\<close>\<close>

record rowOrField =
  rf_isrow :: bool
  rf_tableid :: int
  rf_rowid :: int
  rf_fieldid :: int
  rf_engineid :: int
  rf_deleteindexentry :: bool
  rf_isnotaddunique :: bool
  rf_isreplace :: bool
  rf_newrowid :: int
  rf_newengineid :: int
  rf_fieldVal :: fieldValue

record searchParams =
  sp_op :: operatortype
  sp_values :: "fieldValue list"
  sp_regexString :: bytes

end
