(* ===== verification/Db_Globals.thy ===== *)
theory Db_Globals
  imports Db_Types
begin

text \<open>
  The row flags and value helpers of \<open>infinisqld/globals.cc\<close>. The flag byte of a row is
  a \<open>char\<close> of which five bits are used; each C++ function that takes \<open>char *\<close> returns
  the new byte here (with its result, where it has one beside the byte).
\<close>

section \<open>Row flags\<close>

definition DELETEFLAG :: nat where "DELETEFLAG = 0"
definition INSERTFLAG :: nat where "INSERTFLAG = 1"
definition LOCKEDFLAG :: nat where "LOCKEDFLAG = 2"
definition LOCKTYPEFLAG :: nat where "LOCKTYPEFLAG = 3"
definition REPLACEDELETEFLAG :: nat where "REPLACEDELETEFLAG = 4"

lemmas flag_defs = DELETEFLAG_def INSERTFLAG_def LOCKEDFLAG_def LOCKTYPEFLAG_def
  REPLACEDELETEFLAG_def

definition setdeleteflag :: "byte \<Rightarrow> byte" where
  "setdeleteflag c = c OR push_bit DELETEFLAG 1"

definition getdeleteflag :: "byte \<Rightarrow> bool" where
  "getdeleteflag c = (c AND push_bit DELETEFLAG 1 \<noteq> 0)"

definition cleardeleteflag :: "byte \<Rightarrow> byte" where
  "cleardeleteflag c = c AND NOT (push_bit DELETEFLAG 1)"

definition setinsertflag :: "byte \<Rightarrow> byte" where
  "setinsertflag c = c OR push_bit INSERTFLAG 1"

definition getinsertflag :: "byte \<Rightarrow> bool" where
  "getinsertflag c = (c AND push_bit INSERTFLAG 1 \<noteq> 0)"

definition clearinsertflag :: "byte \<Rightarrow> byte" where
  "clearinsertflag c = c AND NOT (push_bit INSERTFLAG 1)"

definition setwritelock :: "byte \<Rightarrow> bool \<times> byte" where
  "setwritelock c =
     (if c AND push_bit LOCKEDFLAG 1 \<noteq> 0 then (False, c)
      else (True, (c OR push_bit LOCKEDFLAG 1) OR push_bit LOCKTYPEFLAG 1))"

definition setreadlock :: "byte \<Rightarrow> bool \<times> byte" where
  "setreadlock c =
     (if c AND push_bit LOCKEDFLAG 1 \<noteq> 0 then (False, c)
      else (True, (c OR push_bit LOCKEDFLAG 1) AND NOT (push_bit LOCKTYPEFLAG 1)))"

definition clearlockedflag :: "byte \<Rightarrow> byte" where
  "clearlockedflag c = c AND NOT (push_bit LOCKEDFLAG 1)"

definition getlocktype :: "byte \<Rightarrow> locktype" where
  "getlocktype c =
     (if \<not> (c AND push_bit LOCKEDFLAG 1 \<noteq> 0) then NOLOCK
      else if c AND push_bit LOCKTYPEFLAG 1 \<noteq> 0 then WRITELOCK
      else READLOCK)"

definition clearreplacedeleteflag :: "byte \<Rightarrow> byte" where
  "clearreplacedeleteflag c = c AND NOT (push_bit REPLACEDELETEFLAG 1)"

definition getreplacedeleteflag :: "byte \<Rightarrow> bool" where
  "getreplacedeleteflag c = (c AND push_bit REPLACEDELETEFLAG 1 \<noteq> 0)"

definition setreplacedeleteflag :: "byte \<Rightarrow> byte" where
  "setreplacedeleteflag c = c OR push_bit REPLACEDELETEFLAG 1"

text \<open>Each reader is a bit test, and each writer changes one bit (two for a lock).\<close>

lemma and_push_bit_eq_0: "(c :: byte) AND push_bit n 1 \<noteq> 0 \<longleftrightarrow> bit c n"
proof -
  have "c AND push_bit n 1 = (if bit c n then push_bit n 1 else 0)"
    by (rule bit_word_eqI) (auto simp: bit_simps)
  moreover have "bit c n \<Longrightarrow> (push_bit n 1 :: byte) \<noteq> 0"
    using bit_imp_le_length [of c n] by (auto simp: push_bit_eq_mult)
  ultimately show ?thesis by auto
qed

lemma flag_readers:
  "getdeleteflag c = bit c DELETEFLAG"
  "getinsertflag c = bit c INSERTFLAG"
  "getreplacedeleteflag c = bit c REPLACEDELETEFLAG"
  "getlocktype c =
     (if \<not> bit c LOCKEDFLAG then NOLOCK else if bit c LOCKTYPEFLAG then WRITELOCK else READLOCK)"
  by (simp_all only: getdeleteflag_def getinsertflag_def getreplacedeleteflag_def
      getlocktype_def and_push_bit_eq_0)

lemma bit_or_push_bit: "m < 8 \<Longrightarrow> bit ((c :: byte) OR push_bit m 1) n = (bit c n \<or> n = m)"
  by (auto simp: bit_simps)

lemma bit_and_not_push_bit: "bit ((c :: byte) AND NOT (push_bit m 1)) n = (bit c n \<and> n \<noteq> m)"
  using bit_imp_le_length [of c n] by (auto simp: bit_simps)

lemma flag_bounds:
  "DELETEFLAG < 8" "INSERTFLAG < 8" "LOCKEDFLAG < 8" "LOCKTYPEFLAG < 8" "REPLACEDELETEFLAG < 8"
  by (simp_all add: flag_defs)

lemma flag_writers_bit:
  "bit (setdeleteflag c) n = (bit c n \<or> n = DELETEFLAG)"
  "bit (cleardeleteflag c) n = (bit c n \<and> n \<noteq> DELETEFLAG)"
  "bit (setinsertflag c) n = (bit c n \<or> n = INSERTFLAG)"
  "bit (clearinsertflag c) n = (bit c n \<and> n \<noteq> INSERTFLAG)"
  "bit (setreplacedeleteflag c) n = (bit c n \<or> n = REPLACEDELETEFLAG)"
  "bit (clearreplacedeleteflag c) n = (bit c n \<and> n \<noteq> REPLACEDELETEFLAG)"
  "bit (clearlockedflag c) n = (bit c n \<and> n \<noteq> LOCKEDFLAG)"
  "bit (snd (setwritelock c)) n =
     (bit c n \<or> \<not> bit c LOCKEDFLAG \<and> (n = LOCKEDFLAG \<or> n = LOCKTYPEFLAG))"
  "bit (snd (setreadlock c)) n =
     (if bit c LOCKEDFLAG then bit c n else (bit c n \<or> n = LOCKEDFLAG) \<and> n \<noteq> LOCKTYPEFLAG)"
  by (simp_all only: setdeleteflag_def cleardeleteflag_def setinsertflag_def
      clearinsertflag_def setreplacedeleteflag_def clearreplacedeleteflag_def
      clearlockedflag_def setwritelock_def setreadlock_def and_push_bit_eq_0 bit_or_push_bit
      bit_and_not_push_bit flag_bounds if_distrib [of snd] snd_conv split: if_split)
    (auto simp: flag_defs)

lemma flag_effects [flag_simps]:
  "getdeleteflag (setdeleteflag c)" "\<not> getdeleteflag (cleardeleteflag c)"
  "getinsertflag (setinsertflag c)" "\<not> getinsertflag (clearinsertflag c)"
  "getreplacedeleteflag (setreplacedeleteflag c)"
  "\<not> getreplacedeleteflag (clearreplacedeleteflag c)"
  "getlocktype (clearlockedflag c) = NOLOCK"
  "getlocktype c = NOLOCK \<Longrightarrow> getlocktype (snd (setwritelock c)) = WRITELOCK"
  "getlocktype c = NOLOCK \<Longrightarrow> getlocktype (snd (setreadlock c)) = READLOCK"
  by (auto simp: flag_readers flag_writers_bit flag_defs split: if_splits)

lemma set_locked [flag_simps]:
  assumes "getlocktype c \<noteq> NOLOCK"
  shows "setwritelock c = (False, c)" "setreadlock c = (False, c)"
proof -
  have "c AND push_bit LOCKEDFLAG 1 \<noteq> 0"
    using assms by (metis getlocktype_def)
  then show "setwritelock c = (False, c)" "setreadlock c = (False, c)"
    by (simp_all only: setwritelock_def setreadlock_def if_True simp_thms)
qed

lemma flag_frames [flag_simps]:
  "getdeleteflag (setinsertflag c) = getdeleteflag c"
  "getdeleteflag (clearinsertflag c) = getdeleteflag c"
  "getdeleteflag (setreplacedeleteflag c) = getdeleteflag c"
  "getdeleteflag (clearreplacedeleteflag c) = getdeleteflag c"
  "getdeleteflag (clearlockedflag c) = getdeleteflag c"
  "getdeleteflag (snd (setwritelock c)) = getdeleteflag c"
  "getdeleteflag (snd (setreadlock c)) = getdeleteflag c"
  "getinsertflag (setdeleteflag c) = getinsertflag c"
  "getinsertflag (cleardeleteflag c) = getinsertflag c"
  "getinsertflag (setreplacedeleteflag c) = getinsertflag c"
  "getinsertflag (clearreplacedeleteflag c) = getinsertflag c"
  "getinsertflag (clearlockedflag c) = getinsertflag c"
  "getinsertflag (snd (setwritelock c)) = getinsertflag c"
  "getinsertflag (snd (setreadlock c)) = getinsertflag c"
  "getreplacedeleteflag (setdeleteflag c) = getreplacedeleteflag c"
  "getreplacedeleteflag (cleardeleteflag c) = getreplacedeleteflag c"
  "getreplacedeleteflag (setinsertflag c) = getreplacedeleteflag c"
  "getreplacedeleteflag (clearinsertflag c) = getreplacedeleteflag c"
  "getreplacedeleteflag (clearlockedflag c) = getreplacedeleteflag c"
  "getreplacedeleteflag (snd (setwritelock c)) = getreplacedeleteflag c"
  "getreplacedeleteflag (snd (setreadlock c)) = getreplacedeleteflag c"
  "getlocktype (setdeleteflag c) = getlocktype c"
  "getlocktype (cleardeleteflag c) = getlocktype c"
  "getlocktype (setinsertflag c) = getlocktype c"
  "getlocktype (clearinsertflag c) = getlocktype c"
  "getlocktype (setreplacedeleteflag c) = getlocktype c"
  "getlocktype (clearreplacedeleteflag c) = getlocktype c"
  by (simp_all add: flag_readers flag_writers_bit flag_defs)

lemma flag_zero [flag_simps]:
  "\<not> getdeleteflag 0" "\<not> getinsertflag 0" "\<not> getreplacedeleteflag 0" "getlocktype 0 = NOLOCK"
  by (simp_all add: flag_readers)

lemma getlocktype_range: "getlocktype c \<in> {NOLOCK, READLOCK, WRITELOCK}"
  by (simp add: flag_readers)

section \<open>Values\<close>

definition sp_byte :: byte where "sp_byte = 32"       \<comment> \<open>\<open>' '\<close>\<close>
definition dot_byte :: byte where "dot_byte = 46"     \<comment> \<open>\<open>'.'\<close>\<close>
definition star_byte :: byte where "star_byte = 42"   \<comment> \<open>\<open>'*'\<close>\<close>
definition under_byte :: byte where "under_byte = 95" \<comment> \<open>\<open>'_'\<close>\<close>
definition pct_byte :: byte where "pct_byte = 37"     \<comment> \<open>\<open>'%'\<close>\<close>

lemmas byte_defs = sp_byte_def dot_byte_def star_byte_def under_byte_def pct_byte_def

text \<open>\<open>std::string::find\<close> from the start, and the two loops of \<open>like2Regex\<close>.\<close>

fun find_byte :: "byte \<Rightarrow> bytes \<Rightarrow> nat option" where
  "find_byte b [] = None"
| "find_byte b (x # xs) = (if x = b then Some 0 else map_option Suc (find_byte b xs))"

lemma find_byte_Some: "find_byte b xs = Some n \<Longrightarrow> n < length xs \<and> xs ! n = b"
  by (induction xs arbitrary: n) (auto split: if_splits)

lemma find_byte_None: "find_byte b xs = None \<longleftrightarrow> b \<notin> set xs"
  by (induction xs) auto

lemma count_list_update:
  "n < length xs \<Longrightarrow> xs ! n = b \<Longrightarrow> c \<noteq> b \<Longrightarrow>
   count_list (xs[n := c]) b < count_list xs b"
  by (induction xs arbitrary: n) (auto split: nat.splits)

function like2Regex_under :: "bytes \<Rightarrow> bytes" where
  "like2Regex_under likeStr =
     (case find_byte under_byte likeStr of
        None \<Rightarrow> likeStr
      | Some pos \<Rightarrow> like2Regex_under (likeStr[pos := dot_byte]))"
  by pat_completeness auto
termination
  by (relation "measure (\<lambda>s. count_list s under_byte)")
    (auto dest!: find_byte_Some intro!: count_list_update simp: byte_defs)

lemma count_list_insert_star:
  assumes "n < length xs" "xs ! n = pct_byte"
  shows "count_list (take n xs @ dot_byte # star_byte # drop (Suc n) xs) pct_byte
           < count_list xs pct_byte"
proof -
  have "xs = take n xs @ pct_byte # drop (Suc n) xs"
    using id_take_nth_drop [OF assms(1)] assms(2) by simp
  then have "count_list xs pct_byte = count_list (take n xs @ pct_byte # drop (Suc n) xs) pct_byte"
    by (rule arg_cong)
  then show ?thesis by (simp add: byte_defs)
qed

text \<open>\<open>likeStr[pos] = '*'; likeStr.insert(pos, 1, '.')\<close>\<close>

function like2Regex_pct :: "bytes \<Rightarrow> bytes" where
  "like2Regex_pct likeStr =
     (case find_byte pct_byte likeStr of
        None \<Rightarrow> likeStr
      | Some pos \<Rightarrow>
          (let s = likeStr[pos := star_byte]
           in like2Regex_pct (take pos s @ [dot_byte] @ drop pos s)))"
  by pat_completeness auto
termination
proof (relation "measure (\<lambda>s. count_list s pct_byte)", simp)
  fix likeStr pos x
  assume "find_byte pct_byte likeStr = Some pos" and x: "x = likeStr[pos := star_byte]"
  then have p: "pos < length likeStr" "likeStr ! pos = pct_byte"
    by (auto dest: find_byte_Some)
  have "take pos x = take pos likeStr" "drop pos x = star_byte # drop (Suc pos) likeStr"
    using p(1) by (simp_all add: x drop_update_swap Cons_nth_drop_Suc [symmetric])
  then show "(take pos x @ [dot_byte] @ drop pos x, likeStr)
      \<in> measure (\<lambda>s. count_list s pct_byte)"
    using count_list_insert_star [OF p] by simp
qed

definition like2Regex :: "bytes \<Rightarrow> bytes" where
  "like2Regex likeStr = like2Regex_pct (like2Regex_under likeStr)"

declare like2Regex_under.simps [simp del] like2Regex_pct.simps [simp del]

fun compareFields :: "fieldtype \<Rightarrow> fieldValue \<Rightarrow> fieldValue \<Rightarrow> bool" where
  "compareFields t val1 val2 =
     (if isnull val1 \<and> isnull val2 then True
      else if isnull val1 \<or> isnull val2 then False
      else (case t of
              F_INT \<Rightarrow> integer val1 = integer val2
            | F_UINT \<Rightarrow> uinteger val1 = uinteger val2
            | F_BOOL \<Rightarrow> boolean val1 = boolean val2
            | F_FLOAT \<Rightarrow> ld_eq (floating val1) (floating val2)
            | F_CHAR \<Rightarrow> character val1 = character val2
            | F_CHARX \<Rightarrow> str val1 = str val2
            | F_VARCHAR \<Rightarrow> str val1 = str val2
            | _ \<Rightarrow> False))"

text \<open>\<open>find_last_not_of(' ')\<close> and \<open>erase(last + 1)\<close>\<close>

fun find_last_not_sp :: "bytes \<Rightarrow> nat option" where
  "find_last_not_sp [] = None"
| "find_last_not_sp (x # xs) =
     (case find_last_not_sp xs of
        Some n \<Rightarrow> Some (Suc n)
      | None \<Rightarrow> if x \<noteq> sp_byte then Some 0 else None)"

definition trimspace :: "bytes \<Rightarrow> bytes" where
  "trimspace input =
     (case find_last_not_sp input of
        Some n \<Rightarrow> take (n + 1) input
      | None \<Rightarrow> [])"

text \<open>\<open>returnRow\<close> is the caller's, so it is an argument of the model as well.\<close>

definition stagedRow2ReturnRow :: "stagedRow \<Rightarrow> returnRow \<Rightarrow> returnRow" where
  "stagedRow2ReturnRow sr rr =
     (let rr = rr\<lparr>rr_previoussubtransactionid := sr_previoussubtransactionid sr,
                  rr_locktype := sr_locktype sr\<rparr>
      in case sr_cmd sr of
           NOCOMMAND \<Rightarrow> rr\<lparr>rr_rowid := sr_originalrowid sr, rr_row := sr_originalRow sr\<rparr>
         | INSERT \<Rightarrow> rr\<lparr>rr_rowid := sr_newrowid sr, rr_row := sr_newRow sr\<rparr>
         | UPDATE \<Rightarrow> rr\<lparr>rr_rowid := sr_newrowid sr, rr_row := sr_newRow sr\<rparr>
         | _ \<Rightarrow> returnRow0)"

text \<open>
  \<open>getPartitionid\<close>: the hash is \<open>SpookyHash::Hash64\<close> (third-party code), a parameter of
  the model on the bytes hashed. The 64-bit hash is reduced modulo the \<open>int16_t\<close> count,
  which the usual arithmetic conversions sign-extend to 64 bits, and the result is
  converted to \<open>int16_t\<close>.
\<close>

fun le_bytes :: "nat \<Rightarrow> int \<Rightarrow> bytes" where
  "le_bytes 0 n = []"
| "le_bytes (Suc k) n = word_of_int (n mod 256) # le_bytes k (n div 256)"

definition getPartitionid :: "(bytes \<Rightarrow> u64) \<Rightarrow> fieldValue \<Rightarrow> fieldtype \<Rightarrow> int \<Rightarrow> int res" where
  "getPartitionid hash64 fieldVal t numpartitions =
     (let part = (\<lambda>bs. let d = (word_of_int numpartitions :: u64) in
                    if d = 0 then Inl DivByZero
                    else Inr (int16 (uint (hash64 bs mod d))))
      in case t of
           F_INT \<Rightarrow> part (le_bytes 8 (uint (the_i64 (integer fieldVal))))
         | F_UINT \<Rightarrow> part (le_bytes 8 (uint (uinteger fieldVal)))
         | F_BOOL \<Rightarrow> part [if boolean fieldVal then 1 else 0]
         | F_FLOAT \<Rightarrow> part (le_bytes 16 (uint (the_ld (floating fieldVal))))
         | F_CHAR \<Rightarrow> part [the_i8 (character fieldVal)]
         | F_CHARX \<Rightarrow> part (str fieldVal)
         | F_VARCHAR \<Rightarrow> part (str fieldVal)
         | _ \<Rightarrow> Inr (- 1))"

end
