(* ===== verification/Std_Maps.thy ===== *)
theory Std_Maps
  imports Prelude
begin

text \<open>
  The containers of the C++ library the indices are made of. \<open>std::map\<close> is an association
  list with strictly ascending keys, \<open>std::multimap\<close> one with ascending keys (equal keys in
  order of insertion, as C++11 has it), \<open>boost::unordered_map\<close> one with distinct keys in
  some order. An iterator is a position in the list, \<open>end()\<close> its length.

  The locale \<open>keyed_map\<close> is the interface the index operations use for a map with unique
  keys; it is interpreted for both kinds of map.
\<close>

section \<open>Operations\<close>

text \<open>\<open>operator[](k) = v\<close> on a \<open>std::map\<close> and on a \<open>boost::unordered_map\<close>\<close>

fun sm_put :: "'k::linorder \<Rightarrow> 'v \<Rightarrow> ('k \<times> 'v) list \<Rightarrow> ('k \<times> 'v) list" where
  "sm_put k v [] = [(k, v)]"
| "sm_put k v ((a, b) # m) =
     (if k < a then (k, v) # (a, b) # m
      else if k = a then (k, v) # m
      else (a, b) # sm_put k v m)"

definition um_put :: "'k \<Rightarrow> 'v \<Rightarrow> ('k \<times> 'v) list \<Rightarrow> ('k \<times> 'v) list" where
  "um_put k v m = (k, v) # filter (\<lambda>p. fst p \<noteq> k) m"

text \<open>\<open>erase(k)\<close>, \<open>count(k)\<close> and \<open>at(k)\<close>\<close>

definition map_erase :: "'k \<Rightarrow> ('k \<times> 'v) list \<Rightarrow> ('k \<times> 'v) list" where
  "map_erase k m = filter (\<lambda>p. fst p \<noteq> k) m"

definition map_count :: "'k \<Rightarrow> ('k \<times> 'v) list \<Rightarrow> bool" where
  "map_count k m = (map_of m k \<noteq> None)"

definition map_at :: "'k \<Rightarrow> ('k \<times> 'v) list \<Rightarrow> 'v res" where
  "map_at k m = (case map_of m k of None \<Rightarrow> Inl OutOfRange | Some v \<Rightarrow> Inr v)"

text \<open>\<open>insert(pair(k, v))\<close> on a \<open>std::multimap\<close>\<close>

definition mm_insert :: "'k::linorder \<Rightarrow> 'v \<Rightarrow> ('k \<times> 'v) list \<Rightarrow> ('k \<times> 'v) list" where
  "mm_insert k v m =
     takeWhile (\<lambda>p. fst p \<le> k) m @ (k, v) # dropWhile (\<lambda>p. fst p \<le> k) m"

definition lower_bound :: "'k::linorder \<Rightarrow> ('k \<times> 'v) list \<Rightarrow> nat" where
  "lower_bound k m = length (takeWhile (\<lambda>p. fst p < k) m)"

definition upper_bound :: "'k::linorder \<Rightarrow> ('k \<times> 'v) list \<Rightarrow> nat" where
  "upper_bound k m = length (takeWhile (\<lambda>p. fst p \<le> k) m)"

text \<open>
  \<open>find(k)\<close> on an ordered map: the first element with the key (C++ leaves open which one on a
  \<open>multimap\<close>; the library takes the first), \<open>end()\<close> if there is none.
\<close>

definition map_find :: "'k::linorder \<Rightarrow> ('k \<times> 'v) list \<Rightarrow> nat" where
  "map_find k m =
     (let n = lower_bound k m in if n < length m \<and> fst (m ! n) = k then n else length m)"

text \<open>
  The elements a loop \<open>for (it = b; it != e; ++it)\<close> visits; an end before the beginning is
  never met, so the iterator runs off the container.
\<close>

definition iter_range :: "nat \<Rightarrow> nat \<Rightarrow> ('k \<times> 'v) list \<Rightarrow> ('k \<times> 'v) list res" where
  "iter_range b e m = (if b \<le> e then Inr (take (e - b) (drop b m)) else Inl IterPastEnd)"

definition equal_range :: "'k::linorder \<Rightarrow> ('k \<times> 'v) list \<Rightarrow> ('k \<times> 'v) list res" where
  "equal_range k m = iter_range (lower_bound k m) (upper_bound k m) m"

definition sm_ok :: "('k::linorder \<times> 'v) list \<Rightarrow> bool" where
  "sm_ok m = sorted_wrt (<) (map fst m)"

definition mm_ok :: "('k::linorder \<times> 'v) list \<Rightarrow> bool" where
  "mm_ok m = sorted (map fst m)"

definition um_ok :: "('k \<times> 'v) list \<Rightarrow> bool" where
  "um_ok m = distinct (map fst m)"

section \<open>The interface of a map with unique keys\<close>

locale keyed_map =
  fixes put :: "'k \<Rightarrow> 'v \<Rightarrow> ('k \<times> 'v) list \<Rightarrow> ('k \<times> 'v) list"
    and ok :: "('k \<times> 'v) list \<Rightarrow> bool"
  assumes ok_empty: "ok []"
    and ok_put: "ok m \<Longrightarrow> ok (put k v m)"
    and ok_erase: "ok m \<Longrightarrow> ok (map_erase k m)"
    and ok_distinct: "ok m \<Longrightarrow> distinct (map fst m)"
    and map_of_put: "ok m \<Longrightarrow> map_of (put k v m) = (map_of m)(k \<mapsto> v)"
begin

lemma put_not_empty: "ok m \<Longrightarrow> put k v m \<noteq> []"
  using map_of_put [of m k v] by (auto simp: fun_eq_iff split: if_splits)

lemma set_put:
  assumes "ok m"
  shows "set (put k v m) = insert (k, v) {p \<in> set m. fst p \<noteq> k}"
proof -
  have d: "distinct (map fst (put k v m))" using assms by (intro ok_distinct ok_put)
  have "(a, b) \<in> set (put k v m) \<longleftrightarrow> (a, b) \<in> insert (k, v) {p \<in> set m. fst p \<noteq> k}" for a b
    using map_of_eq_Some_iff [OF d, of a b] map_of_eq_Some_iff [OF ok_distinct [OF assms], of a b]
    by (auto simp: map_of_put [OF assms] split: if_splits)
  then show ?thesis by auto
qed

lemma mset_put:
  assumes "ok m"
  shows "mset (put k v m) = add_mset (k, v) (mset (map_erase k m))"
proof -
  have "distinct (put k v m)" "distinct (map_erase k m)"
    using ok_distinct [OF ok_put [OF assms]] ok_distinct [OF ok_erase [OF assms]]
    by (simp_all add: distinct_map)
  moreover have "(k, v) \<notin> set (map_erase k m)" by (simp add: map_erase_def)
  ultimately have "mset (put k v m) = mset_set (set (put k v m))"
    and "add_mset (k, v) (mset (map_erase k m)) = mset_set (insert (k, v) (set (map_erase k m)))"
    by (simp_all add: mset_set_set)
  then show ?thesis by (simp add: set_put [OF assms] map_erase_def)
qed

lemma put_fresh_mset: "ok m \<Longrightarrow> \<not> map_count k m \<Longrightarrow> mset (put k v m) = add_mset (k, v) (mset m)"
  by (simp add: mset_put map_erase_def map_count_def map_of_eq_None_filter)

end

section \<open>The library maps provide it\<close>

lemma map_of_erase: "map_of (map_erase k m) = (map_of m)(k := None)"
  by (simp add: map_erase_def map_of_filter_neq)

lemma distinct_erase: "distinct (map fst m) \<Longrightarrow> distinct (map fst (map_erase k m))"
  by (simp add: map_erase_def distinct_map_filter)

lemma set_fst_sm_put: "set (map fst (sm_put k v m)) = insert k (set (map fst m))"
  by (induction k v m rule: sm_put.induct) auto

lemma sm_ok_put: "sm_ok m \<Longrightarrow> sm_ok (sm_put k v m)"
proof (induction k v m rule: sm_put.induct)
  case (2 k v a b m)
  have s: "set (map fst (sm_put k v m)) = insert k (fst ` set m)"
    using set_fst_sm_put [of k v m] by simp
  with 2 show ?case by (auto simp: sm_ok_def)
qed (simp add: sm_ok_def)

lemma map_of_sm_put: "sm_ok m \<Longrightarrow> map_of (sm_put k v m) = (map_of m)(k \<mapsto> v)"
proof (induction k v m rule: sm_put.induct)
  case (2 k v a b m)
  then show ?case by (auto simp: sm_ok_def fun_eq_iff)
qed simp

lemma sm_ok_mm_ok: "sm_ok m \<Longrightarrow> mm_ok m"
  by (auto simp: sm_ok_def mm_ok_def strict_sorted_iff)

lemma sm_ok_erase: "sm_ok m \<Longrightarrow> sm_ok (map_erase k m)"
  unfolding sm_ok_def map_erase_def
  by (induction m) auto

lemma sm_ok_distinct: "sm_ok m \<Longrightarrow> distinct (map fst m)"
  by (simp add: sm_ok_def strict_sorted_iff)

interpretation ordered: keyed_map sm_put sm_ok
  by unfold_locales
    (auto simp: sm_ok_put map_of_sm_put sm_ok_erase sm_ok_distinct sm_ok_def [of "[]"])

interpretation unordered: keyed_map um_put um_ok
  by unfold_locales
    (auto simp: um_ok_def um_put_def distinct_erase map_of_filter_neq distinct_map_filter)

section \<open>Iteration over sorted maps\<close>

definition down_closed :: "('k::linorder \<Rightarrow> bool) \<Rightarrow> bool" where
  "down_closed P = (\<forall>a b. a \<le> b \<longrightarrow> P b \<longrightarrow> P a)"

lemma down_closed_simps [simp]:
  "down_closed (\<lambda>x. x < k)" "down_closed (\<lambda>x. x \<le> k)" "down_closed (\<lambda>_. c)"
  by (auto simp: down_closed_def)

lemma takeWhile_sorted:
  assumes "mm_ok m" "down_closed P"
  shows "takeWhile (\<lambda>p. P (fst p)) m = filter (\<lambda>p. P (fst p)) m"
  using assms(1) unfolding mm_ok_def
proof (induction m)
  case (Cons p m)
  then have "\<not> P (fst p) \<Longrightarrow> \<forall>q \<in> set m. \<not> P (fst q)"
    using assms(2) by (auto simp: down_closed_def)
  with Cons show ?case by auto
qed simp

lemma dropWhile_sorted:
  assumes "mm_ok m" "down_closed P"
  shows "dropWhile (\<lambda>p. P (fst p)) m = filter (\<lambda>p. \<not> P (fst p)) m"
  using assms(1) unfolding mm_ok_def
proof (induction m)
  case (Cons p m)
  then have "\<not> P (fst p) \<Longrightarrow> \<forall>q \<in> set m. \<not> P (fst q)"
    using assms(2) by (auto simp: down_closed_def)
  with Cons show ?case by auto
qed simp

lemma mm_ok_filter: "mm_ok m \<Longrightarrow> mm_ok (filter P m)"
  unfolding mm_ok_def by (induction m) auto

lemma iter_range_closed:
  assumes "mm_ok m" "down_closed P" "down_closed Q" "\<And>k. P k \<Longrightarrow> Q k"
  shows "iter_range (length (takeWhile (\<lambda>p. P (fst p)) m)) (length (takeWhile (\<lambda>p. Q (fst p)) m)) m
           = Inr (filter (\<lambda>p. \<not> P (fst p) \<and> Q (fst p)) m)"
proof -
  let ?b = "length (takeWhile (\<lambda>p. P (fst p)) m)" and ?e = "length (takeWhile (\<lambda>p. Q (fst p)) m)"
  have le: "?b \<le> ?e"
    using assms by (induction m) (auto simp: mm_ok_def)
  have "take (?e - ?b) (drop ?b m) = drop ?b (take ?e m)"
    by (simp add: drop_take)
  also have "take ?e m = filter (\<lambda>p. Q (fst p)) m"
    by (rule trans [OF take_length_takeWhile takeWhile_sorted [OF assms(1,3)]])
  also have "drop ?b (filter (\<lambda>p. Q (fst p)) m) = dropWhile (\<lambda>p. P (fst p)) (filter (\<lambda>p. Q (fst p)) m)"
  proof -
    have "takeWhile (\<lambda>p. P (fst p)) m = takeWhile (\<lambda>p. P (fst p)) (filter (\<lambda>p. Q (fst p)) m)"
    proof -
      have "filter (\<lambda>p. P (fst p)) (filter (\<lambda>p. Q (fst p)) m) = filter (\<lambda>p. P (fst p)) m"
        using assms(4) by (auto intro: filter_cong)
      then show ?thesis
        using assms by (simp add: takeWhile_sorted mm_ok_filter)
    qed
    then show ?thesis by (simp add: drop_length_takeWhile)
  qed
  also have "\<dots> = filter (\<lambda>p. \<not> P (fst p) \<and> Q (fst p)) m"
    using assms by (simp add: dropWhile_sorted mm_ok_filter conj_commute)
  finally show ?thesis using le by (simp add: iter_range_def)
qed

lemma range_to_upper:
  "mm_ok m \<Longrightarrow> iter_range 0 (upper_bound k m) m = Inr (filter (\<lambda>p. fst p \<le> k) m)"
  using iter_range_closed [of m "\<lambda>_. False" "\<lambda>x. x \<le> k"] takeWhile_sorted [of m "\<lambda>_. False"]
  by (simp add: upper_bound_def)

lemma range_from_lower:
  "mm_ok m \<Longrightarrow> iter_range (lower_bound k m) (length m) m = Inr (filter (\<lambda>p. k \<le> fst p) m)"
  using iter_range_closed [of m "\<lambda>x. x < k" "\<lambda>_. True"] takeWhile_sorted [of m "\<lambda>_. True"]
  by (simp add: lower_bound_def not_less)

lemma range_lower_lower:
  "mm_ok m \<Longrightarrow> l \<le> u \<Longrightarrow>
   iter_range (lower_bound l m) (lower_bound u m) m = Inr (filter (\<lambda>p. l \<le> fst p \<and> fst p < u) m)"
  using iter_range_closed [of m "\<lambda>x. x < l" "\<lambda>x. x < u"]
  by (simp add: lower_bound_def not_less)

lemma range_lower_upper:
  "mm_ok m \<Longrightarrow> l \<le> u \<Longrightarrow>
   iter_range (lower_bound l m) (upper_bound u m) m = Inr (filter (\<lambda>p. l \<le> fst p \<and> fst p \<le> u) m)"
  using iter_range_closed [of m "\<lambda>x. x < l" "\<lambda>x. x \<le> u"]
  by (simp add: lower_bound_def upper_bound_def not_less)

lemma range_upper_lower:
  "mm_ok m \<Longrightarrow> l < u \<Longrightarrow>
   iter_range (upper_bound l m) (lower_bound u m) m = Inr (filter (\<lambda>p. l < fst p \<and> fst p < u) m)"
  using iter_range_closed [of m "\<lambda>x. x \<le> l" "\<lambda>x. x < u"]
  by (simp add: lower_bound_def upper_bound_def not_le)

lemma equal_range_filter:
  "mm_ok m \<Longrightarrow> equal_range k m = Inr (filter (\<lambda>p. fst p = k) m)"
  by (auto simp: equal_range_def range_lower_upper intro: filter_cong)

lemma bounds_same_key:
  assumes "mm_ok m" "k \<in> fst ` set m"
  shows "lower_bound k m < upper_bound k m"
proof -
  have l: "lower_bound k m = length (filter (\<lambda>p. fst p < k) m)"
    using takeWhile_sorted [OF assms(1), of "\<lambda>x. x < k"] by (simp add: lower_bound_def)
  have u: "upper_bound k m = length (filter (\<lambda>p. fst p \<le> k) m)"
    using takeWhile_sorted [OF assms(1), of "\<lambda>x. x \<le> k"] by (simp add: upper_bound_def)
  from assms(2) have "length (filter (\<lambda>p. fst p < k) m) < length (filter (\<lambda>p. fst p \<le> k) m)"
  proof (induction m)
    case (Cons p m)
    have "length (filter (\<lambda>p. fst p < k) m) \<le> length (filter (\<lambda>p. fst p \<le> k) m)" for m :: "('a \<times> 'b) list"
      by (induction m) auto
    note le = this [of m]
    show ?case
    proof (cases "fst p = k")
      case True
      then show ?thesis using le by simp
    next
      case False
      with Cons show ?thesis by (auto simp: less_le)
    qed
  qed simp
  with l u show ?thesis by simp
qed

lemma lower_bound_absent:
  assumes "mm_ok m" "\<not> (lower_bound k m < length m \<and> fst (m ! lower_bound k m) = k)"
  shows "upper_bound k m = lower_bound k m"
proof -
  have lt: "takeWhile (\<lambda>p. fst p < k) m = filter (\<lambda>p. fst p < k) m"
    by (rule takeWhile_sorted [OF assms(1)]) simp
  have le: "takeWhile (\<lambda>p. fst p \<le> k) m = filter (\<lambda>p. fst p \<le> k) m"
    by (rule takeWhile_sorted [OF assms(1)]) simp
  have dr: "drop (lower_bound k m) m = filter (\<lambda>p. \<not> fst p < k) m"
    unfolding lower_bound_def
    by (rule trans [OF drop_length_takeWhile dropWhile_sorted [OF assms(1)]]) simp
  have "k \<notin> fst ` set m"
  proof
    assume "k \<in> fst ` set m"
    then obtain p where p: "p \<in> set m" "fst p = k" by auto
    then have "p \<in> set (drop (lower_bound k m) m)" by (simp add: dr)
    then obtain q qs where q: "drop (lower_bound k m) m = q # qs" by (cases "drop (lower_bound k m) m") auto
    then have lb: "lower_bound k m < length m" by (metis drop_eq_Nil leI list.distinct(1))
    then have "m ! lower_bound k m = q" using q by (simp add: Cons_nth_drop_Suc [symmetric])
    moreover have "k \<le> fst q" using q dr by (auto simp: filter_eq_Cons_iff)
    moreover have "fst q \<le> k"
    proof -
      have "mm_ok (q # qs)" unfolding q [symmetric] dr by (rule mm_ok_filter [OF assms(1)])
      then show ?thesis using \<open>p \<in> set (drop (lower_bound k m) m)\<close> p(2) q by (auto simp: mm_ok_def)
    qed
    ultimately show False using assms(2) lb by auto
  qed
  then have "filter (\<lambda>p. fst p \<le> k) m = filter (\<lambda>p. fst p < k) m"
    by (intro filter_cong) (auto simp: less_le)
  then show ?thesis by (simp add: upper_bound_def lower_bound_def lt le)
qed
lemma map_find_lower:
  assumes "mm_ok m"
  shows "(if map_find k m = length m then upper_bound k m else map_find k m) = lower_bound k m"
  using lower_bound_absent [OF assms, of k] takeWhile_length_le [of "\<lambda>p. fst p < k" m]
  by (auto simp: map_find_def Let_def lower_bound_def)

lemma mm_insert_ok:
  assumes "mm_ok m"
  shows "mm_ok (mm_insert k v m)"
proof -
  have "mm_insert k v m = filter (\<lambda>p. fst p \<le> k) m @ (k, v) # filter (\<lambda>p. \<not> fst p \<le> k) m"
    using takeWhile_sorted [OF assms, of "\<lambda>x. x \<le> k"] dropWhile_sorted [OF assms, of "\<lambda>x. x \<le> k"]
    by (simp add: mm_insert_def)
  moreover have "mm_ok (filter (\<lambda>p. fst p \<le> k) m)" "mm_ok (filter (\<lambda>p. \<not> fst p \<le> k) m)"
    using assms by (simp_all only: mm_ok_filter)
  ultimately show ?thesis by (auto simp: mm_ok_def sorted_append)
qed

lemma mset_mm_insert: "mset (mm_insert k v m) = add_mset (k, v) (mset m)"
proof -
  let ?t = "takeWhile (\<lambda>p. fst p \<le> k) m" and ?d = "dropWhile (\<lambda>p. fst p \<le> k) m"
  have "mset ?t + mset ?d = mset m"
    by (simp flip: mset_append)
  then show ?thesis by (simp add: mm_insert_def)
qed

end
