(* ===== verification/Index_Model.thy ===== *)
theory Index_Model
  imports Db_Globals Std_Maps
begin

text \<open>
  The class \<open>Index\<close> of \<open>infinisqld/Index.h\<close> and \<open>infinisqld/Index.cc\<close>: its data, the
  selection of the map (\<open>makeindex\<close>), the invariant that ties the selector to the allocated
  maps, and the bodies the overloads of an operation share. The class has one pointer per
  key type and kind of map; they are grouped by key type here, \<open>None\<close> being \<open>NULL\<close>.
\<close>

section \<open>Data\<close>

record lockingIndexEntry =
  li_rowid :: int
  li_engineid :: int        \<comment> \<open>\<open>int16_t\<close>\<close>
  li_subtransactionid :: int
  li_previoussubtransactionid :: int

record lockQueueIndexEntry =
  lq_pendingcmdid :: int
  lq_tacmdentrypoint :: int
  lq_entry :: lockingIndexEntry

record 'k typed_index =
  uniqueIdx :: "('k \<times> lockingIndexEntry) list option"
  nonuniqueIdx :: "('k \<times> nonLockingIndexEntry) list option"
  unorderedIdx :: "('k \<times> lockingIndexEntry) list option"
  indexShadow :: "('k \<times> lockingIndexEntry) list option"
  lockQueue :: "('k \<rightharpoonup> lockQueueIndexEntry list) option"

definition null_typed_index :: "'k typed_index" where
  "null_typed_index = \<lparr>uniqueIdx = None, nonuniqueIdx = None, unorderedIdx = None,
     indexShadow = None, lockQueue = None\<rparr>"

text \<open>The maps over \<open>long double\<close> are keyed by \<open>ld_key\<close>.\<close>

record index =
  indextype :: indextype
  fieldtype :: fieldtype
  maptype :: maptype
  notNull :: bool
  isunique :: bool
  indexmaptype :: indexmaptype
  intIx :: "i64 typed_index"
  uintIx :: "u64 typed_index"
  boolIx :: "bool typed_index"
  floatIx :: "int typed_index"
  charIx :: "i8 typed_index"
  stringIx :: "bytes typed_index"
  nulls :: "(int \<times> int) list"   \<comment> \<open>an \<open>unordered_set\<close> of pairs, without repetition\<close>

definition Index :: index where
  "Index = \<lparr>indextype = NONE, fieldtype = NOFIELDTYPE, maptype = Nomaptype, notNull = True,
     isunique = True, indexmaptype = noindexmaptype,
     intIx = null_typed_index, uintIx = null_typed_index, boolIx = null_typed_index,
     floatIx = null_typed_index, charIx = null_typed_index, stringIx = null_typed_index,
     nulls = []\<rparr>"

section \<open>makeindex\<close>

definition new_unique :: "'k typed_index \<Rightarrow> 'k typed_index" where
  "new_unique t = t\<lparr>uniqueIdx := Some [], lockQueue := Some Map.empty, indexShadow := Some []\<rparr>"

definition new_nonunique :: "'k typed_index \<Rightarrow> 'k typed_index" where
  "new_nonunique t = t\<lparr>nonuniqueIdx := Some []\<rparr>"

definition new_unordered :: "'k typed_index \<Rightarrow> 'k typed_index" where
  "new_unordered t = t\<lparr>unorderedIdx := Some [], lockQueue := Some Map.empty, indexShadow := Some []\<rparr>"

definition allocate_maps :: "index \<Rightarrow> index" where
  "allocate_maps ix =
     (case indexmaptype ix of
        uniqueint \<Rightarrow> ix\<lparr>intIx := new_unique (intIx ix)\<rparr>
      | nonuniqueint \<Rightarrow> ix\<lparr>intIx := new_nonunique (intIx ix)\<rparr>
      | unorderedint \<Rightarrow> ix\<lparr>intIx := new_unordered (intIx ix)\<rparr>
      | uniqueuint \<Rightarrow> ix\<lparr>uintIx := new_unique (uintIx ix)\<rparr>
      | nonuniqueuint \<Rightarrow> ix\<lparr>uintIx := new_nonunique (uintIx ix)\<rparr>
      | unordereduint \<Rightarrow> ix\<lparr>uintIx := new_unordered (uintIx ix)\<rparr>
      | uniquebool \<Rightarrow> ix\<lparr>boolIx := new_unique (boolIx ix)\<rparr>
      | nonuniquebool \<Rightarrow> ix\<lparr>boolIx := new_nonunique (boolIx ix)\<rparr>
      | unorderedbool \<Rightarrow> ix\<lparr>boolIx := new_unordered (boolIx ix)\<rparr>
      | uniquefloat \<Rightarrow> ix\<lparr>floatIx := new_unique (floatIx ix)\<rparr>
      | nonuniquefloat \<Rightarrow> ix\<lparr>floatIx := new_nonunique (floatIx ix)\<rparr>
      | unorderedfloat \<Rightarrow> ix\<lparr>floatIx := new_unordered (floatIx ix)\<rparr>
      | uniquechar \<Rightarrow> ix\<lparr>charIx := new_unique (charIx ix)\<rparr>
      | nonuniquechar \<Rightarrow> ix\<lparr>charIx := new_nonunique (charIx ix)\<rparr>
      | unorderedchar \<Rightarrow> ix\<lparr>charIx := new_unordered (charIx ix)\<rparr>
      | uniquecharx \<Rightarrow> ix\<lparr>stringIx := new_unique (stringIx ix)\<rparr>
      | nonuniquecharx \<Rightarrow> ix\<lparr>stringIx := new_nonunique (stringIx ix)\<rparr>
      | unorderedcharx \<Rightarrow> ix\<lparr>stringIx := new_unordered (stringIx ix)\<rparr>
      | uniquevarchar \<Rightarrow> ix\<lparr>stringIx := new_unique (stringIx ix)\<rparr>
      | nonuniquevarchar \<Rightarrow> ix\<lparr>stringIx := new_nonunique (stringIx ix)\<rparr>
      | unorderedvarchar \<Rightarrow> ix\<lparr>stringIx := new_unordered (stringIx ix)\<rparr>
      | noindexmaptype \<Rightarrow> ix)"

definition makeindex :: "indextype \<Rightarrow> fieldtype \<Rightarrow> index \<Rightarrow> index" where
  "makeindex it ft ix0 =
     (let ix = ix0\<lparr>indextype := it, fieldtype := ft,
                 isunique := (it = UNIQUE \<or> it = UNORDERED \<or> it = UNIQUENOTNULL
                              \<or> it = UNORDEREDNOTNULL),
                 notNull := (it = UNIQUENOTNULL \<or> it = NONUNIQUENOTNULL
                             \<or> it = UNORDEREDNOTNULL)\<rparr>
      in if it = NONE then ix
         else let mt = (if it = UNIQUE \<or> it = UNIQUENOTNULL then Unique
                        else if it = NONUNIQUE \<or> it = NONUNIQUENOTNULL then Nonunique
                        else if it = UNORDERED \<or> it = UNORDEREDNOTNULL then Unordered
                        else maptype ix);
                  imt = (case ft of
                           F_INT \<Rightarrow> indexmaptype_cast (maptype_num mt)
                         | F_UINT \<Rightarrow> indexmaptype_cast (3 + maptype_num mt)
                         | F_BOOL \<Rightarrow> indexmaptype_cast (6 + maptype_num mt)
                         | F_FLOAT \<Rightarrow> indexmaptype_cast (9 + maptype_num mt)
                         | F_CHAR \<Rightarrow> indexmaptype_cast (12 + maptype_num mt)
                         | F_CHARX \<Rightarrow> indexmaptype_cast (15 + maptype_num mt)
                         | F_VARCHAR \<Rightarrow> indexmaptype_cast (18 + maptype_num mt)
                         | NOFIELDTYPE \<Rightarrow> indexmaptype ix)
              in allocate_maps (ix\<lparr>maptype := mt, indexmaptype := imt\<rparr>))"

section \<open>The invariant\<close>

text \<open>
  The selected map is allocated, with the lock queue where it has one, and its list keeps the
  order of its kind of container.
\<close>

definition unique_ready :: "'k::linorder typed_index \<Rightarrow> bool" where
  "unique_ready t = (lockQueue t \<noteq> None \<and> (\<exists>m. uniqueIdx t = Some m \<and> sm_ok m))"

definition nonunique_ready :: "'k::linorder typed_index \<Rightarrow> bool" where
  "nonunique_ready t = (\<exists>m. nonuniqueIdx t = Some m \<and> mm_ok m)"

definition unordered_ready :: "'k typed_index \<Rightarrow> bool" where
  "unordered_ready t = (lockQueue t \<noteq> None \<and> (\<exists>m. unorderedIdx t = Some m \<and> um_ok m))"

definition index_wf :: "index \<Rightarrow> bool" where
  "index_wf ix =
     (case indexmaptype ix of
        uniqueint \<Rightarrow> unique_ready (intIx ix)
      | nonuniqueint \<Rightarrow> nonunique_ready (intIx ix)
      | unorderedint \<Rightarrow> unordered_ready (intIx ix)
      | uniqueuint \<Rightarrow> unique_ready (uintIx ix)
      | nonuniqueuint \<Rightarrow> nonunique_ready (uintIx ix)
      | unordereduint \<Rightarrow> unordered_ready (uintIx ix)
      | uniquebool \<Rightarrow> unique_ready (boolIx ix)
      | nonuniquebool \<Rightarrow> nonunique_ready (boolIx ix)
      | unorderedbool \<Rightarrow> unordered_ready (boolIx ix)
      | uniquefloat \<Rightarrow> unique_ready (floatIx ix)
      | nonuniquefloat \<Rightarrow> nonunique_ready (floatIx ix)
      | unorderedfloat \<Rightarrow> unordered_ready (floatIx ix)
      | uniquechar \<Rightarrow> unique_ready (charIx ix)
      | nonuniquechar \<Rightarrow> nonunique_ready (charIx ix)
      | unorderedchar \<Rightarrow> unordered_ready (charIx ix)
      | uniquecharx \<Rightarrow> unique_ready (stringIx ix)
      | nonuniquecharx \<Rightarrow> nonunique_ready (stringIx ix)
      | unorderedcharx \<Rightarrow> unordered_ready (stringIx ix)
      | uniquevarchar \<Rightarrow> unique_ready (stringIx ix)
      | nonuniquevarchar \<Rightarrow> nonunique_ready (stringIx ix)
      | unorderedvarchar \<Rightarrow> unordered_ready (stringIx ix)
      | noindexmaptype \<Rightarrow> True)"

lemma new_ready [simp]:
  "unique_ready (new_unique t)" "nonunique_ready (new_nonunique t)"
  "unordered_ready (new_unordered t)"
  by (auto simp: unique_ready_def nonunique_ready_def unordered_ready_def new_unique_def
      new_nonunique_def new_unordered_def sm_ok_def mm_ok_def um_ok_def)

lemma indexmaptype_allocate_maps [simp]: "indexmaptype (allocate_maps ix) = indexmaptype ix"
  by (cases "indexmaptype ix") (simp_all add: allocate_maps_def)

lemma allocate_maps_wf [simp]: "index_wf (allocate_maps ix)"
  by (cases "indexmaptype ix") (simp_all add: allocate_maps_def index_wf_def)

text \<open>The key type a selector stands for, and the kind of its map.\<close>

fun imt_fieldtype :: "indexmaptype \<Rightarrow> fieldtype" where
  "imt_fieldtype imt =
     (if imt \<in> {uniqueint, nonuniqueint, unorderedint} then F_INT
      else if imt \<in> {uniqueuint, nonuniqueuint, unordereduint} then F_UINT
      else if imt \<in> {uniquebool, nonuniquebool, unorderedbool} then F_BOOL
      else if imt \<in> {uniquefloat, nonuniquefloat, unorderedfloat} then F_FLOAT
      else if imt \<in> {uniquechar, nonuniquechar, unorderedchar} then F_CHAR
      else if imt \<in> {uniquecharx, nonuniquecharx, unorderedcharx} then F_CHARX
      else if imt \<in> {uniquevarchar, nonuniquevarchar, unorderedvarchar} then F_VARCHAR
      else NOFIELDTYPE)"

definition imt_unique :: "indexmaptype \<Rightarrow> bool" where
  "imt_unique imt \<longleftrightarrow>
     imt \<notin> {noindexmaptype, nonuniqueint, nonuniqueuint, nonuniquebool, nonuniquefloat,
             nonuniquechar, nonuniquecharx, nonuniquevarchar}"

lemma indexmaptype_makeindex:
  assumes "it \<noteq> NONE" "ft \<noteq> NOFIELDTYPE"
  shows "imt_fieldtype (indexmaptype (makeindex it ft Index)) = ft
       \<and> imt_unique (indexmaptype (makeindex it ft Index)) = isunique (makeindex it ft Index)"
  using assms
  by (cases it; cases ft;
      simp add: makeindex_def Let_def Index_def indexmaptype_cast_def indexmaptypes_def
        allocate_maps_def imt_unique_def)

lemma makeindex_wf: "index_wf (makeindex it ft Index)"
proof (cases "it = NONE")
  case True
  then show ?thesis by (simp add: makeindex_def Let_def Index_def index_wf_def)
next
  case False
  then show ?thesis by (simp add: makeindex_def Let_def)
qed

end
