(* ===== verification/Index_Search.thy ===== *)
theory Index_Search
  imports Index_Model
begin

text \<open>
  The searches of \<open>Index.cc\<close>. \<open>returnEntries\<close> is a vector the search appends to: it is
  the last argument, and the result is its new value. The overloads of a search have the same
  body up to the key type (and the copies that drifted apart have their own body): the bodies
  come first, over a typed index, then one definition per overload.
\<close>

type_synonym indexEntries = "nonLockingIndexEntry list"

definition nl_of :: "lockingIndexEntry \<Rightarrow> nonLockingIndexEntry" where
  "nl_of e = \<lparr>nl_rowid = li_rowid e, nl_engineid = li_engineid e\<rparr>"

section \<open>Bodies\<close>

definition getequal_locking :: "'k \<Rightarrow> ('k \<times> lockingIndexEntry) list option \<Rightarrow>
    indexEntries \<Rightarrow> indexEntries res" where
  "getequal_locking input p ret =
     rbind (deref p) (\<lambda>m.
       if map_count input m then rbind (map_at input m) (\<lambda>e. Inr (ret @ [nl_of e]))
       else Inr ret)"

definition getequal_unique :: "'k \<Rightarrow> 'k typed_index \<Rightarrow> indexEntries \<Rightarrow> indexEntries res" where
  "getequal_unique input t ret = getequal_locking input (uniqueIdx t) ret"

definition getequal_unordered :: "'k \<Rightarrow> 'k typed_index \<Rightarrow> indexEntries \<Rightarrow> indexEntries res" where
  "getequal_unordered input t ret = getequal_locking input (unorderedIdx t) ret"

definition getequal_nonunique :: "'k::linorder \<Rightarrow> 'k typed_index \<Rightarrow> indexEntries \<Rightarrow> indexEntries res" where
  "getequal_nonunique input t ret =
     rbind (deref (nonuniqueIdx t)) (\<lambda>m.
     rbind (equal_range input m) (\<lambda>rng. Inr (ret @ map snd rng)))"

text \<open>A loop over a whole map that appends the entries whose key passes a test.\<close>

definition scan_locking :: "('k \<Rightarrow> bool) \<Rightarrow> ('k \<times> lockingIndexEntry) list option \<Rightarrow>
    indexEntries \<Rightarrow> indexEntries res" where
  "scan_locking test p ret =
     rbind (deref p) (\<lambda>m. Inr (ret @ map (\<lambda>q. nl_of (snd q)) (filter (\<lambda>q. test (fst q)) m)))"

definition scan_nonlocking :: "('k \<Rightarrow> bool) \<Rightarrow> ('k \<times> nonLockingIndexEntry) list option \<Rightarrow>
    indexEntries \<Rightarrow> indexEntries res" where
  "scan_nonlocking test p ret =
     rbind (deref p) (\<lambda>m. Inr (ret @ map snd (filter (\<lambda>q. test (fst q)) m)))"

definition getnotequal_unique :: "'k \<Rightarrow> 'k typed_index \<Rightarrow> indexEntries \<Rightarrow> indexEntries res" where
  "getnotequal_unique input t ret = scan_locking (\<lambda>key. key \<noteq> input) (uniqueIdx t) ret"

definition getnotequal_nonunique :: "'k \<Rightarrow> 'k typed_index \<Rightarrow> indexEntries \<Rightarrow> indexEntries res" where
  "getnotequal_nonunique input t ret = scan_nonlocking (\<lambda>key. key \<noteq> input) (nonuniqueIdx t) ret"

definition getnotequal_unordered :: "'k \<Rightarrow> 'k typed_index \<Rightarrow> indexEntries \<Rightarrow> indexEntries res" where
  "getnotequal_unordered input t ret = scan_locking (\<lambda>key. key \<noteq> input) (unorderedIdx t) ret"

definition getnotnulls_unique :: "'k typed_index \<Rightarrow> indexEntries \<Rightarrow> indexEntries res" where
  "getnotnulls_unique t ret = scan_locking (\<lambda>_. True) (uniqueIdx t) ret"

definition getnotnulls_nonunique :: "'k typed_index \<Rightarrow> indexEntries \<Rightarrow> indexEntries res" where
  "getnotnulls_nonunique t ret = scan_nonlocking (\<lambda>_. True) (nonuniqueIdx t) ret"

definition getnotnulls_unordered :: "'k typed_index \<Rightarrow> indexEntries \<Rightarrow> indexEntries res" where
  "getnotnulls_unordered t ret = scan_locking (\<lambda>_. True) (unorderedIdx t) ret"

definition getnotin_unique :: "('k \<Rightarrow> bool) \<Rightarrow> 'k typed_index \<Rightarrow> indexEntries \<Rightarrow> indexEntries res" where
  "getnotin_unique isfound t ret = scan_locking (\<lambda>key. \<not> isfound key) (uniqueIdx t) ret"

definition getnotin_nonunique :: "('k \<Rightarrow> bool) \<Rightarrow> 'k typed_index \<Rightarrow> indexEntries \<Rightarrow> indexEntries res" where
  "getnotin_nonunique isfound t ret = scan_nonlocking (\<lambda>key. \<not> isfound key) (nonuniqueIdx t) ret"

definition getnotin_unordered :: "('k \<Rightarrow> bool) \<Rightarrow> 'k typed_index \<Rightarrow> indexEntries \<Rightarrow> indexEntries res" where
  "getnotin_unordered isfound t ret = scan_locking (\<lambda>key. \<not> isfound key) (unorderedIdx t) ret"

text \<open>
  The iterators a comparison loops over; with any other operator they stay unassigned.
\<close>

definition comparison_range :: "'k::linorder \<Rightarrow> operatortype \<Rightarrow> ('k \<times> 'v) list \<Rightarrow> ('k \<times> 'v) list res" where
  "comparison_range input op m =
     (if op = OPERATOR_LT \<or> op = OPERATOR_LTE then iter_range 0 (upper_bound input m) m
      else if op = OPERATOR_GT \<or> op = OPERATOR_GTE
        then iter_range (lower_bound input m) (length m) m
      else Inl UninitIter)"

text \<open>The body for \<open>int64_t\<close>, \<open>long double\<close>, \<open>char\<close> and \<open>string\<close>.\<close>

definition skip_equal :: "'k \<Rightarrow> operatortype \<Rightarrow> ('k \<times> 'v) list \<Rightarrow> ('k \<times> 'v) list" where
  "skip_equal input op rng =
     filter (\<lambda>q. \<not> ((op = OPERATOR_GT \<or> op = OPERATOR_LT) \<and> fst q = input)) rng"

definition comparison_unique1 :: "'k::linorder \<Rightarrow> operatortype \<Rightarrow> 'k typed_index \<Rightarrow>
    indexEntries \<Rightarrow> indexEntries res" where
  "comparison_unique1 input op t ret =
     rbind (deref (uniqueIdx t)) (\<lambda>m.
     rbind (comparison_range input op m) (\<lambda>rng.
       Inr (ret @ map (\<lambda>q. nl_of (snd q)) (skip_equal input op rng))))"

definition comparison_nonunique1 :: "'k::linorder \<Rightarrow> operatortype \<Rightarrow> 'k typed_index \<Rightarrow>
    indexEntries \<Rightarrow> indexEntries res" where
  "comparison_nonunique1 input op t ret =
     rbind (deref (nonuniqueIdx t)) (\<lambda>m.
     rbind (comparison_range input op m) (\<lambda>rng.
       Inr (ret @ map snd (skip_equal input op rng))))"

text \<open>
  The body for \<open>uint64_t\<close> and \<open>bool\<close>: the append is inside the test for \<open>OPERATOR_GT\<close>,
  and \<open>OPERATOR_LTE\<close> appends the equal entries after the loop.
\<close>

definition comparison_unique2 :: "'k::linorder \<Rightarrow> operatortype \<Rightarrow> 'k typed_index \<Rightarrow>
    indexEntries \<Rightarrow> indexEntries res" where
  "comparison_unique2 input op t ret =
     rbind (deref (uniqueIdx t)) (\<lambda>m.
     rbind (comparison_range input op m) (\<lambda>rng.
       let ret1 = ret @ map (\<lambda>q. nl_of (snd q)) (filter (\<lambda>q. op = OPERATOR_GT \<and> fst q \<noteq> input) rng)
       in if op = OPERATOR_LTE \<and> map_count input m
          then rbind (map_at input m) (\<lambda>e. Inr (ret1 @ [nl_of e]))
          else Inr ret1))"

definition comparison_nonunique2 :: "'k::linorder \<Rightarrow> operatortype \<Rightarrow> 'k typed_index \<Rightarrow>
    indexEntries \<Rightarrow> indexEntries res" where
  "comparison_nonunique2 input op t ret =
     rbind (deref (nonuniqueIdx t)) (\<lambda>m.
     rbind (comparison_range input op m) (\<lambda>rng.
       let ret1 = ret @ map snd (filter (\<lambda>q. op = OPERATOR_GT \<and> fst q \<noteq> input) rng)
       in if op = OPERATOR_LTE
          then rbind (equal_range input m) (\<lambda>eqs. Inr (ret1 @ map snd eqs))
          else Inr ret1))"

text \<open>\<open>between\<close>: the body for \<open>int64_t\<close>, \<open>long double\<close>, \<open>char\<close> and \<open>string\<close>.\<close>

definition between_unique1 :: "'k::linorder \<Rightarrow> 'k \<Rightarrow> 'k typed_index \<Rightarrow>
    indexEntries \<Rightarrow> indexEntries res" where
  "between_unique1 lower upper t ret =
     rbind (deref (uniqueIdx t)) (\<lambda>m.
       let push = (\<lambda>k r. if map_count k m then rbind (map_at k m) (\<lambda>e. Inr (r @ [nl_of e]))
                         else Inr r)
       in if lower = upper then push lower ret
          else if lower > upper then Inr ret
          else rbind (iter_range (lower_bound lower m) (lower_bound upper m) m) (\<lambda>rng.
                 push upper (ret @ map (\<lambda>q. nl_of (snd q)) rng)))"

definition between_nonunique1 :: "'k::linorder \<Rightarrow> 'k \<Rightarrow> 'k typed_index \<Rightarrow>
    indexEntries \<Rightarrow> indexEntries res" where
  "between_nonunique1 lower upper t ret =
     rbind (deref (nonuniqueIdx t)) (\<lambda>m.
       if lower > upper then Inr ret
       else rbind (iter_range (lower_bound lower m) (upper_bound upper m) m) (\<lambda>rng.
              Inr (ret @ map snd (filter (\<lambda>q. fst q \<le> upper) rng))))"

text \<open>The body for \<open>uint64_t\<close>.\<close>

definition between_unique2 :: "'k::linorder \<Rightarrow> 'k \<Rightarrow> 'k typed_index \<Rightarrow>
    indexEntries \<Rightarrow> indexEntries res" where
  "between_unique2 lower upper t ret =
     rbind (deref (uniqueIdx t)) (\<lambda>m.
     rbind (if map_count lower m then rbind (map_at lower m) (\<lambda>e. Inr (ret @ [nl_of e]))
            else Inr ret) (\<lambda>ret1.
     rbind (iter_range (upper_bound lower m) (lower_bound upper m) m) (\<lambda>rng.
       Inr (ret1 @ map (\<lambda>q. nl_of (snd q)) rng))))"

definition between_nonunique2 :: "'k::linorder \<Rightarrow> 'k \<Rightarrow> 'k typed_index \<Rightarrow>
    indexEntries \<Rightarrow> indexEntries res" where
  "between_nonunique2 lower upper t ret =
     rbind (deref (nonuniqueIdx t)) (\<lambda>m.
     rbind (equal_range lower m) (\<lambda>eqs.
     rbind (iter_range (upper_bound lower m) (lower_bound upper m) m) (\<lambda>rng.
       Inr ((ret @ map snd eqs) @ map snd rng))))"

section \<open>The overloads\<close>

text \<open>
  One definition per C++ overload, each a switch on \<open>indexmaptype\<close> over the bodies above.
  The \<open>default\<close> case of each switch only logs.
\<close>

subsection \<open>getequal\_f\<close>

definition getequal_f_int :: "index \<Rightarrow> i64 \<Rightarrow> indexEntries \<Rightarrow> indexEntries res" where
  "getequal_f_int ix input ret =
     (case indexmaptype ix of
        uniqueint \<Rightarrow> getequal_unique input (intIx ix) ret
      | nonuniqueint \<Rightarrow> getequal_nonunique input (intIx ix) ret
      | unorderedint \<Rightarrow> getequal_unordered input (intIx ix) ret
      | _ \<Rightarrow> Inr ret)"

definition getequal_f_uint :: "index \<Rightarrow> u64 \<Rightarrow> indexEntries \<Rightarrow> indexEntries res" where
  "getequal_f_uint ix input ret =
     (case indexmaptype ix of
        uniqueuint \<Rightarrow> getequal_unique input (uintIx ix) ret
      | nonuniqueuint \<Rightarrow> getequal_nonunique input (uintIx ix) ret
      | unordereduint \<Rightarrow> getequal_unordered input (uintIx ix) ret
      | _ \<Rightarrow> Inr ret)"

definition getequal_f_bool :: "index \<Rightarrow> bool \<Rightarrow> indexEntries \<Rightarrow> indexEntries res" where
  "getequal_f_bool ix input ret =
     (case indexmaptype ix of
        uniquebool \<Rightarrow> getequal_unique input (boolIx ix) ret
      | nonuniquebool \<Rightarrow> getequal_nonunique input (boolIx ix) ret
      | unorderedbool \<Rightarrow> getequal_unordered input (boolIx ix) ret
      | _ \<Rightarrow> Inr ret)"

definition getequal_f_float :: "index \<Rightarrow> ldouble \<Rightarrow> indexEntries \<Rightarrow> indexEntries res" where
  "getequal_f_float ix input0 ret =
     (let input = ld_key input0 in case indexmaptype ix of
        uniquefloat \<Rightarrow> getequal_unique input (floatIx ix) ret
      | nonuniquefloat \<Rightarrow> getequal_nonunique input (floatIx ix) ret
      | unorderedfloat \<Rightarrow> getequal_unordered input (floatIx ix) ret
      | _ \<Rightarrow> Inr ret)"

definition getequal_f_char :: "index \<Rightarrow> i8 \<Rightarrow> indexEntries \<Rightarrow> indexEntries res" where
  "getequal_f_char ix input ret =
     (case indexmaptype ix of
        uniquechar \<Rightarrow> getequal_unique input (charIx ix) ret
      | nonuniquechar \<Rightarrow> getequal_nonunique input (charIx ix) ret
      | unorderedchar \<Rightarrow> getequal_unordered input (charIx ix) ret
      | _ \<Rightarrow> Inr ret)"

definition getequal_f_string :: "index \<Rightarrow> bytes \<Rightarrow> indexEntries \<Rightarrow> indexEntries res" where
  "getequal_f_string ix input0 ret =
     (let input = trimspace input0 in case indexmaptype ix of
        uniquecharx \<Rightarrow> getequal_unique input (stringIx ix) ret
      | nonuniquecharx \<Rightarrow> getequal_nonunique input (stringIx ix) ret
      | unorderedcharx \<Rightarrow> getequal_unordered input (stringIx ix) ret
      | uniquevarchar \<Rightarrow> getequal_unique input (stringIx ix) ret
      | nonuniquevarchar \<Rightarrow> getequal_nonunique input (stringIx ix) ret
      | unorderedvarchar \<Rightarrow> getequal_unordered input (stringIx ix) ret
      | _ \<Rightarrow> Inr ret)"

text \<open>\<open>getin\<close> is a template over the overloads of \<open>getequal_f\<close>.\<close>

definition getin :: "(index \<Rightarrow> 'a \<Rightarrow> indexEntries \<Rightarrow> indexEntries res) \<Rightarrow>
    index \<Rightarrow> 'a list \<Rightarrow> indexEntries \<Rightarrow> indexEntries res" where
  "getin getequal_f ix input ret = rfold (\<lambda>x. getequal_f ix x) input ret"

subsection \<open>getnotequal\<close>

definition getnotequal_int :: "index \<Rightarrow> i64 \<Rightarrow> indexEntries \<Rightarrow> indexEntries res" where
  "getnotequal_int ix input ret =
     (case indexmaptype ix of
        uniqueint \<Rightarrow> getnotequal_unique input (intIx ix) ret
      | nonuniqueint \<Rightarrow> getnotequal_nonunique input (intIx ix) ret
      | unorderedint \<Rightarrow> getnotequal_unordered input (intIx ix) ret
      | _ \<Rightarrow> Inr ret)"

definition getnotequal_uint :: "index \<Rightarrow> u64 \<Rightarrow> indexEntries \<Rightarrow> indexEntries res" where
  "getnotequal_uint ix input ret =
     (case indexmaptype ix of
        uniqueuint \<Rightarrow> getnotequal_unique input (uintIx ix) ret
      | nonuniqueuint \<Rightarrow> getnotequal_nonunique input (uintIx ix) ret
      | unordereduint \<Rightarrow> getnotequal_unordered input (uintIx ix) ret
      | _ \<Rightarrow> Inr ret)"

definition getnotequal_bool :: "index \<Rightarrow> bool \<Rightarrow> indexEntries \<Rightarrow> indexEntries res" where
  "getnotequal_bool ix input ret =
     (case indexmaptype ix of
        uniquebool \<Rightarrow> getnotequal_unique input (boolIx ix) ret
      | nonuniquebool \<Rightarrow> getnotequal_nonunique input (boolIx ix) ret
      | unorderedbool \<Rightarrow> getnotequal_unordered input (boolIx ix) ret
      | _ \<Rightarrow> Inr ret)"

definition getnotequal_float :: "index \<Rightarrow> ldouble \<Rightarrow> indexEntries \<Rightarrow> indexEntries res" where
  "getnotequal_float ix input0 ret =
     (let input = ld_key input0 in case indexmaptype ix of
        uniquefloat \<Rightarrow> getnotequal_unique input (floatIx ix) ret
      | nonuniquefloat \<Rightarrow> getnotequal_nonunique input (floatIx ix) ret
      | unorderedfloat \<Rightarrow> getnotequal_unordered input (floatIx ix) ret
      | _ \<Rightarrow> Inr ret)"

definition getnotequal_char :: "index \<Rightarrow> i8 \<Rightarrow> indexEntries \<Rightarrow> indexEntries res" where
  "getnotequal_char ix input ret =
     (case indexmaptype ix of
        uniquechar \<Rightarrow> getnotequal_unique input (charIx ix) ret
      | nonuniquechar \<Rightarrow> getnotequal_nonunique input (charIx ix) ret
      | unorderedchar \<Rightarrow> getnotequal_unordered input (charIx ix) ret
      | _ \<Rightarrow> Inr ret)"

definition getnotequal_string :: "index \<Rightarrow> bytes \<Rightarrow> indexEntries \<Rightarrow> indexEntries res" where
  "getnotequal_string ix input0 ret =
     (let input = trimspace input0 in case indexmaptype ix of
        uniquecharx \<Rightarrow> getnotequal_unique input (stringIx ix) ret
      | nonuniquecharx \<Rightarrow> getnotequal_nonunique input (stringIx ix) ret
      | unorderedcharx \<Rightarrow> getnotequal_unordered input (stringIx ix) ret
      | uniquevarchar \<Rightarrow> getnotequal_unique input (stringIx ix) ret
      | nonuniquevarchar \<Rightarrow> getnotequal_nonunique input (stringIx ix) ret
      | unorderedvarchar \<Rightarrow> getnotequal_unordered input (stringIx ix) ret
      | _ \<Rightarrow> Inr ret)"

subsection \<open>comparison\<close>

definition comparison_int :: "index \<Rightarrow> i64 \<Rightarrow> operatortype \<Rightarrow> indexEntries \<Rightarrow> indexEntries res" where
  "comparison_int ix input op ret =
     (case indexmaptype ix of
        uniqueint \<Rightarrow> comparison_unique1 input op (intIx ix) ret
      | nonuniqueint \<Rightarrow> comparison_nonunique1 input op (intIx ix) ret
      | unorderedint \<Rightarrow> Inr ret
      | _ \<Rightarrow> Inr ret)"

definition comparison_uint :: "index \<Rightarrow> u64 \<Rightarrow> operatortype \<Rightarrow> indexEntries \<Rightarrow> indexEntries res" where
  "comparison_uint ix input op ret =
     (case indexmaptype ix of
        uniqueuint \<Rightarrow> comparison_unique2 input op (uintIx ix) ret
      | nonuniqueuint \<Rightarrow> comparison_nonunique2 input op (uintIx ix) ret
      | unordereduint \<Rightarrow> Inr ret
      | _ \<Rightarrow> Inr ret)"

definition comparison_bool :: "index \<Rightarrow> bool \<Rightarrow> operatortype \<Rightarrow> indexEntries \<Rightarrow> indexEntries res" where
  "comparison_bool ix input op ret =
     (case indexmaptype ix of
        uniquebool \<Rightarrow> comparison_unique2 input op (boolIx ix) ret
      | nonuniquebool \<Rightarrow> comparison_nonunique2 input op (boolIx ix) ret
      | unorderedbool \<Rightarrow> Inr ret
      | _ \<Rightarrow> Inr ret)"

definition comparison_float :: "index \<Rightarrow> ldouble \<Rightarrow> operatortype \<Rightarrow> indexEntries \<Rightarrow> indexEntries res" where
  "comparison_float ix input0 op ret =
     (let input = ld_key input0 in case indexmaptype ix of
        uniquefloat \<Rightarrow> comparison_unique1 input op (floatIx ix) ret
      | nonuniquefloat \<Rightarrow> comparison_nonunique1 input op (floatIx ix) ret
      | unorderedfloat \<Rightarrow> Inr ret
      | _ \<Rightarrow> Inr ret)"

definition comparison_char :: "index \<Rightarrow> i8 \<Rightarrow> operatortype \<Rightarrow> indexEntries \<Rightarrow> indexEntries res" where
  "comparison_char ix input op ret =
     (case indexmaptype ix of
        uniquechar \<Rightarrow> comparison_unique1 input op (charIx ix) ret
      | nonuniquechar \<Rightarrow> comparison_nonunique1 input op (charIx ix) ret
      | unorderedchar \<Rightarrow> Inr ret
      | _ \<Rightarrow> Inr ret)"

definition comparison_string :: "index \<Rightarrow> bytes \<Rightarrow> operatortype \<Rightarrow> indexEntries \<Rightarrow> indexEntries res" where
  "comparison_string ix input0 op ret =
     (let input = trimspace input0 in case indexmaptype ix of
        uniquecharx \<Rightarrow> comparison_unique1 input op (stringIx ix) ret
      | nonuniquecharx \<Rightarrow> comparison_nonunique1 input op (stringIx ix) ret
      | unorderedcharx \<Rightarrow> Inr ret
      | uniquevarchar \<Rightarrow> comparison_unique1 input op (stringIx ix) ret
      | nonuniquevarchar \<Rightarrow> comparison_nonunique1 input op (stringIx ix) ret
      | unorderedvarchar \<Rightarrow> Inr ret
      | _ \<Rightarrow> Inr ret)"

subsection \<open>between and notbetween\<close>

definition between_int :: "index \<Rightarrow> i64 \<Rightarrow> i64 \<Rightarrow> indexEntries \<Rightarrow> indexEntries res" where
  "between_int ix lower upper ret =
     (case indexmaptype ix of
        uniqueint \<Rightarrow> between_unique1 lower upper (intIx ix) ret
      | nonuniqueint \<Rightarrow> between_nonunique1 lower upper (intIx ix) ret
      | _ \<Rightarrow> Inr ret)"

definition between_uint :: "index \<Rightarrow> u64 \<Rightarrow> u64 \<Rightarrow> indexEntries \<Rightarrow> indexEntries res" where
  "between_uint ix lower upper ret =
     (case indexmaptype ix of
        uniqueuint \<Rightarrow> between_unique2 lower upper (uintIx ix) ret
      | nonuniqueuint \<Rightarrow> between_nonunique2 lower upper (uintIx ix) ret
      | _ \<Rightarrow> Inr ret)"

definition between_bool :: "index \<Rightarrow> bool \<Rightarrow> bool \<Rightarrow> indexEntries \<Rightarrow> indexEntries res" where
  "between_bool ix lower upper ret = Inr ret"

definition between_float :: "index \<Rightarrow> ldouble \<Rightarrow> ldouble \<Rightarrow> indexEntries \<Rightarrow> indexEntries res" where
  "between_float ix lower0 upper0 ret =
     (let lower = ld_key lower0; upper = ld_key upper0 in case indexmaptype ix of
        uniquefloat \<Rightarrow> between_unique1 lower upper (floatIx ix) ret
      | nonuniquefloat \<Rightarrow> between_nonunique1 lower upper (floatIx ix) ret
      | _ \<Rightarrow> Inr ret)"

definition between_char :: "index \<Rightarrow> i8 \<Rightarrow> i8 \<Rightarrow> indexEntries \<Rightarrow> indexEntries res" where
  "between_char ix lower upper ret =
     (case indexmaptype ix of
        uniquechar \<Rightarrow> between_unique1 lower upper (charIx ix) ret
      | nonuniquechar \<Rightarrow> between_nonunique1 lower upper (charIx ix) ret
      | _ \<Rightarrow> Inr ret)"

definition between_string :: "index \<Rightarrow> bytes \<Rightarrow> bytes \<Rightarrow> indexEntries \<Rightarrow> indexEntries res" where
  "between_string ix lower0 upper0 ret =
     (let lower = trimspace lower0; upper = trimspace upper0 in case indexmaptype ix of
        uniquecharx \<Rightarrow> between_unique1 lower upper (stringIx ix) ret
      | nonuniquecharx \<Rightarrow> between_nonunique1 lower upper (stringIx ix) ret
      | uniquevarchar \<Rightarrow> between_unique1 lower upper (stringIx ix) ret
      | nonuniquevarchar \<Rightarrow> between_nonunique1 lower upper (stringIx ix) ret
      | _ \<Rightarrow> Inr ret)"

text \<open>The template of \<open>Index.h\<close> over the overloads of \<open>comparison\<close>.\<close>

definition notbetween :: "(index \<Rightarrow> 'a \<Rightarrow> operatortype \<Rightarrow> indexEntries \<Rightarrow> indexEntries res) \<Rightarrow>
    index \<Rightarrow> 'a \<Rightarrow> 'a \<Rightarrow> indexEntries \<Rightarrow> indexEntries res" where
  "notbetween comparison ix lower upper ret =
     rbind (comparison ix lower OPERATOR_LT ret) (comparison ix upper OPERATOR_GT)"

subsection \<open>getnotin\<close>

definition getnotin_int :: "index \<Rightarrow> i64 list \<Rightarrow> indexEntries \<Rightarrow> indexEntries res" where
  "getnotin_int ix entries ret =
     (case indexmaptype ix of
        uniqueint \<Rightarrow> getnotin_unique (\<lambda>key. key \<in> set entries) (intIx ix) ret
      | unorderedint \<Rightarrow> getnotin_unordered (\<lambda>key. key \<in> set entries) (intIx ix) ret
      | nonuniqueint \<Rightarrow> getnotin_nonunique (\<lambda>key. key \<in> set entries) (intIx ix) ret
      | _ \<Rightarrow> Inr ret)"

definition getnotin_uint :: "index \<Rightarrow> u64 list \<Rightarrow> indexEntries \<Rightarrow> indexEntries res" where
  "getnotin_uint ix entries ret =
     (case indexmaptype ix of
        uniqueuint \<Rightarrow> getnotin_unique (\<lambda>key. key \<in> set entries) (uintIx ix) ret
      | unordereduint \<Rightarrow> getnotin_unordered (\<lambda>key. key \<in> set entries) (uintIx ix) ret
      | nonuniqueuint \<Rightarrow> getnotin_nonunique (\<lambda>key. key \<in> set entries) (uintIx ix) ret
      | _ \<Rightarrow> Inr ret)"

definition getnotin_bool :: "index \<Rightarrow> bool list \<Rightarrow> indexEntries \<Rightarrow> indexEntries res" where
  "getnotin_bool ix entries ret =
     (case indexmaptype ix of
        uniquebool \<Rightarrow> getnotin_unique (\<lambda>key. key \<in> set entries) (boolIx ix) ret
      | unorderedbool \<Rightarrow> getnotin_unordered (\<lambda>key. key \<in> set entries) (boolIx ix) ret
      | nonuniquebool \<Rightarrow> getnotin_nonunique (\<lambda>key. key \<in> set entries) (boolIx ix) ret
      | _ \<Rightarrow> Inr ret)"

definition getnotin_float :: "index \<Rightarrow> ldouble list \<Rightarrow> indexEntries \<Rightarrow> indexEntries res" where
  "getnotin_float ix entries0 ret =
     (let entries = map ld_key entries0 in case indexmaptype ix of
        uniquefloat \<Rightarrow> getnotin_unique (\<lambda>key. key \<in> set entries) (floatIx ix) ret
      | unorderedfloat \<Rightarrow> getnotin_unordered (\<lambda>key. key \<in> set entries) (floatIx ix) ret
      | nonuniquefloat \<Rightarrow> getnotin_nonunique (\<lambda>key. key \<in> set entries) (floatIx ix) ret
      | _ \<Rightarrow> Inr ret)"

definition getnotin_char :: "index \<Rightarrow> i8 list \<Rightarrow> indexEntries \<Rightarrow> indexEntries res" where
  "getnotin_char ix entries ret =
     (case indexmaptype ix of
        uniquechar \<Rightarrow> getnotin_unique (\<lambda>key. key \<in> set entries) (charIx ix) ret
      | unorderedchar \<Rightarrow> getnotin_unordered (\<lambda>key. key \<in> set entries) (charIx ix) ret
      | nonuniquechar \<Rightarrow> getnotin_nonunique (\<lambda>key. key \<in> set entries) (charIx ix) ret
      | _ \<Rightarrow> Inr ret)"

text \<open>
  The \<open>string\<close> overload trims each entry as it reaches it, in three of its six loops only.
\<close>

definition getnotin_string :: "index \<Rightarrow> bytes list \<Rightarrow> indexEntries \<Rightarrow> indexEntries res" where
  "getnotin_string ix entries ret =
     (case indexmaptype ix of
        uniquecharx \<Rightarrow> getnotin_unique (\<lambda>key. key \<in> set (map trimspace entries)) (stringIx ix) ret
      | unorderedcharx \<Rightarrow> getnotin_unordered (\<lambda>key. key \<in> set entries) (stringIx ix) ret
      | nonuniquecharx \<Rightarrow> getnotin_nonunique (\<lambda>key. key \<in> set (map trimspace entries)) (stringIx ix) ret
      | uniquevarchar \<Rightarrow> getnotin_unique (\<lambda>key. key \<in> set (map trimspace entries)) (stringIx ix) ret
      | unorderedvarchar \<Rightarrow> getnotin_unordered (\<lambda>key. key \<in> set entries) (stringIx ix) ret
      | nonuniquevarchar \<Rightarrow> getnotin_nonunique (\<lambda>key. key \<in> set entries) (stringIx ix) ret
      | _ \<Rightarrow> Inr ret)"

subsection \<open>getnotnulls, getnulls and getall\<close>

definition getnotnulls :: "index \<Rightarrow> indexEntries \<Rightarrow> indexEntries res" where
  "getnotnulls ix ret =
     (case indexmaptype ix of
        uniqueint \<Rightarrow> getnotnulls_unique (intIx ix) ret
      | nonuniqueint \<Rightarrow> getnotnulls_nonunique (intIx ix) ret
      | unorderedint \<Rightarrow> getnotnulls_unordered (intIx ix) ret
      | uniqueuint \<Rightarrow> getnotnulls_unique (uintIx ix) ret
      | nonuniqueuint \<Rightarrow> getnotnulls_nonunique (uintIx ix) ret
      | unordereduint \<Rightarrow> getnotnulls_unordered (uintIx ix) ret
      | uniquebool \<Rightarrow> getnotnulls_unique (boolIx ix) ret
      | nonuniquebool \<Rightarrow> getnotnulls_nonunique (boolIx ix) ret
      | unorderedbool \<Rightarrow> getnotnulls_unordered (boolIx ix) ret
      | uniquefloat \<Rightarrow> getnotnulls_unique (floatIx ix) ret
      | nonuniquefloat \<Rightarrow> getnotnulls_nonunique (floatIx ix) ret
      | unorderedfloat \<Rightarrow> getnotnulls_unordered (floatIx ix) ret
      | uniquechar \<Rightarrow> getnotnulls_unique (charIx ix) ret
      | nonuniquechar \<Rightarrow> getnotnulls_nonunique (charIx ix) ret
      | unorderedchar \<Rightarrow> getnotnulls_unordered (charIx ix) ret
      | uniquecharx \<Rightarrow> getnotnulls_unique (stringIx ix) ret
      | nonuniquecharx \<Rightarrow> getnotnulls_nonunique (stringIx ix) ret
      | unorderedcharx \<Rightarrow> getnotnulls_unordered (stringIx ix) ret
      | uniquevarchar \<Rightarrow> getnotnulls_unique (stringIx ix) ret
      | nonuniquevarchar \<Rightarrow> getnotnulls_nonunique (stringIx ix) ret
      | unorderedvarchar \<Rightarrow> getnotnulls_unordered (stringIx ix) ret
      | noindexmaptype \<Rightarrow> Inr ret)"

text \<open>\<open>nulls\<close> is iterated in the order of the set's elements.\<close>

definition getnulls :: "index \<Rightarrow> indexEntries \<Rightarrow> indexEntries" where
  "getnulls ix ret =
     (if notNull ix then ret
      else ret @ map (\<lambda>v. \<lparr>nl_rowid = fst v, nl_engineid = int16 (snd v)\<rparr>) (nulls ix))"

definition getall :: "index \<Rightarrow> indexEntries \<Rightarrow> indexEntries res" where
  "getall ix ret = rbind (getnotnulls ix ret) (\<lambda>ret1. Inr (getnulls ix ret1))"

subsection \<open>regex, like and notlike\<close>

text \<open>
  The match is PCRE's \<open>FullMatch\<close>, a parameter: pattern first, then the subject.
  \<open>getIterators\<close> narrows the search on an ordered map to the keys that start with the
  characters before the first special one. It leaves the iterators of the caller unassigned
  (\<open>None\<close>) for an empty pattern, and indexes an empty string for the pattern \<open>^\<close>. The
  bytes are \<open>char\<close>: the test against 255 is a test of a signed byte, and the increment of
  the last byte wraps around.
\<close>

definition regex_special :: "byte list" where
  "regex_special = [91, 92, 94, 36, 46, 124, 63, 42, 43, 40, 41]"   \<comment> \<open>\<open>[\^$.|?*+()\<close>\<close>

definition regex_start :: "bytes \<Rightarrow> bytes" where
  "regex_start regexStr = (if regexStr \<noteq> [] \<and> hd regexStr = 94 then tl regexStr else regexStr)"

definition regex_literal :: "bytes \<Rightarrow> bytes" where
  "regex_literal regexStr = takeWhile (\<lambda>c. c \<notin> set regex_special) (regex_start regexStr)"

definition regex_end :: "bytes \<Rightarrow> bytes" where
  "regex_end beginStr =
     (if sint (last beginStr) = 255 then beginStr @ [1]
      else butlast beginStr @ [last beginStr + 1])"

definition getIterators :: "bytes \<Rightarrow> (bytes \<times> 'v) list \<Rightarrow> nat option \<Rightarrow> nat option \<Rightarrow>
    (nat option \<times> nat option) res" where
  "getIterators regexStr m itBegin itEnd =
     (if regexStr = [] then Inr (itBegin, itEnd)
      else let beginStr = regex_literal regexStr
           in if regex_start regexStr \<noteq> [] \<and> beginStr = [] then Inr (Some 0, Some (length m))
              else if beginStr = [] then Inl OutOfRange   \<comment> \<open>\<open>endStr[endStr.size() - 1]\<close>\<close>
              else let found = map_find beginStr m;
                       b = (if found = length m then upper_bound beginStr m else found)
                   in Inr (Some b, Some (lower_bound (regex_end beginStr) m)))"

definition regex_range :: "bytes \<Rightarrow> (bytes \<times> 'v) list \<Rightarrow> (bytes \<times> 'v) list res" where
  "regex_range regexStr m =
     rbind (getIterators regexStr m None None) (\<lambda>(itBegin, itEnd).
       case (itBegin, itEnd) of
         (Some b, Some e) \<Rightarrow> iter_range b e m
       | _ \<Rightarrow> Inl UninitIter)"

definition regex_unique :: "(bytes \<Rightarrow> bytes \<Rightarrow> bool) \<Rightarrow> bytes \<Rightarrow> bytes typed_index \<Rightarrow>
    indexEntries \<Rightarrow> indexEntries res" where
  "regex_unique fullMatch re t ret =
     rbind (deref (uniqueIdx t)) (\<lambda>m. rbind (regex_range re m) (\<lambda>rng.
       Inr (ret @ map (\<lambda>q. nl_of (snd q)) (filter (\<lambda>q. fullMatch re (fst q)) rng))))"

definition regex_nonunique :: "(bytes \<Rightarrow> bytes \<Rightarrow> bool) \<Rightarrow> bytes \<Rightarrow> bytes typed_index \<Rightarrow>
    indexEntries \<Rightarrow> indexEntries res" where
  "regex_nonunique fullMatch re t ret =
     rbind (deref (nonuniqueIdx t)) (\<lambda>m. rbind (regex_range re m) (\<lambda>rng.
       Inr (ret @ map snd (filter (\<lambda>q. fullMatch re (fst q)) rng))))"

definition regex_unordered :: "(bytes \<Rightarrow> bytes \<Rightarrow> bool) \<Rightarrow> bytes \<Rightarrow> bytes typed_index \<Rightarrow>
    indexEntries \<Rightarrow> indexEntries res" where
  "regex_unordered fullMatch re t ret = scan_locking (fullMatch re) (unorderedIdx t) ret"

definition regex :: "(bytes \<Rightarrow> bytes \<Rightarrow> bool) \<Rightarrow> index \<Rightarrow> bytes \<Rightarrow> indexEntries \<Rightarrow> indexEntries res" where
  "regex fullMatch ix regexStr ret =
     (case indexmaptype ix of
        uniquecharx \<Rightarrow> regex_unique fullMatch regexStr (stringIx ix) ret
      | unorderedcharx \<Rightarrow> regex_unordered fullMatch regexStr (stringIx ix) ret
      | nonuniquecharx \<Rightarrow> regex_nonunique fullMatch regexStr (stringIx ix) ret
      | uniquevarchar \<Rightarrow> regex_unique fullMatch regexStr (stringIx ix) ret
      | unorderedvarchar \<Rightarrow> regex_unordered fullMatch regexStr (stringIx ix) ret
      | nonuniquevarchar \<Rightarrow> regex_nonunique fullMatch regexStr (stringIx ix) ret
      | _ \<Rightarrow> Inr ret)"

definition like :: "(bytes \<Rightarrow> bytes \<Rightarrow> bool) \<Rightarrow> index \<Rightarrow> bytes \<Rightarrow> indexEntries \<Rightarrow> indexEntries res" where
  "like fullMatch ix likeStr ret = regex fullMatch ix (like2Regex (trimspace likeStr)) ret"

text \<open>\<open>likeStr.insert(0, "^((?!")\<close> and \<open>likeStr.append(").)*$")\<close>\<close>

definition notlike :: "(bytes \<Rightarrow> bytes \<Rightarrow> bool) \<Rightarrow> index \<Rightarrow> bytes \<Rightarrow> indexEntries \<Rightarrow> indexEntries res" where
  "notlike fullMatch ix likeStr ret =
     regex fullMatch ix
       ([94, 40, 40, 63, 33] @ like2Regex (trimspace likeStr) @ [41, 46, 41, 42, 36]) ret"

end
