(* ===== verification/Index_Queries.thy ===== *)
theory Index_Queries
  imports Index_Search "HOL-Library.Sublist"
begin

text \<open>
  What the searches promise. The content of an index is the list of its key and row entries in
  the order its map is iterated; a search with a predicate on keys must append exactly the
  entries whose key satisfies it (\<open>hits\<close>). The lemmas show it body by body, then for every
  overload; the two bodies that drifted (\<open>uint64_t\<close> and \<open>bool\<close>) and the narrowed range
  of a regular expression are characterised as they are.
\<close>

section \<open>Specification\<close>

definition hits :: "('k \<Rightarrow> bool) \<Rightarrow> ('k \<times> nonLockingIndexEntry) list \<Rightarrow> indexEntries" where
  "hits P es = map snd (filter (\<lambda>p. P (fst p)) es)"

definition locking_pairs :: "('k \<times> lockingIndexEntry) list option \<Rightarrow>
    ('k \<times> nonLockingIndexEntry) list" where
  "locking_pairs p = (case p of None \<Rightarrow> [] | Some m \<Rightarrow> map (\<lambda>q. (fst q, nl_of (snd q))) m)"

definition nonlocking_pairs :: "('k \<times> nonLockingIndexEntry) list option \<Rightarrow>
    ('k \<times> nonLockingIndexEntry) list" where
  "nonlocking_pairs p = (case p of None \<Rightarrow> [] | Some m \<Rightarrow> m)"

definition int_entries :: "index \<Rightarrow> (i64 \<times> nonLockingIndexEntry) list" where
  "int_entries ix =
     (case indexmaptype ix of
        uniqueint \<Rightarrow> locking_pairs (uniqueIdx (intIx ix))
      | nonuniqueint \<Rightarrow> nonlocking_pairs (nonuniqueIdx (intIx ix))
      | unorderedint \<Rightarrow> locking_pairs (unorderedIdx (intIx ix))
      | _ \<Rightarrow> [])"

definition uint_entries :: "index \<Rightarrow> (u64 \<times> nonLockingIndexEntry) list" where
  "uint_entries ix =
     (case indexmaptype ix of
        uniqueuint \<Rightarrow> locking_pairs (uniqueIdx (uintIx ix))
      | nonuniqueuint \<Rightarrow> nonlocking_pairs (nonuniqueIdx (uintIx ix))
      | unordereduint \<Rightarrow> locking_pairs (unorderedIdx (uintIx ix))
      | _ \<Rightarrow> [])"

definition bool_entries :: "index \<Rightarrow> (bool \<times> nonLockingIndexEntry) list" where
  "bool_entries ix =
     (case indexmaptype ix of
        uniquebool \<Rightarrow> locking_pairs (uniqueIdx (boolIx ix))
      | nonuniquebool \<Rightarrow> nonlocking_pairs (nonuniqueIdx (boolIx ix))
      | unorderedbool \<Rightarrow> locking_pairs (unorderedIdx (boolIx ix))
      | _ \<Rightarrow> [])"

definition float_entries :: "index \<Rightarrow> (int \<times> nonLockingIndexEntry) list" where
  "float_entries ix =
     (case indexmaptype ix of
        uniquefloat \<Rightarrow> locking_pairs (uniqueIdx (floatIx ix))
      | nonuniquefloat \<Rightarrow> nonlocking_pairs (nonuniqueIdx (floatIx ix))
      | unorderedfloat \<Rightarrow> locking_pairs (unorderedIdx (floatIx ix))
      | _ \<Rightarrow> [])"

definition char_entries :: "index \<Rightarrow> (i8 \<times> nonLockingIndexEntry) list" where
  "char_entries ix =
     (case indexmaptype ix of
        uniquechar \<Rightarrow> locking_pairs (uniqueIdx (charIx ix))
      | nonuniquechar \<Rightarrow> nonlocking_pairs (nonuniqueIdx (charIx ix))
      | unorderedchar \<Rightarrow> locking_pairs (unorderedIdx (charIx ix))
      | _ \<Rightarrow> [])"

definition string_entries :: "index \<Rightarrow> (bytes \<times> nonLockingIndexEntry) list" where
  "string_entries ix =
     (case indexmaptype ix of
        uniquecharx \<Rightarrow> locking_pairs (uniqueIdx (stringIx ix))
      | nonuniquecharx \<Rightarrow> nonlocking_pairs (nonuniqueIdx (stringIx ix))
      | unorderedcharx \<Rightarrow> locking_pairs (unorderedIdx (stringIx ix))
      | uniquevarchar \<Rightarrow> locking_pairs (uniqueIdx (stringIx ix))
      | nonuniquevarchar \<Rightarrow> nonlocking_pairs (nonuniqueIdx (stringIx ix))
      | unorderedvarchar \<Rightarrow> locking_pairs (unorderedIdx (stringIx ix))
      | _ \<Rightarrow> [])"

text \<open>The comparison an operator stands for, the entry's key on the left.\<close>

fun op_test :: "operatortype \<Rightarrow> 'k::linorder \<Rightarrow> 'k \<Rightarrow> bool" where
  "op_test OPERATOR_LT v key = (key < v)"
| "op_test OPERATOR_LTE v key = (key \<le> v)"
| "op_test OPERATOR_GT v key = (v < key)"
| "op_test OPERATOR_GTE v key = (v \<le> key)"
| "op_test _ v key = False"

definition order_op :: "operatortype \<Rightarrow> bool" where
  "order_op op \<longleftrightarrow> op \<in> {OPERATOR_LT, OPERATOR_LTE, OPERATOR_GT, OPERATOR_GTE}"

lemmas entries_defs = int_entries_def uint_entries_def bool_entries_def float_entries_def
  char_entries_def string_entries_def

lemma hits_locking [simp]:
  "hits P (locking_pairs (Some m)) = map (\<lambda>q. nl_of (snd q)) (filter (\<lambda>q. P (fst q)) m)"
  by (simp add: hits_def locking_pairs_def filter_map o_def)

lemma hits_nonlocking [simp]:
  "hits P (nonlocking_pairs (Some m)) = map snd (filter (\<lambda>q. P (fst q)) m)"
  by (simp add: hits_def nonlocking_pairs_def)

lemma hits_Nil [simp]: "hits P [] = []"
  by (simp add: hits_def)

section \<open>Bodies\<close>

lemma hits_key:
  "distinct (map fst m) \<Longrightarrow>
   hits (\<lambda>key. key = k) (locking_pairs (Some m)) =
     (case map_of m k of None \<Rightarrow> [] | Some e \<Rightarrow> [nl_of e])"
  by (simp add: filter_fst_distinct split: option.splits)

lemma filter_split_sorted:
  assumes "mm_ok m" "down_closed P"
  shows "filter (\<lambda>q. Q (fst q)) m
    = filter (\<lambda>q. P (fst q) \<and> Q (fst q)) m @ filter (\<lambda>q. \<not> P (fst q) \<and> Q (fst q)) m"
proof -
  have "m = filter (\<lambda>q. P (fst q)) m @ filter (\<lambda>q. \<not> P (fst q)) m"
    using takeWhile_dropWhile_id [of "\<lambda>q. P (fst q)" m]
    by (simp only: takeWhile_sorted [OF assms] dropWhile_sorted [OF assms])
  then have "filter (\<lambda>q. Q (fst q)) m
      = filter (\<lambda>q. Q (fst q)) (filter (\<lambda>q. P (fst q)) m @ filter (\<lambda>q. \<not> P (fst q)) m)"
    by (rule arg_cong)
  then show ?thesis by (simp add: conj_commute)
qed

lemma getequal_unique_hits:
  assumes "unique_ready t"
  shows "getequal_unique k t ret = Inr (ret @ hits (\<lambda>key. key = k) (locking_pairs (uniqueIdx t)))"
proof -
  obtain m where "uniqueIdx t = Some m" "sm_ok m" using assms by (auto simp: unique_ready_def)
  then show ?thesis
    using hits_key [OF sm_ok_distinct, of m k]
    by (simp add: getequal_unique_def getequal_locking_def map_count_def map_at_def
        split: option.splits del: hits_locking)
qed

lemma getequal_unordered_hits:
  assumes "unordered_ready t"
  shows "getequal_unordered k t ret =
    Inr (ret @ hits (\<lambda>key. key = k) (locking_pairs (unorderedIdx t)))"
proof -
  obtain m where "unorderedIdx t = Some m" "um_ok m" using assms by (auto simp: unordered_ready_def)
  then show ?thesis
    using hits_key [of m k]
    by (auto simp add: getequal_unordered_def getequal_locking_def map_count_def map_at_def um_ok_def
        simp del: hits_locking map_of_eq_None_iff split: option.splits)
qed

lemma getequal_nonunique_hits:
  "nonunique_ready t \<Longrightarrow>
   getequal_nonunique k t ret = Inr (ret @ hits (\<lambda>key. key = k) (nonlocking_pairs (nonuniqueIdx t)))"
  by (auto simp: nonunique_ready_def getequal_nonunique_def equal_range_filter)

lemma scan_hits:
  "unique_ready t \<Longrightarrow>
   scan_locking P (uniqueIdx t) ret = Inr (ret @ hits P (locking_pairs (uniqueIdx t)))"
  "unordered_ready t' \<Longrightarrow>
   scan_locking P (unorderedIdx t') ret = Inr (ret @ hits P (locking_pairs (unorderedIdx t')))"
  "nonunique_ready t \<Longrightarrow>
   scan_nonlocking P (nonuniqueIdx t) ret = Inr (ret @ hits P (nonlocking_pairs (nonuniqueIdx t)))"
  by (auto simp: unique_ready_def unordered_ready_def nonunique_ready_def scan_locking_def
      scan_nonlocking_def)

lemmas scan_bodies = getnotequal_unique_def getnotequal_nonunique_def getnotequal_unordered_def
  getnotnulls_unique_def getnotnulls_nonunique_def getnotnulls_unordered_def
  getnotin_unique_def getnotin_nonunique_def getnotin_unordered_def

lemma comparison_range_test:
  assumes "mm_ok m" "order_op op"
  shows "\<exists>range. comparison_range v op m = Inr range
           \<and> skip_equal v op range = filter (\<lambda>q. op_test op v (fst q)) m"
proof -
  have "op = OPERATOR_LT \<or> op = OPERATOR_LTE \<or> op = OPERATOR_GT \<or> op = OPERATOR_GTE"
    using assms(2) by (auto simp: order_op_def)
  then show ?thesis
    by (elim disjE)
      (auto simp: comparison_range_def skip_equal_def range_to_upper [OF assms(1)]
        range_from_lower [OF assms(1)] intro!: filter_cong)
qed

lemma comparison_unique1_hits:
  assumes "unique_ready t" "order_op op"
  shows "comparison_unique1 v op t ret = Inr (ret @ hits (op_test op v) (locking_pairs (uniqueIdx t)))"
proof -
  obtain m where "uniqueIdx t = Some m" "sm_ok m" using assms by (auto simp: unique_ready_def)
  then show ?thesis
    using comparison_range_test [OF sm_ok_mm_ok assms(2), of m v]
    by (auto simp: comparison_unique1_def)
qed

lemma comparison_nonunique1_hits:
  assumes "nonunique_ready t" "order_op op"
  shows "comparison_nonunique1 v op t ret =
    Inr (ret @ hits (op_test op v) (nonlocking_pairs (nonuniqueIdx t)))"
proof -
  obtain m where "nonuniqueIdx t = Some m" "mm_ok m" using assms by (auto simp: nonunique_ready_def)
  then show ?thesis
    using comparison_range_test [OF _ assms(2), of m v]
    by (auto simp: comparison_nonunique1_def)
qed

text \<open>The drifted body: what each operator returns there.\<close>

fun op_test2 :: "operatortype \<Rightarrow> 'k::linorder \<Rightarrow> 'k \<Rightarrow> bool" where
  "op_test2 OPERATOR_GT v key = (v < key)"
| "op_test2 OPERATOR_LTE v key = (key = v)"
| "op_test2 _ v key = False"

lemma comparison_unique2_hits:
  assumes "unique_ready t" "order_op op"
  shows "comparison_unique2 v op t ret = Inr (ret @ hits (op_test2 op v) (locking_pairs (uniqueIdx t)))"
proof -
  obtain m where m: "uniqueIdx t = Some m" "sm_ok m" using assms by (auto simp: unique_ready_def)
  have ok: "mm_ok m" using m(2) by (rule sm_ok_mm_ok)
  have "op = OPERATOR_LT \<or> op = OPERATOR_LTE \<or> op = OPERATOR_GT \<or> op = OPERATOR_GTE"
    using assms(2) by (auto simp: order_op_def)
  then show ?thesis
    using m hits_key [OF sm_ok_distinct [OF m(2)], of v]
    by (elim disjE)
      (auto simp: comparison_unique2_def comparison_range_def Let_def range_to_upper [OF ok]
        range_from_lower [OF ok] map_count_def map_at_def
        split: option.splits intro!: arg_cong [where f = "map _"] filter_cong)
qed

lemma comparison_nonunique2_hits:
  assumes "nonunique_ready t" "order_op op"
  shows "comparison_nonunique2 v op t ret =
    Inr (ret @ hits (op_test2 op v) (nonlocking_pairs (nonuniqueIdx t)))"
proof -
  obtain m where m: "nonuniqueIdx t = Some m" "mm_ok m" using assms by (auto simp: nonunique_ready_def)
  have "op = OPERATOR_LT \<or> op = OPERATOR_LTE \<or> op = OPERATOR_GT \<or> op = OPERATOR_GTE"
    using assms(2) by (auto simp: order_op_def)
  then show ?thesis
    using m
    by (elim disjE)
      (auto simp: comparison_nonunique2_def comparison_range_def Let_def range_to_upper
        range_from_lower equal_range_filter intro!: arg_cong [where f = "map _"] filter_cong)
qed

lemma between_unique1_hits:
  assumes "unique_ready t"
  shows "between_unique1 l u t ret =
    Inr (ret @ hits (\<lambda>key. l \<le> key \<and> key \<le> u) (locking_pairs (uniqueIdx t)))"
proof -
  obtain m where m: "uniqueIdx t = Some m" "sm_ok m" using assms by (auto simp: unique_ready_def)
  have ok: "mm_ok m" using m(2) by (rule sm_ok_mm_ok)
  note key = hits_key [OF sm_ok_distinct [OF m(2)]]
  show ?thesis
  proof (cases "l < u")
    case True
    have "filter (\<lambda>q. l \<le> fst q \<and> fst q \<le> u) m
        = filter (\<lambda>q. l \<le> fst q \<and> fst q < u) m @ filter (\<lambda>q. fst q = u) m"
      using True
      by (subst filter_split_sorted [OF ok, of "\<lambda>x. x < u"])
        (auto intro!: arg_cong2 [where f = append] filter_cong)
    then show ?thesis
      using True m key [of u]
      by (auto simp: between_unique1_def range_lower_lower [OF ok] map_count_def map_at_def Let_def
          split: option.splits)
  next
    case False
    show ?thesis
    proof (cases "l = u")
      case True
      have "(\<lambda>q :: 'a \<times> lockingIndexEntry. l \<le> fst q \<and> fst q \<le> u) = (\<lambda>q. fst q = u)"
        using True by auto
      then show ?thesis
        using m key [of u] True
        by (auto simp: between_unique1_def map_count_def map_at_def Let_def split: option.splits)
    next
      case ne: False
      have "filter (\<lambda>q. l \<le> fst q \<and> fst q \<le> u) m = []"
        using False ne by (auto simp: filter_empty_conv)
      then show ?thesis
        using False ne m by (auto simp: between_unique1_def Let_def)
    qed
  qed
qed

lemma between_nonunique1_hits:
  assumes "nonunique_ready t"
  shows "between_nonunique1 l u t ret =
    Inr (ret @ hits (\<lambda>key. l \<le> key \<and> key \<le> u) (nonlocking_pairs (nonuniqueIdx t)))"
proof -
  obtain m where m: "nonuniqueIdx t = Some m" "mm_ok m" using assms by (auto simp: nonunique_ready_def)
  show ?thesis
  proof (cases "l \<le> u")
    case True
    then show ?thesis
      using m by (auto simp: between_nonunique1_def range_lower_upper
          intro!: arg_cong [where f = "map _"] filter_cong)
  next
    case False
    then have "filter (\<lambda>q. l \<le> fst q \<and> fst q \<le> u) m = []"
      by (auto simp: filter_empty_conv)
    then show ?thesis
      using m False by (auto simp: between_nonunique1_def)
  qed
qed

text \<open>The drifted body of \<open>between\<close>: the upper bound is left out.\<close>

lemma between_unique2_hits:
  assumes "unique_ready t" "l < u"
  shows "between_unique2 l u t ret =
    Inr (ret @ hits (\<lambda>key. l \<le> key \<and> key < u) (locking_pairs (uniqueIdx t)))"
proof -
  obtain m where m: "uniqueIdx t = Some m" "sm_ok m" using assms by (auto simp: unique_ready_def)
  have ok: "mm_ok m" using m(2) by (rule sm_ok_mm_ok)
  have "filter (\<lambda>q. l \<le> fst q \<and> fst q < u) m
      = filter (\<lambda>q. fst q = l) m @ filter (\<lambda>q. l < fst q \<and> fst q < u) m"
    using assms(2)
    by (subst filter_split_sorted [OF ok, of "\<lambda>x. x \<le> l"])
      (auto intro!: arg_cong2 [where f = append] filter_cong)
  then show ?thesis
    using m assms(2) hits_key [OF sm_ok_distinct [OF m(2)], of l]
    by (auto simp: between_unique2_def range_upper_lower [OF ok] map_count_def map_at_def
        split: option.splits)
qed

lemma between_unique2_same:
  assumes "unique_ready t" "uniqueIdx t = Some m" "map_count k m"
  shows "between_unique2 k k t ret = Inl IterPastEnd"
proof -
  obtain e where e: "map_of m k = Some e" using assms(3) by (auto simp: map_count_def)
  have "mm_ok m" using assms by (auto simp: unique_ready_def intro: sm_ok_mm_ok)
  moreover have "k \<in> fst ` set m" using map_of_SomeD [OF e] by force
  ultimately have "lower_bound k m < upper_bound k m" by (rule bounds_same_key)
  then show ?thesis using assms e
    by (simp add: between_unique2_def iter_range_def map_count_def map_at_def)
qed

section \<open>Regular expressions\<close>

text \<open>
  The half-open range from \<open>beginStr\<close> to its successor holds the strings with that prefix,
  as long as the last byte has a successor.
\<close>

lemma less_end_prefix:
  fixes b k :: bytes
  assumes "b \<noteq> []" "last b \<noteq> - 1"
  shows "(b \<le> k \<and> k < butlast b @ [last b + 1]) = prefix b k"
  using assms
proof (induction b arbitrary: k)
  case (Cons x b)
  show ?case
  proof (cases k)
    case k: (Cons y l)
    show ?thesis
    proof (cases "b = []")
      case True
      have n: "x + 1 \<noteq> 0" using Cons.prems True by (simp add: eq_neg_iff_add_eq_0 [symmetric])
      then have u: "unat (x + 1) = Suc (unat x)" using unatSuc [of x] by (simp add: add.commute)
      then have "x < x + 1" "y < x + 1 \<longleftrightarrow> y \<le> x"
        by (simp_all add: word_less_nat_alt word_le_nat_alt less_Suc_eq_le)
      then show ?thesis using True k by auto
    next
      case False
      then show ?thesis using Cons.IH [of l] Cons.prems k by auto
    qed
  qed simp
qed simp

lemma regex_end_eq: "regex_end b = butlast b @ [last b + 1]"
  using sint_lt [of "last b"] by (simp add: regex_end_def)

text \<open>The patterns whose search range is the range of a prefix.\<close>

definition regex_searchable :: "bytes \<Rightarrow> bool" where
  "regex_searchable re \<longleftrightarrow>
     regex_start re \<noteq> [] \<and> (regex_literal re = [] \<or> last (regex_literal re) \<noteq> - 1)"

lemma regex_range_prefix:
  assumes "mm_ok m" "regex_searchable re"
  shows "regex_range re m = Inr (filter (\<lambda>q. prefix (regex_literal re) (fst q)) m)"
proof (cases "regex_literal re = []")
  case True
  then show ?thesis
    using assms(2)
    by (auto simp: regex_range_def getIterators_def regex_searchable_def regex_start_def
        iter_range_def split: if_splits)
next
  case False
  let ?b = "regex_literal re"
  have ne: "re \<noteq> []" using assms(2) by (auto simp: regex_searchable_def regex_start_def)
  have last: "last ?b \<noteq> - 1" using assms(2) False by (simp add: regex_searchable_def)
  have le: "?b \<le> regex_end ?b"
  proof -
    have "prefix ?b ?b" by simp
    then show ?thesis using less_end_prefix [OF False last, of ?b] by (simp add: regex_end_eq)
  qed
  have "regex_range re m = iter_range (lower_bound ?b m) (lower_bound (regex_end ?b) m) m"
    using ne False by (simp add: regex_range_def getIterators_def Let_def map_find_lower [OF assms(1)])
  also have "\<dots> = Inr (filter (\<lambda>q. ?b \<le> fst q \<and> fst q < regex_end ?b) m)"
    by (rule range_lower_lower [OF assms(1) le])
  finally show ?thesis by (simp add: regex_end_eq less_end_prefix [OF False last])
qed

lemma regex_bodies:
  assumes "regex_searchable re"
  shows "unique_ready t \<Longrightarrow> regex_unique fm re t ret =
      Inr (ret @ hits (\<lambda>key. prefix (regex_literal re) key \<and> fm re key) (locking_pairs (uniqueIdx t)))"
    and "nonunique_ready t \<Longrightarrow> regex_nonunique fm re t ret =
      Inr (ret @ hits (\<lambda>key. prefix (regex_literal re) key \<and> fm re key)
        (nonlocking_pairs (nonuniqueIdx t)))"
  by (auto simp: unique_ready_def nonunique_ready_def regex_unique_def regex_nonunique_def
      regex_range_prefix [OF sm_ok_mm_ok assms] regex_range_prefix [OF _ assms] conj_commute)

lemmas body_hits = getequal_unique_hits getequal_unordered_hits getequal_nonunique_hits
  comparison_unique1_hits comparison_nonunique1_hits comparison_unique2_hits
  comparison_nonunique2_hits between_unique1_hits between_nonunique1_hits

section \<open>Overloads\<close>

lemmas search_overload_defs =
  getequal_f_int_def getequal_f_uint_def getequal_f_bool_def getequal_f_float_def
  getequal_f_char_def getequal_f_string_def
  getnotequal_int_def getnotequal_uint_def getnotequal_bool_def getnotequal_float_def
  getnotequal_char_def getnotequal_string_def
  comparison_int_def comparison_uint_def comparison_bool_def comparison_float_def
  comparison_char_def comparison_string_def
  between_int_def between_uint_def between_bool_def between_float_def between_char_def
  between_string_def
  getnotin_int_def getnotin_uint_def getnotin_bool_def getnotin_float_def getnotin_char_def
  getnotin_string_def

lemma getequal_overloads:
  assumes "index_wf ix"
  shows "getequal_f_int ix i ret = Inr (ret @ hits (\<lambda>key. key = i) (int_entries ix))"
    and "getequal_f_uint ix u ret = Inr (ret @ hits (\<lambda>key. key = u) (uint_entries ix))"
    and "getequal_f_bool ix b ret = Inr (ret @ hits (\<lambda>key. key = b) (bool_entries ix))"
    and "getequal_f_float ix f ret = Inr (ret @ hits (\<lambda>key. key = ld_key f) (float_entries ix))"
    and "getequal_f_char ix c ret = Inr (ret @ hits (\<lambda>key. key = c) (char_entries ix))"
    and "getequal_f_string ix s ret = Inr (ret @ hits (\<lambda>key. key = trimspace s) (string_entries ix))"
  using assms
  by (cases "indexmaptype ix";
      simp add: search_overload_defs entries_defs index_wf_def body_hits Let_def)+

lemma getnotequal_overloads:
  assumes "index_wf ix"
  shows "getnotequal_int ix i ret = Inr (ret @ hits (\<lambda>key. key \<noteq> i) (int_entries ix))"
    and "getnotequal_uint ix u ret = Inr (ret @ hits (\<lambda>key. key \<noteq> u) (uint_entries ix))"
    and "getnotequal_bool ix b ret = Inr (ret @ hits (\<lambda>key. key \<noteq> b) (bool_entries ix))"
    and "getnotequal_float ix f ret = Inr (ret @ hits (\<lambda>key. key \<noteq> ld_key f) (float_entries ix))"
    and "getnotequal_char ix c ret = Inr (ret @ hits (\<lambda>key. key \<noteq> c) (char_entries ix))"
    and "getnotequal_string ix s ret = Inr (ret @ hits (\<lambda>key. key \<noteq> trimspace s) (string_entries ix))"
  using assms
  by (cases "indexmaptype ix";
      simp add: search_overload_defs entries_defs index_wf_def scan_bodies scan_hits Let_def)+

lemma getnotin_overloads:
  assumes "index_wf ix"
  shows "getnotin_int ix is ret = Inr (ret @ hits (\<lambda>key. key \<notin> set is) (int_entries ix))"
    and "getnotin_uint ix us ret = Inr (ret @ hits (\<lambda>key. key \<notin> set us) (uint_entries ix))"
    and "getnotin_bool ix bs ret = Inr (ret @ hits (\<lambda>key. key \<notin> set bs) (bool_entries ix))"
    and "getnotin_float ix fs ret = Inr (ret @ hits (\<lambda>key. key \<notin> ld_key ` set fs) (float_entries ix))"
    and "getnotin_char ix cs ret = Inr (ret @ hits (\<lambda>key. key \<notin> set cs) (char_entries ix))"
  using assms
  by (cases "indexmaptype ix";
      simp add: search_overload_defs entries_defs index_wf_def scan_bodies scan_hits Let_def)+

lemma getnotin_string_trims:
  assumes "index_wf ix" "indexmaptype ix \<in> {uniquecharx, uniquevarchar, nonuniquecharx}"
  shows "getnotin_string ix ss ret =
    Inr (ret @ hits (\<lambda>key. key \<notin> trimspace ` set ss) (string_entries ix))"
  using assms
  by (cases "indexmaptype ix";
      simp add: search_overload_defs entries_defs index_wf_def scan_bodies scan_hits)

lemma getnotin_string_untrimmed:
  assumes "index_wf ix" "indexmaptype ix \<in> {unorderedcharx, unorderedvarchar, nonuniquevarchar}"
  shows "getnotin_string ix ss ret =
    Inr (ret @ hits (\<lambda>key. key \<notin> set ss) (string_entries ix))"
  using assms
  by (cases "indexmaptype ix";
      simp add: search_overload_defs entries_defs index_wf_def scan_bodies scan_hits)

definition unordered_map_selected :: "index \<Rightarrow> bool" where
  "unordered_map_selected ix \<longleftrightarrow> indexmaptype ix \<in> {unorderedint, unordereduint, unorderedbool,
     unorderedfloat, unorderedchar, unorderedcharx, unorderedvarchar}"

lemma comparison_overloads:
  assumes "index_wf ix" "order_op op" "\<not> unordered_map_selected ix"
  shows "comparison_int ix i op ret = Inr (ret @ hits (op_test op i) (int_entries ix))"
    and "comparison_float ix f op ret = Inr (ret @ hits (op_test op (ld_key f)) (float_entries ix))"
    and "comparison_char ix c op ret = Inr (ret @ hits (op_test op c) (char_entries ix))"
    and "comparison_string ix s op ret = Inr (ret @ hits (op_test op (trimspace s)) (string_entries ix))"
    and "comparison_uint ix u op ret = Inr (ret @ hits (op_test2 op u) (uint_entries ix))"
    and "comparison_bool ix b op ret = Inr (ret @ hits (op_test2 op b) (bool_entries ix))"
  using assms
  by (cases "indexmaptype ix";
      simp add: search_overload_defs entries_defs index_wf_def body_hits Let_def
        unordered_map_selected_def)+

lemma comparison_unordered:
  assumes "unordered_map_selected ix"
  shows "comparison_int ix i op ret = Inr ret" "comparison_uint ix u op ret = Inr ret"
    "comparison_bool ix b op ret = Inr ret" "comparison_float ix f op ret = Inr ret"
    "comparison_char ix c op ret = Inr ret" "comparison_string ix s op ret = Inr ret"
  using assms
  by (auto simp: search_overload_defs unordered_map_selected_def Let_def)

lemma between_overloads:
  assumes "index_wf ix" "\<not> unordered_map_selected ix"
  shows "between_int ix i i' ret = Inr (ret @ hits (\<lambda>key. i \<le> key \<and> key \<le> i') (int_entries ix))"
    and "between_float ix f f' ret =
      Inr (ret @ hits (\<lambda>key. ld_key f \<le> key \<and> key \<le> ld_key f') (float_entries ix))"
    and "between_char ix c c' ret = Inr (ret @ hits (\<lambda>key. c \<le> key \<and> key \<le> c') (char_entries ix))"
    and "between_string ix s s' ret =
      Inr (ret @ hits (\<lambda>key. trimspace s \<le> key \<and> key \<le> trimspace s') (string_entries ix))"
  using assms
  by (cases "indexmaptype ix";
      simp add: search_overload_defs entries_defs index_wf_def body_hits Let_def
        unordered_map_selected_def)+

lemma getnotnulls_entries:
  assumes "index_wf ix"
  shows "getnotnulls ix ret = Inr (ret @
    map snd (int_entries ix) @ map snd (uint_entries ix) @ map snd (bool_entries ix)
    @ map snd (float_entries ix) @ map snd (char_entries ix) @ map snd (string_entries ix))"
  using assms
  by (cases "indexmaptype ix";
      simp add: getnotnulls_def entries_defs index_wf_def scan_bodies scan_hits;
      simp add: hits_def)

lemma regex_ordered:
  assumes "index_wf ix" "\<not> unordered_map_selected ix" "regex_searchable re"
  shows "regex fm ix re ret =
    Inr (ret @ hits (\<lambda>key. prefix (regex_literal re) key \<and> fm re key) (string_entries ix))"
  using assms(1,2)
  by (cases "indexmaptype ix";
      simp add: regex_def entries_defs index_wf_def regex_bodies [OF assms(3)]
        unordered_map_selected_def)

lemma regex_unordered_map:
  assumes "index_wf ix" "unordered_map_selected ix"
  shows "regex fm ix re ret = Inr (ret @ hits (fm re) (string_entries ix))"
  using assms
  by (cases "indexmaptype ix";
      simp add: regex_def entries_defs index_wf_def regex_unordered_def scan_hits
        unordered_map_selected_def)

lemma getin_overload:
  assumes "\<And>k ret. f ix k ret = Inr (ret @ hits (\<lambda>key. key = g k) es)"
  shows "getin f ix ks ret = Inr (ret @ concat (map (\<lambda>k. hits (\<lambda>key. key = g k) es) ks))"
  unfolding getin_def
  by (induction ks arbitrary: ret) (simp_all add: assms)

end
