(* ===== verification/Index_Update.thy ===== *)
theory Index_Update
  imports Index_Model
begin

text \<open>
  The operations of \<open>Index.cc\<close> that change an index: staging and locking of unique entries,
  commit and rollback, replacement, insertion and deletion of entries, and the operations of
  replication. As for the searches, the bodies the overloads share come first.
\<close>

section \<open>Bodies\<close>

definition lockingIndexEntry0 :: lockingIndexEntry where
  "lockingIndexEntry0 = \<lparr>li_rowid = 0, li_engineid = 0, li_subtransactionid = 0,
     li_previoussubtransactionid = 0\<rparr>"

text \<open>An assignment through \<open>at(k)\<close>, in place.\<close>

definition map_modify :: "'k \<Rightarrow> ('v \<Rightarrow> 'v) \<Rightarrow> ('k \<times> 'v) list \<Rightarrow> ('k \<times> 'v) list" where
  "map_modify k f m = map (\<lambda>p. if fst p = k then (fst p, f (snd p)) else p) m"

definition queue_entry :: "int \<Rightarrow> int \<Rightarrow> int \<Rightarrow> int \<Rightarrow> int \<Rightarrow> lockQueueIndexEntry" where
  "queue_entry rowid engineid subtransactionid pendingcmdid tacmdentrypoint =
     \<lparr>lq_pendingcmdid = pendingcmdid, lq_tacmdentrypoint = tacmdentrypoint,
      lq_entry = \<lparr>li_rowid = rowid, li_engineid = int16 engineid,
                  li_subtransactionid = subtransactionid, li_previoussubtransactionid = 0\<rparr>\<rparr>"

text \<open>\<open>lockQueue->at(k).push(e)\<close>\<close>

definition queue_push_at :: "'k \<Rightarrow> lockQueueIndexEntry \<Rightarrow> 'k typed_index \<Rightarrow> 'k typed_index res" where
  "queue_push_at k e t =
     rbind (deref (lockQueue t)) (\<lambda>q.
       case q k of
         None \<Rightarrow> Inl OutOfRange
       | Some es \<Rightarrow> Inr (t\<lparr>lockQueue := Some (q(k \<mapsto> es @ [e]))\<rparr>))"

text \<open>\<open>at(k)\<close> on a map without the key throws, so the entry is never created here.\<close>

definition lock_at :: "'k \<Rightarrow> int \<Rightarrow> int \<Rightarrow> int \<Rightarrow> ('k \<times> lockingIndexEntry) list \<Rightarrow>
    ('k \<times> lockingIndexEntry) list res" where
  "lock_at k rowid engineid subtransactionid m =
     rbind (map_at k m) (\<lambda>e. Inr (map_modify k (\<lambda>e. e\<lparr>li_rowid := rowid,
       li_engineid := int16 engineid, li_subtransactionid := subtransactionid\<rparr>) m))"

definition checkAndLock_unique :: "'k \<Rightarrow> int \<Rightarrow> int \<Rightarrow> int \<Rightarrow> int \<Rightarrow> int \<Rightarrow> 'k typed_index \<Rightarrow>
    (locktype \<times> 'k typed_index) res" where
  "checkAndLock_unique k rowid engineid subtransactionid pendingcmdid tacmdentrypoint t =
     rbind (deref (uniqueIdx t)) (\<lambda>m.
       if map_count k m then
         rbind (map_at k m) (\<lambda>e.
           if li_subtransactionid e \<noteq> 0 then
             (if li_subtransactionid e = subtransactionid then Inr (INDEXPENDINGLOCK, t)
              else rmap (Pair INDEXPENDINGLOCK)
                (queue_push_at k (queue_entry rowid engineid subtransactionid pendingcmdid
                                    tacmdentrypoint) t))
           else Inr (NOLOCK, t))
       else rmap (\<lambda>m'. (INDEXLOCK, t\<lparr>uniqueIdx := Some m'\<rparr>))
              (lock_at k rowid engineid subtransactionid m))"

definition checkAndLock_unordered :: "'k \<Rightarrow> int \<Rightarrow> int \<Rightarrow> int \<Rightarrow> int \<Rightarrow> int \<Rightarrow> 'k typed_index \<Rightarrow>
    (locktype \<times> 'k typed_index) res" where
  "checkAndLock_unordered k rowid engineid subtransactionid pendingcmdid tacmdentrypoint t =
     rbind (deref (unorderedIdx t)) (\<lambda>m.
       if map_count k m then
         rbind (map_at k m) (\<lambda>e.
           if li_subtransactionid e \<noteq> 0 then
             rmap (Pair INDEXPENDINGLOCK)
               (queue_push_at k (queue_entry rowid engineid subtransactionid pendingcmdid
                                   tacmdentrypoint) t)
           else Inr (NOLOCK, t))
       else rmap (\<lambda>m'. (INDEXLOCK, t\<lparr>unorderedIdx := Some m'\<rparr>))
              (lock_at k rowid engineid subtransactionid m))"

text \<open>
  Commit and rollback of a staged entry: nothing happens unless the entry is there and held
  by the subtransaction.
\<close>

definition held_by :: "'k \<Rightarrow> int \<Rightarrow> ('k \<times> lockingIndexEntry) list \<Rightarrow> bool res" where
  "held_by k subtransactionid m =
     (if \<not> map_count k m then Inr False
      else rbind (map_at k m) (\<lambda>e. Inr (li_subtransactionid e = subtransactionid)))"

definition commit_entry :: "'k \<Rightarrow> int \<Rightarrow> ('k \<times> lockingIndexEntry) list \<Rightarrow>
    ('k \<times> lockingIndexEntry) list res" where
  "commit_entry k subtransactionid m =
     rbind (held_by k subtransactionid m) (\<lambda>held.
       Inr (if held then map_modify k (\<lambda>e. e\<lparr>li_subtransactionid := 0\<rparr>) m else m))"

definition rollback_entry :: "'k \<Rightarrow> int \<Rightarrow> ('k \<times> lockingIndexEntry) list \<Rightarrow>
    (bool \<times> ('k \<times> lockingIndexEntry) list) res" where
  "rollback_entry k subtransactionid m =
     rbind (held_by k subtransactionid m) (\<lambda>held.
       Inr (held, if held then map_erase k m else m))"

definition commit_unique :: "'k \<Rightarrow> int \<Rightarrow> 'k typed_index \<Rightarrow> 'k typed_index res" where
  "commit_unique k subtransactionid t =
     rbind (deref (uniqueIdx t)) (\<lambda>m.
     rbind (commit_entry k subtransactionid m) (\<lambda>m'. Inr (t\<lparr>uniqueIdx := Some m'\<rparr>)))"

definition commit_unordered :: "'k \<Rightarrow> int \<Rightarrow> 'k typed_index \<Rightarrow> 'k typed_index res" where
  "commit_unordered k subtransactionid t =
     rbind (deref (unorderedIdx t)) (\<lambda>m.
     rbind (commit_entry k subtransactionid m) (\<lambda>m'. Inr (t\<lparr>unorderedIdx := Some m'\<rparr>)))"

definition rollback_unique :: "'k \<Rightarrow> int \<Rightarrow> 'k typed_index \<Rightarrow> 'k typed_index res" where
  "rollback_unique k subtransactionid t =
     rbind (deref (uniqueIdx t)) (\<lambda>m.
     rbind (rollback_entry k subtransactionid m) (\<lambda>(_, m'). Inr (t\<lparr>uniqueIdx := Some m'\<rparr>)))"

text \<open>The result also says whether the case was left by \<open>return\<close> or ran to its end.\<close>

definition rollback_unordered_continues :: "'k \<Rightarrow> int \<Rightarrow> 'k typed_index \<Rightarrow>
    (bool \<times> 'k typed_index) res" where
  "rollback_unordered_continues k subtransactionid t =
     rbind (deref (unorderedIdx t)) (\<lambda>m.
     rbind (rollback_entry k subtransactionid m) (\<lambda>(more, m').
       Inr (more, t\<lparr>unorderedIdx := Some m'\<rparr>)))"

definition rollback_unordered :: "'k \<Rightarrow> int \<Rightarrow> 'k typed_index \<Rightarrow> 'k typed_index res" where
  "rollback_unordered k subtransactionid t =
     rmap snd (rollback_unordered_continues k subtransactionid t)"

definition put_unique :: "'k::linorder \<Rightarrow> lockingIndexEntry \<Rightarrow> 'k typed_index \<Rightarrow> 'k typed_index res" where
  "put_unique k e t = rbind (deref (uniqueIdx t)) (\<lambda>m. Inr (t\<lparr>uniqueIdx := Some (sm_put k e m)\<rparr>))"

definition put_unordered :: "'k \<Rightarrow> lockingIndexEntry \<Rightarrow> 'k typed_index \<Rightarrow> 'k typed_index res" where
  "put_unordered k e t =
     rbind (deref (unorderedIdx t)) (\<lambda>m. Inr (t\<lparr>unorderedIdx := Some (um_put k e m)\<rparr>))"

definition replacement_entry :: "int \<Rightarrow> int \<Rightarrow> int \<Rightarrow> lockingIndexEntry" where
  "replacement_entry indet newrowid newengineid =
     \<lparr>li_rowid = newrowid, li_engineid = int16 newengineid, li_subtransactionid = 0,
      li_previoussubtransactionid = indet\<rparr>"

definition replace_unique :: "int \<Rightarrow> int \<Rightarrow> int \<Rightarrow> 'k::linorder \<Rightarrow> 'k typed_index \<Rightarrow>
    'k typed_index res" where
  "replace_unique indet newrowid newengineid k t =
     put_unique k (replacement_entry indet newrowid newengineid) t"

definition replace_unordered :: "int \<Rightarrow> int \<Rightarrow> int \<Rightarrow> 'k \<Rightarrow> 'k typed_index \<Rightarrow>
    'k typed_index res" where
  "replace_unordered indet newrowid newengineid k t =
     put_unordered k (replacement_entry indet newrowid newengineid) t"

definition erase_unique :: "'k \<Rightarrow> 'k typed_index \<Rightarrow> 'k typed_index res" where
  "erase_unique k t = rbind (deref (uniqueIdx t)) (\<lambda>m. Inr (t\<lparr>uniqueIdx := Some (map_erase k m)\<rparr>))"

definition erase_unordered :: "'k \<Rightarrow> 'k typed_index \<Rightarrow> 'k typed_index res" where
  "erase_unordered k t =
     rbind (deref (unorderedIdx t)) (\<lambda>m. Inr (t\<lparr>unorderedIdx := Some (map_erase k m)\<rparr>))"

text \<open>The bodies over \<open>equal_range\<close> of a multimap: the elements between two positions change.\<close>

definition range_rewrite :: "nat \<Rightarrow> nat \<Rightarrow> (('k \<times> 'v) list \<Rightarrow> ('k \<times> 'v) list) \<Rightarrow>
    ('k \<times> 'v) list \<Rightarrow> ('k \<times> 'v) list res" where
  "range_rewrite b e f m =
     rbind (iter_range b e m) (\<lambda>rng. Inr (take b m @ f rng @ drop e m))"

definition is_row :: "int \<Rightarrow> int \<Rightarrow> nonLockingIndexEntry \<Rightarrow> bool" where
  "is_row rowid engineid e \<longleftrightarrow> nl_rowid e = rowid \<and> nl_engineid e = engineid"

definition replace_nonunique :: "int \<Rightarrow> int \<Rightarrow> int \<Rightarrow> int \<Rightarrow> 'k::linorder \<Rightarrow> 'k typed_index \<Rightarrow>
    'k typed_index res" where
  "replace_nonunique oldrowid oldengineid newrowid newengineid k t =
     rbind (deref (nonuniqueIdx t)) (\<lambda>m.
     rbind (range_rewrite (lower_bound k m) (upper_bound k m)
              (map (\<lambda>p. if is_row oldrowid oldengineid (snd p)
                        then (fst p, \<lparr>nl_rowid = newrowid, nl_engineid = int16 newengineid\<rparr>)
                        else p)) m) (\<lambda>m'.
       Inr (t\<lparr>nonuniqueIdx := Some m'\<rparr>)))"

definition insert_nonunique :: "'k::linorder \<Rightarrow> int \<Rightarrow> int \<Rightarrow> 'k typed_index \<Rightarrow>
    'k typed_index res" where
  "insert_nonunique k rowid engineid t =
     rbind (deref (nonuniqueIdx t)) (\<lambda>m.
       Inr (t\<lparr>nonuniqueIdx :=
              Some (mm_insert k \<lparr>nl_rowid = rowid, nl_engineid = int16 engineid\<rparr> m)\<rparr>))"

definition delete_nonunique :: "'k::linorder \<Rightarrow> int \<Rightarrow> int \<Rightarrow> 'k typed_index \<Rightarrow>
    'k typed_index res" where
  "delete_nonunique k rowid engineid t =
     rbind (deref (nonuniqueIdx t)) (\<lambda>m.
     rbind (range_rewrite (lower_bound k m) (upper_bound k m)
              (filter (\<lambda>p. \<not> is_row rowid engineid (snd p))) m) (\<lambda>m'.
       Inr (t\<lparr>nonuniqueIdx := Some m'\<rparr>)))"

definition nulls_insert :: "int \<times> int \<Rightarrow> (int \<times> int) list \<Rightarrow> (int \<times> int) list" where
  "nulls_insert v s = (if v \<in> set s then s else s @ [v])"

definition nulls_erase :: "int \<times> int \<Rightarrow> (int \<times> int) list \<Rightarrow> (int \<times> int) list" where
  "nulls_erase v s = filter (\<lambda>w. w \<noteq> v) s"

definition entry_at :: "'k \<Rightarrow> ('k \<times> lockingIndexEntry) list option \<Rightarrow> lockingIndexEntry res" where
  "entry_at k p = rbind (deref p) (map_at k)"

text \<open>Running a body on the maps of one key type.\<close>

definition upd_int :: "(i64 typed_index \<Rightarrow> i64 typed_index res) \<Rightarrow> index \<Rightarrow> index res" where
  "upd_int f ix = rmap (\<lambda>t. ix\<lparr>intIx := t\<rparr>) (f (intIx ix))"
definition upd_uint :: "(u64 typed_index \<Rightarrow> u64 typed_index res) \<Rightarrow> index \<Rightarrow> index res" where
  "upd_uint f ix = rmap (\<lambda>t. ix\<lparr>uintIx := t\<rparr>) (f (uintIx ix))"
definition upd_bool :: "(bool typed_index \<Rightarrow> bool typed_index res) \<Rightarrow> index \<Rightarrow> index res" where
  "upd_bool f ix = rmap (\<lambda>t. ix\<lparr>boolIx := t\<rparr>) (f (boolIx ix))"
definition upd_float :: "(int typed_index \<Rightarrow> int typed_index res) \<Rightarrow> index \<Rightarrow> index res" where
  "upd_float f ix = rmap (\<lambda>t. ix\<lparr>floatIx := t\<rparr>) (f (floatIx ix))"
definition upd_char :: "(i8 typed_index \<Rightarrow> i8 typed_index res) \<Rightarrow> index \<Rightarrow> index res" where
  "upd_char f ix = rmap (\<lambda>t. ix\<lparr>charIx := t\<rparr>) (f (charIx ix))"
definition upd_string :: "(bytes typed_index \<Rightarrow> bytes typed_index res) \<Rightarrow> index \<Rightarrow> index res" where
  "upd_string f ix = rmap (\<lambda>t. ix\<lparr>stringIx := t\<rparr>) (f (stringIx ix))"

definition with_int :: "(i64 typed_index \<Rightarrow> ('r \<times> i64 typed_index) res) \<Rightarrow> index \<Rightarrow> ('r \<times> index) res" where
  "with_int f ix = rmap (\<lambda>(r, t). (r, ix\<lparr>intIx := t\<rparr>)) (f (intIx ix))"
definition with_uint :: "(u64 typed_index \<Rightarrow> ('r \<times> u64 typed_index) res) \<Rightarrow> index \<Rightarrow> ('r \<times> index) res" where
  "with_uint f ix = rmap (\<lambda>(r, t). (r, ix\<lparr>uintIx := t\<rparr>)) (f (uintIx ix))"
definition with_bool :: "(bool typed_index \<Rightarrow> ('r \<times> bool typed_index) res) \<Rightarrow> index \<Rightarrow> ('r \<times> index) res" where
  "with_bool f ix = rmap (\<lambda>(r, t). (r, ix\<lparr>boolIx := t\<rparr>)) (f (boolIx ix))"
definition with_float :: "(int typed_index \<Rightarrow> ('r \<times> int typed_index) res) \<Rightarrow> index \<Rightarrow> ('r \<times> index) res" where
  "with_float f ix = rmap (\<lambda>(r, t). (r, ix\<lparr>floatIx := t\<rparr>)) (f (floatIx ix))"
definition with_char :: "(i8 typed_index \<Rightarrow> ('r \<times> i8 typed_index) res) \<Rightarrow> index \<Rightarrow> ('r \<times> index) res" where
  "with_char f ix = rmap (\<lambda>(r, t). (r, ix\<lparr>charIx := t\<rparr>)) (f (charIx ix))"
definition with_string :: "(bytes typed_index \<Rightarrow> ('r \<times> bytes typed_index) res) \<Rightarrow> index \<Rightarrow> ('r \<times> index) res" where
  "with_string f ix = rmap (\<lambda>(r, t). (r, ix\<lparr>stringIx := t\<rparr>)) (f (stringIx ix))"

section \<open>The overloads\<close>

subsection \<open>checkAndLock\<close>

definition checkAndLock_int :: "index \<Rightarrow> i64 \<Rightarrow> int \<Rightarrow> int \<Rightarrow> int \<Rightarrow> int \<Rightarrow> int \<Rightarrow>
    (locktype \<times> index) res" where
  "checkAndLock_int ix entry rowid engineid subtransactionid pendingcmdid tacmdentrypoint =
     (case indexmaptype ix of
        uniqueint \<Rightarrow>
          with_int (checkAndLock_unique entry rowid engineid subtransactionid pendingcmdid tacmdentrypoint) ix
      | unorderedint \<Rightarrow>
          with_int (checkAndLock_unordered entry rowid engineid subtransactionid pendingcmdid tacmdentrypoint) ix
      | _ \<Rightarrow> Inr (NOLOCK, ix))"

definition checkAndLock_uint :: "index \<Rightarrow> u64 \<Rightarrow> int \<Rightarrow> int \<Rightarrow> int \<Rightarrow> int \<Rightarrow> int \<Rightarrow>
    (locktype \<times> index) res" where
  "checkAndLock_uint ix entry rowid engineid subtransactionid pendingcmdid tacmdentrypoint =
     (case indexmaptype ix of
        uniqueuint \<Rightarrow>
          with_uint (checkAndLock_unique entry rowid engineid subtransactionid pendingcmdid tacmdentrypoint) ix
      | unordereduint \<Rightarrow>
          with_uint (checkAndLock_unordered entry rowid engineid subtransactionid pendingcmdid tacmdentrypoint) ix
      | _ \<Rightarrow> Inr (NOLOCK, ix))"

definition checkAndLock_bool :: "index \<Rightarrow> bool \<Rightarrow> int \<Rightarrow> int \<Rightarrow> int \<Rightarrow> int \<Rightarrow> int \<Rightarrow>
    (locktype \<times> index) res" where
  "checkAndLock_bool ix entry rowid engineid subtransactionid pendingcmdid tacmdentrypoint =
     (case indexmaptype ix of
        uniquebool \<Rightarrow>
          with_bool (checkAndLock_unique entry rowid engineid subtransactionid pendingcmdid tacmdentrypoint) ix
      | unorderedbool \<Rightarrow>
          with_bool (checkAndLock_unordered entry rowid engineid subtransactionid pendingcmdid tacmdentrypoint) ix
      | _ \<Rightarrow> Inr (NOLOCK, ix))"

definition checkAndLock_float :: "index \<Rightarrow> ldouble \<Rightarrow> int \<Rightarrow> int \<Rightarrow> int \<Rightarrow> int \<Rightarrow> int \<Rightarrow>
    (locktype \<times> index) res" where
  "checkAndLock_float ix entry0 rowid engineid subtransactionid pendingcmdid tacmdentrypoint =
     (let entry = ld_key entry0 in case indexmaptype ix of
        uniquefloat \<Rightarrow>
          with_float (checkAndLock_unique entry rowid engineid subtransactionid pendingcmdid tacmdentrypoint) ix
      | unorderedfloat \<Rightarrow>
          with_float (checkAndLock_unordered entry rowid engineid subtransactionid pendingcmdid tacmdentrypoint) ix
      | _ \<Rightarrow> Inr (NOLOCK, ix))"

definition checkAndLock_char :: "index \<Rightarrow> i8 \<Rightarrow> int \<Rightarrow> int \<Rightarrow> int \<Rightarrow> int \<Rightarrow> int \<Rightarrow>
    (locktype \<times> index) res" where
  "checkAndLock_char ix entry rowid engineid subtransactionid pendingcmdid tacmdentrypoint =
     (case indexmaptype ix of
        uniquechar \<Rightarrow>
          with_char (checkAndLock_unique entry rowid engineid subtransactionid pendingcmdid tacmdentrypoint) ix
      | unorderedchar \<Rightarrow>
          with_char (checkAndLock_unordered entry rowid engineid subtransactionid pendingcmdid tacmdentrypoint) ix
      | _ \<Rightarrow> Inr (NOLOCK, ix))"

definition checkAndLock_string :: "index \<Rightarrow> bytes \<Rightarrow> int \<Rightarrow> int \<Rightarrow> int \<Rightarrow> int \<Rightarrow> int \<Rightarrow>
    (locktype \<times> index) res" where
  "checkAndLock_string ix entry rowid engineid subtransactionid pendingcmdid tacmdentrypoint =
     (case indexmaptype ix of
        uniquecharx \<Rightarrow>
          with_string (checkAndLock_unique entry rowid engineid subtransactionid pendingcmdid tacmdentrypoint) ix
      | unorderedcharx \<Rightarrow>
          with_string (checkAndLock_unordered entry rowid engineid subtransactionid pendingcmdid tacmdentrypoint) ix
      | uniquevarchar \<Rightarrow>
          with_string (checkAndLock_unique entry rowid engineid subtransactionid pendingcmdid tacmdentrypoint) ix
      | unorderedvarchar \<Rightarrow>
          with_string (checkAndLock_unordered entry rowid engineid subtransactionid pendingcmdid tacmdentrypoint) ix
      | _ \<Rightarrow> Inr (NOLOCK, ix))"

subsection \<open>commitRollback\<close>

definition commitRollback_int :: "index \<Rightarrow> i64 \<Rightarrow> int \<Rightarrow> enginecmd \<Rightarrow> index res" where
  "commitRollback_int ix input subtransactionid cmd =
     (case cmd of
        COMMITCMD \<Rightarrow>
        (case indexmaptype ix of
          uniqueint \<Rightarrow> upd_int (commit_unique input subtransactionid) ix
        | unorderedint \<Rightarrow> upd_int (commit_unordered input subtransactionid) ix
        | _ \<Rightarrow> Inr ix)
      | ROLLBACKCMD \<Rightarrow>
        (case indexmaptype ix of
          uniqueint \<Rightarrow> upd_int (rollback_unique input subtransactionid) ix
        | unorderedint \<Rightarrow> upd_int (rollback_unordered input subtransactionid) ix
        | _ \<Rightarrow> Inr ix)
      | _ \<Rightarrow> Inr ix)"

definition commitRollback_uint :: "index \<Rightarrow> u64 \<Rightarrow> int \<Rightarrow> enginecmd \<Rightarrow> index res" where
  "commitRollback_uint ix input subtransactionid cmd =
     (case cmd of
        COMMITCMD \<Rightarrow>
        (case indexmaptype ix of
          uniqueuint \<Rightarrow> upd_uint (commit_unique input subtransactionid) ix
        | unordereduint \<Rightarrow> upd_uint (commit_unordered input subtransactionid) ix
        | _ \<Rightarrow> Inr ix)
      | ROLLBACKCMD \<Rightarrow>
        (case indexmaptype ix of
          uniqueuint \<Rightarrow> upd_uint (rollback_unique input subtransactionid) ix
        | unordereduint \<Rightarrow> upd_uint (rollback_unordered input subtransactionid) ix
        | _ \<Rightarrow> Inr ix)
      | _ \<Rightarrow> Inr ix)"

definition commitRollback_bool :: "index \<Rightarrow> bool \<Rightarrow> int \<Rightarrow> enginecmd \<Rightarrow> index res" where
  "commitRollback_bool ix input subtransactionid cmd =
     (case cmd of
        COMMITCMD \<Rightarrow>
        (case indexmaptype ix of
          uniquebool \<Rightarrow> upd_bool (commit_unique input subtransactionid) ix
        | unorderedbool \<Rightarrow> upd_bool (commit_unordered input subtransactionid) ix
        | _ \<Rightarrow> Inr ix)
      | ROLLBACKCMD \<Rightarrow>
        (case indexmaptype ix of
          uniquebool \<Rightarrow> upd_bool (rollback_unique input subtransactionid) ix
        | unorderedbool \<Rightarrow> upd_bool (rollback_unordered input subtransactionid) ix
        | _ \<Rightarrow> Inr ix)
      | _ \<Rightarrow> Inr ix)"

definition commitRollback_float :: "index \<Rightarrow> ldouble \<Rightarrow> int \<Rightarrow> enginecmd \<Rightarrow> index res" where
  "commitRollback_float ix input0 subtransactionid cmd =
     (let input = ld_key input0 in case cmd of
        COMMITCMD \<Rightarrow>
        (case indexmaptype ix of
          uniquefloat \<Rightarrow> upd_float (commit_unique input subtransactionid) ix
        | unorderedfloat \<Rightarrow> upd_float (commit_unordered input subtransactionid) ix
        | _ \<Rightarrow> Inr ix)
      | ROLLBACKCMD \<Rightarrow>
        (case indexmaptype ix of
          uniquefloat \<Rightarrow> upd_float (rollback_unique input subtransactionid) ix
        | unorderedfloat \<Rightarrow> upd_float (rollback_unordered input subtransactionid) ix
        | _ \<Rightarrow> Inr ix)
      | _ \<Rightarrow> Inr ix)"

definition commitRollback_char :: "index \<Rightarrow> i8 \<Rightarrow> int \<Rightarrow> enginecmd \<Rightarrow> index res" where
  "commitRollback_char ix input subtransactionid cmd =
     (case cmd of
        COMMITCMD \<Rightarrow>
        (case indexmaptype ix of
          uniquechar \<Rightarrow> upd_char (commit_unique input subtransactionid) ix
        | unorderedchar \<Rightarrow> upd_char (commit_unordered input subtransactionid) ix
        | _ \<Rightarrow> Inr ix)
      | ROLLBACKCMD \<Rightarrow>
        (case indexmaptype ix of
          uniquechar \<Rightarrow> upd_char (rollback_unique input subtransactionid) ix
        | unorderedchar \<Rightarrow> upd_char (rollback_unordered input subtransactionid) ix
        | _ \<Rightarrow> Inr ix)
      | _ \<Rightarrow> Inr ix)"

definition commitRollback_string :: "index \<Rightarrow> bytes \<Rightarrow> int \<Rightarrow> enginecmd \<Rightarrow> index res" where
  "commitRollback_string ix input subtransactionid cmd =
     (case cmd of
        COMMITCMD \<Rightarrow>
        (case indexmaptype ix of
          uniquecharx \<Rightarrow> upd_string (commit_unique input subtransactionid) ix
        | unorderedcharx \<Rightarrow> upd_string (commit_unordered input subtransactionid) ix
        | uniquevarchar \<Rightarrow> upd_string (commit_unique input subtransactionid) ix
        | unorderedvarchar \<Rightarrow> upd_string (commit_unordered input subtransactionid) ix
        | _ \<Rightarrow> Inr ix)
      | ROLLBACKCMD \<Rightarrow>
        (case indexmaptype ix of
          uniquecharx \<Rightarrow> upd_string (rollback_unique input subtransactionid) ix
        | unorderedcharx \<Rightarrow>   \<comment> \<open>no \<open>break\<close>: runs on into the next case\<close>
            rbind (rollback_unordered_continues input subtransactionid (stringIx ix)) (\<lambda>(more, t).
              if more then upd_string (rollback_unique input subtransactionid) (ix\<lparr>stringIx := t\<rparr>)
              else Inr (ix\<lparr>stringIx := t\<rparr>))
        | uniquevarchar \<Rightarrow> upd_string (rollback_unique input subtransactionid) ix
        | unorderedvarchar \<Rightarrow> upd_string (rollback_unordered input subtransactionid) ix
        | _ \<Rightarrow> Inr ix)
      | _ \<Rightarrow> Inr ix)"

subsection \<open>replaceUnique and replaceNonunique\<close>

text \<open>
  The entry \<open>replaceUnique\<close> stores is a local whose \<open>previoussubtransactionid\<close> is never
  written: \<open>indet\<close> is the indeterminate value.
\<close>

definition replaceUnique_int :: "int \<Rightarrow> index \<Rightarrow> int \<Rightarrow> int \<Rightarrow> i64 \<Rightarrow> index res" where
  "replaceUnique_int indet ix newrowid newengineid input =
     (case indexmaptype ix of
        uniqueint \<Rightarrow> upd_int (replace_unique indet newrowid newengineid input) ix
      | unorderedint \<Rightarrow> upd_int (replace_unordered indet newrowid newengineid input) ix
      | _ \<Rightarrow> Inr ix)"

definition replaceUnique_uint :: "int \<Rightarrow> index \<Rightarrow> int \<Rightarrow> int \<Rightarrow> u64 \<Rightarrow> index res" where
  "replaceUnique_uint indet ix newrowid newengineid input =
     (case indexmaptype ix of
        uniqueuint \<Rightarrow> upd_uint (replace_unique indet newrowid newengineid input) ix
      | unordereduint \<Rightarrow> upd_uint (replace_unordered indet newrowid newengineid input) ix
      | _ \<Rightarrow> Inr ix)"

definition replaceUnique_bool :: "int \<Rightarrow> index \<Rightarrow> int \<Rightarrow> int \<Rightarrow> bool \<Rightarrow> index res" where
  "replaceUnique_bool indet ix newrowid newengineid input =
     (case indexmaptype ix of
        uniquebool \<Rightarrow> upd_bool (replace_unique indet newrowid newengineid input) ix
      | unorderedbool \<Rightarrow> upd_bool (replace_unordered indet newrowid newengineid input) ix
      | _ \<Rightarrow> Inr ix)"

definition replaceUnique_float :: "int \<Rightarrow> index \<Rightarrow> int \<Rightarrow> int \<Rightarrow> ldouble \<Rightarrow> index res" where
  "replaceUnique_float indet ix newrowid newengineid input0 =
     (let input = ld_key input0 in case indexmaptype ix of
        uniquefloat \<Rightarrow> upd_float (replace_unique indet newrowid newengineid input) ix
      | unorderedfloat \<Rightarrow> upd_float (replace_unordered indet newrowid newengineid input) ix
      | _ \<Rightarrow> Inr ix)"

definition replaceUnique_char :: "int \<Rightarrow> index \<Rightarrow> int \<Rightarrow> int \<Rightarrow> i8 \<Rightarrow> index res" where
  "replaceUnique_char indet ix newrowid newengineid input =
     (case indexmaptype ix of
        uniquechar \<Rightarrow> upd_char (replace_unique indet newrowid newengineid input) ix
      | unorderedchar \<Rightarrow> upd_char (replace_unordered indet newrowid newengineid input) ix
      | _ \<Rightarrow> Inr ix)"

definition replaceUnique_string :: "int \<Rightarrow> index \<Rightarrow> int \<Rightarrow> int \<Rightarrow> bytes \<Rightarrow> index res" where
  "replaceUnique_string indet ix newrowid newengineid input0 =
     (let input = trimspace input0 in case indexmaptype ix of
        uniquecharx \<Rightarrow> upd_string (replace_unique indet newrowid newengineid input) ix
      | unorderedcharx \<Rightarrow> upd_string (replace_unordered indet newrowid newengineid input) ix
      | uniquevarchar \<Rightarrow> upd_string (replace_unique indet newrowid newengineid input) ix
      | unorderedvarchar \<Rightarrow> upd_string (replace_unordered indet newrowid newengineid input) ix
      | _ \<Rightarrow> Inr ix)"

definition replaceNonunique_int :: "index \<Rightarrow> int \<Rightarrow> int \<Rightarrow> int \<Rightarrow> int \<Rightarrow> i64 \<Rightarrow> index res" where
  "replaceNonunique_int ix oldrowid oldengineid newrowid newengineid input =
     (upd_int (replace_nonunique oldrowid oldengineid newrowid newengineid input) ix)"

definition replaceNonunique_uint :: "index \<Rightarrow> int \<Rightarrow> int \<Rightarrow> int \<Rightarrow> int \<Rightarrow> u64 \<Rightarrow> index res" where
  "replaceNonunique_uint ix oldrowid oldengineid newrowid newengineid input =
     (upd_uint (replace_nonunique oldrowid oldengineid newrowid newengineid input) ix)"

definition replaceNonunique_bool :: "index \<Rightarrow> int \<Rightarrow> int \<Rightarrow> int \<Rightarrow> int \<Rightarrow> bool \<Rightarrow> index res" where
  "replaceNonunique_bool ix oldrowid oldengineid newrowid newengineid input =
     (upd_bool (replace_nonunique oldrowid oldengineid newrowid newengineid input) ix)"

definition replaceNonunique_float :: "index \<Rightarrow> int \<Rightarrow> int \<Rightarrow> int \<Rightarrow> int \<Rightarrow> ldouble \<Rightarrow> index res" where
  "replaceNonunique_float ix oldrowid oldengineid newrowid newengineid input0 =
     (let input = ld_key input0 in upd_float (replace_nonunique oldrowid oldengineid newrowid newengineid input) ix)"

definition replaceNonunique_char :: "index \<Rightarrow> int \<Rightarrow> int \<Rightarrow> int \<Rightarrow> int \<Rightarrow> i8 \<Rightarrow> index res" where
  "replaceNonunique_char ix oldrowid oldengineid newrowid newengineid input =
     (upd_char (replace_nonunique oldrowid oldengineid newrowid newengineid input) ix)"

definition replaceNonunique_string :: "index \<Rightarrow> int \<Rightarrow> int \<Rightarrow> int \<Rightarrow> int \<Rightarrow> bytes \<Rightarrow> index res" where
  "replaceNonunique_string ix oldrowid oldengineid newrowid newengineid input0 =
     (let input = trimspace input0 in upd_string (replace_nonunique oldrowid oldengineid newrowid newengineid input) ix)"

subsection \<open>insertNonuniqueEntry, deleteNonuniqueEntry and deleteUniqueEntry\<close>

definition insertNonuniqueEntry_int :: "index \<Rightarrow> i64 \<Rightarrow> int \<Rightarrow> int \<Rightarrow> index res" where
  "insertNonuniqueEntry_int ix entry rowid engineid =
     (upd_int (insert_nonunique entry rowid engineid) ix)"

definition insertNonuniqueEntry_uint :: "index \<Rightarrow> u64 \<Rightarrow> int \<Rightarrow> int \<Rightarrow> index res" where
  "insertNonuniqueEntry_uint ix entry rowid engineid =
     (upd_uint (insert_nonunique entry rowid engineid) ix)"

definition insertNonuniqueEntry_bool :: "index \<Rightarrow> bool \<Rightarrow> int \<Rightarrow> int \<Rightarrow> index res" where
  "insertNonuniqueEntry_bool ix entry rowid engineid =
     (upd_bool (insert_nonunique entry rowid engineid) ix)"

definition insertNonuniqueEntry_float :: "index \<Rightarrow> ldouble \<Rightarrow> int \<Rightarrow> int \<Rightarrow> index res" where
  "insertNonuniqueEntry_float ix entry0 rowid engineid =
     (let entry = ld_key entry0 in upd_float (insert_nonunique entry rowid engineid) ix)"

definition insertNonuniqueEntry_char :: "index \<Rightarrow> i8 \<Rightarrow> int \<Rightarrow> int \<Rightarrow> index res" where
  "insertNonuniqueEntry_char ix entry rowid engineid =
     (upd_char (insert_nonunique entry rowid engineid) ix)"

definition insertNonuniqueEntry_string :: "index \<Rightarrow> bytes \<Rightarrow> int \<Rightarrow> int \<Rightarrow> index res" where
  "insertNonuniqueEntry_string ix entry0 rowid engineid =
     (let entry = trimspace entry0 in upd_string (insert_nonunique entry rowid engineid) ix)"

definition deleteNonuniqueEntry_int :: "index \<Rightarrow> i64 \<Rightarrow> int \<Rightarrow> int \<Rightarrow> index res" where
  "deleteNonuniqueEntry_int ix entry rowid engineid =
     (upd_int (delete_nonunique entry rowid engineid) ix)"

definition deleteNonuniqueEntry_uint :: "index \<Rightarrow> u64 \<Rightarrow> int \<Rightarrow> int \<Rightarrow> index res" where
  "deleteNonuniqueEntry_uint ix entry rowid engineid =
     (upd_uint (delete_nonunique entry rowid engineid) ix)"

definition deleteNonuniqueEntry_bool :: "index \<Rightarrow> bool \<Rightarrow> int \<Rightarrow> int \<Rightarrow> index res" where
  "deleteNonuniqueEntry_bool ix entry rowid engineid =
     (upd_bool (delete_nonunique entry rowid engineid) ix)"

definition deleteNonuniqueEntry_float :: "index \<Rightarrow> ldouble \<Rightarrow> int \<Rightarrow> int \<Rightarrow> index res" where
  "deleteNonuniqueEntry_float ix entry0 rowid engineid =
     (let entry = ld_key entry0 in upd_float (delete_nonunique entry rowid engineid) ix)"

definition deleteNonuniqueEntry_char :: "index \<Rightarrow> i8 \<Rightarrow> int \<Rightarrow> int \<Rightarrow> index res" where
  "deleteNonuniqueEntry_char ix entry rowid engineid =
     (upd_char (delete_nonunique entry rowid engineid) ix)"

definition deleteNonuniqueEntry_string :: "index \<Rightarrow> bytes \<Rightarrow> int \<Rightarrow> int \<Rightarrow> index res" where
  "deleteNonuniqueEntry_string ix entry0 rowid engineid =
     (let entry = trimspace entry0 in upd_string (delete_nonunique entry rowid engineid) ix)"

definition deleteUniqueEntry_int :: "index \<Rightarrow> i64 \<Rightarrow> index res" where
  "deleteUniqueEntry_int ix entry =
     (case indexmaptype ix of
        uniqueint \<Rightarrow> upd_int (erase_unique entry) ix
      | unorderedint \<Rightarrow> upd_int (erase_unordered entry) ix
      | _ \<Rightarrow> Inr ix)"

definition deleteUniqueEntry_uint :: "index \<Rightarrow> u64 \<Rightarrow> index res" where
  "deleteUniqueEntry_uint ix entry =
     (case indexmaptype ix of
        uniqueuint \<Rightarrow> upd_uint (erase_unique entry) ix
      | unordereduint \<Rightarrow> upd_uint (erase_unordered entry) ix
      | _ \<Rightarrow> Inr ix)"

definition deleteUniqueEntry_bool :: "index \<Rightarrow> bool \<Rightarrow> index res" where
  "deleteUniqueEntry_bool ix entry =
     (case indexmaptype ix of
        uniquebool \<Rightarrow> upd_bool (erase_unique entry) ix
      | unorderedbool \<Rightarrow> upd_bool (erase_unordered entry) ix
      | _ \<Rightarrow> Inr ix)"

definition deleteUniqueEntry_float :: "index \<Rightarrow> ldouble \<Rightarrow> index res" where
  "deleteUniqueEntry_float ix entry0 =
     (let entry = ld_key entry0 in case indexmaptype ix of
        uniquefloat \<Rightarrow> upd_float (erase_unique entry) ix
      | unorderedfloat \<Rightarrow> upd_float (erase_unordered entry) ix
      | _ \<Rightarrow> Inr ix)"

definition deleteUniqueEntry_char :: "index \<Rightarrow> i8 \<Rightarrow> index res" where
  "deleteUniqueEntry_char ix entry =
     (case indexmaptype ix of
        uniquechar \<Rightarrow> upd_char (erase_unique entry) ix
      | unorderedchar \<Rightarrow> upd_char (erase_unordered entry) ix
      | _ \<Rightarrow> Inr ix)"

definition deleteUniqueEntry_string :: "index \<Rightarrow> bytes \<Rightarrow> index res" where
  "deleteUniqueEntry_string ix entry0 =
     (let entry = trimspace entry0 in case indexmaptype ix of
        uniquecharx \<Rightarrow> upd_string (erase_unique entry) ix
      | unorderedcharx \<Rightarrow> upd_string (erase_unordered entry) ix
      | uniquevarchar \<Rightarrow> upd_string (erase_unique entry) ix
      | unorderedvarchar \<Rightarrow> upd_string (erase_unordered entry) ix
      | _ \<Rightarrow> Inr ix)"

subsection \<open>The null entries\<close>

definition insertNullEntry :: "index \<Rightarrow> int \<Rightarrow> int \<Rightarrow> index" where
  "insertNullEntry ix rowid engineid = ix\<lparr>nulls := nulls_insert (rowid, engineid) (nulls ix)\<rparr>"

definition deleteNullEntry :: "index \<Rightarrow> int \<Rightarrow> int \<Rightarrow> index" where
  "deleteNullEntry ix rowid engineid = ix\<lparr>nulls := nulls_erase (rowid, engineid) (nulls ix)\<rparr>"

definition replaceNull :: "index \<Rightarrow> int \<Rightarrow> int \<Rightarrow> int \<Rightarrow> int \<Rightarrow> index" where
  "replaceNull ix oldrowid oldengineid newrowid newengineid =
     ix\<lparr>nulls := nulls_insert (newrowid, newengineid)
                   (nulls_erase (oldrowid, oldengineid) (nulls ix))\<rparr>"

subsection \<open>The operations of replication: checkifthere, addifnotthere, checkifmatch, rm\<close>

definition checkifthere_int :: "index \<Rightarrow> i64 \<Rightarrow> bool res" where
  "checkifthere_int ix val =
     (case indexmaptype ix of
        uniqueint \<Rightarrow> rmap (map_count val) (deref (uniqueIdx (intIx ix)))
      | unorderedint \<Rightarrow> rmap (map_count val) (deref (unorderedIdx (intIx ix)))
      | _ \<Rightarrow> Inr True)"

definition checkifthere_uint :: "index \<Rightarrow> u64 \<Rightarrow> bool res" where
  "checkifthere_uint ix val =
     (case indexmaptype ix of
        uniqueuint \<Rightarrow> rmap (map_count val) (deref (uniqueIdx (uintIx ix)))
      | unordereduint \<Rightarrow> rmap (map_count val) (deref (unorderedIdx (uintIx ix)))
      | _ \<Rightarrow> Inr True)"

definition checkifthere_bool :: "index \<Rightarrow> bool \<Rightarrow> bool res" where
  "checkifthere_bool ix val =
     (case indexmaptype ix of
        uniquebool \<Rightarrow> rmap (map_count val) (deref (uniqueIdx (boolIx ix)))
      | unorderedbool \<Rightarrow> rmap (map_count val) (deref (unorderedIdx (boolIx ix)))
      | _ \<Rightarrow> Inr True)"

definition checkifthere_float :: "index \<Rightarrow> ldouble \<Rightarrow> bool res" where
  "checkifthere_float ix val0 =
     (let val = ld_key val0 in case indexmaptype ix of
        uniquefloat \<Rightarrow> rmap (map_count val) (deref (uniqueIdx (floatIx ix)))
      | unorderedfloat \<Rightarrow> rmap (map_count val) (deref (unorderedIdx (floatIx ix)))
      | _ \<Rightarrow> Inr True)"

definition checkifthere_char :: "index \<Rightarrow> i8 \<Rightarrow> bool res" where
  "checkifthere_char ix val =
     (case indexmaptype ix of
        uniquechar \<Rightarrow> rmap (map_count val) (deref (uniqueIdx (charIx ix)))
      | unorderedchar \<Rightarrow> rmap (map_count val) (deref (unorderedIdx (charIx ix)))
      | _ \<Rightarrow> Inr True)"

definition checkifthere_string :: "index \<Rightarrow> bytes \<Rightarrow> bool res" where
  "checkifthere_string ix val =
     (case indexmaptype ix of
        uniquecharx \<Rightarrow> rmap (map_count val) (deref (uniqueIdx (stringIx ix)))
      | unorderedcharx \<Rightarrow> rmap (map_count val) (deref (unorderedIdx (stringIx ix)))
      | uniquevarchar \<Rightarrow> rmap (map_count val) (deref (uniqueIdx (stringIx ix)))
      | unorderedvarchar \<Rightarrow> rmap (map_count val) (deref (unorderedIdx (stringIx ix)))
      | _ \<Rightarrow> Inr True)"

definition checkifthere :: "index \<Rightarrow> fieldValue \<Rightarrow> bool res" where
  "checkifthere ix val =
     (case fieldtype ix of
        F_INT \<Rightarrow> checkifthere_int ix (integer val)
      | F_UINT \<Rightarrow> checkifthere_uint ix (uinteger val)
      | F_BOOL \<Rightarrow> checkifthere_bool ix (boolean val)
      | F_FLOAT \<Rightarrow> checkifthere_float ix (floating val)
      | F_CHAR \<Rightarrow> checkifthere_char ix (character val)
      | F_CHARX \<Rightarrow> checkifthere_string ix (str val)
      | F_VARCHAR \<Rightarrow> checkifthere_string ix (str val)
      | NOFIELDTYPE \<Rightarrow> Inr False)"

definition addifnotthere :: "index \<Rightarrow> fieldValue \<Rightarrow> int \<Rightarrow> int \<Rightarrow> int \<Rightarrow> (bool \<times> index) res" where
  "addifnotthere ix val rowid engineid subtransactionid =
     rbind (checkifthere ix val) (\<lambda>there.
       if there then Inr (False, ix)
       else let e = \<lparr>li_rowid = rowid, li_engineid = engineid, li_subtransactionid = 0,
                     li_previoussubtransactionid = subtransactionid\<rparr>
            in rmap (Pair True) (case indexmaptype ix of
              uniqueint \<Rightarrow> upd_int (put_unique (integer val) e) ix
            | unorderedint \<Rightarrow> upd_int (put_unordered (integer val) e) ix
            | uniqueuint \<Rightarrow> upd_uint (put_unique (uinteger val) e) ix
            | unordereduint \<Rightarrow> upd_uint (put_unordered (uinteger val) e) ix
            | uniquebool \<Rightarrow> upd_bool (put_unique (boolean val) e) ix
            | unorderedbool \<Rightarrow> upd_bool (put_unordered (boolean val) e) ix
            | uniquefloat \<Rightarrow> upd_float (put_unique (ld_key (floating val)) e) ix
            | unorderedfloat \<Rightarrow> upd_float (put_unordered (ld_key (floating val)) e) ix
            | uniquechar \<Rightarrow> upd_char (put_unique (character val) e) ix
            | unorderedchar \<Rightarrow> upd_char (put_unordered (character val) e) ix
            | uniquecharx \<Rightarrow> upd_string (put_unique (str val) e) ix
            | unorderedcharx \<Rightarrow> upd_string (put_unordered (str val) e) ix
            | uniquevarchar \<Rightarrow> upd_string (put_unique (str val) e) ix
            | unorderedvarchar \<Rightarrow> upd_string (put_unordered (str val) e) ix
            | _ \<Rightarrow> Inr ix))"

definition checkifmatch_int :: "index \<Rightarrow> i64 \<Rightarrow> int \<Rightarrow> int \<Rightarrow> bool res" where
  "checkifmatch_int ix val rowid engineid =
     (rmap (\<lambda>e. li_rowid e = rowid \<and> li_engineid e = engineid)
       (case indexmaptype ix of
          uniqueint \<Rightarrow> entry_at val (uniqueIdx (intIx ix))
        | unorderedint \<Rightarrow> entry_at val (unorderedIdx (intIx ix))
        | _ \<Rightarrow> Inr lockingIndexEntry0))"

definition checkifmatch_uint :: "index \<Rightarrow> u64 \<Rightarrow> int \<Rightarrow> int \<Rightarrow> bool res" where
  "checkifmatch_uint ix val rowid engineid =
     (rmap (\<lambda>e. li_rowid e = rowid \<and> li_engineid e = engineid)
       (case indexmaptype ix of
          uniqueuint \<Rightarrow> entry_at val (uniqueIdx (uintIx ix))
        | unordereduint \<Rightarrow> entry_at val (unorderedIdx (uintIx ix))
        | _ \<Rightarrow> Inr lockingIndexEntry0))"

definition checkifmatch_bool :: "index \<Rightarrow> bool \<Rightarrow> int \<Rightarrow> int \<Rightarrow> bool res" where
  "checkifmatch_bool ix val rowid engineid =
     (rmap (\<lambda>e. li_rowid e = rowid \<and> li_engineid e = engineid)
       (case indexmaptype ix of
          uniquebool \<Rightarrow> entry_at val (uniqueIdx (boolIx ix))
        | unorderedbool \<Rightarrow> entry_at val (unorderedIdx (boolIx ix))
        | _ \<Rightarrow> Inr lockingIndexEntry0))"

definition checkifmatch_float :: "index \<Rightarrow> ldouble \<Rightarrow> int \<Rightarrow> int \<Rightarrow> bool res" where
  "checkifmatch_float ix val0 rowid engineid =
     (let val = ld_key val0 in rmap (\<lambda>e. li_rowid e = rowid \<and> li_engineid e = engineid)
       (case indexmaptype ix of
          uniquefloat \<Rightarrow> entry_at val (uniqueIdx (floatIx ix))
        | unorderedfloat \<Rightarrow> entry_at val (unorderedIdx (floatIx ix))
        | _ \<Rightarrow> Inr lockingIndexEntry0))"

definition checkifmatch_char :: "index \<Rightarrow> i8 \<Rightarrow> int \<Rightarrow> int \<Rightarrow> bool res" where
  "checkifmatch_char ix val rowid engineid =
     (rmap (\<lambda>e. li_rowid e = rowid \<and> li_engineid e = engineid)
       (case indexmaptype ix of
          uniquechar \<Rightarrow> entry_at val (uniqueIdx (charIx ix))
        | unorderedchar \<Rightarrow> entry_at val (unorderedIdx (charIx ix))
        | _ \<Rightarrow> Inr lockingIndexEntry0))"

definition checkifmatch_string :: "index \<Rightarrow> bytes \<Rightarrow> int \<Rightarrow> int \<Rightarrow> bool res" where
  "checkifmatch_string ix val rowid engineid =
     (rmap (\<lambda>e. li_rowid e = rowid \<and> li_engineid e = engineid)
       (case indexmaptype ix of
          uniquecharx \<Rightarrow> entry_at val (uniqueIdx (stringIx ix))
        | unorderedcharx \<Rightarrow> entry_at val (unorderedIdx (stringIx ix))
        | uniquevarchar \<Rightarrow> entry_at val (uniqueIdx (stringIx ix))
        | unorderedvarchar \<Rightarrow> entry_at val (unorderedIdx (stringIx ix))
        | _ \<Rightarrow> Inr lockingIndexEntry0))"

definition checkifmatch :: "index \<Rightarrow> fieldValue \<Rightarrow> int \<Rightarrow> int \<Rightarrow> bool res" where
  "checkifmatch ix val rowid engineid =
     (case fieldtype ix of
        F_INT \<Rightarrow> checkifmatch_int ix (integer val) rowid engineid
      | F_UINT \<Rightarrow> checkifmatch_uint ix (uinteger val) rowid engineid
      | F_BOOL \<Rightarrow> checkifmatch_bool ix (boolean val) rowid engineid
      | F_FLOAT \<Rightarrow> checkifmatch_float ix (floating val) rowid engineid
      | F_CHAR \<Rightarrow> checkifmatch_char ix (character val) rowid engineid
      | F_CHARX \<Rightarrow> checkifmatch_string ix (str val) rowid engineid
      | F_VARCHAR \<Rightarrow> checkifmatch_string ix (str val) rowid engineid
      | NOFIELDTYPE \<Rightarrow> Inr False)"

definition rm_int :: "index \<Rightarrow> i64 \<Rightarrow> index res" where
  "rm_int ix val =
     (case indexmaptype ix of
        uniqueint \<Rightarrow> upd_int (erase_unique val) ix
      | unorderedint \<Rightarrow> upd_int (erase_unordered val) ix
      | _ \<Rightarrow> Inr ix)"

definition rm_uint :: "index \<Rightarrow> u64 \<Rightarrow> index res" where
  "rm_uint ix val =
     (case indexmaptype ix of
        uniqueuint \<Rightarrow> upd_uint (erase_unique val) ix
      | unordereduint \<Rightarrow> upd_uint (erase_unordered val) ix
      | _ \<Rightarrow> Inr ix)"

definition rm_bool :: "index \<Rightarrow> bool \<Rightarrow> index res" where
  "rm_bool ix val =
     (case indexmaptype ix of
        uniquebool \<Rightarrow> upd_bool (erase_unique val) ix
      | unorderedbool \<Rightarrow> upd_bool (erase_unordered val) ix
      | _ \<Rightarrow> Inr ix)"

definition rm_float :: "index \<Rightarrow> ldouble \<Rightarrow> index res" where
  "rm_float ix val0 =
     (let val = ld_key val0 in case indexmaptype ix of
        uniquefloat \<Rightarrow> upd_float (erase_unique val) ix
      | unorderedfloat \<Rightarrow> upd_float (erase_unordered val) ix
      | _ \<Rightarrow> Inr ix)"

definition rm_char :: "index \<Rightarrow> i8 \<Rightarrow> index res" where
  "rm_char ix val =
     (case indexmaptype ix of
        uniquechar \<Rightarrow> upd_char (erase_unique val) ix
      | unorderedchar \<Rightarrow> upd_char (erase_unordered val) ix
      | _ \<Rightarrow> Inr ix)"

definition rm_string :: "index \<Rightarrow> bytes \<Rightarrow> index res" where
  "rm_string ix val =
     (case indexmaptype ix of
        uniquecharx \<Rightarrow> upd_string (erase_unique val) ix
      | unorderedcharx \<Rightarrow> upd_string (erase_unordered val) ix
      | uniquevarchar \<Rightarrow> upd_string (erase_unique val) ix
      | unorderedvarchar \<Rightarrow> upd_string (erase_unordered val) ix
      | _ \<Rightarrow> Inr ix)"

definition rm :: "index \<Rightarrow> fieldValue \<Rightarrow> index res" where
  "rm ix val =
     (case fieldtype ix of
        F_INT \<Rightarrow> rm_int ix (integer val)
      | F_UINT \<Rightarrow> rm_uint ix (uinteger val)
      | F_BOOL \<Rightarrow> rm_bool ix (boolean val)
      | F_FLOAT \<Rightarrow> rm_float ix (floating val)
      | F_CHAR \<Rightarrow> rm_char ix (character val)
      | F_CHARX \<Rightarrow> rm_string ix (str val)
      | F_VARCHAR \<Rightarrow> rm_string ix (str val)
      | NOFIELDTYPE \<Rightarrow> Inr ix)"

definition getprevioussubtransactionid_int :: "index \<Rightarrow> i64 \<Rightarrow> int res" where
  "getprevioussubtransactionid_int ix val =
     (case indexmaptype ix of
        uniqueint \<Rightarrow> rmap li_previoussubtransactionid (entry_at val (uniqueIdx (intIx ix)))
      | unorderedint \<Rightarrow> rmap li_previoussubtransactionid (entry_at val (unorderedIdx (intIx ix)))
      | _ \<Rightarrow> Inr (- 1))"

definition getprevioussubtransactionid_uint :: "index \<Rightarrow> u64 \<Rightarrow> int res" where
  "getprevioussubtransactionid_uint ix val =
     (case indexmaptype ix of
        uniqueuint \<Rightarrow> rmap li_previoussubtransactionid (entry_at val (uniqueIdx (uintIx ix)))
      | unordereduint \<Rightarrow> rmap li_previoussubtransactionid (entry_at val (unorderedIdx (uintIx ix)))
      | _ \<Rightarrow> Inr (- 1))"

definition getprevioussubtransactionid_bool :: "index \<Rightarrow> bool \<Rightarrow> int res" where
  "getprevioussubtransactionid_bool ix val =
     (case indexmaptype ix of
        uniquebool \<Rightarrow> rmap li_previoussubtransactionid (entry_at val (uniqueIdx (boolIx ix)))
      | unorderedbool \<Rightarrow> rmap li_previoussubtransactionid (entry_at val (unorderedIdx (boolIx ix)))
      | _ \<Rightarrow> Inr (- 1))"

definition getprevioussubtransactionid_float :: "index \<Rightarrow> ldouble \<Rightarrow> int res" where
  "getprevioussubtransactionid_float ix val0 =
     (let val = ld_key val0 in case indexmaptype ix of
        uniquefloat \<Rightarrow> rmap li_previoussubtransactionid (entry_at val (uniqueIdx (floatIx ix)))
      | unorderedfloat \<Rightarrow> rmap li_previoussubtransactionid (entry_at val (unorderedIdx (floatIx ix)))
      | _ \<Rightarrow> Inr (- 1))"

definition getprevioussubtransactionid_char :: "index \<Rightarrow> i8 \<Rightarrow> int res" where
  "getprevioussubtransactionid_char ix val =
     (case indexmaptype ix of
        uniquechar \<Rightarrow> rmap li_previoussubtransactionid (entry_at val (uniqueIdx (charIx ix)))
      | unorderedchar \<Rightarrow> rmap li_previoussubtransactionid (entry_at val (unorderedIdx (charIx ix)))
      | _ \<Rightarrow> Inr (- 1))"

definition getprevioussubtransactionid_string :: "index \<Rightarrow> bytes \<Rightarrow> int res" where
  "getprevioussubtransactionid_string ix val =
     (case indexmaptype ix of
        uniquecharx \<Rightarrow> rmap li_previoussubtransactionid (entry_at val (uniqueIdx (stringIx ix)))
      | unorderedcharx \<Rightarrow> rmap li_previoussubtransactionid (entry_at val (unorderedIdx (stringIx ix)))
      | uniquevarchar \<Rightarrow> rmap li_previoussubtransactionid (entry_at val (uniqueIdx (stringIx ix)))
      | unorderedvarchar \<Rightarrow> rmap li_previoussubtransactionid (entry_at val (unorderedIdx (stringIx ix)))
      | _ \<Rightarrow> Inr (- 1))"

definition getprevioussubtransactionid :: "index \<Rightarrow> fieldValue \<Rightarrow> int res" where
  "getprevioussubtransactionid ix val =
     (case fieldtype ix of
        F_INT \<Rightarrow> getprevioussubtransactionid_int ix (integer val)
      | F_UINT \<Rightarrow> getprevioussubtransactionid_uint ix (uinteger val)
      | F_BOOL \<Rightarrow> getprevioussubtransactionid_bool ix (boolean val)
      | F_FLOAT \<Rightarrow> getprevioussubtransactionid_float ix (floating val)
      | F_CHAR \<Rightarrow> getprevioussubtransactionid_char ix (character val)
      | F_CHARX \<Rightarrow> getprevioussubtransactionid_string ix (str val)
      | F_VARCHAR \<Rightarrow> getprevioussubtransactionid_string ix (str val)
      | NOFIELDTYPE \<Rightarrow> Inr (- 1))"


end
