(* ===== verification/Index_Commit.thy ===== *)
theory Index_Commit
  imports Index_Queries Index_Update
begin

text \<open>
  What the updates of an index promise: no fault on a well-formed index, the invariant kept,
  the kind of the index unchanged, and the effect on the content. The two outcomes of a staged
  unique entry are proved once for the interface \<open>keyed_map\<close> and read off for both kinds
  of map.
\<close>

section \<open>Staged entries, on any map with unique keys\<close>

locale entry_map = keyed_map put ok
  for put :: "'k \<Rightarrow> lockingIndexEntry \<Rightarrow> ('k \<times> lockingIndexEntry) list \<Rightarrow>
      ('k \<times> lockingIndexEntry) list"
    and ok :: "('k \<times> lockingIndexEntry) list \<Rightarrow> bool"
begin

lemma rollback_staged:
  assumes "ok m" "\<not> map_count k m"
  shows "\<exists>m'. rollback_entry k s (put k e m)
           = Inr (li_subtransactionid e = s, if li_subtransactionid e = s then m' else put k e m)
         \<and> mset m' = mset m \<and> map_of m' = map_of m \<and> ok m'"
proof -
  let ?m = "map_erase k (put k e m)"
  have "mset ?m = mset m"
  proof -
    have "mset ?m = filter_mset (\<lambda>p. fst p \<noteq> k) (mset (put k e m))"
      by (simp add: map_erase_def)
    also have "\<dots> = filter_mset (\<lambda>p. fst p \<noteq> k) (mset m)"
      by (simp add: put_fresh_mset [OF assms])
    also have "\<dots> = mset m"
      using map_of_eq_None_filter [of m k] assms(2) by (simp add: map_count_def flip: mset_filter)
    finally show ?thesis .
  qed
  moreover have "map_of ?m = map_of m"
    using assms by (auto simp: map_of_erase map_of_put map_count_def fun_eq_iff)
  moreover have "ok ?m" using assms(1) by (simp add: ok_erase ok_put)
  moreover have "rollback_entry k s (put k e m)
      = Inr (li_subtransactionid e = s, if li_subtransactionid e = s then ?m else put k e m)"
    using assms(1) by (auto simp: rollback_entry_def held_by_def map_count_def map_at_def map_of_put)
  ultimately show ?thesis by blast
qed

lemma commit_staged:
  assumes "ok m" "li_subtransactionid e = s"
  shows "\<exists>m'. commit_entry k s (put k e m) = Inr m'
         \<and> map_of m' = (map_of m)(k \<mapsto> e\<lparr>li_subtransactionid := 0\<rparr>)"
proof -
  let ?f = "\<lambda>e :: lockingIndexEntry. e\<lparr>li_subtransactionid := 0\<rparr>"
  have "map_of (map_modify k f l) = (case map_of l k of None \<Rightarrow> map_of l | Some v \<Rightarrow> (map_of l)(k \<mapsto> f v))"
    for f :: "lockingIndexEntry \<Rightarrow> lockingIndexEntry" and l
    by (induction l) (auto simp: map_modify_def fun_eq_iff split: option.splits)
  then show ?thesis
    using assms by (auto simp: commit_entry_def held_by_def map_count_def map_at_def map_of_put)
qed

end

interpretation ordered_entries: entry_map sm_put sm_ok
  by unfold_locales

interpretation unordered_entries: entry_map um_put um_ok
  by unfold_locales

section \<open>Bodies\<close>

lemma fst_map_modify [simp]: "map fst (map_modify k f m) = map fst m"
  by (simp add: map_modify_def)

lemma ok_map_modify [simp]:
  "sm_ok (map_modify k f m) = sm_ok m" "um_ok (map_modify k f m') = um_ok m'"
  by (simp_all add: sm_ok_def um_ok_def)

lemma held_by_total: "\<exists>b. held_by k s m = Inr b"
  by (auto simp: held_by_def map_count_def map_at_def split: option.splits)

lemma commit_entry_total:
  "\<exists>m'. commit_entry k s m = Inr m' \<and> map fst m' = map fst m"
proof -
  obtain b where "held_by k s m = Inr b" by (rule exE [OF held_by_total])
  then show ?thesis by (cases b) (simp_all add: commit_entry_def)
qed

lemma rollback_entry_total:
  "\<exists>b. rollback_entry k s m = Inr (b, if b then map_erase k m else m)"
proof -
  obtain b where "held_by k s m = Inr b" by (rule exE [OF held_by_total])
  then show ?thesis by (intro exI [of _ b]) (simp add: rollback_entry_def)
qed

lemma range_rewrite_filter:
  assumes "mm_ok m"
  shows "range_rewrite (lower_bound k m) (upper_bound k m) f m =
    Inr (filter (\<lambda>p. fst p < k) m @ f (filter (\<lambda>p. fst p = k) m) @ filter (\<lambda>p. k < fst p) m)"
proof -
  have "iter_range (lower_bound k m) (upper_bound k m) m = Inr (filter (\<lambda>p. fst p = k) m)"
    using equal_range_filter [OF assms, of k] by (simp add: equal_range_def)
  moreover have "take (lower_bound k m) m = filter (\<lambda>p. fst p < k) m"
    unfolding lower_bound_def
    by (rule trans [OF take_length_takeWhile takeWhile_sorted [OF assms]]) simp
  moreover have "drop (upper_bound k m) m = filter (\<lambda>p. \<not> fst p \<le> k) m"
    unfolding upper_bound_def
    by (rule trans [OF drop_length_takeWhile dropWhile_sorted [OF assms]]) simp
  ultimately show ?thesis by (simp add: range_rewrite_def not_le)
qed

lemma mm_ok_three:
  assumes "mm_ok m" "\<And>p. p \<in> set xs \<Longrightarrow> fst p = k"
  shows "mm_ok (filter (\<lambda>p. fst p < k) m @ xs @ filter (\<lambda>p. k < fst p) m)"
proof -
  have "sorted (map fst xs)" using assms(2) by (induction xs) auto
  moreover have "mm_ok (filter (\<lambda>p. fst p < k) m)" "mm_ok (filter (\<lambda>p. k < fst p) m)"
    using assms(1) by (simp_all only: mm_ok_filter)
  ultimately show ?thesis
    using assms(2) by (force simp: mm_ok_def sorted_append)
qed

lemma unique_bodies:
  assumes "unique_ready t"
  shows "\<exists>t'. commit_unique k s t = Inr t' \<and> unique_ready t'"
    and "\<exists>t'. rollback_unique k s t = Inr t' \<and> unique_ready t'"
    and "\<exists>t'. put_unique k e t = Inr t' \<and> unique_ready t'"
    and "\<exists>t'. erase_unique k t = Inr t' \<and> unique_ready t'"
proof -
  obtain m where m: "uniqueIdx t = Some m" "sm_ok m" and q: "lockQueue t \<noteq> None"
    using assms by (auto simp: unique_ready_def)
  show "\<exists>t'. commit_unique k s t = Inr t' \<and> unique_ready t'"
    using commit_entry_total [of k s m] m q
    by (auto simp: commit_unique_def unique_ready_def sm_ok_def)
  show "\<exists>t'. rollback_unique k s t = Inr t' \<and> unique_ready t'"
    using rollback_entry_total [of k s m] m q
    by (auto simp: rollback_unique_def unique_ready_def ordered.ok_erase)
  show "\<exists>t'. put_unique k e t = Inr t' \<and> unique_ready t'"
    using m q by (auto simp: put_unique_def unique_ready_def ordered.ok_put)
  show "\<exists>t'. erase_unique k t = Inr t' \<and> unique_ready t'"
    using m q by (auto simp: erase_unique_def unique_ready_def ordered.ok_erase)
qed

lemma unordered_bodies:
  assumes "unordered_ready t"
  shows "\<exists>t'. commit_unordered k s t = Inr t' \<and> unordered_ready t'"
    and "\<exists>b t'. rollback_unordered_continues k s t = Inr (b, t') \<and> unordered_ready t'"
    and "\<exists>t'. put_unordered k e t = Inr t' \<and> unordered_ready t'"
    and "\<exists>t'. erase_unordered k t = Inr t' \<and> unordered_ready t'"
proof -
  obtain m where m: "unorderedIdx t = Some m" "um_ok m" and q: "lockQueue t \<noteq> None"
    using assms by (auto simp: unordered_ready_def)
  show "\<exists>t'. commit_unordered k s t = Inr t' \<and> unordered_ready t'"
    using commit_entry_total [of k s m] m q
    by (auto simp: commit_unordered_def unordered_ready_def um_ok_def)
  show "\<exists>b t'. rollback_unordered_continues k s t = Inr (b, t') \<and> unordered_ready t'"
    using rollback_entry_total [of k s m] m q
    by (auto simp: rollback_unordered_continues_def unordered_ready_def unordered.ok_erase)
  show "\<exists>t'. put_unordered k e t = Inr t' \<and> unordered_ready t'"
    using m q by (auto simp: put_unordered_def unordered_ready_def unordered.ok_put)
  show "\<exists>t'. erase_unordered k t = Inr t' \<and> unordered_ready t'"
    using m q by (auto simp: erase_unordered_def unordered_ready_def unordered.ok_erase)
qed

lemma rollback_unordered_ready:
  "unordered_ready t \<Longrightarrow> \<exists>t'. rollback_unordered k s t = Inr t' \<and> unordered_ready t'"
  using unordered_bodies(2) [of t k s] by (auto simp: rollback_unordered_def)

lemma nonunique_bodies:
  assumes "nonunique_ready t"
  shows "\<exists>t'. insert_nonunique k r e t = Inr t' \<and> nonunique_ready t'"
    and "\<exists>t'. delete_nonunique k r e t = Inr t' \<and> nonunique_ready t'"
    and "\<exists>t'. replace_nonunique r e r' e' k t = Inr t' \<and> nonunique_ready t'"
proof -
  obtain m where m: "nonuniqueIdx t = Some m" "mm_ok m"
    using assms by (auto simp: nonunique_ready_def)
  show "\<exists>t'. insert_nonunique k r e t = Inr t' \<and> nonunique_ready t'"
    using m by (auto simp: insert_nonunique_def nonunique_ready_def mm_insert_ok)
  show "\<exists>t'. delete_nonunique k r e t = Inr t' \<and> nonunique_ready t'"
    using m by (auto simp: delete_nonunique_def nonunique_ready_def range_rewrite_filter
        intro!: mm_ok_three)
  show "\<exists>t'. replace_nonunique r e r' e' k t = Inr t' \<and> nonunique_ready t'"
    using m by (auto simp: replace_nonunique_def nonunique_ready_def range_rewrite_filter
        intro!: mm_ok_three split: if_splits)
qed

text \<open>Inserting an entry and deleting it again leaves a multimap as it was.\<close>

lemma is_row_iff: "is_row r e x \<longleftrightarrow> x = \<lparr>nl_rowid = r, nl_engineid = e\<rparr>"
  by (cases x) (auto simp: is_row_def)

lemma insert_delete_nonunique:
  assumes "nonuniqueIdx t = Some m" "mm_ok m" "- 32768 \<le> e" "e < 32768"
    and "(k, \<lparr>nl_rowid = r, nl_engineid = e\<rparr>) \<notin> set m"
  shows "rbind (insert_nonunique k r e t) (delete_nonunique k r e) = Inr t"
proof -
  let ?x = "(k, \<lparr>nl_rowid = r, nl_engineid = e\<rparr>)"
  have e: "int16 e = e" using assms(3,4) by (rule int16_id)
  let ?m = "mm_insert k \<lparr>nl_rowid = r, nl_engineid = e\<rparr> m"
  have ins: "?m = filter (\<lambda>p. fst p \<le> k) m @ ?x # filter (\<lambda>p. \<not> fst p \<le> k) m"
    using takeWhile_sorted [OF assms(2), of "\<lambda>x. x \<le> k"] dropWhile_sorted [OF assms(2), of "\<lambda>x. x \<le> k"]
    by (simp add: mm_insert_def)
  have sub: "filter P (filter Q m) = filter P m" if "\<And>p. P p \<Longrightarrow> Q p" for P Q :: "'a \<times> nonLockingIndexEntry \<Rightarrow> bool"
    using that by (auto intro: filter_cong)
  have none: "filter P (filter Q m) = []" if "\<And>p. P p \<Longrightarrow> \<not> Q p" for P Q :: "'a \<times> nonLockingIndexEntry \<Rightarrow> bool"
    using that by (auto simp: filter_empty_conv)
  have eq: "filter (\<lambda>p. fst p = k) ?m = filter (\<lambda>p. fst p = k) m @ [?x]"
    unfolding ins by (simp add: sub none del: filter_filter)
  have lt: "filter (\<lambda>p. fst p < k) ?m = filter (\<lambda>p. fst p < k) m"
    unfolding ins by (simp add: sub none del: filter_filter)
  have gt: "filter (\<lambda>p. k < fst p) ?m = filter (\<lambda>p. k < fst p) m"
    unfolding ins by (simp add: sub none del: filter_filter)
  have keep: "filter (\<lambda>p. \<not> is_row r e (snd p)) (filter (\<lambda>p. fst p = k) m) = filter (\<lambda>p. fst p = k) m"
    using assms(5) by (auto simp: is_row_iff intro!: filter_cong)
  have parts: "filter (\<lambda>p. fst p < k) m @ filter (\<lambda>p. fst p = k) m @ filter (\<lambda>p. k < fst p) m = m"
    using range_rewrite_filter [OF assms(2), of k "\<lambda>x. x"] 
    by (simp add: range_rewrite_def iter_range_def split: if_splits)
      (metis append_assoc append_take_drop_id le_add_diff_inverse take_add)
  have "range_rewrite (lower_bound k ?m) (upper_bound k ?m) (filter (\<lambda>p. \<not> is_row r e (snd p))) ?m = Inr m"
    using parts keep mm_insert_ok [OF assms(2)]
    by (simp add: range_rewrite_filter eq lt gt is_row_def)
  then show ?thesis
    using assms(1) by (simp add: insert_nonunique_def delete_nonunique_def e)
qed


section \<open>Overloads\<close>

text \<open>An operation succeeds, keeps the invariant, and leaves the kind of the index alone.\<close>

definition same_kind :: "index \<Rightarrow> index \<Rightarrow> bool" where
  "same_kind ix ix' \<longleftrightarrow>
     indexmaptype ix' = indexmaptype ix \<and> fieldtype ix' = fieldtype ix
     \<and> isunique ix' = isunique ix \<and> notNull ix' = notNull ix"

definition keeps_wf :: "index \<Rightarrow> index res \<Rightarrow> bool" where
  "keeps_wf ix r = (\<exists>ix'. r = Inr ix' \<and> index_wf ix' \<and> same_kind ix ix')"

lemma keeps_wf_refl [simp]: "index_wf ix \<Longrightarrow> keeps_wf ix (Inr ix)"
  by (simp add: keeps_wf_def same_kind_def)

lemma upd_keeps_wf:
  assumes "index_wf ix"
  shows "\<exists>t. f (intIx ix) = Inr t \<and> index_wf (ix\<lparr>intIx := t\<rparr>) \<Longrightarrow> keeps_wf ix (upd_int f ix)"
    and "\<exists>t. g (uintIx ix) = Inr t \<and> index_wf (ix\<lparr>uintIx := t\<rparr>) \<Longrightarrow> keeps_wf ix (upd_uint g ix)"
    and "\<exists>t. h (boolIx ix) = Inr t \<and> index_wf (ix\<lparr>boolIx := t\<rparr>) \<Longrightarrow> keeps_wf ix (upd_bool h ix)"
    and "\<exists>t. i (floatIx ix) = Inr t \<and> index_wf (ix\<lparr>floatIx := t\<rparr>) \<Longrightarrow> keeps_wf ix (upd_float i ix)"
    and "\<exists>t. j (charIx ix) = Inr t \<and> index_wf (ix\<lparr>charIx := t\<rparr>) \<Longrightarrow> keeps_wf ix (upd_char j ix)"
    and "\<exists>t. l (stringIx ix) = Inr t \<and> index_wf (ix\<lparr>stringIx := t\<rparr>) \<Longrightarrow> keeps_wf ix (upd_string l ix)"
  by (auto simp: keeps_wf_def same_kind_def upd_int_def upd_uint_def upd_bool_def upd_float_def
      upd_char_def upd_string_def)

lemmas ready_bodies = unique_bodies unordered_bodies(1,3,4) rollback_unordered_ready nonunique_bodies

lemmas commitRollback_defs = commitRollback_int_def commitRollback_uint_def
  commitRollback_bool_def commitRollback_float_def commitRollback_char_def
  commitRollback_string_def

lemma commitRollback_scalar_wf:
  assumes "index_wf ix"
  shows "keeps_wf ix (commitRollback_int ix i s cmd)" "keeps_wf ix (commitRollback_uint ix u s cmd)"
    and "keeps_wf ix (commitRollback_bool ix b s cmd)" "keeps_wf ix (commitRollback_float ix f s cmd)"
    and "keeps_wf ix (commitRollback_char ix c s cmd)"
  using assms
  by (cases "indexmaptype ix";
      auto simp: commitRollback_defs Let_def index_wf_def split: enginecmd.split
        intro!: upd_keeps_wf ready_bodies)+

lemma commitRollback_string_wf:
  assumes "index_wf ix" "indexmaptype ix \<noteq> unorderedcharx \<or> cmd \<noteq> ROLLBACKCMD"
  shows "keeps_wf ix (commitRollback_string ix v s cmd)"
  using assms
  by (cases "indexmaptype ix";
      auto simp: commitRollback_defs Let_def index_wf_def split: enginecmd.split
        intro!: upd_keeps_wf ready_bodies)


lemmas replaceUnique_defs = replaceUnique_int_def replaceUnique_uint_def replaceUnique_bool_def
  replaceUnique_float_def replaceUnique_char_def replaceUnique_string_def
  replace_unique_def replace_unordered_def

lemmas deleteUniqueEntry_defs = deleteUniqueEntry_int_def deleteUniqueEntry_uint_def
  deleteUniqueEntry_bool_def deleteUniqueEntry_float_def deleteUniqueEntry_char_def
  deleteUniqueEntry_string_def

lemma replaceUnique_wf:
  assumes "index_wf ix"
  shows "keeps_wf ix (replaceUnique_int z ix r e i)" "keeps_wf ix (replaceUnique_uint z ix r e u)"
    and "keeps_wf ix (replaceUnique_bool z ix r e b)" "keeps_wf ix (replaceUnique_float z ix r e f)"
    and "keeps_wf ix (replaceUnique_char z ix r e c)" "keeps_wf ix (replaceUnique_string z ix r e s)"
  using assms
  by (cases "indexmaptype ix";
      auto simp: replaceUnique_defs Let_def index_wf_def intro!: upd_keeps_wf ready_bodies)+

lemma deleteUniqueEntry_wf:
  assumes "index_wf ix"
  shows "keeps_wf ix (deleteUniqueEntry_int ix i)" "keeps_wf ix (deleteUniqueEntry_uint ix u)"
    and "keeps_wf ix (deleteUniqueEntry_bool ix b)" "keeps_wf ix (deleteUniqueEntry_float ix f)"
    and "keeps_wf ix (deleteUniqueEntry_char ix c)" "keeps_wf ix (deleteUniqueEntry_string ix s)"
  using assms
  by (cases "indexmaptype ix";
      auto simp: deleteUniqueEntry_defs Let_def index_wf_def intro!: upd_keeps_wf ready_bodies)+

text \<open>The operations on a multimap do not look at the selector, so they need it to be right.\<close>

lemma nonunique_update_wf:
  assumes "index_wf ix"
  shows "indexmaptype ix = nonuniqueint \<Longrightarrow> nonunique_ready (intIx ix)"
    and "indexmaptype ix = nonuniqueuint \<Longrightarrow> nonunique_ready (uintIx ix)"
    and "indexmaptype ix = nonuniquebool \<Longrightarrow> nonunique_ready (boolIx ix)"
    and "indexmaptype ix = nonuniquefloat \<Longrightarrow> nonunique_ready (floatIx ix)"
    and "indexmaptype ix = nonuniquechar \<Longrightarrow> nonunique_ready (charIx ix)"
    and "indexmaptype ix = nonuniquecharx \<or> indexmaptype ix = nonuniquevarchar \<Longrightarrow>
      nonunique_ready (stringIx ix)"
  using assms by (auto simp: index_wf_def)

text \<open>An insertion into a multimap and the deletion of the same entry cancel out.\<close>

definition fresh_pair :: "'k \<Rightarrow> int \<Rightarrow> int \<Rightarrow> ('k \<times> nonLockingIndexEntry) list \<Rightarrow> bool" where
  "fresh_pair k r e es \<longleftrightarrow>
     - 32768 \<le> e \<and> e < 32768 \<and> (k, \<lparr>nl_rowid = r, nl_engineid = e\<rparr>) \<notin> set es"

lemma insert_delete_body:
  assumes "nonunique_ready t" "fresh_pair k r e (nonlocking_pairs (nonuniqueIdx t))"
  shows "\<exists>t'. insert_nonunique k r e t = Inr t' \<and> delete_nonunique k r e t' = Inr t"
proof -
  obtain m where m: "nonuniqueIdx t = Some m" "mm_ok m"
    using assms(1) by (auto simp: nonunique_ready_def)
  have f: "- 32768 \<le> e" "e < 32768" "(k, \<lparr>nl_rowid = r, nl_engineid = e\<rparr>) \<notin> set m"
    using assms(2) m(1) by (simp_all add: fresh_pair_def nonlocking_pairs_def)
  show ?thesis using insert_delete_nonunique [OF m f] by simp
qed

lemma insert_body_entries:
  assumes "nonunique_ready t" "- 32768 \<le> e" "e < 32768"
  shows "\<exists>t'. insert_nonunique k r e t = Inr t'
    \<and> mset (nonlocking_pairs (nonuniqueIdx t')) =
        add_mset (k, \<lparr>nl_rowid = r, nl_engineid = e\<rparr>) (mset (nonlocking_pairs (nonuniqueIdx t)))"
  using assms
  by (auto simp: nonunique_ready_def insert_nonunique_def nonlocking_pairs_def mset_mm_insert int16_id)

lemmas insertNonunique_defs = insertNonuniqueEntry_int_def insertNonuniqueEntry_uint_def
  insertNonuniqueEntry_bool_def insertNonuniqueEntry_float_def insertNonuniqueEntry_char_def
  insertNonuniqueEntry_string_def

lemmas deleteNonunique_defs = deleteNonuniqueEntry_int_def deleteNonuniqueEntry_uint_def
  deleteNonuniqueEntry_bool_def deleteNonuniqueEntry_float_def deleteNonuniqueEntry_char_def
  deleteNonuniqueEntry_string_def

lemmas upd_defs = upd_int_def upd_uint_def upd_bool_def upd_float_def upd_char_def upd_string_def

text \<open>\<open>checkAndLock\<close> on a key that is not there.\<close>

lemma checkAndLock_absent_bodies:
  assumes "k \<notin> fst ` set (locking_pairs (Some m))"
  shows "uniqueIdx t = Some m \<Longrightarrow> checkAndLock_unique k r e sub p a t = Inl OutOfRange"
    and "unorderedIdx t = Some m \<Longrightarrow> checkAndLock_unordered k r e sub p a t = Inl OutOfRange"
proof -
  have "map_of m k = None"
    using assms by (auto simp: locking_pairs_def map_of_eq_None_iff image_iff)
  then show "uniqueIdx t = Some m \<Longrightarrow> checkAndLock_unique k r e sub p a t = Inl OutOfRange"
    and "unorderedIdx t = Some m \<Longrightarrow> checkAndLock_unordered k r e sub p a t = Inl OutOfRange"
    by (simp_all add: checkAndLock_unique_def checkAndLock_unordered_def lock_at_def map_at_def
        map_count_def)
qed

lemmas checkAndLock_defs = checkAndLock_int_def checkAndLock_uint_def checkAndLock_bool_def
  checkAndLock_float_def checkAndLock_char_def checkAndLock_string_def with_int_def with_uint_def
  with_bool_def with_float_def with_char_def with_string_def

section \<open>Replication\<close>

lemma put_erase_unique:
  assumes "unique_ready t"
  shows "\<exists>m m'. uniqueIdx t = Some m \<and> put_unique k e t = Inr (t\<lparr>uniqueIdx := Some m'\<rparr>)
    \<and> map_of m' k = Some e \<and> map_of (map_erase k m') k = None"
  using assms by (auto simp: unique_ready_def put_unique_def ordered.map_of_put map_of_erase)

lemma put_erase_unordered:
  assumes "unordered_ready t"
  shows "\<exists>m m'. unorderedIdx t = Some m \<and> put_unordered k e t = Inr (t\<lparr>unorderedIdx := Some m'\<rparr>)
    \<and> map_of m' k = Some e \<and> map_of (map_erase k m') k = None"
  using assms by (auto simp: unordered_ready_def put_unordered_def unordered.map_of_put map_of_erase)

lemmas replication_defs = checkifthere_def checkifthere_int_def checkifthere_uint_def
  checkifthere_bool_def checkifthere_float_def checkifthere_char_def checkifthere_string_def
  checkifmatch_def checkifmatch_int_def checkifmatch_uint_def checkifmatch_bool_def
  checkifmatch_float_def checkifmatch_char_def checkifmatch_string_def
  rm_def rm_int_def rm_uint_def rm_bool_def rm_float_def rm_char_def rm_string_def
  getprevioussubtransactionid_def getprevioussubtransactionid_int_def
  getprevioussubtransactionid_uint_def getprevioussubtransactionid_bool_def
  getprevioussubtransactionid_float_def getprevioussubtransactionid_char_def
  getprevioussubtransactionid_string_def entry_at_def erase_unique_def erase_unordered_def

definition replicated :: "index \<Rightarrow> fieldValue \<Rightarrow> int \<Rightarrow> int \<Rightarrow> int \<Rightarrow> bool" where
  "replicated ix v r e sub \<longleftrightarrow>
     checkifthere ix v = Inr True \<and> checkifmatch ix v r e = Inr True
     \<and> getprevioussubtransactionid ix v = Inr sub
     \<and> (\<exists>ix'. rm ix v = Inr ix' \<and> checkifthere ix' v = Inr False)"

lemma addifnotthere_replicated:
  assumes "index_wf ix" "imt_unique (indexmaptype ix)" "fieldtype ix = imt_fieldtype (indexmaptype ix)"
    and "checkifthere ix v = Inr False"
  shows "\<exists>ix'. addifnotthere ix v r e sub = Inr (True, ix') \<and> replicated ix' v r e sub"
proof -
  let ?e = "\<lparr>li_rowid = r, li_engineid = e, li_subtransactionid = 0, li_previoussubtransactionid = sub\<rparr>"
  show ?thesis
    using assms put_erase_unique [of "intIx ix" "integer v" ?e]
      put_erase_unordered [of "intIx ix" "integer v" ?e]
      put_erase_unique [of "uintIx ix" "uinteger v" ?e]
      put_erase_unordered [of "uintIx ix" "uinteger v" ?e]
      put_erase_unique [of "boolIx ix" "boolean v" ?e]
      put_erase_unordered [of "boolIx ix" "boolean v" ?e]
      put_erase_unique [of "floatIx ix" "ld_key (floating v)" ?e]
      put_erase_unordered [of "floatIx ix" "ld_key (floating v)" ?e]
      put_erase_unique [of "charIx ix" "character v" ?e]
      put_erase_unordered [of "charIx ix" "character v" ?e]
      put_erase_unique [of "stringIx ix" "str v" ?e]
      put_erase_unordered [of "stringIx ix" "str v" ?e]
    by (cases "indexmaptype ix";
        simp add: index_wf_def addifnotthere_def imt_unique_def;
        clarsimp simp: replicated_def replication_defs upd_defs map_count_def map_at_def Let_def)
qed

end
