(* ===== verification/Value_Lemmas.thy ===== *)
theory Value_Lemmas
  imports Db_Globals
begin

text \<open>
  The value helpers of \<open>globals.cc\<close> against reference definitions: the translation of a
  \<open>LIKE\<close> pattern is a byte-by-byte substitution, and \<open>trimspace\<close> removes exactly the
  trailing spaces.
\<close>

fun like_byte :: "byte \<Rightarrow> bytes" where
  "like_byte c = (if c = under_byte then [dot_byte]
                  else if c = pct_byte then [dot_byte, star_byte] else [c])"

lemma find_byte_split:
  assumes "find_byte b xs = Some n"
  shows "n < length xs \<and> b \<notin> set (take n xs) \<and> xs = take n xs @ b # drop (Suc n) xs"
  using assms
proof (induction xs arbitrary: n)
  case (Cons x xs)
  show ?case
  proof (cases "x = b")
    case False
    with Cons.prems obtain m where m: "n = Suc m" "find_byte b xs = Some m"
      by (auto split: option.splits)
    then show ?thesis using Cons.IH [of m] False by auto
  qed (use Cons.prems in auto)
qed simp

lemma map_subst_absent: "b \<notin> set xs \<Longrightarrow> map (\<lambda>c. if c = b then d else c) xs = xs"
  by (induction xs) auto

lemma list_update_split: "n < length xs \<Longrightarrow> xs[n := c] = take n xs @ c # drop (Suc n) xs"
  by (simp add: upd_conv_take_nth_drop)

lemma like2Regex_under_map:
  "like2Regex_under s = map (\<lambda>c. if c = under_byte then dot_byte else c) s"
proof (induction s rule: like2Regex_under.induct)
  case (1 s)
  show ?case
  proof (cases "find_byte under_byte s")
    case None
    then have "like2Regex_under s = s" by (simp add: like2Regex_under.simps [of s])
    moreover have "under_byte \<notin> set s" using None by (simp add: find_byte_None)
    ultimately show ?thesis by (simp add: map_subst_absent)
  next
    case (Some n)
    note sp = find_byte_split [OF Some]
    let ?f = "\<lambda>c. if c = under_byte then dot_byte else c"
    have "?f dot_byte = ?f under_byte" by (simp add: byte_defs)
    then have "map ?f (s[n := dot_byte]) = map ?f (take n s @ under_byte # drop (Suc n) s)"
      using sp [THEN conjunct1] by (simp only: list_update_split map_append list.map)
    also have "\<dots> = map ?f s" using sp by (metis (no_types))
    finally show ?thesis using 1 [OF Some] Some by (simp add: like2Regex_under.simps [of s])
  qed
qed

lemma like2Regex_pct_concat:
  "like2Regex_pct s = concat (map (\<lambda>c. if c = pct_byte then [dot_byte, star_byte] else [c]) s)"
proof (induction s rule: like2Regex_pct.induct)
  case (1 s)
  let ?f = "\<lambda>c. if c = pct_byte then [dot_byte, star_byte] else [c]"
  show ?case
  proof (cases "find_byte pct_byte s")
    case None
    then have "pct_byte \<notin> set s" by (simp add: find_byte_None)
    then have "concat (map ?f s) = s" by (induction s) auto
    with None show ?thesis by (simp add: like2Regex_pct.simps [of s])
  next
    case (Some n)
    note sp = find_byte_split [OF Some]
    let ?s = "s[n := star_byte]"
    have t: "take n ?s @ [dot_byte] @ drop n ?s = take n s @ [dot_byte, star_byte] @ drop (Suc n) s"
      using sp by (simp add: list_update_split)
    have "concat (map ?f (take n s @ [dot_byte, star_byte] @ drop (Suc n) s))
        = concat (map ?f (take n s @ pct_byte # drop (Suc n) s))"
      by (simp add: byte_defs)
    also have "\<dots> = concat (map ?f s)" using sp by simp
    finally show ?thesis
      using 1 [OF Some refl] Some t by (simp add: like2Regex_pct.simps [of s] Let_def)
  qed
qed

lemma like2Regex_bytes: "like2Regex s = concat (map like_byte s)"
proof -
  have "(if (if c = under_byte then dot_byte else c) = pct_byte then [dot_byte, star_byte]
         else [if c = under_byte then dot_byte else c]) = like_byte c" for c
    by (simp add: byte_defs)
  then show ?thesis
    by (simp add: like2Regex_def like2Regex_under_map like2Regex_pct_concat o_def
        del: like_byte.simps)
qed

lemma find_last_not_sp_None: "find_last_not_sp s = None \<longleftrightarrow> (\<forall>c \<in> set s. c = sp_byte)"
  by (induction s) (auto split: option.splits)

lemma find_last_not_sp_Some:
  "find_last_not_sp s = Some n \<Longrightarrow>
   n < length s \<and> s ! n \<noteq> sp_byte \<and> (\<forall>c \<in> set (drop (Suc n) s). c = sp_byte)"
proof (induction s arbitrary: n)
  case (Cons x s)
  show ?case
  proof (cases "find_last_not_sp s")
    case None
    then have "\<forall>c \<in> set s. c = sp_byte" by (simp add: find_last_not_sp_None)
    then show ?thesis using Cons.prems None by (auto split: if_splits)
  next
    case (Some m)
    then show ?thesis using Cons.prems Cons.IH [of m] by auto
  qed
qed simp

lemma dropWhile_prefix:
  "\<forall>x \<in> set xs. P x \<Longrightarrow> \<not> P y \<Longrightarrow> dropWhile P (xs @ y # ys) = y # ys"
  by (induction xs) auto

lemma trimspace_rev: "trimspace s = rev (dropWhile (\<lambda>c. c = sp_byte) (rev s))"
proof (cases "find_last_not_sp s")
  case None
  then have "\<forall>c \<in> set (rev s). c = sp_byte" by (simp add: find_last_not_sp_None)
  then have "dropWhile (\<lambda>c. c = sp_byte) (rev s) = []" by (simp add: dropWhile_eq_Nil_conv)
  then show ?thesis using None by (simp add: trimspace_def)
next
  case (Some n)
  note sp = find_last_not_sp_Some [OF Some]
  have "s = take n s @ s ! n # drop (Suc n) s" using sp by (simp add: id_take_nth_drop [symmetric])
  then have r: "rev s = rev (drop (Suc n) s) @ s ! n # rev (take n s)"
    by (metis append.assoc append_Cons append_Nil rev.simps(2) rev_append)
  have "dropWhile (\<lambda>c. c = sp_byte) (rev s) = s ! n # rev (take n s)"
    by (subst r, rule dropWhile_prefix) (use sp in simp_all)
  then show ?thesis using Some sp by (simp add: trimspace_def take_Suc_conv_app_nth)
qed

lemma trimspace_idem: "trimspace (trimspace s) = trimspace s"
proof -
  have "dropWhile P (dropWhile P xs) = dropWhile P xs" for P and xs :: bytes
    by (induction xs) auto
  then show ?thesis by (simp add: trimspace_rev)
qed

end
