(* ===== verification/Index_Properties.thy ===== *)
theory Index_Properties
  imports Index_Commit Value_Lemmas
begin

text \<open>
  The properties of the class \<open>Index\<close>: searches, updates, staging and the selection of the
  map, each with a witness on a small index. The theorems are the lemmas of
  \<open>Index_Queries\<close> and \<open>Index_Commit\<close> read over whole operations.
\<close>

section \<open>Sample indices\<close>

definition sample_entry :: "int \<Rightarrow> int \<Rightarrow> lockingIndexEntry" where
  "sample_entry r s = \<lparr>li_rowid = r, li_engineid = 0, li_subtransactionid = s,
     li_previoussubtransactionid = 0\<rparr>"

definition sample_hit :: "int \<Rightarrow> nonLockingIndexEntry" where
  "sample_hit r = \<lparr>nl_rowid = r, nl_engineid = 0\<rparr>"

definition sample_int :: index where
  "sample_int = (let ix = makeindex UNIQUE F_INT Index in
     ix\<lparr>intIx := (intIx ix)\<lparr>uniqueIdx := Some
       [(I64 3, sample_entry 1 0), (I64 5, sample_entry 2 0), (I64 9, sample_entry 3 0)]\<rparr>\<rparr>)"

definition sample_uint :: index where
  "sample_uint = (let ix = makeindex UNIQUE F_UINT Index in
     ix\<lparr>uintIx := (uintIx ix)\<lparr>uniqueIdx := Some
       [(3, sample_entry 1 0), (5, sample_entry 2 0), (9, sample_entry 3 0)]\<rparr>\<rparr>)"

text \<open>Keys \<open>"a"\<close> and \<open>"b"\<close>, in an ordered and in an unordered index, and in a multimap.\<close>

definition sample_string :: "indextype \<Rightarrow> fieldtype \<Rightarrow> index" where
  "sample_string it ft = (let ix = makeindex it ft Index in
     ix\<lparr>stringIx := (stringIx ix)
         \<lparr>uniqueIdx := (if it = UNIQUE then Some [([97], sample_entry 1 7), ([98], sample_entry 2 0)]
                       else None),
          nonuniqueIdx := (if it = NONUNIQUE then Some [([97], sample_hit 1), ([98], sample_hit 2)]
                           else None),
          unorderedIdx := (if it = UNORDERED then Some [([97], sample_entry 1 7), ([98], sample_entry 2 0)]
                           else None)\<rparr>\<rparr>)"

lemmas makeindex_simps = makeindex_def Index_def Let_def indexmaptype_cast_def indexmaptypes_def
  allocate_maps_def new_unique_def new_nonunique_def new_unordered_def null_typed_index_def

lemma sample_int_facts:
  "index_wf sample_int" "indexmaptype sample_int = uniqueint"
  "uniqueIdx (intIx sample_int) = Some
     [(I64 3, sample_entry 1 0), (I64 5, sample_entry 2 0), (I64 9, sample_entry 3 0)]"
  by (simp_all add: sample_int_def makeindex_simps index_wf_def unique_ready_def sm_ok_def less_i64_def)

lemma sample_uint_facts:
  "index_wf sample_uint" "indexmaptype sample_uint = uniqueuint"
  "uniqueIdx (uintIx sample_uint) = Some
     [(3, sample_entry 1 0), (5, sample_entry 2 0), (9, sample_entry 3 0)]"
  by (simp_all add: sample_uint_def makeindex_simps index_wf_def unique_ready_def sm_ok_def)

lemma sample_string_facts:
  "index_wf (sample_string UNIQUE F_VARCHAR)"
  "indexmaptype (sample_string UNIQUE F_VARCHAR) = uniquevarchar"
  "uniqueIdx (stringIx (sample_string UNIQUE F_VARCHAR)) =
     Some [([97], sample_entry 1 7), ([98], sample_entry 2 0)]"
  "index_wf (sample_string NONUNIQUE F_VARCHAR)"
  "indexmaptype (sample_string NONUNIQUE F_VARCHAR) = nonuniquevarchar"
  "nonuniqueIdx (stringIx (sample_string NONUNIQUE F_VARCHAR)) =
     Some [([97], sample_hit 1), ([98], sample_hit 2)]"
  "index_wf (sample_string UNORDERED F_CHARX)"
  "indexmaptype (sample_string UNORDERED F_CHARX) = unorderedcharx"
  "unorderedIdx (stringIx (sample_string UNORDERED F_CHARX)) =
     Some [([97], sample_entry 1 7), ([98], sample_entry 2 0)]"
  "uniqueIdx (stringIx (sample_string UNORDERED F_CHARX)) = None"
  by (simp_all add: sample_string_def makeindex_simps index_wf_def unique_ready_def
      nonunique_ready_def unordered_ready_def sm_ok_def mm_ok_def um_ok_def)

lemmas sample_simps = sample_entry_def sample_hit_def nl_of_def

section \<open>Searches\<close>



text \<open>The searches for inequality and for membership in a list are exact as well: \<open>getnotequal\<close>
  appends the entries with another key, \<open>getnotin\<close> those whose key is not in the list, on every
  kind of map.\<close>

theorem getnotequal_getnotin_exact:
  assumes "index_wf ix"
  shows "getnotequal_int ix i ret = Inr (ret @ hits (\<lambda>key. key \<noteq> i) (int_entries ix))
    \<and> getnotequal_uint ix u ret = Inr (ret @ hits (\<lambda>key. key \<noteq> u) (uint_entries ix))
    \<and> getnotequal_bool ix b ret = Inr (ret @ hits (\<lambda>key. key \<noteq> b) (bool_entries ix))
    \<and> getnotequal_float ix f ret = Inr (ret @ hits (\<lambda>key. key \<noteq> ld_key f) (float_entries ix))
    \<and> getnotequal_char ix c ret = Inr (ret @ hits (\<lambda>key. key \<noteq> c) (char_entries ix))
    \<and> getnotequal_string ix s ret = Inr (ret @ hits (\<lambda>key. key \<noteq> trimspace s) (string_entries ix))
    \<and> getnotin_int ix is ret = Inr (ret @ hits (\<lambda>key. key \<notin> set is) (int_entries ix))
    \<and> getnotin_uint ix us ret = Inr (ret @ hits (\<lambda>key. key \<notin> set us) (uint_entries ix))
    \<and> getnotin_bool ix bs ret = Inr (ret @ hits (\<lambda>key. key \<notin> set bs) (bool_entries ix))
    \<and> getnotin_float ix fs ret = Inr (ret @ hits (\<lambda>key. key \<notin> ld_key ` set fs) (float_entries ix))
    \<and> getnotin_char ix cs ret = Inr (ret @ hits (\<lambda>key. key \<notin> set cs) (char_entries ix))"
  by (intro conjI) (rule getnotequal_overloads [OF assms] getnotin_overloads [OF assms])+

theorem getnotequal_getnotin_exact_witness:
  "getnotequal_int sample_int (I64 5) [] = Inr [sample_hit 1, sample_hit 3]"
proof -
  note ex = getnotequal_getnotin_exact [OF sample_int_facts(1), THEN conjunct1]
  show ?thesis
    by (simp only: ex) (simp add: int_entries_def sample_int_facts sample_simps)
qed



lemma op_test2_eq:
  "order_op op \<Longrightarrow>
   op_test2 op v = (\<lambda>key. op = OPERATOR_GT \<and> v < key \<or> op = OPERATOR_LTE \<and> key = v)"
  by (auto simp: order_op_def)

text \<open>The overloads of \<open>comparison\<close> for \<open>uint64_t\<close> and \<open>bool\<close> drifted: \<open>>\<close> is right, but
  \<open><\<close> and \<open>>=\<close> find nothing and \<open><=\<close> finds only the equal key.\<close>

theorem comparison_uint_bool_drift:
  assumes "index_wf ix" "order_op op" "\<not> unordered_map_selected ix"
  shows "comparison_uint ix u op ret = Inr (ret @ hits (\<lambda>key.
        op = OPERATOR_GT \<and> u < key \<or> op = OPERATOR_LTE \<and> key = u) (uint_entries ix))
    \<and> comparison_bool ix b op ret = Inr (ret @ hits (\<lambda>key.
        op = OPERATOR_GT \<and> b < key \<or> op = OPERATOR_LTE \<and> key = b) (bool_entries ix))"
  by (simp only: comparison_overloads(5,6) [OF assms] op_test2_eq [OF assms(2)] simp_thms)

theorem comparison_uint_bool_drift_witness:
  "comparison_uint sample_uint 9 OPERATOR_LT [] = Inr []"
proof -
  have "order_op OPERATOR_LT" "\<not> unordered_map_selected sample_uint"
    by (simp_all add: order_op_def unordered_map_selected_def sample_uint_facts)
  note ex = comparison_uint_bool_drift [OF sample_uint_facts(1) this, THEN conjunct1]
  show ?thesis by (simp only: ex) (simp add: hits_def)
qed

text \<open>\<open>between\<close> over \<open>int64_t\<close>, \<open>long double\<close>, \<open>char\<close> and strings appends exactly the
  entries whose key lies in the closed interval, also when the bounds are equal or reversed.\<close>

theorem between_exact:
  assumes "index_wf ix" "\<not> unordered_map_selected ix"
  shows "between_int ix i i' ret = Inr (ret @ hits (\<lambda>key. i \<le> key \<and> key \<le> i') (int_entries ix))
    \<and> between_float ix f f' ret =
        Inr (ret @ hits (\<lambda>key. ld_key f \<le> key \<and> key \<le> ld_key f') (float_entries ix))
    \<and> between_char ix c c' ret = Inr (ret @ hits (\<lambda>key. c \<le> key \<and> key \<le> c') (char_entries ix))
    \<and> between_string ix s s' ret =
        Inr (ret @ hits (\<lambda>key. trimspace s \<le> key \<and> key \<le> trimspace s') (string_entries ix))"
  using between_overloads [OF assms] by blast

theorem between_exact_witness:
  "between_int sample_int (I64 5) (I64 9) [] = Inr [sample_hit 2, sample_hit 3]"
proof -
  have "\<not> unordered_map_selected sample_int"
    by (simp add: unordered_map_selected_def sample_int_facts)
  note ex = between_exact [OF sample_int_facts(1) this, THEN conjunct1]
  show ?thesis
    by (simp only: ex) (simp add: int_entries_def sample_int_facts sample_simps less_eq_i64_def)
qed

text \<open>\<open>between\<close> over \<open>uint64_t\<close> on a unique index leaves the upper bound out, and with equal
  bounds that are in the index its loop starts behind its end.\<close>

theorem between_uint_drift:
  assumes "index_wf ix" "indexmaptype ix = uniqueuint"
  shows "(l < u \<longrightarrow> between_uint ix l u ret =
            Inr (ret @ hits (\<lambda>key. l \<le> key \<and> key < u) (uint_entries ix)))
    \<and> (k \<in> fst ` set (uint_entries ix) \<longrightarrow> between_uint ix k k ret = Inl IterPastEnd)"
proof -
  have r: "unique_ready (uintIx ix)" using assms by (simp add: index_wf_def)
  then obtain m where m: "uniqueIdx (uintIx ix) = Some m" by (auto simp: unique_ready_def)
  have "map_count k m" if "k \<in> fst ` set (uint_entries ix)"
    using that m
    by (auto simp: uint_entries_def assms(2) locking_pairs_def map_count_def map_of_eq_None_iff image_iff)
  then show ?thesis
    using between_unique2_hits [OF r] between_unique2_same [OF r m]
    by (auto simp: between_uint_def uint_entries_def assms(2))
qed

theorem between_uint_drift_witness:
  "between_uint sample_uint 3 9 [] = Inr [sample_hit 1, sample_hit 2]
   \<and> between_uint sample_uint 5 5 [] = Inl IterPastEnd"
proof -
  note ex = between_uint_drift [OF sample_uint_facts(1,2), of 3 9 "[]" 5]
  have "between_uint sample_uint 3 9 [] =
      Inr ([] @ hits (\<lambda>key. 3 \<le> key \<and> key < 9) (uint_entries sample_uint))"
    using ex by simp
  moreover have "5 \<in> fst ` set (uint_entries sample_uint)"
    by (simp add: uint_entries_def sample_uint_facts locking_pairs_def)
  ultimately show ?thesis
    using ex by (simp add: uint_entries_def sample_uint_facts sample_simps)
qed

text \<open>A regular expression on a string index: on an ordered map the search returns exactly the
  matching keys that start with the literal characters before the first special one, on an
  unordered map all matching keys. (A pattern whose literal prefix ends in byte 255 is excluded,
  the empty pattern and \<open>^\<close> as well.)\<close>

theorem regex_exact:
  assumes "index_wf ix" "regex_searchable re"
  shows "regex fm ix re ret =
    Inr (ret @ hits (\<lambda>key. (unordered_map_selected ix \<or> prefix (regex_literal re) key) \<and> fm re key)
          (string_entries ix))"
  using regex_ordered [OF assms(1) _ assms(2)] regex_unordered_map [OF assms(1)]
  by (cases "unordered_map_selected ix") simp_all

theorem regex_exact_witness:
  "regex (\<lambda>re s. True) (sample_string UNIQUE F_VARCHAR) [97, 46, 42] [] = Inr [sample_hit 1]"
proof -
  have "regex_searchable [97, 46, 42]"
    by (simp add: regex_searchable_def regex_start_def regex_literal_def regex_special_def)
  note ex = regex_exact [OF sample_string_facts(1) this]
  show ?thesis
    by (simp only: ex)
      (simp add: string_entries_def sample_string_facts sample_simps unordered_map_selected_def
        regex_literal_def regex_start_def regex_special_def)
qed

text \<open>So a pattern whose quantifier makes the literal prefix optional loses matches on an ordered
  index: whatever \<open>FullMatch\<close> says of the key, an entry without the prefix is not returned,
  while an unordered index with the same matching entry returns it.\<close>

theorem regex_prefix_loses_matches:
  assumes "index_wf ix" "index_wf ix'" "regex_searchable re"
    and "\<not> unordered_map_selected ix" "unordered_map_selected ix'"
    and "(key, e) \<in> set (string_entries ix')" "fm re key"
    and "\<forall>(key', e') \<in> set (string_entries ix). e' = e \<longrightarrow> \<not> prefix (regex_literal re) key'"
  shows "\<exists>found found'. regex fm ix re [] = Inr found \<and> e \<notin> set found
    \<and> regex fm ix' re [] = Inr found' \<and> e \<in> set found'"
  using assms(6-8) regex_ordered [OF assms(1,4,3), of fm "[]"] regex_unordered_map [OF assms(2,5), of fm re "[]"]
  by (force simp: hits_def)

theorem regex_prefix_loses_matches_witness:
  "\<exists>found found'. regex (\<lambda>re s. True) (sample_string UNIQUE F_VARCHAR) [98, 42] [] = Inr found
     \<and> sample_hit 1 \<notin> set found
     \<and> regex (\<lambda>re s. True) (sample_string UNORDERED F_CHARX) [98, 42] [] = Inr found'
     \<and> sample_hit 1 \<in> set found'"
  by (rule regex_prefix_loses_matches [where key = "[97]"])
    (simp_all add: sample_string_facts unordered_map_selected_def string_entries_def
      locking_pairs_def sample_simps regex_searchable_def regex_start_def regex_literal_def
      regex_special_def)

text \<open>\<open>getnotin\<close> over strings trims its list on some kinds of index and not on others: with a list
  entry that has trailing spaces, a \<open>uniquevarchar\<close> index excludes the trimmed key and a
  \<open>nonuniquevarchar\<close> index returns it.\<close>

theorem getnotin_string_inconsistent:
  assumes "index_wf ix" "index_wf ix'"
    and "indexmaptype ix = uniquevarchar" "indexmaptype ix' = nonuniquevarchar"
  shows "getnotin_string ix [s] ret = Inr (ret @ hits (\<lambda>key. key \<noteq> trimspace s) (string_entries ix))
    \<and> getnotin_string ix' [s] ret = Inr (ret @ hits (\<lambda>key. key \<noteq> s) (string_entries ix'))"
  using getnotin_string_trims [OF assms(1), of "[s]" ret] assms(3,4)
    getnotin_string_untrimmed [OF assms(2), of "[s]" ret]
  by simp

theorem getnotin_string_inconsistent_witness:
  "getnotin_string (sample_string UNIQUE F_VARCHAR) [[97, 32]] [] = Inr [sample_hit 2]
   \<and> getnotin_string (sample_string NONUNIQUE F_VARCHAR) [[97, 32]] [] = Inr [sample_hit 1, sample_hit 2]"
proof -
  note ex = getnotin_string_inconsistent [OF sample_string_facts(1,4,2,5)]
  have "trimspace [97, 32] = [97]" by (simp add: trimspace_def sp_byte_def)
  then show ?thesis
    by (simp only: ex) (simp add: string_entries_def sample_string_facts sample_simps)
qed

end
