(* ===== verification/Index_Update_Properties.thy ===== *)
theory Index_Update_Properties
  imports Index_Properties
begin

text \<open>
  The properties of the operations that change an index, and of the value helpers the index
  operations rely on.
\<close>

section \<open>The invariant\<close>

text \<open>\<open>makeindex\<close> on a new index selects a map for the field type and the kind of index,
  allocates it, and establishes the invariant; an index is unique exactly if its selector is one
  of a map with unique keys.\<close>

theorem makeindex_establishes:
  assumes "it \<noteq> NONE" "ft \<noteq> NOFIELDTYPE"
  shows "index_wf (makeindex it ft Index)
    \<and> imt_fieldtype (indexmaptype (makeindex it ft Index)) = ft
    \<and> fieldtype (makeindex it ft Index) = ft
    \<and> imt_unique (indexmaptype (makeindex it ft Index)) = isunique (makeindex it ft Index)
    \<and> int_entries (makeindex it ft Index) = [] \<and> nulls (makeindex it ft Index) = []"
proof -
  have "fieldtype (makeindex it ft Index) = ft \<and> int_entries (makeindex it ft Index) = []
      \<and> nulls (makeindex it ft Index) = []"
    by (cases it; cases ft;
        simp add: makeindex_simps int_entries_def locking_pairs_def nonlocking_pairs_def)
  then show ?thesis using makeindex_wf indexmaptype_makeindex [OF assms] by blast
qed

theorem makeindex_establishes_witness:
  "index_wf (makeindex UNIQUE F_INT Index) \<and> isunique (makeindex UNIQUE F_INT Index)"
  using makeindex_establishes [of UNIQUE F_INT] by (simp add: imt_unique_def makeindex_simps)



text \<open>The exception: on an unordered \<open>CHARX\<close> index, rolling back an entry that the
  subtransaction staged runs on into the code for the ordered map, which is not allocated.\<close>

theorem rollback_unorderedcharx_null:
  assumes "indexmaptype ix = unorderedcharx" "uniqueIdx (stringIx ix) = None"
    and "unorderedIdx (stringIx ix) = Some m" "map_of m s = Some e" "li_subtransactionid e = sub"
  shows "commitRollback_string ix s sub ROLLBACKCMD = Inl NullDeref"
  using assms
  by (simp add: commitRollback_string_def upd_string_def rollback_unordered_continues_def
      rollback_entry_def held_by_def map_count_def map_at_def rollback_unique_def Let_def)

theorem rollback_unorderedcharx_null_witness:
  "commitRollback_string (sample_string UNORDERED F_CHARX) [97] 7 ROLLBACKCMD = Inl NullDeref"
  using rollback_unorderedcharx_null [OF sample_string_facts(8,10,9), of "[97]" "sample_entry 1 7" 7]
  by (simp add: sample_entry_def)

section \<open>Entries\<close>

text \<open>On an index over a multimap, inserting an entry for a row that has none under the key and
  deleting it again is the identity, for each of the six key types.\<close>

theorem insert_delete_roundtrip:
  assumes "index_wf ix"
  shows "(indexmaptype ix = nonuniqueint \<and> fresh_pair i r e (int_entries ix) \<longrightarrow>
        rbind (insertNonuniqueEntry_int ix i r e) (\<lambda>ix'. deleteNonuniqueEntry_int ix' i r e) = Inr ix)
    \<and> (indexmaptype ix = nonuniqueuint \<and> fresh_pair u r e (uint_entries ix) \<longrightarrow>
        rbind (insertNonuniqueEntry_uint ix u r e) (\<lambda>ix'. deleteNonuniqueEntry_uint ix' u r e) = Inr ix)
    \<and> (indexmaptype ix = nonuniquebool \<and> fresh_pair b r e (bool_entries ix) \<longrightarrow>
        rbind (insertNonuniqueEntry_bool ix b r e) (\<lambda>ix'. deleteNonuniqueEntry_bool ix' b r e) = Inr ix)
    \<and> (indexmaptype ix = nonuniquefloat \<and> fresh_pair (ld_key f) r e (float_entries ix) \<longrightarrow>
        rbind (insertNonuniqueEntry_float ix f r e) (\<lambda>ix'. deleteNonuniqueEntry_float ix' f r e) = Inr ix)
    \<and> (indexmaptype ix = nonuniquechar \<and> fresh_pair c r e (char_entries ix) \<longrightarrow>
        rbind (insertNonuniqueEntry_char ix c r e) (\<lambda>ix'. deleteNonuniqueEntry_char ix' c r e) = Inr ix)
    \<and> (indexmaptype ix \<in> {nonuniquecharx, nonuniquevarchar}
        \<and> fresh_pair (trimspace s) r e (string_entries ix) \<longrightarrow>
        rbind (insertNonuniqueEntry_string ix s r e) (\<lambda>ix'. deleteNonuniqueEntry_string ix' s r e)
          = Inr ix)"
  using insert_delete_body [OF nonunique_update_wf(1) [OF assms], of i r e]
    insert_delete_body [OF nonunique_update_wf(2) [OF assms], of u r e]
    insert_delete_body [OF nonunique_update_wf(3) [OF assms], of b r e]
    insert_delete_body [OF nonunique_update_wf(4) [OF assms], of "ld_key f" r e]
    insert_delete_body [OF nonunique_update_wf(5) [OF assms], of c r e]
    insert_delete_body [OF nonunique_update_wf(6) [OF assms], of "trimspace s" r e]
  by (auto simp: insertNonunique_defs deleteNonunique_defs upd_defs entries_defs Let_def)

theorem insert_delete_roundtrip_witness:
  "rbind (insertNonuniqueEntry_string (sample_string NONUNIQUE F_VARCHAR) [97, 32] 9 0)
     (\<lambda>ix'. deleteNonuniqueEntry_string ix' [97, 32] 9 0)
   = Inr (sample_string NONUNIQUE F_VARCHAR)"
  using insert_delete_roundtrip [OF sample_string_facts(4), of _ 9 0 _ _ _ _ "[97, 32]"]
  by (simp add: sample_string_facts fresh_pair_def string_entries_def nonlocking_pairs_def
      sample_hit_def trimspace_def sp_byte_def)

text \<open>An insertion into a multimap adds exactly one entry, the trimmed key in the case of a
  string, and loses none.\<close>

theorem insertNonunique_adds_one:
  assumes "index_wf ix" "- 32768 \<le> e" "e < 32768"
  shows "(indexmaptype ix = nonuniqueint \<longrightarrow> (\<exists>ix'. insertNonuniqueEntry_int ix i r e = Inr ix'
        \<and> mset (int_entries ix') =
            add_mset (i, \<lparr>nl_rowid = r, nl_engineid = e\<rparr>) (mset (int_entries ix))))
    \<and> (indexmaptype ix \<in> {nonuniquecharx, nonuniquevarchar} \<longrightarrow>
        (\<exists>ix'. insertNonuniqueEntry_string ix s r e = Inr ix'
        \<and> mset (string_entries ix') =
            add_mset (trimspace s, \<lparr>nl_rowid = r, nl_engineid = e\<rparr>) (mset (string_entries ix))))"
  using insert_body_entries [OF nonunique_update_wf(1) [OF assms(1)] assms(2,3), of i r]
    insert_body_entries [OF nonunique_update_wf(6) [OF assms(1)] assms(2,3), of "trimspace s" r]
  by (auto simp: insertNonunique_defs upd_defs entries_defs Let_def)

theorem insertNonunique_adds_one_witness:
  "\<exists>ix'. insertNonuniqueEntry_string (sample_string NONUNIQUE F_VARCHAR) [99, 32] 9 0 = Inr ix'
     \<and> mset (string_entries ix') = add_mset ([99], \<lparr>nl_rowid = 9, nl_engineid = 0\<rparr>)
         (mset (string_entries (sample_string NONUNIQUE F_VARCHAR)))"
proof -
  have "trimspace [99, 32] = [99]" by (simp add: trimspace_def sp_byte_def)
  then show ?thesis
    using insertNonunique_adds_one [OF sample_string_facts(4), of 0 _ 9 "[99, 32]"]
    by (simp add: sample_string_facts)
qed

text \<open>\<open>checkAndLock\<close> never succeeds in locking a key: when the key is not in the index, \<open>at\<close>
  throws, for all key types.\<close>

theorem checkAndLock_absent_throws:
  assumes "index_wf ix" "imt_unique (indexmaptype ix)"
  shows "(imt_fieldtype (indexmaptype ix) = F_INT \<and> i \<notin> fst ` set (int_entries ix) \<longrightarrow>
        checkAndLock_int ix i r e sub p t = Inl OutOfRange)
    \<and> (imt_fieldtype (indexmaptype ix) = F_UINT \<and> u \<notin> fst ` set (uint_entries ix) \<longrightarrow>
        checkAndLock_uint ix u r e sub p t = Inl OutOfRange)
    \<and> (imt_fieldtype (indexmaptype ix) = F_BOOL \<and> b \<notin> fst ` set (bool_entries ix) \<longrightarrow>
        checkAndLock_bool ix b r e sub p t = Inl OutOfRange)
    \<and> (imt_fieldtype (indexmaptype ix) = F_FLOAT \<and> ld_key f \<notin> fst ` set (float_entries ix) \<longrightarrow>
        checkAndLock_float ix f r e sub p t = Inl OutOfRange)
    \<and> (imt_fieldtype (indexmaptype ix) = F_CHAR \<and> c \<notin> fst ` set (char_entries ix) \<longrightarrow>
        checkAndLock_char ix c r e sub p t = Inl OutOfRange)
    \<and> (imt_fieldtype (indexmaptype ix) \<in> {F_CHARX, F_VARCHAR}
        \<and> s \<notin> fst ` set (string_entries ix) \<longrightarrow>
        checkAndLock_string ix s r e sub p t = Inl OutOfRange)"
  using assms
  by (cases "indexmaptype ix";
      auto simp: index_wf_def unique_ready_def unordered_ready_def entries_defs checkAndLock_defs
        imt_unique_def checkAndLock_absent_bodies Let_def)

theorem checkAndLock_absent_throws_witness:
  "checkAndLock_int sample_int (I64 4) 1 1 7 0 0 = Inl OutOfRange"
  using checkAndLock_absent_throws [OF sample_int_facts(1), of "I64 4" 1 1 7 0 0]
  by (simp add: sample_int_facts int_entries_def locking_pairs_def imt_unique_def)

section \<open>Replication\<close>



section \<open>Values\<close>

text \<open>The loops of \<open>like2Regex\<close> end, and translate a \<open>LIKE\<close> pattern byte by byte: \<open>_\<close>
  becomes \<open>.\<close>, \<open>%\<close> becomes \<open>.*\<close>, and every other byte stays (special characters of
  regular expressions included).\<close>

theorem like2Regex_bytewise:
  "like2Regex s = concat (map like_byte s)
   \<and> like2Regex (s @ s') = like2Regex s @ like2Regex s'
   \<and> under_byte \<notin> set (like2Regex s) \<and> pct_byte \<notin> set (like2Regex s)"
proof -
  have "under_byte \<notin> set (like_byte c)" "pct_byte \<notin> set (like_byte c)" for c
    by (auto simp: byte_defs)
  then show ?thesis by (auto simp: like2Regex_bytes simp del: like_byte.simps)
qed

text \<open>\<open>trimspace\<close> removes the trailing spaces and nothing else: what it removes is spaces, what
  it keeps does not end in one, and trimming twice is trimming once.\<close>

theorem trimspace_spec:
  "(\<exists>n. s = trimspace s @ replicate n sp_byte)
   \<and> (trimspace s = [] \<or> last (trimspace s) \<noteq> sp_byte)
   \<and> trimspace (trimspace s) = trimspace s"
proof -
  have "rev s = takeWhile (\<lambda>c. c = sp_byte) (rev s) @ dropWhile (\<lambda>c. c = sp_byte) (rev s)" by simp
  then have "s = trimspace s @ rev (takeWhile (\<lambda>c. c = sp_byte) (rev s))"
    by (metis rev_append rev_rev_ident trimspace_rev)
  moreover have "rev (takeWhile (\<lambda>c. c = sp_byte) (rev s))
      = replicate (length (takeWhile (\<lambda>c. c = sp_byte) (rev s))) sp_byte"
    by (rule replicate_eqI) (auto dest: set_takeWhileD)
  moreover have "last (trimspace s) \<noteq> sp_byte" if "trimspace s \<noteq> []"
    using that hd_dropWhile [of "\<lambda>c. c = sp_byte" "rev s"] by (simp add: trimspace_rev last_rev)
  ultimately show ?thesis using trimspace_idem by metis
qed

text \<open>The row flags do not interfere: each of the five bits of the flag byte is changed only by
  its own writer, a lock is set only on an unlocked byte (otherwise the writer reports failure and
  changes nothing), and the lock type read back is the one set.\<close>

theorem row_flags_protocol:
  "getlocktype c \<in> {NOLOCK, READLOCK, WRITELOCK}
   \<and> (if getlocktype c = NOLOCK
      then fst (setwritelock c) \<and> getlocktype (snd (setwritelock c)) = WRITELOCK
         \<and> fst (setreadlock c) \<and> getlocktype (snd (setreadlock c)) = READLOCK
      else setwritelock c = (False, c) \<and> setreadlock c = (False, c))
   \<and> getlocktype (clearlockedflag c) = NOLOCK
   \<and> (\<forall>w \<in> {setinsertflag, setdeleteflag, setreplacedeleteflag, clearinsertflag, cleardeleteflag,
              clearreplacedeleteflag}. getlocktype (w c) = getlocktype c)
   \<and> (\<forall>w \<in> {snd \<circ> setwritelock, snd \<circ> setreadlock, clearlockedflag}.
        getinsertflag (w c) = getinsertflag c \<and> getdeleteflag (w c) = getdeleteflag c
        \<and> getreplacedeleteflag (w c) = getreplacedeleteflag c)"
proof -
  have "fst (setwritelock c) \<and> fst (setreadlock c)" if "getlocktype c = NOLOCK"
    using that by (auto simp: getlocktype_def setwritelock_def setreadlock_def split: if_splits)
  then show ?thesis using getlocktype_range [of c] by (simp add: flag_simps)
qed

theorem row_flags_protocol_witness:
  "getlocktype (snd (setwritelock 2)) = WRITELOCK \<and> setreadlock 12 = (False, 12)"
proof -
  have "getlocktype 2 = NOLOCK" "getlocktype 12 = WRITELOCK"
    by (simp_all add: getlocktype_def LOCKEDFLAG_def LOCKTYPEFLAG_def)
  then show ?thesis using row_flags_protocol [of 2] row_flags_protocol [of 12] by auto
qed

end
