(* ===== verification/Row_Store.thy ===== *)
theory Row_Store
  imports Index_Model
begin

text \<open>
  The rows of a table: the row store, row locks, the shadow table of uncommitted updates, and
  commit, rollback and unlock of \<open>infinisqld/Table.cc\<close>. \<open>rows\<close> and the rows of the shadow
  table map a row id to a pointer, and the code compares and frees the pointers, so the row
  objects live in an explicit store: \<open>heap\<close> maps the addresses that are allocated to their
  objects, \<open>brk\<close> is the next fresh address. \<open>rows[rowid]\<close> on a row that is not there
  inserts a null pointer, which the code dereferences at once: the fault is \<open>NullDeref\<close>.
\<close>

section \<open>Data\<close>

record field =
  fd_type :: fieldtype
  fd_length :: nat
  fd_indextype :: indextype
  fd_index :: index
  fd_name :: bytes

definition Field :: "fieldtype \<Rightarrow> nat \<Rightarrow> indextype \<Rightarrow> bytes \<Rightarrow> field" where
  "Field typearg lengtharg indextypearg namearg =
     \<lparr>fd_type = typearg, fd_length = lengtharg, fd_indextype = indextypearg,
      fd_index = makeindex indextypearg typearg Index, fd_name = namearg\<rparr>"

record forwarderEntry =
  fw_rowid :: int
  fw_engineid :: int

record rowdata =
  writelockHolder :: int
  previoussubtransactionid :: int
  flags :: byte
  readlockHolders :: "int list option"   \<comment> \<open>pointer to a set, without repetition\<close>
  row :: bytes

definition rowdata0 :: rowdata where
  "rowdata0 = \<lparr>writelockHolder = 0, previoussubtransactionid = 0, flags = 0,
     readlockHolders = None, row = []\<rparr>"

record lockQueueRowEntry =
  lr_pendingcmdid :: int
  lr_tacmdentrypoint :: int
  lr_subtransactionid :: int
  lr_locktype :: locktype

record table =
  tb_id :: int
  tb_name :: bytes
  tb_fields :: "field list"
  rowLockQueue :: "int \<rightharpoonup> lockQueueRowEntry list"
  columnNameToFieldMap :: "bytes \<rightharpoonup> int"
  rows :: "int \<rightharpoonup> nat"
  shadowRows :: "int \<rightharpoonup> nat"          \<comment> \<open>\<open>shadowTable->rows\<close>, all that is used of it\<close>
  rowsize :: int
  nextrowid :: int
  forwarderMap :: "int \<rightharpoonup> forwarderEntry"
  heap :: "nat \<rightharpoonup> rowdata"
  brk :: nat

text \<open>
  The constructor does not initialise \<open>nextrowid\<close>: \<open>indet\<close> is what the memory held.
\<close>

definition Table :: "int \<Rightarrow> int \<Rightarrow> table" where
  "Table indet idarg =
     \<lparr>tb_id = idarg, tb_name = [], tb_fields = [], rowLockQueue = Map.empty,
      columnNameToFieldMap = Map.empty, rows = Map.empty, shadowRows = Map.empty,
      rowsize = 0, nextrowid = indet, forwarderMap = Map.empty,
      heap = Map.empty, brk = 0\<rparr>"

definition setname :: "bytes \<Rightarrow> table \<Rightarrow> table" where
  "setname namearg t = t\<lparr>tb_name := namearg\<rparr>"

section \<open>Memory\<close>

definition load :: "nat \<Rightarrow> table \<Rightarrow> rowdata res" where
  "load a t = (case heap t a of None \<Rightarrow> Inl UseAfterFree | Some r \<Rightarrow> Inr r)"

definition store :: "nat \<Rightarrow> rowdata \<Rightarrow> table \<Rightarrow> table" where
  "store a r t = t\<lparr>heap := (heap t)(a \<mapsto> r)\<rparr>"

definition alloc :: "rowdata \<Rightarrow> table \<Rightarrow> nat \<times> table" where
  "alloc r t = (brk t, t\<lparr>heap := (heap t)(brk t \<mapsto> r), brk := Suc (brk t)\<rparr>)"

definition free :: "nat \<Rightarrow> table \<Rightarrow> table res" where
  "free a t = (case heap t a of None \<Rightarrow> Inl DoubleFree | Some _ \<Rightarrow> Inr (t\<lparr>heap := (heap t)(a := None)\<rparr>))"

text \<open>\<open>*rows[rowid]\<close>: the address and the object.\<close>

definition row_at :: "int \<Rightarrow> table \<Rightarrow> (nat \<times> rowdata) res" where
  "row_at rowid t = rbind (deref (rows t rowid)) (\<lambda>a. rmap (Pair a) (load a t))"

definition shadow_erase :: "int \<Rightarrow> table \<Rightarrow> table" where
  "shadow_erase rowid t = t\<lparr>shadowRows := (shadowRows t)(rowid := None)\<rparr>"

definition rows_erase :: "int \<Rightarrow> table \<Rightarrow> table" where
  "rows_erase rowid t = t\<lparr>rows := (rows t)(rowid := None)\<rparr>"

definition forwarder_erase :: "int \<Rightarrow> table \<Rightarrow> table" where
  "forwarder_erase rowid t = t\<lparr>forwarderMap := (forwarderMap t)(rowid := None)\<rparr>"

text \<open>\<open>if (shadowTable->rows.count(rowid)) { delete shadowTable->rows[rowid]; erase }\<close>\<close>

definition shadow_delete :: "int \<Rightarrow> table \<Rightarrow> table res" where
  "shadow_delete rowid t =
     (case shadowRows t rowid of
        None \<Rightarrow> Inr t
      | Some a \<Rightarrow> rbind (free a t) (\<lambda>t'. Inr (shadow_erase rowid t')))"

section \<open>Creation, update and deletion of rows\<close>

definition getnextrowid :: "table \<Rightarrow> (int \<times> table) res" where
  "getnextrowid t =
     (if nextrowid t = 2 ^ 63 - 1 then Inl SignedOverflow
      else Inr (nextrowid t + 1, t\<lparr>nextrowid := nextrowid t + 1\<rparr>))"

definition newrow :: "int \<Rightarrow> int \<Rightarrow> bytes \<Rightarrow> table \<Rightarrow> table" where
  "newrow newrowid subtransactionid r t =
     (let nrow = rowdata0\<lparr>flags := setinsertflag (snd (setwritelock (flags rowdata0))),
                          writelockHolder := subtransactionid, row := r\<rparr>;
          (a, t') = alloc nrow t
      in t'\<lparr>rows := (rows t')(newrowid \<mapsto> a), shadowRows := (shadowRows t')(newrowid \<mapsto> a)\<rparr>)"

definition updaterow :: "int \<Rightarrow> int \<Rightarrow> bytes \<Rightarrow> table \<Rightarrow> (status \<times> table) res" where
  "updaterow rowid subtransactionid r t =
     (if rows t rowid = None then Inr (STATUS_NOTOK, t)
      else rbind (row_at rowid t) (\<lambda>(_, cur).
        if getlocktype (flags cur) \<noteq> WRITELOCK \<or> writelockHolder cur \<noteq> subtransactionid
        then Inr (STATUS_NOTOK, t)
        else let (a, t') = alloc (rowdata0\<lparr>row := r\<rparr>) t
             in Inr (STATUS_OK, t'\<lparr>shadowRows := (shadowRows t')(rowid \<mapsto> a)\<rparr>)))"

definition deleterow :: "int \<Rightarrow> int \<Rightarrow> table \<Rightarrow> (status \<times> table) res" where
  "deleterow rowid subtransactionid t =
     (if rows t rowid = None then Inr (STATUS_NOTOK, t)
      else rbind (row_at rowid t) (\<lambda>(a, cur).
        if getlocktype (flags cur) \<noteq> WRITELOCK \<or> writelockHolder cur \<noteq> subtransactionid
        then Inr (STATUS_NOTOK, t)
        else Inr (STATUS_OK, store a (cur\<lparr>flags := setdeleteflag (flags cur)\<rparr>) t)))"

text \<open>The deletion half of a replacement: index hits are forwarded to the new row.\<close>

definition deleterow_forward :: "int \<Rightarrow> int \<Rightarrow> int \<Rightarrow> int \<Rightarrow> table \<Rightarrow> (status \<times> table) res" where
  "deleterow_forward rowid subtransactionid forward_rowid forward_engineid t =
     rbind (deleterow rowid subtransactionid t) (\<lambda>(st, t1).
       if st \<noteq> STATUS_OK then Inr (st, t1)
       else rbind (row_at rowid t1) (\<lambda>(a, cur).
         let t2 = store a (cur\<lparr>flags := setreplacedeleteflag (flags cur)\<rparr>) t1
         in Inr (STATUS_OK, t2\<lparr>forwarderMap := (forwarderMap t2)(rowid \<mapsto>
              \<lparr>fw_rowid = forward_rowid, fw_engineid = forward_engineid\<rparr>)\<rparr>)))"

section \<open>Reading and locking rows\<close>

definition lockQueue_push :: "int \<Rightarrow> lockQueueRowEntry \<Rightarrow> table \<Rightarrow> table" where
  "lockQueue_push rowid e t =
     t\<lparr>rowLockQueue := (rowLockQueue t)(rowid \<mapsto>
         (case rowLockQueue t rowid of None \<Rightarrow> [] | Some q \<Rightarrow> q) @ [e])\<rparr>"

definition assignToLockQueue :: "int \<Rightarrow> locktype \<Rightarrow> int \<Rightarrow> int \<Rightarrow> int \<Rightarrow> table \<Rightarrow>
    (locktype \<times> table) res" where
  "assignToLockQueue rowid lt subtransactionid pendingcmdid tacmdentrypoint t =
     rbind (row_at rowid t) (\<lambda>(_, cur).
       if getinsertflag (flags cur) then Inr (NOTFOUNDLOCK, t)
       else Inr (lt, lockQueue_push rowid
              \<lparr>lr_pendingcmdid = pendingcmdid, lr_tacmdentrypoint = tacmdentrypoint,
               lr_subtransactionid = subtransactionid, lr_locktype = lt\<rparr> t))"

text \<open>
  \<open>selectrows\<close> answers through one local \<open>workrow\<close>, whose
  \<open>previoussubtransactionid\<close> is never written (\<open>indet\<close>). One definition per lock type
  requested, for one row of the loop; the state is the table and the rows returned so far.
\<close>

type_synonym select_state = "table \<times> returnRow list"

definition workrow :: "int \<Rightarrow> int \<Rightarrow> locktype \<Rightarrow> bytes \<Rightarrow> returnRow" where
  "workrow indet rowid lt r =
     \<lparr>rr_rowid = rowid, rr_previoussubtransactionid = indet, rr_locktype = lt, rr_row = r\<rparr>"

definition select_nolock :: "int \<Rightarrow> int \<Rightarrow> int \<Rightarrow> select_state \<Rightarrow> select_state res" where
  "select_nolock indet subtransactionid rowid s =
     (let (t, ret) = s in
      if rows t rowid = None then Inr (t, ret @ [workrow indet rowid NOTFOUNDLOCK []])
      else rbind (row_at rowid t) (\<lambda>(_, cur).
        let answer = Inr (t, ret @ [workrow indet rowid NOLOCK (row cur)])
        in case getlocktype (flags cur) of
             NOLOCK \<Rightarrow> answer
           | READLOCK \<Rightarrow> rbind (deref (readlockHolders cur)) (\<lambda>holders.
               if subtransactionid \<in> set holders then Inr s else answer)
           | WRITELOCK \<Rightarrow> if writelockHolder cur = subtransactionid then Inr s else answer
           | _ \<Rightarrow> Inr s))"

text \<open>Queue for a lock held by others; a row being inserted is skipped.\<close>

definition select_pending :: "int \<Rightarrow> locktype \<Rightarrow> int \<Rightarrow> int \<Rightarrow> int \<Rightarrow> int \<Rightarrow> select_state \<Rightarrow>
    select_state res" where
  "select_pending indet lt subtransactionid pendingcmdid tacmdentrypoint rowid s =
     (let (t, ret) = s in
      rbind (assignToLockQueue rowid lt subtransactionid pendingcmdid tacmdentrypoint t)
        (\<lambda>(assigned, t').
          if assigned = NOTFOUNDLOCK then Inr (t', ret)
          else Inr (t', ret @ [workrow indet rowid PENDINGLOCK []])))"

definition select_readlock :: "int \<Rightarrow> int \<Rightarrow> int \<Rightarrow> int \<Rightarrow> int \<Rightarrow> select_state \<Rightarrow>
    select_state res" where
  "select_readlock indet subtransactionid pendingcmdid tacmdentrypoint rowid s =
     (let (t, ret) = s in
      if rows t rowid = None then Inr (t, ret @ [workrow indet rowid NOTFOUNDLOCK []])
      else rbind (row_at rowid t) (\<lambda>(a, cur).
        let answer = ret @ [workrow indet rowid READLOCK (row cur)]
        in case getlocktype (flags cur) of
             NOLOCK \<Rightarrow>
               Inr (store a (cur\<lparr>flags := snd (setreadlock (flags cur)),
                                 readlockHolders := Some [subtransactionid]\<rparr>) t, answer)
           | READLOCK \<Rightarrow> rbind (deref (readlockHolders cur)) (\<lambda>holders.
               if subtransactionid \<in> set holders then Inr s
               else Inr (store a (cur\<lparr>readlockHolders := Some (subtransactionid # holders)\<rparr>) t,
                         answer))
           | WRITELOCK \<Rightarrow>
               if writelockHolder cur = subtransactionid then Inr s
               else select_pending indet READLOCK subtransactionid pendingcmdid
                      tacmdentrypoint rowid s
           | _ \<Rightarrow> Inr s))"

definition select_writelock :: "int \<Rightarrow> int \<Rightarrow> int \<Rightarrow> int \<Rightarrow> int \<Rightarrow> select_state \<Rightarrow>
    select_state res" where
  "select_writelock indet subtransactionid pendingcmdid tacmdentrypoint rowid s =
     (let (t, ret) = s in
      if rows t rowid = None then Inr (t, ret @ [workrow indet rowid NOTFOUNDLOCK []])
      else rbind (row_at rowid t) (\<lambda>(a, cur).
        let answer = ret @ [workrow indet rowid WRITELOCK (row cur)]
        in case getlocktype (flags cur) of
             NOLOCK \<Rightarrow>
               Inr (store a (cur\<lparr>flags := snd (setwritelock (flags cur)),
                                 writelockHolder := subtransactionid\<rparr>) t, answer)
           | READLOCK \<Rightarrow>
               select_pending indet WRITELOCK subtransactionid pendingcmdid tacmdentrypoint rowid s
           | WRITELOCK \<Rightarrow>
               if writelockHolder cur = subtransactionid then Inr (t, answer)
               else select_pending indet WRITELOCK subtransactionid pendingcmdid
                      tacmdentrypoint rowid s
           | _ \<Rightarrow> Inr s))"

definition selectrows :: "int \<Rightarrow> int list \<Rightarrow> locktype \<Rightarrow> int \<Rightarrow> int \<Rightarrow> int \<Rightarrow> select_state \<Rightarrow>
    select_state res" where
  "selectrows indet rowids lt subtransactionid pendingcmdid tacmdentrypoint s =
     (case lt of
        NOLOCK \<Rightarrow> rfold (select_nolock indet subtransactionid) rowids s
      | READLOCK \<Rightarrow>
          rfold (select_readlock indet subtransactionid pendingcmdid tacmdentrypoint) rowids s
      | WRITELOCK \<Rightarrow>
          rfold (select_writelock indet subtransactionid pendingcmdid tacmdentrypoint) rowids s
      | _ \<Rightarrow> Inr s)"

section \<open>Commit, rollback, unlock and revert of a row\<close>

text \<open>
  \<open>readlockHolders->erase(subtransactionid)\<close>, then the release when nobody is left; the
  flag byte is cleared by the caller's \<open>unlock\<close> where the code does so.
\<close>

definition drop_reader :: "int \<Rightarrow> (byte \<Rightarrow> byte) \<Rightarrow> rowdata \<Rightarrow> rowdata res" where
  "drop_reader subtransactionid unlock cur =
     rbind (deref (readlockHolders cur)) (\<lambda>holders.
       let left = removeAll subtransactionid holders
       in Inr (if left = [] then cur\<lparr>flags := unlock (flags cur), readlockHolders := None\<rparr>
               else cur\<lparr>readlockHolders := Some left\<rparr>))"

definition commit_row :: "int \<Rightarrow> int \<Rightarrow> table \<Rightarrow> table res" where
  "commit_row rowid subtransactionid t =
     rbind (row_at rowid t) (\<lambda>(a, cur).
       if getlocktype (flags cur) = READLOCK then
         rbind (deref (readlockHolders cur)) (\<lambda>holders.
           if subtransactionid \<notin> set holders then Inr t
           else rmap (\<lambda>cur'. store a cur' t) (drop_reader subtransactionid clearlockedflag cur))
       else if getlocktype (flags cur) \<noteq> WRITELOCK \<or> writelockHolder cur \<noteq> subtransactionid
         then Inr t
       else if getdeleteflag (flags cur) then
         (let t1 = (if getreplacedeleteflag (flags cur) then forwarder_erase rowid t else t)
          in rbind (free a t1) (\<lambda>t2. shadow_delete rowid (rows_erase rowid t2)))
       else
         let cur = cur\<lparr>readlockHolders := None\<rparr>; t1 = store a cur t
         in case shadowRows t1 rowid of
              None \<Rightarrow> Inr (store a (cur\<lparr>flags := 0, writelockHolder := 0\<rparr>) t1)
            | Some sa \<Rightarrow>
                rbind (load sa t1) (\<lambda>shadow.
                  let t2 = store sa (shadow\<lparr>previoussubtransactionid := writelockHolder cur,
                                       flags := 0, writelockHolder := 0,
                                       readlockHolders := None\<rparr>) t1
                  in if a = sa then Inr (shadow_erase rowid t2)   \<comment> \<open>insert\<close>
                     else rbind (free a t2) (\<lambda>t3.
                       Inr (shadow_erase rowid (t3\<lparr>rows := (rows t3)(rowid \<mapsto> sa)\<rparr>)))))"

definition rollback_row :: "int \<Rightarrow> int \<Rightarrow> table \<Rightarrow> table res" where
  "rollback_row rowid subtransactionid t =
     (if rows t rowid = None then Inr t
      else rbind (row_at rowid t) (\<lambda>(a, cur).
        if writelockHolder cur \<noteq> subtransactionid \<and> getlocktype (flags cur) = WRITELOCK
        then Inr t
        else if getinsertflag (flags cur) then
          rbind (free a t) (\<lambda>t1. Inr (shadow_erase rowid (rows_erase rowid t1)))
        else
          rbind (if getdeleteflag (flags cur) then
                   let (cur1, t1) =
                     (if getreplacedeleteflag (flags cur)
                      then (cur\<lparr>flags := clearreplacedeleteflag (flags cur)\<rparr>, forwarder_erase rowid t)
                      else (cur, t))
                   in rmap (Pair (cur1\<lparr>flags := cleardeleteflag (flags cur1)\<rparr>)) (shadow_delete rowid t1)
                 else Inr (cur, t)) (\<lambda>(cur2, t2).
          let cur3 = cur2\<lparr>writelockHolder := 0\<rparr>
          in rbind (if getlocktype (flags cur3) = READLOCK
                    then drop_reader subtransactionid id cur3 else Inr cur3) (\<lambda>cur4.
             let cur5 = cur4\<lparr>flags := 0\<rparr>;
                 cur6 = (if readlockHolders cur5 \<noteq> None
                         then cur5\<lparr>flags := snd (setreadlock (flags cur5))\<rparr> else cur5)
             in shadow_delete rowid (store a cur6 t2)))))"

definition unlock_row :: "int \<Rightarrow> int \<Rightarrow> table \<Rightarrow> table res" where
  "unlock_row rowid subtransactionid t =
     rbind (row_at rowid t) (\<lambda>(a, cur).
       if getlocktype (flags cur) \<noteq> READLOCK then Inr t
       else rbind (deref (readlockHolders cur)) (\<lambda>holders.
         if subtransactionid \<notin> set holders then Inr t
         else rmap (\<lambda>cur'. store a cur' t) (drop_reader subtransactionid clearlockedflag cur)))"

definition revert_row :: "int \<Rightarrow> int \<Rightarrow> table \<Rightarrow> table res" where
  "revert_row rowid subtransactionid t =
     (if rows t rowid = None then Inr t
      else rbind (row_at rowid t) (\<lambda>(a, cur).
        if writelockHolder cur \<noteq> subtransactionid \<or> getlocktype (flags cur) \<noteq> WRITELOCK
        then Inr t
        else let t1 = (if getinsertflag (flags cur) then rows_erase rowid t
                       else store a (cur\<lparr>flags := 0\<rparr>) t)
             in Inr (shadow_erase rowid (forwarder_erase rowid t1))))"

definition commitRollbackUnlock :: "int \<Rightarrow> int \<Rightarrow> enginecmd \<Rightarrow> table \<Rightarrow> table res" where
  "commitRollbackUnlock rowid subtransactionid cmd t =
     (case cmd of
        COMMITCMD \<Rightarrow> commit_row rowid subtransactionid t
      | ROLLBACKCMD \<Rightarrow> rollback_row rowid subtransactionid t
      | UNLOCKCMD \<Rightarrow> unlock_row rowid subtransactionid t
      | REVERTCMD \<Rightarrow> revert_row rowid subtransactionid t
      | _ \<Rightarrow> Inr t)"

end
