(* ===== verification/Row_Locking.thy ===== *)
theory Row_Locking
  imports Row_Store
begin

text \<open>
  The invariant of the row store, the steps a subtransaction can take on a table, and what a lock
  protects. \<open>table_inv\<close> says that no pointer dangles, that rows do not share objects, that the
  lock state of a row is consistent, and that only write-locked rows have a shadow.
\<close>

section \<open>The invariant\<close>

definition row_ok :: "rowdata \<Rightarrow> bool" where
  "row_ok r \<longleftrightarrow>
     (if getlocktype (flags r) = READLOCK then \<exists>h. readlockHolders r = Some h \<and> h \<noteq> []
      else readlockHolders r = None)
     \<and> (getinsertflag (flags r) \<or> getdeleteflag (flags r) \<or> getreplacedeleteflag (flags r) \<longrightarrow>
        getlocktype (flags r) = WRITELOCK)"

lemma row_ok_flagged:
  "row_ok r \<Longrightarrow> getinsertflag (flags r) \<or> getdeleteflag (flags r) \<or> getreplacedeleteflag (flags r) \<Longrightarrow>
   getlocktype (flags r) = WRITELOCK"
  by (auto simp: row_ok_def)

text \<open>Over the components it speaks of: \<open>rows\<close>, the shadow table, the store and the counters.\<close>

definition store_inv :: "(int \<rightharpoonup> nat) \<Rightarrow> (int \<rightharpoonup> nat) \<Rightarrow> (nat \<rightharpoonup> rowdata) \<Rightarrow> nat \<Rightarrow> int \<Rightarrow> bool" where
  "store_inv R S H b n \<longleftrightarrow>
     (\<forall>rid a. R rid = Some a \<longrightarrow> rid \<le> n \<and> (\<exists>r. H a = Some r \<and> row_ok r
        \<and> (S rid = Some a \<longrightarrow> getinsertflag (flags r))
        \<and> (S rid \<noteq> None \<longrightarrow> getlocktype (flags r) = WRITELOCK)))
     \<and> (\<forall>rid a. S rid = Some a \<longrightarrow> H a \<noteq> None \<and> R rid \<noteq> None)
     \<and> (\<forall>rid rid' a. R rid = Some a \<longrightarrow> R rid' = Some a \<longrightarrow> rid = rid')
     \<and> (\<forall>rid rid' a. S rid = Some a \<longrightarrow> S rid' = Some a \<longrightarrow> rid = rid')
     \<and> (\<forall>rid rid' a. S rid = Some a \<longrightarrow> R rid' = Some a \<longrightarrow> rid = rid')
     \<and> (\<forall>a. H a \<noteq> None \<longrightarrow> a < b)"

definition table_inv :: "table \<Rightarrow> bool" where
  "table_inv t \<longleftrightarrow> store_inv (rows t) (shadowRows t) (heap t) (brk t) (nextrowid t)"

lemma table_inv_Table: "table_inv (Table indet idarg)"
  by (simp add: table_inv_def store_inv_def Table_def)

lemma store_inv_row:
  "store_inv R S H b n \<Longrightarrow> R rid = Some a \<Longrightarrow> rid \<le> n \<and> a < b \<and> (\<exists>r. H a = Some r \<and> row_ok r
        \<and> (S rid = Some a \<longrightarrow> getinsertflag (flags r))
        \<and> (S rid \<noteq> None \<longrightarrow> getlocktype (flags r) = WRITELOCK))"
  unfolding store_inv_def by (metis option.distinct(1))

lemma store_inv_shadow:
  "store_inv R S H b n \<Longrightarrow> S rid = Some a \<Longrightarrow> a < b \<and> H a \<noteq> None \<and> R rid \<noteq> None"
  unfolding store_inv_def by metis

lemma store_inv_unshared:
  assumes "store_inv R S H b n"
  shows "R rid = Some a \<Longrightarrow> R rid' = Some a \<Longrightarrow> rid = rid'"
    and "S rid = Some a \<Longrightarrow> S rid' = Some a \<Longrightarrow> rid = rid'"
    and "S rid = Some a \<Longrightarrow> R rid' = Some a \<Longrightarrow> rid = rid'"
    and "H a \<noteq> None \<Longrightarrow> a < b"
  using assms unfolding store_inv_def by metis+

lemma store_inv_intro:
  assumes "\<And>rid a. R rid = Some a \<Longrightarrow> rid \<le> n \<and> (\<exists>r. H a = Some r \<and> row_ok r
        \<and> (S rid = Some a \<longrightarrow> getinsertflag (flags r))
        \<and> (S rid \<noteq> None \<longrightarrow> getlocktype (flags r) = WRITELOCK))"
    and "\<And>rid a. S rid = Some a \<Longrightarrow> H a \<noteq> None \<and> R rid \<noteq> None"
    and "\<And>rid rid' a. R rid = Some a \<Longrightarrow> R rid' = Some a \<Longrightarrow> rid = rid'"
    and "\<And>rid rid' a. S rid = Some a \<Longrightarrow> S rid' = Some a \<Longrightarrow> rid = rid'"
    and "\<And>rid rid' a. S rid = Some a \<Longrightarrow> R rid' = Some a \<Longrightarrow> rid = rid'"
    and "\<And>a. H a \<noteq> None \<Longrightarrow> a < b"
  shows "store_inv R S H b n"
  unfolding store_inv_def
  by (intro conjI allI impI) (use assms in \<open>simp_all only: not_None_eq; metis\<close>)+

section \<open>Primitive changes keep it\<close>

lemma store_inv_write:
  assumes inv: "store_inv R S H b n" and a: "R rid = Some a" and r': "row_ok r'"
    and ins: "S rid = Some a \<Longrightarrow> getinsertflag (flags r')"
    and wr: "S rid \<noteq> None \<Longrightarrow> getlocktype (flags r') = WRITELOCK"
  shows "store_inv R S (H(a \<mapsto> r')) b n"
proof (rule store_inv_intro)
  fix rid' x assume x: "R rid' = Some x"
  show "rid' \<le> n \<and> (\<exists>r. (H(a \<mapsto> r')) x = Some r \<and> row_ok r
      \<and> (S rid' = Some x \<longrightarrow> getinsertflag (flags r))
      \<and> (S rid' \<noteq> None \<longrightarrow> getlocktype (flags r) = WRITELOCK))"
    using store_inv_row [OF inv x] store_inv_unshared(1) [OF inv a, of rid'] x r' ins wr
    by (cases "x = a") auto
next
  fix x assume "(H(a \<mapsto> r')) x \<noteq> None"
  then show "x < b"
    using store_inv_row [OF inv a] store_inv_unshared(4) [OF inv, of x] by (cases "x = a") auto
qed (use store_inv_shadow [OF inv] store_inv_unshared [OF inv] in \<open>auto\<close>)

lemma store_inv_forget_shadow:
  assumes inv: "store_inv R S H b n"
  shows "store_inv R (S(rid := None)) H b n"
proof (rule store_inv_intro)
  fix rid' x assume "R rid' = Some x"
  from store_inv_row [OF inv this] show "rid' \<le> n \<and> (\<exists>r. H x = Some r \<and> row_ok r
      \<and> ((S(rid := None)) rid' = Some x \<longrightarrow> getinsertflag (flags r))
      \<and> ((S(rid := None)) rid' \<noteq> None \<longrightarrow> getlocktype (flags r) = WRITELOCK))"
    by auto
qed (use store_inv_shadow [OF inv] store_inv_unshared [OF inv] in \<open>auto split: if_splits\<close>)

lemma store_inv_forget_row:
  assumes inv: "store_inv R S H b n" and "S rid = None"
  shows "store_inv (R(rid := None)) S H b n"
proof (rule store_inv_intro)
  fix rid' x assume "(R(rid := None)) rid' = Some x"
  then show "rid' \<le> n \<and> (\<exists>r. H x = Some r \<and> row_ok r
      \<and> (S rid' = Some x \<longrightarrow> getinsertflag (flags r))
      \<and> (S rid' \<noteq> None \<longrightarrow> getlocktype (flags r) = WRITELOCK))"
    using store_inv_row [OF inv, of rid' x] by (auto split: if_splits)
qed (use assms store_inv_shadow [OF inv] store_inv_unshared [OF inv] in \<open>auto split: if_splits\<close>)

lemma store_inv_free:
  assumes inv: "store_inv R S H b n" and "\<And>rid. R rid \<noteq> Some a" "\<And>rid. S rid \<noteq> Some a"
  shows "store_inv R S (H(a := None)) b n"
proof (rule store_inv_intro)
  fix rid' x assume x: "R rid' = Some x"
  then have "x \<noteq> a" using assms(2) by auto
  then show "rid' \<le> n \<and> (\<exists>r. (H(a := None)) x = Some r \<and> row_ok r
      \<and> (S rid' = Some x \<longrightarrow> getinsertflag (flags r))
      \<and> (S rid' \<noteq> None \<longrightarrow> getlocktype (flags r) = WRITELOCK))"
    using store_inv_row [OF inv x] by auto
next
  fix rid' x assume x: "S rid' = Some x"
  then have "x \<noteq> a" using assms(3) by auto
  then show "(H(a := None)) x \<noteq> None \<and> R rid' \<noteq> None"
    using store_inv_shadow [OF inv x] by auto
next
  fix x assume "(H(a := None)) x \<noteq> None"
  then show "x < b" using store_inv_unshared(4) [OF inv, of x] by (auto split: if_splits)
qed (use store_inv_unshared [OF inv] in \<open>auto\<close>)

lemma store_inv_new_shadow:
  assumes inv: "store_inv R S H b n" and "R rid = Some a" "H a = Some r"
    and "getlocktype (flags r) = WRITELOCK"
  shows "store_inv R (S(rid \<mapsto> b)) (H(b \<mapsto> r')) (Suc b) n"
proof (rule store_inv_intro)
  fix rid' x assume x: "R rid' = Some x"
  then have "x < b" using store_inv_row [OF inv x] by blast
  then show "rid' \<le> n \<and> (\<exists>r. (H(b \<mapsto> r')) x = Some r \<and> row_ok r
      \<and> ((S(rid \<mapsto> b)) rid' = Some x \<longrightarrow> getinsertflag (flags r))
      \<and> ((S(rid \<mapsto> b)) rid' \<noteq> None \<longrightarrow> getlocktype (flags r) = WRITELOCK))"
    using store_inv_row [OF inv x] assms(2-4) x by auto
next
  fix x assume "(H(b \<mapsto> r')) x \<noteq> None"
  then show "x < Suc b" using store_inv_unshared(4) [OF inv, of x] by (auto split: if_splits)
next
  fix rid' rid'' x
  assume "(S(rid \<mapsto> b)) rid' = Some x"
  then have "x = b \<and> rid' = rid \<or> S rid' = Some x \<and> x < b"
    using store_inv_shadow [OF inv, of rid' x] by (auto split: if_splits)
  moreover have "(S(rid \<mapsto> b)) rid'' = Some x \<Longrightarrow> x = b \<and> rid'' = rid \<or> S rid'' = Some x \<and> x < b"
    using store_inv_shadow [OF inv, of rid'' x] by (auto split: if_splits)
  moreover have "R rid'' = Some x \<Longrightarrow> x < b" using store_inv_row [OF inv, of rid'' x] by blast
  ultimately show "(S(rid \<mapsto> b)) rid'' = Some x \<Longrightarrow> rid' = rid''" "R rid'' = Some x \<Longrightarrow> rid' = rid''"
    using store_inv_unshared(2,3) [OF inv] by auto
qed (use assms store_inv_shadow [OF inv] store_inv_unshared [OF inv] in \<open>auto split: if_splits\<close>)

lemma store_inv_new_row:
  assumes inv: "store_inv R S H b n" and "row_ok r" "getinsertflag (flags r)" "n < rid"
  shows "store_inv (R(rid \<mapsto> b)) (S(rid \<mapsto> b)) (H(b \<mapsto> r)) (Suc b) rid"
proof (rule store_inv_intro)
  fix rid' x assume "(R(rid \<mapsto> b)) rid' = Some x"
  then have "x = b \<and> rid' = rid \<or> R rid' = Some x \<and> x < b \<and> rid' \<noteq> rid"
    using store_inv_row [OF inv, of rid' x] by (auto split: if_splits)
  then show "rid' \<le> rid \<and> (\<exists>ra. (H(b \<mapsto> r)) x = Some ra \<and> row_ok ra
      \<and> ((S(rid \<mapsto> b)) rid' = Some x \<longrightarrow> getinsertflag (flags ra))
      \<and> ((S(rid \<mapsto> b)) rid' \<noteq> None \<longrightarrow> getlocktype (flags ra) = WRITELOCK))"
  proof (elim disjE conjE)
    assume "x = b" "rid' = rid"
    then show ?thesis using assms(2,3) row_ok_flagged [OF assms(2)] by simp
  next
    assume x: "R rid' = Some x" "x < b" "rid' \<noteq> rid"
    then show ?thesis using store_inv_row [OF inv x(1)] assms(4) by auto
  qed
next
  fix x assume "(H(b \<mapsto> r)) x \<noteq> None"
  then show "x < Suc b" using store_inv_unshared(4) [OF inv, of x] by (auto split: if_splits)
next
  fix rid' rid'' x
  have S: "(S(rid \<mapsto> b)) k = Some x \<Longrightarrow> x = b \<and> k = rid \<or> S k = Some x \<and> x < b" for k
    using store_inv_shadow [OF inv, of k x] by (auto split: if_splits)
  have R: "(R(rid \<mapsto> b)) k = Some x \<Longrightarrow> x = b \<and> k = rid \<or> R k = Some x \<and> x < b" for k
    using store_inv_row [OF inv, of k x] by (auto split: if_splits)
  show "(S(rid \<mapsto> b)) rid' = Some x \<Longrightarrow> (S(rid \<mapsto> b)) rid'' = Some x \<Longrightarrow> rid' = rid''"
    "(S(rid \<mapsto> b)) rid' = Some x \<Longrightarrow> (R(rid \<mapsto> b)) rid'' = Some x \<Longrightarrow> rid' = rid''"
    "(R(rid \<mapsto> b)) rid' = Some x \<Longrightarrow> (R(rid \<mapsto> b)) rid'' = Some x \<Longrightarrow> rid' = rid''"
    using S R store_inv_unshared(1,2,3) [OF inv] by (metis less_irrefl)+
qed (use store_inv_shadow [OF inv] in \<open>auto split: if_splits\<close>)

lemma table_inv_store [inv_intros]:
  assumes "table_inv t" "rows t rid = Some a" "row_ok r'"
    and "shadowRows t rid = Some a \<Longrightarrow> getinsertflag (flags r')"
    and "shadowRows t rid \<noteq> None \<Longrightarrow> getlocktype (flags r') = WRITELOCK"
  shows "table_inv (store a r' t)"
  using store_inv_write [OF assms(1) [unfolded table_inv_def] assms(2-5)]
  by (simp add: table_inv_def store_def)

lemma table_inv_frames [inv_intros]:
  "table_inv t \<Longrightarrow> table_inv (shadow_erase rid t)"
  "table_inv t \<Longrightarrow> table_inv (forwarder_erase rid t)"
  "table_inv t \<Longrightarrow> table_inv (t\<lparr>forwarderMap := fm\<rparr>)"
  "table_inv t \<Longrightarrow> table_inv (lockQueue_push rid e t)"
  "table_inv t \<Longrightarrow> shadowRows t rid = None \<Longrightarrow> table_inv (rows_erase rid t)"
  unfolding table_inv_def shadow_erase_def forwarder_erase_def lockQueue_push_def rows_erase_def
  by (simp_all add: store_inv_forget_shadow store_inv_forget_row)

section \<open>The operations keep the invariant\<close>

lemma row_at_eq:
  "row_at rid t = Inr (a, r) \<longleftrightarrow> rows t rid = Some a \<and> heap t a = Some r"
  by (auto simp: row_at_def load_def split: option.splits)

text \<open>A row that is there can be loaded.\<close>

lemma row_at_inv:
  assumes "table_inv t" "rows t rid = Some a"
  obtains r where "row_at rid t = Inr (a, r)" "heap t a = Some r" "row_ok r"
    and "shadowRows t rid = Some a \<longrightarrow> getinsertflag (flags r)"
    and "getlocktype (flags r) \<noteq> WRITELOCK \<longrightarrow> shadowRows t rid = None"
proof -
  from store_inv_row [OF assms [unfolded table_inv_def]] obtain r where
    r: "heap t a = Some r" "row_ok r" "shadowRows t rid = Some a \<longrightarrow> getinsertflag (flags r)"
    "shadowRows t rid \<noteq> None \<longrightarrow> getlocktype (flags r) = WRITELOCK"
    by blast
  have "row_at rid t = Inr (a, r)" using assms(2) r(1) by (simp add: row_at_def load_def)
  then show thesis by (rule that) (use r in auto)
qed

lemma row_ok_lock_cases:
  assumes "row_ok r"
  obtains (unlocked) "getlocktype (flags r) = NOLOCK" "readlockHolders r = None"
    "\<not> getinsertflag (flags r)" "\<not> getdeleteflag (flags r)" "\<not> getreplacedeleteflag (flags r)"
  | (reading) h where "getlocktype (flags r) = READLOCK" "readlockHolders r = Some h" "h \<noteq> []"
    "\<not> getinsertflag (flags r)" "\<not> getdeleteflag (flags r)" "\<not> getreplacedeleteflag (flags r)"
  | (writing) "getlocktype (flags r) = WRITELOCK" "readlockHolders r = None"
  using assms getlocktype_range [of "flags r"] unfolding row_ok_def
  by (cases "getlocktype (flags r)") auto

lemma newrow_inv:
  assumes "table_inv t" "getnextrowid t = Inr (rid, t1)"
  shows "table_inv (newrow rid s r t1)"
proof -
  let ?r = "rowdata0\<lparr>flags := setinsertflag (snd (setwritelock (flags rowdata0))),
                     writelockHolder := s, row := r\<rparr>"
  have "row_ok ?r" "getinsertflag (flags ?r)"
    by (simp_all add: row_ok_def rowdata0_def flag_simps)
  moreover have "t1 = t\<lparr>nextrowid := nextrowid t + 1\<rparr>" "rid = nextrowid t + 1"
    using assms(2) by (auto simp: getnextrowid_def split: if_splits)
  ultimately show ?thesis
    using store_inv_new_row [OF assms(1) [unfolded table_inv_def], of ?r rid]
    by (simp add: table_inv_def newrow_def alloc_def Let_def)
qed

lemma updaterow_inv:
  assumes "table_inv t"
  shows "\<exists>st t'. updaterow rid s r t = Inr (st, t') \<and> table_inv t'"
proof (cases "rows t rid")
  case None
  then show ?thesis using assms by (simp add: updaterow_def)
next
  case (Some a)
  obtain cur where cur: "row_at rid t = Inr (a, cur)" "heap t a = Some cur"
    by (rule row_at_inv [OF assms Some]) blast
  show ?thesis
    using cur Some assms store_inv_new_shadow [OF assms [unfolded table_inv_def] Some cur(2)]
    by (auto simp: updaterow_def alloc_def Let_def table_inv_def)
qed

lemma deleterow_inv:
  assumes "table_inv t"
  shows "\<exists>st t'. deleterow rid s t = Inr (st, t') \<and> table_inv t' \<and> rows t' = rows t
           \<and> shadowRows t' = shadowRows t
           \<and> (st = STATUS_OK \<longrightarrow> (\<exists>a r. rows t rid = Some a \<and> heap t' a = Some r \<and> getlocktype (flags r) = WRITELOCK))"
proof (cases "rows t rid")
  case None
  then show ?thesis using assms by (simp add: deleterow_def)
next
  case (Some a)
  obtain cur where cur: "row_at rid t = Inr (a, cur)" "heap t a = Some cur" "row_ok cur"
    "shadowRows t rid = Some a \<longrightarrow> getinsertflag (flags cur)"
    by (rule row_at_inv [OF assms Some]) blast
  let ?cur = "cur\<lparr>flags := setdeleteflag (flags cur)\<rparr>"
  have "table_inv (store a ?cur t)" if "getlocktype (flags cur) = WRITELOCK"
    using assms Some cur that
    by (intro table_inv_store [where rid = rid]) (auto simp: row_ok_def flag_simps)
  then show ?thesis
    using cur Some assms by (auto simp: deleterow_def store_def flag_simps)
qed

lemma deleterow_forward_inv:
  assumes "table_inv t"
  shows "\<exists>st t'. deleterow_forward rid s fr fe t = Inr (st, t') \<and> table_inv t'"
proof -
  obtain st t1 where d: "deleterow rid s t = Inr (st, t1)" "table_inv t1"
    "st = STATUS_OK \<longrightarrow> (\<exists>a r. rows t1 rid = Some a \<and> heap t1 a = Some r \<and> getlocktype (flags r) = WRITELOCK)"
    using deleterow_inv [OF assms, of rid s] by auto
  show ?thesis
  proof (cases "st = STATUS_OK")
    case False
    then show ?thesis using d by (simp add: deleterow_forward_def)
  next
    case True
    then obtain a where a: "rows t1 rid = Some a" using d(3) by blast
    obtain cur where cur: "row_at rid t1 = Inr (a, cur)" "heap t1 a = Some cur" "row_ok cur"
      "shadowRows t1 rid = Some a \<longrightarrow> getinsertflag (flags cur)"
      by (rule row_at_inv [OF d(2) a]) blast
    have "getlocktype (flags cur) = WRITELOCK" using True d(3) a cur(2) by auto
    then have "table_inv (store a (cur\<lparr>flags := setreplacedeleteflag (flags cur)\<rparr>) t1)"
      using d(2) a cur by (intro table_inv_store [where rid = rid]) (auto simp: row_ok_def flag_simps)
    then show ?thesis
      using d cur True by (auto simp: deleterow_forward_def Let_def intro: table_inv_frames)
  qed
qed

section \<open>Selection\<close>

lemma select_pending_inv:
  assumes "table_inv (fst s)" "rows (fst s) rid \<noteq> None"
  shows "\<exists>s'. select_pending z lt sub p q rid s = Inr s' \<and> table_inv (fst s')"
proof -
  obtain t ret where s: "s = (t, ret)" by (cases s)
  obtain a where a: "rows t rid = Some a" using assms(2) s by auto
  obtain cur where "row_at rid t = Inr (a, cur)"
    by (rule row_at_inv [of t rid a]) (use assms a s in auto)
  then show ?thesis
    using assms by (simp add: s select_pending_def assignToLockQueue_def table_inv_frames)
qed

lemma select_nolock_inv:
  assumes "table_inv (fst s)"
  shows "\<exists>s'. select_nolock z sub rid s = Inr s' \<and> fst s' = fst s"
proof -
  obtain t ret where s: "s = (t, ret)" by (cases s)
  show ?thesis
  proof (cases "rows t rid")
    case (Some a)
    obtain cur where cur: "row_at rid t = Inr (a, cur)" "row_ok cur"
      by (rule row_at_inv [of t rid a]) (use assms Some s in auto)
    from cur(2) show ?thesis
      by (cases rule: row_ok_lock_cases) (simp_all add: s select_nolock_def Some cur(1))
  qed (simp add: s select_nolock_def)
qed

lemma select_readlock_inv:
  assumes "table_inv (fst s)"
  shows "\<exists>s'. select_readlock z sub p q rid s = Inr s' \<and> table_inv (fst s')"
proof -
  obtain t ret where s: "s = (t, ret)" by (cases s)
  show ?thesis
  proof (cases "rows t rid")
    case (Some a)
    obtain cur where cur: "row_at rid t = Inr (a, cur)" "row_ok cur"
      and sh: "getlocktype (flags cur) \<noteq> WRITELOCK \<longrightarrow> shadowRows t rid = None"
      by (rule row_at_inv [of t rid a]) (use assms Some s in auto)
    from cur(2) show ?thesis
    proof (cases rule: row_ok_lock_cases)
      case unlocked
      then have "shadowRows t rid = None" using sh by auto
      then have "table_inv (store a (cur\<lparr>flags := snd (setreadlock (flags cur)),
          readlockHolders := Some [sub]\<rparr>) t)"
        using assms Some unlocked
        by (intro table_inv_store [where rid = rid]) (auto simp: s row_ok_def flag_simps)
      then show ?thesis using unlocked by (simp add: s select_readlock_def Some cur(1) Let_def)
    next
      case (reading h)
      then have "shadowRows t rid = None" using sh by auto
      then have "table_inv (store a (cur\<lparr>readlockHolders := Some (sub # h)\<rparr>) t)"
        using assms Some reading
        by (intro table_inv_store [where rid = rid]) (auto simp: s row_ok_def)
      then show ?thesis using reading assms by (simp add: s select_readlock_def Some cur(1) Let_def)
    next
      case writing
      then show ?thesis
        using assms select_pending_inv [of s rid z READLOCK sub p q] Some
        by (simp add: s select_readlock_def cur(1) Let_def)
    qed
  qed (use assms in \<open>simp add: s select_readlock_def\<close>)
qed

lemma select_writelock_inv:
  assumes "table_inv (fst s)"
  shows "\<exists>s'. select_writelock z sub p q rid s = Inr s' \<and> table_inv (fst s')"
proof -
  obtain t ret where s: "s = (t, ret)" by (cases s)
  show ?thesis
  proof (cases "rows t rid")
    case (Some a)
    obtain cur where cur: "row_at rid t = Inr (a, cur)" "row_ok cur"
      and sh: "getlocktype (flags cur) \<noteq> WRITELOCK \<longrightarrow> shadowRows t rid = None"
      by (rule row_at_inv [of t rid a]) (use assms Some s in auto)
    note pend = select_pending_inv [of s rid z WRITELOCK sub p q]
    from cur(2) show ?thesis
    proof (cases rule: row_ok_lock_cases)
      case unlocked
      then have "shadowRows t rid = None" using sh by auto
      then have "table_inv (store a (cur\<lparr>flags := snd (setwritelock (flags cur)),
          writelockHolder := sub\<rparr>) t)"
        using assms Some unlocked
        by (intro table_inv_store [where rid = rid]) (auto simp: s row_ok_def flag_simps)
      then show ?thesis using unlocked by (simp add: s select_writelock_def Some cur(1) Let_def)
    next
      case (reading h)
      then show ?thesis using assms pend Some by (simp add: s select_writelock_def cur(1) Let_def)
    next
      case writing
      then show ?thesis using assms pend Some by (simp add: s select_writelock_def cur(1) Let_def)
    qed
  qed (use assms in \<open>simp add: s select_writelock_def\<close>)
qed

lemma selectrows_inv:
  assumes "table_inv (fst s)"
  shows "\<exists>s'. selectrows z rids lt sub p q s = Inr s' \<and> table_inv (fst s')"
proof -
  have fold: "\<exists>s'. rfold f rids s = Inr s' \<and> table_inv (fst s')"
    if "\<And>rid s. table_inv (fst s) \<Longrightarrow> \<exists>s'. f rid s = Inr s' \<and> table_inv (fst s')"
    for f :: "int \<Rightarrow> select_state \<Rightarrow> select_state res"
    using rfold_ok [of rids "\<lambda>s. table_inv (fst s)" f s] that assms by blast
  have "\<exists>s'. rfold (select_nolock z sub) rids s = Inr s' \<and> table_inv (fst s')"
    by (rule fold) (metis select_nolock_inv)
  moreover have "\<exists>s'. rfold (select_readlock z sub p q) rids s = Inr s' \<and> table_inv (fst s')"
    by (rule fold, rule select_readlock_inv)
  moreover have "\<exists>s'. rfold (select_writelock z sub p q) rids s = Inr s' \<and> table_inv (fst s')"
    by (rule fold, rule select_writelock_inv)
  ultimately show ?thesis using assms by (cases s) (simp add: selectrows_def split: locktype.split)
qed

section \<open>Commit, rollback, unlock and revert\<close>

lemma drop_reader_ok:
  assumes "getlocktype (flags cur) = READLOCK" "readlockHolders cur = Some h"
    "\<not> getinsertflag (flags cur)" "\<not> getdeleteflag (flags cur)" "\<not> getreplacedeleteflag (flags cur)"
  shows "\<exists>cur'. drop_reader sub clearlockedflag cur = Inr cur' \<and> row_ok cur'"
  using assms by (auto simp: drop_reader_def Let_def row_ok_def flag_simps)

lemma unlock_row_inv:
  assumes "table_inv t" "rows t rid \<noteq> None"
  shows "\<exists>t'. unlock_row rid sub t = Inr t' \<and> table_inv t'"
proof -
  obtain a where a: "rows t rid = Some a" using assms(2) by auto
  obtain cur where cur: "row_at rid t = Inr (a, cur)" "row_ok cur"
    and sh: "getlocktype (flags cur) \<noteq> WRITELOCK \<longrightarrow> shadowRows t rid = None"
    by (rule row_at_inv [OF assms(1) a]) blast
  from cur(2) show ?thesis
  proof (cases rule: row_ok_lock_cases)
    case (reading h)
    obtain cur' where d: "drop_reader sub clearlockedflag cur = Inr cur'" "row_ok cur'"
      using drop_reader_ok reading by blast
    have "shadowRows t rid = None" using sh reading by auto
    then have "table_inv (store a cur' t)"
      by (intro table_inv_store [OF assms(1) a d(2)]) simp_all
    then show ?thesis using reading assms d by (simp add: unlock_row_def cur(1))
  qed (use assms in \<open>simp_all add: unlock_row_def cur(1)\<close>)
qed

lemma shadow_delete_inv:
  assumes "table_inv t" "shadowRows t rid = None \<or> shadowRows t rid \<noteq> rows t rid"
  shows "\<exists>t'. shadow_delete rid t = Inr t' \<and> table_inv t' \<and> rows t' = rows t
    \<and> shadowRows t' = (shadowRows t)(rid := None)
    \<and> (\<forall>a. shadowRows t rid \<noteq> Some a \<longrightarrow> heap t' a = heap t a)"
proof (cases "shadowRows t rid")
  case None
  then show ?thesis using assms(1) by (simp add: shadow_delete_def fun_upd_idem)
next
  case (Some a)
  note inv = assms(1) [unfolded table_inv_def]
  have ne: "rows t rid' \<noteq> Some a" for rid'
    using store_inv_unshared(3) [OF inv Some, of rid'] assms(2) Some by auto
  have ne': "((shadowRows t)(rid := None)) rid' \<noteq> Some a" for rid'
    using store_inv_unshared(2) [OF inv Some, of rid'] by (auto split: if_splits)
  have "store_inv (rows t) ((shadowRows t)(rid := None)) ((heap t)(a := None)) (brk t) (nextrowid t)"
    by (rule store_inv_free [OF store_inv_forget_shadow [OF inv] ne ne'])
  moreover obtain r where "heap t a = Some r" using store_inv_shadow [OF inv Some] by auto
  ultimately show ?thesis
    using Some by (simp add: shadow_delete_def free_def shadow_erase_def table_inv_def)
qed

lemma revert_row_inv:
  assumes "table_inv t"
  shows "\<exists>t'. revert_row rid sub t = Inr t' \<and> table_inv t'"
proof (cases "rows t rid")
  case (Some a)
  obtain cur where cur: "row_at rid t = Inr (a, cur)" "heap t a = Some cur"
    by (rule row_at_inv [OF assms(1) Some]) blast
  note inv = assms [unfolded table_inv_def]
  have sh: "store_inv (rows t) ((shadowRows t)(rid := None)) (heap t) (brk t) (nextrowid t)"
    by (rule store_inv_forget_shadow [OF inv])
  show ?thesis
  proof (cases "writelockHolder cur \<noteq> sub \<or> getlocktype (flags cur) \<noteq> WRITELOCK")
    case False
    then have w: "getlocktype (flags cur) = WRITELOCK" by blast
    have ok: "row_ok cur" by (rule row_at_inv [OF assms(1) Some]) (use cur in auto)
    have "store_inv ((rows t)(rid := None)) ((shadowRows t)(rid := None)) (heap t) (brk t) (nextrowid t)"
      by (rule store_inv_forget_row [OF sh]) simp
    moreover have "row_ok (cur\<lparr>flags := 0\<rparr>)" using ok w by (auto simp: row_ok_def flag_simps)
    then have "store_inv (rows t) ((shadowRows t)(rid := None)) ((heap t)(a \<mapsto> cur\<lparr>flags := 0\<rparr>))
        (brk t) (nextrowid t)"
      by (intro store_inv_write [OF sh Some]) auto
    ultimately show ?thesis using False
      by (simp add: revert_row_def Some cur(1) Let_def shadow_erase_def forwarder_erase_def
          rows_erase_def store_def table_inv_def)
  qed (use assms in \<open>auto simp: revert_row_def cur(1)\<close>)
qed (use assms in \<open>simp add: revert_row_def\<close>)

text \<open>A row and its shadow disappear; the shadow takes the place of its row.\<close>

lemma store_inv_drop:
  assumes inv: "store_inv R S H b n" and a: "R rid = Some a"
  shows "store_inv (R(rid := None)) (S(rid := None)) (H(a := None)) b n"
proof (rule store_inv_free)
  show "store_inv (R(rid := None)) (S(rid := None)) H b n"
    by (rule store_inv_forget_row [OF store_inv_forget_shadow [OF inv]]) simp
  show "(R(rid := None)) rid' \<noteq> Some a" for rid'
    using store_inv_unshared(1) [OF inv a, of rid'] by (auto split: if_splits)
  show "(S(rid := None)) rid' \<noteq> Some a" for rid'
    using store_inv_unshared(3) [OF inv _ a, of rid'] by (auto split: if_splits)
qed

lemma store_inv_drop_both:
  assumes inv: "store_inv R S H b n" and a: "R rid = Some a" and sa: "S rid = Some sa" and ne: "a \<noteq> sa"
  shows "store_inv (R(rid := None)) (S(rid := None)) (H(a := None, sa := None)) b n"
proof (rule store_inv_free [OF store_inv_drop [OF inv a]])
  show "(R(rid := None)) rid' \<noteq> Some sa" for rid'
    using store_inv_unshared(3) [OF inv sa, of rid'] by (auto split: if_splits)
  show "(S(rid := None)) rid' \<noteq> Some sa" for rid'
    using store_inv_unshared(2) [OF inv sa, of rid'] by (auto split: if_splits)
qed

lemma store_inv_promote:
  assumes inv: "store_inv R S H b n" and a: "R rid = Some a" and sa: "S rid = Some sa"
    and ne: "a \<noteq> sa" and r': "row_ok r'"
  shows "store_inv (R(rid \<mapsto> sa)) (S(rid := None)) (H(sa \<mapsto> r', a := None)) b n"
proof (rule store_inv_intro)
  have R: "k = rid \<and> x = sa \<or> k \<noteq> rid \<and> R k = Some x \<and> x \<noteq> sa \<and> x \<noteq> a"
    if "(R(rid \<mapsto> sa)) k = Some x" for k x
  proof (cases "k = rid")
    case False
    then have k: "R k = Some x" using that by simp
    then show ?thesis
      using False store_inv_unshared(1) [OF inv a, of k] store_inv_unshared(3) [OF inv sa, of k] by auto
  qed (use that in simp)
  have S: "k \<noteq> rid \<and> S k = Some x \<and> x \<noteq> sa \<and> x \<noteq> a" if "(S(rid := None)) k = Some x" for k x
  proof -
    have k: "k \<noteq> rid" "S k = Some x" using that by (auto split: if_splits)
    then show ?thesis
      using store_inv_unshared(2) [OF inv sa, of k] store_inv_unshared(3) [OF inv _ a, of k] by auto
  qed
  fix rid' rid'' x
  show "rid' \<le> n \<and> (\<exists>r. (H(sa \<mapsto> r', a := None)) x = Some r \<and> row_ok r
      \<and> ((S(rid := None)) rid' = Some x \<longrightarrow> getinsertflag (flags r))
      \<and> ((S(rid := None)) rid' \<noteq> None \<longrightarrow> getlocktype (flags r) = WRITELOCK))"
    if "(R(rid \<mapsto> sa)) rid' = Some x"
    using R [OF that]
  proof (elim disjE conjE)
    assume "rid' = rid" "x = sa"
    then show ?thesis using store_inv_row [OF inv a] r' ne by simp
  next
    assume k: "rid' \<noteq> rid" "R rid' = Some x" "x \<noteq> sa" "x \<noteq> a"
    then show ?thesis using store_inv_row [OF inv k(2)] by simp
  qed
  show "(H(sa \<mapsto> r', a := None)) x \<noteq> None \<and> (R(rid \<mapsto> sa)) rid' \<noteq> None"
    if "(S(rid := None)) rid' = Some x"
  proof -
    have "S rid' = Some x" "x \<noteq> a" "x \<noteq> sa" "rid' \<noteq> rid" using S [OF that] by simp_all
    then show ?thesis using store_inv_shadow [OF inv, of rid' x] by simp
  qed
  show "rid' = rid''"
    if "(R(rid \<mapsto> sa)) rid' = Some x" "(R(rid \<mapsto> sa)) rid'' = Some x"
    using R [OF that(1)] R [OF that(2)] store_inv_unshared(1) [OF inv] by metis
  show "rid' = rid''"
    if "(S(rid := None)) rid' = Some x" "(S(rid := None)) rid'' = Some x"
    using S [OF that(1)] S [OF that(2)] store_inv_unshared(2) [OF inv] by metis
  show "rid' = rid''"
    if "(S(rid := None)) rid' = Some x" "(R(rid \<mapsto> sa)) rid'' = Some x"
    using S [OF that(1)] R [OF that(2)] store_inv_unshared(3) [OF inv] by metis
  show "x < b" if "(H(sa \<mapsto> r', a := None)) x \<noteq> None"
  proof (cases "x = sa")
    case False
    then have "H x \<noteq> None" using that by (auto split: if_splits)
    then show ?thesis by (rule store_inv_unshared(4) [OF inv])
  qed (use store_inv_shadow [OF inv sa] in simp)
qed

text \<open>
  What a commit makes of the table: for a write-locked row of the subtransaction, by case.
\<close>

definition committed :: "int \<Rightarrow> int \<Rightarrow> nat \<Rightarrow> rowdata \<Rightarrow> table \<Rightarrow> table" where
  "committed rid sub a cur t =
     (if getdeleteflag (flags cur) then
        (let t1 = (if getreplacedeleteflag (flags cur) then forwarder_erase rid t else t)
         in t1\<lparr>rows := (rows t)(rid := None), shadowRows := (shadowRows t)(rid := None),
              heap := (case shadowRows t rid of None \<Rightarrow> (heap t)(a := None)
                       | Some sa \<Rightarrow> (heap t)(a := None, sa := None))\<rparr>)
      else case shadowRows t rid of
        None \<Rightarrow> store a (cur\<lparr>flags := 0, writelockHolder := 0\<rparr>) t
      | Some sa \<Rightarrow>
          (let new = (the (heap t sa))\<lparr>previoussubtransactionid := sub, flags := 0,
                       writelockHolder := 0, readlockHolders := None\<rparr>
           in if sa = a then shadow_erase rid (store a new t)
              else t\<lparr>rows := (rows t)(rid \<mapsto> sa), shadowRows := (shadowRows t)(rid := None),
                     heap := (heap t)(sa \<mapsto> new, a := None)\<rparr>))"

lemma commit_row_write:
  assumes "table_inv t" "rows t rid = Some a" "heap t a = Some cur"
    and "getlocktype (flags cur) = WRITELOCK" "writelockHolder cur = sub"
  shows "commit_row rid sub t =
    (if getdeleteflag (flags cur) \<and> shadowRows t rid = Some a then Inl DoubleFree
     else Inr (committed rid sub a cur t))"
    and "\<not> (getdeleteflag (flags cur) \<and> shadowRows t rid = Some a) \<Longrightarrow>
      table_inv (committed rid sub a cur t)"
proof -
  note inv = assms(1) [unfolded table_inv_def]
  have at: "row_at rid t = Inr (a, cur)" using assms(2,3) by (simp add: row_at_eq)
  have ok: "row_ok cur" and rd: "readlockHolders cur = None"
    using store_inv_row [OF inv assms(2)] assms(3,4) by (auto simp: row_ok_def)
  have cur: "cur\<lparr>readlockHolders := None\<rparr> = cur" using rd by simp
  have st: "store a cur t = t" using assms(3) by (simp add: store_def fun_upd_idem)
  have twice: "store a x (store a y t) = store a x t" for x y by (simp add: store_def)
  have ok0: "row_ok (r\<lparr>flags := 0, writelockHolder := 0, readlockHolders := None\<rparr>)" for r :: rowdata
    by (simp add: row_ok_def flag_simps)
  show "commit_row rid sub t =
    (if getdeleteflag (flags cur) \<and> shadowRows t rid = Some a then Inl DoubleFree
     else Inr (committed rid sub a cur t))"
  proof (cases "shadowRows t rid")
    case None
    then show ?thesis
      using assms(2-5) by (simp add: commit_row_def at committed_def cur st twice Let_def free_def
          shadow_delete_def rows_erase_def shadow_erase_def forwarder_erase_def fun_upd_idem)
  next
    case (Some sa)
    obtain rs where "heap t sa = Some rs" using store_inv_shadow [OF inv Some] by auto
    then show ?thesis
      using assms(2-5) Some
      by (auto simp: commit_row_def at committed_def cur st Let_def free_def load_def store_def
          shadow_delete_def rows_erase_def shadow_erase_def forwarder_erase_def)
  qed
  show "table_inv (committed rid sub a cur t)"
    if nd: "\<not> (getdeleteflag (flags cur) \<and> shadowRows t rid = Some a)"
  proof (cases "getdeleteflag (flags cur)")
    case True
    then show ?thesis
      using nd store_inv_drop [OF inv assms(2)] store_inv_drop_both [OF inv assms(2)]
      by (cases "shadowRows t rid")
        (auto simp: committed_def Let_def table_inv_def forwarder_erase_def fun_upd_idem)
  next
    case False
    have "store_inv (rows t) ((shadowRows t)(rid := None)) ((heap t)(a \<mapsto> r)) (brk t) (nextrowid t)"
      if "row_ok r" for r
      by (rule store_inv_write [OF store_inv_forget_shadow [OF inv] assms(2) that]) auto
    then have w: "row_ok r \<Longrightarrow> table_inv (shadow_erase rid (store a r t))" for r
      by (simp add: table_inv_def shadow_erase_def store_def)
    have ok1: "row_ok (cur\<lparr>flags := 0, writelockHolder := 0\<rparr>)"
      using rd by (simp add: row_ok_def flag_simps)
    have ok2: "row_ok (r\<lparr>previoussubtransactionid := p, flags := 0, writelockHolder := 0,
        readlockHolders := None\<rparr>)" for r :: rowdata and p
      by (simp add: row_ok_def flag_simps)
    show ?thesis
    proof (cases "shadowRows t rid")
      case None
      then have "shadow_erase rid (store a r t) = store a r t" for r
        by (simp add: shadow_erase_def store_def fun_upd_idem)
      then show ?thesis using False None w [OF ok1] by (simp add: committed_def)
    next
      case (Some sa)
      then show ?thesis
        using False w [OF ok2] store_inv_promote [OF inv assms(2) Some _ ok2]
        by (auto simp: committed_def Let_def table_inv_def)
    qed
  qed
qed

text \<open>What a rollback makes of the table, unless another subtransaction holds the write lock.\<close>

definition released :: "int \<Rightarrow> rowdata \<Rightarrow> rowdata" where
  "released sub cur =
     (case readlockHolders cur of
        None \<Rightarrow> cur\<lparr>writelockHolder := 0, flags := 0\<rparr>
      | Some h \<Rightarrow>
          if removeAll sub h = [] then cur\<lparr>writelockHolder := 0, readlockHolders := None, flags := 0\<rparr>
          else cur\<lparr>writelockHolder := 0, readlockHolders := Some (removeAll sub h),
                    flags := snd (setreadlock 0)\<rparr>)"

definition rolled_back :: "int \<Rightarrow> int \<Rightarrow> nat \<Rightarrow> rowdata \<Rightarrow> table \<Rightarrow> table" where
  "rolled_back rid sub a cur t =
     (if getinsertflag (flags cur) then
        t\<lparr>rows := (rows t)(rid := None), shadowRows := (shadowRows t)(rid := None),
          heap := (heap t)(a := None)\<rparr>
      else
        (let t1 = (if getdeleteflag (flags cur) \<and> getreplacedeleteflag (flags cur)
                   then forwarder_erase rid t else t)
         in t1\<lparr>shadowRows := (shadowRows t)(rid := None),
               heap := (case shadowRows t rid of None \<Rightarrow> (heap t)(a \<mapsto> released sub cur)
                        | Some sa \<Rightarrow> (heap t)(a \<mapsto> released sub cur, sa := None))\<rparr>))"

lemma row_ok_released: "row_ok (released sub cur)"
  by (auto simp: row_ok_def released_def flag_simps split: option.splits)

lemma rollback_row_eq:
  assumes "table_inv t" "rows t rid = Some a" "heap t a = Some cur"
    and "getlocktype (flags cur) = WRITELOCK \<longrightarrow> writelockHolder cur = sub"
  shows "rollback_row rid sub t = Inr (rolled_back rid sub a cur t)"
    and "table_inv (rolled_back rid sub a cur t)"
proof -
  note inv = assms(1) [unfolded table_inv_def]
  have at: "row_at rid t = Inr (a, cur)" using assms(2,3) by (simp add: row_at_eq)
  have ok: "row_ok cur" "shadowRows t rid = Some a \<longrightarrow> getinsertflag (flags cur)"
    "getlocktype (flags cur) \<noteq> WRITELOCK \<longrightarrow> shadowRows t rid = None"
    by (rule row_at_inv [OF assms(1,2)]; use assms(3) in simp)+
  have sh: "heap t sa \<noteq> None" if "shadowRows t rid = Some sa" for sa
    using store_inv_shadow [OF inv that] by simp
  show "rollback_row rid sub t = Inr (rolled_back rid sub a cur t)"
  proof (cases "getinsertflag (flags cur)")
    case True
    then have "writelockHolder cur = sub" using row_ok_flagged [OF ok(1)] assms(4) by simp
    then show ?thesis
      using assms(2,3) True
      by (simp add: rollback_row_def at rolled_back_def free_def rows_erase_def shadow_erase_def)
  next
    case False
    with ok(2) have ne: "shadowRows t rid \<noteq> Some a" by auto
    from ok(1) show ?thesis
    proof (cases rule: row_ok_lock_cases)
      case unlocked
      then have e: "(shadowRows t)(rid := None) = shadowRows t" "shadowRows t rid = None"
        using ok(3) by (simp_all add: fun_upd_idem)
      then show ?thesis
        using False assms(2-3) unlocked
        by (simp add: rollback_row_def at rolled_back_def released_def Let_def store_def shadow_delete_def)
    next
      case (reading h)
      then have e: "(shadowRows t)(rid := None) = shadowRows t" "shadowRows t rid = None"
        using ok(3) by (simp_all add: fun_upd_idem)
      then show ?thesis
        using False assms(2-3) reading
        by (simp add: rollback_row_def at rolled_back_def released_def drop_reader_def Let_def
            store_def shadow_delete_def)
    next
      case writing
      note facts = at rollback_row_def rolled_back_def released_def Let_def store_def free_def
        shadow_delete_def shadow_erase_def forwarder_erase_def flag_simps
      have w: "writelockHolder cur = sub" using writing assms(4) by simp
      show ?thesis
      proof (cases "shadowRows t rid")
        case None
        then have e: "(shadowRows t)(rid := None) = shadowRows t" by (simp add: fun_upd_idem)
        show ?thesis
          using False assms(2,3) w writing None e
          by (cases "getdeleteflag (flags cur)"; cases "getreplacedeleteflag (flags cur)";
              simp add: facts)
      next
        case (Some sa)
        obtain rs where rs: "heap t sa = Some rs" using sh [OF Some] by auto
        have "sa \<noteq> a" using ne Some by auto
        then have "((heap t)(sa := None))(a \<mapsto> x) = ((heap t)(a \<mapsto> x))(sa := None)" for x
          by (rule fun_upd_twist)
        then show ?thesis
          using False assms(2,3) w writing Some rs \<open>sa \<noteq> a\<close>
          by (cases "getdeleteflag (flags cur)"; cases "getreplacedeleteflag (flags cur)";
              simp add: facts)
      qed
    qed
  qed
  show "table_inv (rolled_back rid sub a cur t)"
  proof (cases "getinsertflag (flags cur)")
    case True
    then show ?thesis
      using store_inv_drop [OF inv assms(2)] by (simp add: rolled_back_def table_inv_def)
  next
    case False
    let ?S = "(shadowRows t)(rid := None)" and ?H = "(heap t)(a \<mapsto> released sub cur)"
    have w: "store_inv (rows t) ?S ?H (brk t) (nextrowid t)"
      by (rule store_inv_write [OF store_inv_forget_shadow [OF inv] assms(2) row_ok_released]) auto
    have f: "store_inv (rows t) ?S (?H(sa := None)) (brk t) (nextrowid t)"
      if sa: "shadowRows t rid = Some sa" for sa
    proof (rule store_inv_free [OF w])
      have "sa \<noteq> a" using ok(2) False sa by auto
      then show "rows t rid' \<noteq> Some sa" for rid'
        using store_inv_unshared(3) [OF inv sa, of rid'] assms(2) by auto
      show "?S rid' \<noteq> Some sa" for rid'
        using store_inv_unshared(2) [OF inv sa, of rid'] by (auto split: if_splits)
    qed
    show ?thesis
      using False w f
      by (cases "shadowRows t rid")
        (auto simp: rolled_back_def table_inv_def forwarder_erase_def Let_def)
  qed
qed

lemma rollback_row_other:
  assumes "rows t rid = Some a" "heap t a = Some cur"
    and "getlocktype (flags cur) = WRITELOCK" "writelockHolder cur \<noteq> sub"
  shows "rollback_row rid sub t = Inr t"
  using assms by (simp add: rollback_row_def row_at_def load_def)

lemma rollback_row_inv:
  assumes "table_inv t"
  shows "\<exists>t'. rollback_row rid sub t = Inr t' \<and> table_inv t'"
proof (cases "rows t rid")
  case (Some a)
  obtain cur where cur: "heap t a = Some cur" by (rule row_at_inv [OF assms Some]) blast
  show ?thesis
  proof (cases "getlocktype (flags cur) = WRITELOCK \<longrightarrow> writelockHolder cur = sub")
    case True
    then show ?thesis using rollback_row_eq [OF assms Some cur True] by blast
  next
    case False
    then show ?thesis using rollback_row_other [OF Some cur] assms by auto
  qed
qed (use assms in \<open>simp add: rollback_row_def\<close>)

lemma commit_row_inv:
  assumes "table_inv t" "rows t rid = Some a" "heap t a = Some cur"
    and nd: "\<not> (getlocktype (flags cur) = WRITELOCK \<and> writelockHolder cur = sub
          \<and> getdeleteflag (flags cur) \<and> shadowRows t rid = Some a)"
  shows "\<exists>t'. commit_row rid sub t = Inr t' \<and> table_inv t'"
proof -
  have at: "row_at rid t = Inr (a, cur)" using assms(2,3) by (simp add: row_at_eq)
  have ok: "row_ok cur" by (rule row_at_inv [OF assms(1,2)]) (use assms(3) in auto)
  then show ?thesis
  proof (cases rule: row_ok_lock_cases)
    case unlocked
    then show ?thesis using assms(1) by (simp add: commit_row_def at)
  next
    case (reading h)
    obtain t' where "unlock_row rid sub t = Inr t'" "table_inv t'"
      using unlock_row_inv [OF assms(1)] assms(2) by auto
    moreover have "commit_row rid sub t = unlock_row rid sub t"
      using reading by (simp add: commit_row_def unlock_row_def at)
    ultimately show ?thesis by simp
  next
    case writing
    then show ?thesis
      using commit_row_write [OF assms(1-3)] nd assms(1)
      by (cases "writelockHolder cur = sub") (auto simp: commit_row_def at)
  qed
qed

section \<open>Steps and reachable tables\<close>

text \<open>A step of a subtransaction on a table, and the tables that steps of any lead to.\<close>

inductive table_step :: "int \<Rightarrow> table \<Rightarrow> table \<Rightarrow> bool" for sub :: int where
  insert_step: "getnextrowid t = Inr (rid, t1) \<Longrightarrow> table_step sub t (newrow rid sub r t1)"
| update_step: "updaterow rid sub r t = Inr (st, t') \<Longrightarrow> table_step sub t t'"
| delete_step: "deleterow rid sub t = Inr (st, t') \<Longrightarrow> table_step sub t t'"
| replace_step: "deleterow_forward rid sub fr fe t = Inr (st, t') \<Longrightarrow> table_step sub t t'"
| select_step: "selectrows z rids lt sub p q (t, ret) = Inr (t', ret') \<Longrightarrow> table_step sub t t'"
| end_step: "commitRollbackUnlock rid sub cmd t = Inr t' \<Longrightarrow> table_step sub t t'"

inductive table_reachable :: "table \<Rightarrow> bool" where
  start: "table_reachable (Table indet idarg)"
| step: "table_reachable t \<Longrightarrow> table_step sub t t' \<Longrightarrow> table_reachable t'"

lemma end_inv:
  assumes "table_inv t" "commitRollbackUnlock rid sub cmd t = Inr t'"
  shows "table_inv t'"
proof (cases "rows t rid")
  case None
  then have "row_at rid t = Inl NullDeref" by (simp add: row_at_def)
  then show ?thesis
    using assms None
    by (cases cmd) (auto simp: commitRollbackUnlock_def commit_row_def rollback_row_def
        unlock_row_def revert_row_def)
next
  case (Some a)
  obtain cur where cur: "heap t a = Some cur" by (rule row_at_inv [OF assms(1) Some]) blast
  have c: "table_inv t1" if "commit_row rid sub t = Inr t1" for t1
    using commit_row_inv [OF assms(1) Some cur, of sub] commit_row_write(1) [OF assms(1) Some cur]
      that by (cases "getlocktype (flags cur) = WRITELOCK \<and> writelockHolder cur = sub
          \<and> getdeleteflag (flags cur) \<and> shadowRows t rid = Some a") auto
  show ?thesis
    using assms c rollback_row_inv [OF assms(1), of rid sub] unlock_row_inv [OF assms(1), of rid sub]
      revert_row_inv [OF assms(1), of rid sub] Some
    by (cases cmd) (auto simp: commitRollbackUnlock_def)
qed

lemma table_step_inv:
  assumes "table_step sub t t'" "table_inv t"
  shows "table_inv t'"
  using assms
proof cases
  case (insert_step rid t1 r)
  then show ?thesis using newrow_inv [OF assms(2)] by blast
next
  case (update_step rid r st)
  then show ?thesis using updaterow_inv [OF assms(2), of rid sub r] by auto
next
  case (delete_step rid st)
  then show ?thesis using deleterow_inv [OF assms(2), of rid sub] by auto
next
  case (replace_step rid fr fe st)
  then show ?thesis using deleterow_forward_inv [OF assms(2), of rid sub fr fe] by auto
next
  case (select_step z rids lt p q ret ret')
  then show ?thesis using selectrows_inv [of "(t, ret)" z rids lt sub p q] assms(2) by auto
next
  case (end_step rid cmd)
  then show ?thesis using end_inv [OF assms(2)] by blast
qed

lemma table_reachable_inv: "table_reachable t \<Longrightarrow> table_inv t"
  by (induction rule: table_reachable.induct) (auto intro: table_inv_Table table_step_inv)

end
