(* ===== verification/Row_Isolation.thy ===== *)
theory Row_Isolation
  imports Row_Locking
begin

text \<open>
  What a lock protects: a step of one subtransaction leaves the rows locked by another alone. A
  write lock fixes the row and its shadow, a read lock the content of the row and the lock itself.
\<close>

section \<open>Holding a lock\<close>

definition holds_write :: "int \<Rightarrow> rowdata \<Rightarrow> bool" where
  "holds_write s cur \<longleftrightarrow> getlocktype (flags cur) = WRITELOCK \<and> writelockHolder cur = s"

definition holds_read :: "int \<Rightarrow> rowdata \<Rightarrow> bool" where
  "holds_read s cur \<longleftrightarrow>
     getlocktype (flags cur) = READLOCK \<and> (\<exists>h. readlockHolders cur = Some h \<and> s \<in> set h)"

text \<open>\<open>row_kept s t t' rid\<close>: whatever lock \<open>s\<close> holds on the row in \<open>t\<close>, it protects in \<open>t'\<close>.\<close>

definition row_kept :: "int \<Rightarrow> table \<Rightarrow> table \<Rightarrow> int \<Rightarrow> bool" where
  "row_kept s t t' rid \<longleftrightarrow>
     (\<forall>a cur. rows t rid = Some a \<longrightarrow> heap t a = Some cur \<longrightarrow>
        (holds_write s cur \<longrightarrow> rows t' rid = Some a \<and> heap t' a = Some cur
           \<and> shadowRows t' rid = shadowRows t rid
           \<and> (\<forall>sa. shadowRows t rid = Some sa \<longrightarrow> heap t' sa = heap t sa))
        \<and> (holds_read s cur \<longrightarrow> rows t' rid = Some a
           \<and> (\<exists>cur'. heap t' a = Some cur' \<and> holds_read s cur' \<and> row cur' = row cur)))"

lemma holds_exclusive: "holds_read s cur \<Longrightarrow> \<not> holds_write s' cur"
  by (simp add: holds_read_def holds_write_def)

lemma row_kept_refl: "row_kept s t t rid"
  by (simp add: row_kept_def)

lemma row_kept_same:
  "rows t' = rows t \<Longrightarrow> shadowRows t' = shadowRows t \<Longrightarrow> heap t' = heap t \<Longrightarrow> row_kept s t t' rid"
  by (simp add: row_kept_def)

lemma row_kept_trans:
  assumes "row_kept s t t1 rid" "row_kept s t1 t2 rid"
  shows "row_kept s t t2 rid"
  unfolding row_kept_def
proof (intro allI impI)
  fix a cur
  assume a: "rows t rid = Some a" "heap t a = Some cur"
  show "(holds_write s cur \<longrightarrow> rows t2 rid = Some a \<and> heap t2 a = Some cur
           \<and> shadowRows t2 rid = shadowRows t rid
           \<and> (\<forall>sa. shadowRows t rid = Some sa \<longrightarrow> heap t2 sa = heap t sa))
        \<and> (holds_read s cur \<longrightarrow> rows t2 rid = Some a
           \<and> (\<exists>cur'. heap t2 a = Some cur' \<and> holds_read s cur' \<and> row cur' = row cur))"
  proof (rule conjI; rule impI)
    assume h: "holds_write s cur"
    have 1: "rows t1 rid = Some a" "heap t1 a = Some cur" "shadowRows t1 rid = shadowRows t rid"
      "\<forall>sa. shadowRows t rid = Some sa \<longrightarrow> heap t1 sa = heap t sa"
      using assms(1) a h unfolding row_kept_def by simp_all
    then show "rows t2 rid = Some a \<and> heap t2 a = Some cur \<and> shadowRows t2 rid = shadowRows t rid
        \<and> (\<forall>sa. shadowRows t rid = Some sa \<longrightarrow> heap t2 sa = heap t sa)"
      using assms(2) h unfolding row_kept_def by simp
  next
    assume h: "holds_read s cur"
    obtain c1 where 1: "rows t1 rid = Some a" "heap t1 a = Some c1" "holds_read s c1" "row c1 = row cur"
      using assms(1) a h unfolding row_kept_def by blast
    then obtain c2 where "rows t2 rid = Some a" "heap t2 a = Some c2" "holds_read s c2" "row c2 = row c1"
      using assms(2) unfolding row_kept_def by blast
    with 1(4) show "rows t2 rid = Some a
        \<and> (\<exists>cur'. heap t2 a = Some cur' \<and> holds_read s cur' \<and> row cur' = row cur)" by auto
  qed
qed

text \<open>
  A change that touches one row and its own objects only keeps every row, provided it keeps that
  one.
\<close>

lemma row_kept_local:
  assumes inv: "table_inv t" and own: "row_kept s t t' rid0"
    and maps: "\<And>rid. rid \<noteq> rid0 \<Longrightarrow> rows t' rid = rows t rid \<and> shadowRows t' rid = shadowRows t rid"
    and mem: "\<And>x. rows t rid0 \<noteq> Some x \<Longrightarrow> shadowRows t rid0 \<noteq> Some x \<Longrightarrow> heap t x \<noteq> None \<Longrightarrow>
      heap t' x = heap t x"
  shows "row_kept s t t' rid"
proof (cases "rid = rid0")
  case False
  note inv' = inv [unfolded table_inv_def]
  have "heap t' x = heap t x" if "rows t rid = Some x \<or> shadowRows t rid = Some x" for x
  proof (rule mem)
    show "rows t rid0 \<noteq> Some x" "shadowRows t rid0 \<noteq> Some x"
      using that False store_inv_unshared(1) [OF inv', of rid x rid0]
        store_inv_unshared(2) [OF inv', of rid x rid0] store_inv_unshared(3) [OF inv', of rid x rid0]
        store_inv_unshared(3) [OF inv', of rid0 x rid] by auto
    show "heap t x \<noteq> None"
      using that store_inv_row [OF inv', of rid x] store_inv_shadow [OF inv', of rid x] by auto
  qed
  then show ?thesis using maps [OF False] by (simp add: row_kept_def)
qed (use own in simp)

lemma row_kept_free_row:
  assumes "\<And>a cur. rows t rid = Some a \<Longrightarrow> heap t a = Some cur \<Longrightarrow> \<not> holds_write s cur \<and> \<not> holds_read s cur"
  shows "row_kept s t t' rid"
  using assms by (simp add: row_kept_def)

lemma row_kept_store:
  assumes "table_inv t" "rows t rid0 = Some a" "heap t a = Some cur"
    and "\<not> holds_write s cur" "holds_read s cur \<Longrightarrow> holds_read s cur' \<and> row cur' = row cur"
  shows "row_kept s t (store a cur' t) rid"
proof (rule row_kept_local [OF assms(1)])
  show "row_kept s t (store a cur' t) rid0"
    using assms by (simp add: row_kept_def store_def)
qed (use assms(2) in \<open>simp_all add: store_def\<close>)

section \<open>Every operation keeps the rows of others\<close>

lemma not_held_by_other:
  assumes "getlocktype (flags cur) = WRITELOCK" "writelockHolder cur \<noteq> s"
  shows "\<not> holds_write s cur \<and> \<not> holds_read s cur"
  using assms by (simp add: holds_write_def holds_read_def)

lemma kept_newrow:
  assumes "table_inv t" "getnextrowid t = Inr (rid0, t1)"
  shows "row_kept s t (newrow rid0 sub r t1) rid"
proof (rule row_kept_local [OF assms(1)])
  have t1: "t1 = t\<lparr>nextrowid := nextrowid t + 1\<rparr>" "rid0 = nextrowid t + 1"
    using assms(2) by (auto simp: getnextrowid_def split: if_splits)
  note inv = assms(1) [unfolded table_inv_def]
  have none: "rows t rid0 = None"
    using store_inv_row [OF inv, of rid0] t1(2) by (cases "rows t rid0") auto
  show "row_kept s t (newrow rid0 sub r t1) rid0"
    by (rule row_kept_free_row) (simp add: none)
  show "rows (newrow rid0 sub r t1) rid' = rows t rid'
      \<and> shadowRows (newrow rid0 sub r t1) rid' = shadowRows t rid'" if "rid' \<noteq> rid0" for rid'
    using that by (simp add: newrow_def alloc_def t1 Let_def)
  show "heap (newrow rid0 sub r t1) x = heap t x" if "heap t x \<noteq> None" for x
    using that store_inv_unshared(4) [OF inv that] by (simp add: newrow_def alloc_def t1 Let_def)
qed

lemma kept_updaterow:
  assumes inv: "table_inv t" and u: "updaterow rid0 sub r t = Inr (st, t')" and "sub \<noteq> s"
  shows "row_kept s t t' rid"
proof (cases "rows t rid0")
  case None
  then show ?thesis using u by (simp add: updaterow_def row_kept_refl)
next
  case (Some a)
  obtain cur where cur: "row_at rid0 t = Inr (a, cur)" "heap t a = Some cur"
    by (rule row_at_inv [OF inv Some]) blast
  show ?thesis
  proof (cases "getlocktype (flags cur) = WRITELOCK \<and> writelockHolder cur = sub")
    case True
    then have t': "t' = t\<lparr>heap := (heap t)(brk t \<mapsto> rowdata0\<lparr>row := r\<rparr>), brk := Suc (brk t),
        shadowRows := (shadowRows t)(rid0 \<mapsto> brk t)\<rparr>"
      using u Some cur by (simp add: updaterow_def alloc_def Let_def)
    show ?thesis
    proof (rule row_kept_local [OF inv])
      show "row_kept s t t' rid0"
        by (rule row_kept_free_row) (use Some cur True \<open>sub \<noteq> s\<close> not_held_by_other [of cur s] in simp)
      show "heap t' x = heap t x" if "heap t x \<noteq> None" for x
        using store_inv_unshared(4) [OF inv [unfolded table_inv_def] that] by (simp add: t')
    qed (simp_all add: t')
  next
    case False
    then show ?thesis using u Some cur by (auto simp: updaterow_def row_kept_refl)
  qed
qed

lemma kept_deleterow:
  assumes inv: "table_inv t" and d: "deleterow rid0 sub t = Inr (st, t')" and "sub \<noteq> s"
  shows "row_kept s t t' rid \<and> (st = STATUS_OK \<longrightarrow>
    (\<exists>a cur. rows t' rid0 = Some a \<and> heap t' a = Some cur \<and> holds_write sub cur))"
proof (cases "rows t rid0")
  case None
  then show ?thesis using d by (auto simp: deleterow_def row_kept_refl)
next
  case (Some a)
  obtain cur where cur: "row_at rid0 t = Inr (a, cur)" "heap t a = Some cur"
    by (rule row_at_inv [OF inv Some]) blast
  show ?thesis
  proof (cases "getlocktype (flags cur) = WRITELOCK \<and> writelockHolder cur = sub")
    case True
    then have t': "t' = store a (cur\<lparr>flags := setdeleteflag (flags cur)\<rparr>) t"
      using d Some cur by (simp add: deleterow_def)
    have "row_kept s t t' rid"
      unfolding t' using True \<open>sub \<noteq> s\<close> not_held_by_other [of cur s]
      by (intro row_kept_store [OF inv Some cur(2)]) auto
    then show ?thesis using True Some by (auto simp: t' store_def holds_write_def flag_simps)
  next
    case False
    then show ?thesis using d Some cur by (auto simp: deleterow_def row_kept_refl)
  qed
qed

lemma kept_deleterow_forward:
  assumes inv: "table_inv t" and d: "deleterow_forward rid0 sub fr fe t = Inr (st, t')" and "sub \<noteq> s"
  shows "row_kept s t t' rid"
proof -
  obtain st1 t1 where d1: "deleterow rid0 sub t = Inr (st1, t1)"
    using d by (auto simp: deleterow_forward_def)
  have inv1: "table_inv t1" using deleterow_inv [OF inv, of rid0 sub] d1 by auto
  note k1 = kept_deleterow [OF inv d1 \<open>sub \<noteq> s\<close>]
  show ?thesis
  proof (cases "st1 = STATUS_OK")
    case False
    then show ?thesis using d d1 k1 by (simp add: deleterow_forward_def)
  next
    case True
    then obtain a cur where c: "rows t1 rid0 = Some a" "heap t1 a = Some cur" "holds_write sub cur"
      using k1 by blast
    let ?t2 = "store a (cur\<lparr>flags := setreplacedeleteflag (flags cur)\<rparr>) t1"
    have "row_kept s t1 ?t2 rid"
      using c(3) \<open>sub \<noteq> s\<close>
      by (intro row_kept_store [OF inv1 c(1,2)]) (auto simp: holds_write_def holds_read_def)
    moreover have "row_kept s ?t2 t' rid"
      by (rule row_kept_same) (use d d1 True c in \<open>auto simp: deleterow_forward_def row_at_def load_def Let_def\<close>)
    ultimately show ?thesis using k1 row_kept_trans by blast
  qed
qed

lemma kept_drop_reader:
  assumes "drop_reader sub unlock cur = Inr cur'" "sub \<noteq> s" "holds_read s cur"
  shows "holds_read s cur' \<and> row cur' = row cur"
proof -
  obtain h where h: "readlockHolders cur = Some h" "s \<in> set h"
    using assms(3) by (auto simp: holds_read_def)
  then have "removeAll sub h \<noteq> []" using assms(2) by (auto simp: filter_empty_conv removeAll_filter_not_eq)
  then show ?thesis using assms h by (auto simp: drop_reader_def holds_read_def Let_def)
qed

lemma kept_unlock_row:
  assumes inv: "table_inv t" and u: "unlock_row rid0 sub t = Inr t'" and "sub \<noteq> s"
  shows "row_kept s t t' rid"
proof (cases "rows t rid0")
  case None
  then show ?thesis using u by (simp add: unlock_row_def row_at_def)
next
  case (Some a)
  obtain cur where cur: "row_at rid0 t = Inr (a, cur)" "heap t a = Some cur"
    by (rule row_at_inv [OF inv Some]) blast
  consider "t' = t" | cur' where "drop_reader sub clearlockedflag cur = Inr cur'" "t' = store a cur' t"
      "getlocktype (flags cur) = READLOCK"
    using u by (auto simp: unlock_row_def cur split: if_splits)
  then show ?thesis
  proof cases
    case 1
    then show ?thesis by (simp add: row_kept_refl)
  next
    case 2
    then show ?thesis
      using kept_drop_reader [OF 2(1) \<open>sub \<noteq> s\<close>]
      by (auto simp: holds_write_def intro!: row_kept_store [OF inv Some cur(2)])
  qed
qed

lemma kept_revert_row:
  assumes inv: "table_inv t" and u: "revert_row rid0 sub t = Inr t'" and "sub \<noteq> s"
  shows "row_kept s t t' rid"
proof (cases "rows t rid0")
  case None
  then show ?thesis using u by (simp add: revert_row_def row_kept_refl)
next
  case (Some a)
  obtain cur where cur: "row_at rid0 t = Inr (a, cur)" "heap t a = Some cur"
    by (rule row_at_inv [OF inv Some]) blast
  show ?thesis
  proof (cases "getlocktype (flags cur) = WRITELOCK \<and> writelockHolder cur = sub")
    case True
    then have t': "t' = shadow_erase rid0 (forwarder_erase rid0
        (if getinsertflag (flags cur) then rows_erase rid0 t else store a (cur\<lparr>flags := 0\<rparr>) t))"
      using u Some cur by (simp add: revert_row_def Let_def split: if_splits)
    show ?thesis
    proof (rule row_kept_local [OF inv])
      show "row_kept s t t' rid0"
        by (rule row_kept_free_row) (use Some cur True \<open>sub \<noteq> s\<close> not_held_by_other [of cur s] in simp)
    qed (use Some in \<open>auto simp: t' shadow_erase_def forwarder_erase_def rows_erase_def store_def\<close>)
  next
    case False
    then show ?thesis using u Some cur by (auto simp: revert_row_def row_kept_refl)
  qed
qed

lemma kept_commit_row:
  assumes inv: "table_inv t" and u: "commit_row rid0 sub t = Inr t'" and "sub \<noteq> s"
  shows "row_kept s t t' rid"
proof (cases "rows t rid0")
  case None
  then show ?thesis using u by (simp add: commit_row_def row_at_def)
next
  case (Some a)
  obtain cur where cur: "row_at rid0 t = Inr (a, cur)" "heap t a = Some cur"
    by (rule row_at_inv [OF inv Some]) blast
  show ?thesis
  proof (cases "getlocktype (flags cur) = WRITELOCK \<and> writelockHolder cur = sub")
    case True
    then have t': "t' = committed rid0 sub a cur t"
      using u commit_row_write(1) [OF inv Some cur(2)] by (auto split: if_splits)
    show ?thesis
    proof (rule row_kept_local [OF inv])
      show "row_kept s t t' rid0"
        by (rule row_kept_free_row) (use Some cur True \<open>sub \<noteq> s\<close> not_held_by_other [of cur s] in simp)
    qed (use Some in \<open>auto simp: t' committed_def Let_def forwarder_erase_def store_def
        shadow_erase_def split: option.splits\<close>)
  next
    case False
    show ?thesis
    proof (cases "getlocktype (flags cur) = READLOCK")
      case True
      then have "commit_row rid0 sub t = unlock_row rid0 sub t"
        by (simp add: commit_row_def unlock_row_def cur)
      then show ?thesis using kept_unlock_row [OF inv _ \<open>sub \<noteq> s\<close>] u by simp
    next
      case nr: False
      then show ?thesis using u False by (auto simp: commit_row_def cur row_kept_refl)
    qed
  qed
qed

lemma kept_rollback_row:
  assumes inv: "table_inv t" and u: "rollback_row rid0 sub t = Inr t'" and "sub \<noteq> s"
  shows "row_kept s t t' rid"
proof (cases "rows t rid0")
  case None
  then show ?thesis using u by (simp add: rollback_row_def row_kept_refl)
next
  case (Some a)
  obtain cur where cur: "heap t a = Some cur" "row_ok cur" and sh: "getlocktype (flags cur) \<noteq> WRITELOCK \<longrightarrow> shadowRows t rid0 = None"
    by (rule row_at_inv [OF inv Some]) blast
  show ?thesis
  proof (cases "getlocktype (flags cur) = WRITELOCK \<longrightarrow> writelockHolder cur = sub")
    case False
    then have "t' = t" using rollback_row_other [OF Some cur(1), of sub] u by simp
    then show ?thesis by (simp add: row_kept_refl)
  next
    case True
    then have t': "t' = rolled_back rid0 sub a cur t"
      using u rollback_row_eq(1) [OF inv Some cur(1)] by simp
    show ?thesis
    proof (rule row_kept_local [OF inv])
      have nw: "\<not> holds_write s cur" using True \<open>sub \<noteq> s\<close> by (auto simp: holds_write_def)
      have rd: "holds_read s (released sub cur) \<and> row (released sub cur) = row cur"
        if h: "holds_read s cur"
      proof -
        obtain h where "readlockHolders cur = Some h" "s \<in> set h" using h by (auto simp: holds_read_def)
        moreover have "removeAll sub h \<noteq> []"
          using \<open>s \<in> set h\<close> \<open>sub \<noteq> s\<close> by (auto simp: filter_empty_conv removeAll_filter_not_eq)
        ultimately show ?thesis
          using \<open>sub \<noteq> s\<close> by (simp add: released_def holds_read_def flag_simps)
      qed
      have ni: "holds_read s cur \<Longrightarrow> \<not> getinsertflag (flags cur) \<and> shadowRows t rid0 = None"
        using row_ok_flagged [OF cur(2)] sh by (auto simp: holds_read_def)
      show "row_kept s t t' rid0"
        using nw rd ni Some cur
        by (auto simp: row_kept_def t' rolled_back_def Let_def forwarder_erase_def)
    qed (use Some in \<open>auto simp: t' rolled_back_def Let_def forwarder_erase_def split: option.splits\<close>)
  qed
qed

lemma kept_select_pending:
  assumes "select_pending z lt sub p q rid0 (t, ret) = Inr (t', ret')"
  shows "row_kept s t t' rid"
  using assms
  by (auto simp: select_pending_def assignToLockQueue_def lockQueue_push_def row_kept_refl
      split: if_splits intro!: row_kept_same)

lemma kept_select_nolock:
  assumes "table_inv t" "select_nolock z sub rid0 (t, ret) = Inr (t', ret')"
  shows "t' = t"
  using select_nolock_inv [of "(t, ret)" z sub rid0] assms by auto

lemma kept_select_readlock:
  assumes inv: "table_inv t" and u: "select_readlock z sub p q rid0 (t, ret) = Inr (t', ret')"
    and "sub \<noteq> s"
  shows "row_kept s t t' rid"
proof (cases "rows t rid0")
  case None
  then show ?thesis using u by (simp add: select_readlock_def row_kept_refl)
next
  case (Some a)
  obtain cur where cur: "row_at rid0 t = Inr (a, cur)" "heap t a = Some cur" "row_ok cur"
    by (rule row_at_inv [OF inv Some]) blast
  from cur(3) show ?thesis
  proof (cases rule: row_ok_lock_cases)
    case unlocked
    then have "t' = store a (cur\<lparr>flags := snd (setreadlock (flags cur)), readlockHolders := Some [sub]\<rparr>) t"
      using u by (simp add: select_readlock_def Some cur(1) Let_def)
    then show ?thesis
      using unlocked
      by (auto simp: holds_write_def holds_read_def intro!: row_kept_store [OF inv Some cur(2)])
  next
    case (reading h)
    then have "t' = t \<or> t' = store a (cur\<lparr>readlockHolders := Some (sub # h)\<rparr>) t"
      using u by (auto simp: select_readlock_def Some cur(1) Let_def split: if_splits)
    then show ?thesis
      using reading row_kept_refl
      by (auto simp: holds_write_def holds_read_def intro!: row_kept_store [OF inv Some cur(2)])
  next
    case writing
    then show ?thesis
      using u kept_select_pending [of z READLOCK sub p q rid0 t ret t' ret' s rid]
      by (auto simp: select_readlock_def Some cur(1) Let_def row_kept_refl split: if_splits)
  qed
qed

lemma kept_select_writelock:
  assumes inv: "table_inv t" and u: "select_writelock z sub p q rid0 (t, ret) = Inr (t', ret')"
    and "sub \<noteq> s"
  shows "row_kept s t t' rid"
proof (cases "rows t rid0")
  case None
  then show ?thesis using u by (simp add: select_writelock_def row_kept_refl)
next
  case (Some a)
  obtain cur where cur: "row_at rid0 t = Inr (a, cur)" "heap t a = Some cur" "row_ok cur"
    by (rule row_at_inv [OF inv Some]) blast
  note pend = kept_select_pending [of z WRITELOCK sub p q rid0 t ret t' ret' s rid]
  from cur(3) show ?thesis
  proof (cases rule: row_ok_lock_cases)
    case unlocked
    then have "t' = store a (cur\<lparr>flags := snd (setwritelock (flags cur)), writelockHolder := sub\<rparr>) t"
      using u by (simp add: select_writelock_def Some cur(1) Let_def)
    then show ?thesis
      using unlocked
      by (auto simp: holds_write_def holds_read_def intro!: row_kept_store [OF inv Some cur(2)])
  next
    case (reading h)
    then show ?thesis using u pend by (simp add: select_writelock_def Some cur(1) Let_def)
  next
    case writing
    then show ?thesis
      using u pend by (auto simp: select_writelock_def Some cur(1) Let_def row_kept_refl split: if_splits)
  qed
qed

lemma kept_fold:
  fixes f :: "int \<Rightarrow> select_state \<Rightarrow> select_state res"
  assumes "rfold f rids (t, ret) = Inr (t', ret')" "table_inv t"
    and step: "\<And>rid0 u ru v rv. table_inv u \<Longrightarrow> f rid0 (u, ru) = Inr (v, rv) \<Longrightarrow>
      table_inv v \<and> row_kept s u v rid"
  shows "row_kept s t t' rid"
proof -
  let ?I = "\<lambda>s'. table_inv (fst s') \<and> row_kept s t (fst s') rid"
  have "?I (t', ret')"
  proof (rule rfold_invariant [OF _ _ assms(1)])
    fix x s1 s2 assume I: "?I s1" and f: "f x s1 = Inr s2"
    have "table_inv (fst s2) \<and> row_kept s (fst s1) (fst s2) rid"
      using step [of "fst s1" x "snd s1" "fst s2" "snd s2"] I f by simp
    then show "?I s2" using I row_kept_trans by blast
  qed (simp add: assms(2) row_kept_refl)
  then show ?thesis by simp
qed

lemma kept_selectrows:
  assumes "table_inv t" "selectrows z rids lt sub p q (t, ret) = Inr (t', ret')" "sub \<noteq> s"
  shows "row_kept s t t' rid"
proof -
  have "row_kept s t t' rid" if f: "rfold (select_nolock z sub) rids (t, ret) = Inr (t', ret')"
  proof (rule kept_fold [OF f assms(1)])
    show "table_inv v \<and> row_kept s u v rid"
      if "table_inv u" "select_nolock z sub rid0 (u, ru) = Inr (v, rv)" for rid0 u ru v rv
      using kept_select_nolock [OF that] that(1) by (simp add: row_kept_refl)
  qed
  moreover have "row_kept s t t' rid"
    if f: "rfold (select_readlock z sub p q) rids (t, ret) = Inr (t', ret')"
  proof (rule kept_fold [OF f assms(1)])
    show "table_inv v \<and> row_kept s u v rid"
      if "table_inv u" "select_readlock z sub p q rid0 (u, ru) = Inr (v, rv)" for rid0 u ru v rv
      using kept_select_readlock [OF that assms(3)] select_readlock_inv [of "(u, ru)" z sub p q rid0] that
      by auto
  qed
  moreover have "row_kept s t t' rid"
    if f: "rfold (select_writelock z sub p q) rids (t, ret) = Inr (t', ret')"
  proof (rule kept_fold [OF f assms(1)])
    show "table_inv v \<and> row_kept s u v rid"
      if "table_inv u" "select_writelock z sub p q rid0 (u, ru) = Inr (v, rv)" for rid0 u ru v rv
      using kept_select_writelock [OF that assms(3)] select_writelock_inv [of "(u, ru)" z sub p q rid0] that
      by auto
  qed
  ultimately show ?thesis
    using assms(2) row_kept_refl by (cases lt) (simp_all add: selectrows_def)
qed

lemma kept_step:
  assumes "table_step sub t t'" "table_inv t" "sub \<noteq> s"
  shows "row_kept s t t' rid"
  using assms(1)
proof cases
  case (insert_step rid0 t1 r)
  then show ?thesis using kept_newrow [OF assms(2)] by blast
next
  case (update_step rid0 r st)
  then show ?thesis using kept_updaterow [OF assms(2) _ assms(3)] by blast
next
  case (delete_step rid0 st)
  then show ?thesis using kept_deleterow [OF assms(2) _ assms(3)] by blast
next
  case (replace_step rid0 fr fe st)
  then show ?thesis using kept_deleterow_forward [OF assms(2) _ assms(3)] by blast
next
  case (select_step z rids lt p q ret ret')
  then show ?thesis using kept_selectrows [OF assms(2) _ assms(3)] by blast
next
  case (end_step rid0 cmd)
  then show ?thesis
    using kept_commit_row [OF assms(2) _ assms(3)] kept_rollback_row [OF assms(2) _ assms(3)]
      kept_unlock_row [OF assms(2) _ assms(3)] kept_revert_row [OF assms(2) _ assms(3)] row_kept_refl
    by (cases cmd) (auto simp: commitRollbackUnlock_def)
qed

end
