(* ===== verification/Row_Getrows.thy ===== *)
theory Row_Getrows
  imports Row_Isolation
begin

text \<open>
  \<open>Table::getrows\<close> of \<open>infinisqld/Table.cc\<close>, the older version of \<open>selectrows\<close>: rows that
  wait for a lock are returned in a list of their own, rows that are not there are passed over.
\<close>

type_synonym getrows_state = "table \<times> returnRow list \<times> int list"

definition getrows_row :: "int \<Rightarrow> bytes \<Rightarrow> returnRow" where
  "getrows_row rid r = returnRow0\<lparr>rr_rowid := rid, rr_row := r\<rparr>"

definition getrows_wait :: "int \<Rightarrow> locktype \<Rightarrow> int \<Rightarrow> int \<Rightarrow> int \<Rightarrow> getrows_state \<Rightarrow> getrows_state" where
  "getrows_wait rid lt subtransactionid pendingcmdid tacmdentrypoint s =
     (let (t, returnRows, lockPendingRowids) = s in
      (lockQueue_push rid
         \<lparr>lr_pendingcmdid = pendingcmdid, lr_tacmdentrypoint = tacmdentrypoint,
          lr_subtransactionid = subtransactionid, lr_locktype = lt\<rparr> t,
       returnRows, lockPendingRowids @ [rid]))"

definition getrows_row1 :: "locktype \<Rightarrow> int \<Rightarrow> int \<Rightarrow> int \<Rightarrow> int \<Rightarrow> getrows_state \<Rightarrow> getrows_state res" where
  "getrows_row1 lt subtransactionid pendingcmdid tacmdentrypoint rid s =
     (let (t, returnRows, lockPendingRowids) = s in
      if rows t rid = None then Inr s
      else rbind (row_at rid t) (\<lambda>(a, cur).
        let ret = returnRows @ [getrows_row rid (row cur)];
            wait = getrows_wait rid lt subtransactionid pendingcmdid tacmdentrypoint s
        in case lt of
             NOLOCK \<Rightarrow>
               if \<not> getinsertflag (flags cur) then Inr (t, ret, lockPendingRowids) else Inr s
           | READLOCK \<Rightarrow>
               (case getlocktype (flags cur) of
                  NOLOCK \<Rightarrow>
                    Inr (store a (cur\<lparr>flags := snd (setreadlock (flags cur)),
                                      readlockHolders := Some [subtransactionid]\<rparr>) t,
                         ret, lockPendingRowids)
                | READLOCK \<Rightarrow> rbind (deref (readlockHolders cur)) (\<lambda>holders.
                    Inr (store a (cur\<lparr>readlockHolders := Some (List.insert subtransactionid holders)\<rparr>) t,
                         ret, lockPendingRowids))
                | WRITELOCK \<Rightarrow> Inr wait
                | _ \<Rightarrow> Inr s)
           | WRITELOCK \<Rightarrow>
               (case getlocktype (flags cur) of
                  NOLOCK \<Rightarrow>
                    Inr (store a (cur\<lparr>flags := snd (setwritelock (flags cur)),
                                      writelockHolder := subtransactionid\<rparr>) t,
                         ret, lockPendingRowids)
                | READLOCK \<Rightarrow> Inr wait
                | WRITELOCK \<Rightarrow> Inr wait
                | _ \<Rightarrow> Inr s)
           | _ \<Rightarrow> Inr s))"

definition getrows :: "int list \<Rightarrow> locktype \<Rightarrow> int \<Rightarrow> int \<Rightarrow> int \<Rightarrow> getrows_state \<Rightarrow> getrows_state res" where
  "getrows rowids lt subtransactionid pendingcmdid tacmdentrypoint s =
     (let (t, returnRows, lockPendingRowids) = s
      in rfold (getrows_row1 lt subtransactionid pendingcmdid tacmdentrypoint) rowids
           (t, returnRows, if lt \<noteq> NOLOCK then [] else lockPendingRowids))"

section \<open>Agreement with selectrows\<close>

text \<open>
  For a subtransaction that holds no lock on it, a row that is not an uncommitted insert has the
  same outcome in both: the same table, and the row is returned in the one exactly if it is
  returned with its content in the other.
\<close>

definition lock_outcome :: "locktype \<Rightarrow> getrows_state res \<Rightarrow> select_state res \<Rightarrow> bool" where
  "lock_outcome lt g s \<longleftrightarrow>
     (case (g, s) of
        (Inr (t, ret, pending), Inr (t', ret')) \<Rightarrow>
          t' = t
          \<and> map (\<lambda>r. (rr_rowid r, rr_row r)) ret =
            map (\<lambda>r. (rr_rowid r, rr_row r)) (filter (\<lambda>r. rr_locktype r = lt) ret')
          \<and> pending = map rr_rowid (filter (\<lambda>r. rr_locktype r = PENDINGLOCK) ret')
      | _ \<Rightarrow> False)"

lemma getrows_selectrows:
  assumes "table_inv t" "rows t rid = Some a" "heap t a = Some cur"
    and "\<not> holds_write sub cur" "\<not> holds_read sub cur" "\<not> getinsertflag (flags cur)"
    and "lt \<in> {NOLOCK, READLOCK, WRITELOCK}"
  shows "lock_outcome lt (getrows [rid] lt sub p q (t, [], [])) (selectrows z [rid] lt sub p q (t, []))"
proof -
  have at: "row_at rid t = Inr (a, cur)" using assms(2,3) by (simp add: row_at_eq)
  have ok: "row_ok cur"
    by (rule row_at_inv [OF assms(1,2)]) (use assms(3) in auto)
  have lt: "getlocktype (flags cur) \<in> {NOLOCK, READLOCK, WRITELOCK}" by (rule getlocktype_range)
  have h: "\<exists>h. readlockHolders cur = Some h \<and> sub \<notin> set h" if "getlocktype (flags cur) = READLOCK"
    using ok that assms(5) by (auto simp: row_ok_def holds_read_def)
  note defs = lock_outcome_def getrows_def getrows_row1_def selectrows_def select_nolock_def
    select_readlock_def select_writelock_def select_pending_def assignToLockQueue_def
    getrows_wait_def getrows_row_def workrow_def returnRow0_def Let_def
  consider "lt = NOLOCK" | "lt = READLOCK" | "lt = WRITELOCK" using assms(7) by blast
  then show ?thesis
    using lt h at assms(2,4,6)
    by cases (auto simp: defs holds_write_def)
qed

end
