(* ===== verification/Row_Codec.thy ===== *)
theory Row_Codec
  imports Row_Store
begin

text \<open>
  Fields and the row format: \<open>addfield\<close>, \<open>makerow\<close> and \<open>unmakerow\<close> of
  \<open>infinisqld/Table.cc\<close>. A row is a string: for each field a null byte, then, unless the field
  is null, the value as \<open>memcpy\<close> lays it out on a little-endian machine (a \<open>CHARX\<close> padded
  with spaces to the length of the field, a \<open>VARCHAR\<close> behind its 8-byte length). Lengths of
  fields are not negative. A copy outside the string is the fault \<open>OutOfRange\<close>.
\<close>

section \<open>addfield\<close>

text \<open>What \<open>addfield\<close> adds for a field; the case of \<open>FLOAT\<close> runs on into that of \<open>CHAR\<close>.\<close>

definition addfield :: "fieldtype \<Rightarrow> nat \<Rightarrow> bytes \<Rightarrow> indextype \<Rightarrow> table \<Rightarrow> int \<times> table" where
  "addfield t len name it tb =
     (let fs = tb_fields tb @ [Field t len it name];
          tb1 = tb\<lparr>tb_fields := fs,
                   columnNameToFieldMap := (columnNameToFieldMap tb)(name \<mapsto> int (length fs) - 1)\<rparr>;
          rs = (if rowsize tb = - 1 then - 1
                else let rs0 = rowsize tb + 1
                     in case t of
                          F_INT \<Rightarrow> rs0 + 8
                        | F_UINT \<Rightarrow> rs0 + 8
                        | F_BOOL \<Rightarrow> rs0 + 1
                        | F_FLOAT \<Rightarrow> rs0 + 16 + 1
                        | F_CHAR \<Rightarrow> rs0 + 1
                        | F_CHARX \<Rightarrow> rs0 + int len
                        | F_VARCHAR \<Rightarrow> - 1
                        | NOFIELDTYPE \<Rightarrow> rs0)
      in (int (length fs) - 1, tb1\<lparr>rowsize := rs\<rparr>))"

section \<open>makerow\<close>

text \<open>
  The size loop, for a table with a \<open>VARCHAR\<close>: the size of this row, the member
  \<open>rowsize\<close> (counted up as well) and \<open>hasvarchar\<close>.
\<close>

fun makerow_size :: "(field \<times> fieldValue) list \<Rightarrow> int \<times> int \<times> bool \<Rightarrow> int \<times> int \<times> bool" where
  "makerow_size [] s = s"
| "makerow_size ((f, v) # xs) (rsize, rs, hasvarchar) =
     makerow_size xs
       (case fd_type f of
          F_INT \<Rightarrow> (rsize + 1 + 8, rs + 1, hasvarchar)
        | F_UINT \<Rightarrow> (rsize + 1 + 8, rs + 1, hasvarchar)
        | F_BOOL \<Rightarrow> (rsize + 1 + 1, rs + 1, hasvarchar)
        | F_FLOAT \<Rightarrow> (rsize + 1 + 16, rs + 1, hasvarchar)
        | F_CHAR \<Rightarrow> (rsize + 1 + 1, rs + 1, hasvarchar)
        | F_CHARX \<Rightarrow> (rsize + 1 + int (fd_length f), rs + 1, hasvarchar)
        | F_VARCHAR \<Rightarrow> (rsize + 1 + 8 + int (length (str v)), rs + 1, True)
        | NOFIELDTYPE \<Rightarrow> (rsize + 1, rs + 1, hasvarchar))"

definition write_at :: "nat \<Rightarrow> bytes \<Rightarrow> bytes \<Rightarrow> bytes res" where
  "write_at pos bs buf =
     (if pos + length bs \<le> length buf
      then Inr (take pos buf @ bs @ drop (pos + length bs) buf) else Inl OutOfRange)"

text \<open>The padding changes the value of the caller.\<close>

definition pad_charx :: "field \<Rightarrow> fieldValue \<Rightarrow> fieldValue" where
  "pad_charx f v =
     (if fd_type f = F_CHARX \<and> length (str v) < fd_length f
      then v\<lparr>str := str v @ replicate (fd_length f - length (str v)) sp_byte\<rparr> else v)"

definition field_image :: "field \<Rightarrow> fieldValue \<Rightarrow> bytes" where
  "field_image f v =
     (case fd_type f of
        F_INT \<Rightarrow> le_bytes 8 (uint (the_i64 (integer v)))
      | F_UINT \<Rightarrow> le_bytes 8 (uint (uinteger v))
      | F_BOOL \<Rightarrow> [if boolean v then 1 else 0]
      | F_FLOAT \<Rightarrow> le_bytes 16 (uint (the_ld (floating v)))
      | F_CHAR \<Rightarrow> [the_i8 (character v)]
      | F_CHARX \<Rightarrow> take (fd_length f) (str v)
      | F_VARCHAR \<Rightarrow> le_bytes 8 (int (length (str v))) @ str v
      | NOFIELDTYPE \<Rightarrow> [])"

fun makerow_loop :: "(field \<times> fieldValue) list \<Rightarrow> nat \<times> fieldValue list \<times> bytes \<Rightarrow>
    (nat \<times> fieldValue list \<times> bytes) res" where
  "makerow_loop [] s = Inr s"
| "makerow_loop ((f, v) # xs) (pos, vs, buf) =
     rbind (write_at pos [if isnull v then 1 else 0] buf) (\<lambda>buf1.
       if isnull v then makerow_loop xs (pos + 1, vs @ [v], buf1)
       else let v' = pad_charx f v; img = field_image f v'
            in rbind (write_at (pos + 1) img buf1) (\<lambda>buf2.
                 makerow_loop xs (pos + 1 + length img, vs @ [v'], buf2)))"

definition makerow :: "fieldValue list \<Rightarrow> bytes \<Rightarrow> table \<Rightarrow>
    (bool \<times> fieldValue list \<times> bytes \<times> table) res" where
  "makerow fieldVal res t =
     (if length fieldVal \<noteq> length (tb_fields t) then Inr (False, fieldVal, res, t)
      else let xs = zip (tb_fields t) fieldVal;
               (size, rs) =
                 (if rowsize t \<noteq> - 1 then (rowsize t, rowsize t)
                  else let (rsize, rs, hasvarchar) = makerow_size xs (0, rowsize t, False)
                       in (rsize, if hasvarchar then - 1 else rs))
           in rbind (makerow_loop xs (0, [], replicate (nat size) 0)) (\<lambda>(_, vs, buf).
                Inr (True, vs, buf, t\<lparr>rowsize := rs\<rparr>)))"

section \<open>unmakerow\<close>

text \<open>\<open>size_t\<close> arithmetic; \<open>operator[]\<close> at the size of the string is its null character.\<close>

definition size_t :: "nat \<Rightarrow> nat" where
  "size_t n = n mod 2 ^ 64"

definition byte_at :: "nat \<Rightarrow> bytes \<Rightarrow> byte res" where
  "byte_at pos rowstring =
     (if pos < length rowstring then Inr (rowstring ! pos) else if pos = length rowstring then Inr 0
      else Inl OutOfRange)"

definition read_at :: "nat \<Rightarrow> nat \<Rightarrow> bytes \<Rightarrow> bytes res" where
  "read_at pos n rowstring =
     (if pos + n \<le> length rowstring then Inr (take n (drop pos rowstring)) else Inl OutOfRange)"

text \<open>\<open>str.assign(rowstring, pos, n)\<close>\<close>

definition assign_from :: "nat \<Rightarrow> nat \<Rightarrow> bytes \<Rightarrow> bytes res" where
  "assign_from pos n rowstring =
     (if pos \<le> length rowstring then Inr (take n (drop pos rowstring)) else Inl OutOfRange)"

fun le_val :: "bytes \<Rightarrow> int" where
  "le_val [] = 0"
| "le_val (b # bs) = uint b + 256 * le_val bs"

definition unmake_field :: "field \<Rightarrow> bytes \<Rightarrow> nat \<Rightarrow> fieldValue \<Rightarrow> (fieldValue \<times> nat) res" where
  "unmake_field f rowstring pos v =
     (case fd_type f of
        F_INT \<Rightarrow> rbind (read_at pos 8 rowstring) (\<lambda>bs.
          Inr (v\<lparr>integer := I64 (word_of_int (le_val bs))\<rparr>, size_t (pos + 8)))
      | F_UINT \<Rightarrow> rbind (read_at pos 8 rowstring) (\<lambda>bs.
          Inr (v\<lparr>uinteger := word_of_int (le_val bs)\<rparr>, size_t (pos + 8)))
      | F_BOOL \<Rightarrow> rbind (read_at pos 1 rowstring) (\<lambda>bs.
          Inr (v\<lparr>boolean := (le_val bs \<noteq> 0)\<rparr>, size_t (pos + 1)))
      | F_FLOAT \<Rightarrow> rbind (read_at pos 16 rowstring) (\<lambda>bs.
          Inr (v\<lparr>floating := LD (word_of_int (le_val bs))\<rparr>, size_t (pos + 16)))
      | F_CHAR \<Rightarrow> rbind (read_at pos 1 rowstring) (\<lambda>bs.
          Inr (v\<lparr>character := I8 (word_of_int (le_val bs))\<rparr>, size_t (pos + 1)))
      | F_CHARX \<Rightarrow> rbind (assign_from pos (fd_length f) rowstring) (\<lambda>s.
          Inr (v\<lparr>str := s @ replicate (fd_length f - length s) 0\<rparr>, size_t (pos + fd_length f)))
      | F_VARCHAR \<Rightarrow> rbind (read_at pos 8 rowstring) (\<lambda>bs.
          let varcharlength = nat (le_val bs); pos1 = size_t (pos + 8)   \<comment> \<open>as a \<open>size_t\<close>\<close>
          in rbind (assign_from pos1 varcharlength rowstring) (\<lambda>s.
               Inr (v\<lparr>str := s\<rparr>, size_t (pos1 + varcharlength))))
      | NOFIELDTYPE \<Rightarrow> Inr (v, pos))"

fun unmakerow_loop :: "field list \<Rightarrow> bytes \<Rightarrow> nat \<Rightarrow> fieldValue list \<Rightarrow> fieldValue list \<Rightarrow>
    (bool \<times> fieldValue list) res" where
  "unmakerow_loop [] rowstring pos rest vs = Inr (True, vs @ rest)"
| "unmakerow_loop (f # fs) rowstring pos [] vs = Inl OutOfRange"
| "unmakerow_loop (f # fs) rowstring pos (v # rest) vs =
     (if size_t (length rowstring + 2 ^ 64 - 1) \<le> pos then Inr (False, vs @ v # rest)
      else rbind (byte_at pos rowstring) (\<lambda>b.
        if b = 0
        then rbind (unmake_field f rowstring (size_t (pos + 1)) (v\<lparr>isnull := False\<rparr>)) (\<lambda>(v', pos').
               unmakerow_loop fs rowstring pos' rest (vs @ [v']))
        else unmakerow_loop fs rowstring (size_t (pos + 1)) rest (vs @ [v\<lparr>isnull := True\<rparr>])))"

definition unmakerow :: "bytes \<Rightarrow> fieldValue list \<Rightarrow> table \<Rightarrow> (bool \<times> fieldValue list) res" where
  "unmakerow rowstring resultFields t =
     (let n = length (tb_fields t);
          rs = take n resultFields @ replicate (n - length resultFields) fieldValue0
      in unmakerow_loop (tb_fields t) rowstring 0 rs [])"

section \<open>The size of a row\<close>

text \<open>The bytes a field needs behind its null byte.\<close>

definition field_size :: "field \<Rightarrow> fieldValue \<Rightarrow> nat" where
  "field_size f v =
     (case fd_type f of
        F_INT \<Rightarrow> 8 | F_UINT \<Rightarrow> 8 | F_BOOL \<Rightarrow> 1 | F_FLOAT \<Rightarrow> 16 | F_CHAR \<Rightarrow> 1
      | F_CHARX \<Rightarrow> fd_length f | F_VARCHAR \<Rightarrow> 8 + length (str v) | NOFIELDTYPE \<Rightarrow> 0)"

definition row_space :: "(field \<times> fieldValue) list \<Rightarrow> nat" where
  "row_space xs = sum_list (map (\<lambda>(f, v). 1 + field_size f v) xs)"

text \<open>
  The invariant of \<open>rowsize\<close>: it is \<open>-1\<close> exactly if there is a \<open>VARCHAR\<close>, otherwise it is
  the room the fields need and a byte more for each \<open>FLOAT\<close>.
\<close>

definition fixed_size :: "field list \<Rightarrow> nat" where
  "fixed_size fs = sum_list (map (\<lambda>f. 1 + field_size f fieldValue0 +
     (if fd_type f = F_FLOAT then 1 else 0)) fs)"

definition has_varchar :: "field list \<Rightarrow> bool" where
  "has_varchar fs = (\<exists>f \<in> set fs. fd_type f = F_VARCHAR)"

definition rowsize_ok :: "table \<Rightarrow> bool" where
  "rowsize_ok t \<longleftrightarrow>
     rowsize t = (if has_varchar (tb_fields t) then - 1 else int (fixed_size (tb_fields t)))"

lemma fd_type_Field [simp]: "fd_type (Field t len it name) = t" "fd_length (Field t len it name) = len"
  by (simp_all add: Field_def)

lemma rowsize_ok_Table: "rowsize_ok (Table indet idarg)"
  by (simp add: rowsize_ok_def Table_def has_varchar_def fixed_size_def)

lemma rowsize_ok_addfield:
  "rowsize_ok tb \<Longrightarrow> rowsize_ok (snd (addfield t len name it tb))"
  by (cases t)
    (auto simp: rowsize_ok_def addfield_def Let_def has_varchar_def fixed_size_def field_size_def
      split: if_splits)

section \<open>Writing\<close>

definition field_code :: "field \<times> fieldValue \<Rightarrow> bytes" where
  "field_code x = (case x of (f, v) \<Rightarrow>
     if isnull v then [1] else 0 # field_image f (pad_charx f v))"

definition row_code :: "(field \<times> fieldValue) list \<Rightarrow> bytes" where
  "row_code xs = concat (map field_code xs)"

lemma length_le_bytes [simp]: "length (le_bytes k n) = k"
  by (induction k arbitrary: n) auto

lemma le_val_le_bytes: "le_val (le_bytes k n) = n mod 256 ^ k"
proof (induction k arbitrary: n)
  case (Suc k)
  have "(n mod 256) + 256 * (n div 256 mod 256 ^ k) = n mod (256 * 256 ^ k)"
    by (subst zmod_zmult2_eq) simp_all
  then show ?case using Suc by (simp add: uint_word_of_int take_bit_eq_mod)
qed simp

lemma length_field_image: "length (field_image f (pad_charx f v)) = field_size f v"
  by (cases "fd_type f") (simp_all add: field_image_def pad_charx_def field_size_def)

lemma length_field_code:
  "length (field_code (f, v)) = 1 + (if isnull v then 0 else field_size f v)"
  by (simp add: field_code_def length_field_image)

lemma write_at_split:
  assumes "length pre = pos" "length bs \<le> length zs"
  shows "write_at pos bs (pre @ zs) = Inr (pre @ bs @ drop (length bs) zs)"
  using assms by (simp add: write_at_def)

lemma makerow_loop_code:
  assumes "length pre = pos" "row_space xs \<le> length zs"
  shows "\<exists>vs'. makerow_loop xs (pos, vs, pre @ zs) =
    Inr (pos + length (row_code xs), vs',  pre @ row_code xs @ drop (length (row_code xs)) zs)"
  using assms
proof (induction xs arbitrary: pos vs pre zs)
  case (Cons x xs)
  obtain f v where x: "x = (f, v)" by (cases x)
  have sp: "1 + field_size f v + row_space xs \<le> length zs"
    using Cons.prems(2) by (simp add: x row_space_def)
  have w1: "write_at pos [c] (pre @ zs) = Inr ((pre @ [c]) @ drop 1 zs)" for c
    using Cons.prems(1) sp by (subst write_at_split) auto
  show ?case
  proof (cases "isnull v")
    case True
    with Cons.IH [of "pre @ [1]" "pos + 1" "drop 1 zs"] Cons.prems(1) sp show ?thesis
      by (simp add: x w1 row_code_def field_code_def)
  next
    case False
    let ?img = "field_image f (pad_charx f v)"
    have w2: "write_at (pos + 1) ?img ((pre @ [0]) @ drop 1 zs)
        = Inr ((pre @ [0]) @ ?img @ drop (length ?img) (drop 1 zs))"
      using Cons.prems(1) sp by (intro write_at_split) (auto simp: length_field_image)
    show ?thesis
      using Cons.IH [of "pre @ [0] @ ?img" "pos + 1 + length ?img" "drop (length ?img) (drop 1 zs)"
          "vs @ [pad_charx f v]"] Cons.prems(1) sp False w2
      by (simp add: x w1 row_code_def field_code_def length_field_image Let_def add.commute
          add.left_commute add.assoc)
  qed
qed (simp add: row_code_def)

lemma makerow_size_varchar:
  "makerow_size xs (rsize, rs, hasv) =
     (rsize + int (row_space xs), rs + int (length xs), hasv \<or> has_varchar (map fst xs))"
proof (induction xs arbitrary: rsize rs hasv)
  case (Cons x xs)
  obtain f v where x: "x = (f, v)" by (cases x)
  show ?case
    using Cons by (cases "fd_type f") (auto simp: x row_space_def has_varchar_def field_size_def)
qed (simp add: row_space_def has_varchar_def)

lemma fixed_size_space:
  "\<not> has_varchar (map fst xs) \<Longrightarrow> row_space xs \<le> fixed_size (map fst xs)"
proof (induction xs)
  case (Cons x xs)
  obtain f v where x: "x = (f, v)" by (cases x)
  from Cons show ?case
    by (cases "fd_type f") (auto simp: x row_space_def fixed_size_def has_varchar_def field_size_def)
qed (simp add: row_space_def)

lemma makerow_code:
  assumes "rowsize_ok t" "length vals = length (tb_fields t)"
  defines "xs \<equiv> zip (tb_fields t) vals"
  shows "\<exists>vals' tail. makerow vals res t = Inr (True, vals', row_code xs @ tail, t)
           \<and> row_space xs \<le> length (row_code xs) + length tail
           \<and> length (row_code xs @ tail) =
               (if has_varchar (tb_fields t) then row_space xs else fixed_size (tb_fields t))"
proof -
  have fs: "map fst xs = tb_fields t" using assms(2) by (simp add: xs_def)
  let ?size = "if has_varchar (tb_fields t) then row_space xs else fixed_size (tb_fields t)"
  have le: "row_space xs \<le> ?size" using fixed_size_space [of xs] fs by simp
  have len: "length (row_code xs) \<le> row_space xs" for xs
    by (induction xs)
      (auto simp: row_code_def row_space_def length_field_code simp del: One_nat_def)
  obtain vs' where vs': "makerow_loop xs (0, [], replicate ?size 0) =
      Inr (length (row_code xs), vs', row_code xs @ drop (length (row_code xs)) (replicate ?size 0))"
    using makerow_loop_code [of "[]" 0 xs "replicate ?size 0" "[]"] le by auto
  have m: "makerow_size xs (0, - 1, False) = (int (row_space xs), - 1 + int (length xs), has_varchar (tb_fields t))"
    by (simp add: makerow_size_varchar fs)
  have "makerow vals res t = Inr (True, vs',
      row_code xs @ drop (length (row_code xs)) (replicate ?size 0), t\<lparr>rowsize := rowsize t\<rparr>)"
    using assms(1,2) vs' m
    by (cases "has_varchar (tb_fields t)")
      (simp_all add: makerow_def rowsize_ok_def xs_def [symmetric])
  then show ?thesis using le len [of xs]
    by (intro exI conjI) (auto simp del: drop_replicate intro: le_trans)
qed

section \<open>Reading back\<close>

text \<open>
  What of a value reaches the row: the member of its type, a \<open>CHARX\<close> padded. The values the
  format can hold: of a real type, a \<open>CHARX\<close> of a field that is not empty and no longer
  than the field.
\<close>

definition field_norm :: "field \<Rightarrow> fieldValue \<Rightarrow> fieldValue" where
  "field_norm f v =
     (if isnull v then fieldValue0\<lparr>isnull := True\<rparr>
      else case fd_type f of
        F_INT \<Rightarrow> fieldValue0\<lparr>integer := integer v\<rparr>
      | F_UINT \<Rightarrow> fieldValue0\<lparr>uinteger := uinteger v\<rparr>
      | F_BOOL \<Rightarrow> fieldValue0\<lparr>boolean := boolean v\<rparr>
      | F_FLOAT \<Rightarrow> fieldValue0\<lparr>floating := floating v\<rparr>
      | F_CHAR \<Rightarrow> fieldValue0\<lparr>character := character v\<rparr>
      | F_CHARX \<Rightarrow> fieldValue0\<lparr>str := str (pad_charx f v)\<rparr>
      | F_VARCHAR \<Rightarrow> fieldValue0\<lparr>str := str v\<rparr>
      | NOFIELDTYPE \<Rightarrow> fieldValue0)"

definition value_ok :: "field \<Rightarrow> fieldValue \<Rightarrow> bool" where
  "value_ok f v \<longleftrightarrow>
     fd_type f \<noteq> NOFIELDTYPE
     \<and> (fd_type f = F_CHARX \<longrightarrow> 0 < fd_length f \<and> length (str v) \<le> fd_length f)"

lemma value_ok_size: "value_ok f v \<Longrightarrow> 0 < field_size f v"
  by (cases "fd_type f") (simp_all add: value_ok_def field_size_def)

lemma word_le_val [simp]:
  "word_of_int (le_val (le_bytes 8 (uint w))) = (w :: 64 word)"
  "word_of_int (le_val (le_bytes 16 (uint x))) = (x :: 128 word)"
  using uint_lt2p [of w] uint_lt2p [of x] by (simp_all add: le_val_le_bytes)

lemma read_at_split:
  "length pre = pos \<Longrightarrow> length bs = n \<Longrightarrow> read_at pos n (pre @ bs @ tail) = Inr bs"
  by (simp add: read_at_def)

lemma assign_from_split:
  "length pre = pos \<Longrightarrow> length bs = n \<Longrightarrow> assign_from pos n (pre @ bs @ tail) = Inr bs"
  by (simp add: assign_from_def)

lemma size_t_id: "n < 2 ^ 64 \<Longrightarrow> size_t n = n"
  by (simp add: size_t_def)

lemma size_t_pred:
  assumes "0 < n" "n < 2 ^ 64"
  shows "size_t (n + 2 ^ 64 - 1) = n - 1"
proof -
  have "n + 2 ^ 64 - 1 = (n - 1) + 2 ^ 64" using assms(1) by simp
  then have "size_t (n + 2 ^ 64 - 1) = (n - 1) mod 2 ^ 64"
    unfolding size_t_def by (simp only: mod_add_self2)
  then show ?thesis using assms by simp
qed

lemma unmake_field_code:
  assumes "length pre = pos" "value_ok f v" "\<not> isnull v"
    and "length pre + field_size f v < 2 ^ 63"
  shows "unmake_field f (pre @ field_image f (pad_charx f v) @ tail) pos fieldValue0
           = Inr (field_norm f v, pos + field_size f v)"
proof (cases "fd_type f = F_VARCHAR")
  case True
  let ?hdr = "le_bytes 8 (int (length (str v)))"
  have im: "field_image f (pad_charx f v) = ?hdr @ str v"
    by (simp add: field_image_def pad_charx_def True)
  have sz: "field_size f v = 8 + length (str v)" by (simp add: field_size_def True)
  have len: "length (str v) < 2 ^ 63" using assms(4) sz by simp
  have val: "nat (le_val ?hdr) = length (str v)" using len by (simp add: le_val_le_bytes)
  have "read_at pos 8 (pre @ (?hdr @ str v) @ tail) = Inr ?hdr"
    using read_at_split [OF assms(1), of ?hdr 8 "str v @ tail"] by simp
  moreover have "assign_from (pos + 8) (length (str v)) (pre @ (?hdr @ str v) @ tail) = Inr (str v)"
    using assign_from_split [of "pre @ ?hdr" "pos + 8" "str v" "length (str v)" tail] assms(1) by simp
  ultimately show ?thesis
    using True assms(1,3,4) sz val
    by (simp add: unmake_field_def im size_t_id field_norm_def Let_def)
next
  case False
  let ?im = "field_image f (pad_charx f v)"
  have len: "length ?im = field_size f v" by (rule length_field_image)
  have rd: "read_at pos n (pre @ ?im @ tail) = Inr ?im" if "n = field_size f v" for n
    using assms(1) len that by (intro read_at_split) simp_all
  have as: "assign_from pos n (pre @ ?im @ tail) = Inr ?im" if "n = field_size f v" for n
    using assms(1) len that by (intro assign_from_split) simp_all
  have st: "size_t (pos + field_size f v) = pos + field_size f v"
    using assms(1,4) by (intro size_t_id) simp
  show ?thesis
    using False assms(2,3) rd as st
    by (cases "fd_type f")
      (simp_all add: unmake_field_def field_size_def field_norm_def value_ok_def,
       simp_all add: field_image_def pad_charx_def)
qed

lemma unmakerow_loop_code:
  assumes "\<forall>(f, v) \<in> set xs. value_ok f v" "length pre = pos"
    and "row_space xs \<le> length (row_code xs) + length tail"
    and "length pre + length (row_code xs) + length tail < 2 ^ 63"
  shows "unmakerow_loop (map fst xs) (pre @ row_code xs @ tail) pos
           (replicate (length xs) fieldValue0) vs
         = Inr (True, vs @ map (\<lambda>(f, v). field_norm f v) xs)"
  using assms
proof (induction xs arbitrary: pre pos vs)
  case (Cons x xs)
  obtain f v where x: "x = (f, v)" by (cases x)
  have ok: "value_ok f v" using Cons.prems(1) by (simp add: x)
  let ?c = "field_code (f, v)" and ?row = "pre @ field_code (f, v) @ row_code xs @ tail"
  have row: "pre @ row_code (x # xs) @ tail = ?row" by (simp add: x row_code_def)
  have len: "length (row_code (x # xs)) = length ?c + length (row_code xs)"
    by (simp add: x row_code_def)
  have sp: "1 + field_size f v + row_space xs \<le> length ?c + length (row_code xs) + length tail"
    using Cons.prems(3) len by (simp add: x row_space_def)
  have big: "length ?row < 2 ^ 63" using Cons.prems(4) len by simp
  have guard: "\<not> size_t (length ?row + 2 ^ 64 - 1) \<le> pos"
  proof -
    have p: "pos + 2 \<le> length ?row" using sp value_ok_size [OF ok] Cons.prems(2) by simp
    have "size_t (length ?row + 2 ^ 64 - 1) = length ?row - 1"
      using p big by (intro size_t_pred) (linarith, simp)
    then show ?thesis using p by linarith
  qed
  have st: "size_t (pos + 1) = pos + 1" using big Cons.prems(2) by (intro size_t_id) simp
  show ?case
  proof (cases "isnull v")
    case True
    then have c: "?c = [1]" by (simp add: field_code_def)
    have "byte_at pos ?row = Inr 1" using Cons.prems(2) c by (simp add: byte_at_def nth_append)
    moreover have "unmakerow_loop (map fst xs) ((pre @ [1]) @ row_code xs @ tail) (pos + 1)
        (replicate (length xs) fieldValue0) (vs @ [fieldValue0\<lparr>isnull := True\<rparr>])
        = Inr (True, (vs @ [fieldValue0\<lparr>isnull := True\<rparr>]) @ map (\<lambda>(f, v). field_norm f v) xs)"
      using Cons.prems sp big c by (intro Cons.IH) (auto simp: x)
    ultimately show ?thesis
      using guard st True c by (simp add: row) (simp add: x field_norm_def)
  next
    case False
    let ?im = "field_image f (pad_charx f v)"
    have c: "?c = 0 # ?im" using False by (simp add: field_code_def)
    have lim: "length ?im = field_size f v" by (rule length_field_image)
    have "byte_at pos ?row = Inr 0" using Cons.prems(2) c by (simp add: byte_at_def nth_append)
    moreover have "fieldValue0\<lparr>isnull := False\<rparr> = fieldValue0" by (simp add: fieldValue0_def)
    moreover have "unmake_field f ((pre @ [0]) @ ?im @ row_code xs @ tail) (pos + 1) fieldValue0
        = Inr (field_norm f v, (pos + 1) + field_size f v)"
      using Cons.prems(2) ok False big c lim by (intro unmake_field_code) auto
    moreover have "unmakerow_loop (map fst xs) ((pre @ 0 # ?im) @ row_code xs @ tail)
        (pos + 1 + field_size f v) (replicate (length xs) fieldValue0) (vs @ [field_norm f v])
        = Inr (True, (vs @ [field_norm f v]) @ map (\<lambda>(f, v). field_norm f v) xs)"
      using Cons.prems sp big c lim by (intro Cons.IH) (auto simp: x)
    ultimately show ?thesis
      using guard st c by (simp add: row) (simp add: x)
  qed
qed (simp add: row_code_def)

lemma unmakerow_code:
  assumes "list_all2 value_ok (tb_fields t) vals"
  defines "xs \<equiv> zip (tb_fields t) vals"
  assumes "row_space xs \<le> length (row_code xs) + length tail"
    and "length (row_code xs @ tail) < 2 ^ 63"
  shows "unmakerow (row_code xs @ tail) [] t = Inr (True, map2 field_norm (tb_fields t) vals)"
proof -
  have len: "length vals = length (tb_fields t)" using assms(1) by (simp add: list_all2_lengthD)
  then have fs: "map fst xs = tb_fields t" "length xs = length (tb_fields t)"
    by (simp_all add: xs_def)
  have "unmakerow_loop (map fst xs) ([] @ row_code xs @ tail) 0
      (replicate (length xs) fieldValue0) [] = Inr (True, [] @ map (\<lambda>(f, v). field_norm f v) xs)"
    using assms(1,3,4)
    by (intro unmakerow_loop_code) (auto simp: xs_def list_all2_iff)
  then show ?thesis by (simp add: unmakerow_def fs) (simp add: xs_def)
qed

end
