(* ===== verification/Row_Properties.thy ===== *)
theory Row_Properties
  imports Row_Getrows Row_Codec
begin

text \<open>
  The properties of a table: its memory safety, the isolation its row locks give, what commit,
  rollback and revert do to a changed row, and the round trip of the row format.
\<close>

section \<open>A sample\<close>

text \<open>Subtransaction 7 has inserted row 1 into table 5 and committed it; then 8 locked it.\<close>

definition sample_new :: table where
  "sample_new = newrow 1 7 [65] ((Table 0 5)\<lparr>nextrowid := 1\<rparr>)"

definition sample_row :: table where
  "sample_row = committed 1 7 0 (the (heap sample_new 0)) sample_new"

definition sample_locked :: table where
  "sample_locked = store 0 ((the (heap sample_row 0))\<lparr>flags := snd (setwritelock 0),
     writelockHolder := 8\<rparr>) sample_row"

lemma sample_new_facts:
  "rows sample_new 1 = Some 0" "shadowRows sample_new 1 = Some 0"
  "heap sample_new 0 = Some \<lparr>writelockHolder = 7, previoussubtransactionid = 0,
     flags = setinsertflag (snd (setwritelock 0)), readlockHolders = None, row = [65]\<rparr>"
  by (simp_all add: sample_new_def newrow_def alloc_def Let_def Table_def rowdata0_def)

lemma sample_row_facts:
  "rows sample_row 1 = Some 0" "shadowRows sample_row 1 = None"
  "heap sample_row 0 = Some \<lparr>writelockHolder = 0, previoussubtransactionid = 7, flags = 0,
     readlockHolders = None, row = [65]\<rparr>"
  by (simp_all add: sample_row_def committed_def sample_new_facts flag_simps Let_def store_def
      shadow_erase_def)

lemma sample_locked_facts:
  "rows sample_locked 1 = Some 0" "shadowRows sample_locked 1 = None"
  "heap sample_locked 0 = Some \<lparr>writelockHolder = 8, previoussubtransactionid = 7,
     flags = snd (setwritelock 0), readlockHolders = None, row = [65]\<rparr>"
  by (simp_all add: sample_locked_def sample_row_facts store_def)

lemma sample_reachable:
  "table_reachable sample_new" "table_reachable sample_row" "table_reachable sample_locked"
proof -
  have n: "getnextrowid (Table 0 5) = Inr (1, (Table 0 5)\<lparr>nextrowid := 1\<rparr>)"
    by (simp add: getnextrowid_def Table_def)
  show new: "table_reachable sample_new"
    unfolding sample_new_def
    by (rule table_reachable.step [OF table_reachable.start table_step.insert_step [OF n]])
  have "commitRollbackUnlock 1 7 COMMITCMD sample_new = Inr sample_row"
    using commit_row_write(1) [OF table_reachable_inv [OF new] sample_new_facts(1,3), of 7]
    by (simp add: commitRollbackUnlock_def sample_row_def sample_new_facts flag_simps)
  then show row: "table_reachable sample_row"
    by (rule table_reachable.step [OF new table_step.end_step])
  have "selectrows 0 [1] WRITELOCK 8 0 0 (sample_row, []) =
      Inr (sample_locked, [workrow 0 1 WRITELOCK [65]])"
    by (simp add: selectrows_def select_writelock_def row_at_def load_def sample_row_facts flag_simps
        sample_locked_def Let_def)
  then show "table_reachable sample_locked"
    by (rule table_reachable.step [OF row table_step.select_step])
qed

section \<open>Memory safety and isolation\<close>

text \<open>C2. Every table that any sequence of steps of any subtransactions reaches satisfies the
  invariant: no pointer dangles, no two rows share an object, the flags, the holders of a lock and
  the lock type agree, and only write-locked rows have a shadow.\<close>

theorem reachable_invariant:
  assumes "table_reachable t"
  shows "table_inv t"
  using assms by (rule table_reachable_inv)

theorem reachable_invariant_witness: "table_inv sample_locked"
  by (rule reachable_invariant [OF sample_reachable(3)])

text \<open>C1. Isolation: whatever other subtransactions do, in any order, a row write-locked by a
  subtransaction keeps its content, its flags, its lock and its staged update, and a row
  read-locked by it keeps its content and the lock.\<close>

theorem locked_rows_isolated:
  assumes "table_reachable t" "(\<lambda>u u'. \<exists>sub. sub \<noteq> s \<and> table_step sub u u')\<^sup>*\<^sup>* t t'"
  shows "row_kept s t t' rid"
proof -
  from assms(2) have "table_reachable t' \<and> row_kept s t t' rid"
  proof (induction rule: rtranclp_induct)
    case base
    then show ?case using assms(1) by (simp add: row_kept_refl)
  next
    case (step u u')
    then obtain sub where sub: "sub \<noteq> s" "table_step sub u u'" by blast
    have "row_kept s u u' rid"
      using kept_step [OF sub(2) table_reachable_inv sub(1)] step.IH by blast
    then show ?case using step.IH sub(2) row_kept_trans table_reachable.step by blast
  qed
  then show ?thesis by blast
qed

theorem locked_rows_isolated_witness:
  "\<exists>t'. updaterow 1 9 [66] sample_locked = Inr (STATUS_NOTOK, t') \<and> row_kept 8 sample_locked t' 1"
proof -
  have u: "updaterow 1 9 [66] sample_locked = Inr (STATUS_NOTOK, sample_locked)"
    by (simp add: updaterow_def row_at_def load_def sample_locked_facts flag_simps)
  then have "(\<lambda>u u'. \<exists>sub. sub \<noteq> 8 \<and> table_step sub u u')\<^sup>*\<^sup>* sample_locked sample_locked"
    by (intro r_into_rtranclp exI [of _ 9]) (simp add: table_step.update_step [OF u])
  from locked_rows_isolated [OF sample_reachable(3) this] u show ?thesis by blast
qed



text \<open>A subtransaction that inserts a row, deletes it and commits frees the row twice: the row
  is its own shadow, and the deletion frees both.\<close>

theorem insert_delete_commit_double_free:
  "\<exists>t'. deleterow rid sub (newrow rid sub r t) = Inr (STATUS_OK, t')
    \<and> commitRollbackUnlock rid sub COMMITCMD t' = Inl DoubleFree"
  by (simp add: deleterow_def row_at_def load_def newrow_def alloc_def Let_def store_def
      rowdata0_def flag_simps commitRollbackUnlock_def commit_row_def free_def shadow_delete_def
      rows_erase_def)

section \<open>Commit, rollback and revert\<close>

text \<open>The row object of a row id, and the object of its staged update.\<close>

definition row_of :: "table \<Rightarrow> int \<Rightarrow> rowdata option" where
  "row_of t rid = (case rows t rid of None \<Rightarrow> None | Some a \<Rightarrow> heap t a)"

definition unlocked_row :: "rowdata \<Rightarrow> bool" where
  "unlocked_row r \<longleftrightarrow> flags r = 0 \<and> writelockHolder r = 0 \<and> readlockHolders r = None"

lemma row_of_Some: "row_of t rid = Some r \<longleftrightarrow> (\<exists>a. rows t rid = Some a \<and> heap t a = Some r)"
  by (auto simp: row_of_def split: option.splits)

text \<open>C25. An update is invisible until the commit: staging it leaves the row as it was for every
  reader, the commit installs the new content with the subtransaction as its last writer and
  releases the lock, and a rollback instead leaves the old content, unlocked, and forgets the
  update.\<close>

theorem update_commit_rollback:
  assumes "table_reachable t" "row_of t rid = Some cur" "holds_write sub cur"
    and "\<not> getinsertflag (flags cur)" "\<not> getdeleteflag (flags cur)"
  shows "\<exists>t1. updaterow rid sub r t = Inr (STATUS_OK, t1) \<and> row_of t1 rid = Some cur
    \<and> (\<exists>t2 new. commitRollbackUnlock rid sub COMMITCMD t1 = Inr t2 \<and> row_of t2 rid = Some new
        \<and> row new = r \<and> previoussubtransactionid new = sub \<and> unlocked_row new
        \<and> shadowRows t2 rid = None)
    \<and> (\<exists>t3 old. commitRollbackUnlock rid sub ROLLBACKCMD t1 = Inr t3 \<and> row_of t3 rid = Some old
        \<and> row old = row cur \<and> previoussubtransactionid old = previoussubtransactionid cur
        \<and> unlocked_row old \<and> shadowRows t3 rid = None)"
proof -
  note inv = table_reachable_inv [OF assms(1)]
  obtain a where a: "rows t rid = Some a" "heap t a = Some cur"
    using assms(2) by (auto simp: row_of_Some)
  have w: "getlocktype (flags cur) = WRITELOCK" "writelockHolder cur = sub"
    using assms(3) by (simp_all add: holds_write_def)
  have ok: "row_ok cur" by (rule row_at_inv [OF inv a(1)]) (use a(2) in auto)
  have nb: "a \<noteq> brk t" using store_inv_row [OF inv [unfolded table_inv_def] a(1)] by auto
  let ?t1 = "t\<lparr>heap := (heap t)(brk t \<mapsto> rowdata0\<lparr>row := r\<rparr>), brk := Suc (brk t),
      shadowRows := (shadowRows t)(rid \<mapsto> brk t)\<rparr>"
  have u: "updaterow rid sub r t = Inr (STATUS_OK, ?t1)"
    using a w by (simp add: updaterow_def row_at_def load_def alloc_def Let_def)
  have inv1: "table_inv ?t1"
    using updaterow_inv [OF inv, of rid sub r] u by simp
  have a1: "rows ?t1 rid = Some a" "heap ?t1 a = Some cur" using a nb by simp_all
  let ?t2 = "committed rid sub a cur ?t1"
  let ?new = "\<lparr>writelockHolder = 0, previoussubtransactionid = sub, flags = 0, readlockHolders = None, row = r\<rparr>"
  have "commitRollbackUnlock rid sub COMMITCMD ?t1 = Inr ?t2"
    using commit_row_write(1) [OF inv1 a1 w] assms(5) by (simp add: commitRollbackUnlock_def)
  moreover have "row_of ?t2 rid = Some ?new" "shadowRows ?t2 rid = None"
    using assms(5) nb by (simp_all add: committed_def Let_def row_of_def rowdata0_def)
  moreover have "unlocked_row ?new" by (simp add: unlocked_row_def)
  ultimately have commit: "\<exists>t2 new. commitRollbackUnlock rid sub COMMITCMD ?t1 = Inr t2
        \<and> row_of t2 rid = Some new \<and> row new = r \<and> previoussubtransactionid new = sub
        \<and> unlocked_row new \<and> shadowRows t2 rid = None"
    by (intro exI [of _ ?t2] exI [of _ ?new]) simp
  let ?t3 = "rolled_back rid sub a cur ?t1"
  have "commitRollbackUnlock rid sub ROLLBACKCMD ?t1 = Inr ?t3"
    using rollback_row_eq(1) [OF inv1 a1] w by (simp add: commitRollbackUnlock_def)
  moreover have "row_of ?t3 rid = Some (released sub cur)" "shadowRows ?t3 rid = None"
    using assms(4,5) nb a by (simp_all add: rolled_back_def Let_def row_of_def)
  moreover have "row (released sub cur) = row cur" "unlocked_row (released sub cur)"
    "previoussubtransactionid (released sub cur) = previoussubtransactionid cur"
    using ok w by (simp_all add: released_def row_ok_def unlocked_row_def)
  ultimately have rollback: "\<exists>t3 old. commitRollbackUnlock rid sub ROLLBACKCMD ?t1 = Inr t3
        \<and> row_of t3 rid = Some old \<and> row old = row cur
        \<and> previoussubtransactionid old = previoussubtransactionid cur
        \<and> unlocked_row old \<and> shadowRows t3 rid = None"
    by (intro exI [of _ ?t3] exI [of _ "released sub cur"]) simp
  have staged: "row_of ?t1 rid = Some cur" using a1 by (simp add: row_of_def)
  show ?thesis
    by (rule exI [of _ ?t1], intro conjI, rule u, rule staged, rule commit, rule rollback)
qed

theorem update_commit_rollback_witness:
  "\<exists>t1. updaterow 1 8 [66] sample_locked = Inr (STATUS_OK, t1)
    \<and> (\<exists>t2 new. commitRollbackUnlock 1 8 COMMITCMD t1 = Inr t2 \<and> row_of t2 1 = Some new
        \<and> row new = [66])
    \<and> (\<exists>t3 old. commitRollbackUnlock 1 8 ROLLBACKCMD t1 = Inr t3 \<and> row_of t3 1 = Some old
        \<and> row old = [65])"
proof -
  let ?cur = "\<lparr>writelockHolder = 8, previoussubtransactionid = 7, flags = snd (setwritelock 0),
     readlockHolders = None, row = [65]\<rparr>"
  have "row_of sample_locked 1 = Some ?cur" "holds_write 8 ?cur"
    "\<not> getinsertflag (flags ?cur)" "\<not> getdeleteflag (flags ?cur)"
    by (simp_all add: row_of_def sample_locked_facts holds_write_def flag_simps)
  from update_commit_rollback [OF sample_reachable(3) this, of "[66]"]
  show ?thesis by (elim exE conjE) (intro exI conjI; simp?)
qed

lemma fresh_row:
  assumes "table_inv t" "nextrowid t < rid"
  shows "rows t rid = None" "shadowRows t rid = None" "heap t (brk t) = None"
proof -
  note inv = assms(1) [unfolded table_inv_def]
  show r: "rows t rid = None"
  proof (rule ccontr)
    assume "rows t rid \<noteq> None"
    then obtain a where "rows t rid = Some a" by blast
    then have "rid \<le> nextrowid t" using inv unfolding store_inv_def by blast
    then show False using assms(2) by simp
  qed
  show "shadowRows t rid = None" using store_inv_shadow [OF inv, of rid] r by (cases "shadowRows t rid") simp_all
  have "heap t a \<noteq> None \<Longrightarrow> a < brk t" for a using inv unfolding store_inv_def by blast
  then show "heap t (brk t) = None" by blast
qed

text \<open>An insert: until it commits the row is locked by its subtransaction; the commit leaves
  the row unlocked with its content; a rollback leaves rows, shadows and objects as they were
  before the insert.\<close>

theorem insert_commit_rollback:
  assumes "table_reachable t" "getnextrowid t = Inr (rid, t0)"
  shows "\<exists>cur. row_of (newrow rid sub r t0) rid = Some cur \<and> row cur = r \<and> holds_write sub cur
    \<and> (\<exists>t2 new. commitRollbackUnlock rid sub COMMITCMD (newrow rid sub r t0) = Inr t2
        \<and> row_of t2 rid = Some new \<and> row new = r \<and> previoussubtransactionid new = sub
        \<and> unlocked_row new \<and> shadowRows t2 = shadowRows t)
    \<and> (\<exists>t3. commitRollbackUnlock rid sub ROLLBACKCMD (newrow rid sub r t0) = Inr t3
        \<and> rows t3 = rows t \<and> shadowRows t3 = shadowRows t \<and> heap t3 = heap t)"
proof -
  let ?t1 = "newrow rid sub r t0" and ?a = "brk t"
  let ?cur = "rowdata0\<lparr>flags := setinsertflag (snd (setwritelock 0)), writelockHolder := sub, row := r\<rparr>"
  note inv = table_reachable_inv [OF assms(1)]
  have t0: "t0 = t\<lparr>nextrowid := rid\<rparr>" "rid = nextrowid t + 1"
    using assms(2) by (auto simp: getnextrowid_def split: if_splits)
  have "nextrowid t < rid" using t0(2) by simp
  note fresh = fresh_row [OF inv this]
  have t1: "rows ?t1 = (rows t)(rid \<mapsto> ?a)" "shadowRows ?t1 = (shadowRows t)(rid \<mapsto> ?a)"
    "heap ?t1 = (heap t)(?a \<mapsto> ?cur)"
    by (simp_all add: newrow_def alloc_def Let_def t0 rowdata0_def)
  have "table_reachable ?t1"
    by (rule table_reachable.step [OF assms(1) table_step.insert_step [OF assms(2)]])
  note inv1 = table_reachable_inv [OF this]
  have at: "rows ?t1 rid = Some ?a" "heap ?t1 ?a = Some ?cur" by (simp_all add: t1)
  have w: "getlocktype (flags ?cur) = WRITELOCK" "writelockHolder ?cur = sub"
    and nd: "\<not> getdeleteflag (flags ?cur)" "getinsertflag (flags ?cur)"
    by (simp_all add: flag_simps)
  let ?t2 = "committed rid sub ?a ?cur ?t1"
  let ?new = "\<lparr>writelockHolder = 0, previoussubtransactionid = sub, flags = 0, readlockHolders = None, row = r\<rparr>"
  have "commitRollbackUnlock rid sub COMMITCMD ?t1 = Inr ?t2"
    using commit_row_write(1) [OF inv1 at w] nd by (simp add: commitRollbackUnlock_def)
  moreover have "row_of ?t2 rid = Some ?new" "shadowRows ?t2 = shadowRows t"
    using nd fresh(2)
    by (auto simp: committed_def Let_def row_of_def t1 rowdata0_def store_def shadow_erase_def)
  moreover have "unlocked_row ?new" by (simp add: unlocked_row_def)
  ultimately have commit: "\<exists>t2 new. commitRollbackUnlock rid sub COMMITCMD ?t1 = Inr t2
        \<and> row_of t2 rid = Some new \<and> row new = r \<and> previoussubtransactionid new = sub
        \<and> unlocked_row new \<and> shadowRows t2 = shadowRows t"
    by (intro exI [of _ ?t2] exI [of _ ?new]) simp
  let ?t3 = "rolled_back rid sub ?a ?cur ?t1"
  have "commitRollbackUnlock rid sub ROLLBACKCMD ?t1 = Inr ?t3"
    using rollback_row_eq(1) [OF inv1 at] w by (simp add: commitRollbackUnlock_def)
  moreover have "rows ?t3 = rows t" "shadowRows ?t3 = shadowRows t" "heap ?t3 = heap t"
    using nd(2) fresh by (auto simp: rolled_back_def t1)
  ultimately have rollback: "\<exists>t3. commitRollbackUnlock rid sub ROLLBACKCMD ?t1 = Inr t3
        \<and> rows t3 = rows t \<and> shadowRows t3 = shadowRows t \<and> heap t3 = heap t"
    by (intro exI [of _ ?t3]) simp
  have "row_of ?t1 rid = Some ?cur" by (simp add: row_of_def t1)
  moreover have "row ?cur = r" "holds_write sub ?cur" using w by (simp_all add: holds_write_def)
  ultimately show ?thesis
    using commit rollback by (intro exI [of _ ?cur]) simp
qed

theorem insert_commit_rollback_witness:
  "\<exists>t3. commitRollbackUnlock 1 7 ROLLBACKCMD sample_new = Inr t3 \<and> rows t3 = Map.empty"
proof -
  have n: "getnextrowid (Table 0 5) = Inr (1, (Table 0 5)\<lparr>nextrowid := 1\<rparr>)"
    by (simp add: getnextrowid_def Table_def)
  show ?thesis
    using insert_commit_rollback [OF table_reachable.start n, of 7 "[65]"]
    by (auto simp: sample_new_def Table_def)
qed

text \<open>A deletion: until it commits the row and its content stay, locked; the commit removes the
  row, its shadow and its object; a rollback instead leaves the row unlocked with its
  content.\<close>

theorem delete_commit_rollback:
  assumes "table_reachable t" "row_of t rid = Some cur" "holds_write sub cur"
    and "\<not> getinsertflag (flags cur)"
  shows "\<exists>t1 mid. deleterow rid sub t = Inr (STATUS_OK, t1)
    \<and> row_of t1 rid = Some mid \<and> row mid = row cur \<and> holds_write sub mid \<and> getdeleteflag (flags mid)
    \<and> (\<exists>t2. commitRollbackUnlock rid sub COMMITCMD t1 = Inr t2 \<and> rows t2 = (rows t)(rid := None)
        \<and> shadowRows t2 rid = None)
    \<and> (\<exists>t3 old. commitRollbackUnlock rid sub ROLLBACKCMD t1 = Inr t3 \<and> row_of t3 rid = Some old
        \<and> row old = row cur \<and> unlocked_row old \<and> shadowRows t3 rid = None)"
proof -
  note inv = table_reachable_inv [OF assms(1)]
  obtain a where a: "rows t rid = Some a" "heap t a = Some cur"
    using assms(2) by (auto simp: row_of_Some)
  have w: "getlocktype (flags cur) = WRITELOCK" "writelockHolder cur = sub"
    using assms(3) by (simp_all add: holds_write_def)
  have ok: "row_ok cur" and sh: "shadowRows t rid \<noteq> Some a"
    by (rule row_at_inv [OF inv a(1)], use a(2) assms(4) in auto)+
  let ?mid = "cur\<lparr>flags := setdeleteflag (flags cur)\<rparr>"
  let ?t1 = "store a ?mid t"
  have d: "deleterow rid sub t = Inr (STATUS_OK, ?t1)"
    using a w by (simp add: deleterow_def row_at_def load_def)
  have inv1: "table_inv ?t1" using deleterow_inv [OF inv, of rid sub] d by simp
  have a1: "rows ?t1 rid = Some a" "heap ?t1 a = Some ?mid" using a by (simp_all add: store_def)
  have w1: "getlocktype (flags ?mid) = WRITELOCK" "writelockHolder ?mid = sub"
    "getdeleteflag (flags ?mid)" "\<not> getinsertflag (flags ?mid)"
    using w assms(4) by (simp_all add: flag_simps)
  have sh1: "shadowRows ?t1 rid \<noteq> Some a" using sh by (simp add: store_def)
  let ?t2 = "committed rid sub a ?mid ?t1"
  have "commitRollbackUnlock rid sub COMMITCMD ?t1 = Inr ?t2"
    using commit_row_write(1) [OF inv1 a1 w1(1,2)] sh1 by (simp add: commitRollbackUnlock_def)
  moreover have "rows ?t2 = (rows t)(rid := None)" "shadowRows ?t2 rid = None"
    using w1(3) by (simp_all add: committed_def Let_def store_def)
  ultimately have commit: "\<exists>t2. commitRollbackUnlock rid sub COMMITCMD ?t1 = Inr t2
      \<and> rows t2 = (rows t)(rid := None) \<and> shadowRows t2 rid = None"
    by (intro exI [of _ ?t2]) simp
  let ?t3 = "rolled_back rid sub a ?mid ?t1"
  have "commitRollbackUnlock rid sub ROLLBACKCMD ?t1 = Inr ?t3"
    using rollback_row_eq(1) [OF inv1 a1] w1 by (simp add: commitRollbackUnlock_def)
  moreover have "row_of ?t3 rid = Some (released sub ?mid)" "shadowRows ?t3 rid = None"
    using w1(4) a sh
    by (auto simp: rolled_back_def Let_def row_of_def store_def forwarder_erase_def split: option.splits)
  moreover have "row (released sub ?mid) = row cur" "unlocked_row (released sub ?mid)"
    using ok w by (simp_all add: released_def row_ok_def unlocked_row_def)
  ultimately have rollback: "\<exists>t3 old. commitRollbackUnlock rid sub ROLLBACKCMD ?t1 = Inr t3
      \<and> row_of t3 rid = Some old \<and> row old = row cur \<and> unlocked_row old \<and> shadowRows t3 rid = None"
    by (intro exI [of _ ?t3] exI [of _ "released sub ?mid"]) simp
  have mid: "row_of ?t1 rid = Some ?mid" "row ?mid = row cur" "holds_write sub ?mid"
    using a1 w1 by (simp_all add: row_of_def holds_write_def)
  show ?thesis
    by (rule exI [of _ ?t1], rule exI [of _ ?mid], intro conjI,
        rule d, rule mid, rule mid, rule mid, rule w1(3), rule commit, rule rollback)
qed

theorem delete_commit_rollback_witness:
  "\<exists>t1 t2. deleterow 1 8 sample_locked = Inr (STATUS_OK, t1)
    \<and> commitRollbackUnlock 1 8 COMMITCMD t1 = Inr t2 \<and> rows t2 = (rows sample_locked)(1 := None)"
proof -
  let ?cur = "\<lparr>writelockHolder = 8, previoussubtransactionid = 7, flags = snd (setwritelock 0),
     readlockHolders = None, row = [65]\<rparr>"
  have "row_of sample_locked 1 = Some ?cur" "holds_write 8 ?cur" "\<not> getinsertflag (flags ?cur)"
    by (simp_all add: row_of_def sample_locked_facts holds_write_def flag_simps)
  from delete_commit_rollback [OF sample_reachable(3) this] show ?thesis by blast
qed

text \<open>Reverting a subtransaction's changes of a row releases the row: an insert disappears, any
  other row it had write-locked keeps its content and is unlocked; no object is freed.\<close>

theorem revert_unlocks:
  assumes "row_of t rid = Some cur" "holds_write sub cur"
  shows "\<exists>t'. commitRollbackUnlock rid sub REVERTCMD t = Inr t' \<and> shadowRows t' rid = None
    \<and> forwarderMap t' rid = None \<and> dom (heap t') = dom (heap t)
    \<and> (if getinsertflag (flags cur) then rows t' rid = None
       else row_of t' rid = Some (cur\<lparr>flags := 0\<rparr>) \<and> getlocktype 0 = NOLOCK)"
proof -
  obtain a where a: "rows t rid = Some a" "heap t a = Some cur"
    using assms(1) by (auto simp: row_of_Some)
  have w: "getlocktype (flags cur) = WRITELOCK" "writelockHolder cur = sub"
    using assms(2) by (simp_all add: holds_write_def)
  have "row_at rid t = Inr (a, cur)" using a by (simp add: row_at_eq)
  then show ?thesis
    using a w
    by (auto simp: commitRollbackUnlock_def revert_row_def Let_def shadow_erase_def
        forwarder_erase_def rows_erase_def store_def row_of_def flag_simps)
qed

theorem revert_unlocks_witness:
  "\<exists>t'. commitRollbackUnlock 1 8 REVERTCMD sample_locked = Inr t' \<and> shadowRows t' 1 = None"
proof -
  let ?cur = "\<lparr>writelockHolder = 8, previoussubtransactionid = 7, flags = snd (setwritelock 0),
     readlockHolders = None, row = [65]\<rparr>"
  have "row_of sample_locked 1 = Some ?cur" "holds_write 8 ?cur"
    by (simp_all add: row_of_def sample_locked_facts holds_write_def flag_simps)
  from revert_unlocks [OF this] show ?thesis by blast
qed

text \<open>A second update of a row by the same subtransaction loses the object of the first one:
  it stays allocated and neither the table nor its shadow points to it any more.\<close>

theorem second_update_leaks:
  assumes "table_reachable t" "row_of t rid = Some cur" "holds_write sub cur"
  shows "\<exists>t1 t2 a. updaterow rid sub r t = Inr (STATUS_OK, t1)
    \<and> updaterow rid sub r' t1 = Inr (STATUS_OK, t2) \<and> shadowRows t1 rid = Some a
    \<and> heap t2 a \<noteq> None \<and> a \<notin> ran (rows t2) \<and> a \<notin> ran (shadowRows t2)"
proof -
  note inv = table_reachable_inv [OF assms(1)]
  obtain a where a: "rows t rid = Some a" "heap t a = Some cur"
    using assms(2) by (auto simp: row_of_Some)
  have w: "getlocktype (flags cur) = WRITELOCK" "writelockHolder cur = sub"
    using assms(3) by (simp_all add: holds_write_def)
  have lim: "b < brk t" if "heap t b \<noteq> None" for b
    using inv that unfolding table_inv_def store_inv_def by blast
  let ?b = "brk t"
  have nb: "a \<noteq> ?b" using lim [of a] a(2) by auto
  have nr: "rows t x \<noteq> Some ?b" for x
    using store_inv_row [OF inv [unfolded table_inv_def], of x ?b] lim [of ?b] by fastforce
  have ns: "shadowRows t x \<noteq> Some ?b" for x
    using store_inv_shadow [OF inv [unfolded table_inv_def], of x ?b] by fastforce
  let ?t1 = "t\<lparr>heap := (heap t)(?b \<mapsto> rowdata0\<lparr>row := r\<rparr>), brk := Suc ?b,
      shadowRows := (shadowRows t)(rid \<mapsto> ?b)\<rparr>"
  let ?t2 = "?t1\<lparr>heap := (heap ?t1)(Suc ?b \<mapsto> rowdata0\<lparr>row := r'\<rparr>), brk := Suc (Suc ?b),
      shadowRows := (shadowRows t)(rid \<mapsto> Suc ?b)\<rparr>"
  have u1: "updaterow rid sub r t = Inr (STATUS_OK, ?t1)"
    using a w by (simp add: updaterow_def row_at_def load_def alloc_def Let_def)
  have u2: "updaterow rid sub r' ?t1 = Inr (STATUS_OK, ?t2)"
    using a w nb by (simp add: updaterow_def row_at_def load_def alloc_def Let_def)
  have "shadowRows ?t1 rid = Some ?b" "heap ?t2 ?b \<noteq> None" by simp_all
  moreover have "?b \<notin> ran (rows ?t2)" using nr by (simp add: ran_def)
  moreover have "?b \<notin> ran (shadowRows ?t2)" using ns by (auto simp: ran_def)
  ultimately show ?thesis using u1 u2 by blast
qed

theorem second_update_leaks_witness:
  "\<exists>t1 t2 a. updaterow 1 8 [66] sample_locked = Inr (STATUS_OK, t1)
    \<and> updaterow 1 8 [67] t1 = Inr (STATUS_OK, t2) \<and> shadowRows t1 1 = Some a
    \<and> heap t2 a \<noteq> None \<and> a \<notin> ran (rows t2) \<and> a \<notin> ran (shadowRows t2)"
proof -
  let ?cur = "\<lparr>writelockHolder = 8, previoussubtransactionid = 7, flags = snd (setwritelock 0),
     readlockHolders = None, row = [65]\<rparr>"
  have "row_of sample_locked 1 = Some ?cur" "holds_write 8 ?cur"
    by (simp_all add: row_of_def sample_locked_facts holds_write_def flag_simps)
  from second_update_leaks [OF sample_reachable(3) this] show ?thesis .
qed

section \<open>Granting locks\<close>

text \<open>A request that waits: the entry at the end of the row's queue, and nothing else changed.\<close>

definition queued :: "locktype \<Rightarrow> int \<Rightarrow> int \<Rightarrow> int \<Rightarrow> int \<Rightarrow> table \<Rightarrow> table" where
  "queued lt rid sub p q t = lockQueue_push rid
     \<lparr>lr_pendingcmdid = p, lr_tacmdentrypoint = q, lr_subtransactionid = sub, lr_locktype = lt\<rparr> t"

lemma select_pending_eq:
  assumes "row_of t rid = Some cur" "lt \<noteq> NOTFOUNDLOCK"
  shows "select_pending z lt sub p q rid (t, ret) =
    (if getinsertflag (flags cur) then Inr (t, ret)
     else Inr (queued lt rid sub p q t, ret @ [workrow z rid PENDINGLOCK []]))"
proof -
  obtain a where "row_at rid t = Inr (a, cur)"
    using assms(1) by (auto simp: row_of_Some row_at_eq)
  then show ?thesis
    using assms(2) by (simp add: select_pending_def assignToLockQueue_def queued_def)
qed

text \<open>Write locks are exclusive: a select for update locks a row that nobody has locked and
  returns it; when another subtransaction holds a lock of either kind the request is queued and
  nothing else changes; the uncommitted insert of another is left out of the answer.\<close>

theorem write_lock_granting:
  assumes "table_reachable t" "row_of t rid = Some cur" "\<not> holds_write sub cur"
  shows "if getlocktype (flags cur) = NOLOCK
    then \<exists>t' cur'. selectrows z [rid] WRITELOCK sub p q (t, ret)
             = Inr (t', ret @ [workrow z rid WRITELOCK (row cur)])
           \<and> row_of t' rid = Some cur' \<and> holds_write sub cur' \<and> row cur' = row cur
    else selectrows z [rid] WRITELOCK sub p q (t, ret)
             = Inr (if getinsertflag (flags cur) then (t, ret)
                    else (queued WRITELOCK rid sub p q t, ret @ [workrow z rid PENDINGLOCK []]))"
proof -
  obtain a where a: "rows t rid = Some a" "heap t a = Some cur"
    using assms(2) by (auto simp: row_of_Some)
  then have at: "row_at rid t = Inr (a, cur)" by (simp add: row_at_eq)
  have p: "select_pending z WRITELOCK sub p q rid (t, ret) =
    (if getinsertflag (flags cur) then Inr (t, ret)
     else Inr (queued WRITELOCK rid sub p q t, ret @ [workrow z rid PENDINGLOCK []]))"
    by (rule select_pending_eq [OF assms(2)]) simp
  consider "getlocktype (flags cur) = NOLOCK" | "getlocktype (flags cur) = READLOCK"
    | "getlocktype (flags cur) = WRITELOCK" using getlocktype_range by blast
  then show ?thesis
  proof cases
    case 1
    then show ?thesis
      using a at
      by (auto simp: selectrows_def select_writelock_def Let_def row_of_def store_def holds_write_def
          flag_simps)
  next
    case 2
    then show ?thesis using a at p by (simp add: selectrows_def select_writelock_def Let_def)
  next
    case 3
    then show ?thesis
      using a at p assms(3) by (simp add: selectrows_def select_writelock_def Let_def holds_write_def)
  qed
qed

theorem write_lock_granting_witness:
  "selectrows 0 [1] WRITELOCK 9 3 4 (sample_locked, [])
     = Inr (queued WRITELOCK 1 9 3 4 sample_locked, [workrow 0 1 PENDINGLOCK []])
   \<and> (\<exists>t'. selectrows 0 [1] WRITELOCK 9 3 4 (sample_row, [])
        = Inr (t', [workrow 0 1 WRITELOCK [65]]))"
proof -
  let ?free = "\<lparr>writelockHolder = 0, previoussubtransactionid = 7, flags = 0,
     readlockHolders = None, row = [65]\<rparr>"
  let ?held = "?free\<lparr>writelockHolder := 8, flags := snd (setwritelock 0)\<rparr>"
  have l: "row_of sample_locked 1 = Some ?held" "\<not> holds_write 9 ?held"
    by (simp_all add: row_of_def sample_locked_facts holds_write_def flag_simps)
  have f: "row_of sample_row 1 = Some ?free" "\<not> holds_write 9 ?free"
    by (simp_all add: row_of_def sample_row_facts holds_write_def flag_simps)
  show ?thesis
    using write_lock_granting [OF sample_reachable(3) l, of 0 3 4 "[]"]
      write_lock_granting [OF sample_reachable(2) f, of 0 3 4 "[]"]
    by (auto simp: flag_simps)
qed

text \<open>Read locks are shared: a locking read of a row that is free or read-locked by others adds
  the subtransaction to the row's readers and returns the row; under the write lock of another it
  is queued, or the row is left out when it is an uncommitted insert.\<close>

theorem read_lock_granting:
  assumes "table_reachable t" "row_of t rid = Some cur" "\<not> holds_write sub cur" "\<not> holds_read sub cur"
  shows "if getlocktype (flags cur) \<noteq> WRITELOCK
    then \<exists>t' cur'. selectrows z [rid] READLOCK sub p q (t, ret)
             = Inr (t', ret @ [workrow z rid READLOCK (row cur)])
           \<and> row_of t' rid = Some cur' \<and> row cur' = row cur
           \<and> (\<forall>h. holds_read h cur' \<longleftrightarrow> h = sub \<or> holds_read h cur)
    else selectrows z [rid] READLOCK sub p q (t, ret)
             = Inr (if getinsertflag (flags cur) then (t, ret)
                    else (queued READLOCK rid sub p q t, ret @ [workrow z rid PENDINGLOCK []]))"
proof -
  obtain a where a: "rows t rid = Some a" "heap t a = Some cur"
    using assms(2) by (auto simp: row_of_Some)
  then have at: "row_at rid t = Inr (a, cur)" by (simp add: row_at_eq)
  have ok: "row_ok cur"
    by (rule row_at_inv [OF table_reachable_inv [OF assms(1)] a(1)]) (use a(2) in auto)
  have p: "select_pending z READLOCK sub p q rid (t, ret) =
    (if getinsertflag (flags cur) then Inr (t, ret)
     else Inr (queued READLOCK rid sub p q t, ret @ [workrow z rid PENDINGLOCK []]))"
    by (rule select_pending_eq [OF assms(2)]) simp
  consider "getlocktype (flags cur) = NOLOCK" | "getlocktype (flags cur) = READLOCK"
    | "getlocktype (flags cur) = WRITELOCK" using getlocktype_range by blast
  then show ?thesis
  proof cases
    case 1
    then show ?thesis
      using a at
      by (auto simp: selectrows_def select_readlock_def Let_def row_of_def store_def holds_read_def
          flag_simps)
  next
    case 2
    then obtain h where "readlockHolders cur = Some h" using ok by (auto simp: row_ok_def)
    then show ?thesis
      using a at 2 assms(4)
      by (auto simp: selectrows_def select_readlock_def Let_def row_of_def store_def holds_read_def)
  next
    case 3
    then show ?thesis
      using a at p assms(3) by (simp add: selectrows_def select_readlock_def Let_def holds_write_def)
  qed
qed

theorem read_lock_granting_witness:
  "selectrows 0 [1] READLOCK 9 3 4 (sample_locked, [])
     = Inr (queued READLOCK 1 9 3 4 sample_locked, [workrow 0 1 PENDINGLOCK []])
   \<and> (\<exists>t'. selectrows 0 [1] READLOCK 9 3 4 (sample_row, [])
        = Inr (t', [workrow 0 1 READLOCK [65]]))"
proof -
  let ?free = "\<lparr>writelockHolder = 0, previoussubtransactionid = 7, flags = 0,
     readlockHolders = None, row = [65]\<rparr>"
  let ?held = "?free\<lparr>writelockHolder := 8, flags := snd (setwritelock 0)\<rparr>"
  have l: "row_of sample_locked 1 = Some ?held" "\<not> holds_write 9 ?held" "\<not> holds_read 9 ?held"
    by (simp_all add: row_of_def sample_locked_facts holds_write_def holds_read_def flag_simps)
  have f: "row_of sample_row 1 = Some ?free" "\<not> holds_write 9 ?free" "\<not> holds_read 9 ?free"
    by (simp_all add: row_of_def sample_row_facts holds_write_def holds_read_def flag_simps)
  show ?thesis
    using read_lock_granting [OF sample_reachable(3) l, of 0 3 4 "[]"]
      read_lock_granting [OF sample_reachable(2) f, of 0 3 4 "[]"]
    by (auto simp: flag_simps)
qed

text \<open>A select without a lock returns the uncommitted insert of another subtransaction, content
  included, where both locking selects leave the row out.\<close>

theorem nolock_reads_uncommitted_insert:
  assumes "s \<noteq> sub"
  shows "selectrows z [rid] NOLOCK s p q (newrow rid sub r t, ret)
      = Inr (newrow rid sub r t, ret @ [workrow z rid NOLOCK r])
    \<and> selectrows z [rid] READLOCK s p q (newrow rid sub r t, ret) = Inr (newrow rid sub r t, ret)
    \<and> selectrows z [rid] WRITELOCK s p q (newrow rid sub r t, ret) = Inr (newrow rid sub r t, ret)"
  using assms
  by (simp add: selectrows_def select_nolock_def select_readlock_def select_writelock_def
      select_pending_def assignToLockQueue_def Let_def row_at_def load_def newrow_def alloc_def
      rowdata0_def flag_simps)

theorem nolock_reads_uncommitted_insert_witness:
  "selectrows 0 [1] NOLOCK 8 0 0 (sample_new, []) = Inr (sample_new, [workrow 0 1 NOLOCK [65]])"
  using nolock_reads_uncommitted_insert [of 8 7 0 1 0 0 "[65]" "(Table 0 5)\<lparr>nextrowid := 1\<rparr>" "[]"]
  by (simp add: sample_new_def)

text \<open>C38. \<open>getrows\<close> and \<open>selectrows\<close> agree: on a row that is not an uncommitted insert, for a
  subtransaction that holds no lock on it, both leave the same table, one returns the row exactly
  if the other returns it with the lock asked for, and one reports it as waiting exactly if the
  other does.\<close>

theorem getrows_agrees:
  assumes "table_reachable t" "row_of t rid = Some cur" "\<not> holds_write sub cur" "\<not> holds_read sub cur"
    and "\<not> getinsertflag (flags cur)" "lt \<in> {NOLOCK, READLOCK, WRITELOCK}"
  shows "lock_outcome lt (getrows [rid] lt sub p q (t, [], [])) (selectrows z [rid] lt sub p q (t, []))"
proof -
  obtain a where "rows t rid = Some a" "heap t a = Some cur"
    using assms(2) by (auto simp: row_of_Some)
  from getrows_selectrows [OF table_reachable_inv [OF assms(1)] this assms(3-6)] show ?thesis .
qed

theorem getrows_agrees_witness:
  "lock_outcome WRITELOCK (getrows [1] WRITELOCK 9 3 4 (sample_locked, [], []))
     (selectrows 0 [1] WRITELOCK 9 3 4 (sample_locked, []))"
proof -
  let ?held = "\<lparr>writelockHolder = 8, previoussubtransactionid = 7, flags = snd (setwritelock 0),
     readlockHolders = None, row = [65]\<rparr>"
  have "row_of sample_locked 1 = Some ?held" "\<not> holds_write 9 ?held" "\<not> holds_read 9 ?held"
    "\<not> getinsertflag (flags ?held)"
    by (simp_all add: row_of_def sample_locked_facts holds_write_def holds_read_def flag_simps)
  from getrows_agrees [OF sample_reachable(3) this] show ?thesis by simp
qed

section \<open>The row format\<close>

definition build_table :: "(fieldtype \<times> nat \<times> bytes \<times> indextype) list \<Rightarrow> table \<Rightarrow> table" where
  "build_table cols t = fold (\<lambda>(ty, len, name, it) t. snd (addfield ty len name it t)) cols t"

lemma rowsize_ok_build: "rowsize_ok t \<Longrightarrow> rowsize_ok (build_table cols t)"
  unfolding build_table_def
  by (induction cols arbitrary: t) (auto simp: rowsize_ok_addfield)

lemma build_table_fields:
  "tb_fields (build_table cols t) = tb_fields t @ map (\<lambda>(ty, len, name, it). Field ty len it name) cols"
  unfolding build_table_def
  by (induction cols arbitrary: t) (auto simp: addfield_def Let_def)

text \<open>A table of a \<open>CHARX(3)\<close>, a \<open>FLOAT\<close> and a \<open>VARCHAR\<close>, and a row for it.\<close>

definition sample_cols :: "(fieldtype \<times> nat \<times> bytes \<times> indextype) list" where
  "sample_cols = [(F_CHARX, 3, [97], NONE), (F_FLOAT, 0, [98], NONE), (F_VARCHAR, 0, [99], NONE)]"

definition sample_vals :: "fieldValue list" where
  "sample_vals = [fieldValue0\<lparr>str := [65]\<rparr>, fieldValue0\<lparr>isnull := True\<rparr>, fieldValue0\<lparr>str := [66, 67]\<rparr>]"

text \<open>C28. Whatever fields \<open>addfield\<close> gave a table, \<open>makerow\<close> accepts one value for each field, leaves
  the table as it is, and \<open>unmakerow\<close> reads from the string it made the same values back: nulls
  as nulls, each value in the member of its type, a \<open>CHARX\<close> padded with spaces.\<close>

theorem row_format_roundtrip:
  assumes "t = build_table cols (Table indet idarg)"
    and "list_all2 value_ok (tb_fields t) vals"
    and "makerow vals res t = Inr (ok, vals', rowstring, t')" "length rowstring < 2 ^ 63"
  shows "ok \<and> t' = t \<and> unmakerow rowstring [] t = Inr (True, map2 field_norm (tb_fields t) vals)"
proof -
  have "rowsize_ok t" unfolding assms(1) by (rule rowsize_ok_build [OF rowsize_ok_Table])
  moreover have "length vals = length (tb_fields t)" using assms(2) by (simp add: list_all2_lengthD)
  ultimately obtain vs tail where m:
    "makerow vals res t = Inr (True, vs, row_code (zip (tb_fields t) vals) @ tail, t)"
    "row_space (zip (tb_fields t) vals) \<le> length (row_code (zip (tb_fields t) vals)) + length tail"
    using makerow_code by blast
  then have eq: "ok" "t' = t" "rowstring = row_code (zip (tb_fields t) vals) @ tail"
    using assms(3) by simp_all
  show ?thesis
    using unmakerow_code [OF assms(2) m(2)] assms(4) eq by simp
qed

theorem row_format_roundtrip_witness:
  "\<exists>vals' rowstring. makerow sample_vals [] (build_table sample_cols (Table 0 5))
       = Inr (True, vals', rowstring, build_table sample_cols (Table 0 5))
     \<and> unmakerow rowstring [] (build_table sample_cols (Table 0 5))
       = Inr (True, [fieldValue0\<lparr>str := [65, sp_byte, sp_byte]\<rparr>, fieldValue0\<lparr>isnull := True\<rparr>,
           fieldValue0\<lparr>str := [66, 67]\<rparr>])"
proof -
  let ?t = "build_table sample_cols (Table 0 5)"
  have f: "tb_fields ?t = [Field F_CHARX 3 NONE [97], Field F_FLOAT 0 NONE [98], Field F_VARCHAR 0 NONE [99]]"
    by (simp add: build_table_fields sample_cols_def Table_def)
  have ok: "list_all2 value_ok (tb_fields ?t) sample_vals"
    by (simp add: f sample_vals_def value_ok_def)
  have rs: "rowsize ?t = - 1"
    using rowsize_ok_build [OF rowsize_ok_Table, of sample_cols 0 5]
    by (simp add: rowsize_ok_def f has_varchar_def)
  have "\<exists>vals' rowstring. makerow sample_vals [] ?t = Inr (True, vals', rowstring, ?t)
      \<and> length rowstring = 32"
    by (simp add: makerow_def f rs sample_vals_def fieldValue0_def write_at_def Let_def pad_charx_def
        field_image_def)
  then obtain vals' rowstring where m: "makerow sample_vals [] ?t = Inr (True, vals', rowstring, ?t)"
    and len: "length rowstring < 2 ^ 63" by auto
  from row_format_roundtrip [OF refl ok m len] m show ?thesis
    by (auto simp: f sample_vals_def field_norm_def pad_charx_def fieldValue0_def numeral_2_eq_2)
qed

lemma fixed_size_exact:
  assumes "length fs = length vals" "\<not> has_varchar fs"
  shows "fixed_size fs = row_space (zip fs vals) + length (filter (\<lambda>f. fd_type f = F_FLOAT) fs)"
  using assms
proof (induction fs vals rule: list_induct2)
  case (Cons f fs v vals)
  then show ?case
    by (cases "fd_type f") (auto simp: fixed_size_def row_space_def has_varchar_def field_size_def)
qed (simp add: fixed_size_def row_space_def)

text \<open>A row of a table without \<open>VARCHAR\<close> is longer than its fields by one byte for every
  \<open>FLOAT\<close>, whose case in \<open>addfield\<close> runs on into that of \<open>CHAR\<close>; in a table with a \<open>VARCHAR\<close>
  the row has exactly the bytes of its values. A number of values that is not that of the
  fields is refused.\<close>

theorem row_length:
  "if length vals = length (tb_fields t)
   then rowsize_ok t \<longrightarrow> (\<exists>vals' rowstring. makerow vals res t = Inr (True, vals', rowstring, t)
     \<and> length rowstring = (if has_varchar (tb_fields t) then row_space (zip (tb_fields t) vals)
         else row_space (zip (tb_fields t) vals)
           + length (filter (\<lambda>f. fd_type f = F_FLOAT) (tb_fields t))))
   else makerow vals res t = Inr (False, vals, res, t)"
proof (cases "length vals = length (tb_fields t)")
  case True
  have "\<exists>vals' rowstring. makerow vals res t = Inr (True, vals', rowstring, t)
     \<and> length rowstring = (if has_varchar (tb_fields t) then row_space (zip (tb_fields t) vals)
         else row_space (zip (tb_fields t) vals)
           + length (filter (\<lambda>f. fd_type f = F_FLOAT) (tb_fields t)))" if "rowsize_ok t"
    using makerow_code [OF that True, of res] fixed_size_exact [OF True [symmetric]] by auto
  then show ?thesis using True by simp
qed (simp add: makerow_def)

theorem row_length_witness:
  "\<exists>vals' rowstring. makerow [fieldValue0] [] (build_table [(F_FLOAT, 0, [98], NONE)] (Table 0 5))
       = Inr (True, vals', rowstring, build_table [(F_FLOAT, 0, [98], NONE)] (Table 0 5))
     \<and> length rowstring = 18"
  using row_length [of "[fieldValue0]" "build_table [(F_FLOAT, 0, [98], NONE)] (Table 0 5)" "[]"]
    rowsize_ok_build [OF rowsize_ok_Table, of "[(F_FLOAT, 0, [98], NONE)]" 0 5]
  by (simp add: build_table_fields Table_def has_varchar_def row_space_def field_size_def)

end
