(* ===== verification/Engine_State.thy ===== *)
theory Engine_State
  imports Row_Codec Index_Update Index_Search
begin

text \<open>
  The state of an engine (one partition): the schemata with their tables, the live
  subtransactions and the messages it sends (\<open>infinisqld/Engine.h\<close>, \<open>infinisqld/Schema.cc\<close>,
  \<open>infinisqld/SubTransaction.h\<close>), and the part of \<open>infinisqld/Message.h\<close> that engines and
  transactions exchange. Sending is the end of the model: \<open>mboxes.toActor\<close> appends to
  \<open>outbox\<close>.
\<close>

section \<open>Messages\<close>

record addressStruct =
  ad_nodeid :: int
  ad_actorid :: int

record transactionStruct =
  ts_transactionid :: int
  ts_subtransactionid :: int
  ts_previoussubtransactionid :: int
  ts_tainstance :: int
  ts_domainid :: int
  ts_enginecmd :: enginecmd
  ts_pendingcmdid :: int
  ts_tacmdentrypoint :: int
  ts_engineinstance :: int

definition transactionStruct0 :: transactionStruct where
  "transactionStruct0 = \<lparr>ts_transactionid = 0, ts_subtransactionid = 0,
     ts_previoussubtransactionid = 0, ts_tainstance = 0, ts_domainid = 0,
     ts_enginecmd = NOENGINECMD, ts_pendingcmdid = 0, ts_tacmdentrypoint = 0,
     ts_engineinstance = 0\<rparr>"

record subtransactionStruct =
  ss_status :: status
  ss_isrow :: bool
  ss_rowid :: int
  ss_tableid :: int
  ss_locktype :: locktype
  ss_forward_rowid :: int
  ss_forward_engineid :: int
  ss_fieldid :: int
  ss_engineid :: int

definition subtransactionStruct0 :: subtransactionStruct where
  "subtransactionStruct0 = \<lparr>ss_status = STATUS_OK, ss_isrow = False, ss_rowid = 0, ss_tableid = 0,
     ss_locktype = NOLOCK, ss_forward_rowid = 0, ss_forward_engineid = 0, ss_fieldid = 0,
     ss_engineid = 0\<rparr>"

record subtransactionCmd =
  sc_transactionStruct :: transactionStruct
  sc_subtransactionStruct :: subtransactionStruct
  sc_row :: bytes
  sc_fieldVal :: fieldValue
  sc_indexHits :: indexEntries
  sc_searchParameters :: searchParams
  sc_rowids :: "int list"
  sc_returnRows :: "returnRow list"

text \<open>A new message: the structs are zeroed by the constructor.\<close>

definition subtransactionCmd0 :: subtransactionCmd where
  "subtransactionCmd0 = \<lparr>sc_transactionStruct = transactionStruct0,
     sc_subtransactionStruct = subtransactionStruct0, sc_row = [], sc_fieldVal = fieldValue0,
     sc_indexHits = [],
     sc_searchParameters = \<lparr>sp_op = OPERATOR_NONE, sp_values = [], sp_regexString = []\<rparr>,
     sc_rowids = [], sc_returnRows = []\<rparr>"

record commitRollbackMsg =
  cr_transactionStruct :: transactionStruct
  cr_rofs :: "rowOrField list"

definition commitRollbackMsg0 :: commitRollbackMsg where
  "commitRollbackMsg0 = \<lparr>cr_transactionStruct = transactionStruct0, cr_rofs = []\<rparr>"

text \<open>The constructor is the payload type.\<close>

datatype message =
    PAYLOADSUBTRANSACTION subtransactionCmd
  | PAYLOADCOMMITROLLBACK commitRollbackMsg

fun msg_transactionStruct :: "message \<Rightarrow> transactionStruct" where
  "msg_transactionStruct (PAYLOADSUBTRANSACTION m) = sc_transactionStruct m"
| "msg_transactionStruct (PAYLOADCOMMITROLLBACK m) = cr_transactionStruct m"

fun msg_set_transactionStruct :: "transactionStruct \<Rightarrow> message \<Rightarrow> message" where
  "msg_set_transactionStruct ts (PAYLOADSUBTRANSACTION m) = PAYLOADSUBTRANSACTION (m\<lparr>sc_transactionStruct := ts\<rparr>)"
| "msg_set_transactionStruct ts (PAYLOADCOMMITROLLBACK m) = PAYLOADCOMMITROLLBACK (m\<lparr>cr_transactionStruct := ts\<rparr>)"

section \<open>Schemata and engines\<close>

record schema =
  sch_domainid :: int
  sch_nexttableid :: int
  sch_tables :: "int \<rightharpoonup> table"

definition Schema :: "int \<Rightarrow> schema" where
  "Schema domainidarg = \<lparr>sch_domainid = domainidarg, sch_nexttableid = 0, sch_tables = Map.empty\<rparr>"

text \<open>\<open>indet\<close>: see the constructor of \<open>Table\<close>.\<close>

definition createTable :: "int \<Rightarrow> int \<Rightarrow> 'a schema_scheme \<Rightarrow> status \<times> 'a schema_scheme" where
  "createTable indet i s =
     (if sch_tables s i \<noteq> None then (STATUS_NOTOK, s)
      else (STATUS_OK, s\<lparr>sch_tables := (sch_tables s)(i \<mapsto> Table indet i)\<rparr>))"

definition getnexttableid :: "'a schema_scheme \<Rightarrow> int \<times> 'a schema_scheme" where
  "getnexttableid s = (sch_nexttableid s + 1, s\<lparr>sch_nexttableid := sch_nexttableid s + 1\<rparr>)"

text \<open>
  The object of a subtransaction; the schema it points to is given by its domain (\<open>None\<close>: the
  engine had no schema for the domain, and the pointer is null). The last message received is an
  argument of the operations that read it.
\<close>

record subTransaction =
  st_subtransactionid :: int
  st_taAddr :: addressStruct
  st_transactionid :: int
  st_domainid :: int
  st_schemaPtr :: "int option"

record engine =
  en_partitionid :: int
  en_nextsubtransactionid :: int
  SubTransactions :: "int \<rightharpoonup> subTransaction"
  domainidsToSchemata :: "int \<rightharpoonup> schema"
  outbox :: "(addressStruct \<times> message) list"

definition getnextsubtransactionid :: "engine \<Rightarrow> int \<times> engine" where
  "getnextsubtransactionid en =
     (en_nextsubtransactionid en + 1, en\<lparr>en_nextsubtransactionid := en_nextsubtransactionid en + 1\<rparr>)"

definition SubTransaction :: "addressStruct \<Rightarrow> int \<Rightarrow> int \<Rightarrow> engine \<Rightarrow> subTransaction \<times> engine" where
  "SubTransaction taAddrarg transactionidarg domainidarg en =
     (let (i, en1) = getnextsubtransactionid en;
          st = \<lparr>st_subtransactionid = i, st_taAddr = taAddrarg, st_transactionid = transactionidarg,
                st_domainid = domainidarg,
                st_schemaPtr = (if domainidsToSchemata en1 domainidarg = None then None
                                else Some domainidarg)\<rparr>
      in (st, en1\<lparr>SubTransactions := (SubTransactions en1)(i \<mapsto> st)\<rparr>))"

definition delete_SubTransaction :: "subTransaction \<Rightarrow> engine \<Rightarrow> engine" where
  "delete_SubTransaction st en =
     en\<lparr>SubTransactions := (SubTransactions en)(st_subtransactionid st := None)\<rparr>"

definition toActor :: "addressStruct \<Rightarrow> message \<Rightarrow> engine \<Rightarrow> engine" where
  "toActor dest m en = en\<lparr>outbox := outbox en @ [(dest, m)]\<rparr>"

section \<open>Tables and indices of the schema\<close>

text \<open>\<open>*schemaPtr->tables[tableid]\<close> and \<open>fields[fieldid].index\<close>, read and updated in place.\<close>

definition table_at :: "subTransaction \<Rightarrow> int \<Rightarrow> engine \<Rightarrow> table res" where
  "table_at st tableid en =
     rbind (deref (st_schemaPtr st)) (\<lambda>d.
     rbind (deref (domainidsToSchemata en d)) (\<lambda>s. deref (sch_tables s tableid)))"

definition set_table :: "subTransaction \<Rightarrow> int \<Rightarrow> table \<Rightarrow> engine \<Rightarrow> engine" where
  "set_table st tableid t en =
     (case st_schemaPtr st of
        None \<Rightarrow> en
      | Some d \<Rightarrow> (case domainidsToSchemata en d of
          None \<Rightarrow> en
        | Some s \<Rightarrow> en\<lparr>domainidsToSchemata := (domainidsToSchemata en)(d \<mapsto>
            s\<lparr>sch_tables := (sch_tables s)(tableid \<mapsto> t)\<rparr>)\<rparr>))"

definition on_table :: "subTransaction \<Rightarrow> int \<Rightarrow> (table \<Rightarrow> ('r \<times> table) res) \<Rightarrow> engine \<Rightarrow>
    ('r \<times> engine) res" where
  "on_table st tableid f en =
     rbind (table_at st tableid en) (\<lambda>t. rmap (\<lambda>(r, t'). (r, set_table st tableid t' en)) (f t))"

definition field_at :: "int \<Rightarrow> table \<Rightarrow> field res" where
  "field_at fieldid t =
     (if 0 \<le> fieldid \<and> fieldid < int (length (tb_fields t)) then Inr (tb_fields t ! nat fieldid)
      else Inl OutOfRange)"

definition set_index :: "int \<Rightarrow> index \<Rightarrow> table \<Rightarrow> table" where
  "set_index fieldid ix t =
     t\<lparr>tb_fields := (tb_fields t)[nat fieldid := (tb_fields t ! nat fieldid)\<lparr>fd_index := ix\<rparr>]\<rparr>"

definition on_index :: "subTransaction \<Rightarrow> int \<Rightarrow> int \<Rightarrow> (index \<Rightarrow> ('r \<times> index) res) \<Rightarrow> engine \<Rightarrow>
    ('r \<times> engine) res" where
  "on_index st tableid fieldid f =
     on_table st tableid (\<lambda>t. rbind (field_at fieldid t) (\<lambda>fd.
       rmap (\<lambda>(r, ix'). (r, set_index fieldid ix' t)) (f (fd_index fd))))"

definition index_at :: "subTransaction \<Rightarrow> int \<Rightarrow> int \<Rightarrow> engine \<Rightarrow> index res" where
  "index_at st tableid fieldid en =
     rbind (table_at st tableid en) (\<lambda>t. rmap fd_index (field_at fieldid t))"

text \<open>An operation without a result of its own.\<close>

definition unit_res :: "'a res \<Rightarrow> (unit \<times> 'a) res" where
  "unit_res m = rmap (Pair ()) m"

section \<open>Laws\<close>

lemma table_at_set_table [simp]:
  assumes "table_at st i en = Inr t0"
  shows "table_at st j (set_table st i t en) = (if j = i then Inr t else table_at st j en)"
  using assms by (auto simp: table_at_def set_table_def)

lemma set_table_frame [simp]:
  "outbox (set_table st i t en) = outbox en" "SubTransactions (set_table st i t en) = SubTransactions en"
  "en_partitionid (set_table st i t en) = en_partitionid en"
  by (simp_all add: set_table_def split: option.splits)

lemma toActor_frame [simp]:
  "table_at st i (toActor d m en) = table_at st i en"
  "SubTransactions (toActor d m en) = SubTransactions en"
  "outbox (toActor d m en) = outbox en @ [(d, m)]"
  by (simp_all add: toActor_def table_at_def)

lemma set_table_same [simp]: "set_table st i t' (set_table st i t en) = set_table st i t' en"
  by (auto simp: set_table_def split: option.splits)

lemma index_at_eq:
  "table_at st i en = Inr t \<Longrightarrow> index_at st i f en = rmap fd_index (field_at f t)"
  by (simp add: index_at_def)

lemma field_at_set_index [simp]:
  "field_at f t = Inr fd \<Longrightarrow>
   field_at g (set_index f ix t) = (if g = f then Inr (fd\<lparr>fd_index := ix\<rparr>) else field_at g t)"
  by (auto simp: field_at_def set_index_def nth_list_update split: if_splits)

end
