(* ===== verification/Sub_Transaction.thy ===== *)
theory Sub_Transaction
  imports Engine_State
begin

text \<open>
  The class \<open>SubTransaction\<close> of \<open>infinisqld/SubTransaction.cc\<close>: what an engine does for one
  transaction. A message asks for a row operation, the staging of a unique index entry or a
  search, or it ends the transaction with a list of rows and index entries to commit, roll back
  or revert; the answer goes to the agent of the transaction.

  \<open>fullMatch\<close> is PCRE, as in the index searches; \<open>indet\<close> stands for memory the code never
  initialises.
\<close>

section \<open>Replies\<close>

text \<open>\<open>replyTransaction\<close>: the reply takes over the addressing of the message \<open>rcv\<close> it answers.\<close>

definition reply_header :: "subTransaction \<Rightarrow> engine \<Rightarrow> transactionStruct \<Rightarrow> transactionStruct \<Rightarrow>
    transactionStruct" where
  "reply_header st en rcv ts =
     ts\<lparr>ts_transactionid := ts_transactionid rcv,
        ts_subtransactionid := st_subtransactionid st,
        ts_engineinstance := int16 (en_partitionid en),
        ts_tacmdentrypoint := ts_tacmdentrypoint rcv,
        ts_pendingcmdid := ts_pendingcmdid rcv\<rparr>"

definition replyTransaction :: "subTransaction \<Rightarrow> transactionStruct \<Rightarrow> message \<Rightarrow> engine \<Rightarrow> engine" where
  "replyTransaction st rcv m en =
     toActor (st_taAddr st)
       (msg_set_transactionStruct (reply_header st en rcv (msg_transactionStruct m)) m) en"

section \<open>Lock queues\<close>

text \<open>To be called when a row or an entry is unlocked; the bodies are commented out.\<close>

definition processRowLockQueue :: "subTransaction \<Rightarrow> int \<Rightarrow> int \<Rightarrow> engine \<Rightarrow> engine" where
  "processRowLockQueue st tableid rowid en = en"

definition processIndexLockQueue :: "subTransaction \<Rightarrow> int \<Rightarrow> int \<Rightarrow> fieldValue \<Rightarrow> engine \<Rightarrow> engine" where
  "processIndexLockQueue st tableid fieldid val en = en"

text \<open>
  The answer to a live waiter begins with \<open>returnRows[0]\<close> of a message just created, whose
  vector is empty.
\<close>

fun drain_rows :: "(int \<Rightarrow> bool) \<Rightarrow> lockQueueRowEntry list \<Rightarrow> lockQueueRowEntry list res" where
  "drain_rows live [] = Inr []"
| "drain_rows live (e # q) =
     (if live (lr_subtransactionid e) then Inl OutOfRange else drain_rows live q)"

definition drainRowLockQueue :: "subTransaction \<Rightarrow> int \<Rightarrow> int \<Rightarrow> engine \<Rightarrow> engine res" where
  "drainRowLockQueue st tableid rowid en =
     rmap snd (on_table st tableid (\<lambda>t.
       let q = (case rowLockQueue t rowid of None \<Rightarrow> [] | Some q \<Rightarrow> q)
       in rbind (drain_rows (\<lambda>s. SubTransactions en s \<noteq> None) q) (\<lambda>q'.
            Inr ((), t\<lparr>rowLockQueue := (rowLockQueue t)(rowid \<mapsto> q')\<rparr>))) en)"

text \<open>The queue of a key: null pointer, no queue, or the queue.\<close>

definition queue_of :: "'k \<Rightarrow> 'k typed_index \<Rightarrow> lockQueueIndexEntry list option res" where
  "queue_of k t = rmap (\<lambda>q. q k) (deref (lockQueue t))"

definition index_queue :: "fieldValue \<Rightarrow> index \<Rightarrow> lockQueueIndexEntry list option res" where
  "index_queue val ix =
     (case fieldtype ix of
        F_INT \<Rightarrow> queue_of (integer val) (intIx ix)
      | F_UINT \<Rightarrow> queue_of (uinteger val) (uintIx ix)
      | F_BOOL \<Rightarrow> queue_of (boolean val) (boolIx ix)
      | F_FLOAT \<Rightarrow> queue_of (ld_key (floating val)) (floatIx ix)
      | F_CHAR \<Rightarrow> queue_of (character val) (charIx ix)
      | F_CHARX \<Rightarrow> queue_of (str val) (stringIx ix)
      | F_VARCHAR \<Rightarrow> queue_of (str val) (stringIx ix)
      | NOFIELDTYPE \<Rightarrow> Inr None)"

definition empty_queue :: "'k \<Rightarrow> 'k typed_index \<Rightarrow> 'k typed_index" where
  "empty_queue k t = t\<lparr>lockQueue := map_option (\<lambda>q. q(k \<mapsto> [])) (lockQueue t)\<rparr>"

definition empty_index_queue :: "fieldValue \<Rightarrow> index \<Rightarrow> index" where
  "empty_index_queue val ix =
     (case fieldtype ix of
        F_INT \<Rightarrow> ix\<lparr>intIx := empty_queue (integer val) (intIx ix)\<rparr>
      | F_UINT \<Rightarrow> ix\<lparr>uintIx := empty_queue (uinteger val) (uintIx ix)\<rparr>
      | F_BOOL \<Rightarrow> ix\<lparr>boolIx := empty_queue (boolean val) (boolIx ix)\<rparr>
      | F_FLOAT \<Rightarrow> ix\<lparr>floatIx := empty_queue (ld_key (floating val)) (floatIx ix)\<rparr>
      | F_CHAR \<Rightarrow> ix\<lparr>charIx := empty_queue (character val) (charIx ix)\<rparr>
      | F_CHARX \<Rightarrow> ix\<lparr>stringIx := empty_queue (str val) (stringIx ix)\<rparr>
      | F_VARCHAR \<Rightarrow> ix\<lparr>stringIx := empty_queue (str val) (stringIx ix)\<rparr>
      | NOFIELDTYPE \<Rightarrow> ix)"

text \<open>A live waiter is told, in the name of its own subtransaction, that it has no lock.\<close>

definition drain_reply :: "int \<Rightarrow> int \<Rightarrow> fieldValue \<Rightarrow> lockQueueIndexEntry \<Rightarrow> engine \<Rightarrow> engine" where
  "drain_reply tableid fieldid val e en =
     (case SubTransactions en (li_subtransactionid (lq_entry e)) of
        None \<Rightarrow> en
      | Some waiter \<Rightarrow>
          let m = subtransactionCmd0\<lparr>sc_subtransactionStruct := subtransactionStruct0
                    \<lparr>ss_locktype := PENDINGTOINDEXNOLOCK, ss_tableid := int16 tableid,
                     ss_fieldid := int16 fieldid\<rparr>, sc_fieldVal := val\<rparr>;
              rcv = transactionStruct0\<lparr>ts_transactionid := st_transactionid waiter,
                    ts_subtransactionid := li_subtransactionid (lq_entry e),
                    ts_engineinstance := int16 (en_partitionid en),
                    ts_tacmdentrypoint := lq_tacmdentrypoint e,
                    ts_pendingcmdid := lq_pendingcmdid e\<rparr>
          in replyTransaction waiter rcv (PAYLOADSUBTRANSACTION m) en)"

definition drainIndexLockQueue :: "subTransaction \<Rightarrow> int \<Rightarrow> int \<Rightarrow> fieldValue \<Rightarrow> engine \<Rightarrow> engine res" where
  "drainIndexLockQueue st tableid fieldid val en =
     rbind (index_at st tableid fieldid en) (\<lambda>ix.
     rbind (index_queue val ix) (\<lambda>q.
       case q of
         None \<Rightarrow> Inr en
       | Some es \<Rightarrow>
           rmap snd (on_index st tableid fieldid (\<lambda>ix. Inr ((), empty_index_queue val ix))
             (fold (drain_reply tableid fieldid val) es en))))"

section \<open>Staging of a unique index entry\<close>

text \<open>\<open>lockQueue->operator[](k).push(e)\<close>\<close>

definition queue_push :: "'k \<Rightarrow> lockQueueIndexEntry \<Rightarrow> 'k typed_index \<Rightarrow> 'k typed_index res" where
  "queue_push k e t =
     rbind (deref (lockQueue t)) (\<lambda>q.
       Inr (t\<lparr>lockQueue := Some (q(k \<mapsto> (case q k of None \<Rightarrow> [] | Some es \<Rightarrow> es) @ [e]))\<rparr>))"

text \<open>
  The cases of \<open>uniqueIndex\<close>, over the map and how to write it: no entry, then stage one; a
  staged entry (of whomever), then wait; a committed one, then the constraint is violated.
\<close>

definition stage_entry :: "('k \<Rightarrow> lockingIndexEntry \<Rightarrow> 'k typed_index \<Rightarrow> 'k typed_index res) \<Rightarrow>
    ('k \<times> lockingIndexEntry) list option \<Rightarrow> 'k \<Rightarrow> lockQueueIndexEntry \<Rightarrow> 'k typed_index \<Rightarrow>
    (locktype \<times> 'k typed_index) res" where
  "stage_entry put ptr k e t =
     rbind (deref ptr) (\<lambda>m.
       if \<not> map_count k m then rmap (Pair INDEXLOCK) (put k (lq_entry e) t)
       else rbind (map_at k m) (\<lambda>cur.
         if li_subtransactionid cur \<noteq> 0 then rmap (Pair INDEXPENDINGLOCK) (queue_push k e t)
         else Inr (NOLOCK, t)))"

definition stage_unique :: "'k::linorder \<Rightarrow> lockQueueIndexEntry \<Rightarrow> 'k typed_index \<Rightarrow>
    (locktype \<times> 'k typed_index) res" where
  "stage_unique k e t = stage_entry put_unique (uniqueIdx t) k e t"

definition stage_unordered :: "'k \<Rightarrow> lockQueueIndexEntry \<Rightarrow> 'k typed_index \<Rightarrow>
    (locktype \<times> 'k typed_index) res" where
  "stage_unordered k e t = stage_entry put_unordered (unorderedIdx t) k e t"

text \<open>
  The cases of each key type; the ordered string maps trim the value of the caller, the unordered
  ones do not.
\<close>

definition uniqueIndex_int :: "fieldValue \<Rightarrow> lockQueueIndexEntry \<Rightarrow> index \<Rightarrow> (locktype \<times> index) res" where
  "uniqueIndex_int val e ix =
     (case indexmaptype ix of
        uniqueint \<Rightarrow> with_int (stage_unique (integer val) e) ix
      | unorderedint \<Rightarrow> with_int (stage_unordered (integer val) e) ix
      | _ \<Rightarrow> Inr (NOTFOUNDLOCK, ix))"

definition uniqueIndex_uint :: "fieldValue \<Rightarrow> lockQueueIndexEntry \<Rightarrow> index \<Rightarrow> (locktype \<times> index) res" where
  "uniqueIndex_uint val e ix =
     (case indexmaptype ix of
        uniqueuint \<Rightarrow> with_uint (stage_unique (uinteger val) e) ix
      | unordereduint \<Rightarrow> with_uint (stage_unordered (uinteger val) e) ix
      | _ \<Rightarrow> Inr (NOTFOUNDLOCK, ix))"

definition uniqueIndex_bool :: "fieldValue \<Rightarrow> lockQueueIndexEntry \<Rightarrow> index \<Rightarrow> (locktype \<times> index) res" where
  "uniqueIndex_bool val e ix =
     (case indexmaptype ix of
        uniquebool \<Rightarrow> with_bool (stage_unique (boolean val) e) ix
      | unorderedbool \<Rightarrow> with_bool (stage_unordered (boolean val) e) ix
      | _ \<Rightarrow> Inr (NOTFOUNDLOCK, ix))"

definition uniqueIndex_float :: "fieldValue \<Rightarrow> lockQueueIndexEntry \<Rightarrow> index \<Rightarrow> (locktype \<times> index) res" where
  "uniqueIndex_float val e ix =
     (case indexmaptype ix of
        uniquefloat \<Rightarrow> with_float (stage_unique (ld_key (floating val)) e) ix
      | unorderedfloat \<Rightarrow> with_float (stage_unordered (ld_key (floating val)) e) ix
      | _ \<Rightarrow> Inr (NOTFOUNDLOCK, ix))"

definition uniqueIndex_char :: "fieldValue \<Rightarrow> lockQueueIndexEntry \<Rightarrow> index \<Rightarrow> (locktype \<times> index) res" where
  "uniqueIndex_char val e ix =
     (case indexmaptype ix of
        uniquechar \<Rightarrow> with_char (stage_unique (character val) e) ix
      | unorderedchar \<Rightarrow> with_char (stage_unordered (character val) e) ix
      | _ \<Rightarrow> Inr (NOTFOUNDLOCK, ix))"

definition uniqueIndex_string :: "fieldValue \<Rightarrow> lockQueueIndexEntry \<Rightarrow> index \<Rightarrow>
    ((locktype \<times> fieldValue) \<times> index) res" where
  "uniqueIndex_string val e ix =
     (let trimmed = val\<lparr>str := trimspace (str val)\<rparr>;
          answer = (\<lambda>v. rmap (\<lambda>(l, ix'). ((l, v), ix')))
      in case indexmaptype ix of
           uniquecharx \<Rightarrow> answer trimmed (with_string (stage_unique (str trimmed) e) ix)
         | unorderedcharx \<Rightarrow> answer val (with_string (stage_unordered (str val) e) ix)
         | uniquevarchar \<Rightarrow> answer trimmed (with_string (stage_unique (str trimmed) e) ix)
         | unorderedvarchar \<Rightarrow> answer val (with_string (stage_unordered (str val) e) ix)
         | _ \<Rightarrow> Inr ((NOTFOUNDLOCK, val), ix))"

text \<open>The dispatch over \<open>indexmaptype\<close>.\<close>

definition uniqueIndex_on :: "fieldValue \<Rightarrow> lockQueueIndexEntry \<Rightarrow> index \<Rightarrow>
    ((locktype \<times> fieldValue) \<times> index) res" where
  "uniqueIndex_on val e ix =
     (let answer = rmap (\<lambda>(l, ix'). ((l, val), ix')); imt = indexmaptype ix
      in if imt \<in> {uniqueint, unorderedint} then answer (uniqueIndex_int val e ix)
         else if imt \<in> {uniqueuint, unordereduint} then answer (uniqueIndex_uint val e ix)
         else if imt \<in> {uniquebool, unorderedbool} then answer (uniqueIndex_bool val e ix)
         else if imt \<in> {uniquefloat, unorderedfloat} then answer (uniqueIndex_float val e ix)
         else if imt \<in> {uniquechar, unorderedchar} then answer (uniqueIndex_char val e ix)
         else if imt \<in> {uniquecharx, unorderedcharx, uniquevarchar, unorderedvarchar}
           then uniqueIndex_string val e ix
         else Inr ((NOTFOUNDLOCK, val), ix))"

definition uniqueIndex :: "subTransaction \<Rightarrow> transactionStruct \<Rightarrow> int \<Rightarrow> int \<Rightarrow> int \<Rightarrow> int \<Rightarrow>
    fieldValue \<Rightarrow> engine \<Rightarrow> ((locktype \<times> fieldValue) \<times> engine) res" where
  "uniqueIndex st rcv tableid fieldid rowid engineid val en =
     on_index st tableid fieldid
       (uniqueIndex_on val (queue_entry rowid engineid (st_subtransactionid st)
          (ts_pendingcmdid rcv) (ts_tacmdentrypoint rcv))) en"

section \<open>Searches\<close>

definition sp_value :: "nat \<Rightarrow> searchParams \<Rightarrow> fieldValue res" where
  "sp_value n sp = (if n < length (sp_values sp) then Inr (sp_values sp ! n) else Inl OutOfRange)"

text \<open>For each operator, the overload for the type of the field; the value is read in the case.\<close>

definition search_equal :: "index \<Rightarrow> searchParams \<Rightarrow> indexEntries \<Rightarrow> indexEntries res" where
  "search_equal ix sp ret =
     (case fieldtype ix of
        F_INT \<Rightarrow> rbind (sp_value 0 sp) (\<lambda>v. getequal_f_int ix (integer v) ret)
      | F_UINT \<Rightarrow> rbind (sp_value 0 sp) (\<lambda>v. getequal_f_uint ix (uinteger v) ret)
      | F_BOOL \<Rightarrow> rbind (sp_value 0 sp) (\<lambda>v. getequal_f_bool ix (boolean v) ret)
      | F_FLOAT \<Rightarrow> rbind (sp_value 0 sp) (\<lambda>v. getequal_f_float ix (floating v) ret)
      | F_CHAR \<Rightarrow> rbind (sp_value 0 sp) (\<lambda>v. getequal_f_char ix (character v) ret)
      | F_CHARX \<Rightarrow> rbind (sp_value 0 sp) (\<lambda>v. getequal_f_string ix (str v) ret)
      | F_VARCHAR \<Rightarrow> rbind (sp_value 0 sp) (\<lambda>v. getequal_f_string ix (str v) ret)
      | NOFIELDTYPE \<Rightarrow> Inr ret)"

definition search_notequal :: "index \<Rightarrow> searchParams \<Rightarrow> indexEntries \<Rightarrow> indexEntries res" where
  "search_notequal ix sp ret =
     (case fieldtype ix of
        F_INT \<Rightarrow> rbind (sp_value 0 sp) (\<lambda>v. getnotequal_int ix (integer v) ret)
      | F_UINT \<Rightarrow> rbind (sp_value 0 sp) (\<lambda>v. getnotequal_uint ix (uinteger v) ret)
      | F_BOOL \<Rightarrow> rbind (sp_value 0 sp) (\<lambda>v. getnotequal_bool ix (boolean v) ret)
      | F_FLOAT \<Rightarrow> rbind (sp_value 0 sp) (\<lambda>v. getnotequal_float ix (floating v) ret)
      | F_CHAR \<Rightarrow> rbind (sp_value 0 sp) (\<lambda>v. getnotequal_char ix (character v) ret)
      | F_CHARX \<Rightarrow> rbind (sp_value 0 sp) (\<lambda>v. getnotequal_string ix (str v) ret)
      | F_VARCHAR \<Rightarrow> rbind (sp_value 0 sp) (\<lambda>v. getnotequal_string ix (str v) ret)
      | NOFIELDTYPE \<Rightarrow> Inr ret)"

definition search_comparison :: "index \<Rightarrow> searchParams \<Rightarrow> indexEntries \<Rightarrow> indexEntries res" where
  "search_comparison ix sp ret =
     (case fieldtype ix of
        F_INT \<Rightarrow> rbind (sp_value 0 sp) (\<lambda>v. comparison_int ix (integer v) (sp_op sp) ret)
      | F_UINT \<Rightarrow> rbind (sp_value 0 sp) (\<lambda>v. comparison_uint ix (uinteger v) (sp_op sp) ret)
      | F_BOOL \<Rightarrow> rbind (sp_value 0 sp) (\<lambda>v. comparison_bool ix (boolean v) (sp_op sp) ret)
      | F_FLOAT \<Rightarrow> rbind (sp_value 0 sp) (\<lambda>v. comparison_float ix (floating v) (sp_op sp) ret)
      | F_CHAR \<Rightarrow> rbind (sp_value 0 sp) (\<lambda>v. comparison_char ix (character v) (sp_op sp) ret)
      | F_CHARX \<Rightarrow> rbind (sp_value 0 sp) (\<lambda>v. comparison_string ix (str v) (sp_op sp) ret)
      | F_VARCHAR \<Rightarrow> rbind (sp_value 0 sp) (\<lambda>v. comparison_string ix (str v) (sp_op sp) ret)
      | NOFIELDTYPE \<Rightarrow> Inr ret)"

definition search_in :: "index \<Rightarrow> searchParams \<Rightarrow> indexEntries \<Rightarrow> indexEntries res" where
  "search_in ix sp ret =
     (case fieldtype ix of
        F_INT \<Rightarrow> getin getequal_f_int ix (map integer (sp_values sp)) ret
      | F_UINT \<Rightarrow> getin getequal_f_uint ix (map uinteger (sp_values sp)) ret
      | F_BOOL \<Rightarrow> getin getequal_f_bool ix (map boolean (sp_values sp)) ret
      | F_FLOAT \<Rightarrow> getin getequal_f_float ix (map floating (sp_values sp)) ret
      | F_CHAR \<Rightarrow> getin getequal_f_char ix (map character (sp_values sp)) ret
      | F_CHARX \<Rightarrow> getin getequal_f_string ix (map str (sp_values sp)) ret
      | F_VARCHAR \<Rightarrow> getin getequal_f_string ix (map str (sp_values sp)) ret
      | NOFIELDTYPE \<Rightarrow> Inr ret)"

definition search_notin :: "index \<Rightarrow> searchParams \<Rightarrow> indexEntries \<Rightarrow> indexEntries res" where
  "search_notin ix sp ret =
     (case fieldtype ix of
        F_INT \<Rightarrow> getnotin_int ix (map integer (sp_values sp)) ret
      | F_UINT \<Rightarrow> getnotin_uint ix (map uinteger (sp_values sp)) ret
      | F_BOOL \<Rightarrow> getnotin_bool ix (map boolean (sp_values sp)) ret
      | F_FLOAT \<Rightarrow> getnotin_float ix (map floating (sp_values sp)) ret
      | F_CHAR \<Rightarrow> getnotin_char ix (map character (sp_values sp)) ret
      | F_CHARX \<Rightarrow> getnotin_string ix (map str (sp_values sp)) ret
      | F_VARCHAR \<Rightarrow> getnotin_string ix (map str (sp_values sp)) ret
      | NOFIELDTYPE \<Rightarrow> Inr ret)"

definition search_between :: "index \<Rightarrow> searchParams \<Rightarrow> indexEntries \<Rightarrow> indexEntries res" where
  "search_between ix sp ret =
     (case fieldtype ix of
        F_INT \<Rightarrow> rbind (sp_value 0 sp) (\<lambda>v. rbind (sp_value 1 sp) (\<lambda>v'.
            between_int ix (integer v) (integer v') ret))
      | F_UINT \<Rightarrow> rbind (sp_value 0 sp) (\<lambda>v. rbind (sp_value 1 sp) (\<lambda>v'.
            between_uint ix (uinteger v) (uinteger v') ret))
      | F_BOOL \<Rightarrow> rbind (sp_value 0 sp) (\<lambda>v. rbind (sp_value 1 sp) (\<lambda>v'.
            between_bool ix (boolean v) (boolean v') ret))
      | F_FLOAT \<Rightarrow> rbind (sp_value 0 sp) (\<lambda>v. rbind (sp_value 1 sp) (\<lambda>v'.
            between_float ix (floating v) (floating v') ret))
      | F_CHAR \<Rightarrow> rbind (sp_value 0 sp) (\<lambda>v. rbind (sp_value 1 sp) (\<lambda>v'.
            between_char ix (character v) (character v') ret))
      | F_CHARX \<Rightarrow> rbind (sp_value 0 sp) (\<lambda>v. rbind (sp_value 1 sp) (\<lambda>v'.
            between_string ix (str v) (str v') ret))
      | F_VARCHAR \<Rightarrow> rbind (sp_value 0 sp) (\<lambda>v. rbind (sp_value 1 sp) (\<lambda>v'.
            between_string ix (str v) (str v') ret))
      | NOFIELDTYPE \<Rightarrow> Inr ret)"

definition search_notbetween :: "index \<Rightarrow> searchParams \<Rightarrow> indexEntries \<Rightarrow> indexEntries res" where
  "search_notbetween ix sp ret =
     (case fieldtype ix of
        F_INT \<Rightarrow> rbind (sp_value 0 sp) (\<lambda>v. rbind (sp_value 1 sp) (\<lambda>v'.
            notbetween comparison_int ix (integer v) (integer v') ret))
      | F_UINT \<Rightarrow> rbind (sp_value 0 sp) (\<lambda>v. rbind (sp_value 1 sp) (\<lambda>v'.
            notbetween comparison_uint ix (uinteger v) (uinteger v') ret))
      | F_BOOL \<Rightarrow> rbind (sp_value 0 sp) (\<lambda>v. rbind (sp_value 1 sp) (\<lambda>v'.
            notbetween comparison_bool ix (boolean v) (boolean v') ret))
      | F_FLOAT \<Rightarrow> rbind (sp_value 0 sp) (\<lambda>v. rbind (sp_value 1 sp) (\<lambda>v'.
            notbetween comparison_float ix (floating v) (floating v') ret))
      | F_CHAR \<Rightarrow> rbind (sp_value 0 sp) (\<lambda>v. rbind (sp_value 1 sp) (\<lambda>v'.
            notbetween comparison_char ix (character v) (character v') ret))
      | F_CHARX \<Rightarrow> rbind (sp_value 0 sp) (\<lambda>v. rbind (sp_value 1 sp) (\<lambda>v'.
            notbetween comparison_string ix (str v) (str v') ret))
      | F_VARCHAR \<Rightarrow> rbind (sp_value 0 sp) (\<lambda>v. rbind (sp_value 1 sp) (\<lambda>v'.
            notbetween comparison_string ix (str v) (str v') ret))
      | NOFIELDTYPE \<Rightarrow> Inr ret)"

definition search_index :: "(bytes \<Rightarrow> bytes \<Rightarrow> bool) \<Rightarrow> index \<Rightarrow> searchParams \<Rightarrow> indexEntries \<Rightarrow>
    indexEntries res" where
  "search_index fullMatch ix sp ret =
     (case sp_op sp of
        OPERATOR_EQ \<Rightarrow> search_equal ix sp ret
      | OPERATOR_NE \<Rightarrow> search_notequal ix sp ret
      | OPERATOR_GT \<Rightarrow> search_comparison ix sp ret
      | OPERATOR_LT \<Rightarrow> search_comparison ix sp ret
      | OPERATOR_GTE \<Rightarrow> search_comparison ix sp ret
      | OPERATOR_LTE \<Rightarrow> search_comparison ix sp ret
      | OPERATOR_IN \<Rightarrow> search_in ix sp ret
      | OPERATOR_NOTIN \<Rightarrow> search_notin ix sp ret
      | OPERATOR_BETWEEN \<Rightarrow> search_between ix sp ret
      | OPERATOR_NOTBETWEEN \<Rightarrow> search_notbetween ix sp ret
      | OPERATOR_ISNULL \<Rightarrow> Inr (getnulls ix ret)
      | OPERATOR_ISNOTNULL \<Rightarrow> getnotnulls ix ret
      | OPERATOR_SELECTALL \<Rightarrow> getall ix ret
      | OPERATOR_REGEX \<Rightarrow> regex fullMatch ix (sp_regexString sp) ret
      | OPERATOR_LIKE \<Rightarrow> rbind (sp_value 0 sp) (\<lambda>v. like fullMatch ix (str v) ret)
      | OPERATOR_NOTLIKE \<Rightarrow> rbind (sp_value 0 sp) (\<lambda>v. notlike fullMatch ix (str v) ret)
      | _ \<Rightarrow> Inr ret)"

definition indexSearch :: "(bytes \<Rightarrow> bytes \<Rightarrow> bool) \<Rightarrow> subTransaction \<Rightarrow> int \<Rightarrow> int \<Rightarrow> searchParams \<Rightarrow>
    indexEntries \<Rightarrow> engine \<Rightarrow> indexEntries res" where
  "indexSearch fullMatch st tableid fieldid sp indexHits en =
     rbind (index_at st tableid fieldid en) (\<lambda>ix. search_index fullMatch ix sp indexHits)"

section \<open>Row operations\<close>

definition newrow_st :: "subTransaction \<Rightarrow> int \<Rightarrow> bytes \<Rightarrow> engine \<Rightarrow> (int \<times> engine) res" where
  "newrow_st st tableid r =
     on_table st tableid (\<lambda>t. rbind (getnextrowid t) (\<lambda>(newrowid, t1).
       Inr (newrowid, newrow newrowid (st_subtransactionid st) r t1)))"

definition updaterow_st :: "subTransaction \<Rightarrow> int \<Rightarrow> int \<Rightarrow> bytes \<Rightarrow> engine \<Rightarrow> (status \<times> engine) res" where
  "updaterow_st st tableid rowid r = on_table st tableid (updaterow rowid (st_subtransactionid st) r)"

definition deleterow_st :: "subTransaction \<Rightarrow> int \<Rightarrow> int \<Rightarrow> engine \<Rightarrow> (status \<times> engine) res" where
  "deleterow_st st tableid rowid = on_table st tableid (deleterow rowid (st_subtransactionid st))"

definition deleterow_forward_st :: "subTransaction \<Rightarrow> int \<Rightarrow> int \<Rightarrow> int \<Rightarrow> int \<Rightarrow> engine \<Rightarrow>
    (status \<times> engine) res" where
  "deleterow_forward_st st tableid rowid forward_rowid forward_engineid =
     on_table st tableid
       (deleterow_forward rowid (st_subtransactionid st) forward_rowid forward_engineid)"

definition selectrows_st :: "int \<Rightarrow> subTransaction \<Rightarrow> transactionStruct \<Rightarrow> int \<Rightarrow> int list \<Rightarrow> locktype \<Rightarrow>
    int \<Rightarrow> returnRow list \<Rightarrow> engine \<Rightarrow> (returnRow list \<times> engine) res" where
  "selectrows_st indet st rcv tableid rowids lt pendingcmdid returnRows =
     on_table st tableid (\<lambda>t. rmap prod.swap
       (selectrows indet rowids lt (st_subtransactionid st) pendingcmdid
          (ts_tacmdentrypoint rcv) (t, returnRows)))"

definition searchReturn1 :: "(bytes \<Rightarrow> bytes \<Rightarrow> bool) \<Rightarrow> int \<Rightarrow> subTransaction \<Rightarrow> transactionStruct \<Rightarrow>
    int \<Rightarrow> int \<Rightarrow> locktype \<Rightarrow> searchParams \<Rightarrow> returnRow list \<Rightarrow> engine \<Rightarrow>
    (returnRow list \<times> engine) res" where
  "searchReturn1 fullMatch indet st rcv tableid fieldid lt sp returnRows en =
     rbind (indexSearch fullMatch st tableid fieldid sp [] en) (\<lambda>indexHits.
       case indexHits of
         [hit] \<Rightarrow> selectrows_st indet st rcv tableid [nl_rowid hit] lt (ts_pendingcmdid rcv)
                    returnRows en
       | _ \<Rightarrow> Inr (returnRows @ [returnRow0\<lparr>rr_locktype := NOTFOUNDLOCK\<rparr>], en))"

section \<open>The command of a transaction\<close>

text \<open>\<open>PAYLOADSUBTRANSACTION\<close>: the reply before it is addressed, and the new state.\<close>

definition run_command :: "(bytes \<Rightarrow> bytes \<Rightarrow> bool) \<Rightarrow> int \<Rightarrow> subTransaction \<Rightarrow> subtransactionCmd \<Rightarrow>
    engine \<Rightarrow> (subtransactionCmd \<times> engine) res" where
  "run_command fullMatch indet st rcv en =
     (let ss = sc_subtransactionStruct rcv; ts = sc_transactionStruct rcv; msg = subtransactionCmd0;
          answer = (\<lambda>f. msg\<lparr>sc_subtransactionStruct := f subtransactionStruct0\<rparr>)
      in case ts_enginecmd ts of
           NEWROW \<Rightarrow>
             rmap (\<lambda>(rid, en'). (answer (\<lambda>s. s\<lparr>ss_rowid := rid, ss_locktype := WRITELOCK\<rparr>), en'))
               (newrow_st st (ss_tableid ss) (sc_row rcv) en)
         | UNIQUEINDEX \<Rightarrow>
             rmap (\<lambda>((l, v), en'). ((answer (\<lambda>s. s\<lparr>ss_locktype := l, ss_tableid := ss_tableid ss,
                       ss_fieldid := ss_fieldid ss\<rparr>))\<lparr>sc_fieldVal := v\<rparr>, en'))
               (uniqueIndex st ts (ss_tableid ss) (ss_fieldid ss) (ss_rowid ss) (ss_engineid ss)
                  (sc_fieldVal rcv) en)
         | UPDATEROW \<Rightarrow>
             rmap (\<lambda>(r, en'). (answer (\<lambda>s. s\<lparr>ss_status := r, ss_locktype := WRITELOCK\<rparr>), en'))
               (updaterow_st st (ss_tableid ss) (ss_rowid ss) (sc_row rcv) en)
         | DELETEROW \<Rightarrow>
             rmap (\<lambda>(r, en'). (answer (\<lambda>s. s\<lparr>ss_rowid := ss_rowid ss, ss_tableid := ss_tableid ss,
                       ss_engineid := ss_engineid ss, ss_status := r\<rparr>), en'))
               (deleterow_st st (ss_tableid ss) (ss_rowid ss) en)
         | REPLACEDELETEROW \<Rightarrow>
             rmap (\<lambda>(r, en'). (answer (\<lambda>s. s\<lparr>ss_status := r, ss_locktype := WRITELOCK\<rparr>), en'))
               (deleterow_forward_st st (ss_tableid ss) (ss_rowid ss) (ss_forward_rowid ss)
                  (ss_forward_engineid ss) en)
         | INDEXSEARCH \<Rightarrow>
             rmap (\<lambda>h. (msg\<lparr>sc_indexHits := h\<rparr>, en))
               (indexSearch fullMatch st (ss_tableid ss) (ss_fieldid ss) (sc_searchParameters rcv) [] en)
         | SELECTROWS \<Rightarrow>
             rmap (\<lambda>(rs, en'). (msg\<lparr>sc_returnRows := rs\<rparr>, en'))
               (selectrows_st indet st ts (ss_tableid ss) (sc_rowids rcv) (ss_locktype ss)
                  (ts_pendingcmdid ts) [] en)
         | SEARCHRETURN1 \<Rightarrow>
             rmap (\<lambda>(rs, en'). (msg\<lparr>sc_returnRows := rs\<rparr>, en'))
               (searchReturn1 fullMatch indet st ts (ss_tableid ss) (ss_fieldid ss) (ss_locktype ss)
                  (sc_searchParameters rcv) [] en)
         | _ \<Rightarrow> Inr (msg, en))"

section \<open>The end of a transaction\<close>

text \<open>The row of an entry of the list: commit, roll back, unlock or revert it, then its waiters.\<close>

definition end_row :: "subTransaction \<Rightarrow> enginecmd \<Rightarrow> rowOrField \<Rightarrow> engine \<Rightarrow> engine res" where
  "end_row st cmd rof en =
     rbind (on_table st (rf_tableid rof) (\<lambda>t.
         rmap (\<lambda>t'. (rows t' (rf_rowid rof) \<noteq> None, t'))
           (commitRollbackUnlock (rf_rowid rof) (st_subtransactionid st) cmd t)) en) (\<lambda>(there, en1).
       if there \<and> cmd \<noteq> REVERTCMD
       then Inr (processRowLockQueue st (rf_tableid rof) (rf_rowid rof) en1)
       else drainRowLockQueue st (rf_tableid rof) (rf_rowid rof) en1)"

text \<open>A staged unique entry; the null entry is added whatever the command.\<close>

definition end_unique_entry :: "int \<Rightarrow> enginecmd \<Rightarrow> rowOrField \<Rightarrow> index \<Rightarrow> index res" where
  "end_unique_entry subtransactionid cmd rof ix =
     (let v = rf_fieldVal rof
      in if isnull v then Inr (insertNullEntry ix (rf_rowid rof) (rf_engineid rof))
         else case fieldtype ix of
           F_INT \<Rightarrow> commitRollback_int ix (integer v) subtransactionid cmd
         | F_UINT \<Rightarrow> commitRollback_uint ix (uinteger v) subtransactionid cmd
         | F_BOOL \<Rightarrow> commitRollback_bool ix (boolean v) subtransactionid cmd
         | F_FLOAT \<Rightarrow> commitRollback_float ix (floating v) subtransactionid cmd
         | F_CHAR \<Rightarrow> commitRollback_char ix (character v) subtransactionid cmd
         | F_CHARX \<Rightarrow> commitRollback_string ix (str v) subtransactionid cmd
         | F_VARCHAR \<Rightarrow> commitRollback_string ix (str v) subtransactionid cmd
         | NOFIELDTYPE \<Rightarrow> Inr ix)"

definition end_unique :: "subTransaction \<Rightarrow> enginecmd \<Rightarrow> rowOrField \<Rightarrow> engine \<Rightarrow> engine res" where
  "end_unique st cmd rof en =
     rbind (on_index st (rf_tableid rof) (rf_fieldid rof) (\<lambda>ix.
         unit_res (end_unique_entry (st_subtransactionid st) cmd rof ix)) en) (\<lambda>(_, en1).
       if cmd = COMMITCMD
       then drainIndexLockQueue st (rf_tableid rof) (rf_fieldid rof) (rf_fieldVal rof) en1
       else if cmd = ROLLBACKCMD
       then Inr (processIndexLockQueue st (rf_tableid rof) (rf_fieldid rof) (rf_fieldVal rof) en1)
       else Inr en1)"

text \<open>The replacement of a row id; on a null value the new engine is not used.\<close>

definition end_replace_entry :: "int \<Rightarrow> rowOrField \<Rightarrow> index \<Rightarrow> index res" where
  "end_replace_entry indet rof ix =
     (let v = rf_fieldVal rof; r = rf_rowid rof; e = rf_engineid rof;
          r' = rf_newrowid rof; e' = rf_newengineid rof
      in if isnull v then Inr (replaceNull ix r e r' e)
         else if isunique ix then
           (case fieldtype ix of
              F_INT \<Rightarrow> replaceUnique_int indet ix r' e' (integer v)
            | F_UINT \<Rightarrow> replaceUnique_uint indet ix r' e' (uinteger v)
            | F_BOOL \<Rightarrow> replaceUnique_bool indet ix r' e' (boolean v)
            | F_FLOAT \<Rightarrow> replaceUnique_float indet ix r' e' (floating v)
            | F_CHAR \<Rightarrow> replaceUnique_char indet ix r' e' (character v)
            | F_CHARX \<Rightarrow> replaceUnique_string indet ix r' e' (str v)
            | F_VARCHAR \<Rightarrow> replaceUnique_string indet ix r' e' (str v)
            | NOFIELDTYPE \<Rightarrow> Inr ix)
         else
           (case fieldtype ix of
              F_INT \<Rightarrow> replaceNonunique_int ix r e r' e' (integer v)
            | F_UINT \<Rightarrow> replaceNonunique_uint ix r e r' e' (uinteger v)
            | F_BOOL \<Rightarrow> replaceNonunique_bool ix r e r' e' (boolean v)
            | F_FLOAT \<Rightarrow> replaceNonunique_float ix r e r' e' (floating v)
            | F_CHAR \<Rightarrow> replaceNonunique_char ix r e r' e' (character v)
            | F_CHARX \<Rightarrow> replaceNonunique_string ix r e r' e' (str v)
            | F_VARCHAR \<Rightarrow> replaceNonunique_string ix r e r' e' (str v)
            | NOFIELDTYPE \<Rightarrow> Inr ix))"

text \<open>All other entries: null, delete unique, delete and add non-unique.\<close>

definition end_other_entry :: "rowOrField \<Rightarrow> index \<Rightarrow> index res" where
  "end_other_entry rof ix =
     (let v = rf_fieldVal rof; r = rf_rowid rof; e = rf_engineid rof
      in if isnull v then
           Inr (if rf_deleteindexentry rof then deleteNullEntry ix r e else insertNullEntry ix r e)
         else if isunique ix then
           (case fieldtype ix of
              F_INT \<Rightarrow> deleteUniqueEntry_int ix (integer v)
            | F_UINT \<Rightarrow> deleteUniqueEntry_uint ix (uinteger v)
            | F_BOOL \<Rightarrow> deleteUniqueEntry_bool ix (boolean v)
            | F_FLOAT \<Rightarrow> deleteUniqueEntry_float ix (floating v)
            | F_CHAR \<Rightarrow> deleteUniqueEntry_char ix (character v)
            | F_CHARX \<Rightarrow> deleteUniqueEntry_string ix (str v)
            | F_VARCHAR \<Rightarrow> deleteUniqueEntry_string ix (str v)
            | NOFIELDTYPE \<Rightarrow> Inr ix)
         else if rf_deleteindexentry rof then
           (case fieldtype ix of
              F_INT \<Rightarrow> deleteNonuniqueEntry_int ix (integer v) r e
            | F_UINT \<Rightarrow> deleteNonuniqueEntry_uint ix (uinteger v) r e
            | F_BOOL \<Rightarrow> deleteNonuniqueEntry_bool ix (boolean v) r e
            | F_FLOAT \<Rightarrow> deleteNonuniqueEntry_float ix (floating v) r e
            | F_CHAR \<Rightarrow> deleteNonuniqueEntry_char ix (character v) r e
            | F_CHARX \<Rightarrow> deleteNonuniqueEntry_string ix (str v) r e
            | F_VARCHAR \<Rightarrow> deleteNonuniqueEntry_string ix (str v) r e
            | NOFIELDTYPE \<Rightarrow> Inr ix)
         else
           (case fieldtype ix of
              F_INT \<Rightarrow> insertNonuniqueEntry_int ix (integer v) r e
            | F_UINT \<Rightarrow> insertNonuniqueEntry_uint ix (uinteger v) r e
            | F_BOOL \<Rightarrow> insertNonuniqueEntry_bool ix (boolean v) r e
            | F_FLOAT \<Rightarrow> insertNonuniqueEntry_float ix (floating v) r e
            | F_CHAR \<Rightarrow> insertNonuniqueEntry_char ix (character v) r e
            | F_CHARX \<Rightarrow> insertNonuniqueEntry_string ix (str v) r e
            | F_VARCHAR \<Rightarrow> insertNonuniqueEntry_string ix (str v) r e
            | NOFIELDTYPE \<Rightarrow> Inr ix))"

text \<open>
  \<open>processIndexLockQueue\<close> is called after the deletion of a unique entry; as it does nothing,
  its place does not matter.
\<close>

definition end_notaddunique :: "int \<Rightarrow> subTransaction \<Rightarrow> rowOrField \<Rightarrow> engine \<Rightarrow> engine res" where
  "end_notaddunique indet st rof en =
     rmap (\<lambda>(_, en1). processIndexLockQueue st (rf_tableid rof) (rf_fieldid rof) (rf_fieldVal rof) en1)
       (on_index st (rf_tableid rof) (rf_fieldid rof) (\<lambda>ix. unit_res
          (if rf_isreplace rof then end_replace_entry indet rof ix else end_other_entry rof ix)) en)"

text \<open>One item of \<open>PAYLOADCOMMITROLLBACK\<close>, the loop, and the reply to a commit.\<close>

definition end_item :: "int \<Rightarrow> subTransaction \<Rightarrow> enginecmd \<Rightarrow> rowOrField \<Rightarrow> engine \<Rightarrow> engine res" where
  "end_item indet st cmd rof en =
     rbind (deref (st_schemaPtr st)) (\<lambda>d.
     rbind (deref (domainidsToSchemata en d)) (\<lambda>s.
       if sch_tables s (rf_tableid rof) = None then Inl ProcessAbort
       else if rf_isrow rof then end_row st cmd rof en
       else if \<not> rf_isnotaddunique rof then end_unique st cmd rof en
       else end_notaddunique indet st rof en))"

definition end_transaction :: "int \<Rightarrow> subTransaction \<Rightarrow> commitRollbackMsg \<Rightarrow> engine \<Rightarrow> engine res" where
  "end_transaction indet st rcv en =
     (let cmd = ts_enginecmd (cr_transactionStruct rcv)
      in rbind (rfold (end_item indet st cmd) (cr_rofs rcv) en) (\<lambda>en1.
           Inr (if cmd = COMMITCMD
                then replyTransaction st (cr_transactionStruct rcv)
                       (PAYLOADCOMMITROLLBACK commitRollbackMsg0) en1
                else en1)))"

definition processTransactionMessage :: "(bytes \<Rightarrow> bytes \<Rightarrow> bool) \<Rightarrow> int \<Rightarrow> subTransaction \<Rightarrow> message \<Rightarrow>
    engine \<Rightarrow> engine res" where
  "processTransactionMessage fullMatch indet st msgrcv en =
     (case msgrcv of
        PAYLOADSUBTRANSACTION rcv \<Rightarrow>
          rmap (\<lambda>(m, en1). replyTransaction st (sc_transactionStruct rcv) (PAYLOADSUBTRANSACTION m) en1)
            (run_command fullMatch indet st rcv en)
      | PAYLOADCOMMITROLLBACK rcv \<Rightarrow> end_transaction indet st rcv en)"

section \<open>The older commitRollbackUnlock\<close>

text \<open>
  Nobody calls it. Its cases have no \<open>break\<close>, so the case of a type runs on into those of the
  types behind it, and it passes \<open>COMMITCMD\<close> to the rows whatever its argument.
\<close>

definition overloads_from :: "fieldtype \<Rightarrow> (fieldtype list)" where
  "overloads_from ft =
     dropWhile (\<lambda>x. x \<noteq> ft) [F_INT, F_UINT, F_BOOL, F_FLOAT, F_CHAR, F_CHARX, F_VARCHAR]"

definition commitRollback_as :: "fieldValue \<Rightarrow> int \<Rightarrow> enginecmd \<Rightarrow> fieldtype \<Rightarrow> index \<Rightarrow> index res" where
  "commitRollback_as v subtransactionid cmd ft ix =
     (case ft of
        F_INT \<Rightarrow> commitRollback_int ix (integer v) subtransactionid cmd
      | F_UINT \<Rightarrow> commitRollback_uint ix (uinteger v) subtransactionid cmd
      | F_BOOL \<Rightarrow> commitRollback_bool ix (boolean v) subtransactionid cmd
      | F_FLOAT \<Rightarrow> commitRollback_float ix (floating v) subtransactionid cmd
      | F_CHAR \<Rightarrow> commitRollback_char ix (character v) subtransactionid cmd
      | F_CHARX \<Rightarrow> commitRollback_string ix (str v) subtransactionid cmd
      | F_VARCHAR \<Rightarrow> commitRollback_string ix (str v) subtransactionid cmd
      | NOFIELDTYPE \<Rightarrow> Inr ix)"

definition commitRollbackUnlock_item :: "subTransaction \<Rightarrow> enginecmd \<Rightarrow> rowOrField \<Rightarrow> engine \<Rightarrow> engine res" where
  "commitRollbackUnlock_item st cmd rof en =
     (if rf_isrow rof then
        rmap snd (on_table st (rf_tableid rof) (\<lambda>t.
          unit_res (commitRollbackUnlock (rf_rowid rof) (st_subtransactionid st) COMMITCMD t)) en)
      else
        rmap snd (on_index st (rf_tableid rof) (rf_fieldid rof) (\<lambda>ix. unit_res
          (rfold (commitRollback_as (rf_fieldVal rof) (st_subtransactionid st) cmd)
             (overloads_from (fieldtype ix)) ix)) en))"

definition commitRollbackUnlock_st :: "subTransaction \<Rightarrow> rowOrField list \<Rightarrow> enginecmd \<Rightarrow> engine \<Rightarrow>
    engine res" where
  "commitRollbackUnlock_st st rowOrFields cmd en =
     rfold (commitRollbackUnlock_item st cmd) rowOrFields en"

end
