(* ===== verification/Engine_Relation.thy ===== *)
theory Engine_Relation
  imports Sub_Transaction Row_Isolation
begin

text \<open>
  How a message changes the tables of an engine: by row operations of its own subtransaction and
  by steps of the indices, one table at a time. The locale \<open>table_relation\<close> lifts any relation
  that those steps satisfy from one table to all tables of the engine and to whole messages.
\<close>

section \<open>Steps of an index\<close>

inductive index_step :: "int \<Rightarrow> index \<Rightarrow> index \<Rightarrow> bool" for sub :: int where
  stage_step: "uniqueIndex_on v (queue_entry r e sub p q) ix = Inr (l, ix') \<Longrightarrow> index_step sub ix ix'"
| end_unique_step: "end_unique_entry sub cmd rof ix = Inr ix' \<Longrightarrow> index_step sub ix ix'"
| end_replace_step: "end_replace_entry z rof ix = Inr ix' \<Longrightarrow> index_step sub ix ix'"
| end_other_step: "end_other_entry rof ix = Inr ix' \<Longrightarrow> index_step sub ix ix'"
| drain_step: "index_step sub ix (empty_index_queue v ix)"

section \<open>Tables of an engine\<close>

definition table_in :: "engine \<Rightarrow> int \<Rightarrow> int \<Rightarrow> table option" where
  "table_in en d i = (case domainidsToSchemata en d of None \<Rightarrow> None | Some s \<Rightarrow> sch_tables s i)"

text \<open>What only the engine itself changes: its subtransactions, its counters and its schemata\<close>

definition engine_frame :: "engine \<Rightarrow> (int \<rightharpoonup> subTransaction) \<times> int \<times> int \<times> int set" where
  "engine_frame en = (SubTransactions en, en_nextsubtransactionid en, en_partitionid en,
     dom (domainidsToSchemata en))"

definition engine_rel :: "(table \<Rightarrow> table \<Rightarrow> bool) \<Rightarrow> engine \<Rightarrow> engine \<Rightarrow> bool" where
  "engine_rel R en en' \<longleftrightarrow> (\<forall>d i. rel_option R (table_in en d i) (table_in en' d i))
     \<and> engine_frame en' = engine_frame en"

lemma table_at_iff:
  "table_at st i en = Inr t \<longleftrightarrow> (\<exists>d. st_schemaPtr st = Some d \<and> table_in en d i = Some t)"
  by (auto simp: table_at_def table_in_def split: option.splits)

lemma table_in_set_table:
  "table_at st i en = Inr t0 \<Longrightarrow> table_in (set_table st i t en) d j =
     (if st_schemaPtr st = Some d \<and> j = i then Some t else table_in en d j)"
  by (auto simp: table_at_def table_in_def set_table_def)

lemma table_in_toActor [simp]: "table_in (toActor a m en) = table_in en"
  by (simp add: table_in_def toActor_def fun_eq_iff)

lemma table_in_reply [simp]: "table_in (replyTransaction st rcv m en) = table_in en"
  by (simp add: replyTransaction_def)

lemma table_in_drain_reply [simp]: "table_in (drain_reply i f v e en) = table_in en"
  by (simp add: drain_reply_def Let_def split: option.split)

lemma table_in_drain_replies [simp]: "table_in (fold (drain_reply i f v) es en) = table_in en"
  by (induction es arbitrary: en) simp_all

lemma frame_set_table [simp]: "engine_frame (set_table st i t en) = engine_frame en"
  by (auto simp: engine_frame_def set_table_def split: option.splits)

lemma frame_toActor [simp]: "engine_frame (toActor a m en) = engine_frame en"
  by (simp add: engine_frame_def toActor_def)

lemma frame_reply [simp]: "engine_frame (replyTransaction st rcv m en) = engine_frame en"
  by (simp add: replyTransaction_def)

lemma frame_drain_reply [simp]: "engine_frame (drain_reply i f v e en) = engine_frame en"
  by (simp add: drain_reply_def Let_def split: option.split)

lemma frame_drain_replies [simp]: "engine_frame (fold (drain_reply i f v) es en) = engine_frame en"
  by (induction es arbitrary: en) simp_all

section \<open>Lifting a relation on tables\<close>

locale table_relation =
  fixes sub :: int and R :: "table \<Rightarrow> table \<Rightarrow> bool"
  assumes R_refl: "R t t"
    and R_trans: "R t t1 \<Longrightarrow> R t1 t2 \<Longrightarrow> R t t2"
    and R_rows: "table_step sub t t' \<Longrightarrow> R t t'"
    and R_queue: "R t (t\<lparr>rowLockQueue := q\<rparr>)"
    and R_index: "field_at f t = Inr fd \<Longrightarrow> index_step sub (fd_index fd) ix' \<Longrightarrow> R t (set_index f ix' t)"
begin

lemma engine_refl: "engine_rel R en en"
  by (simp add: engine_rel_def option.rel_refl R_refl)

lemma engine_same:
  "table_in en' = table_in en \<Longrightarrow> engine_frame en' = engine_frame en \<Longrightarrow> engine_rel R en en'"
  by (simp add: engine_rel_def option.rel_refl R_refl)

lemma engine_trans: "engine_rel R en en1 \<Longrightarrow> engine_rel R en1 en2 \<Longrightarrow> engine_rel R en en2"
proof -
  assume ab: "engine_rel R en en1" "engine_rel R en1 en2"
  have "rel_option R (table_in en d i) (table_in en2 d i)" for d i
  proof -
    have "rel_option R (table_in en d i) (table_in en1 d i)"
      "rel_option R (table_in en1 d i) (table_in en2 d i)"
      using ab by (auto simp: engine_rel_def)
    then show ?thesis
      by (cases "table_in en d i"; cases "table_in en1 d i"; cases "table_in en2 d i")
        (auto intro: R_trans)
  qed
  then show "engine_rel R en en2" using ab by (simp add: engine_rel_def)
qed

lemma on_table_rel:
  assumes "on_table st i f en = Inr (r, en')" "\<And>t t'. f t = Inr (r, t') \<Longrightarrow> R t t'"
  shows "engine_rel R en en'"
proof -
  obtain t t' where t: "table_at st i en = Inr t" "f t = Inr (r, t')" "en' = set_table st i t' en"
    using assms(1) by (auto simp: on_table_def)
  have "R t t'" by (rule assms(2) [OF t(2)])
  then show ?thesis
    unfolding engine_rel_def t(3) table_in_set_table [OF t(1)]
    using t(1) by (auto simp: table_at_iff option.rel_refl R_refl)
qed

lemma on_index_rel:
  assumes "on_index st i fid f en = Inr (r, en')" "\<And>ix ix'. f ix = Inr (r, ix') \<Longrightarrow> index_step sub ix ix'"
  shows "engine_rel R en en'"
  using assms(1) unfolding on_index_def
  by (rule on_table_rel) (auto intro: R_index assms(2))

lemma unit_res_step: "unit_res m = Inr (r, x) \<longleftrightarrow> m = Inr x"
  by (cases m) (auto simp: unit_res_def)

lemma searches_rel:
  assumes "st_subtransactionid st = sub"
  shows "selectrows_st z st rcv i rids lt p ret en = Inr (rs, en') \<Longrightarrow> engine_rel R en en'"
    and "searchReturn1 fm z st rcv i f lt sp ret en = Inr (rs, en') \<Longrightarrow> engine_rel R en en'"
proof -
  show sel: "engine_rel R en en'" if "selectrows_st z st rcv i rids lt p ret en = Inr (rs, en')" for rids p rs
    using that unfolding selectrows_st_def
    by (rule on_table_rel) (auto simp: assms intro: R_rows table_step.select_step)
  show "engine_rel R en en'" if s: "searchReturn1 fm z st rcv i f lt sp ret en = Inr (rs, en')"
  proof -
    obtain h where h: "indexSearch fm st i f sp [] en = Inr h"
      using s by (auto simp: searchReturn1_def)
    consider "\<exists>x. h = [x]" | "\<nexists>x. h = [x]" by blast
    then show ?thesis
    proof cases
      case 1
      then show ?thesis using s h sel by (auto simp: searchReturn1_def)
    next
      case 2
      then show ?thesis using s h by (auto simp: searchReturn1_def engine_refl split: list.splits)
    qed
  qed
qed

lemma row_ops_rel:
  assumes "st_subtransactionid st = sub"
  shows "newrow_st st i r en = Inr (rid, en') \<Longrightarrow> engine_rel R en en'"
    and "updaterow_st st i rid r en = Inr (x, en') \<Longrightarrow> engine_rel R en en'"
    and "deleterow_st st i rid en = Inr (x, en') \<Longrightarrow> engine_rel R en en'"
    and "deleterow_forward_st st i rid fr fe en = Inr (x, en') \<Longrightarrow> engine_rel R en en'"
  unfolding newrow_st_def updaterow_st_def deleterow_st_def deleterow_forward_st_def
  by (erule on_table_rel; auto simp: assms intro: R_rows table_step.intros)+

lemma uniqueIndex_rel:
  assumes "st_subtransactionid st = sub" "uniqueIndex st rcv i f rid e v en = Inr (x, en')"
  shows "engine_rel R en en'"
  using assms(2) unfolding uniqueIndex_def
  by (rule on_index_rel) (cases x; auto simp: assms(1) intro: index_step.stage_step)

lemma run_command_rel:
  assumes "st_subtransactionid st = sub" "run_command fm z st rcv en = Inr (m, en')"
  shows "engine_rel R en en'"
  using assms(2) searches_rel [OF assms(1)] row_ops_rel [OF assms(1)] uniqueIndex_rel [OF assms(1)]
  by (cases "ts_enginecmd (sc_transactionStruct rcv)")
    (fastforce simp: run_command_def Let_def engine_refl)+

lemma drain_rel:
  "drainRowLockQueue st i rid en = Inr en' \<Longrightarrow> engine_rel R en en'"
  "drainIndexLockQueue st i f v en = Inr en' \<Longrightarrow> engine_rel R en en'"
proof -
  show "engine_rel R en en'" if "drainRowLockQueue st i rid en = Inr en'"
    using that unfolding drainRowLockQueue_def rmap_eq_Inr
    by (elim exE conjE) (auto simp: Let_def R_queue elim!: on_table_rel)
  show "engine_rel R en en'" if d: "drainIndexLockQueue st i f v en = Inr en'"
  proof -
    obtain ix q where "index_at st i f en = Inr ix" "index_queue v ix = Inr q"
      using d by (auto simp: drainIndexLockQueue_def)
    then consider "en' = en" | es where "on_index st i f (\<lambda>ix. Inr ((), empty_index_queue v ix))
        (fold (drain_reply i f v) es en) = Inr ((), en')"
      using d by (cases q) (auto simp: drainIndexLockQueue_def)
    then show ?thesis
    proof cases
      case 2
      then have b: "engine_rel R (fold (drain_reply i f v) es en) en'"
        by (rule on_index_rel) (auto intro: index_step.drain_step)
      have a: "engine_rel R en (fold (drain_reply i f v) es en)" by (rule engine_same) simp_all
      show ?thesis by (rule engine_trans [OF a b])
    qed (simp add: engine_refl)
  qed
qed

lemma end_row_rel:
  assumes "st_subtransactionid st = sub" "end_row st cmd rof en = Inr en'"
  shows "engine_rel R en en'"
proof -
  obtain there en1 where e: "on_table st (rf_tableid rof) (\<lambda>t.
         rmap (\<lambda>t'. (rows t' (rf_rowid rof) \<noteq> None, t'))
           (commitRollbackUnlock (rf_rowid rof) (st_subtransactionid st) cmd t)) en = Inr (there, en1)"
    "(if there \<and> cmd \<noteq> REVERTCMD then Inr (processRowLockQueue st (rf_tableid rof) (rf_rowid rof) en1)
      else drainRowLockQueue st (rf_tableid rof) (rf_rowid rof) en1) = Inr en'"
    using assms(2) by (auto simp: end_row_def)
  have "engine_rel R en en1"
    using e(1) by (rule on_table_rel) (auto simp: assms(1) intro: R_rows table_step.end_step)
  moreover have "engine_rel R en1 en'"
    using e(2) by (auto simp: processRowLockQueue_def engine_refl split: if_splits intro: drain_rel)
  ultimately show ?thesis by (rule engine_trans)
qed

lemma end_unique_rel:
  assumes "st_subtransactionid st = sub" "end_unique st cmd rof en = Inr en'"
  shows "engine_rel R en en'"
proof -
  obtain en1 where e: "on_index st (rf_tableid rof) (rf_fieldid rof) (\<lambda>ix.
         unit_res (end_unique_entry (st_subtransactionid st) cmd rof ix)) en = Inr ((), en1)"
    "en' = en1 \<or> drainIndexLockQueue st (rf_tableid rof) (rf_fieldid rof) (rf_fieldVal rof) en1 = Inr en'"
    using assms(2) by (auto simp: end_unique_def processIndexLockQueue_def split: if_splits)
  have "engine_rel R en en1"
    using e(1) by (rule on_index_rel) (auto simp: assms(1) unit_res_step intro: index_step.intros)
  moreover have "engine_rel R en1 en'" using e(2) drain_rel engine_refl by blast
  ultimately show ?thesis by (rule engine_trans)
qed

lemma end_notaddunique_rel:
  assumes "end_notaddunique z st rof en = Inr en'"
  shows "engine_rel R en en'"
proof -
  have "on_index st (rf_tableid rof) (rf_fieldid rof) (\<lambda>ix. unit_res
      (if rf_isreplace rof then end_replace_entry z rof ix else end_other_entry rof ix)) en = Inr ((), en')"
    using assms by (auto simp: end_notaddunique_def processIndexLockQueue_def)
  then show ?thesis
    by (rule on_index_rel) (auto simp: unit_res_step split: if_splits intro: index_step.intros)
qed

lemma end_item_rel:
  "st_subtransactionid st = sub \<Longrightarrow> end_item z st cmd rof en = Inr en' \<Longrightarrow> engine_rel R en en'"
  by (auto simp: end_item_def split: if_splits
      intro: end_row_rel end_unique_rel end_notaddunique_rel)

theorem processTransactionMessage_rel:
  assumes "st_subtransactionid st = sub" "processTransactionMessage fm z st m en = Inr en'"
  shows "engine_rel R en en'"
proof (cases m)
  case (PAYLOADSUBTRANSACTION rcv)
  then obtain x en1 where "run_command fm z st rcv en = Inr (x, en1)"
    "en' = replyTransaction st (sc_transactionStruct rcv) (PAYLOADSUBTRANSACTION x) en1"
    using assms(2) by (auto simp: processTransactionMessage_def)
  then show ?thesis using run_command_rel [OF assms(1)] by (simp add: engine_rel_def)
next
  case (PAYLOADCOMMITROLLBACK rcv)
  let ?cmd = "ts_enginecmd (cr_transactionStruct rcv)"
  obtain en1 where e: "rfold (end_item z st ?cmd) (cr_rofs rcv) en = Inr en1"
    "table_in en' = table_in en1" "engine_frame en' = engine_frame en1"
    using assms(2) PAYLOADCOMMITROLLBACK
    by (auto simp: processTransactionMessage_def end_transaction_def Let_def split: if_splits)
  have "engine_rel R en en1"
    by (rule rfold_invariant [where I = "engine_rel R en", OF _ engine_refl e(1)])
      (use end_item_rel [OF assms(1)] engine_trans in blast)
  then show ?thesis using e(2,3) by (simp add: engine_rel_def)
qed

end

section \<open>The invariant of the tables and the isolation of the rows\<close>

text \<open>The step keeps the invariant of the table and the rows locked by any other subtransaction.\<close>

definition isolated :: "int \<Rightarrow> table \<Rightarrow> table \<Rightarrow> bool" where
  "isolated sub t t' \<longleftrightarrow>
     (table_inv t \<longrightarrow> table_inv t' \<and> (\<forall>s rid. s \<noteq> sub \<longrightarrow> row_kept s t t' rid))"

lemma isolated_frame:
  assumes "rows t' = rows t" "shadowRows t' = shadowRows t" "heap t' = heap t" "brk t' = brk t"
    and "nextrowid t' = nextrowid t"
  shows "isolated sub t t'"
  using assms row_kept_same [of t' t] by (simp add: isolated_def table_inv_def)

interpretation iso: table_relation sub "isolated sub" for sub
proof
  show "isolated sub t t" for t by (rule isolated_frame) simp_all
  show "isolated sub t t1 \<Longrightarrow> isolated sub t1 t2 \<Longrightarrow> isolated sub t t2" for t t1 t2
    unfolding isolated_def using row_kept_trans by blast
  show "table_step sub t t' \<Longrightarrow> isolated sub t t'" for t t'
    unfolding isolated_def by (intro impI conjI allI) (erule (1) table_step_inv, erule (1) kept_step, simp)
  show "isolated sub t (t\<lparr>rowLockQueue := q\<rparr>)" for t q by (rule isolated_frame) simp_all
  show "isolated sub t (set_index f ix' t)" for f t ix'
    by (rule isolated_frame) (simp_all add: set_index_def)
qed

end
