(* ===== verification/Index_Steps.thy ===== *)
theory Index_Steps
  imports Engine_Relation Index_Commit
begin

text \<open>
  The steps of an index keep its invariant. Beside the invariant of the selected map
  (\<open>index_wf\<close>) every map that is allocated keeps the order of its kind, and no map is allocated
  or freed: \<open>typed_kept\<close> says so for the maps of one key type, and is proved once for each body.
\<close>

section \<open>Maps of one key type\<close>

definition typed_ok :: "'k::linorder typed_index \<Rightarrow> bool" where
  "typed_ok t \<longleftrightarrow>
     (\<forall>m. uniqueIdx t = Some m \<longrightarrow> sm_ok m) \<and> (\<forall>m. nonuniqueIdx t = Some m \<longrightarrow> mm_ok m)
     \<and> (\<forall>m. unorderedIdx t = Some m \<longrightarrow> um_ok m)"

definition typed_kept :: "'k::linorder typed_index \<Rightarrow> 'k typed_index \<Rightarrow> bool" where
  "typed_kept t t' \<longleftrightarrow>
     (uniqueIdx t' = None \<longleftrightarrow> uniqueIdx t = None) \<and> (nonuniqueIdx t' = None \<longleftrightarrow> nonuniqueIdx t = None)
     \<and> (unorderedIdx t' = None \<longleftrightarrow> unorderedIdx t = None) \<and> (lockQueue t' = None \<longleftrightarrow> lockQueue t = None)
     \<and> (typed_ok t \<longrightarrow> typed_ok t')"

lemma typed_kept_refl [simp]: "typed_kept t t"
  by (simp add: typed_kept_def)

lemma typed_kept_trans: "typed_kept t t1 \<Longrightarrow> typed_kept t1 t2 \<Longrightarrow> typed_kept t t2"
  by (simp add: typed_kept_def)

named_theorems kept_intros \<open>the bodies that keep the maps\<close>

lemma commit_entry_ok:
  assumes "commit_entry k s m = Inr m'"
  shows "sm_ok m' = sm_ok m" "um_ok m' = um_ok m"
proof -
  have "map fst m' = map fst m" using commit_entry_total [of k s m] assms by auto
  then show "sm_ok m' = sm_ok m" "um_ok m' = um_ok m" by (simp_all add: sm_ok_def um_ok_def)
qed

lemma rollback_entry_ok:
  assumes "rollback_entry k s m = Inr (b, m')"
  shows "sm_ok m \<Longrightarrow> sm_ok m'" "um_ok m \<Longrightarrow> um_ok m'"
proof -
  have "m' = map_erase k m \<or> m' = m"
    using rollback_entry_total [of k s m] assms by (auto split: if_splits)
  then show "sm_ok m \<Longrightarrow> sm_ok m'" "um_ok m \<Longrightarrow> um_ok m'"
    by (auto simp: ordered.ok_erase unordered.ok_erase)
qed

lemma typed_kept_unique:
  assumes "uniqueIdx t = Some m" "sm_ok m \<Longrightarrow> sm_ok m'"
  shows "typed_kept t (t\<lparr>uniqueIdx := Some m'\<rparr>)"
  using assms by (simp add: typed_kept_def typed_ok_def)

lemma typed_kept_unordered:
  assumes "unorderedIdx t = Some m" "um_ok m \<Longrightarrow> um_ok m'"
  shows "typed_kept t (t\<lparr>unorderedIdx := Some m'\<rparr>)"
  using assms by (simp add: typed_kept_def typed_ok_def)

lemma kept_unique_bodies [kept_intros]:
  "commit_unique k s t = Inr t' \<Longrightarrow> typed_kept t t'"
  "rollback_unique k s t = Inr t' \<Longrightarrow> typed_kept t t'"
  "put_unique k e t = Inr t' \<Longrightarrow> typed_kept t t'"
  "erase_unique k t = Inr t' \<Longrightarrow> typed_kept t t'"
  by (auto simp: commit_unique_def rollback_unique_def put_unique_def erase_unique_def
      commit_entry_ok ordered.ok_erase ordered.ok_put intro!: typed_kept_unique dest: rollback_entry_ok)

lemma kept_unordered_bodies [kept_intros]:
  "commit_unordered k s t = Inr t' \<Longrightarrow> typed_kept t t'"
  "rollback_unordered_continues k s t = Inr (b, t') \<Longrightarrow> typed_kept t t'"
  "put_unordered k e t = Inr t' \<Longrightarrow> typed_kept t t'"
  "erase_unordered k t = Inr t' \<Longrightarrow> typed_kept t t'"
  by (auto simp: commit_unordered_def rollback_unordered_continues_def
      put_unordered_def erase_unordered_def commit_entry_ok unordered.ok_erase unordered.ok_put
      intro!: typed_kept_unordered dest: rollback_entry_ok)

lemma kept_rollback_unordered [kept_intros]:
  "rollback_unordered k s t = Inr t' \<Longrightarrow> typed_kept t t'"
  by (auto simp: rollback_unordered_def intro: kept_unordered_bodies)

lemma kept_nonunique_bodies [kept_intros]:
  "insert_nonunique k r e t = Inr t' \<Longrightarrow> typed_kept t t'"
  "delete_nonunique k r e t = Inr t' \<Longrightarrow> typed_kept t t'"
  "replace_nonunique r e r' e' k t = Inr t' \<Longrightarrow> typed_kept t t'"
proof -
  show "insert_nonunique k r e t = Inr t' \<Longrightarrow> typed_kept t t'"
    by (auto simp: insert_nonunique_def typed_kept_def typed_ok_def mm_insert_ok)
  show "delete_nonunique k r e t = Inr t' \<Longrightarrow> typed_kept t t'"
    using nonunique_bodies(2) [of t k r e]
    by (auto simp: delete_nonunique_def typed_kept_def typed_ok_def nonunique_ready_def)
  show "replace_nonunique r e r' e' k t = Inr t' \<Longrightarrow> typed_kept t t'"
    using nonunique_bodies(3) [of t r e r' e' k]
    by (auto simp: replace_nonunique_def typed_kept_def typed_ok_def nonunique_ready_def)
qed

lemma kept_queue_bodies [kept_intros]:
  "queue_push k q t = Inr t' \<Longrightarrow> typed_kept t t'"
  "typed_kept t (empty_queue k t)"
  by (auto simp: queue_push_def empty_queue_def typed_kept_def typed_ok_def)

lemma kept_stage_bodies [kept_intros]:
  "stage_unique k e t = Inr (l, t') \<Longrightarrow> typed_kept t t'"
  "stage_unordered k e t = Inr (l, t') \<Longrightarrow> typed_kept t t'"
  by (auto simp: stage_unique_def stage_unordered_def stage_entry_def split: if_splits
      intro: kept_intros)

section \<open>Indices\<close>

definition index_kept :: "index \<Rightarrow> index \<Rightarrow> bool" where
  "index_kept ix ix' \<longleftrightarrow> same_kind ix ix' \<and> typed_kept (intIx ix) (intIx ix')
     \<and> typed_kept (uintIx ix) (uintIx ix') \<and> typed_kept (boolIx ix) (boolIx ix')
     \<and> typed_kept (floatIx ix) (floatIx ix') \<and> typed_kept (charIx ix) (charIx ix')
     \<and> typed_kept (stringIx ix) (stringIx ix')"

definition index_ok :: "index \<Rightarrow> bool" where
  "index_ok ix \<longleftrightarrow> index_wf ix \<and> typed_ok (intIx ix) \<and> typed_ok (uintIx ix) \<and> typed_ok (boolIx ix)
     \<and> typed_ok (floatIx ix) \<and> typed_ok (charIx ix) \<and> typed_ok (stringIx ix)"

lemma index_kept_refl [simp]: "index_kept ix ix"
  by (simp add: index_kept_def same_kind_def)

lemma same_kind_trans: "same_kind ix ix1 \<Longrightarrow> same_kind ix1 ix2 \<Longrightarrow> same_kind ix ix2"
  by (simp add: same_kind_def)

lemma index_kept_trans:
  assumes "index_kept ix ix1" "index_kept ix1 ix2"
  shows "index_kept ix ix2"
  using assms unfolding index_kept_def
  by (elim conjE, intro conjI) (erule (1) same_kind_trans, (erule (1) typed_kept_trans)+)

lemma ready_iff:
  assumes "typed_ok t"
  shows "unique_ready t \<longleftrightarrow> lockQueue t \<noteq> None \<and> uniqueIdx t \<noteq> None"
    and "nonunique_ready t \<longleftrightarrow> nonuniqueIdx t \<noteq> None"
    and "unordered_ready t \<longleftrightarrow> lockQueue t \<noteq> None \<and> unorderedIdx t \<noteq> None"
  using assms unfolding typed_ok_def unique_ready_def nonunique_ready_def unordered_ready_def by auto

lemma typed_kept_ok: "typed_kept t t' \<Longrightarrow> typed_ok t \<Longrightarrow> typed_ok t'"
  by (simp add: typed_kept_def)

lemma ready_kept:
  assumes "typed_kept t t'" "typed_ok t"
  shows "unique_ready t \<Longrightarrow> unique_ready t'" "nonunique_ready t \<Longrightarrow> nonunique_ready t'"
    and "unordered_ready t \<Longrightarrow> unordered_ready t'"
  using assms(1) unfolding ready_iff [OF assms(2)] ready_iff [OF typed_kept_ok [OF assms]]
  by (simp_all add: typed_kept_def)

lemma index_ok_kept:
  assumes "index_kept ix ix'" "index_ok ix"
  shows "index_ok ix'"
proof -
  have k: "typed_kept (intIx ix) (intIx ix')" "typed_kept (uintIx ix) (uintIx ix')"
    "typed_kept (boolIx ix) (boolIx ix')" "typed_kept (floatIx ix) (floatIx ix')"
    "typed_kept (charIx ix) (charIx ix')" "typed_kept (stringIx ix) (stringIx ix')"
    and imt: "indexmaptype ix' = indexmaptype ix"
    using assms(1) by (simp_all add: index_kept_def same_kind_def)
  have o: "typed_ok (intIx ix)" "typed_ok (uintIx ix)" "typed_ok (boolIx ix)" "typed_ok (floatIx ix)"
    "typed_ok (charIx ix)" "typed_ok (stringIx ix)" and wf: "index_wf ix"
    using assms(2) by (simp_all add: index_ok_def)
  note r = ready_kept [OF k(1) o(1)] ready_kept [OF k(2) o(2)] ready_kept [OF k(3) o(3)]
    ready_kept [OF k(4) o(4)] ready_kept [OF k(5) o(5)] ready_kept [OF k(6) o(6)]
  have "index_wf ix'"
    using wf by (cases "indexmaptype ix") (simp_all add: index_wf_def imt r)
  then show ?thesis
    using typed_kept_ok [OF k(1) o(1)] typed_kept_ok [OF k(2) o(2)] typed_kept_ok [OF k(3) o(3)]
      typed_kept_ok [OF k(4) o(4)] typed_kept_ok [OF k(5) o(5)] typed_kept_ok [OF k(6) o(6)]
    by (simp add: index_ok_def)
qed

lemma makeindex_ok: "index_ok (makeindex it ft Index)"
proof -
  have e: "typed_ok null_typed_index" "typed_ok (new_unique null_typed_index)"
    "typed_ok (new_nonunique null_typed_index)" "typed_ok (new_unordered null_typed_index)"
    by (auto simp: typed_ok_def null_typed_index_def new_unique_def new_nonunique_def
        new_unordered_def sm_ok_def mm_ok_def um_ok_def)
  have a: "index_ok (allocate_maps ix)" if "intIx ix = null_typed_index" "uintIx ix = null_typed_index"
    "boolIx ix = null_typed_index" "floatIx ix = null_typed_index" "charIx ix = null_typed_index"
    "stringIx ix = null_typed_index" for ix
    using that by (cases "indexmaptype ix") (simp_all add: index_ok_def e, simp_all add: allocate_maps_def e)
  show ?thesis
  proof (cases "it = NONE")
    case True
    then show ?thesis
      by (simp add: makeindex_def Let_def Index_def index_ok_def index_wf_def e)
  next
    case False
    then show ?thesis by (simp add: makeindex_def Let_def a Index_def)
  qed
qed

lemma upd_kept [kept_intros]:
  "upd_int fi ix = Inr ix' \<Longrightarrow> (\<And>t'. fi (intIx ix) = Inr t' \<Longrightarrow> typed_kept (intIx ix) t') \<Longrightarrow> index_kept ix ix'"
  "upd_uint fu ix = Inr ix' \<Longrightarrow> (\<And>t'. fu (uintIx ix) = Inr t' \<Longrightarrow> typed_kept (uintIx ix) t') \<Longrightarrow> index_kept ix ix'"
  "upd_bool fb ix = Inr ix' \<Longrightarrow> (\<And>t'. fb (boolIx ix) = Inr t' \<Longrightarrow> typed_kept (boolIx ix) t') \<Longrightarrow> index_kept ix ix'"
  "upd_float ff ix = Inr ix' \<Longrightarrow> (\<And>t'. ff (floatIx ix) = Inr t' \<Longrightarrow> typed_kept (floatIx ix) t') \<Longrightarrow> index_kept ix ix'"
  "upd_char fc ix = Inr ix' \<Longrightarrow> (\<And>t'. fc (charIx ix) = Inr t' \<Longrightarrow> typed_kept (charIx ix) t') \<Longrightarrow> index_kept ix ix'"
  "upd_string fs ix = Inr ix' \<Longrightarrow> (\<And>t'. fs (stringIx ix) = Inr t' \<Longrightarrow> typed_kept (stringIx ix) t') \<Longrightarrow> index_kept ix ix'"
  by (auto simp: upd_defs index_kept_def same_kind_def)

lemma with_kept [kept_intros]:
  "with_int fi ix = Inr (l, ix') \<Longrightarrow> (\<And>t'. fi (intIx ix) = Inr (l, t') \<Longrightarrow> typed_kept (intIx ix) t') \<Longrightarrow> index_kept ix ix'"
  "with_uint fu ix = Inr (l, ix') \<Longrightarrow> (\<And>t'. fu (uintIx ix) = Inr (l, t') \<Longrightarrow> typed_kept (uintIx ix) t') \<Longrightarrow> index_kept ix ix'"
  "with_bool fb ix = Inr (l, ix') \<Longrightarrow> (\<And>t'. fb (boolIx ix) = Inr (l, t') \<Longrightarrow> typed_kept (boolIx ix) t') \<Longrightarrow> index_kept ix ix'"
  "with_float ff ix = Inr (l, ix') \<Longrightarrow> (\<And>t'. ff (floatIx ix) = Inr (l, t') \<Longrightarrow> typed_kept (floatIx ix) t') \<Longrightarrow> index_kept ix ix'"
  "with_char fc ix = Inr (l, ix') \<Longrightarrow> (\<And>t'. fc (charIx ix) = Inr (l, t') \<Longrightarrow> typed_kept (charIx ix) t') \<Longrightarrow> index_kept ix ix'"
  "with_string fs ix = Inr (l, ix') \<Longrightarrow> (\<And>t'. fs (stringIx ix) = Inr (l, t') \<Longrightarrow> typed_kept (stringIx ix) t') \<Longrightarrow> index_kept ix ix'"
  by (auto simp: with_int_def with_uint_def with_bool_def with_float_def with_char_def with_string_def
      index_kept_def same_kind_def)

section \<open>Every step\<close>

lemma kept_commitRollback_scalar:
  "commitRollback_int ix i s cmd = Inr ix' \<Longrightarrow> index_kept ix ix'"
  "commitRollback_uint ix u s cmd = Inr ix' \<Longrightarrow> index_kept ix ix'"
  "commitRollback_bool ix b s cmd = Inr ix' \<Longrightarrow> index_kept ix ix'"
  "commitRollback_float ix f s cmd = Inr ix' \<Longrightarrow> index_kept ix ix'"
  "commitRollback_char ix c s cmd = Inr ix' \<Longrightarrow> index_kept ix ix'"
  unfolding commitRollback_defs Let_def
  by (cases cmd; cases "indexmaptype ix"; simp; elim upd_kept kept_unique_bodies kept_unordered_bodies kept_rollback_unordered)+

lemma string_maps_kept:
  "typed_kept (stringIx ix) t \<Longrightarrow> index_kept ix (ix\<lparr>stringIx := t\<rparr>)"
  by (simp add: index_kept_def same_kind_def)

lemma kept_commitRollback_string:
  assumes "commitRollback_string ix v s cmd = Inr ix'"
  shows "index_kept ix ix'"
proof (cases "cmd = ROLLBACKCMD \<and> indexmaptype ix = unorderedcharx")
  case True
  then obtain b t where t: "rollback_unordered_continues v s (stringIx ix) = Inr (b, t)"
    "(if b then upd_string (rollback_unique v s) (ix\<lparr>stringIx := t\<rparr>) else Inr (ix\<lparr>stringIx := t\<rparr>)) = Inr ix'"
    using assms by (auto simp: commitRollback_string_def)
  have k: "index_kept ix (ix\<lparr>stringIx := t\<rparr>)"
    by (rule string_maps_kept) (rule kept_unordered_bodies(2) [OF t(1)])
  show ?thesis
  proof (cases b)
    case True
    then have "upd_string (rollback_unique v s) (ix\<lparr>stringIx := t\<rparr>) = Inr ix'" using t(2) by simp
    then have "index_kept (ix\<lparr>stringIx := t\<rparr>) ix'" by (elim upd_kept kept_unique_bodies)
    then show ?thesis by (rule index_kept_trans [OF k])
  qed (use t(2) k in simp)
next
  case False
  then show ?thesis
    using assms unfolding commitRollback_string_def
    by (cases cmd; cases "indexmaptype ix"; simp;
        elim upd_kept kept_unique_bodies kept_unordered_bodies kept_rollback_unordered)
qed

lemma kept_replaceUnique:
  "replaceUnique_int z ix r e i = Inr ix' \<Longrightarrow> index_kept ix ix'"
  "replaceUnique_uint z ix r e u = Inr ix' \<Longrightarrow> index_kept ix ix'"
  "replaceUnique_bool z ix r e b = Inr ix' \<Longrightarrow> index_kept ix ix'"
  "replaceUnique_float z ix r e f = Inr ix' \<Longrightarrow> index_kept ix ix'"
  "replaceUnique_char z ix r e c = Inr ix' \<Longrightarrow> index_kept ix ix'"
  "replaceUnique_string z ix r e s = Inr ix' \<Longrightarrow> index_kept ix ix'"
  unfolding replaceUnique_defs Let_def
  by (cases "indexmaptype ix"; simp; elim upd_kept kept_unique_bodies kept_unordered_bodies)+

lemma kept_deleteUniqueEntry:
  "deleteUniqueEntry_int ix i = Inr ix' \<Longrightarrow> index_kept ix ix'"
  "deleteUniqueEntry_uint ix u = Inr ix' \<Longrightarrow> index_kept ix ix'"
  "deleteUniqueEntry_bool ix b = Inr ix' \<Longrightarrow> index_kept ix ix'"
  "deleteUniqueEntry_float ix f = Inr ix' \<Longrightarrow> index_kept ix ix'"
  "deleteUniqueEntry_char ix c = Inr ix' \<Longrightarrow> index_kept ix ix'"
  "deleteUniqueEntry_string ix s = Inr ix' \<Longrightarrow> index_kept ix ix'"
  unfolding deleteUniqueEntry_defs Let_def
  by (cases "indexmaptype ix"; simp; elim upd_kept kept_unique_bodies kept_unordered_bodies)+

lemmas replaceNonunique_defs = replaceNonunique_int_def replaceNonunique_uint_def
  replaceNonunique_bool_def replaceNonunique_float_def replaceNonunique_char_def
  replaceNonunique_string_def

lemma kept_nonunique:
  "replaceNonunique_int ix r e r' e' i = Inr ix' \<Longrightarrow> index_kept ix ix'"
  "replaceNonunique_uint ix r e r' e' u = Inr ix' \<Longrightarrow> index_kept ix ix'"
  "replaceNonunique_bool ix r e r' e' b = Inr ix' \<Longrightarrow> index_kept ix ix'"
  "replaceNonunique_float ix r e r' e' f = Inr ix' \<Longrightarrow> index_kept ix ix'"
  "replaceNonunique_char ix r e r' e' c = Inr ix' \<Longrightarrow> index_kept ix ix'"
  "replaceNonunique_string ix r e r' e' s = Inr ix' \<Longrightarrow> index_kept ix ix'"
  "insertNonuniqueEntry_int ix i r e = Inr ix' \<Longrightarrow> index_kept ix ix'"
  "insertNonuniqueEntry_uint ix u r e = Inr ix' \<Longrightarrow> index_kept ix ix'"
  "insertNonuniqueEntry_bool ix b r e = Inr ix' \<Longrightarrow> index_kept ix ix'"
  "insertNonuniqueEntry_float ix f r e = Inr ix' \<Longrightarrow> index_kept ix ix'"
  "insertNonuniqueEntry_char ix c r e = Inr ix' \<Longrightarrow> index_kept ix ix'"
  "insertNonuniqueEntry_string ix s r e = Inr ix' \<Longrightarrow> index_kept ix ix'"
  "deleteNonuniqueEntry_int ix i r e = Inr ix' \<Longrightarrow> index_kept ix ix'"
  "deleteNonuniqueEntry_uint ix u r e = Inr ix' \<Longrightarrow> index_kept ix ix'"
  "deleteNonuniqueEntry_bool ix b r e = Inr ix' \<Longrightarrow> index_kept ix ix'"
  "deleteNonuniqueEntry_float ix f r e = Inr ix' \<Longrightarrow> index_kept ix ix'"
  "deleteNonuniqueEntry_char ix c r e = Inr ix' \<Longrightarrow> index_kept ix ix'"
  "deleteNonuniqueEntry_string ix s r e = Inr ix' \<Longrightarrow> index_kept ix ix'"
  unfolding replaceNonunique_defs insertNonunique_defs deleteNonunique_defs Let_def
  by (elim upd_kept kept_nonunique_bodies)+

lemmas kept_overloads = kept_commitRollback_scalar kept_commitRollback_string kept_replaceUnique
  kept_deleteUniqueEntry kept_nonunique

lemma kept_nulls [simp]:
  "index_kept ix (insertNullEntry ix r e)" "index_kept ix (deleteNullEntry ix r e)"
  "index_kept ix (replaceNull ix r e r' e')"
  by (simp_all add: insertNullEntry_def deleteNullEntry_def replaceNull_def index_kept_def same_kind_def)

lemma kept_end_entries:
  "end_unique_entry sub cmd rof ix = Inr ix' \<Longrightarrow> index_kept ix ix'"
  "end_replace_entry z rof ix = Inr ix' \<Longrightarrow> index_kept ix ix'"
  "end_other_entry rof ix = Inr ix' \<Longrightarrow> index_kept ix ix'"
  unfolding end_unique_entry_def end_replace_entry_def end_other_entry_def Let_def
  by (cases "fieldtype ix"; auto split: if_splits elim: kept_overloads)+

lemma kept_uniqueIndex_on:
  assumes "uniqueIndex_on v q ix = Inr (l, ix')"
  shows "index_kept ix ix'"
  using assms
  unfolding uniqueIndex_on_def uniqueIndex_int_def uniqueIndex_uint_def uniqueIndex_bool_def
    uniqueIndex_float_def uniqueIndex_char_def uniqueIndex_string_def Let_def
  by (cases "indexmaptype ix"; auto elim!: with_kept intro: kept_stage_bodies)

lemma kept_drain: "index_kept ix (empty_index_queue v ix)"
  by (cases "fieldtype ix")
    (simp_all add: empty_index_queue_def index_kept_def same_kind_def kept_queue_bodies)

lemma index_step_kept: "index_step sub ix ix' \<Longrightarrow> index_kept ix ix'"
  by (induction rule: index_step.induct) (auto intro: kept_end_entries kept_uniqueIndex_on kept_drain)

section \<open>The indices of an engine\<close>

definition indices_ok :: "table \<Rightarrow> bool" where
  "indices_ok t \<longleftrightarrow> (\<forall>fd \<in> set (tb_fields t). index_ok (fd_index fd))"

text \<open>The fields stay, and with them their indices, each well-formed if it was.\<close>

definition fields_kept :: "table \<Rightarrow> table \<Rightarrow> bool" where
  "fields_kept t t' \<longleftrightarrow>
     list_all2 (\<lambda>fd fd'. \<exists>ix'. fd' = fd\<lparr>fd_index := ix'\<rparr> \<and> index_kept (fd_index fd) ix')
       (tb_fields t) (tb_fields t')"

lemma indices_ok_kept:
  assumes "fields_kept t t'" "indices_ok t"
  shows "indices_ok t'"
  unfolding indices_ok_def
proof
  fix fd' assume "fd' \<in> set (tb_fields t')"
  then obtain i where i: "i < length (tb_fields t')" "fd' = tb_fields t' ! i"
    by (metis in_set_conv_nth)
  with assms(1) obtain ix' where ix': "fd' = (tb_fields t ! i)\<lparr>fd_index := ix'\<rparr>"
    "index_kept (fd_index (tb_fields t ! i)) ix'" and "i < length (tb_fields t)"
    unfolding fields_kept_def list_all2_conv_all_nth by auto
  then have "index_ok (fd_index (tb_fields t ! i))" using assms(2) by (simp add: indices_ok_def)
  then show "index_ok (fd_index fd')" using ix' index_ok_kept by simp
qed

lemma fields_kept_refl: "fields_kept t t"
proof -
  have "fd = fd\<lparr>fd_index := fd_index fd\<rparr> \<and> index_kept (fd_index fd) (fd_index fd)" for fd :: field
    by simp
  then show ?thesis unfolding fields_kept_def by (intro list.rel_refl) blast
qed

lemma fields_kept_same: "tb_fields t' = tb_fields t \<Longrightarrow> fields_kept t t'"
  using fields_kept_refl [of t] by (simp add: fields_kept_def)

lemma fields_kept_trans:
  assumes "fields_kept t t1" "fields_kept t1 t2"
  shows "fields_kept t t2"
  unfolding fields_kept_def
  by (rule list_all2_trans [OF _ assms [unfolded fields_kept_def]]) (auto, blast intro: index_kept_trans)

lemma fields_kept_set_index:
  assumes "field_at f t = Inr fd" "index_kept (fd_index fd) ix'"
  shows "fields_kept t (set_index f ix' t)"
proof -
  have f: "nat f < length (tb_fields t)" "fd = tb_fields t ! nat f"
    using assms(1) by (auto simp: field_at_def split: if_splits)
  show ?thesis
    using fields_kept_refl [of t] assms(2) f
    by (auto simp: fields_kept_def set_index_def list_all2_conv_all_nth nth_list_update)
qed

text \<open>No row operation touches the fields.\<close>

lemma frame_fields [simp]:
  "tb_fields (store a r t) = tb_fields t" "tb_fields (shadow_erase rid t) = tb_fields t"
  "tb_fields (rows_erase rid t) = tb_fields t" "tb_fields (forwarder_erase rid t) = tb_fields t"
  "tb_fields (lockQueue_push rid e t) = tb_fields t" "tb_fields (newrow rid sub r' t) = tb_fields t"
  by (simp_all add: store_def shadow_erase_def rows_erase_def forwarder_erase_def lockQueue_push_def
      newrow_def alloc_def Let_def)

lemma free_fields: "free a t = Inr t' \<Longrightarrow> tb_fields t' = tb_fields t"
  by (auto simp: free_def split: option.splits)

lemma shadow_delete_fields: "shadow_delete rid t = Inr t' \<Longrightarrow> tb_fields t' = tb_fields t"
  by (auto simp: shadow_delete_def dest: free_fields split: option.splits)

lemma select_fields:
  "select_nolock z sub rid (t, ret) = Inr (t', ret') \<Longrightarrow> tb_fields t' = tb_fields t"
  "select_readlock z sub p q rid (t, ret) = Inr (t', ret') \<Longrightarrow> tb_fields t' = tb_fields t"
  "select_writelock z sub p q rid (t, ret) = Inr (t', ret') \<Longrightarrow> tb_fields t' = tb_fields t"
  by (auto simp: select_nolock_def select_readlock_def select_writelock_def select_pending_def
      assignToLockQueue_def Let_def split: if_splits locktype.splits)

lemma rfold_fields:
  assumes "\<And>x s s'. f x s = Inr s' \<Longrightarrow> tb_fields (fst s') = tb_fields (fst s)" "rfold f xs s = Inr s'"
  shows "tb_fields (fst s') = tb_fields (fst s)"
  using rfold_invariant [of xs "\<lambda>u. tb_fields (fst u) = tb_fields (fst s)" f s s'] assms by auto

lemma selectrows_fields:
  assumes "selectrows z rids lt sub p q (t, ret) = Inr (t', ret')"
  shows "tb_fields t' = tb_fields t"
  using assms rfold_fields [of "select_nolock z sub" rids "(t, ret)" "(t', ret')"]
    rfold_fields [of "select_readlock z sub p q" rids "(t, ret)" "(t', ret')"]
    rfold_fields [of "select_writelock z sub p q" rids "(t, ret)" "(t', ret')"] select_fields
  by (cases lt) (auto simp: selectrows_def)

lemma end_fields:
  "commit_row rid sub t = Inr t' \<Longrightarrow> tb_fields t' = tb_fields t"
  "rollback_row rid sub t = Inr t' \<Longrightarrow> tb_fields t' = tb_fields t"
  "unlock_row rid sub t = Inr t' \<Longrightarrow> tb_fields t' = tb_fields t"
  "revert_row rid sub t = Inr t' \<Longrightarrow> tb_fields t' = tb_fields t"
proof -
  show "commit_row rid sub t = Inr t' \<Longrightarrow> tb_fields t' = tb_fields t"
    by (auto simp: commit_row_def Let_def split: if_splits option.splits
        dest!: free_fields shadow_delete_fields)
  show "rollback_row rid sub t = Inr t' \<Longrightarrow> tb_fields t' = tb_fields t"
    by (auto simp: rollback_row_def Let_def split: if_splits option.splits
        dest!: free_fields shadow_delete_fields)
  show "unlock_row rid sub t = Inr t' \<Longrightarrow> tb_fields t' = tb_fields t"
    by (auto simp: unlock_row_def split: if_splits)
  show "revert_row rid sub t = Inr t' \<Longrightarrow> tb_fields t' = tb_fields t"
    by (auto simp: revert_row_def Let_def split: if_splits)
qed

lemma table_step_fields:
  assumes "table_step sub t t'"
  shows "tb_fields t' = tb_fields t"
  using assms
proof cases
  case (insert_step rid t1 r)
  then show ?thesis by (auto simp: getnextrowid_def split: if_splits)
next
  case (update_step rid r st)
  then show ?thesis by (auto simp: updaterow_def alloc_def split: if_splits)
next
  case (delete_step rid st)
  then show ?thesis by (auto simp: deleterow_def split: if_splits)
next
  case (replace_step rid fr fe st)
  then show ?thesis by (auto simp: deleterow_forward_def deleterow_def Let_def split: if_splits)
next
  case (select_step z rids lt p q ret ret')
  then show ?thesis using selectrows_fields by blast
next
  case (end_step rid cmd)
  then show ?thesis by (cases cmd) (auto simp: commitRollbackUnlock_def dest: end_fields)
qed

interpretation fields: table_relation sub fields_kept for sub
proof
  show "table_step sub t t' \<Longrightarrow> fields_kept t t'" for t t'
    by (rule fields_kept_same) (rule table_step_fields)
  show "field_at f t = Inr fd \<Longrightarrow> index_step sub (fd_index fd) ix' \<Longrightarrow> fields_kept t (set_index f ix' t)"
    for f t fd ix' by (erule fields_kept_set_index) (rule index_step_kept)
qed (auto intro: fields_kept_refl fields_kept_trans fields_kept_same)

end
