(* ===== verification/Unique_Index.thy ===== *)
theory Unique_Index
  imports Index_Steps
begin

text \<open>
  The abstract specification of a unique index, and the proof that staging, commit and rollback
  refine it. Whatever the key type and the kind of map, the index is a map from keys to entries;
  an entry with a subtransaction is staged by it, one without is committed.
\<close>

section \<open>Abstract specification\<close>

type_synonym 'k entries = "'k \<rightharpoonup> lockingIndexEntry"

definition abs_stage :: "'k \<Rightarrow> lockingIndexEntry \<Rightarrow> 'k entries \<Rightarrow> locktype \<times> 'k entries" where
  "abs_stage k e M =
     (case M k of
        None \<Rightarrow> (INDEXLOCK, M(k \<mapsto> e))
      | Some cur \<Rightarrow> (if li_subtransactionid cur \<noteq> 0 then INDEXPENDINGLOCK else NOLOCK, M))"

definition abs_commit :: "'k \<Rightarrow> int \<Rightarrow> 'k entries \<Rightarrow> 'k entries" where
  "abs_commit k sub M =
     (case M k of
        None \<Rightarrow> M
      | Some e \<Rightarrow> if li_subtransactionid e = sub then M(k \<mapsto> e\<lparr>li_subtransactionid := 0\<rparr>) else M)"

definition abs_rollback :: "'k \<Rightarrow> int \<Rightarrow> 'k entries \<Rightarrow> 'k entries" where
  "abs_rollback k sub M =
     (case M k of
        None \<Rightarrow> M
      | Some e \<Rightarrow> if li_subtransactionid e = sub then M(k := None) else M)"

lemma abs_stage_rollback:
  assumes "M k = None" "li_subtransactionid e = sub"
  shows "abs_rollback k sub (snd (abs_stage k e M)) = M"
  using assms by (auto simp: abs_stage_def abs_rollback_def fun_eq_iff)

lemma abs_stage_commit:
  assumes "M k = None" "li_subtransactionid e = sub"
  shows "abs_commit k sub (snd (abs_stage k e M)) = M(k \<mapsto> e\<lparr>li_subtransactionid := 0\<rparr>)"
  using assms by (auto simp: abs_stage_def abs_commit_def)

section \<open>Keys of any type\<close>

datatype index_key =
    KInt i64 | KUint u64 | KBool bool | KFloat int | KChar i8 | KString bytes

fun get_KInt :: "index_key \<Rightarrow> i64 option" where
  "get_KInt (KInt i) = Some i" | "get_KInt _ = None"
fun get_KUint :: "index_key \<Rightarrow> u64 option" where
  "get_KUint (KUint i) = Some i" | "get_KUint _ = None"
fun get_KBool :: "index_key \<Rightarrow> bool option" where
  "get_KBool (KBool i) = Some i" | "get_KBool _ = None"
fun get_KFloat :: "index_key \<Rightarrow> int option" where
  "get_KFloat (KFloat i) = Some i" | "get_KFloat _ = None"
fun get_KChar :: "index_key \<Rightarrow> i8 option" where
  "get_KChar (KChar i) = Some i" | "get_KChar _ = None"
fun get_KString :: "index_key \<Rightarrow> bytes option" where
  "get_KString (KString i) = Some i" | "get_KString _ = None"

definition lift_keys :: "(index_key \<Rightarrow> 'k option) \<Rightarrow> 'k entries \<Rightarrow> index_key entries" where
  "lift_keys get M = (\<lambda>k. Option.bind (get k) M)"

locale key_type =
  fixes mk :: "'k \<Rightarrow> index_key" and get :: "index_key \<Rightarrow> 'k option"
  assumes get_iff: "get k = Some i \<longleftrightarrow> k = mk i"
begin

lemma lift_at [simp]: "lift_keys get M (mk i) = M i"
  by (simp add: lift_keys_def get_iff [of "mk i" i, THEN iffD2])

lemma get_mk [simp]: "get (mk i) = Some i"
  by (simp add: get_iff)

lemma mk_inj [simp]: "mk i = mk j \<longleftrightarrow> i = j"
  by (metis get_mk option.inject)

lemma lift_upd: "lift_keys get (M(i := v)) = (lift_keys get M)(mk i := v)"
proof
  fix k
  show "lift_keys get (M(i := v)) k = ((lift_keys get M)(mk i := v)) k"
    using get_iff [of k] by (cases "get k") (auto simp: lift_keys_def)
qed

lemma lift_stage:
  "abs_stage (mk i) e (lift_keys get M) = (fst (abs_stage i e M), lift_keys get (snd (abs_stage i e M)))"
  by (simp add: abs_stage_def lift_upd split: option.split)

lemma lift_commit: "abs_commit (mk i) sub (lift_keys get M) = lift_keys get (abs_commit i sub M)"
  by (simp add: abs_commit_def lift_upd split: option.split)

lemma lift_rollback: "abs_rollback (mk i) sub (lift_keys get M) = lift_keys get (abs_rollback i sub M)"
  by (simp add: abs_rollback_def lift_upd split: option.split)

end

interpretation kint: key_type KInt get_KInt by (unfold_locales, case_tac k) auto
interpretation kuint: key_type KUint get_KUint by (unfold_locales, case_tac k) auto
interpretation kbool: key_type KBool get_KBool by (unfold_locales, case_tac k) auto
interpretation kfloat: key_type KFloat get_KFloat by (unfold_locales, case_tac k) auto
interpretation kchar: key_type KChar get_KChar by (unfold_locales, case_tac k) auto
interpretation kstring: key_type KString get_KString by (unfold_locales, case_tac k) auto

section \<open>The abstraction\<close>

definition unique_entries :: "'k typed_index \<Rightarrow> 'k entries" where
  "unique_entries t = (case uniqueIdx t of None \<Rightarrow> Map.empty | Some m \<Rightarrow> map_of m)"

definition unordered_entries :: "'k typed_index \<Rightarrow> 'k entries" where
  "unordered_entries t = (case unorderedIdx t of None \<Rightarrow> Map.empty | Some m \<Rightarrow> map_of m)"

definition entries :: "index \<Rightarrow> index_key entries" where
  "entries ix =
     (case indexmaptype ix of
        uniqueint \<Rightarrow> lift_keys get_KInt (unique_entries (intIx ix))
      | unorderedint \<Rightarrow> lift_keys get_KInt (unordered_entries (intIx ix))
      | uniqueuint \<Rightarrow> lift_keys get_KUint (unique_entries (uintIx ix))
      | unordereduint \<Rightarrow> lift_keys get_KUint (unordered_entries (uintIx ix))
      | uniquebool \<Rightarrow> lift_keys get_KBool (unique_entries (boolIx ix))
      | unorderedbool \<Rightarrow> lift_keys get_KBool (unordered_entries (boolIx ix))
      | uniquefloat \<Rightarrow> lift_keys get_KFloat (unique_entries (floatIx ix))
      | unorderedfloat \<Rightarrow> lift_keys get_KFloat (unordered_entries (floatIx ix))
      | uniquechar \<Rightarrow> lift_keys get_KChar (unique_entries (charIx ix))
      | unorderedchar \<Rightarrow> lift_keys get_KChar (unordered_entries (charIx ix))
      | uniquecharx \<Rightarrow> lift_keys get_KString (unique_entries (stringIx ix))
      | unorderedcharx \<Rightarrow> lift_keys get_KString (unordered_entries (stringIx ix))
      | uniquevarchar \<Rightarrow> lift_keys get_KString (unique_entries (stringIx ix))
      | unorderedvarchar \<Rightarrow> lift_keys get_KString (unordered_entries (stringIx ix))
      | _ \<Rightarrow> Map.empty)"

text \<open>The value as it is staged, and the key it stands for.\<close>

definition staged_value :: "index \<Rightarrow> fieldValue \<Rightarrow> fieldValue" where
  "staged_value ix v =
     (if indexmaptype ix \<in> {uniquecharx, uniquevarchar} then v\<lparr>str := trimspace (str v)\<rparr> else v)"

definition value_key :: "fieldtype \<Rightarrow> fieldValue \<Rightarrow> index_key" where
  "value_key ft v =
     (case ft of
        F_INT \<Rightarrow> KInt (integer v) | F_UINT \<Rightarrow> KUint (uinteger v) | F_BOOL \<Rightarrow> KBool (boolean v)
      | F_FLOAT \<Rightarrow> KFloat (ld_key (floating v)) | F_CHAR \<Rightarrow> KChar (character v)
      | _ \<Rightarrow> KString (str v))"

abbreviation key_in :: "index \<Rightarrow> fieldValue \<Rightarrow> index_key" where
  "key_in ix v \<equiv> value_key (imt_fieldtype (indexmaptype ix)) v"

section \<open>The bodies refine it\<close>

lemma stage_entry_spec:
  assumes "ptr = Some m" "lockQueue t \<noteq> None"
    and put: "\<And>x. put k x t = Inr (t1 x) \<and> look (t1 x) = (map_of m)(k \<mapsto> x)"
    and look: "look t = map_of m" "\<And>q. look (t\<lparr>lockQueue := q\<rparr>) = look t"
  shows "\<exists>l t'. stage_entry put ptr k e t = Inr (l, t') \<and> abs_stage k (lq_entry e) (map_of m) = (l, look t')"
proof (cases "map_of m k")
  case None
  then show ?thesis
    using assms(1) put [of "lq_entry e"] by (auto simp: stage_entry_def map_count_def abs_stage_def)
next
  case (Some cur)
  obtain q where "lockQueue t = Some q" using assms(2) by blast
  then show ?thesis
    using assms(1) Some look
    by (auto simp: stage_entry_def map_count_def map_at_def abs_stage_def queue_push_def)
qed

lemma stage_unique_spec:
  assumes "unique_ready t"
  shows "\<exists>l t'. stage_unique k e t = Inr (l, t')
    \<and> abs_stage k (lq_entry e) (unique_entries t) = (l, unique_entries t')"
proof -
  obtain m where m: "uniqueIdx t = Some m" "sm_ok m" "lockQueue t \<noteq> None"
    using assms by (auto simp: unique_ready_def)
  have "unique_entries t = map_of m" using m(1) by (simp add: unique_entries_def)
  then show ?thesis
    unfolding stage_unique_def
    using stage_entry_spec [OF m(1,3), of put_unique k "\<lambda>x. t\<lparr>uniqueIdx := Some (sm_put k x m)\<rparr>" unique_entries e]
      m(1) ordered.map_of_put [OF m(2), of k]
    by (simp add: put_unique_def unique_entries_def)
qed

lemma stage_unordered_spec:
  assumes "unordered_ready t"
  shows "\<exists>l t'. stage_unordered k e t = Inr (l, t')
    \<and> abs_stage k (lq_entry e) (unordered_entries t) = (l, unordered_entries t')"
proof -
  obtain m where m: "unorderedIdx t = Some m" "um_ok m" "lockQueue t \<noteq> None"
    using assms by (auto simp: unordered_ready_def)
  have "unordered_entries t = map_of m" using m(1) by (simp add: unordered_entries_def)
  then show ?thesis
    unfolding stage_unordered_def
    using stage_entry_spec [OF m(1,3), of put_unordered k "\<lambda>x. t\<lparr>unorderedIdx := Some (um_put k x m)\<rparr>" unordered_entries e]
      m(1) unordered.map_of_put [OF m(2), of k]
    by (simp add: put_unordered_def unordered_entries_def)
qed

lemma map_of_modify:
  "map_of (map_modify k f m) = (case map_of m k of None \<Rightarrow> map_of m | Some v \<Rightarrow> (map_of m)(k \<mapsto> f v))"
  by (induction m) (auto simp: map_modify_def fun_eq_iff split: option.splits)

lemma commit_entry_spec: "\<exists>m'. commit_entry k s m = Inr m' \<and> map_of m' = abs_commit k s (map_of m)"
  by (cases "map_of m k")
    (auto simp: commit_entry_def held_by_def map_count_def map_at_def abs_commit_def map_of_modify)

lemma rollback_entry_spec:
  "\<exists>b m'. rollback_entry k s m = Inr (b, m') \<and> map_of m' = abs_rollback k s (map_of m)"
  by (cases "map_of m k")
    (auto simp: rollback_entry_def held_by_def map_count_def map_at_def abs_rollback_def
      map_erase_def map_of_filter_neq)

lemma end_bodies_unique:
  assumes "unique_ready t"
  shows "\<exists>t'. commit_unique k s t = Inr t' \<and> unique_entries t' = abs_commit k s (unique_entries t)"
    and "\<exists>t'. rollback_unique k s t = Inr t' \<and> unique_entries t' = abs_rollback k s (unique_entries t)"
  using assms commit_entry_spec [of k s "the (uniqueIdx t)"] rollback_entry_spec [of k s "the (uniqueIdx t)"]
  by (auto simp: unique_ready_def commit_unique_def rollback_unique_def unique_entries_def)

lemma end_bodies_unordered:
  assumes "unordered_ready t"
  shows "\<exists>t'. commit_unordered k s t = Inr t' \<and> unordered_entries t' = abs_commit k s (unordered_entries t)"
    and "\<exists>t'. rollback_unordered k s t = Inr t' \<and> unordered_entries t' = abs_rollback k s (unordered_entries t)"
  using assms commit_entry_spec [of k s "the (unorderedIdx t)"]
    rollback_entry_spec [of k s "the (unorderedIdx t)"]
  by (auto simp: unordered_ready_def commit_unordered_def rollback_unordered_def
      rollback_unordered_continues_def unordered_entries_def)

section \<open>The operations refine it\<close>

lemmas with_defs = with_int_def with_uint_def with_bool_def with_float_def with_char_def with_string_def

lemmas lift_stages = kint.lift_stage kuint.lift_stage kbool.lift_stage kfloat.lift_stage
  kchar.lift_stage kstring.lift_stage

lemmas lift_ends = kint.lift_commit kint.lift_rollback kuint.lift_commit kuint.lift_rollback
  kbool.lift_commit kbool.lift_rollback kfloat.lift_commit kfloat.lift_rollback
  kchar.lift_commit kchar.lift_rollback kstring.lift_commit kstring.lift_rollback

lemma uniqueIndex_refines:
  assumes "index_wf ix" "imt_unique (indexmaptype ix)"
  shows "\<exists>l ix'. uniqueIndex_on v e ix = Inr ((l, staged_value ix v), ix')
    \<and> abs_stage (key_in ix (staged_value ix v)) (lq_entry e) (entries ix) = (l, entries ix')"
proof -
  note defs = index_wf_def uniqueIndex_on_def Let_def with_defs entries_def value_key_def
    staged_value_def lift_stages imt_unique_def
  show ?thesis
    using assms stage_unique_spec [of "intIx ix" "integer v" e] stage_unordered_spec [of "intIx ix" "integer v" e]
      stage_unique_spec [of "uintIx ix" "uinteger v" e] stage_unordered_spec [of "uintIx ix" "uinteger v" e]
      stage_unique_spec [of "boolIx ix" "boolean v" e] stage_unordered_spec [of "boolIx ix" "boolean v" e]
      stage_unique_spec [of "floatIx ix" "ld_key (floating v)" e]
      stage_unordered_spec [of "floatIx ix" "ld_key (floating v)" e]
      stage_unique_spec [of "charIx ix" "character v" e] stage_unordered_spec [of "charIx ix" "character v" e]
      stage_unique_spec [of "stringIx ix" "trimspace (str v)" e]
      stage_unordered_spec [of "stringIx ix" "str v" e]
    by (cases "indexmaptype ix")
      (auto simp: defs uniqueIndex_int_def uniqueIndex_uint_def uniqueIndex_bool_def
        uniqueIndex_float_def uniqueIndex_char_def uniqueIndex_string_def)
qed

definition abs_end :: "enginecmd \<Rightarrow> 'k \<Rightarrow> int \<Rightarrow> 'k entries \<Rightarrow> 'k entries" where
  "abs_end cmd k sub M =
     (if cmd = COMMITCMD then abs_commit k sub M
      else if cmd = ROLLBACKCMD then abs_rollback k sub M else M)"

lemma end_unique_refines:
  assumes "index_wf ix" "imt_unique (indexmaptype ix)" "fieldtype ix = imt_fieldtype (indexmaptype ix)"
    and "\<not> isnull (rf_fieldVal rof)" "indexmaptype ix \<noteq> unorderedcharx \<or> cmd \<noteq> ROLLBACKCMD"
  shows "\<exists>ix'. end_unique_entry sub cmd rof ix = Inr ix'
    \<and> entries ix' = abs_end cmd (key_in ix (rf_fieldVal rof)) sub (entries ix)"
proof -
  let ?v = "rf_fieldVal rof"
  note defs = index_wf_def end_unique_entry_def Let_def upd_defs entries_def value_key_def lift_ends
    imt_unique_def commitRollback_defs abs_end_def
  note bodies = end_bodies_unique [of "intIx ix" "integer ?v" sub] end_bodies_unordered [of "intIx ix" "integer ?v" sub]
    end_bodies_unique [of "uintIx ix" "uinteger ?v" sub] end_bodies_unordered [of "uintIx ix" "uinteger ?v" sub]
    end_bodies_unique [of "boolIx ix" "boolean ?v" sub] end_bodies_unordered [of "boolIx ix" "boolean ?v" sub]
    end_bodies_unique [of "floatIx ix" "ld_key (floating ?v)" sub]
    end_bodies_unordered [of "floatIx ix" "ld_key (floating ?v)" sub]
    end_bodies_unique [of "charIx ix" "character ?v" sub] end_bodies_unordered [of "charIx ix" "character ?v" sub]
    end_bodies_unique [of "stringIx ix" "str ?v" sub] end_bodies_unordered [of "stringIx ix" "str ?v" sub]
  consider "cmd = COMMITCMD" | "cmd = ROLLBACKCMD" | "cmd \<noteq> COMMITCMD" "cmd \<noteq> ROLLBACKCMD" by blast
  then show ?thesis
  proof cases
    case 1
    then show ?thesis using assms bodies by (cases "indexmaptype ix") (auto simp: defs)
  next
    case 2
    then show ?thesis using assms bodies by (cases "indexmaptype ix") (auto simp: defs)
  next
    case 3
    then have "commitRollback_int ix i s cmd = Inr ix" "commitRollback_uint ix u s cmd = Inr ix"
      "commitRollback_bool ix b s cmd = Inr ix" "commitRollback_float ix f s cmd = Inr ix"
      "commitRollback_char ix c s cmd = Inr ix" "commitRollback_string ix x s cmd = Inr ix" for i u b f c x s
      by (cases cmd; simp add: commitRollback_defs)+
    then show ?thesis
      using 3 assms(2-4)
      by (cases "fieldtype ix") (auto simp: end_unique_entry_def abs_end_def)
  qed
qed

section \<open>Searches read the same map\<close>

text \<open>The key a search for equality looks for: strings are trimmed on every kind of index.\<close>

definition search_key :: "fieldtype \<Rightarrow> fieldValue \<Rightarrow> index_key" where
  "search_key ft v = value_key ft (v\<lparr>str := trimspace (str v)\<rparr>)"

lemma hits_unique_key:
  "distinct (map fst m) \<Longrightarrow>
   map (\<lambda>q. nl_of (snd q)) (filter (\<lambda>q. fst q = k) m) = (case map_of m k of None \<Rightarrow> [] | Some e \<Rightarrow> [nl_of e])"
  by (simp add: filter_fst_distinct split: option.split)

lemma search_equal_entries:
  assumes "index_wf ix" "imt_unique (indexmaptype ix)" "fieldtype ix = imt_fieldtype (indexmaptype ix)"
    and "sp_values sp = [v]"
  shows "search_equal ix sp ret = Inr (ret @
    (case entries ix (search_key (fieldtype ix) v) of None \<Rightarrow> [] | Some e \<Rightarrow> [nl_of e]))"
proof -
  have v: "sp_value 0 sp = Inr v" using assms(4) by (simp add: sp_value_def)
  show ?thesis
    using assms(1-3) getequal_overloads [OF assms(1)]
    by (cases "indexmaptype ix")
      (auto simp: search_equal_def v index_wf_def imt_unique_def entries_defs entries_def search_key_def
        value_key_def unique_ready_def unordered_ready_def unique_entries_def unordered_entries_def
        hits_unique_key ordered.ok_distinct unordered.ok_distinct)
qed

end
