(* ===== verification/Sub_Properties.thy ===== *)
theory Sub_Properties
  imports Unique_Index
begin

text \<open>
  The properties of subtransactions: what one message does to the tables of an engine, the life
  of a staged unique entry, and what becomes of the requests that wait for a lock.
\<close>

section \<open>A sample\<close>

text \<open>
  An engine whose schema for domain 1 has table 5 with one unique \<open>INT\<close> field and row 1, and two
  subtransactions, 8 and 9; 8 has write-locked the row.
\<close>

definition sample_table :: table where
  "sample_table = \<lparr>tb_id = 5, tb_name = [], tb_fields = [Field F_INT 0 UNIQUE []],
     rowLockQueue = Map.empty, columnNameToFieldMap = Map.empty, rows = [1 \<mapsto> 0],
     shadowRows = Map.empty, rowsize = 9, nextrowid = 1, forwarderMap = Map.empty,
     heap = [0 \<mapsto> \<lparr>writelockHolder = 8, previoussubtransactionid = 7,
        flags = snd (setwritelock 0), readlockHolders = None, row = [65]\<rparr>], brk = 1\<rparr>"

definition sample_st :: "int \<Rightarrow> subTransaction" where
  "sample_st i = \<lparr>st_subtransactionid = i, st_taAddr = \<lparr>ad_nodeid = 1, ad_actorid = 2\<rparr>,
     st_transactionid = 3, st_domainid = 1, st_schemaPtr = Some 1\<rparr>"

definition sample_engine :: engine where
  "sample_engine = \<lparr>en_partitionid = 0, en_nextsubtransactionid = 9,
     SubTransactions = [8 \<mapsto> sample_st 8, 9 \<mapsto> sample_st 9],
     domainidsToSchemata = [1 \<mapsto> \<lparr>sch_domainid = 1, sch_nexttableid = 5, sch_tables = [5 \<mapsto> sample_table]\<rparr>],
     outbox = []\<rparr>"

definition sample_update :: message where
  "sample_update = PAYLOADSUBTRANSACTION (subtransactionCmd0
     \<lparr>sc_transactionStruct := transactionStruct0\<lparr>ts_enginecmd := UPDATEROW\<rparr>,
      sc_subtransactionStruct := subtransactionStruct0\<lparr>ss_tableid := 5, ss_rowid := 1\<rparr>, sc_row := [66]\<rparr>)"

lemma sample_table_in: "table_in sample_engine 1 5 = Some sample_table"
  by (simp add: table_in_def sample_engine_def)

lemma sample_table_inv: "table_inv sample_table"
  by (auto simp: table_inv_def store_inv_def sample_table_def row_ok_def flag_simps)

lemma sample_indices_ok: "indices_ok sample_table"
  by (simp add: indices_ok_def sample_table_def Field_def makeindex_ok)

lemma sample_update_runs:
  "\<exists>en'. processTransactionMessage fm 0 (sample_st 9) sample_update sample_engine = Inr en'"
  by (simp add: processTransactionMessage_def sample_update_def subtransactionCmd0_def
      transactionStruct0_def subtransactionStruct0_def run_command_def Let_def updaterow_st_def
      on_table_def table_at_def sample_engine_def sample_st_def updaterow_def row_at_def load_def
      sample_table_def flag_simps)

section \<open>Messages and tables\<close>

text \<open>One message, whatever it is, processed by a subtransaction: every table of the engine keeps
  its invariant, and in every table every row that another subtransaction has locked keeps what the
  lock protects.\<close>

theorem messages_isolated:
  assumes "processTransactionMessage fm z st m en = Inr en'"
    and "table_in en d i = Some t" "table_inv t"
  shows "\<exists>t'. table_in en' d i = Some t' \<and> table_inv t'
    \<and> (\<forall>s rid. s \<noteq> st_subtransactionid st \<longrightarrow> row_kept s t t' rid)"
proof -
  have "rel_option (isolated (st_subtransactionid st)) (table_in en d i) (table_in en' d i)"
    using iso.processTransactionMessage_rel [OF refl assms(1)] by (simp add: engine_rel_def)
  then show ?thesis
    using assms(2,3) by (auto simp: isolated_def option_rel_Some1)
qed

theorem messages_isolated_witness:
  "\<exists>en' t'. processTransactionMessage (=) 0 (sample_st 9) sample_update sample_engine = Inr en'
    \<and> table_in en' 1 5 = Some t' \<and> row_kept 8 sample_table t' 1"
proof -
  obtain en' where "processTransactionMessage (=) 0 (sample_st 9) sample_update sample_engine = Inr en'"
    using sample_update_runs by blast
  from messages_isolated [OF this sample_table_in sample_table_inv] this show ?thesis
    by (auto simp: sample_st_def)
qed

text \<open>One message keeps the fields of every table and their indices: no map of an index is
  allocated or freed, its kind stays, and every map keeps the order of its container.\<close>

theorem messages_keep_indices:
  assumes "processTransactionMessage fm z st m en = Inr en'"
    and "table_in en d i = Some t" "indices_ok t"
  shows "\<exists>t'. table_in en' d i = Some t' \<and> indices_ok t' \<and> fields_kept t t'"
proof -
  have "rel_option fields_kept (table_in en d i) (table_in en' d i)"
    using fields.processTransactionMessage_rel [OF refl assms(1)] by (simp add: engine_rel_def)
  then show ?thesis
    using assms(2,3) indices_ok_kept by (auto simp: option_rel_Some1)
qed

theorem messages_keep_indices_witness:
  "\<exists>en' t'. processTransactionMessage (=) 0 (sample_st 9) sample_update sample_engine = Inr en'
    \<and> table_in en' 1 5 = Some t' \<and> indices_ok t'"
proof -
  obtain en' where "processTransactionMessage (=) 0 (sample_st 9) sample_update sample_engine = Inr en'"
    using sample_update_runs by blast
  from messages_keep_indices [OF this sample_table_in sample_indices_ok] this show ?thesis by blast
qed

section \<open>The life of a staged unique entry\<close>

definition sample_index :: index where
  "sample_index = makeindex UNIQUE F_INT Index"

definition sample_value :: fieldValue where
  "sample_value = fieldValue0\<lparr>integer := I64 42\<rparr>"

definition sample_rof :: rowOrField where
  "sample_rof = \<lparr>rf_isrow = False, rf_tableid = 5, rf_rowid = 1, rf_fieldid = 0, rf_engineid = 0,
     rf_deleteindexentry = False, rf_isnotaddunique = False, rf_isreplace = False, rf_newrowid = 0,
     rf_newengineid = 0, rf_fieldVal = sample_value\<rparr>"

lemma sample_index_facts:
  "indexmaptype sample_index = uniqueint" "fieldtype sample_index = F_INT" "index_ok sample_index"
  "entries sample_index = Map.empty" "index_wf sample_index"
proof -
  show imt: "indexmaptype sample_index = uniqueint" and "fieldtype sample_index = F_INT"
    by (simp_all add: sample_index_def makeindex_def Let_def indexmaptype_cast_def
        indexmaptypes_def allocate_maps_def)
  show ok: "index_ok sample_index" unfolding sample_index_def by (rule makeindex_ok)
  then show "index_wf sample_index" by (simp add: index_ok_def)
  show "entries sample_index = Map.empty"
    by (simp add: entries_def imt, simp add: sample_index_def makeindex_def Let_def allocate_maps_def
        indexmaptype_cast_def indexmaptypes_def new_unique_def unique_entries_def lift_keys_def fun_eq_iff)
qed





text \<open>What staging a free key does, for the proofs below.\<close>

lemma stage_fresh:
  assumes "index_ok ix" "imt_unique (indexmaptype ix)" "fieldtype ix = imt_fieldtype (indexmaptype ix)"
    and "entries ix (key_in ix (staged_value ix v)) = None"
  obtains ix1 where "uniqueIndex_on v e ix = Inr ((INDEXLOCK, staged_value ix v), ix1)"
    and "entries ix1 = (entries ix)(key_in ix (staged_value ix v) \<mapsto> lq_entry e)"
    and "index_ok ix1" "indexmaptype ix1 = indexmaptype ix" "fieldtype ix1 = fieldtype ix"
proof -
  have wf: "index_wf ix" using assms(1) by (simp add: index_ok_def)
  from uniqueIndex_refines [OF wf assms(2), of v e] assms(4) obtain ix1 where
    1: "uniqueIndex_on v e ix = Inr ((INDEXLOCK, staged_value ix v), ix1)"
    "entries ix1 = (entries ix)(key_in ix (staged_value ix v) \<mapsto> lq_entry e)"
    by (auto simp: abs_stage_def)
  have "index_kept ix ix1" by (rule kept_uniqueIndex_on [OF 1(1)])
  then have "index_ok ix1" "same_kind ix ix1"
    using index_ok_kept assms(1) by (simp_all add: index_kept_def)
  then show ?thesis using that [OF 1] by (simp add: same_kind_def)
qed

lemma isnull_staged [simp]: "isnull (staged_value ix v) = isnull v"
  by (simp add: staged_value_def)

text \<open>The life of a unique entry, for every key type and both kinds of map: staging a free key
  and rolling back restores the map (except on an unordered \<open>CHARX\<close> index, where the rollback
  faults), staging and committing adds exactly the entry, which then belongs to nobody; a second
  request for the key in between waits.\<close>

theorem stage_then_end:
  assumes "index_ok ix" "imt_unique (indexmaptype ix)" "fieldtype ix = imt_fieldtype (indexmaptype ix)"
    and "\<not> isnull v" "entries ix (key_in ix (staged_value ix v)) = None"
    and "rf_fieldVal rof = staged_value ix v" "sub \<noteq> 0"
  shows "\<exists>ix1. uniqueIndex_on v (queue_entry r e sub p q) ix = Inr ((INDEXLOCK, staged_value ix v), ix1)
    \<and> (\<exists>ix2. uniqueIndex_on v e2 ix1 = Inr ((INDEXPENDINGLOCK, staged_value ix v), ix2)
        \<and> entries ix2 = entries ix1)
    \<and> (indexmaptype ix \<noteq> unorderedcharx \<longrightarrow>
        (\<exists>ix2. end_unique_entry sub ROLLBACKCMD rof ix1 = Inr ix2 \<and> entries ix2 = entries ix))
    \<and> (\<exists>ix2. end_unique_entry sub COMMITCMD rof ix1 = Inr ix2
        \<and> entries ix2 = (entries ix)(key_in ix (staged_value ix v) \<mapsto>
            \<lparr>li_rowid = r, li_engineid = int16 e, li_subtransactionid = 0,
             li_previoussubtransactionid = 0\<rparr>))"
proof -
  let ?k = "key_in ix (staged_value ix v)" and ?e = "queue_entry r e sub p q"
  obtain ix1 where s: "uniqueIndex_on v ?e ix = Inr ((INDEXLOCK, staged_value ix v), ix1)"
    and e1: "entries ix1 = (entries ix)(?k \<mapsto> lq_entry ?e)"
    and ok1: "index_ok ix1" and imt: "indexmaptype ix1 = indexmaptype ix" "fieldtype ix1 = fieldtype ix"
    by (rule stage_fresh [OF assms(1-3,5)])
  have wf1: "index_wf ix1" using ok1 by (simp add: index_ok_def)
  have sv: "staged_value ix1 v = staged_value ix v" by (simp add: staged_value_def imt)
  have sub: "li_subtransactionid (lq_entry ?e) = sub" by (simp add: queue_entry_def)
  have st: "entries ix1 = snd (abs_stage ?k (lq_entry ?e) (entries ix))"
    using e1 assms(5) by (simp add: abs_stage_def)
  have "\<exists>ix2. uniqueIndex_on v e2 ix1 = Inr ((INDEXPENDINGLOCK, staged_value ix v), ix2)
        \<and> entries ix2 = entries ix1"
    using uniqueIndex_refines [OF wf1, of v e2] assms(2,7) e1 sub by (auto simp: imt sv abs_stage_def)
  moreover have "\<exists>ix2. end_unique_entry sub ROLLBACKCMD rof ix1 = Inr ix2 \<and> entries ix2 = entries ix"
    if "indexmaptype ix \<noteq> unorderedcharx"
    using end_unique_refines [OF wf1, of rof ROLLBACKCMD sub] assms(2-4,6) that
      abs_stage_rollback [where M = "entries ix", OF assms(5) sub] st by (simp add: imt abs_end_def)
  moreover have "\<exists>ix2. end_unique_entry sub COMMITCMD rof ix1 = Inr ix2
        \<and> entries ix2 = (entries ix)(?k \<mapsto> (lq_entry ?e)\<lparr>li_subtransactionid := 0\<rparr>)"
    using end_unique_refines [OF wf1, of rof COMMITCMD sub] assms(2-4,6)
      abs_stage_commit [where M = "entries ix", OF assms(5) sub] st by (simp add: imt abs_end_def)
  ultimately show ?thesis using s by (auto simp: queue_entry_def)
qed

theorem stage_then_end_witness:
  "\<exists>ix1 ix2. uniqueIndex_on sample_value (queue_entry 1 0 8 0 0) sample_index
      = Inr ((INDEXLOCK, sample_value), ix1)
    \<and> end_unique_entry 8 ROLLBACKCMD sample_rof ix1 = Inr ix2 \<and> entries ix2 = Map.empty"
proof -
  have v: "staged_value sample_index sample_value = sample_value" "\<not> isnull sample_value"
    by (simp_all add: staged_value_def sample_index_facts sample_value_def fieldValue0_def)
  have "rf_fieldVal sample_rof = staged_value sample_index sample_value"
    by (simp add: v sample_rof_def)
  from stage_then_end [OF sample_index_facts(3) _ _ v(2) _ this, of 8 1 0 0 0 "queue_entry 1 0 8 0 0"]
  show ?thesis by (auto simp: v sample_index_facts imt_unique_def)
qed

text \<open>A published entry is found by a search for the value it was staged under, with one
  exception: an unordered string index stages the value as it is, trailing spaces included, and
  searches for the trimmed one, so the search finds at most another row.\<close>

theorem publish_then_search:
  assumes "index_ok ix" "imt_unique (indexmaptype ix)" "fieldtype ix = imt_fieldtype (indexmaptype ix)"
    and "\<not> isnull v" "entries ix (key_in ix (staged_value ix v)) = None"
    and "rf_fieldVal rof = staged_value ix v" "sp_values sp = [v]"
  shows "\<exists>ix1 ix2. uniqueIndex_on v (queue_entry r e sub p q) ix = Inr ((INDEXLOCK, staged_value ix v), ix1)
    \<and> end_unique_entry sub COMMITCMD rof ix1 = Inr ix2
    \<and> search_equal ix2 sp [] =
        (if indexmaptype ix \<in> {unorderedcharx, unorderedvarchar} \<and> trimspace (str v) \<noteq> str v
         then search_equal ix sp []
         else Inr [\<lparr>nl_rowid = r, nl_engineid = int16 e\<rparr>])"
proof -
  let ?k = "key_in ix (staged_value ix v)" and ?e = "queue_entry r e sub p q"
  obtain ix1 where s: "uniqueIndex_on v ?e ix = Inr ((INDEXLOCK, staged_value ix v), ix1)"
    and e1: "entries ix1 = (entries ix)(?k \<mapsto> lq_entry ?e)"
    and ok1: "index_ok ix1" and imt: "indexmaptype ix1 = indexmaptype ix" "fieldtype ix1 = fieldtype ix"
    by (rule stage_fresh [OF assms(1-3,5)])
  have wf: "index_wf ix" "index_wf ix1" using assms(1) ok1 by (simp_all add: index_ok_def)
  obtain ix2 where c: "end_unique_entry sub COMMITCMD rof ix1 = Inr ix2"
    and e2: "entries ix2 = (entries ix)(?k \<mapsto> (lq_entry ?e)\<lparr>li_subtransactionid := 0\<rparr>)"
    using end_unique_refines [OF wf(2), of rof COMMITCMD sub] assms(2-4,6) e1
    by (auto simp: imt abs_end_def abs_commit_def queue_entry_def)
  have k2: "index_kept ix1 ix2" by (rule kept_end_entries(1) [OF c])
  then have "index_ok ix2" using ok1 index_ok_kept by blast
  then have wf2: "index_wf ix2" by (simp add: index_ok_def)
  have imt2: "indexmaptype ix2 = indexmaptype ix" "fieldtype ix2 = fieldtype ix"
    using k2 imt by (simp_all add: index_kept_def same_kind_def)
  have after: "search_equal ix2 sp [] = Inr (case entries ix2 (search_key (fieldtype ix) v) of
      None \<Rightarrow> [] | Some x \<Rightarrow> [nl_of x])"
    using search_equal_entries [OF wf2, of sp v "[]"] assms(2,3,7) by (simp add: imt2)
  have before: "search_equal ix sp [] = Inr (case entries ix (search_key (fieldtype ix) v) of
      None \<Rightarrow> [] | Some x \<Rightarrow> [nl_of x])"
    using search_equal_entries [OF wf(1) assms(2,3,7), of "[]"] by simp
  have "search_key (fieldtype ix) v = ?k \<longleftrightarrow>
      \<not> (indexmaptype ix \<in> {unorderedcharx, unorderedvarchar} \<and> trimspace (str v) \<noteq> str v)"
    using assms(2,3)
    by (cases "indexmaptype ix") (simp_all add: search_key_def value_key_def staged_value_def imt_unique_def)
  then have "search_equal ix2 sp [] =
      (if indexmaptype ix \<in> {unorderedcharx, unorderedvarchar} \<and> trimspace (str v) \<noteq> str v
       then search_equal ix sp [] else Inr [\<lparr>nl_rowid = r, nl_engineid = int16 e\<rparr>])"
    unfolding after before e2 by (auto simp: queue_entry_def nl_of_def)
  then show ?thesis using s c by blast
qed

theorem publish_then_search_witness:
  "\<exists>ix2. search_equal ix2 \<lparr>sp_op = OPERATOR_EQ, sp_values = [sample_value], sp_regexString = []\<rparr> []
     = Inr [\<lparr>nl_rowid = 1, nl_engineid = 0\<rparr>]"
proof -
  let ?sp = "\<lparr>sp_op = OPERATOR_EQ, sp_values = [sample_value], sp_regexString = []\<rparr>"
  have v: "staged_value sample_index sample_value = sample_value" "\<not> isnull sample_value"
    by (simp_all add: staged_value_def sample_index_facts sample_value_def fieldValue0_def)
  have "rf_fieldVal sample_rof = staged_value sample_index sample_value"
    by (simp add: v sample_rof_def)
  from publish_then_search [OF sample_index_facts(3) _ _ v(2) _ this, of ?sp 1 0 8 0 0] show ?thesis
    by (auto simp: v sample_index_facts imt_unique_def int16_def)
qed

section \<open>Waiting requests\<close>

text \<open>What the end of a transaction may send: refusals to waiters for an index entry.\<close>

definition refusal :: "addressStruct \<times> message \<Rightarrow> bool" where
  "refusal am \<longleftrightarrow>
     (case snd am of
        PAYLOADSUBTRANSACTION c \<Rightarrow>
          ss_locktype (sc_subtransactionStruct c) = PENDINGTOINDEXNOLOCK \<and> sc_returnRows c = []
      | PAYLOADCOMMITROLLBACK _ \<Rightarrow> False)"

definition only_refusals :: "enginecmd \<Rightarrow> engine \<Rightarrow> engine \<Rightarrow> bool" where
  "only_refusals cmd en en' \<longleftrightarrow>
     (\<exists>sent. outbox en' = outbox en @ sent \<and> (\<forall>am \<in> set sent. refusal am)
        \<and> (cmd \<noteq> COMMITCMD \<longrightarrow> sent = []))"

lemma only_refusals_refl: "outbox en' = outbox en \<Longrightarrow> only_refusals cmd en en'"
  by (simp add: only_refusals_def)

lemma only_refusals_trans:
  "only_refusals cmd en en1 \<Longrightarrow> only_refusals cmd en1 en2 \<Longrightarrow> only_refusals cmd en en2"
  unfolding only_refusals_def by fastforce

lemma on_table_outbox: "on_table st i f en = Inr (r, en') \<Longrightarrow> outbox en' = outbox en"
  by (auto simp: on_table_def)

lemma on_index_outbox: "on_index st i fd f en = Inr (r, en') \<Longrightarrow> outbox en' = outbox en"
  unfolding on_index_def by (rule on_table_outbox)

lemma drain_reply_refusals:
  "\<exists>sent. outbox (drain_reply i f v e en) = outbox en @ sent \<and> (\<forall>am \<in> set sent. refusal am)"
  by (auto simp: drain_reply_def Let_def replyTransaction_def refusal_def subtransactionCmd0_def
      split: option.split)

lemma drain_replies_refusals:
  "\<exists>sent. outbox (fold (drain_reply i f v) es en) = outbox en @ sent \<and> (\<forall>am \<in> set sent. refusal am)"
proof (induction es arbitrary: en)
  case (Cons e es)
  from drain_reply_refusals [of i f v e en] Cons [of "drain_reply i f v e en"] show ?case
    by fastforce
qed simp

lemma drainRowLockQueue_outbox: "drainRowLockQueue st i rid en = Inr en' \<Longrightarrow> outbox en' = outbox en"
  by (auto simp: drainRowLockQueue_def dest: on_table_outbox)

lemma drainIndexLockQueue_refusals:
  assumes "drainIndexLockQueue st i f v en = Inr en'"
  shows "\<exists>sent. outbox en' = outbox en @ sent \<and> (\<forall>am \<in> set sent. refusal am)"
proof -
  obtain ix q where q: "index_at st i f en = Inr ix" "index_queue v ix = Inr q"
    using assms by (auto simp: drainIndexLockQueue_def)
  show ?thesis
  proof (cases q)
    case (Some es)
    then have "on_index st i f (\<lambda>ix. Inr ((), empty_index_queue v ix))
        (fold (drain_reply i f v) es en) = Inr ((), en')"
      using assms q by (simp add: drainIndexLockQueue_def)
    from on_index_outbox [OF this] drain_replies_refusals [of i f v es en] show ?thesis by simp
  qed (use assms q in \<open>simp add: drainIndexLockQueue_def\<close>)
qed

lemma end_item_refusals:
  assumes "end_item z st cmd rof en = Inr en'"
  shows "only_refusals cmd en en'"
proof -
  consider (row) "end_row st cmd rof en = Inr en'" | (unique) "end_unique st cmd rof en = Inr en'"
    | (other) "end_notaddunique z st rof en = Inr en'"
    using assms by (auto simp: end_item_def split: if_splits)
  then show ?thesis
  proof cases
    case row
    then obtain r en1 where e: "outbox en1 = outbox en"
      "en' = en1 \<or> drainRowLockQueue st (rf_tableid rof) (rf_rowid rof) en1 = Inr en'"
      by (force simp: end_row_def processRowLockQueue_def split: if_splits dest: on_table_outbox)
    then have "outbox en' = outbox en" by (auto dest: drainRowLockQueue_outbox)
    then show ?thesis by (rule only_refusals_refl)
  next
    case unique
    then obtain en1 where "outbox en1 = outbox en"
      "cmd = COMMITCMD \<and> drainIndexLockQueue st (rf_tableid rof) (rf_fieldid rof) (rf_fieldVal rof) en1 = Inr en'
        \<or> cmd \<noteq> COMMITCMD \<and> en' = en1"
      by (auto simp: end_unique_def processIndexLockQueue_def split: if_splits dest: on_index_outbox)
    then show ?thesis
      by (auto simp: only_refusals_def dest!: drainIndexLockQueue_refusals)
  next
    case other
    then have "outbox en' = outbox en"
      by (auto simp: end_notaddunique_def processIndexLockQueue_def dest: on_index_outbox)
    then show ?thesis by (rule only_refusals_refl)
  qed
qed

text \<open>C37. Nobody who waits for a lock is ever granted one: when a transaction commits, all it sends
  is refusals to waiters for its index entries and, last, the reply to its own agent; when it rolls
  back, reverts or unlocks it sends nothing at all, although it releases its locks.\<close>

theorem waiters_never_granted:
  assumes "end_transaction z st rcv en = Inr en'"
  shows "\<exists>sent. (\<forall>am \<in> set sent. refusal am)
    \<and> (if ts_enginecmd (cr_transactionStruct rcv) = COMMITCMD
       then \<exists>m. outbox en' = outbox en @ sent @ [(st_taAddr st, PAYLOADCOMMITROLLBACK m)]
       else outbox en' = outbox en)"
proof -
  let ?cmd = "ts_enginecmd (cr_transactionStruct rcv)"
  obtain en1 where e: "rfold (end_item z st ?cmd) (cr_rofs rcv) en = Inr en1"
    "en' = (if ?cmd = COMMITCMD
            then replyTransaction st (cr_transactionStruct rcv) (PAYLOADCOMMITROLLBACK commitRollbackMsg0) en1
            else en1)"
    using assms by (auto simp: end_transaction_def Let_def)
  have "only_refusals ?cmd en en1"
    by (rule rfold_invariant [where I = "only_refusals ?cmd en", OF _ only_refusals_refl e(1)])
      (use end_item_refusals only_refusals_trans in blast)+
  then obtain sent where "outbox en1 = outbox en @ sent" "\<forall>am \<in> set sent. refusal am"
    "?cmd \<noteq> COMMITCMD \<longrightarrow> sent = []"
    by (auto simp: only_refusals_def)
  then show ?thesis using e(2) by (intro exI [of _ sent]) (simp add: replyTransaction_def)
qed

text \<open>Rolling the lock of 8 on row 1 back while 9 waits for it.\<close>

definition sample_rollback :: commitRollbackMsg where
  "sample_rollback = \<lparr>cr_transactionStruct = transactionStruct0\<lparr>ts_enginecmd := ROLLBACKCMD\<rparr>,
     cr_rofs = [sample_rof\<lparr>rf_isrow := True\<rparr>]\<rparr>"

definition sample_waiting :: engine where
  "sample_waiting = set_table (sample_st 9) 5 (lockQueue_push 1
     \<lparr>lr_pendingcmdid = 1, lr_tacmdentrypoint = 1, lr_subtransactionid = 9, lr_locktype = WRITELOCK\<rparr>
     sample_table) sample_engine"

lemma sample_waiting_rollback:
  "\<exists>en'. end_transaction 0 (sample_st 8) sample_rollback sample_waiting = Inr en'"
  by (simp add: end_transaction_def sample_rollback_def Let_def end_item_def sample_waiting_def
      set_table_def sample_st_def sample_engine_def sample_rof_def end_row_def on_table_def
      table_at_def lockQueue_push_def commitRollbackUnlock_def rollback_row_def row_at_def load_def
      sample_table_def flag_simps shadow_delete_def store_def transactionStruct0_def)

theorem waiters_never_granted_witness:
  "\<exists>en'. end_transaction 0 (sample_st 8) sample_rollback sample_waiting = Inr en'
    \<and> outbox en' = outbox sample_waiting"
proof -
  obtain en' where e: "end_transaction 0 (sample_st 8) sample_rollback sample_waiting = Inr en'"
    using sample_waiting_rollback by blast
  from waiters_never_granted [OF e] e show ?thesis
    by (auto simp: sample_rollback_def transactionStruct0_def)
qed

text \<open>Committing the deletion of a row for which a live subtransaction waits ends in a fault: the
  answer to the waiter is written through the first element of an empty vector.\<close>

theorem delete_with_waiter_faults:
  assumes "table_at st (rf_tableid rof) en = Inr t" "table_inv t"
    and "rows t (rf_rowid rof) = Some a" "heap t a = Some cur"
    and "holds_write (st_subtransactionid st) cur" "getdeleteflag (flags cur)"
    and "shadowRows t (rf_rowid rof) \<noteq> Some a"
    and "rowLockQueue t (rf_rowid rof) = Some q" "e \<in> set q"
    and "SubTransactions en (lr_subtransactionid e) \<noteq> None"
  shows "end_row st COMMITCMD rof en = Inl OutOfRange"
proof -
  let ?rid = "rf_rowid rof" and ?sub = "st_subtransactionid st"
  let ?t = "committed ?rid ?sub a cur t"
  have "commit_row ?rid ?sub t = Inr ?t"
    using commit_row_write(1) [OF assms(2-4), of ?sub] assms(5-7) by (auto simp: holds_write_def)
  moreover have "rows ?t ?rid = None" "rowLockQueue ?t ?rid = Some q"
    using assms(6,8) by (auto simp: committed_def Let_def forwarder_erase_def)
  moreover have "drain_rows (\<lambda>s. SubTransactions en s \<noteq> None) q = Inl OutOfRange"
    using assms(9,10) by (induction q) auto
  ultimately show ?thesis
    using assms(1)
    by (simp add: end_row_def on_table_def commitRollbackUnlock_def drainRowLockQueue_def)
qed

definition sample_deleted :: table where
  "sample_deleted = store 0 \<lparr>writelockHolder = 8, previoussubtransactionid = 7,
     flags = setdeleteflag (snd (setwritelock 0)), readlockHolders = None, row = [65]\<rparr>
     (lockQueue_push 1 \<lparr>lr_pendingcmdid = 1, lr_tacmdentrypoint = 1, lr_subtransactionid = 9,
        lr_locktype = WRITELOCK\<rparr> sample_table)"

lemma sample_deleted_flags:
  "getlocktype (setdeleteflag (snd (setwritelock 0))) = WRITELOCK"
  "getdeleteflag (setdeleteflag (snd (setwritelock 0)))"
  by (simp_all add: flag_simps)

lemma sample_deleted_facts:
  "table_inv sample_deleted"
  "table_at (sample_st 8) 5 (set_table (sample_st 8) 5 sample_deleted sample_engine) = Inr sample_deleted"
  "rows sample_deleted 1 = Some 0" "shadowRows sample_deleted 1 = None"
  "heap sample_deleted 0 = Some \<lparr>writelockHolder = 8, previoussubtransactionid = 7,
     flags = setdeleteflag (snd (setwritelock 0)), readlockHolders = None, row = [65]\<rparr>"
  "rowLockQueue sample_deleted 1 = Some [\<lparr>lr_pendingcmdid = 1, lr_tacmdentrypoint = 1,
     lr_subtransactionid = 9, lr_locktype = WRITELOCK\<rparr>]"
  by (auto simp: table_inv_def store_inv_def sample_deleted_def store_def lockQueue_push_def
      sample_table_def row_ok_def sample_deleted_flags table_at_def set_table_def sample_st_def
      sample_engine_def)

lemma sample_alive:
  "st_subtransactionid (sample_st i) = i"
  "SubTransactions sample_engine 9 = Some (sample_st 9)"
  by (simp_all add: sample_st_def sample_engine_def)

theorem delete_with_waiter_faults_witness:
  "end_row (sample_st 8) COMMITCMD (sample_rof\<lparr>rf_isrow := True\<rparr>)
     (set_table (sample_st 8) 5 sample_deleted sample_engine) = Inl OutOfRange"
  by (rule delete_with_waiter_faults [where a = 0 and t = sample_deleted
        and e = "\<lparr>lr_pendingcmdid = 1, lr_tacmdentrypoint = 1, lr_subtransactionid = 9,
          lr_locktype = WRITELOCK\<rparr>"
        and cur = "\<lparr>writelockHolder = 8, previoussubtransactionid = 7,
          flags = setdeleteflag (snd (setwritelock 0)), readlockHolders = None, row = [65]\<rparr>"
        and q = "[\<lparr>lr_pendingcmdid = 1, lr_tacmdentrypoint = 1, lr_subtransactionid = 9,
          lr_locktype = WRITELOCK\<rparr>]"])
    (simp_all add: sample_deleted_facts sample_deleted_flags sample_rof_def holds_write_def
      sample_alive)

text \<open>Null values at the end of a transaction: the entry of a null in a unique index is added
  whatever the command, so a rollback leaves it there; and the replacement of a row id keeps the old
  engine for a null.\<close>

theorem null_entries_at_end:
  assumes "isnull (rf_fieldVal rof)"
  shows "(\<exists>ix'. end_unique_entry sub ROLLBACKCMD rof ix = Inr ix'
        \<and> (rf_rowid rof, rf_engineid rof) \<in> set (nulls ix'))
    \<and> (\<exists>ix'. end_replace_entry z rof ix = Inr ix'
        \<and> (rf_newrowid rof, rf_engineid rof) \<in> set (nulls ix'))"
  using assms
  by (simp add: end_unique_entry_def end_replace_entry_def insertNullEntry_def replaceNull_def
      nulls_insert_def Let_def)

theorem null_entries_at_end_witness:
  "let rof = sample_rof\<lparr>rf_fieldVal := sample_value\<lparr>isnull := True\<rparr>\<rparr>
   in \<exists>ix'. end_unique_entry 8 ROLLBACKCMD rof sample_index = Inr ix' \<and> (1, 0) \<in> set (nulls ix')"
  using null_entries_at_end [of "sample_rof\<lparr>rf_fieldVal := sample_value\<lparr>isnull := True\<rparr>\<rparr>" 8
      sample_index]
  by (simp add: Let_def sample_rof_def)

end
