(* ===== verification/Engine_Apply.thy ===== *)
theory Engine_Apply
  imports Index_Steps
begin

text \<open>
  Replication on the side of the receiving engine: \<open>Engine::applyItem\<close> for rows and for index
  entries, \<open>Engine::background\<close> and \<open>Engine::apply\<close> of \<open>infinisqld/Engine.cc\<close>, with the
  structs of \<open>MessageDispatch\<close>, \<open>MessageApply\<close> and \<open>MessageAckApply\<close>.

  An item that cannot be applied yet is kept in \<open>backgrounded\<close>, a \<open>std::map\<close> by
  subtransaction, and tried again with every later message.
\<close>

section \<open>Messages of replication\<close>

record record_s =
  re_rowid :: int
  re_primitive :: pendingprimitive
  re_tableid :: int
  re_previoussubtransactionid :: int
  re_row :: bytes
  re_oldrow :: bytes

record applyindex =
  ai_fieldVal :: fieldValue
  ai_entry :: nonLockingIndexEntry
  ai_flags :: byte
  ai_tableid :: int
  ai_fieldid :: int

record applyMsg =
  ap_subtransactionid :: int
  ap_applierid :: int
  ap_domainid :: int
  ap_rows :: "record_s list"
  ap_indices :: "applyindex list"

record ackApply =
  aa_subtransactionid :: int
  aa_applierid :: int
  aa_partitionid :: int
  aa_status :: status

definition ADDFLAG :: nat where
  "ADDFLAG = 0"

definition setisaddflag :: "byte \<Rightarrow> byte" where
  "setisaddflag c = or c (push_bit ADDFLAG 1)"

definition getisaddflag :: "byte \<Rightarrow> bool" where
  "getisaddflag c \<longleftrightarrow> and c (push_bit ADDFLAG 1) = 1"

definition cleariaddflag :: "byte \<Rightarrow> byte" where
  "cleariaddflag c = and c (not (push_bit ADDFLAG 1))"

section \<open>Rows\<close>

text \<open>\<open>rows[rowid] = new rowdata_s()\<close> with the row and its subtransaction\<close>

definition put_row :: "int \<Rightarrow> int \<Rightarrow> bytes \<Rightarrow> table \<Rightarrow> table" where
  "put_row subtransactionid rowid r t =
     (let (a, t') = alloc (rowdata0\<lparr>previoussubtransactionid := subtransactionid, row := r\<rparr>) t
      in t'\<lparr>rows := (rows t')(rowid \<mapsto> a)\<rparr>)"

text \<open>The two tests of \<open>UPDATE\<close> are as in the code: the first refuses a row that is there, and
  the second then reads the row that is not (\<open>rows[rowid]\<close> creates a null pointer).\<close>

definition applyItem_row :: "int \<Rightarrow> record_s \<Rightarrow> table \<Rightarrow> (bool \<times> table) res" where
  "applyItem_row subtransactionid item t =
     (let rowid = re_rowid item
      in case re_primitive item of
        INSERT \<Rightarrow>
          if rows t rowid \<noteq> None then Inr (False, t)
          else Inr (True, put_row subtransactionid rowid (re_row item) t)
      | UPDATE \<Rightarrow>
          if rows t rowid \<noteq> None then Inr (False, t)
          else rbind (row_at rowid t) (\<lambda>(_, cur).
            if previoussubtransactionid cur \<noteq> subtransactionid then Inr (False, t)
            else Inr (True, put_row subtransactionid rowid (re_row item) t))
      | DELETE \<Rightarrow>
          if rows t rowid = None then Inr (False, t)
          else rbind (row_at rowid t) (\<lambda>(a, cur).
            if previoussubtransactionid cur \<noteq> subtransactionid then Inr (False, t)
            else rmap (\<lambda>t'. (True, rows_erase rowid t')) (free a t))
      | _ \<Rightarrow> Inr (False, t))"

section \<open>Index entries\<close>

definition apply_null :: "bool \<Rightarrow> int \<times> int \<Rightarrow> index \<Rightarrow> bool \<times> index" where
  "apply_null add v ix =
     (if add then (True, ix\<lparr>nulls := nulls_insert v (nulls ix)\<rparr>)
      else if v \<notin> set (nulls ix) then (False, ix)
      else (True, ix\<lparr>nulls := nulls_erase v (nulls ix)\<rparr>))"

definition apply_unique :: "int \<Rightarrow> bool \<Rightarrow> fieldValue \<Rightarrow> nonLockingIndexEntry \<Rightarrow> index \<Rightarrow>
    (bool \<times> index) res" where
  "apply_unique subtransactionid add v e ix =
     (if add then
        rbind (addifnotthere ix v (nl_rowid e) (nl_engineid e) subtransactionid) (\<lambda>(added, ix').
          if added then Inr (True, ix')
          else rbind (getprevioussubtransactionid ix' v) (\<lambda>prev.
            if prev > subtransactionid then Inr (False, ix') else Inr (True, ix')))
      else
        rbind (checkifthere ix v) (\<lambda>there.
          if \<not> there then Inr (False, ix)
          else rbind (checkifmatch ix v (nl_rowid e) (nl_engineid e)) (\<lambda>match.
            if match then rmap (Pair True) (rm ix v)
            else rbind (getprevioussubtransactionid ix v) (\<lambda>prev.
              if prev < subtransactionid then Inr (False, ix) else Inr (True, ix)))))"

definition multimap_add :: "'k::linorder \<Rightarrow> nonLockingIndexEntry \<Rightarrow> 'k typed_index \<Rightarrow>
    'k typed_index res" where
  "multimap_add k e t =
     rbind (deref (nonuniqueIdx t)) (\<lambda>m. Inr (t\<lparr>nonuniqueIdx := Some (mm_insert k e m)\<rparr>))"

text \<open>The loop erases the first entry of the row among those with the key, and returns.\<close>

fun erase_first :: "('a \<Rightarrow> bool) \<Rightarrow> 'a list \<Rightarrow> 'a list option" where
  "erase_first p [] = None"
| "erase_first p (x # xs) = (if p x then Some xs else map_option (Cons x) (erase_first p xs))"

definition multimap_delete :: "'k::linorder \<Rightarrow> nonLockingIndexEntry \<Rightarrow> 'k typed_index \<Rightarrow>
    (bool \<times> 'k typed_index) res" where
  "multimap_delete k e t =
     rbind (deref (nonuniqueIdx t)) (\<lambda>m.
     rbind (equal_range k m) (\<lambda>rng.
       case erase_first (\<lambda>p. is_row (nl_rowid e) (nl_engineid e) (snd p)) rng of
         None \<Rightarrow> Inr (False, t)
       | Some rng' \<Rightarrow>
           Inr (True, t\<lparr>nonuniqueIdx :=
             Some (take (lower_bound k m) m @ rng' @ drop (upper_bound k m) m)\<rparr>)))"

definition apply_nonunique_add :: "fieldValue \<Rightarrow> nonLockingIndexEntry \<Rightarrow> index \<Rightarrow> index res" where
  "apply_nonunique_add v e ix =
     (case indexmaptype ix of
        nonuniqueint \<Rightarrow> upd_int (multimap_add (integer v) e) ix
      | nonuniqueuint \<Rightarrow> upd_uint (multimap_add (uinteger v) e) ix
      | nonuniquebool \<Rightarrow> upd_bool (multimap_add (boolean v) e) ix
      | nonuniquefloat \<Rightarrow> upd_float (multimap_add (ld_key (floating v)) e) ix
      | nonuniquechar \<Rightarrow> upd_char (multimap_add (character v) e) ix
      | nonuniquecharx \<Rightarrow> upd_string (multimap_add (str v) e) ix
      | nonuniquevarchar \<Rightarrow> upd_string (multimap_add (str v) e) ix
      | _ \<Rightarrow> Inr ix)"

definition apply_nonunique_delete :: "fieldValue \<Rightarrow> nonLockingIndexEntry \<Rightarrow> index \<Rightarrow> (bool \<times> index) res" where
  "apply_nonunique_delete v e ix =
     (case indexmaptype ix of
        nonuniqueint \<Rightarrow> with_int (multimap_delete (integer v) e) ix
      | nonuniqueuint \<Rightarrow> with_uint (multimap_delete (uinteger v) e) ix
      | nonuniquebool \<Rightarrow> with_bool (multimap_delete (boolean v) e) ix
      | nonuniquefloat \<Rightarrow> with_float (multimap_delete (ld_key (floating v)) e) ix
      | nonuniquechar \<Rightarrow> with_char (multimap_delete (character v) e) ix
      | nonuniquecharx \<Rightarrow> with_string (multimap_delete (str v) e) ix
      | nonuniquevarchar \<Rightarrow> with_string (multimap_delete (str v) e) ix
      | _ \<Rightarrow> Inr (True, ix))"

definition applyItem_index :: "int \<Rightarrow> applyindex \<Rightarrow> index \<Rightarrow> (bool \<times> index) res" where
  "applyItem_index subtransactionid info ix =
     (let v = ai_fieldVal info; e = ai_entry info; add = getisaddflag (ai_flags info)
      in if isnull v then Inr (apply_null add (nl_rowid e, nl_engineid e) ix)
         else if indextype ix \<in> {UNIQUE, UNORDERED, UNIQUENOTNULL, UNORDEREDNOTNULL}
           then apply_unique subtransactionid add v e ix
         else if add then rmap (Pair True) (apply_nonunique_add v e ix)
         else apply_nonunique_delete v e ix)"

section \<open>On the tables of a domain\<close>

text \<open>\<open>*schemaRef.tables[tableid]\<close> of the schema \<open>*domainidsToSchemata[domainid]\<close>\<close>

definition on_domain :: "int \<Rightarrow> int \<Rightarrow> (table \<Rightarrow> ('r \<times> table) res) \<Rightarrow> engine \<Rightarrow> ('r \<times> engine) res" where
  "on_domain domainid tableid f en =
     rbind (deref (domainidsToSchemata en domainid)) (\<lambda>s.
     rbind (deref (sch_tables s tableid)) (\<lambda>t.
       rmap (\<lambda>(r, t'). (r, en\<lparr>domainidsToSchemata := (domainidsToSchemata en)(domainid \<mapsto>
                              s\<lparr>sch_tables := (sch_tables s)(tableid \<mapsto> t')\<rparr>)\<rparr>)) (f t)))"

definition apply_record :: "int \<Rightarrow> int \<Rightarrow> record_s \<Rightarrow> engine \<Rightarrow> (bool \<times> engine) res" where
  "apply_record subtransactionid domainid item =
     on_domain domainid (re_tableid item) (applyItem_row subtransactionid item)"

definition apply_entry :: "int \<Rightarrow> int \<Rightarrow> applyindex \<Rightarrow> engine \<Rightarrow> (bool \<times> engine) res" where
  "apply_entry subtransactionid domainid info =
     on_domain domainid (ai_tableid info) (\<lambda>t.
       rbind (field_at (ai_fieldid info) t) (\<lambda>fd.
         rmap (\<lambda>(r, ix'). (r, set_index (ai_fieldid info) ix' t))
           (applyItem_index subtransactionid info (fd_index fd))))"

section \<open>apply and background\<close>

record background =
  bg_applierid :: int
  bg_taAddress :: addressStruct
  bg_rows :: "record_s list"
  bg_indices :: "applyindex list"

record applyState =
  as_engine :: engine
  as_backgrounded :: "(int \<times> background) list"
  as_acks :: "(addressStruct \<times> ackApply) list"   \<comment> \<open>acknowledgments sent\<close>

definition open_background :: "applyMsg \<Rightarrow> addressStruct \<Rightarrow> applyState \<Rightarrow> applyState" where
  "open_background inmsg source s =
     (if map_count (ap_subtransactionid inmsg) (as_backgrounded s) then s
      else s\<lparr>as_backgrounded := sm_put (ap_subtransactionid inmsg)
               \<lparr>bg_applierid = ap_applierid inmsg, bg_taAddress = source, bg_rows = [],
                bg_indices = []\<rparr> (as_backgrounded s)\<rparr>)"

definition background_row :: "applyMsg \<Rightarrow> addressStruct \<Rightarrow> record_s \<Rightarrow> applyState \<Rightarrow> applyState" where
  "background_row inmsg source item s =
     (let s1 = open_background inmsg source s
      in s1\<lparr>as_backgrounded := map_modify (ap_subtransactionid inmsg)
              (\<lambda>b. b\<lparr>bg_rows := bg_rows b @ [item]\<rparr>) (as_backgrounded s1)\<rparr>)"

definition background_index :: "applyMsg \<Rightarrow> addressStruct \<Rightarrow> applyindex \<Rightarrow> applyState \<Rightarrow> applyState" where
  "background_index inmsg source item s =
     (let s1 = open_background inmsg source s
      in s1\<lparr>as_backgrounded := map_modify (ap_subtransactionid inmsg)
              (\<lambda>b. b\<lparr>bg_indices := bg_indices b @ [item]\<rparr>) (as_backgrounded s1)\<rparr>)"

definition apply_row_item :: "applyMsg \<Rightarrow> addressStruct \<Rightarrow> record_s \<Rightarrow> applyState \<Rightarrow> applyState res" where
  "apply_row_item inmsg source item s =
     rmap (\<lambda>(ok, en'). let s' = s\<lparr>as_engine := en'\<rparr>
                        in if ok then s' else background_row inmsg source item s')
       (apply_record (ap_subtransactionid inmsg) (ap_domainid inmsg) item (as_engine s))"

definition apply_index_item :: "applyMsg \<Rightarrow> addressStruct \<Rightarrow> applyindex \<Rightarrow> applyState \<Rightarrow>
    applyState res" where
  "apply_index_item inmsg source item s =
     rmap (\<lambda>(ok, en'). let s' = s\<lparr>as_engine := en'\<rparr>
                        in if ok then s' else background_index inmsg source item s')
       (apply_entry (ap_subtransactionid inmsg) (ap_domainid inmsg) item (as_engine s))"

text \<open>
  The loops over an element of \<open>backgrounded\<close>: when an item applies, it is erased through the
  iterator of the loop, which is then advanced. The erased iterator is invalid, so this is a
  fault; so is the end of the outer loop's body once an element has been erased.
\<close>

fun retry_items :: "('i \<Rightarrow> engine \<Rightarrow> (bool \<times> engine) res) \<Rightarrow> 'i list \<Rightarrow> engine \<Rightarrow> engine res" where
  "retry_items f [] en = Inr en"
| "retry_items f (i # is) en =
     rbind (f i en) (\<lambda>(ok, en'). if ok then Inl InvalidIter else retry_items f is en')"

definition retry_background :: "int \<Rightarrow> int \<times> background \<Rightarrow> applyState \<Rightarrow> applyState res" where
  "retry_background domainid b s =
     rbind (retry_items (apply_record (fst b) domainid) (bg_rows (snd b)) (as_engine s)) (\<lambda>en1.
     rbind (retry_items (apply_entry (fst b) domainid) (bg_indices (snd b)) en1) (\<lambda>en2.
       if bg_rows (snd b) = [] \<and> bg_indices (snd b) = [] then Inl InvalidIter
       else Inr (s\<lparr>as_engine := en2\<rparr>)))"

definition send_ack :: "applyMsg \<Rightarrow> addressStruct \<Rightarrow> applyState \<Rightarrow> applyState" where
  "send_ack inmsg source s =
     (if map_count (ap_subtransactionid inmsg) (as_backgrounded s) then s
      else s\<lparr>as_acks := as_acks s @ [(source, \<lparr>aa_subtransactionid = ap_subtransactionid inmsg,
               aa_applierid = ap_applierid inmsg, aa_partitionid = - 1, aa_status = STATUS_OK\<rparr>)]\<rparr>)"

text \<open>The walk tries every item in the schema of the message at hand.\<close>

definition apply_message :: "applyMsg \<Rightarrow> addressStruct \<Rightarrow> applyState \<Rightarrow> applyState res" where
  "apply_message inmsg source s =
     rbind (deref (domainidsToSchemata (as_engine s) (ap_domainid inmsg))) (\<lambda>_.
     rbind (rfold (apply_row_item inmsg source) (ap_rows inmsg) s) (\<lambda>s1.
     rbind (rfold (apply_index_item inmsg source) (ap_indices inmsg) s1) (\<lambda>s2.
       let s3 = send_ack inmsg source s2
       in rfold (retry_background (ap_domainid inmsg)) (as_backgrounded s3) s3)))"

end
