(* ===== verification/Engine_Actor.thy ===== *)
theory Engine_Actor
  imports Engine_Apply Row_Isolation
begin

text \<open>
  The actor of an engine: the schema requests, the bookkeeping of subtransactions and the
  dispatch of one received message (\<open>Engine::Engine\<close> and the builtins of
  \<open>infinisqld/Engine.cc\<close>, \<open>createSchema\<close> of \<open>infinisqld/Schema.h\<close>, \<open>usmReply\<close> of
  \<open>infinisqld/TransactionAgent.h\<close>). A message is modelled by its topic with what the branch
  of the topic reads of it.
\<close>

section \<open>Messages of the schema manager\<close>

datatype operationtype = OPERATION_NONE | OPERATION_LOGIN

record userschema =
  us_operationtype :: operationtype
  us_caller :: int
  us_callerstate :: int
  us_argsize :: int
  us_instance :: int
  us_operationid :: int
  us_domainid :: int
  us_userid :: int
  us_tableid :: int
  us_fieldlen :: int
  us_builtincmd :: int
  us_indexid :: int
  us_tableindexid :: int
  us_simple :: int
  us_fieldid :: int
  us_numfields :: int
  us_intdata :: int
  us_status :: int
  us_indextype :: indextype
  us_fieldtype :: fieldtype

definition BUILTIN_STATUS_OK :: int where "BUILTIN_STATUS_OK = 0"
definition BUILTIN_STATUS_NOTOK :: int where "BUILTIN_STATUS_NOTOK = 1"

definition BUILTINCREATESCHEMA :: int where "BUILTINCREATESCHEMA = 3"
definition BUILTINCREATETABLE :: int where "BUILTINCREATETABLE = 4"
definition BUILTINADDCOLUMN :: int where "BUILTINADDCOLUMN = 5"
definition BUILTINDELETEINDEX :: int where "BUILTINDELETEINDEX = 6"
definition BUILTINDELETETABLE :: int where "BUILTINDELETETABLE = 7"
definition BUILTINDELETESCHEMA :: int where "BUILTINDELETESCHEMA = 8"

lemmas builtin_numbers = BUILTINCREATESCHEMA_def BUILTINCREATETABLE_def BUILTINADDCOLUMN_def
  BUILTINDELETEINDEX_def BUILTINDELETETABLE_def BUILTINDELETESCHEMA_def

section \<open>The actor\<close>

datatype engineReply =
    REPLY message              \<comment> \<open>of a subtransaction\<close>
  | SCHEMAREPLY userschema
  | ACKAPPLY ackApply

text \<open>\<open>ac_mbox\<close> stands for the pointer to the mailbox of the actor.\<close>

record engineActor =
  ac_engine :: engine
  ac_backgrounded :: "(int \<times> background) list"
  ac_mbox :: int
  ac_status :: int
  ac_taAddr :: addressStruct
  ac_operationid :: int
  ac_domainid :: int
  ac_userid :: int
  ac_argsize :: int
  ac_builtincmd :: int
  ac_outbox :: "(addressStruct \<times> engineReply) list"

datatype engineMessage =
    TOPIC_SCHEMAREQUEST addressStruct userschema
  | TOPIC_TRANSACTION addressStruct message
  | TOPIC_ENDSUBTRANSACTION transactionStruct
  | TOPIC_TOPOLOGY "int list"       \<comment> \<open>the mailboxes of \<open>partitionListThisReplica\<close>\<close>
  | TOPIC_APPLY addressStruct applyMsg
  | TOPIC_OTHER

definition send :: "addressStruct \<Rightarrow> engineReply \<Rightarrow> engineActor \<Rightarrow> engineActor" where
  "send dest m ac = ac\<lparr>ac_outbox := ac_outbox ac @ [(dest, m)]\<rparr>"

text \<open>What a subtransaction sends is moved to the outbox of the actor.\<close>

definition run_engine :: "(engine \<Rightarrow> engine res) \<Rightarrow> engineActor \<Rightarrow> engineActor res" where
  "run_engine f ac =
     rmap (\<lambda>en. ac\<lparr>ac_engine := en\<lparr>outbox := []\<rparr>,
                   ac_outbox := ac_outbox ac @ map (\<lambda>(d, m). (d, REPLY m)) (outbox en)\<rparr>)
       (f ((ac_engine ac)\<lparr>outbox := []\<rparr>))"

definition usmReply :: "addressStruct \<Rightarrow> userschema \<Rightarrow> engineActor \<Rightarrow> engineActor" where
  "usmReply dest msg ac =
     send dest (SCHEMAREPLY (msg\<lparr>us_operationid := ac_operationid ac, us_domainid := ac_domainid ac,
                                 us_userid := ac_userid ac, us_status := ac_status ac\<rparr>)) ac"

section \<open>Builtins\<close>

text \<open>\<open>fresh\<close> is the reply as its constructor leaves it, which does not set the struct.\<close>

definition createSchema :: "userschema \<Rightarrow> engineActor \<Rightarrow> engineActor" where
  "createSchema rcv ac =
     (let en = ac_engine ac; d = us_domainid rcv
      in if domainidsToSchemata en d \<noteq> None then ac\<lparr>ac_status := BUILTIN_STATUS_NOTOK\<rparr>
         else ac\<lparr>ac_engine := en\<lparr>domainidsToSchemata := (domainidsToSchemata en)(d \<mapsto> Schema d)\<rparr>,
                 ac_status := BUILTIN_STATUS_OK\<rparr>)"

definition engine_createschema :: "userschema \<Rightarrow> addressStruct \<Rightarrow> userschema \<Rightarrow> engineActor \<Rightarrow>
    engineActor" where
  "engine_createschema fresh source rcv ac = usmReply source fresh (createSchema rcv ac)"

definition engine_createtable :: "int \<Rightarrow> userschema \<Rightarrow> addressStruct \<Rightarrow> userschema \<Rightarrow> engineActor \<Rightarrow>
    engineActor res" where
  "engine_createtable indet fresh source rcv ac =
     (let en = ac_engine ac; d = us_domainid rcv
      in rmap (\<lambda>s. let (r, s') = createTable indet (us_tableid rcv) s;
                       ac1 = ac\<lparr>ac_engine := en\<lparr>domainidsToSchemata :=
                                   (domainidsToSchemata en)(d \<mapsto> s')\<rparr>,
                                ac_status := (if r = STATUS_OK then BUILTIN_STATUS_OK
                                              else BUILTIN_STATUS_NOTOK)\<rparr>
                   in usmReply source (fresh\<lparr>us_tableid := us_tableid rcv\<rparr>) ac1)
           (deref (domainidsToSchemata en d)))"

definition engine_addcolumn :: "userschema \<Rightarrow> addressStruct \<Rightarrow> userschema \<Rightarrow> engineActor \<Rightarrow>
    engineActor res" where
  "engine_addcolumn fresh source rcv ac =
     rmap (\<lambda>(fid, en'). usmReply source (fresh\<lparr>us_fieldid := fid\<rparr>)
             (ac\<lparr>ac_engine := en', ac_status := BUILTIN_STATUS_OK\<rparr>))
       (on_domain (ac_domainid ac) (us_tableid rcv) (\<lambda>t.
          Inr (addfield (us_fieldtype rcv) (nat (us_fieldlen rcv)) [] (us_indextype rcv) t))
          (ac_engine ac))"

text \<open>\<open>deleteindex\<close>, \<open>deletetable\<close> and \<open>deleteschema\<close> have the same body: they only reply.\<close>

definition engine_deletebuiltin :: "userschema \<Rightarrow> addressStruct \<Rightarrow> engineActor \<Rightarrow> engineActor" where
  "engine_deletebuiltin fresh source ac = usmReply source fresh (ac\<lparr>ac_status := BUILTIN_STATUS_OK\<rparr>)"

definition schema_request :: "int \<Rightarrow> userschema \<Rightarrow> addressStruct \<Rightarrow> userschema \<Rightarrow> engineActor \<Rightarrow>
    engineActor res" where
  "schema_request indet fresh source rcv ac =
     (let cmd = ac_builtincmd ac
      in if cmd = BUILTINCREATESCHEMA then Inr (engine_createschema fresh source rcv ac)
         else if cmd = BUILTINCREATETABLE then engine_createtable indet fresh source rcv ac
         else if cmd = BUILTINADDCOLUMN then engine_addcolumn fresh source rcv ac
         else if cmd \<in> {BUILTINDELETEINDEX, BUILTINDELETETABLE, BUILTINDELETESCHEMA}
           then Inr (engine_deletebuiltin fresh source ac)
         else Inr ac)"

section \<open>The partition\<close>

definition getMyPartitionid :: "int list \<Rightarrow> engineActor \<Rightarrow> engineActor" where
  "getMyPartitionid partitionListThisReplica ac =
     fold (\<lambda>n ac. if ac_mbox ac = partitionListThisReplica ! n
                  then ac\<lparr>ac_engine := (ac_engine ac)\<lparr>en_partitionid := int n\<rparr>\<rparr> else ac)
       [0..<length partitionListThisReplica] ac"

section \<open>Dispatch\<close>

definition transaction_message :: "(bytes \<Rightarrow> bytes \<Rightarrow> bool) \<Rightarrow> int \<Rightarrow> addressStruct \<Rightarrow> message \<Rightarrow>
    engine \<Rightarrow> engine res" where
  "transaction_message fullMatch indet source m en =
     (let ts = msg_transactionStruct m; sid = ts_subtransactionid ts
      in if sid \<le> 0 then
           let (st, en1) = SubTransaction source (ts_transactionid ts) (ts_domainid ts) en
           in processTransactionMessage fullMatch indet st m en1
         else case SubTransactions en sid of
             Some st \<Rightarrow> processTransactionMessage fullMatch indet st m en
           | None \<Rightarrow> Inr en)"

definition end_subtransaction :: "transactionStruct \<Rightarrow> engine \<Rightarrow> engine" where
  "end_subtransaction ts en =
     (case SubTransactions en (ts_subtransactionid ts) of
        Some st \<Rightarrow> delete_SubTransaction st en
      | None \<Rightarrow> en)"

definition apply_msg :: "addressStruct \<Rightarrow> applyMsg \<Rightarrow> engineActor \<Rightarrow> engineActor res" where
  "apply_msg source inmsg ac =
     rmap (\<lambda>s. ac\<lparr>ac_engine := as_engine s, ac_backgrounded := as_backgrounded s,
                  ac_outbox := ac_outbox ac @ map (\<lambda>(d, m). (d, ACKAPPLY m)) (as_acks s)\<rparr>)
       (apply_message inmsg source \<lparr>as_engine = ac_engine ac, as_backgrounded = ac_backgrounded ac,
          as_acks = []\<rparr>)"

text \<open>The members a message of the schema manager sets before the dispatch\<close>

definition read_userschema :: "addressStruct \<Rightarrow> userschema \<Rightarrow> engineActor \<Rightarrow> engineActor" where
  "read_userschema source rcv ac =
     ac\<lparr>ac_argsize := us_argsize rcv, ac_taAddr := source, ac_operationid := us_operationid rcv,
        ac_domainid := us_domainid rcv, ac_userid := us_userid rcv,
        ac_builtincmd := us_builtincmd rcv\<rparr>"

definition receive :: "(bytes \<Rightarrow> bytes \<Rightarrow> bool) \<Rightarrow> int \<Rightarrow> userschema \<Rightarrow> engineMessage \<Rightarrow> engineActor \<Rightarrow>
    engineActor res" where
  "receive fullMatch indet fresh msgrcv ac =
     (case msgrcv of
        TOPIC_SCHEMAREQUEST source rcv \<Rightarrow>
          schema_request indet fresh source rcv (read_userschema source rcv ac)
      | TOPIC_TRANSACTION source m \<Rightarrow> run_engine (transaction_message fullMatch indet source m) ac
      | TOPIC_ENDSUBTRANSACTION ts \<Rightarrow> Inr (ac\<lparr>ac_engine := end_subtransaction ts (ac_engine ac)\<rparr>)
      | TOPIC_TOPOLOGY parts \<Rightarrow> Inr (getMyPartitionid parts ac)
      | TOPIC_APPLY source inmsg \<Rightarrow> apply_msg source inmsg ac
      | TOPIC_OTHER \<Rightarrow> Inr ac)"

definition receives :: "(bytes \<Rightarrow> bytes \<Rightarrow> bool) \<Rightarrow> int \<Rightarrow> userschema \<Rightarrow> engineMessage list \<Rightarrow> engineActor \<Rightarrow>
    engineActor res" where
  "receives fullMatch indet fresh = rfold (receive fullMatch indet fresh)"

end
