(* ===== verification/Apply_Steps.thy ===== *)
theory Apply_Steps
  imports Engine_Apply Unique_Index "HOL-Library.Multiset"
begin

text \<open>
  What applying an item of replication does: to an index (it stays well-formed, and is an abstract
  map or bag of entries updated), to the rows (an abstract map of contents), and to the tables of
  an engine.
\<close>

section \<open>Multimaps\<close>

lemma mm_split:
  assumes "mm_ok m"
  shows "m = filter (\<lambda>p. fst p < k) m @ filter (\<lambda>p. fst p = k) m @ filter (\<lambda>p. k < fst p) m"
proof -
  have "sorted (map fst m)" using assms by (simp add: mm_ok_def)
  then show ?thesis
  proof (induction m)
    case (Cons p m)
    then have "fst p = k \<or> k < fst p \<Longrightarrow> filter (\<lambda>p. fst p < k) m = []"
      and "k < fst p \<Longrightarrow> filter (\<lambda>p. fst p = k) m = []"
      by (force simp: filter_empty_conv)+
    with Cons show ?case by (cases "fst p < k"; cases "fst p = k") auto
  qed simp
qed

lemma take_lower_bound: "mm_ok m \<Longrightarrow> take (lower_bound k m) m = filter (\<lambda>p. fst p < k) m"
  unfolding lower_bound_def
  by (rule trans [OF take_length_takeWhile takeWhile_sorted]) simp_all

lemma drop_upper_bound: "mm_ok m \<Longrightarrow> drop (upper_bound k m) m = filter (\<lambda>p. k < fst p) m"
  unfolding upper_bound_def
  by (rule trans [OF drop_length_takeWhile], subst dropWhile_sorted) (auto simp: not_le)

lemma erase_first_member:
  "erase_first (\<lambda>p. snd p = e) (filter (\<lambda>p. fst p = k) m) =
   (if (k, e) \<in> set m then Some (remove1 (k, e) (filter (\<lambda>p. fst p = k) m)) else None)"
  by (induction m) auto

lemma multimap_delete_eq:
  assumes "nonuniqueIdx t = Some m" "mm_ok m"
  shows "multimap_delete k e t =
    Inr (if (k, e) \<in> set m then (True, t\<lparr>nonuniqueIdx := Some (remove1 (k, e) m)\<rparr>) else (False, t))"
proof -
  let ?lt = "filter (\<lambda>p. fst p < k) m" and ?eq = "filter (\<lambda>p. fst p = k) m"
    and ?gt = "filter (\<lambda>p. k < fst p) m"
  have parts: "take (lower_bound k m) m = ?lt" "drop (upper_bound k m) m = ?gt"
    "equal_range k m = Inr ?eq"
    by (simp_all add: take_lower_bound [OF assms(2)] drop_upper_bound [OF assms(2)]
        equal_range_filter [OF assms(2)])
  have row: "is_row (nl_rowid e) (nl_engineid e) x \<longleftrightarrow> x = e" for x
    by (cases x; cases e) (auto simp: is_row_iff)
  have "remove1 (k, e) m = ?lt @ remove1 (k, e) ?eq @ ?gt" if "(k, e) \<in> set m"
    using that by (subst mm_split [OF assms(2), of k]) (simp add: remove1_append)
  then show ?thesis
    by (simp add: multimap_delete_def assms(1) parts row erase_first_member)
qed

lemma mm_ok_remove1: "mm_ok m \<Longrightarrow> mm_ok (remove1 p m)"
  unfolding mm_ok_def
proof (induction m)
  case (Cons q m)
  then show ?case using set_remove1_subset [of p m] by auto
qed simp

section \<open>Indices stay well-formed\<close>

lemma kept_multimap [kept_intros]:
  "multimap_add k e t = Inr t' \<Longrightarrow> typed_kept t t'"
  "multimap_delete k e t = Inr (b, t') \<Longrightarrow> typed_kept t t'"
proof -
  show "multimap_add k e t = Inr t' \<Longrightarrow> typed_kept t t'"
    by (auto simp: multimap_add_def typed_kept_def typed_ok_def mm_insert_ok)
  assume d: "multimap_delete k e t = Inr (b, t')"
  then obtain m where m: "nonuniqueIdx t = Some m" by (auto simp: multimap_delete_def)
  show "typed_kept t t'"
  proof (cases "mm_ok m")
    case True
    then show ?thesis
      using d m by (cases "(k, e) \<in> set m")
        (auto simp: multimap_delete_eq [OF m] typed_kept_def typed_ok_def mm_ok_remove1)
  next
    case False
    then show ?thesis
      using d m by (auto simp: multimap_delete_def typed_kept_def typed_ok_def split: option.splits)
  qed
qed

lemma kept_replication:
  "addifnotthere ix v r e sub = Inr (b, ix') \<Longrightarrow> index_kept ix ix'"
  "rm ix v = Inr ix' \<Longrightarrow> index_kept ix ix'"
proof -
  show "index_kept ix ix'" if a: "addifnotthere ix v r e sub = Inr (b, ix')"
  proof (cases "checkifthere ix v = Inr True")
    case False
    then show ?thesis
      using a unfolding addifnotthere_def Let_def
      by (cases "checkifthere ix v"; simp; cases "indexmaptype ix"; simp add: rmap_def split: sum.splits;
          elim conjE upd_kept kept_unique_bodies kept_unordered_bodies; simp)
  qed (use a in \<open>simp add: addifnotthere_def\<close>)
  show "index_kept ix ix'" if "rm ix v = Inr ix'"
    using that
    unfolding rm_def rm_int_def rm_uint_def rm_bool_def rm_float_def rm_char_def rm_string_def
    by (cases "fieldtype ix"; cases "indexmaptype ix"; simp;
        elim upd_kept kept_unique_bodies kept_unordered_bodies)
qed

lemma kept_apply_nonunique:
  "apply_nonunique_add v e ix = Inr ix' \<Longrightarrow> index_kept ix ix'"
  "apply_nonunique_delete v e ix = Inr (b, ix') \<Longrightarrow> index_kept ix ix'"
  unfolding apply_nonunique_add_def apply_nonunique_delete_def
  by (cases "indexmaptype ix"; simp; elim upd_kept with_kept kept_multimap)+

lemma kept_applyItem_index:
  assumes "applyItem_index sub info ix = Inr (b, ix')"
  shows "index_kept ix ix'"
proof -
  have null: "apply_null add v ix = (b, ix') \<Longrightarrow> index_kept ix ix'" for add v
    by (auto simp: apply_null_def index_kept_def same_kind_def split: if_splits)
  have uniq: "apply_unique sub add v e ix = Inr (b, ix') \<Longrightarrow> index_kept ix ix'" for add v e
    by (auto simp: apply_unique_def split: if_splits intro: kept_replication)
  show ?thesis
    using assms by (auto simp: applyItem_index_def Let_def split: if_splits
        intro: null uniq kept_apply_nonunique)
qed

section \<open>Unique indices: an abstract map\<close>

definition abs_apply_unique :: "int \<Rightarrow> bool \<Rightarrow> 'k \<Rightarrow> nonLockingIndexEntry \<Rightarrow> 'k entries \<Rightarrow>
    bool \<times> 'k entries" where
  "abs_apply_unique sub add k e M =
     (case M k of
        None \<Rightarrow>
          if add then (True, M(k \<mapsto> \<lparr>li_rowid = nl_rowid e, li_engineid = nl_engineid e,
                                 li_subtransactionid = 0, li_previoussubtransactionid = sub\<rparr>))
          else (False, M)
      | Some cur \<Rightarrow>
          if add then (li_previoussubtransactionid cur \<le> sub, M)
          else if nl_of cur = e then (True, M(k := None))
          else (sub \<le> li_previoussubtransactionid cur, M))"

lemma map_of_map_erase: "map_of (map_erase k m) = (map_of m)(k := None)"
  by (simp add: map_erase_def map_of_filter_neq)

lemma replication_entries:
  assumes "index_wf ix" "imt_unique (indexmaptype ix)" "fieldtype ix = imt_fieldtype (indexmaptype ix)"
  shows "checkifthere ix v = Inr (entries ix (key_in ix v) \<noteq> None)"
    and "entries ix (key_in ix v) = Some cur \<Longrightarrow>
      checkifmatch ix v r e = Inr (li_rowid cur = r \<and> li_engineid cur = e)"
    and "entries ix (key_in ix v) = Some cur \<Longrightarrow>
      getprevioussubtransactionid ix v = Inr (li_previoussubtransactionid cur)"
  using assms
  by (cases "indexmaptype ix";
      auto simp: replication_defs entries_def value_key_def index_wf_def imt_unique_def unique_ready_def
        unordered_ready_def unique_entries_def unordered_entries_def map_count_def map_at_def Let_def)+

lemma replication_updates:
  assumes "index_wf ix" "imt_unique (indexmaptype ix)" "fieldtype ix = imt_fieldtype (indexmaptype ix)"
  shows "entries ix (key_in ix v) = None \<Longrightarrow> \<exists>ix'. addifnotthere ix v r e sub = Inr (True, ix')
      \<and> entries ix' = (entries ix)(key_in ix v \<mapsto> \<lparr>li_rowid = r, li_engineid = e,
          li_subtransactionid = 0, li_previoussubtransactionid = sub\<rparr>)"
    and "\<exists>ix'. rm ix v = Inr ix' \<and> entries ix' = (entries ix)(key_in ix v := None)"
proof -
  let ?e = "\<lparr>li_rowid = r, li_engineid = e, li_subtransactionid = 0, li_previoussubtransactionid = sub\<rparr>"
  note lifts = kint.lift_upd kuint.lift_upd kbool.lift_upd kfloat.lift_upd kchar.lift_upd kstring.lift_upd
  show "\<exists>ix'. rm ix v = Inr ix' \<and> entries ix' = (entries ix)(key_in ix v := None)"
    using assms
    by (cases "indexmaptype ix")
      (auto simp: rm_def rm_int_def rm_uint_def rm_bool_def rm_float_def rm_char_def rm_string_def
        upd_defs entries_def value_key_def index_wf_def imt_unique_def unique_ready_def
        unordered_ready_def unique_entries_def unordered_entries_def erase_unique_def
        erase_unordered_def Let_def map_of_map_erase lifts)
  assume n: "entries ix (key_in ix v) = None"
  then have "checkifthere ix v = Inr False"
    using replication_entries(1) [OF assms] by simp
  then show "\<exists>ix'. addifnotthere ix v r e sub = Inr (True, ix')
      \<and> entries ix' = (entries ix)(key_in ix v \<mapsto> ?e)"
    using assms(1,2)
    by (cases "indexmaptype ix")
      (auto simp: addifnotthere_def upd_defs entries_def value_key_def index_wf_def imt_unique_def
        unique_ready_def unordered_ready_def unique_entries_def unordered_entries_def put_unique_def
        put_unordered_def Let_def ordered.map_of_put unordered.map_of_put lifts)
qed

lemma apply_unique_refines:
  assumes "index_wf ix" "imt_unique (indexmaptype ix)" "fieldtype ix = imt_fieldtype (indexmaptype ix)"
  shows "\<exists>ok ix'. apply_unique sub add v e ix = Inr (ok, ix')
    \<and> abs_apply_unique sub add (key_in ix v) e (entries ix) = (ok, entries ix')"
proof (cases "entries ix (key_in ix v)")
  case None
  then show ?thesis
    using replication_entries(1) [OF assms, of v] replication_updates(1) [OF assms, of v]
    by (cases add) (fastforce simp: apply_unique_def abs_apply_unique_def)+
next
  case (Some cur)
  have "nl_of cur = e \<longleftrightarrow> li_rowid cur = nl_rowid e \<and> li_engineid cur = nl_engineid e"
    by (cases e) (auto simp: nl_of_def)
  then show ?thesis
    using Some replication_entries [OF assms, of v] replication_updates(2) [OF assms, of v]
    by (auto simp: apply_unique_def addifnotthere_def abs_apply_unique_def)
qed

section \<open>Multimap indices: an abstract bag\<close>

definition typed_bag :: "('k \<Rightarrow> index_key) \<Rightarrow> 'k typed_index \<Rightarrow> (index_key \<times> nonLockingIndexEntry) multiset" where
  "typed_bag mk t =
     (case nonuniqueIdx t of None \<Rightarrow> {#} | Some m \<Rightarrow> image_mset (map_prod mk id) (mset m))"

definition bag :: "index \<Rightarrow> (index_key \<times> nonLockingIndexEntry) multiset" where
  "bag ix =
     (case indexmaptype ix of
        nonuniqueint \<Rightarrow> typed_bag KInt (intIx ix)
      | nonuniqueuint \<Rightarrow> typed_bag KUint (uintIx ix)
      | nonuniquebool \<Rightarrow> typed_bag KBool (boolIx ix)
      | nonuniquefloat \<Rightarrow> typed_bag KFloat (floatIx ix)
      | nonuniquechar \<Rightarrow> typed_bag KChar (charIx ix)
      | nonuniquecharx \<Rightarrow> typed_bag KString (stringIx ix)
      | nonuniquevarchar \<Rightarrow> typed_bag KString (stringIx ix)
      | _ \<Rightarrow> {#})"

definition imt_multimap :: "indexmaptype \<Rightarrow> bool" where
  "imt_multimap imt \<longleftrightarrow> imt \<in> {nonuniqueint, nonuniqueuint, nonuniquebool, nonuniquefloat,
     nonuniquechar, nonuniquecharx, nonuniquevarchar}"

lemma multimap_bodies:
  assumes "nonunique_ready t" "inj mk"
  shows "\<exists>t'. multimap_add k e t = Inr t' \<and> typed_bag mk t' = add_mset (mk k, e) (typed_bag mk t)"
    and "\<exists>t'. multimap_delete k e t = Inr ((mk k, e) \<in># typed_bag mk t, t')
      \<and> typed_bag mk t' = typed_bag mk t - {#(mk k, e)#}"
proof -
  obtain m where m: "nonuniqueIdx t = Some m" "mm_ok m"
    using assms(1) by (auto simp: nonunique_ready_def)
  have i: "inj (map_prod mk (id :: nonLockingIndexEntry \<Rightarrow> _))"
    using assms(2) by (simp add: prod.inj_map)
  have x: "(mk k, e) = map_prod mk id (k, e)" by simp
  have mem: "(mk k, e) \<in># typed_bag mk t \<longleftrightarrow> (k, e) \<in> set m"
    by (auto simp: typed_bag_def m image_iff dest: injD [OF assms(2)] intro!: bexI [of _ "(k, e)"])
  have "typed_bag mk (t\<lparr>nonuniqueIdx := Some (remove1 (k, e) m)\<rparr>) = typed_bag mk t - {#(mk k, e)#}"
    if "(k, e) \<in> set m"
    using that by (simp add: typed_bag_def m image_mset_Diff x del: map_prod_simp)
  then show "\<exists>t'. multimap_delete k e t = Inr ((mk k, e) \<in># typed_bag mk t, t')
      \<and> typed_bag mk t' = typed_bag mk t - {#(mk k, e)#}"
    using mem by (auto simp: multimap_delete_eq [OF m] diff_single_trivial)
  show "\<exists>t'. multimap_add k e t = Inr t' \<and> typed_bag mk t' = add_mset (mk k, e) (typed_bag mk t)"
    by (simp add: multimap_add_def m typed_bag_def mset_mm_insert)
qed

lemma apply_nonunique_refines:
  assumes "index_wf ix" "imt_multimap (indexmaptype ix)"
  shows "\<exists>ix'. apply_nonunique_add v e ix = Inr ix' \<and> bag ix' = add_mset (key_in ix v, e) (bag ix)"
    and "\<exists>ix'. apply_nonunique_delete v e ix = Inr ((key_in ix v, e) \<in># bag ix, ix')
      \<and> bag ix' = bag ix - {#(key_in ix v, e)#}"
proof -
  note bodies = multimap_bodies [of "intIx ix" KInt "integer v" e]
    multimap_bodies [of "uintIx ix" KUint "uinteger v" e]
    multimap_bodies [of "boolIx ix" KBool "boolean v" e]
    multimap_bodies [of "floatIx ix" KFloat "ld_key (floating v)" e]
    multimap_bodies [of "charIx ix" KChar "character v" e]
    multimap_bodies [of "stringIx ix" KString "str v" e]
  have inj: "inj KInt" "inj KUint" "inj KBool" "inj KFloat" "inj KChar" "inj KString"
    by (simp_all add: inj_def)
  show "\<exists>ix'. apply_nonunique_add v e ix = Inr ix' \<and> bag ix' = add_mset (key_in ix v, e) (bag ix)"
    using assms bodies inj
    by (cases "indexmaptype ix")
      (auto simp: apply_nonunique_add_def upd_defs bag_def index_wf_def imt_multimap_def value_key_def)
  show "\<exists>ix'. apply_nonunique_delete v e ix = Inr ((key_in ix v, e) \<in># bag ix, ix')
      \<and> bag ix' = bag ix - {#(key_in ix v, e)#}"
    using assms bodies inj
    by (cases "indexmaptype ix")
      (auto simp: apply_nonunique_delete_def with_defs bag_def index_wf_def imt_multimap_def value_key_def)
qed

section \<open>Rows: an abstract map of contents\<close>

type_synonym contents = "int \<rightharpoonup> bytes \<times> int"   \<comment> \<open>the row and its last writer\<close>

definition content :: "table \<Rightarrow> contents" where
  "content t rid =
     map_option (\<lambda>r. (row r, previoussubtransactionid r)) (Option.bind (rows t rid) (heap t))"

text \<open>On a table of a replica no transaction runs: there are no shadow rows.\<close>

definition replica_ok :: "table \<Rightarrow> bool" where
  "replica_ok t \<longleftrightarrow>
     shadowRows t = Map.empty
     \<and> (\<forall>rid a. rows t rid = Some a \<longrightarrow> heap t a \<noteq> None)
     \<and> (\<forall>a. heap t a \<noteq> None \<longrightarrow> a < brk t)
     \<and> (\<forall>rid rid' a. rows t rid = Some a \<longrightarrow> rows t rid' = Some a \<longrightarrow> rid = rid')"

definition abs_apply_row :: "int \<Rightarrow> record_s \<Rightarrow> contents \<Rightarrow> bool \<times> contents" where
  "abs_apply_row sub item M =
     (let rid = re_rowid item
      in if re_primitive item = INSERT
         then if M rid = None then (True, M(rid \<mapsto> (re_row item, sub))) else (False, M)
         else if re_primitive item = DELETE
         then case M rid of
             None \<Rightarrow> (False, M)
           | Some (_, writer) \<Rightarrow> if writer = sub then (True, M(rid := None)) else (False, M)
         else (False, M))"

lemma content_None: "replica_ok t \<Longrightarrow> content t rid = None \<longleftrightarrow> rows t rid = None"
  by (cases "rows t rid") (auto simp: content_def replica_ok_def)

lemma put_row_replica:
  assumes "replica_ok t" "rows t rid = None"
  shows "replica_ok (put_row sub rid r t)"
    and "content (put_row sub rid r t) = (content t)(rid \<mapsto> (r, sub))"
proof -
  have b: "rows t x \<noteq> Some (brk t)" "heap t (brk t) = None" for x
    using assms(1) by (auto simp: replica_ok_def)
  show "replica_ok (put_row sub rid r t)"
    using assms b by (auto simp: replica_ok_def put_row_def alloc_def less_Suc_eq split: if_splits)
  show "content (put_row sub rid r t) = (content t)(rid \<mapsto> (r, sub))"
  proof
    fix x show "content (put_row sub rid r t) x = ((content t)(rid \<mapsto> (r, sub))) x"
      using b by (cases "rows t x") (auto simp: content_def put_row_def alloc_def)
  qed
qed

lemma delete_row_replica:
  assumes "replica_ok t" "rows t rid = Some a" "free a t = Inr t'"
  shows "replica_ok (rows_erase rid t')" and "content (rows_erase rid t') = (content t)(rid := None)"
proof -
  have t': "t' = t\<lparr>heap := (heap t)(a := None)\<rparr>"
    using assms(3) by (auto simp: free_def split: option.splits)
  show "replica_ok (rows_erase rid t')"
    using assms by (auto simp: replica_ok_def rows_erase_def t')
  show "content (rows_erase rid t') = (content t)(rid := None)"
  proof
    fix x show "content (rows_erase rid t') x = ((content t)(rid := None)) x"
      using assms(1,2) by (cases "rows t x") (auto simp: content_def rows_erase_def t' replica_ok_def)
  qed
qed

lemma applyItem_row_refines:
  assumes "replica_ok t" "re_primitive item \<noteq> UPDATE"
  shows "\<exists>ok t'. applyItem_row sub item t = Inr (ok, t')
    \<and> abs_apply_row sub item (content t) = (ok, content t') \<and> replica_ok t' \<and> (\<not> ok \<longrightarrow> t' = t)"
proof (cases "re_primitive item")
  case INSERT
  then show ?thesis
    using put_row_replica [OF assms(1)] content_None [OF assms(1)] assms(1)
    by (auto simp: applyItem_row_def abs_apply_row_def Let_def)
next
  case DELETE
  show ?thesis
  proof (cases "rows t (re_rowid item)")
    case None
    then have "content t (re_rowid item) = None" using content_None [OF assms(1)] by simp
    then show ?thesis
      using DELETE None assms(1) by (auto simp: applyItem_row_def abs_apply_row_def Let_def)
  next
    case (Some a)
    have "heap t a \<noteq> None" using Some assms(1) by (simp add: replica_ok_def)
    then obtain cur where cur: "heap t a = Some cur" by blast
    then obtain t' where f: "free a t = Inr t'" by (simp add: free_def)
    have "content t (re_rowid item) = Some (row cur, previoussubtransactionid cur)"
      using Some cur by (simp add: content_def)
    then show ?thesis
      using DELETE Some cur f delete_row_replica [OF assms(1) Some f] assms(1)
      by (auto simp: applyItem_row_def abs_apply_row_def row_at_def load_def)
  qed
qed (use assms in \<open>auto simp: applyItem_row_def abs_apply_row_def Let_def\<close>)

section \<open>A whole message\<close>

lemma on_domain_at:
  assumes "table_in en d i = Some t" "f t = Inr (r, t')"
  shows "\<exists>en'. on_domain d i f en = Inr (r, en') \<and> engine_frame en' = engine_frame en
    \<and> (\<forall>d' j. table_in en' d' j = (if d' = d \<and> j = i then Some t' else table_in en d' j))
    \<and> (t' = t \<longrightarrow> en' = en)"
  using assms
  by (auto simp: on_domain_def table_in_def engine_frame_def fun_upd_idem split: option.splits)

definition contents_of :: "engine \<Rightarrow> int \<Rightarrow> int \<Rightarrow> contents" where
  "contents_of en d i = (case table_in en d i of None \<Rightarrow> Map.empty | Some t \<Rightarrow> content t)"

text \<open>The message is for tables of a replica and has no update.\<close>

definition applicable :: "int \<Rightarrow> record_s list \<Rightarrow> engine \<Rightarrow> bool" where
  "applicable d rs en \<longleftrightarrow>
     (\<forall>r \<in> set rs. re_primitive r \<noteq> UPDATE
        \<and> (\<exists>t. table_in en d (re_tableid r) = Some t \<and> replica_ok t))"

lemma apply_record_refines:
  assumes "applicable d (r # rs) en"
  shows "\<exists>ok en'. apply_record sub d r en = Inr (ok, en') \<and> applicable d (r # rs) en'
    \<and> ok = fst (abs_apply_row sub r (contents_of en d (re_tableid r)))
    \<and> contents_of en' d = (contents_of en d)
        (re_tableid r := snd (abs_apply_row sub r (contents_of en d (re_tableid r))))
    \<and> (\<not> ok \<longrightarrow> en' = en)"
proof -
  let ?i = "re_tableid r"
  obtain t where t: "table_in en d ?i = Some t" "replica_ok t" "re_primitive r \<noteq> UPDATE"
    using assms by (auto simp: applicable_def)
  obtain ok t' where a: "applyItem_row sub r t = Inr (ok, t')" "replica_ok t'" "\<not> ok \<longrightarrow> t' = t"
    "abs_apply_row sub r (content t) = (ok, content t')"
    using applyItem_row_refines [OF t(2,3)] by blast
  obtain en' where e: "on_domain d ?i (applyItem_row sub r) en = Inr (ok, en')" "t' = t \<longrightarrow> en' = en"
    "\<And>d' j. table_in en' d' j = (if d' = d \<and> j = ?i then Some t' else table_in en d' j)"
    using on_domain_at [where f = "applyItem_row sub r", OF t(1) a(1)] by blast
  have "contents_of en' d = (contents_of en d)(?i := content t')"
    by (simp add: contents_of_def e(3) fun_eq_iff)
  moreover have "contents_of en d ?i = content t" using t(1) by (simp add: contents_of_def)
  moreover have "applicable d (r # rs) en'"
    using assms a(2) by (auto simp: applicable_def e(3))
  ultimately show ?thesis
    using e(1,2) a(3,4) by (intro exI [of _ ok] exI [of _ en']) (simp add: apply_record_def)
qed

text \<open>The records of a message in order: the contents, and the records refused\<close>

fun abs_rows :: "int \<Rightarrow> record_s list \<Rightarrow> (int \<Rightarrow> contents) \<Rightarrow> (int \<Rightarrow> contents) \<times> record_s list" where
  "abs_rows sub [] M = (M, [])"
| "abs_rows sub (r # rs) M =
     (let (ok, C) = abs_apply_row sub r (M (re_tableid r));
          (M', refused) = abs_rows sub rs (M(re_tableid r := C))
      in (M', if ok then refused else r # refused))"

definition in_background :: "applyMsg \<Rightarrow> addressStruct \<Rightarrow> record_s list \<Rightarrow> (int \<times> background) list" where
  "in_background m src rs =
     (if rs = [] then []
      else [(ap_subtransactionid m, \<lparr>bg_applierid = ap_applierid m, bg_taAddress = src,
                                      bg_rows = rs, bg_indices = []\<rparr>)])"

lemma background_row_append:
  assumes "as_backgrounded s = in_background m src rs"
  shows "background_row m src r s = s\<lparr>as_backgrounded := in_background m src (rs @ [r])\<rparr>"
  using assms
  by (auto simp: background_row_def open_background_def in_background_def map_count_def map_modify_def)

lemma applicable_kept:
  assumes "apply_record sub d r en = Inr (ok, en1)" "applicable d [r] en" "applicable d rs en"
  shows "applicable d rs en1"
proof -
  have "applicable d (r # rs) en" using assms(2,3) by (simp add: applicable_def)
  from apply_record_refines [OF this, of sub] assms(1) show ?thesis by (auto simp: applicable_def)
qed

text \<open>When nothing is refused, what is in the background already does not matter.\<close>

lemma apply_rows_all:
  assumes "applicable (ap_domainid m) rs (as_engine s)"
    and "abs_rows (ap_subtransactionid m) rs (contents_of (as_engine s) (ap_domainid m)) = (M', [])"
  shows "\<exists>en'. rfold (apply_row_item m src) rs s = Inr (s\<lparr>as_engine := en'\<rparr>)
    \<and> contents_of en' (ap_domainid m) = M'
    \<and> (\<forall>rs'. applicable (ap_domainid m) rs' (as_engine s) \<longrightarrow> applicable (ap_domainid m) rs' en')"
  using assms
proof (induction rs arbitrary: s)
  case Nil
  then show ?case by (intro exI [of _ "as_engine s"]) simp
next
  case (Cons r rs)
  let ?d = "ap_domainid m" and ?sub = "ap_subtransactionid m"
  obtain ok en1 where e: "apply_record ?sub ?d r (as_engine s) = Inr (ok, en1)"
    "ok = fst (abs_apply_row ?sub r (contents_of (as_engine s) ?d (re_tableid r)))"
    "contents_of en1 ?d = (contents_of (as_engine s) ?d)
        (re_tableid r := snd (abs_apply_row ?sub r (contents_of (as_engine s) ?d (re_tableid r))))"
    using apply_record_refines [OF Cons.prems(1)] by blast
  have keep: "applicable ?d rs' en1" if "applicable ?d rs' (as_engine s)" for rs'
    using applicable_kept [OF e(1)] that Cons.prems(1) by (simp add: applicable_def)
  obtain M1 rest where "abs_rows ?sub rs (contents_of en1 ?d) = (M1, rest)" by fastforce
  then have rest: "abs_rows ?sub rs (contents_of en1 ?d) = (M', [])" "ok"
    using Cons.prems(2) e(2,3) by (auto simp: split_def split: if_splits)
  have "apply_row_item m src r s = Inr (s\<lparr>as_engine := en1\<rparr>)"
    using e(1) rest(2) by (simp add: apply_row_item_def)
  moreover have "applicable ?d rs (as_engine (s\<lparr>as_engine := en1\<rparr>))"
    using keep [of rs] Cons.prems(1) by (simp add: applicable_def)
  from Cons.IH [OF this] rest(1) obtain en' where
    "rfold (apply_row_item m src) rs (s\<lparr>as_engine := en1\<rparr>) = Inr (s\<lparr>as_engine := en'\<rparr>)"
    "contents_of en' ?d = M'" "\<forall>rs'. applicable ?d rs' en1 \<longrightarrow> applicable ?d rs' en'"
    by auto
  ultimately show ?case using keep by (intro exI [of _ en']) auto
qed

lemma apply_rows_refine:
  assumes "applicable (ap_domainid m) rs (as_engine s)"
    and "as_backgrounded s = in_background m src bs"
    and "abs_rows (ap_subtransactionid m) rs (contents_of (as_engine s) (ap_domainid m)) = (M', refused)"
  shows "\<exists>en'. rfold (apply_row_item m src) rs s =
      Inr (s\<lparr>as_engine := en', as_backgrounded := in_background m src (bs @ refused)\<rparr>)
    \<and> contents_of en' (ap_domainid m) = M'
    \<and> (\<forall>rs'. applicable (ap_domainid m) rs' (as_engine s) \<longrightarrow> applicable (ap_domainid m) rs' en')"
  using assms
proof (induction rs arbitrary: s bs M' refused)
  case Nil
  then show ?case by (cases s) auto
next
  case (Cons r rs)
  let ?d = "ap_domainid m" and ?sub = "ap_subtransactionid m"
  obtain ok en1 where e: "apply_record ?sub ?d r (as_engine s) = Inr (ok, en1)"
    "ok = fst (abs_apply_row ?sub r (contents_of (as_engine s) ?d (re_tableid r)))"
    "contents_of en1 ?d = (contents_of (as_engine s) ?d)
        (re_tableid r := snd (abs_apply_row ?sub r (contents_of (as_engine s) ?d (re_tableid r))))"
    using apply_record_refines [OF Cons.prems(1)] by blast
  have keep: "applicable ?d rs' en1" if "applicable ?d rs' (as_engine s)" for rs'
    using applicable_kept [OF e(1)] that Cons.prems(1) by (simp add: applicable_def)
  obtain M1 rest where "abs_rows ?sub rs (contents_of en1 ?d) = (M1, rest)" by fastforce
  then have rest: "abs_rows ?sub rs (contents_of en1 ?d) = (M', rest)"
    "refused = (if ok then rest else r # rest)"
    using Cons.prems(3) e(2,3) by (auto simp: split_def)
  let ?s = "s\<lparr>as_engine := en1, as_backgrounded := in_background m src (if ok then bs else bs @ [r])\<rparr>"
  have "apply_row_item m src r s = Inr ?s"
    using e(1) Cons.prems(2) background_row_append [of "s\<lparr>as_engine := en1\<rparr>" m src bs r]
    by (cases s) (simp add: apply_row_item_def)
  moreover have "applicable ?d rs (as_engine ?s)"
    using keep [of rs] Cons.prems(1) by (simp add: applicable_def)
  from Cons.IH [OF this, of "if ok then bs else bs @ [r]" M' rest] obtain en' where
    "rfold (apply_row_item m src) rs ?s =
      Inr (?s\<lparr>as_engine := en', as_backgrounded := in_background m src ((if ok then bs else bs @ [r]) @ rest)\<rparr>)"
    "contents_of en' ?d = M'" "\<forall>rs'. applicable ?d rs' en1 \<longrightarrow> applicable ?d rs' en'"
    using rest by auto
  ultimately show ?case
    using rest(2) keep by (intro exI [of _ en']) auto
qed

lemma retry_rows:
  assumes "applicable d rs en"
  shows "retry_items (apply_record sub d) rs en =
    (if \<exists>r \<in> set rs. fst (abs_apply_row sub r (contents_of en d (re_tableid r))) then Inl InvalidIter
     else Inr en)"
  using assms
proof (induction rs)
  case (Cons r rs)
  obtain ok en' where "apply_record sub d r en = Inr (ok, en')" "\<not> ok \<longrightarrow> en' = en"
    "ok = fst (abs_apply_row sub r (contents_of en d (re_tableid r)))"
    using apply_record_refines [OF Cons.prems] by blast
  moreover have "applicable d rs en" using Cons.prems by (simp add: applicable_def)
  ultimately show ?case using Cons.IH by auto
qed simp

lemma abs_rows_refused: "set (snd (abs_rows sub rs M)) \<subseteq> set rs"
  by (induction rs arbitrary: M) (auto simp: split_def Let_def)

lemma apply_message_rows:
  assumes "applicable (ap_domainid m) (ap_rows m) (as_engine s)" "ap_indices m = []"
    and "domainidsToSchemata (as_engine s) (ap_domainid m) \<noteq> None" "as_backgrounded s = []"
    and "abs_rows (ap_subtransactionid m) (ap_rows m) (contents_of (as_engine s) (ap_domainid m)) = (M', refused)"
  shows "if \<exists>r \<in> set refused. fst (abs_apply_row (ap_subtransactionid m) r (M' (re_tableid r)))
    then apply_message m src s = Inl InvalidIter
    else \<exists>en'. contents_of en' (ap_domainid m) = M'
      \<and> apply_message m src s = Inr (s\<lparr>as_engine := en', as_backgrounded := in_background m src refused,
          as_acks := as_acks s @ (if refused = [] then [(src,
            \<lparr>aa_subtransactionid = ap_subtransactionid m, aa_applierid = ap_applierid m,
             aa_partitionid = - 1, aa_status = STATUS_OK\<rparr>)] else [])\<rparr>)"
proof -
  let ?d = "ap_domainid m" and ?sub = "ap_subtransactionid m"
  let ?retried = "\<exists>r \<in> set refused. fst (abs_apply_row ?sub r (M' (re_tableid r)))"
  have b: "as_backgrounded s = in_background m src []" using assms(4) by (simp add: in_background_def)
  obtain en' where e: "rfold (apply_row_item m src) (ap_rows m) s =
      Inr (s\<lparr>as_engine := en', as_backgrounded := in_background m src refused\<rparr>)"
    "contents_of en' ?d = M'" "applicable ?d (ap_rows m) en'"
    using apply_rows_refine [OF assms(1) b assms(5)] assms(1) by auto
  obtain d where "domainidsToSchemata (as_engine s) ?d = Some d" using assms(3) by blast
  then have run: "apply_message m src s =
      (let s3 = send_ack m src (s\<lparr>as_engine := en', as_backgrounded := in_background m src refused\<rparr>)
       in rfold (retry_background ?d) (as_backgrounded s3) s3)"
    by (simp add: apply_message_def e(1) assms(2))
  show ?thesis
  proof (cases "refused = []")
    case True
    then show ?thesis
      using e(2) by (auto simp: run send_ack_def in_background_def map_count_def)
  next
    case False
    have "set refused \<subseteq> set (ap_rows m)" using abs_rows_refused assms(5) by (metis snd_conv)
    then have "applicable ?d refused en'" using e(3) by (auto simp: applicable_def)
    from retry_rows [OF this, of ?sub] have r: "retry_items (apply_record ?sub ?d) refused en' =
        (if ?retried then Inl InvalidIter else Inr en')"
      using e(2) by simp
    show ?thesis
      using False r e(2)
      by (auto simp: run send_ack_def in_background_def map_count_def retry_background_def)
  qed
qed

lemma late_item:
  assumes "as_backgrounded s = [(sub', b)]" "sub' \<noteq> ap_subtransactionid m" "ap_indices m = []"
    and "applicable (ap_domainid m) (ap_rows m) (as_engine s)"
    and "applicable (ap_domainid m) (bg_rows b) (as_engine s)"
    and "domainidsToSchemata (as_engine s) (ap_domainid m) \<noteq> None"
    and "abs_rows (ap_subtransactionid m) (ap_rows m) (contents_of (as_engine s) (ap_domainid m)) = (M', [])"
    and "\<exists>r \<in> set (bg_rows b). fst (abs_apply_row sub' r (M' (re_tableid r)))"
  shows "apply_message m src s = Inl InvalidIter"
proof -
  obtain en' where e: "rfold (apply_row_item m src) (ap_rows m) s = Inr (s\<lparr>as_engine := en'\<rparr>)"
    "contents_of en' (ap_domainid m) = M'" "applicable (ap_domainid m) (bg_rows b) en'"
    using apply_rows_all [OF assms(4,7)] assms(5) by blast
  have "retry_items (apply_record sub' (ap_domainid m)) (bg_rows b) en' = Inl InvalidIter"
    using retry_rows [OF e(3), of sub'] assms(8) e(2) by simp
  then show ?thesis
    using assms(1-3,6) e(1)
    by (auto simp: apply_message_def send_ack_def map_count_def retry_background_def)
qed

end
