(* ===== verification/Engine_Properties.thy ===== *)
theory Engine_Properties
  imports Engine_Actor Apply_Steps Sub_Properties
begin

text \<open>
  Properties of the engine actor: the invariant of every reachable state, the isolation of locked
  rows from whole sequences of messages, and replication.
\<close>

section \<open>Steps on the tables\<close>

lemma engine_outbox [simp]:
  "table_in (en\<lparr>outbox := b\<rparr>) = table_in en" "engine_frame (en\<lparr>outbox := b\<rparr>) = engine_frame en"
  by (simp_all add: table_in_def engine_frame_def fun_eq_iff)

lemma on_domain_rel:
  assumes "on_domain d i f en = Inr (r, en')" "\<And>t t'. f t = Inr (r, t') \<Longrightarrow> R t t'" "\<And>t. R t t"
  shows "engine_rel R en en'"
proof -
  obtain s t t' where t: "domainidsToSchemata en d = Some s" "sch_tables s i = Some t" "f t = Inr (r, t')"
    using assms(1) by (auto simp: on_domain_def)
  then have "table_in en d i = Some t" by (simp add: table_in_def)
  from on_domain_at [where f = f, OF this t(3)] assms(1) have e: "engine_frame en' = engine_frame en"
    "\<And>d' j. table_in en' d' j = (if d' = d \<and> j = i then Some t' else table_in en d' j)"
    by auto
  have "rel_option R (table_in en d' j) (table_in en' d' j)" for d' j
    using assms(2) [OF t(3)] t(1,2) by (simp add: e(2) option.rel_refl assms(3)) (simp add: table_in_def)
  then show ?thesis using e(1) by (simp add: engine_rel_def)
qed

lemma applyItem_row_fields:
  assumes "applyItem_row sub item t = Inr (b, t')"
  shows "tb_fields t' = tb_fields t"
  using assms
  by (cases "re_primitive item")
    (auto simp: applyItem_row_def put_row_def alloc_def Let_def dest: free_fields split: if_splits)

lemma apply_items_rel:
  "apply_record sub d item en = Inr (b, en') \<Longrightarrow> engine_rel fields_kept en en'"
  "apply_entry sub d info en = Inr (b, en') \<Longrightarrow> engine_rel fields_kept en en'"
proof -
  show "engine_rel fields_kept en en'" if "apply_record sub d item en = Inr (b, en')"
    using that unfolding apply_record_def
    by (rule on_domain_rel) (auto intro: fields_kept_same fields_kept_refl dest: applyItem_row_fields)
  show "engine_rel fields_kept en en'" if "apply_entry sub d info en = Inr (b, en')"
    using that unfolding apply_entry_def
    by (rule on_domain_rel) (auto intro: fields_kept_set_index kept_applyItem_index fields_kept_refl)
qed

lemma retry_items_rel:
  assumes "\<And>i en b en'. f i en = Inr (b, en') \<Longrightarrow> engine_rel fields_kept en en'"
    and "retry_items f is en = Inr en'"
  shows "engine_rel fields_kept en en'"
  using assms(2)
proof (induction "is" arbitrary: en)
  case Nil
  then show ?case by (simp add: fields.engine_refl)
next
  case (Cons i "is")
  then obtain en1 where "f i en = Inr (False, en1)" "retry_items f is en1 = Inr en'"
    by (auto split: if_splits)
  then show ?case using assms(1) Cons.IH fields.engine_trans by blast
qed

section \<open>The invariant of an engine\<close>

text \<open>
  The indices of every table are well-formed; the subtransactions are registered under their own
  ids, none beyond the counter, each with the schema of its domain; nothing is kept in the
  background without an item.
\<close>

definition engine_ok :: "engine \<Rightarrow> bool" where
  "engine_ok en \<longleftrightarrow>
     (\<forall>d i t. table_in en d i = Some t \<longrightarrow> indices_ok t)
     \<and> (\<forall>i st. SubTransactions en i = Some st \<longrightarrow> st_subtransactionid st = i
          \<and> i \<le> en_nextsubtransactionid en
          \<and> (\<forall>d. st_schemaPtr st = Some d \<longrightarrow> d = st_domainid st \<and> d \<in> dom (domainidsToSchemata en)))"

definition background_ok :: "(int \<times> background) list \<Rightarrow> bool" where
  "background_ok B \<longleftrightarrow> sm_ok B \<and> (\<forall>b \<in> snd ` set B. bg_rows b \<noteq> [] \<or> bg_indices b \<noteq> [])"

definition actor_ok :: "engineActor \<Rightarrow> bool" where
  "actor_ok ac \<longleftrightarrow> engine_ok (ac_engine ac) \<and> background_ok (ac_backgrounded ac)"

lemma engine_ok_outbox [simp]: "engine_ok (en\<lparr>outbox := b\<rparr>) = engine_ok en"
  by (simp add: engine_ok_def)

lemma engine_ok_rel:
  assumes "engine_rel fields_kept en en'" "engine_ok en"
  shows "engine_ok en'"
proof -
  have "indices_ok t'" if "table_in en' d i = Some t'" for d i t'
  proof -
    have "rel_option fields_kept (table_in en d i) (Some t')"
      using assms(1) that by (metis engine_rel_def)
    then obtain t where "table_in en d i = Some t" "fields_kept t t'" by (auto simp: option_rel_Some2)
    then show ?thesis using assms(2) indices_ok_kept by (auto simp: engine_ok_def)
  qed
  moreover have "SubTransactions en' = SubTransactions en"
    "en_nextsubtransactionid en' = en_nextsubtransactionid en"
    "dom (domainidsToSchemata en') = dom (domainidsToSchemata en)"
    using assms(1) by (auto simp: engine_rel_def engine_frame_def)
  ultimately show ?thesis using assms(2) by (simp add: engine_ok_def)
qed

lemma engine_ok_new:
  assumes "engine_ok en" "SubTransaction src tid d en = (st, en1)"
  shows "engine_ok en1" "st_subtransactionid st = en_nextsubtransactionid en + 1"
    "table_in en1 = table_in en" "en_nextsubtransactionid en1 = en_nextsubtransactionid en + 1"
proof -
  let ?i = "en_nextsubtransactionid en + 1"
  have st: "st_subtransactionid st = ?i" "st_domainid st = d"
    "\<And>x. st_schemaPtr st = Some x \<longleftrightarrow> x = d \<and> d \<in> dom (domainidsToSchemata en)"
    and en1: "SubTransactions en1 = (SubTransactions en)(?i \<mapsto> st)"
      "en_nextsubtransactionid en1 = ?i" "domainidsToSchemata en1 = domainidsToSchemata en"
    using assms(2) by (auto simp: SubTransaction_def getnextsubtransactionid_def Let_def split: if_splits)
  show t: "table_in en1 = table_in en" by (simp add: table_in_def en1(3) fun_eq_iff)
  show "st_subtransactionid st = ?i" "en_nextsubtransactionid en1 = ?i" by (fact st(1) en1(2))+
  have reg: "st_subtransactionid x = i \<and> i \<le> en_nextsubtransactionid en
      \<and> (\<forall>d. st_schemaPtr x = Some d \<longrightarrow> d = st_domainid x \<and> d \<in> dom (domainidsToSchemata en))"
    if "SubTransactions en i = Some x" for i x
    using assms(1) that unfolding engine_ok_def by blast
  have "st_subtransactionid x = i \<and> i \<le> ?i
      \<and> (\<forall>d. st_schemaPtr x = Some d \<longrightarrow> d = st_domainid x \<and> d \<in> dom (domainidsToSchemata en))"
    if "SubTransactions en1 i = Some x" for i x
    using that reg [of i x] st by (cases "i = ?i") (auto simp: en1(1))
  then show "engine_ok en1"
    using assms(1) unfolding engine_ok_def t en1(2,3) by blast
qed

lemma transaction_message_cases:
  assumes "transaction_message fm z src m en = Inr en'" "engine_ok en"
  obtains (gone) "en' = en"
    | (run) st en1 where "processTransactionMessage fm z st m en1 = Inr en'" "engine_ok en1"
      "table_in en1 = table_in en" "en_nextsubtransactionid en \<le> en_nextsubtransactionid en1"
      "st_subtransactionid st = (if ts_subtransactionid (msg_transactionStruct m) \<le> 0
         then en_nextsubtransactionid en + 1 else ts_subtransactionid (msg_transactionStruct m))"
proof (cases "ts_subtransactionid (msg_transactionStruct m) \<le> 0")
  case True
  obtain st en1 where n: "SubTransaction src (ts_transactionid (msg_transactionStruct m))
      (ts_domainid (msg_transactionStruct m)) en = (st, en1)" by fastforce
  note new = engine_ok_new [OF assms(2) n]
  have "processTransactionMessage fm z st m en1 = Inr en'"
    using assms(1) True by (simp add: transaction_message_def n)
  then show thesis by (rule run) (simp_all add: new True)
next
  case False
  let ?sid = "ts_subtransactionid (msg_transactionStruct m)"
  show thesis
  proof (cases "SubTransactions en ?sid")
    case None
    then show thesis using assms(1) False by (intro gone) (simp add: transaction_message_def)
  next
    case (Some st)
    have p: "processTransactionMessage fm z st m en = Inr en'"
      using assms(1) False Some by (simp add: transaction_message_def)
    have "st_subtransactionid st = ?sid" using assms(2) Some unfolding engine_ok_def by blast
    with False show thesis by (intro run [OF p assms(2) refl order_refl]) simp
  qed
qed

lemma engine_ok_transaction:
  assumes "transaction_message fm z src m en = Inr en'" "engine_ok en"
  shows "engine_ok en'"
  using assms
proof (cases rule: transaction_message_cases)
  case (run st en1)
  then show ?thesis using fields.processTransactionMessage_rel [OF refl run(1)] engine_ok_rel by blast
qed (use assms in simp)

lemma set_sm_put: "x \<in> set (sm_put k v m) \<Longrightarrow> x = (k, v) \<or> x \<in> set m"
  by (induction m rule: sm_put.induct) (auto split: if_splits)

lemma background_item_ok:
  assumes "background_ok (as_backgrounded s)"
  shows "background_ok (as_backgrounded (background_row m src r s))"
    and "background_ok (as_backgrounded (background_index m src x s))"
proof -
  let ?sub = "ap_subtransactionid m"
  let ?s1 = "open_background m src s"
  have sorted: "sm_ok (as_backgrounded ?s1)"
    using assms ordered.ok_put by (auto simp: open_background_def background_ok_def)
  have old: "b \<in> set (as_backgrounded s) \<or> fst b = ?sub" if "b \<in> set (as_backgrounded ?s1)" for b
    using that by (auto simp: open_background_def dest!: set_sm_put split: if_splits)
  have modify: "sm_ok (map_modify k f B) = sm_ok B" for k and f :: "background \<Rightarrow> background" and B
  proof -
    have "map fst (map_modify k f B) = map fst B" by (auto simp: map_modify_def)
    then show ?thesis by (simp add: sm_ok_def)
  qed
  have keep: "bg_rows b \<noteq> [] \<or> bg_indices b \<noteq> []" if "(i, b) \<in> set (as_backgrounded s)" for i b
    using assms that by (force simp: background_ok_def)
  have all: "background_ok (map_modify ?sub f (as_backgrounded ?s1))"
    if "\<And>b. bg_rows (f b) \<noteq> [] \<or> bg_indices (f b) \<noteq> []" for f
  proof -
    have "bg_rows b \<noteq> [] \<or> bg_indices b \<noteq> []" if "(i, b) \<in> set (map_modify ?sub f (as_backgrounded ?s1))" for i b
    proof -
      obtain p where p: "p \<in> set (as_backgrounded ?s1)"
        "(i, b) = (if fst p = ?sub then (fst p, f (snd p)) else p)"
        using \<open>(i, b) \<in> _\<close> by (auto simp: map_modify_def)
      then show ?thesis
        using old [OF p(1)] keep [of i b] \<open>\<And>b. bg_rows (f b) \<noteq> [] \<or> bg_indices (f b) \<noteq> []\<close>
        by (auto split: if_splits)
    qed
    then show ?thesis using sorted by (auto simp: background_ok_def modify)
  qed
  show "background_ok (as_backgrounded (background_row m src r s))"
    "background_ok (as_backgrounded (background_index m src x s))"
    by (simp_all add: background_row_def background_index_def Let_def all)
qed

lemma background_frame [simp]:
  "as_engine (background_row m src r s) = as_engine s"
  "as_engine (background_index m src x s) = as_engine s"
  by (simp_all add: background_row_def background_index_def open_background_def Let_def)

definition apply_kept :: "engine \<Rightarrow> applyState \<Rightarrow> bool" where
  "apply_kept en s \<longleftrightarrow> engine_rel fields_kept en (as_engine s) \<and> background_ok (as_backgrounded s)"

lemma apply_items_trans:
  "engine_rel fields_kept en0 en \<Longrightarrow> apply_record sub d r en = Inr (b, en') \<Longrightarrow> engine_rel fields_kept en0 en'"
  "engine_rel fields_kept en0 en \<Longrightarrow> apply_entry sub d x en = Inr (b, en') \<Longrightarrow> engine_rel fields_kept en0 en'"
  using apply_items_rel fields.engine_trans by blast+

lemma apply_item_kept:
  "apply_row_item m src r s = Inr s' \<Longrightarrow> apply_kept en s \<Longrightarrow> apply_kept en s'"
  "apply_index_item m src x s = Inr s' \<Longrightarrow> apply_kept en s \<Longrightarrow> apply_kept en s'"
  by (auto simp: apply_row_item_def apply_index_item_def apply_kept_def Let_def background_item_ok
      split: if_splits intro: apply_items_trans)

lemma retry_background_kept:
  assumes "retry_background d b s = Inr s'" "apply_kept en s"
  shows "apply_kept en s'"
proof -
  obtain en1 en2 where "retry_items (apply_record (fst b) d) (bg_rows (snd b)) (as_engine s) = Inr en1"
    "retry_items (apply_entry (fst b) d) (bg_indices (snd b)) en1 = Inr en2"
    "as_engine s' = en2" "as_backgrounded s' = as_backgrounded s"
    using assms(1) by (auto simp: retry_background_def split: if_splits)
  then show ?thesis
    using assms(2) retry_items_rel apply_items_rel fields.engine_trans unfolding apply_kept_def by metis
qed

lemma apply_message_kept:
  assumes "apply_message m src s = Inr s'" "background_ok (as_backgrounded s)"
  shows "apply_kept (as_engine s) s'"
proof -
  let ?I = "apply_kept (as_engine s)"
  obtain s1 s2 where e: "rfold (apply_row_item m src) (ap_rows m) s = Inr s1"
    "rfold (apply_index_item m src) (ap_indices m) s1 = Inr s2"
    "rfold (retry_background (ap_domainid m)) (as_backgrounded (send_ack m src s2)) (send_ack m src s2) = Inr s'"
    using assms(1) by (auto simp: apply_message_def Let_def)
  have "?I s" using assms(2) by (simp add: apply_kept_def fields.engine_refl)
  from rfold_invariant [where I = ?I, OF apply_item_kept(1) this e(1)] have "?I s1" by simp
  from rfold_invariant [where I = ?I, OF apply_item_kept(2) this e(2)] have "?I s2" by simp
  then have "?I (send_ack m src s2)" by (simp add: apply_kept_def send_ack_def)
  from rfold_invariant [where I = ?I, OF retry_background_kept this e(3)] show ?thesis by simp
qed

section \<open>Reachable engines\<close>

text \<open>The constructor sets neither the counter of subtransactions nor its other numbers.\<close>

definition Engine :: "int \<Rightarrow> addressStruct \<Rightarrow> int \<Rightarrow> engineActor" where
  "Engine indet addr mbox =
     \<lparr>ac_engine = \<lparr>en_partitionid = indet, en_nextsubtransactionid = indet, SubTransactions = Map.empty,
        domainidsToSchemata = Map.empty, outbox = []\<rparr>,
      ac_backgrounded = [], ac_mbox = mbox, ac_status = indet, ac_taAddr = addr,
      ac_operationid = indet, ac_domainid = indet, ac_userid = indet, ac_argsize = indet,
      ac_builtincmd = 0, ac_outbox = []\<rparr>"

inductive engine_reachable :: "engineActor \<Rightarrow> bool" where
  start: "engine_reachable (Engine indet addr mbox)"
| receive_step: "engine_reachable ac \<Longrightarrow> receive fm indet fresh m ac = Inr ac' \<Longrightarrow> engine_reachable ac'"

lemma engine_ok_schema:
  assumes "engine_ok en" "\<And>i st. SubTransactions en' i = Some st \<Longrightarrow> SubTransactions en i = Some st"
    and "en_nextsubtransactionid en' = en_nextsubtransactionid en"
    and "dom (domainidsToSchemata en) \<subseteq> dom (domainidsToSchemata en')"
    and "\<And>d i t. table_in en' d i = Some t \<Longrightarrow> indices_ok t"
  shows "engine_ok en'"
  unfolding engine_ok_def
proof (intro conjI allI impI)
  fix i st assume "SubTransactions en' i = Some st"
  then have "SubTransactions en i = Some st" by (rule assms(2))
  with assms(1) have st: "st_subtransactionid st = i" "i \<le> en_nextsubtransactionid en"
    "\<And>d. st_schemaPtr st = Some d \<Longrightarrow> d = st_domainid st \<and> d \<in> dom (domainidsToSchemata en)"
    unfolding engine_ok_def by blast+
  show "st_subtransactionid st = i" "i \<le> en_nextsubtransactionid en'" using st assms(3) by simp_all
  fix d assume "st_schemaPtr st = Some d"
  from st(3) [OF this] show "d = st_domainid st" "d \<in> dom (domainidsToSchemata en')"
    using assms(4) by auto
qed (use assms(5) in blast)

lemma engine_ok_tables: "engine_ok en \<Longrightarrow> table_in en d i = Some t \<Longrightarrow> indices_ok t"
  unfolding engine_ok_def by blast

lemma engine_ok_upd:
  assumes "engine_ok en" "\<And>i t. sch_tables s i = Some t \<Longrightarrow> indices_ok t"
  shows "engine_ok (en\<lparr>domainidsToSchemata := (domainidsToSchemata en)(d \<mapsto> s)\<rparr>)"
proof (rule engine_ok_schema [OF assms(1)])
  fix d' i t
  assume "table_in (en\<lparr>domainidsToSchemata := (domainidsToSchemata en)(d \<mapsto> s)\<rparr>) d' i = Some t"
  then have "sch_tables s i = Some t \<or> table_in en d' i = Some t"
    by (auto simp: table_in_def split: if_splits)
  then show "indices_ok t" using assms(2) engine_ok_tables [OF assms(1)] by blast
qed auto

lemma addfield_indices_ok:
  "indices_ok t \<Longrightarrow> indices_ok (snd (addfield ft len name it t))"
  by (auto simp: addfield_def Let_def indices_ok_def Field_def makeindex_ok)

lemma usmReply_frame [simp]:
  "ac_engine (usmReply d m ac) = ac_engine ac" "ac_backgrounded (usmReply d m ac) = ac_backgrounded ac"
  by (simp_all add: usmReply_def send_def)

lemma schema_request_ok:
  assumes "schema_request indet fresh src rcv ac = Inr ac'" "engine_ok (ac_engine ac)"
  shows "engine_ok (ac_engine ac') \<and> ac_backgrounded ac' = ac_backgrounded ac"
proof -
  let ?en = "ac_engine ac" and ?en' = "ac_engine ac'"
  note tables = engine_ok_tables [OF assms(2)]
  have create: "engine_ok (ac_engine (createSchema rcv ac))
      \<and> ac_backgrounded (createSchema rcv ac) = ac_backgrounded ac"
  proof (cases "domainidsToSchemata ?en (us_domainid rcv)")
    case None
    then show ?thesis
      using engine_ok_upd [OF assms(2), of "Schema (us_domainid rcv)" "us_domainid rcv"]
      by (simp add: createSchema_def Let_def Schema_def)
  qed (use assms(2) in \<open>simp add: createSchema_def\<close>)
  consider "ac' = engine_createschema fresh src rcv ac" | "engine_createtable indet fresh src rcv ac = Inr ac'"
    | "engine_addcolumn fresh src rcv ac = Inr ac'" | "ac' = engine_deletebuiltin fresh src ac" | "ac' = ac"
    using assms(1) unfolding schema_request_def Let_def by (metis Inr_inject)
  then show ?thesis
  proof cases
    case 1
    then show ?thesis using create by (simp add: engine_createschema_def)
  next
    case 2
    then obtain s where "domainidsToSchemata ?en (us_domainid rcv) = Some s"
      "?en' = ?en\<lparr>domainidsToSchemata := (domainidsToSchemata ?en)
         (us_domainid rcv \<mapsto> snd (createTable indet (us_tableid rcv) s))\<rparr>"
      "ac_backgrounded ac' = ac_backgrounded ac"
      by (auto simp: engine_createtable_def Let_def split_def)
    moreover have "indices_ok t" if "sch_tables s i = Some t" for i t
      using tables [of "us_domainid rcv" i t] that calculation(1) by (simp add: table_in_def)
    then have "indices_ok t" if "sch_tables (snd (createTable indet (us_tableid rcv) s)) i = Some t" for i t
      using that by (auto simp: createTable_def Table_def indices_ok_def split: if_splits)
    ultimately show ?thesis using engine_ok_upd [OF assms(2)] by simp
  next
    case 3
    then obtain fid en1 where e: "on_domain (ac_domainid ac) (us_tableid rcv) (\<lambda>t.
          Inr (addfield (us_fieldtype rcv) (nat (us_fieldlen rcv)) [] (us_indextype rcv) t)) ?en = Inr (fid, en1)"
      "?en' = en1" "ac_backgrounded ac' = ac_backgrounded ac"
      by (auto simp: engine_addcolumn_def)
    have "engine_rel (\<lambda>t t'. indices_ok t \<longrightarrow> indices_ok t') ?en en1"
      by (rule on_domain_rel [OF e(1)]) (auto dest: addfield_indices_ok [of _ "us_fieldtype rcv"
            "nat (us_fieldlen rcv)" "[]" "us_indextype rcv"])
    then have "engine_ok en1"
      by (intro engine_ok_schema [OF assms(2)])
        (simp_all add: engine_rel_def engine_frame_def, metis option_rel_Some2 tables)
    then show ?thesis using e by simp
  qed (use assms(2) in \<open>simp_all add: engine_deletebuiltin_def\<close>)
qed

lemma end_subtransaction_ok:
  assumes "engine_ok en"
  shows "engine_ok (end_subtransaction ts en)"
proof (cases "SubTransactions en (ts_subtransactionid ts)")
  case (Some st)
  have "engine_ok (delete_SubTransaction st en)"
  proof (rule engine_ok_schema [OF assms])
    show "indices_ok t" if "table_in (delete_SubTransaction st en) d i = Some t" for d i t
      using that engine_ok_tables [OF assms] by (simp add: delete_SubTransaction_def table_in_def)
  qed (simp_all add: delete_SubTransaction_def split: if_splits)
  then show ?thesis using Some by (simp add: end_subtransaction_def)
qed (use assms in \<open>simp add: end_subtransaction_def\<close>)

lemma getMyPartitionid_frame:
  "\<exists>p. ac_engine (getMyPartitionid parts ac) = (ac_engine ac)\<lparr>en_partitionid := p\<rparr>
    \<and> ac_backgrounded (getMyPartitionid parts ac) = ac_backgrounded ac"
proof -
  have "\<exists>p. ac_engine (fold (\<lambda>n ac. if ac_mbox ac = parts ! n
          then ac\<lparr>ac_engine := (ac_engine ac)\<lparr>en_partitionid := int n\<rparr>\<rparr> else ac) ns ac)
        = (ac_engine ac)\<lparr>en_partitionid := p\<rparr>
      \<and> ac_backgrounded (fold (\<lambda>n ac. if ac_mbox ac = parts ! n
          then ac\<lparr>ac_engine := (ac_engine ac)\<lparr>en_partitionid := int n\<rparr>\<rparr> else ac) ns ac) = ac_backgrounded ac"
    for ns ac
  proof (induction ns arbitrary: ac)
    case Nil
    then show ?case by (intro exI [of _ "en_partitionid (ac_engine ac)"]) simp
  next
    case (Cons n ns)
    from Cons.IH [of "if ac_mbox ac = parts ! n
      then ac\<lparr>ac_engine := (ac_engine ac)\<lparr>en_partitionid := int n\<rparr>\<rparr> else ac"] show ?case
      by (auto split: if_splits)
  qed
  then show ?thesis by (simp add: getMyPartitionid_def)
qed

lemma partition_frame [simp]:
  "table_in (en\<lparr>en_partitionid := p\<rparr>) = table_in en" "engine_ok (en\<lparr>en_partitionid := p\<rparr>) = engine_ok en"
  by (simp_all add: table_in_def engine_ok_def fun_eq_iff)

lemma run_engineE:
  assumes "run_engine f ac = Inr ac'"
  obtains en where "f ((ac_engine ac)\<lparr>outbox := []\<rparr>) = Inr en" "ac_engine ac' = en\<lparr>outbox := []\<rparr>"
    "ac_backgrounded ac' = ac_backgrounded ac"
  using assms by (auto simp: run_engine_def)

lemma receive_ok:
  assumes "receive fm indet fresh m ac = Inr ac'" "actor_ok ac"
  shows "actor_ok ac'"
proof (cases m)
  case (TOPIC_SCHEMAREQUEST src rcv)
  then show ?thesis
    using assms schema_request_ok [of indet fresh src rcv "read_userschema src rcv ac" ac']
    by (auto simp: receive_def actor_ok_def read_userschema_def)
next
  case (TOPIC_TRANSACTION src t)
  then have "run_engine (transaction_message fm indet src t) ac = Inr ac'"
    using assms(1) by (simp add: receive_def)
  then show ?thesis
    by (rule run_engineE) (use assms(2) engine_ok_transaction [of fm indet src t "(ac_engine ac)\<lparr>outbox := []\<rparr>"]
      in \<open>simp add: actor_ok_def\<close>)
next
  case (TOPIC_ENDSUBTRANSACTION ts)
  then show ?thesis using assms end_subtransaction_ok by (auto simp: receive_def actor_ok_def)
next
  case (TOPIC_TOPOLOGY parts)
  then show ?thesis using assms getMyPartitionid_frame [of parts ac] by (auto simp: receive_def actor_ok_def)
next
  case (TOPIC_APPLY src a)
  then obtain s where s: "apply_message a src \<lparr>as_engine = ac_engine ac,
      as_backgrounded = ac_backgrounded ac, as_acks = []\<rparr> = Inr s"
    "ac_engine ac' = as_engine s" "ac_backgrounded ac' = as_backgrounded s"
    using assms(1) by (auto simp: receive_def apply_msg_def)
  then show ?thesis
    using apply_message_kept [OF s(1)] assms(2) engine_ok_rel by (auto simp: actor_ok_def apply_kept_def)
next
  case TOPIC_OTHER
  then show ?thesis using assms by (simp add: receive_def)
qed

lemma reachable_actor_ok: "engine_reachable ac \<Longrightarrow> actor_ok ac"
proof (induction rule: engine_reachable.induct)
  case (start indet addr mbox)
  show ?case
    by (simp add: Engine_def actor_ok_def engine_ok_def background_ok_def table_in_def sm_ok_def)
qed (rule receive_ok)

text \<open>C32. Whatever messages an engine has received, the indices of its tables are well-formed, its
  subtransactions are registered under their own ids, none beyond the counter, each with an existing
  schema, and everything kept in the background has an item to be applied.\<close>

theorem engine_reachable_invariant: "engine_reachable ac \<Longrightarrow> actor_ok ac"
  by (rule reachable_actor_ok)

section \<open>Isolation from whole sequences of messages\<close>











definition sample_us :: userschema where
  "sample_us = \<lparr>us_operationtype = OPERATION_NONE, us_caller = 0, us_callerstate = 0, us_argsize = 0,
     us_instance = 0, us_operationid = 0, us_domainid = 1, us_userid = 0, us_tableid = 5,
     us_fieldlen = 0, us_builtincmd = BUILTINCREATESCHEMA, us_indexid = 0, us_tableindexid = 0,
     us_simple = 0, us_fieldid = 0, us_numfields = 0, us_intdata = 0, us_status = 0,
     us_indextype = UNIQUE, us_fieldtype = F_INT\<rparr>"

definition sample_addr :: addressStruct where
  "sample_addr = \<lparr>ad_nodeid = 1, ad_actorid = 2\<rparr>"

definition sample_setup :: "engineMessage list" where
  "sample_setup =
     [TOPIC_SCHEMAREQUEST sample_addr sample_us,
      TOPIC_SCHEMAREQUEST sample_addr (sample_us\<lparr>us_builtincmd := BUILTINCREATETABLE\<rparr>),
      TOPIC_SCHEMAREQUEST sample_addr (sample_us\<lparr>us_builtincmd := BUILTINADDCOLUMN\<rparr>),
      TOPIC_TRANSACTION sample_addr (PAYLOADSUBTRANSACTION (subtransactionCmd0
        \<lparr>sc_transactionStruct := transactionStruct0\<lparr>ts_enginecmd := NEWROW, ts_domainid := 1\<rparr>,
         sc_subtransactionStruct := subtransactionStruct0\<lparr>ss_tableid := 5\<rparr>, sc_row := [65]\<rparr>))]"

definition sample_insert :: engineMessage where
  "sample_insert =
     TOPIC_TRANSACTION sample_addr (PAYLOADSUBTRANSACTION (subtransactionCmd0
        \<lparr>sc_transactionStruct := transactionStruct0\<lparr>ts_enginecmd := NEWROW, ts_domainid := 1\<rparr>,
         sc_subtransactionStruct := subtransactionStruct0\<lparr>ss_tableid := 5\<rparr>, sc_row := [66]\<rparr>))"

lemmas engine_run_defs = receives_def receive_def Engine_def read_userschema_def schema_request_def
  builtin_numbers engine_createschema_def createSchema_def engine_createtable_def usmReply_def send_def
  createTable_def engine_addcolumn_def on_domain_def Schema_def Let_def run_engine_def
  transaction_message_def SubTransaction_def getnextsubtransactionid_def transactionStruct0_def
  subtransactionCmd0_def processTransactionMessage_def run_command_def newrow_st_def on_table_def
  table_at_def addfield_def Table_def getnextrowid_def newrow_def table_in_def alloc_def
  set_table_def replyTransaction_def toActor_def

lemma sample_setup_runs:
  "\<exists>ac t. receives (=) 0 sample_us sample_setup (Engine 0 sample_addr 1) = Inr ac
    \<and> table_in (ac_engine ac) 1 5 = Some t \<and> table_inv t \<and> en_nextsubtransactionid (ac_engine ac) = 1
    \<and> (\<exists>ac'. receives (=) 0 sample_us [sample_insert] ac = Inr ac')"
  by (simp add: sample_setup_def sample_us_def sample_insert_def engine_run_defs table_inv_def
      store_inv_def row_ok_def rowdata0_def flag_simps)

lemma receives_reachable:
  assumes "receives fm indet fresh ms ac = Inr ac'" "engine_reachable ac"
  shows "engine_reachable ac'"
  using rfold_invariant [where I = engine_reachable, OF receive_step assms(2) assms(1) [unfolded receives_def]]
  by simp

theorem engine_reachable_invariant_witness:
  "\<exists>ac. receives (=) 0 sample_us sample_setup (Engine 0 sample_addr 1) = Inr ac \<and> actor_ok ac"
  using sample_setup_runs receives_reachable [OF _ start] engine_reachable_invariant by blast


end
