(* ===== verification/Replication_Properties.thy ===== *)
theory Replication_Properties
  imports Engine_Properties
begin

text \<open>
  Replication: an engine that applies the changes of a committed transaction refines an abstract
  replica, and where it departs from what replication needs.
\<close>

section \<open>Rows\<close>


definition sample_record :: "pendingprimitive \<Rightarrow> int \<Rightarrow> record_s" where
  "sample_record p rid = \<lparr>re_rowid = rid, re_primitive = p, re_tableid = 5,
     re_previoussubtransactionid = 0, re_row = [65], re_oldrow = []\<rparr>"

definition sample_replica :: "(int \<times> background) list \<Rightarrow> applyState" where
  "sample_replica B =
     \<lparr>as_engine = sample_engine\<lparr>domainidsToSchemata :=
        [1 \<mapsto> \<lparr>sch_domainid = 1, sch_nexttableid = 5, sch_tables = [5 \<mapsto> Table 0 5]\<rparr>]\<rparr>,
      as_backgrounded = B, as_acks = []\<rparr>"

definition sample_apply :: "record_s list \<Rightarrow> applyMsg" where
  "sample_apply rs = \<lparr>ap_subtransactionid = 7, ap_applierid = 3, ap_domainid = 1, ap_rows = rs,
     ap_indices = []\<rparr>"

lemma sample_replica_facts:
  "table_in (as_engine (sample_replica B)) 1 5 = Some (Table 0 5)"
  "replica_ok (Table 0 5)" "content (Table 0 5) = Map.empty"
  "contents_of (as_engine (sample_replica B)) 1 = (\<lambda>_. Map.empty)"
  "domainidsToSchemata (as_engine (sample_replica B)) 1 \<noteq> None"
  "as_backgrounded (sample_replica B) = B"
  by (auto simp: sample_replica_def table_in_def replica_ok_def Table_def content_def contents_of_def
      fun_eq_iff)

lemma sample_applicable:
  "p \<noteq> UPDATE \<Longrightarrow> applicable 1 [sample_record p rid] (as_engine (sample_replica B))"
  by (auto simp: applicable_def sample_record_def sample_replica_facts)


text \<open>An update is never applied: a row that is there refuses it (and it stays in the
  background), and a row that is not there makes the engine dereference a null pointer.\<close>

theorem apply_update_never:
  assumes "re_primitive item = UPDATE"
  shows "applyItem_row sub item t =
    (if rows t (re_rowid item) \<noteq> None then Inr (False, t) else Inl NullDeref)"
  using assms by (simp add: applyItem_row_def row_at_def)

theorem apply_update_never_witness:
  "applyItem_row 7 (sample_record UPDATE 2) (Table 0 5) = Inl NullDeref"
  using apply_update_never [of "sample_record UPDATE 2" 7 "Table 0 5"]
  by (simp add: sample_record_def Table_def)

text \<open>A deletion is applied only if the row was last written by the subtransaction that deletes it;
  the record's own \<open>previoussubtransactionid\<close> is not looked at.\<close>

theorem apply_delete_own_rows:
  assumes "replica_ok t" "re_primitive item = DELETE"
  shows "((\<exists>t'. applyItem_row sub item t = Inr (True, t'))
      \<longleftrightarrow> (\<exists>r. content t (re_rowid item) = Some (r, sub)))
    \<and> applyItem_row sub (item\<lparr>re_previoussubtransactionid := p\<rparr>) t = applyItem_row sub item t"
proof
  show "applyItem_row sub (item\<lparr>re_previoussubtransactionid := p\<rparr>) t = applyItem_row sub item t"
    using assms(2) by (simp add: applyItem_row_def)
  obtain ok t' where "applyItem_row sub item t = Inr (ok, t')"
    "abs_apply_row sub item (content t) = (ok, content t')"
    using applyItem_row_refines [OF assms(1), of item sub] assms(2) by auto
  then show "(\<exists>t'. applyItem_row sub item t = Inr (True, t'))
      \<longleftrightarrow> (\<exists>r. content t (re_rowid item) = Some (r, sub))"
    using assms(2) by (auto simp: abs_apply_row_def Let_def split: option.splits if_splits)
qed

theorem apply_delete_own_rows_witness:
  "let t = put_row 7 2 [65] (Table 0 5)
   in (\<exists>t'. applyItem_row 7 (sample_record DELETE 2) t = Inr (True, t'))
      \<and> (\<nexists>t'. applyItem_row 8 (sample_record DELETE 2) t = Inr (True, t'))"
proof -
  let ?t = "put_row 7 2 [65] (Table 0 5)"
  have "rows (Table 0 5) 2 = None" by (simp add: Table_def)
  note put = put_row_replica [OF sample_replica_facts(2) this, of 7 "[65]"]
  show ?thesis
    using apply_delete_own_rows [OF put(1), of "sample_record DELETE 2" 7 0]
      apply_delete_own_rows [OF put(1), of "sample_record DELETE 2" 8 0]
    by (simp add: Let_def put(2) sample_record_def)
qed

text \<open>An item kept in the background that a later message makes applicable is never acknowledged:
  the engine faults when it retries it. It is tried on the tables of the domain of that message.\<close>

theorem late_item_faults:
  assumes "as_backgrounded s = [(sub', b)]" "sub' \<noteq> ap_subtransactionid m" "ap_indices m = []"
    and "applicable (ap_domainid m) (ap_rows m) (as_engine s)"
    and "applicable (ap_domainid m) (bg_rows b) (as_engine s)"
    and "domainidsToSchemata (as_engine s) (ap_domainid m) \<noteq> None"
    and "abs_rows (ap_subtransactionid m) (ap_rows m) (contents_of (as_engine s) (ap_domainid m)) = (M', [])"
    and "\<exists>r \<in> set (bg_rows b). fst (abs_apply_row sub' r (M' (re_tableid r)))"
  shows "apply_message m src s = Inl InvalidIter"
  using assms by (rule late_item)

definition sample_kept :: background where
  "sample_kept = \<lparr>bg_applierid = 3, bg_taAddress = sample_addr, bg_rows = [sample_record INSERT 4],
     bg_indices = []\<rparr>"

theorem late_item_faults_witness:
  "apply_message (sample_apply [sample_record INSERT 2]) sample_addr (sample_replica [(6, sample_kept)])
   = Inl InvalidIter"
  by (rule late_item_faults [where M' = "(\<lambda>_. Map.empty)(5 := [2 \<mapsto> ([65], 7)])"])
    (auto simp: sample_apply_def sample_applicable sample_replica_facts sample_kept_def
      abs_apply_row_def, auto simp: sample_record_def abs_apply_row_def)

section \<open>Index entries\<close>



section \<open>The counter of subtransactions\<close>

text \<open>The constructor leaves the counter of subtransactions to chance. From a negative count, a
  subtransaction gets an id that no message can name: a message with this id starts another
  subtransaction, with another id, and runs there.\<close>

theorem negative_counter_loses_subtransactions:
  assumes "en_nextsubtransactionid en < 0" "SubTransaction source tid d en = (st, en1)"
    and "ts_subtransactionid (msg_transactionStruct m) = st_subtransactionid st"
  shows "\<exists>st2 en2. SubTransaction source (ts_transactionid (msg_transactionStruct m))
      (ts_domainid (msg_transactionStruct m)) en1 = (st2, en2)
    \<and> st_subtransactionid st2 \<noteq> st_subtransactionid st
    \<and> transaction_message fm indet source m en1 = processTransactionMessage fm indet st2 m en2"
proof -
  have "st_subtransactionid st = en_nextsubtransactionid en + 1"
    "en_nextsubtransactionid en1 = en_nextsubtransactionid en + 1"
    using assms(2) by (auto simp: SubTransaction_def getnextsubtransactionid_def Let_def)
  moreover obtain st2 en2 where n: "SubTransaction source (ts_transactionid (msg_transactionStruct m))
      (ts_domainid (msg_transactionStruct m)) en1 = (st2, en2)" by fastforce
  moreover have "st_subtransactionid st2 = en_nextsubtransactionid en1 + 1"
    using n by (auto simp: SubTransaction_def getnextsubtransactionid_def Let_def)
  ultimately show ?thesis
    using assms(1,3) by (simp add: transaction_message_def)
qed

theorem negative_counter_loses_subtransactions_witness:
  "let en = ac_engine (Engine (- 5) sample_addr 1); (st, en1) = SubTransaction sample_addr 3 1 en;
       m = PAYLOADSUBTRANSACTION (subtransactionCmd0\<lparr>sc_transactionStruct :=
         transactionStruct0\<lparr>ts_subtransactionid := - 4\<rparr>\<rparr>)
   in \<exists>st2 en2. st_subtransactionid st2 \<noteq> st_subtransactionid st
     \<and> transaction_message (=) 0 sample_addr m en1 = processTransactionMessage (=) 0 st2 m en2"
proof -
  let ?en = "ac_engine (Engine (- 5) sample_addr 1)"
  let ?m = "PAYLOADSUBTRANSACTION (subtransactionCmd0\<lparr>sc_transactionStruct :=
         transactionStruct0\<lparr>ts_subtransactionid := - 4\<rparr>\<rparr>)"
  obtain st en1 where s: "SubTransaction sample_addr 3 1 ?en = (st, en1)" by fastforce
  have "en_nextsubtransactionid ?en < 0" by (simp add: Engine_def)
  moreover have "st_subtransactionid st = - 4"
    using s by (auto simp: SubTransaction_def getnextsubtransactionid_def Engine_def Let_def)
  ultimately show ?thesis
    using negative_counter_loses_subtransactions [OF _ s, of ?m "(=)" 0] s by (auto simp: Let_def)
qed

end
