(* ===== verification/Wire_Format.thy ===== *)
theory Wire_Format
  imports Row_Codec
begin

text \<open>
  The class \<open>SerializedMessage\<close> of \<open>infinisqld/Message.h\<close> and \<open>infinisqld/Message.cc\<close>: a
  buffer with a position, and the overloads of \<open>ser\<close>, \<open>sersize\<close> and \<open>des\<close> for numbers,
  strings and containers. The locale \<open>codec\<close> is the contract of a type that can be sent:
  \<open>ser\<close> writes as many bytes as \<open>sersize\<close> announces, and \<open>des\<close> reads the value back from them.
\<close>

section \<open>The buffer\<close>

record serialized =
  sm_pos :: nat
  sm_data :: bytes

definition SerializedMessage :: "nat \<Rightarrow> serialized" where
  "SerializedMessage sizearg = \<lparr>sm_pos = 0, sm_data = replicate sizearg 0\<rparr>"

definition SerializedMessage_of :: "bytes \<Rightarrow> serialized" where
  "SerializedMessage_of dataarg = \<lparr>sm_pos = 0, sm_data = dataarg\<rparr>"

text \<open>\<open>memcpy(&data->at(pos), p, n)\<close> and back, with \<open>pos += n\<close>. A copy that does not fit
  throws (from \<open>at\<close>) or runs past the end of the string; both are the fault here.\<close>

definition put :: "bytes \<Rightarrow> serialized \<Rightarrow> serialized res" where
  "put bs m =
     (if sm_pos m + length bs \<le> length (sm_data m)
      then Inr \<lparr>sm_pos = sm_pos m + length bs,
                sm_data = take (sm_pos m) (sm_data m) @ bs
                  @ drop (sm_pos m + length bs) (sm_data m)\<rparr>
      else Inl OutOfRange)"

definition skip :: "nat \<Rightarrow> serialized \<Rightarrow> serialized" where
  "skip n m = m\<lparr>sm_pos := sm_pos m + n\<rparr>"

text \<open>\<open>at(pos)\<close> throws at the end; a copy may reach the null character behind the string.\<close>

definition get :: "nat \<Rightarrow> serialized \<Rightarrow> (bytes \<times> serialized) res" where
  "get n m =
     (if sm_pos m < length (sm_data m) \<and> sm_pos m + n \<le> length (sm_data m) + 1
      then Inr (take n (drop (sm_pos m) (sm_data m @ [0])), skip n m)
      else Inl OutOfRange)"

section \<open>Numbers\<close>

text \<open>The object representation of a two's complement number in \<open>n\<close> bytes is \<open>le_bytes n\<close>.\<close>

definition sint_val :: "bytes \<Rightarrow> int" where
  "sint_val bs = signed_take_bit (8 * length bs - 1) (le_val bs)"

definition ser_int64 :: "int \<Rightarrow> serialized \<Rightarrow> serialized res" where
  "ser_int64 d = put (le_bytes 8 d)"
definition des_int64 :: "serialized \<Rightarrow> (int \<times> serialized) res" where
  "des_int64 m = rmap (\<lambda>(bs, m'). (sint_val bs, m')) (get 8 m)"

definition ser_int32 :: "int \<Rightarrow> serialized \<Rightarrow> serialized res" where
  "ser_int32 d = put (le_bytes 4 d)"
definition des_int32 :: "serialized \<Rightarrow> (int \<times> serialized) res" where
  "des_int32 m = rmap (\<lambda>(bs, m'). (sint_val bs, m')) (get 4 m)"

definition ser_int16 :: "int \<Rightarrow> serialized \<Rightarrow> serialized res" where
  "ser_int16 d = put (le_bytes 2 d)"
definition des_int16 :: "serialized \<Rightarrow> (int \<times> serialized) res" where
  "des_int16 m = rmap (\<lambda>(bs, m'). (sint_val bs, m')) (get 2 m)"

definition ser_int8 :: "int \<Rightarrow> serialized \<Rightarrow> serialized res" where
  "ser_int8 d = put (le_bytes 1 d)"
definition des_int8 :: "serialized \<Rightarrow> (int \<times> serialized) res" where
  "des_int8 m = rmap (\<lambda>(bs, m'). (sint_val bs, m')) (get 1 m)"

text \<open>A count, sent as \<open>int64_t\<close> and read into a \<open>size_t\<close>\<close>

definition ser_count :: "nat \<Rightarrow> serialized \<Rightarrow> serialized res" where
  "ser_count n = put (le_bytes 8 (int n))"
definition des_count :: "serialized \<Rightarrow> (nat \<times> serialized) res" where
  "des_count m = rmap (\<lambda>(bs, m'). (nat (le_val bs), m')) (get 8 m)"

section \<open>Strings and containers\<close>

definition ser_string :: "bytes \<Rightarrow> serialized \<Rightarrow> serialized res" where
  "ser_string d m = rbind (ser_count (length d) m) (\<lambda>m1. if d = [] then Inr m1 else put d m1)"
definition sersize_string :: "bytes \<Rightarrow> nat" where
  "sersize_string d = 8 + length d"
text \<open>A string of length 0 leaves the target as it is, which is new and empty.\<close>
definition des_string :: "serialized \<Rightarrow> (bytes \<times> serialized) res" where
  "des_string m = rbind (des_count m) (\<lambda>(s, m1). if s = 0 then Inr ([], m1) else get s m1)"

text \<open>The loops of the overloads for \<open>vector\<close>\<close>

definition ser_vector :: "('a \<Rightarrow> serialized \<Rightarrow> serialized res) \<Rightarrow> 'a list \<Rightarrow> serialized \<Rightarrow> serialized res" where
  "ser_vector ser d m = rbind (ser_count (length d) m) (rfold ser d)"
definition sersize_vector :: "('a \<Rightarrow> nat) \<Rightarrow> 'a list \<Rightarrow> nat" where
  "sersize_vector sersize d = 8 + sum_list (map sersize d)"

fun des_loop :: "(serialized \<Rightarrow> ('a \<times> serialized) res) \<Rightarrow> nat \<Rightarrow> serialized \<Rightarrow> ('a list \<times> serialized) res" where
  "des_loop des 0 m = Inr ([], m)"
| "des_loop des (Suc n) m =
     rbind (des m) (\<lambda>(x, m1). rmap (\<lambda>(xs, m2). (x # xs, m2)) (des_loop des n m1))"

definition des_vector :: "(serialized \<Rightarrow> ('a \<times> serialized) res) \<Rightarrow> serialized \<Rightarrow> ('a list \<times> serialized) res" where
  "des_vector des m = rbind (des_count m) (\<lambda>(s, m1). des_loop des s m1)"

text \<open>
  An \<open>unordered_set\<close> is the list of its elements and an \<open>unordered_map\<close> that of its pairs, in
  the order of iteration. The order of the container that is read is not promised by the library:
  here a set keeps the order and a map comes out reversed.
\<close>

definition des_set :: "(serialized \<Rightarrow> ('a \<times> serialized) res) \<Rightarrow> serialized \<Rightarrow> ('a list \<times> serialized) res" where
  "des_set des m =
     rmap (\<lambda>(xs, m1). (fold (\<lambda>x s. if x \<in> set s then s else s @ [x]) xs [], m1)) (des_vector des m)"

definition ser_pair :: "('a \<Rightarrow> serialized \<Rightarrow> serialized res) \<Rightarrow> ('b \<Rightarrow> serialized \<Rightarrow> serialized res) \<Rightarrow>
    'a \<times> 'b \<Rightarrow> serialized \<Rightarrow> serialized res" where
  "ser_pair f g p m = rbind (f (fst p) m) (g (snd p))"
definition des_pair :: "(serialized \<Rightarrow> ('a \<times> serialized) res) \<Rightarrow> (serialized \<Rightarrow> ('b \<times> serialized) res) \<Rightarrow>
    serialized \<Rightarrow> (('a \<times> 'b) \<times> serialized) res" where
  "des_pair f g m = rbind (f m) (\<lambda>(x, m1). rmap (\<lambda>(y, m2). ((x, y), m2)) (g m1))"

text \<open>The members of a struct are read one by one, and the struct is made of them.\<close>
definition des_as :: "('a \<Rightarrow> 'b) \<Rightarrow> (serialized \<Rightarrow> ('a \<times> serialized) res) \<Rightarrow> serialized \<Rightarrow> ('b \<times> serialized) res" where
  "des_as f des m = rmap (\<lambda>(x, m'). (f x, m')) (des m)"

definition ser_map :: "('b \<Rightarrow> serialized \<Rightarrow> serialized res) \<Rightarrow> (int \<times> 'b) list \<Rightarrow> serialized \<Rightarrow> serialized res" where
  "ser_map ser d = ser_vector (ser_pair ser_int64 ser) d"
text \<open>Both overloads of \<open>sersize\<close> for maps have this expression.\<close>
definition sersize_map :: "(int \<times> 'b) list \<Rightarrow> nat" where
  "sersize_map d = length d + length d * 2 * 8"
definition des_map :: "(serialized \<Rightarrow> ('b \<times> serialized) res) \<Rightarrow> serialized \<Rightarrow>
    ((int \<times> 'b) list \<times> serialized) res" where
  "des_map des m =
     rmap (\<lambda>(xs, m1). (fold (\<lambda>(k, v). um_put k v) xs [], m1))
       (des_vector (des_pair des_int64 des) m)"

section \<open>The contract of a type that can be sent\<close>

text \<open>What is left to read\<close>

definition remaining :: "serialized \<Rightarrow> bytes" where
  "remaining m = drop (sm_pos m) (sm_data m)"

lemma remaining_skip [simp]: "remaining (skip n m) = drop n (remaining m)"
  by (simp add: remaining_def skip_def add.commute)

lemma skip_skip [simp]: "skip n (skip k m) = skip (k + n) m"
  by (simp add: skip_def add.assoc)

lemma skip_0 [simp]: "skip 0 m = m"
  by (simp add: skip_def)

lemma remaining_start [simp]: "remaining (SerializedMessage_of bs) = bs"
  by (simp add: remaining_def SerializedMessage_of_def)

lemma get_image:
  assumes "remaining m = bs @ suf" "bs \<noteq> []"
  shows "get (length bs) m = Inr (bs, skip (length bs) m)"
proof -
  have l: "length (sm_data m) - sm_pos m = length bs + length suf"
    using arg_cong [OF assms(1), of length] by (simp add: remaining_def)
  then have "sm_pos m < length (sm_data m)" using assms(2) by (cases bs) auto
  then show ?thesis
    using l assms by (auto simp: get_def remaining_def)
qed

lemma put_append: "rbind (put a m) (put b) = put (a @ b) m"
proof (cases "sm_pos m + length a \<le> length (sm_data m)")
  case True
  then have "length (take (sm_pos m) (sm_data m) @ a) = sm_pos m + length a" by simp
  with True show ?thesis
    by (simp add: put_def take_append drop_append add.assoc add.commute [of "length b"])
qed (simp add: put_def)

lemma put_then: "(\<And>m. f m = put b m) \<Longrightarrow> rbind (put a m) f = put (a @ b) m"
  by (simp add: put_append [symmetric] rbind_def split: sum.split)

text \<open>\<open>bs\<close> is what \<open>ser\<close> writes for a value and what \<open>des\<close> reads back as \<open>y\<close>.\<close>

definition writes :: "(serialized \<Rightarrow> serialized res) \<Rightarrow> bytes \<Rightarrow> bool" where
  "writes ser bs \<longleftrightarrow> (\<forall>m. ser m = put bs m)"

definition reads :: "(serialized \<Rightarrow> ('a \<times> serialized) res) \<Rightarrow> bytes \<Rightarrow> 'a \<Rightarrow> bool" where
  "reads des bs y \<longleftrightarrow>
     (\<forall>m suf. remaining m = bs @ suf \<longrightarrow> des m = Inr (y, skip (length bs) m))"

lemma readsD: "reads des bs y \<Longrightarrow> remaining m = bs @ suf \<Longrightarrow> des m = Inr (y, skip (length bs) m)"
  by (simp add: reads_def)

lemma writes_put [simp]: "writes (put bs) bs"
  by (simp add: writes_def)

lemma writes_then: "writes f a \<Longrightarrow> writes g b \<Longrightarrow> writes (\<lambda>m. rbind (f m) g) (a @ b)"
  by (simp add: writes_def put_then)

lemma writes_pair: "writes (f a) x \<Longrightarrow> writes (g b) y \<Longrightarrow> writes (ser_pair f g (a, b)) (x @ y)"
  using writes_then [of "f a" x "g b" y] by (simp add: writes_def ser_pair_def)

lemma writes_rfold:
  assumes "writes f0 a" "list_all2 (\<lambda>x bs. writes (f x) bs) xs bss"
  shows "writes (\<lambda>m. rbind (f0 m) (rfold f xs)) (a @ concat bss)"
  using assms(2,1)
proof (induction arbitrary: f0 a rule: list_all2_induct)
  case Nil
  then show ?case by (simp add: writes_def rbind_def split: sum.split)
next
  case (Cons x xs b bss)
  have "writes (\<lambda>m. rbind (rbind (f0 m) (f x)) (rfold f xs)) ((a @ b) @ concat bss)"
    by (rule Cons.IH, rule writes_then [OF Cons.prems Cons.hyps(1)])
  moreover have "rbind (rbind (f0 m) (f x)) (rfold f xs) = rbind (f0 m) (rfold f (x # xs))" for m
    by (cases "f0 m") simp_all
  ultimately show ?case by (simp only: append_assoc concat.simps)
qed

lemma reads_get [simp]: "bs \<noteq> [] \<Longrightarrow> n = length bs \<Longrightarrow> reads (get n) bs bs"
  by (simp add: reads_def get_image)

lemma reads_as: "reads des bs y \<Longrightarrow> reads (des_as f des) bs (f y)"
  by (simp add: reads_def des_as_def)

lemma reads_pair:
  assumes "reads f a x" "reads g b y"
  shows "reads (des_pair f g) (a @ b) (x, y)"
  unfolding reads_def
proof (intro allI impI)
  fix m suf
  assume r: "remaining m = (a @ b) @ suf"
  then have "f m = Inr (x, skip (length a) m)" using assms(1) by (simp add: reads_def)
  moreover have "g (skip (length a) m) = Inr (y, skip (length b) (skip (length a) m))"
    using r by (intro readsD [OF assms(2), of _ suf]) simp
  ultimately show "des_pair f g m = Inr ((x, y), skip (length (a @ b)) m)"
    by (simp add: des_pair_def)
qed

lemma reads_loop:
  assumes "list_all2 (reads des) bss ys"
  shows "reads (des_loop des (length ys)) (concat bss) ys"
  using assms
proof (induction rule: list_all2_induct)
  case Nil
  then show ?case by (simp add: reads_def)
next
  case (Cons b bss y ys)
  have "des_loop des (length (y # ys)) = des_as (\<lambda>(x, xs). x # xs) (des_pair des (des_loop des (length ys)))"
    by (auto simp: des_as_def des_pair_def fun_eq_iff rbind_def rmap_def split: sum.split)
  then show ?case
    using reads_as [OF reads_pair [OF Cons.hyps(1) Cons.IH], of "\<lambda>(x, xs). x # xs"] by simp
qed

locale codec =
  fixes ok :: "'a \<Rightarrow> bool" and norm :: "'a \<Rightarrow> 'a"
    and ser :: "'a \<Rightarrow> serialized \<Rightarrow> serialized res" and sz :: "'a \<Rightarrow> nat"
    and des :: "serialized \<Rightarrow> ('a \<times> serialized) res"
  assumes law: "ok x \<Longrightarrow> \<exists>bs. length bs = sz x \<and> writes (ser x) bs \<and> reads des bs (norm x)"
begin

text \<open>Into a buffer of the announced size, and from there: nothing is left, and the value is back.\<close>

lemma roundtrip:
  assumes "ok x"
  shows "\<exists>bs. ser x (SerializedMessage (sz x)) = Inr \<lparr>sm_pos = sz x, sm_data = bs\<rparr>
     \<and> length bs = sz x
     \<and> des (SerializedMessage_of bs) = Inr (norm x, \<lparr>sm_pos = sz x, sm_data = bs\<rparr>)"
proof -
  obtain bs where bs: "length bs = sz x" "writes (ser x) bs" "reads des bs (norm x)"
    using law [OF assms] by auto
  have "ser x (SerializedMessage (sz x)) = Inr \<lparr>sm_pos = sz x, sm_data = bs\<rparr>"
    using bs(1,2) by (simp add: writes_def put_def SerializedMessage_def)
  moreover have "des (SerializedMessage_of bs) = Inr (norm x, \<lparr>sm_pos = sz x, sm_data = bs\<rparr>)"
    using readsD [OF bs(3), of "SerializedMessage_of bs" "[]"] bs(1) remaining_start [of bs]
    by (simp add: skip_def SerializedMessage_of_def del: remaining_start)
  ultimately show ?thesis using bs(1) by auto
qed

end

section \<open>The contract is closed under the composition of types\<close>

lemma le_bytes_nonempty [simp]: "0 < n \<Longrightarrow> le_bytes n d \<noteq> []"
  by (cases n) simp_all

lemma codec_pair:
  assumes "codec okA nA serA szA desA" "codec okB nB serB szB desB"
  shows "codec (\<lambda>p. okA (fst p) \<and> okB (snd p)) (map_prod nA nB) (ser_pair serA serB)
    (\<lambda>p. szA (fst p) + szB (snd p)) (des_pair desA desB)"
proof
  fix p :: "'a \<times> 'b"
  assume "okA (fst p) \<and> okB (snd p)"
  then obtain a b where a: "length a = szA (fst p)" "writes (serA (fst p)) a" "reads desA a (nA (fst p))"
    and b: "length b = szB (snd p)" "writes (serB (snd p)) b" "reads desB b (nB (snd p))"
    using codec.law [OF assms(1)] codec.law [OF assms(2)] by blast
  have "writes (ser_pair serA serB p) (a @ b)"
    using writes_then [OF a(2) b(2)] by (simp add: writes_def ser_pair_def)
  moreover have "reads (des_pair desA desB) (a @ b) (map_prod nA nB p)"
    using a(3) b(3) by (cases p) (simp add: reads_pair)
  ultimately show "\<exists>bs. length bs = szA (fst p) + szB (snd p) \<and> writes (ser_pair serA serB p) bs
      \<and> reads (des_pair desA desB) bs (map_prod nA nB p)"
    using a(1) b(1) by (intro exI [of _ "a @ b"]) simp
qed

text \<open>A struct is sent as the tuple \<open>parts\<close> of its members.\<close>

lemma codec_record:
  assumes "codec ok n ser sz des"
    and "\<And>x. ok' x \<Longrightarrow> ok (parts x)" "\<And>x. ok' x \<Longrightarrow> norm' x = to (n (parts x))"
    and "\<And>x. ok' x \<Longrightarrow> ser' x = ser (parts x)" "\<And>x. ok' x \<Longrightarrow> sz' x = sz (parts x)"
    and "des' = des_as to des"
  shows "codec ok' norm' ser' sz' des'"
proof
  fix x
  assume "ok' x"
  with codec.law [OF assms(1) assms(2)] show "\<exists>bs. length bs = sz' x \<and> writes (ser' x) bs \<and> reads des' bs (norm' x)"
    using assms(3-6) by (metis reads_as)
qed

lemma codec_vector:
  assumes "codec ok norm ser sz des"
  shows "codec (\<lambda>d. list_all ok d \<and> length d < 2 ^ 64) (map norm) (ser_vector ser)
    (sersize_vector sz) (des_vector des)"
proof
  fix d :: "'a list"
  assume ok: "list_all ok d \<and> length d < 2 ^ 64"
  obtain f where f: "ok x \<Longrightarrow> length (f x) = sz x \<and> writes (ser x) (f x) \<and> reads des (f x) (norm x)" for x
    using codec.law [OF assms] by metis
  let ?n = "le_bytes 8 (int (length d))"
  have sz: "map (length \<circ> f) d = map sz d" and w: "list_all2 (\<lambda>x bs. writes (ser x) bs) d (map f d)"
    and l: "list_all2 (reads des) (map f d) (map norm d)"
    using ok f by (auto simp: list_all2_map1 list_all2_map2 list_all2_same list_all_iff)
  have "length (?n @ concat (map f d)) = sersize_vector sz d"
    by (simp add: sersize_vector_def length_concat sz)
  moreover have "writes (ser_vector ser d) (?n @ concat (map f d))"
    using writes_rfold [OF writes_put w, of ?n] by (simp add: ser_vector_def ser_count_def writes_def)
  moreover have "reads (des_vector des) (?n @ concat (map f d)) (map norm d)"
    unfolding reads_def
  proof (intro allI impI)
    fix m suf
    assume r: "remaining m = (?n @ concat (map f d)) @ suf"
    then have "des_count m = Inr (length d, skip 8 m)"
      using get_image [of m ?n "concat (map f d) @ suf"] ok
      by (simp add: des_count_def le_val_le_bytes le_bytes_nonempty)
    moreover have "des_loop des (length d) (skip 8 m)
        = Inr (map norm d, skip (length (concat (map f d))) (skip 8 m))"
      using readsD [OF reads_loop [OF l], of "skip 8 m" suf] r by simp
    ultimately show "des_vector des m = Inr (map norm d, skip (length (?n @ concat (map f d))) m)"
      by (simp add: des_vector_def)
  qed
  ultimately show "\<exists>bs. length bs = sersize_vector sz d \<and> writes (ser_vector ser d) bs
      \<and> reads (des_vector des) bs (map norm d)"
    by blast
qed

section \<open>Numbers and strings\<close>

definition fits :: "nat \<Rightarrow> int \<Rightarrow> bool" where
  "fits n d \<longleftrightarrow> - (2 ^ (8 * n - 1)) \<le> d \<and> d < 2 ^ (8 * n - 1)"

lemma sint_val_le_bytes [simp]:
  assumes "fits n d" "0 < n"
  shows "sint_val (le_bytes n d) = d"
proof -
  have "(256 :: int) ^ n = 2 ^ (8 * n)" by (simp add: power_mult)
  then have "sint_val (le_bytes n d) = signed_take_bit (8 * n - 1) (take_bit (8 * n) d)"
    by (simp add: sint_val_def le_val_le_bytes take_bit_eq_mod)
  also have "\<dots> = signed_take_bit (8 * n - 1) d"
  proof -
    have "\<not> 8 * n \<le> 8 * n - 1" using assms(2) by arith
    then show ?thesis by (simp add: signed_take_bit_take_bit)
  qed
  finally show ?thesis
    using assms by (simp add: fits_def signed_take_bit_int_eq_self)
qed

lemma codec_image:
  assumes "\<And>x. length (f x) = n" "0 < n" "\<And>x. ok x \<Longrightarrow> g (f x) = x"
  shows "codec ok id (\<lambda>x. put (f x)) (\<lambda>_. n) (des_as g (get n))"
proof
  fix x
  assume "ok x"
  have "f x \<noteq> []" using assms(1) [of x] assms(2) by auto
  then show "\<exists>bs. length bs = n \<and> writes (put (f x)) bs \<and> reads (des_as g (get n)) bs (id x)"
    using reads_as [OF reads_get, of "f x" n g] assms(1) assms(3) [OF \<open>ok x\<close>]
    by (intro exI [of _ "f x"]) auto
qed

lemma codec_number:
  assumes "0 < n"
  shows "codec (fits n) id (\<lambda>d. put (le_bytes n d)) (\<lambda>_. n)
    (\<lambda>m. rmap (\<lambda>(bs, m'). (sint_val bs, m')) (get n m))"
  using codec_image [of "le_bytes n" n "fits n" sint_val] assms by (simp add: des_as_def [abs_def])

interpretation int64: codec "fits 8" id ser_int64 "\<lambda>_. 8" des_int64
  unfolding ser_int64_def [abs_def] des_int64_def [abs_def] by (rule codec_number) simp
interpretation int32: codec "fits 4" id ser_int32 "\<lambda>_. 4" des_int32
  unfolding ser_int32_def [abs_def] des_int32_def [abs_def] by (rule codec_number) simp
interpretation int16: codec "fits 2" id ser_int16 "\<lambda>_. 2" des_int16
  unfolding ser_int16_def [abs_def] des_int16_def [abs_def] by (rule codec_number) simp
interpretation int8: codec "fits 1" id ser_int8 "\<lambda>_. 1" des_int8
  unfolding ser_int8_def [abs_def] des_int8_def [abs_def] by (rule codec_number) simp

definition short :: "'a list \<Rightarrow> bool" where
  "short d \<longleftrightarrow> length d < 2 ^ 64"

interpretation string_: codec short id ser_string sersize_string des_string
proof
  fix x :: bytes
  assume "short x"
  let ?n = "le_bytes 8 (int (length x))"
  have "rbind (put ?n m) (\<lambda>m1. if x = [] then Inr m1 else put x m1) = put (?n @ x) m" for m
    using put_append [of ?n m x] by (cases "x = []"; cases "put ?n m") simp_all
  then have "writes (ser_string x) (?n @ x)"
    by (simp add: writes_def ser_string_def ser_count_def)
  moreover have "reads des_string (?n @ x) x"
    unfolding reads_def
  proof (intro allI impI)
    fix m suf
    assume r: "remaining m = (?n @ x) @ suf"
    then have c: "des_count m = Inr (length x, skip 8 m)"
      using get_image [of m ?n "x @ suf"] \<open>short x\<close> by (simp add: des_count_def le_val_le_bytes short_def)
    have "remaining (skip 8 m) = x @ suf" using r by simp
    from get_image [OF this] show "des_string m = Inr (x, skip (length (?n @ x)) m)"
      by (cases "x = []") (simp_all add: des_string_def c)
  qed
  ultimately show "\<exists>bs. length bs = sersize_string x \<and> writes (ser_string x) bs
      \<and> reads des_string bs (id x)"
    by (intro exI [of _ "?n @ x"]) (simp add: sersize_string_def)
qed

section \<open>Sets and maps\<close>

lemma fold_distinct:
  "distinct (ys @ xs) \<Longrightarrow> fold (\<lambda>x s. if x \<in> set s then s else s @ [x]) xs ys = ys @ xs"
  by (induction xs arbitrary: ys) auto

lemma codec_set:
  assumes "codec ok id ser sz des"
  shows "codec (\<lambda>d. list_all ok d \<and> short d \<and> distinct d) id (ser_vector ser) (sersize_vector sz) (des_set des)"
proof -
  have "codec (\<lambda>d. list_all ok d \<and> short d \<and> distinct d) id (ser_vector ser) (sersize_vector sz)
      (des_as (\<lambda>xs. fold (\<lambda>x s. if x \<in> set s then s else s @ [x]) xs []) (des_vector des))"
    by (rule codec_record [OF codec_vector [OF assms], where parts = id])
      (simp_all add: short_def fold_distinct [of "[]", simplified])
  then show ?thesis by (simp add: des_set_def [abs_def] des_as_def [abs_def])
qed

text \<open>The number of bytes a map takes, which is not what \<open>sersize_map\<close> says\<close>

definition map_bytes :: "('b \<Rightarrow> nat) \<Rightarrow> (int \<times> 'b) list \<Rightarrow> nat" where
  "map_bytes sz d = 8 + sum_list (map (\<lambda>p. 8 + sz (snd p)) d)"

lemma fold_um_put:
  "distinct (map fst (ys @ xs)) \<Longrightarrow> fold (\<lambda>(k, v). um_put k v) xs ys = rev xs @ ys"
proof (induction xs arbitrary: ys)
  case (Cons x xs)
  obtain k v where x: "x = (k, v)" by (cases x)
  have "um_put k v ys = x # ys"
    using Cons.prems by (auto simp: um_put_def x intro!: filter_True)
  then show ?case using Cons.IH [of "x # ys"] Cons.prems by (simp add: x) 
qed simp

lemma codec_map:
  assumes "codec ok norm ser sz des"
  shows "codec (\<lambda>d. list_all (\<lambda>p. fits 8 (fst p) \<and> ok (snd p)) d \<and> short d \<and> distinct (map fst d))
    (\<lambda>d. rev (map (map_prod id norm) d)) (ser_map ser) (map_bytes sz) (des_map des)"
proof -
  have "codec (\<lambda>d. list_all (\<lambda>p. fits 8 (fst p) \<and> ok (snd p)) d \<and> short d \<and> distinct (map fst d))
      (\<lambda>d. rev (map (map_prod id norm) d)) (ser_map ser) (map_bytes sz)
      (des_as (\<lambda>xs. fold (\<lambda>(k, v). um_put k v) xs []) (des_vector (des_pair des_int64 des)))"
    by (rule codec_record [OF codec_vector [OF codec_pair [OF int64.codec_axioms assms]], where parts = id])
      (simp_all add: short_def ser_map_def map_bytes_def sersize_vector_def fold_um_put [of "[]", simplified]
        comp_def)
  then show ?thesis by (simp add: des_map_def [abs_def] des_as_def [abs_def])
qed

end
