(* ===== verification/Wire_Structs.thy ===== *)
theory Wire_Structs
  imports Wire_Format Engine_Actor
begin

text \<open>
  The overloads of \<open>SerializedMessage::ser\<close>, \<open>sersize\<close> and \<open>des\<close> of \<open>infinisqld/Message.cc\<close>
  for the enums, the structs and the containers of structs that messages are made of.

  A packed struct that is copied by \<open>memcpy\<close> is its members one behind the other; other structs
  are sent member by member.
\<close>

section \<open>Copies of packed structs\<close>

definition ser_pod :: "nat \<Rightarrow> ('a \<Rightarrow> serialized \<Rightarrow> serialized res) \<Rightarrow> 'a \<Rightarrow> serialized \<Rightarrow> serialized res" where
  "ser_pod n layout x m = rbind (layout x (SerializedMessage n)) (\<lambda>obj. put (sm_data obj) m)"

definition des_pod :: "nat \<Rightarrow> (serialized \<Rightarrow> ('a \<times> serialized) res) \<Rightarrow> serialized \<Rightarrow> ('a \<times> serialized) res" where
  "des_pod n layout m =
     rbind (get n m) (\<lambda>(bs, m'). rmap (\<lambda>(x, _). (x, m')) (layout (SerializedMessage_of bs)))"

lemma writes_pod:
  assumes "writes (layout x) bs" "length bs = n"
  shows "writes (ser_pod n layout x) bs"
  using assms by (simp add: writes_def ser_pod_def SerializedMessage_def put_def [of bs "\<lparr>sm_pos = 0, sm_data = _\<rparr>"])

lemma codec_pod:
  assumes "codec ok norm layout sz des" "\<And>x. sz x = n" "0 < n"
  shows "codec ok norm (ser_pod n layout) (\<lambda>_. n) (des_pod n des)"
proof
  fix x
  assume "ok x"
  from codec.roundtrip [OF assms(1) this] obtain bs
    where bs: "layout x (SerializedMessage n) = Inr \<lparr>sm_pos = n, sm_data = bs\<rparr>" "length bs = n"
      "des (SerializedMessage_of bs) = Inr (norm x, \<lparr>sm_pos = n, sm_data = bs\<rparr>)"
    by (auto simp: assms(2))
  then have "writes (ser_pod n layout x) bs" "reads (des_pod n des) bs (norm x)"
    using get_image [of _ bs] assms(3) by (auto simp: writes_def ser_pod_def reads_def des_pod_def)
  then show "\<exists>bs. length bs = n \<and> writes (ser_pod n layout x) bs \<and> reads (des_pod n des) bs (norm x)"
    using bs(2) by blast
qed

section \<open>Bytes, unsigned numbers and enums\<close>

definition ser_byte :: "byte \<Rightarrow> serialized \<Rightarrow> serialized res" where
  "ser_byte b = put [b]"
definition des_byte :: "serialized \<Rightarrow> (byte \<times> serialized) res" where
  "des_byte = des_as hd (get 1)"

interpretation byte_: codec "\<lambda>_. True" id ser_byte "\<lambda>_. 1" des_byte
  unfolding ser_byte_def [abs_def] des_byte_def by (rule codec_image) simp_all

definition ser_bool :: "bool \<Rightarrow> serialized \<Rightarrow> serialized res" where
  "ser_bool b = ser_int8 (if b then 1 else 0)"
definition des_bool :: "serialized \<Rightarrow> (bool \<times> serialized) res" where
  "des_bool = des_as (\<lambda>n. n \<noteq> 0) des_int8"

interpretation bool_: codec "\<lambda>_. True" id ser_bool "\<lambda>_. 1" des_bool
  by (rule codec_record [OF int8.codec_axioms]) (simp_all add: ser_bool_def des_bool_def fits_def)

text \<open>\<open>uint32_t\<close> and pointers\<close>

definition ser_unsigned :: "nat \<Rightarrow> nat \<Rightarrow> serialized \<Rightarrow> serialized res" where
  "ser_unsigned n d = put (le_bytes n (int d))"
definition des_unsigned :: "nat \<Rightarrow> serialized \<Rightarrow> (nat \<times> serialized) res" where
  "des_unsigned n = des_as (\<lambda>bs. nat (le_val bs)) (get n)"

lemma codec_unsigned: "0 < n \<Longrightarrow> codec (\<lambda>d. d < 256 ^ n) id (ser_unsigned n) (\<lambda>_. n) (des_unsigned n)"
proof -
  have "nat (int d mod 256 ^ n) = d" if "d < 256 ^ n" for d
    by (metis that mod_less nat_int of_nat_mod of_nat_numeral of_nat_power)
  then show "0 < n \<Longrightarrow> ?thesis"
    unfolding ser_unsigned_def [abs_def] des_unsigned_def
    by (intro codec_image) (simp_all add: le_val_le_bytes)
qed

interpretation uint32: codec "\<lambda>d. d < 256 ^ 4" id "ser_unsigned 4" "\<lambda>_. 4" "des_unsigned 4"
  by (rule codec_unsigned) simp
interpretation pointer: codec "\<lambda>d. d < 256 ^ 8" id "ser_unsigned 8" "\<lambda>_. 8" "des_unsigned 8"
  by (rule codec_unsigned) simp

text \<open>An enum by the table of its enumerators; a number that is not in the table is a fault here.\<close>

definition enum_num :: "(int \<times> 'e) list \<Rightarrow> 'e \<Rightarrow> int" where
  "enum_num tab x = the (map_of (map prod.swap tab) x)"
definition enum_at :: "(int \<times> 'e) list \<Rightarrow> int \<Rightarrow> 'e res" where
  "enum_at tab n = (case map_of tab n of Some x \<Rightarrow> Inr x | None \<Rightarrow> Inl BadEnum)"
definition des_enum :: "(int \<times> 'e) list \<Rightarrow> (serialized \<Rightarrow> (int \<times> serialized) res) \<Rightarrow> serialized \<Rightarrow>
    ('e \<times> serialized) res" where
  "des_enum tab des m = rbind (des m) (\<lambda>(n, m'). rmap (\<lambda>x. (x, m')) (enum_at tab n))"

definition enumerates :: "nat \<Rightarrow> (int \<times> 'e) list \<Rightarrow> bool" where
  "enumerates n tab \<longleftrightarrow> distinct (map fst tab) \<and> (\<forall>x. x \<in> set (map snd tab))
     \<and> list_all (\<lambda>p. fits n (fst p)) tab"

lemma enum_at_num:
  assumes "enumerates n tab"
  shows "enum_at tab (enum_num tab x) = Inr x" "fits n (enum_num tab x)"
proof -
  have "x \<in> fst ` set (map prod.swap tab)" using assms by (force simp: enumerates_def image_iff)
  then obtain k where k: "map_of (map prod.swap tab) x = Some k"
    by (meson map_of_eq_None_iff not_None_eq)
  then have "(k, x) \<in> set tab" using map_of_SomeD [OF k] by auto
  then show "enum_at tab (enum_num tab x) = Inr x" "fits n (enum_num tab x)"
    using assms k by (auto simp: enum_at_def enum_num_def enumerates_def list_all_iff dest: map_of_is_SomeI)
qed

lemma codec_enum:
  assumes "enumerates n tab" "codec (fits n) id ser sz des"
  shows "codec (\<lambda>_. True) id (\<lambda>x. ser (enum_num tab x)) (\<lambda>x. sz (enum_num tab x)) (des_enum tab des)"
proof
  fix x
  obtain bs where "length bs = sz (enum_num tab x)" "writes (ser (enum_num tab x)) bs"
    "reads des bs (enum_num tab x)"
    using codec.law [OF assms(2), of "enum_num tab x"] enum_at_num [OF assms(1)] by auto
  then show "\<exists>bs. length bs = sz (enum_num tab x) \<and> writes (ser (enum_num tab x)) bs
      \<and> reads (des_enum tab des) bs (id x)"
    by (intro exI [of _ bs]) (simp add: reads_def des_enum_def enum_at_num [OF assms(1)])
qed

definition locktypes :: "(int \<times> locktype) list" where
  "locktypes = zip [-1..10] [NOTFOUNDLOCK, NOLOCK, READLOCK, WRITELOCK, PENDINGLOCK, INDEXLOCK,
     INDEXPENDINGLOCK, PENDINGTOWRITELOCK, PENDINGTOREADLOCK, PENDINGTONOLOCK, PENDINGTOINDEXLOCK,
     PENDINGTOINDEXNOLOCK]"

definition operatortypes :: "(int \<times> operatortype) list" where
  "operatortypes = zip ([0..5] @ [7..33])
     [OPERATOR_NONE, OPERATOR_CONCATENATION, OPERATOR_ADDITION, OPERATOR_SUBTRACTION,
      OPERATOR_MULTIPLICATION, OPERATOR_DIVISION, OPERATOR_NEGATION, OPERATOR_AND, OPERATOR_OR,
      OPERATOR_NOT, OPERATOR_TRUE, OPERATOR_FALSE, OPERATOR_UNKNOWN, OPERATOR_EQ, OPERATOR_NE,
      OPERATOR_LT, OPERATOR_GT, OPERATOR_LTE, OPERATOR_GTE, OPERATOR_BETWEEN, OPERATOR_ISNULL,
      OPERATOR_IN, OPERATOR_LIKE, OPERATOR_EXISTS, OPERATOR_UNIQUE, OPERATOR_BETWEENAND,
      OPERATOR_NOTBETWEEN, OPERATOR_ISNOTNULL, OPERATOR_NOTIN, OPERATOR_NOTLIKE, OPERATOR_REGEX,
      OPERATOR_SELECTALL, OPERATOR_NULL]"

definition fieldtypes :: "(int \<times> fieldtype) list" where
  "fieldtypes = zip [-1..6] [NOFIELDTYPE, F_INT, F_UINT, F_BOOL, F_FLOAT, F_CHAR, F_CHARX, F_VARCHAR]"

definition indextypes :: "(int \<times> indextype) list" where
  "indextypes = zip [0..6] [NONE, UNIQUE, NONUNIQUE, UNORDERED, UNIQUENOTNULL, NONUNIQUENOTNULL,
     UNORDEREDNOTNULL]"

definition pendingprimitives :: "(int \<times> pendingprimitive) list" where
  "pendingprimitives = zip [0..17] [NOCOMMAND, INSERT, UPDATE, DELETE, REPLACE, SELECT, FETCH, UNLOCK,
     COMMIT, ROLLBACK, PRIMITIVE_SQLPREDICATE, PRIMITIVE_SQLSELECTALL, PRIMITIVE_SQLSELECTALLFORDELETE,
     PRIMITIVE_SQLSELECTALLFORUPDATE, PRIMITIVE_SQLDELETE, PRIMITIVE_SQLINSERT, PRIMITIVE_SQLUPDATE,
     PRIMITIVE_SQLREPLACE]"

definition enginecmds :: "(int \<times> enginecmd) list" where
  "enginecmds = zip [0..12] [NOENGINECMD, NEWROW, UNIQUEINDEX, UPDATEROW, DELETEROW, REPLACEDELETEROW,
     INDEXSEARCH, SELECTROWS, COMMITCMD, ROLLBACKCMD, REVERTCMD, UNLOCKCMD, SEARCHRETURN1]"

definition operationtypes :: "(int \<times> operationtype) list" where
  "operationtypes = [(0, OPERATION_NONE), (1, OPERATION_LOGIN)]"

definition statuses :: "(int \<times> status) list" where
  "statuses = [(0, STATUS_OK), (1, STATUS_NOTOK)]"

datatype listenertype = LISTENER_NONE | LISTENER_RAW | LISTENER_PG

definition listenertypes :: "(int \<times> listenertype) list" where
  "listenertypes = [(0, LISTENER_NONE), (1, LISTENER_RAW), (2, LISTENER_PG)]"

lemmas small_upto = upto.simps [of 0] upto.simps [of 1] upto.simps [of "- 1"]

lemma enumeratesI:
  assumes "distinct (map fst tab)" "\<And>x. x \<in> set (map snd tab)" "list_all (\<lambda>p. fits n (fst p)) tab"
  shows "enumerates n tab"
  using assms by (simp add: enumerates_def)

lemma enumerates_locktype: "enumerates 1 locktypes"
proof (rule enumeratesI)
  show "x \<in> set (map snd locktypes)" for x by (cases x) (simp_all add: locktypes_def small_upto)
qed (simp_all add: locktypes_def fits_def small_upto)

lemma enumerates_operatortype: "enumerates 1 operatortypes"
proof (rule enumeratesI)
  show "x \<in> set (map snd operatortypes)" for x by (cases x) (simp_all add: operatortypes_def small_upto)
qed (simp_all add: operatortypes_def fits_def small_upto)

lemma enumerates_fieldtype: "enumerates 1 fieldtypes"
proof (rule enumeratesI)
  show "x \<in> set (map snd fieldtypes)" for x by (cases x) (simp_all add: fieldtypes_def small_upto)
qed (simp_all add: fieldtypes_def fits_def small_upto)

lemma enumerates_indextype: "enumerates 1 indextypes"
proof (rule enumeratesI)
  show "x \<in> set (map snd indextypes)" for x by (cases x) (simp_all add: indextypes_def small_upto)
qed (simp_all add: indextypes_def fits_def small_upto)

lemma enumerates_pendingprimitive: "enumerates 1 pendingprimitives"
proof (rule enumeratesI)
  show "x \<in> set (map snd pendingprimitives)" for x by (cases x) (simp_all add: pendingprimitives_def small_upto)
qed (simp_all add: pendingprimitives_def fits_def small_upto)

lemma enumerates_enginecmd: "enumerates 4 enginecmds"
proof (rule enumeratesI)
  show "x \<in> set (map snd enginecmds)" for x by (cases x) (simp_all add: enginecmds_def small_upto)
qed (simp_all add: enginecmds_def fits_def small_upto)

lemma enumerates_operationtype: "enumerates 1 operationtypes"
proof (rule enumeratesI)
  show "x \<in> set (map snd operationtypes)" for x by (cases x) (simp_all add: operationtypes_def small_upto)
qed (simp_all add: operationtypes_def fits_def small_upto)

lemma enumerates_listenertype: "enumerates 1 listenertypes"
proof (rule enumeratesI)
  show "x \<in> set (map snd listenertypes)" for x by (cases x) (simp_all add: listenertypes_def small_upto)
qed (simp_all add: listenertypes_def fits_def small_upto)

lemma enumerates_status: "enumerates 1 statuses" "enumerates 4 statuses"
proof -
  have "x \<in> set (map snd statuses)" for x by (cases x) (simp_all add: statuses_def small_upto)
  then show "enumerates 1 statuses" "enumerates 4 statuses"
    by (auto intro!: enumeratesI simp: statuses_def fits_def small_upto)
qed

lemmas enum8 = codec_enum [OF _ int8.codec_axioms] and enum32 = codec_enum [OF _ int32.codec_axioms]

section \<open>Packed structs\<close>

text \<open>A byte that is no enumerator of \<open>payloadtype_e\<close> is kept, as the header of a message can hold
  one; nothing here looks at the topic, a byte as well.\<close>

datatype payloadtype =
    PAYLOADNONE | PAYLOADMESSAGE | PAYLOADSOCKET | PAYLOADUSERSCHEMA | PAYLOADDEADLOCK
  | PAYLOADSUBTRANSACTION | PAYLOADCOMMITROLLBACK | PAYLOADDISPATCH | PAYLOADACKDISPATCH
  | PAYLOADAPPLY | PAYLOADACKAPPLY | PAYLOADSERIALIZED | PAYLOADBATCHSERIALIZED
  | PAYLOADINVALID byte

definition payloadtypes :: "payloadtype list" where
  "payloadtypes = [PAYLOADNONE, PAYLOADMESSAGE, PAYLOADSOCKET, PAYLOADUSERSCHEMA, PAYLOADDEADLOCK,
     PAYLOADSUBTRANSACTION, PAYLOADCOMMITROLLBACK, PAYLOADDISPATCH, PAYLOADACKDISPATCH, PAYLOADAPPLY,
     PAYLOADACKAPPLY, PAYLOADSERIALIZED, PAYLOADBATCHSERIALIZED]"

definition payload_of_byte :: "byte \<Rightarrow> payloadtype" where
  "payload_of_byte b = (if unat b < 13 then payloadtypes ! unat b else PAYLOADINVALID b)"

fun byte_of_payload :: "payloadtype \<Rightarrow> byte" where
  "byte_of_payload (PAYLOADINVALID b) = b"
| "byte_of_payload p = word_of_nat (length (takeWhile (\<lambda>q. q \<noteq> p) payloadtypes))"

record message_s =
  ms_payloadtype :: payloadtype
  ms_topic :: byte
  ms_sourceAddr :: addressStruct
  ms_destAddr :: addressStruct

definition ser_address :: "addressStruct \<Rightarrow> serialized \<Rightarrow> serialized res" where
  "ser_address a = ser_pair ser_int16 ser_int16 (ad_nodeid a, ad_actorid a)"
definition des_address :: "serialized \<Rightarrow> (addressStruct \<times> serialized) res" where
  "des_address = des_as (\<lambda>(n, a). \<lparr>ad_nodeid = n, ad_actorid = a\<rparr>) (des_pair des_int16 des_int16)"

definition layout_message_s :: "message_s \<Rightarrow> serialized \<Rightarrow> serialized res" where
  "layout_message_s d = ser_pair ser_byte (ser_pair ser_byte (ser_pair ser_address ser_address))
     (byte_of_payload (ms_payloadtype d), ms_topic d, ms_sourceAddr d, ms_destAddr d)"
definition parse_message_s :: "serialized \<Rightarrow> (message_s \<times> serialized) res" where
  "parse_message_s =
     des_as (\<lambda>(p, t, s, d). \<lparr>ms_payloadtype = payload_of_byte p, ms_topic = t, ms_sourceAddr = s,
                            ms_destAddr = d\<rparr>)
       (des_pair des_byte (des_pair des_byte (des_pair des_address des_address)))"
definition ser_message_s :: "message_s \<Rightarrow> serialized \<Rightarrow> serialized res" where
  "ser_message_s = ser_pod 10 layout_message_s"
definition des_message_s :: "serialized \<Rightarrow> (message_s \<times> serialized) res" where
  "des_message_s = des_pod 10 parse_message_s"

definition ok_address :: "addressStruct \<Rightarrow> bool" where
  "ok_address a \<longleftrightarrow> fits 2 (ad_nodeid a) \<and> fits 2 (ad_actorid a)"

definition ok_message_s :: "message_s \<Rightarrow> bool" where
  "ok_message_s d \<longleftrightarrow> ok_address (ms_sourceAddr d) \<and> ok_address (ms_destAddr d)
     \<and> (\<forall>b. ms_payloadtype d = PAYLOADINVALID b \<longrightarrow> 13 \<le> unat b)"

lemma payload_of_byte_of:
  "(\<And>b. p = PAYLOADINVALID b \<Longrightarrow> 13 \<le> unat b) \<Longrightarrow> payload_of_byte (byte_of_payload p) = p"
  by (cases p) (auto simp: payload_of_byte_def payloadtypes_def)

interpretation address: codec ok_address id ser_address "\<lambda>_. 4" des_address
  by (rule codec_record [OF codec_pair [OF int16.codec_axioms int16.codec_axioms]])
    (simp_all add: ok_address_def ser_address_def des_address_def)

interpretation message_layout: codec ok_message_s id layout_message_s "\<lambda>_. 10" parse_message_s
  by (rule codec_record [OF codec_pair [OF byte_.codec_axioms codec_pair [OF byte_.codec_axioms
          codec_pair [OF address.codec_axioms address.codec_axioms]]]])
    (auto simp: ok_message_s_def layout_message_s_def parse_message_s_def payload_of_byte_of)

interpretation message_s: codec ok_message_s id ser_message_s "\<lambda>_. 10" des_message_s
  unfolding ser_message_s_def des_message_s_def by (rule codec_pod [OF message_layout.codec_axioms]) simp_all

record socket_s =
  so_socket :: int
  so_events :: nat
  so_listenertype :: listenertype

definition ser_socket_s :: "socket_s \<Rightarrow> serialized \<Rightarrow> serialized res" where
  "ser_socket_s = ser_pod 9 (\<lambda>d. ser_pair ser_int32 (ser_pair (ser_unsigned 4)
     (\<lambda>l. ser_int8 (enum_num listenertypes l))) (so_socket d, so_events d, so_listenertype d))"
definition des_socket_s :: "serialized \<Rightarrow> (socket_s \<times> serialized) res" where
  "des_socket_s = des_pod 9 (des_as (\<lambda>(s, e, l). \<lparr>so_socket = s, so_events = e, so_listenertype = l\<rparr>)
     (des_pair des_int32 (des_pair (des_unsigned 4) (des_enum listenertypes des_int8))))"
definition ok_socket_s :: "socket_s \<Rightarrow> bool" where
  "ok_socket_s d \<longleftrightarrow> fits 4 (so_socket d) \<and> so_events d < 256 ^ 4"

interpretation socket_s: codec ok_socket_s id ser_socket_s "\<lambda>_. 9" des_socket_s
  unfolding ser_socket_s_def des_socket_s_def
  by (rule codec_pod, rule codec_record [OF codec_pair [OF int32.codec_axioms codec_pair
          [OF uint32.codec_axioms enum8 [OF enumerates_listenertype]]]])
    (simp_all add: ok_socket_s_def)

record procedures_s =
  pr_procedurecreator :: nat
  pr_proceduredestroyer :: nat

definition ser_procedures_s :: "procedures_s \<Rightarrow> serialized \<Rightarrow> serialized res" where
  "ser_procedures_s = ser_pod 16 (\<lambda>d. ser_pair (ser_unsigned 8) (ser_unsigned 8)
     (pr_procedurecreator d, pr_proceduredestroyer d))"
definition des_procedures_s :: "serialized \<Rightarrow> (procedures_s \<times> serialized) res" where
  "des_procedures_s = des_pod 16 (des_as
     (\<lambda>(c, d). \<lparr>pr_procedurecreator = c, pr_proceduredestroyer = d\<rparr>)
     (des_pair (des_unsigned 8) (des_unsigned 8)))"
definition ok_procedures_s :: "procedures_s \<Rightarrow> bool" where
  "ok_procedures_s d \<longleftrightarrow> pr_procedurecreator d < 256 ^ 8 \<and> pr_proceduredestroyer d < 256 ^ 8"

interpretation procedures_s: codec ok_procedures_s id ser_procedures_s "\<lambda>_. 16" des_procedures_s
  unfolding ser_procedures_s_def des_procedures_s_def
  by (rule codec_pod, rule codec_record [OF codec_pair [OF pointer.codec_axioms pointer.codec_axioms]])
    (simp_all add: ok_procedures_s_def)

section \<open>Structs of the messages\<close>

definition ser_userschema_s :: "userschema \<Rightarrow> serialized \<Rightarrow> serialized res" where
  "ser_userschema_s = ser_pod 125 (\<lambda>d.
    ser_pair (\<lambda>x. ser_int8 (enum_num operationtypes x)) (ser_pair ser_int8 (ser_pair
    ser_int8 (ser_pair ser_int64 (ser_pair ser_int64 (ser_pair ser_int64 (ser_pair ser_int64
    (ser_pair ser_int64 (ser_pair ser_int64 (ser_pair ser_int64 (ser_pair ser_int64 (ser_pair
    ser_int64 (ser_pair ser_int64 (ser_pair ser_int64 (ser_pair ser_int64 (ser_pair ser_int64
    (ser_pair ser_int64 (ser_pair ser_int64 (ser_pair (\<lambda>x. ser_int8 (enum_num indextypes
    x)) (\<lambda>x. ser_int8 (enum_num fieldtypes x)))))))))))))))))))) (us_operationtype d,
    us_caller d, us_callerstate d, us_argsize d, us_instance d, us_operationid d, us_domainid d,
    us_userid d, us_tableid d, us_fieldlen d, us_builtincmd d, us_indexid d, us_tableindexid d,
    us_simple d, us_fieldid d, us_numfields d, us_intdata d, us_status d, us_indextype d,
    us_fieldtype d))"
definition des_userschema_s :: "serialized \<Rightarrow> (userschema \<times> serialized) res" where
  "des_userschema_s = des_pod 125 (
    des_as (\<lambda>(x0, x1, x2, x3, x4, x5, x6, x7, x8, x9, x10, x11, x12, x13, x14, x15, x16,
    x17, x18, x19). \<lparr>us_operationtype = x0, us_caller = x1, us_callerstate = x2,
    us_argsize = x3, us_instance = x4, us_operationid = x5, us_domainid = x6, us_userid = x7,
    us_tableid = x8, us_fieldlen = x9, us_builtincmd = x10, us_indexid = x11, us_tableindexid =
    x12, us_simple = x13, us_fieldid = x14, us_numfields = x15, us_intdata = x16, us_status =
    x17, us_indextype = x18, us_fieldtype = x19\<rparr>) (des_pair (des_enum operationtypes
    des_int8) (des_pair des_int8 (des_pair des_int8 (des_pair des_int64 (des_pair des_int64
    (des_pair des_int64 (des_pair des_int64 (des_pair des_int64 (des_pair des_int64 (des_pair
    des_int64 (des_pair des_int64 (des_pair des_int64 (des_pair des_int64 (des_pair des_int64
    (des_pair des_int64 (des_pair des_int64 (des_pair des_int64 (des_pair des_int64 (des_pair
    (des_enum indextypes des_int8) (des_enum fieldtypes des_int8)))))))))))))))))))))"
definition ok_userschema_s :: "userschema \<Rightarrow> bool" where
  "ok_userschema_s d \<longleftrightarrow>
    fits 1 (us_caller d) \<and> fits 1 (us_callerstate d) \<and> fits 8 (us_argsize d) \<and>
    fits 8 (us_instance d) \<and> fits 8 (us_operationid d) \<and> fits 8 (us_domainid d) \<and>
    fits 8 (us_userid d) \<and> fits 8 (us_tableid d) \<and> fits 8 (us_fieldlen d) \<and> fits
    8 (us_builtincmd d) \<and> fits 8 (us_indexid d) \<and> fits 8 (us_tableindexid d) \<and>
    fits 8 (us_simple d) \<and> fits 8 (us_fieldid d) \<and> fits 8 (us_numfields d) \<and> fits
    8 (us_intdata d) \<and> fits 8 (us_status d)"

interpretation userschema_s: codec ok_userschema_s id ser_userschema_s "\<lambda>_. 125" des_userschema_s
  unfolding ser_userschema_s_def des_userschema_s_def
  by (rule codec_pod, rule codec_record [OF codec_pair [OF enum8 [OF enumerates_operationtype] codec_pair [OF int8.codec_axioms
      codec_pair [OF int8.codec_axioms codec_pair [OF int64.codec_axioms codec_pair [OF
      int64.codec_axioms codec_pair [OF int64.codec_axioms codec_pair [OF int64.codec_axioms
      codec_pair [OF int64.codec_axioms codec_pair [OF int64.codec_axioms codec_pair [OF
      int64.codec_axioms codec_pair [OF int64.codec_axioms codec_pair [OF int64.codec_axioms
      codec_pair [OF int64.codec_axioms codec_pair [OF int64.codec_axioms codec_pair [OF
      int64.codec_axioms codec_pair [OF int64.codec_axioms codec_pair [OF int64.codec_axioms
      codec_pair [OF int64.codec_axioms codec_pair [OF enum8 [OF enumerates_indextype] enum8 [OF
      enumerates_fieldtype]]]]]]]]]]]]]]]]]]]]])
    (auto simp: ok_userschema_s_def)

record deadlock_s =
  dl_transactionid :: int
  dl_tainstance :: int
  dl_transaction_pendingcmdid :: int
  dl_deadlockchange :: int

definition ser_deadlock_s :: "deadlock_s \<Rightarrow> serialized \<Rightarrow> serialized res" where
  "ser_deadlock_s = ser_pod 32 (\<lambda>d.
    ser_pair ser_int64 (ser_pair ser_int64 (ser_pair ser_int64 ser_int64)) (dl_transactionid d,
    dl_tainstance d, dl_transaction_pendingcmdid d, dl_deadlockchange d))"
definition des_deadlock_s :: "serialized \<Rightarrow> (deadlock_s \<times> serialized) res" where
  "des_deadlock_s = des_pod 32 (
    des_as (\<lambda>(x0, x1, x2, x3). \<lparr>dl_transactionid = x0, dl_tainstance = x1,
    dl_transaction_pendingcmdid = x2, dl_deadlockchange = x3\<rparr>) (des_pair des_int64
    (des_pair des_int64 (des_pair des_int64 des_int64))))"
definition ok_deadlock_s :: "deadlock_s \<Rightarrow> bool" where
  "ok_deadlock_s d \<longleftrightarrow>
    fits 8 (dl_transactionid d) \<and> fits 8 (dl_tainstance d) \<and> fits 8
    (dl_transaction_pendingcmdid d) \<and> fits 8 (dl_deadlockchange d)"

interpretation deadlock_s: codec ok_deadlock_s id ser_deadlock_s "\<lambda>_. 32" des_deadlock_s
  unfolding ser_deadlock_s_def des_deadlock_s_def
  by (rule codec_pod, rule codec_record [OF codec_pair [OF int64.codec_axioms codec_pair [OF int64.codec_axioms codec_pair [OF
      int64.codec_axioms int64.codec_axioms]]]])
    (auto simp: ok_deadlock_s_def)

definition ser_transaction_s :: "transactionStruct \<Rightarrow> serialized \<Rightarrow> serialized res" where
  "ser_transaction_s = ser_pod 39 (\<lambda>d.
    ser_pair ser_int64 (ser_pair ser_int64 (ser_pair ser_int64 (ser_pair ser_int16 (ser_pair
    ser_int16 (ser_pair (\<lambda>x. ser_int32 (enum_num enginecmds x)) (ser_pair ser_int32
    (ser_pair ser_int8 ser_int16))))))) (ts_transactionid d, ts_subtransactionid d,
    ts_previoussubtransactionid d, ts_tainstance d, ts_domainid d, ts_enginecmd d,
    ts_pendingcmdid d, ts_tacmdentrypoint d, ts_engineinstance d))"
definition des_transaction_s :: "serialized \<Rightarrow> (transactionStruct \<times> serialized) res" where
  "des_transaction_s = des_pod 39 (
    des_as (\<lambda>(x0, x1, x2, x3, x4, x5, x6, x7, x8). \<lparr>ts_transactionid = x0,
    ts_subtransactionid = x1, ts_previoussubtransactionid = x2, ts_tainstance = x3, ts_domainid
    = x4, ts_enginecmd = x5, ts_pendingcmdid = x6, ts_tacmdentrypoint = x7, ts_engineinstance =
    x8\<rparr>) (des_pair des_int64 (des_pair des_int64 (des_pair des_int64 (des_pair des_int16
    (des_pair des_int16 (des_pair (des_enum enginecmds des_int32) (des_pair des_int32 (des_pair
    des_int8 des_int16)))))))))"
definition ok_transaction_s :: "transactionStruct \<Rightarrow> bool" where
  "ok_transaction_s d \<longleftrightarrow>
    fits 8 (ts_transactionid d) \<and> fits 8 (ts_subtransactionid d) \<and> fits 8
    (ts_previoussubtransactionid d) \<and> fits 2 (ts_tainstance d) \<and> fits 2 (ts_domainid
    d) \<and> fits 4 (ts_pendingcmdid d) \<and> fits 1 (ts_tacmdentrypoint d) \<and> fits 2
    (ts_engineinstance d)"

interpretation transaction_s: codec ok_transaction_s id ser_transaction_s "\<lambda>_. 39" des_transaction_s
  unfolding ser_transaction_s_def des_transaction_s_def
  by (rule codec_pod, rule codec_record [OF codec_pair [OF int64.codec_axioms codec_pair [OF int64.codec_axioms codec_pair [OF
      int64.codec_axioms codec_pair [OF int16.codec_axioms codec_pair [OF int16.codec_axioms
      codec_pair [OF enum32 [OF enumerates_enginecmd] codec_pair [OF int32.codec_axioms
      codec_pair [OF int8.codec_axioms int16.codec_axioms]]]]]]]]])
    (auto simp: ok_transaction_s_def)

definition ser_subtransaction_s :: "subtransactionStruct \<Rightarrow> serialized \<Rightarrow> serialized res" where
  "ser_subtransaction_s = ser_pod 27 (\<lambda>d.
    ser_pair (\<lambda>x. ser_int8 (enum_num statuses x)) (ser_pair ser_bool (ser_pair ser_int64
    (ser_pair ser_int16 (ser_pair (\<lambda>x. ser_int8 (enum_num locktypes x)) (ser_pair
    ser_int64 (ser_pair ser_int16 (ser_pair ser_int16 ser_int16))))))) (ss_status d, ss_isrow d,
    ss_rowid d, ss_tableid d, ss_locktype d, ss_forward_rowid d, ss_forward_engineid d,
    ss_fieldid d, ss_engineid d))"
definition des_subtransaction_s :: "serialized \<Rightarrow> (subtransactionStruct \<times> serialized) res" where
  "des_subtransaction_s = des_pod 27 (
    des_as (\<lambda>(x0, x1, x2, x3, x4, x5, x6, x7, x8). \<lparr>ss_status = x0, ss_isrow =
    x1, ss_rowid = x2, ss_tableid = x3, ss_locktype = x4, ss_forward_rowid = x5,
    ss_forward_engineid = x6, ss_fieldid = x7, ss_engineid = x8\<rparr>) (des_pair (des_enum
    statuses des_int8) (des_pair des_bool (des_pair des_int64 (des_pair des_int16 (des_pair
    (des_enum locktypes des_int8) (des_pair des_int64 (des_pair des_int16 (des_pair des_int16
    des_int16)))))))))"
definition ok_subtransaction_s :: "subtransactionStruct \<Rightarrow> bool" where
  "ok_subtransaction_s d \<longleftrightarrow>
    fits 8 (ss_rowid d) \<and> fits 2 (ss_tableid d) \<and> fits 8 (ss_forward_rowid d) \<and>
    fits 2 (ss_forward_engineid d) \<and> fits 2 (ss_fieldid d) \<and> fits 2 (ss_engineid d)"

interpretation subtransaction_s: codec ok_subtransaction_s id ser_subtransaction_s "\<lambda>_. 27" des_subtransaction_s
  unfolding ser_subtransaction_s_def des_subtransaction_s_def
  by (rule codec_pod, rule codec_record [OF codec_pair [OF enum8 [OF enumerates_status(1)] codec_pair [OF bool_.codec_axioms
      codec_pair [OF int64.codec_axioms codec_pair [OF int16.codec_axioms codec_pair [OF enum8
      [OF enumerates_locktype] codec_pair [OF int64.codec_axioms codec_pair [OF
      int16.codec_axioms codec_pair [OF int16.codec_axioms int16.codec_axioms]]]]]]]]])
    (auto simp: ok_subtransaction_s_def)

definition ser_nonLockingIndexEntry :: "nonLockingIndexEntry \<Rightarrow> serialized \<Rightarrow> serialized res" where
  "ser_nonLockingIndexEntry = ser_pod 10 (\<lambda>d.
    ser_pair ser_int64 ser_int16 (nl_rowid d, nl_engineid d))"
definition des_nonLockingIndexEntry :: "serialized \<Rightarrow> (nonLockingIndexEntry \<times> serialized) res" where
  "des_nonLockingIndexEntry = des_pod 10 (
    des_as (\<lambda>(x0, x1). \<lparr>nl_rowid = x0, nl_engineid = x1\<rparr>) (des_pair
    des_int64 des_int16))"
definition ok_nonLockingIndexEntry :: "nonLockingIndexEntry \<Rightarrow> bool" where
  "ok_nonLockingIndexEntry d \<longleftrightarrow>
    fits 8 (nl_rowid d) \<and> fits 2 (nl_engineid d)"

interpretation nonLockingIndexEntry: codec ok_nonLockingIndexEntry id ser_nonLockingIndexEntry "\<lambda>_. 10" des_nonLockingIndexEntry
  unfolding ser_nonLockingIndexEntry_def des_nonLockingIndexEntry_def
  by (rule codec_pod, rule codec_record [OF codec_pair [OF int64.codec_axioms int16.codec_axioms]])
    (auto simp: ok_nonLockingIndexEntry_def)

record dispatch_s =
  di_transactionid :: int
  di_domainid :: int

definition ser_dispatch_s :: "dispatch_s \<Rightarrow> serialized \<Rightarrow> serialized res" where
  "ser_dispatch_s = ser_pod 16 (\<lambda>d.
    ser_pair ser_int64 ser_int64 (di_transactionid d, di_domainid d))"
definition des_dispatch_s :: "serialized \<Rightarrow> (dispatch_s \<times> serialized) res" where
  "des_dispatch_s = des_pod 16 (
    des_as (\<lambda>(x0, x1). \<lparr>di_transactionid = x0, di_domainid = x1\<rparr>)
    (des_pair des_int64 des_int64))"
definition ok_dispatch_s :: "dispatch_s \<Rightarrow> bool" where
  "ok_dispatch_s d \<longleftrightarrow>
    fits 8 (di_transactionid d) \<and> fits 8 (di_domainid d)"

interpretation dispatch_s: codec ok_dispatch_s id ser_dispatch_s "\<lambda>_. 16" des_dispatch_s
  unfolding ser_dispatch_s_def des_dispatch_s_def
  by (rule codec_pod, rule codec_record [OF codec_pair [OF int64.codec_axioms int64.codec_axioms]])
    (auto simp: ok_dispatch_s_def)

record ackdispatch_s =
  ad_transactionid :: int
  ad_status :: int

definition ser_ackdispatch_s :: "ackdispatch_s \<Rightarrow> serialized \<Rightarrow> serialized res" where
  "ser_ackdispatch_s = ser_pod 12 (\<lambda>d.
    ser_pair ser_int64 ser_int32 (ad_transactionid d, ad_status d))"
definition des_ackdispatch_s :: "serialized \<Rightarrow> (ackdispatch_s \<times> serialized) res" where
  "des_ackdispatch_s = des_pod 12 (
    des_as (\<lambda>(x0, x1). \<lparr>ad_transactionid = x0, ad_status = x1\<rparr>) (des_pair
    des_int64 des_int32))"
definition ok_ackdispatch_s :: "ackdispatch_s \<Rightarrow> bool" where
  "ok_ackdispatch_s d \<longleftrightarrow>
    fits 8 (ad_transactionid d) \<and> fits 4 (ad_status d)"

interpretation ackdispatch_s: codec ok_ackdispatch_s id ser_ackdispatch_s "\<lambda>_. 12" des_ackdispatch_s
  unfolding ser_ackdispatch_s_def des_ackdispatch_s_def
  by (rule codec_pod, rule codec_record [OF codec_pair [OF int64.codec_axioms int32.codec_axioms]])
    (auto simp: ok_ackdispatch_s_def)

definition ser_ackapply_s :: "ackApply \<Rightarrow> serialized \<Rightarrow> serialized res" where
  "ser_ackapply_s = ser_pod 28 (\<lambda>d.
    ser_pair ser_int64 (ser_pair ser_int64 (ser_pair ser_int64 (\<lambda>x. ser_int32 (enum_num
    statuses x)))) (aa_subtransactionid d, aa_applierid d, aa_partitionid d, aa_status d))"
definition des_ackapply_s :: "serialized \<Rightarrow> (ackApply \<times> serialized) res" where
  "des_ackapply_s = des_pod 28 (
    des_as (\<lambda>(x0, x1, x2, x3). \<lparr>aa_subtransactionid = x0, aa_applierid = x1,
    aa_partitionid = x2, aa_status = x3\<rparr>) (des_pair des_int64 (des_pair des_int64
    (des_pair des_int64 (des_enum statuses des_int32)))))"
definition ok_ackapply_s :: "ackApply \<Rightarrow> bool" where
  "ok_ackapply_s d \<longleftrightarrow>
    fits 8 (aa_subtransactionid d) \<and> fits 8 (aa_applierid d) \<and> fits 8 (aa_partitionid
    d)"

interpretation ackapply_s: codec ok_ackapply_s id ser_ackapply_s "\<lambda>_. 28" des_ackapply_s
  unfolding ser_ackapply_s_def des_ackapply_s_def
  by (rule codec_pod, rule codec_record [OF codec_pair [OF int64.codec_axioms codec_pair [OF int64.codec_axioms codec_pair [OF
      int64.codec_axioms enum32 [OF enumerates_status(2)]]]]])
    (auto simp: ok_ackapply_s_def)

section \<open>Field values\<close>

text \<open>
  The union of a field value is 16 bytes. The model keeps its members apart, those that were not
  written being 0, so its word is the disjunction of their representations; a union that is read
  gives every member its view of the word.
\<close>

definition union_word :: "fieldValue \<Rightarrow> 128 word" where
  "union_word v = ucast (the_i64 (integer v)) OR ucast (uinteger v) OR (if boolean v then 1 else 0)
     OR the_ld (floating v) OR ucast (the_i8 (character v))"

definition fieldValue_of :: "128 word \<times> bytes \<times> bool \<Rightarrow> fieldValue" where
  "fieldValue_of = (\<lambda>(w, s, n). \<lparr>integer = I64 (ucast w), uinteger = ucast w,
     boolean = (ucast w :: byte) \<noteq> 0, floating = LD w, character = I8 (ucast w), str = s, isnull = n\<rparr>)"

definition norm_fieldValue :: "fieldValue \<Rightarrow> fieldValue" where
  "norm_fieldValue v = fieldValue_of (union_word v, str v, isnull v)"

definition ser_union :: "128 word \<Rightarrow> serialized \<Rightarrow> serialized res" where
  "ser_union w = put (le_bytes 16 (uint w))"
definition des_union :: "serialized \<Rightarrow> (128 word \<times> serialized) res" where
  "des_union = des_as (\<lambda>bs. word_of_int (le_val bs)) (get 16)"

interpretation union: codec "\<lambda>_. True" id ser_union "\<lambda>_. 16" des_union
  unfolding ser_union_def [abs_def] des_union_def by (rule codec_image) simp_all

definition ser_fieldValue :: "fieldValue \<Rightarrow> serialized \<Rightarrow> serialized res" where
  "ser_fieldValue d = ser_pair ser_union (ser_pair ser_string ser_bool) (union_word d, str d, isnull d)"
definition sersize_fieldValue :: "fieldValue \<Rightarrow> nat" where
  "sersize_fieldValue d = 16 + sersize_string (str d) + 1"
definition des_fieldValue :: "serialized \<Rightarrow> (fieldValue \<times> serialized) res" where
  "des_fieldValue = des_as fieldValue_of (des_pair des_union (des_pair des_string des_bool))"
definition ok_fieldValue :: "fieldValue \<Rightarrow> bool" where
  "ok_fieldValue d \<longleftrightarrow> short (str d)"

interpretation fieldValue: codec ok_fieldValue norm_fieldValue ser_fieldValue sersize_fieldValue des_fieldValue
  by (rule codec_record [OF codec_pair [OF union.codec_axioms codec_pair
          [OF string_.codec_axioms bool_.codec_axioms]]])
    (auto simp: ok_fieldValue_def norm_fieldValue_def ser_fieldValue_def sersize_fieldValue_def
      des_fieldValue_def)

section \<open>Structs with strings and field values\<close>

definition ser_returnRow :: "returnRow \<Rightarrow> serialized \<Rightarrow> serialized res" where
  "ser_returnRow d =
    ser_pair ser_int64 (ser_pair ser_int64 (ser_pair (\<lambda>x. ser_int8 (enum_num locktypes
    x)) ser_string)) (rr_rowid d, rr_previoussubtransactionid d, rr_locktype d, rr_row d)"
definition sersize_returnRow :: "returnRow \<Rightarrow> nat" where
  "sersize_returnRow d = 8 + 8 + 1 + sersize_string (rr_row d)"
definition des_returnRow :: "serialized \<Rightarrow> (returnRow \<times> serialized) res" where
  "des_returnRow =
    des_as (\<lambda>(x0, x1, x2, x3). \<lparr>rr_rowid = x0, rr_previoussubtransactionid = x1,
    rr_locktype = x2, rr_row = x3\<rparr>) (des_pair des_int64 (des_pair des_int64 (des_pair
    (des_enum locktypes des_int8) des_string)))"
definition ok_returnRow :: "returnRow \<Rightarrow> bool" where
  "ok_returnRow d \<longleftrightarrow>
    fits 8 (rr_rowid d) \<and> fits 8 (rr_previoussubtransactionid d) \<and> short (rr_row d)"

interpretation returnRow: codec ok_returnRow id ser_returnRow sersize_returnRow des_returnRow
  by (rule codec_record [OF codec_pair [OF int64.codec_axioms codec_pair [OF int64.codec_axioms codec_pair [OF enum8
      [OF enumerates_locktype] string_.codec_axioms]]]])
    (auto simp: ok_returnRow_def ser_returnRow_def sersize_returnRow_def des_returnRow_def)

definition ser_record_s :: "record_s \<Rightarrow> serialized \<Rightarrow> serialized res" where
  "ser_record_s d =
    ser_pair ser_int64 (ser_pair (\<lambda>x. ser_int8 (enum_num pendingprimitives x)) (ser_pair
    ser_int64 (ser_pair ser_int64 (ser_pair ser_string ser_string)))) (re_rowid d, re_primitive
    d, re_tableid d, re_previoussubtransactionid d, re_row d, re_oldrow d)"
definition sersize_record_s :: "record_s \<Rightarrow> nat" where
  "sersize_record_s d = 8 + 1 + 8 + 8 + sersize_string (re_row d) + sersize_string (re_oldrow d)"
definition des_record_s :: "serialized \<Rightarrow> (record_s \<times> serialized) res" where
  "des_record_s =
    des_as (\<lambda>(x0, x1, x2, x3, x4, x5). \<lparr>re_rowid = x0, re_primitive = x1,
    re_tableid = x2, re_previoussubtransactionid = x3, re_row = x4, re_oldrow = x5\<rparr>)
    (des_pair des_int64 (des_pair (des_enum pendingprimitives des_int8) (des_pair des_int64
    (des_pair des_int64 (des_pair des_string des_string)))))"
definition ok_record_s :: "record_s \<Rightarrow> bool" where
  "ok_record_s d \<longleftrightarrow>
    fits 8 (re_rowid d) \<and> fits 8 (re_tableid d) \<and> fits 8 (re_previoussubtransactionid
    d) \<and> short (re_row d) \<and> short (re_oldrow d)"

interpretation record_s: codec ok_record_s id ser_record_s sersize_record_s des_record_s
  by (rule codec_record [OF codec_pair [OF int64.codec_axioms codec_pair [OF enum8 [OF enumerates_pendingprimitive]
      codec_pair [OF int64.codec_axioms codec_pair [OF int64.codec_axioms codec_pair [OF
      string_.codec_axioms string_.codec_axioms]]]]]])
    (auto simp: ok_record_s_def ser_record_s_def sersize_record_s_def des_record_s_def)

text \<open>The sets of strings of a \<open>newDeadLockLists_s\<close>\<close>

record newDeadLockLists =
  nd_locked :: "bytes list"
  nd_waiting :: "bytes list"

definition ser_newDeadLockLists :: "newDeadLockLists \<Rightarrow> serialized \<Rightarrow> serialized res" where
  "ser_newDeadLockLists d =
    ser_pair (ser_vector ser_string) (ser_vector ser_string) (nd_locked d, nd_waiting d)"
definition sersize_newDeadLockLists :: "newDeadLockLists \<Rightarrow> nat" where
  "sersize_newDeadLockLists d = sersize_vector sersize_string (nd_locked d) + sersize_vector sersize_string (nd_waiting d)"
definition des_newDeadLockLists :: "serialized \<Rightarrow> (newDeadLockLists \<times> serialized) res" where
  "des_newDeadLockLists =
    des_as (\<lambda>(x0, x1). \<lparr>nd_locked = x0, nd_waiting = x1\<rparr>) (des_pair
    (des_set des_string) (des_set des_string))"
definition ok_newDeadLockLists :: "newDeadLockLists \<Rightarrow> bool" where
  "ok_newDeadLockLists d \<longleftrightarrow>
    (list_all short (nd_locked d) \<and> short (nd_locked d) \<and> distinct (nd_locked d))
    \<and> (list_all short (nd_waiting d) \<and> short (nd_waiting d) \<and> distinct
    (nd_waiting d))"

interpretation newDeadLockLists: codec ok_newDeadLockLists id ser_newDeadLockLists sersize_newDeadLockLists des_newDeadLockLists
  by (rule codec_record [OF codec_pair [OF codec_set [OF string_.codec_axioms] codec_set [OF string_.codec_axioms]]])
    (auto simp: ok_newDeadLockLists_def ser_newDeadLockLists_def sersize_newDeadLockLists_def des_newDeadLockLists_def)

definition ser_rowOrField :: "rowOrField \<Rightarrow> serialized \<Rightarrow> serialized res" where
  "ser_rowOrField d =
    ser_pair ser_bool (ser_pair ser_int16 (ser_pair ser_int64 (ser_pair ser_int16 (ser_pair
    ser_int16 (ser_pair ser_bool (ser_pair ser_bool (ser_pair ser_bool (ser_pair ser_int64
    (ser_pair ser_int16 ser_fieldValue))))))))) (rf_isrow d, rf_tableid d, rf_rowid d,
    rf_fieldid d, rf_engineid d, rf_deleteindexentry d, rf_isnotaddunique d, rf_isreplace d,
    rf_newrowid d, rf_newengineid d, rf_fieldVal d)"
definition sersize_rowOrField :: "rowOrField \<Rightarrow> nat" where
  "sersize_rowOrField d = 1 + 2 + 8 + 2 + 2 + 1 + 1 + 1 + 8 + 2 + sersize_fieldValue (rf_fieldVal d)"
definition des_rowOrField :: "serialized \<Rightarrow> (rowOrField \<times> serialized) res" where
  "des_rowOrField =
    des_as (\<lambda>(x0, x1, x2, x3, x4, x5, x6, x7, x8, x9, x10). \<lparr>rf_isrow = x0,
    rf_tableid = x1, rf_rowid = x2, rf_fieldid = x3, rf_engineid = x4, rf_deleteindexentry = x5,
    rf_isnotaddunique = x6, rf_isreplace = x7, rf_newrowid = x8, rf_newengineid = x9,
    rf_fieldVal = x10\<rparr>) (des_pair des_bool (des_pair des_int16 (des_pair des_int64
    (des_pair des_int16 (des_pair des_int16 (des_pair des_bool (des_pair des_bool (des_pair
    des_bool (des_pair des_int64 (des_pair des_int16 des_fieldValue))))))))))"
definition ok_rowOrField :: "rowOrField \<Rightarrow> bool" where
  "ok_rowOrField d \<longleftrightarrow>
    fits 2 (rf_tableid d) \<and> fits 8 (rf_rowid d) \<and> fits 2 (rf_fieldid d) \<and> fits 2
    (rf_engineid d) \<and> fits 8 (rf_newrowid d) \<and> fits 2 (rf_newengineid d) \<and>
    ok_fieldValue (rf_fieldVal d)"
definition norm_rowOrField :: "rowOrField \<Rightarrow> rowOrField" where
  "norm_rowOrField d = d\<lparr>rf_fieldVal := norm_fieldValue (rf_fieldVal d)\<rparr>"

interpretation rowOrField: codec ok_rowOrField norm_rowOrField ser_rowOrField sersize_rowOrField des_rowOrField
  by (rule codec_record [OF codec_pair [OF bool_.codec_axioms codec_pair [OF int16.codec_axioms codec_pair [OF
      int64.codec_axioms codec_pair [OF int16.codec_axioms codec_pair [OF int16.codec_axioms
      codec_pair [OF bool_.codec_axioms codec_pair [OF bool_.codec_axioms codec_pair [OF
      bool_.codec_axioms codec_pair [OF int64.codec_axioms codec_pair [OF int16.codec_axioms
      fieldValue.codec_axioms]]]]]]]]]]])
    (auto simp: ok_rowOrField_def ser_rowOrField_def sersize_rowOrField_def des_rowOrField_def norm_rowOrField_def)

definition ser_searchParams :: "searchParams \<Rightarrow> serialized \<Rightarrow> serialized res" where
  "ser_searchParams d =
    ser_pair (\<lambda>x. ser_int8 (enum_num operatortypes x)) (ser_pair (ser_vector
    ser_fieldValue) ser_string) (sp_op d, sp_values d, sp_regexString d)"
definition sersize_searchParams :: "searchParams \<Rightarrow> nat" where
  "sersize_searchParams d = 1 + sersize_vector sersize_fieldValue (sp_values d) + sersize_string (sp_regexString d)"
definition des_searchParams :: "serialized \<Rightarrow> (searchParams \<times> serialized) res" where
  "des_searchParams =
    des_as (\<lambda>(x0, x1, x2). \<lparr>sp_op = x0, sp_values = x1, sp_regexString =
    x2\<rparr>) (des_pair (des_enum operatortypes des_int8) (des_pair (des_vector
    des_fieldValue) des_string))"
definition ok_searchParams :: "searchParams \<Rightarrow> bool" where
  "ok_searchParams d \<longleftrightarrow>
    (list_all ok_fieldValue (sp_values d) \<and> short (sp_values d)) \<and> short
    (sp_regexString d)"
definition norm_searchParams :: "searchParams \<Rightarrow> searchParams" where
  "norm_searchParams d = d\<lparr>sp_values := map norm_fieldValue (sp_values d)\<rparr>"

interpretation searchParams: codec ok_searchParams norm_searchParams ser_searchParams sersize_searchParams des_searchParams
  by (rule codec_record [OF codec_pair [OF enum8 [OF enumerates_operatortype] codec_pair [OF codec_vector [OF
      fieldValue.codec_axioms] string_.codec_axioms]]])
    (auto simp: ok_searchParams_def ser_searchParams_def sersize_searchParams_def des_searchParams_def norm_searchParams_def short_def)

text \<open>
  \<open>data[pos++] = d.flags\<close> indexes the pointer to the string, not the string: the flag is assigned
  to a string object that lies \<open>pos\<close> objects behind it (\<open>pos\<close> is not 0 here). Reading uses \<open>data->at(pos++)\<close>.
\<close>

definition ser_applyindex :: "applyindex \<Rightarrow> serialized \<Rightarrow> serialized res" where
  "ser_applyindex d m =
     rbind (ser_pair ser_fieldValue ser_nonLockingIndexEntry (ai_fieldVal d, ai_entry d) m)
       (\<lambda>_. Inl WildPointer)"
definition sersize_applyindex :: "applyindex \<Rightarrow> nat" where
  "sersize_applyindex d = sersize_fieldValue (ai_fieldVal d) + 10 + 1 + 2 + 2"
definition des_applyindex :: "serialized \<Rightarrow> (applyindex \<times> serialized) res" where
  "des_applyindex = des_as (\<lambda>(v, e, f, t, i). \<lparr>ai_fieldVal = v, ai_entry = e, ai_flags = f,
       ai_tableid = t, ai_fieldid = i\<rparr>)
     (des_pair des_fieldValue (des_pair des_nonLockingIndexEntry (des_pair des_byte
       (des_pair des_int16 des_int16))))"

end
