(* ===== verification/Message_Format.thy ===== *)
theory Message_Format
  imports Wire_Structs
begin

text \<open>
  The message classes of \<open>infinisqld/Message.h\<close> and their serialisation in
  \<open>infinisqld/Message.cc\<close>: \<open>size\<close>, \<open>package\<close>, \<open>unpack\<close> and \<open>ser\<close> of every class, and the
  dispatch on the payload type in \<open>sermsg\<close> and \<open>des\<close>. A message is its header with the members of
  its class; for each class \<open>ser_X\<close>, \<open>sersize_X\<close> and \<open>des_X\<close> are what \<open>X::package\<close>, \<open>X::size\<close>
  and \<open>X::unpack\<close> do with the members.
\<close>

section \<open>The members of the classes\<close>

record userSchemaMsg =
  um_userschemaStruct :: userschema
  um_procs :: procedures_s
  um_argstring :: bytes
  um_pathname :: bytes
  um_procname :: bytes
  um_username :: bytes
  um_domainname :: bytes
  um_password :: bytes

definition ser_UserSchema :: "userSchemaMsg \<Rightarrow> serialized \<Rightarrow> serialized res" where
  "ser_UserSchema d =
    ser_pair ser_userschema_s (ser_pair ser_procedures_s (ser_pair ser_string (ser_pair
    ser_string (ser_pair ser_string (ser_pair ser_string (ser_pair ser_string ser_string))))))
    (um_userschemaStruct d, um_procs d, um_argstring d, um_pathname d, um_procname d,
    um_username d, um_domainname d, um_password d)"
definition sersize_UserSchema :: "userSchemaMsg \<Rightarrow> nat" where
  "sersize_UserSchema d = 125 + 16 + sersize_string (um_argstring d) + sersize_string (um_pathname d) + sersize_string
    (um_procname d) + sersize_string (um_username d) + sersize_string (um_domainname d) +
    sersize_string (um_password d)"
definition des_UserSchema :: "serialized \<Rightarrow> (userSchemaMsg \<times> serialized) res" where
  "des_UserSchema =
    des_as (\<lambda>(x0, x1, x2, x3, x4, x5, x6, x7). \<lparr>um_userschemaStruct = x0,
    um_procs = x1, um_argstring = x2, um_pathname = x3, um_procname = x4, um_username = x5,
    um_domainname = x6, um_password = x7\<rparr>) (des_pair des_userschema_s (des_pair
    des_procedures_s (des_pair des_string (des_pair des_string (des_pair des_string (des_pair
    des_string (des_pair des_string des_string)))))))"
definition ok_UserSchema :: "userSchemaMsg \<Rightarrow> bool" where
  "ok_UserSchema d \<longleftrightarrow>
    ok_userschema_s (um_userschemaStruct d) \<and> ok_procedures_s (um_procs d) \<and> short
    (um_argstring d) \<and> short (um_pathname d) \<and> short (um_procname d) \<and> short
    (um_username d) \<and> short (um_domainname d) \<and> short (um_password d)"

interpretation UserSchema: codec ok_UserSchema id ser_UserSchema sersize_UserSchema des_UserSchema
  by (rule codec_record [OF codec_pair [OF userschema_s.codec_axioms codec_pair [OF procedures_s.codec_axioms
      codec_pair [OF string_.codec_axioms codec_pair [OF string_.codec_axioms codec_pair [OF
      string_.codec_axioms codec_pair [OF string_.codec_axioms codec_pair [OF
      string_.codec_axioms string_.codec_axioms]]]]]]]])
    (auto simp: ok_UserSchema_def ser_UserSchema_def sersize_UserSchema_def des_UserSchema_def)

record deadlockMsg =
  dm_deadlockStruct :: deadlock_s
  dm_deadlockNode :: bytes
  dm_nodes :: newDeadLockLists

definition ser_Deadlock :: "deadlockMsg \<Rightarrow> serialized \<Rightarrow> serialized res" where
  "ser_Deadlock d =
    ser_pair ser_deadlock_s (ser_pair ser_string ser_newDeadLockLists) (dm_deadlockStruct d,
    dm_deadlockNode d, dm_nodes d)"
definition sersize_Deadlock :: "deadlockMsg \<Rightarrow> nat" where
  "sersize_Deadlock d = 32 + sersize_string (dm_deadlockNode d) + sersize_newDeadLockLists (dm_nodes d)"
definition des_Deadlock :: "serialized \<Rightarrow> (deadlockMsg \<times> serialized) res" where
  "des_Deadlock =
    des_as (\<lambda>(x0, x1, x2). \<lparr>dm_deadlockStruct = x0, dm_deadlockNode = x1,
    dm_nodes = x2\<rparr>) (des_pair des_deadlock_s (des_pair des_string des_newDeadLockLists))"
definition ok_Deadlock :: "deadlockMsg \<Rightarrow> bool" where
  "ok_Deadlock d \<longleftrightarrow>
    ok_deadlock_s (dm_deadlockStruct d) \<and> short (dm_deadlockNode d) \<and>
    ok_newDeadLockLists (dm_nodes d)"

interpretation Deadlock: codec ok_Deadlock id ser_Deadlock sersize_Deadlock des_Deadlock
  by (rule codec_record [OF codec_pair [OF deadlock_s.codec_axioms codec_pair [OF string_.codec_axioms
      newDeadLockLists.codec_axioms]]])
    (auto simp: ok_Deadlock_def ser_Deadlock_def sersize_Deadlock_def des_Deadlock_def)

text \<open>The first member is the one of \<open>MessageTransaction\<close>, the base class.\<close>

definition ser_SubtransactionCmd :: "subtransactionCmd \<Rightarrow> serialized \<Rightarrow> serialized res" where
  "ser_SubtransactionCmd d =
    ser_pair ser_transaction_s (ser_pair ser_subtransaction_s (ser_pair ser_string (ser_pair
    ser_fieldValue (ser_pair (ser_vector ser_nonLockingIndexEntry) (ser_pair ser_searchParams
    (ser_pair (ser_vector ser_int64) (ser_vector ser_returnRow))))))) (sc_transactionStruct d,
    sc_subtransactionStruct d, sc_row d, sc_fieldVal d, sc_indexHits d, sc_searchParameters d,
    sc_rowids d, sc_returnRows d)"
definition sersize_SubtransactionCmd :: "subtransactionCmd \<Rightarrow> nat" where
  "sersize_SubtransactionCmd d = 39 + 27 + sersize_string (sc_row d) + sersize_fieldValue (sc_fieldVal d) + sersize_vector
    (\<lambda>_. 10) (sc_indexHits d) + sersize_searchParams (sc_searchParameters d) +
    sersize_vector (\<lambda>_. 8) (sc_rowids d) + sersize_vector sersize_returnRow
    (sc_returnRows d)"
definition des_SubtransactionCmd :: "serialized \<Rightarrow> (subtransactionCmd \<times> serialized) res" where
  "des_SubtransactionCmd =
    des_as (\<lambda>(x0, x1, x2, x3, x4, x5, x6, x7). \<lparr>sc_transactionStruct = x0,
    sc_subtransactionStruct = x1, sc_row = x2, sc_fieldVal = x3, sc_indexHits = x4,
    sc_searchParameters = x5, sc_rowids = x6, sc_returnRows = x7\<rparr>) (des_pair
    des_transaction_s (des_pair des_subtransaction_s (des_pair des_string (des_pair
    des_fieldValue (des_pair (des_vector des_nonLockingIndexEntry) (des_pair des_searchParams
    (des_pair (des_vector des_int64) (des_vector des_returnRow))))))))"
definition ok_SubtransactionCmd :: "subtransactionCmd \<Rightarrow> bool" where
  "ok_SubtransactionCmd d \<longleftrightarrow>
    ok_transaction_s (sc_transactionStruct d) \<and> ok_subtransaction_s
    (sc_subtransactionStruct d) \<and> short (sc_row d) \<and> ok_fieldValue (sc_fieldVal d)
    \<and> (list_all ok_nonLockingIndexEntry (sc_indexHits d) \<and> short (sc_indexHits d))
    \<and> ok_searchParams (sc_searchParameters d) \<and> (list_all (fits 8) (sc_rowids d)
    \<and> short (sc_rowids d)) \<and> (list_all ok_returnRow (sc_returnRows d) \<and> short
    (sc_returnRows d))"
definition norm_SubtransactionCmd :: "subtransactionCmd \<Rightarrow> subtransactionCmd" where
  "norm_SubtransactionCmd d = d\<lparr>sc_fieldVal := norm_fieldValue (sc_fieldVal d), sc_searchParameters := norm_searchParams (sc_searchParameters d)\<rparr>"

interpretation SubtransactionCmd: codec ok_SubtransactionCmd norm_SubtransactionCmd ser_SubtransactionCmd sersize_SubtransactionCmd des_SubtransactionCmd
  by (rule codec_record [OF codec_pair [OF transaction_s.codec_axioms codec_pair [OF subtransaction_s.codec_axioms
      codec_pair [OF string_.codec_axioms codec_pair [OF fieldValue.codec_axioms codec_pair [OF
      codec_vector [OF nonLockingIndexEntry.codec_axioms] codec_pair [OF
      searchParams.codec_axioms codec_pair [OF codec_vector [OF int64.codec_axioms] codec_vector
      [OF returnRow.codec_axioms]]]]]]]]])
    (auto simp: ok_SubtransactionCmd_def ser_SubtransactionCmd_def sersize_SubtransactionCmd_def des_SubtransactionCmd_def norm_SubtransactionCmd_def short_def)

definition ser_CommitRollback :: "commitRollbackMsg \<Rightarrow> serialized \<Rightarrow> serialized res" where
  "ser_CommitRollback d =
    ser_pair ser_transaction_s (ser_vector ser_rowOrField) (cr_transactionStruct d, cr_rofs d)"
definition sersize_CommitRollback :: "commitRollbackMsg \<Rightarrow> nat" where
  "sersize_CommitRollback d = 39 + sersize_vector sersize_rowOrField (cr_rofs d)"
definition des_CommitRollback :: "serialized \<Rightarrow> (commitRollbackMsg \<times> serialized) res" where
  "des_CommitRollback =
    des_as (\<lambda>(x0, x1). \<lparr>cr_transactionStruct = x0, cr_rofs = x1\<rparr>)
    (des_pair des_transaction_s (des_vector des_rowOrField))"
definition ok_CommitRollback :: "commitRollbackMsg \<Rightarrow> bool" where
  "ok_CommitRollback d \<longleftrightarrow>
    ok_transaction_s (cr_transactionStruct d) \<and> (list_all ok_rowOrField (cr_rofs d) \<and>
    short (cr_rofs d))"
definition norm_CommitRollback :: "commitRollbackMsg \<Rightarrow> commitRollbackMsg" where
  "norm_CommitRollback d = d\<lparr>cr_rofs := map norm_rowOrField (cr_rofs d)\<rparr>"

interpretation CommitRollback: codec ok_CommitRollback norm_CommitRollback ser_CommitRollback sersize_CommitRollback des_CommitRollback
  by (rule codec_record [OF codec_pair [OF transaction_s.codec_axioms codec_vector [OF rowOrField.codec_axioms]]])
    (auto simp: ok_CommitRollback_def ser_CommitRollback_def sersize_CommitRollback_def des_CommitRollback_def norm_CommitRollback_def short_def)

record dispatchMsg =
  dp_dispatchStruct :: dispatch_s
  dp_pidsids :: "(int \<times> int) list"
  dp_records :: "(int \<times> record_s list) list"

definition ser_Dispatch :: "dispatchMsg \<Rightarrow> serialized \<Rightarrow> serialized res" where
  "ser_Dispatch d = ser_pair ser_dispatch_s (ser_pair (ser_map ser_int64) (ser_map (ser_vector ser_record_s)))
     (dp_dispatchStruct d, dp_pidsids d, dp_records d)"
definition sersize_Dispatch :: "dispatchMsg \<Rightarrow> nat" where
  "sersize_Dispatch d = 16 + sersize_map (dp_pidsids d) + sersize_map (dp_records d)"
definition des_Dispatch :: "serialized \<Rightarrow> (dispatchMsg \<times> serialized) res" where
  "des_Dispatch = des_as (\<lambda>(s, p, r). \<lparr>dp_dispatchStruct = s, dp_pidsids = p, dp_records = r\<rparr>)
     (des_pair des_dispatch_s (des_pair (des_map des_int64) (des_map (des_vector des_record_s))))"
definition ok_Dispatch :: "dispatchMsg \<Rightarrow> bool" where
  "ok_Dispatch d \<longleftrightarrow> ok_dispatch_s (dp_dispatchStruct d)
     \<and> list_all (\<lambda>p. fits 8 (fst p) \<and> fits 8 (snd p)) (dp_pidsids d)
     \<and> short (dp_pidsids d) \<and> distinct (map fst (dp_pidsids d))
     \<and> list_all (\<lambda>p. fits 8 (fst p) \<and> list_all ok_record_s (snd p) \<and> short (snd p)) (dp_records d)
     \<and> short (dp_records d) \<and> distinct (map fst (dp_records d))"
definition norm_Dispatch :: "dispatchMsg \<Rightarrow> dispatchMsg" where
  "norm_Dispatch d = d\<lparr>dp_pidsids := rev (dp_pidsids d), dp_records := rev (dp_records d)\<rparr>"

text \<open>The bytes it takes\<close>

definition bytes_Dispatch :: "dispatchMsg \<Rightarrow> nat" where
  "bytes_Dispatch d = 16 + map_bytes (\<lambda>_. 8) (dp_pidsids d)
     + map_bytes (sersize_vector sersize_record_s) (dp_records d)"

interpretation Dispatch: codec ok_Dispatch norm_Dispatch ser_Dispatch bytes_Dispatch des_Dispatch
  by (rule codec_record [OF codec_pair [OF dispatch_s.codec_axioms codec_pair
          [OF codec_map [OF int64.codec_axioms] codec_map [OF codec_vector [OF record_s.codec_axioms]]]]])
    (auto simp: ok_Dispatch_def norm_Dispatch_def ser_Dispatch_def bytes_Dispatch_def des_Dispatch_def
      short_def list_all_iff prod.map_id0)

text \<open>\<open>MessageApply\<close>: \<open>applyStruct\<close> is the first three members.\<close>

definition ser_Apply :: "applyMsg \<Rightarrow> serialized \<Rightarrow> serialized res" where
  "ser_Apply d = ser_pair (ser_pod 24 (ser_pair ser_int64 (ser_pair ser_int64 ser_int64)))
     (ser_pair (ser_vector ser_record_s) (ser_vector ser_applyindex))
     ((ap_subtransactionid d, ap_applierid d, ap_domainid d), ap_rows d, ap_indices d)"
definition sersize_Apply :: "applyMsg \<Rightarrow> nat" where
  "sersize_Apply d = 24 + sersize_vector sersize_record_s (ap_rows d)
     + sersize_vector sersize_applyindex (ap_indices d)"
definition des_Apply :: "serialized \<Rightarrow> (applyMsg \<times> serialized) res" where
  "des_Apply = des_as (\<lambda>((s, a, d), r, i). \<lparr>ap_subtransactionid = s, ap_applierid = a, ap_domainid = d,
       ap_rows = r, ap_indices = i\<rparr>)
     (des_pair (des_pod 24 (des_pair des_int64 (des_pair des_int64 des_int64)))
       (des_pair (des_vector des_record_s) (des_vector des_applyindex)))"
definition ok_Apply :: "applyMsg \<Rightarrow> bool" where
  "ok_Apply d \<longleftrightarrow> fits 8 (ap_subtransactionid d) \<and> fits 8 (ap_applierid d) \<and> fits 8 (ap_domainid d)
     \<and> list_all ok_record_s (ap_rows d) \<and> short (ap_rows d)"

lemma codec_never: "codec (\<lambda>_. False) id ser sz des"
  by unfold_locales simp

text \<open>Only a message without index entries can be sent.\<close>

interpretation Apply: codec "\<lambda>d. ok_Apply d \<and> ap_indices d = []" id ser_Apply sersize_Apply des_Apply
  by (rule codec_record [OF codec_pair [OF codec_pod [OF codec_pair [OF int64.codec_axioms
          codec_pair [OF int64.codec_axioms int64.codec_axioms]]] codec_pair
          [OF codec_vector [OF record_s.codec_axioms]
            codec_vector [OF codec_never [of ser_applyindex sersize_applyindex des_applyindex]]]]])
    (auto simp: ok_Apply_def ser_Apply_def sersize_Apply_def des_Apply_def short_def)

section \<open>The classes\<close>

datatype wireMessage =
    Message message_s
  | MessageSocket message_s socket_s
  | MessageUserSchema message_s userSchemaMsg
  | MessageDeadlock message_s deadlockMsg
  | MessageSubtransactionCmd message_s subtransactionCmd
  | MessageCommitRollback message_s commitRollbackMsg
  | MessageDispatch message_s dispatchMsg
  | MessageAckDispatch message_s ackdispatch_s
  | MessageApply message_s applyMsg
  | MessageAckApply message_s ackApply

fun messageStruct :: "wireMessage \<Rightarrow> message_s" where
  "messageStruct (Message h) = h"
| "messageStruct (MessageSocket h _) = h"
| "messageStruct (MessageUserSchema h _) = h"
| "messageStruct (MessageDeadlock h _) = h"
| "messageStruct (MessageSubtransactionCmd h _) = h"
| "messageStruct (MessageCommitRollback h _) = h"
| "messageStruct (MessageDispatch h _) = h"
| "messageStruct (MessageAckDispatch h _) = h"
| "messageStruct (MessageApply h _) = h"
| "messageStruct (MessageAckApply h _) = h"

text \<open>\<open>X::ser\<close>: a buffer of \<open>X::size()\<close> bytes, which \<open>X::package\<close> fills. A position that is not
  at the end is only logged.\<close>

definition ser_class :: "('a \<Rightarrow> serialized \<Rightarrow> serialized res) \<Rightarrow> ('a \<Rightarrow> nat) \<Rightarrow> message_s \<Rightarrow> 'a \<Rightarrow>
    bytes res" where
  "ser_class ser sz h d =
     rmap sm_data (ser_pair ser_message_s ser (h, d) (SerializedMessage (10 + sz d)))"

definition unpack_class :: "(serialized \<Rightarrow> ('a \<times> serialized) res) \<Rightarrow> (message_s \<Rightarrow> 'a \<Rightarrow> wireMessage) \<Rightarrow>
    serialized \<Rightarrow> wireMessage option res" where
  "unpack_class des mk m = rmap (\<lambda>((h, d), _). Some (mk h d)) (des_pair des_message_s des m)"

text \<open>\<open>MessageSocket::unpack\<close> reads the header twice; \<open>fresh\<close> is what the \<open>socketStruct\<close> of the new
  object happens to hold.\<close>

definition unpack_MessageSocket :: "socket_s \<Rightarrow> serialized \<Rightarrow> wireMessage option res" where
  "unpack_MessageSocket fresh m =
     rbind (des_message_s m) (\<lambda>(_, m1). rmap (\<lambda>(h, _). Some (MessageSocket h fresh)) (des_message_s m1))"

text \<open>The class is taken from the payload type: for another class the cast is wrong, which is a
  fault. \<open>None\<close> is \<open>NULL\<close>.\<close>

definition sermsg :: "wireMessage \<Rightarrow> bytes option res" where
  "sermsg msg =
     (case ms_payloadtype (messageStruct msg) of
        PAYLOADMESSAGE \<Rightarrow> rmap (\<lambda>m. Some (sm_data m)) (ser_message_s (messageStruct msg) (SerializedMessage 10))
      | PAYLOADSOCKET \<Rightarrow> (case msg of
          MessageSocket h d \<Rightarrow> rmap Some (ser_class ser_socket_s (\<lambda>_. 9) h d)
        | _ \<Rightarrow> Inl WildPointer)
      | PAYLOADUSERSCHEMA \<Rightarrow> (case msg of
          MessageUserSchema h d \<Rightarrow> rmap Some (ser_class ser_UserSchema sersize_UserSchema h d)
        | _ \<Rightarrow> Inl WildPointer)
      | PAYLOADDEADLOCK \<Rightarrow> (case msg of
          MessageDeadlock h d \<Rightarrow> rmap Some (ser_class ser_Deadlock sersize_Deadlock h d)
        | _ \<Rightarrow> Inl WildPointer)
      | PAYLOADSUBTRANSACTION \<Rightarrow> (case msg of
          MessageSubtransactionCmd h d \<Rightarrow> rmap Some (ser_class ser_SubtransactionCmd sersize_SubtransactionCmd h d)
        | _ \<Rightarrow> Inl WildPointer)
      | PAYLOADCOMMITROLLBACK \<Rightarrow> (case msg of
          MessageCommitRollback h d \<Rightarrow> rmap Some (ser_class ser_CommitRollback sersize_CommitRollback h d)
        | _ \<Rightarrow> Inl WildPointer)
      | PAYLOADDISPATCH \<Rightarrow> (case msg of
          MessageDispatch h d \<Rightarrow> rmap Some (ser_class ser_Dispatch sersize_Dispatch h d)
        | _ \<Rightarrow> Inl WildPointer)
      | PAYLOADACKDISPATCH \<Rightarrow> (case msg of
          MessageAckDispatch h d \<Rightarrow> rmap Some (ser_class ser_ackdispatch_s (\<lambda>_. 12) h d)
        | _ \<Rightarrow> Inl WildPointer)
      | PAYLOADAPPLY \<Rightarrow> (case msg of
          MessageApply h d \<Rightarrow> rmap Some (ser_class ser_Apply sersize_Apply h d)
        | _ \<Rightarrow> Inl WildPointer)
      | PAYLOADACKAPPLY \<Rightarrow> (case msg of
          MessageAckApply h d \<Rightarrow> rmap Some (ser_class ser_ackapply_s (\<lambda>_. 28) h d)
        | _ \<Rightarrow> Inl WildPointer)
      | _ \<Rightarrow> Inr None)"

text \<open>\<open>Message::des\<close>, with \<open>SerializedMessage::getpayloadtype\<close>\<close>

definition des_Message :: "socket_s \<Rightarrow> bytes \<Rightarrow> wireMessage option res" where
  "des_Message fresh serstr =
     (let m = SerializedMessage_of serstr
      in rbind (des_message_s m) (\<lambda>(tmpheader, _).
        case ms_payloadtype tmpheader of
          PAYLOADMESSAGE \<Rightarrow> rmap (\<lambda>(h, _). Some (Message h)) (des_message_s m)
        | PAYLOADSOCKET \<Rightarrow> unpack_MessageSocket fresh m
        | PAYLOADUSERSCHEMA \<Rightarrow> unpack_class des_UserSchema MessageUserSchema m
        | PAYLOADDEADLOCK \<Rightarrow> unpack_class des_Deadlock MessageDeadlock m
        | PAYLOADSUBTRANSACTION \<Rightarrow> unpack_class des_SubtransactionCmd MessageSubtransactionCmd m
        | PAYLOADCOMMITROLLBACK \<Rightarrow> unpack_class des_CommitRollback MessageCommitRollback m
        | PAYLOADDISPATCH \<Rightarrow> unpack_class des_Dispatch MessageDispatch m
        | PAYLOADACKDISPATCH \<Rightarrow> unpack_class des_ackdispatch_s MessageAckDispatch m
        | PAYLOADAPPLY \<Rightarrow> unpack_class des_Apply MessageApply m
        | PAYLOADACKAPPLY \<Rightarrow> unpack_class des_ackapply_s MessageAckApply m
        | _ \<Rightarrow> Inr None))"

section \<open>What the classes share\<close>

lemma ser_class_writes:
  assumes "writes (ser d) bs" "ok_message_s h"
  shows "\<exists>hb. length hb = 10 \<and> reads des_message_s hb h
    \<and> ser_class ser sz h d = (if length bs \<le> sz d
        then Inr ((hb @ bs) @ replicate (sz d - length bs) 0) else Inl OutOfRange)"
proof -
  obtain hb where hb: "length hb = 10" "writes (ser_message_s h) hb" "reads des_message_s hb h"
    using message_s.law [OF assms(2)] by auto
  have "ser_pair ser_message_s ser (h, d) m = put (hb @ bs) m" for m
    using writes_then [OF hb(2) assms(1)] by (simp add: ser_pair_def writes_def)
  then show ?thesis
    using hb(1,3) by (intro exI [of _ hb]) (simp add: ser_class_def put_def SerializedMessage_def)
qed

lemma unpack_class_reads:
  assumes "reads des_message_s hb h" "reads des bs y" "length hb = 10"
  shows "unpack_class des mk (SerializedMessage_of ((hb @ bs) @ suf)) = Inr (Some (mk h y))"
    and "\<exists>m'. des_message_s (SerializedMessage_of ((hb @ bs) @ suf)) = Inr (h, m')"
  using readsD [OF reads_pair [OF assms(1,2)], of "SerializedMessage_of ((hb @ bs) @ suf)" suf]
    readsD [OF assms(1), of "SerializedMessage_of ((hb @ bs) @ suf)" "bs @ suf"]
  by (auto simp: unpack_class_def)

text \<open>A class whose members satisfy the contract with the size the class computes\<close>

lemma class_roundtrip:
  assumes "codec ok norm ser sz des" "ok d" "ok_message_s h"
  shows "\<exists>bs. ser_class ser sz h d = Inr bs \<and> length bs = 10 + sz d
    \<and> unpack_class des mk (SerializedMessage_of bs) = Inr (Some (mk h (norm d)))
    \<and> (\<exists>m'. des_message_s (SerializedMessage_of bs) = Inr (h, m'))"
proof -
  obtain bs where bs: "length bs = sz d" "writes (ser d) bs" "reads des bs (norm d)"
    using codec.law [OF assms(1,2)] by auto
  obtain hb where hb: "length hb = 10" "reads des_message_s hb h" "ser_class ser sz h d = Inr (hb @ bs)"
    using ser_class_writes [where ser = ser and d = d and sz = sz, OF bs(2) assms(3)] bs(1) by auto
  show ?thesis
    using hb bs(1) unpack_class_reads [OF hb(2) bs(3) hb(1), where suf = "[]"] by auto
qed

end
