(* ===== verification/Message_Properties.thy ===== *)
theory Message_Properties
  imports Message_Format
begin

text \<open>
  The properties of the serialisation of messages: what is sent is what is received, class by
  class, and the three classes for which it is not.
\<close>

section \<open>Messages that arrive\<close>

text \<open>A message whose payload type is that of its class, with members that fit their types. The
  field values are sent as their unions, and apply messages only without index entries.\<close>

fun arrives :: "wireMessage \<Rightarrow> bool" where
  "arrives (Message h) \<longleftrightarrow> ok_message_s h \<and> ms_payloadtype h = PAYLOADMESSAGE"
| "arrives (MessageSocket h d) \<longleftrightarrow> False"
| "arrives (MessageUserSchema h d) \<longleftrightarrow>
     ok_message_s h \<and> ms_payloadtype h = PAYLOADUSERSCHEMA \<and> ok_UserSchema d"
| "arrives (MessageDeadlock h d) \<longleftrightarrow>
     ok_message_s h \<and> ms_payloadtype h = PAYLOADDEADLOCK \<and> ok_Deadlock d"
| "arrives (MessageSubtransactionCmd h d) \<longleftrightarrow>
     ok_message_s h \<and> ms_payloadtype h = PAYLOADSUBTRANSACTION \<and> ok_SubtransactionCmd d"
| "arrives (MessageCommitRollback h d) \<longleftrightarrow>
     ok_message_s h \<and> ms_payloadtype h = PAYLOADCOMMITROLLBACK \<and> ok_CommitRollback d"
| "arrives (MessageDispatch h d) \<longleftrightarrow> False"
| "arrives (MessageAckDispatch h d) \<longleftrightarrow>
     ok_message_s h \<and> ms_payloadtype h = PAYLOADACKDISPATCH \<and> ok_ackdispatch_s d"
| "arrives (MessageApply h d) \<longleftrightarrow>
     ok_message_s h \<and> ms_payloadtype h = PAYLOADAPPLY \<and> ok_Apply d \<and> ap_indices d = []"
| "arrives (MessageAckApply h d) \<longleftrightarrow>
     ok_message_s h \<and> ms_payloadtype h = PAYLOADACKAPPLY \<and> ok_ackapply_s d"

text \<open>\<open>X::size()\<close>\<close>

fun size_message :: "wireMessage \<Rightarrow> nat" where
  "size_message (Message h) = 10"
| "size_message (MessageSocket h d) = 10 + 9"
| "size_message (MessageUserSchema h d) = 10 + sersize_UserSchema d"
| "size_message (MessageDeadlock h d) = 10 + sersize_Deadlock d"
| "size_message (MessageSubtransactionCmd h d) = 10 + sersize_SubtransactionCmd d"
| "size_message (MessageCommitRollback h d) = 10 + sersize_CommitRollback d"
| "size_message (MessageDispatch h d) = 10 + sersize_Dispatch d"
| "size_message (MessageAckDispatch h d) = 10 + 12"
| "size_message (MessageApply h d) = 10 + sersize_Apply d"
| "size_message (MessageAckApply h d) = 10 + 28"

text \<open>The message with its field values read back from their unions\<close>

fun norm_message :: "wireMessage \<Rightarrow> wireMessage" where
  "norm_message (MessageSubtransactionCmd h d) = MessageSubtransactionCmd h (norm_SubtransactionCmd d)"
| "norm_message (MessageCommitRollback h d) = MessageCommitRollback h (norm_CommitRollback d)"
| "norm_message m = m"

lemma header_roundtrip:
  assumes "ok_message_s h"
  shows "\<exists>bs m' m''. ser_message_s h (SerializedMessage 10) = Inr m' \<and> sm_data m' = bs \<and> length bs = 10
    \<and> des_message_s (SerializedMessage_of bs) = Inr (h, m'')"
  using message_s.roundtrip [OF assms] by auto

text \<open>C39. Every message that can be sent is received as it was sent: \<open>sermsg\<close> fills a buffer of exactly
  the size that was computed, and \<open>Message::des\<close> of its bytes builds the same class with the same
  members.\<close>

theorem message_roundtrip:
  assumes "arrives msg"
  shows "\<exists>bs. sermsg msg = Inr (Some bs) \<and> length bs = size_message msg
    \<and> des_Message fresh bs = Inr (Some (norm_message msg))"
proof (cases msg)
  case (Message h)
  then show ?thesis using assms header_roundtrip [of h] by (auto simp: sermsg_def des_Message_def)
next
  case (MessageUserSchema h d)
  then show ?thesis
    using assms class_roundtrip [OF UserSchema.codec_axioms, of d h MessageUserSchema]
    by (auto simp: sermsg_def des_Message_def)
next
  case (MessageDeadlock h d)
  then show ?thesis
    using assms class_roundtrip [OF Deadlock.codec_axioms, of d h MessageDeadlock]
    by (auto simp: sermsg_def des_Message_def)
next
  case (MessageSubtransactionCmd h d)
  then show ?thesis
    using assms class_roundtrip [OF SubtransactionCmd.codec_axioms, of d h MessageSubtransactionCmd]
    by (auto simp: sermsg_def des_Message_def)
next
  case (MessageCommitRollback h d)
  then show ?thesis
    using assms class_roundtrip [OF CommitRollback.codec_axioms, of d h MessageCommitRollback]
    by (auto simp: sermsg_def des_Message_def)
next
  case (MessageAckDispatch h d)
  then show ?thesis
    using assms class_roundtrip [OF ackdispatch_s.codec_axioms, of d h MessageAckDispatch]
    by (auto simp: sermsg_def des_Message_def)
next
  case (MessageApply h d)
  then show ?thesis
    using assms class_roundtrip [OF Apply.codec_axioms, of d h MessageApply]
    by (auto simp: sermsg_def des_Message_def)
next
  case (MessageAckApply h d)
  then show ?thesis
    using assms class_roundtrip [OF ackapply_s.codec_axioms, of d h MessageAckApply]
    by (auto simp: sermsg_def des_Message_def)
qed (use assms in simp_all)

definition sample_header :: "payloadtype \<Rightarrow> message_s" where
  "sample_header p = \<lparr>ms_payloadtype = p, ms_topic = 27, ms_sourceAddr = \<lparr>ad_nodeid = 1, ad_actorid = 2\<rparr>,
     ms_destAddr = \<lparr>ad_nodeid = 3, ad_actorid = 4\<rparr>\<rparr>"

lemma sample_header_ok [simp]:
  "ms_payloadtype (sample_header p) = p"
  "(\<And>b. p \<noteq> PAYLOADINVALID b) \<Longrightarrow> ok_message_s (sample_header p)"
  by (simp_all add: sample_header_def ok_message_s_def ok_address_def fits_def)

definition sample_command :: subtransactionCmd where
  "sample_command = subtransactionCmd0\<lparr>sc_row := [65, 66],
     sc_fieldVal := fieldValue0\<lparr>integer := I64 7, str := [67]\<rparr>, sc_rowids := [1, - 2],
     sc_returnRows := [returnRow0\<lparr>rr_row := [68]\<rparr>]\<rparr>"

definition fresh_socket :: socket_s where
  "fresh_socket = \<lparr>so_socket = 0, so_events = 0, so_listenertype = LISTENER_NONE\<rparr>"

theorem message_roundtrip_witness:
  "\<exists>bs. sermsg (MessageSubtransactionCmd (sample_header PAYLOADSUBTRANSACTION) sample_command)
      = Inr (Some bs) \<and> length bs = 10 + sersize_SubtransactionCmd sample_command
    \<and> des_Message fresh_socket bs = Inr (Some (MessageSubtransactionCmd (sample_header PAYLOADSUBTRANSACTION)
        (norm_SubtransactionCmd sample_command)))"
  using message_roundtrip
    [of "MessageSubtransactionCmd (sample_header PAYLOADSUBTRANSACTION) sample_command" fresh_socket]
  by (simp add: sample_command_def subtransactionCmd0_def ok_SubtransactionCmd_def ok_transaction_s_def
      ok_subtransaction_s_def transactionStruct0_def subtransactionStruct0_def ok_fieldValue_def
      ok_searchParams_def ok_returnRow_def returnRow0_def short_def fits_def)

text \<open>The union of a field value carries the member that was written, whichever it was, with the
  string and the null flag.\<close>

theorem union_carries_member:
  "integer (norm_fieldValue (fieldValue0\<lparr>str := s, isnull := n, integer := i\<rparr>)) = i
   \<and> uinteger (norm_fieldValue (fieldValue0\<lparr>str := s, isnull := n, uinteger := u\<rparr>)) = u
   \<and> boolean (norm_fieldValue (fieldValue0\<lparr>str := s, isnull := n, boolean := b\<rparr>)) = b
   \<and> floating (norm_fieldValue (fieldValue0\<lparr>str := s, isnull := n, floating := f\<rparr>)) = f
   \<and> character (norm_fieldValue (fieldValue0\<lparr>str := s, isnull := n, character := c\<rparr>)) = c
   \<and> str (norm_fieldValue v) = str v \<and> isnull (norm_fieldValue v) = isnull v"
proof -
  have u64: "ucast (ucast (x :: u64) :: 128 word) = x" for x
    by (rule bit_word_eqI) (simp add: bit_simps)
  have u8: "ucast (ucast (x :: byte) :: 128 word) = x" for x
    by (rule bit_word_eqI) (simp add: bit_simps)
  show ?thesis
    by (simp add: norm_fieldValue_def fieldValue_of_def union_word_def fieldValue0_def u64 u8)
qed

section \<open>Messages that do not arrive\<close>

lemma sersize_records: "41 * length rs \<le> sum_list (map sersize_record_s rs)"
  by (induction rs) (auto simp: sersize_record_s_def sersize_string_def)

lemma bytes_records:
  assumes "list_all (\<lambda>p. snd p \<noteq> []) m"
  shows "57 * length m \<le> sum_list (map (\<lambda>p. 8 + sersize_vector sersize_record_s (snd p)) m)"
  using assms
proof (induction m)
  case (Cons p m)
  have "1 \<le> length (snd p)" using Cons.prems by (cases "snd p") auto
  with sersize_records [of "snd p"] Cons show ?case by (simp add: sersize_vector_def)
qed simp

text \<open>C40. The size that is computed for a message of synchronous replication is not the number of bytes
  it writes: the maps are counted without their 8-byte length and without their records. Serialising
  runs out of its buffer unless the maps have many more entries than records; with a record in every
  entry, and no more partitions than records, it always does.\<close>

theorem dispatch_overflows_buffer:
  assumes "ok_message_s h" "ms_payloadtype h = PAYLOADDISPATCH" "ok_Dispatch d"
  shows "(if bytes_Dispatch d \<le> sersize_Dispatch d
      then \<exists>bs. sermsg (MessageDispatch h d) = Inr (Some bs)
        \<and> des_Message fresh bs = Inr (Some (MessageDispatch h (norm_Dispatch d)))
      else sermsg (MessageDispatch h d) = Inl OutOfRange)
    \<and> (list_all (\<lambda>p. snd p \<noteq> []) (dp_records d) \<longrightarrow> length (dp_pidsids d) \<le> length (dp_records d) \<longrightarrow>
      sersize_Dispatch d < bytes_Dispatch d)"
proof (intro conjI impI)
  obtain bs where bs: "length bs = bytes_Dispatch d" "writes (ser_Dispatch d) bs"
    "reads des_Dispatch bs (norm_Dispatch d)"
    using Dispatch.law [OF assms(3)] by auto
  obtain hb where hb: "length hb = 10" "reads des_message_s hb h"
    "ser_class ser_Dispatch sersize_Dispatch h d = (if length bs \<le> sersize_Dispatch d
        then Inr ((hb @ bs) @ replicate (sersize_Dispatch d - length bs) 0) else Inl OutOfRange)"
    using ser_class_writes [where ser = ser_Dispatch and d = d and sz = sersize_Dispatch, OF bs(2) assms(1)]
    by auto
  obtain m' where m': "des_message_s (SerializedMessage_of ((hb @ bs) @ replicate
      (sersize_Dispatch d - bytes_Dispatch d) 0)) = Inr (h, m')"
    using unpack_class_reads(2) [OF hb(2) bs(3) hb(1)] by blast
  show "if bytes_Dispatch d \<le> sersize_Dispatch d
    then \<exists>bs. sermsg (MessageDispatch h d) = Inr (Some bs)
      \<and> des_Message fresh bs = Inr (Some (MessageDispatch h (norm_Dispatch d)))
    else sermsg (MessageDispatch h d) = Inl OutOfRange"
    using hb(3) bs(1) assms(2) unpack_class_reads(1) [OF hb(2) bs(3) hb(1)] m'
    by (auto simp: sermsg_def des_Message_def)
next
  assume "list_all (\<lambda>p. snd p \<noteq> []) (dp_records d)" "length (dp_pidsids d) \<le> length (dp_records d)"
  with bytes_records [of "dp_records d"] show "sersize_Dispatch d < bytes_Dispatch d"
    by (simp add: sersize_Dispatch_def bytes_Dispatch_def sersize_map_def map_bytes_def sum_list_triv)
qed

definition sample_dispatch :: dispatchMsg where
  "sample_dispatch = \<lparr>dp_dispatchStruct = \<lparr>di_transactionid = 1, di_domainid = 2\<rparr>, dp_pidsids = [(0, 5)],
     dp_records = [(0, [\<lparr>re_rowid = 1, re_primitive = INSERT, re_tableid = 3,
       re_previoussubtransactionid = 0, re_row = [65], re_oldrow = []\<rparr>])]\<rparr>"

theorem dispatch_overflows_buffer_witness:
  "sermsg (MessageDispatch (sample_header PAYLOADDISPATCH) sample_dispatch) = Inl OutOfRange"
proof -
  have "ok_Dispatch sample_dispatch" "list_all (\<lambda>p. snd p \<noteq> []) (dp_records sample_dispatch)"
    "length (dp_pidsids sample_dispatch) \<le> length (dp_records sample_dispatch)"
    by (simp_all add: sample_dispatch_def ok_Dispatch_def ok_dispatch_s_def ok_record_s_def short_def fits_def)
  with dispatch_overflows_buffer [of "sample_header PAYLOADDISPATCH" sample_dispatch fresh_socket]
  show ?thesis by (auto simp: not_le [symmetric])
qed

lemma reads_int16: "length c = 2 \<Longrightarrow> reads des_int16 c (sint_val c)"
  using reads_as [OF reads_get [of c 2], of sint_val]
  by (cases c) (simp_all add: des_int16_def [abs_def] des_as_def [abs_def])

lemma reads_address:
  assumes "length a = 2" "length b = 2"
  shows "\<exists>y. reads des_address (a @ b) y"
  unfolding des_address_def using reads_as [OF reads_pair [OF assms [THEN reads_int16]]] by blast

lemma parse_any_header:
  "\<exists>h m'. parse_message_s (SerializedMessage_of [b0, b1, b2, b3, b4, b5, b6, b7, b8, b9]) = Inr (h, m')
    \<and> ms_payloadtype h = payload_of_byte b0 \<and> ms_topic h = b1"
proof -
  let ?bs = "[b0] @ [b1] @ ([b2, b3] @ [b4, b5]) @ [b6, b7] @ [b8, b9]"
  obtain s d where s: "reads des_address ([b2, b3] @ [b4, b5]) s" and d: "reads des_address ([b6, b7] @ [b8, b9]) d"
    using reads_address [of "[b2, b3]" "[b4, b5]"] reads_address [of "[b6, b7]" "[b8, b9]"] by auto
  have b: "reads des_byte [x] x" for x
    unfolding des_byte_def using reads_as [OF reads_get, of "[x]" 1 hd] by simp
  obtain h where h: "reads parse_message_s ?bs h" "ms_payloadtype h = payload_of_byte b0" "ms_topic h = b1"
    unfolding parse_message_s_def
    using reads_as [OF reads_pair [OF b reads_pair [OF b reads_pair [OF s d]]]] by fastforce
  then show ?thesis using readsD [OF h(1), of "SerializedMessage_of ?bs" "[]"] by auto
qed

lemma byte_mod_256: "(word_of_int (x mod 256) :: byte) = word_of_int x"
  by (simp add: word_of_int_eq_iff take_bit_eq_mod)

lemma writes_socket_s:
  "writes (ser_socket_s d) (le_bytes 4 (so_socket d) @ le_bytes 4 (int (so_events d))
     @ le_bytes 1 (enum_num listenertypes (so_listenertype d)))"
  unfolding ser_socket_s_def
  by (intro writes_pod writes_pair) (simp_all add: ser_int32_def ser_unsigned_def ser_int8_def)

text \<open>The event of a socket does not survive: its header is read a second time, from the bytes of
  the event itself, so the payload type and the topic that arrive are the two low bytes of the socket's
  number, and the event is left as the new object had it.\<close>

theorem socket_event_garbled:
  assumes "ok_message_s h" "ms_payloadtype h = PAYLOADSOCKET"
  shows "\<exists>bs h'. sermsg (MessageSocket h d) = Inr (Some bs)
    \<and> des_Message fresh bs = Inr (Some (MessageSocket h' fresh))
    \<and> ms_payloadtype h' = payload_of_byte (word_of_int (so_socket d))
    \<and> ms_topic h' = word_of_int (so_socket d div 256)"
proof -
  let ?bs = "le_bytes 4 (so_socket d) @ le_bytes 4 (int (so_events d))
    @ le_bytes 1 (enum_num listenertypes (so_listenertype d))"
  obtain hb where hb: "length hb = 10" "reads des_message_s hb h"
    "ser_class ser_socket_s (\<lambda>_. 9) h d = Inr (hb @ ?bs)"
    using ser_class_writes [where ser = ser_socket_s and d = d and sz = "\<lambda>_. 9", OF writes_socket_s assms(1)]
    by auto
  obtain b0 b1 b2 b3 b4 b5 b6 b7 b8 where b: "?bs = [b0, b1, b2, b3, b4, b5, b6, b7, b8]"
    "b0 = word_of_int (so_socket d)" "b1 = word_of_int (so_socket d div 256)"
    by (simp add: eval_nat_numeral byte_mod_256)
  obtain h' m' where h': "parse_message_s (SerializedMessage_of [b0, b1, b2, b3, b4, b5, b6, b7, b8, 0]) = Inr (h', m')"
    "ms_payloadtype h' = payload_of_byte b0" "ms_topic h' = b1"
    using parse_any_header by blast
  let ?m = "SerializedMessage_of (hb @ ?bs)"
  have first: "des_message_s ?m = Inr (h, skip 10 ?m)"
    using readsD [OF hb(2), of ?m ?bs] hb(1) by simp
  have "get 10 (skip 10 ?m) = Inr ([b0, b1, b2, b3, b4, b5, b6, b7, b8, 0], skip 20 ?m)"
    unfolding b(1) by (simp add: get_def skip_def SerializedMessage_of_def hb(1))
  then have "des_message_s (skip 10 ?m) = Inr (h', skip 20 ?m)"
    by (simp add: des_message_s_def des_pod_def h'(1))
  with first have "des_Message fresh (hb @ ?bs) = Inr (Some (MessageSocket h' fresh))"
    using assms(2) by (simp add: des_Message_def unpack_MessageSocket_def Let_def)
  then show ?thesis using hb(3) h' assms(2) b(2,3) by (auto simp: sermsg_def)
qed

theorem socket_event_garbled_witness:
  "\<exists>bs h'. sermsg (MessageSocket (sample_header PAYLOADSOCKET) (fresh_socket\<lparr>so_socket := 523\<rparr>)) = Inr (Some bs)
    \<and> des_Message fresh_socket bs = Inr (Some (MessageSocket h' fresh_socket))
    \<and> ms_payloadtype h' = PAYLOADSERIALIZED \<and> ms_topic h' = 2"
  using socket_event_garbled [of "sample_header PAYLOADSOCKET" "fresh_socket\<lparr>so_socket := 523\<rparr>" fresh_socket]
  by (simp add: payload_of_byte_def payloadtypes_def)

lemma put_room:
  assumes "sm_pos m + length bs \<le> length (sm_data m)"
  shows "\<exists>m'. put bs m = Inr m'"
  using assms by (simp add: put_def)

text \<open>A message of asynchronous replication with index entries cannot be sent: the flags of the first
  entry are written through the pointer to the buffer instead of into the buffer.\<close>

theorem apply_entries_wild_write:
  assumes "ok_message_s h" "ms_payloadtype h = PAYLOADAPPLY" "ok_Apply d" "ap_indices d = i # is"
    and "ok_fieldValue (ai_fieldVal i)" "ok_nonLockingIndexEntry (ai_entry i)"
  shows "sermsg (MessageApply h d) = Inl WildPointer"
proof -
  obtain hb where hb: "length hb = 10" "writes (ser_message_s h) hb"
    using message_s.law [OF assms(1)] by auto
  let ?s = "ser_pod 24 (ser_pair ser_int64 (ser_pair ser_int64 ser_int64))
    (ap_subtransactionid d, ap_applierid d, ap_domainid d)"
  let ?sb = "le_bytes 8 (ap_subtransactionid d) @ le_bytes 8 (ap_applierid d) @ le_bytes 8 (ap_domainid d)"
  have sb: "writes ?s ?sb"
    by (intro writes_pod writes_pair) (simp_all add: ser_int64_def)
  obtain rb where rb: "length rb = sersize_vector sersize_record_s (ap_rows d)"
    "writes (ser_vector ser_record_s (ap_rows d)) rb"
    using codec.law [OF codec_vector [OF record_s.codec_axioms], of "ap_rows d"] assms(3)
    by (auto simp: ok_Apply_def short_def)
  obtain eb where eb: "length eb = sersize_fieldValue (ai_fieldVal i) + 10"
    "writes (ser_pair ser_fieldValue ser_nonLockingIndexEntry (ai_fieldVal i, ai_entry i)) eb"
    using codec.law [OF codec_pair [OF fieldValue.codec_axioms nonLockingIndexEntry.codec_axioms],
        of "(ai_fieldVal i, ai_entry i)"] assms(5,6) by auto
  let ?n = "le_bytes 8 (int (length (ap_indices d)))"
  have "writes (\<lambda>m. rbind (ser_message_s h m) (\<lambda>m. rbind (?s m) (\<lambda>m. rbind (ser_vector ser_record_s (ap_rows d) m)
      (\<lambda>m. rbind (put ?n m) (ser_pair ser_fieldValue ser_nonLockingIndexEntry (ai_fieldVal i, ai_entry i))))))
      (hb @ ?sb @ rb @ ?n @ eb)"
    by (intro writes_then writes_put hb(2) sb rb(2) eb(2))
  moreover obtain m' where "put (hb @ ?sb @ rb @ ?n @ eb) (SerializedMessage (10 + sersize_Apply d)) = Inr m'"
    using put_room [of "SerializedMessage (10 + sersize_Apply d)" "hb @ ?sb @ rb @ ?n @ eb"] assms(4) hb(1) rb(1) eb(1)
    by (auto simp: SerializedMessage_def sersize_Apply_def sersize_vector_def sersize_applyindex_def)
  moreover have "ser_pair ser_message_s ser_Apply (h, d) m = rbind (rbind (ser_message_s h m) (\<lambda>m. rbind (?s m)
      (\<lambda>m. rbind (ser_vector ser_record_s (ap_rows d) m) (\<lambda>m. rbind (put ?n m)
      (ser_pair ser_fieldValue ser_nonLockingIndexEntry (ai_fieldVal i, ai_entry i))))))
      (\<lambda>_. Inl WildPointer)" for m
    by (simp add: ser_pair_def ser_Apply_def ser_vector_def [of ser_applyindex] ser_count_def assms(4)
        ser_applyindex_def rbind_def split: sum.split)
  ultimately have "ser_class ser_Apply sersize_Apply h d = Inl WildPointer"
    by (simp add: ser_class_def writes_def)
  then show ?thesis using assms(2) by (simp add: sermsg_def)
qed

definition sample_entries :: applyMsg where
  "sample_entries = \<lparr>ap_subtransactionid = 1, ap_applierid = 2, ap_domainid = 3, ap_rows = [],
     ap_indices = [\<lparr>ai_fieldVal = fieldValue0, ai_entry = \<lparr>nl_rowid = 4, nl_engineid = 5\<rparr>, ai_flags = 1,
       ai_tableid = 6, ai_fieldid = 0\<rparr>]\<rparr>"

theorem apply_entries_wild_write_witness:
  "sermsg (MessageApply (sample_header PAYLOADAPPLY) sample_entries) = Inl WildPointer"
  using apply_entries_wild_write [of "sample_header PAYLOADAPPLY" sample_entries "hd (ap_indices sample_entries)" "[]"]
  by (simp add: sample_entries_def ok_Apply_def ok_fieldValue_def ok_nonLockingIndexEntry_def fieldValue0_def
      short_def fits_def)

end
