(* ===== verification/Transaction_State.thy ===== *)
theory Transaction_State
  imports Engine_Actor Message_Format
begin

text \<open>
  The state of a transaction and its environment (\<open>infinisqld/Transaction.h\<close>,
  \<open>Mboxes::toPartition\<close> of \<open>infinisqld/Mbox.cc\<close>): the commands it keeps between messages, the
  choice of a partition by hash, the messages it sends and the callbacks it makes.

  The callbacks (into the stored procedure through \<open>reentryObject\<close>, into the statement through
  \<open>sqlcmdstate.statement\<close>) and the messages are appended to \<open>tx_callbacks\<close> and \<open>tx_outbox\<close>;
  what a callback does next is a later operation on the transaction. \<open>delete this\<close> clears
  \<open>tx_alive\<close>.
\<close>

section \<open>The union of a field value\<close>

text \<open>
  A transaction writes one member of the union of \<open>fieldValue_s\<close> and reads another (an operand is
  an \<open>int64_t\<close> whatever the type of the field, and commits compare \<open>value.floating\<close>). The
  16 bytes of the union are \<open>value_bits\<close>: a value has either all members set from them, or only
  the one of its type. \<open>with_bits\<close> sets all members; \<open>put_low\<close> overwrites the low bytes.
\<close>

type_synonym u128 = "128 word"

definition value_bits :: "fieldValue \<Rightarrow> u128" where
  "value_bits v = ucast (the_i64 (integer v)) OR ucast (uinteger v)
     OR (if boolean v then (if the_i64 (integer v) = 0 \<and> uinteger v = 0 \<and> the_i8 (character v) = 0
                            then 1 else 0) else 0)
     OR ucast (the_i8 (character v)) OR the_ld (floating v)"

definition with_bits :: "u128 \<Rightarrow> fieldValue \<Rightarrow> fieldValue" where
  "with_bits w v = v\<lparr>integer := I64 (ucast w), uinteger := ucast w,
     boolean := ((ucast w :: byte) \<noteq> 0), floating := LD w, character := I8 (ucast w)\<rparr>"

definition put_low :: "nat \<Rightarrow> u128 \<Rightarrow> fieldValue \<Rightarrow> fieldValue" where
  "put_low n x v = with_bits ((value_bits v AND NOT (mask n)) OR (x AND mask n)) v"

definition put_integer :: "i64 \<Rightarrow> fieldValue \<Rightarrow> fieldValue" where
  "put_integer x = put_low 64 (ucast (the_i64 x))"

definition put_uinteger :: "u64 \<Rightarrow> fieldValue \<Rightarrow> fieldValue" where
  "put_uinteger x = put_low 64 (ucast x)"

definition put_boolean :: "bool \<Rightarrow> fieldValue \<Rightarrow> fieldValue" where
  "put_boolean x = put_low 8 (if x then 1 else 0)"

text \<open>An assignment of a \<open>long double\<close> writes its ten bytes, a \<open>memcpy\<close> all sixteen.\<close>

definition put_floating :: "ldouble \<Rightarrow> fieldValue \<Rightarrow> fieldValue" where
  "put_floating x = put_low 80 (the_ld x)"

definition copy_floating :: "ldouble \<Rightarrow> fieldValue \<Rightarrow> fieldValue" where
  "copy_floating x = put_low 128 (the_ld x)"

definition put_character :: "i8 \<Rightarrow> fieldValue \<Rightarrow> fieldValue" where
  "put_character x = put_low 8 (ucast (the_i8 x))"

text \<open>\<open>value.floating == value.floating\<close>\<close>

definition floating_eq :: "fieldValue \<Rightarrow> fieldValue \<Rightarrow> bool" where
  "floating_eq x y = ld_eq (LD (value_bits x)) (LD (value_bits y))"

section \<open>Containers\<close>

text \<open>\<open>v[n]\<close> on a vector, and \<open>m[k]\<close> on an \<open>unordered_map\<close>, which creates the key\<close>

definition vec_at :: "int \<Rightarrow> 'a list \<Rightarrow> 'a res" where
  "vec_at n xs = (if 0 \<le> n \<and> n < int (length xs) then Inr (xs ! nat n) else Inl OutOfRange)"

definition um_get :: "'v \<Rightarrow> 'k \<Rightarrow> ('k \<times> 'v) list \<Rightarrow> 'v" where
  "um_get d k m = (case map_of m k of None \<Rightarrow> d | Some v \<Rightarrow> v)"

definition um_update :: "'v \<Rightarrow> ('v \<Rightarrow> 'v) \<Rightarrow> 'k \<Rightarrow> ('k \<times> 'v) list \<Rightarrow> ('k \<times> 'v) list" where
  "um_update d f k m =
     (if map_count k m then map (\<lambda>(a, b). (a, if a = k then f b else b)) m else (k, f d) # m)"

lemma map_of_um_update [simp]:
  "map_of (um_update d f k m) j = (if j = k then Some (f (um_get d k m)) else map_of m j)"
proof -
  have "map_of (map (\<lambda>(a, b). (a, if a = k then f b else b)) m) j =
      (if j = k then map_option f (map_of m k) else map_of m j)" for m
    by (induction m) auto
  then show ?thesis by (auto simp: um_update_def map_count_def um_get_def split: option.splits)
qed

lemma map_of_um_put [simp]: "map_of (um_put k v m) j = (if j = k then Some v else map_of m j)"
  by (auto simp: um_put_def map_of_filter_neq)

lemma vec_at_ok [simp]: "0 \<le> n \<Longrightarrow> n < int (length xs) \<Longrightarrow> vec_at n xs = Inr (xs ! nat n)"
  by (simp add: vec_at_def)

section \<open>Status of the interface\<close>

definition APISTATUS_OK :: int where "APISTATUS_OK = 0"
definition APISTATUS_NOTOK :: int where "APISTATUS_NOTOK = 1"
definition APISTATUS_NULLCONSTRAINT :: int where "APISTATUS_NULLCONSTRAINT = 2"
definition APISTATUS_PENDING :: int where "APISTATUS_PENDING = 3"
definition APISTATUS_FIELD :: int where "APISTATUS_FIELD = 4"
definition APISTATUS_STATE :: int where "APISTATUS_STATE = 5"
definition APISTATUS_UNIQUECONSTRAINT :: int where "APISTATUS_UNIQUECONSTRAINT = 6"
definition APISTATUS_FOUND :: int where "APISTATUS_FOUND = 7"
definition APISTATUS_DEADLOCK :: int where "APISTATUS_DEADLOCK = 8"
definition APISTATUS_LOCK :: int where "APISTATUS_LOCK = 9"

lemmas apistatus_defs = APISTATUS_OK_def APISTATUS_NOTOK_def APISTATUS_NULLCONSTRAINT_def
  APISTATUS_PENDING_def APISTATUS_FIELD_def APISTATUS_STATE_def APISTATUS_UNIQUECONSTRAINT_def
  APISTATUS_FOUND_def APISTATUS_DEADLOCK_def APISTATUS_LOCK_def

fun status_num :: "status \<Rightarrow> int" where
  "status_num STATUS_OK = 0"
| "status_num STATUS_NOTOK = 1"

datatype deadlockchange =
    ADDLOCKEDENTRY | ADDLOCKPENDINGENTRY | REMOVELOCKEDENTRY | REMOVELOCKPENDINGENTRY
  | TRANSITIONPENDINGTOLOCKEDENTRY

fun deadlockchange_num :: "deadlockchange \<Rightarrow> int" where
  "deadlockchange_num ADDLOCKEDENTRY = 1"
| "deadlockchange_num ADDLOCKPENDINGENTRY = 2"
| "deadlockchange_num REMOVELOCKEDENTRY = 3"
| "deadlockchange_num REMOVELOCKPENDINGENTRY = 4"
| "deadlockchange_num TRANSITIONPENDINGTOLOCKEDENTRY = 5"

section \<open>State of the commands\<close>

record uuRecord =
  uu_rowid :: int
  uu_tableid :: int
  uu_engineid :: int

record indexInfo =
  ii_isaddunique :: bool
  ii_locktype :: locktype
  ii_engineid :: int
  ii_tableid :: int
  ii_fieldid :: int
  ii_fieldVal :: fieldValue

type_synonym stagedRows = "(uuRecord \<times> stagedRow) list"

definition stagedRow0 :: stagedRow where
  "stagedRow0 = \<lparr>sr_cmd = NOCOMMAND, sr_originalRow = [], sr_originalrowid = 0,
     sr_originalengineid = 0, sr_previoussubtransactionid = 0, sr_newRow = [], sr_newrowid = 0,
     sr_newengineid = 0, sr_locktype = NOLOCK, sr_uniqueIndices = []\<rparr>"

definition rowOrField0 :: rowOrField where
  "rowOrField0 = \<lparr>rf_isrow = False, rf_tableid = 0, rf_rowid = 0, rf_fieldid = 0, rf_engineid = 0,
     rf_deleteindexentry = False, rf_isnotaddunique = False, rf_isreplace = False, rf_newrowid = 0,
     rf_newengineid = 0, rf_fieldVal = fieldValue0\<rparr>"

definition searchParams0 :: searchParams where
  "searchParams0 = \<lparr>sp_op = OPERATOR_NONE, sp_values = [], sp_regexString = []\<rparr>"

text \<open>The table is pointed to by its id in the schema of the transaction.\<close>

record cmdState =
  cs_tableid :: int
  cs_tablePtr :: "int option"
  cs_indexEntries :: "indexInfo list"
  cs_rowEngineid :: int
  cs_rowid :: int
  cs_engineid :: int
  cs_locktype :: locktype
  cs_row :: bytes
  cs_enginesWithUniqueIndices :: int
  cs_engines :: int
  cs_fieldid :: int
  cs_isunique :: bool
  cs_destinationengineid :: int
  cs_rowPtr :: "bytes option"
  cs_rowidsEngineids :: indexEntries
  cs_replaceEngineMsgs :: "(int \<times> commitRollbackMsg) list"
  cs_ispossibledeadlock :: bool
  cs_pendingStagedRows :: stagedRows
  cs_originaluur :: uuRecord
  cs_newuur :: uuRecord
  cs_isupdatemultiplefields :: bool
  cs_fieldVal :: fieldValue
  cs_newRow :: bytes
  cs_originalFieldValues :: "fieldValue list"
  cs_newFieldValues :: "fieldValue list"
  cs_uniqueindices :: int

text \<open>\<open>statement\<close> and \<open>continuationData\<close> are opaque; \<open>results\<close> is the map pointed to.\<close>

record sqlcmdstate =
  sq_statement :: "int option"
  sq_results :: "(uuRecord \<times> returnRow) list"
  sq_tableid :: int
  sq_locktype :: locktype
  sq_eventwaitcount :: int
  sq_indexHits :: indexEntries
  sq_continuationData :: int
  sq_ispossibledeadlock :: bool

definition sqlcmdstate0 :: sqlcmdstate where
  "sqlcmdstate0 = \<lparr>sq_statement = None, sq_results = [], sq_tableid = 0, sq_locktype = NOLOCK,
     sq_eventwaitcount = 0, sq_indexHits = [], sq_continuationData = 0,
     sq_ispossibledeadlock = False\<rparr>"

text \<open>What the transaction uses of \<open>currentQuery\<close> and its \<open>results\<close>\<close>

record query =
  qy_tableid :: int
  qy_newrow :: bytes
  qy_newrowengineid :: int
  qy_newrowuur :: uuRecord
  qy_originalrowuur :: uuRecord
  qy_insertValues :: "fieldValue list"
  qy_setFields :: "(int \<times> fieldValue) list"

datatype transactionstate =
  EXPANDING | DISPATCHING | COMMITTING | COMMITTED | ABORTING | ABORTED

record reentry =
  rn_func :: int
  rn_cmd :: int
  rn_state :: int

datatype callback =
    Reenter reentry int            \<comment> \<open>with \<open>resultCode\<close>\<close>
  | SearchExpression int int       \<comment> \<open>entry point, \<open>continuationData\<close>\<close>
  | ContinueSelect int
  | ContinueDelete int
  | ContinueUpdate int
  | ContinueInsert int
  | AbortQuery int

datatype outgoing =
    ToPartition int engineMessage
  | ToActor addressStruct dispatchMsg
  | DEADLOCKNEW deadlockMsg        \<comment> \<open>\<open>toDeadlockMgr\<close>, by topic\<close>
  | DEADLOCKCHANGE deadlockMsg
  | DEADLOCKREMOVE deadlockMsg

record transaction =
  tx_transactionid :: int
  tx_domainid :: int
  tx_schemaPtr :: "int option"
  tx_engineToSubTransactionids :: "(int \<times> int) list"
  tx_state :: transactionstate
  tx_pendingcmd :: pendingprimitive
  tx_pendingcmdid :: int
  tx_msgrcv :: "message option"
  tx_nextpendingcmdid :: int
  tx_lockcount :: int
  tx_lockpendingcount :: int
  tx_reentryObject :: "reentry option"
  tx_currentCmdState :: cmdState
  tx_resultCode :: int
  tx_fieldValues :: "fieldValue list"
  tx_enginesWithUniqueIndices :: int
  tx_returnNewRow :: uuRecord
  tx_returnselectedrows :: "uuRecord list"
  tx_stagedRows :: stagedRows
  tx_fieldsToUpdate :: "(int \<times> fieldValue) list"
  tx_sqlcmdstate :: sqlcmdstate
  tx_query :: query
  tx_waitfordispatched :: int
  tx_outbox :: "outgoing list"
  tx_callbacks :: "callback list"
  tx_alive :: bool

text \<open>
  What a transaction reads of its agent and of the node: \<open>SpookyHash::Hash64\<close>, the schemata,
  \<open>myTopology\<close>, \<open>nodeTopology.numpartitions\<close> and the number of partitions \<open>mboxes\<close> knows.
\<close>

record transactionEnv =
  ev_hash64 :: "bytes \<Rightarrow> u64"
  ev_instance :: int
  ev_address :: addressStruct
  ev_schemata :: "int \<rightharpoonup> schema"
  ev_topnumpartitions :: int
  ev_numreplicas :: int
  ev_numpartitions :: int
  ev_producers :: nat
  ev_replicaAddress :: addressStruct
  ev_replicaAddresses :: "addressStruct list"
  ev_freshdeadlock :: deadlock_s   \<comment> \<open>the struct of a \<open>MessageDeadlock\<close>, which no constructor sets\<close>

section \<open>Access\<close>

abbreviation cmdstate_update :: "(cmdState \<Rightarrow> cmdState) \<Rightarrow> transaction \<Rightarrow> transaction" where
  "cmdstate_update \<equiv> tx_currentCmdState_update"

abbreviation sql_update :: "(sqlcmdstate \<Rightarrow> sqlcmdstate) \<Rightarrow> transaction \<Rightarrow> transaction" where
  "sql_update \<equiv> tx_sqlcmdstate_update"

text \<open>\<open>this\<close>, after it may have been deleted\<close>

definition live :: "transaction \<Rightarrow> transaction res" where
  "live tx = (if tx_alive tx then Inr tx else Inl UseAfterFree)"

text \<open>\<open>*schemaPtr->tables[tableid]\<close>, and the cast of the message received\<close>

definition tx_table :: "transactionEnv \<Rightarrow> int \<Rightarrow> transaction \<Rightarrow> table res" where
  "tx_table ev i tx =
     rbind (deref (tx_schemaPtr tx)) (\<lambda>d.
     rbind (deref (ev_schemata ev d)) (\<lambda>s. deref (sch_tables s i)))"

definition tx_tablePtr :: "transactionEnv \<Rightarrow> transaction \<Rightarrow> table res" where
  "tx_tablePtr ev tx =
     rbind (deref (cs_tablePtr (tx_currentCmdState tx))) (\<lambda>i. tx_table ev i tx)"

definition subtransactionCmdRef :: "transaction \<Rightarrow> subtransactionCmd res" where
  "subtransactionCmdRef tx =
     (case tx_msgrcv tx of
        None \<Rightarrow> Inl NullDeref
      | Some (message.PAYLOADSUBTRANSACTION m) \<Rightarrow> Inr m
      | Some _ \<Rightarrow> Inl WildPointer)"

section \<open>Partitions\<close>

text \<open>
  The remainder is taken in \<open>uint64_t\<close> (\<open>numpartitions\<close> is an \<open>int16_t\<close>, sign-extended) and
  returned as an \<open>int64_t\<close>.
\<close>

definition hash_partition :: "transactionEnv \<Rightarrow> bytes \<Rightarrow> int res" where
  "hash_partition ev bs =
     (let d = (word_of_int (ev_numpartitions ev) :: u64)
      in if d = 0 then Inl DivByZero else Inr (sint (ev_hash64 ev bs mod d)))"

text \<open>The overloads on a value.\<close>

definition getEngineid_int :: "transactionEnv \<Rightarrow> i64 \<Rightarrow> int res" where
  "getEngineid_int ev input = hash_partition ev (le_bytes 8 (uint (the_i64 input)))"

definition getEngineid_uint :: "transactionEnv \<Rightarrow> u64 \<Rightarrow> int res" where
  "getEngineid_uint ev input = hash_partition ev (le_bytes 8 (uint input))"

definition getEngineid_bool :: "transactionEnv \<Rightarrow> bool \<Rightarrow> int res" where
  "getEngineid_bool ev input = hash_partition ev [if input then 1 else 0]"

definition getEngineid_float :: "transactionEnv \<Rightarrow> ldouble \<Rightarrow> int res" where
  "getEngineid_float ev input = hash_partition ev (le_bytes 16 (uint (the_ld input)))"

definition getEngineid_char :: "transactionEnv \<Rightarrow> i8 \<Rightarrow> int res" where
  "getEngineid_char ev input = hash_partition ev [the_i8 input]"

text \<open>The string of the caller is trimmed.\<close>

definition getEngineid_string :: "transactionEnv \<Rightarrow> bytes \<Rightarrow> (int \<times> bytes) res" where
  "getEngineid_string ev input =
     (let s = trimspace input in rmap (\<lambda>e. (e, s)) (hash_partition ev s))"

text \<open>The partition of a value by the type of its field; \<open>getengine\<close> trims the value.\<close>

definition value_partition :: "transactionEnv \<Rightarrow> fieldtype \<Rightarrow> fieldValue \<Rightarrow> int res" where
  "value_partition ev t val =
     (case t of
        F_INT \<Rightarrow> getEngineid_int ev (integer val)
      | F_UINT \<Rightarrow> getEngineid_uint ev (uinteger val)
      | F_BOOL \<Rightarrow> getEngineid_bool ev (boolean val)
      | F_FLOAT \<Rightarrow> getEngineid_float ev (floating val)
      | F_CHAR \<Rightarrow> getEngineid_char ev (character val)
      | F_CHARX \<Rightarrow> hash_partition ev (str val)
      | F_VARCHAR \<Rightarrow> hash_partition ev (str val)
      | NOFIELDTYPE \<Rightarrow> Inr (- 1))"

definition getengine :: "transactionEnv \<Rightarrow> fieldtype \<Rightarrow> fieldValue \<Rightarrow> (int \<times> fieldValue) res" where
  "getengine ev t val =
     (let val' = (if t = F_CHARX \<or> t = F_VARCHAR then val\<lparr>str := trimspace (str val)\<rparr> else val)
      in rmap (\<lambda>e. (e, val')) (value_partition ev t val'))"

definition getEngineid :: "transactionEnv \<Rightarrow> table \<Rightarrow> int \<Rightarrow> fieldValue \<Rightarrow> int res" where
  "getEngineid ev tab fieldid val =
     rbind (field_at fieldid tab) (\<lambda>fd. value_partition ev (fd_type fd) val)"

text \<open>The overload on the value of the field in the member \<open>fieldValues\<close>.\<close>

definition getEngineid_field :: "transactionEnv \<Rightarrow> table \<Rightarrow> int \<Rightarrow> transaction \<Rightarrow> int res" where
  "getEngineid_field ev tab fieldnum tx =
     rbind (field_at fieldnum tab) (\<lambda>fd.
       if fd_type fd = NOFIELDTYPE then Inr (- 1)
       else rbind (vec_at fieldnum (tx_fieldValues tx)) (value_partition ev (fd_type fd)))"

section \<open>Sending\<close>

definition emit :: "outgoing \<Rightarrow> transaction \<Rightarrow> transaction" where
  "emit m tx = tx\<lparr>tx_outbox := tx_outbox tx @ [m]\<rparr>"

definition callback :: "callback \<Rightarrow> transaction \<Rightarrow> transaction" where
  "callback c tx = tx\<lparr>tx_callbacks := tx_callbacks tx @ [c]\<rparr>"

text \<open>
  \<open>Mboxes::toPartition\<close> drops a message for a partition out of its range; with no partition the
  bound \<open>size() - 1\<close> wraps around.
\<close>

definition toPartition :: "transactionEnv \<Rightarrow> int \<Rightarrow> engineMessage \<Rightarrow> transaction \<Rightarrow> transaction res" where
  "toPartition ev partitionid msg tx =
     (if partitionid < 0 \<or> partitionid > (int (ev_producers ev) - 1) mod 2 ^ 64 then Inr tx
      else if partitionid < int (ev_producers ev) then Inr (emit (ToPartition partitionid msg) tx)
      else Inl OutOfRange)"

definition int32 :: "int \<Rightarrow> int" where
  "int32 x = signed_take_bit 31 x"

text \<open>The members are \<open>int16_t\<close>, \<open>int32_t\<close> and \<open>int8_t\<close> (the entry points are below 6).\<close>

definition sendTransaction :: "transactionEnv \<Rightarrow> enginecmd \<Rightarrow> int \<Rightarrow> int \<Rightarrow> message \<Rightarrow> transaction \<Rightarrow>
    transaction res" where
  "sendTransaction ev enginecmd tacmdentrypoint engineid data tx =
     (let ts = (msg_transactionStruct data)
            \<lparr>ts_transactionid := tx_transactionid tx,
             ts_subtransactionid :=
               (if map_count engineid (tx_engineToSubTransactionids tx)
                then um_get 0 engineid (tx_engineToSubTransactionids tx) else 0),
             ts_tainstance := int16 (ev_instance ev), ts_domainid := int16 (tx_domainid tx),
             ts_enginecmd := enginecmd, ts_pendingcmdid := int32 (tx_pendingcmdid tx),
             ts_tacmdentrypoint := tacmdentrypoint\<rparr>
      in toPartition ev engineid (TOPIC_TRANSACTION (ev_address ev) (msg_set_transactionStruct ts data)) tx)"

definition toDeadlockMgr :: "outgoing \<Rightarrow> transaction \<Rightarrow> transaction" where
  "toDeadlockMgr = emit"

section \<open>Object\<close>

definition getnextpendingcmdid :: "transaction \<Rightarrow> int \<times> transaction" where
  "getnextpendingcmdid tx =
     (tx_nextpendingcmdid tx + 1, tx\<lparr>tx_nextpendingcmdid := tx_nextpendingcmdid tx + 1\<rparr>)"

text \<open>
  The constructor: \<open>mem\<close> is what the memory held, kept by the members that no initialiser sets.
  The containers are created empty.
\<close>

definition Transaction :: "transactionEnv \<Rightarrow> transaction \<Rightarrow> int \<Rightarrow> int \<Rightarrow> transaction" where
  "Transaction ev mem transactionid domainidarg =
     mem\<lparr>tx_transactionid := transactionid, tx_domainid := domainidarg,
         tx_schemaPtr := (if ev_schemata ev domainidarg = None then None else Some domainidarg),
         tx_engineToSubTransactionids := [], tx_state := EXPANDING, tx_pendingcmd := NOCOMMAND,
         tx_pendingcmdid := 0, tx_lockcount := 0, tx_lockpendingcount := 0,
         tx_nextpendingcmdid := 0, tx_fieldValues := [], tx_returnselectedrows := [],
         tx_stagedRows := [], tx_fieldsToUpdate := [], tx_outbox := [], tx_callbacks := [],
         tx_alive := True,
         tx_currentCmdState := (tx_currentCmdState mem)
           \<lparr>cs_indexEntries := [], cs_row := [], cs_rowidsEngineids := [],
            cs_replaceEngineMsgs := [], cs_pendingStagedRows := [], cs_newRow := [],
            cs_originalFieldValues := [], cs_newFieldValues := []\<rparr>,
         tx_sqlcmdstate := (tx_sqlcmdstate mem)\<lparr>sq_indexHits := []\<rparr>\<rparr>"

definition delete_Transaction :: "transaction \<Rightarrow> transaction" where
  "delete_Transaction tx = tx\<lparr>tx_alive := False\<rparr>"

definition reenter :: "int \<Rightarrow> transaction \<Rightarrow> transaction" where
  "reenter res tx =
     (case tx_reentryObject tx of
        Some r \<Rightarrow> callback (Reenter r res)
          (tx\<lparr>tx_resultCode := res, tx_pendingcmd := NOCOMMAND, tx_pendingcmdid := 0\<rparr>)
      | None \<Rightarrow> delete_Transaction tx)"

text \<open>The overload without a status does not test the object.\<close>

definition reenter_nostatus :: "transaction \<Rightarrow> transaction res" where
  "reenter_nostatus tx =
     (let tx1 = tx\<lparr>tx_pendingcmd := NOCOMMAND, tx_pendingcmdid := 0\<rparr>
      in rmap (\<lambda>r. callback (Reenter r (tx_resultCode tx1)) tx1) (deref (tx_reentryObject tx1)))"

definition zeroCurrentCmdState :: "transaction \<Rightarrow> transaction" where
  "zeroCurrentCmdState = cmdstate_update (\<lambda>c.
     c\<lparr>cs_tableid := - 1, cs_tablePtr := None, cs_indexEntries := [], cs_rowEngineid := - 1,
       cs_enginesWithUniqueIndices := 0, cs_rowid := 0, cs_engineid := - 1, cs_locktype := NOLOCK,
       cs_row := [], cs_fieldid := - 1, cs_isunique := False, cs_destinationengineid := - 1,
       cs_rowPtr := None, cs_fieldVal := fieldValue0, cs_engines := 0\<rparr>)"

text \<open>Does nothing but print.\<close>

definition badMessageHandler :: "transaction \<Rightarrow> transaction" where
  "badMessageHandler tx = tx"

section \<open>Values for the interface\<close>

definition addFieldToRow :: "(fieldValue \<Rightarrow> fieldValue) \<Rightarrow> transaction \<Rightarrow> transaction" where
  "addFieldToRow f tx = tx\<lparr>tx_fieldValues := tx_fieldValues tx @ [f fieldValue0]\<rparr>"

definition addFieldToRow_null :: "transaction \<Rightarrow> transaction" where
  "addFieldToRow_null = addFieldToRow (\<lambda>v. v\<lparr>isnull := True\<rparr>)"

definition addFieldToRow_int :: "i64 \<Rightarrow> transaction \<Rightarrow> transaction" where
  "addFieldToRow_int val = addFieldToRow (put_integer val)"

definition addFieldToRow_uint :: "u64 \<Rightarrow> transaction \<Rightarrow> transaction" where
  "addFieldToRow_uint val = addFieldToRow (put_uinteger val)"

definition addFieldToRow_bool :: "bool \<Rightarrow> transaction \<Rightarrow> transaction" where
  "addFieldToRow_bool val = addFieldToRow (put_boolean val)"

definition addFieldToRow_float :: "ldouble \<Rightarrow> transaction \<Rightarrow> transaction" where
  "addFieldToRow_float val = addFieldToRow (put_floating val)"

definition addFieldToRow_char :: "i8 \<Rightarrow> transaction \<Rightarrow> transaction" where
  "addFieldToRow_char val = addFieldToRow (put_character val)"

definition addFieldToRow_string :: "bytes \<Rightarrow> transaction \<Rightarrow> transaction" where
  "addFieldToRow_string val = addFieldToRow (\<lambda>v. v\<lparr>str := val\<rparr>)"

text \<open>The overloads of \<open>makeFieldValue\<close>: the flag is set for a null, and never cleared.\<close>

definition makeFieldValue :: "(fieldValue \<Rightarrow> fieldValue) \<Rightarrow> bool \<Rightarrow> fieldValue \<Rightarrow> fieldValue" where
  "makeFieldValue f null val = (if null then val\<lparr>isnull := True\<rparr> else f val)"

definition makeFieldValue_int :: "bool \<Rightarrow> i64 \<Rightarrow> fieldValue \<Rightarrow> fieldValue" where
  "makeFieldValue_int null input = makeFieldValue (put_integer input) null"

definition makeFieldValue_uint :: "bool \<Rightarrow> u64 \<Rightarrow> fieldValue \<Rightarrow> fieldValue" where
  "makeFieldValue_uint null input = makeFieldValue (put_uinteger input) null"

definition makeFieldValue_bool :: "bool \<Rightarrow> bool \<Rightarrow> fieldValue \<Rightarrow> fieldValue" where
  "makeFieldValue_bool null input = makeFieldValue (put_boolean input) null"

definition makeFieldValue_float :: "bool \<Rightarrow> ldouble \<Rightarrow> fieldValue \<Rightarrow> fieldValue" where
  "makeFieldValue_float null input = makeFieldValue (put_floating input) null"

definition makeFieldValue_char :: "bool \<Rightarrow> i8 \<Rightarrow> fieldValue \<Rightarrow> fieldValue" where
  "makeFieldValue_char null input = makeFieldValue (put_character input) null"

definition makeFieldValue_string :: "bool \<Rightarrow> bytes \<Rightarrow> fieldValue \<Rightarrow> fieldValue" where
  "makeFieldValue_string null input = makeFieldValue (\<lambda>v. v\<lparr>str := input\<rparr>) null"

text \<open>Reads \<open>fieldValues\<close>, also where the row to store is \<open>currentCmdState.newFieldValues\<close>.\<close>

definition checkNullConstraintOK :: "transactionEnv \<Rightarrow> int \<Rightarrow> transaction \<Rightarrow> bool res" where
  "checkNullConstraintOK ev fieldnum tx =
     rbind (tx_tablePtr ev tx) (\<lambda>t. rbind (field_at fieldnum t) (\<lambda>fd.
       if fd_indextype fd \<in> {UNIQUENOTNULL, NONUNIQUENOTNULL, UNORDEREDNOTNULL}
       then rmap (\<lambda>v. \<not> isnull v) (vec_at fieldnum (tx_fieldValues tx)) else Inr True))"

end
