(* ===== verification/Transaction_Rows.thy ===== *)
theory Transaction_Rows
  imports Transaction_State
begin

text \<open>
  The commands of a transaction on rows (\<open>infinisqld/Transaction.cc\<close>): locks and deadlocks, the
  continuations of insert, delete, select, update and replace, and rollback. A continuation runs
  on the message in \<open>msgrcv\<close>; the entry point is the one its request was sent with. Where a
  \<open>case\<close> runs on into the next, the next is called.
\<close>

section \<open>Locks and deadlocks\<close>

definition count_lock :: "deadlockchange \<Rightarrow> transaction \<Rightarrow> transaction" where
  "count_lock changetype tx =
     (case changetype of
        ADDLOCKEDENTRY \<Rightarrow> tx\<lparr>tx_lockcount := tx_lockcount tx + 1\<rparr>
      | ADDLOCKPENDINGENTRY \<Rightarrow> tx\<lparr>tx_lockpendingcount := tx_lockpendingcount tx + 1\<rparr>
      | REMOVELOCKEDENTRY \<Rightarrow> tx\<lparr>tx_lockcount := tx_lockcount tx - 1\<rparr>
      | REMOVELOCKPENDINGENTRY \<Rightarrow> tx\<lparr>tx_lockpendingcount := tx_lockpendingcount tx - 1\<rparr>
      | TRANSITIONPENDINGTOLOCKEDENTRY \<Rightarrow>
          tx\<lparr>tx_lockpendingcount := tx_lockpendingcount tx - 1,
             tx_lockcount := tx_lockcount tx + 1\<rparr>)"

text \<open>Every node inserted is the empty string.\<close>

definition set_insert :: "'a \<Rightarrow> 'a list \<Rightarrow> 'a list" where
  "set_insert x xs = (if x \<in> set xs then xs else x # xs)"

definition node_locked :: "newDeadLockLists \<Rightarrow> newDeadLockLists" where
  "node_locked n = n\<lparr>nd_locked := set_insert [] (nd_locked n)\<rparr>"

definition node_waiting :: "newDeadLockLists \<Rightarrow> newDeadLockLists" where
  "node_waiting n = n\<lparr>nd_waiting := set_insert [] (nd_waiting n)\<rparr>"

definition index_nodes :: "lockFieldValue \<Rightarrow> newDeadLockLists \<Rightarrow> newDeadLockLists" where
  "index_nodes lf n =
     (if lf_locktype lf = INDEXLOCK then node_locked n
      else if lf_locktype lf = INDEXPENDINGLOCK then node_waiting n
      else n)"

definition row_nodes :: "stagedRow \<Rightarrow> newDeadLockLists \<Rightarrow> newDeadLockLists" where
  "row_nodes sr n =
     fold index_nodes (map snd (sr_uniqueIndices sr))
       (if sr_locktype sr = WRITELOCK \<or> sr_locktype sr = READLOCK then node_locked n
        else if sr_locktype sr = PENDINGLOCK then node_waiting n
        else n)"

definition deadlock_nodes :: "stagedRows \<Rightarrow> newDeadLockLists" where
  "deadlock_nodes rs = fold row_nodes (map snd rs) \<lparr>nd_locked = [], nd_waiting = []\<rparr>"

definition deadlock_new :: "transactionEnv \<Rightarrow> transaction \<Rightarrow> transaction" where
  "deadlock_new ev tx =
     (let nodes = deadlock_nodes (cs_pendingStagedRows (tx_currentCmdState tx))
      in if nd_locked nodes = [] \<and> nd_waiting nodes = [] then tx
         else toDeadlockMgr (DEADLOCKNEW
           \<lparr>dm_deadlockStruct = (ev_freshdeadlock ev)
              \<lparr>dl_transactionid := tx_transactionid tx, dl_tainstance := ev_instance ev,
               dl_transaction_pendingcmdid := tx_pendingcmdid tx\<rparr>,
            dm_deadlockNode = [], dm_nodes = nodes\<rparr>) tx)"

definition deadlock_change :: "transactionEnv \<Rightarrow> deadlockchange \<Rightarrow> transaction \<Rightarrow> transaction" where
  "deadlock_change ev changetype tx =
     toDeadlockMgr (DEADLOCKCHANGE
       \<lparr>dm_deadlockStruct = (ev_freshdeadlock ev)
          \<lparr>dl_deadlockchange := deadlockchange_num changetype,
           dl_transactionid := tx_transactionid tx\<rparr>,
        dm_deadlockNode = [], dm_nodes = \<lparr>nd_locked = [], nd_waiting = []\<rparr>\<rparr>) tx"

definition deadlock_remove :: "transactionEnv \<Rightarrow> transaction \<Rightarrow> transaction" where
  "deadlock_remove ev tx =
     toDeadlockMgr (DEADLOCKREMOVE
       \<lparr>dm_deadlockStruct = (ev_freshdeadlock ev)\<lparr>dl_transactionid := tx_transactionid tx\<rparr>,
        dm_deadlockNode = [], dm_nodes = \<lparr>nd_locked = [], nd_waiting = []\<rparr>\<rparr>) tx"

text \<open>\<open>fieldVal\<close> is read for a change to an index (\<open>None\<close> is \<open>NULL\<close>).\<close>

definition checkLock :: "transactionEnv \<Rightarrow> deadlockchange \<Rightarrow> bool \<Rightarrow> fieldValue option \<Rightarrow> transaction \<Rightarrow>
    transaction res" where
  "checkLock ev changetype isrow fieldVal tx =
     (let tx1 = count_lock changetype tx;
          possible = cs_ispossibledeadlock (tx_currentCmdState tx1);
          free = (tx_lockcount tx1 = 0 \<or> tx_lockpendingcount tx1 = 0)
      in if \<not> possible \<and> free then Inr tx1
         else if \<not> possible \<and> \<not> free then
           Inr (deadlock_new ev (cmdstate_update (\<lambda>c. c\<lparr>cs_ispossibledeadlock := True\<rparr>) tx1))
         else if \<not> free then
           (if isrow then Inr (deadlock_change ev changetype tx1)
            else rmap (\<lambda>_. deadlock_change ev changetype tx1) (deref fieldVal))
         else Inr (deadlock_remove ev
                (cmdstate_update (\<lambda>c. c\<lparr>cs_ispossibledeadlock := False\<rparr>) tx1)))"

text \<open>
  The copy of \<open>checkLock\<close> for statements tests and sets the flag of \<open>sqlcmdstate\<close>, but clears
  the one of \<open>currentCmdState\<close>.
\<close>

definition checkSqlLock :: "transactionEnv \<Rightarrow> deadlockchange \<Rightarrow> bool \<Rightarrow> fieldValue option \<Rightarrow> transaction \<Rightarrow>
    transaction res" where
  "checkSqlLock ev changetype isrow fieldVal tx =
     (let tx1 = count_lock changetype tx;
          possible = sq_ispossibledeadlock (tx_sqlcmdstate tx1);
          free = (tx_lockcount tx1 = 0 \<or> tx_lockpendingcount tx1 = 0)
      in if \<not> possible \<and> free then Inr tx1
         else if \<not> possible \<and> \<not> free then
           Inr (deadlock_new ev (sql_update (\<lambda>c. c\<lparr>sq_ispossibledeadlock := True\<rparr>) tx1))
         else if \<not> free then
           (if isrow then Inr (deadlock_change ev changetype tx1)
            else rmap (\<lambda>_. deadlock_change ev changetype tx1) (deref fieldVal))
         else Inr (deadlock_remove ev
                (cmdstate_update (\<lambda>c. c\<lparr>cs_ispossibledeadlock := False\<rparr>) tx1)))"

definition row_rof :: "int \<Rightarrow> int \<Rightarrow> rowOrField" where
  "row_rof tableid rowid = rowOrField0\<lparr>rf_isrow := True, rf_tableid := tableid, rf_rowid := rowid\<rparr>"

definition send_rof :: "transactionEnv \<Rightarrow> enginecmd \<Rightarrow> int \<Rightarrow> rowOrField \<Rightarrow> transaction \<Rightarrow>
    transaction res" where
  "send_rof ev cmd engineid rof =
     sendTransaction ev cmd 0 engineid
       (message.PAYLOADCOMMITROLLBACK (commitRollbackMsg0\<lparr>cr_rofs := [rof]\<rparr>))"

definition deadlockAbort :: "transactionEnv \<Rightarrow> deadlock_s \<Rightarrow> transaction \<Rightarrow> transaction res" where
  "deadlockAbort ev msgref tx =
     (if dl_transaction_pendingcmdid msgref \<noteq> tx_pendingcmdid tx then Inr tx
      else if cs_pendingStagedRows (tx_currentCmdState tx) = [] then Inr tx
      else rmap (reenter APISTATUS_DEADLOCK)
        (rfold (\<lambda>(uur, _). send_rof ev ROLLBACKCMD (uu_engineid uur)
                  (row_rof (uu_tableid uur) (uu_rowid uur)))
          (cs_pendingStagedRows (tx_currentCmdState tx)) tx))"

section \<open>Rollback\<close>

text \<open>The row that replaced another one, the row, and the entries of its unique indices\<close>

definition replaced :: "uuRecord \<Rightarrow> stagedRow \<Rightarrow> bool" where
  "replaced uur sr \<longleftrightarrow> sr_cmd sr = UPDATE \<and>
     (uu_rowid uur \<noteq> sr_newrowid sr \<or> uu_engineid uur \<noteq> sr_newengineid sr)"

definition index_rof :: "int \<Rightarrow> int \<Rightarrow> int \<Rightarrow> lockFieldValue \<Rightarrow> rowOrField" where
  "index_rof tableid rowid fieldid lf =
     (row_rof tableid rowid)\<lparr>rf_isrow := False, rf_isnotaddunique := False, rf_isreplace := False,
        rf_fieldid := fieldid, rf_fieldVal := lf_fieldVal lf\<rparr>"

definition send_indices :: "transactionEnv \<Rightarrow> uuRecord \<Rightarrow> stagedRow \<Rightarrow> transaction \<Rightarrow> transaction res" where
  "send_indices ev uur sr =
     rfold (\<lambda>(fieldid, lf). send_rof ev ROLLBACKCMD (lf_engineid lf)
              (index_rof (uu_tableid uur) (uu_rowid uur) fieldid lf))
       (sr_uniqueIndices sr)"

text \<open>\<open>cmd\<close> goes only to the row that replaced the original.\<close>

definition revertback :: "transactionEnv \<Rightarrow> uuRecord \<Rightarrow> enginecmd \<Rightarrow> transaction \<Rightarrow> transaction res" where
  "revertback ev uur cmd tx =
     (case map_of (tx_stagedRows tx) uur of
        None \<Rightarrow> Inr tx
      | Some sr \<Rightarrow>
          rbind (if replaced uur sr
                 then send_rof ev cmd (sr_newengineid sr)
                        (row_rof (uu_tableid uur) (sr_newrowid sr)) tx
                 else Inr tx) (\<lambda>tx1.
          rbind (send_rof ev ROLLBACKCMD (uu_engineid uur)
                   (row_rof (uu_tableid uur) (uu_rowid uur)) tx1) (send_indices ev uur sr)))"

definition revert :: "transactionEnv \<Rightarrow> uuRecord \<Rightarrow> transaction \<Rightarrow> transaction res" where
  "revert ev uur = revertback ev uur REVERTCMD"

definition rollback_uur :: "transactionEnv \<Rightarrow> uuRecord \<Rightarrow> transaction \<Rightarrow> transaction res" where
  "rollback_uur ev uur tx = rmap (reenter APISTATUS_OK) (revertback ev uur ROLLBACKCMD tx)"

definition rollback_row_tx :: "transactionEnv \<Rightarrow> uuRecord \<times> stagedRow \<Rightarrow> transaction \<Rightarrow>
    transaction res" where
  "rollback_row_tx ev = (\<lambda>(uur, sr) tx.
     rbind (if replaced uur sr
            then send_rof ev ROLLBACKCMD (sr_newengineid sr)
                   (row_rof (uu_tableid uur) (sr_newrowid sr)) tx
            else Inr tx) (\<lambda>tx1.
     rbind (send_rof ev ROLLBACKCMD (uu_engineid uur) (row_rof (uu_tableid uur) (uu_rowid uur)) tx1)
       (send_indices ev uur sr)))"

definition send_endsubtransaction :: "transactionEnv \<Rightarrow> int \<times> int \<Rightarrow> transaction \<Rightarrow> transaction res" where
  "send_endsubtransaction ev = (\<lambda>(engineid, subtransactionid).
     toPartition ev engineid
       (TOPIC_ENDSUBTRANSACTION (transactionStruct0\<lparr>ts_subtransactionid := subtransactionid\<rparr>)))"

definition rollback :: "transactionEnv \<Rightarrow> transaction \<Rightarrow> transaction res" where
  "rollback ev tx =
     rbind (rfold (rollback_row_tx ev) (tx_stagedRows tx) tx) (\<lambda>tx1.
     rmap (reenter APISTATUS_OK)
       (rfold (send_endsubtransaction ev) (tx_engineToSubTransactionids tx1) tx1))"

definition abortCmd :: "transactionEnv \<Rightarrow> int \<Rightarrow> transaction \<Rightarrow> transaction res" where
  "abortCmd ev reentrystatus tx =
     rmap (\<lambda>tx1.
         reenter reentrystatus
           (if cs_ispossibledeadlock (tx_currentCmdState tx1)
            then deadlock_remove ev
                   (cmdstate_update (\<lambda>c. c\<lparr>cs_ispossibledeadlock := False\<rparr>) tx1)
            else tx1))
       (revert ev (cs_originaluur (tx_currentCmdState tx)) tx)"

section \<open>Insert and delete\<close>

text \<open>The request for the entry of a unique index\<close>

definition uniqueindex_cmd :: "int \<Rightarrow> int \<Rightarrow> int \<Rightarrow> int \<Rightarrow> fieldValue \<Rightarrow> message" where
  "uniqueindex_cmd tableid fieldid rowid engineid v =
     message.PAYLOADSUBTRANSACTION (subtransactionCmd0
       \<lparr>sc_fieldVal := v,
        sc_subtransactionStruct := subtransactionStruct0
          \<lparr>ss_tableid := tableid, ss_fieldid := fieldid, ss_rowid := rowid, ss_engineid := engineid\<rparr>\<rparr>)"

definition insert_unique :: "transactionEnv \<Rightarrow> int \<Rightarrow> nat \<Rightarrow> transaction \<Rightarrow> transaction res" where
  "insert_unique ev rowid n tx =
     rbind (vec_at (int n) (tx_fieldValues tx)) (\<lambda>v.
     if isnull v then Inr tx
     else rbind (tx_tablePtr ev tx) (\<lambda>t. rbind (field_at (int n) t) (\<lambda>fd.
       if \<not> isunique (fd_index fd) then Inr tx
       else
         let c = tx_currentCmdState tx;
             tx1 = tx\<lparr>tx_enginesWithUniqueIndices := tx_enginesWithUniqueIndices tx + 1,
                      tx_currentCmdState := c\<lparr>cs_indexEntries :=
                        (cs_indexEntries c)[n := (cs_indexEntries c ! n)\<lparr>ii_isaddunique := True\<rparr>]\<rparr>\<rparr>
         in rbind (vec_at (int n) (cs_rowidsEngineids c)) (\<lambda>e.
              sendTransaction ev UNIQUEINDEX 2 (nl_engineid e)
                (uniqueindex_cmd (cs_tableid c) (int n) rowid (nl_engineid e)
                   (ii_fieldVal (cs_indexEntries c ! n)))
                (cmdstate_update (\<lambda>c. c\<lparr>cs_rowidsEngineids :=
                     (cs_rowidsEngineids c)[n := e\<lparr>nl_rowid := rowid\<rparr>]\<rparr>) tx1)))))"

definition finish_insert :: "transaction \<Rightarrow> transaction" where
  "finish_insert tx =
     (let c = tx_currentCmdState tx;
          uur = \<lparr>uu_rowid = cs_rowid c, uu_tableid = cs_tableid c, uu_engineid = cs_rowEngineid c\<rparr>
      in reenter APISTATUS_OK
           (tx\<lparr>tx_stagedRows := um_put uur
                 (stagedRow0\<lparr>sr_cmd := INSERT, sr_locktype := WRITELOCK, sr_newRow := cs_row c,
                    sr_newrowid := cs_rowid c, sr_newengineid := cs_rowEngineid c\<rparr>)
                 (tx_stagedRows tx),
               tx_returnNewRow := uur\<rparr>))"

definition continueInsertRow_1 :: "transactionEnv \<Rightarrow> subtransactionCmd \<Rightarrow> transaction \<Rightarrow>
    transaction res" where
  "continueInsertRow_1 ev m tx =
     (let s = sc_subtransactionStruct m;
          tx1 = (cmdstate_update (\<lambda>c. c\<lparr>cs_rowid := ss_rowid s, cs_engineid := ss_engineid s,
                    cs_locktype := WRITELOCK\<rparr>) tx)\<lparr>tx_enginesWithUniqueIndices := 0\<rparr>
      in rmap (\<lambda>tx2. if tx_enginesWithUniqueIndices tx2 \<noteq> 0 then tx2 else finish_insert tx2)
           (rfold (insert_unique ev (ss_rowid s))
              [0..<length (cs_indexEntries (tx_currentCmdState tx1))] tx1))"

definition insert_granted :: "indexInfo \<Rightarrow> transaction \<Rightarrow> transaction res" where
  "insert_granted info tx =
     (let c = tx_currentCmdState tx; n = ii_fieldid info
      in if 0 \<le> n \<and> n < int (length (cs_indexEntries c)) then
           let tx1 = tx\<lparr>tx_currentCmdState := c\<lparr>cs_indexEntries := (cs_indexEntries c)[nat n := info]\<rparr>,
                        tx_enginesWithUniqueIndices := tx_enginesWithUniqueIndices tx - 1\<rparr>
           in Inr (if tx_enginesWithUniqueIndices tx1 \<noteq> 0 then tx1 else finish_insert tx1)
         else Inl OutOfRange)"

definition continueInsertRow_2 :: "transactionEnv \<Rightarrow> subtransactionCmd \<Rightarrow> transaction \<Rightarrow>
    transaction res" where
  "continueInsertRow_2 ev m tx =
     (let s = sc_subtransactionStruct m;
          info = \<lparr>ii_isaddunique = True, ii_locktype = ss_locktype s, ii_engineid = ss_engineid s,
                  ii_tableid = ss_tableid s, ii_fieldid = ss_fieldid s, ii_fieldVal = sc_fieldVal m\<rparr>;
          check = (\<lambda>ch. checkLock ev ch False (Some (sc_fieldVal m)) tx)
      in case ss_locktype s of
           NOLOCK \<Rightarrow> abortCmd ev APISTATUS_UNIQUECONSTRAINT tx
         | INDEXLOCK \<Rightarrow> rbind (check ADDLOCKEDENTRY) (insert_granted info)
         | INDEXPENDINGLOCK \<Rightarrow> check ADDLOCKPENDINGENTRY
         | PENDINGTOINDEXLOCK \<Rightarrow> rbind (check TRANSITIONPENDINGTOLOCKEDENTRY) (insert_granted info)
         | PENDINGTOINDEXNOLOCK \<Rightarrow> check REMOVELOCKPENDINGENTRY
         | _ \<Rightarrow> insert_granted info tx)"

text \<open>An entry point that is none of the two goes on to stage the row.\<close>

definition continueInsertRow :: "transactionEnv \<Rightarrow> int \<Rightarrow> transaction \<Rightarrow> transaction res" where
  "continueInsertRow ev entrypoint tx =
     (if entrypoint = 1 then rbind (subtransactionCmdRef tx) (\<lambda>m. continueInsertRow_1 ev m tx)
      else if entrypoint = 2 then rbind (subtransactionCmdRef tx) (\<lambda>m. continueInsertRow_2 ev m tx)
      else Inr (finish_insert tx))"

definition continueDeleteRow :: "transactionEnv \<Rightarrow> int \<Rightarrow> transaction \<Rightarrow> transaction res" where
  "continueDeleteRow ev entrypoint tx =
     rmap (\<lambda>m. if ss_status (sc_subtransactionStruct m) \<noteq> STATUS_OK then reenter APISTATUS_NOTOK tx
               else reenter APISTATUS_OK
                 (tx\<lparr>tx_stagedRows := um_update stagedRow0 (\<lambda>sr. sr\<lparr>sr_cmd := DELETE\<rparr>)
                       (cs_originaluur (tx_currentCmdState tx)) (tx_stagedRows tx)\<rparr>))
       (subtransactionCmdRef tx)"

section \<open>Select\<close>

text \<open>The rows of each engine, for more than one hit\<close>

definition group_hits :: "indexEntries \<Rightarrow> (int \<times> int list) list" where
  "group_hits hs =
     fold (\<lambda>h. um_update [] (\<lambda>xs. xs @ [nl_rowid h]) (nl_engineid h)) hs []"

definition selectrows_cmd :: "int \<Rightarrow> locktype \<Rightarrow> int list \<Rightarrow> message" where
  "selectrows_cmd tableid locktype rowids =
     message.PAYLOADSUBTRANSACTION (subtransactionCmd0
       \<lparr>sc_subtransactionStruct := subtransactionStruct0\<lparr>ss_tableid := tableid, ss_locktype := locktype\<rparr>,
        sc_rowids := rowids\<rparr>)"

definition send_selectrows :: "transactionEnv \<Rightarrow> int \<Rightarrow> locktype \<Rightarrow> (int \<times> int list) list \<Rightarrow>
    transaction \<Rightarrow> transaction res" where
  "send_selectrows ev tableid locktype =
     rfold (\<lambda>(engineid, rowids).
       sendTransaction ev SELECTROWS 2 engineid (selectrows_cmd tableid locktype rowids))"

definition continueSelectRows_1 :: "transactionEnv \<Rightarrow> subtransactionCmd \<Rightarrow> transaction \<Rightarrow>
    transaction res" where
  "continueSelectRows_1 ev m tx =
     (let tx1 = cmdstate_update (\<lambda>c. c\<lparr>cs_rowidsEngineids := cs_rowidsEngineids c @ sc_indexHits m,
                    cs_engines := cs_engines c - 1\<rparr>) tx;
          c = tx_currentCmdState tx1; hs = cs_rowidsEngineids c
      in if cs_engines c \<noteq> 0 then Inr tx1
         else case hs of
             [] \<Rightarrow> Inr (reenter APISTATUS_OK tx1)
           | [h] \<Rightarrow>
               send_selectrows ev (cs_tableid c) (cs_locktype c) [(nl_engineid h, [nl_rowid h])]
                 (cmdstate_update (\<lambda>c. c\<lparr>cs_engines := 1\<rparr>) tx1)
           | _ \<Rightarrow>
               let payloads = group_hits hs
               in send_selectrows ev (cs_tableid c) (cs_locktype c) payloads
                    (cmdstate_update (\<lambda>c. c\<lparr>cs_engines := int (length payloads)\<rparr>) tx1))"

text \<open>The lock a row is staged with and the change it makes; \<open>None\<close> for a row that is skipped\<close>

definition select_lock :: "locktype \<Rightarrow> (locktype \<times> deadlockchange option) option" where
  "select_lock l =
     (case l of
        NOLOCK \<Rightarrow> Some (NOLOCK, None)
      | READLOCK \<Rightarrow> Some (READLOCK, Some ADDLOCKEDENTRY)
      | WRITELOCK \<Rightarrow> Some (WRITELOCK, Some ADDLOCKEDENTRY)
      | PENDINGLOCK \<Rightarrow> Some (PENDINGLOCK, Some ADDLOCKPENDINGENTRY)
      | PENDINGTOWRITELOCK \<Rightarrow> Some (WRITELOCK, Some TRANSITIONPENDINGTOLOCKEDENTRY)
      | PENDINGTOREADLOCK \<Rightarrow> Some (READLOCK, Some TRANSITIONPENDINGTOLOCKEDENTRY)
      | PENDINGTONOLOCK \<Rightarrow> Some (NOLOCK, Some REMOVELOCKPENDINGENTRY)
      | _ \<Rightarrow> None)"

definition select_row :: "transactionEnv \<Rightarrow> transactionStruct \<Rightarrow> returnRow \<Rightarrow> transaction \<Rightarrow>
    transaction res" where
  "select_row ev ts rr tx =
     (let c = tx_currentCmdState tx;
          uur = \<lparr>uu_rowid = rr_rowid rr, uu_tableid = cs_tableid c, uu_engineid = ts_engineinstance ts\<rparr>
      in if map_count uur (cs_pendingStagedRows c) then Inr tx
         else case select_lock (rr_locktype rr) of
             None \<Rightarrow> Inr tx
           | Some (l, change) \<Rightarrow>
               rmap (cmdstate_update (\<lambda>c. c\<lparr>cs_pendingStagedRows := um_put uur
                   (stagedRow0\<lparr>sr_originalRow := rr_row rr, sr_originalrowid := rr_rowid rr,
                      sr_originalengineid := ts_engineinstance ts,
                      sr_previoussubtransactionid := ts_previoussubtransactionid ts,
                      sr_cmd := NOCOMMAND, sr_locktype := l\<rparr>)
                   (cs_pendingStagedRows c)\<rparr>))
                 (case change of None \<Rightarrow> Inr tx | Some ch \<Rightarrow> checkLock ev ch True None tx))"

text \<open>
  After the loop \<open>uur\<close> is the row last received (\<open>rowid\<close> -1 if there was none), and \<open>rRow\<close>
  decides whether this was a reply. The rows promoted are staged under their own key, but what is
  returned for each of them is that last \<open>uur\<close>.
\<close>

definition promote_rows :: "uuRecord \<Rightarrow> transaction \<Rightarrow> transaction" where
  "promote_rows uur tx =
     fold (\<lambda>(k, sr) tx.
         if map_count k (tx_stagedRows tx) then tx
         else tx\<lparr>tx_stagedRows := um_put k sr (tx_stagedRows tx),
                 tx_returnselectedrows := tx_returnselectedrows tx @ [uur]\<rparr>)
       (cs_pendingStagedRows (tx_currentCmdState tx)) (tx\<lparr>tx_returnselectedrows := []\<rparr>)"

definition continueSelectRows_2 :: "transactionEnv \<Rightarrow> subtransactionCmd \<Rightarrow> transaction \<Rightarrow>
    transaction res" where
  "continueSelectRows_2 ev m tx =
     (let ts = sc_transactionStruct m; rrs = sc_returnRows m;
          lastRow = (if rrs = [] then returnRow0 else last rrs);
          uur = \<lparr>uu_rowid = (if rrs = [] then - 1 else rr_rowid lastRow),
                 uu_tableid = cs_tableid (tx_currentCmdState tx),
                 uu_engineid = ts_engineinstance ts\<rparr>
      in rmap (\<lambda>tx1.
           let tx2 = (if rr_locktype lastRow \<notin> {PENDINGTOWRITELOCK, PENDINGTOREADLOCK, PENDINGTONOLOCK}
                      then cmdstate_update (\<lambda>c. c\<lparr>cs_engines := cs_engines c - 1\<rparr>) tx1 else tx1)
           in if cs_engines (tx_currentCmdState tx2) = 0 \<and> tx_lockpendingcount tx2 = 0
              then reenter APISTATUS_OK (promote_rows uur tx2) else tx2)
         (rfold (select_row ev ts) rrs tx))"

definition continueSelectRows :: "transactionEnv \<Rightarrow> int \<Rightarrow> transaction \<Rightarrow> transaction res" where
  "continueSelectRows ev entrypoint tx =
     (if entrypoint = 1 then rbind (subtransactionCmdRef tx) (\<lambda>m. continueSelectRows_1 ev m tx)
      else if entrypoint = 2 then rbind (subtransactionCmdRef tx) (\<lambda>m. continueSelectRows_2 ev m tx)
      else Inr tx)"

text \<open>These have empty cases only.\<close>

definition continueFetchRows :: "int \<Rightarrow> transaction \<Rightarrow> transaction" where
  "continueFetchRows entrypoint tx = tx"

definition continueUnlockRow :: "int \<Rightarrow> transaction \<Rightarrow> transaction" where
  "continueUnlockRow entrypoint tx = tx"

definition continueRollbackTransaction :: "int \<Rightarrow> transaction \<Rightarrow> transaction" where
  "continueRollbackTransaction entrypoint tx = tx"

text \<open>The engine of an equality, by the type of the field; \<open>-1\<close> for no type\<close>

definition search_engine :: "transactionEnv \<Rightarrow> fieldtype \<Rightarrow> searchParams \<Rightarrow> (int \<times> searchParams) res" where
  "search_engine ev t sp =
     (if t = NOFIELDTYPE then Inr (- 1, sp)
      else rbind (vec_at 0 (sp_values sp)) (\<lambda>v.
        rmap (\<lambda>(e, v'). (e, sp\<lparr>sp_values := (sp_values sp)[0 := v']\<rparr>)) (getengine ev t v)))"

definition indexsearch_cmd :: "int \<Rightarrow> int \<Rightarrow> searchParams \<Rightarrow> message" where
  "indexsearch_cmd tableid fieldid sp =
     message.PAYLOADSUBTRANSACTION (subtransactionCmd0
       \<lparr>sc_subtransactionStruct := subtransactionStruct0\<lparr>ss_tableid := tableid, ss_fieldid := fieldid\<rparr>,
        sc_searchParameters := sp\<rparr>)"

text \<open>
  For an equality the parameters are copied into the message before the string of the caller is
  trimmed for the hash.
\<close>

definition tx_select :: "transactionEnv \<Rightarrow> int \<Rightarrow> int \<Rightarrow> locktype \<Rightarrow> searchParams \<Rightarrow> transaction \<Rightarrow>
    transaction res" where
  "tx_select ev tableid fieldid locktype searchParameters tx =
     (if tx_pendingcmd tx \<noteq> NOCOMMAND then Inr (reenter APISTATUS_PENDING tx)
      else
        let (i, tx0) = getnextpendingcmdid tx;
            tx1 = cmdstate_update (\<lambda>c. c\<lparr>cs_tableid := tableid, cs_fieldid := fieldid,
                      cs_locktype := locktype, cs_engines := 0, cs_rowidsEngineids := [],
                      cs_ispossibledeadlock := False\<rparr>)
                    (tx0\<lparr>tx_pendingcmdid := i, tx_pendingcmd := SELECT\<rparr>);
            cmd = indexsearch_cmd tableid fieldid searchParameters
        in if sp_op searchParameters = OPERATOR_EQ then
             rbind (tx_table ev tableid tx1) (\<lambda>t. rbind (field_at fieldid t) (\<lambda>fd.
             rbind (search_engine ev (fd_type fd) searchParameters) (\<lambda>(e, _).
               sendTransaction ev INDEXSEARCH 1 e cmd
                 (cmdstate_update (\<lambda>c. c\<lparr>cs_engines := 1\<rparr>) tx1))))
           else
             rfold (\<lambda>n. sendTransaction ev INDEXSEARCH 1 (int n) cmd) [0..<nat (ev_numpartitions ev)]
               (cmdstate_update (\<lambda>c. c\<lparr>cs_engines := ev_numpartitions ev\<rparr>) tx1))"

end
