(* ===== verification/Transaction_Update.thy ===== *)
theory Transaction_Update
  imports Transaction_Rows
begin

text \<open>
  \<open>updateRow\<close>, \<open>replace\<close> and their continuations (\<open>infinisqld/Transaction.cc\<close>). The cases of
  \<open>continueUpdateRow\<close> run on into each other: 2 into 3 (also after the callback of a failure, which
  may have deleted the transaction), 4 into 5; 3 calls 5. A table whose \<open>rowsize\<close> is right is not
  changed by \<open>makerow\<close> (\<open>makerow_code\<close>), so the table \<open>makerow\<close> returns is dropped.
\<close>

section \<open>Update of a row\<close>

text \<open>Case 5: the row is staged as it is pending.\<close>

definition continueUpdateRow_5 :: "transaction \<Rightarrow> transaction" where
  "continueUpdateRow_5 tx =
     (let c = tx_currentCmdState tx; uur = cs_originaluur c
      in reenter APISTATUS_OK
           ((cmdstate_update (\<lambda>c. c\<lparr>cs_pendingStagedRows :=
                um_update stagedRow0 id uur (cs_pendingStagedRows c)\<rparr>) tx)
             \<lparr>tx_stagedRows := um_put uur (um_get stagedRow0 uur (cs_pendingStagedRows c))
                (tx_stagedRows tx)\<rparr>))"

text \<open>
  Case 3: the entry of a unique index that changes. What is compared is \<open>value.floating\<close>, the
  null flag and the string.
\<close>

definition same_value :: "fieldValue \<Rightarrow> fieldValue \<Rightarrow> bool" where
  "same_value x y \<longleftrightarrow> floating_eq x y \<and> isnull x = isnull y \<and> str x = str y"

definition request_unique :: "transactionEnv \<Rightarrow> table \<Rightarrow> nat \<Rightarrow> fieldValue \<Rightarrow> stagedRow \<times> transaction \<Rightarrow>
    (stagedRow \<times> transaction) res" where
  "request_unique ev t n v = (\<lambda>(sRow, tx).
     rbind (getEngineid ev t (int n) v) (\<lambda>engineid.
       let uur = cs_newuur (tx_currentCmdState tx)
       in rmap (Pair (sRow\<lparr>sr_uniqueIndices := um_put (int n)
                 \<lparr>lf_locktype = NOLOCK, lf_engineid = engineid, lf_fieldVal = v\<rparr>
                 (sr_uniqueIndices sRow)\<rparr>))
            (sendTransaction ev UNIQUEINDEX 4 engineid
               (uniqueindex_cmd (uu_tableid uur) (int n) (uu_rowid uur) (uu_engineid uur) v)
               (cmdstate_update (\<lambda>c. c\<lparr>cs_uniqueindices := cs_uniqueindices c + 1\<rparr>) tx))))"

definition update_unique :: "transactionEnv \<Rightarrow> table \<Rightarrow> nat \<Rightarrow> stagedRow \<times> transaction \<Rightarrow>
    (stagedRow \<times> transaction) res" where
  "update_unique ev t n s =
     (let c = tx_currentCmdState (snd s)
      in rbind (vec_at (int n) (cs_newFieldValues c)) (\<lambda>v.
         if isnull v then Inr s
         else rbind (field_at (int n) t) (\<lambda>fd.
           if \<not> isunique (fd_index fd) then Inr s
           else rbind (vec_at (int n) (cs_originalFieldValues c)) (\<lambda>old.
             if same_value v old then Inr s
             else request_unique ev t n (v\<lparr>isnull := False\<rparr>) s))))"

definition updated_row :: "transaction \<Rightarrow> stagedRow" where
  "updated_row tx =
     (let c = tx_currentCmdState tx; uur = cs_originaluur c
      in (um_get stagedRow0 uur (tx_stagedRows tx))
           \<lparr>sr_cmd := UPDATE, sr_newRow := cs_newRow c, sr_newengineid := uu_engineid (cs_newuur c),
            sr_newrowid := uu_rowid (cs_newuur c), sr_originalengineid := uu_engineid uur,
            sr_originalrowid := uu_rowid uur\<rparr>)"

definition finish_update :: "stagedRow \<times> transaction \<Rightarrow> transaction" where
  "finish_update = (\<lambda>(sr, tx).
     let tx1 = cmdstate_update (\<lambda>c. c\<lparr>cs_pendingStagedRows :=
                 um_put (cs_originaluur c) sr (cs_pendingStagedRows c)\<rparr>) tx
     in if cs_uniqueindices (tx_currentCmdState tx1) = 0 then continueUpdateRow_5 tx1 else tx1)"

definition continueUpdateRow_3 :: "transactionEnv \<Rightarrow> transaction \<Rightarrow> transaction res" where
  "continueUpdateRow_3 ev tx =
     (let sRow = updated_row tx; uur = cs_originaluur (tx_currentCmdState tx);
          tx1 = cmdstate_update (\<lambda>c. c\<lparr>cs_uniqueindices := 0\<rparr>)
            (tx\<lparr>tx_stagedRows := um_update stagedRow0 id uur (tx_stagedRows tx)\<rparr>);
          vs = cs_newFieldValues (tx_currentCmdState tx1)
      in if vs = [] then Inr (finish_update (sRow, tx1))
         else rbind (tx_tablePtr ev tx1) (\<lambda>t.
           rmap finish_update (rfold (update_unique ev t) [0..<length vs] (sRow, tx1))))"

definition continueUpdateRow_1 :: "transactionEnv \<Rightarrow> transaction \<Rightarrow> transaction res" where
  "continueUpdateRow_1 ev tx =
     (let c = tx_currentCmdState tx; uur = cs_newuur c
      in sendTransaction ev UPDATEROW 2 (uu_engineid uur)
           (message.PAYLOADSUBTRANSACTION (subtransactionCmd0
              \<lparr>sc_subtransactionStruct := subtransactionStruct0
                 \<lparr>ss_tableid := uu_tableid uur, ss_rowid := uu_rowid uur\<rparr>,
               sc_row := cs_newRow c\<rparr>)) tx)"

definition continueUpdateRow_2 :: "transactionEnv \<Rightarrow> subtransactionCmd \<Rightarrow> transaction \<Rightarrow>
    transaction res" where
  "continueUpdateRow_2 ev m tx =
     (let status = ss_status (sc_subtransactionStruct m)
      in rbind (if status \<noteq> STATUS_OK
                then rmap (reenter (status_num status))
                       (revert ev (cs_newuur (tx_currentCmdState tx)) tx)
                else Inr tx) (\<lambda>tx1.
         rbind (live tx1) (continueUpdateRow_3 ev)))"

text \<open>
  Case 4 counts the replies down in \<open>enginesWithUniqueIndices\<close>, which belongs to insert, and not
  in \<open>currentCmdState.uniqueindices\<close>.
\<close>

definition mark_index :: "int \<Rightarrow> locktype \<Rightarrow> transaction \<Rightarrow> transaction" where
  "mark_index fieldid l = cmdstate_update (\<lambda>c.
     c\<lparr>cs_pendingStagedRows := um_update stagedRow0
         (\<lambda>sr. sr\<lparr>sr_uniqueIndices :=
            um_update \<lparr>lf_locktype = NOLOCK, lf_engineid = 0, lf_fieldVal = fieldValue0\<rparr>
              (\<lambda>lf. lf\<lparr>lf_locktype := l\<rparr>) fieldid (sr_uniqueIndices sr)\<rparr>)
         (cs_originaluur c) (cs_pendingStagedRows c)\<rparr>)"

definition update_granted :: "transaction \<Rightarrow> transaction" where
  "update_granted tx =
     (let tx1 = tx\<lparr>tx_enginesWithUniqueIndices := tx_enginesWithUniqueIndices tx - 1\<rparr>
      in if tx_enginesWithUniqueIndices tx1 \<noteq> 0 then tx1 else continueUpdateRow_5 tx1)"

definition continueUpdateRow_4 :: "transactionEnv \<Rightarrow> subtransactionCmd \<Rightarrow> transaction \<Rightarrow>
    transaction res" where
  "continueUpdateRow_4 ev m tx =
     (let s = sc_subtransactionStruct m; fieldid = ss_fieldid s;
          check = (\<lambda>ch. checkLock ev ch False (Some (sc_fieldVal m)))
      in case ss_locktype s of
           NOLOCK \<Rightarrow> abortCmd ev APISTATUS_UNIQUECONSTRAINT tx
         | INDEXLOCK \<Rightarrow> rmap update_granted (check ADDLOCKEDENTRY (mark_index fieldid INDEXLOCK tx))
         | INDEXPENDINGLOCK \<Rightarrow> check ADDLOCKPENDINGENTRY (mark_index fieldid INDEXPENDINGLOCK tx)
         | PENDINGTOINDEXLOCK \<Rightarrow>
             rmap update_granted (check TRANSITIONPENDINGTOLOCKEDENTRY (mark_index fieldid INDEXLOCK tx))
         | PENDINGTOINDEXNOLOCK \<Rightarrow> abortCmd ev APISTATUS_UNIQUECONSTRAINT tx
         | _ \<Rightarrow> Inr (update_granted tx))"

definition continueUpdateRow :: "transactionEnv \<Rightarrow> int \<Rightarrow> transaction \<Rightarrow> transaction res" where
  "continueUpdateRow ev entrypoint tx =
     (if entrypoint = 1 then continueUpdateRow_1 ev tx
      else if entrypoint = 2 then rbind (subtransactionCmdRef tx) (\<lambda>m. continueUpdateRow_2 ev m tx)
      else if entrypoint = 3 then continueUpdateRow_3 ev tx
      else if entrypoint = 4 then rbind (subtransactionCmdRef tx) (\<lambda>m. continueUpdateRow_4 ev m tx)
      else if entrypoint = 5 then Inr (continueUpdateRow_5 tx)
      else Inr tx)"

section \<open>Replacement of a row\<close>

text \<open>The first field decides on the partition, so a row whose first field changes is replaced.\<close>

fun nulls_ok :: "transactionEnv \<Rightarrow> nat list \<Rightarrow> transaction \<Rightarrow> bool res" where
  "nulls_ok ev [] tx = Inr True"
| "nulls_ok ev (n # ns) tx =
     rbind (checkNullConstraintOK ev (int n) tx) (\<lambda>ok. if ok then nulls_ok ev ns tx else Inr False)"

definition replace :: "transactionEnv \<Rightarrow> transaction \<Rightarrow> transaction res" where
  "replace ev tx =
     (let c = tx_currentCmdState tx
      in rbind (nulls_ok ev [0..<length (cs_newFieldValues c)] tx) (\<lambda>ok.
           if \<not> ok then Inr (reenter APISTATUS_NULLCONSTRAINT tx)
           else rbind (vec_at 0 (cs_newFieldValues c)) (\<lambda>v.
             rbind (tx_tablePtr ev tx) (\<lambda>t. rbind (getEngineid ev t 0 v) (\<lambda>engineid.
               let tableid = uu_tableid (cs_originaluur c);
                   tx1 = cmdstate_update (\<lambda>c. c\<lparr>cs_newuur := (cs_newuur c)
                           \<lparr>uu_tableid := tableid, uu_engineid := engineid\<rparr>\<rparr>) tx
               in sendTransaction ev NEWROW 1 engineid
                    (message.PAYLOADSUBTRANSACTION (subtransactionCmd0
                       \<lparr>sc_subtransactionStruct := subtransactionStruct0\<lparr>ss_tableid := tableid\<rparr>,
                        sc_row := cs_newRow c\<rparr>)) tx1)))))"

definition continueReplaceRow_1 :: "transactionEnv \<Rightarrow> subtransactionCmd \<Rightarrow> transaction \<Rightarrow>
    transaction res" where
  "continueReplaceRow_1 ev m tx =
     (let rowid = ss_rowid (sc_subtransactionStruct m);
          tx1 = cmdstate_update (\<lambda>c. c\<lparr>cs_newuur := (cs_newuur c)\<lparr>uu_rowid := rowid\<rparr>\<rparr>) tx;
          c = tx_currentCmdState tx1; orig = cs_originaluur c
      in sendTransaction ev REPLACEDELETEROW 2 (uu_engineid orig)
           (message.PAYLOADSUBTRANSACTION (subtransactionCmd0
              \<lparr>sc_subtransactionStruct := subtransactionStruct0
                 \<lparr>ss_tableid := uu_tableid orig, ss_rowid := uu_rowid orig,
                  ss_forward_rowid := uu_rowid (cs_newuur c),
                  ss_forward_engineid := uu_engineid (cs_newuur c)\<rparr>\<rparr>)) tx1)"

text \<open>A failure stores the entry at index 0 of a new vector, which is empty.\<close>

definition continueReplaceRow_2 :: "transactionEnv \<Rightarrow> subtransactionCmd \<Rightarrow> transaction \<Rightarrow>
    transaction res" where
  "continueReplaceRow_2 ev m tx =
     (if ss_status (sc_subtransactionStruct m) \<noteq> STATUS_OK then
        rbind (vec_at 0 (cr_rofs commitRollbackMsg0)) (\<lambda>_.
          let uur = cs_newuur (tx_currentCmdState tx)
          in rmap (reenter APISTATUS_NOTOK)
               (send_rof ev ROLLBACKCMD (uu_engineid uur) (row_rof (uu_tableid uur) (uu_rowid uur)) tx))
      else continueUpdateRow ev 3 (tx\<lparr>tx_pendingcmd := UPDATE\<rparr>))"

definition continueReplaceRow :: "transactionEnv \<Rightarrow> int \<Rightarrow> transaction \<Rightarrow> transaction res" where
  "continueReplaceRow ev entrypoint tx =
     (if entrypoint = 1 then rbind (subtransactionCmdRef tx) (\<lambda>m. continueReplaceRow_1 ev m tx)
      else if entrypoint = 2 then rbind (subtransactionCmdRef tx) (\<lambda>m. continueReplaceRow_2 ev m tx)
      else Inr tx)"

section \<open>updateRow\<close>

definition updated_value :: "cmdState \<Rightarrow> (int \<times> fieldValue) list \<Rightarrow> nat \<Rightarrow> fieldValue" where
  "updated_value c fieldsToUpdate n =
     (let old = cs_originalFieldValues c ! n
      in if \<not> cs_isupdatemultiplefields c
         then (if cs_fieldid c = int n then cs_fieldVal c else old)
         else um_get old (int n) fieldsToUpdate)"

text \<open>The new values are appended to what \<open>newFieldValues\<close> holds: it is nowhere cleared.\<close>

definition append_values :: "transaction \<Rightarrow> transaction" where
  "append_values tx =
     cmdstate_update (\<lambda>c. c\<lparr>cs_newFieldValues := cs_newFieldValues c @
         map (updated_value c (tx_fieldsToUpdate tx)) [0..<length (cs_originalFieldValues c)]\<rparr>) tx"

definition start_update :: "transactionEnv \<Rightarrow> transaction \<Rightarrow> transaction res" where
  "start_update ev tx =
     (let c = tx_currentCmdState tx
      in if (if cs_isupdatemultiplefields c then map_count 0 (tx_fieldsToUpdate tx)
             else cs_fieldid c = 0)
         then replace ev (tx\<lparr>tx_pendingcmd := REPLACE\<rparr>)
         else continueUpdateRow ev 1
                (cmdstate_update (\<lambda>c. c\<lparr>cs_newuur := cs_originaluur c\<rparr>)
                  (tx\<lparr>tx_pendingcmd := UPDATE\<rparr>)))"

definition updateRow :: "transactionEnv \<Rightarrow> transaction \<Rightarrow> transaction res" where
  "updateRow ev tx =
     (let c = tx_currentCmdState tx; uur = cs_originaluur c
      in case map_of (tx_stagedRows tx) uur of
           None \<Rightarrow> Inr (reenter APISTATUS_NOTOK tx)
         | Some sr \<Rightarrow>
             if sr_locktype sr \<noteq> WRITELOCK \<or> sr_cmd sr \<noteq> NOCOMMAND \<or> tx_pendingcmd tx \<noteq> NOCOMMAND
             then Inr (reenter APISTATUS_NOTOK tx)
             else
               let (i, tx0) = getnextpendingcmdid tx;
                   tx1 = cmdstate_update (\<lambda>c. c\<lparr>cs_tablePtr := Some (uu_tableid uur),
                             cs_originalFieldValues := []\<rparr>) (tx0\<lparr>tx_pendingcmdid := i\<rparr>)
               in rbind (tx_tablePtr ev tx1) (\<lambda>t.
                  rbind (unmakerow (sr_originalRow sr) [] t) (\<lambda>(ok, vs).
                    let tx2 = cmdstate_update (\<lambda>c. c\<lparr>cs_originalFieldValues := vs\<rparr>) tx1
                    in if \<not> ok then Inr (reenter APISTATUS_FIELD tx2)
                       else
                         let tx3 = append_values tx2; c3 = tx_currentCmdState tx3
                         in rbind (makerow (cs_newFieldValues c3) (cs_newRow c3) t)
                              (\<lambda>(ok, vs', row, _).
                              let tx4 = cmdstate_update (\<lambda>c. c\<lparr>cs_newFieldValues := vs', cs_newRow := row\<rparr>) tx3
                              in if \<not> ok then Inr (reenter APISTATUS_FIELD tx4)
                                 else start_update ev tx4))))"

end
