(* ===== verification/Transaction_Commit.thy ===== *)
theory Transaction_Commit
  imports Transaction_Update
begin

text \<open>
  Commit (\<open>infinisqld/Transaction.cc\<close>): \<open>commit\<close> dispatches the changed rows to the replicas,
  \<open>continueCommitTransaction\<close> then builds, from the staged rows, one message per engine with the
  rows to commit and the index entries to add, delete and replace (entry point 1), counts the
  replies (2), commits the rows that were replaced after that (3) and ends the subtransactions (4).
\<close>

section \<open>The messages of a commit\<close>

type_synonym engineMsgs = "(int \<times> commitRollbackMsg) list"

definition addRof :: "int \<Rightarrow> rowOrField \<Rightarrow> engineMsgs \<Rightarrow> engineMsgs" where
  "addRof engineid rof msgs =
     um_update commitRollbackMsg0 (\<lambda>m. m\<lparr>cr_rofs := cr_rofs m @ [rof]\<rparr>) engineid msgs"

text \<open>The engine of the null entries of field \<open>n\<close>\<close>

definition null_partition :: "transactionEnv \<Rightarrow> nat \<Rightarrow> int res" where
  "null_partition ev n =
     (let d = (word_of_int (ev_numpartitions ev) :: u64)
      in if d = 0 then Inl DivByZero else Inr (sint ((of_nat n :: u64) mod d)))"

definition trim_field :: "field \<Rightarrow> fieldValue \<Rightarrow> fieldValue" where
  "trim_field fd v =
     (if fd_type fd = F_CHARX \<or> fd_type fd = F_VARCHAR then v\<lparr>str := trimspace (str v)\<rparr> else v)"

definition entry_rof :: "int \<Rightarrow> nat \<Rightarrow> rowOrField" where
  "entry_rof tableid n = rowOrField0\<lparr>rf_isrow := False, rf_tableid := tableid, rf_fieldid := int n\<rparr>"

definition null_value :: fieldValue where
  "null_value = fieldValue0\<lparr>isnull := True\<rparr>"

text \<open>
  The entry of value \<open>v\<close> for the row \<open>(rowid, engineid)\<close>: one that is locked already, of a unique
  index, is committed (without row and engine), another is added.
\<close>

definition add_entry :: "transactionEnv \<Rightarrow> table \<Rightarrow> field \<Rightarrow> int \<Rightarrow> nat \<Rightarrow> fieldValue \<Rightarrow> int \<times> int \<Rightarrow>
    engineMsgs \<Rightarrow> engineMsgs res" where
  "add_entry ev tab fd tableid n v = (\<lambda>(rowid, engineid) msgs.
     let rof = entry_rof tableid n
     in if isnull v then
          rmap (\<lambda>e. addRof e (rof\<lparr>rf_isnotaddunique := True, rf_deleteindexentry := False,
                  rf_rowid := rowid, rf_engineid := engineid, rf_fieldVal := v\<rparr>) msgs)
            (null_partition ev n)
        else
          let v' = trim_field fd v;
              rof1 = rof\<lparr>rf_fieldVal := v'\<rparr>;
              rof2 = (if isunique (fd_index fd) then rof1\<lparr>rf_isnotaddunique := False\<rparr>
                      else rof1\<lparr>rf_isnotaddunique := True, rf_deleteindexentry := False,
                                rf_engineid := engineid, rf_rowid := rowid\<rparr>)
          in rmap (\<lambda>e. addRof e rof2 msgs) (getEngineid ev tab (int n) v'))"

definition delete_entry :: "transactionEnv \<Rightarrow> table \<Rightarrow> field \<Rightarrow> int \<Rightarrow> nat \<Rightarrow> fieldValue \<Rightarrow> int \<times> int \<Rightarrow>
    engineMsgs \<Rightarrow> engineMsgs res" where
  "delete_entry ev tab fd tableid n v = (\<lambda>(rowid, engineid) msgs.
     let rof = (entry_rof tableid n)\<lparr>rf_isnotaddunique := True, rf_deleteindexentry := True,
                 rf_engineid := engineid, rf_rowid := rowid\<rparr>
     in if isnull v then
          rmap (\<lambda>e. addRof e (rof\<lparr>rf_fieldVal := null_value\<rparr>) msgs) (null_partition ev n)
        else rmap (\<lambda>e. addRof e (rof\<lparr>rf_fieldVal := trim_field fd v\<rparr>) msgs)
               (getEngineid ev tab (int n) (trim_field fd v)))"

text \<open>The entry stays, for the row that moved.\<close>

definition replace_entry :: "transactionEnv \<Rightarrow> table \<Rightarrow> field \<Rightarrow> int \<Rightarrow> nat \<Rightarrow> fieldValue \<Rightarrow> stagedRow \<Rightarrow>
    engineMsgs \<Rightarrow> engineMsgs res" where
  "replace_entry ev tab fd tableid n v sr msgs =
     (let rof = (entry_rof tableid n)\<lparr>rf_fieldVal := v, rf_isreplace := True,
            rf_isnotaddunique := True, rf_rowid := sr_originalrowid sr,
            rf_engineid := sr_originalengineid sr, rf_newrowid := sr_newrowid sr,
            rf_newengineid := sr_newengineid sr\<rparr>
      in if isnull v then rmap (\<lambda>e. addRof e rof msgs) (null_partition ev n)
         else rmap (\<lambda>e. addRof e (rof\<lparr>rf_fieldVal := trim_field fd v\<rparr>) msgs)
                (getEngineid ev tab (int n) (trim_field fd v)))"

text \<open>The loop over the fields with an index\<close>

definition indexed_fields :: "table \<Rightarrow> (nat \<Rightarrow> field \<Rightarrow> engineMsgs \<Rightarrow> engineMsgs res) \<Rightarrow> engineMsgs \<Rightarrow>
    engineMsgs res" where
  "indexed_fields tab f =
     rfold (\<lambda>n msgs. let fd = tb_fields tab ! n
                     in if indextype (fd_index fd) = NONE then Inr msgs else f n fd msgs)
       [0..<length (tb_fields tab)]"

definition commit_insert :: "transactionEnv \<Rightarrow> table \<Rightarrow> uuRecord \<Rightarrow> stagedRow \<Rightarrow> engineMsgs \<Rightarrow>
    engineMsgs res" where
  "commit_insert ev tab uur sr msgs =
     rbind (unmakerow (sr_newRow sr) [] tab) (\<lambda>(_, vs).
       indexed_fields tab (\<lambda>n fd ms. rbind (vec_at (int n) vs) (\<lambda>v.
           add_entry ev tab fd (uu_tableid uur) n (if isnull v then null_value else v)
             (uu_rowid uur, uu_engineid uur) ms))
         (addRof (uu_engineid uur) (row_rof (uu_tableid uur) (uu_rowid uur)) msgs))"

definition commit_delete :: "transactionEnv \<Rightarrow> table \<Rightarrow> uuRecord \<Rightarrow> stagedRow \<Rightarrow> engineMsgs \<Rightarrow>
    engineMsgs res" where
  "commit_delete ev tab uur sr msgs =
     rbind (unmakerow (sr_originalRow sr) [] tab) (\<lambda>(_, vs).
       indexed_fields tab (\<lambda>n fd ms. rbind (vec_at (int n) vs) (\<lambda>v.
           delete_entry ev tab fd (uu_tableid uur) n v (uu_rowid uur, uu_engineid uur) ms))
         (addRof (uu_engineid uur) (row_rof (uu_tableid uur) (uu_rowid uur)) msgs))"

definition change_entry :: "transactionEnv \<Rightarrow> table \<Rightarrow> field \<Rightarrow> int \<Rightarrow> nat \<Rightarrow> fieldValue \<Rightarrow> fieldValue \<Rightarrow>
    stagedRow \<Rightarrow> engineMsgs \<Rightarrow> engineMsgs res" where
  "change_entry ev tab fd tableid n old new sr msgs =
     rbind (add_entry ev tab fd tableid n new (sr_newrowid sr, sr_newengineid sr) msgs)
       (delete_entry ev tab fd tableid n old (sr_originalrowid sr, sr_originalengineid sr))"

definition commit_update :: "transactionEnv \<Rightarrow> table \<Rightarrow> uuRecord \<Rightarrow> stagedRow \<Rightarrow> engineMsgs \<Rightarrow>
    engineMsgs res" where
  "commit_update ev tab uur sr msgs =
     rbind (unmakerow (sr_originalRow sr) [] tab) (\<lambda>(_, olds).
     rbind (unmakerow (sr_newRow sr) [] tab) (\<lambda>(_, news).
       indexed_fields tab (\<lambda>n fd ms. rbind (vec_at (int n) olds) (\<lambda>old. rbind (vec_at (int n) news) (\<lambda>new.
           if same_value old new then Inr ms
           else change_entry ev tab fd (uu_tableid uur) n old new sr ms)))
         (addRof (uu_engineid uur) (row_rof (uu_tableid uur) (uu_rowid uur)) msgs)))"

text \<open>
  A row that was replaced: the new row is committed with the first messages, the old one by a
  message of its own that is kept for entry point 2.
\<close>

definition commit_replace :: "transactionEnv \<Rightarrow> table \<Rightarrow> uuRecord \<Rightarrow> stagedRow \<Rightarrow>
    engineMsgs \<times> engineMsgs \<Rightarrow> (engineMsgs \<times> engineMsgs) res" where
  "commit_replace ev tab uur sr = (\<lambda>(msgs, replaceMsgs).
     rbind (unmakerow (sr_originalRow sr) [] tab) (\<lambda>(_, olds).
     rbind (unmakerow (sr_newRow sr) [] tab) (\<lambda>(_, news).
     rmap (\<lambda>ms. (ms, addRof (uu_engineid uur) (row_rof (uu_tableid uur) (uu_rowid uur)) replaceMsgs))
       (indexed_fields tab (\<lambda>n fd ms. rbind (vec_at (int n) olds) (\<lambda>old. rbind (vec_at (int n) news) (\<lambda>new.
           if same_value old new then replace_entry ev tab fd (uu_tableid uur) n old sr ms
           else change_entry ev tab fd (uu_tableid uur) n old
                  (if isnull new then null_value else new) sr ms)))
         (addRof (sr_newengineid sr) (row_rof (uu_tableid uur) (sr_newrowid sr)) msgs)))))"

definition moved :: "stagedRow \<Rightarrow> bool" where
  "moved sr \<longleftrightarrow> sr_originalrowid sr \<noteq> sr_newrowid sr \<or> sr_originalengineid sr \<noteq> sr_newengineid sr"

definition commit_stagedRow :: "transactionEnv \<Rightarrow> transaction \<Rightarrow> uuRecord \<times> stagedRow \<Rightarrow>
    engineMsgs \<times> engineMsgs \<Rightarrow> (engineMsgs \<times> engineMsgs) res" where
  "commit_stagedRow ev tx = (\<lambda>(uur, sr) (msgs, replaceMsgs).
     rbind (tx_table ev (uu_tableid uur) tx) (\<lambda>tab.
       case sr_cmd sr of
         NOCOMMAND \<Rightarrow>
           Inr (addRof (uu_engineid uur) (row_rof (uu_tableid uur) (uu_rowid uur)) msgs, replaceMsgs)
       | INSERT \<Rightarrow> rmap (\<lambda>ms. (ms, replaceMsgs)) (commit_insert ev tab uur sr msgs)
       | DELETE \<Rightarrow> rmap (\<lambda>ms. (ms, replaceMsgs)) (commit_delete ev tab uur sr msgs)
       | UPDATE \<Rightarrow>
           if \<not> moved sr then rmap (\<lambda>ms. (ms, replaceMsgs)) (commit_update ev tab uur sr msgs)
           else commit_replace ev tab uur sr (msgs, replaceMsgs)
       | _ \<Rightarrow> Inr (msgs, replaceMsgs)))"

definition commit_messages :: "transactionEnv \<Rightarrow> transaction \<Rightarrow> (engineMsgs \<times> engineMsgs) res" where
  "commit_messages ev tx = rfold (commit_stagedRow ev tx) (tx_stagedRows tx) ([], [])"

section \<open>The continuation\<close>

definition send_commits :: "transactionEnv \<Rightarrow> int \<Rightarrow> engineMsgs \<Rightarrow> transaction \<Rightarrow> transaction res" where
  "send_commits ev entrypoint =
     rfold (\<lambda>(engineid, m).
       sendTransaction ev COMMITCMD entrypoint engineid (message.PAYLOADCOMMITROLLBACK m))"

text \<open>Case 4: an engine out of range ends the loop; the test admits \<open>numpartitions\<close> itself.\<close>

fun end_subtransactions :: "transactionEnv \<Rightarrow> (int \<times> int) list \<Rightarrow> transaction \<Rightarrow> transaction res" where
  "end_subtransactions ev [] tx = Inr (reenter APISTATUS_OK tx)"
| "end_subtransactions ev (x # xs) tx =
     (if fst x > ev_topnumpartitions ev \<or> fst x < 0 then Inr (reenter APISTATUS_NOTOK tx)
      else rbind (send_endsubtransaction ev x tx) (end_subtransactions ev xs))"

definition continueCommit_4 :: "transactionEnv \<Rightarrow> transaction \<Rightarrow> transaction res" where
  "continueCommit_4 ev tx = end_subtransactions ev (tx_engineToSubTransactionids tx) tx"

definition continueCommit_1 :: "transactionEnv \<Rightarrow> transaction \<Rightarrow> transaction res" where
  "continueCommit_1 ev tx =
     (let tx1 = tx\<lparr>tx_waitfordispatched := tx_waitfordispatched tx - 1\<rparr>
      in if tx_waitfordispatched tx1 \<noteq> 0 then Inr tx1
         else rbind (commit_messages ev tx1) (\<lambda>(msgs, replaceMsgs).
           let tx2 = cmdstate_update (\<lambda>c. c\<lparr>cs_replaceEngineMsgs := replaceMsgs,
                         cs_engines := int (length msgs)\<rparr>) tx1
           in if msgs = [] then continueCommit_4 ev tx2 else send_commits ev 2 msgs tx2))"

definition continueCommit_2 :: "transactionEnv \<Rightarrow> transaction \<Rightarrow> transaction res" where
  "continueCommit_2 ev tx =
     (let tx1 = cmdstate_update (\<lambda>c. c\<lparr>cs_engines := cs_engines c - 1\<rparr>) tx;
          c = tx_currentCmdState tx1
      in if cs_engines c \<noteq> 0 then Inr tx1
         else if cs_replaceEngineMsgs c \<noteq> [] then
           send_commits ev 3 (cs_replaceEngineMsgs c)
             (cmdstate_update (\<lambda>c. c\<lparr>cs_engines := int (length (cs_replaceEngineMsgs c))\<rparr>) tx1)
         else continueCommit_4 ev tx1)"

definition continueCommit_3 :: "transactionEnv \<Rightarrow> transaction \<Rightarrow> transaction res" where
  "continueCommit_3 ev tx =
     (let tx1 = cmdstate_update (\<lambda>c. c\<lparr>cs_engines := cs_engines c - 1\<rparr>) tx
      in if cs_engines (tx_currentCmdState tx1) \<noteq> 0 then Inr tx1 else continueCommit_4 ev tx1)"

definition continueCommitTransaction :: "transactionEnv \<Rightarrow> int \<Rightarrow> transaction \<Rightarrow> transaction res" where
  "continueCommitTransaction ev entrypoint tx =
     (if entrypoint = 1 then continueCommit_1 ev tx
      else if entrypoint = 2 then continueCommit_2 ev tx
      else if entrypoint = 3 then continueCommit_3 ev tx
      else if entrypoint = 4 then continueCommit_4 ev tx
      else Inr tx)"

section \<open>Dispatch to the replicas\<close>

definition dispatch_record :: "uuRecord \<Rightarrow> stagedRow \<Rightarrow> record_s" where
  "dispatch_record uur sr =
     \<lparr>re_rowid = (if sr_cmd sr = DELETE then sr_originalrowid sr else sr_newrowid sr),
      re_primitive = sr_cmd sr, re_tableid = uu_tableid uur,
      re_previoussubtransactionid = sr_previoussubtransactionid sr,
      re_row = (if sr_cmd sr = DELETE then sr_originalRow sr else sr_newRow sr),
      re_oldrow = (if sr_cmd sr = UPDATE then sr_originalRow sr else [])\<rparr>"

text \<open>A record is filed under the engine of the original row. \<open>None\<close>: nothing to dispatch.\<close>

definition makeMessageDispatch :: "transaction \<Rightarrow> dispatchMsg option" where
  "makeMessageDispatch tx =
     (let records = fold (\<lambda>(uur, sr) rs.
            if sr_cmd sr \<in> {INSERT, UPDATE, DELETE}
            then um_update [] (\<lambda>xs. xs @ [dispatch_record uur sr]) (uu_engineid uur) rs else rs)
          (tx_stagedRows tx) []
      in if records = [] then None
         else Some \<lparr>dp_dispatchStruct = \<lparr>di_transactionid = tx_transactionid tx,
                      di_domainid = tx_domainid tx\<rparr>,
                    dp_pidsids = tx_engineToSubTransactionids tx, dp_records = records\<rparr>)"

text \<open>
  With two replicas one message goes to the other one. With more, the loop serves all replicas from
  the second on, and the last of them is served again.
\<close>

definition start_commit :: "transactionEnv \<Rightarrow> transaction \<Rightarrow> transaction res" where
  "start_commit ev tx =
     (if ev_numreplicas ev = 1 then
        continueCommitTransaction ev 1 (tx\<lparr>tx_waitfordispatched := 1\<rparr>)
      else if ev_numreplicas ev = 2 then
        (case makeMessageDispatch tx of
           None \<Rightarrow> Inr tx
         | Some m \<Rightarrow> Inr (emit (ToActor (ev_replicaAddress ev) m) tx))
      else
        (case makeMessageDispatch tx of
           None \<Rightarrow> Inr tx
         | Some m \<Rightarrow>
             let as = ev_replicaAddresses ev
             in if as = [] then Inl OutOfRange
                else Inr (emit (ToActor (last as) m)
                       (fold (\<lambda>n. emit (ToActor (as ! n) m)) [1..<length as] tx))))"

definition commit :: "transactionEnv \<Rightarrow> transaction \<Rightarrow> transaction res" where
  "commit ev tx =
     (let (i, tx0) = getnextpendingcmdid tx
      in start_commit ev (tx0\<lparr>tx_pendingcmdid := i, tx_pendingcmd := COMMIT,
           tx_waitfordispatched := ev_numreplicas ev - 1\<rparr>))"

end
