(* ===== verification/Transaction_Sql.thy ===== *)
theory Transaction_Sql
  imports Transaction_Commit
begin

text \<open>
  The primitives of SQL statements (\<open>infinisqld/Transaction.cc\<close>): the search for a predicate with
  its operands decoded from the strings of the syntax tree, the search for all rows, their
  continuations, and the dispatch of a message to the continuation of the pending command
  (\<open>processTransactionMessage\<close>).
\<close>

section \<open>Operands\<close>

definition OPERAND_STRING :: byte where "OPERAND_STRING = 97"
definition OPERAND_IDENTIFIER :: byte where "OPERAND_IDENTIFIER = 98"
definition OPERAND_PARAMETER :: byte where "OPERAND_PARAMETER = 99"
definition OPERAND_SUBQUERY :: byte where "OPERAND_SUBQUERY = 100"
definition OPERAND_INTEGER :: byte where "OPERAND_INTEGER = 101"
definition OPERAND_FLOAT :: byte where "OPERAND_FLOAT = 102"
definition OPERAND_AGGREGATE :: byte where "OPERAND_AGGREGATE = 103"
definition OPERAND_FIELDID :: byte where "OPERAND_FIELDID = 104"
definition OPERAND_NULL :: byte where "OPERAND_NULL = 105"
definition OPERAND_PREDICATERESULTS :: byte where "OPERAND_PREDICATERESULTS = 106"
definition OPERAND_SUBQUERYRESULTS :: byte where "OPERAND_SUBQUERYRESULTS = 107"
definition OPERAND_BOOLEAN :: byte where "OPERAND_BOOLEAN = 108"

lemmas operand_defs = OPERAND_STRING_def OPERAND_IDENTIFIER_def OPERAND_PARAMETER_def
  OPERAND_SUBQUERY_def OPERAND_INTEGER_def OPERAND_FLOAT_def OPERAND_AGGREGATE_def
  OPERAND_FIELDID_def OPERAND_NULL_def OPERAND_PREDICATERESULTS_def OPERAND_SUBQUERYRESULTS_def
  OPERAND_BOOLEAN_def

text \<open>\<open>memcpy\<close> from an operand may read the null character behind it; \<open>substr\<close> throws past the end.\<close>

definition copy_word :: "nat \<Rightarrow> bytes \<Rightarrow> u64 res" where
  "copy_word pos s = rmap (\<lambda>bs. word_of_int (le_val bs)) (read_at pos 8 (s @ [0]))"

definition copy_ldouble :: "nat \<Rightarrow> bytes \<Rightarrow> ldouble res" where
  "copy_ldouble pos s = rmap (\<lambda>bs. LD (word_of_int (le_val bs))) (read_at pos 16 (s @ [0]))"

definition substr_from :: "nat \<Rightarrow> bytes \<Rightarrow> bytes res" where
  "substr_from pos s = (if pos \<le> length s then Inr (drop pos s) else Inl OutOfRange)"

definition two_values :: "(fieldValue \<Rightarrow> fieldValue) \<Rightarrow> (fieldValue \<Rightarrow> fieldValue) \<Rightarrow> fieldValue list" where
  "two_values f g = [f fieldValue0, g fieldValue0]"

text \<open>The operand of \<open>BETWEEN\<close>: two values, of strings the length of the first before them\<close>

definition decode_between_numbers :: "bytes \<Rightarrow> fieldValue list option res" where
  "decode_between_numbers right =
     rbind (byte_at 0 right) (\<lambda>tag.
       if tag = OPERAND_INTEGER then
         rbind (copy_word 1 right) (\<lambda>x. rbind (copy_word 9 right) (\<lambda>y.
           Inr (Some (two_values (put_integer (I64 x)) (put_integer (I64 y))))))
       else if tag = OPERAND_FLOAT then
         rbind (copy_ldouble 1 right) (\<lambda>x. rbind (copy_ldouble 17 right) (\<lambda>y.
           Inr (Some (two_values (copy_floating x) (copy_floating y)))))
       else Inr None)"

definition decode_between_chars :: "bytes \<Rightarrow> nat \<Rightarrow> fieldValue list option res" where
  "decode_between_chars right len =
     rbind (byte_at 9 right) (\<lambda>x. rbind (byte_at (size_t (9 + len)) right) (\<lambda>y.
       Inr (Some (two_values (put_character (I8 x)) (put_character (I8 y))))))"

definition decode_between :: "fieldtype \<Rightarrow> bytes \<Rightarrow> fieldValue list option res" where
  "decode_between t right =
     rbind (byte_at 0 right) (\<lambda>tag.
       if tag = OPERAND_STRING then
         rbind (copy_word 1 right) (\<lambda>w. let len = unat w
           in if t = F_CHAR then decode_between_chars right len
              else if 9 + len \<le> length right then
                Inr (Some (two_values (\<lambda>v. v\<lparr>str := take len (drop 9 right)\<rparr>)
                                      (\<lambda>v. v\<lparr>str := drop (9 + len) right\<rparr>)))
              else Inl OutOfRange)
       else decode_between_numbers right)"

definition decode_notbetween :: "fieldtype \<Rightarrow> bytes \<Rightarrow> fieldValue list option res" where
  "decode_notbetween t right =
     rbind (byte_at 0 right) (\<lambda>tag.
       if tag = OPERAND_STRING then
         rbind (copy_word 1 right) (\<lambda>w. let len = unat w
           in if t = F_CHAR then decode_between_chars right len
              else rbind (substr_from 9 right) (\<lambda>x. rbind (substr_from (size_t (9 + len)) right) (\<lambda>y.
                Inr (Some (two_values (\<lambda>v. v\<lparr>str := take len x\<rparr>) (\<lambda>v. v\<lparr>str := y\<rparr>))))))
       else decode_between_numbers right)"

definition decode_single :: "fieldtype \<Rightarrow> bytes \<Rightarrow> fieldValue list option res" where
  "decode_single t right =
     rbind (byte_at 0 right) (\<lambda>tag.
       if tag = OPERAND_STRING then
         (if t = F_CHAR
          then rbind (byte_at 1 right) (\<lambda>c. Inr (Some [put_character (I8 c) fieldValue0]))
          else rbind (substr_from 1 right) (\<lambda>s. Inr (Some [fieldValue0\<lparr>str := s\<rparr>])))
       else if tag = OPERAND_INTEGER then
         rbind (copy_word 1 right) (\<lambda>x. Inr (Some [put_integer (I64 x) fieldValue0]))
       else if tag = OPERAND_BOOLEAN then
         rbind (byte_at 1 right) (\<lambda>c. Inr (Some [put_boolean (c = 116) fieldValue0]))
       else if tag = OPERAND_FLOAT then
         rbind (copy_ldouble 1 right) (\<lambda>x. Inr (Some [copy_floating x fieldValue0]))
       else Inr None)"

text \<open>The values to search for; \<open>None\<close>: the operand is not supported, and the function returns.\<close>

definition decode_operand :: "operatortype \<Rightarrow> fieldtype \<Rightarrow> bytes \<Rightarrow> fieldValue list \<Rightarrow>
    fieldValue list option res" where
  "decode_operand op t right inValues =
     (case op of
        OPERATOR_BETWEEN \<Rightarrow> decode_between t right
      | OPERATOR_NOTBETWEEN \<Rightarrow> decode_notbetween t right
      | OPERATOR_IN \<Rightarrow> Inr (Some inValues)
      | OPERATOR_NOTIN \<Rightarrow> Inr (Some inValues)
      | OPERATOR_ISNULL \<Rightarrow> Inr (Some [])
      | OPERATOR_ISNOTNULL \<Rightarrow> Inr (Some [])
      | _ \<Rightarrow> decode_single t right)"

section \<open>Searches\<close>

text \<open>\<open>fieldid\<close> is not negative where it is divided (it indexes \<open>fields\<close>).\<close>

definition set_eventwaitcount :: "int \<Rightarrow> transaction \<Rightarrow> transaction" where
  "set_eventwaitcount n = sql_update (\<lambda>s. s\<lparr>sq_eventwaitcount := n\<rparr>)"

definition send_searches :: "transactionEnv \<Rightarrow> message \<Rightarrow> transaction \<Rightarrow> transaction res" where
  "send_searches ev cmd tx =
     rfold (\<lambda>n. sendTransaction ev INDEXSEARCH 1 (int n) cmd) [0..<nat (ev_numpartitions ev)]
       (set_eventwaitcount (ev_numpartitions ev) tx)"

definition search_equal :: "transactionEnv \<Rightarrow> field \<Rightarrow> int \<Rightarrow> int \<Rightarrow> locktype \<Rightarrow> searchParams \<Rightarrow>
    transaction \<Rightarrow> transaction res" where
  "search_equal ev fd tableid fieldid locktype sp tx =
     (let tx1 = set_eventwaitcount 1 tx
      in if fd_type fd = NOFIELDTYPE then Inr tx1
         else rbind (search_engine ev (fd_type fd) sp) (\<lambda>(e, sp').
           let sp2 = sp'\<lparr>sp_op := OPERATOR_EQ\<rparr>
           in if fieldid = 0 \<and> isunique (fd_index fd) then
                sendTransaction ev SEARCHRETURN1 2 e
                  (message.PAYLOADSUBTRANSACTION (subtransactionCmd0
                     \<lparr>sc_subtransactionStruct := subtransactionStruct0
                        \<lparr>ss_tableid := tableid, ss_fieldid := fieldid, ss_locktype := locktype\<rparr>,
                      sc_searchParameters := sp2\<rparr>)) tx1
              else sendTransaction ev INDEXSEARCH 1 e (indexsearch_cmd tableid fieldid sp2) tx1))"

definition search_others :: "transactionEnv \<Rightarrow> operatortype \<Rightarrow> int \<Rightarrow> int \<Rightarrow> searchParams \<Rightarrow>
    transaction \<Rightarrow> transaction res" where
  "search_others ev op tableid fieldid sp tx =
     (let cmd = indexsearch_cmd tableid fieldid (sp\<lparr>sp_op := op\<rparr>)
      in if op = OPERATOR_ISNULL then
           let d = ev_numpartitions ev
           in if d = 0 then Inl DivByZero
              else sendTransaction ev INDEXSEARCH 1 (fieldid mod \<bar>d\<bar>) cmd (set_eventwaitcount 1 tx)
         else send_searches ev cmd tx)"

definition new_sqlcmdstate :: "int \<Rightarrow> (uuRecord \<times> returnRow) list \<Rightarrow> int \<Rightarrow> locktype \<Rightarrow> int \<Rightarrow>
    transaction \<Rightarrow> transaction" where
  "new_sqlcmdstate statement results tableid locktype continuationData tx =
     tx\<lparr>tx_sqlcmdstate := sqlcmdstate0\<lparr>sq_statement := Some statement, sq_results := results,
          sq_locktype := locktype, sq_tableid := tableid, sq_continuationData := continuationData\<rparr>\<rparr>"

definition sqlPredicate :: "transactionEnv \<Rightarrow> int \<Rightarrow> operatortype \<Rightarrow> int \<Rightarrow> bytes \<Rightarrow> bytes \<Rightarrow> locktype \<Rightarrow>
    fieldValue list \<Rightarrow> int \<Rightarrow> (uuRecord \<times> returnRow) list \<Rightarrow> transaction \<Rightarrow> transaction res" where
  "sqlPredicate ev statement op tableid leftoperand rightoperand locktype inValues continuationData
       results tx =
     (let tx1 = new_sqlcmdstate statement results tableid locktype continuationData tx
      in if tx_pendingcmd tx1 \<noteq> NOCOMMAND
         then Inr (callback (SearchExpression 1 continuationData) tx1)
         else
           let (i, tx0) = getnextpendingcmdid tx1;
               tx2 = tx0\<lparr>tx_pendingcmdid := i, tx_pendingcmd := PRIMITIVE_SQLPREDICATE\<rparr>;
               operand = (if op = OPERATOR_ISNULL \<or> op = OPERATOR_ISNOTNULL then rightoperand
                          else leftoperand)
           in rbind (byte_at 0 operand) (\<lambda>tag.
              if tag \<noteq> OPERAND_FIELDID then Inr tx2
              else rbind (copy_word 1 operand) (\<lambda>w. let fieldid = sint w
                in rbind (tx_table ev tableid tx2) (\<lambda>t. rbind (field_at fieldid t) (\<lambda>fd.
                   rbind (decode_operand op (fd_type fd) rightoperand inValues) (\<lambda>vs.
                     case vs of
                       None \<Rightarrow> Inr tx2
                     | Some values \<Rightarrow>
                         let sp = searchParams0\<lparr>sp_values := values\<rparr>
                         in if op = OPERATOR_EQ then search_equal ev fd tableid fieldid locktype sp tx2
                            else search_others ev op tableid fieldid sp tx2))))))"

definition sqlSelectAll :: "transactionEnv \<Rightarrow> int \<Rightarrow> int \<Rightarrow> locktype \<Rightarrow> pendingprimitive \<Rightarrow>
    (uuRecord \<times> returnRow) list \<Rightarrow> transaction \<Rightarrow> transaction res" where
  "sqlSelectAll ev statement tableid locktype pendingprimitive results tx =
     (let tx1 = new_sqlcmdstate statement results tableid locktype 0 tx
      in if tx_pendingcmd tx1 \<noteq> NOCOMMAND then Inr (callback (ContinueSelect 1) tx1)
         else
           let (i, tx0) = getnextpendingcmdid tx1
           in send_searches ev
                (message.PAYLOADSUBTRANSACTION (subtransactionCmd0
                   \<lparr>sc_subtransactionStruct := subtransactionStruct0
                      \<lparr>ss_tableid := tableid, ss_fieldid := 0, ss_locktype := locktype\<rparr>,
                    sc_searchParameters := searchParams0\<lparr>sp_op := OPERATOR_SELECTALL\<rparr>\<rparr>))
                (tx0\<lparr>tx_pendingcmdid := i, tx_pendingcmd := pendingprimitive\<rparr>))"

section \<open>Continuations of a search\<close>

text \<open>
  With no hit \<open>pendingcmd\<close> is reset before it is tested, so the callback is always that of the
  search for all rows.
\<close>

definition end_command :: "transaction \<Rightarrow> transaction" where
  "end_command tx = tx\<lparr>tx_pendingcmd := NOCOMMAND, tx_pendingcmdid := 0\<rparr>"

definition no_hits :: "transaction \<Rightarrow> transaction" where
  "no_hits tx =
     (let tx1 = end_command tx
      in if tx_pendingcmd tx1 = PRIMITIVE_SQLPREDICATE
         then callback (SearchExpression 1 (sq_continuationData (tx_sqlcmdstate tx1))) tx1
         else callback (ContinueSelect 1) tx1)"

definition continueSqlPredicate_1 :: "transactionEnv \<Rightarrow> subtransactionCmd \<Rightarrow> transaction \<Rightarrow>
    transaction res" where
  "continueSqlPredicate_1 ev m tx =
     (let tx1 = sql_update (\<lambda>s. s\<lparr>sq_indexHits := sq_indexHits s @ sc_indexHits m,
                    sq_eventwaitcount := sq_eventwaitcount s - 1\<rparr>) tx;
          s = tx_sqlcmdstate tx1
      in if sq_eventwaitcount s \<noteq> 0 then Inr tx1
         else case sq_indexHits s of
             [] \<Rightarrow> Inr (no_hits tx1)
           | [h] \<Rightarrow>
               send_selectrows ev (sq_tableid s) (sq_locktype s) [(nl_engineid h, [nl_rowid h])]
                 (set_eventwaitcount 1 tx1)
           | hs \<Rightarrow>
               let payloads = group_hits hs
               in send_selectrows ev (sq_tableid s) (sq_locktype s) payloads
                    (set_eventwaitcount (int (length payloads)) tx1))"

text \<open>The rows received, up to one whose lock is pending, which aborts the statement (\<open>False\<close>)\<close>

fun sql_rows :: "int \<Rightarrow> returnRow list \<Rightarrow> transaction \<Rightarrow> bool \<times> transaction" where
  "sql_rows engineinstance [] tx = (True, tx)"
| "sql_rows engineinstance (rr # rrs) tx =
     (let s = tx_sqlcmdstate tx;
          uur = \<lparr>uu_rowid = rr_rowid rr, uu_tableid = sq_tableid s, uu_engineid = engineinstance\<rparr>
      in if rr_locktype rr \<in> {NOLOCK, READLOCK, WRITELOCK} then
           sql_rows engineinstance rrs
             (sql_update (\<lambda>s. s\<lparr>sq_results := um_put uur rr (sq_results s)\<rparr>) tx)
         else if rr_locktype rr = PENDINGLOCK then (False, callback (AbortQuery APISTATUS_LOCK) tx)
         else if rr_locktype rr \<in> {PENDINGTOWRITELOCK, PENDINGTOREADLOCK, PENDINGTONOLOCK}
         then (False, callback (AbortQuery (status_num STATUS_NOTOK)) tx)
         else sql_rows engineinstance rrs tx)"

definition finish_search :: "transaction \<Rightarrow> transaction" where
  "finish_search tx =
     (case tx_pendingcmd tx of
        PRIMITIVE_SQLPREDICATE \<Rightarrow>
          callback (SearchExpression 1 (sq_continuationData (tx_sqlcmdstate tx))) (end_command tx)
      | PRIMITIVE_SQLSELECTALL \<Rightarrow> callback (ContinueSelect 1) (end_command tx)
      | PRIMITIVE_SQLSELECTALLFORDELETE \<Rightarrow> callback (ContinueDelete 1) (end_command tx)
      | PRIMITIVE_SQLSELECTALLFORUPDATE \<Rightarrow> callback (ContinueUpdate 1) (end_command tx)
      | _ \<Rightarrow> tx)"

definition continueSqlPredicate_2 :: "subtransactionCmd \<Rightarrow> transaction \<Rightarrow> transaction" where
  "continueSqlPredicate_2 m tx =
     (let (ok, tx1) = sql_rows (ts_engineinstance (sc_transactionStruct m)) (sc_returnRows m) tx
      in if \<not> ok then tx1
         else
           let tx2 = sql_update (\<lambda>s. s\<lparr>sq_eventwaitcount := sq_eventwaitcount s - 1\<rparr>) tx1
           in if sq_eventwaitcount (tx_sqlcmdstate tx2) = 0 \<and> tx_lockpendingcount tx2 = 0
              then finish_search tx2 else tx2)"

definition continueSqlPredicate :: "transactionEnv \<Rightarrow> int \<Rightarrow> transaction \<Rightarrow> transaction res" where
  "continueSqlPredicate ev entrypoint tx =
     (if entrypoint = 1 then rbind (subtransactionCmdRef tx) (\<lambda>m. continueSqlPredicate_1 ev m tx)
      else if entrypoint = 2 then rmap (\<lambda>m. continueSqlPredicate_2 m tx) (subtransactionCmdRef tx)
      else Inr tx)"

section \<open>Continuations of changes\<close>

definition continueSqlDelete :: "int \<Rightarrow> transaction \<Rightarrow> transaction res" where
  "continueSqlDelete entrypoint tx =
     rmap (\<lambda>m.
       if tx_pendingcmdid tx \<noteq> ts_pendingcmdid (sc_transactionStruct m) then badMessageHandler tx
       else
         let tx1 = sql_update (\<lambda>s. s\<lparr>sq_eventwaitcount := sq_eventwaitcount s - 1\<rparr>) tx;
             status = ss_status (sc_subtransactionStruct m)
         in if status \<noteq> STATUS_OK then callback (AbortQuery (status_num status)) tx1
            else if sq_eventwaitcount (tx_sqlcmdstate tx1) = 0 then callback (ContinueDelete 2) tx1
            else tx1)
       (subtransactionCmdRef tx)"

text \<open>The request for the entry of a unique index, and the lock as it is staged\<close>

definition sql_unique :: "transactionEnv \<Rightarrow> field \<Rightarrow> nat \<Rightarrow> fieldValue \<Rightarrow> uuRecord \<Rightarrow>
    stagedRow \<times> transaction \<Rightarrow> (fieldValue \<times> stagedRow \<times> transaction) res" where
  "sql_unique ev fd n v uur = (\<lambda>(sr, tx).
     rbind (getengine ev (fd_type fd) v) (\<lambda>(engineid, v').
       rmap (\<lambda>tx'. (v', sr\<lparr>sr_uniqueIndices := um_put (int n)
              \<lparr>lf_locktype = INDEXLOCK, lf_engineid = engineid, lf_fieldVal = v'\<rparr>
              (sr_uniqueIndices sr)\<rparr>, tx'))
         (sendTransaction ev UNIQUEINDEX 2 engineid
            (uniqueindex_cmd (uu_tableid uur) (int n) (uu_rowid uur) (uu_engineid uur) v')
            (sql_update (\<lambda>s. s\<lparr>sq_eventwaitcount := sq_eventwaitcount s + 1\<rparr>) tx))))"

definition sqlinsert_field :: "transactionEnv \<Rightarrow> table \<Rightarrow> nat \<Rightarrow> stagedRow \<times> transaction \<Rightarrow>
    (stagedRow \<times> transaction) res" where
  "sqlinsert_field ev t n = (\<lambda>(sr, tx).
     let fd = tb_fields t ! n; q = tx_query tx
     in if \<not> isunique (fd_index fd) then Inr (sr, tx)
        else rbind (vec_at (int n) (qy_insertValues q)) (\<lambda>v.
          if isnull v then Inr (sr, tx)
          else rmap (\<lambda>(v', sr', tx').
                 (sr', tx'\<lparr>tx_query := q\<lparr>qy_insertValues := (qy_insertValues q)[n := v']\<rparr>\<rparr>))
               (sql_unique ev fd n v (qy_newrowuur q) (sr, tx))))"

definition continueSqlInsert_1 :: "transactionEnv \<Rightarrow> subtransactionCmd \<Rightarrow> transaction \<Rightarrow>
    transaction res" where
  "continueSqlInsert_1 ev m tx =
     (let q = tx_query tx;
          uur = \<lparr>uu_rowid = ss_rowid (sc_subtransactionStruct m), uu_tableid = qy_tableid q,
                 uu_engineid = qy_newrowengineid q\<rparr>;
          tx1 = tx\<lparr>tx_query := q\<lparr>qy_newrowuur := uur\<rparr>\<rparr>;
          sr = stagedRow0\<lparr>sr_newRow := qy_newrow q, sr_newrowid := uu_rowid uur,
                 sr_locktype := WRITELOCK, sr_cmd := INSERT\<rparr>
      in rbind (tx_table ev (uu_tableid uur) tx1) (\<lambda>t.
         rmap (\<lambda>(sr', tx2).
             let tx3 = tx2\<lparr>tx_stagedRows := um_put uur sr' (tx_stagedRows tx2)\<rparr>
             in if sq_eventwaitcount (tx_sqlcmdstate tx3) \<noteq> 0 then tx3
                else callback (ContinueInsert 1) tx3)
           (rfold (sqlinsert_field ev t) [0..<length (tb_fields t)] (sr, tx1))))"

definition continueSqlInsert_2 :: "subtransactionCmd \<Rightarrow> transaction \<Rightarrow> transaction" where
  "continueSqlInsert_2 m tx =
     (case ss_locktype (sc_subtransactionStruct m) of
        NOLOCK \<Rightarrow> callback (AbortQuery APISTATUS_UNIQUECONSTRAINT) tx
      | INDEXLOCK \<Rightarrow>
          (let tx1 = sql_update (\<lambda>s. s\<lparr>sq_eventwaitcount := sq_eventwaitcount s - 1\<rparr>) tx
           in if sq_eventwaitcount (tx_sqlcmdstate tx1) \<noteq> 0 then tx1
              else callback (ContinueInsert 1) tx1)
      | _ \<Rightarrow> callback (AbortQuery (status_num STATUS_NOTOK)) tx)"

definition continueSqlInsert :: "transactionEnv \<Rightarrow> int \<Rightarrow> transaction \<Rightarrow> transaction res" where
  "continueSqlInsert ev entrypoint tx =
     (if entrypoint = 1 then rbind (subtransactionCmdRef tx) (\<lambda>m. continueSqlInsert_1 ev m tx)
      else if entrypoint = 2 then rmap (\<lambda>m. continueSqlInsert_2 m tx) (subtransactionCmdRef tx)
      else Inr (callback (ContinueInsert 1) tx))"

text \<open>The reply to an update of a row or of the entry of a unique index\<close>

definition sql_change_reply :: "subtransactionCmd \<Rightarrow> transaction \<Rightarrow> transaction" where
  "sql_change_reply m tx =
     (let l = ss_locktype (sc_subtransactionStruct m)
      in if l = NOLOCK then callback (AbortQuery APISTATUS_UNIQUECONSTRAINT) tx
         else if l \<noteq> WRITELOCK \<and> l \<noteq> INDEXLOCK then callback (AbortQuery (status_num STATUS_NOTOK)) tx
         else
           let tx1 = sql_update (\<lambda>s. s\<lparr>sq_eventwaitcount := sq_eventwaitcount s - 1\<rparr>) tx
           in if sq_eventwaitcount (tx_sqlcmdstate tx1) \<noteq> 0 then tx1
              else callback (ContinueUpdate 2) (tx1\<lparr>tx_pendingcmd := NOCOMMAND\<rparr>))"

definition continueSqlUpdate :: "int \<Rightarrow> transaction \<Rightarrow> transaction res" where
  "continueSqlUpdate entrypoint tx =
     rmap (\<lambda>m. sql_change_reply m tx) (subtransactionCmdRef tx)"

text \<open>A null in a unique field that is set is requested as well.\<close>

definition sqlreplace_field :: "transactionEnv \<Rightarrow> table \<Rightarrow> int \<Rightarrow> fieldValue list \<Rightarrow> nat \<Rightarrow>
    stagedRow \<times> transaction \<Rightarrow> (stagedRow \<times> transaction) res" where
  "sqlreplace_field ev t tableid vs n = (\<lambda>(sr, tx).
     rbind (field_at (int n) t) (\<lambda>fd.
       if fd_indextype fd = NONE then Inr (sr, tx)
       else if isunique (fd_index fd) \<and> map_count (int n) (qy_setFields (tx_query tx)) then
         rmap snd (sql_unique ev fd n (vs ! n)
           \<lparr>uu_rowid = sr_newrowid sr, uu_tableid = tableid, uu_engineid = sr_newengineid sr\<rparr> (sr, tx))
       else Inr (sr, tx)))"

definition continueSqlReplace_1 :: "transactionEnv \<Rightarrow> subtransactionCmd \<Rightarrow> transaction \<Rightarrow>
    transaction res" where
  "continueSqlReplace_1 ev m tx =
     (let q = tx_query tx; orig = qy_originalrowuur q; rowid = ss_rowid (sc_subtransactionStruct m);
          sr = (um_get stagedRow0 orig (tx_stagedRows tx))\<lparr>sr_newrowid := rowid\<rparr>;
          tx1 = tx\<lparr>tx_query := q\<lparr>qy_newrowuur := \<lparr>uu_rowid = rowid, uu_tableid = qy_tableid q,
                       uu_engineid = qy_newrowengineid q\<rparr>\<rparr>\<rparr>
      in rbind (sendTransaction ev REPLACEDELETEROW 2 (sr_originalengineid sr)
                  (message.PAYLOADSUBTRANSACTION (subtransactionCmd0
                     \<lparr>sc_subtransactionStruct := subtransactionStruct0
                        \<lparr>ss_tableid := qy_tableid q, ss_rowid := sr_originalrowid sr,
                         ss_forward_rowid := sr_newrowid sr,
                         ss_forward_engineid := sr_newengineid sr\<rparr>\<rparr>)) tx1) (\<lambda>tx2.
         let tx3 = sql_update (\<lambda>s. s\<lparr>sq_eventwaitcount := sq_eventwaitcount s + 1\<rparr>) tx2
         in rbind (tx_table ev (qy_tableid q) tx3) (\<lambda>t.
            rbind (unmakerow (sr_newRow sr) [] t) (\<lambda>(_, vs).
              rmap (\<lambda>(sr', tx4). tx4\<lparr>tx_stagedRows := um_put orig sr' (tx_stagedRows tx4)\<rparr>)
                (rfold (sqlreplace_field ev t (qy_tableid q) vs) [0..<length vs] (sr, tx3))))))"

definition continueSqlReplace :: "transactionEnv \<Rightarrow> int \<Rightarrow> transaction \<Rightarrow> transaction res" where
  "continueSqlReplace ev entrypoint tx =
     (if entrypoint = 1 then rbind (subtransactionCmdRef tx) (\<lambda>m. continueSqlReplace_1 ev m tx)
      else if entrypoint = 2 then rmap (\<lambda>m. sql_change_reply m tx) (subtransactionCmdRef tx)
      else Inr (callback (AbortQuery (status_num STATUS_NOTOK)) tx))"

section \<open>Dispatch\<close>

definition run_pending :: "transactionEnv \<Rightarrow> int \<Rightarrow> transaction \<Rightarrow> transaction res" where
  "run_pending ev entrypoint tx =
     (case tx_pendingcmd tx of
        NOCOMMAND \<Rightarrow> Inr (badMessageHandler tx)
      | INSERT \<Rightarrow> continueInsertRow ev entrypoint tx
      | UPDATE \<Rightarrow> continueUpdateRow ev entrypoint tx
      | DELETE \<Rightarrow> continueDeleteRow ev entrypoint tx
      | REPLACE \<Rightarrow> continueReplaceRow ev entrypoint tx
      | SELECT \<Rightarrow> continueSelectRows ev entrypoint tx
      | FETCH \<Rightarrow> Inr (continueFetchRows entrypoint tx)
      | UNLOCK \<Rightarrow> Inr (continueUnlockRow entrypoint tx)
      | COMMIT \<Rightarrow> continueCommitTransaction ev entrypoint tx
      | ROLLBACK \<Rightarrow> Inr (continueRollbackTransaction entrypoint tx)
      | PRIMITIVE_SQLPREDICATE \<Rightarrow> continueSqlPredicate ev entrypoint tx
      | PRIMITIVE_SQLSELECTALL \<Rightarrow> continueSqlPredicate ev entrypoint tx
      | PRIMITIVE_SQLSELECTALLFORDELETE \<Rightarrow> continueSqlPredicate ev entrypoint tx
      | PRIMITIVE_SQLSELECTALLFORUPDATE \<Rightarrow> continueSqlPredicate ev entrypoint tx
      | PRIMITIVE_SQLDELETE \<Rightarrow> continueSqlDelete entrypoint tx
      | PRIMITIVE_SQLINSERT \<Rightarrow> continueSqlInsert ev entrypoint tx
      | PRIMITIVE_SQLUPDATE \<Rightarrow> continueSqlUpdate entrypoint tx
      | PRIMITIVE_SQLREPLACE \<Rightarrow> continueSqlReplace ev entrypoint tx)"

text \<open>The subtransaction an engine opened is learnt from its first reply.\<close>

definition processTransactionMessage_tx :: "transactionEnv \<Rightarrow> message \<Rightarrow> transaction \<Rightarrow> transaction res" where
  "processTransactionMessage_tx ev m tx =
     (let ts = msg_transactionStruct m; tx1 = tx\<lparr>tx_msgrcv := Some m\<rparr>
      in if tx_pendingcmdid tx1 \<noteq> ts_pendingcmdid ts then Inr (badMessageHandler tx1)
         else run_pending ev (ts_tacmdentrypoint ts)
           (if map_count (ts_engineinstance ts) (tx_engineToSubTransactionids tx1) then tx1
            else tx1\<lparr>tx_engineToSubTransactionids :=
                   um_put (ts_engineinstance ts) (ts_subtransactionid ts)
                     (tx_engineToSubTransactionids tx1)\<rparr>))"

end
