(* ===== verification/Transaction_Frames.thy ===== *)
theory Transaction_Frames
  imports Transaction_Sql
begin

text \<open>
  What every operation of a transaction keeps: it appends to the outbox only, what it appends
  carries the identity of the transaction and goes to a partition that exists, and the identity
  (with the object it reenters) stays. The relation \<open>extends\<close> says so of a step; it is reflexive
  and transitive, and each operation is in it by the lemmas of its parts.
\<close>

named_theorems ext_intros \<open>each operation extends the transaction\<close>

section \<open>The relation\<close>

text \<open>The commands an engine runs from either payload\<close>

fun payload_ok :: "enginecmd \<Rightarrow> message \<Rightarrow> bool" where
  "payload_ok cmd (message.PAYLOADSUBTRANSACTION m) \<longleftrightarrow>
     cmd \<in> {NEWROW, UNIQUEINDEX, UPDATEROW, DELETEROW, REPLACEDELETEROW, INDEXSEARCH, SELECTROWS,
             SEARCHRETURN1}"
| "payload_ok cmd (message.PAYLOADCOMMITROLLBACK m) \<longleftrightarrow> cmd \<in> {COMMITCMD, ROLLBACKCMD, REVERTCMD}"

definition addressed :: "transactionEnv \<Rightarrow> int \<Rightarrow> int \<Rightarrow> outgoing \<Rightarrow> bool" where
  "addressed ev i d out =
     (case out of
        ToPartition p m \<Rightarrow> 0 \<le> p \<and> p < int (ev_producers ev) \<and>
          (case m of
             TOPIC_TRANSACTION source msg \<Rightarrow>
               source = ev_address ev \<and> ts_transactionid (msg_transactionStruct msg) = i \<and>
               ts_tainstance (msg_transactionStruct msg) = int16 (ev_instance ev) \<and>
               ts_domainid (msg_transactionStruct msg) = int16 d \<and>
               payload_ok (ts_enginecmd (msg_transactionStruct msg)) msg
           | TOPIC_ENDSUBTRANSACTION _ \<Rightarrow> True
           | _ \<Rightarrow> False)
      | ToActor _ m \<Rightarrow> di_transactionid (dp_dispatchStruct m) = i \<and> di_domainid (dp_dispatchStruct m) = d
      | DEADLOCKNEW m \<Rightarrow> dl_transactionid (dm_deadlockStruct m) = i
      | DEADLOCKCHANGE m \<Rightarrow> dl_transactionid (dm_deadlockStruct m) = i
      | DEADLOCKREMOVE m \<Rightarrow> dl_transactionid (dm_deadlockStruct m) = i)"

definition extends :: "transactionEnv \<Rightarrow> transaction \<Rightarrow> transaction \<Rightarrow> bool" where
  "extends ev tx tx' \<longleftrightarrow>
     tx_transactionid tx' = tx_transactionid tx \<and> tx_domainid tx' = tx_domainid tx \<and>
     tx_schemaPtr tx' = tx_schemaPtr tx \<and> tx_reentryObject tx' = tx_reentryObject tx \<and>
     (\<exists>ms. tx_outbox tx' = tx_outbox tx @ ms \<and>
           list_all (addressed ev (tx_transactionid tx) (tx_domainid tx)) ms)"

lemma extends_refl [simp, ext_intros]: "extends ev tx tx"
  by (simp add: extends_def)

lemma extends_trans: "extends ev tx tx' \<Longrightarrow> extends ev tx' tx'' \<Longrightarrow> extends ev tx tx''"
  by (auto simp: extends_def)

text \<open>An update of the members that \<open>extends\<close> does not read\<close>

definition same_frame :: "transaction \<Rightarrow> transaction \<Rightarrow> bool" where
  "same_frame tx tx' \<longleftrightarrow>
     tx_transactionid tx' = tx_transactionid tx \<and> tx_domainid tx' = tx_domainid tx \<and>
     tx_schemaPtr tx' = tx_schemaPtr tx \<and> tx_reentryObject tx' = tx_reentryObject tx \<and>
     tx_outbox tx' = tx_outbox tx"

lemma extends_same: "same_frame tx tx' \<Longrightarrow> extends ev tx tx'"
  by (auto simp: extends_def same_frame_def)

lemma extends_same_left: "same_frame tx tx1 \<Longrightarrow> extends ev tx1 tx' \<Longrightarrow> extends ev tx tx'"
  using extends_same extends_trans by blast

lemma extends_same_right: "extends ev tx tx1 \<Longrightarrow> same_frame tx1 tx' \<Longrightarrow> extends ev tx tx'"
  using extends_same extends_trans by blast

text \<open>A step that can fail\<close>

definition ext_step :: "transactionEnv \<Rightarrow> (transaction \<Rightarrow> transaction res) \<Rightarrow> bool" where
  "ext_step ev f \<longleftrightarrow> (\<forall>tx tx'. f tx = Inr tx' \<longrightarrow> extends ev tx tx')"

lemma ext_stepI: "(\<And>tx tx'. f tx = Inr tx' \<Longrightarrow> extends ev tx tx') \<Longrightarrow> ext_step ev f"
  by (simp add: ext_step_def)

lemma ext_stepD: "ext_step ev f \<Longrightarrow> f tx = Inr tx' \<Longrightarrow> extends ev tx tx'"
  by (simp add: ext_step_def)

lemma extends_rfold:
  assumes "\<And>x. x \<in> set xs \<Longrightarrow> ext_step ev (f x)" and "rfold f xs tx = Inr tx'"
  shows "extends ev tx tx'"
  using assms
proof (induction xs arbitrary: tx)
  case (Cons x xs)
  then obtain t where t: "f x tx = Inr t" "rfold f xs t = Inr tx'" by auto
  have "extends ev tx t" using Cons.prems(1) t(1) by (auto intro: ext_stepD)
  moreover have "extends ev t tx'" using Cons.IH [OF _ t(2)] Cons.prems(1) by simp
  ultimately show ?case by (rule extends_trans)
qed simp

text \<open>The same for a loop that carries a value along\<close>

lemma extends_rfold_pair:
  assumes "\<And>x s t s' t'. x \<in> set xs \<Longrightarrow> f x (s, t) = Inr (s', t') \<Longrightarrow> extends ev t t'"
    and "rfold f xs (s, tx) = Inr (s', tx')"
  shows "extends ev tx tx'"
  using assms
proof (induction xs arbitrary: s tx)
  case (Cons x xs)
  then obtain s1 t where t: "f x (s, tx) = Inr (s1, t)" "rfold f xs (s1, t) = Inr (s', tx')" by auto
  have "extends ev tx t" using Cons.prems(1) [OF _ t(1)] by simp
  moreover have "extends ev t tx'" using Cons.IH [OF _ t(2)] Cons.prems(1) by (meson list.set_intros(2))
  ultimately show ?case by (rule extends_trans)
qed simp

section \<open>Sending and callbacks\<close>

lemma extends_emit:
  "addressed ev (tx_transactionid tx) (tx_domainid tx) m \<Longrightarrow> extends ev tx (emit m tx)"
  by (auto simp: extends_def emit_def)

lemma same_frame_callback [simp]: "same_frame tx (callback c tx)"
  by (simp add: same_frame_def callback_def)

lemma extends_toPartition:
  assumes "toPartition ev p m tx = Inr tx'"
    and "0 \<le> p \<Longrightarrow> p < int (ev_producers ev) \<Longrightarrow>
         addressed ev (tx_transactionid tx) (tx_domainid tx) (ToPartition p m)"
  shows "extends ev tx tx'"
  using assms by (auto simp: toPartition_def extends_emit split: if_splits)

lemma msg_transactionStruct_set [simp]:
  "msg_transactionStruct (msg_set_transactionStruct ts m) = ts"
  by (cases m) simp_all

lemma payload_ok_set [simp]: "payload_ok cmd (msg_set_transactionStruct ts m) = payload_ok cmd m"
  by (cases m) simp_all

lemma payload_ok_cmds [simp]:
  "payload_ok UNIQUEINDEX (uniqueindex_cmd a b c d e)" "payload_ok SELECTROWS (selectrows_cmd f g h)"
  "payload_ok INDEXSEARCH (indexsearch_cmd i j k)"
  by (simp_all add: uniqueindex_cmd_def selectrows_cmd_def indexsearch_cmd_def)

lemma extends_sendTransaction [ext_intros]:
  "payload_ok cmd m \<Longrightarrow> ext_step ev (sendTransaction ev cmd ep e m)"
  by (rule ext_stepI, unfold sendTransaction_def Let_def, erule extends_toPartition)
    (simp add: addressed_def)

lemma extends_endsubtransaction [ext_intros]: "ext_step ev (send_endsubtransaction ev x)"
  by (rule ext_stepI, unfold send_endsubtransaction_def, cases x)
    (auto elim!: extends_toPartition simp: addressed_def)

lemma extends_reenter [simp, ext_intros]: "extends ev tx (reenter r tx)"
  by (rule extends_same)
    (auto simp: reenter_def same_frame_def callback_def delete_Transaction_def split: option.split)

lemma same_frame_reenter [simp]: "same_frame tx (reenter r tx)"
  by (auto simp: reenter_def same_frame_def callback_def delete_Transaction_def split: option.split)

lemma same_frame_updates [simp]:
  "same_frame tx (cmdstate_update f tx)" "same_frame tx (sql_update g tx)"
  "same_frame tx (tx\<lparr>tx_stagedRows := a\<rparr>)" "same_frame tx (tx\<lparr>tx_pendingcmd := b\<rparr>)"
  "same_frame tx (tx\<lparr>tx_enginesWithUniqueIndices := c\<rparr>)" "same_frame tx (end_command tx)"
  "same_frame tx (tx\<lparr>tx_msgrcv := d\<rparr>)" "same_frame tx (tx\<lparr>tx_engineToSubTransactionids := e\<rparr>)"
  "same_frame tx (tx\<lparr>tx_query := q\<rparr>)" "same_frame tx (tx\<lparr>tx_waitfordispatched := w\<rparr>)"
  "same_frame tx (count_lock ch tx)" "same_frame tx tx" "same_frame tx (append_values tx)"
  "same_frame tx (snd (getnextpendingcmdid tx))"
  by (auto simp: same_frame_def end_command_def count_lock_def append_values_def
      getnextpendingcmdid_def split: deadlockchange.split)

lemma same_frame_trans: "same_frame a b \<Longrightarrow> same_frame b c \<Longrightarrow> same_frame a c"
  by (simp add: same_frame_def)

text \<open>These members are invisible to \<open>extends\<close>, on both sides.\<close>

lemma extends_left: "same_frame tx tx1 \<Longrightarrow> extends ev tx1 tx' = extends ev tx tx'"
  by (simp add: extends_def same_frame_def)

lemma extends_right: "same_frame tx' tx1 \<Longrightarrow> extends ev tx tx1 = extends ev tx tx'"
  by (simp add: extends_def same_frame_def)

lemmas extends_invisible [simp] =
  extends_left [OF same_frame_updates(1)] extends_left [OF same_frame_updates(2)]
  extends_left [OF same_frame_updates(3)] extends_left [OF same_frame_updates(4)]
  extends_left [OF same_frame_updates(5)] extends_left [OF same_frame_updates(6)]
  extends_left [OF same_frame_updates(7)] extends_left [OF same_frame_updates(8)]
  extends_left [OF same_frame_updates(9)] extends_left [OF same_frame_updates(10)]
  extends_left [OF same_frame_updates(11)] extends_left [OF same_frame_updates(13)]
  extends_left [OF same_frame_callback] extends_left [OF same_frame_reenter]
  extends_right [OF same_frame_updates(1)] extends_right [OF same_frame_updates(2)]
  extends_right [OF same_frame_updates(3)] extends_right [OF same_frame_updates(4)]
  extends_right [OF same_frame_updates(5)] extends_right [OF same_frame_updates(6)]
  extends_right [OF same_frame_updates(7)] extends_right [OF same_frame_updates(8)]
  extends_right [OF same_frame_updates(9)] extends_right [OF same_frame_updates(10)]
  extends_right [OF same_frame_updates(11)] extends_right [OF same_frame_updates(13)]
  extends_right [OF same_frame_callback] extends_right [OF same_frame_reenter]

lemma extends_pending [simp]:
  "extends ev (tx\<lparr>tx_pendingcmdid := i\<rparr>) tx' = extends ev tx tx'"
  "extends ev (tx\<lparr>tx_nextpendingcmdid := i\<rparr>) tx' = extends ev tx tx'"
  "extends ev (tx\<lparr>tx_sqlcmdstate := s\<rparr>) tx' = extends ev tx tx'"
  "extends ev (tx\<lparr>tx_currentCmdState := c\<rparr>) tx' = extends ev tx tx'"
  "extends ev (tx\<lparr>tx_returnselectedrows := r\<rparr>) tx' = extends ev tx tx'"
  "extends ev tx (tx'\<lparr>tx_pendingcmdid := i\<rparr>) = extends ev tx tx'"
  "extends ev tx (tx'\<lparr>tx_nextpendingcmdid := i\<rparr>) = extends ev tx tx'"
  "extends ev tx (tx'\<lparr>tx_sqlcmdstate := s\<rparr>) = extends ev tx tx'"
  "extends ev tx (tx'\<lparr>tx_currentCmdState := c\<rparr>) = extends ev tx tx'"
  "extends ev tx (tx'\<lparr>tx_returnNewRow := u\<rparr>) = extends ev tx tx'"
  "extends ev tx (tx'\<lparr>tx_returnselectedrows := r\<rparr>) = extends ev tx tx'"
  by (simp_all add: extends_def)

section \<open>Rows\<close>

lemma sent:
  "sendTransaction ev cmd ep e m tx = Inr tx' \<Longrightarrow> payload_ok cmd m \<Longrightarrow> extends ev tx tx'"
  "send_endsubtransaction ev x tx = Inr tx' \<Longrightarrow> extends ev tx tx'"
  by (simp_all add: ext_stepD [OF extends_sendTransaction] ext_stepD [OF extends_endsubtransaction])

lemma extends_deadlock [simp]:
  "extends ev tx (deadlock_new ev tx)" "extends ev tx (deadlock_change ev ch tx)"
  "extends ev tx (deadlock_remove ev tx)"
  by (auto simp: deadlock_new_def deadlock_change_def deadlock_remove_def toDeadlockMgr_def Let_def
      addressed_def intro!: extends_emit)

lemma extends_deadlock_trans [intro]:
  "extends ev tx tx1 \<Longrightarrow> extends ev tx (deadlock_new ev tx1)"
  "extends ev tx tx1 \<Longrightarrow> extends ev tx (deadlock_change ev ch tx1)"
  "extends ev tx tx1 \<Longrightarrow> extends ev tx (deadlock_remove ev tx1)"
  by (blast intro: extends_trans extends_deadlock)+

lemma ext_checkLock [ext_intros]: "ext_step ev (checkLock ev ch r v)"
  by (rule ext_stepI, unfold checkLock_def Let_def)
    (auto split: if_splits intro!: extends_deadlock_trans)

lemma ext_checkSqlLock [ext_intros]: "ext_step ev (checkSqlLock ev ch r v)"
  by (rule ext_stepI, unfold checkSqlLock_def Let_def)
    (auto split: if_splits intro!: extends_deadlock_trans)

lemma sent_all:
  assumes "rfold (\<lambda>n. sendTransaction ev cmd ep (f n) m) ns tx = Inr tx'" "payload_ok cmd m"
  shows "extends ev tx tx'"
  by (rule extends_rfold [OF _ assms(1)]) (rule extends_sendTransaction [OF assms(2)])

lemma ext_send_rof [ext_intros]:
  "cmd \<in> {COMMITCMD, ROLLBACKCMD, REVERTCMD} \<Longrightarrow> ext_step ev (send_rof ev cmd e rof)"
  by (auto simp: send_rof_def intro!: ext_intros)

lemma sent_rof:
  "send_rof ev cmd e rof tx = Inr tx' \<Longrightarrow> cmd \<in> {COMMITCMD, ROLLBACKCMD, REVERTCMD} \<Longrightarrow> extends ev tx tx'"
  by (rule ext_stepD [OF ext_send_rof])

lemma ext_rfold [ext_intros]: "(\<And>x. ext_step ev (f x)) \<Longrightarrow> ext_step ev (rfold f xs)"
  by (rule ext_stepI) (auto intro: extends_rfold)

lemma ext_split [ext_intros]: "(\<And>a b. ext_step ev (f a b)) \<Longrightarrow> ext_step ev (case x of (a, b) \<Rightarrow> f a b)"
  by (cases x) simp

lemma ext_send_indices [ext_intros]: "ext_step ev (send_indices ev uur sr)"
  unfolding send_indices_def by (intro ext_intros) simp

lemma ext_bind:
  assumes "ext_step ev f" "ext_step ev g"
  shows "ext_step ev (\<lambda>tx. rbind (f tx) g)"
  using assms by (simp add: ext_step_def) (blast intro: extends_trans)

lemma ext_if [ext_intros]:
  "ext_step ev f \<Longrightarrow> ext_step ev g \<Longrightarrow> ext_step ev (\<lambda>tx. if b tx then f tx else g tx)"
  by (simp add: ext_step_def)

lemma ext_pure [ext_intros]: "(\<And>tx. extends ev tx (f tx)) \<Longrightarrow> ext_step ev (\<lambda>tx. Inr (f tx))"
  by (simp add: ext_step_def)

lemma ext_revertback [ext_intros]:
  "cmd \<in> {ROLLBACKCMD, REVERTCMD} \<Longrightarrow> ext_step ev (revertback ev uur cmd)"
  by (rule ext_stepI, unfold revertback_def)
    (auto split: option.splits if_splits
      dest!: sent_rof ext_stepD [OF ext_send_indices] intro: extends_trans)

lemma ext_deadlockAbort [ext_intros]: "ext_step ev (deadlockAbort ev msgref)"
  by (rule ext_stepI, unfold deadlockAbort_def)
    (auto split: if_splits intro: ext_stepD [OF ext_rfold [OF ext_split [OF ext_send_rof]]])

lemma ext_revert [ext_intros]: "ext_step ev (revert ev uur)"
  by (simp add: revert_def ext_intros)

lemma ext_rollback_uur [ext_intros]: "ext_step ev (rollback_uur ev uur)"
  by (rule ext_stepI) (auto simp: rollback_uur_def intro: ext_stepD [OF ext_revertback])

lemma ext_rollback_row_tx [ext_intros]: "ext_step ev (rollback_row_tx ev x)"
  by (rule ext_stepI, unfold rollback_row_tx_def)
    (auto split: prod.splits if_splits
      dest!: sent_rof ext_stepD [OF ext_send_indices] intro: extends_trans)

lemma ext_rollback [ext_intros]: "ext_step ev (rollback ev)"
  by (rule ext_stepI)
    (auto simp: rollback_def dest!: ext_stepD [OF ext_rfold [OF ext_rollback_row_tx]]
      ext_stepD [OF ext_rfold [OF extends_endsubtransaction]] intro: extends_trans)

lemma ext_abortCmd [ext_intros]: "ext_step ev (abortCmd ev r)"
  by (rule ext_stepI)
    (auto simp: abortCmd_def dest!: ext_stepD [OF ext_revert] split: if_splits
      intro!: extends_deadlock_trans)

lemma ext_insert_unique [ext_intros]: "ext_step ev (insert_unique ev rowid n)"
  by (rule ext_stepI, unfold insert_unique_def Let_def)
    (auto split: if_splits dest!: sent(1))

lemma same_frame_finish_insert [simp]: "same_frame tx (finish_insert tx)"
  by (auto simp: finish_insert_def Let_def same_frame_def reenter_def callback_def
      delete_Transaction_def split: option.split)

lemma extends_finish_insert [simp]: "extends ev tx (finish_insert tx') = extends ev tx tx'"
  by (rule extends_right) simp

lemma ext_insert_granted [ext_intros]: "ext_step ev (insert_granted info)"
  by (rule ext_stepI, unfold insert_granted_def Let_def) (auto split: if_splits)

lemma ext_continueInsertRow_1 [ext_intros]: "ext_step ev (continueInsertRow_1 ev m)"
  by (rule ext_stepI, unfold continueInsertRow_1_def Let_def)
    (auto split: if_splits dest!: ext_stepD [OF ext_rfold [OF ext_insert_unique]])

lemma ext_continueInsertRow_2 [ext_intros]: "ext_step ev (continueInsertRow_2 ev m)"
  by (rule ext_stepI, unfold continueInsertRow_2_def Let_def)
    (auto split: locktype.splits dest!: ext_stepD [OF ext_abortCmd] ext_stepD [OF ext_checkLock]
      ext_stepD [OF ext_insert_granted] intro: extends_trans)

lemma ext_continueInsertRow [ext_intros]: "ext_step ev (continueInsertRow ev ep)"
  by (rule ext_stepI, unfold continueInsertRow_def)
    (auto split: if_splits dest: ext_stepD [OF ext_continueInsertRow_1]
      ext_stepD [OF ext_continueInsertRow_2])

lemma ext_continueDeleteRow [ext_intros]: "ext_step ev (continueDeleteRow ev ep)"
  by (rule ext_stepI, unfold continueDeleteRow_def) (auto split: if_splits)

lemma ext_send_selectrows [ext_intros]: "ext_step ev (send_selectrows ev t l ps)"
  unfolding send_selectrows_def by (intro ext_intros) simp

lemma ext_continueSelectRows_1 [ext_intros]: "ext_step ev (continueSelectRows_1 ev m)"
  by (rule ext_stepI, unfold continueSelectRows_1_def Let_def)
    (auto split: if_splits list.splits dest!: ext_stepD [OF ext_send_selectrows])

lemma ext_select_row [ext_intros]: "ext_step ev (select_row ev ts rr)"
  by (rule ext_stepI, unfold select_row_def Let_def)
    (auto split: if_splits option.splits prod.splits dest!: ext_stepD [OF ext_checkLock])

lemma same_frame_promote_rows [simp]: "same_frame tx (promote_rows uur tx)"
proof -
  have "same_frame t (fold (\<lambda>(k, sr) tx. if map_count k (tx_stagedRows tx) then tx
         else tx\<lparr>tx_stagedRows := um_put k sr (tx_stagedRows tx),
                 tx_returnselectedrows := tx_returnselectedrows tx @ [uur]\<rparr>) xs t)" for xs t
    by (induction xs arbitrary: t) (auto simp: same_frame_def split: prod.splits)
  then show ?thesis by (auto simp: promote_rows_def same_frame_def)
qed

lemma ext_continueSelectRows_2 [ext_intros]: "ext_step ev (continueSelectRows_2 ev m)"
  by (rule ext_stepI, unfold continueSelectRows_2_def Let_def)
    (auto split: if_splits dest!: ext_stepD [OF ext_rfold [OF ext_select_row]]
      simp: extends_right [OF same_frame_promote_rows])

lemma ext_continueSelectRows [ext_intros]: "ext_step ev (continueSelectRows ev ep)"
  by (rule ext_stepI, unfold continueSelectRows_def)
    (auto split: if_splits dest: ext_stepD [OF ext_continueSelectRows_1]
      ext_stepD [OF ext_continueSelectRows_2])

lemma extends_getnext [simp]: "getnextpendingcmdid tx = (i, tx0) \<Longrightarrow> extends ev tx0 tx' = extends ev tx tx'"
  "getnextpendingcmdid tx = (i, tx0) \<Longrightarrow> extends ev tx tx0"
  "getnextpendingcmdid (new_sqlcmdstate a b c d e tx) = (i, tx0) \<Longrightarrow> extends ev tx tx0"
  "getnextpendingcmdid (new_sqlcmdstate a b c d e tx) = (i, tx0) \<Longrightarrow> extends ev tx0 tx' = extends ev tx tx'"
  by (auto simp: getnextpendingcmdid_def extends_def new_sqlcmdstate_def)

lemma ext_tx_select [ext_intros]: "ext_step ev (tx_select ev t f l sp)"
  by (rule ext_stepI, unfold tx_select_def Let_def)
    (auto split: if_splits prod.splits dest!: sent(1)
      sent_all)

section \<open>Updates\<close>

lemma same_frame_continueUpdateRow_5 [simp]: "same_frame tx (continueUpdateRow_5 tx)"
  by (auto simp: continueUpdateRow_5_def Let_def same_frame_def reenter_def callback_def
      delete_Transaction_def split: option.split)

lemma extends_continueUpdateRow_5 [simp]: "extends ev tx (continueUpdateRow_5 tx') = extends ev tx tx'"
  by (rule extends_right) simp

lemma extends_request_unique:
  "request_unique ev t n v (sr, tx) = Inr (sr', tx') \<Longrightarrow> extends ev tx tx'"
  by (auto simp: request_unique_def Let_def dest!: sent(1))

lemma extends_update_unique:
  assumes "update_unique ev t n (sr, tx) = Inr (sr', tx')"
  shows "extends ev tx tx'"
proof (cases "(sr', tx') = (sr, tx)")
  case False
  then have "\<exists>v. request_unique ev t n v (sr, tx) = Inr (sr', tx')"
    using assms unfolding update_unique_def Let_def rbind_eq_Inr by (auto split: if_splits)
  then show ?thesis by (blast intro: extends_request_unique)
qed simp

lemma extends_update_uniques:
  assumes "rfold (update_unique ev t) ns (sr, tx) = Inr (sr', tx')"
  shows "extends ev tx tx'"
  by (rule extends_rfold_pair [OF _ assms]) (rule extends_update_unique)

lemma extends_finish_update [simp]: "extends ev tx (finish_update (sr, tx')) = extends ev tx tx'"
  by (simp add: finish_update_def Let_def)

lemma ext_continueUpdateRow_3 [ext_intros]: "ext_step ev (continueUpdateRow_3 ev)"
proof (rule ext_stepI)
  fix tx tx'
  assume a: "continueUpdateRow_3 ev tx = Inr tx'"
  define tx1 where "tx1 = cmdstate_update (\<lambda>c. c\<lparr>cs_uniqueindices := 0\<rparr>)
    (tx\<lparr>tx_stagedRows := um_update stagedRow0 id (cs_originaluur (tx_currentCmdState tx)) (tx_stagedRows tx)\<rparr>)"
  have left: "extends ev tx1 t = extends ev tx t" for t by (simp add: tx1_def)
  have "extends ev tx1 tx'"
    using a unfolding continueUpdateRow_3_def Let_def tx1_def [symmetric]
    by (auto split: if_splits dest!: extends_update_uniques)
  then show "extends ev tx tx'" by (simp add: left)
qed

lemma ext_continueUpdateRow_1 [ext_intros]: "ext_step ev (continueUpdateRow_1 ev)"
  by (rule ext_stepI) (auto simp: continueUpdateRow_1_def Let_def dest!: sent(1))

lemma live_eq [simp]: "live tx = Inr tx' \<longleftrightarrow> tx' = tx \<and> tx_alive tx"
  by (auto simp: live_def)

lemma ext_continueUpdateRow_2 [ext_intros]: "ext_step ev (continueUpdateRow_2 ev m)"
  by (rule ext_stepI, unfold continueUpdateRow_2_def Let_def)
    (auto split: if_splits dest!: ext_stepD [OF ext_revert] ext_stepD [OF ext_continueUpdateRow_3]
      intro: extends_trans)

lemma extends_update_granted [simp]: "extends ev tx (update_granted tx') = extends ev tx tx'"
  by (simp add: update_granted_def Let_def)

lemma extends_mark_index [simp]: "extends ev (mark_index f l tx) tx' = extends ev tx tx'"
  by (simp add: mark_index_def)

lemma ext_continueUpdateRow_4 [ext_intros]: "ext_step ev (continueUpdateRow_4 ev m)"
  by (rule ext_stepI, unfold continueUpdateRow_4_def Let_def)
    (auto split: locktype.splits dest!: ext_stepD [OF ext_abortCmd] ext_stepD [OF ext_checkLock])

lemma ext_continueUpdateRow [ext_intros]: "ext_step ev (continueUpdateRow ev ep)"
  by (rule ext_stepI, unfold continueUpdateRow_def)
    (auto split: if_splits dest: ext_stepD [OF ext_continueUpdateRow_1]
      ext_stepD [OF ext_continueUpdateRow_2] ext_stepD [OF ext_continueUpdateRow_3]
      ext_stepD [OF ext_continueUpdateRow_4])

lemma ext_replace [ext_intros]: "ext_step ev (replace ev)"
  by (rule ext_stepI, unfold replace_def Let_def) (auto split: if_splits dest!: sent(1))

lemma ext_continueReplaceRow_1 [ext_intros]: "ext_step ev (continueReplaceRow_1 ev m)"
  by (rule ext_stepI) (auto simp: continueReplaceRow_1_def Let_def dest!: sent(1))

lemma ext_continueReplaceRow_2 [ext_intros]: "ext_step ev (continueReplaceRow_2 ev m)"
  by (rule ext_stepI, unfold continueReplaceRow_2_def Let_def)
    (auto split: if_splits dest!: sent_rof ext_stepD [OF ext_continueUpdateRow])

lemma ext_continueReplaceRow [ext_intros]: "ext_step ev (continueReplaceRow ev ep)"
  by (rule ext_stepI, unfold continueReplaceRow_def)
    (auto split: if_splits dest: ext_stepD [OF ext_continueReplaceRow_1]
      ext_stepD [OF ext_continueReplaceRow_2])

lemma extends_append_values [simp]: "extends ev (append_values tx) tx' = extends ev tx tx'"
  "extends ev tx (append_values tx') = extends ev tx tx'"
  by (simp_all add: append_values_def)

lemma ext_start_update [ext_intros]: "ext_step ev (start_update ev)"
  by (rule ext_stepI, unfold start_update_def Let_def)
    (auto split: if_splits dest!: ext_stepD [OF ext_replace] ext_stepD [OF ext_continueUpdateRow])

lemma ext_updateRow [ext_intros]: "ext_step ev (updateRow ev)"
  by (rule ext_stepI, unfold updateRow_def Let_def)
    (auto split: if_splits option.splits prod.splits dest!: ext_stepD [OF ext_start_update])

section \<open>Commit\<close>

lemma ext_send_commits [ext_intros]: "ext_step ev (send_commits ev ep ms)"
  unfolding send_commits_def by (intro ext_intros) simp

lemma extends_end_subtransactions: "end_subtransactions ev xs tx = Inr tx' \<Longrightarrow> extends ev tx tx'"
  by (induction xs arbitrary: tx) (auto split: if_splits dest!: sent(2) intro: extends_trans)

lemma ext_continueCommit_4 [ext_intros]: "ext_step ev (continueCommit_4 ev)"
  by (rule ext_stepI) (auto simp: continueCommit_4_def intro: extends_end_subtransactions)

lemma ext_continueCommit_1 [ext_intros]: "ext_step ev (continueCommit_1 ev)"
  by (rule ext_stepI, unfold continueCommit_1_def Let_def)
    (auto split: if_splits dest!: ext_stepD [OF ext_send_commits] ext_stepD [OF ext_continueCommit_4])

lemma ext_continueCommit_2 [ext_intros]: "ext_step ev (continueCommit_2 ev)"
  by (rule ext_stepI, unfold continueCommit_2_def Let_def)
    (auto split: if_splits dest!: ext_stepD [OF ext_send_commits] ext_stepD [OF ext_continueCommit_4])

lemma ext_continueCommit_3 [ext_intros]: "ext_step ev (continueCommit_3 ev)"
  by (rule ext_stepI, unfold continueCommit_3_def Let_def)
    (auto split: if_splits dest!: ext_stepD [OF ext_continueCommit_4])

lemma ext_continueCommitTransaction [ext_intros]: "ext_step ev (continueCommitTransaction ev ep)"
  by (rule ext_stepI, unfold continueCommitTransaction_def)
    (auto split: if_splits dest: ext_stepD [OF ext_continueCommit_1] ext_stepD [OF ext_continueCommit_2]
      ext_stepD [OF ext_continueCommit_3] ext_stepD [OF ext_continueCommit_4])

lemma makeMessageDispatch_ids:
  "makeMessageDispatch tx = Some m \<Longrightarrow>
   di_transactionid (dp_dispatchStruct m) = tx_transactionid tx \<and>
   di_domainid (dp_dispatchStruct m) = tx_domainid tx"
  by (auto simp: makeMessageDispatch_def Let_def split: if_splits)

lemma extends_emits:
  "di_transactionid (dp_dispatchStruct m) = tx_transactionid tx \<Longrightarrow>
   di_domainid (dp_dispatchStruct m) = tx_domainid tx \<Longrightarrow>
   extends ev tx (fold (\<lambda>n. emit (ToActor (f n) m)) ns tx)"
proof (induction ns arbitrary: tx)
  case (Cons n ns)
  have "extends ev tx (emit (ToActor (f n) m) tx)"
    using Cons.prems by (intro extends_emit) (simp add: addressed_def)
  moreover have "extends ev (emit (ToActor (f n) m) tx) (fold (\<lambda>n. emit (ToActor (f n) m)) ns (emit (ToActor (f n) m) tx))"
    using Cons.prems by (intro Cons.IH) (simp_all add: emit_def)
  ultimately show ?case by (auto intro: extends_trans)
qed simp

lemma ext_start_commit [ext_intros]: "ext_step ev (start_commit ev)"
proof (rule ext_stepI)
  fix tx tx'
  assume a: "start_commit ev tx = Inr tx'"
  have one: "extends ev tx1 (emit (ToActor x m) tx1)"
    if "makeMessageDispatch tx = Some m" "extends ev tx tx1" for x m tx1
    using makeMessageDispatch_ids [OF that(1)] that(2)
    by (intro extends_emit) (simp add: addressed_def extends_def)
  have more: "extends ev tx (fold (\<lambda>n. emit (ToActor (f n) m)) ns tx)"
    if "makeMessageDispatch tx = Some m" for f m ns
    using makeMessageDispatch_ids [OF that] by (intro extends_emits) simp_all
  show "extends ev tx tx'"
    using a unfolding start_commit_def Let_def
    by (auto split: if_splits option.splits intro: one more extends_trans
        dest!: ext_stepD [OF ext_continueCommitTransaction])
qed

lemma ext_commit [ext_intros]: "ext_step ev (commit ev)"
  by (rule ext_stepI) (auto simp: commit_def dest!: ext_stepD [OF ext_start_commit] split: prod.splits)

section \<open>Statements\<close>

lemma sent_searches:
  "send_searches ev cmd tx = Inr tx' \<Longrightarrow> payload_ok INDEXSEARCH cmd \<Longrightarrow> extends ev tx tx'"
  by (auto simp: send_searches_def set_eventwaitcount_def dest!: sent_all)

lemma ext_search_equal [ext_intros]: "ext_step ev (search_equal ev fd t f l sp)"
  by (rule ext_stepI) (auto simp: search_equal_def Let_def set_eventwaitcount_def split: if_splits
      dest!: sent(1))

lemma ext_search_others [ext_intros]: "ext_step ev (search_others ev op t f sp)"
  by (rule ext_stepI) (auto simp: search_others_def Let_def set_eventwaitcount_def split: if_splits
      dest!: sent(1) sent_searches)

lemma extends_new_sqlcmdstate [simp]:
  "extends ev (new_sqlcmdstate a b c d e tx) tx' = extends ev tx tx'"
  "extends ev tx (new_sqlcmdstate a b c d e tx') = extends ev tx tx'"
  by (simp_all add: new_sqlcmdstate_def extends_def)

lemma ext_sqlPredicate [ext_intros]: "ext_step ev (sqlPredicate ev st op t lo ro l vs cd rs)"
  by (rule ext_stepI, unfold sqlPredicate_def Let_def)
    (auto split: if_splits prod.splits option.splits
      dest!: ext_stepD [OF ext_search_equal] ext_stepD [OF ext_search_others])

lemma ext_sqlSelectAll [ext_intros]: "ext_step ev (sqlSelectAll ev st t l p rs)"
  by (rule ext_stepI, unfold sqlSelectAll_def Let_def)
    (auto split: if_splits prod.splits dest!: sent_searches)

lemma extends_no_hits [simp]: "extends ev tx (no_hits tx') = extends ev tx tx'"
  by (simp add: no_hits_def Let_def)

lemma ext_continueSqlPredicate_1 [ext_intros]: "ext_step ev (continueSqlPredicate_1 ev m)"
  by (rule ext_stepI, unfold continueSqlPredicate_1_def Let_def set_eventwaitcount_def)
    (auto split: if_splits list.splits dest!: ext_stepD [OF ext_send_selectrows])

lemma same_frame_sql_rows: "same_frame tx (snd (sql_rows e rrs tx))"
proof (induction e rrs tx rule: sql_rows.induct)
  case (2 e rr rrs tx)
  have "same_frame tx (snd (sql_rows e rrs (sql_update f tx)))"
    if "same_frame (sql_update f tx) (snd (sql_rows e rrs (sql_update f tx)))" for f
    using same_frame_trans [OF same_frame_updates(2) that] .
  with 2 show ?case by (auto simp: Let_def)
qed (simp add: same_frame_def)

lemma extends_finish_search [simp]: "extends ev tx (finish_search tx') = extends ev tx tx'"
  by (simp add: finish_search_def split: pendingprimitive.split)

lemma extends_continueSqlPredicate_2 [simp]: "extends ev tx (continueSqlPredicate_2 m tx)"
proof -
  obtain ok tx1 where r: "sql_rows (ts_engineinstance (sc_transactionStruct m)) (sc_returnRows m) tx = (ok, tx1)"
    by (cases "sql_rows (ts_engineinstance (sc_transactionStruct m)) (sc_returnRows m) tx")
  have "extends ev tx tx1"
    using same_frame_sql_rows [of tx "ts_engineinstance (sc_transactionStruct m)" "sc_returnRows m"] r
    by (simp add: extends_same)
  then show ?thesis by (simp add: continueSqlPredicate_2_def r Let_def)
qed

lemma ext_continueSqlPredicate [ext_intros]: "ext_step ev (continueSqlPredicate ev ep)"
  by (rule ext_stepI, unfold continueSqlPredicate_def)
    (auto split: if_splits dest: ext_stepD [OF ext_continueSqlPredicate_1])

lemma ext_rmap:
  assumes "\<And>m tx. extends ev tx (f m tx)"
  shows "ext_step ev (\<lambda>tx. rmap (\<lambda>m. f m tx) (g tx))"
  using assms by (auto simp: ext_step_def)

lemma ext_continueSqlDelete [ext_intros]: "ext_step ev (continueSqlDelete ep)"
  unfolding continueSqlDelete_def Let_def badMessageHandler_def by (rule ext_rmap) simp

lemma extends_sql_unique:
  "sql_unique ev fd n v uur (sr, tx) = Inr (v', sr', tx') \<Longrightarrow> extends ev tx tx'"
  by (auto simp: sql_unique_def dest!: sent(1))

lemma extends_sqlinsert_fields:
  assumes "rfold (sqlinsert_field ev t) ns (sr, tx) = Inr (sr', tx')"
  shows "extends ev tx tx'"
  by (rule extends_rfold_pair [OF _ assms])
    (auto simp: sqlinsert_field_def Let_def split: if_splits dest!: extends_sql_unique)

lemma ext_continueSqlInsert_1 [ext_intros]: "ext_step ev (continueSqlInsert_1 ev m)"
  by (rule ext_stepI, unfold continueSqlInsert_1_def Let_def)
    (auto split: if_splits dest!: extends_sqlinsert_fields)

lemma extends_continueSqlInsert_2 [simp]: "extends ev tx (continueSqlInsert_2 m tx)"
  by (simp add: continueSqlInsert_2_def Let_def split: locktype.split)

lemma ext_continueSqlInsert [ext_intros]: "ext_step ev (continueSqlInsert ev ep)"
  by (rule ext_stepI, unfold continueSqlInsert_def)
    (auto split: if_splits dest: ext_stepD [OF ext_continueSqlInsert_1])

lemma extends_sql_change_reply [simp]: "extends ev tx (sql_change_reply m tx)"
  by (simp add: sql_change_reply_def Let_def)

lemma ext_continueSqlUpdate [ext_intros]: "ext_step ev (continueSqlUpdate ep)"
  by (rule ext_stepI) (auto simp: continueSqlUpdate_def)

lemma extends_sqlreplace_fields:
  assumes "rfold (sqlreplace_field ev t i vs) ns (sr, tx) = Inr (sr', tx')"
  shows "extends ev tx tx'"
  by (rule extends_rfold_pair [OF _ assms])
    (auto simp: sqlreplace_field_def split: if_splits dest!: extends_sql_unique)

lemma ext_continueSqlReplace_1 [ext_intros]: "ext_step ev (continueSqlReplace_1 ev m)"
  by (rule ext_stepI, unfold continueSqlReplace_1_def Let_def)
    (auto dest!: sent(1) extends_sqlreplace_fields intro: extends_trans)

lemma ext_continueSqlReplace [ext_intros]: "ext_step ev (continueSqlReplace ev ep)"
  by (rule ext_stepI, unfold continueSqlReplace_def)
    (auto split: if_splits dest: ext_stepD [OF ext_continueSqlReplace_1])

section \<open>Messages\<close>

lemma ext_run_pending [ext_intros]: "ext_step ev (run_pending ev ep)"
  by (rule ext_stepI, unfold run_pending_def badMessageHandler_def continueFetchRows_def
      continueUnlockRow_def continueRollbackTransaction_def)
    (auto split: pendingprimitive.splits dest: ext_stepD [OF ext_continueInsertRow]
      ext_stepD [OF ext_continueUpdateRow] ext_stepD [OF ext_continueDeleteRow]
      ext_stepD [OF ext_continueReplaceRow] ext_stepD [OF ext_continueSelectRows]
      ext_stepD [OF ext_continueCommitTransaction] ext_stepD [OF ext_continueSqlPredicate]
      ext_stepD [OF ext_continueSqlDelete] ext_stepD [OF ext_continueSqlInsert]
      ext_stepD [OF ext_continueSqlUpdate] ext_stepD [OF ext_continueSqlReplace])

lemma ext_processTransactionMessage_tx [ext_intros]: "ext_step ev (processTransactionMessage_tx ev m)"
  by (rule ext_stepI, unfold processTransactionMessage_tx_def Let_def badMessageHandler_def)
    (auto split: if_splits dest!: ext_stepD [OF ext_run_pending])

end
