(* ===== verification/Transaction_Api.thy ===== *)
theory Transaction_Api
  imports Transaction_Sql
begin

text \<open>
  The interface stored procedures are programmed against (\<open>infinisqld/api.cc\<close>): each function
  stores where to reenter and runs one command of the transaction. The overloads for the types of
  a value share a definition that takes the writer of the member.

  The overloads for lists and for bounds call \<open>reserve\<close> on the vector of values and then assign to
  \<open>values[n]\<close>, which is outside it.
\<close>

section \<open>Rows\<close>

definition setReEntry :: "reentry \<Rightarrow> transaction \<Rightarrow> transaction" where
  "setReEntry r tx = tx\<lparr>tx_reentryObject := Some r\<rparr>"

definition beginTransaction :: "transactionEnv \<Rightarrow> transaction \<Rightarrow> int \<Rightarrow> int \<Rightarrow> transaction" where
  "beginTransaction = Transaction"

definition bouncebackproxy :: "transaction \<Rightarrow> transaction res" where
  "bouncebackproxy = reenter_nostatus"

text \<open>The entry of field \<open>n\<close> of the row to insert; \<open>False\<close>: a null is not allowed.\<close>

definition insert_entry :: "transactionEnv \<Rightarrow> table \<Rightarrow> nat \<Rightarrow> transaction \<Rightarrow> (bool \<times> transaction) res" where
  "insert_entry ev t n tx =
     rbind (checkNullConstraintOK ev (int n) tx) (\<lambda>ok.
       if \<not> ok then Inr (False, tx)
       else
         let fd = tb_fields t ! n; c = tx_currentCmdState tx; info = cs_indexEntries c ! n
         in rbind (if fd_indextype fd \<noteq> NONE then
                     rbind (getEngineid_field ev t (int n) tx) (\<lambda>e.
                     rmap (\<lambda>v. info\<lparr>ii_engineid := e, ii_fieldid := int n,
                                  ii_tableid := cs_tableid c, ii_fieldVal := v\<rparr>)
                       (vec_at (int n) (tx_fieldValues tx)))
                   else Inr (info\<lparr>ii_engineid := - 1\<rparr>)) (\<lambda>info'.
              Inr (True, cmdstate_update (\<lambda>c. c\<lparr>cs_indexEntries := (cs_indexEntries c)[n := info'],
                     cs_rowidsEngineids := (cs_rowidsEngineids c)
                       [n := (cs_rowidsEngineids c ! n)\<lparr>nl_engineid := int16 (ii_engineid info')\<rparr>]\<rparr>) tx)))"

fun insert_entries :: "transactionEnv \<Rightarrow> table \<Rightarrow> nat list \<Rightarrow> transaction \<Rightarrow> (bool \<times> transaction) res" where
  "insert_entries ev t [] tx = Inr (True, tx)"
| "insert_entries ev t (n # ns) tx =
     rbind (insert_entry ev t n tx) (\<lambda>(ok, tx').
       if ok then insert_entries ev t ns tx' else Inr (False, tx'))"

definition indexInfo0 :: indexInfo where
  "indexInfo0 = \<lparr>ii_isaddunique = False, ii_locktype = NOLOCK, ii_engineid = 0, ii_tableid = 0,
     ii_fieldid = 0, ii_fieldVal = fieldValue0\<rparr>"

definition prepare_insert :: "int \<Rightarrow> nat \<Rightarrow> transaction \<Rightarrow> transaction" where
  "prepare_insert tableid numfields tx =
     (let (i, tx0) = getnextpendingcmdid
            (tx\<lparr>tx_returnNewRow := \<lparr>uu_rowid = - 1, uu_tableid = - 1, uu_engineid = - 1\<rparr>\<rparr>)
      in cmdstate_update (\<lambda>c. c\<lparr>cs_tableid := tableid, cs_tablePtr := Some tableid,
             cs_indexEntries := replicate numfields indexInfo0,
             cs_rowidsEngineids := take numfields (cs_rowidsEngineids c) @
               replicate (numfields - length (cs_rowidsEngineids c)) \<lparr>nl_rowid = 0, nl_engineid = 0\<rparr>\<rparr>)
           (zeroCurrentCmdState (tx0\<lparr>tx_pendingcmdid := i, tx_pendingcmd := INSERT\<rparr>)))"

definition send_newrow :: "transactionEnv \<Rightarrow> table \<Rightarrow> int \<Rightarrow> int \<Rightarrow> transaction \<Rightarrow> transaction res" where
  "send_newrow ev t tableid rowEngineid tx =
     rbind (makerow (tx_fieldValues tx) [] t) (\<lambda>(ok, vs, r, _).
       let tx1 = tx\<lparr>tx_fieldValues := vs\<rparr>
       in if \<not> ok then Inr (reenter APISTATUS_FIELD tx1)
          else rbind (unmakerow r [] t) (\<lambda>_.
            sendTransaction ev NEWROW 1 rowEngineid
              (message.PAYLOADSUBTRANSACTION (subtransactionCmd0
                 \<lparr>sc_subtransactionStruct := subtransactionStruct0\<lparr>ss_tableid := tableid\<rparr>, sc_row := r\<rparr>))
              (cmdstate_update (\<lambda>c. c\<lparr>cs_row := r\<rparr>) tx1)))"

definition insertRow :: "transactionEnv \<Rightarrow> reentry \<Rightarrow> int \<Rightarrow> transaction \<Rightarrow> transaction res" where
  "insertRow ev r tableid tx0 =
     (let tx = setReEntry r tx0
      in if tx_pendingcmd tx \<noteq> NOCOMMAND then Inr (reenter APISTATUS_PENDING tx)
         else rbind (tx_table ev tableid tx) (\<lambda>t. let n = length (tb_fields t) in
           rbind (insert_entries ev t [0..<n] (prepare_insert tableid n tx)) (\<lambda>(ok, tx1).
             if \<not> ok then Inr (reenter APISTATUS_NULLCONSTRAINT tx1)
             else rbind (getEngineid_field ev t 0 tx1) (\<lambda>e.
               let tx2 = cmdstate_update (\<lambda>c. c\<lparr>cs_rowEngineid := e\<rparr>) tx1
               in if e = - 1 then Inr (reenter APISTATUS_NOTOK tx2)
                  else send_newrow ev t tableid e tx2))))"

definition deleteRow :: "transactionEnv \<Rightarrow> reentry \<Rightarrow> uuRecord \<Rightarrow> transaction \<Rightarrow> transaction res" where
  "deleteRow ev r uur tx0 =
     (let tx = setReEntry r tx0
      in case map_of (tx_stagedRows tx) uur of
           None \<Rightarrow> Inr (reenter APISTATUS_NOTOK tx)
         | Some sr \<Rightarrow>
             if sr_locktype sr \<noteq> WRITELOCK \<or> sr_cmd sr \<noteq> NOCOMMAND \<or> tx_pendingcmd tx \<noteq> NOCOMMAND
             then Inr (reenter APISTATUS_NOTOK tx)
             else
               let (i, tx1) = getnextpendingcmdid tx
               in sendTransaction ev DELETEROW 1 (uu_engineid uur)
                    (message.PAYLOADSUBTRANSACTION (subtransactionCmd0
                       \<lparr>sc_subtransactionStruct := subtransactionStruct0
                          \<lparr>ss_rowid := uu_rowid uur, ss_tableid := uu_tableid uur\<rparr>\<rparr>))
                    (cmdstate_update (\<lambda>c. c\<lparr>cs_originaluur := uur\<rparr>)
                       (zeroCurrentCmdState (tx1\<lparr>tx_pendingcmdid := i, tx_pendingcmd := DELETE\<rparr>))))"

text \<open>These start a command that never ends: nothing is sent.\<close>

definition pend :: "pendingprimitive \<Rightarrow> reentry \<Rightarrow> transaction \<Rightarrow> transaction" where
  "pend cmd r tx0 =
     (let tx = setReEntry r tx0
      in if tx_pendingcmd tx \<noteq> NOCOMMAND then reenter APISTATUS_PENDING tx
         else let (i, tx1) = getnextpendingcmdid tx
              in tx1\<lparr>tx_pendingcmdid := i, tx_pendingcmd := cmd\<rparr>)"

definition replaceRow :: "reentry \<Rightarrow> transaction \<Rightarrow> transaction" where
  "replaceRow = pend REPLACE"

definition fetchRows :: "reentry \<Rightarrow> transaction \<Rightarrow> transaction" where
  "fetchRows = pend FETCH"

definition unlock :: "reentry \<Rightarrow> transaction \<Rightarrow> transaction" where
  "unlock = pend UNLOCK"

definition unless_pending :: "(transaction \<Rightarrow> transaction res) \<Rightarrow> reentry \<Rightarrow> transaction \<Rightarrow> transaction res" where
  "unless_pending f r tx0 =
     (let tx = setReEntry r tx0
      in if tx_pendingcmd tx \<noteq> NOCOMMAND then Inr (reenter APISTATUS_PENDING tx) else f tx)"

definition api_commit :: "transactionEnv \<Rightarrow> reentry \<Rightarrow> transaction \<Rightarrow> transaction res" where
  "api_commit ev = unless_pending (commit ev)"

definition api_rollback :: "transactionEnv \<Rightarrow> reentry \<Rightarrow> transaction \<Rightarrow> transaction res" where
  "api_rollback ev = unless_pending (rollback ev)"

definition api_rollback_uur :: "transactionEnv \<Rightarrow> reentry \<Rightarrow> uuRecord \<Rightarrow> transaction \<Rightarrow> transaction res" where
  "api_rollback_uur ev r uur = unless_pending (rollback_uur ev uur) r"

text \<open>\<open>revert\<close> does not reenter.\<close>

definition api_revert :: "transactionEnv \<Rightarrow> reentry \<Rightarrow> uuRecord \<Rightarrow> transaction \<Rightarrow> transaction res" where
  "api_revert ev r uur = unless_pending (revert ev uur) r"

section \<open>selectRows\<close>

definition selectRows :: "transactionEnv \<Rightarrow> reentry \<Rightarrow> int \<Rightarrow> int \<Rightarrow> locktype \<Rightarrow> operatortype \<Rightarrow> transaction \<Rightarrow>
    transaction res" where
  "selectRows ev r tableid fieldid locktype op tx0 =
     (let tx = setReEntry r tx0
      in if op \<noteq> OPERATOR_ISNULL \<and> op \<noteq> OPERATOR_ISNOTNULL \<and> op \<noteq> OPERATOR_SELECTALL
         then Inr (reenter APISTATUS_NOTOK tx)
         else tx_select ev tableid fieldid locktype (searchParams0\<lparr>sp_op := op\<rparr>) tx)"

definition selectRows_value :: "(fieldValue \<Rightarrow> fieldValue) \<Rightarrow> transactionEnv \<Rightarrow> reentry \<Rightarrow> int \<Rightarrow> int \<Rightarrow>
    locktype \<Rightarrow> operatortype \<Rightarrow> transaction \<Rightarrow> transaction res" where
  "selectRows_value f ev r tableid fieldid locktype op tx0 =
     tx_select ev tableid fieldid locktype
       (searchParams0\<lparr>sp_op := op, sp_values := [f fieldValue0]\<rparr>) (setReEntry r tx0)"

text \<open>\<open>values[n] = v\<close> on a vector\<close>

definition assign_at :: "nat \<Rightarrow> fieldValue \<Rightarrow> fieldValue list \<Rightarrow> fieldValue list res" where
  "assign_at n v vs = (if n < length vs then Inr (vs[n := v]) else Inl OutOfRange)"

definition selectRows_values :: "(fieldValue \<Rightarrow> fieldValue) list \<Rightarrow> transactionEnv \<Rightarrow> reentry \<Rightarrow> int \<Rightarrow> int \<Rightarrow>
    locktype \<Rightarrow> operatortype \<Rightarrow> transaction \<Rightarrow> transaction res" where
  "selectRows_values fs ev r tableid fieldid locktype op tx0 =
     rbind (rfold (\<lambda>n vs. assign_at n ((fs ! n) fieldValue0) vs) [0..<length fs] []) (\<lambda>vs.
       tx_select ev tableid fieldid locktype (searchParams0\<lparr>sp_op := op, sp_values := vs\<rparr>)
         (setReEntry r tx0))"

definition selectRows_string :: "bytes \<Rightarrow> transactionEnv \<Rightarrow> reentry \<Rightarrow> int \<Rightarrow> int \<Rightarrow>
    locktype \<Rightarrow> operatortype \<Rightarrow> transaction \<Rightarrow> transaction res" where
  "selectRows_string input ev r tableid fieldid locktype op tx0 =
     tx_select ev tableid fieldid locktype
       (if op = OPERATOR_REGEX then searchParams0\<lparr>sp_op := op, sp_regexString := input\<rparr>
        else searchParams0\<lparr>sp_op := op, sp_values := [fieldValue0\<lparr>str := input\<rparr>]\<rparr>) (setReEntry r tx0)"

definition selectRows_int :: "i64 \<Rightarrow> transactionEnv \<Rightarrow> reentry \<Rightarrow> int \<Rightarrow> int \<Rightarrow> locktype \<Rightarrow>
    operatortype \<Rightarrow> transaction \<Rightarrow> transaction res" where
  "selectRows_int input = selectRows_value (put_integer input)"

definition selectRows_uint :: "u64 \<Rightarrow> transactionEnv \<Rightarrow> reentry \<Rightarrow> int \<Rightarrow> int \<Rightarrow> locktype \<Rightarrow>
    operatortype \<Rightarrow> transaction \<Rightarrow> transaction res" where
  "selectRows_uint input = selectRows_value (put_uinteger input)"

definition selectRows_bool :: "bool \<Rightarrow> transactionEnv \<Rightarrow> reentry \<Rightarrow> int \<Rightarrow> int \<Rightarrow> locktype \<Rightarrow>
    operatortype \<Rightarrow> transaction \<Rightarrow> transaction res" where
  "selectRows_bool input = selectRows_value (put_boolean input)"

definition selectRows_float :: "ldouble \<Rightarrow> transactionEnv \<Rightarrow> reentry \<Rightarrow> int \<Rightarrow> int \<Rightarrow> locktype \<Rightarrow>
    operatortype \<Rightarrow> transaction \<Rightarrow> transaction res" where
  "selectRows_float input = selectRows_value (put_floating input)"

definition selectRows_char :: "i8 \<Rightarrow> transactionEnv \<Rightarrow> reentry \<Rightarrow> int \<Rightarrow> int \<Rightarrow> locktype \<Rightarrow>
    operatortype \<Rightarrow> transaction \<Rightarrow> transaction res" where
  "selectRows_char input = selectRows_value (put_character input)"

definition selectRows_ints :: "i64 list \<Rightarrow> transactionEnv \<Rightarrow> reentry \<Rightarrow> int \<Rightarrow> int \<Rightarrow> locktype \<Rightarrow>
    operatortype \<Rightarrow> transaction \<Rightarrow> transaction res" where
  "selectRows_ints input = selectRows_values (map put_integer input)"

definition selectRows_uints :: "u64 list \<Rightarrow> transactionEnv \<Rightarrow> reentry \<Rightarrow> int \<Rightarrow> int \<Rightarrow> locktype \<Rightarrow>
    operatortype \<Rightarrow> transaction \<Rightarrow> transaction res" where
  "selectRows_uints input = selectRows_values (map put_uinteger input)"

definition selectRows_bools :: "bool list \<Rightarrow> transactionEnv \<Rightarrow> reentry \<Rightarrow> int \<Rightarrow> int \<Rightarrow> locktype \<Rightarrow>
    operatortype \<Rightarrow> transaction \<Rightarrow> transaction res" where
  "selectRows_bools input = selectRows_values (map put_boolean input)"

definition selectRows_floats :: "ldouble list \<Rightarrow> transactionEnv \<Rightarrow> reentry \<Rightarrow> int \<Rightarrow> int \<Rightarrow> locktype \<Rightarrow>
    operatortype \<Rightarrow> transaction \<Rightarrow> transaction res" where
  "selectRows_floats input = selectRows_values (map put_floating input)"

definition selectRows_chars :: "i8 list \<Rightarrow> transactionEnv \<Rightarrow> reentry \<Rightarrow> int \<Rightarrow> int \<Rightarrow> locktype \<Rightarrow>
    operatortype \<Rightarrow> transaction \<Rightarrow> transaction res" where
  "selectRows_chars input = selectRows_values (map put_character input)"

definition selectRows_strings :: "bytes list \<Rightarrow> transactionEnv \<Rightarrow> reentry \<Rightarrow> int \<Rightarrow> int \<Rightarrow> locktype \<Rightarrow>
    operatortype \<Rightarrow> transaction \<Rightarrow> transaction res" where
  "selectRows_strings input = selectRows_values (map (\<lambda>x v. v\<lparr>str := x\<rparr>) input)"

definition selectRows_between_int :: "i64 \<Rightarrow> i64 \<Rightarrow> transactionEnv \<Rightarrow> reentry \<Rightarrow> int \<Rightarrow> int \<Rightarrow> locktype \<Rightarrow>
    operatortype \<Rightarrow> transaction \<Rightarrow> transaction res" where
  "selectRows_between_int lower upper = selectRows_values [put_integer lower, put_integer upper]"

definition selectRows_between_uint :: "u64 \<Rightarrow> u64 \<Rightarrow> transactionEnv \<Rightarrow> reentry \<Rightarrow> int \<Rightarrow> int \<Rightarrow> locktype \<Rightarrow>
    operatortype \<Rightarrow> transaction \<Rightarrow> transaction res" where
  "selectRows_between_uint lower upper = selectRows_values [put_uinteger lower, put_uinteger upper]"

definition selectRows_between_bool :: "bool \<Rightarrow> bool \<Rightarrow> transactionEnv \<Rightarrow> reentry \<Rightarrow> int \<Rightarrow> int \<Rightarrow> locktype \<Rightarrow>
    operatortype \<Rightarrow> transaction \<Rightarrow> transaction res" where
  "selectRows_between_bool lower upper = selectRows_values [put_boolean lower, put_boolean upper]"

definition selectRows_between_float :: "ldouble \<Rightarrow> ldouble \<Rightarrow> transactionEnv \<Rightarrow> reentry \<Rightarrow> int \<Rightarrow> int \<Rightarrow> locktype \<Rightarrow>
    operatortype \<Rightarrow> transaction \<Rightarrow> transaction res" where
  "selectRows_between_float lower upper = selectRows_values [put_floating lower, put_floating upper]"

definition selectRows_between_char :: "i8 \<Rightarrow> i8 \<Rightarrow> transactionEnv \<Rightarrow> reentry \<Rightarrow> int \<Rightarrow> int \<Rightarrow> locktype \<Rightarrow>
    operatortype \<Rightarrow> transaction \<Rightarrow> transaction res" where
  "selectRows_between_char lower upper = selectRows_values [put_character lower, put_character upper]"

definition selectRows_between_string :: "bytes \<Rightarrow> bytes \<Rightarrow> transactionEnv \<Rightarrow> reentry \<Rightarrow> int \<Rightarrow> int \<Rightarrow> locktype \<Rightarrow>
    operatortype \<Rightarrow> transaction \<Rightarrow> transaction res" where
  "selectRows_between_string lower upper = selectRows_values [(\<lambda>v. v\<lparr>str := lower\<rparr>), (\<lambda>v. v\<lparr>str := upper\<rparr>)]"

section \<open>updateRow\<close>

definition updateRow_fields :: "transactionEnv \<Rightarrow> reentry \<Rightarrow> uuRecord \<Rightarrow> transaction \<Rightarrow> transaction res" where
  "updateRow_fields ev r uur tx =
     updateRow ev (cmdstate_update (\<lambda>c. c\<lparr>cs_originaluur := uur, cs_isupdatemultiplefields := True\<rparr>)
       (setReEntry r tx))"

definition updateRow_value :: "(fieldValue \<Rightarrow> fieldValue) \<Rightarrow> transactionEnv \<Rightarrow> reentry \<Rightarrow> uuRecord \<Rightarrow> int \<Rightarrow>
    transaction \<Rightarrow> transaction res" where
  "updateRow_value f ev r uur fieldid tx =
     updateRow ev (cmdstate_update (\<lambda>c. c\<lparr>cs_originaluur := uur, cs_isupdatemultiplefields := False,
         cs_fieldid := fieldid, cs_fieldVal := f (cs_fieldVal c)\<rparr>) (setReEntry r tx))"

definition updateRowNullField :: "transactionEnv \<Rightarrow> reentry \<Rightarrow> uuRecord \<Rightarrow> int \<Rightarrow> transaction \<Rightarrow>
    transaction res" where
  "updateRowNullField = updateRow_value (\<lambda>v. v\<lparr>isnull := True\<rparr>)"

definition updateRow_int :: "i64 \<Rightarrow> transactionEnv \<Rightarrow> reentry \<Rightarrow> uuRecord \<Rightarrow> int \<Rightarrow>
    transaction \<Rightarrow> transaction res" where
  "updateRow_int input = updateRow_value (\<lambda>v. put_integer input (v\<lparr>isnull := False\<rparr>))"

definition updateRow_uint :: "u64 \<Rightarrow> transactionEnv \<Rightarrow> reentry \<Rightarrow> uuRecord \<Rightarrow> int \<Rightarrow>
    transaction \<Rightarrow> transaction res" where
  "updateRow_uint input = updateRow_value (\<lambda>v. put_uinteger input (v\<lparr>isnull := False\<rparr>))"

definition updateRow_bool :: "bool \<Rightarrow> transactionEnv \<Rightarrow> reentry \<Rightarrow> uuRecord \<Rightarrow> int \<Rightarrow>
    transaction \<Rightarrow> transaction res" where
  "updateRow_bool input = updateRow_value (\<lambda>v. put_boolean input (v\<lparr>isnull := False\<rparr>))"

definition updateRow_float :: "ldouble \<Rightarrow> transactionEnv \<Rightarrow> reentry \<Rightarrow> uuRecord \<Rightarrow> int \<Rightarrow>
    transaction \<Rightarrow> transaction res" where
  "updateRow_float input = updateRow_value (\<lambda>v. put_floating input (v\<lparr>isnull := False\<rparr>))"

definition updateRow_char :: "i8 \<Rightarrow> transactionEnv \<Rightarrow> reentry \<Rightarrow> uuRecord \<Rightarrow> int \<Rightarrow>
    transaction \<Rightarrow> transaction res" where
  "updateRow_char input = updateRow_value (\<lambda>v. put_character input (v\<lparr>isnull := False\<rparr>))"

definition updateRow_string :: "bytes \<Rightarrow> transactionEnv \<Rightarrow> reentry \<Rightarrow> uuRecord \<Rightarrow> int \<Rightarrow>
    transaction \<Rightarrow> transaction res" where
  "updateRow_string input = updateRow_value (\<lambda>v. v\<lparr>isnull := False, str := input\<rparr>)"

section \<open>Queries of the state\<close>

definition api_unmakerow :: "transactionEnv \<Rightarrow> int \<Rightarrow> bytes \<Rightarrow> fieldValue list \<Rightarrow> transaction \<Rightarrow>
    (bool \<times> fieldValue list) res" where
  "api_unmakerow ev tableid rowstring resultFields tx =
     rbind (tx_table ev tableid tx) (unmakerow rowstring resultFields)"

definition getResultCode :: "transaction \<Rightarrow> int" where
  "getResultCode tx = tx_resultCode tx"

definition deleteTransaction :: "transaction \<Rightarrow> transaction" where
  "deleteTransaction = delete_Transaction"

end
