(* ===== verification/Transaction_Steps.thy ===== *)
theory Transaction_Steps
  imports Transaction_Frames Transaction_Api
begin

text \<open>
  The states a transaction can reach: from the constructor by the operations of the interface and
  of the statements, the messages of its agent (a reply of an engine, the acknowledgement of all
  replicas, an abort of the deadlock manager). Every message it has sent is well formed
  (\<open>addressed\<close>): this is the type invariant of the outbox.
\<close>

section \<open>Steps\<close>

inductive tx_step :: "transactionEnv \<Rightarrow> transaction \<Rightarrow> transaction \<Rightarrow> bool" for ev where
  reply: "processTransactionMessage_tx ev m tx = Inr tx' \<Longrightarrow> tx_step ev tx tx'"
| dispatched: "continueCommitTransaction ev 1 tx = Inr tx' \<Longrightarrow> tx_step ev tx tx'"
| deadlocked: "deadlockAbort ev d tx = Inr tx' \<Longrightarrow> tx_step ev tx tx'"
| inserting: "insertRow ev r tableid tx = Inr tx' \<Longrightarrow> tx_step ev tx tx'"
| deleting: "deleteRow ev r uur tx = Inr tx' \<Longrightarrow> tx_step ev tx tx'"
| pending: "cmd \<in> {REPLACE, FETCH, UNLOCK} \<Longrightarrow> tx_step ev tx (pend cmd r tx)"
| selecting: "tx_select ev tableid fieldid locktype sp (setReEntry r tx) = Inr tx' \<Longrightarrow> tx_step ev tx tx'"
| updating: "updateRow ev (cmdstate_update f (setReEntry r tx)) = Inr tx' \<Longrightarrow> tx_step ev tx tx'"
| committing: "api_commit ev r tx = Inr tx' \<Longrightarrow> tx_step ev tx tx'"
| rollingback: "api_rollback ev r tx = Inr tx' \<Longrightarrow> tx_step ev tx tx'"
| rollingback_row: "api_rollback_uur ev r uur tx = Inr tx' \<Longrightarrow> tx_step ev tx tx'"
| reverting: "api_revert ev r uur tx = Inr tx' \<Longrightarrow> tx_step ev tx tx'"
| adding: "tx_step ev tx (addFieldToRow g tx)"
| predicate: "sqlPredicate ev st op tableid lo ro locktype vs cd rs tx = Inr tx' \<Longrightarrow> tx_step ev tx tx'"
| selectall: "sqlSelectAll ev st tableid locktype cmd rs tx = Inr tx' \<Longrightarrow> tx_step ev tx tx'"

inductive tx_reach :: "transactionEnv \<Rightarrow> transaction \<Rightarrow> bool" for ev where
  created: "tx_reach ev (Transaction ev mem transactionid domainid)"
| stepped: "tx_reach ev tx \<Longrightarrow> tx_step ev tx tx' \<Longrightarrow> tx_reach ev tx'"

section \<open>The outbox is well formed\<close>

definition outbox_ok :: "transactionEnv \<Rightarrow> transaction \<Rightarrow> bool" where
  "outbox_ok ev tx \<longleftrightarrow> list_all (addressed ev (tx_transactionid tx) (tx_domainid tx)) (tx_outbox tx)"

lemma outbox_ok_extends: "extends ev tx tx' \<Longrightarrow> outbox_ok ev tx \<Longrightarrow> outbox_ok ev tx'"
  by (auto simp: extends_def outbox_ok_def)

lemma outbox_ok_setReEntry [simp]: "outbox_ok ev (setReEntry r tx) = outbox_ok ev tx"
  "outbox_ok ev (cmdstate_update f tx) = outbox_ok ev tx"
  "outbox_ok ev (addFieldToRow g tx) = outbox_ok ev tx"
  by (simp_all add: outbox_ok_def setReEntry_def addFieldToRow_def)

lemma extends_insert_entry: "insert_entry ev t n tx = Inr (ok, tx') \<Longrightarrow> extends ev tx tx'"
  by (auto simp: insert_entry_def Let_def split: if_splits)

lemma extends_insert_entries: "insert_entries ev t ns tx = Inr (ok, tx') \<Longrightarrow> extends ev tx tx'"
  by (induction ns arbitrary: tx)
    (auto split: if_splits dest!: extends_insert_entry intro: extends_trans)

lemma ext_send_newrow: "ext_step ev (send_newrow ev t i e)"
  by (rule ext_stepI) (auto simp: send_newrow_def Let_def extends_def split: if_splits
      dest!: sent(1)
      simp: reenter_def callback_def delete_Transaction_def split: option.splits)

lemma extends_prepare_insert [simp]: "extends ev (prepare_insert i n tx) tx' = extends ev tx tx'"
proof -
  have "same_frame tx (prepare_insert i n tx)"
    by (simp add: prepare_insert_def getnextpendingcmdid_def zeroCurrentCmdState_def same_frame_def)
  then show ?thesis by (rule extends_left)
qed

lemma outbox_ok_insertRow:
  assumes "insertRow ev r i tx = Inr tx'" "outbox_ok ev tx"
  shows "outbox_ok ev tx'"
proof -
  have "extends ev (setReEntry r tx) tx'"
    using assms(1) unfolding insertRow_def Let_def
    by (auto split: if_splits dest!: extends_insert_entries ext_stepD [OF ext_send_newrow]
        intro: extends_trans)
  then show ?thesis using assms(2) outbox_ok_extends [of ev "setReEntry r tx" tx'] by simp
qed

lemma outbox_ok_deleteRow:
  assumes "deleteRow ev r uur tx = Inr tx'" "outbox_ok ev tx"
  shows "outbox_ok ev tx'"
proof -
  have "extends ev (setReEntry r tx) tx'"
    using assms(1) unfolding deleteRow_def Let_def
    by (auto split: if_splits option.splits prod.splits dest!: sent(1) simp: zeroCurrentCmdState_def)
  then show ?thesis using assms(2) outbox_ok_extends [of ev "setReEntry r tx" tx'] by simp
qed

lemma outbox_ok_unless_pending:
  assumes "unless_pending f r tx = Inr tx'" "ext_step ev f" "outbox_ok ev tx"
  shows "outbox_ok ev tx'"
proof -
  have "extends ev (setReEntry r tx) tx'"
    using assms(1,2) unfolding unless_pending_def Let_def by (auto split: if_splits dest: ext_stepD)
  then show ?thesis using assms(3) outbox_ok_extends [of ev "setReEntry r tx" tx'] by simp
qed

lemma outbox_ok_step: "tx_step ev tx tx' \<Longrightarrow> outbox_ok ev tx \<Longrightarrow> outbox_ok ev tx'"
proof (induction rule: tx_step.induct)
  case (pending cmd tx r)
  have "extends ev (setReEntry r tx) (pend cmd r tx)"
    by (simp add: pend_def Let_def getnextpendingcmdid_def)
  then show ?case using pending.prems outbox_ok_extends [of ev "setReEntry r tx" "pend cmd r tx"] by simp
next
  case (selecting tableid fieldid locktype sp r tx tx')
  then show ?case
    using outbox_ok_extends [OF ext_stepD [OF ext_tx_select selecting.hyps]] by simp
next
  case (updating f r tx tx')
  then show ?case using outbox_ok_extends [OF ext_stepD [OF ext_updateRow updating.hyps]] by simp
next
  case (committing r tx tx')
  then show ?case by (auto simp: api_commit_def intro: outbox_ok_unless_pending ext_commit)
next
  case (rollingback r tx tx')
  then show ?case by (auto simp: api_rollback_def intro: outbox_ok_unless_pending ext_rollback)
next
  case (rollingback_row r uur tx tx')
  then show ?case by (auto simp: api_rollback_uur_def intro: outbox_ok_unless_pending ext_rollback_uur)
next
  case (reverting r uur tx tx')
  then show ?case by (auto simp: api_revert_def intro: outbox_ok_unless_pending ext_revert)
qed (auto intro: outbox_ok_extends outbox_ok_insertRow outbox_ok_deleteRow
      ext_stepD [OF ext_processTransactionMessage_tx] ext_stepD [OF ext_continueCommitTransaction]
      ext_stepD [OF ext_deadlockAbort] ext_stepD [OF ext_sqlPredicate] ext_stepD [OF ext_sqlSelectAll])

lemma outbox_ok_created: "outbox_ok ev (Transaction ev mem i d)"
  by (simp add: outbox_ok_def Transaction_def)

lemma outbox_ok_reach: "tx_reach ev tx \<Longrightarrow> outbox_ok ev tx"
  by (induction rule: tx_reach.induct) (auto intro: outbox_ok_step outbox_ok_created)

end
