(* ===== verification/Transaction_Protocol.thy ===== *)
theory Transaction_Protocol
  imports Transaction_Frames
begin

text \<open>
  The message protocols of a transaction: what a state waits for, and that it goes on when the
  replies have come. A commit waits in \<open>currentCmdState.engines\<close> for the engines with changes
  and then for those of replaced rows; a search waits in \<open>sqlcmdstate.eventwaitcount\<close> for the
  hits of the partitions and then for the rows.
\<close>

section \<open>Replies\<close>

abbreviation deliver :: "transactionEnv \<Rightarrow> message list \<Rightarrow> transaction \<Rightarrow> transaction res" where
  "deliver ev \<equiv> rfold (processTransactionMessage_tx ev)"

text \<open>A reply to the command \<open>i\<close> for entry point \<open>ep\<close>, from an engine of the topology\<close>

definition reply_to :: "transactionEnv \<Rightarrow> int \<Rightarrow> int \<Rightarrow> message \<Rightarrow> bool" where
  "reply_to ev i ep m \<longleftrightarrow>
     (let ts = msg_transactionStruct m
      in ts_pendingcmdid ts = i \<and> ts_tacmdentrypoint ts = ep \<and> 0 \<le> ts_engineinstance ts \<and>
         ts_engineinstance ts \<le> ev_topnumpartitions ev)"

text \<open>The state the continuation runs in\<close>

definition received :: "message \<Rightarrow> transaction \<Rightarrow> transaction" where
  "received m tx =
     (let ts = msg_transactionStruct m; tx1 = tx\<lparr>tx_msgrcv := Some m\<rparr>
      in if map_count (ts_engineinstance ts) (tx_engineToSubTransactionids tx1) then tx1
         else tx1\<lparr>tx_engineToSubTransactionids :=
                um_put (ts_engineinstance ts) (ts_subtransactionid ts)
                  (tx_engineToSubTransactionids tx1)\<rparr>)"

lemma process_reply:
  "reply_to ev (tx_pendingcmdid tx) ep m \<Longrightarrow>
   processTransactionMessage_tx ev m tx = run_pending ev ep (received m tx)"
  by (simp add: processTransactionMessage_tx_def reply_to_def received_def Let_def)

lemma received_simps [simp]:
  "tx_pendingcmd (received m tx) = tx_pendingcmd tx"
  "tx_pendingcmdid (received m tx) = tx_pendingcmdid tx"
  "tx_currentCmdState (received m tx) = tx_currentCmdState tx"
  "tx_sqlcmdstate (received m tx) = tx_sqlcmdstate tx"
  "tx_reentryObject (received m tx) = tx_reentryObject tx"
  "tx_callbacks (received m tx) = tx_callbacks tx"
  "tx_stagedRows (received m tx) = tx_stagedRows tx"
  "tx_lockpendingcount (received m tx) = tx_lockpendingcount tx"
  "tx_lockcount (received m tx) = tx_lockcount tx"
  "tx_msgrcv (received m tx) = Some m"
  "tx_outbox (received m tx) = tx_outbox tx"
  "tx_enginesWithUniqueIndices (received m tx) = tx_enginesWithUniqueIndices tx"
  "tx_schemaPtr (received m tx) = tx_schemaPtr tx"
  "tx_nextpendingcmdid (received m tx) = tx_nextpendingcmdid tx"
  "tx_alive (received m tx) = tx_alive tx"
  "tx_query (received m tx) = tx_query tx"
  by (simp_all add: received_def Let_def)

text \<open>The engines the transaction knows are partitions of the topology.\<close>

definition engines_known :: "transactionEnv \<Rightarrow> transaction \<Rightarrow> bool" where
  "engines_known ev tx \<longleftrightarrow>
     (\<forall>x \<in> set (tx_engineToSubTransactionids tx). 0 \<le> fst x \<and> fst x \<le> ev_topnumpartitions ev)"

lemma engines_known_received:
  "engines_known ev tx \<Longrightarrow> reply_to ev i ep m \<Longrightarrow> engines_known ev (received m tx)"
  by (auto simp: engines_known_def received_def Let_def reply_to_def um_put_def)

section \<open>Sending does not fail\<close>

text \<open>What sending leaves as it is\<close>

definition sends_only :: "transaction \<Rightarrow> transaction \<Rightarrow> bool" where
  "sends_only tx tx' \<longleftrightarrow> (\<exists>ms. tx' = tx\<lparr>tx_outbox := tx_outbox tx @ ms\<rparr>)"

lemma sends_only_refl [simp]: "sends_only tx tx"
  unfolding sends_only_def by (rule exI [of _ "[]"]) simp

lemma sends_only_trans:
  assumes "sends_only tx tx'" "sends_only tx' tx''"
  shows "sends_only tx tx''"
proof -
  obtain ms where ms: "tx' = tx\<lparr>tx_outbox := tx_outbox tx @ ms\<rparr>"
    using assms(1) unfolding sends_only_def ..
  obtain ns where ns: "tx'' = tx'\<lparr>tx_outbox := tx_outbox tx' @ ns\<rparr>"
    using assms(2) unfolding sends_only_def ..
  show ?thesis unfolding sends_only_def by (rule exI [of _ "ms @ ns"]) (simp add: ms ns)
qed

lemma sends_only_emit [simp]: "sends_only tx (emit m tx)"
  by (auto simp: sends_only_def emit_def)

lemma sends_onlyD:
  assumes "sends_only tx tx'"
  shows "tx_pendingcmd tx' = tx_pendingcmd tx" "tx_pendingcmdid tx' = tx_pendingcmdid tx"
    "tx_currentCmdState tx' = tx_currentCmdState tx" "tx_sqlcmdstate tx' = tx_sqlcmdstate tx"
    "tx_reentryObject tx' = tx_reentryObject tx" "tx_callbacks tx' = tx_callbacks tx"
    "tx_engineToSubTransactionids tx' = tx_engineToSubTransactionids tx"
    "tx_stagedRows tx' = tx_stagedRows tx" "tx_lockpendingcount tx' = tx_lockpendingcount tx"
    "tx_alive tx' = tx_alive tx" "tx_lockcount tx' = tx_lockcount tx"
    "tx_nextpendingcmdid tx' = tx_nextpendingcmdid tx"
proof -
  obtain ms where "tx' = tx\<lparr>tx_outbox := tx_outbox tx @ ms\<rparr>" using assms unfolding sends_only_def ..
  then show "tx_pendingcmd tx' = tx_pendingcmd tx" "tx_pendingcmdid tx' = tx_pendingcmdid tx"
    "tx_currentCmdState tx' = tx_currentCmdState tx" "tx_sqlcmdstate tx' = tx_sqlcmdstate tx"
    "tx_reentryObject tx' = tx_reentryObject tx" "tx_callbacks tx' = tx_callbacks tx"
    "tx_engineToSubTransactionids tx' = tx_engineToSubTransactionids tx"
    "tx_stagedRows tx' = tx_stagedRows tx" "tx_lockpendingcount tx' = tx_lockpendingcount tx"
    "tx_alive tx' = tx_alive tx" "tx_lockcount tx' = tx_lockcount tx"
    "tx_nextpendingcmdid tx' = tx_nextpendingcmdid tx"
    by simp_all
qed

lemma toPartition_ok:
  assumes "0 < ev_producers ev"
  shows "\<exists>tx'. toPartition ev p m tx = Inr tx' \<and> sends_only tx tx'"
proof -
  let ?n = "int (ev_producers ev)"
  have "p < ?n" if "\<not> p > (?n - 1) mod 2 ^ 64"
  proof -
    have "(?n - 1) mod 2 ^ 64 \<le> ?n - 1" using assms by (intro zmod_le_nonneg_dividend) simp
    with that show ?thesis by linarith
  qed
  then show ?thesis by (auto simp: toPartition_def)
qed

lemma sendTransaction_ok:
  "0 < ev_producers ev \<Longrightarrow> \<exists>tx'. sendTransaction ev cmd ep e m tx = Inr tx' \<and> sends_only tx tx'"
  unfolding sendTransaction_def Let_def by (rule toPartition_ok)

lemma rfold_sends:
  assumes "\<And>x t. x \<in> set xs \<Longrightarrow> \<exists>t'. f x t = Inr t' \<and> sends_only t t'"
  shows "\<exists>t'. rfold f xs t = Inr t' \<and> sends_only t t'"
  using rfold_ok [of xs "sends_only t" f t] assms sends_only_trans sends_only_refl by meson

lemma send_commits_ok:
  "0 < ev_producers ev \<Longrightarrow> \<exists>tx'. send_commits ev ep ms tx = Inr tx' \<and> sends_only tx tx'"
  unfolding send_commits_def by (rule rfold_sends) (auto intro: sendTransaction_ok)

lemma send_selectrows_ok:
  "0 < ev_producers ev \<Longrightarrow> \<exists>tx'. send_selectrows ev t l ps tx = Inr tx' \<and> sends_only tx tx'"
  unfolding send_selectrows_def by (rule rfold_sends) (auto intro: sendTransaction_ok)

lemma end_subtransactions_ok:
  assumes "0 < ev_producers ev" "\<forall>x \<in> set xs. 0 \<le> fst x \<and> fst x \<le> ev_topnumpartitions ev"
  shows "\<exists>t. end_subtransactions ev xs tx = Inr (reenter APISTATUS_OK t) \<and> sends_only tx t"
  using assms(2)
proof (induction xs arbitrary: tx)
  case Nil
  show ?case by (rule exI [of _ tx]) simp
next
  case (Cons x xs)
  obtain t1 where t1: "send_endsubtransaction ev x tx = Inr t1" "sends_only tx t1"
    using toPartition_ok [OF assms(1), of "fst x"
        "TOPIC_ENDSUBTRANSACTION (transactionStruct0\<lparr>ts_subtransactionid := snd x\<rparr>)" tx]
    by (auto simp: send_endsubtransaction_def split_def)
  obtain t where t: "end_subtransactions ev xs t1 = Inr (reenter APISTATUS_OK t)" "sends_only t1 t"
    using Cons.IH [of t1] Cons.prems by auto
  show ?case
    using t1 t Cons.prems sends_only_trans [OF t1(2) t(2)] by (intro exI [of _ t]) auto
qed

section \<open>Commit\<close>

text \<open>Waiting for \<open>k\<close> replies\<close>

definition committing :: "transactionEnv \<Rightarrow> int \<Rightarrow> reentry \<Rightarrow> callback list \<Rightarrow> engineMsgs \<Rightarrow> nat \<Rightarrow>
    transaction \<Rightarrow> bool" where
  "committing ev i r cbs rms k tx \<longleftrightarrow>
     tx_pendingcmd tx = COMMIT \<and> tx_pendingcmdid tx = i \<and> tx_reentryObject tx = Some r \<and>
     tx_callbacks tx = cbs \<and> engines_known ev tx \<and>
     cs_replaceEngineMsgs (tx_currentCmdState tx) = rms \<and>
     cs_engines (tx_currentCmdState tx) = int k"

definition committed :: "reentry \<Rightarrow> callback list \<Rightarrow> transaction \<Rightarrow> bool" where
  "committed r cbs tx \<longleftrightarrow>
     tx_pendingcmd tx = NOCOMMAND \<and> tx_callbacks tx = cbs @ [Reenter r APISTATUS_OK]"

lemma continueCommit_4_ok:
  assumes "0 < ev_producers ev" "engines_known ev tx" "tx_reentryObject tx = Some r"
    "tx_callbacks tx = cbs"
  shows "\<exists>tx'. continueCommit_4 ev tx = Inr tx' \<and> committed r cbs tx'"
proof -
  obtain t where t: "end_subtransactions ev (tx_engineToSubTransactionids tx) tx
      = Inr (reenter APISTATUS_OK t)" "sends_only tx t"
    using end_subtransactions_ok [OF assms(1)] assms(2) unfolding engines_known_def by blast
  show ?thesis
    using t(1) sends_onlyD [OF t(2)] assms(3,4)
    by (simp add: continueCommit_4_def reenter_def committed_def callback_def)
qed

lemma committing_received:
  "committing ev i r cbs rms k tx \<Longrightarrow> reply_to ev i ep m \<Longrightarrow> committing ev i r cbs rms k (received m tx)"
  by (auto simp: committing_def engines_known_received)

lemma committing_engines:
  "committing ev i r cbs rms k tx \<Longrightarrow>
   committing ev i r cbs rms' k' (cmdstate_update (\<lambda>c. c\<lparr>cs_engines := int k', cs_replaceEngineMsgs := rms'\<rparr>) tx)"
  by (simp add: committing_def engines_known_def)

lemma committing_sends: "committing ev i r cbs rms k tx \<Longrightarrow> sends_only tx tx' \<Longrightarrow> committing ev i r cbs rms k tx'"
  by (auto simp: committing_def engines_known_def sends_onlyD)

lemma count_down:
  assumes "committing ev i r cbs rms (Suc k) tx"
  defines "tx1 \<equiv> cmdstate_update (\<lambda>c. c\<lparr>cs_engines := cs_engines c - 1\<rparr>) tx"
  shows "committing ev i r cbs rms k tx1"
  using assms(1) by (simp add: committing_def tx1_def engines_known_def)

text \<open>One reply of the second phase\<close>

lemma reply_3:
  assumes "0 < ev_producers ev" "committing ev i r cbs rms (Suc k) tx" "reply_to ev i 3 m"
  shows "\<exists>tx'. processTransactionMessage_tx ev m tx = Inr tx' \<and>
           (if k = 0 then committed r cbs tx' else committing ev i r cbs rms k tx')"
proof -
  let ?t = "cmdstate_update (\<lambda>c. c\<lparr>cs_engines := cs_engines c - 1\<rparr>) (received m tx)"
  have c: "committing ev i r cbs rms k ?t"
    using count_down committing_received [OF assms(2,3)] by blast
  have eq: "processTransactionMessage_tx ev m tx = continueCommit_3 ev (received m tx)"
    using assms(2,3) process_reply [of ev tx 3 m]
    by (simp add: committing_def run_pending_def continueCommitTransaction_def)
  show ?thesis
  proof (cases "k = 0")
    case True
    then show ?thesis
      using c continueCommit_4_ok [OF assms(1), of ?t r cbs]
      by (simp add: eq continueCommit_3_def committing_def Let_def)
  next
    case False
    then show ?thesis using c by (simp add: eq continueCommit_3_def committing_def Let_def)
  qed
qed

lemma replies_3:
  assumes "0 < ev_producers ev" "committing ev i r cbs rms (length ms) tx"
    "list_all (reply_to ev i 3) ms" "ms \<noteq> []"
  shows "\<exists>tx'. deliver ev ms tx = Inr tx' \<and> committed r cbs tx'"
  using assms(2-4)
proof (induction ms arbitrary: tx)
  case (Cons m ms)
  obtain t where t: "processTransactionMessage_tx ev m tx = Inr t"
    "if length ms = 0 then committed r cbs t else committing ev i r cbs rms (length ms) t"
    using reply_3 [OF assms(1), of i r cbs rms "length ms" tx m] Cons.prems by auto
  then show ?case using Cons.IH [of t] Cons.prems by (cases "ms = []") auto
qed simp

text \<open>One reply of the first phase; the last one starts the second, if there is one.\<close>

lemma reply_2:
  assumes "0 < ev_producers ev" "committing ev i r cbs rms (Suc k) tx" "reply_to ev i 2 m"
  shows "\<exists>tx'. processTransactionMessage_tx ev m tx = Inr tx' \<and>
           (if k \<noteq> 0 then committing ev i r cbs rms k tx'
            else if rms = [] then committed r cbs tx'
            else committing ev i r cbs rms (length rms) tx')"
proof -
  let ?t = "cmdstate_update (\<lambda>c. c\<lparr>cs_engines := cs_engines c - 1\<rparr>) (received m tx)"
  have c: "committing ev i r cbs rms k ?t"
    using count_down committing_received [OF assms(2,3)] by blast
  have eq: "processTransactionMessage_tx ev m tx = continueCommit_2 ev (received m tx)"
    using assms(2,3) process_reply [of ev tx 2 m]
    by (simp add: committing_def run_pending_def continueCommitTransaction_def)
  consider "k \<noteq> 0" | "k = 0" "rms = []" | "k = 0" "rms \<noteq> []" by blast
  then show ?thesis
  proof cases
    case 1
    then show ?thesis using c by (simp add: eq continueCommit_2_def committing_def Let_def)
  next
    case 2
    then show ?thesis
      using c continueCommit_4_ok [OF assms(1), of ?t r cbs]
      by (simp add: eq continueCommit_2_def committing_def Let_def)
  next
    case 3
    let ?u = "cmdstate_update (\<lambda>c. c\<lparr>cs_engines := int (length rms)\<rparr>) ?t"
    have u: "committing ev i r cbs rms (length rms) ?u"
      using c by (simp add: committing_def engines_known_def)
    obtain v where v: "send_commits ev 3 rms ?u = Inr v" "sends_only ?u v"
      using send_commits_ok [OF assms(1)] by blast
    have "cs_replaceEngineMsgs (tx_currentCmdState ?t) = rms" "cs_engines (tx_currentCmdState ?t) = 0"
      using c 3 by (simp_all add: committing_def)
    then have "processTransactionMessage_tx ev m tx = send_commits ev 3 rms
        (cmdstate_update (\<lambda>c. c\<lparr>cs_engines := int (length (cs_replaceEngineMsgs c))\<rparr>) ?t)"
      using 3 by (simp add: eq continueCommit_2_def Let_def)
    moreover have "cmdstate_update (\<lambda>c. c\<lparr>cs_engines := int (length (cs_replaceEngineMsgs c))\<rparr>) ?t = ?u"
      using c by (simp add: committing_def)
    ultimately show ?thesis using 3 v committing_sends [OF u v(2)] by simp
  qed
qed

lemma replies_part:
  assumes step: "\<And>k t m. committing ev i r cbs rms (Suc (Suc k)) t \<Longrightarrow> reply_to ev i ep m \<Longrightarrow>
      \<exists>t'. processTransactionMessage_tx ev m t = Inr t' \<and> committing ev i r cbs rms (Suc k) t'"
    and "committing ev i r cbs rms k tx" "list_all (reply_to ev i ep) ms" "length ms < k"
  shows "\<exists>t. deliver ev ms tx = Inr t \<and> committing ev i r cbs rms (k - length ms) t"
  using assms(2-4)
proof (induction ms arbitrary: tx k)
  case (Cons m ms)
  define j where "j = k - 2"
  have j: "k = Suc (Suc j)" using Cons.prems(3) by (simp add: j_def)
  obtain t where t: "processTransactionMessage_tx ev m tx = Inr t" "committing ev i r cbs rms (Suc j) t"
    using step [of j tx m] Cons.prems j by auto
  then show ?case using Cons.IH [of "Suc j" t] Cons.prems j by auto
qed simp

lemma replies_2_part:
  assumes "0 < ev_producers ev" "committing ev i r cbs rms k tx" "list_all (reply_to ev i 2) ms"
    "length ms < k"
  shows "\<exists>t. deliver ev ms tx = Inr t \<and> committing ev i r cbs rms (k - length ms) t"
  by (rule replies_part [OF _ assms(2-4)]) (use reply_2 [OF assms(1)] in fastforce)

lemma replies_3_part:
  assumes "0 < ev_producers ev" "committing ev i r cbs rms k tx" "list_all (reply_to ev i 3) ms"
    "length ms < k"
  shows "\<exists>t. deliver ev ms tx = Inr t \<and> committing ev i r cbs rms (k - length ms) t"
  by (rule replies_part [OF _ assms(2-4)]) (use reply_3 [OF assms(1)] in fastforce)

lemma replies_2:
  assumes "0 < ev_producers ev" "committing ev i r cbs rms (length ms) tx"
    "list_all (reply_to ev i 2) ms" "ms \<noteq> []"
  shows "\<exists>tx'. deliver ev ms tx = Inr tx' \<and>
     (if rms = [] then committed r cbs tx' else committing ev i r cbs rms (length rms) tx')"
proof -
  obtain ns n where ms: "ms = ns @ [n]" using assms(4) by (meson rev_exhaust)
  obtain t where t: "deliver ev ns tx = Inr t" "committing ev i r cbs rms (Suc 0) t"
    using replies_2_part [OF assms(1,2), of ns] assms(3) ms by auto
  show ?thesis
    using reply_2 [OF assms(1) t(2), of n] t(1) assms(3) by (auto simp: ms rfold_append)
qed

lemma both_phases:
  assumes "0 < ev_producers ev" "committing ev i r cbs rms (length ms2) tx" "ms2 \<noteq> []"
    "list_all (reply_to ev i 2) ms2" "length ms3 = length rms" "list_all (reply_to ev i 3) ms3"
  shows "\<exists>tx'. deliver ev (ms2 @ ms3) tx = Inr tx' \<and> committed r cbs tx'"
    and "n < length (ms2 @ ms3) \<Longrightarrow>
      \<exists>t k. deliver ev (take n (ms2 @ ms3)) tx = Inr t \<and> committing ev i r cbs rms k t"
proof -
  obtain u where u: "deliver ev ms2 tx = Inr u"
    "if rms = [] then committed r cbs u else committing ev i r cbs rms (length rms) u"
    using replies_2 [OF assms(1,2,4,3)] by blast
  show "\<exists>tx'. deliver ev (ms2 @ ms3) tx = Inr tx' \<and> committed r cbs tx'"
  proof (cases "rms = []")
    case True
    then show ?thesis using u assms(5) by simp
  next
    case False
    then have "ms3 \<noteq> []" using assms(5) by auto
    then show ?thesis
      using u assms(5,6) False replies_3 [OF assms(1), of i r cbs rms ms3 u]
      by (simp add: rfold_append)
  qed
  assume n: "n < length (ms2 @ ms3)"
  show "\<exists>t k. deliver ev (take n (ms2 @ ms3)) tx = Inr t \<and> committing ev i r cbs rms k t"
  proof (cases "n < length ms2")
    case True
    have l: "list_all (reply_to ev i 2) (take n ms2)"
      using assms(4) by (auto simp: list_all_iff dest: in_set_takeD)
    show ?thesis
      using replies_2_part [OF assms(1,2) l] True by (auto simp: min_def)
  next
    case False
    have l: "list_all (reply_to ev i 3) (take (n - length ms2) ms3)"
      using assms(6) by (auto simp: list_all_iff dest: in_set_takeD)
    have "rms \<noteq> []" using False n assms(5) by auto
    then have c: "committing ev i r cbs rms (length rms) u" using u(2) by simp
    have "length (take (n - length ms2) ms3) < length rms" using n False assms(5) by auto
    then show ?thesis
      using replies_3_part [OF assms(1) c l] u(1) False by (auto simp: rfold_append)
  qed
qed

lemma commit_stagedRow_cong:
  "tx_schemaPtr tx' = tx_schemaPtr tx \<Longrightarrow> commit_stagedRow ev tx' = commit_stagedRow ev tx"
  by (simp add: fun_eq_iff commit_stagedRow_def tx_table_def)

lemma commit_messages_cong:
  "tx_schemaPtr tx' = tx_schemaPtr tx \<Longrightarrow> tx_stagedRows tx' = tx_stagedRows tx \<Longrightarrow>
   commit_messages ev tx' = commit_messages ev tx"
  by (simp add: commit_messages_def commit_stagedRow_cong [of tx' tx])

lemma addRof_nonempty [simp]: "addRof e rof msgs \<noteq> []"
  by (cases msgs) (auto simp: addRof_def um_update_def map_count_def)

lemma entry_nonempty:
  "add_entry ev tab fd i n v loc msgs = Inr msgs' \<Longrightarrow> msgs' \<noteq> []"
  "delete_entry ev tab fd i n v loc msgs = Inr msgs' \<Longrightarrow> msgs' \<noteq> []"
  "replace_entry ev tab fd i n v sr msgs = Inr msgs' \<Longrightarrow> msgs' \<noteq> []"
  by (auto simp: add_entry_def delete_entry_def replace_entry_def Let_def split: prod.splits if_splits)

lemma indexed_fields_nonempty:
  assumes "indexed_fields tab f msgs = Inr msgs'" "msgs \<noteq> []"
    and "\<And>n fd ms ms'. ms \<noteq> [] \<Longrightarrow> f n fd ms = Inr ms' \<Longrightarrow> ms' \<noteq> []"
  shows "msgs' \<noteq> []"
  using assms(1) unfolding indexed_fields_def
  by (rule rfold_invariant [rotated 2, where I = "\<lambda>ms. ms \<noteq> []"])
    (use assms(2,3) in \<open>auto simp: Let_def split: if_splits\<close>)

lemma commit_stagedRow_nonempty:
  assumes "commit_stagedRow ev tx x (msgs, rms) = Inr (msgs', rms')" "rms \<noteq> [] \<longrightarrow> msgs \<noteq> []"
  shows "rms' \<noteq> [] \<longrightarrow> msgs' \<noteq> []"
proof -
  obtain uur sr where x: "x = (uur, sr)" by (cases x)
  have ne: "ms' \<noteq> []"
    if "commit_insert ev tab uur sr msgs = Inr ms' \<or> commit_delete ev tab uur sr msgs = Inr ms' \<or>
        commit_update ev tab uur sr msgs = Inr ms'" for tab ms'
    using that unfolding commit_insert_def commit_delete_def commit_update_def
    by (auto dest!: indexed_fields_nonempty dest: entry_nonempty
        simp: change_entry_def split: if_splits)
  have nr: "ms' \<noteq> []" if "commit_replace ev tab uur sr (msgs, rms) = Inr (ms', rs')" for tab ms' rs'
    using that unfolding commit_replace_def
    by (auto dest!: indexed_fields_nonempty dest: entry_nonempty
        simp: change_entry_def split: if_splits)
  have ne': "commit_insert ev tab uur sr msgs \<noteq> Inr []" "commit_delete ev tab uur sr msgs \<noteq> Inr []"
    "commit_update ev tab uur sr msgs \<noteq> Inr []" "commit_replace ev tab uur sr (msgs, rms) \<noteq> Inr ([], rs')" for tab rs'
    using ne nr by blast+
  show ?thesis
    using assms ne' by (cases "sr_cmd sr") (auto simp: x commit_stagedRow_def split: if_splits)
qed

lemma commit_messages_nonempty:
  assumes "commit_messages ev tx = Inr (msgs, rms)" "rms \<noteq> []"
  shows "msgs \<noteq> []"
proof -
  have "snd (msgs, rms) \<noteq> [] \<longrightarrow> fst (msgs, rms) \<noteq> []"
  proof (rule rfold_invariant [where I = "\<lambda>s. snd s \<noteq> [] \<longrightarrow> fst s \<noteq> []"])
    show "rfold (commit_stagedRow ev tx) (tx_stagedRows tx) ([], []) = Inr (msgs, rms)"
      using assms(1) by (simp add: commit_messages_def)
    fix x and s s' :: "engineMsgs \<times> engineMsgs"
    assume "snd s \<noteq> [] \<longrightarrow> fst s \<noteq> []" "commit_stagedRow ev tx x s = Inr s'"
    then show "snd s' \<noteq> [] \<longrightarrow> fst s' \<noteq> []"
      using commit_stagedRow_nonempty [of ev tx x "fst s" "snd s" "fst s'" "snd s'"] by simp
  qed simp
  with assms(2) show ?thesis by simp
qed

text \<open>The first step of a commit without replicas\<close>

lemma commit_starts:
  assumes "0 < ev_producers ev" "ev_numreplicas ev = 1" "engines_known ev tx"
    "tx_reentryObject tx = Some r" "commit_messages ev tx = Inr (msgs, rms)"
  shows "\<exists>tx1. commit ev tx = Inr tx1 \<and>
     (if msgs = [] then committed r (tx_callbacks tx) tx1
      else committing ev (tx_nextpendingcmdid tx + 1) r (tx_callbacks tx) rms (length msgs) tx1)"
proof -
  define t where "t = (cmdstate_update (\<lambda>c. c\<lparr>cs_replaceEngineMsgs := rms, cs_engines := int (length msgs)\<rparr>)
    (tx\<lparr>tx_nextpendingcmdid := tx_nextpendingcmdid tx + 1,
        tx_pendingcmdid := tx_nextpendingcmdid tx + 1, tx_pendingcmd := COMMIT,
        tx_waitfordispatched := 0\<rparr>))"
  have m: "commit_messages ev (tx\<lparr>tx_nextpendingcmdid := a, tx_pendingcmdid := b, tx_pendingcmd := c,
      tx_waitfordispatched := d\<rparr>) = Inr (msgs, rms)" for a b c d
    using assms(5) by (subst commit_messages_cong [of _ tx]) simp_all
  have eq: "commit ev tx = (if msgs = [] then continueCommit_4 ev t else send_commits ev 2 msgs t)"
    by (simp add: commit_def start_commit_def getnextpendingcmdid_def assms(2) t_def m
        continueCommitTransaction_def continueCommit_1_def Let_def)
  have c: "committing ev (tx_nextpendingcmdid tx + 1) r (tx_callbacks tx) rms (length msgs) t"
    using assms(3,4) by (simp add: committing_def t_def engines_known_def)
  show ?thesis
  proof (cases "msgs = []")
    case True
    then show ?thesis
      using c continueCommit_4_ok [OF assms(1), of t r "tx_callbacks tx"] by (simp add: eq committing_def)
  next
    case False
    obtain t' where "send_commits ev 2 msgs t = Inr t'" "sends_only t t'"
      using send_commits_ok [OF assms(1)] by blast
    then show ?thesis using False committing_sends [OF c] by (simp add: eq)
  qed
qed

section \<open>Searches of statements\<close>

definition search_cmds :: "pendingprimitive set" where
  "search_cmds = {PRIMITIVE_SQLPREDICATE, PRIMITIVE_SQLSELECTALL, PRIMITIVE_SQLSELECTALLFORDELETE,
     PRIMITIVE_SQLSELECTALLFORUPDATE}"

abbreviation sub_msgs :: "subtransactionCmd list \<Rightarrow> message list" where
  "sub_msgs \<equiv> map message.PAYLOADSUBTRANSACTION"

text \<open>The callback a search ends with\<close>

fun search_callback :: "pendingprimitive \<Rightarrow> int \<Rightarrow> callback" where
  "search_callback PRIMITIVE_SQLSELECTALL d = ContinueSelect 1"
| "search_callback PRIMITIVE_SQLSELECTALLFORDELETE d = ContinueDelete 1"
| "search_callback PRIMITIVE_SQLSELECTALLFORUPDATE d = ContinueUpdate 1"
| "search_callback _ d = SearchExpression 1 d"

text \<open>The members of a search that its messages do not change\<close>

definition searching :: "pendingprimitive \<Rightarrow> int \<Rightarrow> callback list \<Rightarrow> int \<Rightarrow> int \<Rightarrow> transaction \<Rightarrow> bool" where
  "searching cmd i cbs d t tx \<longleftrightarrow>
     tx_pendingcmd tx = cmd \<and> tx_pendingcmdid tx = i \<and> tx_callbacks tx = cbs \<and>
     tx_lockpendingcount tx = 0 \<and> sq_continuationData (tx_sqlcmdstate tx) = d \<and>
     sq_tableid (tx_sqlcmdstate tx) = t"

definition search_state :: "transaction \<Rightarrow> int \<times> indexEntries \<times> (uuRecord \<times> returnRow) list" where
  "search_state tx =
     (let s = tx_sqlcmdstate tx in (sq_eventwaitcount s, sq_indexHits s, sq_results s))"

text \<open>The engines with hits, each once\<close>

lemma group_hits_step:
  "distinct (map fst m) \<Longrightarrow> distinct (map fst (um_update d f k m)) \<and>
   set (map fst (um_update d f k m)) = insert k (set (map fst m))"
proof -
  assume a: "distinct (map fst m)"
  have "(if map_count k m then map fst m else k # map fst m) = map fst (um_update d f k m)"
    by (auto simp: um_update_def split: prod.splits)
  moreover have "map_count k m \<longleftrightarrow> k \<in> set (map fst m)"
    by (auto simp: map_count_def map_of_eq_None_iff)
  ultimately show ?thesis using a by (metis distinct.simps(2) insert_absorb list.simps(15))
qed

lemma group_hits_engines:
  "distinct (map fst (group_hits hs)) \<and> set (map fst (group_hits hs)) = nl_engineid ` set hs"
proof -
  have "distinct (map fst (fold (\<lambda>h. um_update [] (\<lambda>xs. xs @ [nl_rowid h]) (nl_engineid h)) hs m)) \<and>
        set (map fst (fold (\<lambda>h. um_update [] (\<lambda>xs. xs @ [nl_rowid h]) (nl_engineid h)) hs m)) =
          set (map fst m) \<union> nl_engineid ` set hs" if "distinct (map fst m)" for m
    using that
  proof (induction hs arbitrary: m)
    case (Cons h hs)
    let ?m = "um_update [] (\<lambda>xs. xs @ [nl_rowid h]) (nl_engineid h) m"
    have "distinct (map fst ?m)" "set (map fst ?m) = insert (nl_engineid h) (set (map fst m))"
      using group_hits_step [OF Cons.prems] by blast+
    then show ?case using Cons.IH [of ?m] by auto
  qed simp
  from this [of "[]"] show ?thesis by (simp add: group_hits_def)
qed

lemma length_group_hits: "length (group_hits hs) = card (nl_engineid ` set hs)"
  using group_hits_engines [of hs] by (metis distinct_card length_map)

lemma searching_received: "searching cmd i cbs d t tx \<Longrightarrow> searching cmd i cbs d t (received m tx)"
  by (simp add: searching_def)

lemma search_state_received [simp]: "search_state (received m tx) = search_state tx"
  by (simp add: search_state_def Let_def)

lemma run_search:
  assumes "searching cmd i cbs d t tx" "cmd \<in> search_cmds"
    "reply_to ev i ep (message.PAYLOADSUBTRANSACTION m)" "ep = 1 \<or> ep = 2"
  shows "processTransactionMessage_tx ev (message.PAYLOADSUBTRANSACTION m) tx =
    (let tx1 = received (message.PAYLOADSUBTRANSACTION m) tx
     in if ep = 1 then continueSqlPredicate_1 ev m tx1 else Inr (continueSqlPredicate_2 m tx1))"
  using assms process_reply [of ev tx ep "message.PAYLOADSUBTRANSACTION m"]
  by (auto simp: searching_def search_cmds_def run_pending_def continueSqlPredicate_def
      subtransactionCmdRef_def Let_def)

text \<open>A reply with hits, the last of which asks for the rows\<close>

lemma hits_reply:
  assumes "0 < ev_producers ev" "searching cmd i cbs d t tx" "cmd \<in> search_cmds"
    "search_state tx = (int (Suc k), hs, rs)" "reply_to ev i 1 (message.PAYLOADSUBTRANSACTION m)"
    "k = 0 \<Longrightarrow> hs @ sc_indexHits m \<noteq> []"
  defines "hs' \<equiv> hs @ sc_indexHits m"
  shows "\<exists>tx'. processTransactionMessage_tx ev (message.PAYLOADSUBTRANSACTION m) tx = Inr tx' \<and>
    searching cmd i cbs d t tx' \<and>
    search_state tx' = (int (if k = 0 then card (nl_engineid ` set hs') else k), hs', rs)"
proof -
  let ?t = "received (message.PAYLOADSUBTRANSACTION m) tx"
  let ?u = "sql_update (\<lambda>s. s\<lparr>sq_indexHits := sq_indexHits s @ sc_indexHits m,
                    sq_eventwaitcount := sq_eventwaitcount s - 1\<rparr>) ?t"
  have u: "searching cmd i cbs d t ?u" "search_state ?u = (int k, hs', rs)"
    using assms(2,4) by (simp_all add: searching_def search_state_def Let_def hs'_def)
  have eq: "processTransactionMessage_tx ev (message.PAYLOADSUBTRANSACTION m) tx = continueSqlPredicate_1 ev m ?t"
    using run_search [OF assms(2,3,5)] by simp
  have send: "\<exists>v. send_selectrows ev a b c (set_eventwaitcount n ?u) = Inr v \<and>
      searching cmd i cbs d t v \<and> search_state v = (n, hs', rs)" for a b c n
  proof -
    obtain v where v: "send_selectrows ev a b c (set_eventwaitcount n ?u) = Inr v"
      "sends_only (set_eventwaitcount n ?u) v"
      using send_selectrows_ok [OF assms(1)] by blast
    have "searching cmd i cbs d t v" "search_state v = (n, hs', rs)"
      using u sends_onlyD [OF v(2)]
      by (simp_all add: searching_def search_state_def set_eventwaitcount_def Let_def)
    with v(1) show ?thesis by blast
  qed
  have wait: "sq_eventwaitcount (tx_sqlcmdstate ?u) = int k" "sq_indexHits (tx_sqlcmdstate ?u) = hs'"
    using u(2) by (simp_all add: search_state_def Let_def)
  show ?thesis
  proof (cases "k = 0")
    case False
    then show ?thesis using u wait by (simp add: eq continueSqlPredicate_1_def Let_def)
  next
    case True
    then have "hs' \<noteq> []" using assms(6) by (simp add: hs'_def)
    then consider h where "hs' = [h]" | h h' hs'' where "hs' = h # h' # hs''"
      by (metis list.exhaust)
    then show ?thesis
    proof cases
      case 1
      have "processTransactionMessage_tx ev (message.PAYLOADSUBTRANSACTION m) tx =
          send_selectrows ev (sq_tableid (tx_sqlcmdstate ?u)) (sq_locktype (tx_sqlcmdstate ?u))
            [(nl_engineid h, [nl_rowid h])] (set_eventwaitcount 1 ?u)"
        using wait True 1 by (simp add: eq continueSqlPredicate_1_def Let_def)
      then show ?thesis using send True 1 by simp
    next
      case 2
      have "processTransactionMessage_tx ev (message.PAYLOADSUBTRANSACTION m) tx =
          send_selectrows ev (sq_tableid (tx_sqlcmdstate ?u)) (sq_locktype (tx_sqlcmdstate ?u))
            (group_hits hs') (set_eventwaitcount (int (length (group_hits hs'))) ?u)"
        using wait True 2 by (simp add: eq continueSqlPredicate_1_def Let_def)
      then show ?thesis using send True by (simp add: length_group_hits)
    qed
  qed
qed

text \<open>The rows of a reply\<close>

definition row_results :: "int \<Rightarrow> subtransactionCmd \<Rightarrow> (uuRecord \<times> returnRow) list" where
  "row_results t m =
     map (\<lambda>rr. (\<lparr>uu_rowid = rr_rowid rr, uu_tableid = t,
                uu_engineid = ts_engineinstance (sc_transactionStruct m)\<rparr>, rr))
       (filter (\<lambda>rr. rr_locktype rr \<in> {NOLOCK, READLOCK, WRITELOCK}) (sc_returnRows m))"

definition collect :: "(uuRecord \<times> returnRow) list \<Rightarrow> (uuRecord \<times> returnRow) list \<Rightarrow>
    (uuRecord \<times> returnRow) list" where
  "collect xs rs = fold (\<lambda>(u, rr). um_put u rr) xs rs"

definition no_pending :: "subtransactionCmd \<Rightarrow> bool" where
  "no_pending m \<longleftrightarrow> (\<forall>rr \<in> set (sc_returnRows m). rr_locktype rr \<notin>
     {PENDINGLOCK, PENDINGTOWRITELOCK, PENDINGTOREADLOCK, PENDINGTONOLOCK})"

lemma sql_rows_collect:
  assumes "\<forall>rr \<in> set rrs. rr_locktype rr \<notin>
     {PENDINGLOCK, PENDINGTOWRITELOCK, PENDINGTOREADLOCK, PENDINGTONOLOCK}"
    and "sq_tableid (tx_sqlcmdstate tx) = t"
  shows "sql_rows e rrs tx = (True, sql_update (\<lambda>s. s\<lparr>sq_results :=
      collect (map (\<lambda>rr. (\<lparr>uu_rowid = rr_rowid rr, uu_tableid = t, uu_engineid = e\<rparr>, rr))
        (filter (\<lambda>rr. rr_locktype rr \<in> {NOLOCK, READLOCK, WRITELOCK}) rrs)) (sq_results s)\<rparr>) tx)"
  using assms
proof (induction rrs arbitrary: tx)
  case (Cons rr rrs)
  show ?case
  proof (cases "rr_locktype rr \<in> {NOLOCK, READLOCK, WRITELOCK}")
    case True
    then show ?thesis using Cons by (simp add: collect_def Let_def comp_def)
  next
    case False
    then show ?thesis using Cons by (simp add: Let_def)
  qed
qed (simp add: collect_def)

lemma rows_reply:
  assumes "searching cmd i cbs d t tx" "cmd \<in> search_cmds"
    "search_state tx = (int (Suc k), hs, rs)" "reply_to ev i 2 (message.PAYLOADSUBTRANSACTION m)"
    "no_pending m"
  shows "\<exists>tx'. processTransactionMessage_tx ev (message.PAYLOADSUBTRANSACTION m) tx = Inr tx' \<and>
    search_state tx' = (int k, hs, collect (row_results t m) rs) \<and>
    (if k = 0 then tx_pendingcmd tx' = NOCOMMAND \<and> tx_pendingcmdid tx' = 0 \<and>
                   tx_callbacks tx' = cbs @ [search_callback cmd d]
     else searching cmd i cbs d t tx')"
proof -
  let ?t = "received (message.PAYLOADSUBTRANSACTION m) tx"
  let ?u = "sql_update (\<lambda>s. s\<lparr>sq_results := collect (row_results t m) (sq_results s),
                    sq_eventwaitcount := sq_eventwaitcount s - 1\<rparr>) ?t"
  have u: "searching cmd i cbs d t ?u" "search_state ?u = (int k, hs, collect (row_results t m) rs)"
    using assms(1,3) by (simp_all add: searching_def search_state_def Let_def)
  have rows: "sql_rows (ts_engineinstance (sc_transactionStruct m)) (sc_returnRows m) ?t =
      (True, sql_update (\<lambda>s. s\<lparr>sq_results := collect (row_results t m) (sq_results s)\<rparr>) ?t)"
    using assms(1,5) unfolding row_results_def
    by (intro sql_rows_collect) (simp_all add: no_pending_def searching_def)
  have eq: "processTransactionMessage_tx ev (message.PAYLOADSUBTRANSACTION m) tx =
      Inr (if k = 0 then finish_search ?u else ?u)"
  proof -
    have "continueSqlPredicate_2 m ?t = (if k = 0 then finish_search ?u else ?u)"
      using assms(1,3) by (simp add: continueSqlPredicate_2_def rows Let_def comp_def
          searching_def search_state_def)
    then show ?thesis using run_search [OF assms(1,2,4)] by simp
  qed
  show ?thesis
  proof (cases "k = 0")
    case True
    show ?thesis
      using True u assms(2)
      by (auto simp: eq finish_search_def searching_def search_cmds_def end_command_def callback_def
          search_state_def Let_def)
  next
    case False
    then show ?thesis using u by (simp add: eq)
  qed
qed


text \<open>All replies\<close>

lemma hits_part:
  assumes "0 < ev_producers ev" "cmd \<in> search_cmds" "searching cmd i cbs d t tx"
    "search_state tx = (int n, hs, rs)" "list_all (reply_to ev i 1) (sub_msgs ms)" "length ms < n"
  shows "\<exists>tx'. deliver ev (sub_msgs ms) tx = Inr tx' \<and> searching cmd i cbs d t tx' \<and>
    search_state tx' = (int (n - length ms), hs @ concat (map sc_indexHits ms), rs)"
  using assms(3-6)
proof (induction ms arbitrary: tx n hs)
  case (Cons m ms)
  obtain k where k: "n = Suc (Suc k)" using Cons.prems(4) by (cases n; cases "n - 1") auto
  obtain t1 where t1: "processTransactionMessage_tx ev (message.PAYLOADSUBTRANSACTION m) tx = Inr t1"
    "searching cmd i cbs d t t1" "search_state t1 = (int (Suc k), hs @ sc_indexHits m, rs)"
    using hits_reply [OF assms(1) Cons.prems(1) assms(2), of "Suc k" hs rs m] Cons.prems k by auto
  then show ?case using Cons.IH [OF t1(2,3)] Cons.prems k by auto
qed simp

lemma hits_all:
  assumes "0 < ev_producers ev" "cmd \<in> search_cmds" "searching cmd i cbs d t tx"
    "search_state tx = (int (length ms), [], rs)" "list_all (reply_to ev i 1) (sub_msgs ms)"
    "concat (map sc_indexHits ms) \<noteq> []"
  defines "hs \<equiv> concat (map sc_indexHits ms)"
  shows "\<exists>tx'. deliver ev (sub_msgs ms) tx = Inr tx' \<and> searching cmd i cbs d t tx' \<and>
    search_state tx' = (int (card (nl_engineid ` set hs)), hs, rs)"
proof -
  obtain ns n where ms: "ms = ns @ [n]" using assms(6) by (metis concat.simps(1) list.map(1) rev_exhaust)
  obtain u where u: "deliver ev (sub_msgs ns) tx = Inr u" "searching cmd i cbs d t u"
    "search_state u = (int (Suc 0), concat (map sc_indexHits ns), rs)"
    using hits_part [OF assms(1,2,3,4), of ns] assms(5) ms by auto
  obtain v where "processTransactionMessage_tx ev (message.PAYLOADSUBTRANSACTION n) u = Inr v"
    "searching cmd i cbs d t v" "search_state v = (int (card (nl_engineid ` set hs)), hs, rs)"
    using hits_reply [OF assms(1) u(2) assms(2) u(3), of n] assms(5,6) ms by (auto simp: hs_def)
  then show ?thesis using u(1) by (simp add: ms rfold_append)
qed

lemma rows_part:
  assumes "cmd \<in> search_cmds" "searching cmd i cbs d t tx"
    "search_state tx = (int n, hs, rs)" "list_all (reply_to ev i 2) (sub_msgs ms)"
    "list_all no_pending ms" "length ms < n"
  shows "\<exists>tx'. deliver ev (sub_msgs ms) tx = Inr tx' \<and> searching cmd i cbs d t tx' \<and>
    search_state tx' = (int (n - length ms), hs, collect (concat (map (row_results t) ms)) rs)"
  using assms(2-6)
proof (induction ms arbitrary: tx n rs)
  case Nil
  then show ?case by (simp add: collect_def)
next
  case (Cons m ms)
  obtain k where k: "n = Suc (Suc k)" using Cons.prems(5) by (cases n; cases "n - 1") auto
  obtain t1 where t1: "processTransactionMessage_tx ev (message.PAYLOADSUBTRANSACTION m) tx = Inr t1"
    "searching cmd i cbs d t t1" "search_state t1 = (int (Suc k), hs, collect (row_results t m) rs)"
    using rows_reply [OF Cons.prems(1) assms(1), of "Suc k" hs rs ev m] Cons.prems k by auto
  then show ?case using Cons.IH [OF t1(2,3)] Cons.prems k by (auto simp: collect_def)
qed

lemma rows_all:
  assumes "cmd \<in> search_cmds" "searching cmd i cbs d t tx"
    "search_state tx = (int (length ms), hs, rs)" "list_all (reply_to ev i 2) (sub_msgs ms)"
    "list_all no_pending ms" "ms \<noteq> []"
  shows "\<exists>tx'. deliver ev (sub_msgs ms) tx = Inr tx' \<and>
    search_state tx' = (0, hs, collect (concat (map (row_results t) ms)) rs) \<and>
    tx_pendingcmd tx' = NOCOMMAND \<and> tx_callbacks tx' = cbs @ [search_callback cmd d]"
proof -
  obtain ns n where ms: "ms = ns @ [n]" using assms(6) by (meson rev_exhaust)
  obtain u where u: "deliver ev (sub_msgs ns) tx = Inr u" "searching cmd i cbs d t u"
    "search_state u = (int (Suc 0), hs, collect (concat (map (row_results t) ns)) rs)"
    using rows_part [OF assms(1-3), of ev ns] assms(4,5) ms by auto
  obtain v where "processTransactionMessage_tx ev (message.PAYLOADSUBTRANSACTION n) u = Inr v"
    "search_state v = (0, hs, collect (row_results t n) (collect (concat (map (row_results t) ns)) rs))"
    "tx_pendingcmd v = NOCOMMAND" "tx_callbacks v = cbs @ [search_callback cmd d]"
    using rows_reply [OF u(2) assms(1) u(3), of ev n] assms(4,5) ms by auto
  then show ?thesis using u(1) by (simp add: ms rfold_append collect_def)
qed

text \<open>The first step of a search for all rows\<close>

lemma send_searches_ok:
  "0 < ev_producers ev \<Longrightarrow> \<exists>tx'. send_searches ev m tx = Inr tx' \<and>
     sends_only (set_eventwaitcount (ev_numpartitions ev) tx) tx'"
  unfolding send_searches_def by (rule rfold_sends) (auto intro: sendTransaction_ok)

lemma selectall_starts:
  assumes "0 < ev_producers ev" "tx_pendingcmd tx = NOCOMMAND" "tx_lockpendingcount tx = 0"
  shows "\<exists>tx1. sqlSelectAll ev st t l cmd [] tx = Inr tx1 \<and>
     searching cmd (tx_nextpendingcmdid tx + 1) (tx_callbacks tx) 0 t tx1 \<and>
     search_state tx1 = (ev_numpartitions ev, [], [])"
proof -
  let ?u = "(new_sqlcmdstate st [] t l 0 tx)
     \<lparr>tx_nextpendingcmdid := tx_nextpendingcmdid tx + 1,
      tx_pendingcmdid := tx_nextpendingcmdid tx + 1, tx_pendingcmd := cmd\<rparr>"
  let ?m = "message.PAYLOADSUBTRANSACTION (subtransactionCmd0
     \<lparr>sc_subtransactionStruct := subtransactionStruct0
        \<lparr>ss_tableid := t, ss_fieldid := 0, ss_locktype := l\<rparr>,
      sc_searchParameters := searchParams0\<lparr>sp_op := OPERATOR_SELECTALL\<rparr>\<rparr>)"
  obtain v where v: "send_searches ev ?m ?u = Inr v"
    "sends_only (set_eventwaitcount (ev_numpartitions ev) ?u) v"
    using send_searches_ok [OF assms(1)] by blast
  have "sqlSelectAll ev st t l cmd [] tx = send_searches ev ?m ?u"
    using assms(2) by (simp add: sqlSelectAll_def getnextpendingcmdid_def new_sqlcmdstate_def Let_def)
  moreover have "searching cmd (tx_nextpendingcmdid tx + 1) (tx_callbacks tx) 0 t v"
    "search_state v = (ev_numpartitions ev, [], [])"
    using sends_onlyD [OF v(2)] assms(3)
    by (simp_all add: searching_def search_state_def set_eventwaitcount_def new_sqlcmdstate_def
        sqlcmdstate0_def Let_def)
  ultimately show ?thesis using v(1) by auto
qed

end
