(* ===== verification/Transaction_Effects.thy ===== *)
theory Transaction_Effects
  imports Transaction_Steps Transaction_Protocol
begin

text \<open>
  What the commands of a transaction have the engines do, read off the messages sent: the rows and
  entries a rollback names, and (from the messages of a commit) the rows and entries that are
  committed, by engine.
\<close>

section \<open>Rollback\<close>

text \<open>The items of a message, with the engine it goes to\<close>

definition sent_rofs :: "enginecmd \<Rightarrow> outgoing \<Rightarrow> (int \<times> rowOrField) list" where
  "sent_rofs cmd out =
     (case out of
        ToPartition p (TOPIC_TRANSACTION _ (message.PAYLOADCOMMITROLLBACK m)) \<Rightarrow>
          if ts_enginecmd (cr_transactionStruct m) = cmd then map (Pair p) (cr_rofs m) else []
      | _ \<Rightarrow> [])"

definition sent_ends :: "outgoing \<Rightarrow> (int \<times> int) list" where
  "sent_ends out =
     (case out of ToPartition p (TOPIC_ENDSUBTRANSACTION ts) \<Rightarrow> [(p, ts_subtransactionid ts)] | _ \<Rightarrow> [])"

abbreviation named_rofs :: "enginecmd \<Rightarrow> transaction \<Rightarrow> (int \<times> rowOrField) list" where
  "named_rofs cmd tx \<equiv> concat (map (sent_rofs cmd) (tx_outbox tx))"

abbreviation ended :: "transaction \<Rightarrow> (int \<times> int) list" where
  "ended tx \<equiv> concat (map sent_ends (tx_outbox tx))"

text \<open>What was staged for a row: the row that replaced it, itself, its entries in unique indices\<close>

definition staged_items :: "uuRecord \<times> stagedRow \<Rightarrow> (int \<times> rowOrField) list" where
  "staged_items = (\<lambda>(uur, sr).
     (if replaced uur sr then [(sr_newengineid sr, row_rof (uu_tableid uur) (sr_newrowid sr))] else []) @
     (uu_engineid uur, row_rof (uu_tableid uur) (uu_rowid uur)) #
     map (\<lambda>(fieldid, lf). (lf_engineid lf, index_rof (uu_tableid uur) (uu_rowid uur) fieldid lf))
       (sr_uniqueIndices sr))"

definition partition_ok :: "transactionEnv \<Rightarrow> int \<Rightarrow> bool" where
  "partition_ok ev p \<longleftrightarrow>
     0 \<le> p \<and> p < int (ev_producers ev) \<and> int (ev_producers ev) \<le> 2 ^ 64"

lemma toPartition_in: "partition_ok ev p \<Longrightarrow> toPartition ev p m tx = Inr (emit (ToPartition p m) tx)"
  by (simp add: partition_ok_def toPartition_def)

lemma concat_map_Nil [simp]: "concat (map (\<lambda>_. []) xs) = []"
  by (induction xs) auto

lemma concat_map_single: "concat (map (\<lambda>x. [f x]) xs) = map f xs"
  by (induction xs) auto

text \<open>Steps that send items and ends\<close>

definition sends :: "(int \<times> rowOrField) list \<Rightarrow> (int \<times> int) list \<Rightarrow> transaction \<Rightarrow> transaction \<Rightarrow> bool" where
  "sends xs es tx tx' \<longleftrightarrow> sends_only tx tx' \<and> named_rofs ROLLBACKCMD tx' = named_rofs ROLLBACKCMD tx @ xs \<and>
     ended tx' = ended tx @ es"

lemma sends_Nil [simp]: "sends [] [] tx tx"
  by (simp add: sends_def)

lemma sends_append: "sends xs es tx tx' \<Longrightarrow> sends ys fs tx' tx'' \<Longrightarrow> sends (xs @ ys) (es @ fs) tx tx''"
  by (auto simp: sends_def intro: sends_only_trans)

lemma send_rof_sends:
  "partition_ok ev p \<Longrightarrow> \<exists>tx'. send_rof ev ROLLBACKCMD p rof tx = Inr tx' \<and> sends [(p, rof)] [] tx tx'"
  by (simp add: send_rof_def sendTransaction_def toPartition_in Let_def sends_def)
    (simp add: emit_def sent_rofs_def sent_ends_def)

lemma rfold_sends_items:
  assumes "\<And>x t. x \<in> set xs \<Longrightarrow> \<exists>t'. f x t = Inr t' \<and> sends (g x) (h x) t t'"
  shows "\<exists>t'. rfold f xs t = Inr t' \<and> sends (concat (map g xs)) (concat (map h xs)) t t'"
  using assms
proof (induction xs arbitrary: t)
  case (Cons x xs)
  obtain u where u: "f x t = Inr u" "sends (g x) (h x) t u" using Cons.prems [of x t] by auto
  obtain v where v: "rfold f xs u = Inr v" "sends (concat (map g xs)) (concat (map h xs)) u v"
    using Cons.IH Cons.prems by (meson list.set_intros(2))
  show ?case using u v sends_append [OF u(2) v(2)] by auto
qed simp

lemma send_indices_sends:
  assumes "\<forall>(f, lf) \<in> set (sr_uniqueIndices sr). partition_ok ev (lf_engineid lf)"
  shows "\<exists>tx'. send_indices ev uur sr tx = Inr tx' \<and>
     sends (map (\<lambda>(f, lf). (lf_engineid lf, index_rof (uu_tableid uur) (uu_rowid uur) f lf))
       (sr_uniqueIndices sr)) [] tx tx'"
proof -
  let ?g = "\<lambda>x. (lf_engineid (snd x), index_rof (uu_tableid uur) (uu_rowid uur) (fst x) (snd x))"
  have "\<exists>t. send_indices ev uur sr tx = Inr t \<and>
      sends (concat (map (\<lambda>x. [?g x]) (sr_uniqueIndices sr))) (concat (map (\<lambda>_. []) (sr_uniqueIndices sr))) tx t"
    unfolding send_indices_def
  proof (rule rfold_sends_items)
    fix x t assume "x \<in> set (sr_uniqueIndices sr)"
    then have "partition_ok ev (lf_engineid (snd x))" using assms by auto
    from send_rof_sends [OF this]
    show "\<exists>t'. (case x of (f, lf) \<Rightarrow> send_rof ev ROLLBACKCMD (lf_engineid lf)
        (index_rof (uu_tableid uur) (uu_rowid uur) f lf)) t = Inr t' \<and> sends [?g x] [] t t'"
      by (simp add: split_def)
  qed
  then show ?thesis by (simp add: concat_map_single split_def)
qed

definition engines_ok :: "transactionEnv \<Rightarrow> uuRecord \<times> stagedRow \<Rightarrow> bool" where
  "engines_ok ev x \<longleftrightarrow> (\<forall>(p, rof) \<in> set (staged_items x). partition_ok ev p)"

lemma rollback_row_sends:
  assumes "engines_ok ev x"
  shows "\<exists>tx'. rollback_row_tx ev x tx = Inr tx' \<and> sends (staged_items x) [] tx tx'"
proof -
  obtain uur sr where x: "x = (uur, sr)" by (cases x)
  let ?new = "if replaced uur sr then [(sr_newengineid sr, row_rof (uu_tableid uur) (sr_newrowid sr))] else []"
  let ?row = "(uu_engineid uur, row_rof (uu_tableid uur) (uu_rowid uur))"
  have ok: "replaced uur sr \<Longrightarrow> partition_ok ev (sr_newengineid sr)" "partition_ok ev (uu_engineid uur)"
    "\<forall>(f, lf) \<in> set (sr_uniqueIndices sr). partition_ok ev (lf_engineid lf)"
    using assms by (auto simp: engines_ok_def staged_items_def x)
  obtain t1 where t1: "(if replaced uur sr
      then send_rof ev ROLLBACKCMD (sr_newengineid sr) (row_rof (uu_tableid uur) (sr_newrowid sr)) tx
      else Inr tx) = Inr t1" "sends ?new [] tx t1"
    using send_rof_sends [OF ok(1)] by (cases "replaced uur sr") auto
  obtain t2 where t2: "send_rof ev ROLLBACKCMD (uu_engineid uur) (snd ?row) t1 = Inr t2"
    "sends [?row] [] t1 t2"
    using send_rof_sends [OF ok(2)] by auto
  obtain t3 where t3: "send_indices ev uur sr t2 = Inr t3"
    "sends (map (\<lambda>(f, lf). (lf_engineid lf, index_rof (uu_tableid uur) (uu_rowid uur) f lf))
       (sr_uniqueIndices sr)) [] t2 t3"
    using send_indices_sends [OF ok(3)] by blast
  show ?thesis
    using t1 t2 t3 sends_append [OF sends_append [OF t1(2) t2(2)] t3(2)]
    by (simp add: rollback_row_tx_def x staged_items_def)
qed

lemma end_sends:
  assumes "partition_ok ev (fst x)"
  shows "\<exists>tx'. send_endsubtransaction ev x tx = Inr tx' \<and> sends [] [x] tx tx'"
  using assms
  by (cases x) (auto simp: send_endsubtransaction_def toPartition_in sends_def emit_def sent_rofs_def
      sent_ends_def sends_only_def)

lemma rollback_sends:
  assumes "\<forall>x \<in> set (tx_stagedRows tx). engines_ok ev x"
    and "\<forall>x \<in> set (tx_engineToSubTransactionids tx). partition_ok ev (fst x)"
  shows "\<exists>t. rollback ev tx = Inr (reenter APISTATUS_OK t) \<and>
     sends (concat (map staged_items (tx_stagedRows tx))) (tx_engineToSubTransactionids tx) tx t"
proof -
  obtain u where u: "rfold (rollback_row_tx ev) (tx_stagedRows tx) tx = Inr u"
    "sends (concat (map staged_items (tx_stagedRows tx))) [] tx u"
    using rfold_sends_items [of "tx_stagedRows tx" "rollback_row_tx ev" staged_items "\<lambda>_. []" tx]
      assms(1) rollback_row_sends unfolding concat_map_Nil by blast
  have e: "tx_engineToSubTransactionids u = tx_engineToSubTransactionids tx"
    using u(2) sends_onlyD unfolding sends_def by blast
  obtain t where "rfold (send_endsubtransaction ev) (tx_engineToSubTransactionids tx) u = Inr t"
    "sends (concat (map (\<lambda>_. []) (tx_engineToSubTransactionids tx)))
       (concat (map (\<lambda>x. [x]) (tx_engineToSubTransactionids tx))) u t"
    using rfold_sends_items [of "tx_engineToSubTransactionids tx" "send_endsubtransaction ev"
        "\<lambda>_. []" "\<lambda>x. [x]" u] assms(2) end_sends by blast
  then show ?thesis using u(1) sends_append [OF u(2)] e by (force simp: rollback_def)
qed

end
