(* ===== verification/Transaction_Properties.thy ===== *)
theory Transaction_Properties
  imports Transaction_Effects
begin

text \<open>
  The properties of a transaction on the client's side: what it sends, that a commit and a search
  end when the replies have come, what a rollback undoes, and where the commands of the interface
  do not end or leave something behind. The witnesses run on one agent with two partitions.
\<close>

section \<open>A sample\<close>

definition demo_table :: table where
  "demo_table = Table 0 5"

definition demo_env :: transactionEnv where
  "demo_env = \<lparr>ev_hash64 = (\<lambda>bs. of_nat (length bs)), ev_instance = 1,
     ev_address = \<lparr>ad_nodeid = 1, ad_actorid = 2\<rparr>,
     ev_schemata = [1 \<mapsto> \<lparr>sch_domainid = 1, sch_nexttableid = 5, sch_tables = [5 \<mapsto> demo_table]\<rparr>],
     ev_topnumpartitions = 2, ev_numreplicas = 1, ev_numpartitions = 2, ev_producers = 2,
     ev_replicaAddress = \<lparr>ad_nodeid = 2, ad_actorid = 2\<rparr>, ev_replicaAddresses = [],
     ev_freshdeadlock = \<lparr>dl_transactionid = 0, dl_tainstance = 0, dl_transaction_pendingcmdid = 0,
       dl_deadlockchange = 0\<rparr>\<rparr>"

definition demo_uur :: uuRecord where
  "demo_uur = \<lparr>uu_rowid = 1, uu_tableid = 5, uu_engineid = 0\<rparr>"

definition demo_cmd :: cmdState where
  "demo_cmd = \<lparr>cs_tableid = 0, cs_tablePtr = None, cs_indexEntries = [], cs_rowEngineid = 0,
     cs_rowid = 0, cs_engineid = 0, cs_locktype = NOLOCK, cs_row = [], cs_enginesWithUniqueIndices = 0,
     cs_engines = 0, cs_fieldid = 0, cs_isunique = False, cs_destinationengineid = 0, cs_rowPtr = None,
     cs_rowidsEngineids = [], cs_replaceEngineMsgs = [], cs_ispossibledeadlock = False,
     cs_pendingStagedRows = [], cs_originaluur = demo_uur, cs_newuur = demo_uur,
     cs_isupdatemultiplefields = False, cs_fieldVal = fieldValue0, cs_newRow = [],
     cs_originalFieldValues = [], cs_newFieldValues = [], cs_uniqueindices = 0\<rparr>"

definition demo_query :: query where
  "demo_query = \<lparr>qy_tableid = 0, qy_newrow = [], qy_newrowengineid = 0, qy_newrowuur = demo_uur,
     qy_originalrowuur = demo_uur, qy_insertValues = [], qy_setFields = []\<rparr>"

definition demo_reentry :: reentry where
  "demo_reentry = \<lparr>rn_func = 1, rn_cmd = 2, rn_state = 3\<rparr>"

definition demo_mem :: transaction where
  "demo_mem = \<lparr>tx_transactionid = 0, tx_domainid = 0, tx_schemaPtr = None,
     tx_engineToSubTransactionids = [], tx_state = EXPANDING, tx_pendingcmd = NOCOMMAND,
     tx_pendingcmdid = 0, tx_msgrcv = None, tx_nextpendingcmdid = 0, tx_lockcount = 0,
     tx_lockpendingcount = 0, tx_reentryObject = Some demo_reentry, tx_currentCmdState = demo_cmd,
     tx_resultCode = 0, tx_fieldValues = [], tx_enginesWithUniqueIndices = 0,
     tx_returnNewRow = demo_uur, tx_returnselectedrows = [], tx_stagedRows = [],
     tx_fieldsToUpdate = [], tx_sqlcmdstate = sqlcmdstate0, tx_query = demo_query,
     tx_waitfordispatched = 0, tx_outbox = [], tx_callbacks = [], tx_alive = True\<rparr>"

definition demo_tx :: transaction where
  "demo_tx = Transaction demo_env demo_mem 7 1"

text \<open>A row that was locked, and one that moved from engine 0 to engine 1\<close>

definition demo_staged :: stagedRows where
  "demo_staged =
     [(\<lparr>uu_rowid = 1, uu_tableid = 5, uu_engineid = 0\<rparr>, stagedRow0\<lparr>sr_locktype := WRITELOCK\<rparr>),
      (\<lparr>uu_rowid = 2, uu_tableid = 5, uu_engineid = 0\<rparr>,
       stagedRow0\<lparr>sr_cmd := UPDATE, sr_originalrowid := 2, sr_originalengineid := 0, sr_newrowid := 4,
         sr_newengineid := 1, sr_locktype := WRITELOCK\<rparr>)]"

definition demo_holding :: transaction where
  "demo_holding = demo_tx\<lparr>tx_stagedRows := demo_staged,
     tx_engineToSubTransactionids := [(0, 8), (1, 9)]\<rparr>"

definition demo_ts :: "int \<Rightarrow> int \<Rightarrow> int \<Rightarrow> transactionStruct" where
  "demo_ts e i ep = transactionStruct0\<lparr>ts_engineinstance := e, ts_pendingcmdid := i,
     ts_tacmdentrypoint := ep\<rparr>"

definition demo_commitreply :: "int \<Rightarrow> int \<Rightarrow> int \<Rightarrow> message" where
  "demo_commitreply e i ep = message.PAYLOADCOMMITROLLBACK
     (commitRollbackMsg0\<lparr>cr_transactionStruct := demo_ts e i ep\<rparr>)"

lemmas demo_defs = demo_env_def demo_uur_def demo_cmd_def demo_query_def demo_reentry_def
  demo_mem_def demo_tx_def demo_ts_def Transaction_def

section \<open>Messages\<close>



section \<open>Commit\<close>

text \<open>C3. Without replicas a commit ends: if every engine that was sent rows to commit replies, and
  then every engine with the original of a row that moved, the procedure is called back once, with
  \<open>APISTATUS_OK\<close>, after the last of these replies and not before, and the transaction takes the
  next command.\<close>

theorem commit_completes:
  assumes "0 < ev_producers ev" "ev_numreplicas ev = 1" "engines_known ev tx"
    "tx_reentryObject tx = Some r" "commit_messages ev tx = Inr (msgs, rms)"
    "length ms2 = length msgs" "list_all (reply_to ev (tx_nextpendingcmdid tx + 1) 2) ms2"
    "length ms3 = length rms" "list_all (reply_to ev (tx_nextpendingcmdid tx + 1) 3) ms3"
  shows "\<exists>tx1 tx2. commit ev tx = Inr tx1 \<and> deliver ev (ms2 @ ms3) tx1 = Inr tx2 \<and>
     tx_pendingcmd tx2 = NOCOMMAND \<and>
     tx_callbacks tx2 = tx_callbacks tx @ [Reenter r APISTATUS_OK] \<and>
     (\<forall>n < length (ms2 @ ms3). \<exists>t. deliver ev (take n (ms2 @ ms3)) tx1 = Inr t \<and>
        tx_pendingcmd t = COMMIT \<and> tx_callbacks t = tx_callbacks tx)"
proof -
  let ?i = "tx_nextpendingcmdid tx + 1"
  obtain tx1 where tx1: "commit ev tx = Inr tx1"
    "if msgs = [] then committed r (tx_callbacks tx) tx1
     else committing ev ?i r (tx_callbacks tx) rms (length ms2) tx1"
    using commit_starts [OF assms(1-5)] assms(6) by auto
  show ?thesis
  proof (cases "msgs = []")
    case True
    then have "rms = []" using commit_messages_nonempty [OF assms(5)] by blast
    then show ?thesis using tx1 True assms(6,8) by (auto simp: committed_def)
  next
    case False
    then have ne: "ms2 \<noteq> []" using assms(6) by auto
    have c: "committing ev ?i r (tx_callbacks tx) rms (length ms2) tx1" using tx1 False by simp
    obtain tx2 where "deliver ev (ms2 @ ms3) tx1 = Inr tx2" "committed r (tx_callbacks tx) tx2"
      using both_phases(1) [OF assms(1) c ne assms(7,8,9)] by blast
    moreover have "\<exists>t. deliver ev (take n (ms2 @ ms3)) tx1 = Inr t \<and>
        tx_pendingcmd t = COMMIT \<and> tx_callbacks t = tx_callbacks tx"
      if "n < length (ms2 @ ms3)" for n
      using both_phases(2) [OF assms(1) c ne assms(7,8,9) that] by (auto simp: committing_def)
    ultimately show ?thesis using tx1(1) by (auto simp: committed_def)
  qed
qed

theorem commit_completes_witness:
  "\<exists>tx1 tx2. commit demo_env demo_holding = Inr tx1 \<and>
     deliver demo_env [demo_commitreply 0 1 2, demo_commitreply 1 1 2, demo_commitreply 0 1 3] tx1
       = Inr tx2 \<and> tx_callbacks tx2 = [Reenter demo_reentry APISTATUS_OK]"
proof -
  have m: "\<exists>msgs rms. commit_messages demo_env demo_holding = Inr (msgs, rms) \<and>
      length msgs = 2 \<and> length rms = 1"
    by (simp add: commit_messages_def demo_holding_def demo_staged_def demo_defs
        commit_stagedRow_def tx_table_def moved_def stagedRow0_def commit_replace_def
        demo_table_def Table_def unmakerow_def indexed_fields_def addRof_def um_update_def
        map_count_def)
  then obtain msgs rms where m: "commit_messages demo_env demo_holding = Inr (msgs, rms)"
    "length msgs = 2" "length rms = 1" by blast
  show ?thesis
    using commit_completes [of demo_env demo_holding demo_reentry msgs rms
        "[demo_commitreply 0 1 2, demo_commitreply 1 1 2]" "[demo_commitreply 0 1 3]"] m
    by (auto simp: demo_holding_def demo_defs engines_known_def reply_to_def demo_commitreply_def
        commitRollbackMsg0_def transactionStruct0_def)
qed

section \<open>Searches\<close>





section \<open>Rollback\<close>



section \<open>Commands that fail or do not end\<close>





text \<open>The values of an update are appended to those of the update before, which nothing clears:
  from the second update of a transaction on, the row has too many values, and the command fails
  with \<open>APISTATUS_FIELD\<close> without a message to any engine.\<close>

theorem second_update_fails:
  assumes "map_of (tx_stagedRows tx) uur = Some sr" "sr_locktype sr = WRITELOCK" "sr_cmd sr = NOCOMMAND"
    "tx_pendingcmd tx = NOCOMMAND" "tx_table ev (uu_tableid uur) tx = Inr t"
    "unmakerow (sr_originalRow sr) [] t = Inr (True, vs)" "length vs = length (tb_fields t)"
    "cs_newFieldValues (tx_currentCmdState tx) \<noteq> []"
  shows "\<exists>tx'. updateRow_int v ev r uur fieldid tx = Inr tx' \<and>
     tx_callbacks tx' = tx_callbacks tx @ [Reenter r APISTATUS_FIELD] \<and>
     tx_outbox tx' = tx_outbox tx \<and> tx_stagedRows tx' = tx_stagedRows tx"
proof -
  have t: "tx_table ev (uu_tableid uur) tx' = Inr t" if "tx_schemaPtr tx' = tx_schemaPtr tx" for tx'
    using assms(5) that by (simp add: tx_table_def)
  show ?thesis
    using assms(1-4,6-8)
    by (simp add: updateRow_int_def updateRow_value_def updateRow_def setReEntry_def t
        getnextpendingcmdid_def tx_tablePtr_def makerow_def append_values_def
        reenter_def callback_def Let_def del: rbind_eq_Inr rmap_eq_Inr deref_eq_Inr)
qed

definition demo_updated :: transaction where
  "demo_updated = demo_holding\<lparr>tx_currentCmdState := demo_cmd\<lparr>cs_newFieldValues := [fieldValue0]\<rparr>\<rparr>"

theorem second_update_fails_witness:
  "\<exists>tx'. updateRow_int (I64 3) demo_env demo_reentry demo_uur 0 demo_updated = Inr tx' \<and>
     tx_callbacks tx' = [Reenter demo_reentry APISTATUS_FIELD]"
  using second_update_fails [of demo_updated demo_uur "stagedRow0\<lparr>sr_locktype := WRITELOCK\<rparr>" demo_env
      demo_table "[]" "I64 3" demo_reentry 0]
  by (auto simp: demo_updated_def demo_holding_def demo_staged_def demo_defs stagedRow0_def
      tx_table_def demo_table_def Table_def unmakerow_def)

text \<open>With replicas, a commit that has nothing to dispatch sends nothing and waits for
  acknowledgements that nobody owes it: the command stays pending and the rows stay locked.\<close>

theorem readonly_commit_hangs:
  assumes "2 \<le> ev_numreplicas ev"
    "\<forall>(uur, sr) \<in> set (tx_stagedRows tx). sr_cmd sr \<notin> {INSERT, UPDATE, DELETE}"
  shows "\<exists>tx'. commit ev tx = Inr tx' \<and> tx_pendingcmd tx' = COMMIT \<and>
     tx_outbox tx' = tx_outbox tx \<and> tx_callbacks tx' = tx_callbacks tx \<and> 0 < tx_waitfordispatched tx'"
proof -
  have "fold (\<lambda>(uur, sr) rs. if sr_cmd sr \<in> {INSERT, UPDATE, DELETE}
      then um_update [] (\<lambda>xs. xs @ [dispatch_record uur sr]) (uu_engineid uur) rs else rs) xs [] = []"
    if "\<forall>(uur, sr) \<in> set xs. sr_cmd sr \<notin> {INSERT, UPDATE, DELETE}" for xs
    using that by (induction xs) auto
  from this [OF assms(2)] have "makeMessageDispatch (tx\<lparr>tx_nextpendingcmdid := i, tx_pendingcmdid := j,
      tx_pendingcmd := c, tx_waitfordispatched := w\<rparr>) = None" for i j c w
    by (simp add: makeMessageDispatch_def Let_def)
  then show ?thesis
    using assms(1) by (simp add: commit_def start_commit_def getnextpendingcmdid_def)
qed

theorem readonly_commit_hangs_witness:
  "\<exists>tx'. commit (demo_env\<lparr>ev_numreplicas := 2\<rparr>) demo_tx = Inr tx' \<and> tx_pendingcmd tx' = COMMIT \<and>
     tx_outbox tx' = []"
  using readonly_commit_hangs [of "demo_env\<lparr>ev_numreplicas := 2\<rparr>" demo_tx]
  by (auto simp: demo_defs)



end
