(* ===== verification/Ast_Operands.thy ===== *)
theory Ast_Operands
  imports Transaction_Sql
begin

text \<open>
  Operands of expressions (\<open>infinisqld/Asts.cc\<close>): an operand is a string whose first byte is its
  type and whose remaining bytes are its value. The conversions \<open>Ast::toFloat\<close>, and the
  arithmetic \<open>Ast::evaluate\<close> and \<open>Ast::evaluateAssignment\<close> do on the strings, as functions from
  the operands of the children to the operand of the operator.

  Arithmetic on \<open>long double\<close> is that of the x87 extended format, rounded to nearest; the code only
  ever assigns its result to an \<open>int64_t\<close>, so the model computes that integer.
\<close>

section \<open>Extended floating point\<close>

definition ld_negative :: "ldouble \<Rightarrow> bool" where
  "ld_negative x = bit (the_ld x) 79"

definition ld_exponent :: "ldouble \<Rightarrow> int" where
  "ld_exponent x = uint (take_bit 15 (drop_bit 64 (the_ld x)))"

definition ld_significand :: "ldouble \<Rightarrow> int" where
  "ld_significand x =
     (let m = uint (take_bit 64 (the_ld x)) in if ld_negative x then - m else m)"

definition ld_finite :: "ldouble \<Rightarrow> bool" where
  "ld_finite x = (ld_exponent x \<noteq> 32767)"

text \<open>A finite value is \<open>ld_significand x * 2 ^ (ld_scale x - 16446)\<close>; exponent 0 is denormal.\<close>

definition ld_scale :: "ldouble \<Rightarrow> int" where
  "ld_scale x = max (ld_exponent x) 1"

function bitlen :: "int \<Rightarrow> nat" where
  "bitlen n = (if n \<le> 0 then 0 else Suc (bitlen (n div 2)))"
  by auto
termination by (relation "measure nat") auto

declare bitlen.simps [simp del]

text \<open>
  The quotient \<open>p / q\<close> of numbers that are not negative, rounded to 64 significant bits (to
  nearest, ties to even), then truncated: \<open>f\<close> bits of the fraction are kept.
\<close>

definition round_half_even :: "int \<Rightarrow> int \<Rightarrow> int" where
  "round_half_even p q =
     (let n = p div q; r = p mod q
      in if 2 * r < q \<or> 2 * r = q \<and> even n then n else n + 1)"

definition rounded_trunc :: "int \<Rightarrow> int \<Rightarrow> int" where
  "rounded_trunc p q =
     (let f = 64 - bitlen (p div q) in round_half_even (p * 2 ^ f) q div 2 ^ f)"

text \<open>
  \<open>int64_t val = x\<close> for the exact result \<open>n / d * 2 ^ e\<close>; a value that does not fit is undefined.
\<close>

definition to_int64 :: "int \<Rightarrow> int \<Rightarrow> int \<Rightarrow> int res" where
  "to_int64 n d e =
     (let t = rounded_trunc (\<bar>n\<bar> * 2 ^ nat e) (d * 2 ^ nat (- e));
          v = (if n < 0 then - t else t)
      in if - (2 ^ 63) \<le> v \<and> v < 2 ^ 63 then Inr v else Inl SignedOverflow)"

text \<open>The four operations of two finite numbers, as an \<open>int64_t\<close>\<close>

definition ld_sum :: "int \<Rightarrow> ldouble \<Rightarrow> ldouble \<Rightarrow> int res" where
  "ld_sum sign x y =
     (let a = ld_scale x; b = ld_scale y; e = min a b
      in to_int64 (ld_significand x * 2 ^ nat (a - e) + sign * ld_significand y * 2 ^ nat (b - e))
           1 (e - 16446))"

definition ld_arith :: "operatortype \<Rightarrow> ldouble \<Rightarrow> ldouble \<Rightarrow> int res" where
  "ld_arith op x y =
     (if \<not> ld_finite x \<or> \<not> ld_finite y then Inl SignedOverflow
      else if op = OPERATOR_ADDITION then ld_sum 1 x y
      else if op = OPERATOR_SUBTRACTION then ld_sum (- 1) x y
      else if op = OPERATOR_MULTIPLICATION then
        to_int64 (ld_significand x * ld_significand y) 1 (ld_scale x + ld_scale y - 32892)
      else if ld_significand y = 0 then Inl SignedOverflow   \<comment> \<open>infinite or not a number\<close>
      else to_int64 (ld_significand x * sgn (ld_significand y)) \<bar>ld_significand y\<bar>
             (ld_scale x - ld_scale y))"

text \<open>\<open>(long double) val\<close> of an \<open>int64_t\<close>, which is exact\<close>

definition ld_of_i64 :: "u64 \<Rightarrow> ldouble" where
  "ld_of_i64 w =
     (let v = sint w; n = \<bar>v\<bar>; k = bitlen n
      in if n = 0 then LD 0
         else LD (word_of_int ((if v < 0 then 2 ^ 79 else 0) + (16382 + int k) * 2 ^ 64
                    + n * 2 ^ (64 - k))))"

section \<open>Conversions\<close>

text \<open>\<open>resize(n, c)\<close>, and \<open>memcpy\<close> to \<open>&s[pos]\<close> within the string\<close>

definition resize :: "nat \<Rightarrow> byte \<Rightarrow> bytes \<Rightarrow> bytes" where
  "resize n c s = take n s @ replicate (n - length s) c"

definition overwrite :: "nat \<Rightarrow> bytes \<Rightarrow> bytes \<Rightarrow> bytes" where
  "overwrite pos bs s = take pos s @ bs @ drop (pos + length bs) s"

definition word_bytes :: "u64 \<Rightarrow> bytes" where
  "word_bytes w = le_bytes 8 (uint w)"

definition set_tag :: "byte \<Rightarrow> bytes \<Rightarrow> bytes" where
  "set_tag c s = s[0 := c]"

text \<open>\<open>toFloat\<close> into a field value. The tag of an empty operand is its null character.\<close>

definition toFloat_value :: "bytes \<Rightarrow> fieldValue \<Rightarrow> fieldValue res" where
  "toFloat_value inoperand outField =
     rbind (byte_at 0 inoperand) (\<lambda>tag.
       if tag = OPERAND_INTEGER then
         rmap (\<lambda>w. put_floating (ld_of_i64 w) outField) (copy_word 1 inoperand)
       else if tag = OPERAND_FLOAT then
         rmap (\<lambda>x. copy_floating x outField) (copy_ldouble 1 inoperand)
       else Inr (put_floating (LD 0) outField))"

text \<open>
  \<open>toFloat\<close> into a string: \<open>resize\<close> fills with the tag of a float, but keeps the tag of an operand
  that is long enough, and the value of an integer is copied as it is.
\<close>

definition toFloat :: "bytes \<Rightarrow> bytes \<Rightarrow> bytes res" where
  "toFloat inoperand outoperand =
     rbind (byte_at 0 inoperand) (\<lambda>tag.
       if tag = OPERAND_INTEGER then
         rmap (\<lambda>w. overwrite 1 (word_bytes w) (resize 9 OPERAND_FLOAT outoperand)) (copy_word 1 inoperand)
       else if tag = OPERAND_FLOAT then Inr inoperand
       else
         rmap (\<lambda>x. overwrite 1 (le_bytes 16 (uint (the_ld x))) (resize 17 OPERAND_FLOAT outoperand))
           (copy_ldouble 1 inoperand))"

section \<open>Arithmetic\<close>

text \<open>\<open>*(int64_t *)(left + 1) op *(int64_t *)(right + 1)\<close>\<close>

definition checked :: "int \<Rightarrow> u64 res" where
  "checked v = (if - (2 ^ 63) \<le> v \<and> v < 2 ^ 63 then Inr (word_of_int v) else Inl SignedOverflow)"

definition int_arith :: "operatortype \<Rightarrow> u64 \<Rightarrow> u64 \<Rightarrow> u64 res" where
  "int_arith op x y =
     (if op = OPERATOR_ADDITION then checked (sint x + sint y)
      else if op = OPERATOR_SUBTRACTION then checked (sint x - sint y)
      else if op = OPERATOR_MULTIPLICATION then checked (sint x * sint y)
      else if sint y = 0 then Inl DivByZero
      else checked (sgn (sint x) * sgn (sint y) * (\<bar>sint x\<bar> div \<bar>sint y\<bar>)))"

definition integer_operand :: "u64 \<Rightarrow> bytes \<Rightarrow> bytes" where
  "integer_operand w operand =
     overwrite 1 (word_bytes w) (set_tag OPERAND_INTEGER (resize 9 0 operand))"

text \<open>Eight bytes are copied into the sixteen of the number.\<close>

definition float_operand :: "int \<Rightarrow> bytes \<Rightarrow> bytes" where
  "float_operand val operand =
     overwrite 1 (word_bytes (word_of_int val)) (set_tag OPERAND_FLOAT (resize 17 0 operand))"

text \<open>
  An operator on two operands: the operands of the children after their conversion, and the
  operand of the operator, or \<open>None\<close> where their types do not fit. The four operators have the same
  text (\<open>evaluate\<close> lines 212 to 427, \<open>evaluateAssignment\<close> lines 1552 to 1768).
\<close>

definition widen :: "bytes \<Rightarrow> bytes \<Rightarrow> (bytes \<times> bytes) res" where
  "widen left right =
     rbind (byte_at 0 left) (\<lambda>l. rbind (byte_at 0 right) (\<lambda>r.
       if l = OPERAND_FLOAT \<or> r = OPERAND_FLOAT then
         rbind (toFloat left left) (\<lambda>left'. rmap (\<lambda>right'. (left', right')) (toFloat right right))
       else Inr (left, right)))"

definition arith_widened :: "operatortype \<Rightarrow> bytes \<Rightarrow> bytes \<Rightarrow> bytes \<Rightarrow> bytes option res" where
  "arith_widened op left right operand =
     rbind (byte_at 0 left) (\<lambda>l. rbind (byte_at 0 right) (\<lambda>r.
       if l = OPERAND_INTEGER then
         (if r \<noteq> OPERAND_INTEGER then Inr None
          else rbind (copy_word 1 left) (\<lambda>x. rbind (copy_word 1 right) (\<lambda>y.
                 rmap (\<lambda>v. Some (integer_operand v operand)) (int_arith op x y))))
       else if l = OPERAND_FLOAT then
         (if r \<noteq> OPERAND_FLOAT then Inr None
          else rbind (copy_ldouble 1 left) (\<lambda>x. rbind (copy_ldouble 1 right) (\<lambda>y.
                 rmap (\<lambda>v. Some (float_operand v operand)) (ld_arith op x y))))
       else Inr None))"

definition arith :: "operatortype \<Rightarrow> bytes \<Rightarrow> bytes \<Rightarrow> bytes \<Rightarrow> (bytes \<times> bytes \<times> bytes option) res" where
  "arith op left right operand =
     rbind (widen left right) (\<lambda>(left', right').
       rmap (\<lambda>r. (left', right', r)) (arith_widened op left' right' operand))"

text \<open>Negation: \<open>0 - x\<close>\<close>

definition negate :: "bytes \<Rightarrow> bytes \<Rightarrow> bytes option res" where
  "negate right operand =
     rbind (byte_at 0 right) (\<lambda>r.
       if r = OPERAND_INTEGER then
         rbind (copy_word 1 right) (\<lambda>x.
           rmap (\<lambda>v. Some (integer_operand v operand)) (int_arith OPERATOR_SUBTRACTION 0 x))
       else if r = OPERAND_FLOAT then
         rbind (copy_ldouble 1 right) (\<lambda>x.
           rmap (\<lambda>v. Some (float_operand v operand)) (ld_arith OPERATOR_SUBTRACTION (LD 0) x))
       else Inr None)"

text \<open>Concatenation\<close>

definition concatenate :: "bytes \<Rightarrow> bytes \<Rightarrow> bytes option res" where
  "concatenate left right =
     rbind (byte_at 0 left) (\<lambda>l. rbind (byte_at 0 right) (\<lambda>r.
       if l \<noteq> OPERAND_STRING \<or> r \<noteq> OPERAND_STRING then Inr None
       else Inr (Some ([OPERAND_STRING] @ drop 1 left @ drop 1 right))))"

text \<open>The operand of \<open>BETWEEN ... AND ...\<close>\<close>

definition betweenand :: "bytes \<Rightarrow> bytes \<Rightarrow> bytes \<Rightarrow> bytes option res" where
  "betweenand left right operand =
     rbind (byte_at 0 left) (\<lambda>l. rbind (byte_at 0 right) (\<lambda>r.
       if l = OPERAND_INTEGER then
         (if r \<noteq> OPERAND_INTEGER then Inr None
          else rbind (copy_word 1 left) (\<lambda>x. rmap (\<lambda>y.
                 Some (overwrite 1 (word_bytes x @ word_bytes y)
                         (set_tag OPERAND_INTEGER (resize 17 0 operand)))) (copy_word 1 right)))
       else if l = OPERAND_FLOAT then
         (if r \<noteq> OPERAND_FLOAT then Inr None
          else rbind (copy_ldouble 1 left) (\<lambda>x. rmap (\<lambda>y.
                 Some (overwrite 1 (le_bytes 16 (uint (the_ld x)) @ le_bytes 16 (uint (the_ld y)))
                         (set_tag OPERAND_FLOAT (resize 33 0 operand)))) (copy_ldouble 1 right)))
       else if l = OPERAND_STRING then
         (if r \<noteq> OPERAND_STRING then Inr None
          else Inr (Some (overwrite 1 (word_bytes (word_of_nat (length left - 1)) @ drop 1 left @ drop 1 right)
                 (set_tag OPERAND_STRING (resize (1 + 8 + (length left - 1) + (length right - 1)) 0 operand)))))
       else Inr None))"

end
