(* ===== verification/Statement_Predicates.thy ===== *)
theory Statement_Predicates
  imports Ast_Operands
begin

text \<open>
  Predicates on rows a statement already holds (\<open>infinisqld/Asts.cc\<close>):
  \<open>Statement::stagedPredicate\<close> on the rows the transaction has staged, and
  \<open>Statement::andPredicate\<close> on the results of the left operand of an \<open>AND\<close> (its calls are
  disabled by \<open>if (0)\<close>). Each goes through its rows, decodes one, and tests the field by the type
  of the field: one definition per case of that switch, in the order of the code.

  The vector of the decoded fields is one for all rows of a call: a field that is null in a row
  keeps the value of the row before.
\<close>

section \<open>Comparisons\<close>

type_synonym results = "(uuRecord \<times> returnRow) list"

text \<open>The six comparisons of two values, and the two with a range\<close>

fun compares :: "operatortype \<Rightarrow> 'a::linorder \<Rightarrow> 'a \<Rightarrow> bool" where
  "compares OPERATOR_EQ x y = (x = y)"
| "compares OPERATOR_NE x y = (x \<noteq> y)"
| "compares OPERATOR_GT x y = (x > y)"
| "compares OPERATOR_LT x y = (x < y)"
| "compares OPERATOR_GTE x y = (x \<ge> y)"
| "compares OPERATOR_LTE x y = (x \<le> y)"
| "compares _ x y = False"

fun ranges :: "operatortype \<Rightarrow> 'a::linorder \<Rightarrow> 'a \<Rightarrow> 'a \<Rightarrow> bool" where
  "ranges OPERATOR_BETWEEN x y z = (x \<ge> y \<and> x \<le> z)"
| "ranges OPERATOR_NOTBETWEEN x y z = (x < y \<or> x > z)"
| "ranges _ x y z = False"

definition comparison_ops :: "operatortype list" where
  "comparison_ops =
     [OPERATOR_EQ, OPERATOR_NE, OPERATOR_GT, OPERATOR_LT, OPERATOR_GTE, OPERATOR_LTE]"

definition range_ops :: "operatortype list" where
  "range_ops = [OPERATOR_BETWEEN, OPERATOR_NOTBETWEEN]"

text \<open>On \<open>long double\<close>: a comparison with a value that is not a number is false, but \<open>!=\<close> is true.\<close>

definition ld_compares :: "operatortype \<Rightarrow> ldouble \<Rightarrow> ldouble \<Rightarrow> bool" where
  "ld_compares op x y =
     (if ld_isnan x \<or> ld_isnan y then op = OPERATOR_NE else compares op (ld_key x) (ld_key y))"

definition ld_ranges :: "operatortype \<Rightarrow> ldouble \<Rightarrow> ldouble \<Rightarrow> ldouble \<Rightarrow> bool" where
  "ld_ranges op x y z =
     (if op = OPERATOR_BETWEEN then ld_compares OPERATOR_GTE x y \<and> ld_compares OPERATOR_LTE x z
      else ld_compares OPERATOR_LT x y \<or> ld_compares OPERATOR_GT x z)"

text \<open>\<open>results[uurRef] = returnRow\<close> under the test\<close>

definition hit :: "bool \<Rightarrow> uuRecord \<Rightarrow> returnRow \<Rightarrow> results \<Rightarrow> results" where
  "hit b uur rr results = (if b then um_put uur rr results else results)"

text \<open>
  \<open>for (size_t n=0; inValues.size(); n++)\<close> has no bound: with any value in the list the loop of
  \<open>IN\<close> leaves the vector, that of \<open>NOT IN\<close> unless it meets an equal value.
\<close>

definition in_values :: "fieldtype \<Rightarrow> fieldValue \<Rightarrow> fieldValue list \<Rightarrow> bool res" where
  "in_values t v inValues = (if inValues = [] then Inr False else Inl OutOfRange)"

definition notin_values :: "fieldtype \<Rightarrow> fieldValue \<Rightarrow> fieldValue list \<Rightarrow> bool res" where
  "notin_values t v inValues =
     (if inValues = [] then Inr True
      else if \<exists>x \<in> set inValues. compareFields t v x then Inr False
      else Inl OutOfRange)"

text \<open>
  \<open>IN\<close> and \<open>NOT IN\<close> go through all rows again, with the field of the right operand and a vector
  of their own. The rows of every table are tested.
\<close>

fun in_loop :: "(fieldtype \<Rightarrow> fieldValue \<Rightarrow> fieldValue list \<Rightarrow> bool res) \<Rightarrow> int \<Rightarrow> table \<Rightarrow>
    fieldValue list \<Rightarrow> results \<Rightarrow> fieldValue list \<Rightarrow> results \<Rightarrow> results res" where
  "in_loop test fieldid t inValues [] fieldValues results = Inr results"
| "in_loop test fieldid t inValues ((uur, rr) # held) fieldValues results =
     rbind (unmakerow (rr_row rr) fieldValues t) (\<lambda>(_, fieldValues').
       rbind (if inValues = [] then Inr fieldValue0 else vec_at fieldid fieldValues') (\<lambda>v.
       rbind (field_at fieldid t) (\<lambda>fd.
       rbind (test (fd_type fd) v inValues) (\<lambda>b.
         in_loop test fieldid t inValues held fieldValues' (hit b uur rr results)))))"

definition in_rows :: "operatortype \<Rightarrow> bytes \<Rightarrow> table \<Rightarrow> fieldValue list \<Rightarrow> results \<Rightarrow> results \<Rightarrow>
    results res" where
  "in_rows op right t inValues held results =
     rbind (copy_word 1 right) (\<lambda>w. rbind (field_at (sint w) t) (\<lambda>_.
       in_loop (if op = OPERATOR_IN then in_values else notin_values) (sint w) t inValues held []
         results))"

section \<open>One row\<close>

text \<open>
  What the test of a row needs: the operator, the table, the values of the list, the rows of the
  inner loop, the field of the row, its key and the row. The state is \<open>equalhit\<close>, the right
  operand (which \<open>toFloat\<close> overwrites) and the results; \<open>None\<close> is the return of an anomaly.
\<close>

record rowTest =
  rt_op :: operatortype
  rt_table :: table
  rt_inValues :: "fieldValue list"
  rt_rows :: results
  rt_lhs :: fieldValue
  rt_uur :: uuRecord
  rt_row :: returnRow

type_synonym pstate = "bool \<times> bytes \<times> results"

definition row_hit :: "rowTest \<Rightarrow> bool \<Rightarrow> pstate \<Rightarrow> pstate option" where
  "row_hit r b = (\<lambda>(equalhit, right, results).
     Some (equalhit, right, hit b (rt_uur r) (rt_row r) results))"

text \<open>The operators all types share\<close>

definition row_rest :: "rowTest \<Rightarrow> pstate \<Rightarrow> pstate option res" where
  "row_rest r = (\<lambda>(equalhit, right, results).
     let op = rt_op r
     in if op = OPERATOR_IN \<or> op = OPERATOR_NOTIN then
          rmap (\<lambda>results'. Some (equalhit, right, results'))
            (in_rows op right (rt_table r) (rt_inValues r) (rt_rows r) results)
        else if op = OPERATOR_ISNULL then
          Inr (row_hit r (isnull (rt_lhs r)) (equalhit, right, results))
        else if op = OPERATOR_ISNOTNULL then
          Inr (row_hit r (\<not> isnull (rt_lhs r)) (equalhit, right, results))
        else Inr None)"

text \<open>\<open>LIKE\<close> and \<open>NOT LIKE\<close>: the pattern is compiled before it is negated.\<close>

definition row_like :: "(bytes \<Rightarrow> bytes \<Rightarrow> bool) \<Rightarrow> rowTest \<Rightarrow> pstate \<Rightarrow> pstate option res" where
  "row_like fullMatch r = (\<lambda>(equalhit, right, results).
     rmap (\<lambda>s. row_hit r (fullMatch (like2Regex s) (str (rt_lhs r))) (equalhit, right, results))
       (substr_from 1 right))"

section \<open>Staged rows\<close>

text \<open>Only the comparison of equal integers reports a hit.\<close>

definition staged_int :: "rowTest \<Rightarrow> pstate \<Rightarrow> pstate option res" where
  "staged_int r = (\<lambda>(equalhit, right, results).
     let op = rt_op r; lhs = integer (rt_lhs r)
     in if op = OPERATOR_EQ then
          rmap (\<lambda>x. let b = (lhs = (I64 x))
                     in row_hit r b (equalhit \<or> b, right, results)) (copy_word 1 right)
        else if op \<in> set comparison_ops then
          rmap (\<lambda>x. row_hit r (compares op lhs (I64 x)) (equalhit, right, results)) (copy_word 1 right)
        else if op \<in> set range_ops then
          rbind (copy_word 1 right) (\<lambda>x. rmap (\<lambda>y.
            row_hit r (ranges op lhs (I64 x) (I64 y)) (equalhit, right, results)) (copy_word 9 right))
        else row_rest r (equalhit, right, results))"

definition staged_bool :: "rowTest \<Rightarrow> pstate \<Rightarrow> pstate option res" where
  "staged_bool r = (\<lambda>(equalhit, right, results).
     let op = rt_op r; lhs = boolean (rt_lhs r)
     in if op \<in> set comparison_ops then
          rmap (\<lambda>x. row_hit r (compares op lhs (x \<noteq> 0)) (equalhit, right, results)) (byte_at 1 right)
        else if op \<in> set range_ops then
          rbind (byte_at 1 right) (\<lambda>x. rmap (\<lambda>y.
            row_hit r (ranges op lhs (x \<noteq> 0) (y \<noteq> 0)) (equalhit, right, results)) (byte_at 2 right))
        else row_rest r (equalhit, right, results))"

definition staged_float :: "rowTest \<Rightarrow> pstate \<Rightarrow> pstate option res" where
  "staged_float r = (\<lambda>(equalhit, right, results).
     let op = rt_op r; lhs = floating (rt_lhs r)
     in if op \<in> set comparison_ops then
          rbind (toFloat right right) (\<lambda>right'.
            rmap (\<lambda>x. row_hit r (ld_compares op lhs x) (equalhit, right', results)) (copy_ldouble 1 right'))
        else if op \<in> set range_ops then
          rbind (copy_ldouble 1 right) (\<lambda>x. rmap (\<lambda>y.
            row_hit r (ld_ranges op lhs x y) (equalhit, right, results)) (copy_ldouble 17 right))
        else row_rest r (equalhit, right, results))"

text \<open>The bounds of a range of \<open>CHAR\<close> are read behind the length, whatever it is.\<close>

definition staged_char :: "rowTest \<Rightarrow> pstate \<Rightarrow> pstate option res" where
  "staged_char r = (\<lambda>(equalhit, right, results).
     let op = rt_op r; lhs = character (rt_lhs r)
     in if op \<in> set comparison_ops then
          rmap (\<lambda>x. row_hit r (compares op lhs (I8 x)) (equalhit, right, results)) (byte_at 1 right)
        else if op \<in> set range_ops then
          rbind (byte_at 9 right) (\<lambda>x. rmap (\<lambda>y.
            row_hit r (ranges op lhs (I8 x) (I8 y)) (equalhit, right, results)) (byte_at 10 right))
        else row_rest r (equalhit, right, results))"

definition staged_charx :: "rowTest \<Rightarrow> pstate \<Rightarrow> pstate option res" where
  "staged_charx r = (\<lambda>(equalhit, right, results).
     let op = rt_op r
     in if op = OPERATOR_EQ \<or> op = OPERATOR_NE then
          rmap (\<lambda>s. row_hit r ((str (rt_lhs r) = s) = (op = OPERATOR_EQ)) (equalhit, right, results))
            (substr_from 1 right)
        else row_rest r (equalhit, right, results))"

definition staged_varchar :: "rowTest \<Rightarrow> pstate \<Rightarrow> pstate option res" where
  "staged_varchar r = (\<lambda>(equalhit, right, results).
     let op = rt_op r
     in if op = OPERATOR_EQ \<or> op = OPERATOR_NE then
          rmap (\<lambda>s. row_hit r ((str (rt_lhs r) = s) = (op = OPERATOR_EQ)) (equalhit, right, results))
            (substr_from 1 right)
        else row_rest r (equalhit, right, results))"

text \<open>There is no case for \<open>UINT\<close>.\<close>

definition staged_test :: "fieldtype \<Rightarrow> rowTest \<Rightarrow> pstate \<Rightarrow> pstate option res" where
  "staged_test ft r ps =
     (case ft of
        F_INT \<Rightarrow> staged_int r ps
      | F_BOOL \<Rightarrow> staged_bool r ps
      | F_FLOAT \<Rightarrow> staged_float r ps
      | F_CHAR \<Rightarrow> staged_char r ps
      | F_CHARX \<Rightarrow> staged_charx r ps
      | F_VARCHAR \<Rightarrow> staged_varchar r ps
      | _ \<Rightarrow> Inr None)"

definition unary_ops :: "operatortype list" where
  "unary_ops = [OPERATOR_IN, OPERATOR_NOTIN, OPERATOR_ISNULL, OPERATOR_ISNOTNULL]"

text \<open>The row of a staged row, as \<open>stagedRow2ReturnRow\<close> fills a new one\<close>

definition staged_return :: "uuRecord \<times> stagedRow \<Rightarrow> uuRecord \<times> returnRow" where
  "staged_return = (\<lambda>(uur, sr). (uur, stagedRow2ReturnRow sr returnRow0))"

text \<open>The loop over the staged rows; an anomaly leaves it with what it has.\<close>

fun staged_loop :: "operatortype \<Rightarrow> int \<Rightarrow> int \<Rightarrow> table \<Rightarrow> fieldValue list \<Rightarrow> results \<Rightarrow> stagedRows \<Rightarrow>
    fieldValue list \<Rightarrow> pstate \<Rightarrow> pstate res" where
  "staged_loop op tableid fieldid t inValues held [] fieldValues ps = Inr ps"
| "staged_loop op tableid fieldid t inValues held ((uur, sr) # srs) fieldValues ps =
     (if uu_tableid uur \<noteq> tableid
      then staged_loop op tableid fieldid t inValues held srs fieldValues ps
      else let rr = stagedRow2ReturnRow sr returnRow0
        in rbind (unmakerow (rr_row rr) fieldValues t) (\<lambda>(_, fieldValues').
           rbind (vec_at fieldid fieldValues') (\<lambda>lhs. rbind (field_at fieldid t) (\<lambda>fd.
           rbind (staged_test (fd_type fd)
                    \<lparr>rt_op = op, rt_table = t, rt_inValues = inValues, rt_rows = held, rt_lhs = lhs,
                     rt_uur = uur, rt_row = rr\<rparr> ps) (\<lambda>next.
             case next of
               None \<Rightarrow> Inr ps
             | Some ps' \<Rightarrow>
                 staged_loop op tableid fieldid t inValues held srs fieldValues' ps')))))"

definition stagedPredicate :: "operatortype \<Rightarrow> int \<Rightarrow> table res \<Rightarrow> bytes \<Rightarrow> bytes \<Rightarrow> fieldValue list \<Rightarrow>
    stagedRows \<Rightarrow> results \<Rightarrow> pstate res" where
  "stagedPredicate op tableid tab leftoperand rightoperand inValues staged results =
     rbind (if op \<in> set unary_ops then Inr OPERAND_FIELDID else byte_at 0 leftoperand) (\<lambda>tag.
       if tag \<noteq> OPERAND_FIELDID then Inr (False, rightoperand, results)
       else rbind (copy_word 1 leftoperand) (\<lambda>w. rbind tab (\<lambda>t.
              staged_loop op tableid (sint w) t inValues (map staged_return staged) staged []
                (False, rightoperand, results))))"

section \<open>Results of the left operand of an AND\<close>

definition and_int :: "rowTest \<Rightarrow> pstate \<Rightarrow> pstate option res" where
  "and_int r = (\<lambda>(equalhit, right, results).
     let op = rt_op r; lhs = integer (rt_lhs r)
     in if op \<in> set comparison_ops then
          rmap (\<lambda>x. row_hit r (compares op lhs (I64 x)) (equalhit, right, results)) (copy_word 1 right)
        else if op \<in> set range_ops then
          rbind (copy_word 1 right) (\<lambda>x. rmap (\<lambda>y.
            row_hit r (ranges op lhs (I64 x) (I64 y)) (equalhit, right, results)) (copy_word 9 right))
        else row_rest r (equalhit, right, results))"

definition and_uint :: "rowTest \<Rightarrow> pstate \<Rightarrow> pstate option res" where
  "and_uint r = (\<lambda>(equalhit, right, results).
     let op = rt_op r; lhs = uinteger (rt_lhs r)
     in if op \<in> set comparison_ops then
          rmap (\<lambda>x. row_hit r (compares op lhs x) (equalhit, right, results)) (copy_word 1 right)
        else if op \<in> set range_ops then
          rbind (copy_word 1 right) (\<lambda>x. rmap (\<lambda>y.
            row_hit r (ranges op lhs x y) (equalhit, right, results)) (copy_word 9 right))
        else row_rest r (equalhit, right, results))"

definition and_bool :: "rowTest \<Rightarrow> pstate \<Rightarrow> pstate option res" where
  "and_bool r = (\<lambda>(equalhit, right, results).
     let op = rt_op r; lhs = boolean (rt_lhs r)
     in if op \<in> set comparison_ops then
          rmap (\<lambda>x. row_hit r (compares op lhs (x \<noteq> 0)) (equalhit, right, results)) (byte_at 1 right)
        else if op \<in> set range_ops then
          rbind (byte_at 1 right) (\<lambda>x. rmap (\<lambda>y.
            row_hit r (ranges op lhs (x \<noteq> 0) (y \<noteq> 0)) (equalhit, right, results)) (byte_at 2 right))
        else row_rest r (equalhit, right, results))"

definition and_float :: "rowTest \<Rightarrow> pstate \<Rightarrow> pstate option res" where
  "and_float r = (\<lambda>(equalhit, right, results).
     let op = rt_op r; lhs = floating (rt_lhs r)
     in if op \<in> set comparison_ops then
          rbind (toFloat right right) (\<lambda>right'.
            rmap (\<lambda>x. row_hit r (ld_compares op lhs x) (equalhit, right', results)) (copy_ldouble 1 right'))
        else if op \<in> set range_ops then
          rbind (copy_ldouble 1 right) (\<lambda>x. rmap (\<lambda>y.
            row_hit r (ld_ranges op lhs x y) (equalhit, right, results)) (copy_ldouble 17 right))
        else row_rest r (equalhit, right, results))"

definition and_char :: "rowTest \<Rightarrow> pstate \<Rightarrow> pstate option res" where
  "and_char r = (\<lambda>(equalhit, right, results).
     let op = rt_op r; lhs = character (rt_lhs r)
     in if op \<in> set comparison_ops then
          rmap (\<lambda>x. row_hit r (compares op lhs (I8 x)) (equalhit, right, results)) (byte_at 1 right)
        else if op \<in> set range_ops then
          rbind (byte_at 9 right) (\<lambda>x. rmap (\<lambda>y.
            row_hit r (ranges op lhs (I8 x) (I8 y)) (equalhit, right, results)) (byte_at 10 right))
        else row_rest r (equalhit, right, results))"

definition and_charx :: "(bytes \<Rightarrow> bytes \<Rightarrow> bool) \<Rightarrow> rowTest \<Rightarrow> pstate \<Rightarrow> pstate option res" where
  "and_charx fullMatch r = (\<lambda>(equalhit, right, results).
     let op = rt_op r
     in if op = OPERATOR_EQ \<or> op = OPERATOR_NE then
          rmap (\<lambda>s. row_hit r ((str (rt_lhs r) = s) = (op = OPERATOR_EQ)) (equalhit, right, results))
            (substr_from 1 right)
        else if op = OPERATOR_LIKE \<or> op = OPERATOR_NOTLIKE then
          row_like fullMatch r (equalhit, right, results)
        else row_rest r (equalhit, right, results))"

definition and_varchar :: "(bytes \<Rightarrow> bytes \<Rightarrow> bool) \<Rightarrow> rowTest \<Rightarrow> pstate \<Rightarrow> pstate option res" where
  "and_varchar fullMatch r = (\<lambda>(equalhit, right, results).
     let op = rt_op r
     in if op = OPERATOR_EQ \<or> op = OPERATOR_NE then
          rmap (\<lambda>s. row_hit r ((str (rt_lhs r) = s) = (op = OPERATOR_EQ)) (equalhit, right, results))
            (substr_from 1 right)
        else if op = OPERATOR_LIKE \<or> op = OPERATOR_NOTLIKE then
          row_like fullMatch r (equalhit, right, results)
        else row_rest r (equalhit, right, results))"

text \<open>An anomaly goes on with the next row.\<close>

definition and_test :: "(bytes \<Rightarrow> bytes \<Rightarrow> bool) \<Rightarrow> fieldtype \<Rightarrow> rowTest \<Rightarrow> pstate \<Rightarrow> pstate option res" where
  "and_test fullMatch ft r ps =
     (case ft of
        F_INT \<Rightarrow> and_int r ps
      | F_UINT \<Rightarrow> and_uint r ps
      | F_BOOL \<Rightarrow> and_bool r ps
      | F_FLOAT \<Rightarrow> and_float r ps
      | F_CHAR \<Rightarrow> and_char r ps
      | F_CHARX \<Rightarrow> and_charx fullMatch r ps
      | F_VARCHAR \<Rightarrow> and_varchar fullMatch r ps
      | NOFIELDTYPE \<Rightarrow> Inr None)"

fun and_loop :: "(bytes \<Rightarrow> bytes \<Rightarrow> bool) \<Rightarrow> operatortype \<Rightarrow> int \<Rightarrow> table \<Rightarrow> fieldValue list \<Rightarrow> results \<Rightarrow>
    results \<Rightarrow> fieldValue list \<Rightarrow> pstate \<Rightarrow> pstate res" where
  "and_loop fullMatch op fieldid t inValues held [] fieldValues ps = Inr ps"
| "and_loop fullMatch op fieldid t inValues held ((uur, rr) # rrs) fieldValues ps =
     rbind (unmakerow (rr_row rr) fieldValues t) (\<lambda>(_, fieldValues').
     rbind (vec_at fieldid fieldValues') (\<lambda>lhs. rbind (field_at fieldid t) (\<lambda>fd.
     rbind (and_test fullMatch (fd_type fd)
              \<lparr>rt_op = op, rt_table = t, rt_inValues = inValues, rt_rows = held, rt_lhs = lhs,
               rt_uur = uur, rt_row = rr\<rparr> ps) (\<lambda>next.
       and_loop fullMatch op fieldid t inValues held rrs fieldValues'
         (case next of None \<Rightarrow> ps | Some ps' \<Rightarrow> ps')))))"

definition andPredicate :: "(bytes \<Rightarrow> bytes \<Rightarrow> bool) \<Rightarrow> operatortype \<Rightarrow> table res \<Rightarrow> bytes \<Rightarrow> bytes \<Rightarrow>
    fieldValue list \<Rightarrow> results \<Rightarrow> results \<Rightarrow> (bytes \<times> results) res" where
  "andPredicate fullMatch op tab leftoperand rightoperand inValues andResults results =
     rbind (byte_at 0 leftoperand) (\<lambda>tag.
       if tag \<noteq> OPERAND_FIELDID then Inr (rightoperand, results)
       else rbind (copy_word 1 leftoperand) (\<lambda>w. rbind tab (\<lambda>t.
              rmap snd (and_loop fullMatch op (sint w) t inValues andResults andResults []
                (False, rightoperand, results)))))"

end
