(* ===== verification/Statement_State.thy ===== *)
theory Statement_State
  imports Statement_Predicates
begin

text \<open>
  The state of a SQL statement (\<open>infinisqld/Asts.h\<close>): the nodes of its syntax trees, its queries
  with their results, and the statement with its transaction. The pointers of a tree go up and down
  and nodes are deleted while the tree is evaluated, so the nodes live in an explicit store:
  \<open>sm_asts\<close> maps the addresses that are allocated to their nodes, \<open>sm_brk\<close> is the next fresh one.
  Here too the constructors, the destructor and the deep copy of nodes, queries and statements.
\<close>

section \<open>Nodes\<close>

record ast =
  as_parent :: "nat option"
  as_rightchild :: "nat option"
  as_leftchild :: "nat option"
  as_isoperator :: bool
  as_operatortype :: operatortype
  as_operand :: bytes
  as_predicateResults :: results

type_synonym asts = "(nat \<times> ast) list"

definition ast_at :: "nat \<Rightarrow> asts \<Rightarrow> ast res" where
  "ast_at p s = (case map_of s p of None \<Rightarrow> Inl UseAfterFree | Some nd \<Rightarrow> Inr nd)"

text \<open>The operators for which \<open>leftchild\<close> is made to \<open>appear populated\<close>\<close>

definition unary_operators :: "operatortype list" where
  "unary_operators =
     [OPERATOR_NEGATION, OPERATOR_NOT, OPERATOR_TRUE, OPERATOR_FALSE, OPERATOR_UNKNOWN,
      OPERATOR_ISNULL, OPERATOR_IN, OPERATOR_EXISTS, OPERATOR_UNIQUE, OPERATOR_ISNOTNULL,
      OPERATOR_NOTIN]"

definition Ast_operator :: "nat \<Rightarrow> nat option \<Rightarrow> operatortype \<Rightarrow> ast" where
  "Ast_operator this parentarg op =
     \<lparr>as_parent = parentarg, as_rightchild = None,
      as_leftchild = (if op \<in> set unary_operators then Some this else None), as_isoperator = True,
      as_operatortype = op, as_operand = [], as_predicateResults = []\<rparr>"

text \<open>The constructor of an operand leaves \<open>operatortype\<close> as it is in memory.\<close>

definition Ast_operand :: "operatortype \<Rightarrow> nat option \<Rightarrow> bytes \<Rightarrow> ast" where
  "Ast_operand mem parentarg operandarg =
     \<lparr>as_parent = parentarg, as_rightchild = None, as_leftchild = None, as_isoperator = False,
      as_operatortype = mem, as_operand = operandarg, as_predicateResults = []\<rparr>"

text \<open>
  \<open>delete\<close> of a list of nodes, each with its children: an operator deletes them unless the left
  one is itself. A node that is met again was deleted before.
\<close>

definition owned_children :: "nat \<Rightarrow> ast \<Rightarrow> nat list" where
  "owned_children this nd =
     (if as_isoperator nd
      then (case as_leftchild nd of Some l \<Rightarrow> if l \<noteq> this then [l] else [] | None \<Rightarrow> []) @
           (case as_rightchild nd of Some r \<Rightarrow> [r] | None \<Rightarrow> [])
      else [])"

lemma map_erase_shorter: "map_of s p = Some v \<Longrightarrow> length (map_erase p s) < length s"
proof -
  assume "map_of s p = Some v"
  then have "(p, v) \<in> set s" by (rule map_of_SomeD)
  then show ?thesis unfolding map_erase_def by (rule length_filter_less) simp
qed

function delete_asts :: "nat list \<Rightarrow> asts \<Rightarrow> asts res" where
  "delete_asts [] s = Inr s"
| "delete_asts (p # ps) s =
     (case map_of s p of
        None \<Rightarrow> Inl DoubleFree
      | Some nd \<Rightarrow> delete_asts (owned_children p nd @ ps) (map_erase p s))"
  by pat_completeness auto
termination
  by (relation "measures [\<lambda>(ps, s). length s]") (auto simp: map_erase_shorter)

text \<open>
  The deep copy (\<open>cp\<close>): the pointer to the parent is copied, the children are copied into new
  nodes. The fuel bounds the depth of the recursion.
\<close>

fun cp_ast :: "nat \<Rightarrow> nat \<Rightarrow> nat \<Rightarrow> asts \<times> nat \<Rightarrow> (asts \<times> nat) res" where
  "cp_ast 0 this orig (s, nxt) = Inl OutOfFuel"
| "cp_ast (Suc fuel) this orig (s, nxt) =
     rbind (ast_at orig s) (\<lambda>nd.
     rbind (case as_leftchild nd of
              None \<Rightarrow> Inr (None, s, nxt)
            | Some l \<Rightarrow> rmap (\<lambda>(s', nxt'). (Some nxt, s', nxt')) (cp_ast fuel nxt l (s, nxt + 1)))
       (\<lambda>(left, s1, nxt1).
     rbind (case as_rightchild nd of
              None \<Rightarrow> Inr (None, s1, nxt1)
            | Some r \<Rightarrow> rmap (\<lambda>(s', nxt'). (Some nxt1, s', nxt')) (cp_ast fuel nxt1 r (s1, nxt1 + 1)))
       (\<lambda>(right, s2, nxt2).
     Inr (um_put this (nd\<lparr>as_leftchild := left, as_rightchild := right\<rparr>) s2, nxt2))))"

text \<open>\<open>new class Ast\<close> and the assignment of \<open>*orig\<close>\<close>

definition new_cp_ast :: "nat \<Rightarrow> nat \<Rightarrow> asts \<times> nat \<Rightarrow> (nat \<times> asts \<times> nat) res" where
  "new_cp_ast fuel orig = (\<lambda>(s, nxt).
     rmap (\<lambda>(s', nxt'). (nxt, s', nxt')) (cp_ast fuel nxt orig (s, nxt + 1)))"

section \<open>Queries\<close>

datatype cmd =
    CMD_NONE | CMD_SELECT | CMD_INSERT | CMD_UPDATE | CMD_DELETE | CMD_BEGIN | CMD_COMMIT
  | CMD_ROLLBACK | CMD_SET | CMD_STOREDPROCEDURE | CMD_CREATE | CMD_DROP | CMD_ALTER

record orderbyitem =
  ob_isasc :: bool
  ob_operandstr :: bytes

record inobject =
  io_issubquery :: bool
  io_subquery :: int
  io_expressionlist :: "nat list"

record column =
  co_aggregatetype :: byte
  co_fieldid :: int
  co_name :: bytes

text \<open>
  The results of a query that the transaction reads and writes (\<open>insertValues\<close>, \<open>newrow\<close>,
  \<open>originalrowuur\<close>, \<open>newrowengineid\<close>, \<open>newrowuur\<close>, \<open>setFields\<close>) are those of the current
  query, in \<open>tx_query\<close> of the transaction. The iterator of an update is a position.
\<close>

record query_s =
  qs_instance :: int
  qs_type :: cmd
  qs_isforupdate :: bool
  qs_hasnolock :: bool
  qs_haswhere :: bool
  qs_hasgroupby :: bool
  qs_hashaving :: bool
  qs_hasorderby :: bool
  qs_table :: bytes
  qs_tableid :: int
  qs_locktype :: locktype
  qs_groupByList :: "bytes list"
  qs_fromColumns :: "bytes list"
  qs_fromColumnids :: "column list"
  qs_orderbylist :: "orderbyitem list"
  qs_inobject :: inobject
  qs_searchCondition :: "nat option"
  qs_assignments :: "(bytes \<times> nat) list"
  qs_fieldidAssignments :: "(int \<times> nat) list"
  qs_insertColumns :: "nat list"
  qs_storedProcedure :: bytes
  qs_storedProcedureArgs :: "bytes list"
  qs_searchResults :: results
  qs_selectResults :: "(uuRecord \<times> fieldValue list) list"
  qs_inValues :: "fieldValue list"
  qs_updateIterator :: nat

definition query0 :: query_s where
  "query0 = \<lparr>qs_instance = 0, qs_type = CMD_NONE, qs_isforupdate = False, qs_hasnolock = False,
     qs_haswhere = False, qs_hasgroupby = False, qs_hashaving = False, qs_hasorderby = False,
     qs_table = [], qs_tableid = 0, qs_locktype = NOTFOUNDLOCK, qs_groupByList = [],
     qs_fromColumns = [], qs_fromColumnids = [], qs_orderbylist = [],
     qs_inobject = \<lparr>io_issubquery = False, io_subquery = 0, io_expressionlist = []\<rparr>,
     qs_searchCondition = None, qs_assignments = [], qs_fieldidAssignments = [],
     qs_insertColumns = [], qs_storedProcedure = [], qs_storedProcedureArgs = [],
     qs_searchResults = [], qs_selectResults = [], qs_inValues = [], qs_updateIterator = 0\<rparr>"

section \<open>Statements\<close>

text \<open>Where a statement reenters; the object and its function are opaque.\<close>

record stmtReentry =
  re_object :: int
  re_point :: int
  re_data :: int

text \<open>\<open>ApiInterface::results_s\<close> of the object, and the status of each reentry\<close>

record apiResults =
  ar_cmdtype :: cmd
  ar_statementStatus :: int
  ar_statementResults :: results
  ar_selectFields :: "(fieldtype \<times> bytes) list"
  ar_selectResults :: "(uuRecord \<times> fieldValue list) list"
  ar_procedure :: "bytes option"    \<comment> \<open>the stored procedure that was started\<close>
  ar_reentries :: "int list"

text \<open>What \<open>sqlcmdstate.results\<close> of the transaction points to\<close>

datatype resultsPtr = NoResults | NodeResults nat | QueryResults nat

record statement =
  sm_asts :: asts
  sm_brk :: nat
  sm_schemaPtr :: "int option"
  sm_reentry :: stmtReentry
  sm_transactionPtr :: "transaction option"
  sm_currentQuery :: "nat option"
  sm_queries :: "query_s list"
  sm_parameters :: "bytes list"
  sm_queryindex :: int
  sm_resultsPtr :: resultsPtr
  sm_api :: apiResults
  sm_alive :: bool

text \<open>What a statement reads of its agent and schema\<close>

record statementEnv =
  se_tx :: transactionEnv
  se_tableNameToId :: "bytes \<rightharpoonup> int"
  se_fieldNameToId :: "int \<rightharpoonup> (bytes \<rightharpoonup> int)"
  se_procedures :: "int \<rightharpoonup> bytes list"
  se_newtransaction :: transaction       \<comment> \<open>the memory of a new transaction\<close>
  se_newtransactionid :: int

definition Statement :: "stmtReentry \<Rightarrow> int option \<Rightarrow> statement \<Rightarrow> statement" where
  "Statement reentry0 schemaPtrarg mem =
     mem\<lparr>sm_schemaPtr := schemaPtrarg, sm_transactionPtr := None, sm_currentQuery := None,
         sm_reentry := reentry0, sm_queries := [], sm_parameters := [], sm_alive := True\<rparr>"

text \<open>
  The copy of a query and of a statement: \<open>assignments\<close> and the stored procedure are not copied,
  the results are those of a new query. \<open>mem\<close> is the memory of the new query.
\<close>

fun cp_list :: "nat \<Rightarrow> nat list \<Rightarrow> asts \<times> nat \<Rightarrow> (nat list \<times> asts \<times> nat) res" where
  "cp_list fuel [] h = Inr ([], h)"
| "cp_list fuel (p # ps) h =
     rbind (new_cp_ast fuel p h) (\<lambda>(q, h1). rmap (\<lambda>(qs, h2). (q # qs, h2)) (cp_list fuel ps h1))"

definition cpquery :: "nat \<Rightarrow> query_s \<Rightarrow> asts \<times> nat \<Rightarrow> (query_s \<times> asts \<times> nat) res" where
  "cpquery fuel orig h =
     rbind (cp_list fuel (io_expressionlist (qs_inobject orig)) h) (\<lambda>(el, h1).
     rbind (case qs_searchCondition orig of
              None \<Rightarrow> Inr (None, h1)
            | Some c \<Rightarrow> rmap (\<lambda>(p, h'). (Some p, h')) (new_cp_ast fuel c h1)) (\<lambda>(sc, h2).
     rbind (cp_list fuel (map snd (qs_fieldidAssignments orig)) h2) (\<lambda>(fas, h3).
     rbind (cp_list fuel (qs_insertColumns orig) h3) (\<lambda>(ics, h4).
     Inr (orig\<lparr>qs_inobject := (qs_inobject orig)\<lparr>io_expressionlist := el\<rparr>,
               qs_searchCondition := sc,
               qs_assignments := [],
               qs_fieldidAssignments := zip (map fst (qs_fieldidAssignments orig)) fas,
               qs_insertColumns := ics, qs_storedProcedure := [], qs_storedProcedureArgs := [],
               qs_searchResults := [], qs_selectResults := [], qs_inValues := [],
               qs_updateIterator := 0\<rparr>, h4)))))"

text \<open>The nodes of the copy are allocated in the memory of the original.\<close>

fun cp_queries :: "nat \<Rightarrow> query_s list \<Rightarrow> asts \<times> nat \<Rightarrow> (query_s list \<times> asts \<times> nat) res" where
  "cp_queries fuel [] h = Inr ([], h)"
| "cp_queries fuel (q # qs) h =
     rbind (cpquery fuel q h) (\<lambda>(q', h1). rmap (\<lambda>(qs', h2). (q' # qs', h2)) (cp_queries fuel qs h1))"

definition cp_statement :: "nat \<Rightarrow> statement \<Rightarrow> statement res" where
  "cp_statement fuel orig =
     rmap (\<lambda>(qs, s, nxt). orig\<lparr>sm_queries := qs, sm_asts := s, sm_brk := nxt\<rparr>)
       (cp_queries fuel (sm_queries orig) (sm_asts orig, sm_brk orig))"

text \<open>The destructor\<close>

definition query_asts :: "query_s \<Rightarrow> nat list" where
  "query_asts q =
     (case qs_searchCondition q of Some c \<Rightarrow> [c] | None \<Rightarrow> []) @
     io_expressionlist (qs_inobject q) @ map snd (qs_fieldidAssignments q) @ qs_insertColumns q"

definition delete_Statement :: "statement \<Rightarrow> statement res" where
  "delete_Statement st =
     rmap (\<lambda>s. st\<lparr>sm_asts := s, sm_alive := False\<rparr>)
       (delete_asts (concat (map query_asts (sm_queries st))) (sm_asts st))"

section \<open>Access\<close>

definition node :: "nat \<Rightarrow> statement \<Rightarrow> ast res" where
  "node p st = ast_at p (sm_asts st)"

definition child_node :: "nat option \<Rightarrow> statement \<Rightarrow> ast res" where
  "child_node c st = rbind (deref c) (\<lambda>p. node p st)"

text \<open>A write to a node that is allocated\<close>

definition set_node :: "nat \<Rightarrow> (ast \<Rightarrow> ast) \<Rightarrow> statement \<Rightarrow> statement" where
  "set_node p f st =
     st\<lparr>sm_asts := map (\<lambda>(q, nd). (q, if q = p then f nd else nd)) (sm_asts st)\<rparr>"

definition delete_ast :: "nat option \<Rightarrow> statement \<Rightarrow> statement res" where
  "delete_ast p st =
     (case p of
        None \<Rightarrow> Inr st
      | Some q \<Rightarrow> rmap (\<lambda>s. st\<lparr>sm_asts := s\<rparr>) (delete_asts [q] (sm_asts st)))"

definition current_query :: "statement \<Rightarrow> query_s res" where
  "current_query st = rbind (deref (sm_currentQuery st)) (\<lambda>i. vec_at (int i) (sm_queries st))"

definition set_query :: "(query_s \<Rightarrow> query_s) \<Rightarrow> statement \<Rightarrow> statement" where
  "set_query f st =
     (case sm_currentQuery st of
        None \<Rightarrow> st
      | Some i \<Rightarrow> st\<lparr>sm_queries := (sm_queries st)[i := f (sm_queries st ! i)]\<rparr>)"

definition stmt_table :: "statementEnv \<Rightarrow> int \<Rightarrow> statement \<Rightarrow> table res" where
  "stmt_table se tableid st =
     rbind (deref (sm_schemaPtr st)) (\<lambda>d.
     rbind (deref (ev_schemata (se_tx se) d)) (\<lambda>s. deref (sch_tables s tableid)))"

text \<open>An access to a member of the statement\<close>

definition stmt_live :: "statement \<Rightarrow> statement res" where
  "stmt_live st = (if sm_alive st then Inr st else Inl UseAfterFree)"

text \<open>An operation of the transaction\<close>

definition stmt_tx :: "statement \<Rightarrow> transaction res" where
  "stmt_tx st = deref (sm_transactionPtr st)"

definition with_tx :: "(transaction \<Rightarrow> transaction res) \<Rightarrow> statement \<Rightarrow> statement res" where
  "with_tx f st =
     rbind (stmt_tx st) (\<lambda>tx. rmap (\<lambda>tx'. st\<lparr>sm_transactionPtr := Some tx'\<rparr>) (f tx))"

section \<open>Subqueries\<close>

definition operand_word :: "bytes \<Rightarrow> int res" where
  "operand_word operand = rmap sint (copy_word 1 operand)"

text \<open>The value of a subquery that returns one row and one column\<close>

definition scalar_operand :: "fieldtype \<Rightarrow> fieldValue \<Rightarrow> bytes \<Rightarrow> bytes" where
  "scalar_operand t v operand =
     (case t of
        F_INT \<Rightarrow> integer_operand (the_i64 (integer v)) operand
      | F_UINT \<Rightarrow> integer_operand (uinteger v) operand
      | F_BOOL \<Rightarrow> (resize 2 OPERAND_BOOLEAN operand)[1 := (if boolean v then 116 else 102)]
      | F_FLOAT \<Rightarrow> overwrite 1 (word_bytes (ucast (the_ld (floating v))))
                    (set_tag OPERAND_FLOAT (resize 17 0 operand))
      | F_CHAR \<Rightarrow> (set_tag OPERAND_STRING (resize 2 0 operand))[1 := the_i8 (character v)]
      | F_CHARX \<Rightarrow> [OPERAND_STRING] @ str v
      | F_VARCHAR \<Rightarrow> [OPERAND_STRING] @ str v
      | NOFIELDTYPE \<Rightarrow> operand)"

definition subqueryScalar :: "statementEnv \<Rightarrow> nat \<Rightarrow> statement \<Rightarrow> statement res" where
  "subqueryScalar se p st =
     rbind (node p st) (\<lambda>nd. rbind (byte_at 0 (as_operand nd)) (\<lambda>tag.
       if tag \<noteq> OPERAND_SUBQUERY then Inr st
       else rbind (operand_word (as_operand nd)) (\<lambda>i. rbind (vec_at i (sm_queries st)) (\<lambda>q.
         case qs_selectResults q of
           [] \<Rightarrow> Inr (set_node p (as_operand_update (\<lambda>_. [OPERAND_NULL])) st)
         | [(uur, vs)] \<Rightarrow>
             if length vs = 1 then
               rbind (stmt_table se (qs_tableid q) st) (\<lambda>t. rbind (field_at 0 t) (\<lambda>fd.
                 Inr (set_node p (as_operand_update (scalar_operand (fd_type fd) (hd vs))) st)))
             else Inr st
         | _ \<Rightarrow> Inr st))))"

text \<open>\<open>operand.resize(OPERAND_BOOLEAN, 2)\<close>: the size is the character code\<close>

definition boolean_operand :: "bool \<Rightarrow> bytes \<Rightarrow> bytes" where
  "boolean_operand b operand =
     (resize (unat OPERAND_BOOLEAN) 2 operand)[1 := (if b then 116 else 102)]"

text \<open>
  The inner loop of \<open>UNIQUE\<close> tests \<open>it2\<close>, which stays at the first row, and steps \<open>it\<close>. \<open>Some\<close>:
  two rows that match were found.
\<close>

fun unique_inner :: "table \<Rightarrow> column list \<Rightarrow> uuRecord \<Rightarrow> fieldValue list \<Rightarrow> uuRecord \<Rightarrow>
    (uuRecord \<times> fieldValue list) list \<Rightarrow> unit res" where
  "unique_inner t cols uur1 vs1 uur2 [] = Inl IterPastEnd"
| "unique_inner t cols uur1 vs1 uur2 ((_, vs2) # rest) =
     (if uur1 = uur2 then unique_inner t cols uur1 vs1 uur2 rest
      else rbind (rfold (\<lambda>n ok. if \<not> ok then Inr False
                    else rbind (field_at (co_fieldid (cols ! n)) t) (\<lambda>fd.
                         rbind (vec_at (int n) vs1) (\<lambda>x. rbind (vec_at (int n) vs2) (\<lambda>y.
                           Inr (compareFields (fd_type fd) x y))))) [0..<length cols] True)
             (\<lambda>ismatch. if ismatch then Inr () else unique_inner t cols uur1 vs1 uur2 rest))"

definition subqueryUnique :: "statementEnv \<Rightarrow> nat \<Rightarrow> statement \<Rightarrow> statement res" where
  "subqueryUnique se p st =
     rbind (node p st) (\<lambda>nd. rbind (operand_word (as_operand nd)) (\<lambda>i.
     rbind (vec_at i (sm_queries st)) (\<lambda>q. rbind (stmt_table se (qs_tableid q) st) (\<lambda>t.
       case qs_selectResults q of
         [] \<Rightarrow> Inr (set_node p (as_operand_update (boolean_operand True)) st)
       | (uur, vs) # rest \<Rightarrow>
           rmap (\<lambda>_. set_node p (as_operand_update (boolean_operand False)) st)
             (unique_inner t (qs_fromColumnids q) uur vs uur (qs_selectResults q))))))"

definition subqueryExists :: "nat \<Rightarrow> statement \<Rightarrow> statement res" where
  "subqueryExists p st =
     rbind (node p st) (\<lambda>nd. rbind (operand_word (as_operand nd)) (\<lambda>i.
     rbind (vec_at i (sm_queries st)) (\<lambda>q.
       Inr (set_node p (as_operand_update (boolean_operand (qs_selectResults q \<noteq> []))) st))))"

text \<open>The values go to the results of the subquery itself.\<close>

definition subqueryIn :: "nat \<Rightarrow> statement \<Rightarrow> statement res" where
  "subqueryIn p st =
     rbind (node p st) (\<lambda>nd. rbind (operand_word (as_operand nd)) (\<lambda>i.
     rbind (vec_at i (sm_queries st)) (\<lambda>q.
     rbind (rfold (\<lambda>(_, vs) acc. rmap (\<lambda>v. acc @ [v]) (vec_at 0 vs)) (qs_selectResults q) (qs_inValues q))
       (\<lambda>ivs. Inr (st\<lparr>sm_queries := (sm_queries st)[nat i := q\<lparr>qs_inValues := ivs\<rparr>]\<rparr>)))))"

end
