(* ===== verification/Ast_Evaluate.thy ===== *)
theory Ast_Evaluate
  imports Statement_State
begin

text \<open>
  The evaluation of a node of a syntax tree (\<open>infinisqld/Asts.cc\<close>): \<open>Ast::evaluate\<close>, which
  either resolves a node and names its parent as the next one, or names a child to be evaluated
  first, or starts a search of the transaction and names none; and \<open>Ast::evaluateAssignment\<close>, the
  recursive evaluation for one row of an update.

  The functions of the statement call each other: \<open>Ast::evaluate\<close> runs the walk
  (\<open>Statement::searchExpression\<close>) for the values of an \<open>IN\<close> list, and the transaction calls the
  statement back. Such a call is a value of \<open>call\<close>, and the argument \<open>go\<close> runs it.
\<close>

section \<open>Calls\<close>

text \<open>\<open>RunSearch\<close> has the entry point, the node, and the next node as the walk left it.\<close>

datatype call =
    RunSearch int nat "nat option"
  | RunStart
  | RunBranch
  | RunSelect
  | RunDelete int
  | RunUpdate int
  | RunInsert
  | RunAbort int

type_synonym runner = "call \<Rightarrow> statement \<Rightarrow> statement res"

text \<open>The rows the transaction has written through \<open>sqlcmdstate.results\<close>\<close>

definition sync_results :: "statement \<Rightarrow> statement res" where
  "sync_results st =
     rbind (stmt_tx st) (\<lambda>tx. let rs = sq_results (tx_sqlcmdstate tx) in
       case sm_resultsPtr st of
         NoResults \<Rightarrow> Inr st
       | NodeResults p \<Rightarrow>
           rmap (\<lambda>_. set_node p (as_predicateResults_update (\<lambda>_. rs)) st) (node p st)
       | QueryResults i \<Rightarrow>
           rmap (\<lambda>q. st\<lparr>sm_queries := (sm_queries st)[i := q\<lparr>qs_searchResults := rs\<rparr>]\<rparr>)
             (vec_at (int i) (sm_queries st)))"

text \<open>
  A callback of the transaction into the statement, and all that an operation has made. The walk
  starts at a node that is resolved, which sets \<open>nextAstNode\<close>.
\<close>

definition stmt_callback :: "runner \<Rightarrow> callback \<Rightarrow> statement \<Rightarrow> statement res" where
  "stmt_callback go cb st =
     (let continue = (\<lambda>c. rbind (stmt_live st) (\<lambda>_. rbind (sync_results st) (go c)))
      in case cb of
           Reenter r res \<Rightarrow> Inr st
         | SearchExpression ep d \<Rightarrow> continue (RunSearch ep (nat d) None)
         | ContinueSelect ep \<Rightarrow> continue RunSelect
         | ContinueDelete ep \<Rightarrow> continue (RunDelete ep)
         | ContinueUpdate ep \<Rightarrow> continue (RunUpdate ep)
         | ContinueInsert ep \<Rightarrow> continue RunInsert
         | AbortQuery s \<Rightarrow> rbind (stmt_live st) (go (RunAbort s)))"

definition run_callbacks :: "runner \<Rightarrow> statement \<Rightarrow> statement res" where
  "run_callbacks go st =
     rbind (stmt_tx st) (\<lambda>tx.
       rfold (stmt_callback go) (tx_callbacks tx)
         (st\<lparr>sm_transactionPtr := Some (tx\<lparr>tx_callbacks := []\<rparr>)\<rparr>))"

section \<open>Children\<close>

definition child_operand :: "nat option \<Rightarrow> statement \<Rightarrow> bytes res" where
  "child_operand c st = rmap as_operand (child_node c st)"

definition resolve_parameter :: "nat \<Rightarrow> statement \<Rightarrow> statement res" where
  "resolve_parameter p st =
     rbind (node p st) (\<lambda>nd. rbind (byte_at 0 (as_operand nd)) (\<lambda>tag.
       if tag = OPERAND_PARAMETER then
         rbind (operand_word (as_operand nd)) (\<lambda>i.
         rmap (\<lambda>w. set_node p (as_operand_update (\<lambda>_. w)) st) (vec_at i (sm_parameters st)))
       else Inr st))"

text \<open>
  A child is evaluated first if it is an operator (\<open>Some\<close>). For a subquery the code resolves the
  node itself, whose operand is not that of the subquery.
\<close>

definition ready_child :: "statementEnv \<Rightarrow> nat \<Rightarrow> nat option \<Rightarrow> statement \<Rightarrow>
    (nat option \<times> statement) res" where
  "ready_child se this c st =
     rbind (deref c) (\<lambda>q. rbind (node q st) (\<lambda>nd.
       if as_isoperator nd then Inr (Some q, st)
       else rbind (byte_at 0 (as_operand nd)) (\<lambda>tag.
         if tag = OPERAND_PARAMETER then rmap (Pair None) (resolve_parameter q st)
         else if tag = OPERAND_SUBQUERY then rmap (Pair None) (subqueryScalar se this st)
         else Inr (None, st))))"

text \<open>\<open>delete leftchild; leftchild=NULL; delete rightchild; rightchild=NULL;\<close>\<close>

definition drop_left :: "nat \<Rightarrow> statement \<Rightarrow> statement res" where
  "drop_left p st =
     rbind (node p st) (\<lambda>nd.
     rmap (set_node p (as_leftchild_update (\<lambda>_. None))) (delete_ast (as_leftchild nd) st))"

definition drop_right :: "nat \<Rightarrow> statement \<Rightarrow> statement res" where
  "drop_right p st =
     rbind (node p st) (\<lambda>nd.
     rmap (set_node p (as_rightchild_update (\<lambda>_. None))) (delete_ast (as_rightchild nd) st))"

definition drop_children :: "nat \<Rightarrow> statement \<Rightarrow> statement res" where
  "drop_children p st = rbind (drop_left p st) (drop_right p)"

definition no_operator :: "nat \<Rightarrow> statement \<Rightarrow> statement" where
  "no_operator p = set_node p (as_isoperator_update (\<lambda>_. False))"

section \<open>Evaluation\<close>

text \<open>What \<open>evaluate\<close> returns, \<open>nextAstNode\<close>, and the statement\<close>

type_synonym evaluation = "(bool \<times> nat option \<times> statement) res"

definition resolved :: "nat \<Rightarrow> statement \<Rightarrow> evaluation" where
  "resolved p st = rmap (\<lambda>nd. (True, as_parent nd, st)) (node p st)"

text \<open>The node becomes an operand.\<close>

definition become :: "nat \<Rightarrow> bytes \<Rightarrow> statement \<Rightarrow> statement" where
  "become p operand st = no_operator p (set_node p (as_operand_update (\<lambda>_. operand)) st)"

subsection \<open>Values\<close>

definition evaluate_concatenation :: "nat \<Rightarrow> nat option \<Rightarrow> statement \<Rightarrow> evaluation" where
  "evaluate_concatenation p next st =
     rbind (node p st) (\<lambda>nd.
     rbind (child_operand (as_leftchild nd) st) (\<lambda>l.
     rbind (child_operand (as_rightchild nd) st) (\<lambda>r.
     rbind (concatenate l r) (\<lambda>res.
       case res of
         None \<Rightarrow> Inr (True, next, st)   \<comment> \<open>\<open>nextAstNode\<close> as it was\<close>
       | Some w \<Rightarrow> rbind (drop_children p (become p w st)) (resolved p)))))"

text \<open>\<open>ADDITION\<close>, \<open>SUBTRACTION\<close>, \<open>MULTIPLICATION\<close> and \<open>DIVISION\<close>\<close>

definition evaluate_arith :: "nat \<Rightarrow> nat option \<Rightarrow> statement \<Rightarrow> evaluation" where
  "evaluate_arith p next st =
     rbind (node p st) (\<lambda>nd. rbind (deref (as_leftchild nd)) (\<lambda>lc. rbind (deref (as_rightchild nd)) (\<lambda>rc.
     rbind (node lc st) (\<lambda>ln. rbind (node rc st) (\<lambda>rn.
     rbind (arith (as_operatortype nd) (as_operand ln) (as_operand rn) (as_operand nd)) (\<lambda>(l, r, res).
       let st1 = set_node rc (as_operand_update (\<lambda>_. r)) (set_node lc (as_operand_update (\<lambda>_. l)) st)
       in case res of
            None \<Rightarrow> Inr (False, next, st1)
          | Some w \<Rightarrow> rbind (drop_children p (become p w st1)) (resolved p)))))))"

text \<open>\<open>toFloat\<close> of a float is the float.\<close>

definition evaluate_negation :: "nat \<Rightarrow> nat option \<Rightarrow> statement \<Rightarrow> evaluation" where
  "evaluate_negation p next st =
     rbind (node p st) (\<lambda>nd. rbind (child_operand (as_rightchild nd) st) (\<lambda>r.
     rbind (negate r (as_operand nd)) (\<lambda>res.
       case res of
         None \<Rightarrow> Inr (False, next, st)
       | Some w \<Rightarrow> rbind (drop_right p (become p w st)) (resolved p))))"

definition evaluate_betweenand :: "nat \<Rightarrow> nat option \<Rightarrow> statement \<Rightarrow> evaluation" where
  "evaluate_betweenand p next st =
     rbind (node p st) (\<lambda>nd.
     rbind (child_operand (as_leftchild nd) st) (\<lambda>l.
     rbind (child_operand (as_rightchild nd) st) (\<lambda>r.
     rbind (betweenand l r (as_operand nd)) (\<lambda>res.
       case res of
         None \<Rightarrow> Inr (False, next, st)
       | Some w \<Rightarrow> rbind (drop_children p (become p w st)) (resolved p)))))"

subsection \<open>AND and OR\<close>

text \<open>
  The rows of the left child that the right one has too; of the others, those that are not staged
  are to be unlocked, grouped by engine.
\<close>

fun and_rows :: "stagedRows \<Rightarrow> results \<Rightarrow> results \<Rightarrow> results \<times> (int \<times> int list) list \<Rightarrow>
    results \<times> (int \<times> int list) list" where
  "and_rows staged right [] acc = acc"
| "and_rows staged right ((uur, rr) # left) (res, ers) =
     and_rows staged right left
       (if map_count uur right then (um_put uur rr res, ers)
        else if \<not> map_count uur staged
        then (res, um_update [] (\<lambda>ids. ids @ [uu_rowid uur]) (uu_engineid uur) ers)
        else (res, ers))"

definition unlock_rows :: "transactionEnv \<Rightarrow> int \<Rightarrow> (int \<times> int list) list \<Rightarrow> transaction \<Rightarrow>
    transaction res" where
  "unlock_rows ev tableid =
     rfold (\<lambda>(engineid, rowids). sendTransaction ev ROLLBACKCMD 0 engineid
       (message.PAYLOADCOMMITROLLBACK
          (commitRollbackMsg0\<lparr>cr_rofs := map (row_rof tableid) rowids\<rparr>)))"

definition evaluate_and :: "statementEnv \<Rightarrow> nat \<Rightarrow> statement \<Rightarrow> evaluation" where
  "evaluate_and se p st =
     rbind (node p st) (\<lambda>nd.
     rbind (child_node (as_leftchild nd) st) (\<lambda>ln.
     rbind (child_node (as_rightchild nd) st) (\<lambda>rn.
     rbind (stmt_tx st) (\<lambda>tx.
     rbind (current_query st) (\<lambda>q.
       let (res, ers) = and_rows (tx_stagedRows tx) (as_predicateResults rn) (as_predicateResults ln)
                          (as_predicateResults nd, []);
           st1 = set_node p (as_predicateResults_update (\<lambda>_. res)) st
       in rbind (with_tx (unlock_rows (se_tx se) (qs_tableid q) ers) st1) (\<lambda>st2.
          rbind (drop_children p (no_operator p st2)) (resolved p)))))))"

text \<open>\<open>insert\<close> keeps the rows that are there.\<close>

definition um_insert :: "('k \<times> 'v) list \<Rightarrow> ('k \<times> 'v) list \<Rightarrow> ('k \<times> 'v) list" where
  "um_insert m ys = m @ filter (\<lambda>(k, _). \<not> map_count k m) ys"

definition evaluate_or :: "nat \<Rightarrow> statement \<Rightarrow> evaluation" where
  "evaluate_or p st =
     rbind (node p st) (\<lambda>nd.
     rbind (child_node (as_leftchild nd) st) (\<lambda>ln.
     rbind (child_node (as_rightchild nd) st) (\<lambda>rn.
       let st1 = set_node p (as_predicateResults_update
                   (\<lambda>_. um_insert (as_predicateResults ln) (as_predicateResults rn))) st
       in rbind (drop_children p (no_operator p st1)) (resolved p))))"

text \<open>\<open>NOT\<close>, \<open>IS TRUE\<close>, \<open>IS FALSE\<close> and \<open>IS UNKNOWN\<close> are not implemented.\<close>

definition evaluate_unimplemented :: "nat \<Rightarrow> nat option \<Rightarrow> statement \<Rightarrow> evaluation" where
  "evaluate_unimplemented p next st =
     rmap (\<lambda>st1. (False, next, st1)) (drop_right p (no_operator p st))"

subsection \<open>Predicates\<close>

text \<open>
  The test of the staged rows. The right operand is passed by reference: \<open>rc\<close> is its node, \<open>left\<close>
  the left operand.
\<close>

definition staged_search :: "statementEnv \<Rightarrow> nat \<Rightarrow> bytes \<Rightarrow> nat \<Rightarrow> statement \<Rightarrow> (bool \<times> statement) res" where
  "staged_search se p left rc st =
     rbind (node p st) (\<lambda>nd. rbind (node rc st) (\<lambda>rn. rbind (current_query st) (\<lambda>q. rbind (stmt_tx st) (\<lambda>tx.
     rmap (\<lambda>(equalhit, right, res).
         (equalhit, set_node p (as_predicateResults_update (\<lambda>_. res))
                      (set_node rc (as_operand_update (\<lambda>_. right)) st)))
       (stagedPredicate (as_operatortype nd) (qs_tableid q) (stmt_table se (qs_tableid q) st) left
          (as_operand rn) (qs_inValues q) (tx_stagedRows tx) (as_predicateResults nd))))))"

text \<open>The search of the transaction, which continues at this node\<close>

definition this_statement :: int where
  "this_statement = 0"

definition start_predicate :: "statementEnv \<Rightarrow> runner \<Rightarrow> nat \<Rightarrow> bytes \<Rightarrow> bytes \<Rightarrow> statement \<Rightarrow>
    statement res" where
  "start_predicate se go p left right st =
     rbind (node p st) (\<lambda>nd. rbind (current_query st) (\<lambda>q.
     rbind (with_tx (sqlPredicate (se_tx se) this_statement (as_operatortype nd) (qs_tableid q) left
                       right (qs_locktype q) (qs_inValues q) (int p) (as_predicateResults nd))
              (st\<lparr>sm_resultsPtr := NodeResults p\<rparr>))
       (run_callbacks go)))"

text \<open>\<open>NE\<close>, \<open>LT\<close>, \<open>GT\<close>, \<open>LTE\<close> and \<open>GTE\<close>\<close>

definition evaluate_comparison :: "statementEnv \<Rightarrow> runner \<Rightarrow> nat \<Rightarrow> statement \<Rightarrow> evaluation" where
  "evaluate_comparison se go p st =
     rbind (node p st) (\<lambda>nd.
     rbind (child_operand (as_leftchild nd) st) (\<lambda>l. rbind (deref (as_rightchild nd)) (\<lambda>rc.
     rbind (staged_search se p l rc st) (\<lambda>(_, st1).
     let st2 = no_operator p st1
     in rbind (child_operand (as_rightchild nd) st2) (\<lambda>r.
        rbind (start_predicate se go p l r st2) (\<lambda>st3.
        rmap (\<lambda>st4. (False, None, st4)) (drop_children p st3)))))))"

text \<open>\<open>EQ\<close>: a hit among the staged rows ends the search.\<close>

definition evaluate_eq :: "statementEnv \<Rightarrow> runner \<Rightarrow> nat \<Rightarrow> statement \<Rightarrow> evaluation" where
  "evaluate_eq se go p st =
     rbind (node p st) (\<lambda>nd.
     rbind (child_operand (as_leftchild nd) st) (\<lambda>l. rbind (deref (as_rightchild nd)) (\<lambda>rc.
     rbind (staged_search se p l rc (no_operator p st)) (\<lambda>(equalhit, st1).
       if equalhit then rbind (drop_children p st1) (resolved p)
       else rbind (child_operand (as_rightchild nd) st1) (\<lambda>r.
            rbind (start_predicate se go p l r st1) (\<lambda>st2.
            rmap (\<lambda>st3. (False, None, st3)) (drop_children p st2)))))))"

text \<open>\<open>BETWEEN\<close> and \<open>NOT BETWEEN\<close>\<close>

definition evaluate_range :: "statementEnv \<Rightarrow> runner \<Rightarrow> nat \<Rightarrow> statement \<Rightarrow> evaluation" where
  "evaluate_range = evaluate_comparison"

text \<open>\<open>LIKE\<close> (which also cuts off the tag of the pattern) and \<open>NOT LIKE\<close>\<close>

definition evaluate_like :: "statementEnv \<Rightarrow> runner \<Rightarrow> nat \<Rightarrow> statement \<Rightarrow> evaluation" where
  "evaluate_like se go p st =
     rbind (node p st) (\<lambda>nd.
     rbind (child_operand (as_leftchild nd) st) (\<lambda>l. rbind (deref (as_rightchild nd)) (\<lambda>rc.
     rbind (staged_search se p l rc st) (\<lambda>(_, st1).
     let st2 = no_operator p st1
     in rbind (child_operand (as_rightchild nd) st2) (\<lambda>r.
        rbind (if as_operatortype nd = OPERATOR_LIKE then substr_from 1 r else Inr []) (\<lambda>_.
        rbind (start_predicate se go p l r st2) (\<lambda>st3.
        rmap (\<lambda>st4. (False, None, st4)) (drop_children p st3))))))))"

text \<open>
  The unary predicates: the staged rows are tested with the operand of \<open>leftchild\<close>, which is the
  node itself, the search gets the right operand twice.
\<close>

definition unary_search :: "statementEnv \<Rightarrow> runner \<Rightarrow> nat \<Rightarrow> statement \<Rightarrow> evaluation" where
  "unary_search se go p st =
     rbind (node p st) (\<lambda>nd. rbind (child_operand (as_rightchild nd) st) (\<lambda>r.
     rbind (start_predicate se go p r r st) (\<lambda>st1.
     rmap (\<lambda>st2. (False, None, st2)) (drop_right p st1))))"

definition evaluate_isnull :: "statementEnv \<Rightarrow> runner \<Rightarrow> nat \<Rightarrow> statement \<Rightarrow> evaluation" where
  "evaluate_isnull se go p st =
     rbind (node p st) (\<lambda>nd.
     rbind (child_operand (as_leftchild nd) st) (\<lambda>l. rbind (deref (as_rightchild nd)) (\<lambda>rc.
     rbind (staged_search se p l rc st) (\<lambda>(_, st1). unary_search se go p (no_operator p st1)))))"

text \<open>The value of an element of an \<open>IN\<close> list, by the type of the field\<close>

definition in_value :: "fieldtype \<Rightarrow> bytes \<Rightarrow> fieldValue res" where
  "in_value t operand =
     rbind (byte_at 0 operand) (\<lambda>tag.
       if tag = OPERAND_NULL then Inr (fieldValue0\<lparr>isnull := True\<rparr>)
       else case t of
         F_INT \<Rightarrow> rmap (\<lambda>w. put_integer (I64 w) fieldValue0) (copy_word 1 operand)
       | F_UINT \<Rightarrow> rmap (\<lambda>w. put_uinteger w fieldValue0) (copy_word 1 operand)
       | F_BOOL \<Rightarrow> rmap (\<lambda>w. put_boolean (w \<noteq> 0) fieldValue0) (copy_word 1 operand)
       | F_FLOAT \<Rightarrow> toFloat_value operand fieldValue0
       | F_CHAR \<Rightarrow> rmap (\<lambda>c. put_character (I8 c) fieldValue0) (byte_at 1 operand)
       | F_CHARX \<Rightarrow> rmap (\<lambda>s. fieldValue0\<lparr>str := s\<rparr>) (substr_from 1 operand)
       | F_VARCHAR \<Rightarrow> rmap (\<lambda>s. fieldValue0\<lparr>str := s\<rparr>) (substr_from 1 operand)
       | NOFIELDTYPE \<Rightarrow> Inr fieldValue0)"

definition in_element :: "runner \<Rightarrow> fieldtype \<Rightarrow> nat \<Rightarrow> statement \<Rightarrow> statement res" where
  "in_element go t a st =
     rbind (go (RunSearch 0 a None) st) (\<lambda>st1. rbind (node a st1) (\<lambda>nd.
     rbind (in_value t (as_operand nd)) (\<lambda>v. rbind (current_query st1) (\<lambda>_.
       delete_ast (Some a) (set_query (qs_inValues_update (\<lambda>vs. vs @ [v])) st1)))))"

text \<open>\<open>IN\<close> and \<open>NOT IN\<close>\<close>

definition evaluate_in :: "statementEnv \<Rightarrow> runner \<Rightarrow> nat \<Rightarrow> statement \<Rightarrow> evaluation" where
  "evaluate_in se go p st =
     rbind (node p st) (\<lambda>nd.
     rbind (child_operand (as_leftchild nd) st) (\<lambda>l. rbind (deref (as_rightchild nd)) (\<lambda>rc.
     rbind (staged_search se p l rc st) (\<lambda>(_, st1).
     let st2 = no_operator p st1
     in rbind (current_query st2) (\<lambda>q.
        rbind (if io_issubquery (qs_inobject q) then subqueryIn p st2
               else rbind (child_operand (as_rightchild nd) st2) (\<lambda>r. rbind (operand_word r) (\<lambda>fieldid.
                    rbind (stmt_table se (qs_tableid q) st2) (\<lambda>t. rbind (field_at fieldid t) (\<lambda>fd.
                      rmap (set_query (qs_inobject_update (io_expressionlist_update (\<lambda>_. []))))
                        (rfold (in_element go (fd_type fd)) (io_expressionlist (qs_inobject q)) st2))))))
          (unary_search se go p))))))"

text \<open>\<open>EXISTS\<close> and \<open>UNIQUE\<close>: the node stays an operator.\<close>

definition evaluate_subquery :: "statementEnv \<Rightarrow> nat \<Rightarrow> statement \<Rightarrow> evaluation" where
  "evaluate_subquery se p st =
     rbind (node p st) (\<lambda>nd.
     rbind (child_operand (as_leftchild nd) st) (\<lambda>l. rbind (deref (as_rightchild nd)) (\<lambda>rc.
     rbind (staged_search se p l rc st) (\<lambda>(_, st1).
     rbind (if as_operatortype nd = OPERATOR_EXISTS then subqueryExists p st1
            else subqueryUnique se p st1) (\<lambda>st2.
     rbind (drop_right p st2) (resolved p))))))"

subsection \<open>A node\<close>

definition evaluate_operator :: "statementEnv \<Rightarrow> runner \<Rightarrow> nat \<Rightarrow> nat option \<Rightarrow> statement \<Rightarrow> evaluation" where
  "evaluate_operator se go p next st =
     rbind (node p st) (\<lambda>nd.
       case as_operatortype nd of
         OPERATOR_CONCATENATION \<Rightarrow> evaluate_concatenation p next st
       | OPERATOR_ADDITION \<Rightarrow> evaluate_arith p next st
       | OPERATOR_SUBTRACTION \<Rightarrow> evaluate_arith p next st
       | OPERATOR_MULTIPLICATION \<Rightarrow> evaluate_arith p next st
       | OPERATOR_DIVISION \<Rightarrow> evaluate_arith p next st
       | OPERATOR_NEGATION \<Rightarrow> evaluate_negation p next st
       | OPERATOR_AND \<Rightarrow> evaluate_and se p st
       | OPERATOR_OR \<Rightarrow> evaluate_or p st
       | OPERATOR_NOT \<Rightarrow> evaluate_unimplemented p next st
       | OPERATOR_TRUE \<Rightarrow> evaluate_unimplemented p next st
       | OPERATOR_FALSE \<Rightarrow> evaluate_unimplemented p next st
       | OPERATOR_UNKNOWN \<Rightarrow> evaluate_unimplemented p next st
       | OPERATOR_EQ \<Rightarrow> evaluate_eq se go p st
       | OPERATOR_NE \<Rightarrow> evaluate_comparison se go p st
       | OPERATOR_LT \<Rightarrow> evaluate_comparison se go p st
       | OPERATOR_GT \<Rightarrow> evaluate_comparison se go p st
       | OPERATOR_LTE \<Rightarrow> evaluate_comparison se go p st
       | OPERATOR_GTE \<Rightarrow> evaluate_comparison se go p st
       | OPERATOR_BETWEEN \<Rightarrow> evaluate_range se go p st
       | OPERATOR_NOTBETWEEN \<Rightarrow> evaluate_range se go p st
       | OPERATOR_ISNULL \<Rightarrow> evaluate_isnull se go p st
       | OPERATOR_ISNOTNULL \<Rightarrow> evaluate_isnull se go p st
       | OPERATOR_IN \<Rightarrow> evaluate_in se go p st
       | OPERATOR_NOTIN \<Rightarrow> evaluate_in se go p st
       | OPERATOR_LIKE \<Rightarrow> evaluate_like se go p st
       | OPERATOR_NOTLIKE \<Rightarrow> evaluate_like se go p st
       | OPERATOR_EXISTS \<Rightarrow> evaluate_subquery se p st
       | OPERATOR_UNIQUE \<Rightarrow> evaluate_subquery se p st
       | OPERATOR_BETWEENAND \<Rightarrow> evaluate_betweenand p next st
       | _ \<Rightarrow> resolved p st)"

definition evaluate :: "statementEnv \<Rightarrow> runner \<Rightarrow> nat \<Rightarrow> nat option \<Rightarrow> statement \<Rightarrow> evaluation" where
  "evaluate se go p next st =
     rbind (node p st) (\<lambda>nd.
       if \<not> as_isoperator nd then rbind (resolve_parameter p st) (resolved p)
       else
         rbind (if as_operatortype nd \<in> set unary_operators then Inr (None, st)
                else ready_child se p (as_leftchild nd) st) (\<lambda>(c, st1).
         case c of
           Some q \<Rightarrow> Inr (False, Some q, st1)
         | None \<Rightarrow>
             rbind (ready_child se p (as_rightchild nd) st1) (\<lambda>(c, st2).
             case c of
               Some q \<Rightarrow> Inr (False, Some q, st2)
             | None \<Rightarrow> evaluate_operator se go p next st2)))"

section \<open>Assignments\<close>

text \<open>
  The operand of an assignment for a row: a field becomes its value in the row. For a \<open>FLOAT\<close> eight
  of the sixteen bytes are copied.
\<close>

definition field_operand :: "fieldtype \<Rightarrow> fieldValue \<Rightarrow> bytes \<Rightarrow> bytes" where
  "field_operand t v operand =
     (case t of
        F_INT \<Rightarrow> integer_operand (the_i64 (integer v)) operand
      | F_UINT \<Rightarrow> integer_operand (uinteger v) operand
      | F_BOOL \<Rightarrow> integer_operand (if boolean v then 1 else 0) operand
      | F_FLOAT \<Rightarrow> overwrite 1 (word_bytes (ucast (the_ld (floating v))))
                    (set_tag OPERAND_FLOAT (resize 17 0 operand))
      | F_CHAR \<Rightarrow> (set_tag OPERAND_STRING (resize 2 0 operand))[1 := the_i8 (character v)]
      | F_CHARX \<Rightarrow> [OPERAND_STRING] @ str v
      | F_VARCHAR \<Rightarrow> [OPERAND_STRING] @ str v
      | NOFIELDTYPE \<Rightarrow> operand)"

definition normalizeSetAssignmentOperand :: "statementEnv \<Rightarrow> fieldValue list \<Rightarrow> nat \<Rightarrow> statement \<Rightarrow>
    statement res" where
  "normalizeSetAssignmentOperand se fieldValues p st =
     rbind (node p st) (\<lambda>nd. rbind (byte_at 0 (as_operand nd)) (\<lambda>tag.
       if tag = OPERAND_FIELDID then
         rbind (operand_word (as_operand nd)) (\<lambda>fieldid. rbind (current_query st) (\<lambda>q.
         rbind (stmt_table se (qs_tableid q) st) (\<lambda>t. rbind (field_at fieldid t) (\<lambda>fd.
         rmap (\<lambda>v. set_node p (as_operand_update (field_operand (fd_type fd) v)) st)
           (if fd_type fd = NOFIELDTYPE then Inr fieldValue0 else vec_at fieldid fieldValues)))))
       else if tag = OPERAND_SUBQUERY then subqueryScalar se p st
       else resolve_parameter p st))"

text \<open>The value of the operator, once its children are operands\<close>

definition assign_operator :: "nat \<Rightarrow> statement \<Rightarrow> statement res" where
  "assign_operator p st =
     rbind (node p st) (\<lambda>nd.
       let op = as_operatortype nd
       in if op = OPERATOR_CONCATENATION then
            rbind (evaluate_concatenation p None st) (\<lambda>(_, _, st1). Inr st1)
          else if op \<in> {OPERATOR_ADDITION, OPERATOR_SUBTRACTION, OPERATOR_MULTIPLICATION,
                        OPERATOR_DIVISION} then
            rbind (evaluate_arith p None st) (\<lambda>(_, _, st1). Inr st1)
          else if op = OPERATOR_NEGATION then
            rbind (evaluate_negation p None st) (\<lambda>(_, _, st1). Inr st1)
          else Inr st)"

text \<open>The fuel bounds the depth of the tree.\<close>

fun evaluateAssignment :: "statementEnv \<Rightarrow> fieldValue list \<Rightarrow> nat \<Rightarrow> nat \<Rightarrow> statement \<Rightarrow> statement res" where
  "evaluateAssignment se fieldValues 0 p st = Inl OutOfFuel"
| "evaluateAssignment se fieldValues (Suc fuel) p st =
     rbind (node p st) (\<lambda>nd.
       if \<not> as_isoperator nd then normalizeSetAssignmentOperand se fieldValues p st
       else
         rbind (if as_operatortype nd \<noteq> OPERATOR_NEGATION
                then rbind (deref (as_leftchild nd)) (\<lambda>l. evaluateAssignment se fieldValues fuel l st)
                else Inr st) (\<lambda>st1.
         rbind (deref (as_rightchild nd)) (\<lambda>r.
         rbind (evaluateAssignment se fieldValues fuel r st1) (assign_operator p))))"

end
