(* ===== verification/Statement_Execute.thy ===== *)
theory Statement_Execute
  imports Ast_Evaluate
begin

text \<open>
  The execution of a statement (\<open>infinisqld/Asts.cc\<close>): its queries from the last to the first
  (\<open>startQuery\<close>), the walk over the tree of a condition (\<open>searchExpression\<close>), the action of a query
  by its type (\<open>branchtotype\<close>), the continuations the transaction calls back, and the return to the
  object that executes the statement (\<open>reenter\<close>).
\<close>

section \<open>Return\<close>

text \<open>
  \<open>reenter\<close> reads the member \<open>transactionPtr\<close> after \<open>delete this\<close>; the model takes the value the
  memory still holds.
\<close>

definition reenter_statement :: "int \<Rightarrow> statement \<Rightarrow> statement res" where
  "reenter_statement status st =
     (let st1 = st\<lparr>sm_transactionPtr := map_option (\<lambda>tx. tx\<lparr>tx_pendingcmd := NOCOMMAND, tx_pendingcmdid := 0\<rparr>)
                     (sm_transactionPtr st)\<rparr>
      in rmap (\<lambda>st2. st2\<lparr>sm_api := (sm_api st2)
                  \<lparr>ar_statementStatus := status, ar_reentries := ar_reentries (sm_api st2) @ [status]\<rparr>\<rparr>)
           (delete_Statement st1))"

definition abortQuery :: "int \<Rightarrow> statement \<Rightarrow> statement res" where
  "abortQuery = reenter_statement"

section \<open>The walk over a condition\<close>

text \<open>The root is resolved: a search goes on with its results, by entry point.\<close>

definition condition_done :: "runner \<Rightarrow> int \<Rightarrow> statement \<Rightarrow> statement res" where
  "condition_done go entrypoint st =
     (if entrypoint = 1 then
        rbind (current_query st) (\<lambda>q. rbind (deref (qs_searchCondition q)) (\<lambda>c. rbind (node c st) (\<lambda>nd.
        rbind (delete_ast (Some c) (set_query (qs_searchResults_update (\<lambda>_. as_predicateResults nd)) st))
          (\<lambda>st1. go RunBranch (set_query (qs_searchCondition_update (\<lambda>_. None)) st1)))))
      else if entrypoint = 2 then go RunBranch st
      else Inr st)"

definition searchExpression :: "statementEnv \<Rightarrow> runner \<Rightarrow> int \<Rightarrow> nat \<Rightarrow> nat option \<Rightarrow> statement \<Rightarrow>
    statement res" where
  "searchExpression se go entrypoint astNode nextAstNode st =
     rbind (evaluate se go astNode nextAstNode st) (\<lambda>(ok, next, st1).
       case next of
         Some p \<Rightarrow> go (RunSearch entrypoint p next) st1
       | None \<Rightarrow> if ok then condition_done go entrypoint st1 else Inr st1)"

section \<open>SELECT\<close>

text \<open>All staged rows, of any table, and the search for all rows of the table\<close>

definition staged_results :: "stagedRows \<Rightarrow> results \<Rightarrow> results" where
  "staged_results staged results =
     foldl (\<lambda>rs (uur, sr). um_put uur (stagedRow2ReturnRow sr returnRow0) rs) results staged"

definition select_everything :: "statementEnv \<Rightarrow> runner \<Rightarrow> pendingprimitive \<Rightarrow> locktype \<Rightarrow> statement \<Rightarrow>
    statement res" where
  "select_everything se go primitive locktype st =
     rbind (deref (sm_currentQuery st)) (\<lambda>i. rbind (current_query st) (\<lambda>q. rbind (stmt_tx st) (\<lambda>tx.
       let rs = staged_results (tx_stagedRows tx) (qs_searchResults q);
           st1 = set_query (qs_searchResults_update (\<lambda>_. rs)) st
       in rbind (with_tx (sqlSelectAll (se_tx se) this_statement (qs_tableid q) locktype primitive rs)
                   (st1\<lparr>sm_resultsPtr := QueryResults i\<rparr>))
            (run_callbacks go))))"

definition select_columns :: "column list \<Rightarrow> fieldValue list \<Rightarrow> fieldValue list res" where
  "select_columns cols vs =
     rfold (\<lambda>c acc. rmap (\<lambda>v. acc @ [v]) (vec_at (co_fieldid c) vs)) cols []"

definition select_one :: "table \<Rightarrow> uuRecord \<times> returnRow \<Rightarrow> statement \<Rightarrow> statement res" where
  "select_one t = (\<lambda>(uur, rr) st.
     rbind (current_query st) (\<lambda>q. rbind (stmt_tx st) (\<lambda>tx.
     rbind (unmakerow (rr_row rr) [] t) (\<lambda>(_, found).
     rbind (select_columns (qs_fromColumnids q) found) (\<lambda>vs.
       let srow = stagedRow0\<lparr>sr_cmd := NOCOMMAND, sr_locktype := rr_locktype rr,
                    sr_originalRow := rr_row rr, sr_originalrowid := rr_rowid rr\<rparr>;
           st1 = set_query (qs_selectResults_update (um_put uur vs)) st
       in Inr (if map_count uur (tx_stagedRows tx) then st1
               else st1\<lparr>sm_transactionPtr := Some (tx\<lparr>tx_stagedRows := um_put uur srow (tx_stagedRows tx)\<rparr>)\<rparr>))))))"

definition continueSelect :: "statementEnv \<Rightarrow> runner \<Rightarrow> statement \<Rightarrow> statement res" where
  "continueSelect se go st =
     rbind (current_query st) (\<lambda>q. rbind (stmt_table se (qs_tableid q) st) (\<lambda>t.
     rbind (rfold (select_one t) (qs_searchResults q) st) (go RunStart)))"

section \<open>INSERT\<close>

definition insert_value :: "fieldtype \<Rightarrow> bytes \<Rightarrow> fieldValue option res" where
  "insert_value t operand =
     (case t of
        F_INT \<Rightarrow> rmap (\<lambda>w. Some (put_integer (I64 w) fieldValue0)) (copy_word 1 operand)
      | F_UINT \<Rightarrow> rmap (\<lambda>w. Some (put_uinteger w fieldValue0)) (copy_word 1 operand)
      | F_BOOL \<Rightarrow> rmap (\<lambda>c. Some (put_boolean (c = 116) fieldValue0)) (byte_at 1 operand)
      | F_FLOAT \<Rightarrow> rmap Some (toFloat_value operand fieldValue0)
      | F_CHAR \<Rightarrow> rmap (\<lambda>c. Some (put_character (I8 c) fieldValue0)) (byte_at 1 operand)
      | F_CHARX \<Rightarrow> rmap (\<lambda>s. Some (fieldValue0\<lparr>str := s\<rparr>)) (substr_from 1 operand)
      | F_VARCHAR \<Rightarrow> rmap (\<lambda>s. Some (fieldValue0\<lparr>str := s\<rparr>)) (substr_from 1 operand)
      | NOFIELDTYPE \<Rightarrow> Inr None)"

definition push_insert_value :: "fieldValue \<Rightarrow> transaction \<Rightarrow> transaction res" where
  "push_insert_value v tx =
     Inr (tx\<lparr>tx_query := (tx_query tx)\<lparr>qy_insertValues := qy_insertValues (tx_query tx) @ [v]\<rparr>\<rparr>)"

text \<open>One column, in the order of the fields; \<open>False\<close>: a null is not allowed.\<close>

definition insert_column :: "runner \<Rightarrow> table \<Rightarrow> nat list \<Rightarrow> nat \<Rightarrow> bool \<times> statement \<Rightarrow>
    (bool \<times> statement) res" where
  "insert_column go t columns n = (\<lambda>(ok, st).
     if \<not> ok then Inr (False, st)
     else let a = columns ! (length columns - 1 - n)
       in rbind (go (RunSearch 0 a None) st) (\<lambda>st1. rbind (node a st1) (\<lambda>nd.
          rbind (byte_at 0 (as_operand nd)) (\<lambda>tag. rbind (field_at (int n) t) (\<lambda>fd.
            if tag = OPERAND_NULL then
              (if fd_indextype fd \<in> {UNIQUENOTNULL, NONUNIQUENOTNULL, UNORDEREDNOTNULL}
               then Inr (False, st1)
               else rmap (Pair True)
                 (with_tx (push_insert_value (fieldValue0\<lparr>isnull := True\<rparr>)) st1))
            else rbind (insert_value (fd_type fd) (as_operand nd)) (\<lambda>v.
              case v of
                None \<Rightarrow> Inr (True, st1)
              | Some v \<Rightarrow> rmap (Pair True) (with_tx (push_insert_value v) st1)))))))"

text \<open>A row that cannot be made returns, and goes on with the statement that is gone.\<close>

definition insert_send :: "statementEnv \<Rightarrow> table \<Rightarrow> statement \<Rightarrow> statement res" where
  "insert_send se t st =
     rbind (stmt_live st) (\<lambda>_. rbind (current_query st) (\<lambda>q. rbind (stmt_tx st) (\<lambda>tx.
     rbind (vec_at 0 (qy_insertValues (tx_query tx))) (\<lambda>v0. rbind (field_at 0 t) (\<lambda>fd.
     rbind (getengine (se_tx se) (fd_type fd) v0) (\<lambda>(e, v0').
       let tx1 = tx\<lparr>tx_query := (tx_query tx)\<lparr>qy_newrowengineid := e,
                      qy_insertValues := (qy_insertValues (tx_query tx))[0 := v0']\<rparr>\<rparr>;
           st1 = st\<lparr>sm_transactionPtr := Some tx1\<rparr>
       in if tx_pendingcmd tx1 \<noteq> NOCOMMAND then reenter_statement APISTATUS_PENDING st1
          else
            let (i, tx2) = getnextpendingcmdid tx1;
                tx3 = tx2\<lparr>tx_pendingcmdid := i, tx_pendingcmd := PRIMITIVE_SQLINSERT,
                          tx_sqlcmdstate := sqlcmdstate0\<lparr>sq_statement := Some this_statement,
                                              sq_tableid := qs_tableid q\<rparr>\<rparr>
            in with_tx (sendTransaction (se_tx se) NEWROW 1 e
                 (message.PAYLOADSUBTRANSACTION (subtransactionCmd0
                    \<lparr>sc_subtransactionStruct := subtransactionStruct0\<lparr>ss_tableid := qs_tableid q\<rparr>,
                     sc_row := qy_newrow (tx_query tx3)\<rparr>)))
                 (st1\<lparr>sm_transactionPtr := Some tx3, sm_resultsPtr := NoResults\<rparr>)))))))"

definition branch_insert :: "statementEnv \<Rightarrow> runner \<Rightarrow> statement \<Rightarrow> statement res" where
  "branch_insert se go st =
     rbind (current_query st) (\<lambda>q. rbind (stmt_table se (qs_tableid q) st) (\<lambda>t.
       let columns = qs_insertColumns q
       in rbind (rfold (insert_column go t columns) [0..<length columns] (True, st)) (\<lambda>(ok, st1).
            if \<not> ok then reenter_statement APISTATUS_NULLCONSTRAINT st1
            else rbind (stmt_tx st1) (\<lambda>tx.
              rbind (makerow (qy_insertValues (tx_query tx)) (qy_newrow (tx_query tx)) t) (\<lambda>(ok, vs, r, _).
                let st2 = st1\<lparr>sm_transactionPtr := Some (tx\<lparr>tx_query := (tx_query tx)
                             \<lparr>qy_insertValues := vs, qy_newrow := r\<rparr>\<rparr>)\<rparr>
                in rbind (if ok then Inr st2 else reenter_statement APISTATUS_NOTOK st2)
                     (insert_send se t))))))"

section \<open>DELETE\<close>

definition delete_one :: "transactionEnv \<Rightarrow> uuRecord \<times> returnRow \<Rightarrow> transaction \<Rightarrow> transaction res" where
  "delete_one ev = (\<lambda>(uur, rr) tx.
     rmap (\<lambda>tx1. tx1\<lparr>tx_stagedRows := um_update stagedRow0
              (\<lambda>sr. sr\<lparr>sr_cmd := DELETE, sr_originalRow := rr_row rr\<rparr>) uur (tx_stagedRows tx1)\<rparr>)
       (sendTransaction ev DELETEROW 1 (uu_engineid uur)
          (message.PAYLOADSUBTRANSACTION (subtransactionCmd0
             \<lparr>sc_subtransactionStruct := subtransactionStruct0
                \<lparr>ss_tableid := uu_tableid uur, ss_rowid := uu_rowid uur,
                 ss_engineid := uu_engineid uur\<rparr>\<rparr>)) tx))"

definition start_delete :: "statementEnv \<Rightarrow> statement \<Rightarrow> statement res" where
  "start_delete se st =
     rbind (current_query st) (\<lambda>q.
     with_tx (\<lambda>tx.
         let (i, tx1) = getnextpendingcmdid
               (tx\<lparr>tx_sqlcmdstate := sqlcmdstate0\<lparr>sq_statement := Some this_statement\<rparr>\<rparr>)
         in rmap (set_eventwaitcount (int (length (qs_searchResults q))))
              (rfold (delete_one (se_tx se)) (qs_searchResults q)
                 (tx1\<lparr>tx_pendingcmdid := i, tx_pendingcmd := PRIMITIVE_SQLDELETE\<rparr>)))
       (st\<lparr>sm_resultsPtr := NoResults\<rparr>))"

definition continueDelete :: "statementEnv \<Rightarrow> runner \<Rightarrow> int \<Rightarrow> statement \<Rightarrow> statement res" where
  "continueDelete se go entrypoint st =
     (if entrypoint = 1 then start_delete se st
      else if entrypoint = 2 then go RunStart st
      else Inr st)"

section \<open>UPDATE\<close>

text \<open>\<open>None\<close>: the type of the field is no type, and the update returns.\<close>

definition assign_value :: "fieldtype \<Rightarrow> bytes \<Rightarrow> fieldValue option res" where
  "assign_value t operand =
     rbind (byte_at 0 operand) (\<lambda>tag.
       if tag = OPERAND_NULL then Inr (Some (fieldValue0\<lparr>isnull := True\<rparr>))
       else case t of
         F_INT \<Rightarrow> rmap (\<lambda>w. Some (put_integer (I64 w) fieldValue0)) (copy_word 1 operand)
       | F_UINT \<Rightarrow> rmap (\<lambda>w. Some (put_uinteger w fieldValue0)) (copy_word 1 operand)
       | F_BOOL \<Rightarrow> rmap (\<lambda>w. Some (put_boolean (w \<noteq> 0) fieldValue0)) (copy_word 1 operand)
       | F_FLOAT \<Rightarrow> rmap Some (toFloat_value operand fieldValue0)
       | F_CHAR \<Rightarrow> rmap (\<lambda>c. Some (put_character (I8 c) fieldValue0)) (byte_at 1 operand)
       | F_CHARX \<Rightarrow> rmap (\<lambda>s. Some (fieldValue0\<lparr>str := s\<rparr>)) (substr_from 1 operand)
       | F_VARCHAR \<Rightarrow> rmap (\<lambda>s. Some (fieldValue0\<lparr>str := s\<rparr>)) (substr_from 1 operand)
       | NOFIELDTYPE \<Rightarrow> Inr None)"

text \<open>One assignment, for the values of the row\<close>

definition assign_field :: "statementEnv \<Rightarrow> table \<Rightarrow> fieldValue list \<Rightarrow> int \<times> nat \<Rightarrow> bool \<times> statement \<Rightarrow>
    (bool \<times> statement) res" where
  "assign_field se t fieldValues = (\<lambda>(fieldid, a) (ok, st).
     if \<not> ok then Inr (False, st)
     else rbind (evaluateAssignment se fieldValues (Suc (length (sm_asts st))) a st) (\<lambda>st1.
          rbind (node a st1) (\<lambda>nd. rbind (field_at fieldid t) (\<lambda>fd.
          rbind (assign_value (fd_type fd) (as_operand nd)) (\<lambda>v.
            case v of
              None \<Rightarrow> Inr (False, st1)
            | Some v \<Rightarrow> rmap (Pair True) (with_tx (\<lambda>tx. Inr (tx\<lparr>tx_query := (tx_query tx)
                \<lparr>qy_setFields := um_put fieldid v (qy_setFields (tx_query tx))\<rparr>\<rparr>)) st1))))))"

text \<open>The request for a unique index of a field that is set\<close>

definition update_field :: "transactionEnv \<Rightarrow> table \<Rightarrow> uuRecord \<Rightarrow> nat \<Rightarrow>
    fieldValue list \<times> stagedRow \<times> transaction \<Rightarrow> (fieldValue list \<times> stagedRow \<times> transaction) res" where
  "update_field ev t uur n = (\<lambda>(vs, sr, tx).
     rbind (field_at (int n) t) (\<lambda>fd.
       case map_of (qy_setFields (tx_query tx)) (int n) of
         None \<Rightarrow> Inr (vs, sr, tx)
       | Some v \<Rightarrow>
           if \<not> isunique (fd_index fd) then Inr (vs[n := v], sr, tx)
           else rbind (getengine ev (fd_type fd) v) (\<lambda>(e, v').
             rmap (\<lambda>tx1. (vs[n := v'], sr\<lparr>sr_uniqueIndices := um_put (int n)
                     \<lparr>lf_locktype = INDEXLOCK, lf_engineid = e, lf_fieldVal = v'\<rparr> (sr_uniqueIndices sr)\<rparr>, tx1))
               (sendTransaction ev UNIQUEINDEX 1 e
                  (uniqueindex_cmd (uu_tableid uur) (int n) (uu_rowid uur) (uu_engineid uur) v')
                  (sql_update (\<lambda>s. s\<lparr>sq_eventwaitcount := sq_eventwaitcount s + 1\<rparr>) tx)))))"

definition update_row :: "transactionEnv \<Rightarrow> table \<Rightarrow> uuRecord \<Rightarrow> returnRow \<Rightarrow> transaction \<Rightarrow>
    transaction res" where
  "update_row ev t uur rr tx =
     rbind (unmakerow (rr_row rr) [] t) (\<lambda>(_, vs).
     rbind (rfold (update_field ev t uur) [0..<length vs]
              (vs, stagedRow0, tx\<lparr>tx_pendingcmd := PRIMITIVE_SQLUPDATE\<rparr>)) (\<lambda>(vs1, sr, tx1).
     rbind (makerow vs1 [] t) (\<lambda>(_, _, newRow, _).
       let sr1 = sr\<lparr>sr_originalRow := rr_row rr, sr_originalrowid := uu_rowid uur,
                   sr_newrowid := uu_rowid uur,
                   sr_previoussubtransactionid := rr_previoussubtransactionid rr,
                   sr_locktype := WRITELOCK, sr_originalengineid := uu_engineid uur,
                   sr_newengineid := uu_engineid uur, sr_newRow := newRow, sr_cmd := UPDATE\<rparr>
       in sendTransaction ev UPDATEROW 1 (uu_engineid uur)
            (message.PAYLOADSUBTRANSACTION (subtransactionCmd0
               \<lparr>sc_subtransactionStruct := subtransactionStruct0
                  \<lparr>ss_tableid := uu_tableid uur, ss_rowid := uu_rowid uur\<rparr>, sc_row := newRow\<rparr>))
            (sql_update (\<lambda>s. s\<lparr>sq_eventwaitcount := sq_eventwaitcount s + 1\<rparr>)
               (tx1\<lparr>tx_stagedRows := um_put uur sr1 (tx_stagedRows tx1)\<rparr>)))))"

text \<open>The first field decides the partition: the row is replaced.\<close>

definition replace_row :: "transactionEnv \<Rightarrow> table \<Rightarrow> int \<Rightarrow> uuRecord \<Rightarrow> returnRow \<Rightarrow> transaction \<Rightarrow>
    transaction res" where
  "replace_row ev t tableid uur rr tx =
     rbind (unmakerow (rr_row rr) [] t) (\<lambda>(_, vs).
       let set = (\<lambda>n v. case map_of (qy_setFields (tx_query tx)) (int n) of None \<Rightarrow> v | Some w \<Rightarrow> w);
           vs1 = map2 set [0..<length vs] vs
       in rbind (makerow vs1 (sr_newRow (um_get stagedRow0 uur (tx_stagedRows tx))) t)
            (\<lambda>(_, vs2, newRow, _).
          rbind (field_at 0 t) (\<lambda>fd. rbind (vec_at 0 vs2) (\<lambda>v0.
          rbind (getengine ev (fd_type fd) v0) (\<lambda>(e, _).
            let sr = (um_get stagedRow0 uur (tx_stagedRows tx))\<lparr>sr_cmd := UPDATE,
                       sr_originalRow := rr_row rr, sr_originalrowid := uu_rowid uur,
                       sr_originalengineid := uu_engineid uur,
                       sr_previoussubtransactionid := rr_previoussubtransactionid rr,
                       sr_locktype := WRITELOCK, sr_newRow := newRow, sr_newengineid := e\<rparr>
            in sendTransaction ev NEWROW 1 e
                 (message.PAYLOADSUBTRANSACTION (subtransactionCmd0
                    \<lparr>sc_subtransactionStruct := subtransactionStruct0\<lparr>ss_tableid := tableid\<rparr>,
                     sc_row := newRow\<rparr>))
                 (tx\<lparr>tx_pendingcmd := PRIMITIVE_SQLREPLACE,
                     tx_stagedRows := um_put uur sr (tx_stagedRows tx),
                     tx_query := (tx_query tx)\<lparr>qy_originalrowuur := uur, qy_newrowengineid := e\<rparr>\<rparr>))))))"

text \<open>The row at the iterator\<close>

definition update_next :: "statementEnv \<Rightarrow> table \<Rightarrow> query_s \<Rightarrow> statement \<Rightarrow> statement res" where
  "update_next se t q st =
     (let (uur, rr) = qs_searchResults q ! qs_updateIterator q
      in rbind (unmakerow (rr_row rr) [] t) (\<lambda>(_, fieldValues).
         rbind (rfold (assign_field se t fieldValues) (qs_fieldidAssignments q) (True, st)) (\<lambda>(ok, st1).
           if \<not> ok then Inr st1
           else rbind (stmt_tx st1) (\<lambda>tx.
             rmap (set_query (qs_updateIterator_update Suc))
               (with_tx (if \<not> map_count 0 (qy_setFields (tx_query tx)) then update_row (se_tx se) t uur rr
                         else replace_row (se_tx se) t (qs_tableid q) uur rr) st1)))))"

definition update_step :: "statementEnv \<Rightarrow> runner \<Rightarrow> statement \<Rightarrow> statement res" where
  "update_step se go st =
     rbind (stmt_tx st) (\<lambda>tx.
       if tx_pendingcmd tx \<noteq> NOCOMMAND then abortQuery APISTATUS_PENDING st
       else
         let (i, tx1) = getnextpendingcmdid tx;
             tx2 = tx1\<lparr>tx_pendingcmdid := i,
                       tx_sqlcmdstate := sqlcmdstate0\<lparr>sq_statement := Some this_statement\<rparr>\<rparr>;
             st1 = st\<lparr>sm_transactionPtr := Some tx2, sm_resultsPtr := NoResults\<rparr>
         in rbind (current_query st1) (\<lambda>q. rbind (stmt_table se (qs_tableid q) st1) (\<lambda>t.
              if qs_updateIterator q < length (qs_searchResults q) then update_next se t q st1
              else go RunStart st1)))"

definition continueUpdate :: "statementEnv \<Rightarrow> runner \<Rightarrow> int \<Rightarrow> statement \<Rightarrow> statement res" where
  "continueUpdate se go entrypoint st =
     (if entrypoint = 1 then
        rbind (current_query st) (\<lambda>_. update_step se go (set_query (qs_updateIterator_update (\<lambda>_. 0)) st))
      else if entrypoint = 2 then update_step se go st
      else Inr st)"

section \<open>A query by its type\<close>

definition branch_procedure :: "statementEnv \<Rightarrow> query_s \<Rightarrow> statement \<Rightarrow> statement res" where
  "branch_procedure se q st =
     (let st1 = st\<lparr>sm_api := (sm_api st)\<lparr>ar_cmdtype := CMD_STOREDPROCEDURE\<rparr>\<rparr>
      in rbind (deref (sm_schemaPtr st1)) (\<lambda>d.
           case se_procedures se d of
             None \<Rightarrow> reenter_statement (status_num STATUS_NOTOK) st1
           | Some procs \<Rightarrow>
               if qs_storedProcedure q \<in> set procs
               then Inr (st1\<lparr>sm_api := (sm_api st1)\<lparr>ar_procedure := Some (qs_storedProcedure q)\<rparr>\<rparr>)
               else reenter_statement (status_num STATUS_NOTOK) st1))"

definition branchtotype :: "statementEnv \<Rightarrow> runner \<Rightarrow> statement \<Rightarrow> statement res" where
  "branchtotype se go st =
     rbind (current_query st) (\<lambda>q.
       case qs_type q of
         CMD_SELECT \<Rightarrow>
           if \<not> qs_haswhere q
           then select_everything se go PRIMITIVE_SQLSELECTALL (qs_locktype q) st
           else go RunSelect st
       | CMD_INSERT \<Rightarrow> branch_insert se go st
       | CMD_UPDATE \<Rightarrow>
           if \<not> qs_haswhere q
           then select_everything se go PRIMITIVE_SQLSELECTALLFORUPDATE WRITELOCK st
           else go (RunUpdate 1) st
       | CMD_DELETE \<Rightarrow>
           if \<not> qs_haswhere q
           then select_everything se go PRIMITIVE_SQLSELECTALLFORDELETE WRITELOCK st
           else go (RunDelete 1) st
       | CMD_STOREDPROCEDURE \<Rightarrow> branch_procedure se q st
       | CMD_BEGIN \<Rightarrow> go RunStart st
       | CMD_COMMIT \<Rightarrow> go RunStart st
       | CMD_ROLLBACK \<Rightarrow> go RunStart st
       | _ \<Rightarrow> reenter_statement (status_num STATUS_NOTOK) st)"

section \<open>The queries of a statement\<close>

definition select_fields :: "table \<Rightarrow> column list \<Rightarrow> (fieldtype \<times> bytes) list res" where
  "select_fields t cols =
     rfold (\<lambda>c acc. rmap (\<lambda>fd. acc @ [(fd_type fd, co_name c)]) (field_at (co_fieldid c) t)) cols []"

definition finish_api :: "cmd \<Rightarrow> apiResults \<Rightarrow> apiResults" where
  "finish_api c ar = ar\<lparr>ar_cmdtype := c, ar_statementStatus := status_num STATUS_OK\<rparr>"

text \<open>The results of the last query, and the return\<close>

definition finish_statement :: "statementEnv \<Rightarrow> statement \<Rightarrow> statement res" where
  "finish_statement se st =
     rbind (current_query st) (\<lambda>q.
       let ar = finish_api (qs_type q) (sm_api st);
           done = (\<lambda>ar. reenter_statement (status_num STATUS_OK) (st\<lparr>sm_api := ar\<rparr>))
       in case qs_type q of
            CMD_SELECT \<Rightarrow>
              rbind (stmt_table se (qs_tableid q) st) (\<lambda>t.
              rbind (select_fields t (qs_fromColumnids q)) (\<lambda>fs.
                done (ar\<lparr>ar_selectResults := qs_selectResults q,
                         ar_selectFields := ar_selectFields ar @ fs\<rparr>)))
          | CMD_INSERT \<Rightarrow>
              rbind (stmt_tx st) (\<lambda>tx.
                done (ar\<lparr>ar_statementResults := um_put (qy_newrowuur (tx_query tx))
                        \<lparr>rr_rowid = uu_rowid (qy_newrowuur (tx_query tx)),
                         rr_previoussubtransactionid = 0, rr_locktype = WRITELOCK,
                         rr_row = qy_newrow (tx_query tx)\<rparr> (ar_statementResults ar)\<rparr>))
          | CMD_UPDATE \<Rightarrow> done (ar\<lparr>ar_statementResults := qs_searchResults q\<rparr>)
          | CMD_DELETE \<Rightarrow> done (ar\<lparr>ar_statementResults := qs_searchResults q\<rparr>)
          | CMD_BEGIN \<Rightarrow> done ar
          | CMD_COMMIT \<Rightarrow> done ar
          | CMD_ROLLBACK \<Rightarrow> done ar
          | _ \<Rightarrow> Inr st)"

text \<open>A query starts with the results of a new query.\<close>

definition query_results0 :: "int \<Rightarrow> query" where
  "query_results0 tableid =
     (let uur = \<lparr>uu_rowid = 0, uu_tableid = 0, uu_engineid = 0\<rparr>
      in \<lparr>qy_tableid = tableid, qy_newrow = [], qy_newrowengineid = 0, qy_newrowuur = uur,
          qy_originalrowuur = uur, qy_insertValues = [], qy_setFields = []\<rparr>)"

definition startQuery :: "statementEnv \<Rightarrow> runner \<Rightarrow> statement \<Rightarrow> statement res" where
  "startQuery se go st =
     (if sm_queryindex st \<ge> 0 then
        rbind (vec_at (sm_queryindex st) (sm_queries st)) (\<lambda>q.
          let st1 = st\<lparr>sm_currentQuery := Some (nat (sm_queryindex st)),
                       sm_queryindex := sm_queryindex st - 1,
                       sm_transactionPtr := map_option
                         (\<lambda>tx. tx\<lparr>tx_query := query_results0 (qs_tableid q)\<rparr>) (sm_transactionPtr st)\<rparr>
          in if qs_haswhere q
             then rbind (deref (qs_searchCondition q)) (\<lambda>c. go (RunSearch 1 c None) st1)
             else go RunBranch st1)
      else finish_statement se st)"

definition continueInsert :: "runner \<Rightarrow> statement \<Rightarrow> statement res" where
  "continueInsert go = go RunStart"

section \<open>The functions together\<close>

text \<open>The fuel bounds the number of calls between the functions of the statement.\<close>

fun run :: "nat \<Rightarrow> statementEnv \<Rightarrow> runner" where
  "run 0 se c st = Inl OutOfFuel"
| "run (Suc fuel) se (RunSearch entrypoint p next) st =
     searchExpression se (run fuel se) entrypoint p next st"
| "run (Suc fuel) se RunStart st = startQuery se (run fuel se) st"
| "run (Suc fuel) se RunBranch st = branchtotype se (run fuel se) st"
| "run (Suc fuel) se RunSelect st = continueSelect se (run fuel se) st"
| "run (Suc fuel) se (RunDelete entrypoint) st = continueDelete se (run fuel se) entrypoint st"
| "run (Suc fuel) se (RunUpdate entrypoint) st = continueUpdate se (run fuel se) entrypoint st"
| "run (Suc fuel) se RunInsert st = continueInsert (run fuel se) st"
| "run (Suc fuel) se (RunAbort status) st = abortQuery status st"

text \<open>
  \<open>execute\<close>: a transaction is created for the four queries on tables, if there is none.
\<close>

definition execute :: "nat \<Rightarrow> statementEnv \<Rightarrow> stmtReentry \<Rightarrow> transaction option \<Rightarrow> bytes list \<Rightarrow>
    statement \<Rightarrow> statement res" where
  "execute fuel se reentryarg transactionPtrarg parametersarg st =
     rbind (vec_at 0 (sm_queries st)) (\<lambda>q.
     rbind (if transactionPtrarg = None \<and>
               qs_type q \<in> {CMD_SELECT, CMD_INSERT, CMD_UPDATE, CMD_DELETE}
            then rmap (\<lambda>d. Some (Transaction (se_tx se) (se_newtransaction se) (se_newtransactionid se) d))
                   (deref (sm_schemaPtr st))
            else Inr transactionPtrarg) (\<lambda>txp.
       run fuel se RunStart
         (st\<lparr>sm_reentry := reentryarg, sm_api := (sm_api st)\<lparr>ar_cmdtype := qs_type q\<rparr>,
             sm_transactionPtr := txp, sm_parameters := parametersarg,
             sm_queryindex := int (length (sm_queries st)) - 1\<rparr>)))"

text \<open>A message for the transaction of the statement, and what it calls back\<close>

definition statement_message :: "nat \<Rightarrow> statementEnv \<Rightarrow> message \<Rightarrow> statement \<Rightarrow> statement res" where
  "statement_message fuel se m st =
     rbind (with_tx (processTransactionMessage_tx (se_tx se) m) st) (run_callbacks (run fuel se))"

end
