(* ===== verification/Statement_Walk.thy ===== *)
theory Statement_Walk
  imports Statement_Execute Transaction_Protocol
begin

text \<open>
  The walk over a condition against its meaning. A condition is a tree of predicates under \<open>AND\<close>
  and \<open>OR\<close>; \<open>rep\<close> says how it lies in the store of nodes, \<open>den\<close> what rows it stands for when the
  engines answer each predicate with the rows \<open>ans\<close>. The walk is interrupted by each search of the
  transaction and goes on in its callback; \<open>drive\<close> answers the searches one after the other.
\<close>

section \<open>Nodes\<close>

lemma map_of_set_node [simp]:
  "map_of (sm_asts (set_node p f st)) q =
     (if q = p then map_option f (map_of (sm_asts st) p) else map_of (sm_asts st) q)"
proof -
  have "map_of (map (\<lambda>(q, nd). (q, if q = p then f nd else nd)) s) q =
      (if q = p then map_option f (map_of s p) else map_of s q)" for s
    by (induction s) auto
  then show ?thesis by (simp add: set_node_def)
qed

lemma set_node_simps [simp]:
  "sm_transactionPtr (set_node p f st) = sm_transactionPtr st"
  "sm_queries (set_node p f st) = sm_queries st"
  "sm_currentQuery (set_node p f st) = sm_currentQuery st"
  "sm_schemaPtr (set_node p f st) = sm_schemaPtr st"
  "sm_parameters (set_node p f st) = sm_parameters st"
  "sm_alive (set_node p f st) = sm_alive st"
  "sm_api (set_node p f st) = sm_api st"
  "sm_resultsPtr (set_node p f st) = sm_resultsPtr st"
  "sm_queryindex (set_node p f st) = sm_queryindex st"
  "sm_reentry (set_node p f st) = sm_reentry st"
  by (simp_all add: set_node_def)

lemma node_Some [simp]: "map_of (sm_asts st) p = Some nd \<Longrightarrow> node p st = Inr nd"
  by (simp add: node_def ast_at_def)

lemma lookup_erase [simp]: "map_of (map_erase k m) j = (if j = k then None else map_of m j)"
  by (simp add: map_erase_def map_of_filter_neq)

lemma delete_operand:
  assumes "map_of (sm_asts st) q = Some nd" "\<not> as_isoperator nd"
  shows "delete_ast (Some q) st = Inr (st\<lparr>sm_asts := map_erase q (sm_asts st)\<rparr>)"
  using assms by (simp add: delete_ast_def owned_children_def)

text \<open>Deleting the children of a binary operator, once they are operands\<close>

definition without_children :: "nat \<Rightarrow> nat \<Rightarrow> nat \<Rightarrow> statement \<Rightarrow> statement" where
  "without_children p lc rc st =
     set_node p (as_rightchild_update (\<lambda>_. None))
       ((set_node p (as_leftchild_update (\<lambda>_. None)) (st\<lparr>sm_asts := map_erase lc (sm_asts st)\<rparr>))
         \<lparr>sm_asts := map_erase rc (sm_asts (set_node p (as_leftchild_update (\<lambda>_. None))
            (st\<lparr>sm_asts := map_erase lc (sm_asts st)\<rparr>)))\<rparr>)"

lemma drop_children_ok:
  assumes "map_of (sm_asts st) p = Some nd" "as_leftchild nd = Some lc" "as_rightchild nd = Some rc"
    and "map_of (sm_asts st) lc = Some ln" "\<not> as_isoperator ln"
    and "map_of (sm_asts st) rc = Some rn" "\<not> as_isoperator rn" "lc \<noteq> p" "rc \<noteq> p" "lc \<noteq> rc"
  shows "drop_children p st = Inr (without_children p lc rc st)"
proof -
  let ?s1 = "set_node p (as_leftchild_update (\<lambda>_. None)) (st\<lparr>sm_asts := map_erase lc (sm_asts st)\<rparr>)"
  have l: "drop_left p st = Inr ?s1"
    unfolding drop_left_def using assms by (simp add: delete_operand [OF assms(4,5)])
  have n1: "map_of (sm_asts ?s1) p = Some (nd\<lparr>as_leftchild := None\<rparr>)"
    and r1: "map_of (sm_asts ?s1) rc = Some rn"
    using assms by simp_all
  have "drop_right p ?s1 =
      Inr (set_node p (as_rightchild_update (\<lambda>_. None)) (?s1\<lparr>sm_asts := map_erase rc (sm_asts ?s1)\<rparr>))"
    unfolding drop_right_def by (simp add: node_Some [OF n1] assms(3) delete_operand [OF r1 assms(7)]
        del: map_of_set_node)
  then show ?thesis unfolding drop_children_def l without_children_def by simp
qed

lemma map_of_without_children [simp]:
  "p \<noteq> lc \<Longrightarrow> p \<noteq> rc \<Longrightarrow> map_of (sm_asts (without_children p lc rc st)) q =
     (if q = lc \<or> q = rc then None
      else if q = p then map_option (\<lambda>nd. nd\<lparr>as_leftchild := None, as_rightchild := None\<rparr>)
                           (map_of (sm_asts st) p)
      else map_of (sm_asts st) q)"
  by (auto simp: without_children_def option.map_comp comp_def split: option.splits)

lemma without_children_simps [simp]:
  "sm_transactionPtr (without_children p lc rc st) = sm_transactionPtr st"
  "sm_queries (without_children p lc rc st) = sm_queries st"
  "sm_currentQuery (without_children p lc rc st) = sm_currentQuery st"
  "sm_schemaPtr (without_children p lc rc st) = sm_schemaPtr st"
  "sm_parameters (without_children p lc rc st) = sm_parameters st"
  "sm_alive (without_children p lc rc st) = sm_alive st"
  "sm_api (without_children p lc rc st) = sm_api st"
  "sm_resultsPtr (without_children p lc rc st) = sm_resultsPtr st"
  "sm_queryindex (without_children p lc rc st) = sm_queryindex st"
  "sm_reentry (without_children p lc rc st) = sm_reentry st"
  by (simp_all add: without_children_def)

section \<open>Conditions\<close>

text \<open>A predicate: its node, operator, operands, and the nodes of the operands\<close>

datatype cond =
    Pred nat operatortype bytes bytes nat nat
  | Conj nat cond cond
  | Disj nat cond cond

fun cond_root :: "cond \<Rightarrow> nat" where
  "cond_root (Pred p op l r lc rc) = p"
| "cond_root (Conj p a b) = p"
| "cond_root (Disj p a b) = p"

fun cond_nodes :: "cond \<Rightarrow> nat list" where
  "cond_nodes (Pred p op l r lc rc) = [p, lc, rc]"
| "cond_nodes (Conj p a b) = p # cond_nodes a @ cond_nodes b"
| "cond_nodes (Disj p a b) = p # cond_nodes a @ cond_nodes b"

fun cond_leaves :: "cond \<Rightarrow> nat" where
  "cond_leaves (Pred p op l r lc rc) = 1"
| "cond_leaves (Conj p a b) = cond_leaves a + cond_leaves b"
| "cond_leaves (Disj p a b) = cond_leaves a + cond_leaves b"

text \<open>A bound on the calls of the walk without an interruption\<close>

fun cond_steps :: "cond \<Rightarrow> nat" where
  "cond_steps (Pred p op l r lc rc) = 1"
| "cond_steps (Conj p a b) = cond_steps a + cond_steps b + 2"
| "cond_steps (Disj p a b) = cond_steps a + cond_steps b + 2"

definition binary_node :: "nat option \<Rightarrow> operatortype \<Rightarrow> nat \<Rightarrow> nat \<Rightarrow> ast" where
  "binary_node pr op lc rc =
     \<lparr>as_parent = pr, as_rightchild = Some rc, as_leftchild = Some lc, as_isoperator = True,
      as_operatortype = op, as_operand = [], as_predicateResults = []\<rparr>"

definition operand_node :: "bytes \<Rightarrow> ast option \<Rightarrow> bool" where
  "operand_node w nd \<longleftrightarrow> (\<exists>n. nd = Some n \<and> \<not> as_isoperator n \<and> as_operand n = w)"

fun rep :: "asts \<Rightarrow> nat option \<Rightarrow> cond \<Rightarrow> bool" where
  "rep s pr (Pred p op l r lc rc) \<longleftrightarrow>
     map_of s p = Some (binary_node pr op lc rc) \<and>
     operand_node l (map_of s lc) \<and> operand_node r (map_of s rc)"
| "rep s pr (Conj p a b) \<longleftrightarrow>
     map_of s p = Some (binary_node pr OPERATOR_AND (cond_root a) (cond_root b)) \<and>
     rep s (Some p) a \<and> rep s (Some p) b"
| "rep s pr (Disj p a b) \<longleftrightarrow>
     map_of s p = Some (binary_node pr OPERATOR_OR (cond_root a) (cond_root b)) \<and>
     rep s (Some p) a \<and> rep s (Some p) b"

text \<open>The rows of a condition\<close>

fun den :: "(nat \<Rightarrow> results) \<Rightarrow> cond \<Rightarrow> uuRecord \<rightharpoonup> returnRow" where
  "den ans (Pred p op l r lc rc) = map_of (ans p)"
| "den ans (Conj p a b) = den ans a |` dom (den ans b)"
| "den ans (Disj p a b) = den ans b ++ den ans a"

lemma cond_root_in: "cond_root t \<in> set (cond_nodes t)"
  by (cases t) auto

lemma cond_roots_apart:
  assumes "distinct (p # cond_nodes a @ cond_nodes b)"
  shows "distinct [p, cond_root a, cond_root b]" "cond_root b \<notin> set (cond_nodes a)"
    "cond_root a \<notin> set (cond_nodes b)"
  using assms cond_root_in [of a] cond_root_in [of b] by auto

lemma rep_cong:
  "rep s pr t \<Longrightarrow> (\<And>q. q \<in> set (cond_nodes t) \<Longrightarrow> map_of s' q = map_of s q) \<Longrightarrow> rep s' pr t"
  by (induction t arbitrary: pr) auto

text \<open>A node whose value is known\<close>

definition done_node :: "nat option \<Rightarrow> operatortype \<Rightarrow> results \<Rightarrow> ast" where
  "done_node pr op rs =
     \<lparr>as_parent = pr, as_rightchild = None, as_leftchild = None, as_isoperator = False,
      as_operatortype = op, as_operand = [], as_predicateResults = rs\<rparr>"

section \<open>The results of AND and OR\<close>

lemma um_ok_um_put: "um_ok m \<Longrightarrow> um_ok (um_put k v m)"
  by (auto simp: um_ok_def um_put_def distinct_map_filter)

lemma and_rows_map:
  assumes "um_ok left"
  shows "map_of (fst (and_rows S right left (res, ers))) =
     map_of res ++ (map_of left |` dom (map_of right))"
  using assms
proof (induction left arbitrary: res ers)
  case (Cons x left)
  obtain u r where x: "x = (u, r)" by fastforce
  have d: "um_ok left" "map_of left u = None"
    using Cons.prems by (auto simp: um_ok_def x map_of_eq_None_iff)
  show ?case
  proof (cases "map_count u right")
    case True
    then show ?thesis using Cons.IH [OF d(1)] d(2)
      by (auto simp: x map_count_def restrict_map_def map_add_def fun_eq_iff split: option.splits)
  next
    case False
    then have "u \<notin> dom (map_of right)" by (auto simp: map_count_def)
    then have eq: "map_of (x # left) |` dom (map_of right) = map_of left |` dom (map_of right)"
      by (auto simp: x restrict_map_def fun_eq_iff)
    obtain ers' where "and_rows S right (x # left) (res, ers) = and_rows S right left (res, ers')"
      using False by (cases "map_count u S") (auto simp: x)
    then show ?thesis by (simp only: Cons.IH [OF d(1)] eq)
  qed
qed simp

lemma and_rows_ok:
  "um_ok res \<Longrightarrow> um_ok (fst (and_rows S right left (res, ers)))"
  by (induction S right left "(res, ers)" arbitrary: res ers rule: and_rows.induct)
    (auto simp: um_ok_um_put)

lemma map_of_um_insert [simp]: "map_of (um_insert m ys) = map_of ys ++ map_of m"
proof
  fix k
  have "map_of (filter (\<lambda>(j, _). \<not> map_count j m) ys) k = (if map_count k m then None else map_of ys k)"
    by (induction ys) auto
  then show "map_of (um_insert m ys) k = (map_of ys ++ map_of m) k"
    by (auto simp: um_insert_def map_add_def map_count_def split: option.splits)
qed

lemma um_ok_um_insert: "um_ok m \<Longrightarrow> um_ok ys \<Longrightarrow> um_ok (um_insert m ys)"
  by (auto simp: um_ok_def um_insert_def distinct_map_filter map_count_def split_def
      dest: map_of_eq_None_iff [THEN iffD1] intro: rev_image_eqI)

section \<open>Starting a search\<close>

definition predicate_ops :: "operatortype list" where
  "predicate_ops = comparison_ops @ range_ops"

lemma search_others_ok:
  assumes "0 < ev_producers ev" "op \<noteq> OPERATOR_ISNULL"
  shows "\<exists>tx'. search_others ev op tableid fieldid sp tx = Inr tx' \<and>
     sends_only (set_eventwaitcount (ev_numpartitions ev) tx) tx'"
  using send_searches_ok [OF assms(1)] assms(2) by (simp add: search_others_def Let_def)

lemma search_equal_ok:
  assumes "0 < ev_producers ev" "search_engine ev (fd_type fd) sp = Inr x"
  shows "\<exists>tx'. search_equal ev fd tableid fieldid locktype sp tx = Inr tx' \<and>
     sends_only (set_eventwaitcount 1 tx) tx'"
proof (cases "fd_type fd = NOFIELDTYPE")
  case True
  then show ?thesis by (simp add: search_equal_def Let_def)
next
  case False
  obtain e sp' where "x = (e, sp')" by fastforce
  then show ?thesis
    using assms(2) False sendTransaction_ok [OF assms(1)] by (auto simp: search_equal_def Let_def)
qed

text \<open>A search that is under way for the node \<open>d\<close>\<close>

definition search_of :: "int \<Rightarrow> transaction \<Rightarrow> transaction \<Rightarrow> bool" where
  "search_of d tx tx' \<longleftrightarrow>
     tx_pendingcmd tx' = PRIMITIVE_SQLPREDICATE \<and> sq_continuationData (tx_sqlcmdstate tx') = d \<and>
     tx_callbacks tx' = tx_callbacks tx \<and> tx_stagedRows tx' = tx_stagedRows tx \<and>
     tx_schemaPtr tx' = tx_schemaPtr tx"

lemma sends_only_schemaPtr: "sends_only tx tx' \<Longrightarrow> tx_schemaPtr tx' = tx_schemaPtr tx"
  by (auto simp: sends_only_def)

lemma sqlPredicate_starts:
  assumes "0 < ev_producers ev" "tx_pendingcmd tx = NOCOMMAND" "op \<in> set predicate_ops"
    and "byte_at 0 l = Inr OPERAND_FIELDID" "copy_word 1 l = Inr w" "tx_table ev tableid tx = Inr t"
    and "field_at (sint w) t = Inr fd" "decode_operand op (fd_type fd) r inV = Inr (Some vs)"
    and "op = OPERATOR_EQ \<Longrightarrow> \<exists>x. search_engine ev (fd_type fd) (searchParams0\<lparr>sp_values := vs\<rparr>) = Inr x"
  shows "\<exists>tx'. sqlPredicate ev s op tableid l r locktype inV d results tx = Inr tx' \<and> search_of d tx tx'"
proof -
  let ?u = "(new_sqlcmdstate s results tableid locktype d tx)
     \<lparr>tx_nextpendingcmdid := tx_nextpendingcmdid tx + 1,
      tx_pendingcmdid := tx_nextpendingcmdid tx + 1, tx_pendingcmd := PRIMITIVE_SQLPREDICATE\<rparr>"
  let ?sp = "searchParams0\<lparr>sp_values := vs\<rparr>"
  let ?go = "if op = OPERATOR_EQ then search_equal ev fd tableid (sint w) locktype ?sp ?u
     else search_others ev op tableid (sint w) ?sp ?u"
  have op: "op \<noteq> OPERATOR_ISNULL" "op \<noteq> OPERATOR_ISNOTNULL"
    using assms(3) by (auto simp: predicate_ops_def comparison_ops_def range_ops_def)
  have table: "tx_table ev tableid ?u = Inr t"
    using assms(6) by (simp add: tx_table_def new_sqlcmdstate_def)
  have "sqlPredicate ev s op tableid l r locktype inV d results tx = ?go"
    using assms(2,4,5,7,8) op table
    by (simp add: sqlPredicate_def getnextpendingcmdid_def new_sqlcmdstate_def Let_def
        del: rbind_eq_Inr rmap_eq_Inr deref_eq_Inr)
  moreover obtain n v where "?go = Inr v" "sends_only (set_eventwaitcount n ?u) v"
    using search_equal_ok [OF assms(1)] search_others_ok [OF assms(1) op(1)] assms(9)
    by (cases "op = OPERATOR_EQ") (simp, metis)+
  ultimately show ?thesis
    using sends_onlyD [of _ v] sends_only_schemaPtr [of _ v]
    by (auto simp: search_of_def set_eventwaitcount_def new_sqlcmdstate_def sqlcmdstate0_def)
qed

section \<open>States between two nodes\<close>

definition idle :: "statement \<Rightarrow> bool" where
  "idle st \<longleftrightarrow> sm_alive st \<and> (\<exists>tx. sm_transactionPtr st = Some tx \<and> tx_pendingcmd tx = NOCOMMAND \<and>
     tx_callbacks tx = [])"

definition waiting :: "nat \<Rightarrow> statement \<Rightarrow> bool" where
  "waiting p st \<longleftrightarrow> sm_alive st \<and> sm_resultsPtr st = NodeResults p \<and>
     (\<exists>tx. sm_transactionPtr st = Some tx \<and> tx_pendingcmd tx = PRIMITIVE_SQLPREDICATE \<and>
        sq_continuationData (tx_sqlcmdstate tx) = int p \<and> tx_callbacks tx = [])"

text \<open>What the walk does not change\<close>

definition kept :: "statement \<Rightarrow> statement \<Rightarrow> bool" where
  "kept st st' \<longleftrightarrow>
     sm_queries st' = sm_queries st \<and> sm_currentQuery st' = sm_currentQuery st \<and>
     sm_schemaPtr st' = sm_schemaPtr st \<and> sm_alive st' = sm_alive st \<and> sm_api st' = sm_api st \<and>
     sm_parameters st' = sm_parameters st \<and> sm_queryindex st' = sm_queryindex st \<and>
     map_option (\<lambda>tx. (tx_stagedRows tx, tx_schemaPtr tx)) (sm_transactionPtr st') =
       map_option (\<lambda>tx. (tx_stagedRows tx, tx_schemaPtr tx)) (sm_transactionPtr st)"

lemma kept_refl [simp]: "kept st st"
  by (simp add: kept_def)

lemma kept_trans: "kept st st1 \<Longrightarrow> kept st1 st2 \<Longrightarrow> kept st st2"
  by (simp add: kept_def)

lemma kept_current: "kept st st' \<Longrightarrow> current_query st' = current_query st"
  by (simp add: kept_def current_query_def)

lemma kept_table: "kept st st' \<Longrightarrow> stmt_table se i st' = stmt_table se i st"
  by (simp add: kept_def stmt_table_def)

text \<open>A predicate the transaction can search for, with no hit among the staged rows\<close>

definition askable :: "statementEnv \<Rightarrow> statement \<Rightarrow> operatortype \<Rightarrow> bytes \<Rightarrow> bytes \<Rightarrow> bool" where
  "askable se st op l r \<longleftrightarrow> op \<in> set predicate_ops \<and>
     (\<exists>q tx t w fd vs tag res.
        current_query st = Inr q \<and> sm_transactionPtr st = Some tx \<and>
        tx_schemaPtr tx = sm_schemaPtr st \<and> stmt_table se (qs_tableid q) st = Inr t \<and>
        byte_at 0 l = Inr OPERAND_FIELDID \<and> copy_word 1 l = Inr w \<and> field_at (sint w) t = Inr fd \<and>
        byte_at 0 r = Inr tag \<and> tag \<notin> {OPERAND_PARAMETER, OPERAND_SUBQUERY} \<and>
        stagedPredicate op (qs_tableid q) (Inr t) l r (qs_inValues q) (tx_stagedRows tx) [] =
          Inr (False, r, res) \<and>
        decode_operand op (fd_type fd) r (qs_inValues q) = Inr (Some vs) \<and>
        (op = OPERATOR_EQ \<longrightarrow>
           (\<exists>x. search_engine (se_tx se) (fd_type fd) (searchParams0\<lparr>sp_values := vs\<rparr>) = Inr x)))"

lemma askable_kept: "kept st st' \<Longrightarrow> askable se st op l r \<Longrightarrow> askable se st' op l r"
proof -
  assume k: "kept st st'" and a: "askable se st op l r"
  have t: "\<exists>tx'. sm_transactionPtr st' = Some tx' \<and> tx_stagedRows tx' = tx_stagedRows tx \<and>
      tx_schemaPtr tx' = tx_schemaPtr tx" if "sm_transactionPtr st = Some tx" for tx
    using k that by (cases "sm_transactionPtr st'") (auto simp: kept_def)
  have s: "sm_schemaPtr st' = sm_schemaPtr st" using k by (simp add: kept_def)
  from a show ?thesis
    unfolding askable_def kept_current [OF k] kept_table [OF k] s using t by (metis (no_types, lifting))
qed

fun cond_askable :: "statementEnv \<Rightarrow> statement \<Rightarrow> cond \<Rightarrow> bool" where
  "cond_askable se st (Pred p op l r lc rc) = askable se st op l r"
| "cond_askable se st (Conj p a b) = (cond_askable se st a \<and> cond_askable se st b)"
| "cond_askable se st (Disj p a b) = (cond_askable se st a \<and> cond_askable se st b)"

lemma cond_askable_kept: "kept st st' \<Longrightarrow> cond_askable se st t \<Longrightarrow> cond_askable se st' t"
  by (induction t) (auto intro: askable_kept)

section \<open>A predicate\<close>

lemma kept_set_node [simp]:
  "kept st (set_node p f st') = kept st st'" "kept (set_node p f st) st' = kept st st'"
  "kept st (st'\<lparr>sm_resultsPtr := x\<rparr>) = kept st st'" "kept st (without_children p lc rc st') = kept st st'"
  by (simp_all add: kept_def)

lemma idle_set_node [simp]: "idle (set_node p f st) = idle st"
  by (simp add: idle_def)

lemma askable_set_node [simp]: "askable se (set_node p f st) op l r = askable se st op l r"
  using askable_kept [of st "set_node p f st"] askable_kept [of "set_node p f st" st] by auto

lemma waiting_set_node [simp]:
  "waiting d (set_node p f st) = waiting d st"
  "waiting d (without_children p lc rc st) = waiting d st"
  by (simp_all add: waiting_def)

lemma run_callbacks_Nil:
  "sm_transactionPtr st = Some tx \<Longrightarrow> tx_callbacks tx = [] \<Longrightarrow> run_callbacks go st = Inr st"
  by (simp add: run_callbacks_def stmt_tx_def)

lemma start_predicate_ok:
  assumes "0 < ev_producers (se_tx se)" "idle st" "askable se st op l r"
    and "map_of (sm_asts st) p = Some nd" "as_operatortype nd = op"
  shows "\<exists>st'. start_predicate se go p l r st = Inr st' \<and> waiting p st' \<and> kept st st' \<and>
     sm_asts st' = sm_asts st"
proof -
  from assms(3) obtain q tx t w fd vs tag res where a:
      "op \<in> set predicate_ops" "current_query st = Inr q" "sm_transactionPtr st = Some tx"
      "tx_schemaPtr tx = sm_schemaPtr st" "stmt_table se (qs_tableid q) st = Inr t"
      "byte_at 0 l = Inr OPERAND_FIELDID" "copy_word 1 l = Inr w" "field_at (sint w) t = Inr fd"
      "decode_operand op (fd_type fd) r (qs_inValues q) = Inr (Some vs)"
      "op = OPERATOR_EQ \<Longrightarrow> \<exists>x. search_engine (se_tx se) (fd_type fd) (searchParams0\<lparr>sp_values := vs\<rparr>) = Inr x"
    unfolding askable_def by blast
  have i: "sm_alive st" "tx_pendingcmd tx = NOCOMMAND" "tx_callbacks tx = []"
    using assms(2) a(3) by (auto simp: idle_def)
  have "tx_table (se_tx se) (qs_tableid q) tx = Inr t"
    using a(4,5) by (simp add: tx_table_def stmt_table_def)
  then obtain tx' where tx': "sqlPredicate (se_tx se) this_statement op (qs_tableid q) l r (qs_locktype q)
      (qs_inValues q) (int p) (as_predicateResults nd) tx = Inr tx'" "search_of (int p) tx tx'"
    using sqlPredicate_starts [OF assms(1) i(2) a(1,6,7) _ a(8,9,10)] by blast
  let ?st = "st\<lparr>sm_resultsPtr := NodeResults p, sm_transactionPtr := Some tx'\<rparr>"
  have "start_predicate se go p l r st = run_callbacks go ?st"
    using a(2,3) assms(4,5) tx'(1)
    by (simp add: start_predicate_def with_tx_def stmt_tx_def del: rbind_eq_Inr rmap_eq_Inr)
  moreover have "run_callbacks go ?st = Inr ?st"
    using tx'(2) i(3) by (intro run_callbacks_Nil [of _ tx']) (simp_all add: search_of_def)
  moreover have "waiting p ?st" "kept st ?st"
    using tx'(2) i a(3) by (simp_all add: waiting_def search_of_def kept_def)
  ultimately show ?thesis by auto
qed

lemma staged_search_ok:
  assumes "idle st" "askable se st op l r" "map_of (sm_asts st) p = Some nd" "as_operatortype nd = op"
    and "as_predicateResults nd = []" "map_of (sm_asts st) rc = Some rn" "as_operand rn = r"
  shows "\<exists>res. staged_search se p l rc st = Inr (False,
     set_node p (as_predicateResults_update (\<lambda>_. res)) (set_node rc (as_operand_update (\<lambda>_. r)) st))"
proof -
  from assms(2) obtain q tx t res where a: "current_query st = Inr q" "sm_transactionPtr st = Some tx"
      "stmt_table se (qs_tableid q) st = Inr t"
      "stagedPredicate op (qs_tableid q) (Inr t) l r (qs_inValues q) (tx_stagedRows tx) [] =
         Inr (False, r, res)"
    unfolding askable_def by blast
  show ?thesis
    using a assms(3-7)
    by (intro exI [of _ res])
      (simp add: staged_search_def stmt_tx_def del: rbind_eq_Inr rmap_eq_Inr)
qed

text \<open>The state with one predicate under way\<close>

lemma evaluate_predicate:
  assumes "0 < ev_producers (se_tx se)" "idle st" "askable se st op l r"
    and "rep (sm_asts st) pr (Pred p op l r lc rc)" "distinct [p, lc, rc]"
  shows "\<exists>st' res. evaluate se go p nx st = Inr (False, None, st') \<and> waiting p st' \<and> kept st st' \<and>
     (\<forall>q. map_of (sm_asts st') q =
        (if q = p then Some (done_node pr op res) else if q = lc \<or> q = rc then None
         else map_of (sm_asts st) q))"
proof -
  from assms(4) obtain ln rn where n: "map_of (sm_asts st) p = Some (binary_node pr op lc rc)"
      "map_of (sm_asts st) lc = Some ln" "\<not> as_isoperator ln" "as_operand ln = l"
      "map_of (sm_asts st) rc = Some rn" "\<not> as_isoperator rn" "as_operand rn = r"
    by (auto simp: operand_node_def)
  from assms(3) obtain tag where a: "op \<in> set predicate_ops" "byte_at 0 l = Inr OPERAND_FIELDID"
      "byte_at 0 r = Inr tag" "tag \<noteq> OPERAND_PARAMETER" "tag \<noteq> OPERAND_SUBQUERY"
    unfolding askable_def by blast
  have op: "op \<notin> set unary_operators"
    using a(1) by (auto simp: predicate_ops_def comparison_ops_def range_ops_def unary_operators_def)
  have lr: "ready_child se p (Some lc) st = Inr (None, st)" "ready_child se p (Some rc) st = Inr (None, st)"
    using n a by (simp_all add: ready_child_def operand_defs del: rbind_eq_Inr)
  have e: "evaluate se go p nx st = evaluate_operator se go p nx st"
    unfolding evaluate_def node_Some [OF n(1)] using op lr by (simp add: binary_node_def)
  let ?st0 = "if op = OPERATOR_EQ then no_operator p st else st"
  have s0: "idle ?st0" "askable se ?st0 op l r" "kept st ?st0"
    using assms(2,3) by (auto simp: no_operator_def)
  have n0: "\<exists>nd. map_of (sm_asts ?st0) p = Some nd \<and> as_operatortype nd = op \<and> as_predicateResults nd = []"
    "map_of (sm_asts ?st0) rc = Some rn" "map_of (sm_asts ?st0) lc = Some ln"
    using n assms(5) by (auto simp: no_operator_def binary_node_def)
  obtain res where ss: "staged_search se p l rc ?st0 = Inr (False,
     set_node p (as_predicateResults_update (\<lambda>_. res)) (set_node rc (as_operand_update (\<lambda>_. r)) ?st0))"
    using n0(1) staged_search_ok [OF s0(1,2) _ _ _ n0(2) n(7)] by blast
  let ?st1 = "set_node p (as_predicateResults_update (\<lambda>_. res)) (set_node rc (as_operand_update (\<lambda>_. r)) ?st0)"
  let ?st2 = "if op = OPERATOR_EQ then ?st1 else no_operator p ?st1"
  have k2: "kept st ?st2" "idle ?st2" using assms(2) by (auto simp: no_operator_def)
  have m2: "map_of (sm_asts ?st2) p =
      Some ((binary_node pr op lc rc)\<lparr>as_isoperator := False, as_predicateResults := res\<rparr>)"
    "map_of (sm_asts ?st2) lc = Some ln" "map_of (sm_asts ?st2) rc = Some rn"
    "\<And>q. q \<notin> {p, rc} \<Longrightarrow> map_of (sm_asts ?st2) q = map_of (sm_asts st) q"
    using n assms(5) by (auto simp: no_operator_def binary_node_def)
  obtain st3 where st3: "start_predicate se go p l r ?st2 = Inr st3" "waiting p st3" "kept ?st2 st3"
      "sm_asts st3 = sm_asts ?st2"
    using start_predicate_ok [OF assms(1) k2(2) askable_kept [OF k2(1) assms(3)] m2(1)]
    by (auto simp: binary_node_def)
  let ?st4 = "without_children p lc rc st3"
  have "map_of (sm_asts st3) p =
      Some ((binary_node pr op lc rc)\<lparr>as_isoperator := False, as_predicateResults := res\<rparr>)"
    "map_of (sm_asts st3) lc = Some ln" "map_of (sm_asts st3) rc = Some rn"
    using m2 st3(4) by simp_all
  then have d: "drop_children p st3 = Inr ?st4"
    using drop_children_ok [of st3 p _ lc rc ln rn] n(3,6) assms(5) by (simp add: binary_node_def)
  have "evaluate_operator se go p nx st = Inr (False, None, ?st4)"
  proof (cases "op = OPERATOR_EQ")
    case True
    then show ?thesis
      using n ss st3(1) d m2
      by (simp add: evaluate_operator_def evaluate_eq_def child_operand_def child_node_def binary_node_def
          no_operator_def del: rbind_eq_Inr rmap_eq_Inr)
  next
    case False
    have "evaluate_operator se go p nx st = evaluate_comparison se go p st"
      using a(1) False n(1)
      by (auto simp: evaluate_operator_def evaluate_range_def predicate_ops_def comparison_ops_def
          range_ops_def binary_node_def)
    then show ?thesis
      using n ss st3(1) d m2 False
      by (simp add: evaluate_comparison_def child_operand_def child_node_def binary_node_def
          no_operator_def Let_def del: rbind_eq_Inr rmap_eq_Inr)
  qed
  moreover have "map_of (sm_asts ?st4) q =
      (if q = p then Some (done_node pr op res) else if q = lc \<or> q = rc then None
       else map_of (sm_asts st) q)" for q
    using m2 assms(5) st3(4) by (auto simp: binary_node_def done_node_def)
  moreover have "kept st ?st4" using kept_trans [OF k2(1) st3(3)] by simp
  ultimately show ?thesis using e st3(2) by auto
qed

section \<open>Answers\<close>

text \<open>
  All rows of the search under way have come: \<open>ans\<close> gives them for its node, and the transaction
  calls the statement back.
\<close>

definition answer :: "nat \<Rightarrow> statementEnv \<Rightarrow> (nat \<Rightarrow> results) \<Rightarrow> statement \<Rightarrow> statement res" where
  "answer fuel se ans st =
     (case sm_resultsPtr st of
        NodeResults p \<Rightarrow>
          rbind (with_tx (\<lambda>tx. Inr (finish_search (sql_update (\<lambda>s. s\<lparr>sq_results := ans p\<rparr>) tx))) st)
            (run_callbacks (run fuel se))
      | _ \<Rightarrow> Inr st)"

fun drive :: "nat \<Rightarrow> statementEnv \<Rightarrow> (nat \<Rightarrow> results) \<Rightarrow> nat \<Rightarrow> statement res \<Rightarrow> statement res" where
  "drive fuel se ans 0 r = r"
| "drive fuel se ans (Suc n) r = rbind r (\<lambda>st. drive fuel se ans n (answer fuel se ans st))"

lemma rbind_rfold_Nil [simp]: "rbind m (rfold f []) = m"
  by (cases m) auto

lemma answer_waiting:
  assumes "waiting p st" "map_of (sm_asts st) p = Some nd"
  shows "\<exists>st'. answer fuel se ans st = run fuel se (RunSearch 1 p None) st' \<and> idle st' \<and> kept st st' \<and>
     (\<forall>q. map_of (sm_asts st') q =
        (if q = p then Some (nd\<lparr>as_predicateResults := ans p\<rparr>) else map_of (sm_asts st) q))"
proof -
  obtain tx where tx: "sm_alive st" "sm_resultsPtr st = NodeResults p" "sm_transactionPtr st = Some tx"
      "tx_pendingcmd tx = PRIMITIVE_SQLPREDICATE" "sq_continuationData (tx_sqlcmdstate tx) = int p"
      "tx_callbacks tx = []"
    using assms(1) by (auto simp: waiting_def)
  let ?tx = "end_command (sql_update (\<lambda>s. s\<lparr>sq_results := ans p\<rparr>) tx)"
  let ?st = "st\<lparr>sm_transactionPtr := Some ?tx\<rparr>"
  let ?st' = "set_node p (as_predicateResults_update (\<lambda>_. ans p)) ?st"
  have cb: "tx_callbacks ?tx = []" using tx(6) by (simp add: end_command_def)
  have f: "finish_search (sql_update (\<lambda>s. s\<lparr>sq_results := ans p\<rparr>) tx) = callback (SearchExpression 1 (int p)) ?tx"
    using tx(4,5) by (simp add: finish_search_def)
  have e: "(callback c ?tx)\<lparr>tx_callbacks := []\<rparr> = ?tx" "tx_callbacks (callback c ?tx) = [c]" for c
    using cb by (simp_all add: callback_def end_command_def)
  have "answer fuel se ans st = stmt_callback (run fuel se) (SearchExpression 1 (int p)) ?st"
    using tx by (simp add: answer_def with_tx_def stmt_tx_def f run_callbacks_def e
        del: rbind_eq_Inr rmap_eq_Inr)
  also have "\<dots> = run fuel se (RunSearch 1 p None) ?st'"
    using tx assms(2) by (simp add: stmt_callback_def stmt_live_def sync_results_def stmt_tx_def
        end_command_def del: rbind_eq_Inr rmap_eq_Inr)
  finally have "answer fuel se ans st = run fuel se (RunSearch 1 p None) ?st'" .
  moreover have "idle ?st'" "kept st ?st'"
    using tx by (simp_all add: idle_def kept_def end_command_def)
  ultimately show ?thesis using assms(2) by (intro exI [of _ ?st']) auto
qed

text \<open>From a node that is resolved the walk goes to its parent.\<close>

definition ascend :: "runner \<Rightarrow> nat option \<Rightarrow> statement \<Rightarrow> statement res" where
  "ascend go pr st =
     (case pr of Some q \<Rightarrow> go (RunSearch 1 q pr) st | None \<Rightarrow> condition_done go 1 st)"

lemma run_resolved:
  "evaluate se (run f se) p nx st = Inr (True, pr, st') \<Longrightarrow>
   run (Suc f) se (RunSearch 1 p nx) st = ascend (run f se) pr st'"
  by (simp add: searchExpression_def ascend_def split: option.split)

lemma run_child:
  "evaluate se (run f se) p nx st = Inr (False, Some q, st') \<Longrightarrow>
   run (Suc f) se (RunSearch 1 p nx) st = run f se (RunSearch 1 q (Some q)) st'"
  by (simp add: searchExpression_def)

lemma byte_at_Nil [simp]: "byte_at 0 [] = Inr 0"
  by (simp add: byte_at_def)

lemma evaluate_done:
  "map_of (sm_asts st) p = Some (done_node pr op rs) \<Longrightarrow> evaluate se go p nx st = Inr (True, pr, st)"
  by (simp add: evaluate_def resolve_parameter_def resolved_def done_node_def operand_defs
      del: rbind_eq_Inr rmap_eq_Inr)

section \<open>AND and OR\<close>

lemma ready_done:
  "map_of (sm_asts st) c = Some (done_node pr op rs) \<Longrightarrow> ready_child se p (Some c) st = Inr (None, st)"
  by (simp add: ready_child_def done_node_def operand_defs del: rbind_eq_Inr)

lemma ready_operator:
  "map_of (sm_asts st) c = Some nd \<Longrightarrow> as_isoperator nd \<Longrightarrow>
   ready_child se p (Some c) st = Inr (Some c, st)"
  by (simp add: ready_child_def del: rbind_eq_Inr)

lemma unlock_rows_ok:
  "0 < ev_producers ev \<Longrightarrow> \<exists>tx'. unlock_rows ev tableid ers tx = Inr tx' \<and> sends_only tx tx'"
  unfolding unlock_rows_def by (rule rfold_sends) (auto intro: sendTransaction_ok)

lemma rep_root:
  "rep s pr t \<Longrightarrow> \<exists>nd. map_of s (cond_root t) = Some nd \<and> as_isoperator nd"
  by (cases t) (auto simp: binary_node_def)

lemma evaluate_left:
  assumes "map_of (sm_asts st) p = Some (binary_node pr op lc rc)" "op \<notin> set unary_operators"
    and "map_of (sm_asts st) lc = Some nd" "as_isoperator nd"
  shows "evaluate se go p nx st = Inr (False, Some lc, st)"
  using assms ready_operator [OF assms(3,4), of se p]
  by (simp add: evaluate_def binary_node_def del: rbind_eq_Inr)

lemma evaluate_right:
  assumes "map_of (sm_asts st) p = Some (binary_node pr op lc rc)" "op \<notin> set unary_operators"
    and "map_of (sm_asts st) lc = Some (done_node pl opl ls)"
    and "map_of (sm_asts st) rc = Some nd" "as_isoperator nd"
  shows "evaluate se go p nx st = Inr (False, Some rc, st)"
  using assms ready_operator [OF assms(4,5), of se p] ready_done [OF assms(3), of se p]
  by (simp add: evaluate_def binary_node_def del: rbind_eq_Inr)

definition combines :: "nat option \<Rightarrow> operatortype \<Rightarrow> nat \<Rightarrow> nat \<Rightarrow> nat \<Rightarrow> results \<Rightarrow> statement \<Rightarrow> statement \<Rightarrow>
    bool" where
  "combines pr op p lc rc rs st st' \<longleftrightarrow> idle st' \<and> kept st st' \<and>
     (\<forall>q. map_of (sm_asts st') q =
        (if q = p then Some (done_node pr op rs) else if q = lc \<or> q = rc then None
         else map_of (sm_asts st) q))"

text \<open>\<open>AND\<close> of two nodes that are resolved\<close>

lemma evaluate_and_ok:
  assumes "current_query st = Inr qy" "sm_transactionPtr st = Some tx"
    and "map_of (sm_asts st) p = Some (binary_node pr OPERATOR_AND lc rc)"
    and "map_of (sm_asts st) lc = Some (done_node pl opl ls)"
    and "map_of (sm_asts st) rc = Some (done_node pl' opr rs)" "distinct [p, lc, rc]"
    and "and_rows (tx_stagedRows tx) rs ls ([], []) = (res, ers)"
    and "unlock_rows (se_tx se) (qs_tableid qy) ers tx = Inr tx'"
  shows "\<exists>st'. evaluate se go p nx st = Inr (True, pr, st') \<and> sm_transactionPtr st' = Some tx' \<and>
     kept (st\<lparr>sm_transactionPtr := Some tx'\<rparr>) st' \<and>
     (\<forall>q. map_of (sm_asts st') q =
        (if q = p then Some (done_node pr OPERATOR_AND res) else if q = lc \<or> q = rc then None
         else map_of (sm_asts st) q))"
proof -
  let ?st1 = "set_node p (as_predicateResults_update (\<lambda>_. res)) st"
  let ?st2 = "no_operator p (?st1\<lparr>sm_transactionPtr := Some tx'\<rparr>)"
  let ?st' = "without_children p lc rc ?st2"
  have m2: "map_of (sm_asts ?st2) p =
      Some ((binary_node pr OPERATOR_AND lc rc)\<lparr>as_isoperator := False, as_predicateResults := res\<rparr>)"
    "\<And>q. q \<noteq> p \<Longrightarrow> map_of (sm_asts ?st2) q = map_of (sm_asts st) q"
    using assms(3) by (simp_all add: no_operator_def)
  have d: "drop_children p ?st2 = Inr ?st'"
    using drop_children_ok [OF m2(1), of lc rc "done_node pl opl ls" "done_node pl' opr rs"] assms(4-6) m2(2)
    by (simp add: binary_node_def done_node_def)
  have m': "map_of (sm_asts ?st') p = Some (done_node pr OPERATOR_AND res)"
    using m2(1) assms(6) by (simp add: binary_node_def done_node_def)
  have "evaluate se go p nx st = evaluate_and se p st"
    using assms(3) ready_done [OF assms(4), of se p] ready_done [OF assms(5), of se p]
    by (simp add: evaluate_def evaluate_operator_def binary_node_def unary_operators_def
        del: rbind_eq_Inr)
  also have "\<dots> = Inr (True, pr, ?st')"
    using assms d m'
    by (simp add: evaluate_and_def child_node_def stmt_tx_def with_tx_def binary_node_def done_node_def
        resolved_def del: rbind_eq_Inr rmap_eq_Inr)
  finally have "evaluate se go p nx st = Inr (True, pr, ?st')" .
  moreover have "kept (st\<lparr>sm_transactionPtr := Some tx'\<rparr>) ?st'" "sm_transactionPtr ?st' = Some tx'"
    by (simp_all add: kept_def no_operator_def)
  ultimately show ?thesis
    using m' m2(2) assms(6) by (intro exI [of _ ?st']) (simp del: map_of_set_node)
qed

lemma evaluate_conj:
  assumes "0 < ev_producers (se_tx se)" "idle st" "current_query st = Inr qy"
    and "map_of (sm_asts st) p = Some (binary_node pr OPERATOR_AND lc rc)"
    and "map_of (sm_asts st) lc = Some (done_node pl opl ls)"
    and "map_of (sm_asts st) rc = Some (done_node pl' opr rs)" "distinct [p, lc, rc]"
    and "um_ok ls" "um_ok rs"
  shows "\<exists>st' res. evaluate se go p nx st = Inr (True, pr, st') \<and> um_ok res \<and>
     map_of res = map_of ls |` dom (map_of rs) \<and> combines pr OPERATOR_AND p lc rc res st st'"
proof -
  obtain tx where tx: "sm_transactionPtr st = Some tx" using assms(2) by (auto simp: idle_def)
  obtain res ers where ar: "and_rows (tx_stagedRows tx) rs ls ([], []) = (res, ers)" by fastforce
  have r: "um_ok res" "map_of res = map_of ls |` dom (map_of rs)"
    using and_rows_map [OF assms(8), of "tx_stagedRows tx" rs "[]" "[]"]
      and_rows_ok [of "[]" "tx_stagedRows tx" rs ls "[]"] by (simp_all add: ar um_ok_def)
  obtain tx' where tx': "unlock_rows (se_tx se) (qs_tableid qy) ers tx = Inr tx'" "sends_only tx tx'"
    using unlock_rows_ok [OF assms(1)] by blast
  obtain st' where st': "evaluate se go p nx st = Inr (True, pr, st')" "sm_transactionPtr st' = Some tx'"
      "kept (st\<lparr>sm_transactionPtr := Some tx'\<rparr>) st'"
      "\<And>q. map_of (sm_asts st') q =
        (if q = p then Some (done_node pr OPERATOR_AND res) else if q = lc \<or> q = rc then None
         else map_of (sm_asts st) q)"
    using evaluate_and_ok [OF assms(3) tx assms(4-7) ar tx'(1)] by blast
  have "idle st'" "kept st st'"
    using assms(2) tx st'(2,3) sends_onlyD [OF tx'(2)] sends_only_schemaPtr [OF tx'(2)]
    by (auto simp: idle_def kept_def)
  then show ?thesis using r st'(1,4) by (intro exI [of _ st'] exI [of _ res]) (simp add: combines_def)
qed

lemma evaluate_disj:
  assumes "idle st" "map_of (sm_asts st) p = Some (binary_node pr OPERATOR_OR lc rc)"
    and "map_of (sm_asts st) lc = Some (done_node pl opl ls)"
    and "map_of (sm_asts st) rc = Some (done_node pl' opr rs)" "distinct [p, lc, rc]"
    and "um_ok ls" "um_ok rs"
  shows "\<exists>st' res. evaluate se go p nx st = Inr (True, pr, st') \<and> um_ok res \<and>
     map_of res = map_of rs ++ map_of ls \<and> combines pr OPERATOR_OR p lc rc res st st'"
proof -
  let ?res = "um_insert ls rs"
  let ?st2 = "no_operator p (set_node p (as_predicateResults_update (\<lambda>_. ?res)) st)"
  let ?st' = "without_children p lc rc ?st2"
  have m2: "map_of (sm_asts ?st2) p =
      Some ((binary_node pr OPERATOR_OR lc rc)\<lparr>as_isoperator := False, as_predicateResults := ?res\<rparr>)"
    "\<And>q. q \<noteq> p \<Longrightarrow> map_of (sm_asts ?st2) q = map_of (sm_asts st) q"
    using assms(2) by (simp_all add: no_operator_def)
  have d: "drop_children p ?st2 = Inr ?st'"
    using drop_children_ok [OF m2(1), of lc rc "done_node pl opl ls" "done_node pl' opr rs"] assms(3-5) m2(2)
    by (simp add: binary_node_def done_node_def)
  have m': "map_of (sm_asts ?st') p = Some (done_node pr OPERATOR_OR ?res)"
    using m2(1) assms(5) by (simp add: binary_node_def done_node_def)
  have "evaluate se go p nx st = evaluate_or p st"
    using assms(2) ready_done [OF assms(3), of se p] ready_done [OF assms(4), of se p]
    by (simp add: evaluate_def evaluate_operator_def binary_node_def unary_operators_def
        del: rbind_eq_Inr)
  also have "\<dots> = Inr (True, pr, ?st')"
    using assms(2-4) d m'
    by (simp add: evaluate_or_def child_node_def binary_node_def done_node_def
        resolved_def del: rbind_eq_Inr rmap_eq_Inr)
  finally have "evaluate se go p nx st = Inr (True, pr, ?st')" .
  moreover have "idle ?st'" "kept st ?st'"
    using assms(1) by (auto simp: idle_def no_operator_def)
  ultimately show ?thesis
    using m' m2(2) assms(5) um_ok_um_insert [OF assms(6,7)]
    by (intro exI [of _ ?st'] exI [of _ ?res]) (simp add: combines_def del: map_of_set_node)
qed

section \<open>The walk\<close>

text \<open>
  Walked from its root, with an answer to each predicate, a tree is left with one node, which holds
  the rows it stands for; the rest of the store and the statement are as before.
\<close>

definition walked :: "statementEnv \<Rightarrow> nat \<Rightarrow> (nat \<Rightarrow> results) \<Rightarrow> nat list \<Rightarrow> nat \<Rightarrow> nat \<Rightarrow> nat \<Rightarrow>
    (uuRecord \<rightharpoonup> returnRow) \<Rightarrow> nat option \<Rightarrow> statement \<Rightarrow> nat \<Rightarrow> statement res \<Rightarrow> bool" where
  "walked se F ans ns root leaves steps found pr st k r \<longleftrightarrow>
     (\<exists>f' st' rs op. drive F se ans (leaves + k) r = drive F se ans k (ascend (run f' se) pr st') \<and>
        F \<le> f' + steps \<and> idle st' \<and> kept st st' \<and> um_ok rs \<and> map_of rs = found \<and>
        map_of (sm_asts st') root = Some (done_node pr op rs) \<and>
        (\<forall>q. q \<noteq> root \<longrightarrow> map_of (sm_asts st') q =
           (if q \<in> set ns then None else map_of (sm_asts st) q)))"

definition walks :: "statementEnv \<Rightarrow> nat \<Rightarrow> (nat \<Rightarrow> results) \<Rightarrow> cond \<Rightarrow> bool" where
  "walks se F ans t \<longleftrightarrow>
     (\<forall>st pr f nx k. rep (sm_asts st) pr t \<and> distinct (cond_nodes t) \<and> idle st \<and> cond_askable se st t \<and>
        cond_steps t \<le> f \<and> cond_steps t \<le> F \<longrightarrow>
        walked se F ans (cond_nodes t) (cond_root t) (cond_leaves t) (cond_steps t) (den ans t) pr st k
          (run f se (RunSearch 1 (cond_root t) nx) st))"

lemma walks_pred:
  assumes "0 < ev_producers (se_tx se)" "um_ok (ans p)"
  shows "walks se F ans (Pred p op l r lc rc)"
  unfolding walks_def
proof (intro allI impI, elim conjE)
  fix st pr f nx k
  assume rep: "rep (sm_asts st) pr (Pred p op l r lc rc)"
    and d: "distinct (cond_nodes (Pred p op l r lc rc))" and i: "idle st"
    and a: "cond_askable se st (Pred p op l r lc rc)"
    and f: "cond_steps (Pred p op l r lc rc) \<le> f" and F: "cond_steps (Pred p op l r lc rc) \<le> F"
  obtain f1 F1 where fs: "f = Suc f1" "F = Suc F1" using f F by (cases f; cases F) auto
  obtain st1 res where e: "evaluate se (run f1 se) p nx st = Inr (False, None, st1)" "waiting p st1"
      "kept st st1" "\<And>q. map_of (sm_asts st1) q =
        (if q = p then Some (done_node pr op res) else if q = lc \<or> q = rc then None
         else map_of (sm_asts st) q)"
    using evaluate_predicate [OF assms(1) i _ rep, of "run f1 se" nx] a d by auto
  have m1: "map_of (sm_asts st1) p = Some (done_node pr op res)" using e(4) [of p] by simp
  obtain st2 where st2: "answer F se ans st1 = run F se (RunSearch 1 p None) st2" "idle st2" "kept st1 st2"
      "\<And>q. map_of (sm_asts st2) q =
        (if q = p then Some (done_node pr op (ans p)) else map_of (sm_asts st1) q)"
    using answer_waiting [OF e(2) m1, of F se ans] by (auto simp: done_node_def)
  have "run f se (RunSearch 1 p nx) st = Inr st1"
    using e(1) by (simp add: fs searchExpression_def)
  then have "drive F se ans (1 + k) (run f se (RunSearch 1 p nx) st) =
      drive F se ans k (run F se (RunSearch 1 p None) st2)"
    by (simp add: st2(1))
  also have "run F se (RunSearch 1 p None) st2 = ascend (run F1 se) pr st2"
    using st2(4) [of p] by (simp only: fs(2), intro run_resolved evaluate_done) simp
  finally show "walked se F ans (cond_nodes (Pred p op l r lc rc)) (cond_root (Pred p op l r lc rc))
      (cond_leaves (Pred p op l r lc rc)) (cond_steps (Pred p op l r lc rc))
      (den ans (Pred p op l r lc rc)) pr st k
      (run f se (RunSearch 1 (cond_root (Pred p op l r lc rc)) nx) st)"
    unfolding walked_def
    using st2(2) kept_trans [OF e(3) st2(3)] st2(4) e(4) assms(2) fs
    by (intro exI [of _ F1] exI [of _ st2] exI [of _ "ans p"] exI [of _ op]) auto
qed

lemma walked_binary:
  assumes a: "walks se F ans a" and b: "walks se F ans b"
    and node: "map_of (sm_asts st) p = Some (binary_node pr op (cond_root a) (cond_root b))"
    and reps: "rep (sm_asts st) (Some p) a" "rep (sm_asts st) (Some p) b"
    and op: "op \<notin> set unary_operators"
    and d: "distinct (p # cond_nodes a @ cond_nodes b)" and i: "idle st"
    and ask: "cond_askable se st a" "cond_askable se st b"
    and f: "cond_steps a + cond_steps b + 2 \<le> f" and F: "cond_steps a + cond_steps b + 2 \<le> F"
    and combine: "\<And>st' f ls rs opl opr nx. idle st' \<Longrightarrow> kept st st' \<Longrightarrow>
       map_of (sm_asts st') p = Some (binary_node pr op (cond_root a) (cond_root b)) \<Longrightarrow>
       map_of (sm_asts st') (cond_root a) = Some (done_node (Some p) opl ls) \<Longrightarrow>
       map_of (sm_asts st') (cond_root b) = Some (done_node (Some p) opr rs) \<Longrightarrow>
       um_ok ls \<Longrightarrow> um_ok rs \<Longrightarrow>
       \<exists>st2 res. evaluate se (run f se) p nx st' = Inr (True, pr, st2) \<and> um_ok res \<and>
         map_of res = C (map_of ls) (map_of rs) \<and>
         combines pr op p (cond_root a) (cond_root b) res st' st2"
  shows "walked se F ans (p # cond_nodes a @ cond_nodes b) p (cond_leaves a + cond_leaves b)
     (cond_steps a + cond_steps b + 2) (C (den ans a) (den ans b)) pr st k
     (run f se (RunSearch 1 p nx) st)"
proof -
  obtain f1 where f1: "f = Suc f1" "cond_steps a \<le> f1" using f by (cases f) auto
  obtain na where na: "map_of (sm_asts st) (cond_root a) = Some na" "as_isoperator na"
    using rep_root [OF reps(1)] by blast
  have ns: "p \<notin> set (cond_nodes a)" "p \<notin> set (cond_nodes b)" "distinct (cond_nodes a)"
    "distinct (cond_nodes b)" "set (cond_nodes a) \<inter> set (cond_nodes b) = {}"
    using d by auto
  have ne: "cond_root a \<noteq> p" "cond_root b \<noteq> p" "cond_root a \<noteq> cond_root b"
    "cond_root b \<notin> set (cond_nodes a)" "cond_root a \<notin> set (cond_nodes b)"
    using cond_roots_apart [OF d] by auto
  have r0: "run f se (RunSearch 1 p nx) st = run f1 se (RunSearch 1 (cond_root a) (Some (cond_root a))) st"
    unfolding f1(1) by (rule run_child [OF evaluate_left [OF node op na]])
  have "walked se F ans (cond_nodes a) (cond_root a) (cond_leaves a) (cond_steps a) (den ans a) (Some p) st
      (cond_leaves b + k) (run f1 se (RunSearch 1 (cond_root a) (Some (cond_root a))) st)"
    using a reps(1) ns(3) i ask(1) f1(2) F unfolding walks_def by simp
  then obtain fa sta ls opl where A:
      "drive F se ans (cond_leaves a + (cond_leaves b + k))
         (run f1 se (RunSearch 1 (cond_root a) (Some (cond_root a))) st) =
       drive F se ans (cond_leaves b + k) (ascend (run fa se) (Some p) sta)"
      "F \<le> fa + cond_steps a" "idle sta" "kept st sta" "um_ok ls" "map_of ls = den ans a"
      "map_of (sm_asts sta) (cond_root a) = Some (done_node (Some p) opl ls)"
      "\<And>q. q \<noteq> cond_root a \<Longrightarrow> map_of (sm_asts sta) q =
         (if q \<in> set (cond_nodes a) then None else map_of (sm_asts st) q)"
    unfolding walked_def by blast
  obtain fa1 where fa1: "fa = Suc fa1" "cond_steps b \<le> fa1" using A(2) F by (cases fa) auto
  have pa: "map_of (sm_asts sta) p = Some (binary_node pr op (cond_root a) (cond_root b))"
    using A(8) [of p] ne ns node by simp
  have rb: "rep (sm_asts sta) (Some p) b"
  proof (rule rep_cong [OF reps(2)])
    fix q assume "q \<in> set (cond_nodes b)"
    then have "q \<noteq> cond_root a" "q \<notin> set (cond_nodes a)" using ne ns(5) by auto
    then show "map_of (sm_asts sta) q = map_of (sm_asts st) q" using A(8) [of q] by simp
  qed
  obtain nb where nb: "map_of (sm_asts sta) (cond_root b) = Some nb" "as_isoperator nb"
    using rep_root [OF rb] by blast
  have r1: "ascend (run fa se) (Some p) sta =
      run fa1 se (RunSearch 1 (cond_root b) (Some (cond_root b))) sta"
    by (simp only: ascend_def option.case fa1(1)) (rule run_child [OF evaluate_right [OF pa op A(7) nb]])
  have "walked se F ans (cond_nodes b) (cond_root b) (cond_leaves b) (cond_steps b) (den ans b) (Some p) sta
      k (run fa1 se (RunSearch 1 (cond_root b) (Some (cond_root b))) sta)"
    using b rb ns(4) A(3) cond_askable_kept [OF A(4) ask(2)] fa1(2) F unfolding walks_def by simp
  then obtain fb stb rs opr where B:
      "drive F se ans (cond_leaves b + k)
         (run fa1 se (RunSearch 1 (cond_root b) (Some (cond_root b))) sta) =
       drive F se ans k (ascend (run fb se) (Some p) stb)"
      "F \<le> fb + cond_steps b" "idle stb" "kept sta stb" "um_ok rs" "map_of rs = den ans b"
      "map_of (sm_asts stb) (cond_root b) = Some (done_node (Some p) opr rs)"
      "\<And>q. q \<noteq> cond_root b \<Longrightarrow> map_of (sm_asts stb) q =
         (if q \<in> set (cond_nodes b) then None else map_of (sm_asts sta) q)"
    unfolding walked_def by blast
  obtain fb1 where fb1: "fb = Suc fb1" using B(2) F by (cases fb) auto
  have pb: "map_of (sm_asts stb) p = Some (binary_node pr op (cond_root a) (cond_root b))"
    using B(8) [of p] ne ns pa by simp
  have la: "map_of (sm_asts stb) (cond_root a) = Some (done_node (Some p) opl ls)"
    using B(8) [of "cond_root a"] ne A(7) by simp
  obtain st2 res where C: "evaluate se (run fb1 se) p (Some p) stb = Inr (True, pr, st2)" "um_ok res"
      "map_of res = C (map_of ls) (map_of rs)"
      "combines pr op p (cond_root a) (cond_root b) res stb st2"
    using combine [OF B(3) kept_trans [OF A(4) B(4)] pb la B(7) A(5) B(5)] by blast
  have r2: "ascend (run fb se) (Some p) stb = ascend (run fb1 se) pr st2"
    using run_resolved [OF C(1)] by (simp add: ascend_def fb1)
  have "drive F se ans (cond_leaves a + cond_leaves b + k) (run f se (RunSearch 1 p nx) st) =
      drive F se ans k (ascend (run fb1 se) pr st2)"
    using A(1) B(1) by (simp add: r0 r1 r2 add.assoc)
  moreover have "idle st2" "kept st st2"
    using C(4) kept_trans [OF kept_trans [OF A(4) B(4)]] by (auto simp: combines_def)
  moreover have "map_of (sm_asts st2) q =
      (if q \<in> set (p # cond_nodes a @ cond_nodes b) then None else map_of (sm_asts st) q)" if "q \<noteq> p" for q
    using C(4) B(8) [of q] A(8) [of q] that cond_root_in [of a] cond_root_in [of b]
    by (auto simp: combines_def)
  moreover have "map_of (sm_asts st2) p = Some (done_node pr op res)"
    using C(4) by (simp add: combines_def)
  ultimately show ?thesis
    unfolding walked_def using C(2,3) A(6) B(2,6) fb1
    by (intro exI [of _ fb1] exI [of _ st2] exI [of _ res] exI [of _ op]) auto
qed

lemma cond_askable_query: "cond_askable se st t \<Longrightarrow> \<exists>q. current_query st = Inr q"
  by (induction t) (auto simp: askable_def)

lemma walks_conj:
  assumes "0 < ev_producers (se_tx se)" "walks se F ans a" "walks se F ans b"
  shows "walks se F ans (Conj p a b)"
  unfolding walks_def
proof (intro allI impI, elim conjE)
  fix st pr f nx k
  assume h: "rep (sm_asts st) pr (Conj p a b)" "distinct (cond_nodes (Conj p a b))" "idle st"
    "cond_askable se st (Conj p a b)" "cond_steps (Conj p a b) \<le> f" "cond_steps (Conj p a b) \<le> F"
  obtain qy where qy: "current_query st = Inr qy" using cond_askable_query [OF h(4)] by blast
  have op: "OPERATOR_AND \<notin> set unary_operators" by (simp add: unary_operators_def)
  have d: "distinct [p, cond_root a, cond_root b]"
    using cond_roots_apart [of p a b] h(2) by simp
  have "walked se F ans (p # cond_nodes a @ cond_nodes b) p (cond_leaves a + cond_leaves b)
     (cond_steps a + cond_steps b + 2) ((\<lambda>x y. x |` dom y) (den ans a) (den ans b)) pr st k
     (run f se (RunSearch 1 p nx) st)"
  proof (rule walked_binary [OF assms(2,3)])
    show "map_of (sm_asts st) p = Some (binary_node pr OPERATOR_AND (cond_root a) (cond_root b))"
      "rep (sm_asts st) (Some p) a" "rep (sm_asts st) (Some p) b" using h(1) by simp_all
    show "distinct (p # cond_nodes a @ cond_nodes b)" "cond_steps a + cond_steps b + 2 \<le> f"
      "cond_steps a + cond_steps b + 2 \<le> F" using h(2,5,6) by simp_all
    show "cond_askable se st a" "cond_askable se st b" using h(4) by simp_all
  next
    fix st' f ls rs opl opr nx
    assume "idle st'" "kept st st'"
      "map_of (sm_asts st') p = Some (binary_node pr OPERATOR_AND (cond_root a) (cond_root b))"
      "map_of (sm_asts st') (cond_root a) = Some (done_node (Some p) opl ls)"
      "map_of (sm_asts st') (cond_root b) = Some (done_node (Some p) opr rs)" "um_ok ls" "um_ok rs"
    then show "\<exists>st2 res. evaluate se (run f se) p nx st' = Inr (True, pr, st2) \<and> um_ok res \<and>
        map_of res = map_of ls |` dom (map_of rs) \<and>
        combines pr OPERATOR_AND p (cond_root a) (cond_root b) res st' st2"
      using kept_current [of st st'] qy d
      by (intro evaluate_conj [OF assms(1), of st' qy p pr "cond_root a" "cond_root b"]) auto
  qed (rule op h(3))+
  then show "walked se F ans (cond_nodes (Conj p a b)) (cond_root (Conj p a b)) (cond_leaves (Conj p a b))
      (cond_steps (Conj p a b)) (den ans (Conj p a b)) pr st k
      (run f se (RunSearch 1 (cond_root (Conj p a b)) nx) st)"
    by simp
qed

lemma walks_disj:
  assumes "walks se F ans a" "walks se F ans b"
  shows "walks se F ans (Disj p a b)"
  unfolding walks_def
proof (intro allI impI, elim conjE)
  fix st pr f nx k
  assume h: "rep (sm_asts st) pr (Disj p a b)" "distinct (cond_nodes (Disj p a b))" "idle st"
    "cond_askable se st (Disj p a b)" "cond_steps (Disj p a b) \<le> f" "cond_steps (Disj p a b) \<le> F"
  have op: "OPERATOR_OR \<notin> set unary_operators" by (simp add: unary_operators_def)
  have d: "distinct [p, cond_root a, cond_root b]"
    using cond_roots_apart [of p a b] h(2) by simp
  have "walked se F ans (p # cond_nodes a @ cond_nodes b) p (cond_leaves a + cond_leaves b)
     (cond_steps a + cond_steps b + 2) ((\<lambda>x y. y ++ x) (den ans a) (den ans b)) pr st k
     (run f se (RunSearch 1 p nx) st)"
  proof (rule walked_binary [OF assms])
    show "map_of (sm_asts st) p = Some (binary_node pr OPERATOR_OR (cond_root a) (cond_root b))"
      "rep (sm_asts st) (Some p) a" "rep (sm_asts st) (Some p) b" using h(1) by simp_all
    show "distinct (p # cond_nodes a @ cond_nodes b)" "cond_steps a + cond_steps b + 2 \<le> f"
      "cond_steps a + cond_steps b + 2 \<le> F" using h(2,5,6) by simp_all
    show "cond_askable se st a" "cond_askable se st b" using h(4) by simp_all
  next
    fix st' f ls rs opl opr nx
    assume "idle st'" "kept st st'"
      "map_of (sm_asts st') p = Some (binary_node pr OPERATOR_OR (cond_root a) (cond_root b))"
      "map_of (sm_asts st') (cond_root a) = Some (done_node (Some p) opl ls)"
      "map_of (sm_asts st') (cond_root b) = Some (done_node (Some p) opr rs)" "um_ok ls" "um_ok rs"
    then show "\<exists>st2 res. evaluate se (run f se) p nx st' = Inr (True, pr, st2) \<and> um_ok res \<and>
        map_of res = map_of rs ++ map_of ls \<and>
        combines pr OPERATOR_OR p (cond_root a) (cond_root b) res st' st2"
      using d by (intro evaluate_disj) auto
  qed (rule op h(3))+
  then show "walked se F ans (cond_nodes (Disj p a b)) (cond_root (Disj p a b)) (cond_leaves (Disj p a b))
      (cond_steps (Disj p a b)) (den ans (Disj p a b)) pr st k
      (run f se (RunSearch 1 (cond_root (Disj p a b)) nx) st)"
    by simp
qed

lemma walks_all:
  assumes "0 < ev_producers (se_tx se)" "\<And>p. um_ok (ans p)"
  shows "walks se F ans t"
proof (induction t)
  case (Pred p op l r lc rc)
  show ?case using walks_pred [OF assms] .
next
  case (Conj p a b)
  then show ?case by (rule walks_conj [OF assms(1)])
next
  case (Disj p a b)
  then show ?case by (rule walks_disj)
qed

end
