(* ===== verification/Statement_Assign.thy ===== *)
theory Statement_Assign
  imports Statement_Walk
begin

unbundle bit_operations_syntax

text \<open>
  The expressions of assignments against their values: trees of integers, fields and the four
  operators. \<open>expr_rep\<close> says how one lies in the store of nodes, \<open>expr_value\<close> what it stands for in
  a row. The evaluation turns the root into the operand with the value and frees the other nodes.
\<close>

section \<open>Integer operands\<close>

lemma length_word_bytes [simp]: "length (word_bytes w) = 8"
  by (simp add: word_bytes_def)

lemma copy_word_bytes [simp]:
  "copy_word (Suc 0) (c # word_bytes w @ s) = Inr w" "copy_word (Suc 0) (c # word_bytes w) = Inr w"
  using word_le_val(1) [of w] by (simp_all add: copy_word_def read_at_def word_bytes_def)

lemma integer_operand_eq [simp]: "length s \<le> 9 \<Longrightarrow> integer_operand w s = OPERAND_INTEGER # word_bytes w"
  by (cases s) (auto simp: integer_operand_def resize_def set_tag_def overwrite_def numeral_eq_Suc)

section \<open>Expressions\<close>

definition int_bytes :: "u64 \<Rightarrow> bytes" where
  "int_bytes w = OPERAND_INTEGER # word_bytes w"

definition field_bytes :: "u64 \<Rightarrow> bytes" where
  "field_bytes w = OPERAND_FIELDID # word_bytes w"

datatype expr = IntLeaf nat u64 | FieldLeaf nat u64 | Arith nat operatortype expr expr

fun expr_root :: "expr \<Rightarrow> nat" where
  "expr_root (IntLeaf p w) = p"
| "expr_root (FieldLeaf p w) = p"
| "expr_root (Arith p op a b) = p"

fun expr_nodes :: "expr \<Rightarrow> nat list" where
  "expr_nodes (IntLeaf p w) = [p]"
| "expr_nodes (FieldLeaf p w) = [p]"
| "expr_nodes (Arith p op a b) = p # expr_nodes a @ expr_nodes b"

fun expr_depth :: "expr \<Rightarrow> nat" where
  "expr_depth (IntLeaf p w) = 0"
| "expr_depth (FieldLeaf p w) = 0"
| "expr_depth (Arith p op a b) = Suc (max (expr_depth a) (expr_depth b))"

definition arith_ops :: "operatortype list" where
  "arith_ops = [OPERATOR_ADDITION, OPERATOR_SUBTRACTION, OPERATOR_MULTIPLICATION, OPERATOR_DIVISION]"

fun expr_rep :: "asts \<Rightarrow> expr \<Rightarrow> bool" where
  "expr_rep s (IntLeaf p w) \<longleftrightarrow> operand_node (int_bytes w) (map_of s p)"
| "expr_rep s (FieldLeaf p w) \<longleftrightarrow> operand_node (field_bytes w) (map_of s p)"
| "expr_rep s (Arith p op a b) \<longleftrightarrow>
     op \<in> set arith_ops \<and>
     (\<exists>nd. map_of s p = Some nd \<and> as_isoperator nd \<and> as_operatortype nd = op \<and> as_operand nd = [] \<and>
        as_leftchild nd = Some (expr_root a) \<and> as_rightchild nd = Some (expr_root b)) \<and>
     expr_rep s a \<and> expr_rep s b"

text \<open>The value of an integer or boolean field\<close>

definition field_word :: "fieldtype \<Rightarrow> fieldValue \<Rightarrow> u64 option" where
  "field_word t v =
     (case t of
        F_INT \<Rightarrow> Some (the_i64 (integer v))
      | F_UINT \<Rightarrow> Some (uinteger v)
      | F_BOOL \<Rightarrow> Some (if boolean v then 1 else 0)
      | _ \<Rightarrow> None)"

fun expr_value :: "table \<Rightarrow> fieldValue list \<Rightarrow> expr \<Rightarrow> u64 option" where
  "expr_value t vs (IntLeaf p w) = Some w"
| "expr_value t vs (FieldLeaf p w) =
     (case (field_at (sint w) t, vec_at (sint w) vs) of
        (Inr fd, Inr v) \<Rightarrow> field_word (fd_type fd) v
      | _ \<Rightarrow> None)"
| "expr_value t vs (Arith p op a b) =
     (case (expr_value t vs a, expr_value t vs b) of
        (Some x, Some y) \<Rightarrow> (case int_arith op x y of Inl _ \<Rightarrow> None | Inr v \<Rightarrow> Some v)
      | _ \<Rightarrow> None)"

lemma expr_root_in: "expr_root e \<in> set (expr_nodes e)"
  by (cases e) auto

lemma expr_rep_cong:
  "expr_rep s e \<Longrightarrow> (\<And>q. q \<in> set (expr_nodes e) \<Longrightarrow> map_of s' q = map_of s q) \<Longrightarrow> expr_rep s' e"
  by (induction e) auto

text \<open>The operand of the root is the value, the other nodes are freed.\<close>

definition expr_done :: "asts \<Rightarrow> expr \<Rightarrow> u64 \<Rightarrow> asts \<Rightarrow> bool" where
  "expr_done s e v s' \<longleftrightarrow>
     operand_node (int_bytes v) (map_of s' (expr_root e)) \<and>
     (\<forall>q. q \<noteq> expr_root e \<longrightarrow> map_of s' q = (if q \<in> set (expr_nodes e) then None else map_of s q))"

section \<open>Evaluation\<close>

lemma byte_at_Cons [simp]: "byte_at 0 (c # s) = Inr c"
  by (simp add: byte_at_def)

lemma assign_int:
  assumes "operand_node (int_bytes w) (map_of (sm_asts st) p)"
  shows "evaluateAssignment se vs (Suc f) p st = Inr st"
  using assms by (auto simp: operand_node_def int_bytes_def normalizeSetAssignmentOperand_def
      resolve_parameter_def operand_defs simp del: rbind_eq_Inr rmap_eq_Inr)

lemma field_operand_word:
  "field_word t v = Some w \<Longrightarrow> length s \<le> 9 \<Longrightarrow> field_operand t v s = int_bytes w"
  by (cases t) (auto simp: field_word_def field_operand_def int_bytes_def)

lemma assign_field_leaf:
  assumes "operand_node (field_bytes w) (map_of (sm_asts st) p)"
    and "current_query st = Inr q" "stmt_table se (qs_tableid q) st = Inr t"
    and "expr_value t vs (FieldLeaf p w) = Some v"
  shows "\<exists>f'. evaluateAssignment se vs (Suc f) p st = Inr (set_node p f' st) \<and>
     operand_node (int_bytes v) (map_of (sm_asts (set_node p f' st)) p)"
proof -
  obtain nd where nd: "map_of (sm_asts st) p = Some nd" "\<not> as_isoperator nd" "as_operand nd = field_bytes w"
    using assms(1) by (auto simp: operand_node_def)
  obtain fd x where x: "field_at (sint w) t = Inr fd" "vec_at (sint w) vs = Inr x"
      "field_word (fd_type fd) x = Some v"
    using assms(4) by (auto split: sum.splits prod.splits)
  then have ft: "fd_type fd \<noteq> NOFIELDTYPE" by (auto simp: field_word_def)
  let ?f = "as_operand_update (field_operand (fd_type fd) x)"
  have "evaluateAssignment se vs (Suc f) p st = Inr (set_node p ?f st)"
    using nd assms(2,3) x(1,2) ft
    by (simp add: normalizeSetAssignmentOperand_def field_bytes_def operand_word_def
        del: rbind_eq_Inr rmap_eq_Inr)
  moreover have "operand_node (int_bytes v) (map_of (sm_asts (set_node p ?f st)) p)"
    using nd field_operand_word [OF x(3), of "field_bytes w"]
    by (simp add: operand_node_def field_bytes_def)
  ultimately show ?thesis by blast
qed

lemma arith_int:
  assumes "int_arith op x y = Inr v" "length s \<le> 9"
  shows "arith op (int_bytes x) (int_bytes y) s = Inr (int_bytes x, int_bytes y, Some (int_bytes v))"
  using assms by (simp add: arith_def widen_def arith_widened_def int_bytes_def operand_defs
      del: rbind_eq_Inr rmap_eq_Inr)

text \<open>The operator, once its children are integers\<close>

lemma assign_arith:
  assumes "map_of (sm_asts st) p = Some nd" "as_isoperator nd" "as_operatortype nd = op"
    and "as_operand nd = []" "as_leftchild nd = Some lc" "as_rightchild nd = Some rc"
    and "operand_node (int_bytes x) (map_of (sm_asts st) lc)"
    and "operand_node (int_bytes y) (map_of (sm_asts st) rc)"
    and "distinct [p, lc, rc]" "op \<in> set arith_ops" "int_arith op x y = Inr v"
  shows "\<exists>s'. assign_operator p st = Inr (st\<lparr>sm_asts := s'\<rparr>) \<and> operand_node (int_bytes v) (map_of s' p) \<and>
     (\<forall>q. q \<noteq> p \<longrightarrow> map_of s' q = (if q = lc \<or> q = rc then None else map_of (sm_asts st) q))"
proof -
  obtain ln rn where n: "map_of (sm_asts st) lc = Some ln" "\<not> as_isoperator ln" "as_operand ln = int_bytes x"
      "map_of (sm_asts st) rc = Some rn" "\<not> as_isoperator rn" "as_operand rn = int_bytes y"
    using assms(7,8) by (auto simp: operand_node_def)
  let ?st1 = "set_node rc (as_operand_update (\<lambda>_. int_bytes y))
                (set_node lc (as_operand_update (\<lambda>_. int_bytes x)) st)"
  let ?st2 = "become p (int_bytes v) ?st1"
  let ?st3 = "without_children p lc rc ?st2"
  have m: "map_of (sm_asts ?st2) p = Some (nd\<lparr>as_operand := int_bytes v, as_isoperator := False\<rparr>)"
    "map_of (sm_asts ?st2) lc = Some (ln\<lparr>as_operand := int_bytes x\<rparr>)"
    "map_of (sm_asts ?st2) rc = Some (rn\<lparr>as_operand := int_bytes y\<rparr>)"
    "\<And>q. q \<notin> {p, lc, rc} \<Longrightarrow> map_of (sm_asts ?st2) q = map_of (sm_asts st) q"
    using assms(1,9) n by (simp_all add: become_def no_operator_def)
  have d: "drop_children p ?st2 = Inr ?st3"
    using assms(5,6,9) n by (intro drop_children_ok [OF m(1) _ _ m(2) _ m(3)]) simp_all
  have m3: "map_of (sm_asts ?st3) p =
      Some (nd\<lparr>as_operand := int_bytes v, as_isoperator := False, as_leftchild := None,
              as_rightchild := None\<rparr>)"
    using m(1) assms(9) by simp
  have "evaluate_arith p None st = Inr (True, as_parent nd, ?st3)"
    using assms(1-6) n d m3 arith_int [OF assms(11), of "[]"]
    by (simp add: evaluate_arith_def resolved_def Let_def del: rbind_eq_Inr rmap_eq_Inr)
  then have "assign_operator p st = Inr ?st3"
    using assms(1,3,10) by (auto simp: assign_operator_def arith_ops_def Let_def
        simp del: rbind_eq_Inr rmap_eq_Inr)
  moreover have "?st3 = st\<lparr>sm_asts := sm_asts ?st3\<rparr>"
    by (simp add: without_children_def become_def no_operator_def set_node_def)
  moreover have "operand_node (int_bytes v) (map_of (sm_asts ?st3) p)"
    by (simp only: m3) (simp add: operand_node_def)
  moreover have "map_of (sm_asts ?st3) q = (if q = lc \<or> q = rc then None else map_of (sm_asts st) q)"
    if "q \<noteq> p" for q
    using that m(4) [of q] assms(9) by simp
  ultimately show ?thesis by (intro exI [of _ "sm_asts ?st3"]) auto
qed

lemma evaluate_expr:
  assumes "expr_rep (sm_asts st) e" "distinct (expr_nodes e)" "expr_depth e < f"
    and "current_query st = Inr q" "stmt_table se (qs_tableid q) st = Inr t"
    and "expr_value t vs e = Some v"
  shows "\<exists>s'. evaluateAssignment se vs f (expr_root e) st = Inr (st\<lparr>sm_asts := s'\<rparr>) \<and>
     expr_done (sm_asts st) e v s'"
  using assms
proof (induction e arbitrary: st f v)
  case (IntLeaf p w)
  then obtain f1 where "f = Suc f1" by (cases f) auto
  then show ?case
    using IntLeaf.prems assign_int [of w st p se vs f1]
    by (intro exI [of _ "sm_asts st"]) (simp add: expr_done_def)
next
  case (FieldLeaf p w)
  then obtain f1 where f1: "f = Suc f1" by (cases f) auto
  from FieldLeaf.prems obtain g where
    "evaluateAssignment se vs (Suc f1) p st = Inr (set_node p g st)"
    "operand_node (int_bytes v) (map_of (sm_asts (set_node p g st)) p)"
    using assign_field_leaf [of w st p q se t vs v f1] by auto
  moreover have "set_node p g st = st\<lparr>sm_asts := sm_asts (set_node p g st)\<rparr>"
    by (simp add: set_node_def)
  ultimately show ?case
    unfolding f1 expr_root.simps expr_done_def by (intro exI [of _ "sm_asts (set_node p g st)"]) simp
next
  case (Arith p op a b)
  obtain f1 where f1: "f = Suc f1" "expr_depth a < f1" "expr_depth b < f1"
    using Arith.prems(3) by (cases f) auto
  from Arith.prems(1) obtain nd where nd: "op \<in> set arith_ops" "map_of (sm_asts st) p = Some nd"
      "as_isoperator nd" "as_operatortype nd = op" "as_operand nd = []"
      "as_leftchild nd = Some (expr_root a)" "as_rightchild nd = Some (expr_root b)"
      "expr_rep (sm_asts st) a" "expr_rep (sm_asts st) b"
    by auto
  from Arith.prems(6) obtain x y where xy: "expr_value t vs a = Some x" "expr_value t vs b = Some y"
      "int_arith op x y = Inr v"
    by (auto split: option.splits sum.splits)
  have ns: "distinct (expr_nodes a)" "distinct (expr_nodes b)" "p \<notin> set (expr_nodes a)"
    "p \<notin> set (expr_nodes b)" "set (expr_nodes a) \<inter> set (expr_nodes b) = {}"
    using Arith.prems(2) by auto
  obtain sa where sa: "evaluateAssignment se vs f1 (expr_root a) st = Inr (st\<lparr>sm_asts := sa\<rparr>)"
      "expr_done (sm_asts st) a x sa"
    using Arith.IH(1) [OF nd(8) ns(1) f1(2) Arith.prems(4,5) xy(1)] by blast
  let ?sta = "st\<lparr>sm_asts := sa\<rparr>"
  have ra: "expr_rep (sm_asts ?sta) b"
  proof (rule expr_rep_cong [OF nd(9)])
    fix q assume "q \<in> set (expr_nodes b)"
    then have "q \<noteq> expr_root a" "q \<notin> set (expr_nodes a)" using ns(5) expr_root_in [of a] by auto
    then show "map_of (sm_asts ?sta) q = map_of (sm_asts st) q" using sa(2) by (simp add: expr_done_def)
  qed
  obtain sb where sb: "evaluateAssignment se vs f1 (expr_root b) ?sta = Inr (st\<lparr>sm_asts := sb\<rparr>)"
      "expr_done sa b y sb"
    using Arith.IH(2) [OF ra ns(2) f1(3) _ _ xy(2)] Arith.prems(4,5)
    by (auto simp: current_query_def stmt_table_def)
  let ?stb = "st\<lparr>sm_asts := sb\<rparr>"
  have r: "expr_root a \<in> set (expr_nodes a)" "expr_root b \<in> set (expr_nodes b)" by (simp_all add: expr_root_in)
  have d: "distinct [p, expr_root a, expr_root b]" "expr_root a \<notin> set (expr_nodes b)" using r ns by auto
  have mb: "map_of sb p = Some nd" "operand_node (int_bytes x) (map_of sb (expr_root a))"
    "operand_node (int_bytes y) (map_of sb (expr_root b))"
    using sa(2) sb(2) nd(2) d ns(3,4) by (simp_all add: expr_done_def)
  obtain s' where s': "assign_operator p ?stb = Inr (st\<lparr>sm_asts := s'\<rparr>)"
      "operand_node (int_bytes v) (map_of s' p)"
      "\<And>q. q \<noteq> p \<Longrightarrow> map_of s' q = (if q = expr_root a \<or> q = expr_root b then None else map_of sb q)"
    using assign_arith [of ?stb p nd op "expr_root a" "expr_root b" x y v] mb nd d xy(3) by auto
  have "op \<noteq> OPERATOR_NEGATION" using nd(1) by (auto simp: arith_ops_def)
  then have "evaluateAssignment se vs f p st = Inr (st\<lparr>sm_asts := s'\<rparr>)"
    using nd sa(1) sb(1) s'(1) by (simp add: f1(1) del: rbind_eq_Inr rmap_eq_Inr)
  moreover have "expr_done (sm_asts st) (Arith p op a b) v s'"
    using s'(2,3) sa(2) sb(2) r by (auto simp: expr_done_def)
  ultimately show ?case by auto
qed

text \<open>The nodes are in the store, so its size bounds the depth.\<close>

lemma expr_nodes_store: "expr_rep s e \<Longrightarrow> set (expr_nodes e) \<subseteq> fst ` set s"
  by (induction e) (auto simp: operand_node_def dest: map_of_SomeD intro: rev_image_eqI)

lemma expr_depth_nodes: "expr_depth e < length (expr_nodes e)"
  by (induction e) auto

lemma expr_depth_store:
  assumes "expr_rep s e" "distinct (expr_nodes e)"
  shows "expr_depth e < Suc (length s)"
proof -
  have "length (expr_nodes e) = card (set (expr_nodes e))" using assms(2) by (simp add: distinct_card)
  also have "\<dots> \<le> card (fst ` set s)" by (rule card_mono [OF _ expr_nodes_store [OF assms(1)]]) simp
  also have "\<dots> \<le> length s" by (metis card_length length_map set_map)
  finally show ?thesis using expr_depth_nodes [of e] by simp
qed

text \<open>A member that was put is read back.\<close>

lemma integer_put_integer [simp]: "integer (put_integer x v) = x"
proof -
  have "(ucast ((a AND NOT (mask 64)) OR (ucast w AND mask 64) :: u128) :: u64) = w" for a and w :: u64
    by (rule bit_word_eqI) (auto simp: bit_simps)
  then show ?thesis by (simp add: put_integer_def put_low_def with_bits_def)
qed

text \<open>The assignment of an integer to an integer field\<close>

lemma assign_field_int:
  assumes "evaluateAssignment se vs (Suc (length (sm_asts st))) a st = Inr st1"
    and "operand_node (int_bytes v) (map_of (sm_asts st1) a)" "sm_transactionPtr st1 = Some tx"
    and "field_at fieldid t = Inr fd" "fd_type fd = F_INT"
  shows "assign_field se t vs (fieldid, a) (True, st) = Inr (True, st1\<lparr>sm_transactionPtr :=
     Some (tx\<lparr>tx_query := (tx_query tx)\<lparr>qy_setFields :=
       um_put fieldid (put_integer (I64 v) fieldValue0) (qy_setFields (tx_query tx))\<rparr>\<rparr>)\<rparr>)"
  using assms by (auto simp: assign_field_def operand_node_def assign_value_def int_bytes_def
      with_tx_def stmt_tx_def operand_defs simp del: rbind_eq_Inr rmap_eq_Inr evaluateAssignment.simps)

end
