(* ===== verification/Statement_Copy.thy ===== *)
theory Statement_Copy
  imports Statement_State
begin

text \<open>
  The deep copy of a syntax tree (\<open>cp\<close>, \<open>infinisqld/Asts.cc\<close>): it ends for a tree whose children
  go down, of any shape, and the copy has the nodes of the tree in new memory, except that a node
  still points to the parent of its original.
\<close>

section \<open>Trees of a bounded depth\<close>

text \<open>The depth bounds the paths from \<open>p\<close> over the children.\<close>

fun tree_at :: "nat \<Rightarrow> asts \<Rightarrow> nat \<Rightarrow> bool" where
  "tree_at 0 s p = False"
| "tree_at (Suc d) s p =
     (case map_of s p of
        None \<Rightarrow> False
      | Some nd \<Rightarrow>
          (case as_leftchild nd of None \<Rightarrow> True | Some l \<Rightarrow> tree_at d s l) \<and>
          (case as_rightchild nd of None \<Rightarrow> True | Some r \<Rightarrow> tree_at d s r))"

text \<open>The node \<open>q\<close> of \<open>s'\<close>, new memory, is a copy of the tree at \<open>p\<close> with the parents of the original.\<close>

fun copy_of :: "nat \<Rightarrow> asts \<Rightarrow> nat \<Rightarrow> asts \<Rightarrow> nat \<Rightarrow> bool" where
  "copy_of 0 s p s' q = False"
| "copy_of (Suc d) s p s' q =
     (map_of s q = None \<and>
      (case (map_of s p, map_of s' q) of
         (Some nd, Some nd') \<Rightarrow>
           nd' = nd\<lparr>as_leftchild := as_leftchild nd', as_rightchild := as_rightchild nd'\<rparr> \<and>
           (case (as_leftchild nd, as_leftchild nd') of
              (None, None) \<Rightarrow> True | (Some l, Some l') \<Rightarrow> copy_of d s l s' l' | _ \<Rightarrow> False) \<and>
           (case (as_rightchild nd, as_rightchild nd') of
              (None, None) \<Rightarrow> True | (Some r, Some r') \<Rightarrow> copy_of d s r s' r' | _ \<Rightarrow> False)
       | _ \<Rightarrow> False))"

text \<open>All that is allocated is below \<open>n\<close>.\<close>

definition below :: "asts \<Rightarrow> nat \<Rightarrow> bool" where
  "below s n \<longleftrightarrow> (\<forall>q \<in> fst ` set s. q < n)"

lemma below_None: "below s n \<Longrightarrow> n \<le> q \<Longrightarrow> map_of s q = None"
  by (auto simp: below_def map_of_eq_None_iff)

lemma map_le_Some: "m \<subseteq>\<^sub>m m' \<Longrightarrow> m k = Some v \<Longrightarrow> m' k = Some v"
  by (auto simp: map_le_def dom_def)

lemma map_le_NoneD: "m \<subseteq>\<^sub>m m' \<Longrightarrow> m' k = None \<Longrightarrow> m k = None"
  using map_le_Some [of m m' k] by (cases "m k") auto

lemma tree_at_mono: "tree_at d s p \<Longrightarrow> map_of s \<subseteq>\<^sub>m map_of s' \<Longrightarrow> tree_at d s' p"
proof (induction d arbitrary: p)
  case (Suc d)
  from Suc.prems(1) obtain nd where nd: "map_of s p = Some nd" by (auto split: option.splits)
  then show ?case
    using Suc map_le_Some [OF Suc.prems(2) nd] by (auto split: option.splits)
qed simp

lemma copy_of_mono: "copy_of d s p s' q \<Longrightarrow> map_of s' \<subseteq>\<^sub>m map_of s'' \<Longrightarrow> copy_of d s p s'' q"
proof (induction d arbitrary: p q)
  case (Suc d)
  from Suc.prems(1) obtain nd nd' where m: "map_of s p = Some nd" "map_of s' q = Some nd'"
    by (auto split: option.splits)
  then show ?case
    using Suc map_le_Some [OF Suc.prems(2) m(2)] by (auto split: option.splits)
qed simp

lemma copy_of_source:
  "copy_of d s1 p s' q \<Longrightarrow> tree_at d s p \<Longrightarrow> map_of s \<subseteq>\<^sub>m map_of s1 \<Longrightarrow> copy_of d s p s' q"
proof (induction d arbitrary: p q)
  case (Suc d)
  from Suc.prems(2) obtain nd where nd: "map_of s p = Some nd" by (auto split: option.splits)
  have nd1: "map_of s1 p = Some nd" and q: "map_of s q = None"
    using map_le_Some [OF Suc.prems(3) nd] Suc.prems(1) map_le_NoneD [OF Suc.prems(3)] by auto
  show ?case
    using Suc.prems(1,2) Suc.IH [OF _ _ Suc.prems(3)] nd nd1 q by (auto split: option.splits)
qed simp

section \<open>The copy ends\<close>

text \<open>What one copy does: \<open>this\<close> is its node, which is allocated but not written yet.\<close>

definition copied :: "nat \<Rightarrow> asts \<Rightarrow> nat \<Rightarrow> nat \<Rightarrow> nat \<Rightarrow> asts \<times> nat \<Rightarrow> bool" where
  "copied d s p this n = (\<lambda>(s', n').
     n \<le> n' \<and> below s' n' \<and> map_of s \<subseteq>\<^sub>m map_of s' \<and> copy_of d s p s' this \<and>
     (\<forall>q < n. q \<noteq> this \<longrightarrow> map_of s' q = map_of s q))"

text \<open>The copy of a child, if there is one\<close>

definition cp_child :: "nat \<Rightarrow> nat option \<Rightarrow> asts \<times> nat \<Rightarrow> (nat option \<times> asts \<times> nat) res" where
  "cp_child fuel c = (\<lambda>(s, nxt).
     case c of
       None \<Rightarrow> Inr (None, s, nxt)
     | Some l \<Rightarrow> rmap (\<lambda>(s', nxt'). (Some nxt, s', nxt')) (cp_ast fuel nxt l (s, nxt + 1)))"

lemma cp_ast_Suc:
  "cp_ast (Suc fuel) this orig (s, nxt) =
     rbind (ast_at orig s) (\<lambda>nd.
     rbind (cp_child fuel (as_leftchild nd) (s, nxt)) (\<lambda>(left, s1, nxt1).
     rbind (cp_child fuel (as_rightchild nd) (s1, nxt1)) (\<lambda>(right, s2, nxt2).
     Inr (um_put this (nd\<lparr>as_leftchild := left, as_rightchild := right\<rparr>) s2, nxt2))))"
  by (simp add: cp_child_def)

definition child_copy :: "nat \<Rightarrow> asts \<Rightarrow> nat option \<Rightarrow> asts \<Rightarrow> nat option \<Rightarrow> bool" where
  "child_copy d s c s' c' =
     (case (c, c') of (None, None) \<Rightarrow> True | (Some l, Some l') \<Rightarrow> copy_of d s l s' l' | _ \<Rightarrow> False)"

lemma cp_child_ok:
  assumes IH: "\<And>l. tree_at d s l \<Longrightarrow> \<exists>r. cp_ast fuel n l (s, n + 1) = Inr r \<and> copied d s l n (n + 1) r"
    and "case c of None \<Rightarrow> True | Some l \<Rightarrow> tree_at d s l" "below s n"
  shows "\<exists>c' s' n'. cp_child fuel c (s, n) = Inr (c', s', n') \<and> n \<le> n' \<and> below s' n' \<and>
     map_of s \<subseteq>\<^sub>m map_of s' \<and> child_copy d s c s' c' \<and> (\<forall>q < n. map_of s' q = map_of s q)"
proof (cases c)
  case None
  then show ?thesis using assms(3) by (auto simp: cp_child_def child_copy_def)
next
  case (Some l)
  then have "tree_at d s l" using assms(2) by simp
  then obtain s' n' where "cp_ast fuel n l (s, n + 1) = Inr (s', n')" "copied d s l n (n + 1) (s', n')"
    using IH by fastforce
  then show ?thesis using Some by (auto simp: cp_child_def child_copy_def copied_def)
qed

lemma cp_ast_ok:
  assumes "tree_at d s p" "d \<le> fuel" "below s n" "map_of s this = None" "this < n"
  shows "\<exists>r. cp_ast fuel this p (s, n) = Inr r \<and> copied d s p this n r"
  using assms
proof (induction d arbitrary: s p fuel n this)
  case (Suc d)
  obtain f where f: "fuel = Suc f" "d \<le> f" using Suc.prems(2) by (cases fuel) auto
  from Suc.prems(1) obtain nd where nd: "map_of s p = Some nd"
      "case as_leftchild nd of None \<Rightarrow> True | Some l \<Rightarrow> tree_at d s l"
      "case as_rightchild nd of None \<Rightarrow> True | Some r \<Rightarrow> tree_at d s r"
    by (auto split: option.splits)
  have IH: "\<exists>r. cp_ast f m l (t, m + 1) = Inr r \<and> copied d t l m (m + 1) r"
    if "tree_at d t l" "below t m" for t l m
    using Suc.IH [OF that(1) f(2), of "m + 1" m] that(2) below_None [OF that(2)]
    by (simp add: below_def less_Suc_eq)
  obtain l' s1 n1 where 1: "cp_child f (as_leftchild nd) (s, n) = Inr (l', s1, n1)" "n \<le> n1" "below s1 n1"
      "map_of s \<subseteq>\<^sub>m map_of s1" "child_copy d s (as_leftchild nd) s1 l'" "\<forall>q < n. map_of s1 q = map_of s q"
    using cp_child_ok [OF IH nd(2) Suc.prems(3)] Suc.prems(3) by blast
  have t1: "case as_rightchild nd of None \<Rightarrow> True | Some r \<Rightarrow> tree_at d s1 r"
    using nd(3) tree_at_mono [OF _ 1(4)] by (auto split: option.splits)
  obtain r' s2 n2 where 2: "cp_child f (as_rightchild nd) (s1, n1) = Inr (r', s2, n2)" "n1 \<le> n2"
      "below s2 n2" "map_of s1 \<subseteq>\<^sub>m map_of s2" "child_copy d s1 (as_rightchild nd) s2 r'"
      "\<forall>q < n1. map_of s2 q = map_of s1 q"
    using cp_child_ok [OF IH t1 1(3)] 1(3) by blast
  let ?s = "um_put this (nd\<lparr>as_leftchild := l', as_rightchild := r'\<rparr>) s2"
  have t2: "map_of s2 this = None" using 1(2,6) 2(6) Suc.prems(4,5) by simp
  then have le2: "map_of s2 \<subseteq>\<^sub>m map_of ?s" by (auto simp: map_le_def)
  have le: "map_of s \<subseteq>\<^sub>m map_of ?s" "map_of s1 \<subseteq>\<^sub>m map_of ?s"
    using map_le_trans [OF 1(4) map_le_trans [OF 2(4) le2]] map_le_trans [OF 2(4) le2] by blast+
  have "child_copy d s (as_leftchild nd) ?s l'"
    using 1(5) copy_of_mono [OF _ le(2)] by (auto simp: child_copy_def split: option.splits)
  moreover have "child_copy d s (as_rightchild nd) ?s r'"
    using 2(5) copy_of_mono [OF _ le2] copy_of_source [OF _ _ 1(4)] nd(3)
    by (auto simp: child_copy_def split: option.splits)
  ultimately have c: "copy_of (Suc d) s p ?s this"
    using nd(1) Suc.prems(4) by (simp add: child_copy_def)
  have b: "below ?s n2"
    using 1(2) 2(2,3) Suc.prems(5) by (auto simp: below_def um_put_def)
  have "cp_ast fuel this p (s, n) = Inr (?s, n2)"
    unfolding f(1) cp_ast_Suc using nd(1) 1(1) 2(1) by (simp add: ast_at_def del: rbind_eq_Inr rmap_eq_Inr)
  moreover have "copied (Suc d) s p this n (?s, n2)"
    using 1(2,6) 2(2,6) le(1) b c by (simp add: copied_def del: copy_of.simps)
  ultimately show ?case by blast
qed simp

lemma new_cp_ast_ok:
  assumes "tree_at d s p" "d \<le> fuel" "below s n"
  shows "\<exists>s' n'. new_cp_ast fuel p (s, n) = Inr (n, s', n') \<and> copied d s p n (n + 1) (s', n')"
  using cp_ast_ok [OF assms(1,2), of "n + 1" n] assms(3) below_None [OF assms(3)]
  by (fastforce simp: new_cp_ast_def below_def less_Suc_eq)

text \<open>The node of a unary operator is its own left child.\<close>

lemma cp_unary:
  "map_of s p = Some nd \<Longrightarrow> as_leftchild nd = Some p \<Longrightarrow> cp_ast fuel this p (s, n) = Inl OutOfFuel"
  by (induction fuel arbitrary: this n) (simp_all add: ast_at_def)

end
