(* ===== verification/Statement_Resolve.thy ===== *)
theory Statement_Resolve
  imports Statement_State
begin

text \<open>
  Names (\<open>infinisqld/Asts.cc\<close>): \<open>Statement::resolveTableFields\<close> turns the names of tables and
  fields of a statement into numbers, once it is parsed. The trees are walked without recursion
  (\<open>resolveFieldNames\<close>), by the direction a node is entered from.
\<close>

definition getfieldid :: "statementEnv \<Rightarrow> int \<Rightarrow> bytes \<Rightarrow> int" where
  "getfieldid se tableid fieldName =
     (case se_fieldNameToId se tableid of
        None \<Rightarrow> - 1
      | Some m \<Rightarrow> (case m fieldName of None \<Rightarrow> - 1 | Some fid \<Rightarrow> fid))"

definition fieldid_operand :: "int \<Rightarrow> bytes" where
  "fieldid_operand fid = [OPERAND_FIELDID] @ word_bytes (word_of_int fid)"

section \<open>The walk\<close>

datatype direction = FROM_ABOVE | FROM_LEFT | FROM_RIGHT

text \<open>
  One step from a node: \<open>Some\<close> the next node and direction, \<open>None\<close> the end at the root.
\<close>

definition walk_step :: "nat \<Rightarrow> direction \<Rightarrow> statement \<Rightarrow> (nat \<times> direction) option res" where
  "walk_step p dir st =
     rbind (node p st) (\<lambda>nd.
       case dir of
         FROM_ABOVE \<Rightarrow>
           (case as_leftchild nd of
              None \<Rightarrow> Inr (Some (p, FROM_LEFT))
            | Some l \<Rightarrow> if l = p then Inr (Some (p, FROM_LEFT)) else Inr (Some (l, FROM_ABOVE)))
       | FROM_LEFT \<Rightarrow>
           (case as_rightchild nd of
              None \<Rightarrow> Inr (Some (p, FROM_RIGHT))
            | Some r \<Rightarrow> Inr (Some (r, FROM_ABOVE)))
       | FROM_RIGHT \<Rightarrow>
           (case as_parent nd of
              None \<Rightarrow> Inr None
            | Some q \<Rightarrow> rbind (node q st) (\<lambda>pn.
                Inr (Some (q, if as_leftchild pn = Some p then FROM_LEFT else FROM_RIGHT)))))"

text \<open>An identifier becomes the number of its field, and is left to its parent; \<open>None\<close>: no such field\<close>

definition convert_name :: "statementEnv \<Rightarrow> int \<Rightarrow> nat \<Rightarrow> direction \<Rightarrow> statement \<Rightarrow>
    (direction \<times> statement) option res" where
  "convert_name se tableid p dir st =
     rbind (node p st) (\<lambda>nd.
       if as_isoperator nd then Inr (Some (dir, st))
       else rbind (byte_at 0 (as_operand nd)) (\<lambda>tag.
         if tag \<noteq> OPERAND_IDENTIFIER then Inr (Some (dir, st))
         else
           let fid = getfieldid se tableid (drop 1 (as_operand nd))
           in if fid = - 1 then Inr None
              else Inr (Some (FROM_RIGHT,
                     set_node p (as_operand_update (\<lambda>_. fieldid_operand fid)) st))))"

fun resolveFieldNames :: "nat \<Rightarrow> statementEnv \<Rightarrow> int \<Rightarrow> nat \<Rightarrow> direction \<Rightarrow> statement \<Rightarrow>
    (bool \<times> statement) res" where
  "resolveFieldNames 0 se tableid p dir st = Inl OutOfFuel"
| "resolveFieldNames (Suc fuel) se tableid p dir st =
     rbind (convert_name se tableid p dir st) (\<lambda>c.
       case c of
         None \<Rightarrow> Inr (False, st)
       | Some (dir', st1) \<Rightarrow>
           rbind (walk_step p dir' st1) (\<lambda>next.
             case next of
               None \<Rightarrow> Inr (True, st1)
             | Some (q, dir2) \<Rightarrow> resolveFieldNames fuel se tableid q dir2 st1))"

section \<open>Queries\<close>

text \<open>The columns of a \<open>SELECT\<close>, from the last; \<open>None\<close>: a field is not found\<close>

definition resolve_column :: "statementEnv \<Rightarrow> int \<Rightarrow> table \<Rightarrow> bytes \<Rightarrow> column list option \<Rightarrow>
    column list option res" where
  "resolve_column se tableid t fromColumn acc =
     (case acc of
        None \<Rightarrow> Inr None
      | Some cols \<Rightarrow>
          let named = (\<lambda>tag name. let fid = getfieldid se tableid name
                 in if fid = - 1 then Inr None
                    else rmap (\<lambda>fd. Some (cols @ [\<lparr>co_aggregatetype = tag, co_fieldid = fid,
                                                    co_name = fd_name fd\<rparr>])) (field_at fid t))
          in rbind (byte_at 0 fromColumn) (\<lambda>tag.
               if tag = star_byte then
                 Inr (Some (cols @ map (\<lambda>n. \<lparr>co_aggregatetype = OPERAND_FIELDID, co_fieldid = int n,
                        co_name = fd_name (tb_fields t ! n)\<rparr>) [0..<length (tb_fields t)]))
               else if tag = OPERAND_IDENTIFIER then
                 rbind (substr_from 1 fromColumn) (named OPERAND_FIELDID)
               else if tag = OPERAND_AGGREGATE then
                 rbind (substr_from 2 fromColumn) (\<lambda>name. rbind (byte_at 1 fromColumn) (\<lambda>a. named a name))
               else Inr None))"

definition resolve_select :: "statementEnv \<Rightarrow> table \<Rightarrow> statement \<Rightarrow> (bool \<times> statement) res" where
  "resolve_select se t st =
     rbind (current_query st) (\<lambda>q.
     rmap (\<lambda>r. case r of
             None \<Rightarrow> (False, st)
           | Some cols \<Rightarrow> (True, set_query (qs_fromColumnids_update (\<lambda>_. cols)) st))
       (rfold (resolve_column se (qs_tableid q) t) (rev (qs_fromColumns q)) (Some (qs_fromColumnids q))))"

text \<open>One assignment of an \<open>UPDATE\<close>; the bound of the walk is passed in\<close>

definition resolve_assignment :: "nat \<Rightarrow> statementEnv \<Rightarrow> int \<Rightarrow> bytes \<times> nat \<Rightarrow> bool \<times> statement \<Rightarrow>
    (bool \<times> statement) res" where
  "resolve_assignment fuel se tableid = (\<lambda>(name, a) (ok, st).
     if \<not> ok then Inr (False, st)
     else let fid = getfieldid se tableid name
       in if fid = - 1 then Inr (False, st)
          else resolveFieldNames fuel se tableid a FROM_ABOVE
                 (set_query (qs_fieldidAssignments_update (um_put fid a)) st))"

definition resolveTableFields2 :: "nat \<Rightarrow> statementEnv \<Rightarrow> statement \<Rightarrow> (bool \<times> statement) res" where
  "resolveTableFields2 fuel se st =
     rbind (current_query st) (\<lambda>q.
       case se_tableNameToId se (qs_table q) of
         None \<Rightarrow> Inr (False, st)
       | Some tableid \<Rightarrow>
           let st1 = set_query (qs_tableid_update (\<lambda>_. tableid)) st
           in rbind (stmt_table se tableid st1) (\<lambda>t.
              rbind (if qs_type q = CMD_SELECT then resolve_select se t st1
                     else if qs_type q = CMD_UPDATE then
                       rfold (resolve_assignment fuel se tableid) (qs_assignments q) (True, st1)
                     else Inr (True, st1)) (\<lambda>(ok, st2).
                if \<not> ok then Inr (False, st2)
                else if qs_haswhere q then
                  rbind (deref (qs_searchCondition q)) (\<lambda>c.
                    resolveFieldNames fuel se tableid c FROM_ABOVE st2)
                else Inr (True, st2))))"

text \<open>A query on no table ends the loop.\<close>

fun resolve_queries :: "nat \<Rightarrow> statementEnv \<Rightarrow> nat list \<Rightarrow> statement \<Rightarrow> (bool \<times> statement) res" where
  "resolve_queries fuel se [] st = Inr (True, st)"
| "resolve_queries fuel se (n # ns) st =
     (let st1 = st\<lparr>sm_currentQuery := Some n\<rparr>
      in rbind (current_query st1) (\<lambda>q.
           if qs_type q \<notin> {CMD_SELECT, CMD_INSERT, CMD_UPDATE, CMD_DELETE} then Inr (True, st1)
           else rbind (resolveTableFields2 fuel se st1) (\<lambda>(ok, st2).
             if \<not> ok then Inr (False, st2) else resolve_queries fuel se ns st2)))"

definition resolveTableFields :: "nat \<Rightarrow> statementEnv \<Rightarrow> statement \<Rightarrow> (bool \<times> statement) res" where
  "resolveTableFields fuel se st = resolve_queries fuel se [0..<length (sm_queries st)] st"

end
