(* ===== verification/Statement_Properties.thy ===== *)
theory Statement_Properties
  imports Statement_Assign Statement_Copy Statement_Resolve Transaction_Properties
begin

text \<open>
  The properties of statements: what a condition finds, what an assignment computes, what an insert
  sends, and where statements do not end or compute something else than they say. The witnesses run
  on a table with two integer fields.
\<close>

section \<open>Integer predicates\<close>

definition demo_field :: "u64 \<Rightarrow> bytes" where
  "demo_field w = OPERAND_FIELDID # word_bytes w"

definition demo_int :: "u64 \<Rightarrow> bytes" where
  "demo_int w = OPERAND_INTEGER # word_bytes w"


section \<open>A sample\<close>

definition demo_fields :: table where
  "demo_fields = (Table 0 5)\<lparr>tb_fields := [Field F_INT 8 NONE [], Field F_INT 8 NONE []], rowsize := 18\<rparr>"

definition demo_se :: statementEnv where
  "demo_se = \<lparr>se_tx = demo_env\<lparr>ev_schemata :=
       [1 \<mapsto> \<lparr>sch_domainid = 1, sch_nexttableid = 5, sch_tables = [5 \<mapsto> demo_fields]\<rparr>]\<rparr>,
     se_tableNameToId = [[116] \<mapsto> 5], se_fieldNameToId = [5 \<mapsto> [[97] \<mapsto> 0, [98] \<mapsto> 1]],
     se_procedures = Map.empty, se_newtransaction = demo_mem, se_newtransactionid = 8\<rparr>"

definition demo_api :: apiResults where
  "demo_api = \<lparr>ar_cmdtype = CMD_NONE, ar_statementStatus = 0, ar_statementResults = [],
     ar_selectFields = [], ar_selectResults = [], ar_procedure = None, ar_reentries = []\<rparr>"

definition demo_statement :: "asts \<Rightarrow> query_s \<Rightarrow> statement" where
  "demo_statement s q = \<lparr>sm_asts = s, sm_brk = 50, sm_schemaPtr = Some 1,
     sm_reentry = \<lparr>re_object = 0, re_point = 1, re_data = 0\<rparr>, sm_transactionPtr = Some demo_tx,
     sm_currentQuery = Some 0, sm_queries = [q], sm_parameters = [], sm_queryindex = - 1,
     sm_resultsPtr = NoResults, sm_api = demo_api, sm_alive = True\<rparr>"

definition demo_q :: "cmd \<Rightarrow> query_s" where
  "demo_q c = query0\<lparr>qs_type := c, qs_haswhere := True, qs_tableid := 5, qs_locktype := READLOCK\<rparr>"

text \<open>\<open>(a = 5 AND b < 9) OR a > 1\<close>\<close>

definition demo_cond :: cond where
  "demo_cond = Disj 1
     (Conj 2 (Pred 3 OPERATOR_EQ (demo_field 0) (demo_int 5) 4 5)
             (Pred 6 OPERATOR_LT (demo_field 1) (demo_int 9) 7 8))
     (Pred 9 OPERATOR_GT (demo_field 0) (demo_int 1) 10 11)"

fun demo_nodes :: "nat option \<Rightarrow> cond \<Rightarrow> asts" where
  "demo_nodes pr (Pred p op l r lc rc) =
     [(p, binary_node pr op lc rc), (lc, Ast_operand OPERATOR_NONE (Some p) l),
      (rc, Ast_operand OPERATOR_NONE (Some p) r)]"
| "demo_nodes pr (Conj p a b) =
     (p, binary_node pr OPERATOR_AND (cond_root a) (cond_root b)) #
     demo_nodes (Some p) a @ demo_nodes (Some p) b"
| "demo_nodes pr (Disj p a b) =
     (p, binary_node pr OPERATOR_OR (cond_root a) (cond_root b)) #
     demo_nodes (Some p) a @ demo_nodes (Some p) b"

definition demo_uur_n :: "int \<Rightarrow> uuRecord" where
  "demo_uur_n n = \<lparr>uu_rowid = n, uu_tableid = 5, uu_engineid = 0\<rparr>"


section \<open>Conditions\<close>






section \<open>Assignments\<close>












section \<open>Arithmetic on integers and floats\<close>

definition float_bytes :: "ldouble \<Rightarrow> bytes" where
  "float_bytes x = OPERAND_FLOAT # le_bytes 16 (uint (the_ld x))"

definition mixed_operands :: "bytes \<Rightarrow> bytes \<Rightarrow> bool" where
  "mixed_operands l r \<longleftrightarrow> (\<exists>w x. l = int_bytes w \<and> r = float_bytes x \<or> l = float_bytes x \<and> r = int_bytes w)"

lemma mixed_simps:
  assumes "mixed_operands l r"
  shows "arith op l r s = Inr (l, r, None)" "byte_at 0 l = Inr OPERAND_INTEGER \<or> byte_at 0 l = Inr OPERAND_FLOAT"
    "byte_at 0 r = Inr OPERAND_INTEGER \<or> byte_at 0 r = Inr OPERAND_FLOAT"
proof -
  have f: "toFloat (float_bytes x) (float_bytes x) = Inr (float_bytes x)" for x
    by (simp add: toFloat_def float_bytes_def operand_defs del: rbind_eq_Inr rmap_eq_Inr)
  have i: "toFloat (int_bytes w) (int_bytes w) = Inr (int_bytes w)" for w
    by (simp add: toFloat_def int_bytes_def overwrite_def resize_def del: rbind_eq_Inr rmap_eq_Inr)
  have b: "byte_at 0 (int_bytes w) = Inr OPERAND_INTEGER" "byte_at 0 (float_bytes x) = Inr OPERAND_FLOAT" for w x
    by (simp_all add: int_bytes_def float_bytes_def)
  have ne: "OPERAND_INTEGER \<noteq> OPERAND_FLOAT" by (simp add: operand_defs)
  show "arith op l r s = Inr (l, r, None)"
    using assms ne ne [symmetric] unfolding mixed_operands_def
    by (auto simp: arith_def widen_def arith_widened_def f i b simp del: rbind_eq_Inr rmap_eq_Inr)
  show "byte_at 0 l = Inr OPERAND_INTEGER \<or> byte_at 0 l = Inr OPERAND_FLOAT"
    "byte_at 0 r = Inr OPERAND_INTEGER \<or> byte_at 0 r = Inr OPERAND_FLOAT"
    using assms b by (auto simp: mixed_operands_def)
qed

lemma ready_value:
  assumes "map_of (sm_asts st) c = Some nd" "\<not> as_isoperator nd"
    and "byte_at 0 (as_operand nd) = Inr OPERAND_INTEGER \<or> byte_at 0 (as_operand nd) = Inr OPERAND_FLOAT \<or>
      byte_at 0 (as_operand nd) = Inr OPERAND_FIELDID"
  shows "ready_child se p (Some c) st = Inr (None, st)"
  using assms by (auto simp: ready_child_def operand_defs simp del: rbind_eq_Inr)

lemma mixed_walk:
  assumes "map_of (sm_asts st) p = Some nd" "as_isoperator nd" "as_operatortype nd \<in> set arith_ops"
    and "as_leftchild nd = Some lc" "as_rightchild nd = Some rc" "distinct [p, lc, rc]"
    and "operand_node l (map_of (sm_asts st) lc)" "operand_node r (map_of (sm_asts st) rc)"
    and "mixed_operands l r"
  shows "run fuel se (RunSearch ep p (Some p)) st = Inl OutOfFuel"
  using assms
proof (induction fuel arbitrary: st)
  case (Suc fuel)
  obtain ln rn where n: "map_of (sm_asts st) lc = Some ln" "\<not> as_isoperator ln" "as_operand ln = l"
      "map_of (sm_asts st) rc = Some rn" "\<not> as_isoperator rn" "as_operand rn = r"
    using Suc.prems(7,8) by (auto simp: operand_node_def)
  let ?st = "set_node rc (as_operand_update (\<lambda>_. r)) (set_node lc (as_operand_update (\<lambda>_. l)) st)"
  have c: "ready_child se p (Some lc) st = Inr (None, st)" "ready_child se p (Some rc) st = Inr (None, st)"
    using n mixed_simps(2,3) [OF Suc.prems(9)] by (auto intro!: ready_value)
  have "evaluate se (run fuel se) p (Some p) st = evaluate_arith p (Some p) st"
    using Suc.prems(1-5) c
    by (auto simp: evaluate_def evaluate_operator_def arith_ops_def unary_operators_def
        simp del: rbind_eq_Inr)
  also have "\<dots> = Inr (False, Some p, ?st)"
    using Suc.prems(1,4,5) n mixed_simps(1) [OF Suc.prems(9)]
    by (simp add: evaluate_arith_def Let_def del: rbind_eq_Inr rmap_eq_Inr)
  finally have "run (Suc fuel) se (RunSearch ep p (Some p)) st = run fuel se (RunSearch ep p (Some p)) ?st"
    by (simp add: searchExpression_def)
  also have "\<dots> = Inl OutOfFuel"
    using Suc.prems n by (intro Suc.IH) (auto simp: operand_node_def)
  finally show ?case .
qed simp

text \<open>C14. An integer and a float under one of the four operators never get a value: \<open>toFloat\<close> keeps the tag
  of the integer, the types do not fit, and \<open>evaluate\<close> leaves \<open>nextAstNode\<close> at the operator. A
  predicate with such an operand, like \<open>a < 35 + 15.7\<close>, is walked without end: no fuel is enough.\<close>

theorem mixed_arithmetic_never_ends:
  assumes "map_of (sm_asts st) p = Some (binary_node pr op fc a)" "op \<in> set comparison_ops"
    and "operand_node (field_bytes w) (map_of (sm_asts st) fc)"
    and "map_of (sm_asts st) a = Some (binary_node (Some p) aop lc rc)" "aop \<in> set arith_ops"
    and "operand_node l (map_of (sm_asts st) lc)" "operand_node r (map_of (sm_asts st) rc)"
    and "mixed_operands l r" "distinct [a, lc, rc]"
  shows "run fuel se (RunSearch 1 p nx) st = Inl OutOfFuel"
proof (cases fuel)
  case (Suc f)
  obtain fd where fd: "map_of (sm_asts st) fc = Some fd" "\<not> as_isoperator fd" "as_operand fd = field_bytes w"
    using assms(3) by (auto simp: operand_node_def)
  have 1: "ready_child se p (Some fc) st = Inr (None, st)"
    using fd by (intro ready_value) (auto simp: field_bytes_def)
  have 2: "ready_child se p (Some a) st = Inr (Some a, st)"
    using assms(4) by (intro ready_operator) (auto simp: binary_node_def)
  have "op \<notin> set unary_operators"
    using assms(2) by (auto simp: comparison_ops_def unary_operators_def)
  then have "evaluate se (run f se) p nx st = Inr (False, Some a, st)"
    using assms(1) 1 2 by (simp add: evaluate_def binary_node_def del: rbind_eq_Inr)
  then have "run fuel se (RunSearch 1 p nx) st = run f se (RunSearch 1 a (Some a)) st"
    unfolding Suc by (rule run_child)
  also have "\<dots> = Inl OutOfFuel"
    using assms by (intro mixed_walk [where lc = lc and rc = rc]) (auto simp: binary_node_def)
  finally show ?thesis .
qed simp

text \<open>\<open>a < 35 + x\<close>\<close>

definition demo_mixed :: asts where
  "demo_mixed =
     [(1, binary_node None OPERATOR_LT 2 3), (2, Ast_operand OPERATOR_NONE (Some 1) (field_bytes 0)),
      (3, binary_node (Some 1) OPERATOR_ADDITION 4 5),
      (4, Ast_operand OPERATOR_NONE (Some 3) (int_bytes 35)),
      (5, Ast_operand OPERATOR_NONE (Some 3) (float_bytes (LD 1)))]"

theorem mixed_arithmetic_never_ends_witness:
  "run 100 demo_se (RunSearch 1 1 None) (demo_statement demo_mixed (demo_q CMD_SELECT)) = Inl OutOfFuel"
proof -
  let ?st = "demo_statement demo_mixed (demo_q CMD_SELECT)"
  have 1: "map_of (sm_asts ?st) 1 = Some (binary_node None OPERATOR_LT 2 3)"
    "map_of (sm_asts ?st) 3 = Some (binary_node (Some 1) OPERATOR_ADDITION 4 5)"
    "operand_node (field_bytes 0) (map_of (sm_asts ?st) 2)"
    "operand_node (int_bytes 35) (map_of (sm_asts ?st) 4)"
    "operand_node (float_bytes (LD 1)) (map_of (sm_asts ?st) 5)"
    by (simp_all add: demo_statement_def demo_mixed_def operand_node_def Ast_operand_def)
  have 2: "mixed_operands (int_bytes 35) (float_bytes (LD 1))" by (auto simp: mixed_operands_def)
  show ?thesis
    using mixed_arithmetic_never_ends [OF 1(1) _ 1(3,2) _ 1(4,5) 2]
    by (simp add: comparison_ops_def arith_ops_def)
qed

section \<open>Copies\<close>

text \<open>C15. The deep copy of a condition ends, with new nodes for all of the tree and the old ones as they
  were; but a node of the copy has the parent of its original. The children of the new root name the
  old root as their parent, which is where the walk goes on from them.\<close>

theorem copy_keeps_parents:
  assumes "tree_at d s p" "d \<le> fuel" "below s n"
    and "map_of s p = Some nd" "as_leftchild nd = Some l" "map_of s l = Some ln" "as_parent ln = Some p"
  shows "\<exists>s' n' nd' l' ln'. new_cp_ast fuel p (s, n) = Inr (n, s', n') \<and> copy_of d s p s' n \<and>
     (\<forall>q < n. map_of s' q = map_of s q) \<and>
     map_of s' n = Some nd' \<and> as_leftchild nd' = Some l' \<and> map_of s l' = None \<and>
     map_of s' l' = Some ln' \<and> as_parent ln' = Some p \<and> p \<noteq> n"
proof -
  obtain s' n' where c: "new_cp_ast fuel p (s, n) = Inr (n, s', n')" "copied d s p n (n + 1) (s', n')"
    using new_cp_ast_ok [OF assms(1-3)] by blast
  obtain d' where d: "d = Suc d'" using assms(1) by (cases d) auto
  obtain d'' where d': "d' = Suc d''" using assms(1,4,5) d by (cases d') auto
  have co: "copy_of d s p s' n" using c(2) by (simp add: copied_def)
  then obtain nd' l' where "map_of s' n = Some nd'" "as_leftchild nd' = Some l'" "copy_of d' s l s' l'"
    using assms(4,5) unfolding d by (auto split: option.splits)
  moreover from this(3) obtain ln' where "map_of s l' = None" "map_of s' l' = Some ln'"
      "as_parent ln' = as_parent ln"
    using assms(6) unfolding d' by (auto split: option.splits)
  moreover have "p \<noteq> n" using assms(4) below_None [OF assms(3), of n] by auto
  moreover have "\<forall>q < n. map_of s' q = map_of s q" using c(2) by (simp add: copied_def)
  ultimately show ?thesis using c(1) co assms(7) by auto
qed

theorem copy_keeps_parents_witness:
  "\<exists>s' n' nd' l' ln'. new_cp_ast 4 1 (demo_nodes None demo_cond, 50) = Inr (50, s', n') \<and>
     map_of s' 50 = Some nd' \<and> as_leftchild nd' = Some l' \<and> map_of (demo_nodes None demo_cond) l' = None \<and>
     map_of s' l' = Some ln' \<and> as_parent ln' = Some 1"
proof -
  have 1: "tree_at 4 (demo_nodes None demo_cond) 1" "below (demo_nodes None demo_cond) 50"
    by (simp_all add: demo_cond_def binary_node_def Ast_operand_def numeral_eq_Suc below_def)
  have 2: "map_of (demo_nodes None demo_cond) 1 = Some (binary_node None OPERATOR_OR 2 9)"
    "as_leftchild (binary_node None OPERATOR_OR 2 9) = Some 2"
    "map_of (demo_nodes None demo_cond) 2 = Some (binary_node (Some 1) OPERATOR_AND 3 6)"
    "as_parent (binary_node (Some 1) OPERATOR_AND 3 6) = Some 1"
    by (simp_all add: demo_cond_def binary_node_def)
  show ?thesis using copy_keeps_parents [OF 1(1) order_refl 1(2) 2] by blast
qed

text \<open>A statement with a unary operator in a condition cannot be copied: the operator is its own left
  child, and the copy goes down without end. No fuel is enough.\<close>

theorem unary_copy_never_ends:
  assumes "map_of s p = Some (Ast_operator p parent op)" "op \<in> set unary_operators"
  shows "new_cp_ast fuel p (s, n) = Inl OutOfFuel"
  using cp_unary [OF assms(1)] assms(2) by (simp add: new_cp_ast_def Ast_operator_def)

theorem unary_copy_never_ends_witness:
  "new_cp_ast 1000 1 ([(1, Ast_operator 1 None OPERATOR_ISNULL)], 5) = Inl OutOfFuel"
  by (rule unary_copy_never_ends [where parent = None and op = OPERATOR_ISNULL])
    (simp_all add: unary_operators_def)

section \<open>Searches and changes without rows\<close>

text \<open>C12. A search of a condition that finds nothing ends the query: the transaction resets its pending
  command before it tests it, and calls back the continuation of a \<open>SELECT\<close>, so the rest of the
  condition is not evaluated (its root is still there) and nothing is selected, whatever the other
  side of an \<open>OR\<close> would have found. An \<open>UPDATE\<close> or \<open>DELETE\<close> query ends in the same way.\<close>

theorem empty_search_skips_condition:
  assumes "waiting p st" "sm_transactionPtr st = Some tx" "map_of (sm_asts st) p = Some nd"
    and "sq_eventwaitcount (tx_sqlcmdstate tx) = 1" "sq_indexHits (tx_sqlcmdstate tx) = []"
    and "ts_pendingcmdid (sc_transactionStruct m) = tx_pendingcmdid tx"
    and "ts_tacmdentrypoint (sc_transactionStruct m) = 1" "sc_indexHits m = []"
    and "current_query st = Inr q" "qs_searchResults q = []" "stmt_table se (qs_tableid q) st = Inr t"
  shows "\<exists>st'. statement_message (Suc fuel) se (message.PAYLOADSUBTRANSACTION m) st = run fuel se RunStart st' \<and>
     current_query st' = Inr q \<and> sm_queryindex st' = sm_queryindex st \<and> idle st' \<and>
     (\<forall>c. c \<noteq> p \<longrightarrow> map_of (sm_asts st') c = map_of (sm_asts st) c)"
proof -
  have w: "sm_alive st" "sm_resultsPtr st = NodeResults p" "tx_pendingcmd tx = PRIMITIVE_SQLPREDICATE"
    "tx_callbacks tx = []"
    using assms(1,2) by (auto simp: waiting_def)
  let ?tx1 = "received (message.PAYLOADSUBTRANSACTION m) tx"
  let ?tx2 = "end_command (sql_update (\<lambda>s. s\<lparr>sq_eventwaitcount := sq_eventwaitcount s - 1\<rparr>) ?tx1)"
  let ?st2 = "st\<lparr>sm_transactionPtr := Some ?tx2\<rparr>"
  let ?st3 = "set_node p (as_predicateResults_update (\<lambda>_. sq_results (tx_sqlcmdstate tx))) ?st2"
  have "processTransactionMessage_tx (se_tx se) (message.PAYLOADSUBTRANSACTION m) tx =
      continueSqlPredicate_1 (se_tx se) m ?tx1"
    using assms(6,7) w(3)
    by (simp add: processTransactionMessage_tx_def run_pending_def continueSqlPredicate_def
        received_def subtransactionCmdRef_def Let_def)
  also have "\<dots> = Inr (callback (ContinueSelect 1) ?tx2)"
    using assms(4,5,8) by (simp add: continueSqlPredicate_1_def no_hits_def Let_def end_command_def)
  finally have pr: "processTransactionMessage_tx (se_tx se) (message.PAYLOADSUBTRANSACTION m) tx =
      Inr (callback (ContinueSelect 1) ?tx2)" .
  have e: "(callback c ?tx2)\<lparr>tx_callbacks := []\<rparr> = ?tx2" "tx_callbacks (callback c ?tx2) = [c]" for c
    using w(4) by (simp_all add: callback_def end_command_def)
  have "statement_message (Suc fuel) se (message.PAYLOADSUBTRANSACTION m) st =
      stmt_callback (run (Suc fuel) se) (ContinueSelect 1) ?st2"
    using assms(2) by (simp add: statement_message_def with_tx_def stmt_tx_def pr run_callbacks_def e
        del: rbind_eq_Inr rmap_eq_Inr run.simps)
  also have "\<dots> = run (Suc fuel) se RunSelect ?st3"
    using w(1,2) assms(3) by (simp add: stmt_callback_def stmt_live_def sync_results_def stmt_tx_def
        end_command_def del: rbind_eq_Inr rmap_eq_Inr run.simps)
  also have "\<dots> = run fuel se RunStart ?st3"
    using assms(9-11)
    by (simp add: continueSelect_def current_query_def stmt_table_def del: rbind_eq_Inr rmap_eq_Inr)
  finally have "statement_message (Suc fuel) se (message.PAYLOADSUBTRANSACTION m) st = run fuel se RunStart ?st3" .
  moreover have "idle ?st3" using w(1,4) by (simp add: idle_def end_command_def)
  moreover have "current_query ?st3 = Inr q" using assms(9) by (simp add: current_query_def)
  ultimately show ?thesis by (intro exI [of _ ?st3]) simp
qed

definition demo_empty :: subtransactionCmd where
  "demo_empty = subtransactionCmd0\<lparr>sc_transactionStruct := demo_ts 0 9 1\<rparr>"

definition demo_searching :: transaction where
  "demo_searching = demo_tx\<lparr>tx_pendingcmd := PRIMITIVE_SQLPREDICATE, tx_pendingcmdid := 9,
     tx_sqlcmdstate := sqlcmdstate0\<lparr>sq_continuationData := 3, sq_eventwaitcount := 1\<rparr>\<rparr>"

text \<open>\<open>a = 5 OR b < 9\<close>, where the first search has found nothing\<close>

definition demo_waiting :: statement where
  "demo_waiting = (demo_statement
      [(1, binary_node None OPERATOR_OR 3 6), (3, done_node (Some 1) OPERATOR_EQ []),
       (6, binary_node (Some 1) OPERATOR_LT 7 8), (7, Ast_operand OPERATOR_NONE (Some 6) (demo_field 1)),
       (8, Ast_operand OPERATOR_NONE (Some 6) (demo_int 9))]
      ((demo_q CMD_SELECT)\<lparr>qs_searchCondition := Some 1\<rparr>))
     \<lparr>sm_transactionPtr := Some demo_searching, sm_resultsPtr := NodeResults 3\<rparr>"

theorem empty_search_skips_condition_witness:
  "\<exists>st'. statement_message 7 demo_se (message.PAYLOADSUBTRANSACTION demo_empty) demo_waiting =
       run 6 demo_se RunStart st' \<and> map_of (sm_asts st') 1 = Some (binary_node None OPERATOR_OR 3 6) \<and>
     map_of (sm_asts st') 6 = Some (binary_node (Some 1) OPERATOR_LT 7 8)"
proof -
  let ?q = "(demo_q CMD_SELECT)\<lparr>qs_searchCondition := Some 1\<rparr>"
  have 1: "waiting 3 demo_waiting" "sm_transactionPtr demo_waiting = Some demo_searching"
    "map_of (sm_asts demo_waiting) 3 = Some (done_node (Some 1) OPERATOR_EQ [])"
    "sq_eventwaitcount (tx_sqlcmdstate demo_searching) = 1" "sq_indexHits (tx_sqlcmdstate demo_searching) = []"
    "ts_pendingcmdid (sc_transactionStruct demo_empty) = tx_pendingcmdid demo_searching"
    "ts_tacmdentrypoint (sc_transactionStruct demo_empty) = 1" "sc_indexHits demo_empty = []"
    by (simp_all add: waiting_def demo_waiting_def demo_statement_def demo_searching_def demo_defs
        demo_empty_def sqlcmdstate0_def subtransactionCmd0_def)
  have 2: "current_query demo_waiting = Inr ?q" "qs_searchResults ?q = []"
    "stmt_table demo_se (qs_tableid ?q) demo_waiting = Inr demo_fields"
    by (simp_all add: demo_waiting_def demo_statement_def current_query_def vec_at_def demo_q_def
        query0_def stmt_table_def demo_se_def)
  from empty_search_skips_condition [OF 1 2, of 6]
  obtain st' where "statement_message (Suc 6) demo_se (message.PAYLOADSUBTRANSACTION demo_empty) demo_waiting =
      run 6 demo_se RunStart st'" "\<And>c. c \<noteq> 3 \<Longrightarrow> map_of (sm_asts st') c = map_of (sm_asts demo_waiting) c"
    by blast
  then show ?thesis
    by (intro exI [of _ st']) (simp add: demo_waiting_def demo_statement_def)
qed

text \<open>A \<open>DELETE\<close> whose condition holds for no row never returns: it waits for the replies to the
  deletions of no rows, with its command pending, no message sent and nothing called back.\<close>

theorem delete_of_nothing_hangs:
  assumes "current_query st = Inr q" "qs_type q = CMD_DELETE" "qs_haswhere q" "qs_searchResults q = []"
    and "sm_transactionPtr st = Some tx"
  shows "\<exists>st' tx'. run (Suc (Suc fuel)) se RunBranch st = Inr st' \<and> sm_transactionPtr st' = Some tx' \<and>
     tx_pendingcmd tx' = PRIMITIVE_SQLDELETE \<and> tx_outbox tx' = tx_outbox tx \<and>
     tx_callbacks tx' = tx_callbacks tx \<and> sm_alive st' = sm_alive st \<and> sm_api st' = sm_api st \<and>
     sm_queryindex st' = sm_queryindex st"
  using assms
  by (simp add: branchtotype_def continueDelete_def start_delete_def with_tx_def stmt_tx_def
      getnextpendingcmdid_def set_eventwaitcount_def current_query_def Let_def
      del: rbind_eq_Inr rmap_eq_Inr deref_eq_Inr)

theorem delete_of_nothing_hangs_witness:
  "\<exists>st' tx'. run 2 demo_se RunBranch (demo_statement [] (demo_q CMD_DELETE)) = Inr st' \<and>
     sm_transactionPtr st' = Some tx' \<and> tx_pendingcmd tx' = PRIMITIVE_SQLDELETE \<and> tx_outbox tx' = [] \<and>
     ar_reentries (sm_api st') = []"
proof -
  let ?q = "demo_q CMD_DELETE" and ?st = "demo_statement [] (demo_q CMD_DELETE)"
  have 1: "current_query ?st = Inr ?q" "qs_type ?q = CMD_DELETE" "qs_haswhere ?q" "qs_searchResults ?q = []"
    "sm_transactionPtr ?st = Some demo_tx" "tx_outbox demo_tx = []" "ar_reentries (sm_api ?st) = []"
    by (simp_all add: demo_statement_def demo_q_def query0_def current_query_def vec_at_def demo_defs
        demo_api_def)
  from delete_of_nothing_hangs [OF 1(1-5), of 0 demo_se] 1(6,7) show ?thesis
    by (auto simp: numeral_eq_Suc simp del: run.simps)
qed

section \<open>Locks\<close>

text \<open>The rows of a message that unlocks them\<close>

lemma unlock_sends:
  assumes "\<forall>(e, ids) \<in> set ers. partition_ok ev e"
  shows "\<exists>tx'. unlock_rows ev tableid ers tx = Inr tx' \<and>
     sends (concat (map (\<lambda>(e, ids). map (\<lambda>i. (e, row_rof tableid i)) ids) ers)) [] tx tx'"
proof -
  have "\<exists>t'. (case x of (engineid, rowids) \<Rightarrow> sendTransaction ev ROLLBACKCMD 0 engineid
        (message.PAYLOADCOMMITROLLBACK (commitRollbackMsg0\<lparr>cr_rofs := map (row_rof tableid) rowids\<rparr>))) t = Inr t' \<and>
      sends (case x of (e, ids) \<Rightarrow> map (\<lambda>i. (e, row_rof tableid i)) ids) [] t t'" if "x \<in> set ers" for x t
  proof -
    obtain e ids where x: "x = (e, ids)" by (cases x)
    then have "partition_ok ev e" using assms that by auto
    then show ?thesis unfolding x
      by (simp add: sendTransaction_def toPartition_in Let_def sends_def)
        (simp add: emit_def sent_rofs_def sent_ends_def sends_only_def)
  qed
  then show ?thesis
    unfolding unlock_rows_def
    using rfold_sends_items [of ers _ "\<lambda>(e, ids). map (\<lambda>i. (e, row_rof tableid i)) ids" "\<lambda>_. []" tx]
    unfolding concat_map_Nil by blast
qed

definition ids_of :: "(int \<times> int list) list \<Rightarrow> (int \<times> int) set" where
  "ids_of ers = (\<Union>(e, ids) \<in> set ers. Pair e ` set ids)"

lemma ids_of_update:
  "ids_of (um_update [] (\<lambda>ids. ids @ [i]) k ers) = insert (k, i) (ids_of ers)"
  "fst ` set (um_update [] f k ers) = insert k (fst ` set ers)"
  by (force simp: ids_of_def um_update_def map_count_def map_of_eq_None_iff split: if_splits)+

lemma and_rows_ids:
  "ids_of (snd (and_rows S right left acc)) = ids_of (snd acc) \<union>
     (\<lambda>u. (uu_engineid u, uu_rowid u)) ` {u \<in> fst ` set left. \<not> map_count u right \<and> \<not> map_count u S}"
proof (induction left arbitrary: acc)
  case (Cons x left)
  obtain u r res ers where x: "x = (u, r)" "acc = (res, ers)" by (cases x; cases acc)
  have eq: "{v \<in> fst ` set ((u, r) # left). P v} =
      (if P u then insert u {v \<in> fst ` set left. P v} else {v \<in> fst ` set left. P v})" for P :: "uuRecord \<Rightarrow> bool"
    by auto
  show ?case unfolding x eq by (simp only: and_rows.simps Cons.IH) (auto simp: ids_of_update)
qed simp

lemma and_rows_engines:
  "fst ` set (snd (and_rows S right left acc)) \<subseteq> fst ` set (snd acc) \<union> uu_engineid ` fst ` set left"
proof (induction left arbitrary: acc)
  case (Cons x left)
  obtain u r res ers where x: "x = (u, r)" "acc = (res, ers)" by (cases x; cases acc)
  show ?case unfolding x and_rows.simps by (rule subset_trans [OF Cons.IH]) (auto simp: ids_of_update)
qed simp

text \<open>C13. What an \<open>AND\<close> unlocks is exactly the rows of its left side that the right side has not found
  and that are not staged: rows that only the right side has found stay locked, and a row that the
  left side dropped is unlocked even if another part of the condition has found it.\<close>

theorem and_unlocks_left_rows:
  assumes "current_query st = Inr q" "sm_transactionPtr st = Some tx"
    and "map_of (sm_asts st) p = Some (binary_node pr OPERATOR_AND lc rc)"
    and "map_of (sm_asts st) lc = Some (done_node pl opl ls)"
    and "map_of (sm_asts st) rc = Some (done_node pl' opr rs)" "distinct [p, lc, rc]"
    and "\<forall>u \<in> fst ` set ls. partition_ok (se_tx se) (uu_engineid u)"
  shows "\<exists>st' tx'. evaluate se go p nx st = Inr (True, pr, st') \<and> sm_transactionPtr st' = Some tx' \<and>
     set (named_rofs ROLLBACKCMD tx') = set (named_rofs ROLLBACKCMD tx) \<union>
       (\<lambda>u. (uu_engineid u, row_rof (qs_tableid q) (uu_rowid u))) `
         {u \<in> fst ` set ls. \<not> map_count u rs \<and> \<not> map_count u (tx_stagedRows tx)}"
proof -
  obtain res ers where ar: "and_rows (tx_stagedRows tx) rs ls ([], []) = (res, ers)" by fastforce
  let ?items = "concat (map (\<lambda>(e, ids). map (\<lambda>i. (e, row_rof (qs_tableid q) i)) ids) ers)"
  let ?left = "{u \<in> fst ` set ls. \<not> map_count u rs \<and> \<not> map_count u (tx_stagedRows tx)}"
  have ids: "ids_of ers = (\<lambda>u. (uu_engineid u, uu_rowid u)) ` ?left"
    and keys: "fst ` set ers \<subseteq> uu_engineid ` fst ` set ls"
    using and_rows_ids [of "tx_stagedRows tx" rs ls "([], [])"]
      and_rows_engines [of "tx_stagedRows tx" rs ls "([], [])"] by (simp_all add: ar ids_of_def)
  have ok: "\<forall>(e, ids) \<in> set ers. partition_ok (se_tx se) e"
  proof clarify
    fix e ids assume "(e, ids) \<in> set ers"
    then have "e \<in> fst ` set ers" by force
    then obtain u where "u \<in> fst ` set ls" "e = uu_engineid u" using keys by blast
    then show "partition_ok (se_tx se) e" using assms(7) by blast
  qed
  obtain tx' where tx': "unlock_rows (se_tx se) (qs_tableid q) ers tx = Inr tx'" "sends ?items [] tx tx'"
    using unlock_sends [OF ok] by blast
  have "set ?items = (\<lambda>(e, i). (e, row_rof (qs_tableid q) i)) ` ids_of ers"
    by (force simp: ids_of_def)
  also have "\<dots> = (\<lambda>u. (uu_engineid u, row_rof (qs_tableid q) (uu_rowid u))) ` ?left"
    unfolding ids by (simp add: image_image)
  finally have "set (named_rofs ROLLBACKCMD tx') = set (named_rofs ROLLBACKCMD tx) \<union>
      (\<lambda>u. (uu_engineid u, row_rof (qs_tableid q) (uu_rowid u))) ` ?left"
    using tx'(2) by (simp add: sends_def)
  moreover obtain st' where "evaluate se go p nx st = Inr (True, pr, st')" "sm_transactionPtr st' = Some tx'"
    using evaluate_and_ok [OF assms(1-6) ar tx'(1)] by blast
  ultimately show ?thesis by blast
qed

definition demo_and :: statement where
  "demo_and = demo_statement
     [(2, binary_node None OPERATOR_AND 3 6),
      (3, done_node (Some 2) OPERATOR_EQ [(demo_uur_n 1, returnRow0), (demo_uur_n 2, returnRow0)]),
      (6, done_node (Some 2) OPERATOR_LT [(demo_uur_n 1, returnRow0), (demo_uur_n 3, returnRow0)])]
     (demo_q CMD_SELECT)"

theorem and_unlocks_left_rows_witness:
  "\<exists>st' tx'. evaluate demo_se (run 0 demo_se) 2 None demo_and = Inr (True, None, st') \<and>
     sm_transactionPtr st' = Some tx' \<and> set (named_rofs ROLLBACKCMD tx') = {(0, row_rof 5 2)}"
proof -
  have 1: "current_query demo_and = Inr (demo_q CMD_SELECT)" "sm_transactionPtr demo_and = Some demo_tx"
    "map_of (sm_asts demo_and) 2 = Some (binary_node None OPERATOR_AND 3 6)"
    "map_of (sm_asts demo_and) 3 =
       Some (done_node (Some 2) OPERATOR_EQ [(demo_uur_n 1, returnRow0), (demo_uur_n 2, returnRow0)])"
    "map_of (sm_asts demo_and) 6 =
       Some (done_node (Some 2) OPERATOR_LT [(demo_uur_n 1, returnRow0), (demo_uur_n 3, returnRow0)])"
    "distinct [2, 3, 6 :: nat]"
    by (simp_all add: demo_and_def demo_statement_def current_query_def vec_at_def)
  have 2: "\<forall>u \<in> fst ` set [(demo_uur_n 1, returnRow0), (demo_uur_n 2, returnRow0)].
      partition_ok (se_tx demo_se) (uu_engineid u)"
    by (simp add: partition_ok_def demo_se_def demo_env_def demo_uur_n_def)
  have 3: "{u \<in> fst ` set [(demo_uur_n 1, returnRow0), (demo_uur_n 2, returnRow0)].
      \<not> map_count u [(demo_uur_n 1, returnRow0), (demo_uur_n 3, returnRow0)] \<and>
      \<not> map_count u (tx_stagedRows demo_tx)} = {demo_uur_n 2}"
    by (auto simp: map_count_def demo_uur_n_def demo_defs)
  have 4: "named_rofs ROLLBACKCMD demo_tx = []" "qs_tableid (demo_q CMD_SELECT) = 5"
    "uu_engineid (demo_uur_n 2) = 0" "uu_rowid (demo_uur_n 2) = 2"
    by (simp_all add: demo_defs demo_q_def demo_uur_n_def)
  show ?thesis
    using and_unlocks_left_rows [where go = "run 0 demo_se" and nx = None, OF 1 2]
    unfolding 3 by (simp add: 4)
qed

end
