(* ===== verification/User_Manager.thy ===== *)
theory User_Manager
  imports Transaction_State
begin

text \<open>
  The manager of domains, users and schemata (\<open>infinisqld/UserSchemaMgr.cc\<close>). Its maps are
  objects of their own: the maps of user names and of passwords of a domain are allocated with
  \<open>new\<close>, and the member \<open>userIdToPassword\<close> keeps pointing to the map of the domain that was
  used last, also when that map was deleted. So pointers are numbers and the maps live in two
  stores. The iterators of the object, each assigned before it is read, are not members here.

  What is not in the source is an argument (\<open>managerEnv\<close>): SHA-512 of Crypto++,
  \<open>boost::lexical_cast\<close>, msgpack, and what a constructor leaves indeterminate.
\<close>

section \<open>Topics\<close>

text \<open>\<open>topic_e\<close>, with the prefix \<open>T\<close>: the actor of the engine has some of the names.\<close>

datatype topic =
    T_NONE | T_MBOXES | T_SOCKET | T_LOGIN | T_LOGINOK | T_LOGINFAIL | T_CHANGEPASSWORD
  | T_CHANGEPASSWORDOK | T_CHANGEPASSWORDFAIL | T_CREATEDOMAIN | T_CREATEDOMAINOK
  | T_CREATEDOMAINFAIL | T_CREATEUSER | T_CREATEUSEROK | T_CREATEUSERFAIL | T_DELETEUSER
  | T_DELETEUSEROK | T_DELETEUSERFAIL | T_DELETEDOMAIN | T_DELETEDOMAINOK | T_DELETEDOMAINFAIL
  | T_SCHEMAREQUEST | T_SCHEMAREPLY | T_DEADLOCKNEW | T_DEADLOCKCHANGE | T_DEADLOCKREMOVE
  | T_LOADPROCEDURE | T_TRANSACTION | T_DISPATCH | T_ACKDISPATCH | T_DEADLOCKABORT
  | T_ENDSUBTRANSACTION | T_TOPOLOGY | T_NEWPROCEDURE | T_PROCEDURE1 | T_PROCEDURE2 | T_APPLY
  | T_ACKAPPLY | T_OPERATION | T_COMPILE | T_TABLENAME | T_FIELDNAME | T_SERIALIZED
  | T_BATCHSERIALIZED | T_SOCKETCONNECTED

section \<open>State\<close>

record passwordStruct =
  clearpassword :: bytes
  pw_digest :: bytes

text \<open>A schema with the names of its tables and fields, which engines have no use for\<close>

record namedSchema = schema +
  tableNameToId :: "bytes \<rightharpoonup> int"
  fieldNameToId :: "int \<rightharpoonup> (bytes \<rightharpoonup> int)"

definition newSchema :: "int \<Rightarrow> namedSchema" where
  "newSchema domainidarg = \<lparr>sch_domainid = domainidarg, sch_nexttableid = 0, sch_tables = Map.empty,
     tableNameToId = Map.empty, fieldNameToId = Map.empty\<rparr>"

text \<open>\<open>mg_userIdToPassword\<close> is \<open>None\<close> as long as the pointer has not been assigned.\<close>

record userSchemaMgr =
  mg_operationid :: int
  mg_domainid :: int
  mg_userid :: int
  mg_status :: int
  mg_tainstance :: int
  mg_argsize :: int
  mg_schemata :: "int \<rightharpoonup> namedSchema"
  domainNameToDomainId :: "bytes \<rightharpoonup> int"
  domainIdToUserNames :: "int \<rightharpoonup> nat"
  domainIdToUserIds :: "int \<rightharpoonup> nat"
  domainIdToNextUserId :: "int \<rightharpoonup> int"
  mg_userIdToPassword :: "nat option"
  mg_pwdStruct :: passwordStruct
  mg_nextdomainid :: int
  mg_names :: "nat \<rightharpoonup> (bytes \<rightharpoonup> int)"
  mg_passwords :: "nat \<rightharpoonup> (int \<rightharpoonup> passwordStruct)"
  mg_brk :: nat
  mg_outbox :: "(addressStruct \<times> topic \<times> userSchemaMsg) list"

record managerEnv =
  ue_sha512 :: "bytes \<Rightarrow> bytes"
  ue_msgpack2Vector :: "bytes \<Rightarrow> int \<Rightarrow> bytes list res"
  ue_lexical_cast :: "bytes \<Rightarrow> int option"       \<comment> \<open>\<open>None\<close> for \<open>bad_lexical_cast\<close>\<close>
  ue_fresh :: userSchemaMsg                      \<comment> \<open>a new message; its strings are empty\<close>
  ue_indet :: int                                \<comment> \<open>see the constructor of \<open>Table\<close>\<close>

definition names_at :: "nat \<Rightarrow> userSchemaMgr \<Rightarrow> (bytes \<rightharpoonup> int) res" where
  "names_at p mg = (case mg_names mg p of None \<Rightarrow> Inl UseAfterFree | Some m \<Rightarrow> Inr m)"

definition passwords_at :: "nat \<Rightarrow> userSchemaMgr \<Rightarrow> (int \<rightharpoonup> passwordStruct) res" where
  "passwords_at p mg = (case mg_passwords mg p of None \<Rightarrow> Inl UseAfterFree | Some m \<Rightarrow> Inr m)"

definition cast_int :: "managerEnv \<Rightarrow> bytes \<Rightarrow> int res" where
  "cast_int env s = (case ue_lexical_cast env s of None \<Rightarrow> Inl UncaughtException | Some i \<Rightarrow> Inr i)"

definition set_passwords :: "nat \<Rightarrow> (int \<rightharpoonup> passwordStruct) \<Rightarrow> userSchemaMgr \<Rightarrow> userSchemaMgr" where
  "set_passwords p m mg = mg\<lparr>mg_passwords := (mg_passwords mg)(p \<mapsto> m)\<rparr>"

definition set_names :: "nat \<Rightarrow> (bytes \<rightharpoonup> int) \<Rightarrow> userSchemaMgr \<Rightarrow> userSchemaMgr" where
  "set_names p m mg = mg\<lparr>mg_names := (mg_names mg)(p \<mapsto> m)\<rparr>"

text \<open>The two maps \<open>new\<close> allocates for a domain\<close>

definition new_domain_maps :: "int \<Rightarrow> userSchemaMgr \<Rightarrow> userSchemaMgr" where
  "new_domain_maps did mg =
     (let p = mg_brk mg; q = mg_brk mg + 1
      in mg\<lparr>mg_brk := mg_brk mg + 2,
            mg_names := (mg_names mg)(p \<mapsto> Map.empty),
            mg_passwords := (mg_passwords mg)(q \<mapsto> Map.empty),
            domainIdToUserNames := (domainIdToUserNames mg)(did \<mapsto> p),
            domainIdToUserIds := (domainIdToUserIds mg)(did \<mapsto> q)\<rparr>)"

section \<open>The constructor\<close>

definition ascii_bytes :: "string \<Rightarrow> bytes" where
  "ascii_bytes s = map of_char s"

text \<open>\<open>global_name\<close> and \<open>admin_name\<close> are \<open>_global\<close> and \<open>admin\<close>.\<close>

definition global_name :: bytes where "global_name = ascii_bytes ''_global''"
definition admin_name :: bytes where "admin_name = ascii_bytes ''admin''"

text \<open>\<open>mem\<close> is the memory of the object; its maps start empty.\<close>

definition UserSchemaMgr :: "managerEnv \<Rightarrow> bytes \<Rightarrow> userSchemaMgr \<Rightarrow> userSchemaMgr" where
  "UserSchemaMgr env argstring mem =
     (let pwd = \<lparr>clearpassword = argstring, pw_digest = ue_sha512 env argstring\<rparr>
      in mem\<lparr>mg_nextdomainid := 1,
             mg_schemata := Map.empty,
             domainNameToDomainId := [global_name \<mapsto> 1],
             domainIdToUserNames := [1 \<mapsto> 0], domainIdToUserIds := [1 \<mapsto> 1],
             domainIdToNextUserId := [1 \<mapsto> 1],
             mg_userIdToPassword := None,
             mg_names := [0 \<mapsto> [admin_name \<mapsto> 1]], mg_passwords := [1 \<mapsto> [1 \<mapsto> pwd]],
             mg_brk := 2, mg_pwdStruct := pwd, mg_outbox := []\<rparr>)"

definition fieldTypeMap :: "bytes \<Rightarrow> fieldtype option" where
  "fieldTypeMap = map_of [(ascii_bytes ''int'', F_INT), (ascii_bytes ''uint'', F_UINT),
     (ascii_bytes ''bool'', F_BOOL), (ascii_bytes ''float'', F_FLOAT), (ascii_bytes ''char'', F_CHAR),
     (ascii_bytes ''charx'', F_CHARX), (ascii_bytes ''varchar'', F_VARCHAR)]"

definition indexTypeMap :: "bytes \<Rightarrow> indextype option" where
  "indexTypeMap = map_of [(ascii_bytes ''none'', NONE), (ascii_bytes ''unique'', UNIQUE),
     (ascii_bytes ''nonunique'', NONUNIQUE), (ascii_bytes ''unordered'', UNORDERED),
     (ascii_bytes ''uniquenotnull'', UNIQUENOTNULL), (ascii_bytes ''nonuniquenotnull'', NONUNIQUENOTNULL),
     (ascii_bytes ''unorderednotnull'', UNORDEREDNOTNULL)]"

section \<open>Replies\<close>

definition mgr_send :: "addressStruct \<Rightarrow> topic \<Rightarrow> userSchemaMsg \<Rightarrow> userSchemaMgr \<Rightarrow> userSchemaMgr" where
  "mgr_send dest t msg mg = mg\<lparr>mg_outbox := mg_outbox mg @ [(dest, t, msg)]\<rparr>"

definition mgr_reply :: "addressStruct \<Rightarrow> topic \<Rightarrow> userSchemaMsg \<Rightarrow> userSchemaMgr \<Rightarrow> userSchemaMgr" where
  "mgr_reply dest t msg mg =
     mgr_send dest t
       (msg\<lparr>um_userschemaStruct := (um_userschemaStruct msg)
              \<lparr>us_operationid := mg_operationid mg, us_domainid := mg_domainid mg,
               us_userid := mg_userid mg, us_status := mg_status mg\<rparr>\<rparr>) mg"

section \<open>Domains and users\<close>

definition getnextdomainid :: "userSchemaMgr \<Rightarrow> int \<times> userSchemaMgr" where
  "getnextdomainid mg = (mg_nextdomainid mg + 1, mg\<lparr>mg_nextdomainid := mg_nextdomainid mg + 1\<rparr>)"

definition getnextuserid :: "int \<Rightarrow> userSchemaMgr \<Rightarrow> int \<times> userSchemaMgr" where
  "getnextuserid argdomainid mg =
     (case domainIdToNextUserId mg argdomainid of
        None \<Rightarrow> (- 1, mg)
      | Some u \<Rightarrow>
          (u + 1, mg\<lparr>domainIdToNextUserId := (domainIdToNextUserId mg)(argdomainid \<mapsto> u + 1)\<rparr>))"

text \<open>\<open>rv\<close> is \<open>resultVector\<close>: the name of the domain, of the user and the password.\<close>

definition mgr_login :: "managerEnv \<Rightarrow> addressStruct \<Rightarrow> bytes list \<Rightarrow> userSchemaMgr \<Rightarrow>
    userSchemaMgr res" where
  "mgr_login env src rv mg =
     rbind (vec_at 0 rv) (\<lambda>dname.
     case domainNameToDomainId mg dname of
       None \<Rightarrow> Inr (mgr_reply src T_LOGINFAIL (ue_fresh env) mg)
     | Some did \<Rightarrow>
     (case domainIdToUserNames mg did of
       None \<Rightarrow> Inr (mgr_reply src T_LOGINFAIL (ue_fresh env) mg)
     | Some p \<Rightarrow>
     rbind (names_at p mg) (\<lambda>names.
     rbind (vec_at 1 rv) (\<lambda>uname.
     case names uname of
       None \<Rightarrow> Inr (mgr_reply src T_LOGINFAIL (ue_fresh env) mg)
     | Some uid \<Rightarrow>
     rbind (deref (domainIdToUserIds mg did)) (\<lambda>q.
     let mg1 = mg\<lparr>mg_userIdToPassword := Some q\<rparr> in
     rbind (passwords_at q mg1) (\<lambda>passwords.
     case passwords uid of
       None \<Rightarrow> Inr (mgr_reply src T_LOGINFAIL (ue_fresh env) mg1)
     | Some pwd \<Rightarrow>
     let mg2 = mg1\<lparr>mg_pwdStruct := pwd\<rparr> in
     rbind (vec_at 2 rv) (\<lambda>password.
       if pw_digest pwd \<noteq> ue_sha512 env password
       then Inr (mgr_reply src T_LOGINFAIL (ue_fresh env) mg2)
       else Inr (mgr_reply src T_LOGINOK ((ue_fresh env)\<lparr>um_domainname := dname\<rparr>)
                   (mg2\<lparr>mg_userid := uid, mg_domainid := did\<rparr>)))))))))"

text \<open>The test of \<open>domainid\<close> is not followed by an assignment of \<open>userIdToPassword\<close>.\<close>

definition mgr_changepassword :: "managerEnv \<Rightarrow> addressStruct \<Rightarrow> bytes list \<Rightarrow> userSchemaMgr \<Rightarrow>
    userSchemaMgr res" where
  "mgr_changepassword env src rv mg =
     (if domainIdToUserIds mg (mg_domainid mg) = None
      then Inr (mgr_reply src T_CHANGEPASSWORDFAIL (ue_fresh env) mg)
      else case mg_userIdToPassword mg of
        None \<Rightarrow> Inl WildPointer
      | Some q \<Rightarrow>
        rbind (passwords_at q mg) (\<lambda>passwords.
        case passwords (mg_userid mg) of
          None \<Rightarrow> Inr (mgr_reply src T_CHANGEPASSWORDFAIL (ue_fresh env) mg)
        | Some pwd \<Rightarrow>
          rbind (vec_at 0 rv) (\<lambda>password.
            Inr (mgr_reply src T_CHANGEPASSWORDOK (ue_fresh env)
              (set_passwords q (passwords(mg_userid mg \<mapsto> pwd\<lparr>pw_digest := ue_sha512 env password\<rparr>))
                 mg)))))"

definition is_global_admin :: "userSchemaMgr \<Rightarrow> bool" where
  "is_global_admin mg = (mg_domainid mg = 1 \<and> mg_userid mg = 1)"

definition mgr_createdomain :: "managerEnv \<Rightarrow> addressStruct \<Rightarrow> bytes list \<Rightarrow> userSchemaMgr \<Rightarrow>
    userSchemaMgr res" where
  "mgr_createdomain env src rv mg =
     (if \<not> is_global_admin mg then Inr (mgr_reply src T_CREATEDOMAINFAIL (ue_fresh env) mg)
      else rbind (vec_at 0 rv) (\<lambda>dname.
        if domainNameToDomainId mg dname \<noteq> None
        then Inr (mgr_reply src T_CREATEDOMAINFAIL (ue_fresh env) mg)
        else
          let (newdomainid, mg1) = getnextdomainid mg;
              mg2 = mg1\<lparr>domainNameToDomainId := (domainNameToDomainId mg1)(dname \<mapsto> newdomainid)\<rparr>;
              mg3 = new_domain_maps newdomainid mg2;
              mg4 = mg3\<lparr>domainIdToNextUserId := (domainIdToNextUserId mg3)(newdomainid \<mapsto> 0),
                        mg_domainid := newdomainid\<rparr>
          in Inr (mgr_reply src T_CREATEDOMAINOK (ue_fresh env) mg4)))"

definition mgr_createuser :: "managerEnv \<Rightarrow> addressStruct \<Rightarrow> bytes list \<Rightarrow> userSchemaMgr \<Rightarrow>
    userSchemaMgr res" where
  "mgr_createuser env src rv mg =
     (if \<not> is_global_admin mg then Inr (mgr_reply src T_CREATEUSERFAIL (ue_fresh env) mg)
      else rbind (vec_at 0 rv) (\<lambda>dname.
      case domainNameToDomainId mg dname of
        None \<Rightarrow> Inr (mgr_reply src T_CREATEUSERFAIL (ue_fresh env) mg)
      | Some did \<Rightarrow>
      (case domainIdToUserNames mg did of
        None \<Rightarrow> Inr (mgr_reply src T_CREATEUSERFAIL (ue_fresh env) mg)
      | Some p \<Rightarrow>
      rbind (names_at p mg) (\<lambda>names.
      rbind (vec_at 1 rv) (\<lambda>uname.
      if names uname \<noteq> None then Inr (mgr_reply src T_CREATEUSERFAIL (ue_fresh env) mg)
      else
        let (newuserid, mg1) = getnextuserid did mg;
            mg2 = set_names p (names(uname \<mapsto> newuserid)) mg1 in
        rbind (deref (domainIdToUserIds mg2 did)) (\<lambda>q.
        rbind (vec_at 2 rv) (\<lambda>password.
        let pwd = (mg_pwdStruct mg2)\<lparr>pw_digest := ue_sha512 env password\<rparr> in
        rbind (passwords_at q mg2) (\<lambda>passwords.
        let mg3 = (set_passwords q (passwords(newuserid \<mapsto> pwd)) mg2)
                    \<lparr>mg_userIdToPassword := Some q, mg_pwdStruct := pwd,
                     mg_domainid := did, mg_userid := newuserid\<rparr>
        in Inr (mgr_reply src T_CREATEUSEROK (ue_fresh env) mg3)))))))))"

text \<open>The second, equal test for the user names is that of the source.\<close>

definition mgr_deleteuser :: "managerEnv \<Rightarrow> addressStruct \<Rightarrow> bytes list \<Rightarrow> userSchemaMgr \<Rightarrow>
    userSchemaMgr res" where
  "mgr_deleteuser env src rv mg =
     (if \<not> is_global_admin mg then Inr (mgr_reply src T_DELETEUSERFAIL (ue_fresh env) mg)
      else rbind (vec_at 0 rv) (\<lambda>dname.
      case domainNameToDomainId mg dname of
        None \<Rightarrow> Inr (mgr_reply src T_DELETEUSERFAIL (ue_fresh env) mg)
      | Some did \<Rightarrow>
      let mg1 = mg\<lparr>mg_domainid := did\<rparr> in
      (case domainIdToUserNames mg1 did of
        None \<Rightarrow> Inr (mgr_reply src T_DELETEUSERFAIL (ue_fresh env) mg1)
      | Some p \<Rightarrow>
      rbind (names_at p mg1) (\<lambda>names.
      rbind (vec_at 1 rv) (\<lambda>uname.
      case names uname of
        None \<Rightarrow> Inr (mgr_reply src T_DELETEUSERFAIL (ue_fresh env) mg1)
      | Some uid \<Rightarrow>
      let mg2 = (set_names p (names(uname := None)) mg1)\<lparr>mg_userid := uid\<rparr> in
      (case domainIdToUserIds mg2 did of
        None \<Rightarrow> Inr (mgr_reply src T_DELETEUSERFAIL (ue_fresh env) mg2)
      | Some q \<Rightarrow>
        rbind (passwords_at q mg2) (\<lambda>passwords.
        Inr (mgr_reply src T_DELETEUSEROK (ue_fresh env)
          ((set_passwords q (passwords(uid := None)) mg2)\<lparr>mg_userIdToPassword := Some q\<rparr>)))))))))"

text \<open>\<open>delete\<close> of the map a pointer points to; of \<open>NULL\<close>, the default of \<open>[]\<close>, it does nothing.\<close>

definition delete_names :: "nat option \<Rightarrow> userSchemaMgr \<Rightarrow> userSchemaMgr res" where
  "delete_names p mg =
     (case p of
        None \<Rightarrow> Inr mg
      | Some a \<Rightarrow> if mg_names mg a = None then Inl DoubleFree
                  else Inr (mg\<lparr>mg_names := (mg_names mg)(a := None)\<rparr>))"

definition delete_passwords :: "nat option \<Rightarrow> userSchemaMgr \<Rightarrow> userSchemaMgr res" where
  "delete_passwords p mg =
     (case p of
        None \<Rightarrow> Inr mg
      | Some a \<Rightarrow> if mg_passwords mg a = None then Inl DoubleFree
                  else Inr (mg\<lparr>mg_passwords := (mg_passwords mg)(a := None)\<rparr>))"

definition mgr_deletedomain :: "managerEnv \<Rightarrow> addressStruct \<Rightarrow> bytes list \<Rightarrow> userSchemaMgr \<Rightarrow>
    userSchemaMgr res" where
  "mgr_deletedomain env src rv mg =
     (if \<not> is_global_admin mg then Inr (mgr_reply src T_DELETEDOMAINFAIL (ue_fresh env) mg)
      else rbind (vec_at 0 rv) (\<lambda>dname.
      case domainNameToDomainId mg dname of
        None \<Rightarrow> Inr (mgr_reply src T_DELETEDOMAINFAIL (ue_fresh env) mg)
      | Some did \<Rightarrow>
        rbind (delete_names (domainIdToUserNames mg did) (mg\<lparr>mg_domainid := did\<rparr>)) (\<lambda>mg1.
        rbind (delete_passwords (domainIdToUserIds mg did) mg1) (\<lambda>mg2.
        Inr (mgr_reply src T_DELETEDOMAINOK (ue_fresh env)
          (mg2\<lparr>domainIdToUserNames := (domainIdToUserNames mg2)(did := None),
               domainIdToUserIds := (domainIdToUserIds mg2)(did := None),
               domainIdToNextUserId := (domainIdToNextUserId mg2)(did := None),
               domainNameToDomainId := (domainNameToDomainId mg2)(dname := None)\<rparr>))))))"

section \<open>Schemata\<close>

text \<open>\<open>rcv\<close> is the message received; each builtin is called with \<open>STARTCMD\<close> only.\<close>

definition mgr_createschema :: "managerEnv \<Rightarrow> addressStruct \<Rightarrow> userSchemaMsg \<Rightarrow> userSchemaMgr \<Rightarrow>
    userSchemaMgr" where
  "mgr_createschema env src rcv mg =
     (let d = us_domainid (um_userschemaStruct rcv);
          mg1 = (if mg_schemata mg d \<noteq> None then mg\<lparr>mg_status := BUILTIN_STATUS_NOTOK\<rparr>
                 else mg\<lparr>mg_schemata := (mg_schemata mg)(d \<mapsto> newSchema d),
                         mg_status := BUILTIN_STATUS_OK\<rparr>)
      in mgr_reply src T_SCHEMAREPLY (ue_fresh env) mg1)"

definition mgr_createtable :: "managerEnv \<Rightarrow> addressStruct \<Rightarrow> bytes list \<Rightarrow> userSchemaMgr \<Rightarrow>
    userSchemaMgr res" where
  "mgr_createtable env src rv mg =
     (case mg_schemata mg (mg_domainid mg) of
        None \<Rightarrow> Inr (mgr_reply src T_SCHEMAREPLY (ue_fresh env) (mg\<lparr>mg_status := BUILTIN_STATUS_NOTOK\<rparr>))
      | Some s \<Rightarrow>
        rbind (vec_at 0 rv) (\<lambda>name.
        if tableNameToId s name \<noteq> None
        then Inr (mgr_reply src T_SCHEMAREPLY (ue_fresh env) (mg\<lparr>mg_status := BUILTIN_STATUS_NOTOK\<rparr>))
        else
          let (tid, s1) = getnexttableid s;
              (r, s2) = createTable (ue_indet env) tid s1
          in if r \<noteq> STATUS_OK
             then Inr (mgr_reply src T_SCHEMAREPLY (ue_fresh env)
                    (mg\<lparr>mg_schemata := (mg_schemata mg)(mg_domainid mg \<mapsto> s2),
                        mg_status := BUILTIN_STATUS_NOTOK\<rparr>))
             else Inr (mgr_reply src T_SCHEMAREPLY
                    ((ue_fresh env)\<lparr>um_userschemaStruct := (um_userschemaStruct (ue_fresh env))
                                      \<lparr>us_tableid := tid, us_domainid := mg_domainid mg\<rparr>,
                                    um_argstring := name\<rparr>)
                    (mg\<lparr>mg_schemata := (mg_schemata mg)(mg_domainid mg \<mapsto>
                           s2\<lparr>tableNameToId := (tableNameToId s2)(name \<mapsto> tid)\<rparr>),
                        mg_status := BUILTIN_STATUS_OK\<rparr>))))"

text \<open>\<open>fieldNameToId[tid][name] = i\<close>\<close>

definition set_fieldName :: "int \<Rightarrow> bytes \<Rightarrow> int \<Rightarrow> namedSchema \<Rightarrow> namedSchema" where
  "set_fieldName tid name i s =
     s\<lparr>fieldNameToId := (fieldNameToId s)(tid \<mapsto>
          (case fieldNameToId s tid of None \<Rightarrow> Map.empty | Some m \<Rightarrow> m)(name \<mapsto> i))\<rparr>"

definition mgr_schema_notok :: "managerEnv \<Rightarrow> addressStruct \<Rightarrow> userSchemaMgr \<Rightarrow> userSchemaMgr" where
  "mgr_schema_notok env src mg =
     mgr_reply src T_SCHEMAREPLY (ue_fresh env) (mg\<lparr>mg_status := BUILTIN_STATUS_NOTOK\<rparr>)"

definition mgr_addcolumn :: "managerEnv \<Rightarrow> addressStruct \<Rightarrow> bytes list \<Rightarrow> userSchemaMgr \<Rightarrow>
    userSchemaMgr res" where
  "mgr_addcolumn env src rv mg =
     rbind (vec_at 0 rv) (\<lambda>a0. rbind (cast_int env a0) (\<lambda>tid.
     rbind (vec_at 1 rv) (\<lambda>stringtype.
     rbind (vec_at 2 rv) (\<lambda>a2. rbind (cast_int env a2) (\<lambda>len0.
     rbind (vec_at 3 rv) (\<lambda>name.
     rbind (vec_at 4 rv) (\<lambda>stringidxtype.
     case fieldTypeMap stringtype of
       None \<Rightarrow> Inr (mgr_schema_notok env src mg)
     | Some t \<Rightarrow>
     let len = (if t \<noteq> F_CHARX then 0 else len0) in
     (case indexTypeMap stringidxtype of
       None \<Rightarrow> Inr (mgr_schema_notok env src mg)
     | Some idxtype \<Rightarrow>
     (case mg_schemata mg (mg_domainid mg) of
       None \<Rightarrow> Inr (mgr_schema_notok env src mg)
     | Some s \<Rightarrow>
     (case sch_tables s tid of
       None \<Rightarrow> Inr (mgr_schema_notok env src mg)
     | Some tb \<Rightarrow>
       if columnNameToFieldMap tb name \<noteq> None then Inr (mgr_schema_notok env src mg)
       else
         let (fid, tb') = addfield t (nat len) name idxtype tb;
             s' = set_fieldName tid name fid (s\<lparr>sch_tables := (sch_tables s)(tid \<mapsto> tb')\<rparr>);
             mg' = mg\<lparr>mg_schemata := (mg_schemata mg)(mg_domainid mg \<mapsto> s'),
                      mg_status := BUILTIN_STATUS_OK\<rparr>
         in Inr (mgr_reply src T_SCHEMAREPLY
              ((ue_fresh env)\<lparr>um_userschemaStruct := (um_userschemaStruct (ue_fresh env))
                 \<lparr>us_fieldid := fid, us_tableid := tid, us_fieldlen := len, us_fieldtype := t,
                  us_indextype := idxtype, us_domainid := mg_domainid mg, us_argsize := 0\<rparr>,
               um_argstring := name\<rparr>) mg')))))))))))"

text \<open>\<open>deleteindex\<close>, \<open>deletetable\<close> and \<open>deleteschema\<close> only reply.\<close>

definition mgr_deletebuiltin :: "managerEnv \<Rightarrow> addressStruct \<Rightarrow> userSchemaMgr \<Rightarrow> userSchemaMgr" where
  "mgr_deletebuiltin env src mg =
     mgr_reply src T_SCHEMAREPLY (ue_fresh env) (mg\<lparr>mg_status := BUILTIN_STATUS_OK\<rparr>)"

section \<open>Logins of SQL sessions\<close>

text \<open>
  The digest of the password is compared with the member \<open>pwdStruct\<close>, not with the \<open>pwd\<close>
  that was looked up. The result is the status with \<open>*did\<close> and \<open>*uid\<close>.
\<close>

definition operationLogin :: "managerEnv \<Rightarrow> bytes \<Rightarrow> bytes \<Rightarrow> bytes \<Rightarrow> int \<Rightarrow> int \<Rightarrow> userSchemaMgr \<Rightarrow>
    (status \<times> int \<times> int) res" where
  "operationLogin env username domainname password uid0 did0 mg =
     (case domainNameToDomainId mg domainname of
        None \<Rightarrow> Inr (STATUS_NOTOK, uid0, did0)
      | Some did \<Rightarrow>
      (case domainIdToUserNames mg did of
        None \<Rightarrow> Inr (STATUS_NOTOK, uid0, did)
      | Some p \<Rightarrow>
      rbind (names_at p mg) (\<lambda>names.
      case names username of
        None \<Rightarrow> Inr (STATUS_NOTOK, uid0, did)
      | Some uid \<Rightarrow>
      rbind (deref (domainIdToUserIds mg did)) (\<lambda>q.
      rbind (passwords_at q mg) (\<lambda>passwords.
      case passwords uid of
        None \<Rightarrow> Inr (STATUS_NOTOK, uid, did)
      | Some pwd \<Rightarrow>
        if pw_digest (mg_pwdStruct mg) \<noteq> ue_sha512 env password then Inr (STATUS_NOTOK, uid, did)
        else Inr (STATUS_OK, uid, did))))))"

definition operationHandler :: "managerEnv \<Rightarrow> addressStruct \<Rightarrow> userSchemaMsg \<Rightarrow> userSchemaMgr \<Rightarrow>
    userSchemaMgr res" where
  "operationHandler env src rcv mg =
     (let f = um_userschemaStruct (ue_fresh env); r = um_userschemaStruct rcv;
          done = (\<lambda>msg us. mgr_send src T_OPERATION
            (msg\<lparr>um_userschemaStruct := us\<lparr>us_operationid := us_operationid r, us_caller := us_caller r,
                                            us_callerstate := us_callerstate r\<rparr>\<rparr>) mg)
      in case us_operationtype r of
           OPERATION_LOGIN \<Rightarrow>
             rmap (\<lambda>(s, uid, did).
                done ((ue_fresh env)\<lparr>um_domainname := um_domainname rcv\<rparr>)
                  (f\<lparr>us_userid := uid, us_domainid := did,
                     us_status := (if s = STATUS_OK then 0 else 1)\<rparr>))
               (operationLogin env (um_username rcv) (um_domainname rcv) (um_password rcv)
                  (us_userid f) (us_domainid f) mg)
         | OPERATION_NONE \<Rightarrow> Inr (done (ue_fresh env) f))"

section \<open>The actor\<close>

definition mgr_builtin :: "managerEnv \<Rightarrow> addressStruct \<Rightarrow> userSchemaMsg \<Rightarrow> bytes list \<Rightarrow> userSchemaMgr \<Rightarrow>
    userSchemaMgr res" where
  "mgr_builtin env src rcv rv mg =
     (let cmd = us_builtincmd (um_userschemaStruct rcv)
      in if cmd = BUILTINCREATESCHEMA then Inr (mgr_createschema env src rcv mg)
         else if cmd = BUILTINCREATETABLE then mgr_createtable env src rv mg
         else if cmd = BUILTINADDCOLUMN then mgr_addcolumn env src rv mg
         else if cmd \<in> {BUILTINDELETEINDEX, BUILTINDELETETABLE, BUILTINDELETESCHEMA}
           then Inr (mgr_deletebuiltin env src mg)
         else Inr mg)"

definition mgr_dispatch :: "managerEnv \<Rightarrow> addressStruct \<Rightarrow> topic \<Rightarrow> userSchemaMsg \<Rightarrow> bytes list \<Rightarrow>
    userSchemaMgr \<Rightarrow> userSchemaMgr res" where
  "mgr_dispatch env src t rcv rv mg =
     (case t of
        T_LOGIN \<Rightarrow> mgr_login env src rv mg
      | T_CHANGEPASSWORD \<Rightarrow> mgr_changepassword env src rv mg
      | T_CREATEDOMAIN \<Rightarrow> mgr_createdomain env src rv mg
      | T_CREATEUSER \<Rightarrow> mgr_createuser env src rv mg
      | T_DELETEUSER \<Rightarrow> mgr_deleteuser env src rv mg
      | T_DELETEDOMAIN \<Rightarrow> mgr_deletedomain env src rv mg
      | T_SCHEMAREQUEST \<Rightarrow> mgr_builtin env src rcv rv mg
      | T_OPERATION \<Rightarrow> operationHandler env src rcv mg
      | _ \<Rightarrow> Inr mg)"

text \<open>One round of the loop; the update of the mailboxes for \<open>TOPIC_TOPOLOGY\<close> is not modelled.\<close>

definition mgr_message :: "managerEnv \<Rightarrow> addressStruct \<times> topic \<times> userSchemaMsg \<Rightarrow> userSchemaMgr \<Rightarrow>
    userSchemaMgr res" where
  "mgr_message env m mg =
     (let (src, t, rcv) = m; u = um_userschemaStruct rcv
      in if t \<in> {T_TOPOLOGY, T_OPERATION, T_NONE} then mgr_dispatch env src t rcv [] mg
         else
           let mg1 = mg\<lparr>mg_argsize := us_argsize u, mg_tainstance := us_instance u,
                        mg_operationid := us_operationid u, mg_domainid := us_domainid u,
                        mg_userid := us_userid u\<rparr>
           in rbind (ue_msgpack2Vector env (um_argstring rcv) (us_argsize u)) (\<lambda>rv.
                mgr_dispatch env src t rcv rv mg1))"

text \<open>The states of the manager, from its constructor on, over the messages it survives\<close>

inductive mgr_reaches :: "managerEnv \<Rightarrow> userSchemaMgr \<Rightarrow> bool" where
  start: "mgr_reaches env (UserSchemaMgr env argstring mem)"
| step: "mgr_reaches env mg \<Longrightarrow> mgr_message env m mg = Inr mg' \<Longrightarrow> mgr_reaches env mg'"

end
