(* ===== verification/Agent_State.thy ===== *)
theory Agent_State
  imports User_Manager
begin

text \<open>
  The state of a transaction agent outside its transactions: the users that are logged in on its
  sockets, the operations it waits for (\<open>infinisqld/Operation.cc\<close>), its schemata and procedures,
  and the appliers of replication (\<open>infinisqld/Applier.cc\<close>, \<open>infinisqld/TransactionAgent.h\<close>); with
  what it sends and answers, as logs. \<open>Mboxes::toActor\<close>, \<open>toUserSchemaMgr\<close> and \<open>toAllOfType\<close> are
  here; the sockets are not: that a response is written at once, or kept for later, is not
  distinguished.
\<close>

section \<open>Operations\<close>

definition OP_AUTH :: int where "OP_AUTH = 1"
definition OP_SCHEMA :: int where "OP_SCHEMA = 2"

datatype state_schema = usm | tasengines

record schemastruct =
  sd_builtincmd :: int
  sd_state :: state_schema
  sd_msgwaits :: int

record operation =
  op_type :: int
  op_sockfd :: int
  op_userid :: int
  op_domainid :: int
  op_domainName :: bytes
  op_schemaData :: schemastruct

record authInfo =
  au_domainid :: int
  au_userid :: int
  au_domainName :: bytes

record applier =
  al_domainid :: int
  al_sourceAddr :: addressStruct
  al_partitioncount :: int

section \<open>The agent\<close>

datatype agentOut =
    AgentMsg addressStruct topic userSchemaMsg
  | AgentAckDispatch addressStruct int status       \<comment> \<open>transaction id and status\<close>
  | AgentApply int applyMsg                         \<comment> \<open>\<open>toPartition\<close>\<close>
  | AgentPgLogin int int userSchemaMsg              \<comment> \<open>call of \<open>Pg::continueLogin\<close>\<close>
  | AgentProcedure bytes                            \<comment> \<open>call of the creator of a stored procedure\<close>

text \<open>
  An operation is deleted when it leaves \<open>pendingOperations\<close>, where \<open>operationPtr\<close> (its id)
  points. A deleted applier may stay in \<open>Appliers\<close>, as \<open>None\<close>.
\<close>

record agent =
  ag_domainid :: int
  ag_userid :: int
  ag_argsize :: int
  ag_sockfd :: int
  ag_operationid :: int
  ag_status :: int
  ag_tainstance :: int
  ag_args :: bytes
  ag_operation :: bytes
  ag_domainName :: bytes
  ag_responseVector :: "bytes list"
  ag_operationPtr :: "int option"
  ag_pendingOperations :: "int \<rightharpoonup> operation"
  ag_operationidcounter :: int
  ag_loggedInUsers :: "int \<rightharpoonup> authInfo"
  ag_schemata :: "int \<rightharpoonup> namedSchema option"      \<comment> \<open>\<open>[]\<close> on an absent key leaves a null pointer\<close>
  ag_procedures :: "int \<rightharpoonup> (bytes \<rightharpoonup> procedures_s)"
  ag_statements :: "int \<rightharpoonup> (bytes \<rightharpoonup> bytes)"   \<comment> \<open>prepared statements, by their text\<close>
  ag_Appliers :: "int \<rightharpoonup> applier option"
  ag_nextapplierid :: int
  ag_nexttransactionid :: int
  ag_Pgs :: "int list"
  ag_outbox :: "agentOut list"
  ag_responses :: "(int \<times> status \<times> bytes list) list"
  ag_closed :: "int list"

text \<open>
  What is not in the source, or not of the agent: msgpack, \<open>boost::lexical_cast\<close> to a string, a
  message and an operation as their constructors leave them, the parser of SQL, the numbers of the actor types and of the first actor
  (from a generated header), the topology, \<open>dlopen\<close> with \<open>dlsym\<close>, \<open>SpookyHash\<close>, and the
  configuration.
\<close>

record agentEnv =
  ae_msgpack2Vector :: "bytes \<Rightarrow> int \<Rightarrow> bytes list res"
  ae_to_string :: "int \<Rightarrow> bytes"
  ae_fresh :: userSchemaMsg
  ae_newOperation :: operation         \<comment> \<open>the memory of a new operation\<close>
  ae_indet :: int
  ae_instance :: int
  ae_address :: addressStruct
  ae_nodeid :: int
  ae_userSchemaMgr :: addressStruct
  ae_allActors :: "int list list"
  ae_FIRSTACTORID :: nat
  ae_TRANSACTIONAGENT :: int
  ae_ENGINE :: int
  ae_nodeAgents :: int                 \<comment> \<open>\<open>nodeTopology.numtransactionagents\<close>\<close>
  ae_nodeEngines :: int
  ae_numpartitions :: int              \<comment> \<open>\<open>myTopology.numpartitions\<close>\<close>
  ae_producers :: nat                  \<comment> \<open>the partitions \<open>mboxes\<close> knows\<close>
  ae_hash64 :: "bytes \<Rightarrow> u64"
  ae_parses :: "bytes \<Rightarrow> bool"           \<comment> \<open>whether \<open>Larxer\<close> makes a statement of the text\<close>
  ae_dlsym :: "bytes \<Rightarrow> bytes \<Rightarrow> procedures_s option"
  ae_badloginmessages :: bool
  ae_anonymousping :: bool

section \<open>Messages\<close>

definition ag_send :: "agentOut \<Rightarrow> agent \<Rightarrow> agent" where
  "ag_send m ag = ag\<lparr>ag_outbox := ag_outbox ag @ [m]\<rparr>"

definition toUserSchemaMgr :: "agentEnv \<Rightarrow> topic \<Rightarrow> userSchemaMsg \<Rightarrow> agent \<Rightarrow> agent" where
  "toUserSchemaMgr env t msg = ag_send (AgentMsg (ae_userSchemaMgr env) t msg)"

text \<open>The actors of a type, from node 1 on\<close>

definition actors_of_type :: "agentEnv \<Rightarrow> int \<Rightarrow> addressStruct list" where
  "actors_of_type env actortype =
     concat (map (\<lambda>n. map (\<lambda>m. \<lparr>ad_nodeid = int n, ad_actorid = int m\<rparr>)
         (filter (\<lambda>m. ae_allActors env ! n ! m = actortype)
            [ae_FIRSTACTORID env..<length (ae_allActors env ! n)]))
       [1..<length (ae_allActors env)])"

definition toAllOfType :: "agentEnv \<Rightarrow> int \<Rightarrow> topic \<Rightarrow> userSchemaMsg \<Rightarrow> agent \<Rightarrow> int \<times> agent" where
  "toAllOfType env actortype t msg ag =
     (let addrs = actors_of_type env actortype
      in (int (length addrs), fold (\<lambda>a. ag_send (AgentMsg a t msg)) addrs ag))"

text \<open>\<open>usmReply\<close>, by the agent\<close>

definition ag_usmReply :: "addressStruct \<Rightarrow> topic \<Rightarrow> userSchemaMsg \<Rightarrow> agent \<Rightarrow> agent" where
  "ag_usmReply dest t msg ag =
     ag_send (AgentMsg dest t
       (msg\<lparr>um_userschemaStruct := (um_userschemaStruct msg)
              \<lparr>us_operationid := ag_operationid ag, us_domainid := ag_domainid ag,
               us_userid := ag_userid ag, us_status := ag_status ag\<rparr>\<rparr>)) ag"

definition sendResponse :: "status \<Rightarrow> bytes list \<Rightarrow> agent \<Rightarrow> agent" where
  "sendResponse resultCode response ag =
     ag\<lparr>ag_responses := ag_responses ag @ [(ag_sockfd ag, resultCode, response)]\<rparr>"

definition endConnection :: "agent \<Rightarrow> agent" where
  "endConnection ag =
     ag\<lparr>ag_closed := ag_closed ag @ [ag_sockfd ag],
        ag_loggedInUsers := (ag_loggedInUsers ag)(ag_sockfd ag := None)\<rparr>"

text \<open>\<open>domainidsToSchemata[d]\<close>, which leaves a null pointer where there is no schema\<close>

definition touch_schema :: "int \<Rightarrow> agent \<Rightarrow> agent" where
  "touch_schema d ag =
     (if ag_schemata ag d = None then ag\<lparr>ag_schemata := (ag_schemata ag)(d \<mapsto> None)\<rparr> else ag)"

definition schema_at :: "int \<Rightarrow> agent \<Rightarrow> namedSchema res" where
  "schema_at d ag = rbind (deref (ag_schemata ag d)) deref"

section \<open>Operations, their creation and end\<close>

text \<open>The members the constructor leaves alone are those of the memory.\<close>

definition Operation :: "agentEnv \<Rightarrow> int \<Rightarrow> int \<Rightarrow> int \<Rightarrow> agent \<Rightarrow> int \<times> agent" where
  "Operation env typearg uid did ag =
     (let mem = ae_newOperation env; i = ag_operationidcounter ag + 1;
          sd = (if typearg = OP_SCHEMA
                then (op_schemaData mem)\<lparr>sd_msgwaits := ae_nodeAgents env + ae_nodeEngines env\<rparr>
                else op_schemaData mem);
          op = mem\<lparr>op_type := typearg, op_sockfd := ag_sockfd ag, op_userid := uid, op_domainid := did,
                   op_domainName := [], op_schemaData := sd\<rparr>
      in (i, ag\<lparr>ag_operationidcounter := i,
                ag_pendingOperations := (ag_pendingOperations ag)(i \<mapsto> op)\<rparr>))"

definition op_at :: "int option \<Rightarrow> agent \<Rightarrow> operation res" where
  "op_at p ag = rbind (deref p) (\<lambda>i.
     case ag_pendingOperations ag i of None \<Rightarrow> Inl UseAfterFree | Some op \<Rightarrow> Inr op)"

text \<open>A write through \<open>operationPtr\<close>\<close>

definition on_operation :: "(operation \<Rightarrow> operation) \<Rightarrow> agent \<Rightarrow> agent res" where
  "on_operation f ag =
     rmap (\<lambda>op. ag\<lparr>ag_pendingOperations :=
                    (ag_pendingOperations ag)(the (ag_operationPtr ag) \<mapsto> f op)\<rparr>)
       (op_at (ag_operationPtr ag) ag)"

definition sd_update :: "(schemastruct \<Rightarrow> schemastruct) \<Rightarrow> operation \<Rightarrow> operation" where
  "sd_update f op = op\<lparr>op_schemaData := f (op_schemaData op)\<rparr>"

definition setbuiltincmd :: "int \<Rightarrow> operation \<Rightarrow> operation" where
  "setbuiltincmd cmd = sd_update (\<lambda>sd. sd\<lparr>sd_builtincmd := cmd\<rparr>)"

definition setDomainName :: "bytes \<Rightarrow> operation \<Rightarrow> operation" where
  "setDomainName name op = op\<lparr>op_domainName := name\<rparr>"

text \<open>\<open>delete\<close> of what \<open>[]\<close> finds, or of a null pointer\<close>

definition endOperation :: "agent \<Rightarrow> agent" where
  "endOperation ag = ag\<lparr>ag_pendingOperations := (ag_pendingOperations ag)(ag_operationid ag := None)\<rparr>"

text \<open>The answer to the login of an SQL session\<close>

definition handleOperation :: "int \<Rightarrow> userSchemaMsg \<Rightarrow> agent \<Rightarrow> agent res" where
  "handleOperation i rcv ag =
     (if us_caller (um_userschemaStruct rcv) \<noteq> 1 then Inr ag
      else rbind (op_at (Some i) ag) (\<lambda>op.
        if op_sockfd op \<in> set (ag_Pgs ag)
        then Inr ((ag_send (AgentPgLogin (op_sockfd op) (us_callerstate (um_userschemaStruct rcv)) rcv) ag)
                  \<lparr>ag_pendingOperations := (ag_pendingOperations ag)(i := None)\<rparr>)
        else Inr ag))"

end
