(* ===== verification/Agent_Operations.thy ===== *)
theory Agent_Operations
  imports Agent_State
begin

text \<open>
  The operations a client of a transaction agent asks for over the raw interface, and what the
  agent does with the replies of the manager of users and schemata, of the other agents and of
  the engines (\<open>infinisqld/TransactionAgent.cc\<close>). Every operation is a function of the command
  \<open>cmd\<close> that says how far it is, and of the message \<open>rcv\<close> that was received.
\<close>

section \<open>Requests to the manager\<close>

datatype builtincmds =
    NOCMD | STARTCMD | OKCMD | NOTOKCMD | USMRESPONSECMD | TASENGINESRESPONSECMD | ABORTCMD

text \<open>
  \<open>argstring.assign(args, 0, argsize)\<close> converts the array \<open>args\<close> to a string, which ends at the
  first null byte, and takes of it at most \<open>argsize\<close> bytes (converted to \<open>size_t\<close>).
\<close>

definition assign_args :: "agent \<Rightarrow> bytes" where
  "assign_args ag =
     (let s = takeWhile (\<lambda>b. b \<noteq> 0) (ag_args ag)
      in if ag_argsize ag < 0 then s else take (nat (ag_argsize ag)) s)"

definition request :: "agentEnv \<Rightarrow> (userschema \<Rightarrow> userschema) \<Rightarrow> agent \<Rightarrow> userSchemaMsg" where
  "request env f ag =
     (ae_fresh env)\<lparr>um_userschemaStruct := f ((um_userschemaStruct (ae_fresh env))
        \<lparr>us_argsize := ag_argsize ag, us_instance := ae_instance env,
         us_operationid := ag_operationid ag\<rparr>), um_argstring := assign_args ag\<rparr>"

text \<open>A new operation becomes that of the agent.\<close>

definition start_operation :: "agentEnv \<Rightarrow> int \<Rightarrow> int \<Rightarrow> int \<Rightarrow> agent \<Rightarrow> agent" where
  "start_operation env typearg uid did ag =
     (let (i, ag1) = Operation env typearg uid did ag
      in ag1\<lparr>ag_operationPtr := Some i, ag_operationid := i\<rparr>)"

text \<open>The branch \<open>STARTCMD\<close> of \<open>changepassword\<close>, \<open>createdomain\<close>, \<open>createuser\<close> and the deletions\<close>

definition start_auth :: "agentEnv \<Rightarrow> topic \<Rightarrow> agent \<Rightarrow> agent" where
  "start_auth env t ag =
     (let ag1 = start_operation env OP_AUTH (ag_userid ag) (ag_domainid ag) ag
      in toUserSchemaMgr env t
           (request env (\<lambda>u. u\<lparr>us_domainid := ag_domainid ag1, us_userid := ag_userid ag1\<rparr>) ag1) ag1)"

definition answer :: "status \<Rightarrow> bytes list \<Rightarrow> agent \<Rightarrow> agent" where
  "answer s rv ag = endOperation (sendResponse s rv ag)"

section \<open>Logins\<close>

definition ping :: "agent \<Rightarrow> agent" where
  "ping = sendResponse STATUS_OK []"

definition agent_login :: "agentEnv \<Rightarrow> builtincmds \<Rightarrow> userSchemaMsg \<Rightarrow> agent \<Rightarrow> agent res" where
  "agent_login env cmd rcv ag =
     (case cmd of
        STARTCMD \<Rightarrow>
          (let ag1 = start_operation env OP_AUTH (- 1) (- 1) ag
           in rbind (ae_msgpack2Vector env (ag_args ag) (ag_argsize ag)) (\<lambda>v.
              rbind (vec_at 0 v) (\<lambda>name.
              rbind (on_operation (setDomainName name) ag1) (\<lambda>ag2.
              Inr (toUserSchemaMgr env T_LOGIN (request env (\<lambda>u. u) ag2) ag2)))))
      | OKCMD \<Rightarrow>
          rbind (deref (ag_pendingOperations ag (ag_operationid ag))) (\<lambda>op.
          let u = um_userschemaStruct rcv;
              ag1 = ag\<lparr>ag_operationPtr := Some (ag_operationid ag),
                       ag_loggedInUsers := (ag_loggedInUsers ag)(ag_sockfd ag \<mapsto>
                         \<lparr>au_domainid = us_domainid u, au_userid = us_userid u,
                          au_domainName = op_domainName op\<rparr>)\<rparr>
          in Inr (answer STATUS_OK [] ag1))
      | NOTOKCMD \<Rightarrow>
          (let ag1 = (if ae_badloginmessages env then sendResponse STATUS_NOTOK [] ag else ag)
           in Inr (endConnection (endOperation ag1)))
      | _ \<Rightarrow> Inr ag)"

definition logout :: "agent \<Rightarrow> agent" where
  "logout ag = endConnection (sendResponse STATUS_OK [] ag)"

section \<open>Domains and users\<close>

definition agent_changepassword :: "agentEnv \<Rightarrow> builtincmds \<Rightarrow> agent \<Rightarrow> agent" where
  "agent_changepassword env cmd ag =
     (case cmd of
        STARTCMD \<Rightarrow> start_auth env T_CHANGEPASSWORD ag
      | OKCMD \<Rightarrow> answer STATUS_OK [] ag
      | NOTOKCMD \<Rightarrow> answer STATUS_NOTOK [] ag
      | _ \<Rightarrow> ag)"

text \<open>The ids that \<open>createdomain\<close> and \<open>createuser\<close> answer are those of a new message, not of
  the one received.\<close>

definition agent_createdomain :: "agentEnv \<Rightarrow> builtincmds \<Rightarrow> agent \<Rightarrow> agent" where
  "agent_createdomain env cmd ag =
     (case cmd of
        STARTCMD \<Rightarrow> start_auth env T_CREATEDOMAIN ag
      | OKCMD \<Rightarrow>
          answer STATUS_OK [ae_to_string env (us_domainid (um_userschemaStruct (ae_fresh env)))] ag
      | NOTOKCMD \<Rightarrow> answer STATUS_NOTOK [] ag
      | _ \<Rightarrow> ag)"

definition agent_createuser :: "agentEnv \<Rightarrow> builtincmds \<Rightarrow> agent \<Rightarrow> agent" where
  "agent_createuser env cmd ag =
     (case cmd of
        STARTCMD \<Rightarrow> start_auth env T_CREATEUSER ag
      | OKCMD \<Rightarrow>
          answer STATUS_OK [ae_to_string env (us_userid (um_userschemaStruct (ae_fresh env)))] ag
      | NOTOKCMD \<Rightarrow> answer STATUS_NOTOK [] ag
      | _ \<Rightarrow> ag)"

definition agent_deleteuser :: "agentEnv \<Rightarrow> builtincmds \<Rightarrow> agent \<Rightarrow> agent" where
  "agent_deleteuser env cmd ag =
     (case cmd of
        STARTCMD \<Rightarrow> start_auth env T_DELETEUSER ag
      | OKCMD \<Rightarrow> answer STATUS_OK [] ag
      | NOTOKCMD \<Rightarrow> answer STATUS_NOTOK [] ag
      | _ \<Rightarrow> ag)"

definition agent_deletedomain :: "agentEnv \<Rightarrow> builtincmds \<Rightarrow> agent \<Rightarrow> agent" where
  "agent_deletedomain env cmd ag =
     (case cmd of
        STARTCMD \<Rightarrow> start_auth env T_DELETEDOMAIN ag
      | OKCMD \<Rightarrow> answer STATUS_OK [] ag
      | NOTOKCMD \<Rightarrow> answer STATUS_NOTOK [] ag
      | _ \<Rightarrow> ag)"

section \<open>Schemata\<close>

text \<open>The request to all agents and engines, made of the reply of the manager\<close>

definition schema_message :: "agentEnv \<Rightarrow> int \<Rightarrow> userSchemaMsg \<Rightarrow> agent \<Rightarrow> userSchemaMsg" where
  "schema_message env builtin rcv ag =
     (let r = um_userschemaStruct rcv;
          u = (um_userschemaStruct (ae_fresh env))
                \<lparr>us_tableid := us_tableid r, us_builtincmd := builtin, us_instance := ae_instance env,
                 us_operationid := ag_operationid ag, us_domainid := ag_domainid ag,
                 us_fieldtype := us_fieldtype r, us_fieldlen := us_fieldlen r,
                 us_indextype := us_indextype r, us_indexid := us_indexid r,
                 us_tableindexid := us_tableindexid r, us_simple := us_simple r,
                 us_fieldid := us_fieldid r, us_numfields := us_numfields r\<rparr>
      in if us_argsize r \<noteq> 0
         then (ae_fresh env)\<lparr>um_userschemaStruct := u\<lparr>us_argsize := us_argsize r\<rparr>,
                             um_argstring := assign_args ag\<rparr>
         else (ae_fresh env)\<lparr>um_userschemaStruct := u, um_argstring := um_argstring rcv\<rparr>)"

definition schemaBoilerplate :: "agentEnv \<Rightarrow> builtincmds \<Rightarrow> int \<Rightarrow> userSchemaMsg \<Rightarrow> agent \<Rightarrow>
    agent res" where
  "schemaBoilerplate env cmd builtin rcv ag =
     (case cmd of
        STARTCMD \<Rightarrow>
          (let (i, ag1) = Operation env OP_SCHEMA (ag_userid ag) (ag_domainid ag) ag
           in rbind (on_operation (setbuiltincmd builtin) (ag1\<lparr>ag_operationPtr := Some i\<rparr>)) (\<lambda>ag2.
              rbind (on_operation (sd_update (\<lambda>sd. sd\<lparr>sd_state := usm\<rparr>)) (ag2\<lparr>ag_operationid := i\<rparr>))
                (\<lambda>ag3. Inr (toUserSchemaMgr env T_SCHEMAREQUEST
                   (request env (\<lambda>u. u\<lparr>us_builtincmd := builtin, us_userid := ag_userid ag3,
                                      us_domainid := ag_domainid ag3\<rparr>) ag3) ag3))))
      | USMRESPONSECMD \<Rightarrow>
          if us_status (um_userschemaStruct rcv) \<noteq> BUILTIN_STATUS_OK
          then Inr (answer STATUS_NOTOK [] (ag\<lparr>ag_responseVector := []\<rparr>))
          else
            let msg = schema_message env builtin rcv ag;
                (n, ag1) = toAllOfType env (ae_TRANSACTIONAGENT env) T_SCHEMAREQUEST msg ag in
            rbind (on_operation (sd_update (\<lambda>sd. sd\<lparr>sd_msgwaits := n\<rparr>)) ag1) (\<lambda>ag2.
            let (m, ag3) = toAllOfType env (ae_ENGINE env) T_SCHEMAREQUEST msg ag2 in
            rbind (on_operation (sd_update (\<lambda>sd. sd\<lparr>sd_msgwaits := sd_msgwaits sd + m\<rparr>)) ag3)
              (on_operation (sd_update (\<lambda>sd. sd\<lparr>sd_state := tasengines\<rparr>))))
      | TASENGINESRESPONSECMD \<Rightarrow>
          if us_status (um_userschemaStruct rcv) \<noteq> BUILTIN_STATUS_OK
          then Inr (answer STATUS_NOTOK [] (ag\<lparr>ag_responseVector := []\<rparr>))
          else
            rbind (on_operation (sd_update (\<lambda>sd. sd\<lparr>sd_msgwaits := sd_msgwaits sd - 1\<rparr>)) ag) (\<lambda>ag1.
            rbind (op_at (ag_operationPtr ag1) ag1) (\<lambda>op.
              if sd_msgwaits (op_schemaData op) \<noteq> 0 then Inr ag1
              else Inr (answer STATUS_OK (ag_responseVector ag1) ag1)))
      | _ \<Rightarrow> Inr ag)"

text \<open>\<open>createschema\<close>, \<open>deleteindex\<close>, \<open>deletetable\<close> and \<open>deleteschema\<close> differ in the number.\<close>

definition agent_schema_cmd :: "agentEnv \<Rightarrow> int \<Rightarrow> builtincmds \<Rightarrow> userSchemaMsg \<Rightarrow> agent \<Rightarrow> agent res" where
  "agent_schema_cmd env builtin cmd rcv ag =
     (case cmd of
        STARTCMD \<Rightarrow> schemaBoilerplate env cmd builtin rcv ag
      | USMRESPONSECMD \<Rightarrow> schemaBoilerplate env cmd builtin rcv ag
      | TASENGINESRESPONSECMD \<Rightarrow>
          schemaBoilerplate env cmd builtin rcv (ag\<lparr>ag_responseVector := []\<rparr>)
      | _ \<Rightarrow> Inr ag)"

text \<open>The names go to all agents, also when the operation has failed.\<close>

definition agent_createtable :: "agentEnv \<Rightarrow> builtincmds \<Rightarrow> userSchemaMsg \<Rightarrow> agent \<Rightarrow> agent res" where
  "agent_createtable env cmd rcv ag =
     (let r = um_userschemaStruct rcv in
      case cmd of
        STARTCMD \<Rightarrow> schemaBoilerplate env cmd BUILTINCREATETABLE rcv ag
      | USMRESPONSECMD \<Rightarrow>
          rmap (\<lambda>ag1. snd (toAllOfType env (ae_TRANSACTIONAGENT env) T_TABLENAME
              ((ae_fresh env)\<lparr>um_userschemaStruct := (um_userschemaStruct (ae_fresh env))
                  \<lparr>us_domainid := us_domainid r, us_tableid := us_tableid r\<rparr>,
                 um_argstring := um_argstring rcv\<rparr>) ag1))
            (schemaBoilerplate env cmd BUILTINCREATETABLE rcv ag)
      | TASENGINESRESPONSECMD \<Rightarrow>
          schemaBoilerplate env cmd BUILTINCREATETABLE rcv
            (ag\<lparr>ag_responseVector := [ae_to_string env (us_tableid r)]\<rparr>)
      | _ \<Rightarrow> Inr ag)"

definition agent_addcolumn :: "agentEnv \<Rightarrow> builtincmds \<Rightarrow> userSchemaMsg \<Rightarrow> agent \<Rightarrow> agent res" where
  "agent_addcolumn env cmd rcv ag =
     (let r = um_userschemaStruct rcv in
      case cmd of
        STARTCMD \<Rightarrow> schemaBoilerplate env cmd BUILTINADDCOLUMN rcv ag
      | USMRESPONSECMD \<Rightarrow>
          rmap (\<lambda>ag1. snd (toAllOfType env (ae_TRANSACTIONAGENT env) T_FIELDNAME
              ((ae_fresh env)\<lparr>um_userschemaStruct := (um_userschemaStruct (ae_fresh env))
                  \<lparr>us_domainid := us_domainid r, us_tableid := us_tableid r,
                   us_fieldid := us_fieldid r\<rparr>,
                 um_argstring := um_argstring rcv\<rparr>) ag1))
            (schemaBoilerplate env cmd BUILTINADDCOLUMN rcv ag)
      | TASENGINESRESPONSECMD \<Rightarrow>
          schemaBoilerplate env cmd BUILTINADDCOLUMN rcv
            (ag\<lparr>ag_responseVector := [ae_to_string env (us_fieldid r)]\<rparr>)
      | _ \<Rightarrow> Inr ag)"

definition agent_builtin :: "agentEnv \<Rightarrow> int \<Rightarrow> builtincmds \<Rightarrow> userSchemaMsg \<Rightarrow> agent \<Rightarrow> agent res" where
  "agent_builtin env builtin cmd rcv ag =
     (if builtin = BUILTINCREATETABLE then agent_createtable env cmd rcv ag
      else if builtin = BUILTINADDCOLUMN then agent_addcolumn env cmd rcv ag
      else if builtin \<in> {BUILTINCREATESCHEMA, BUILTINDELETEINDEX, BUILTINDELETETABLE, BUILTINDELETESCHEMA}
        then agent_schema_cmd env builtin cmd rcv ag
      else Inr ag)"

section \<open>The schemata of the agent\<close>

definition set_schema :: "int \<Rightarrow> namedSchema \<Rightarrow> agent \<Rightarrow> agent" where
  "set_schema d s ag = ag\<lparr>ag_schemata := (ag_schemata ag)(d \<mapsto> Some s)\<rparr>"

text \<open>The procedures of the domain are forgotten, also when it has a schema already.\<close>

definition TAcreateschema :: "agentEnv \<Rightarrow> addressStruct \<Rightarrow> userSchemaMsg \<Rightarrow> agent \<Rightarrow> agent" where
  "TAcreateschema env src rcv ag =
     (let d = us_domainid (um_userschemaStruct rcv);
          ag1 = (if ag_schemata ag d \<noteq> None then ag\<lparr>ag_status := BUILTIN_STATUS_NOTOK\<rparr>
                 else set_schema d (newSchema d) (ag\<lparr>ag_status := BUILTIN_STATUS_OK\<rparr>));
          ag2 = ag_usmReply src T_SCHEMAREPLY (ae_fresh env) ag1
      in ag2\<lparr>ag_procedures := (ag_procedures ag2)(d \<mapsto> Map.empty)\<rparr>)"

definition TAcreatetable :: "agentEnv \<Rightarrow> addressStruct \<Rightarrow> userSchemaMsg \<Rightarrow> agent \<Rightarrow> agent res" where
  "TAcreatetable env src rcv ag =
     (let u = um_userschemaStruct rcv; d = us_domainid u; f = ae_fresh env
      in rbind (schema_at d ag) (\<lambda>s.
           let (r, s') = createTable (ae_indet env) (us_tableid u) s;
               ag1 = (set_schema d s' ag)
                       \<lparr>ag_status := (if r = STATUS_OK then BUILTIN_STATUS_OK else BUILTIN_STATUS_NOTOK)\<rparr>
           in Inr (ag_usmReply src T_SCHEMAREPLY
                (f\<lparr>um_userschemaStruct := (um_userschemaStruct f)\<lparr>us_tableid := us_tableid u\<rparr>\<rparr>) ag1)))"

definition TAaddcolumn :: "agentEnv \<Rightarrow> addressStruct \<Rightarrow> userSchemaMsg \<Rightarrow> agent \<Rightarrow> agent res" where
  "TAaddcolumn env src rcv ag =
     (let u = um_userschemaStruct rcv; d = us_domainid u; f = ae_fresh env
      in rbind (schema_at d ag) (\<lambda>s.
         rbind (deref (sch_tables s (us_tableid u))) (\<lambda>tb.
           let (fid, tb') = addfield (us_fieldtype u) (nat (us_fieldlen u)) (um_argstring rcv)
                              (us_indextype u) tb;
               s' = s\<lparr>sch_tables := (sch_tables s)(us_tableid u \<mapsto> tb')\<rparr>;
               ag1 = (set_schema d s' ag)\<lparr>ag_status := BUILTIN_STATUS_OK\<rparr>
           in Inr (ag_usmReply src T_SCHEMAREPLY
                (f\<lparr>um_userschemaStruct := (um_userschemaStruct f)\<lparr>us_fieldid := fid\<rparr>\<rparr>) ag1))))"

definition TAdelete :: "agentEnv \<Rightarrow> addressStruct \<Rightarrow> agent \<Rightarrow> agent" where
  "TAdelete env src ag =
     ag_usmReply src T_SCHEMAREPLY (ae_fresh env) (ag\<lparr>ag_status := BUILTIN_STATUS_OK\<rparr>)"

definition TAschema_request :: "agentEnv \<Rightarrow> addressStruct \<Rightarrow> userSchemaMsg \<Rightarrow> agent \<Rightarrow> agent res" where
  "TAschema_request env src rcv ag =
     (let cmd = us_builtincmd (um_userschemaStruct rcv)
      in if cmd = BUILTINCREATESCHEMA then Inr (TAcreateschema env src rcv ag)
         else if cmd = BUILTINCREATETABLE then TAcreatetable env src rcv ag
         else if cmd = BUILTINADDCOLUMN then TAaddcolumn env src rcv ag
         else if cmd \<in> {BUILTINDELETEINDEX, BUILTINDELETETABLE, BUILTINDELETESCHEMA}
           then Inr (TAdelete env src ag)
         else Inr ag)"

definition table_name :: "userSchemaMsg \<Rightarrow> agent \<Rightarrow> agent res" where
  "table_name rcv ag =
     (let u = um_userschemaStruct rcv; d = us_domainid u
      in rmap (\<lambda>s. set_schema d
                (s\<lparr>tableNameToId := (tableNameToId s)(um_argstring rcv \<mapsto> us_tableid u)\<rparr>) ag)
           (schema_at d ag))"

definition field_name :: "userSchemaMsg \<Rightarrow> agent \<Rightarrow> agent res" where
  "field_name rcv ag =
     (let u = um_userschemaStruct rcv; d = us_domainid u
      in rmap (\<lambda>s. set_schema d (set_fieldName (us_tableid u) (um_argstring rcv) (us_fieldid u) s) ag)
           (schema_at d ag))"

end
