(* ===== verification/Agent_Actor.thy ===== *)
theory Agent_Actor
  imports Agent_Operations
begin

text \<open>
  The rest of the actor (\<open>infinisqld/TransactionAgent.cc\<close>): prepared statements, procedures, the
  requests that are read from a socket, and the dispatch of a message to the operations. Messages
  for transactions are those of the theories on transactions, replication that of
  \<open>Agent_Dispatch\<close>; the PostgreSQL sockets are not modelled.
\<close>

section \<open>Statements and procedures\<close>

definition agent_compile :: "agentEnv \<Rightarrow> agent \<Rightarrow> agent res" where
  "agent_compile env ag =
     rbind (ae_msgpack2Vector env (ag_args ag) (ag_argsize ag)) (\<lambda>v.
     rbind (vec_at 0 v) (\<lambda>statementname. rbind (vec_at 1 v) (\<lambda>sqlstatement.
     let d = ag_domainid ag; ag0 = touch_schema d ag in
     if \<not> ae_parses env sqlstatement then Inr (sendResponse STATUS_NOTOK [] ag0)
     else
       let msg = (ae_fresh env)\<lparr>um_userschemaStruct := (um_userschemaStruct (ae_fresh env))
                                   \<lparr>us_domainid := d\<rparr>,
                                um_procname := statementname, um_argstring := sqlstatement\<rparr>
       in Inr (sendResponse STATUS_OK [statementname]
            (snd (toAllOfType env (ae_TRANSACTIONAGENT env) T_COMPILE msg ag0))))))"

text \<open>A statement that does not parse is reported, and its null pointer used.\<close>

definition newstatement :: "agentEnv \<Rightarrow> userSchemaMsg \<Rightarrow> agent \<Rightarrow> agent res" where
  "newstatement env rcv ag =
     (let d = us_domainid (um_userschemaStruct rcv); ag0 = touch_schema d ag
      in if \<not> ae_parses env (um_argstring rcv) then Inl NullDeref
         else Inr (ag0\<lparr>ag_statements := (ag_statements ag)(d \<mapsto>
                (case ag_statements ag d of None \<Rightarrow> Map.empty | Some m \<Rightarrow> m)
                  (um_procname rcv \<mapsto> um_argstring rcv))\<rparr>))"

definition storedprocprefix :: bytes where
  "storedprocprefix = ascii_bytes ''InfiniSQL_''"

text \<open>The first agent of every node; all agents of a node\<close>

definition first_agents :: "agentEnv \<Rightarrow> addressStruct list" where
  "first_agents env =
     concat (map (\<lambda>n. map (\<lambda>m. \<lparr>ad_nodeid = int16 (int n), ad_actorid = int16 (int m)\<rparr>)
        (take 1 (filter (\<lambda>m. ae_allActors env ! n ! m = ae_TRANSACTIONAGENT env)
           [0..<length (ae_allActors env ! n)])))
       [0..<length (ae_allActors env)])"

definition node_agents :: "agentEnv \<Rightarrow> addressStruct list res" where
  "node_agents env =
     rmap (\<lambda>acts. map (\<lambda>m. \<lparr>ad_nodeid = ae_nodeid env, ad_actorid = int16 (int m)\<rparr>)
        (filter (\<lambda>m. acts ! m = ae_TRANSACTIONAGENT env) [0..<length acts]))
       (vec_at (ae_nodeid env) (ae_allActors env))"

definition newprocedure :: "agentEnv \<Rightarrow> int \<Rightarrow> userSchemaMsg \<Rightarrow> agent \<Rightarrow> agent res" where
  "newprocedure env entrypoint rcv ag =
     (if entrypoint = 1 then
        rbind (ae_msgpack2Vector env (ag_args ag) (ag_argsize ag)) (\<lambda>v.
        rbind (vec_at 0 v) (\<lambda>path. rbind (vec_at 1 v) (\<lambda>name.
        let msg = (ae_fresh env)\<lparr>um_userschemaStruct := (um_userschemaStruct (ae_fresh env))
                                    \<lparr>us_domainid := ag_domainid ag\<rparr>,
                                 um_pathname := path,
                                 um_procname := storedprocprefix @ ag_domainName ag @ ascii_bytes ''_'' @ name\<rparr>
        in Inr (sendResponse STATUS_OK []
             (fold (\<lambda>a. ag_send (AgentMsg a T_PROCEDURE1 msg)) (first_agents env) ag)))))
      else if entrypoint = 2 then
        (case ae_dlsym env (um_pathname rcv) (um_procname rcv) of
           None \<Rightarrow> Inr ag
         | Some procs \<Rightarrow>
             let msg = (ae_fresh env)\<lparr>um_userschemaStruct := (um_userschemaStruct (ae_fresh env))
                          \<lparr>us_domainid := us_domainid (um_userschemaStruct rcv),
                           us_intdata := int (length (um_procname rcv))\<rparr>,
                          um_procs := procs, um_argstring := um_procname rcv\<rparr>
             in rmap (\<lambda>addrs. fold (\<lambda>a. ag_send (AgentMsg a T_PROCEDURE2 msg)) addrs ag) (node_agents env))
      else if entrypoint = 3 then
        (let d = us_domainid (um_userschemaStruct rcv)
         in Inr (ag\<lparr>ag_procedures := (ag_procedures ag)(d \<mapsto>
              (case ag_procedures ag d of None \<Rightarrow> Map.empty | Some m \<Rightarrow> m)
                (um_argstring rcv \<mapsto> um_procs rcv))\<rparr>))
      else Inr ag)"

section \<open>Sockets\<close>

definition PAYLOADSIZE :: nat where "PAYLOADSIZE = 128"

definition be64toh :: "bytes \<Rightarrow> int" where
  "be64toh bs = sint (word_rcat bs :: 64 word)"

text \<open>
  What \<open>readSocket\<close> makes of the bytes it has read into \<open>inbuf\<close>: its result, and the operation
  and the arguments when that is not negative. \<open>indet\<close> is \<open>inbuf[8]\<close> when only 8 bytes came.
  A length below zero makes a string longer than any can be.
\<close>

definition readSocket :: "byte \<Rightarrow> bytes \<Rightarrow> (int \<times> bytes \<times> bytes) res" where
  "readSocket indet inbuf =
     (if length inbuf < 8 then Inr (- 1, [], [])
      else
        let msgsize = be64toh (take 8 inbuf) in
        if int (length inbuf) - 8 \<noteq> msgsize then Inr (- 2, [], [])
        else
          let oplength = sint (if 8 < length inbuf then inbuf ! 8 else indet) in
          if oplength \<ge> msgsize - 1 then Inr (- 3, [], [])
          else if oplength < 0 then Inl UncaughtException
          else
            let argsize = msgsize - 1 - oplength;
                args = take (nat argsize) (drop (9 + nat oplength) inbuf)
            in Inr (argsize, take (nat oplength) (drop 9 inbuf),
                    args @ replicate (PAYLOADSIZE - length args) 0))"

definition builtins :: "agentEnv \<Rightarrow> bytes \<Rightarrow> (agent \<Rightarrow> agent res) option" where
  "builtins env = map_of
     [(ascii_bytes ''ping'', \<lambda>ag. Inr (ping ag)),
      (ascii_bytes ''login'', agent_login env STARTCMD (ae_fresh env)),
      (ascii_bytes ''logout'', \<lambda>ag. Inr (logout ag)),
      (ascii_bytes ''changepassword'', \<lambda>ag. Inr (agent_changepassword env STARTCMD ag)),
      (ascii_bytes ''createdomain'', \<lambda>ag. Inr (agent_createdomain env STARTCMD ag)),
      (ascii_bytes ''createuser'', \<lambda>ag. Inr (agent_createuser env STARTCMD ag)),
      (ascii_bytes ''deleteuser'', \<lambda>ag. Inr (agent_deleteuser env STARTCMD ag)),
      (ascii_bytes ''deletedomain'', \<lambda>ag. Inr (agent_deletedomain env STARTCMD ag)),
      (ascii_bytes ''createschema'', agent_builtin env BUILTINCREATESCHEMA STARTCMD (ae_fresh env)),
      (ascii_bytes ''createtable'', agent_builtin env BUILTINCREATETABLE STARTCMD (ae_fresh env)),
      (ascii_bytes ''addcolumn'', agent_builtin env BUILTINADDCOLUMN STARTCMD (ae_fresh env)),
      (ascii_bytes ''deleteindex'', agent_builtin env BUILTINDELETEINDEX STARTCMD (ae_fresh env)),
      (ascii_bytes ''deletetable'', agent_builtin env BUILTINDELETETABLE STARTCMD (ae_fresh env)),
      (ascii_bytes ''deleteschema'', agent_builtin env BUILTINDELETESCHEMA STARTCMD (ae_fresh env)),
      (ascii_bytes ''loadprocedure'', newprocedure env 1 (ae_fresh env)),
      (ascii_bytes ''compile'', agent_compile env)]"

text \<open>A request on the socket \<open>ag_sockfd\<close>, once it is read\<close>

definition raw_request :: "agentEnv \<Rightarrow> agent \<Rightarrow> agent res" where
  "raw_request env ag =
     (case ag_loggedInUsers ag (ag_sockfd ag) of
        None \<Rightarrow>
          if ag_operation ag = ascii_bytes ''login'' then agent_login env STARTCMD (ae_fresh env) ag
          else if ag_operation ag = ascii_bytes ''ping'' \<and> ae_anonymousping env then Inr (ping ag)
          else Inr (endConnection ag)
      | Some au \<Rightarrow>
          let ag1 = ag\<lparr>ag_domainid := au_domainid au, ag_userid := au_userid au,
                       ag_domainName := au_domainName au\<rparr>
          in if case ag_procedures ag1 (au_domainid au) of
                  None \<Rightarrow> False | Some m \<Rightarrow> m (ag_operation ag1) \<noteq> None
             then Inr (ag_send (AgentProcedure (ag_operation ag1)) ag1)
             else case builtins env (ag_operation ag1) of
                    None \<Rightarrow> Inr (endConnection ag1)
                  | Some f \<Rightarrow> f ag1)"

text \<open>An event of a raw socket; what waits to be written is not modelled.\<close>

definition raw_event :: "agentEnv \<Rightarrow> int \<Rightarrow> bool \<Rightarrow> bool \<Rightarrow> byte \<Rightarrow> bytes \<Rightarrow> agent \<Rightarrow> agent res" where
  "raw_event env sockfd hangup readable indet inbuf ag =
     (let ag1 = ag\<lparr>ag_sockfd := sockfd\<rparr> in
      if hangup then Inr (endConnection ag1)
      else if \<not> readable then Inr ag1
      else rbind (readSocket indet inbuf) (\<lambda>(argsize, operation, args).
        if argsize < 0 then Inr (endConnection (ag1\<lparr>ag_argsize := argsize\<rparr>))
        else raw_request env
               (ag1\<lparr>ag_argsize := argsize, ag_operation := operation, ag_args := args\<rparr>)))"

section \<open>The actor\<close>

text \<open>The members are reset before each batch of messages, not before each message.\<close>

definition new_batch :: "agent \<Rightarrow> agent" where
  "new_batch ag = ag\<lparr>ag_domainid := - 1, ag_userid := - 1, ag_argsize := - 1, ag_sockfd := - 1\<rparr>"

definition userschema_members :: "topic \<Rightarrow> userSchemaMsg \<Rightarrow> agent \<Rightarrow> agent" where
  "userschema_members t rcv ag =
     (let i = us_operationid (um_userschemaStruct rcv);
          ag1 = (if t = T_SCHEMAREQUEST then ag
                 else case ag_pendingOperations ag i of
                        None \<Rightarrow> ag
                      | Some op \<Rightarrow> ag\<lparr>ag_sockfd := op_sockfd op, ag_userid := op_userid op,
                                     ag_domainid := op_domainid op\<rparr>)
      in ag1\<lparr>ag_operationid := i\<rparr>)"

definition schema_reply :: "agentEnv \<Rightarrow> userSchemaMsg \<Rightarrow> agent \<Rightarrow> agent res" where
  "schema_reply env rcv ag =
     (case ag_pendingOperations ag (ag_operationid ag) of
        None \<Rightarrow> Inr ag
      | Some op \<Rightarrow>
          let ag1 = ag\<lparr>ag_operationPtr := Some (ag_operationid ag)\<rparr>;
              cmd = (case sd_state (op_schemaData op) of
                       usm \<Rightarrow> USMRESPONSECMD | tasengines \<Rightarrow> TASENGINESRESPONSECMD)
          in agent_builtin env (sd_builtincmd (op_schemaData op)) cmd rcv ag1)"

definition agent_dispatch :: "agentEnv \<Rightarrow> addressStruct \<Rightarrow> topic \<Rightarrow> userSchemaMsg \<Rightarrow> agent \<Rightarrow> agent res" where
  "agent_dispatch env src t rcv ag =
     (case t of
        T_LOGINOK \<Rightarrow> agent_login env OKCMD rcv ag
      | T_LOGINFAIL \<Rightarrow> agent_login env NOTOKCMD rcv ag
      | T_CHANGEPASSWORDOK \<Rightarrow> Inr (agent_changepassword env OKCMD ag)
      | T_CHANGEPASSWORDFAIL \<Rightarrow> Inr (agent_changepassword env NOTOKCMD ag)
      | T_CREATEDOMAINOK \<Rightarrow> Inr (agent_createdomain env OKCMD ag)
      | T_CREATEDOMAINFAIL \<Rightarrow> Inr (agent_createdomain env NOTOKCMD ag)
      | T_CREATEUSEROK \<Rightarrow> Inr (agent_createuser env OKCMD ag)
      | T_CREATEUSERFAIL \<Rightarrow> Inr (agent_createuser env NOTOKCMD ag)
      | T_DELETEUSEROK \<Rightarrow> Inr (agent_deleteuser env OKCMD ag)
      | T_DELETEUSERFAIL \<Rightarrow> Inr (agent_deleteuser env NOTOKCMD ag)
      | T_DELETEDOMAINOK \<Rightarrow> Inr (agent_deletedomain env OKCMD ag)
      | T_DELETEDOMAINFAIL \<Rightarrow> Inr (agent_deletedomain env NOTOKCMD ag)
      | T_SCHEMAREPLY \<Rightarrow> schema_reply env rcv ag
      | T_SCHEMAREQUEST \<Rightarrow>
          TAschema_request env src rcv (ag\<lparr>ag_tainstance := us_instance (um_userschemaStruct rcv)\<rparr>)
      | T_PROCEDURE1 \<Rightarrow> newprocedure env 2 rcv ag
      | T_PROCEDURE2 \<Rightarrow> newprocedure env 3 rcv ag
      | T_OPERATION \<Rightarrow>
          (let i = us_operationid (um_userschemaStruct rcv)
           in if ag_pendingOperations ag i = None then Inr ag else handleOperation i rcv ag)
      | T_COMPILE \<Rightarrow> newstatement env rcv ag
      | T_TABLENAME \<Rightarrow> table_name rcv ag
      | T_FIELDNAME \<Rightarrow> field_name rcv ag
      | _ \<Rightarrow> Inr ag)"

text \<open>A \<open>MessageUserSchema\<close> that is received\<close>

definition agent_message :: "agentEnv \<Rightarrow> addressStruct \<times> topic \<times> userSchemaMsg \<Rightarrow> agent \<Rightarrow> agent res" where
  "agent_message env m ag =
     (let (src, t, rcv) = m in agent_dispatch env src t rcv (userschema_members t rcv ag))"

end
