(* ===== verification/Agent_Dispatch.thy ===== *)
theory Agent_Dispatch
  imports Agent_State
begin

text \<open>
  Replication on the side of the receiving agent: \<open>handledispatch\<close> of
  \<open>infinisqld/TransactionAgent.cc\<close> makes of the records of a transaction a message for each
  partition, with the entries of the indices, and \<open>infinisqld/Applier.cc\<close> counts the
  acknowledgements of the engines.
\<close>

section \<open>Appliers\<close>

definition getnextapplierid :: "agent \<Rightarrow> int \<times> agent" where
  "getnextapplierid ag = (ag_nextapplierid ag + 1, ag\<lparr>ag_nextapplierid := ag_nextapplierid ag + 1\<rparr>)"

definition getnexttransactionid :: "agent \<Rightarrow> int \<times> agent" where
  "getnexttransactionid ag =
     (ag_nexttransactionid ag + 1, ag\<lparr>ag_nexttransactionid := ag_nexttransactionid ag + 1\<rparr>)"

definition Applier :: "int \<Rightarrow> addressStruct \<Rightarrow> int \<Rightarrow> agent \<Rightarrow> int \<times> agent" where
  "Applier domainidarg sourceAddrarg partitioncountarg ag =
     (let (i, ag1) = getnextapplierid ag;
          a = \<lparr>al_domainid = domainidarg, al_sourceAddr = sourceAddrarg, al_partitioncount = partitioncountarg\<rparr>
      in (i, ag1\<lparr>ag_Appliers := (ag_Appliers ag1)(i \<mapsto> Some a)\<rparr>))"

text \<open>After a bad status the applier is deleted and its pointer left in the map.\<close>

definition ackedApply :: "int \<Rightarrow> ackApply \<Rightarrow> applier \<Rightarrow> agent \<Rightarrow> agent" where
  "ackedApply i msg a ag =
     (if aa_status msg \<noteq> STATUS_OK then ag\<lparr>ag_Appliers := (ag_Appliers ag)(i \<mapsto> None)\<rparr>
      else
        let n = al_partitioncount a - 1 in
        if n = 0 then ag\<lparr>ag_Appliers := (ag_Appliers ag)(i := None)\<rparr>
        else ag\<lparr>ag_Appliers := (ag_Appliers ag)(i \<mapsto> Some (a\<lparr>al_partitioncount := n\<rparr>))\<rparr>)"

definition ack_apply :: "ackApply \<Rightarrow> agent \<Rightarrow> agent res" where
  "ack_apply msg ag =
     (case ag_Appliers ag (aa_applierid msg) of
        None \<Rightarrow> Inr ag
      | Some None \<Rightarrow> Inl UseAfterFree
      | Some (Some a) \<Rightarrow> Inr (ackedApply (aa_applierid msg) msg a ag))"

section \<open>Index entries\<close>

definition index_entry :: "agentEnv \<Rightarrow> record_s \<Rightarrow> nat \<Rightarrow> field \<Rightarrow> fieldValue \<Rightarrow> bool \<Rightarrow> applyindex res" where
  "index_entry env r f fd v add =
     rmap (\<lambda>p. \<lparr>ai_fieldVal = v, ai_entry = \<lparr>nl_rowid = re_rowid r, nl_engineid = p\<rparr>,
               ai_flags = (if add then setisaddflag 0 else 0), ai_tableid = re_tableid r,
               ai_fieldid = int f\<rparr>)
       (getPartitionid (ae_hash64 env) v (fd_type fd) (ae_numpartitions env))"

text \<open>The messages, by partition; \<open>msgs[p]->\<close> on a partition without a message creates a null
  pointer and follows it.\<close>

definition push_index :: "applyindex \<Rightarrow> (int \<times> applyMsg) list \<Rightarrow> (int \<times> applyMsg) list res" where
  "push_index ai msgs =
     (case map_of msgs (nl_engineid (ai_entry ai)) of
        None \<Rightarrow> Inl NullDeref
      | Some m \<Rightarrow> Inr (um_put (nl_engineid (ai_entry ai))
                     (m\<lparr>ap_indices := ap_indices m @ [ai]\<rparr>) msgs))"

text \<open>\<open>INSERT\<close> and \<open>DELETE\<close>: an entry for each field with an index\<close>

fun row_entries :: "agentEnv \<Rightarrow> record_s \<Rightarrow> bool \<Rightarrow> nat \<Rightarrow> (field \<times> fieldValue) list \<Rightarrow>
    (int \<times> applyMsg) list \<Rightarrow> (int \<times> applyMsg) list res" where
  "row_entries env r add f [] msgs = Inr msgs"
| "row_entries env r add f ((fd, v) # fs) msgs =
     (if fd_indextype fd = NONE then row_entries env r add (f + 1) fs msgs
      else rbind (index_entry env r f fd v add) (\<lambda>ai.
           rbind (push_index ai msgs) (row_entries env r add (f + 1) fs)))"

text \<open>The values of two rows, without the flags for nulls\<close>

definition aredifferent :: "fieldtype \<Rightarrow> fieldValue \<Rightarrow> fieldValue \<Rightarrow> bool" where
  "aredifferent t new old =
     (case t of
        F_INT \<Rightarrow> integer new \<noteq> integer old
      | F_UINT \<Rightarrow> uinteger new \<noteq> uinteger old
      | F_BOOL \<Rightarrow> boolean new \<noteq> boolean old
      | F_FLOAT \<Rightarrow> \<not> ld_eq (floating new) (floating old)
      | F_CHAR \<Rightarrow> character new \<noteq> character old
      | F_CHARX \<Rightarrow> str new \<noteq> str old
      | F_VARCHAR \<Rightarrow> str new \<noteq> str old
      | NOFIELDTYPE \<Rightarrow> False)"

fun update_entries :: "agentEnv \<Rightarrow> record_s \<Rightarrow> nat \<Rightarrow> (field \<times> fieldValue \<times> fieldValue) list \<Rightarrow>
    (int \<times> applyMsg) list \<Rightarrow> (int \<times> applyMsg) list res" where
  "update_entries env r f [] msgs = Inr msgs"
| "update_entries env r f ((fd, new, old) # fs) msgs =
     (if fd_indextype fd = NONE \<or> \<not> aredifferent (fd_type fd) new old
      then update_entries env r (f + 1) fs msgs
      else rbind (index_entry env r f fd old False) (\<lambda>ai.
           rbind (push_index ai msgs) (\<lambda>msgs1.
           rbind (index_entry env r f fd new True) (\<lambda>ai2.
           rbind (push_index ai2 msgs1) (update_entries env r (f + 1) fs)))))"

section \<open>handledispatch\<close>

text \<open>\<open>pidsids[p]\<close> is 0 for a partition that has no subtransaction in the message.\<close>

definition dispatch_record_indices :: "agentEnv \<Rightarrow> namedSchema \<Rightarrow> record_s \<Rightarrow> (int \<times> applyMsg) list \<Rightarrow>
    (int \<times> applyMsg) list res" where
  "dispatch_record_indices env s r msgs =
     rbind (deref (sch_tables s (re_tableid r))) (\<lambda>t.
     case re_primitive r of
       INSERT \<Rightarrow>
         rbind (unmakerow (re_row r) [] t) (\<lambda>(_, vs).
           row_entries env r True 0 (zip (tb_fields t) vs) msgs)
     | UPDATE \<Rightarrow>
         rbind (unmakerow (re_row r) [] t) (\<lambda>(_, new).
         rbind (unmakerow (re_oldrow r) [] t) (\<lambda>(_, old).
           update_entries env r 0 (zip (tb_fields t) (zip new old)) msgs))
     | DELETE \<Rightarrow>
         rbind (unmakerow (re_oldrow r) [] t) (\<lambda>(_, vs).
           row_entries env r False 0 (zip (tb_fields t) vs) msgs)
     | _ \<Rightarrow> Inr msgs)"

definition dispatch_partition :: "agentEnv \<Rightarrow> namedSchema res \<Rightarrow> int \<Rightarrow> int \<Rightarrow> (int \<times> int) list \<Rightarrow>
    int \<times> record_s list \<Rightarrow> (int \<times> applyMsg) list \<Rightarrow> (int \<times> applyMsg) list res" where
  "dispatch_partition env schema applierid d pidsids it msgs =
     (let (p, rs) = it;
          m = (case map_of msgs p of
                 Some m \<Rightarrow> m
               | None \<Rightarrow> \<lparr>ap_subtransactionid = um_get 0 p pidsids, ap_applierid = applierid,
                          ap_domainid = d, ap_rows = [], ap_indices = []\<rparr>);
          msgs1 = um_put p (m\<lparr>ap_rows := rs\<rparr>) msgs
      in rfold (\<lambda>r ms. rbind schema (\<lambda>s. dispatch_record_indices env s r ms)) rs msgs1)"

definition ag_toPartition :: "agentEnv \<Rightarrow> int \<times> applyMsg \<Rightarrow> agent \<Rightarrow> agent res" where
  "ag_toPartition env pm ag =
     (let (p, m) = pm
      in if p < 0 \<or> p > (int (ae_producers env) - 1) mod 2 ^ 64 then Inr ag
         else if p < int (ae_producers env) then Inr (ag_send (AgentApply p m) ag)
         else Inl OutOfRange)"

definition handledispatch :: "agentEnv \<Rightarrow> addressStruct \<Rightarrow> dispatchMsg \<Rightarrow> agent \<Rightarrow> agent res" where
  "handledispatch env src rcv ag =
     (let d = di_domainid (dp_dispatchStruct rcv);
          ag1 = ag_send (AgentAckDispatch src (di_transactionid (dp_dispatchStruct rcv)) STATUS_OK)
                  (ag\<lparr>ag_domainid := d\<rparr>);
          (i, ag2) = Applier d src 0 ag1
      in rbind (rfold (dispatch_partition env (schema_at d ag2) i d (dp_pidsids rcv))
                  (dp_records rcv) [])
           (\<lambda>msgs. rfold (ag_toPartition env) msgs (if dp_records rcv = [] then ag2 else touch_schema d ag2)))"

section \<open>Replicas\<close>

text \<open>The last position of the node among the members of the replicas, if there is one\<close>

definition my_member :: "int list list \<Rightarrow> int \<Rightarrow> (nat \<times> nat) option" where
  "my_member members nodeid =
     (case filter (\<lambda>(n, m). members ! n ! m = nodeid)
             (concat (map (\<lambda>n. map (Pair n) [0..<length (members ! n)]) [0..<length members])) of
        [] \<Rightarrow> None | ps \<Rightarrow> Some (last ps))"

definition nth_nth :: "'a list list \<Rightarrow> int \<Rightarrow> int \<Rightarrow> 'a res" where
  "nth_nth xss n m = rbind (vec_at n xss) (vec_at m)"

record replicaState =
  rp_myreplica :: int
  rp_mymember :: int
  rp_replicaAddress :: addressStruct
  rp_replicaAddresses :: "addressStruct list"

text \<open>
  With two replicas \<open>tas\<close> is read at the node of the peer, with more at the number of the replica.
\<close>

definition updateReplicas :: "int \<Rightarrow> int list list \<Rightarrow> int list list \<Rightarrow> int \<Rightarrow> int \<Rightarrow> replicaState \<Rightarrow>
    replicaState res" where
  "updateReplicas numreplicas replicaMembers tas nodeid instance0 st =
     (if numreplicas \<le> 1 then Inr st
      else
        let st1 = (case my_member replicaMembers nodeid of
                     None \<Rightarrow> st
                   | Some (n, k) \<Rightarrow> st\<lparr>rp_myreplica := int n, rp_mymember := int k\<rparr>);
            m = rp_mymember st1 in
        if numreplicas = 2 then
          (let other = (if rp_myreplica st1 = 0 then 1 else 0)
           in rbind (nth_nth replicaMembers other m) (\<lambda>node.
              let st2 = st1\<lparr>rp_replicaAddress := (rp_replicaAddress st1)\<lparr>ad_nodeid := node\<rparr>\<rparr> in
              if node = 0 then Inr st2
              else rmap (\<lambda>a. st2\<lparr>rp_replicaAddress := (rp_replicaAddress st2)\<lparr>ad_actorid := a\<rparr>\<rparr>)
                     (nth_nth tas node instance0)))
        else
          rmap (\<lambda>ras. st1\<lparr>rp_replicaAddresses := ras\<rparr>)
            (rfold (\<lambda>n ras. rbind (nth_nth replicaMembers (int n) m) (\<lambda>node.
                            rmap (\<lambda>a. ras @ [\<lparr>ad_nodeid = node, ad_actorid = a\<rparr>])
                              (nth_nth tas (int n) instance0)))
               (filter (\<lambda>n. int n \<noteq> rp_myreplica st1) [0..<length replicaMembers]) []))"

end
