(* ===== verification/User_Directory.thy ===== *)
theory User_Directory
  imports User_Manager
begin

text \<open>
  The invariant of the manager and the abstract directory its operations on domains and users
  implement: \<open>mgr_ok\<close> holds in every state the manager reaches (\<open>reaches_ok\<close>), and each of the
  five requests is served as \<open>directory_step\<close> says (\<open>requests_serve\<close>).
\<close>

section \<open>The invariant\<close>

text \<open>
  Of the maps of one domain: every name has a password, every password a name, and the ids are
  among those given out.
\<close>

definition domain_ok :: "(bytes \<rightharpoonup> int) \<Rightarrow> (int \<rightharpoonup> passwordStruct) \<Rightarrow> int \<Rightarrow> bool" where
  "domain_ok names passwords k \<longleftrightarrow>
     0 \<le> k \<and> inj_on names (dom names) \<and> ran names = dom passwords \<and> dom passwords \<subseteq> {1..k}"

definition domain_view :: "userSchemaMgr \<Rightarrow> int \<Rightarrow>
    ((bytes \<rightharpoonup> int) \<times> (int \<rightharpoonup> passwordStruct) \<times> int) option" where
  "domain_view mg i =
     Option.bind (domainIdToUserNames mg i) (\<lambda>p. Option.bind (mg_names mg p) (\<lambda>n.
     Option.bind (domainIdToUserIds mg i) (\<lambda>q. Option.bind (mg_passwords mg q) (\<lambda>w.
     Option.bind (domainIdToNextUserId mg i) (\<lambda>k. Some (n, w, k))))))"

text \<open>No two domains share a map, and the allocator is above all maps.\<close>

definition pointers_ok :: "(int \<rightharpoonup> nat) \<Rightarrow> nat \<Rightarrow> bool" where
  "pointers_ok m b \<longleftrightarrow> inj_on m (dom m) \<and> ran m \<subseteq> {..<b}"

definition columns_ok :: "table \<Rightarrow> bool" where
  "columns_ok tb \<longleftrightarrow>
     (\<forall>name k. columnNameToFieldMap tb name = Some k \<longrightarrow>
        0 \<le> k \<and> k < int (length (tb_fields tb)) \<and> fd_name (tb_fields tb ! nat k) = name)"

definition schema_ok :: "namedSchema \<Rightarrow> bool" where
  "schema_ok s \<longleftrightarrow>
     0 \<le> sch_nexttableid s \<and>
     dom (sch_tables s) = {1..sch_nexttableid s} \<and>
     inj_on (tableNameToId s) (dom (tableNameToId s)) \<and> ran (tableNameToId s) = dom (sch_tables s) \<and>
     (\<forall>i tb. sch_tables s i = Some tb \<longrightarrow> columns_ok tb \<and>
        case_option Map.empty id (fieldNameToId s i) = columnNameToFieldMap tb) \<and>
     dom (fieldNameToId s) \<subseteq> dom (sch_tables s)"

definition mgr_ok :: "userSchemaMgr \<Rightarrow> bool" where
  "mgr_ok mg \<longleftrightarrow>
     inj_on (domainNameToDomainId mg) (dom (domainNameToDomainId mg)) \<and>
     ran (domainNameToDomainId mg) \<subseteq> {1..mg_nextdomainid mg} \<and> 1 \<le> mg_nextdomainid mg \<and>
     dom (domainIdToUserNames mg) = ran (domainNameToDomainId mg) \<and>
     dom (domainIdToUserIds mg) = ran (domainNameToDomainId mg) \<and>
     dom (domainIdToNextUserId mg) = ran (domainNameToDomainId mg) \<and>
     pointers_ok (domainIdToUserNames mg) (mg_brk mg) \<and> pointers_ok (domainIdToUserIds mg) (mg_brk mg) \<and>
     (\<forall>i \<in> ran (domainNameToDomainId mg). \<exists>n w k. domain_view mg i = Some (n, w, k) \<and> domain_ok n w k) \<and>
     (\<forall>i s. mg_schemata mg i = Some s \<longrightarrow> schema_ok s)"

lemma domain_view_eq:
  "domain_view mg i = Some (n, w, k) \<longleftrightarrow>
     (\<exists>p q. domainIdToUserNames mg i = Some p \<and> mg_names mg p = Some n \<and>
        domainIdToUserIds mg i = Some q \<and> mg_passwords mg q = Some w \<and>
        domainIdToNextUserId mg i = Some k)"
  by (auto simp: domain_view_def bind_eq_Some_conv)

section \<open>The maps of one domain\<close>

lemma inj_onD2: "inj_on m (dom m) \<Longrightarrow> m a = Some x \<Longrightarrow> m b = Some x \<Longrightarrow> a = b"
  by (drule inj_onD [of m "dom m" a b]) auto

lemma mgr_ok_view:
  assumes "mgr_ok mg" and "domainNameToDomainId mg d = Some i"
  obtains p q n w k where "domainIdToUserNames mg i = Some p" "mg_names mg p = Some n"
    "domainIdToUserIds mg i = Some q" "mg_passwords mg q = Some w"
    "domainIdToNextUserId mg i = Some k" "domain_ok n w k"
proof -
  from assms(2) have "i \<in> ran (domainNameToDomainId mg)" by (rule ranI)
  with assms(1) that show thesis by (fastforce simp: mgr_ok_def domain_view_eq)
qed

text \<open>A change of the maps of the domain \<open>i\<close> changes the view of \<open>i\<close> only.\<close>

lemma domain_view_update:
  assumes ok: "pointers_ok (domainIdToUserNames mg) b" "pointers_ok (domainIdToUserIds mg) b"
    and ptr: "domainIdToUserNames mg i = Some p" "domainIdToUserIds mg i = Some q"
    and eqs: "domainIdToUserNames mg' = domainIdToUserNames mg"
      "domainIdToUserIds mg' = domainIdToUserIds mg"
      "domainIdToNextUserId mg' = (domainIdToNextUserId mg)(i \<mapsto> k)"
      "mg_names mg' = (mg_names mg)(p \<mapsto> n)" "mg_passwords mg' = (mg_passwords mg)(q \<mapsto> w)"
  shows "domain_view mg' = (domain_view mg)(i \<mapsto> (n, w, k))"
proof
  fix j
  have "j = i" if "domainIdToUserNames mg j = Some p"
    using ok(1) ptr(1) that by (auto simp: pointers_ok_def dest: inj_onD2)
  moreover have "j = i" if "domainIdToUserIds mg j = Some q"
    using ok(2) ptr(2) that by (auto simp: pointers_ok_def dest: inj_onD2)
  ultimately show "domain_view mg' j = ((domain_view mg)(i \<mapsto> (n, w, k))) j"
    using ptr by (cases "domainIdToUserNames mg j"; cases "domainIdToUserIds mg j")
      (auto simp: domain_view_def eqs)
qed

lemma mgr_ok_update:
  assumes ok: "mgr_ok mg" and d: "domainNameToDomainId mg d = Some i"
    and ptr: "domainIdToUserNames mg i = Some p" "domainIdToUserIds mg i = Some q"
    and dom: "domain_ok n w k"
    and eqs: "domainIdToUserNames mg' = domainIdToUserNames mg"
      "domainIdToUserIds mg' = domainIdToUserIds mg"
      "domainIdToNextUserId mg' = (domainIdToNextUserId mg)(i \<mapsto> k)"
      "mg_names mg' = (mg_names mg)(p \<mapsto> n)" "mg_passwords mg' = (mg_passwords mg)(q \<mapsto> w)"
      "domainNameToDomainId mg' = domainNameToDomainId mg" "mg_nextdomainid mg' = mg_nextdomainid mg"
      "mg_brk mg' = mg_brk mg" "mg_schemata mg' = mg_schemata mg"
  shows "mgr_ok mg' \<and> domain_view mg' = (domain_view mg)(i \<mapsto> (n, w, k))"
proof -
  have i: "i \<in> ran (domainNameToDomainId mg)" using d by (rule ranI)
  have view: "domain_view mg' = (domain_view mg)(i \<mapsto> (n, w, k))"
    using ok by (intro domain_view_update [where b = "mg_brk mg", OF _ _ ptr eqs(1-5)]) (simp_all add: mgr_ok_def)
  have "\<exists>n' w' k'. domain_view mg' j = Some (n', w', k') \<and> domain_ok n' w' k'"
    if "j \<in> ran (domainNameToDomainId mg)" for j
    using ok dom that unfolding view by (cases "j = i") (simp_all add: mgr_ok_def)
  moreover have "dom ((domainIdToNextUserId mg)(i \<mapsto> k)) = ran (domainNameToDomainId mg)"
    using ok i by (auto simp: mgr_ok_def)
  ultimately show ?thesis using ok view by (simp add: mgr_ok_def eqs)
qed

text \<open>A state that differs in members the invariant does not read\<close>

lemma mgr_ok_same:
  assumes "domainIdToUserNames mg' = domainIdToUserNames mg"
      "domainIdToUserIds mg' = domainIdToUserIds mg" "domainIdToNextUserId mg' = domainIdToNextUserId mg"
      "mg_names mg' = mg_names mg" "mg_passwords mg' = mg_passwords mg"
      "domainNameToDomainId mg' = domainNameToDomainId mg" "mg_nextdomainid mg' = mg_nextdomainid mg"
      "mg_brk mg' = mg_brk mg" "mg_schemata mg' = mg_schemata mg"
  shows "mgr_ok mg' = mgr_ok mg" and "domain_view mg' = domain_view mg"
proof -
  show view: "domain_view mg' = domain_view mg" by (simp add: fun_eq_iff domain_view_def assms)
  show "mgr_ok mg' = mgr_ok mg" by (simp add: mgr_ok_def assms view)
qed

lemma domain_ok_empty: "domain_ok Map.empty Map.empty 0"
  by (simp add: domain_ok_def)

lemma domain_ok_add:
  assumes "domain_ok n w k" and "n u = None"
  shows "domain_ok (n(u \<mapsto> k + 1)) (w(k + 1 \<mapsto> pwd)) (k + 1)"
proof -
  have new: "k + 1 \<notin> ran n" "k + 1 \<notin> dom w" using assms(1) by (auto simp: domain_ok_def)
  have "inj_on (n(u \<mapsto> k + 1)) (dom (n(u \<mapsto> k + 1)))"
  proof (rule inj_onI)
    fix a b assume ab: "a \<in> dom (n(u \<mapsto> k + 1))" "(n(u \<mapsto> k + 1)) a = (n(u \<mapsto> k + 1)) b"
    have "n c \<noteq> Some (k + 1)" for c using new(1) by (meson ranI)
    moreover have "inj_on n (dom n)" using assms(1) by (simp add: domain_ok_def)
    ultimately show "a = b" using ab by (auto split: if_splits dest: inj_onD2)
  qed
  moreover have "ran (n(u \<mapsto> k + 1)) = insert (k + 1) (ran n)" using assms(2) by simp
  ultimately show ?thesis using assms(1) by (auto simp: domain_ok_def)
qed

lemma domain_ok_remove:
  assumes "domain_ok n w k" and "n u = Some x"
  shows "domain_ok (n(u := None)) (w(x := None)) k"
proof -
  have inj: "inj_on n (dom n)" and eq: "ran n = dom w" and le: "0 \<le> k" "dom w \<subseteq> {1..k}"
    using assms(1) by (simp_all add: domain_ok_def)
  have "inj_on (n(u := None)) (dom (n(u := None)))" using inj by (auto simp: inj_on_def)
  moreover have "ran (n(u := None)) = ran n - {x}"
    using assms(2) inj by (auto simp: ran_def dest: inj_onD2)
  ultimately show ?thesis using eq le by (auto simp: domain_ok_def)
qed

lemma domain_ok_change:
  "domain_ok n w k \<Longrightarrow> w x \<noteq> None \<Longrightarrow> domain_ok n (w(x \<mapsto> pwd)) k"
  by (auto simp: domain_ok_def)

lemma domain_ok_password:
  assumes "domain_ok n w k" and "n u = Some x"
  obtains pwd where "w x = Some pwd"
  using assms ranI [of n u x] that by (auto simp: domain_ok_def)

section \<open>The directory\<close>

text \<open>An account of a domain: the ids of the domain and of the user, and the password\<close>

definition account :: "userSchemaMgr \<Rightarrow> bytes \<Rightarrow> bytes \<Rightarrow> (int \<times> int \<times> passwordStruct) option" where
  "account mg d u =
     Option.bind (domainNameToDomainId mg d) (\<lambda>i. Option.bind (domain_view mg i) (\<lambda>(n, w, k).
     Option.bind (n u) (\<lambda>x. map_option (\<lambda>pwd. (i, x, pwd)) (w x))))"

record directory =
  di_domains :: "bytes \<rightharpoonup> int"
  di_accounts :: "bytes \<times> bytes \<rightharpoonup> int \<times> int \<times> bytes"      \<comment> \<open>with the digest\<close>

definition directory_of :: "userSchemaMgr \<Rightarrow> directory" where
  "directory_of mg =
     \<lparr>di_domains = domainNameToDomainId mg,
      di_accounts = (\<lambda>(d, u). map_option (\<lambda>(i, x, pwd). (i, x, pw_digest pwd)) (account mg d u))\<rparr>"

text \<open>
  What a request does to the directory: the caller (ids of domain and user), the topic and the
  arguments of the request, the directory before, the topic of the reply with the ids it
  carries, and the directory after. Only the administrator, user 1 of domain 1, may change it.
\<close>

inductive directory_step :: "(bytes \<Rightarrow> bytes) \<Rightarrow> int \<times> int \<Rightarrow> topic \<Rightarrow> bytes list \<Rightarrow> directory \<Rightarrow>
    topic \<Rightarrow> int \<times> int \<Rightarrow> directory \<Rightarrow> bool" for sha where
  login_ok: "di_accounts D (d, u) = Some (i, x, sha p) \<Longrightarrow>
    directory_step sha c T_LOGIN (d # u # p # r) D T_LOGINOK (i, x) D"
| login_fail: "\<forall>i x. di_accounts D (d, u) \<noteq> Some (i, x, sha p) \<Longrightarrow>
    directory_step sha c T_LOGIN (d # u # p # r) D T_LOGINFAIL who D"
| createdomain_ok: "di_domains D d = None \<Longrightarrow> new \<notin> ran (di_domains D) \<Longrightarrow>
    directory_step sha (1, 1) T_CREATEDOMAIN (d # r) D T_CREATEDOMAINOK (new, 1)
      (D\<lparr>di_domains := (di_domains D)(d \<mapsto> new)\<rparr>)"
| createdomain_fail: "c \<noteq> (1, 1) \<or> di_domains D d \<noteq> None \<Longrightarrow>
    directory_step sha c T_CREATEDOMAIN (d # r) D T_CREATEDOMAINFAIL who D"
| createuser_ok: "di_domains D d = Some i \<Longrightarrow> di_accounts D (d, u) = None \<Longrightarrow>
    \<forall>u' g. di_accounts D (d, u') \<noteq> Some (i, new, g) \<Longrightarrow>
    directory_step sha (1, 1) T_CREATEUSER (d # u # p # r) D T_CREATEUSEROK (i, new)
      (D\<lparr>di_accounts := (di_accounts D)((d, u) \<mapsto> (i, new, sha p))\<rparr>)"
| createuser_fail: "c \<noteq> (1, 1) \<or> di_domains D d = None \<or> di_accounts D (d, u) \<noteq> None \<Longrightarrow>
    directory_step sha c T_CREATEUSER (d # u # p # r) D T_CREATEUSERFAIL who D"
| deleteuser_ok: "di_accounts D (d, u) = Some (i, x, g) \<Longrightarrow>
    directory_step sha (1, 1) T_DELETEUSER (d # u # r) D T_DELETEUSEROK (i, x)
      (D\<lparr>di_accounts := (di_accounts D)((d, u) := None)\<rparr>)"
| deleteuser_fail: "c \<noteq> (1, 1) \<or> di_accounts D (d, u) = None \<Longrightarrow>
    directory_step sha c T_DELETEUSER (d # u # r) D T_DELETEUSERFAIL who D"
| deletedomain_ok: "di_domains D d = Some i \<Longrightarrow>
    directory_step sha (1, 1) T_DELETEDOMAIN (d # r) D T_DELETEDOMAINOK (i, 1)
      (D\<lparr>di_domains := (di_domains D)(d := None),
         di_accounts := (\<lambda>(d', u). if d' = d then None else di_accounts D (d', u))\<rparr>)"
| deletedomain_fail: "c \<noteq> (1, 1) \<or> di_domains D d = None \<Longrightarrow>
    directory_step sha c T_DELETEDOMAIN (d # r) D T_DELETEDOMAINFAIL who D"

text \<open>The accounts after a change of one domain\<close>

lemma account_view:
  "domainNameToDomainId mg d = Some i \<Longrightarrow> domain_view mg i = Some (n, w, k) \<Longrightarrow>
   account mg d u = Option.bind (n u) (\<lambda>x. map_option (\<lambda>pwd. (i, x, pwd)) (w x))"
  by (simp add: account_def)

lemma account_other:
  assumes "inj_on (domainNameToDomainId mg) (dom (domainNameToDomainId mg))"
    and "domainNameToDomainId mg d = Some i" and "domainNameToDomainId mg' = domainNameToDomainId mg"
    and "domain_view mg' = (domain_view mg)(i := v)" and "d' \<noteq> d"
  shows "account mg' d' u = account mg d' u"
proof -
  have "domainNameToDomainId mg d' \<noteq> Some i" using assms by (auto dest: inj_onD2)
  then show ?thesis
    using assms(3,4) by (cases "domainNameToDomainId mg d'") (auto simp: account_def)
qed

lemma directory_same:
  "domainNameToDomainId mg' = domainNameToDomainId mg \<Longrightarrow> domain_view mg' = domain_view mg \<Longrightarrow>
   directory_of mg' = directory_of mg"
  by (simp add: directory_of_def account_def)

text \<open>The operation \<open>r\<close> on the state \<open>mg\<close> serves a request as the directory does.\<close>

definition serves :: "managerEnv \<Rightarrow> addressStruct \<Rightarrow> topic \<Rightarrow> bytes list \<Rightarrow> userSchemaMgr \<Rightarrow>
    userSchemaMgr res \<Rightarrow> bool" where
  "serves env src t rv mg r \<longleftrightarrow>
     (\<exists>mg' t' msg. r = Inr mg' \<and> mgr_ok mg' \<and> mg_outbox mg' = mg_outbox mg @ [(src, t', msg)] \<and>
        us_operationid (um_userschemaStruct msg) = mg_operationid mg \<and>
        directory_step (ue_sha512 env) (mg_domainid mg, mg_userid mg) t rv (directory_of mg) t'
          (us_domainid (um_userschemaStruct msg), us_userid (um_userschemaStruct msg))
          (directory_of mg'))"

lemma mgr_reply_fields [simp]:
  "domainNameToDomainId (mgr_reply src t msg mg) = domainNameToDomainId mg"
  "domainIdToUserNames (mgr_reply src t msg mg) = domainIdToUserNames mg"
  "domainIdToUserIds (mgr_reply src t msg mg) = domainIdToUserIds mg"
  "domainIdToNextUserId (mgr_reply src t msg mg) = domainIdToNextUserId mg"
  "mg_names (mgr_reply src t msg mg) = mg_names mg" "mg_passwords (mgr_reply src t msg mg) = mg_passwords mg"
  "mg_nextdomainid (mgr_reply src t msg mg) = mg_nextdomainid mg"
  "mg_brk (mgr_reply src t msg mg) = mg_brk mg" "mg_schemata (mgr_reply src t msg mg) = mg_schemata mg"
  "mg_pwdStruct (mgr_reply src t msg mg) = mg_pwdStruct mg"
  "mg_userIdToPassword (mgr_reply src t msg mg) = mg_userIdToPassword mg"
  by (simp_all add: mgr_reply_def mgr_send_def)

lemma mgr_reply_ok [simp]: "mgr_ok (mgr_reply src t msg mg) = mgr_ok mg"
  by (rule mgr_ok_same(1)) simp_all

lemma mgr_reply_view [simp]: "domain_view (mgr_reply src t msg mg) = domain_view mg"
  by (rule mgr_ok_same(2)) simp_all

lemma mgr_reply_directory [simp]: "directory_of (mgr_reply src t msg mg) = directory_of mg"
  by (rule directory_same) simp_all

lemma mgr_reply_outbox:
  "\<exists>msg'. mg_outbox (mgr_reply src t msg mg) = mg_outbox mg @ [(src, t, msg')] \<and>
     us_operationid (um_userschemaStruct msg') = mg_operationid mg \<and>
     us_domainid (um_userschemaStruct msg') = mg_domainid mg \<and>
     us_userid (um_userschemaStruct msg') = mg_userid mg"
  by (simp add: mgr_reply_def mgr_send_def)

lemma serves_reply:
  assumes "mgr_ok mg1" and "mg_outbox mg1 = mg_outbox mg"
    and "directory_step (ue_sha512 env) (mg_domainid mg, mg_userid mg) t rv (directory_of mg) t'
           (mg_domainid mg1, mg_userid mg1) (directory_of mg1)"
    and "mg_operationid mg1 = mg_operationid mg"
  shows "serves env src t rv mg (Inr (mgr_reply src t' msg mg1))"
proof -
  obtain msg' where "mg_outbox (mgr_reply src t' msg mg1) = mg_outbox mg1 @ [(src, t', msg')]"
      "us_operationid (um_userschemaStruct msg') = mg_operationid mg1"
      "us_domainid (um_userschemaStruct msg') = mg_domainid mg1"
      "us_userid (um_userschemaStruct msg') = mg_userid mg1"
    using mgr_reply_outbox by blast
  with assms show ?thesis
    unfolding serves_def by (intro exI [of _ "mgr_reply src t' msg mg1"] exI [of _ t'] exI [of _ msg']) simp
qed

text \<open>A reply that leaves the maps as they are\<close>

lemma serves_unchanged:
  assumes "mgr_ok mg" and "mg_outbox mg1 = mg_outbox mg"
    and "domainNameToDomainId mg1 = domainNameToDomainId mg" "domainIdToUserNames mg1 = domainIdToUserNames mg"
      "domainIdToUserIds mg1 = domainIdToUserIds mg" "domainIdToNextUserId mg1 = domainIdToNextUserId mg"
      "mg_names mg1 = mg_names mg" "mg_passwords mg1 = mg_passwords mg"
      "mg_nextdomainid mg1 = mg_nextdomainid mg" "mg_brk mg1 = mg_brk mg" "mg_schemata mg1 = mg_schemata mg"
    and "directory_step (ue_sha512 env) (mg_domainid mg, mg_userid mg) t rv (directory_of mg) t'
           (mg_domainid mg1, mg_userid mg1) (directory_of mg)"
    and "mg_operationid mg1 = mg_operationid mg"
  shows "serves env src t rv mg (Inr (mgr_reply src t' msg mg1))"
proof (rule serves_reply [OF _ assms(2) _ assms(13)])
  show "mgr_ok mg1" using assms(1) by (rule mgr_ok_same(1) [OF assms(4-8,3,9-11), THEN iffD2])
  have "directory_of mg1 = directory_of mg"
    by (rule directory_same [OF assms(3) mgr_ok_same(2) [OF assms(4-8,3,9-11)]])
  with assms(12) show "directory_step (ue_sha512 env) (mg_domainid mg, mg_userid mg) t rv
      (directory_of mg) t' (mg_domainid mg1, mg_userid mg1) (directory_of mg1)" by simp
qed

section \<open>The requests\<close>

lemma directory_of_sel [simp]:
  "di_domains (directory_of mg) = domainNameToDomainId mg"
  "di_accounts (directory_of mg) (d, u) = map_option (\<lambda>(i, x, pwd). (i, x, pw_digest pwd)) (account mg d u)"
  by (simp_all add: directory_of_def)

lemma account_cases:
  assumes "mgr_ok mg" and "domainNameToDomainId mg d = Some i"
  obtains p q n w k where "domainIdToUserNames mg i = Some p" "mg_names mg p = Some n"
    "domainIdToUserIds mg i = Some q" "mg_passwords mg q = Some w"
    "domainIdToNextUserId mg i = Some k" "domain_ok n w k"
    "account mg d = (\<lambda>u. Option.bind (n u) (\<lambda>x. map_option (\<lambda>pwd. (i, x, pwd)) (w x)))"
proof -
  obtain p q n w k where v: "domainIdToUserNames mg i = Some p" "mg_names mg p = Some n"
    "domainIdToUserIds mg i = Some q" "mg_passwords mg q = Some w"
    "domainIdToNextUserId mg i = Some k" "domain_ok n w k" by (rule mgr_ok_view [OF assms])
  then have "domain_view mg i = Some (n, w, k)" by (simp add: domain_view_eq)
  then show thesis by (intro that [OF v] ext account_view [OF assms(2)])
qed

lemma login_serves:
  assumes ok: "mgr_ok mg"
  shows "serves env src T_LOGIN (d # u # pw # r) mg (mgr_login env src (d # u # pw # r) mg)"
proof (cases "domainNameToDomainId mg d")
  case None
  then show ?thesis
    by (simp add: mgr_login_def) (rule serves_unchanged; simp add: ok account_def directory_step.login_fail)
next
  case (Some i)
  obtain p q n w k where v: "domainIdToUserNames mg i = Some p" "mg_names mg p = Some n"
    "domainIdToUserIds mg i = Some q" "mg_passwords mg q = Some w"
    "domainIdToNextUserId mg i = Some k" "domain_ok n w k"
    and acc: "account mg d = (\<lambda>u. Option.bind (n u) (\<lambda>x. map_option (\<lambda>pwd. (i, x, pwd)) (w x)))"
    by (rule account_cases [OF ok Some])
  note eval = mgr_login_def Some v(1-5) names_at_def passwords_at_def Let_def
  show ?thesis
  proof (cases "n u")
    case None
    then show ?thesis
      by (simp add: eval acc) (rule serves_unchanged; simp add: ok acc directory_step.login_fail)
  next
    case (Some x)
    obtain pwd where pwd: "w x = Some pwd" using domain_ok_password [OF v(6) Some] .
    have a: "account mg d u = Some (i, x, pwd)" by (simp add: acc Some pwd)
    show ?thesis
    proof (cases "pw_digest pwd = ue_sha512 env pw")
      case True
      then show ?thesis
        by (simp add: eval Some pwd a) (rule serves_unchanged; simp add: ok Some pwd a directory_step.login_ok)
    next
      case False
      then show ?thesis
        by (simp add: eval Some pwd a) (rule serves_unchanged; simp add: ok Some pwd a directory_step.login_fail)
    qed
  qed
qed

text \<open>The accounts of the domain \<open>i\<close> read from its maps\<close>

definition view_accounts :: "int \<Rightarrow> (bytes \<rightharpoonup> int) \<Rightarrow> (int \<rightharpoonup> passwordStruct) \<Rightarrow>
    bytes \<rightharpoonup> int \<times> int \<times> bytes" where
  "view_accounts i n w u = Option.bind (n u) (\<lambda>x. map_option (\<lambda>pwd. (i, x, pw_digest pwd)) (w x))"

lemma directory_update:
  assumes ok: "mgr_ok mg" and d: "domainNameToDomainId mg d = Some i"
    and same: "domainNameToDomainId mg' = domainNameToDomainId mg"
    and view: "domain_view mg' = (domain_view mg)(i \<mapsto> (n, w, k))"
  shows "directory_of mg' = (directory_of mg)\<lparr>di_accounts :=
     (\<lambda>(d', u). if d' = d then view_accounts i n w u else di_accounts (directory_of mg) (d', u))\<rparr>"
proof -
  have inj: "inj_on (domainNameToDomainId mg) (dom (domainNameToDomainId mg))"
    using ok by (simp add: mgr_ok_def)
  have "account mg' d u = Option.bind (n u) (\<lambda>x. map_option (\<lambda>pwd. (i, x, pwd)) (w x))" for u
    by (rule account_view [where k = k]) (simp_all add: same d view)
  moreover have "account mg' d' u = account mg d' u" if "d' \<noteq> d" for d' u
    by (rule account_other [OF inj d same view that])
  ultimately show ?thesis
    by (auto simp: directory_of_def same fun_eq_iff view_accounts_def option.map_comp comp_def
      split: option.splits bind_split)
qed

lemma directory_accounts_eq:
  "(\<And>d u. f (d, u) = g (d, u)) \<Longrightarrow> D\<lparr>di_accounts := f\<rparr> = D\<lparr>di_accounts := g\<rparr>"
  by (rule arg_cong [of f g "\<lambda>x. D\<lparr>di_accounts := x\<rparr>"]) (auto simp: fun_eq_iff)

lemma view_accounts_add:
  assumes "domain_ok n w k" and "n u = None"
  shows "view_accounts i (n(u \<mapsto> k + 1)) (w(k + 1 \<mapsto> pwd)) =
           (view_accounts i n w)(u \<mapsto> (i, k + 1, pw_digest pwd))"
proof
  fix v
  have "x \<noteq> k + 1" if "n v = Some x" for x
    using assms(1) ranI [of n v x] that by (auto simp: domain_ok_def)
  then show "view_accounts i (n(u \<mapsto> k + 1)) (w(k + 1 \<mapsto> pwd)) v =
      ((view_accounts i n w)(u \<mapsto> (i, k + 1, pw_digest pwd))) v"
    by (cases "n v") (auto simp: view_accounts_def)
qed

lemma view_accounts_remove:
  assumes "domain_ok n w k" and "n u = Some x"
  shows "view_accounts i (n(u := None)) (w(x := None)) = (view_accounts i n w)(u := None)"
proof
  fix v
  have "y \<noteq> x" if "n v = Some y" "v \<noteq> u" for y
    using assms that by (auto simp: domain_ok_def dest: inj_onD2)
  then show "view_accounts i (n(u := None)) (w(x := None)) v = ((view_accounts i n w)(u := None)) v"
    by (cases "n v") (auto simp: view_accounts_def)
qed

lemma createuser_serves:
  assumes ok: "mgr_ok mg"
  shows "serves env src T_CREATEUSER (d # u # pw # r) mg (mgr_createuser env src (d # u # pw # r) mg)"
proof (cases "is_global_admin mg")
  case False
  then show ?thesis
    by (simp add: mgr_createuser_def)
       (rule serves_unchanged; simp add: ok is_global_admin_def directory_step.createuser_fail)
next
  case admin: True
  show ?thesis
  proof (cases "domainNameToDomainId mg d")
    case None
    with admin show ?thesis
      by (simp add: mgr_createuser_def)
         (rule serves_unchanged; simp add: ok directory_step.createuser_fail)
  next
    case (Some i)
    obtain p q n w k where v: "domainIdToUserNames mg i = Some p" "mg_names mg p = Some n"
      "domainIdToUserIds mg i = Some q" "mg_passwords mg q = Some w"
      "domainIdToNextUserId mg i = Some k" "domain_ok n w k"
      and acc: "account mg d = (\<lambda>u. Option.bind (n u) (\<lambda>x. map_option (\<lambda>pwd. (i, x, pwd)) (w x)))"
      by (rule account_cases [OF ok Some])
    note eval = mgr_createuser_def Some v(1-5) names_at_def passwords_at_def set_names_def
      set_passwords_def getnextuserid_def Let_def
    show ?thesis
    proof (cases "n u")
      case (Some x)
      obtain pwd where pwd: "w x = Some pwd" using domain_ok_password [OF v(6) Some] .
      show ?thesis using admin
        by (simp add: eval Some) (rule serves_unchanged; simp add: ok acc Some pwd directory_step.createuser_fail)
    next
      case None
      let ?pwd = "(mg_pwdStruct mg)\<lparr>pw_digest := ue_sha512 env pw\<rparr>"
      let ?mg = "mg\<lparr>domainIdToNextUserId := (domainIdToNextUserId mg)(i \<mapsto> k + 1),
                   mg_names := (mg_names mg)(p \<mapsto> n(u \<mapsto> k + 1)),
                   mg_passwords := (mg_passwords mg)(q \<mapsto> w(k + 1 \<mapsto> ?pwd)),
                   mg_userIdToPassword := Some q, mg_pwdStruct := ?pwd, mg_domainid := i,
                   mg_userid := k + 1\<rparr>"
      have run: "mgr_createuser env src (d # u # pw # r) mg =
          Inr (mgr_reply src T_CREATEUSEROK (ue_fresh env) ?mg)"
        using admin by (simp add: eval None)
      have upd: "mgr_ok ?mg \<and>
          domain_view ?mg = (domain_view mg)(i \<mapsto> (n(u \<mapsto> k + 1), w(k + 1 \<mapsto> ?pwd), k + 1))"
        by (rule mgr_ok_update [OF ok Some v(1,3) domain_ok_add [OF v(6) None]]) simp_all
      have dir: "directory_of ?mg = (directory_of mg)\<lparr>di_accounts :=
          (di_accounts (directory_of mg))((d, u) \<mapsto> (i, k + 1, ue_sha512 env pw))\<rparr>"
        unfolding directory_update [OF ok Some _ upd [THEN conjunct2], simplified]
          view_accounts_add [OF v(6) None]
        by (rule directory_accounts_eq)
          (auto simp: acc view_accounts_def option.map_comp comp_def split: bind_split)
      have fresh: "\<forall>u' g. di_accounts (directory_of mg) (d, u') \<noteq> Some (i, k + 1, g)"
        using v(6) by (auto simp: acc bind_eq_Some_conv domain_ok_def dest: ranI)
      show ?thesis unfolding run
      proof (rule serves_reply)
        show "directory_step (ue_sha512 env) (mg_domainid mg, mg_userid mg) T_CREATEUSER (d # u # pw # r)
            (directory_of mg) T_CREATEUSEROK (mg_domainid ?mg, mg_userid ?mg) (directory_of ?mg)"
          unfolding dir using admin Some None fresh
          by (simp add: is_global_admin_def) (rule directory_step.createuser_ok; simp add: acc)
      qed (simp_all add: upd)
    qed
  qed
qed

lemma deleteuser_serves:
  assumes ok: "mgr_ok mg"
  shows "serves env src T_DELETEUSER (d # u # r) mg (mgr_deleteuser env src (d # u # r) mg)"
proof (cases "is_global_admin mg")
  case False
  then show ?thesis
    by (simp add: mgr_deleteuser_def)
       (rule serves_unchanged; simp add: ok is_global_admin_def directory_step.deleteuser_fail)
next
  case admin: True
  show ?thesis
  proof (cases "domainNameToDomainId mg d")
    case None
    with admin show ?thesis
      by (simp add: mgr_deleteuser_def)
         (rule serves_unchanged; simp add: ok account_def directory_step.deleteuser_fail)
  next
    case (Some i)
    obtain p q n w k where v: "domainIdToUserNames mg i = Some p" "mg_names mg p = Some n"
      "domainIdToUserIds mg i = Some q" "mg_passwords mg q = Some w"
      "domainIdToNextUserId mg i = Some k" "domain_ok n w k"
      and acc: "account mg d = (\<lambda>u. Option.bind (n u) (\<lambda>x. map_option (\<lambda>pwd. (i, x, pwd)) (w x)))"
      by (rule account_cases [OF ok Some])
    note eval = mgr_deleteuser_def Some v(1-5) names_at_def passwords_at_def set_names_def
      set_passwords_def Let_def
    show ?thesis
    proof (cases "n u")
      case None
      show ?thesis using admin
        by (simp add: eval None) (rule serves_unchanged; simp add: ok acc None directory_step.deleteuser_fail)
    next
      case (Some x)
      obtain pwd where pwd: "w x = Some pwd" using domain_ok_password [OF v(6) Some] .
      let ?mg = "mg\<lparr>mg_domainid := i, mg_names := (mg_names mg)(p \<mapsto> n(u := None)), mg_userid := x,
                   mg_passwords := (mg_passwords mg)(q \<mapsto> w(x := None)), mg_userIdToPassword := Some q\<rparr>"
      have run: "mgr_deleteuser env src (d # u # r) mg =
          Inr (mgr_reply src T_DELETEUSEROK (ue_fresh env) ?mg)"
        using admin by (simp add: eval Some)
      have upd: "mgr_ok ?mg \<and> domain_view ?mg = (domain_view mg)(i \<mapsto> (n(u := None), w(x := None), k))"
        by (rule mgr_ok_update [OF ok \<open>domainNameToDomainId mg d = Some i\<close> v(1,3)
              domain_ok_remove [OF v(6) Some]]) (simp_all add: v(5) fun_upd_idem)
      have dir: "directory_of ?mg = (directory_of mg)\<lparr>di_accounts :=
          (di_accounts (directory_of mg))((d, u) := None)\<rparr>"
        unfolding directory_update [OF ok \<open>domainNameToDomainId mg d = Some i\<close> _ upd [THEN conjunct2],
            simplified] view_accounts_remove [OF v(6) Some]
        by (rule directory_accounts_eq)
          (auto simp: acc view_accounts_def option.map_comp comp_def split: bind_split)
      show ?thesis unfolding run
      proof (rule serves_reply)
        show "directory_step (ue_sha512 env) (mg_domainid mg, mg_userid mg) T_DELETEUSER (d # u # r)
            (directory_of mg) T_DELETEUSEROK (mg_domainid ?mg, mg_userid ?mg) (directory_of ?mg)"
          unfolding dir using admin
          by (simp add: is_global_admin_def)
             (rule directory_step.deleteuser_ok [where g = "pw_digest pwd"]; simp add: acc Some pwd)
      qed (simp_all add: upd)
    qed
  qed
qed

section \<open>The requests on domains\<close>

lemma ran_upd_None:
  assumes "inj_on m (dom m)" and "m a = Some x"
  shows "ran (m(a := None)) = ran m - {x}"
  using assms by (auto simp: ran_def dest: inj_onD2)

lemma inj_on_upd:
  assumes "inj_on m (dom m)" and "x \<notin> ran m"
  shows "inj_on (m(a \<mapsto> x)) (dom (m(a \<mapsto> x)))"
proof (rule inj_onI)
  fix b c assume "b \<in> dom (m(a \<mapsto> x))" "(m(a \<mapsto> x)) b = (m(a \<mapsto> x)) c"
  moreover have "m e \<noteq> Some x" for e using assms(2) by (meson ranI)
  ultimately show "b = c" using assms(1) by (auto split: if_splits dest: inj_onD2)
qed

lemma inj_on_upd_None: "inj_on m (dom m) \<Longrightarrow> inj_on (m(a := None)) (dom (m(a := None)))"
  by (auto simp: inj_on_def)

lemma pointers_ok_upd:
  assumes "pointers_ok m b" "m a = None" "b \<le> p" "p < b'"
  shows "pointers_ok (m(a \<mapsto> p)) b'"
proof -
  have "p \<notin> ran m" using assms(1,3) by (auto simp: pointers_ok_def)
  moreover have "ran (m(a \<mapsto> p)) = insert p (ran m)" using assms(2) by simp
  ultimately show ?thesis using assms unfolding pointers_ok_def
    by (intro conjI inj_on_upd) auto
qed

lemma pointers_ok_None: "pointers_ok m b \<Longrightarrow> pointers_ok (m(a := None)) b"
  unfolding pointers_ok_def by (intro conjI inj_on_upd_None) (auto simp: ran_def split: if_splits)

lemma pointers_ok_less: "pointers_ok m b \<Longrightarrow> m a = Some p \<Longrightarrow> p < b"
  by (auto simp: pointers_ok_def dest: ranI)

lemma new_domain_ok:
  assumes ok: "mgr_ok mg" and new: "domainNameToDomainId mg d = None"
    and eqs: "domainNameToDomainId mg' = (domainNameToDomainId mg)(d \<mapsto> j)" "j = mg_nextdomainid mg + 1"
      "mg_nextdomainid mg' = j"
      "domainIdToUserNames mg' = (domainIdToUserNames mg)(j \<mapsto> mg_brk mg)"
      "domainIdToUserIds mg' = (domainIdToUserIds mg)(j \<mapsto> mg_brk mg + 1)"
      "domainIdToNextUserId mg' = (domainIdToNextUserId mg)(j \<mapsto> 0)"
      "mg_names mg' = (mg_names mg)(mg_brk mg \<mapsto> Map.empty)"
      "mg_passwords mg' = (mg_passwords mg)(mg_brk mg + 1 \<mapsto> Map.empty)"
      "mg_brk mg' = mg_brk mg + 2" "mg_schemata mg' = mg_schemata mg"
  shows "mgr_ok mg'" and "domain_view mg' = (domain_view mg)(j \<mapsto> (Map.empty, Map.empty, 0))"
    and "j \<notin> ran (domainNameToDomainId mg)"
proof -
  show fresh: "j \<notin> ran (domainNameToDomainId mg)" using ok eqs(2) by (auto simp: mgr_ok_def)
  have ptr: "pointers_ok (domainIdToUserNames mg) (mg_brk mg)" "pointers_ok (domainIdToUserIds mg) (mg_brk mg)"
    and none: "domainIdToUserNames mg j = None" "domainIdToUserIds mg j = None"
    using ok fresh by (auto simp: mgr_ok_def)
  show view: "domain_view mg' = (domain_view mg)(j \<mapsto> (Map.empty, Map.empty, 0))"
  proof
    fix i
    show "domain_view mg' i = ((domain_view mg)(j \<mapsto> (Map.empty, Map.empty, 0))) i"
    proof (cases "i = j")
      case False
      then show ?thesis
        using pointers_ok_less [OF ptr(1), of i] pointers_ok_less [OF ptr(2), of i]
        by (cases "domainIdToUserNames mg i"; cases "domainIdToUserIds mg i")
          (auto simp: domain_view_def eqs)
    qed (simp add: domain_view_def eqs)
  qed
  have ran: "ran (domainNameToDomainId mg') = insert j (ran (domainNameToDomainId mg))"
    using new by (simp add: eqs(1))
  have "\<exists>n w k. domain_view mg' i = Some (n, w, k) \<and> domain_ok n w k"
    if "i \<in> ran (domainNameToDomainId mg')" for i
    using ok that domain_ok_empty unfolding view ran by (cases "i = j") (auto simp: mgr_ok_def)
  moreover have "inj_on (domainNameToDomainId mg') (dom (domainNameToDomainId mg'))"
    unfolding eqs(1) using ok fresh by (intro inj_on_upd) (simp_all add: mgr_ok_def)
  moreover have "pointers_ok (domainIdToUserNames mg') (mg_brk mg')"
    unfolding eqs(4,9) by (rule pointers_ok_upd [OF ptr(1) none(1)]) simp_all
  moreover have "pointers_ok (domainIdToUserIds mg') (mg_brk mg')"
    unfolding eqs(5,9) by (rule pointers_ok_upd [OF ptr(2) none(2)]) simp_all
  moreover have "dom (domainIdToUserNames mg') = ran (domainNameToDomainId mg')"
      "dom (domainIdToUserIds mg') = ran (domainNameToDomainId mg')"
      "dom (domainIdToNextUserId mg') = ran (domainNameToDomainId mg')"
    unfolding ran eqs(4-6) using ok by (simp_all add: mgr_ok_def)
  moreover have "ran (domainNameToDomainId mg') \<subseteq> {1..mg_nextdomainid mg'}" "1 \<le> mg_nextdomainid mg'"
    unfolding ran eqs(3) using ok eqs(2) by (auto simp: mgr_ok_def)
  moreover have "\<forall>i s. mg_schemata mg' i = Some s \<longrightarrow> schema_ok s"
    unfolding eqs(10) using ok by (simp add: mgr_ok_def)
  ultimately show "mgr_ok mg'" unfolding mgr_ok_def by blast
qed

lemma delete_domain_ok:
  assumes ok: "mgr_ok mg" and d: "domainNameToDomainId mg d = Some i"
    and ptr: "domainIdToUserNames mg i = Some p" "domainIdToUserIds mg i = Some q"
    and eqs: "domainNameToDomainId mg' = (domainNameToDomainId mg)(d := None)"
      "mg_nextdomainid mg' = mg_nextdomainid mg"
      "domainIdToUserNames mg' = (domainIdToUserNames mg)(i := None)"
      "domainIdToUserIds mg' = (domainIdToUserIds mg)(i := None)"
      "domainIdToNextUserId mg' = (domainIdToNextUserId mg)(i := None)"
      "mg_names mg' = (mg_names mg)(p := None)" "mg_passwords mg' = (mg_passwords mg)(q := None)"
      "mg_brk mg' = mg_brk mg" "mg_schemata mg' = mg_schemata mg"
  shows "mgr_ok mg'" and "domain_view mg' = (domain_view mg)(i := None)"
proof -
  have inj: "inj_on (domainNameToDomainId mg) (dom (domainNameToDomainId mg))"
    and ptrs: "pointers_ok (domainIdToUserNames mg) (mg_brk mg)"
      "pointers_ok (domainIdToUserIds mg) (mg_brk mg)" using ok by (simp_all add: mgr_ok_def)
  show view: "domain_view mg' = (domain_view mg)(i := None)"
  proof
    fix j
    have 1: "j = i" if "domainIdToUserNames mg j = Some p"
      using ptrs(1) ptr(1) that by (auto simp: pointers_ok_def dest: inj_onD2)
    have 2: "j = i" if "domainIdToUserIds mg j = Some q"
      using ptrs(2) ptr(2) that by (auto simp: pointers_ok_def dest: inj_onD2)
    show "domain_view mg' j = ((domain_view mg)(i := None)) j"
    proof (cases "j = i")
      case True
      then show ?thesis by (simp add: domain_view_def eqs(3))
    next
      case False
      with 1 2 show ?thesis
        by (cases "domainIdToUserNames mg j"; cases "domainIdToUserIds mg j")
          (auto simp: domain_view_def eqs(3-7))
    qed
  qed
  have ran: "ran (domainNameToDomainId mg') = ran (domainNameToDomainId mg) - {i}"
    unfolding eqs(1) by (rule ran_upd_None [OF inj d])
  have "\<exists>n w k. domain_view mg' j = Some (n, w, k) \<and> domain_ok n w k"
    if "j \<in> ran (domainNameToDomainId mg')" for j
  proof -
    have "j \<in> ran (domainNameToDomainId mg)" "j \<noteq> i" using that unfolding ran by simp_all
    with ok show ?thesis unfolding view mgr_ok_def by simp
  qed
  moreover have "inj_on (domainNameToDomainId mg') (dom (domainNameToDomainId mg'))"
    unfolding eqs(1) by (rule inj_on_upd_None [OF inj])
  moreover have "pointers_ok (domainIdToUserNames mg') (mg_brk mg')"
      "pointers_ok (domainIdToUserIds mg') (mg_brk mg')"
    unfolding eqs(3,4,8) by (rule pointers_ok_None [OF ptrs(1)], rule pointers_ok_None [OF ptrs(2)])
  moreover have "dom (domainIdToUserNames mg') = ran (domainNameToDomainId mg')"
      "dom (domainIdToUserIds mg') = ran (domainNameToDomainId mg')"
      "dom (domainIdToNextUserId mg') = ran (domainNameToDomainId mg')"
    unfolding ran eqs(3-5) dom_fun_upd using ok by (simp_all add: mgr_ok_def)
  moreover have "ran (domainNameToDomainId mg') \<subseteq> {1..mg_nextdomainid mg'}" "1 \<le> mg_nextdomainid mg'"
    unfolding ran eqs(2) using ok unfolding mgr_ok_def by (blast, blast)
  moreover have "\<forall>i s. mg_schemata mg' i = Some s \<longrightarrow> schema_ok s"
    unfolding eqs(9) using ok by (simp add: mgr_ok_def)
  ultimately show "mgr_ok mg'" unfolding mgr_ok_def by blast
qed


text \<open>The account of a domain that is not the one that changed\<close>

lemma account_frame:
  assumes "\<And>i. domainNameToDomainId mg d = Some i \<Longrightarrow> domain_view mg' i = domain_view mg i"
    and "domainNameToDomainId mg' d = domainNameToDomainId mg d"
  shows "account mg' d u = account mg d u"
  using assms by (cases "domainNameToDomainId mg d") (auto simp: account_def)

lemma createdomain_serves:
  assumes ok: "mgr_ok mg"
  shows "serves env src T_CREATEDOMAIN (d # r) mg (mgr_createdomain env src (d # r) mg)"
proof (cases "is_global_admin mg \<and> domainNameToDomainId mg d = None")
  case False
  then show ?thesis
    by (auto simp: mgr_createdomain_def)
       (rule serves_unchanged; auto simp: ok is_global_admin_def intro: directory_step.createdomain_fail)+
next
  case True
  let ?j = "mg_nextdomainid mg + 1"
  let ?mg = "(new_domain_maps ?j (mg\<lparr>mg_nextdomainid := ?j,
               domainNameToDomainId := (domainNameToDomainId mg)(d \<mapsto> ?j)\<rparr>))
             \<lparr>domainIdToNextUserId := (domainIdToNextUserId mg)(?j \<mapsto> 0), mg_domainid := ?j\<rparr>"
  have run: "mgr_createdomain env src (d # r) mg = Inr (mgr_reply src T_CREATEDOMAINOK (ue_fresh env) ?mg)"
    using True by (simp add: mgr_createdomain_def getnextdomainid_def new_domain_maps_def Let_def)
  have none: "domainNameToDomainId mg d = None" using True by simp
  have new: "mgr_ok ?mg" "domain_view ?mg = (domain_view mg)(?j \<mapsto> (Map.empty, Map.empty, 0))"
      "?j \<notin> ran (domainNameToDomainId mg)"
    by (rule new_domain_ok [where mg' = ?mg, OF ok none]; simp add: new_domain_maps_def Let_def)+
  have acc: "account ?mg d' u = account mg d' u" for d' u
  proof (cases "d' = d")
    case True
    then show ?thesis by (simp add: account_def new(2) none) (simp add: new_domain_maps_def Let_def)
  next
    case False
    show ?thesis
    proof (rule account_frame)
      fix i assume "domainNameToDomainId mg d' = Some i"
      then have "i \<noteq> ?j" using new(3) by (meson ranI)
      then show "domain_view ?mg i = domain_view mg i" unfolding new(2) by simp
    qed (simp add: False new_domain_maps_def Let_def)
  qed
  have dir: "directory_of ?mg = (directory_of mg)\<lparr>di_domains := (domainNameToDomainId mg)(d \<mapsto> ?j)\<rparr>"
    unfolding directory_of_def acc by (simp add: new_domain_maps_def Let_def)
  show ?thesis unfolding run
  proof (rule serves_reply)
    have "directory_step (ue_sha512 env) (1, 1) T_CREATEDOMAIN (d # r) (directory_of mg)
        T_CREATEDOMAINOK (?j, 1) ((directory_of mg)\<lparr>di_domains := (di_domains (directory_of mg))(d \<mapsto> ?j)\<rparr>)"
      by (rule directory_step.createdomain_ok) (simp_all add: none new(3))
    with True show "directory_step (ue_sha512 env) (mg_domainid mg, mg_userid mg) T_CREATEDOMAIN (d # r)
        (directory_of mg) T_CREATEDOMAINOK (mg_domainid ?mg, mg_userid ?mg) (directory_of ?mg)"
      unfolding dir by (simp add: is_global_admin_def new_domain_maps_def Let_def)
  qed (simp_all add: new(1), simp_all add: new_domain_maps_def Let_def)
qed

lemma deletedomain_serves:
  assumes ok: "mgr_ok mg"
  shows "serves env src T_DELETEDOMAIN (d # r) mg (mgr_deletedomain env src (d # r) mg)"
proof (cases "is_global_admin mg \<and> domainNameToDomainId mg d \<noteq> None")
  case False
  then show ?thesis
    by (auto simp: mgr_deletedomain_def)
       (rule serves_unchanged; auto simp: ok is_global_admin_def intro: directory_step.deletedomain_fail)+
next
  case True
  then obtain i where d: "domainNameToDomainId mg d = Some i" by auto
  obtain p q n w k where v: "domainIdToUserNames mg i = Some p" "mg_names mg p = Some n"
    "domainIdToUserIds mg i = Some q" "mg_passwords mg q = Some w"
    "domainIdToNextUserId mg i = Some k" "domain_ok n w k" by (rule mgr_ok_view [OF ok d])
  let ?mg = "mg\<lparr>mg_domainid := i, mg_names := (mg_names mg)(p := None),
               mg_passwords := (mg_passwords mg)(q := None),
               domainIdToUserNames := (domainIdToUserNames mg)(i := None),
               domainIdToUserIds := (domainIdToUserIds mg)(i := None),
               domainIdToNextUserId := (domainIdToNextUserId mg)(i := None),
               domainNameToDomainId := (domainNameToDomainId mg)(d := None)\<rparr>"
  have run: "mgr_deletedomain env src (d # r) mg = Inr (mgr_reply src T_DELETEDOMAINOK (ue_fresh env) ?mg)"
    using True by (simp add: mgr_deletedomain_def delete_names_def delete_passwords_def d v)
  have del: "mgr_ok ?mg" "domain_view ?mg = (domain_view mg)(i := None)"
    by (rule delete_domain_ok [OF ok d v(1,3)]; simp)+
  have acc: "account ?mg d' u = (if d' = d then None else account mg d' u)" for d' u
  proof (cases "d' = d")
    case False
    have "account ?mg d' u = account mg d' u"
    proof (rule account_frame)
      fix j assume "domainNameToDomainId mg d' = Some j"
      then have "j \<noteq> i" using ok d False by (auto simp: mgr_ok_def dest: inj_onD2)
      then show "domain_view ?mg j = domain_view mg j" unfolding del(2) by simp
    qed (simp add: False)
    with False show ?thesis by simp
  qed (simp add: account_def)
  have dir: "directory_of ?mg = (directory_of mg)\<lparr>di_domains := (di_domains (directory_of mg))(d := None),
      di_accounts := (\<lambda>(d', u). if d' = d then None else di_accounts (directory_of mg) (d', u))\<rparr>"
    unfolding directory_of_def acc by (auto simp: fun_eq_iff)
  show ?thesis unfolding run
  proof (rule serves_reply)
    have "directory_step (ue_sha512 env) (1, 1) T_DELETEDOMAIN (d # r) (directory_of mg)
        T_DELETEDOMAINOK (i, 1) (directory_of ?mg)"
      unfolding dir by (rule directory_step.deletedomain_ok) (simp add: d)
    with True show "directory_step (ue_sha512 env) (mg_domainid mg, mg_userid mg) T_DELETEDOMAIN (d # r)
        (directory_of mg) T_DELETEDOMAINOK (mg_domainid ?mg, mg_userid ?mg) (directory_of ?mg)"
      by (simp add: is_global_admin_def)
  qed (simp_all add: del(1))
qed


section \<open>Every message keeps the invariant\<close>

text \<open>Arguments behind those an operation reads do not matter.\<close>

lemma vec_at_append: "vec_at i xs = Inr x \<Longrightarrow> vec_at i (xs @ ys) = Inr x"
  by (auto simp: vec_at_def nth_append split: if_splits)

text \<open>\<open>f\<close> is approximated by \<open>g\<close>: what \<open>f\<close> returns, \<open>g\<close> returns.\<close>

definition le_res :: "'a res \<Rightarrow> 'a res \<Rightarrow> bool" where
  "le_res f g \<longleftrightarrow> (\<forall>x. f = Inr x \<longrightarrow> g = Inr x)"

lemma le_res_refl: "le_res f f"
  by (simp add: le_res_def)

lemma le_res_vec_at: "le_res (vec_at i xs) (vec_at i (xs @ ys))"
  by (simp add: le_res_def vec_at_append)

lemma le_res_rbind: "le_res m m' \<Longrightarrow> (\<And>x. le_res (f x) (g x)) \<Longrightarrow> le_res (rbind m f) (rbind m' g)"
  by (auto simp: le_res_def)

lemma le_res_option:
  "le_res a b \<Longrightarrow> (\<And>x. le_res (f x) (g x)) \<Longrightarrow> le_res (case_option a f z) (case_option b g z)"
  by (cases z) auto

lemma le_res_if: "le_res a a' \<Longrightarrow> le_res b b' \<Longrightarrow> le_res (if c then a else b) (if c then a' else b')"
  by simp

lemma le_res_prod: "(\<And>x y. le_res (f x y) (g x y)) \<Longrightarrow> le_res (case_prod f z) (case_prod g z)"
  by (cases z) simp

lemmas le_res_intros = le_res_vec_at le_res_rbind le_res_option le_res_if le_res_prod le_res_refl

lemma requests_append:
  "le_res (mgr_login env src rv mg) (mgr_login env src (rv @ ys) mg)"
  "le_res (mgr_createdomain env src rv mg) (mgr_createdomain env src (rv @ ys) mg)"
  "le_res (mgr_createuser env src rv mg) (mgr_createuser env src (rv @ ys) mg)"
  "le_res (mgr_deleteuser env src rv mg) (mgr_deleteuser env src (rv @ ys) mg)"
  "le_res (mgr_deletedomain env src rv mg) (mgr_deletedomain env src (rv @ ys) mg)"
  unfolding mgr_login_def mgr_createdomain_def mgr_createuser_def mgr_deleteuser_def
    mgr_deletedomain_def Let_def
  by (intro le_res_intros)+

lemma request_keeps_ok:
  assumes run: "f rv = Inr mg'" and app: "\<And>ys. le_res (f rv) (f (rv @ ys))"
    and serves: "\<And>a b c r. serves env src t (a # b # c # r) mg (f (a # b # c # r))"
  shows "mgr_ok mg'"
proof -
  obtain a b c r where rv: "rv @ [[], [], []] = a # b # c # r"
    by (cases rv; cases "tl rv"; cases "tl (tl rv)") auto
  from app [of "[[], [], []]"] run have "f (a # b # c # r) = Inr mg'" by (simp add: le_res_def rv)
  with serves [of a b c r] show ?thesis by (auto simp: serves_def)
qed

lemma mgr_ok_view_same:
  assumes ok: "mgr_ok mg" and view: "domain_view mg' = domain_view mg"
    and "domainIdToUserNames mg' = domainIdToUserNames mg"
      "domainIdToUserIds mg' = domainIdToUserIds mg" "domainIdToNextUserId mg' = domainIdToNextUserId mg"
      "domainNameToDomainId mg' = domainNameToDomainId mg" "mg_nextdomainid mg' = mg_nextdomainid mg"
      "mg_brk mg' = mg_brk mg" "\<And>i s. mg_schemata mg' i = Some s \<Longrightarrow> schema_ok s"
  shows "mgr_ok mg'"
  using ok assms(9) unfolding mgr_ok_def view assms(3-8) by blast

lemma set_passwords_ok:
  assumes ok: "mgr_ok mg" and w: "mg_passwords mg q = Some w" "w x \<noteq> None"
  shows "mgr_ok (set_passwords q (w(x \<mapsto> pwd)) mg)"
proof (cases "\<exists>i. domainIdToUserIds mg i = Some q")
  case True
  then obtain i where q: "domainIdToUserIds mg i = Some q" by blast
  then have "i \<in> ran (domainNameToDomainId mg)" using ok by (auto simp: mgr_ok_def)
  then obtain d where d: "domainNameToDomainId mg d = Some i" by (auto simp: ran_def)
  obtain p q' n w' k where v: "domainIdToUserNames mg i = Some p" "mg_names mg p = Some n"
    "domainIdToUserIds mg i = Some q'" "mg_passwords mg q' = Some w'"
    "domainIdToNextUserId mg i = Some k" "domain_ok n w' k" by (rule mgr_ok_view [OF ok d])
  have "domain_ok n (w(x \<mapsto> pwd)) k" using v q w by (auto intro: domain_ok_change)
  then show ?thesis
    using mgr_ok_update [OF ok d v(1) q, of n "w(x \<mapsto> pwd)" k] by (simp add: set_passwords_def v fun_upd_idem)
next
  case False
  have "domain_view (set_passwords q (w(x \<mapsto> pwd)) mg) i = domain_view mg i" for i
    using False by (cases "domainIdToUserIds mg i") (auto simp: domain_view_def set_passwords_def)
  then show ?thesis
    using ok by (intro mgr_ok_view_same [OF ok]) (auto simp: set_passwords_def mgr_ok_def)
qed

lemma changepassword_ok:
  assumes ok: "mgr_ok mg" and run: "mgr_changepassword env src rv mg = Inr mg'"
  shows "mgr_ok mg'"
proof -
  have "mgr_ok (mgr_reply src t msg (set_passwords q (w(x \<mapsto> pwd)) mg))"
    if "passwords_at q mg = Inr w" "w x = Some y" for t msg q w x pwd y
    using that by (auto simp: passwords_at_def split: option.splits intro: set_passwords_ok [OF ok])
  with run ok show ?thesis by (auto simp: mgr_changepassword_def split: option.splits if_splits)
qed


text \<open>The schemata\<close>

lemma schemata_keep_ok:
  assumes ok: "mgr_ok mg" and s: "schema_ok s"
    and eqs: "mg_schemata mg' = (mg_schemata mg)(i \<mapsto> s)"
      "domainIdToUserNames mg' = domainIdToUserNames mg"
      "domainIdToUserIds mg' = domainIdToUserIds mg" "domainIdToNextUserId mg' = domainIdToNextUserId mg"
      "mg_names mg' = mg_names mg" "mg_passwords mg' = mg_passwords mg"
      "domainNameToDomainId mg' = domainNameToDomainId mg" "mg_nextdomainid mg' = mg_nextdomainid mg"
      "mg_brk mg' = mg_brk mg"
  shows "mgr_ok mg'"
proof (rule mgr_ok_view_same [OF ok _ eqs(2-4,7-9)])
  show "domain_view mg' = domain_view mg" unfolding domain_view_def eqs ..
  fix j r assume "mg_schemata mg' j = Some r"
  then show "schema_ok r" using ok s by (auto simp: eqs(1) mgr_ok_def split: if_splits)
qed

lemma newSchema_ok: "schema_ok (newSchema d)"
  by (simp add: schema_ok_def newSchema_def)

lemma createTable_ok:
  assumes ok: "schema_ok s" and new: "tableNameToId s name = None"
    and run: "getnexttableid s = (tid, s1)" "createTable indet tid s1 = (r, s2)"
  shows "r = STATUS_OK" and "tid = sch_nexttableid s + 1"
    and "schema_ok (s2\<lparr>tableNameToId := (tableNameToId s2)(name \<mapsto> tid)\<rparr>)"
proof -
  have s1: "tid = sch_nexttableid s + 1" "s1 = s\<lparr>sch_nexttableid := sch_nexttableid s + 1\<rparr>"
    using run(1) by (auto simp: getnexttableid_def)
  then show "tid = sch_nexttableid s + 1" by simp
  have free: "tid \<notin> dom (sch_tables s)" using ok s1(1) by (auto simp: schema_ok_def)
  then have s2: "s2 = s1\<lparr>sch_tables := (sch_tables s)(tid \<mapsto> Table indet tid)\<rparr>" and "r = STATUS_OK"
    using run(2) s1(2) by (simp_all add: createTable_def domIff)
  then show "r = STATUS_OK" by simp
  have fields: "dom (fieldNameToId s) \<subseteq> dom (sch_tables s)" using ok unfolding schema_ok_def by blast
  with free have none: "fieldNameToId s tid = None" by (meson domIff subsetD)
  have names: "tid \<notin> ran (tableNameToId s)" using ok free by (simp add: schema_ok_def)
  have old: "0 \<le> sch_nexttableid s" "dom (sch_tables s) = {1..sch_nexttableid s}"
    "ran (tableNameToId s) = {1..sch_nexttableid s}"
    using ok unfolding schema_ok_def by simp_all
  have ids: "insert tid {1..sch_nexttableid s} = {1..tid}" using old(1) s1(1) by auto
  have tabs: "dom ((sch_tables s)(tid \<mapsto> Table indet tid)) = {1..tid}"
    unfolding dom_fun_upd using old(2) ids by simp
  have ran: "ran ((tableNameToId s)(name \<mapsto> tid)) = {1..tid}"
    using new old(3) ids by simp
  have inj: "inj_on ((tableNameToId s)(name \<mapsto> tid)) (dom ((tableNameToId s)(name \<mapsto> tid)))"
    using ok names by (intro inj_on_upd) (simp_all add: schema_ok_def)
  have cols: "columns_ok (Table indet tid)" "columnNameToFieldMap (Table indet tid) = Map.empty"
    by (simp_all add: columns_ok_def Table_def)
  have each: "columns_ok tb \<and> case_option Map.empty id (fieldNameToId s i) = columnNameToFieldMap tb"
    if "((sch_tables s)(tid \<mapsto> Table indet tid)) i = Some tb" for i tb
    using ok that cols none by (auto simp: schema_ok_def split: if_splits)
  have sub: "dom (fieldNameToId s) \<subseteq> {1..tid}" using fields unfolding old(2) ids [symmetric] by blast
  show "schema_ok (s2\<lparr>tableNameToId := (tableNameToId s2)(name \<mapsto> tid)\<rparr>)"
    unfolding schema_ok_def s2 s1(2) using old(1) s1(1) tabs ran inj each sub
    by (simp only: schema.simps namedSchema.simps) simp
qed

lemma addfield_columns:
  assumes "columns_ok tb" and "columnNameToFieldMap tb name = None"
    and "addfield t len name it tb = (fid, tb')"
  shows "columns_ok tb'" and "columnNameToFieldMap tb' = (columnNameToFieldMap tb)(name \<mapsto> fid)"
    and "fid = int (length (tb_fields tb))"
proof -
  let ?f = "Field t len it name"
  have tb': "tb_fields tb' = tb_fields tb @ [?f]" and fid: "fid = int (length (tb_fields tb))"
    and map: "columnNameToFieldMap tb' = (columnNameToFieldMap tb)(name \<mapsto> fid)"
    using assms(3) by (auto simp: addfield_def Let_def)
  show "columnNameToFieldMap tb' = (columnNameToFieldMap tb)(name \<mapsto> fid)"
    "fid = int (length (tb_fields tb))" by (fact map, fact fid)
  show "columns_ok tb'" unfolding columns_ok_def
  proof (intro allI impI)
    fix c k assume k: "columnNameToFieldMap tb' c = Some k"
    show "0 \<le> k \<and> k < int (length (tb_fields tb')) \<and> fd_name (tb_fields tb' ! nat k) = c"
    proof (cases "c = name")
      case True
      with k have "k = int (length (tb_fields tb))" by (simp add: map fid)
      with True show ?thesis by (simp add: tb' Field_def)
    next
      case False
      with k assms(1) have "0 \<le> k" "k < int (length (tb_fields tb))" "fd_name (tb_fields tb ! nat k) = c"
        by (auto simp: map columns_ok_def)
      then show ?thesis by (simp add: tb' nth_append nat_less_iff)
    qed
  qed
qed

lemma addcolumn_ok:
  assumes ok: "schema_ok s" and tb: "sch_tables s tid = Some tb" "columnNameToFieldMap tb name = None"
    and run: "addfield t len name it tb = (fid, tb')"
  shows "schema_ok (set_fieldName tid name fid (s\<lparr>sch_tables := (sch_tables s)(tid \<mapsto> tb')\<rparr>))"
proof -
  have col: "columns_ok tb" "case_option Map.empty id (fieldNameToId s tid) = columnNameToFieldMap tb"
    using ok tb(1) by (auto simp: schema_ok_def)
  note new = addfield_columns [OF col(1) tb(2) run]
  have "tid \<in> dom (sch_tables s)" using tb(1) by auto
  then have "dom ((sch_tables s)(tid \<mapsto> tb')) = dom (sch_tables s)" by auto
  then show ?thesis
    using ok new col(2) unfolding schema_ok_def set_fieldName_def
    by (auto simp: insert_absorb id_def split: option.splits)
qed


lemma mgr_send_ok [simp]: "mgr_ok (mgr_send src t msg mg) = mgr_ok mg"
  by (rule mgr_ok_same(1)) (simp_all add: mgr_send_def)

text \<open>Updates of members the invariant does not read\<close>

lemma mgr_ok_members [simp]:
  "mgr_ok (mg\<lparr>mg_status := x\<rparr>) = mgr_ok mg" "mgr_ok (mg\<lparr>mg_argsize := y\<rparr>) = mgr_ok mg"
  "mgr_ok (mg\<lparr>mg_tainstance := y\<rparr>) = mgr_ok mg" "mgr_ok (mg\<lparr>mg_operationid := y\<rparr>) = mgr_ok mg"
  "mgr_ok (mg\<lparr>mg_domainid := y\<rparr>) = mgr_ok mg" "mgr_ok (mg\<lparr>mg_userid := y\<rparr>) = mgr_ok mg"
  by (rule mgr_ok_same(1); simp)+

lemma mgr_ok_schema: "mgr_ok mg \<Longrightarrow> mg_schemata mg i = Some s \<Longrightarrow> schema_ok s"
  by (auto simp: mgr_ok_def)

lemma createschema_ok:
  assumes "mgr_ok mg"
  shows "mgr_ok (mgr_createschema env src rcv mg)"
proof (cases "mg_schemata mg (us_domainid (um_userschemaStruct rcv))")
  case None
  then show ?thesis
    by (simp add: mgr_createschema_def Let_def) (rule schemata_keep_ok [OF assms newSchema_ok]; simp)
qed (use assms in \<open>simp add: mgr_createschema_def Let_def\<close>)

lemma createtable_cases:
  assumes run: "mgr_createtable env src rv mg = Inr mg'"
  obtains (notok) "mg' = mgr_reply src T_SCHEMAREPLY (ue_fresh env) (mg\<lparr>mg_status := BUILTIN_STATUS_NOTOK\<rparr>)"
  | (added) s name tid s1 r s2 st sc msg where "mg_schemata mg (mg_domainid mg) = Some s"
      "tableNameToId s name = None" "getnexttableid s = (tid, s1)"
      "createTable (ue_indet env) tid s1 = (r, s2)"
      "sc = (if r = STATUS_OK then s2\<lparr>tableNameToId := (tableNameToId s2)(name \<mapsto> tid)\<rparr> else s2)"
      "mg' = mgr_reply src T_SCHEMAREPLY msg
         (mg\<lparr>mg_schemata := (mg_schemata mg)(mg_domainid mg \<mapsto> sc), mg_status := st\<rparr>)"
proof (cases "mg_schemata mg (mg_domainid mg)")
  case None
  with run notok show ?thesis by (auto simp: mgr_createtable_def)
next
  case schema: (Some s)
  obtain name where name: "vec_at 0 rv = Inr name"
    using run by (auto simp: mgr_createtable_def schema)
  obtain tid s1 where s1: "getnexttableid s = (tid, s1)" by (cases "getnexttableid s")
  obtain r s2 where s2: "createTable (ue_indet env) tid s1 = (r, s2)"
    by (cases "createTable (ue_indet env) tid s1")
  show ?thesis
  proof (cases "tableNameToId s name")
    case None
    note eval = mgr_createtable_def schema name None s1 s2 Let_def
    show ?thesis
    proof (cases "r = STATUS_OK")
      case True
      with run show ?thesis
        by (intro added [OF schema None s1 s2 refl]) (simp add: eval del: rbind_eq_Inr, erule sym)
    next
      case False
      with run show ?thesis
        by (intro added [OF schema None s1 s2 refl]) (simp add: eval del: rbind_eq_Inr, erule sym)
    qed
  next
    case (Some i)
    with run notok show ?thesis by (auto simp: mgr_createtable_def schema name)
  qed
qed

lemma createtable_ok:
  assumes ok: "mgr_ok mg" and run: "mgr_createtable env src rv mg = Inr mg'"
  shows "mgr_ok mg'"
  using run
proof (cases rule: createtable_cases)
  case notok
  with ok show ?thesis by simp
next
  case (added s name tid s1 r s2 st sc msg)
  note new = createTable_ok [OF mgr_ok_schema [OF ok added(1)] added(2,3,4)]
  show ?thesis unfolding added(6) mgr_reply_ok
    by (rule schemata_keep_ok [OF ok new(3)]) (simp_all add: added(5) new(1))
qed

lemma addcolumn_cases:
  assumes run: "mgr_addcolumn env src rv mg = Inr mg'"
  obtains (notok) "mg' = mgr_schema_notok env src mg"
  | (added) s tid tb name t len it fid tb' msg where "mg_schemata mg (mg_domainid mg) = Some s"
      "sch_tables s tid = Some tb" "columnNameToFieldMap tb name = None"
      "addfield t len name it tb = (fid, tb')"
      "mg' = mgr_reply src T_SCHEMAREPLY msg
         (mg\<lparr>mg_schemata := (mg_schemata mg)(mg_domainid mg \<mapsto>
             set_fieldName tid name fid (s\<lparr>sch_tables := (sch_tables s)(tid \<mapsto> tb')\<rparr>)),
             mg_status := BUILTIN_STATUS_OK\<rparr>)"
proof -
  obtain a0 tid ft a2 len0 name ix where rv: "vec_at 0 rv = Inr a0" "cast_int env a0 = Inr tid"
    "vec_at 1 rv = Inr ft" "vec_at 2 rv = Inr a2" "cast_int env a2 = Inr len0"
    "vec_at 3 rv = Inr name" "vec_at 4 rv = Inr ix" using run by (auto simp: mgr_addcolumn_def)
  note eval = mgr_addcolumn_def rv rbind_simps Let_def
  show ?thesis
  proof (cases "fieldTypeMap ft = None \<or> indexTypeMap ix = None \<or> mg_schemata mg (mg_domainid mg) = None")
    case True
    with run notok show ?thesis by (auto simp: eval split: option.splits)
  next
    case False
    then obtain t it s where s: "fieldTypeMap ft = Some t" "indexTypeMap ix = Some it"
      "mg_schemata mg (mg_domainid mg) = Some s" by auto
    show ?thesis
    proof (cases "\<exists>tb. sch_tables s tid = Some tb \<and> columnNameToFieldMap tb name = None")
      case False
      with run notok show ?thesis by (auto simp: eval s split: option.splits if_splits)
    next
      case True
      then obtain tb where tb: "sch_tables s tid = Some tb" "columnNameToFieldMap tb name = None" by blast
      obtain fid tb' where add: "addfield t (nat (if t \<noteq> F_CHARX then 0 else len0)) name it tb = (fid, tb')"
        by fastforce
      show ?thesis using run
        by (intro added [OF s(3) tb add]) (simp add: eval s tb add del: rbind_eq_Inr, erule sym)
    qed
  qed
qed

lemma addcolumn_keeps_ok:
  assumes ok: "mgr_ok mg" and run: "mgr_addcolumn env src rv mg = Inr mg'"
  shows "mgr_ok mg'"
  using run
proof (cases rule: addcolumn_cases)
  case notok
  with ok show ?thesis by (simp add: mgr_schema_notok_def)
next
  case (added s tid tb name t len it fid tb' msg)
  show ?thesis unfolding added(5) mgr_reply_ok
    by (rule schemata_keep_ok [OF ok addcolumn_ok [OF mgr_ok_schema [OF ok added(1)] added(2,3,4)]]) simp_all
qed

lemma builtin_ok:
  assumes ok: "mgr_ok mg" and run: "mgr_builtin env src rcv rv mg = Inr mg'"
  shows "mgr_ok mg'"
proof -
  from run consider "mg' = mgr_createschema env src rcv mg" | "mgr_createtable env src rv mg = Inr mg'"
    | "mgr_addcolumn env src rv mg = Inr mg'" | "mg' = mgr_deletebuiltin env src mg" | "mg' = mg"
    unfolding mgr_builtin_def Let_def by (metis Inr_inject)
  then show ?thesis
    using ok createtable_ok [OF ok] addcolumn_keeps_ok [OF ok]
    by cases (simp_all add: createschema_ok mgr_deletebuiltin_def)
qed

lemma dispatch_ok:
  assumes ok: "mgr_ok mg" and run: "mgr_dispatch env src t rcv rv mg = Inr mg'"
  shows "mgr_ok mg'"
proof (cases t)
  case T_LOGIN
  with run have r: "mgr_login env src rv mg = Inr mg'" by (simp add: mgr_dispatch_def)
  show ?thesis by (rule request_keeps_ok [OF r requests_append(1) login_serves [OF ok]])
next
  case T_CHANGEPASSWORD
  with run show ?thesis by (auto simp: mgr_dispatch_def intro: changepassword_ok [OF ok])
next
  case T_CREATEDOMAIN
  with run have r: "mgr_createdomain env src rv mg = Inr mg'" by (simp add: mgr_dispatch_def)
  show ?thesis by (rule request_keeps_ok [OF r requests_append(2) createdomain_serves [OF ok]])
next
  case T_CREATEUSER
  with run have r: "mgr_createuser env src rv mg = Inr mg'" by (simp add: mgr_dispatch_def)
  show ?thesis by (rule request_keeps_ok [OF r requests_append(3) createuser_serves [OF ok]])
next
  case T_DELETEUSER
  with run have r: "mgr_deleteuser env src rv mg = Inr mg'" by (simp add: mgr_dispatch_def)
  show ?thesis by (rule request_keeps_ok [OF r requests_append(4) deleteuser_serves [OF ok]])
next
  case T_DELETEDOMAIN
  with run have r: "mgr_deletedomain env src rv mg = Inr mg'" by (simp add: mgr_dispatch_def)
  show ?thesis by (rule request_keeps_ok [OF r requests_append(5) deletedomain_serves [OF ok]])
next
  case T_SCHEMAREQUEST
  with run show ?thesis by (simp add: mgr_dispatch_def builtin_ok [OF ok])
next
  case T_OPERATION
  with run ok show ?thesis
    by (auto simp: mgr_dispatch_def operationHandler_def Let_def split: operationtype.splits)
qed (use run ok in \<open>simp_all add: mgr_dispatch_def\<close>)

text \<open>The state in which a request is served\<close>

definition set_caller :: "userSchemaMsg \<Rightarrow> userSchemaMgr \<Rightarrow> userSchemaMgr" where
  "set_caller rcv mg = (let u = um_userschemaStruct rcv in
     mg\<lparr>mg_argsize := us_argsize u, mg_tainstance := us_instance u, mg_operationid := us_operationid u,
        mg_domainid := us_domainid u, mg_userid := us_userid u\<rparr>)"

lemma set_caller_fields [simp]:
  "domainNameToDomainId (set_caller rcv mg) = domainNameToDomainId mg"
  "domainIdToUserNames (set_caller rcv mg) = domainIdToUserNames mg"
  "domainIdToUserIds (set_caller rcv mg) = domainIdToUserIds mg"
  "domainIdToNextUserId (set_caller rcv mg) = domainIdToNextUserId mg"
  "mg_names (set_caller rcv mg) = mg_names mg" "mg_passwords (set_caller rcv mg) = mg_passwords mg"
  "mg_nextdomainid (set_caller rcv mg) = mg_nextdomainid mg" "mg_brk (set_caller rcv mg) = mg_brk mg"
  "mg_schemata (set_caller rcv mg) = mg_schemata mg" "mg_pwdStruct (set_caller rcv mg) = mg_pwdStruct mg"
  "mg_userIdToPassword (set_caller rcv mg) = mg_userIdToPassword mg"
  "mg_outbox (set_caller rcv mg) = mg_outbox mg"
  "mg_operationid (set_caller rcv mg) = us_operationid (um_userschemaStruct rcv)"
  "mg_domainid (set_caller rcv mg) = us_domainid (um_userschemaStruct rcv)"
  "mg_userid (set_caller rcv mg) = us_userid (um_userschemaStruct rcv)"
  by (simp_all add: set_caller_def Let_def)

lemma set_caller_ok [simp]: "mgr_ok (set_caller rcv mg) = mgr_ok mg"
  by (rule mgr_ok_same(1)) simp_all

lemma set_caller_view [simp]: "domain_view (set_caller rcv mg) = domain_view mg"
  by (rule mgr_ok_same(2)) simp_all

lemma set_caller_account [simp]: "account (set_caller rcv mg) = account mg"
  by (simp add: account_def fun_eq_iff)

lemma set_caller_directory [simp]: "directory_of (set_caller rcv mg) = directory_of mg"
  by (rule directory_same) simp_all

lemma message_request:
  assumes "t \<notin> {T_TOPOLOGY, T_OPERATION, T_NONE}"
    and "ue_msgpack2Vector env (um_argstring rcv) (us_argsize (um_userschemaStruct rcv)) = Inr rv"
  shows "mgr_message env (src, t, rcv) mg = mgr_dispatch env src t rcv rv (set_caller rcv mg)"
  using assms by (simp add: mgr_message_def Let_def set_caller_def)

lemma message_ok:
  assumes "mgr_ok mg" and "mgr_message env m mg = Inr mg'"
  shows "mgr_ok mg'"
proof -
  obtain src t rcv where m: "m = (src, t, rcv)" by (cases m)
  show ?thesis
  proof (cases "t \<in> {T_TOPOLOGY, T_OPERATION, T_NONE}")
    case True
    with assms(2) have "mgr_dispatch env src t rcv [] mg = Inr mg'"
      by (auto simp: mgr_message_def m)
    then show ?thesis by (rule dispatch_ok [OF assms(1)])
  next
    case False
    with assms(2) obtain rv where
      "ue_msgpack2Vector env (um_argstring rcv) (us_argsize (um_userschemaStruct rcv)) = Inr rv"
      by (auto simp: mgr_message_def m Let_def)
    from message_request [of t env rcv rv src mg, OF False this] assms(2)
    have "mgr_dispatch env src t rcv rv (set_caller rcv mg) = Inr mg'" by (simp add: m)
    then show ?thesis by (rule dispatch_ok [rotated]) (simp add: assms(1))
  qed
qed

lemma start_ok: "mgr_ok (UserSchemaMgr env argstring mem)"
  by (auto simp: mgr_ok_def UserSchemaMgr_def Let_def pointers_ok_def domain_view_def domain_ok_def)


lemma reaches_ok: "mgr_reaches env mg \<Longrightarrow> mgr_ok mg"
  by (induction rule: mgr_reaches.induct) (auto intro: start_ok message_ok)

section \<open>Serving\<close>

text \<open>How many arguments a request has to bring\<close>

definition request_args :: "topic \<Rightarrow> nat" where
  "request_args t = (if t \<in> {T_LOGIN, T_CREATEUSER} then 3 else if t = T_DELETEUSER then 2 else 1)"

lemma requests_serve:
  assumes ok: "mgr_ok mg"
    and t: "t \<in> {T_LOGIN, T_CREATEDOMAIN, T_CREATEUSER, T_DELETEUSER, T_DELETEDOMAIN}"
    and args: "request_args t \<le> length rv"
  shows "serves env src t rv mg (mgr_dispatch env src t rcv rv mg)"
proof -
  have len: "\<exists>a b c r. rv = a # b # c # r" if "3 \<le> length rv"
    using that by (cases rv; cases "tl rv"; cases "tl (tl rv)") auto
  have len2: "\<exists>a b r. rv = a # b # r" if "2 \<le> length rv"
    using that by (cases rv; cases "tl rv") auto
  have len1: "\<exists>a r. rv = a # r" if "1 \<le> length rv" using that by (cases rv) auto
  from t consider "t = T_LOGIN" | "t = T_CREATEDOMAIN" | "t = T_CREATEUSER" | "t = T_DELETEUSER"
    | "t = T_DELETEDOMAIN" by blast
  then show ?thesis
  proof cases
    case 1
    with args len show ?thesis by (auto simp: mgr_dispatch_def request_args_def login_serves [OF ok])
  next
    case 2
    with args len1 show ?thesis
      by (auto simp: mgr_dispatch_def request_args_def createdomain_serves [OF ok])
  next
    case 3
    with args len show ?thesis by (auto simp: mgr_dispatch_def request_args_def createuser_serves [OF ok])
  next
    case 4
    with args len2 show ?thesis by (auto simp: mgr_dispatch_def request_args_def deleteuser_serves [OF ok])
  next
    case 5
    with args len1 show ?thesis
      by (auto simp: mgr_dispatch_def request_args_def deletedomain_serves [OF ok])
  qed
qed

end
