(* ===== verification/User_Properties.thy ===== *)
theory User_Properties
  imports User_Directory
begin

text \<open>
  What the manager of domains, users and schemata promises: the operations on domains and users
  implement an abstract directory, only its administrator changes it, the names of tables and
  fields stay consistent; and where SQL logins and changes of passwords depart from it.
\<close>

section \<open>A manager for the witnesses\<close>

text \<open>
  SHA-512 is the identity here, and msgpack makes a string of each byte of the argument, so that
  \<open>[100, 117, 7]\<close> is the domain \<open>d\<close>, the user \<open>u\<close> and the password with the byte 7.
\<close>

definition demo_us :: userschema where
  "demo_us = \<lparr>us_operationtype = OPERATION_NONE, us_caller = 0, us_callerstate = 0, us_argsize = 0,
     us_instance = 0, us_operationid = 0, us_domainid = 0, us_userid = 0, us_tableid = 0,
     us_fieldlen = 0, us_builtincmd = 0, us_indexid = 0, us_tableindexid = 0, us_simple = 0,
     us_fieldid = 0, us_numfields = 0, us_intdata = 0, us_status = 0, us_indextype = NONE,
     us_fieldtype = NOFIELDTYPE\<rparr>"

definition demo_msg :: userSchemaMsg where
  "demo_msg = \<lparr>um_userschemaStruct = demo_us, um_procs = \<lparr>pr_procedurecreator = 0, pr_proceduredestroyer = 0\<rparr>,
     um_argstring = [], um_pathname = [], um_procname = [], um_username = [], um_domainname = [],
     um_password = []\<rparr>"

definition demo_env :: managerEnv where
  "demo_env = \<lparr>ue_sha512 = (\<lambda>s. s), ue_msgpack2Vector = (\<lambda>s _. Inr (map (\<lambda>b. [b]) s)),
     ue_lexical_cast = (\<lambda>_. None), ue_fresh = demo_msg, ue_indet = 0\<rparr>"

definition demo_request :: "topic \<Rightarrow> int \<Rightarrow> int \<Rightarrow> bytes \<Rightarrow> addressStruct \<times> topic \<times> userSchemaMsg" where
  "demo_request t d u args = (\<lparr>ad_nodeid = 1, ad_actorid = 3\<rparr>, t,
     demo_msg\<lparr>um_userschemaStruct := demo_us\<lparr>us_domainid := d, us_userid := u\<rparr>, um_argstring := args\<rparr>)"

definition demo_mem :: userSchemaMgr where
  "demo_mem = \<lparr>mg_operationid = 0, mg_domainid = 0, mg_userid = 0, mg_status = 0, mg_tainstance = 0,
     mg_argsize = 0, mg_schemata = Map.empty, domainNameToDomainId = Map.empty,
     domainIdToUserNames = Map.empty, domainIdToUserIds = Map.empty, domainIdToNextUserId = Map.empty,
     mg_userIdToPassword = None, mg_pwdStruct = \<lparr>clearpassword = [], pw_digest = []\<rparr>, mg_nextdomainid = 0,
     mg_names = Map.empty, mg_passwords = Map.empty, mg_brk = 0, mg_outbox = []\<rparr>"

text \<open>Domain 2 with users 1 and 2, domain 3 with users 1 and 2; the password of \<open>[v]\<close> is \<open>[v]\<close>.\<close>

definition demo_run :: "userSchemaMgr res" where
  "demo_run = rfold (mgr_message demo_env)
     [demo_request T_CREATEDOMAIN 1 1 [2], demo_request T_CREATEUSER 1 1 [2, 10, 20],
      demo_request T_CREATEUSER 1 1 [2, 11, 21], demo_request T_CREATEDOMAIN 1 1 [3],
      demo_request T_CREATEUSER 1 1 [3, 12, 22], demo_request T_CREATEUSER 1 1 [3, 13, 23]]
     (UserSchemaMgr demo_env [9] demo_mem)"

definition demo_mgr :: userSchemaMgr where
  "demo_mgr = (case demo_run of Inr mg \<Rightarrow> mg | Inl _ \<Rightarrow> demo_mem)"

lemmas manager_defs = mgr_message_def mgr_dispatch_def mgr_createdomain_def mgr_createuser_def
  mgr_login_def mgr_changepassword_def is_global_admin_def getnextdomainid_def getnextuserid_def
  new_domain_maps_def names_at_def passwords_at_def set_names_def set_passwords_def mgr_reply_def
  mgr_send_def vec_at_def Let_def

lemmas demo_defs = demo_env_def demo_request_def demo_msg_def demo_us_def

lemma rfold_reaches:
  "mgr_reaches env mg \<Longrightarrow> rfold (mgr_message env) ms mg = Inr mg' \<Longrightarrow> mgr_reaches env mg'"
  by (induction ms arbitrary: mg) (auto intro: mgr_reaches.step)

lemma demo_runs: "is_ok demo_run"
  by (simp add: demo_run_def demo_mem_def UserSchemaMgr_def global_name_def admin_name_def
      ascii_bytes_def manager_defs demo_defs del: rbind_eq_Inr)

lemma demo_reached: "mgr_reaches demo_env demo_mgr"
proof -
  obtain mg where mg: "demo_run = Inr mg" using demo_runs by (auto simp: is_ok_iff)
  then have "mgr_reaches demo_env mg" unfolding demo_run_def by (rule rfold_reaches [OF mgr_reaches.start])
  then show ?thesis by (simp add: demo_mgr_def mg)
qed

text \<open>C16. In every state the manager reaches, a login and a request to create or delete a domain or
  a user, with enough arguments, is served without a fault and with one reply, which carries the id
  of the operation, and does to the
  directory of domains and accounts what the abstract directory says: logins need the digest of
  the password, only the administrator changes anything, new ids are unused, the names of what
  is created are new, and deleting a domain deletes its accounts.\<close>

theorem manager_refines_directory:
  assumes "mgr_reaches env mg"
    and "t \<in> {T_LOGIN, T_CREATEDOMAIN, T_CREATEUSER, T_DELETEUSER, T_DELETEDOMAIN}"
    and "ue_msgpack2Vector env (um_argstring rcv) (us_argsize (um_userschemaStruct rcv)) = Inr rv"
    and "request_args t \<le> length rv"
  shows "\<exists>mg' t' msg. mgr_message env (src, t, rcv) mg = Inr mg' \<and>
    mg_outbox mg' = mg_outbox mg @ [(src, t', msg)] \<and>
    us_operationid (um_userschemaStruct msg) = us_operationid (um_userschemaStruct rcv) \<and>
    directory_step (ue_sha512 env)
      (us_domainid (um_userschemaStruct rcv), us_userid (um_userschemaStruct rcv)) t rv (directory_of mg)
      t' (us_domainid (um_userschemaStruct msg), us_userid (um_userschemaStruct msg)) (directory_of mg')"
proof -
  have "mgr_ok (set_caller rcv mg)" using reaches_ok [OF assms(1)] by simp
  from requests_serve [OF this assms(2,4), of env src rcv] show ?thesis
    using message_request [OF _ assms(3), of t src mg] assms(2) by (auto simp: serves_def)
qed

lemma demo_accounts:
  "account demo_mgr [2] [10] = Some (2, 1, \<lparr>clearpassword = [9], pw_digest = [20]\<rparr>)"
  "account demo_mgr [2] [11] = Some (2, 2, \<lparr>clearpassword = [9], pw_digest = [21]\<rparr>)"
  "account demo_mgr [3] [12] = Some (3, 1, \<lparr>clearpassword = [9], pw_digest = [22]\<rparr>)"
  "account demo_mgr [3] [13] = Some (3, 2, \<lparr>clearpassword = [9], pw_digest = [23]\<rparr>)"
  by (simp_all add: account_def domain_view_def demo_mgr_def demo_run_def demo_mem_def UserSchemaMgr_def
      global_name_def admin_name_def ascii_bytes_def manager_defs demo_defs del: rbind_eq_Inr)

theorem manager_refines_directory_witness:
  "\<exists>mg' t' msg. mgr_message demo_env (demo_request T_LOGIN 0 0 [2, 10, 20]) demo_mgr = Inr mg' \<and>
    mg_outbox mg' = mg_outbox demo_mgr @ [(\<lparr>ad_nodeid = 1, ad_actorid = 3\<rparr>, t', msg)] \<and>
    us_operationid (um_userschemaStruct msg) = 0 \<and>
    directory_step (\<lambda>s. s) (0, 0) T_LOGIN [[2], [10], [20]] (directory_of demo_mgr)
      t' (us_domainid (um_userschemaStruct msg), us_userid (um_userschemaStruct msg)) (directory_of mg')"
proof -
  let ?rcv = "snd (snd (demo_request T_LOGIN 0 0 [2, 10, 20]))"
  have t: "T_LOGIN \<in> {T_LOGIN, T_CREATEDOMAIN, T_CREATEUSER, T_DELETEUSER, T_DELETEDOMAIN}" by simp
  have rv: "ue_msgpack2Vector demo_env (um_argstring ?rcv) (us_argsize (um_userschemaStruct ?rcv)) =
      Inr [[2], [10], [20]]" by (simp add: demo_defs)
  have n: "request_args T_LOGIN \<le> length [[2], [10], [20 :: byte]]" by (simp add: request_args_def)
  show ?thesis
    using manager_refines_directory [OF demo_reached t rv n, of "\<lparr>ad_nodeid = 1, ad_actorid = 3\<rparr>"]
    by (simp add: demo_defs)
qed



inductive_cases login_stepE: "directory_step sha c T_LOGIN rv D t who D'"

lemma login_keeps_directory:
  assumes ok: "mgr_ok mg" and run: "mgr_login env src rv mg = Inr mg'"
  shows "directory_of mg' = directory_of mg"
proof -
  obtain a b c r where rv: "rv @ [[], [], []] = a # b # c # r"
    by (cases rv; cases "tl rv"; cases "tl (tl rv)") auto
  have "mgr_login env src (a # b # c # r) mg = Inr mg'"
    using requests_append(1) [of env src rv mg "[[], [], []]"] run by (simp add: le_res_def rv)
  with login_serves [OF ok, of env src a b c r] show ?thesis
    by (auto simp: serves_def elim: login_stepE)
qed

text \<open>Updates of members the directory does not read\<close>

lemma directory_members [simp]:
  "directory_of (mg\<lparr>mg_status := x\<rparr>) = directory_of mg"
  "directory_of (mg\<lparr>mg_schemata := y\<rparr>) = directory_of mg"
  "directory_of (mgr_send src t msg mg) = directory_of mg"
  by (simp_all add: directory_of_def account_def domain_view_def mgr_send_def)

lemma schema_requests_keep_directory:
  assumes "mgr_builtin env src rcv rv mg = Inr mg'"
  shows "directory_of mg' = directory_of mg"
proof -
  from assms consider "mg' = mgr_createschema env src rcv mg" | "mgr_createtable env src rv mg = Inr mg'"
    | "mgr_addcolumn env src rv mg = Inr mg'" | "mg' = mgr_deletebuiltin env src mg" | "mg' = mg"
    unfolding mgr_builtin_def Let_def by (metis Inr_inject)
  then show ?thesis
  proof cases
    case 2
    then show ?thesis by (cases rule: createtable_cases) simp_all
  next
    case 3
    then show ?thesis by (cases rule: addcolumn_cases) (simp_all add: mgr_schema_notok_def)
  qed (simp_all add: mgr_createschema_def mgr_deletebuiltin_def Let_def)
qed

text \<open>C20. Whatever a message does, unless the administrator (user 1 of domain 1) sent it or it
  changes a password, it leaves the directory of domains and accounts as it is.\<close>

theorem only_admin_changes_directory:
  assumes "mgr_reaches env mg" and "mgr_message env (src, t, rcv) mg = Inr mg'"
    and "(us_domainid (um_userschemaStruct rcv), us_userid (um_userschemaStruct rcv)) \<noteq> (1, 1)"
    and "t \<noteq> T_CHANGEPASSWORD"
  shows "directory_of mg' = directory_of mg"
proof (cases "t \<in> {T_TOPOLOGY, T_OPERATION, T_NONE}")
  case True
  with assms(2) show ?thesis
    by (auto simp: mgr_message_def mgr_dispatch_def operationHandler_def Let_def
        split: operationtype.splits)
next
  case False
  then obtain rv where
    "ue_msgpack2Vector env (um_argstring rcv) (us_argsize (um_userschemaStruct rcv)) = Inr rv"
    using assms(2) by (auto simp: mgr_message_def Let_def)
  from message_request [OF False this, of src mg] assms(2)
  have run: "mgr_dispatch env src t rcv rv (set_caller rcv mg) = Inr mg'" by simp
  have ok: "mgr_ok (set_caller rcv mg)" using reaches_ok [OF assms(1)] by simp
  have "\<not> is_global_admin (set_caller rcv mg)" using assms(3) by (simp add: is_global_admin_def)
  then have "directory_of mg' = directory_of (set_caller rcv mg)"
    using run assms(4) login_keeps_directory [OF ok] schema_requests_keep_directory
    by (cases t) (auto simp: mgr_dispatch_def mgr_createdomain_def mgr_createuser_def
        mgr_deleteuser_def mgr_deletedomain_def operationHandler_def Let_def split: operationtype.splits)
  then show ?thesis by simp
qed

theorem only_admin_changes_directory_witness:
  "\<exists>mg'. mgr_message demo_env (demo_request T_DELETEUSER 2 1 [2, 11]) demo_mgr = Inr mg' \<and>
     directory_of mg' = directory_of demo_mgr"
proof -
  obtain mg' where run: "mgr_message demo_env (demo_request T_DELETEUSER 2 1 [2, 11]) demo_mgr = Inr mg'"
    by (simp add: manager_defs demo_defs mgr_deleteuser_def del: rbind_eq_Inr)
  moreover have "directory_of mg' = directory_of demo_mgr"
    using only_admin_changes_directory [OF demo_reached run [unfolded demo_request_def]]
    by (simp add: demo_defs)
  ultimately show ?thesis by blast
qed

section \<open>Passwords\<close>

text \<open>A login for an account that exists leaves its password behind, right or wrong.\<close>

lemma account_someE:
  assumes "account mg d u = Some (i, x, pwd)"
  obtains p q n w k where "domainNameToDomainId mg d = Some i" "domainIdToUserNames mg i = Some p"
    "mg_names mg p = Some n" "domainIdToUserIds mg i = Some q" "mg_passwords mg q = Some w"
    "n u = Some x" "w x = Some pwd"
  using assms by (auto simp: account_def bind_eq_Some_conv domain_view_eq)

lemma login_known:
  assumes acc: "account mg d u = Some (i, x, pwd)" and q: "domainIdToUserIds mg i = Some q"
    and run: "mgr_login env src (d # u # pw # r) mg = Inr mg'"
  shows "mg_pwdStruct mg' = pwd" and "mg_userIdToPassword mg' = Some q"
    and "domainNameToDomainId mg' = domainNameToDomainId mg"
    and "domainIdToUserIds mg' = domainIdToUserIds mg" and "mg_passwords mg' = mg_passwords mg"
    and "domain_view mg' = domain_view mg" and "account mg' = account mg"
proof -
  from acc obtain p q' n w where v: "domainNameToDomainId mg d = Some i"
    "domainIdToUserNames mg i = Some p" "mg_names mg p = Some n" "domainIdToUserIds mg i = Some q'"
    "mg_passwords mg q' = Some w" "n u = Some x" "w x = Some pwd" by (rule account_someE)
  have "\<exists>t msg a b. mg' = mgr_reply src t msg (mg\<lparr>mg_userIdToPassword := Some q, mg_pwdStruct := pwd,
      mg_userid := a, mg_domainid := b\<rparr>)"
  proof (cases "pw_digest pwd = ue_sha512 env pw")
    case True
    with run v q show ?thesis
      by (auto simp: mgr_login_def names_at_def passwords_at_def Let_def simp del: rbind_eq_Inr)
  next
    case False
    then have "mg' = mgr_reply src T_LOGINFAIL (ue_fresh env) (mg\<lparr>mg_userIdToPassword := Some q,
        mg_pwdStruct := pwd, mg_userid := mg_userid mg, mg_domainid := mg_domainid mg\<rparr>)"
      using run v q by (simp add: mgr_login_def names_at_def passwords_at_def Let_def del: rbind_eq_Inr)
    then show ?thesis by blast
  qed
  then show "mg_pwdStruct mg' = pwd" "mg_userIdToPassword mg' = Some q"
    "domainNameToDomainId mg' = domainNameToDomainId mg"
    "domainIdToUserIds mg' = domainIdToUserIds mg" "mg_passwords mg' = mg_passwords mg"
    "domain_view mg' = domain_view mg" "account mg' = account mg"
    by (auto simp: account_def domain_view_def fun_eq_iff)
qed

lemma operationLogin_known:
  assumes "account mg d u = Some (j, y, pwd)"
  shows "operationLogin env u d pw uid0 did0 mg =
    Inr (if pw_digest (mg_pwdStruct mg) = ue_sha512 env pw then STATUS_OK else STATUS_NOTOK, y, j)"
proof -
  from assms obtain p q n w where "domainNameToDomainId mg d = Some j"
    "domainIdToUserNames mg j = Some p" "mg_names mg p = Some n" "domainIdToUserIds mg j = Some q"
    "mg_passwords mg q = Some w" "n u = Some y" "w y = Some pwd" by (rule account_someE)
  then show ?thesis by (simp add: operationLogin_def names_at_def passwords_at_def)
qed

text \<open>C21. Once somebody has tried to log in to an account over the raw interface, with whatever
  password, an SQL session gets into every account of every domain with the password of that
  account, and into none with its own: the digest is compared with the member \<open>pwdStruct\<close>, which
  the last such request filled, and not with the password that was looked up.\<close>

theorem sql_login_takes_last_password:
  assumes "mgr_reaches env mg"
    and last: "account mg d1 u1 = Some (i, x, pwd)"
    and other: "account mg d2 u2 = Some (j, y, pwd2)"
    and "ue_msgpack2Vector env (um_argstring rcv) (us_argsize (um_userschemaStruct rcv)) =
           Inr (d1 # u1 # pw # r)"
    and "mgr_message env (src, T_LOGIN, rcv) mg = Inr mg'"
  shows "operationLogin env u2 d2 password uid0 did0 mg' =
    Inr (if ue_sha512 env password = pw_digest pwd then STATUS_OK else STATUS_NOTOK, y, j)"
proof -
  obtain q where q: "domainIdToUserIds (set_caller rcv mg) i = Some q"
    using account_someE [OF last] by (metis set_caller_fields(3))
  have run: "mgr_login env src (d1 # u1 # pw # r) (set_caller rcv mg) = Inr mg'"
    using assms(5) message_request [OF _ assms(4), of T_LOGIN src mg] by (simp add: mgr_dispatch_def)
  note login = login_known [OF _ q run]
  have "mg_pwdStruct mg' = pwd" "account mg' = account mg" using login [of x pwd] last by simp_all
  with operationLogin_known [of mg' d2 u2 j y pwd2] other show ?thesis by auto
qed

text \<open>User 2 of domain 3 gets in with the password of user 1 of domain 2.\<close>

theorem sql_login_takes_last_password_witness:
  "\<exists>mg'. mgr_message demo_env (demo_request T_LOGIN 0 0 [2, 10, 99]) demo_mgr = Inr mg' \<and>
     operationLogin demo_env [13] [3] [20] 0 0 mg' = Inr (STATUS_OK, 2, 3) \<and>
     operationLogin demo_env [13] [3] [23] 0 0 mg' = Inr (STATUS_NOTOK, 2, 3)"
proof -
  let ?rcv = "snd (snd (demo_request T_LOGIN 0 0 [2, 10, 99]))"
  have rv: "ue_msgpack2Vector demo_env (um_argstring ?rcv) (us_argsize (um_userschemaStruct ?rcv)) =
      Inr ([2] # [10] # [99] # [])" by (simp add: demo_defs)
  have n: "request_args T_LOGIN \<le> length [[2], [10], [99 :: byte]]" by (simp add: request_args_def)
  have ok: "mgr_ok (set_caller ?rcv demo_mgr)" using reaches_ok [OF demo_reached] by simp
  obtain mg' where run: "mgr_message demo_env (\<lparr>ad_nodeid = 1, ad_actorid = 3\<rparr>, T_LOGIN, ?rcv) demo_mgr = Inr mg'"
    using login_serves [OF ok, of demo_env "\<lparr>ad_nodeid = 1, ad_actorid = 3\<rparr>" "[2]" "[10]" "[99]" "[]"]
      message_request [OF _ rv, of T_LOGIN "\<lparr>ad_nodeid = 1, ad_actorid = 3\<rparr>" demo_mgr]
    by (auto simp: serves_def mgr_dispatch_def)
  note last = sql_login_takes_last_password [OF demo_reached demo_accounts(1) demo_accounts(4) rv run]
  show ?thesis
    using run last [of "[20]" 0 0] last [of "[23]" 0 0]
    by (intro exI [of _ mg']) (simp add: demo_request_def demo_env_def)
qed

text \<open>The accounts after a change in the map of passwords of the domain \<open>i\<close>\<close>

lemma account_set_passwords:
  assumes ok: "mgr_ok mg" and q: "domainIdToUserIds mg i = Some q" and w: "mg_passwords mg q = Some w"
    and y: "w y = Some pwd0"
  shows "account (set_passwords q (w(y \<mapsto> pwd0\<lparr>pw_digest := g\<rparr>)) mg) d u =
    map_option (\<lambda>(i', x', p). (i', x', if i' = i \<and> x' = y then p\<lparr>pw_digest := g\<rparr> else p)) (account mg d u)"
proof (cases "domainNameToDomainId mg d")
  case None
  then show ?thesis by (simp add: account_def set_passwords_def)
next
  case (Some j)
  obtain p q' n w' k where v: "domainIdToUserNames mg j = Some p" "mg_names mg p = Some n"
    "domainIdToUserIds mg j = Some q'" "mg_passwords mg q' = Some w'"
    "domainIdToNextUserId mg j = Some k" "domain_ok n w' k" by (rule mgr_ok_view [OF ok Some])
  have iff: "q' = q \<longleftrightarrow> j = i"
    using ok q v(3) by (auto simp: mgr_ok_def pointers_ok_def dest: inj_onD2)
  show ?thesis
  proof (cases "j = i")
    case True
    with iff w v(4) have "w' = w" by simp
    with v True iff y Some show ?thesis
      by (cases "n u") (auto simp: account_def domain_view_def set_passwords_def option.map_comp comp_def
        map_option_case split: option.splits)
  next
    case False
    with v iff Some show ?thesis
      by (cases "n u") (auto simp: account_def domain_view_def set_passwords_def map_option_case
        split: option.splits)
  qed
qed

lemma changepassword_known:
  assumes ok: "mgr_ok mg" and q: "domainIdToUserIds mg i = Some q" and last: "mg_userIdToPassword mg = Some q"
    and dom: "mg_domainid mg \<in> ran (domainNameToDomainId mg)"
  shows "\<exists>mg'. mgr_changepassword env src (pw # r) mg = Inr mg' \<and> (\<forall>d u. account mg' d u =
    map_option (\<lambda>(i', x', p). (i', x', if i' = i \<and> x' = mg_userid mg
      then p\<lparr>pw_digest := ue_sha512 env pw\<rparr> else p)) (account mg d u))"
proof -
  have i: "i \<in> ran (domainNameToDomainId mg)" and c: "domainIdToUserIds mg (mg_domainid mg) \<noteq> None"
    using ok q dom by (auto simp: mgr_ok_def)
  then obtain d where d: "domainNameToDomainId mg d = Some i" by (auto simp: ran_def)
  obtain p q' n w k where v: "domainIdToUserNames mg i = Some p" "mg_names mg p = Some n"
    "domainIdToUserIds mg i = Some q'" "mg_passwords mg q' = Some w"
    "domainIdToNextUserId mg i = Some k" "domain_ok n w k" by (rule mgr_ok_view [OF ok d])
  have w: "mg_passwords mg q = Some w" using v(3,4) q by simp
  note eval = mgr_changepassword_def c last passwords_at_def w
  show ?thesis
  proof (cases "w (mg_userid mg)")
    case None
    have "account mg d' u = map_option (\<lambda>(i', x', p). (i', x', if i' = i \<and> x' = mg_userid mg
        then p\<lparr>pw_digest := ue_sha512 env pw\<rparr> else p)) (account mg d' u)" for d' u
    proof (cases "account mg d' u")
      case (Some a)
      then obtain i' x' p' where a: "a = (i', x', p')" by (cases a)
      obtain P Q N W where "domainIdToUserIds mg i' = Some Q" "mg_passwords mg Q = Some W" "W x' = Some p'"
        using Some [unfolded a] by (rule account_someE)
      with None q w have "\<not> (i' = i \<and> x' = mg_userid mg)" by auto
      then show ?thesis using Some a by auto
    qed simp
    moreover have "account (mgr_reply src t msg mg) = account mg" for t msg
      by (simp add: account_def fun_eq_iff)
    ultimately show ?thesis using c by (auto simp: eval None simp del: rbind_eq_Inr)
  next
    case (Some pwd0)
    have "account (mgr_reply src t msg mg1) = account mg1" for t msg mg1
      by (simp add: account_def fun_eq_iff)
    then show ?thesis using c account_set_passwords [OF ok q w Some]
      by (auto simp: eval Some simp del: rbind_eq_Inr)
  qed
qed

text \<open>Right after somebody has tried to log in to an account of the domain \<open>i\<close>, a request to change
  a password changes that of the account in domain \<open>i\<close> with the id of the requesting user, and no
  other, whatever the domain of the requesting user: \<open>changepassword\<close> looks the user up in the map
  the last login left in \<open>userIdToPassword\<close>.\<close>

theorem changepassword_changes_another:
  assumes reach: "mgr_reaches env mg" and last: "account mg d1 u1 = Some (i, x, pwd)"
    and login: "ue_msgpack2Vector env (um_argstring rcv) (us_argsize (um_userschemaStruct rcv)) =
           Inr (d1 # u1 # pw # r)" "mgr_message env (src, T_LOGIN, rcv) mg = Inr mg1"
    and change: "ue_msgpack2Vector env (um_argstring rcv') (us_argsize (um_userschemaStruct rcv')) =
           Inr (new # r')"
    and dom: "us_domainid (um_userschemaStruct rcv') \<in> ran (domainNameToDomainId mg)"
  shows "\<exists>mg2. mgr_message env (src', T_CHANGEPASSWORD, rcv') mg1 = Inr mg2 \<and>
    (\<forall>d u. account mg2 d u = map_option (\<lambda>(i', x', p).
       (i', x', if i' = i \<and> x' = us_userid (um_userschemaStruct rcv')
                then p\<lparr>pw_digest := ue_sha512 env new\<rparr> else p)) (account mg d u))"
proof -
  obtain q where q: "domainIdToUserIds (set_caller rcv mg) i = Some q"
    using account_someE [OF last] by (metis set_caller_fields(3))
  have run: "mgr_login env src (d1 # u1 # pw # r) (set_caller rcv mg) = Inr mg1"
    using login(2) message_request [OF _ login(1), of T_LOGIN src mg] by (simp add: mgr_dispatch_def)
  have last': "account (set_caller rcv mg) d1 u1 = Some (i, x, pwd)" using last by simp
  note known = login_known [OF last' q run]
  have ok: "mgr_ok (set_caller rcv' mg1)"
    using reaches_ok [OF mgr_reaches.step [OF reach login(2)]] by simp
  have "\<exists>mg2. mgr_changepassword env src' (new # r') (set_caller rcv' mg1) = Inr mg2 \<and>
      (\<forall>d u. account mg2 d u = map_option (\<lambda>(i', x', p). (i', x',
         if i' = i \<and> x' = mg_userid (set_caller rcv' mg1)
         then p\<lparr>pw_digest := ue_sha512 env new\<rparr> else p)) (account (set_caller rcv' mg1) d u))"
    by (rule changepassword_known [OF ok, where q = q]) (use known q dom in simp_all)
  then show ?thesis
    using known(7) message_request [OF _ change, of T_CHANGEPASSWORD src' mg1]
    by (simp add: mgr_dispatch_def)
qed

text \<open>
  User 2 of domain 3 changes a password after user 1 of domain 2 has logged in: the password of
  user 2 of domain 2 is replaced.
\<close>

theorem changepassword_changes_another_witness:
  "\<exists>mg1 mg2. mgr_message demo_env (demo_request T_LOGIN 0 0 [2, 10, 20]) demo_mgr = Inr mg1 \<and>
     mgr_message demo_env (demo_request T_CHANGEPASSWORD 3 2 [77]) mg1 = Inr mg2 \<and>
     account mg2 [2] [11] = Some (2, 2, \<lparr>clearpassword = [9], pw_digest = [77]\<rparr>) \<and>
     account mg2 [3] [13] = Some (3, 2, \<lparr>clearpassword = [9], pw_digest = [23]\<rparr>)"
proof -
  let ?a = "\<lparr>ad_nodeid = 1, ad_actorid = 3\<rparr>"
  let ?rcv = "snd (snd (demo_request T_LOGIN 0 0 [2, 10, 20]))"
  let ?chg = "snd (snd (demo_request T_CHANGEPASSWORD 3 2 [77]))"
  have rv: "ue_msgpack2Vector demo_env (um_argstring ?rcv) (us_argsize (um_userschemaStruct ?rcv)) =
      Inr ([2] # [10] # [20] # [])" by (simp add: demo_defs)
  have rv': "ue_msgpack2Vector demo_env (um_argstring ?chg) (us_argsize (um_userschemaStruct ?chg)) =
      Inr ([77] # [])" by (simp add: demo_defs)
  have ok: "mgr_ok (set_caller ?rcv demo_mgr)" using reaches_ok [OF demo_reached] by simp
  obtain mg1 where run: "mgr_message demo_env (?a, T_LOGIN, ?rcv) demo_mgr = Inr mg1"
    using login_serves [OF ok, of demo_env ?a "[2]" "[10]" "[20]" "[]"]
      message_request [OF _ rv, of T_LOGIN ?a demo_mgr] by (auto simp: serves_def mgr_dispatch_def)
  have "domainNameToDomainId demo_mgr [3] = Some 3"
    using account_someE [OF demo_accounts(3)] by metis
  then have dom: "us_domainid (um_userschemaStruct ?chg) \<in> ran (domainNameToDomainId demo_mgr)"
    by (simp add: demo_request_def demo_us_def demo_msg_def ranI)
  obtain mg2 where mg2: "mgr_message demo_env (?a, T_CHANGEPASSWORD, ?chg) mg1 = Inr mg2"
    "\<And>d u. account mg2 d u = map_option (\<lambda>(i', x', p). (i', x',
       if i' = 2 \<and> x' = us_userid (um_userschemaStruct ?chg)
       then p\<lparr>pw_digest := ue_sha512 demo_env [77]\<rparr> else p)) (account demo_mgr d u)"
    using changepassword_changes_another [OF demo_reached demo_accounts(1) rv run rv' dom, of ?a] by auto
  show ?thesis
    using run mg2(1) by (intro exI [of _ mg1] exI [of _ mg2])
      (simp add: mg2(2) demo_accounts demo_request_def demo_env_def demo_msg_def demo_us_def)
qed

end
