(* ===== verification/Agent_Properties.thy ===== *)
theory Agent_Properties
  imports Agent_Actor Agent_Dispatch User_Properties
begin

text \<open>
  What the operations of a transaction agent do together with the manager of users and schemata,
  the other agents and the engines: logins, operations on schemata, and replication.
\<close>

section \<open>A cluster for the witnesses\<close>

text \<open>Node 1 has two transaction agents (type 7, actors 2 and 3) and an engine (type 8, actor 4).\<close>

definition demo_operation :: operation where
  "demo_operation = \<lparr>op_type = 0, op_sockfd = 0, op_userid = 0, op_domainid = 0, op_domainName = [],
     op_schemaData = \<lparr>sd_builtincmd = 0, sd_state = usm, sd_msgwaits = 0\<rparr>\<rparr>"

definition demo_agentEnv :: agentEnv where
  "demo_agentEnv = \<lparr>ae_msgpack2Vector = (\<lambda>s n. Inr (map (\<lambda>b. [b]) (take (nat n) s))),
     ae_to_string = (\<lambda>_. []), ae_fresh = demo_msg, ae_newOperation = demo_operation, ae_indet = 0,
     ae_instance = 0, ae_address = \<lparr>ad_nodeid = 1, ad_actorid = 2\<rparr>, ae_nodeid = 1,
     ae_userSchemaMgr = \<lparr>ad_nodeid = 1, ad_actorid = 1\<rparr>, ae_allActors = [[], [0, 1, 7, 7, 8]],
     ae_FIRSTACTORID = 1, ae_TRANSACTIONAGENT = 7, ae_ENGINE = 8, ae_nodeAgents = 2, ae_nodeEngines = 1,
     ae_numpartitions = 2, ae_producers = 2, ae_hash64 = (\<lambda>_. 1), ae_parses = (\<lambda>_. False),
     ae_dlsym = (\<lambda>_ _. None), ae_badloginmessages = True, ae_anonymousping = False\<rparr>"

text \<open>The agent waits for the manager to create a table for the socket 6, which is in domain 3; on
  the socket 9 comes a login.\<close>

definition demo_agent :: agent where
  "demo_agent = \<lparr>ag_domainid = - 1, ag_userid = - 1, ag_argsize = 3, ag_sockfd = 9, ag_operationid = 0,
     ag_status = 0, ag_tainstance = 0, ag_args = [2, 10, 20, 0], ag_operation = ascii_bytes ''login'',
     ag_domainName = [], ag_responseVector = [], ag_operationPtr = None,
     ag_pendingOperations = [5 \<mapsto> \<lparr>op_type = OP_SCHEMA, op_sockfd = 6, op_userid = 1, op_domainid = 3,
        op_domainName = [],
        op_schemaData = \<lparr>sd_builtincmd = BUILTINCREATETABLE, sd_state = usm, sd_msgwaits = 3\<rparr>\<rparr>],
     ag_operationidcounter = 5, ag_loggedInUsers = [6 \<mapsto> \<lparr>au_domainid = 3, au_userid = 1, au_domainName = [3]\<rparr>],
     ag_schemata = [1 \<mapsto> Some ((newSchema 1)\<lparr>sch_tables := [4 \<mapsto> snd (addfield F_INT 0 [105] UNIQUE (Table 0 4))]\<rparr>)],
     ag_procedures = Map.empty, ag_statements = Map.empty, ag_Appliers = Map.empty, ag_nextapplierid = 0,
     ag_nexttransactionid = 0, ag_Pgs = [], ag_outbox = [], ag_responses = [], ag_closed = []\<rparr>"


lemma demo_op:
  "ag_pendingOperations demo_agent 5 = Some \<lparr>op_type = OP_SCHEMA, op_sockfd = 6, op_userid = 1,
     op_domainid = 3, op_domainName = [],
     op_schemaData = \<lparr>sd_builtincmd = BUILTINCREATETABLE, sd_state = usm, sd_msgwaits = 3\<rparr>\<rparr>"
  by (simp add: demo_agent_def)


section \<open>Operations on schemata\<close>

lemma fold_ag_send:
  "fold (\<lambda>a. ag_send (f a)) xs ag = ag\<lparr>ag_outbox := ag_outbox ag @ map f xs\<rparr>"
  by (induction xs arbitrary: ag) (simp_all add: ag_send_def)

lemma toAllOfType_eq:
  "toAllOfType env actortype t msg ag = (int (length (actors_of_type env actortype)),
     ag\<lparr>ag_outbox := ag_outbox ag @ map (\<lambda>a. AgentMsg a t msg) (actors_of_type env actortype)\<rparr>)"
  by (simp add: toAllOfType_def Let_def fold_ag_send)




lemma members_reply:
  assumes "ag_pendingOperations ag i = Some op" and "us_operationid (um_userschemaStruct rcv) = i"
    and "t \<noteq> T_SCHEMAREQUEST"
  shows "userschema_members t rcv ag =
    ag\<lparr>ag_sockfd := op_sockfd op, ag_userid := op_userid op, ag_domainid := op_domainid op,
       ag_operationid := i\<rparr>"
  using assms by (simp add: userschema_members_def Let_def)

lemmas operation_simps = on_operation_def op_at_def sd_update_def






section \<open>A table without a schema\<close>

lemma createtable_refused:
  assumes "mg_schemata mg (us_domainid (um_userschemaStruct rcv)) = None"
    and "us_builtincmd (um_userschemaStruct rcv) = BUILTINCREATETABLE"
    and "ue_msgpack2Vector env (um_argstring rcv) (us_argsize (um_userschemaStruct rcv)) = Inr rv"
  shows "\<exists>mg' msg. mgr_message env (src, T_SCHEMAREQUEST, rcv) mg = Inr mg' \<and>
    mg_outbox mg' = mg_outbox mg @ [(src, T_SCHEMAREPLY, msg)] \<and>
    us_status (um_userschemaStruct msg) = BUILTIN_STATUS_NOTOK \<and>
    us_operationid (um_userschemaStruct msg) = us_operationid (um_userschemaStruct rcv) \<and>
    us_domainid (um_userschemaStruct msg) = us_domainid (um_userschemaStruct rcv)"
  using assms
  by (simp add: message_request mgr_dispatch_def mgr_builtin_def mgr_createtable_def
    BUILTINCREATESCHEMA_def BUILTINCREATETABLE_def set_caller_def Let_def mgr_reply_def mgr_send_def)

lemma table_name_faults:
  assumes "ag_schemata ag (us_domainid (um_userschemaStruct rcv)) = None"
  shows "agent_message env (src, T_TABLENAME, rcv) ag = Inl NullDeref"
proof -
  have "ag_schemata (userschema_members T_TABLENAME rcv ag) = ag_schemata ag"
    by (simp add: userschema_members_def Let_def split: option.splits)
  with assms show ?thesis
    by (simp add: agent_message_def agent_dispatch_def table_name_def schema_at_def Let_def)
qed

lemma agent_passes_name_on:
  assumes op: "ag_pendingOperations ag i = Some op" "sd_state (op_schemaData op) = usm"
      "sd_builtincmd (op_schemaData op) = BUILTINCREATETABLE"
    and rcv: "us_operationid (um_userschemaStruct rcv) = i"
      "us_status (um_userschemaStruct rcv) = BUILTIN_STATUS_NOTOK"
  shows "\<exists>ag' nm. agent_message env (src, T_SCHEMAREPLY, rcv) ag = Inr ag' \<and>
    us_domainid (um_userschemaStruct nm) = us_domainid (um_userschemaStruct rcv) \<and>
    ag_responses ag' = ag_responses ag @ [(op_sockfd op, STATUS_NOTOK, [])] \<and>
    ag_outbox ag' = ag_outbox ag @
      map (\<lambda>a. AgentMsg a T_TABLENAME nm) (actors_of_type env (ae_TRANSACTIONAGENT env))"
proof -
  let ?nm = "(ae_fresh env)\<lparr>um_userschemaStruct := (um_userschemaStruct (ae_fresh env))
      \<lparr>us_domainid := us_domainid (um_userschemaStruct rcv), us_tableid := us_tableid (um_userschemaStruct rcv)\<rparr>,
      um_argstring := um_argstring rcv\<rparr>"
  have "\<exists>ag'. agent_message env (src, T_SCHEMAREPLY, rcv) ag = Inr ag' \<and>
    us_domainid (um_userschemaStruct ?nm) = us_domainid (um_userschemaStruct rcv) \<and>
    ag_responses ag' = ag_responses ag @ [(op_sockfd op, STATUS_NOTOK, [])] \<and>
    ag_outbox ag' = ag_outbox ag @
      map (\<lambda>a. AgentMsg a T_TABLENAME ?nm) (actors_of_type env (ae_TRANSACTIONAGENT env))"
    using assms
    by (simp add: agent_message_def members_reply agent_dispatch_def schema_reply_def agent_builtin_def
      agent_createtable_def schemaBoilerplate_def toAllOfType_eq BUILTIN_STATUS_OK_def
      BUILTIN_STATUS_NOTOK_def answer_def endOperation_def sendResponse_def Let_def del: rmap_eq_Inr)
  then show ?thesis by blast
qed

text \<open>C22. A client that creates a table in a domain without a schema brings all agents down: the
  manager refuses, the agent of the client answers that it failed, but still passes the name of
  the table on to every agent, and an agent without a schema for the domain follows a null pointer
  when it receives the name.\<close>

theorem refused_table_crashes_agents:
  assumes op: "ag_pendingOperations ag i = Some op" "sd_state (op_schemaData op) = usm"
      "sd_builtincmd (op_schemaData op) = BUILTINCREATETABLE"
    and req: "us_operationid (um_userschemaStruct rcv) = i" "us_domainid (um_userschemaStruct rcv) = d"
      "us_builtincmd (um_userschemaStruct rcv) = BUILTINCREATETABLE"
      "ue_msgpack2Vector menv (um_argstring rcv) (us_argsize (um_userschemaStruct rcv)) = Inr rv"
    and none: "mg_schemata mg d = None"
  shows "\<exists>mg' reply ag' nm. mgr_message menv (ae_address env, T_SCHEMAREQUEST, rcv) mg = Inr mg' \<and>
    mg_outbox mg' = mg_outbox mg @ [(ae_address env, T_SCHEMAREPLY, reply)] \<and>
    agent_message env (src, T_SCHEMAREPLY, reply) ag = Inr ag' \<and>
    ag_responses ag' = ag_responses ag @ [(op_sockfd op, STATUS_NOTOK, [])] \<and>
    ag_outbox ag' = ag_outbox ag @
      map (\<lambda>a. AgentMsg a T_TABLENAME nm) (actors_of_type env (ae_TRANSACTIONAGENT env)) \<and>
    (\<forall>env2 src2 ag2. ag_schemata ag2 d = None \<longrightarrow>
       agent_message env2 (src2, T_TABLENAME, nm) ag2 = Inl NullDeref)"
proof -
  have none': "mg_schemata mg (us_domainid (um_userschemaStruct rcv)) = None" using none req(2) by simp
  obtain mg' reply where mgr: "mgr_message menv (ae_address env, T_SCHEMAREQUEST, rcv) mg = Inr mg'"
    "mg_outbox mg' = mg_outbox mg @ [(ae_address env, T_SCHEMAREPLY, reply)]"
    "us_status (um_userschemaStruct reply) = BUILTIN_STATUS_NOTOK"
    "us_operationid (um_userschemaStruct reply) = i" "us_domainid (um_userschemaStruct reply) = d"
    using createtable_refused [OF none' req(3,4), of "ae_address env"] req(1,2) by auto
  obtain ag' nm where ag': "agent_message env (src, T_SCHEMAREPLY, reply) ag = Inr ag'"
    "us_domainid (um_userschemaStruct nm) = d"
    "ag_responses ag' = ag_responses ag @ [(op_sockfd op, STATUS_NOTOK, [])]"
    "ag_outbox ag' = ag_outbox ag @
      map (\<lambda>a. AgentMsg a T_TABLENAME nm) (actors_of_type env (ae_TRANSACTIONAGENT env))"
    using agent_passes_name_on [OF op mgr(4,3), of env src] mgr(5) by auto
  have "\<forall>env2 src2 ag2. ag_schemata ag2 d = None \<longrightarrow>
      agent_message env2 (src2, T_TABLENAME, nm) ag2 = Inl NullDeref"
    using ag'(2) table_name_faults by blast
  with mgr(1,2) ag'(1,3,4) show ?thesis by blast
qed

theorem refused_table_crashes_agents_witness:
  "\<exists>mg' reply ag' nm.
    mgr_message demo_env (\<lparr>ad_nodeid = 1, ad_actorid = 2\<rparr>, T_SCHEMAREQUEST,
      demo_msg\<lparr>um_userschemaStruct := demo_us\<lparr>us_operationid := 5, us_domainid := 3, us_userid := 1,
        us_builtincmd := BUILTINCREATETABLE\<rparr>, um_argstring := [50]\<rparr>) demo_mgr = Inr mg' \<and>
    agent_message demo_agentEnv (\<lparr>ad_nodeid = 1, ad_actorid = 1\<rparr>, T_SCHEMAREPLY, reply) demo_agent = Inr ag' \<and>
    length (ag_outbox ag') = 2 \<and> AgentMsg \<lparr>ad_nodeid = 1, ad_actorid = 3\<rparr> T_TABLENAME nm \<in> set (ag_outbox ag') \<and>
    agent_message demo_agentEnv (\<lparr>ad_nodeid = 1, ad_actorid = 2\<rparr>, T_TABLENAME, nm) demo_agent = Inl NullDeref"
proof -
  let ?rcv = "demo_msg\<lparr>um_userschemaStruct := demo_us\<lparr>us_operationid := 5, us_domainid := 3, us_userid := 1,
        us_builtincmd := BUILTINCREATETABLE\<rparr>, um_argstring := [50]\<rparr>"
  have none: "mg_schemata demo_mgr 3 = None"
    by (simp add: demo_mgr_def demo_run_def demo_mem_def UserSchemaMgr_def global_name_def admin_name_def
        ascii_bytes_def manager_defs demo_defs del: rbind_eq_Inr)
  have req: "us_operationid (um_userschemaStruct ?rcv) = 5" "us_domainid (um_userschemaStruct ?rcv) = 3"
    "us_builtincmd (um_userschemaStruct ?rcv) = BUILTINCREATETABLE" by simp_all
  have rv: "ue_msgpack2Vector demo_env (um_argstring ?rcv) (us_argsize (um_userschemaStruct ?rcv)) = Inr [[50]]"
    by (simp add: demo_env_def)
  have op: "sd_state (op_schemaData \<lparr>op_type = OP_SCHEMA, op_sockfd = 6, op_userid = 1,
     op_domainid = 3, op_domainName = [],
     op_schemaData = \<lparr>sd_builtincmd = BUILTINCREATETABLE, sd_state = usm, sd_msgwaits = 3\<rparr>\<rparr>) = usm"
    "sd_builtincmd (op_schemaData \<lparr>op_type = OP_SCHEMA, op_sockfd = 6, op_userid = 1,
     op_domainid = 3, op_domainName = [],
     op_schemaData = \<lparr>sd_builtincmd = BUILTINCREATETABLE, sd_state = usm, sd_msgwaits = 3\<rparr>\<rparr>) = BUILTINCREATETABLE"
    by simp_all
  have none2: "ag_schemata demo_agent 3 = None" by (simp add: demo_agent_def)
  have addrs: "actors_of_type demo_agentEnv (ae_TRANSACTIONAGENT demo_agentEnv) =
      [\<lparr>ad_nodeid = 1, ad_actorid = 2\<rparr>, \<lparr>ad_nodeid = 1, ad_actorid = 3\<rparr>]" "ag_outbox demo_agent = []"
    "ae_address demo_agentEnv = \<lparr>ad_nodeid = 1, ad_actorid = 2\<rparr>"
    by (simp_all add: actors_of_type_def demo_agentEnv_def demo_agent_def upt_conv_Cons)
  obtain mg' reply ag' nm where w: "mgr_message demo_env (ae_address demo_agentEnv, T_SCHEMAREQUEST, ?rcv) demo_mgr = Inr mg'"
    "agent_message demo_agentEnv (\<lparr>ad_nodeid = 1, ad_actorid = 1\<rparr>, T_SCHEMAREPLY, reply) demo_agent = Inr ag'"
    "ag_outbox ag' = ag_outbox demo_agent @ map (\<lambda>a. AgentMsg a T_TABLENAME nm)
       (actors_of_type demo_agentEnv (ae_TRANSACTIONAGENT demo_agentEnv))"
    "\<forall>env2 src2 ag2. ag_schemata ag2 3 = None \<longrightarrow> agent_message env2 (src2, T_TABLENAME, nm) ag2 = Inl NullDeref"
    using refused_table_crashes_agents [OF demo_op op req rv none, of demo_agentEnv
        "\<lparr>ad_nodeid = 1, ad_actorid = 1\<rparr>"] by blast
  show ?thesis using w none2 unfolding addrs
    by (intro exI [of _ mg'] exI [of _ reply] exI [of _ ag'] exI [of _ nm]) simp
qed

section \<open>Logins\<close>

text \<open>The request that leaves the agent\<close>

lemma login_request:
  assumes "ag_loggedInUsers ag (ag_sockfd ag) = None" and "ag_operation ag = ascii_bytes ''login''"
    and "ae_msgpack2Vector env (ag_args ag) (ag_argsize ag) = Inr (d # v)"
  shows "\<exists>ag1 m op. raw_request env ag = Inr ag1 \<and>
    ag_outbox ag1 = ag_outbox ag @ [AgentMsg (ae_userSchemaMgr env) T_LOGIN m] \<and>
    um_argstring m = assign_args ag \<and> us_argsize (um_userschemaStruct m) = ag_argsize ag \<and>
    ag_pendingOperations ag1 (us_operationid (um_userschemaStruct m)) = Some op \<and>
    op_sockfd op = ag_sockfd ag \<and> op_domainName op = d \<and> ag_loggedInUsers ag1 = ag_loggedInUsers ag"
  using assms
  by (simp add: raw_request_def agent_login_def start_operation_def Operation_def operation_simps
    setDomainName_def toUserSchemaMgr_def ag_send_def request_def assign_args_def OP_AUTH_def OP_SCHEMA_def
    Let_def)

lemma login_reply_ok:
  assumes "ag_pendingOperations ag (us_operationid (um_userschemaStruct rcv)) = Some op"
  shows "\<exists>ag'. agent_message env (src, T_LOGINOK, rcv) ag = Inr ag' \<and>
    ag_loggedInUsers ag' = (ag_loggedInUsers ag)(op_sockfd op \<mapsto>
      \<lparr>au_domainid = us_domainid (um_userschemaStruct rcv), au_userid = us_userid (um_userschemaStruct rcv),
       au_domainName = op_domainName op\<rparr>)"
  using assms
  by (simp add: agent_message_def members_reply agent_dispatch_def agent_login_def answer_def
    endOperation_def sendResponse_def Let_def)

lemma login_reply_fail:
  assumes "ag_pendingOperations ag (us_operationid (um_userschemaStruct rcv)) = Some op"
  shows "\<exists>ag'. agent_message env (src, T_LOGINFAIL, rcv) ag = Inr ag' \<and>
    ag_loggedInUsers ag' = (ag_loggedInUsers ag)(op_sockfd op := None)"
  using assms
  by (simp add: agent_message_def members_reply agent_dispatch_def agent_login_def endConnection_def
    endOperation_def sendResponse_def Let_def)

text \<open>What the manager answers to a login\<close>

lemma manager_login_reply:
  assumes reach: "mgr_reaches menv mg"
    and dec: "ue_msgpack2Vector menv (um_argstring m) (us_argsize (um_userschemaStruct m)) = Inr (d # u # p # r)"
  shows "\<exists>mg' t reply. mgr_message menv (src, T_LOGIN, m) mg = Inr mg' \<and>
    mg_outbox mg' = mg_outbox mg @ [(src, t, reply)] \<and>
    us_operationid (um_userschemaStruct reply) = us_operationid (um_userschemaStruct m) \<and>
    (t = T_LOGINOK \<and> di_accounts (directory_of mg) (d, u) =
        Some (us_domainid (um_userschemaStruct reply), us_userid (um_userschemaStruct reply), ue_sha512 menv p) \<or>
     t = T_LOGINFAIL \<and> (\<forall>i x. di_accounts (directory_of mg) (d, u) \<noteq> Some (i, x, ue_sha512 menv p)))"
proof -
  have "mgr_ok (set_caller m mg)" using reaches_ok [OF reach] by simp
  then have "serves menv src T_LOGIN (d # u # p # r) (set_caller m mg)
      (mgr_login menv src (d # u # p # r) (set_caller m mg))" by (rule login_serves)
  then show ?thesis
    using message_request [OF _ dec, of T_LOGIN src mg]
    by (fastforce simp: serves_def mgr_dispatch_def elim: login_stepE)
qed

text \<open>C17. A login over the raw interface: the agent sends the manager one request, the manager
  answers it, whatever it did before, and with the answer the socket becomes that of the account
  if the password has the digest of the account, and else of nobody. The arguments of the client
  have to arrive at the manager as the agent has read them; other sockets are not affected.\<close>

theorem login_end_to_end:
  assumes reach: "mgr_reaches menv mg"
    and sock: "ag_loggedInUsers ag (ag_sockfd ag) = None" "ag_operation ag = ascii_bytes ''login''"
    and dec: "ae_msgpack2Vector env (ag_args ag) (ag_argsize ag) = Inr (d # u # p # r)"
      "ue_msgpack2Vector menv (assign_args ag) (ag_argsize ag) = Inr (d # u # p # r)"
  shows "\<exists>ag1 m mg' t reply ag2. raw_request env ag = Inr ag1 \<and>
    ag_outbox ag1 = ag_outbox ag @ [AgentMsg (ae_userSchemaMgr env) T_LOGIN m] \<and>
    mgr_message menv (ae_address env, T_LOGIN, m) mg = Inr mg' \<and>
    mg_outbox mg' = mg_outbox mg @ [(ae_address env, t, reply)] \<and>
    agent_message env (ae_userSchemaMgr env, t, reply) ag1 = Inr ag2 \<and>
    ag_loggedInUsers ag2 = (ag_loggedInUsers ag)(ag_sockfd ag :=
      (case account mg d u of
         None \<Rightarrow> None
       | Some (i, x, pwd) \<Rightarrow>
           if pw_digest pwd = ue_sha512 menv p
           then Some \<lparr>au_domainid = i, au_userid = x, au_domainName = d\<rparr> else None))"
proof -
  obtain ag1 m op where ag1: "raw_request env ag = Inr ag1"
    "ag_outbox ag1 = ag_outbox ag @ [AgentMsg (ae_userSchemaMgr env) T_LOGIN m]"
    "um_argstring m = assign_args ag" "us_argsize (um_userschemaStruct m) = ag_argsize ag"
    "ag_pendingOperations ag1 (us_operationid (um_userschemaStruct m)) = Some op"
    "op_sockfd op = ag_sockfd ag" "op_domainName op = d" "ag_loggedInUsers ag1 = ag_loggedInUsers ag"
    using login_request [OF sock dec(1)] by auto
  have dec': "ue_msgpack2Vector menv (um_argstring m) (us_argsize (um_userschemaStruct m)) =
      Inr (d # u # p # r)" using dec(2) ag1(3,4) by simp
  obtain mg' t reply where mgr: "mgr_message menv (ae_address env, T_LOGIN, m) mg = Inr mg'"
    "mg_outbox mg' = mg_outbox mg @ [(ae_address env, t, reply)]"
    "us_operationid (um_userschemaStruct reply) = us_operationid (um_userschemaStruct m)"
    and t: "t = T_LOGINOK \<and> di_accounts (directory_of mg) (d, u) =
        Some (us_domainid (um_userschemaStruct reply), us_userid (um_userschemaStruct reply), ue_sha512 menv p) \<or>
      t = T_LOGINFAIL \<and> (\<forall>i x. di_accounts (directory_of mg) (d, u) \<noteq> Some (i, x, ue_sha512 menv p))"
    using manager_login_reply [OF reach dec', of "ae_address env"] by auto
  have op: "ag_pendingOperations ag1 (us_operationid (um_userschemaStruct reply)) = Some op"
    using ag1(5) mgr(3) by simp
  let ?users = "(ag_loggedInUsers ag)(ag_sockfd ag :=
      (case account mg d u of
         None \<Rightarrow> None
       | Some (i, x, pwd) \<Rightarrow>
           if pw_digest pwd = ue_sha512 menv p
           then Some \<lparr>au_domainid = i, au_userid = x, au_domainName = d\<rparr> else None))"
  have "\<exists>ag2. agent_message env (ae_userSchemaMgr env, t, reply) ag1 = Inr ag2 \<and> ag_loggedInUsers ag2 = ?users"
    using t
  proof
    assume ok: "t = T_LOGINOK \<and> di_accounts (directory_of mg) (d, u) =
        Some (us_domainid (um_userschemaStruct reply), us_userid (um_userschemaStruct reply), ue_sha512 menv p)"
    obtain ag2 where "agent_message env (ae_userSchemaMgr env, t, reply) ag1 = Inr ag2"
      "ag_loggedInUsers ag2 = (ag_loggedInUsers ag)(ag_sockfd ag \<mapsto>
        \<lparr>au_domainid = us_domainid (um_userschemaStruct reply),
         au_userid = us_userid (um_userschemaStruct reply), au_domainName = d\<rparr>)"
      using login_reply_ok [OF op, of env "ae_userSchemaMgr env"] ok ag1(6-8) by auto
    then show ?thesis using ok by auto
  next
    assume fail: "t = T_LOGINFAIL \<and> (\<forall>i x. di_accounts (directory_of mg) (d, u) \<noteq> Some (i, x, ue_sha512 menv p))"
    obtain ag2 where "agent_message env (ae_userSchemaMgr env, t, reply) ag1 = Inr ag2"
      "ag_loggedInUsers ag2 = (ag_loggedInUsers ag)(ag_sockfd ag := None)"
      using login_reply_fail [OF op, of env "ae_userSchemaMgr env"] fail ag1(6-8) by auto
    then show ?thesis using fail by (auto split: option.splits)
  qed
  with ag1(1,2) mgr(1,2) show ?thesis by blast
qed

text \<open>User 1 of domain 2 logs in on the socket 9.\<close>

theorem login_end_to_end_witness:
  "\<exists>ag1 m mg' t reply ag2. raw_request demo_agentEnv demo_agent = Inr ag1 \<and>
    mgr_message demo_env (\<lparr>ad_nodeid = 1, ad_actorid = 2\<rparr>, T_LOGIN, m) demo_mgr = Inr mg' \<and>
    agent_message demo_agentEnv (\<lparr>ad_nodeid = 1, ad_actorid = 1\<rparr>, t, reply) ag1 = Inr ag2 \<and>
    ag_loggedInUsers ag2 9 = Some \<lparr>au_domainid = 2, au_userid = 1, au_domainName = [2]\<rparr> \<and>
    ag_loggedInUsers ag2 6 = Some \<lparr>au_domainid = 3, au_userid = 1, au_domainName = [3]\<rparr>"
proof -
  have sock: "ag_loggedInUsers demo_agent (ag_sockfd demo_agent) = None"
    "ag_operation demo_agent = ascii_bytes ''login''" by (simp_all add: demo_agent_def)
  have dec: "ae_msgpack2Vector demo_agentEnv (ag_args demo_agent) (ag_argsize demo_agent) =
      Inr ([2] # [10] # [20] # [])"
    "ue_msgpack2Vector demo_env (assign_args demo_agent) (ag_argsize demo_agent) = Inr ([2] # [10] # [20] # [])"
    by (simp_all add: demo_agent_def demo_agentEnv_def demo_env_def assign_args_def)
  obtain ag1 m mg' t reply ag2 where w: "raw_request demo_agentEnv demo_agent = Inr ag1"
    "mgr_message demo_env (ae_address demo_agentEnv, T_LOGIN, m) demo_mgr = Inr mg'"
    "agent_message demo_agentEnv (ae_userSchemaMgr demo_agentEnv, t, reply) ag1 = Inr ag2"
    "ag_loggedInUsers ag2 = (ag_loggedInUsers demo_agent)(ag_sockfd demo_agent :=
      (case account demo_mgr [2] [10] of
         None \<Rightarrow> None
       | Some (i, x, pwd) \<Rightarrow>
           if pw_digest pwd = ue_sha512 demo_env [20]
           then Some \<lparr>au_domainid = i, au_userid = x, au_domainName = [2]\<rparr> else None))"
    using login_end_to_end [OF demo_reached sock dec] by blast
  have "ag_loggedInUsers ag2 9 = Some \<lparr>au_domainid = 2, au_userid = 1, au_domainName = [2]\<rparr>"
    "ag_loggedInUsers ag2 6 = Some \<lparr>au_domainid = 3, au_userid = 1, au_domainName = [3]\<rparr>"
    unfolding w(4) demo_accounts by (simp_all add: demo_agent_def demo_env_def)
  with w(1-3) show ?thesis
    by (intro exI [of _ ag1] exI [of _ m] exI [of _ mg'] exI [of _ t] exI [of _ reply] exI [of _ ag2])
      (simp add: demo_agentEnv_def)
qed

section \<open>Replication\<close>

lemma getPartitionid_ok:
  "(word_of_int n :: u64) \<noteq> 0 \<Longrightarrow> \<exists>q. getPartitionid h v t n = Inr q"
  by (cases t) (simp_all add: getPartitionid_def Let_def)

lemma um_put_keys: "map_of msgs q \<noteq> None \<Longrightarrow> dom (map_of (um_put q m msgs)) = dom (map_of msgs)"
  by (auto simp: um_put_def map_of_filter_neq)

text \<open>An entry for a partition without a message\<close>

lemma row_entries_elsewhere:
  assumes "(word_of_int (ae_numpartitions env) :: u64) \<noteq> 0" and "(fd, v) \<in> set fs"
    and "fd_indextype fd \<noteq> NONE"
    and "getPartitionid (ae_hash64 env) v (fd_type fd) (ae_numpartitions env) = Inr q"
    and "map_of msgs q = None"
  shows "row_entries env r add f fs msgs = Inl NullDeref"
  using assms(2,5)
proof (induction fs arbitrary: f msgs)
  case (Cons x fs)
  obtain fd1 v1 where x: "x = (fd1, v1)" by (cases x)
  show ?case
  proof (cases "fd_indextype fd1 = NONE")
    case True
    with Cons assms(3) show ?thesis by (auto simp: x)
  next
    case False
    obtain q1 where q1: "getPartitionid (ae_hash64 env) v1 (fd_type fd1) (ae_numpartitions env) = Inr q1"
      using getPartitionid_ok [OF assms(1)] by blast
    obtain ai where ai: "index_entry env r f fd1 v1 add = Inr ai" "nl_engineid (ai_entry ai) = q1"
      using q1 by (simp add: index_entry_def)
    show ?thesis
    proof (cases "map_of msgs q1")
      case None
      with False ai show ?thesis by (simp add: x push_index_def)
    next
      case (Some m)
      let ?msgs = "um_put q1 (m\<lparr>ap_indices := ap_indices m @ [ai]\<rparr>) msgs"
      have "(fd, v) \<in> set fs" using Cons.prems Some assms(4) q1 by (auto simp: x)
      moreover have "map_of ?msgs q = None"
        using um_put_keys [of msgs q1 "m\<lparr>ap_indices := ap_indices m @ [ai]\<rparr>"] Some Cons.prems(2) by auto
      ultimately have "row_entries env r add (f + 1) fs ?msgs = Inl NullDeref" by (rule Cons.IH)
      with False ai Some show ?thesis by (simp add: x push_index_def)
    qed
  qed
qed simp

text \<open>C23. The insertion of a row that has an index entry on another partition than the row brings the
  agent of the replica down, when the transaction has changed nothing else: a message for that
  partition has not been made, and its null pointer is followed.\<close>

theorem index_elsewhere_crashes_replica:
  assumes rec: "dp_records rcv = [(p, [r])]" "re_primitive r = INSERT"
    and tab: "schema_at (di_domainid (dp_dispatchStruct rcv)) ag = Inr s"
      "sch_tables s (re_tableid r) = Some t" "unmakerow (re_row r) [] t = Inr (b, vs)"
    and field: "j < length (tb_fields t)" "j < length vs" "fd_indextype (tb_fields t ! j) \<noteq> NONE"
      "getPartitionid (ae_hash64 env) (vs ! j) (fd_type (tb_fields t ! j)) (ae_numpartitions env) = Inr q"
    and q: "q \<noteq> p" and n: "(word_of_int (ae_numpartitions env) :: u64) \<noteq> 0"
  shows "handledispatch env src rcv ag = Inl NullDeref"
proof -
  have mem: "(tb_fields t ! j, vs ! j) \<in> set (zip (tb_fields t) vs)"
    using field(1,2) by (auto simp: set_zip)
  have "dispatch_partition env (schema_at (di_domainid (dp_dispatchStruct rcv)) ag) i
      (di_domainid (dp_dispatchStruct rcv)) (dp_pidsids rcv) (p, [r]) [] = Inl NullDeref" for i
    using q row_entries_elsewhere [OF n mem field(3,4)]
    by (simp add: dispatch_partition_def dispatch_record_indices_def rec(2) tab um_put_def)
  then show ?thesis
    using tab(1)
    by (simp add: handledispatch_def rec(1) Let_def Applier_def getnextapplierid_def ag_send_def schema_at_def)
qed

text \<open>A transaction inserts the row with 7, which is on partition 0, into table 4 of domain 1; its
  index entry is on partition 1.\<close>

definition demo_insert :: record_s where
  "demo_insert = \<lparr>re_rowid = 5, re_primitive = INSERT, re_tableid = 4, re_previoussubtransactionid = 0,
     re_row = [0, 7, 0, 0, 0, 0, 0, 0, 0], re_oldrow = []\<rparr>"

definition demo_dispatch :: "(int \<times> record_s list) list \<Rightarrow> dispatchMsg" where
  "demo_dispatch rs = \<lparr>dp_dispatchStruct = \<lparr>di_transactionid = 8, di_domainid = 1\<rparr>,
     dp_pidsids = [(0, 3)], dp_records = rs\<rparr>"

theorem index_elsewhere_crashes_replica_witness:
  "handledispatch demo_agentEnv \<lparr>ad_nodeid = 2, ad_actorid = 2\<rparr> (demo_dispatch [(0, [demo_insert])])
     demo_agent = Inl NullDeref"
proof -
  let ?t = "snd (addfield F_INT 0 [105] UNIQUE (Table 0 4))"
  have tab: "schema_at (di_domainid (dp_dispatchStruct (demo_dispatch [(0, [demo_insert])]))) demo_agent =
      Inr ((newSchema 1)\<lparr>sch_tables := [4 \<mapsto> ?t]\<rparr>)"
    "sch_tables ((newSchema 1)\<lparr>sch_tables := [4 \<mapsto> ?t]\<rparr>) (re_tableid demo_insert) = Some ?t"
    by (simp_all add: demo_dispatch_def demo_agent_def demo_insert_def schema_at_def)
  have row: "unmakerow (re_row demo_insert) [] ?t = Inr (True, [fieldValue0\<lparr>integer := I64 7, isnull := False\<rparr>])"
    by (simp add: demo_insert_def unmakerow_def addfield_def Table_def byte_at_def size_t_def
        unmake_field_def read_at_def)
  show ?thesis
    by (rule index_elsewhere_crashes_replica [OF _ _ tab row, where p = 0 and j = 0 and q = 1])
      (simp_all add: demo_dispatch_def demo_insert_def demo_agentEnv_def addfield_def Table_def Field_def
        getPartitionid_def int16_def)
qed

lemma toPartition_Appliers: "ag_toPartition env pm ag = Inr ag' \<Longrightarrow> ag_Appliers ag' = ag_Appliers ag"
  by (cases pm) (auto simp: ag_toPartition_def ag_send_def split: if_splits)

lemma rfold_toPartition_Appliers:
  "rfold (ag_toPartition env) msgs ag = Inr ag' \<Longrightarrow> ag_Appliers ag' = ag_Appliers ag"
  by (induction msgs arbitrary: ag) (auto dest: toPartition_Appliers)

lemma handledispatch_applier:
  assumes "handledispatch env src rcv ag = Inr ag1"
  shows "\<exists>a. ag_Appliers ag1 (ag_nextapplierid ag + 1) = Some (Some a) \<and> al_partitioncount a = 0"
  using assms
  by (auto simp: handledispatch_def Let_def Applier_def getnextapplierid_def ag_send_def touch_schema_def
      dest!: rfold_toPartition_Appliers split: if_splits)

lemma acks_run:
  assumes "ag_Appliers ag i = Some (Some a)" and "al_partitioncount a \<le> 0"
    and "\<forall>m \<in> set acks. aa_applierid m = i \<and> aa_status m = STATUS_OK"
  shows "\<exists>ag' a'. rfold ack_apply acks ag = Inr ag' \<and> ag_Appliers ag' i = Some (Some a') \<and>
    al_partitioncount a' = al_partitioncount a - int (length acks)"
  using assms
proof (induction acks arbitrary: ag a)
  case (Cons m acks)
  let ?a = "a\<lparr>al_partitioncount := al_partitioncount a - 1\<rparr>"
  let ?ag = "ag\<lparr>ag_Appliers := (ag_Appliers ag)(i \<mapsto> Some ?a)\<rparr>"
  have step: "ack_apply m ag = Inr ?ag"
    using Cons.prems by (simp add: ack_apply_def ackedApply_def Let_def)
  have "\<exists>ag' a'. rfold ack_apply acks ?ag = Inr ag' \<and> ag_Appliers ag' i = Some (Some a') \<and>
      al_partitioncount a' = al_partitioncount ?a - int (length acks)"
    using Cons.prems by (intro Cons.IH) simp_all
  then show ?case using step by auto
qed simp

text \<open>The object that counts the acknowledgements of the engines for a replicated transaction is
  never deleted: it is made with the count 0, which the code counts down before it tests it, so
  that after any number of acknowledgements it is still there, with a count below zero (the count
  is \<open>int64_t\<close>, and is taken here without its bounds).\<close>

theorem applier_never_freed:
  assumes "handledispatch env src rcv ag = Inr ag1"
    and "\<forall>m \<in> set acks. aa_applierid m = ag_nextapplierid ag + 1 \<and> aa_status m = STATUS_OK"
  shows "\<exists>ag2 a. rfold ack_apply acks ag1 = Inr ag2 \<and>
    ag_Appliers ag2 (ag_nextapplierid ag + 1) = Some (Some a) \<and>
    al_partitioncount a = - int (length acks)"
proof -
  obtain a where a: "ag_Appliers ag1 (ag_nextapplierid ag + 1) = Some (Some a)" "al_partitioncount a = 0"
    using handledispatch_applier [OF assms(1)] by blast
  from acks_run [OF a(1) _ assms(2)] a(2) show ?thesis by auto
qed

text \<open>After an empty transaction and two acknowledgements the count is -2.\<close>

theorem applier_never_freed_witness:
  "\<exists>ag1 ag2 a. handledispatch demo_agentEnv \<lparr>ad_nodeid = 2, ad_actorid = 2\<rparr> (demo_dispatch []) demo_agent = Inr ag1 \<and>
    rfold ack_apply (replicate 2 \<lparr>aa_subtransactionid = 3, aa_applierid = 1, aa_partitionid = 0, aa_status = STATUS_OK\<rparr>) ag1 = Inr ag2 \<and>
    ag_Appliers ag2 1 = Some (Some a) \<and> al_partitioncount a = - 2"
proof -
  obtain ag1 where h: "handledispatch demo_agentEnv \<lparr>ad_nodeid = 2, ad_actorid = 2\<rparr> (demo_dispatch []) demo_agent = Inr ag1"
    by (simp add: handledispatch_def demo_dispatch_def Let_def Applier_def getnextapplierid_def)
  have acks: "\<forall>m \<in> set (replicate 2 \<lparr>aa_subtransactionid = 3, aa_applierid = 1, aa_partitionid = 0, aa_status = STATUS_OK\<rparr>).
      aa_applierid m = ag_nextapplierid demo_agent + 1 \<and> aa_status m = STATUS_OK"
    by (simp add: demo_agent_def)
  have next_id: "ag_nextapplierid demo_agent + 1 = 1" by (simp add: demo_agent_def)
  from applier_never_freed [OF h acks] h show ?thesis unfolding next_id by auto
qed

end
