(* ===== verification/Spec2Isabelle.thy ===== *)
theory Spec2Isabelle
  imports Index_Properties Index_Update_Properties Row_Properties Sub_Properties Replication_Properties
    Message_Properties Transaction_Properties Statement_Properties Agent_Properties
begin

text \<open>
  A verification library for InfiniSQL (\<open>src/infinisqld\<close>), a distributed in-memory SQL database.

  \<^bold>\<open>The program.\<close> A cluster is a set of actors that only exchange messages. An engine
  (\<open>Engine.cc\<close>) owns one partition: for every domain a schema (\<open>Schema.h\<close>) of tables
  (\<open>Table.cc\<close>) with their rows, row locks and field indices (\<open>Index.cc\<close>), and a subtransaction
  (\<open>SubTransaction.cc\<close>) for every transaction that has reached it. A transaction
  (\<open>Transaction.cc\<close>) runs on the agent of the client: it keeps one pending command, sends requests
  to engines, chosen by the hash of a value, and goes on when their replies come; procedures drive
  it through \<open>api.cc\<close>, SQL statements (\<open>Asts.cc\<close>) through the \<open>sql\<close> functions. At its end it sends each engine
  the rows and index entries to commit or roll back. With replicas, the changes are first
  dispatched to the other nodes, whose agents (\<open>TransactionAgent.cc\<close>) make of them a message for each
  partition (\<open>Applier.cc\<close> counts the acknowledgements) that the engines apply. A client logs in, and creates
  users, schemata and tables, through an agent, which keeps an \<open>Operation\<close> for each request and asks
  the one manager of users and schemata (\<open>UserSchemaMgr.cc\<close>). Messages to other nodes are serialised
  (\<open>Message.cc\<close>).

  \<^bold>\<open>Theories and code.\<close> Each group models one part, imports the parts it calls and ends in a theory
  of properties.

  \<^item> \<open>Prelude\<close>: faults (a null or freed pointer, an exception, a read out of bounds, a division by
    zero) as values of \<open>fault\<close>, the result type \<open>'a res\<close> and its combinators \<open>rbind\<close>, \<open>rmap\<close>, \<open>rfold\<close>.
    Every partial step of the code is a branch of it. \<open>Std_Maps\<close>: \<open>std::map\<close> and
    \<open>std::multimap\<close> as sorted association lists, \<open>boost::unordered_map\<close> as an association list.
  \<^item> \<open>Db_Types\<close>, \<open>Db_Globals\<close>, \<open>Value_Lemmas\<close>: the enums and structs of \<open>infinisql.h\<close> and \<open>defs.h\<close>;
    the row flags, \<open>trimspace\<close>, \<open>like2Regex\<close>, \<open>compareFields\<close> of \<open>globals.cc\<close>.
  \<^item> \<open>Index_*\<close>: \<open>class Index\<close>. The state \<open>index\<close> is the record of its members, the union of its 16
    maps the datatype \<open>typed_index\<close>. \<open>Index_Search\<close> has the searches, \<open>Index_Update\<close> the changes, one
    definition per overload; \<open>Index_Queries\<close> and \<open>Index_Commit\<close> prove what they promise
    (exactness on the content, well-formedness kept), for the key types at once in locales that the
    overloads interpret; \<open>Index_Steps\<close> the invariant over any sequence of steps.
  \<^item> \<open>Row_*\<close>: \<open>class Table\<close>. \<open>table\<close> has the maps of the class and an explicit store of \<open>rowdata_s\<close>
    objects, so that aliasing and double deletion show. \<open>Row_Store\<close> has the row operations, commit,
    rollback and revert; \<open>Row_Locking\<close> the invariant of rows, shadows, locks and objects;
    \<open>Row_Isolation\<close> what a lock protects; \<open>Row_Codec\<close> fields and the bytes of a row; \<open>Row_Getrows\<close>
    \<open>Table::getrows\<close>.
  \<^item> \<open>Engine_State\<close>, \<open>Sub_Transaction\<close>, \<open>Engine_Relation\<close>, \<open>Unique_Index\<close>: the state of a partition
    and the commands of a subtransaction on it; \<open>Unique_Index\<close> is the abstract map from keys to
    staged or committed entries that staging, commit and rollback refine.
  \<^item> \<open>Engine_Apply\<close>, \<open>Engine_Actor\<close>, \<open>Apply_Steps\<close>: replication and the dispatch of one received
    message; \<open>Engine_Properties\<close> and \<open>Replication_Properties\<close> speak about whole sequences of messages
    (\<open>engine_reachable\<close>) and the abstract replica.
  \<^item> \<open>Wire_Format\<close>, \<open>Wire_Structs\<close>, \<open>Message_Format\<close>: the buffer of \<open>SerializedMessage\<close>, the structs and
    the message classes, as serialisers and parsers with a locale for the law that one reads what
    the other wrote.
  \<^item> \<open>Transaction_State\<close>: \<open>class Transaction\<close> with \<open>currentCmdState\<close> and \<open>sqlcmdstate\<close>, the partition
    of a value, sending. \<open>Transaction_Rows\<close>, \<open>Transaction_Update\<close>, \<open>Transaction_Commit\<close>,
    \<open>Transaction_Sql\<close> have the commands and their continuations: \<open>continueX ev entrypoint tx\<close> is the
    switch of \<open>Transaction::continueX\<close>, \<open>continueX_n\<close> its case \<open>n\<close>. \<open>Transaction_Api\<close> is \<open>api.cc\<close>.
    \<open>Transaction_Steps\<close> has the reachable states (\<open>tx_reach\<close>), \<open>Transaction_Frames\<close> what every
    operation keeps, \<open>Transaction_Protocol\<close> the waiting states of a commit and a search,
    \<open>Transaction_Effects\<close> what a transaction has the engines do.
  \<^item> \<open>Ast_Operands\<close>, \<open>Statement_Predicates\<close>: operands, which are strings with a tag, their conversions
    and arithmetic, and \<open>Statement::stagedPredicate\<close> and \<open>andPredicate\<close>. \<open>Statement_State\<close>: \<open>class Ast\<close>
    in an explicit store of nodes (the trees are walked over pointers up and down, and nodes are
    deleted on the way), \<open>class Statement\<close> with its queries, copies and destructors, subqueries.
    \<open>Ast_Evaluate\<close>: \<open>Ast::evaluate\<close> and \<open>evaluateAssignment\<close>. \<open>Statement_Execute\<close>: the functions of the
    statement, tied together by \<open>run\<close>. \<open>Statement_Resolve\<close>: names of tables and fields.
    \<open>Statement_Walk\<close> has the trees of conditions (\<open>cond\<close>), how they lie in the store (\<open>rep\<close>) and what they
    mean (\<open>den\<close>); \<open>Statement_Assign\<close> the same for expressions; \<open>Statement_Copy\<close> the deep copy.
  \<^item> \<open>User_Manager\<close>: \<open>UserSchemaMgr.cc\<close>, with the maps it allocates in two stores, since a member keeps
    pointing to one of them; \<open>mgr_message\<close> is a round of its loop, \<open>mgr_reaches\<close> the states it gets to.
    \<open>User_Directory\<close> has its invariant (\<open>mgr_ok\<close>) and the abstract \<open>directory\<close> of accounts with its
    steps (\<open>directory_step\<close>), which \<open>User_Properties\<close> shows it implements.
  \<^item> \<open>Agent_State\<close>, \<open>Agent_Operations\<close>, \<open>Agent_Actor\<close>: \<open>TransactionAgent.cc\<close> outside transactions, with
    \<open>Operation.cc\<close>: each operation of the raw interface is a function of the command that says how far
    it is; requests from sockets, procedures, prepared statements, and the dispatch of a message.
    \<open>Agent_Dispatch\<close>: replication on the receiving side, with \<open>Applier.cc\<close>. \<open>Agent_Properties\<close> is about
    agents together with the manager.

  \<^bold>\<open>What the properties show.\<close> For the data structures: exactness of searches, well-formedness and
  memory safety of every operation on reachable states, isolation of locked rows, commit and
  rollback, round trips of rows and messages. For the compositions: an engine keeps its invariant
  and isolates locked rows under any sequence of messages; staging and ending an entry refine an
  abstract map; a replica refines an abstract replica; a transaction sends only well-formed
  messages, and its commits and searches end after exactly the replies they wait for; the walk of
  a statement over a condition, interrupted by a search for every predicate, finds the rows the
  condition stands for; the manager of users refines an abstract directory, only the administrator
  changes it, a login through agent and manager succeeds exactly for the password of the account,
  and an operation on schemata ends with the replies of all agents and engines. Where the
  code does not do what it means to, a property states what it does instead: copies of a function
  that drifted, locks whose waiters are never served, messages that overflow their buffer, updates
  that never end or always fail, rows left behind, conditions that are skipped or walked for ever.

  \<^bold>\<open>Modelling decisions.\<close> Row, table and transaction ids are \<open>int\<close> (they only count up); values of
  fields, flags, lengths and offsets are words. \<open>long double\<close> is its 80-bit pattern (\<open>LD\<close>) with the
  order and equality of the numbers it stands for; keys that are NaN are excluded by hypothesis.
  Bytes are little-endian. The iteration order of unordered maps is the order of the list, so
  properties do not rely on it unless they say so; a repeated \<open>find\<close> on a multimap takes the first
  of the equal keys, as libstdc++ does. Loops are structural recursion or folds, except in
  statements: \<open>run\<close> has fuel for the calls between the functions of a statement (a condition needs
  \<open>cond_steps\<close> of it, at most three for each predicate; the properties state what is enough or that
  none is), \<open>evaluateAssignment\<close> and \<open>cp_ast\<close> for the depth of a tree (\<open>assign_field\<close> gives it the size
  of the store, which is always enough), \<open>resolveFieldNames\<close> for the steps of its walk; without fuel
  the result is the fault \<open>OutOfFuel\<close>. What a procedure does after a callback is a later operation:
  its callbacks and all messages are logs in the state; those into a statement are run at once. PCRE's \<open>FullMatch\<close> and \<open>SpookyHash\<close> are parameters, and so is
  memory that no constructor sets.

  \<^bold>\<open>Not modelled.\<close> The SQL lexer and parser (\<open>Larxer.cc\<close>, \<open>parser.yy\<close>), of which the agent only needs
  whether a text parses; the PostgreSQL protocol (\<open>Pg.cc\<close>); the manager of the topology, which sets
  values that are parameters here; of the agent the responses that wait to be written and the map of
  its transactions, to which messages are passed on; gateways and listener, which are socket
  input and output; mailboxes, lock-free queues over double-word compare-and-swap, of which only the
  choice of the receiver is here; threads and the start of the process (\<open>Actor.cc\<close>, \<open>main.cc\<close>);
  \<open>spooky.cc\<close>, third-party code; example procedures, Python tools, tests and documentation.
\<close>

end
